(* ===== verification/Js_Prelude.thy ===== *)
theory Js_Prelude
  imports Complex_Main "HOL-Library.Multiset" "HOL-Library.Sublist"
begin

text \<open>
  The JavaScript values and library calls the modelled TypeScript code relies on.

  Strings are lists of characters; a character stands for one UTF-16 code unit below 256 (the
  Latin-1 range), so \<open>length\<close>, \<open>slice\<close> and comparison agree with the source on such strings.
  Numbers that the source computes with as integers (timestamps in milliseconds, counters) are
  \<open>int\<close>; where the source guards a value of type \<open>unknown\<close> with \<open>typeof\<close> or
  \<open>Number.isFinite\<close> the value is a \<open>js_value\<close> and a number is a rational or one of the three
  non-finite values. \<open>undefined\<close> is \<open>None\<close> of an option.
\<close>

subsection \<open>Collections of facts\<close>

named_theorems js_string_simps \<open>equations of the string library\<close>
named_theorems inv_intros \<open>invariant preservation of the operations\<close>

subsection \<open>Strings\<close>

text \<open>White space as \<open>String.prototype.trim\<close> removes it (the Latin-1 part of the set).\<close>

definition js_ws :: "char \<Rightarrow> bool" where
  "js_ws c \<longleftrightarrow> (of_char c :: nat) \<in> set [9, 10, 11, 12, 13, 32, 160]"

definition js_trim_start :: "string \<Rightarrow> string" where
  "js_trim_start s = dropWhile js_ws s"

definition js_trim_end :: "string \<Rightarrow> string" where
  "js_trim_end s = rev (dropWhile js_ws (rev s))"

definition js_trim :: "string \<Rightarrow> string" where
  "js_trim s = js_trim_end (js_trim_start s)"

text \<open>\<open>toLowerCase\<close> on one code unit: \<open>A-Z\<close> and the Latin-1 capitals (all but the multiplication
  sign, code 215).\<close>

definition js_lower_char :: "char \<Rightarrow> char" where
  "js_lower_char c = (let n = (of_char c :: nat) in
     if 65 \<le> n \<and> n \<le> 90 \<or> 192 \<le> n \<and> n \<le> 222 \<and> n \<noteq> 215 then char_of (n + 32) else c)"

definition js_lower :: "string \<Rightarrow> string" where
  "js_lower s = map js_lower_char s"

definition js_starts_with :: "string \<Rightarrow> string \<Rightarrow> bool" where
  "js_starts_with s p \<longleftrightarrow> take (length p) s = p"

text \<open>\<open>a || b\<close> on strings: the empty string is falsy.\<close>

definition str_or :: "string \<Rightarrow> string \<Rightarrow> string" where
  "str_or a b = (if a = [] then b else a)"

text \<open>\<open>toUpperCase\<close> on Latin-1; the two letters whose capital is outside Latin-1 stay.\<close>

definition js_upper_char :: "char \<Rightarrow> string" where
  "js_upper_char c = (let n = (of_char c :: nat) in
     if n = 223 then ''SS''
     else if 97 \<le> n \<and> n \<le> 122 \<or> 224 \<le> n \<and> n \<le> 254 \<and> n \<noteq> 247 then [char_of (n - 32)] else [c])"

definition js_upper :: "string \<Rightarrow> string" where
  "js_upper s = concat (map js_upper_char s)"

text \<open>\<open>a ?? b\<close>.\<close>

definition nullish :: "'a option \<Rightarrow> 'a \<Rightarrow> 'a" where
  "nullish a b = (case a of None \<Rightarrow> b | Some x \<Rightarrow> x)"

definition nullish_opt :: "'a option \<Rightarrow> 'a option \<Rightarrow> 'a option" where
  "nullish_opt a b = (case a of None \<Rightarrow> b | Some x \<Rightarrow> Some x)"

lemma nullish_simps [simp]: "nullish None b = b" "nullish (Some x) b = x"
  by (simp_all add: nullish_def)

lemma nullish_opt_simps [simp]: "nullish_opt None b = b" "nullish_opt (Some x) b = Some x"
  by (simp_all add: nullish_opt_def)

lemma str_or_ne [simp]: "b \<noteq> [] \<Longrightarrow> str_or a b \<noteq> []"
  by (simp add: str_or_def)

text \<open>\<open>Boolean(s)\<close> of an optional string: neither absent nor empty.\<close>

definition str_truthy :: "string option \<Rightarrow> bool" where
  "str_truthy s \<longleftrightarrow> (case s of None \<Rightarrow> False | Some t \<Rightarrow> t \<noteq> [])"

lemma str_truthy_iff: "str_truthy s \<longleftrightarrow> (\<exists>t. s = Some t \<and> t \<noteq> [])"
  by (auto simp: str_truthy_def split: option.splits)

lemma str_truthy_simps [simp]: "\<not> str_truthy None" "str_truthy (Some t) \<longleftrightarrow> t \<noteq> []"
  by (simp_all add: str_truthy_def)

lemma js_lower_char_idem [simp]: "js_lower_char (js_lower_char c) = js_lower_char c"
  by (auto simp: js_lower_char_def Let_def)

lemma js_lower_idem [simp]: "js_lower (js_lower s) = js_lower s"
  by (simp add: js_lower_def)

lemma js_lower_Nil [simp]: "js_lower s = [] \<longleftrightarrow> s = []" "js_lower [] = []"
  by (simp_all add: js_lower_def)

lemma js_lower_append [simp]: "js_lower (s @ t) = js_lower s @ js_lower t"
  by (simp add: js_lower_def)

lemma js_lower_Cons: "js_lower (c # s) = js_lower_char c # js_lower s"
  by (simp add: js_lower_def)

lemma js_ws_lower [simp]: "js_ws (js_lower_char c) = js_ws c"
  by (auto simp: js_lower_char_def js_ws_def Let_def)

lemma dropWhile_js_lower: "dropWhile js_ws (js_lower s) = js_lower (dropWhile js_ws s)"
  by (induction s) (simp_all add: js_lower_def)

lemma js_trim_lower [js_string_simps]: "js_trim (js_lower s) = js_lower (js_trim s)"
proof -
  have "rev (js_lower t) = js_lower (rev t)" for t
    by (simp add: js_lower_def rev_map)
  then show ?thesis
    by (simp add: js_trim_def js_trim_start_def js_trim_end_def dropWhile_js_lower)
qed

lemma js_trim_Nil [simp]: "js_trim [] = []"
  by (simp add: js_trim_def js_trim_start_def js_trim_end_def)

text \<open>A trimmed string neither starts nor ends with white space, so trimming is idempotent.\<close>

lemma dropWhile_hd_id: "s = [] \<or> \<not> p (hd s) \<Longrightarrow> dropWhile p s = s"
  by (cases s) auto

lemma js_trim_end_hd: "js_trim_end s \<noteq> [] \<Longrightarrow> hd (js_trim_end s) = hd s"
proof -
  assume ne: "js_trim_end s \<noteq> []"
  have "suffix (dropWhile js_ws (rev s)) (rev s)" by (rule suffix_dropWhile)
  then obtain u where "rev s = u @ dropWhile js_ws (rev s)" by (auto simp: suffix_def)
  then have "s = js_trim_end s @ rev u"
    by (metis js_trim_end_def rev_append rev_rev_ident)
  with ne show ?thesis by (metis hd_append2)
qed

lemma js_trim_start_hd: "js_trim_start s \<noteq> [] \<Longrightarrow> \<not> js_ws (hd (js_trim_start s))"
  by (simp add: js_trim_start_def hd_dropWhile)

lemma js_trim_hd: "js_trim s \<noteq> [] \<Longrightarrow> \<not> js_ws (hd (js_trim s))"
  unfolding js_trim_def
  by (metis js_trim_end_hd js_trim_start_hd js_trim_end_def dropWhile.simps(1) rev.simps(1))

lemma js_trim_last: "js_trim s \<noteq> [] \<Longrightarrow> \<not> js_ws (last (js_trim s))"
  unfolding js_trim_def js_trim_end_def
  by (metis hd_dropWhile last_rev rev_is_Nil_conv)

lemma js_trim_fixed:
  assumes "s \<noteq> [] \<longrightarrow> \<not> js_ws (hd s) \<and> \<not> js_ws (last s)"
  shows "js_trim s = s"
proof (cases "s = []")
  case False
  with assms have "dropWhile js_ws s = s" and "dropWhile js_ws (rev s) = rev s"
    by (auto intro: dropWhile_hd_id simp: hd_rev)
  then show ?thesis by (simp add: js_trim_def js_trim_start_def js_trim_end_def)
qed simp

lemma js_trim_idem [simp]: "js_trim (js_trim s) = js_trim s"
  by (rule js_trim_fixed) (simp add: js_trim_hd js_trim_last)

lemma js_trim_no_ws: "\<forall>c \<in> set s. \<not> js_ws c \<Longrightarrow> js_trim s = s"
  by (rule js_trim_fixed) (auto dest: hd_in_set last_in_set)

subsection \<open>Values of type unknown\<close>

datatype js_number = NaN | PosInf | NegInf | Fin rat

datatype js_value = JUndefined | JNull | JBool bool | JNumber js_number | JString string

definition js_opt :: "string option \<Rightarrow> js_value" where
  "js_opt s = (case s of None \<Rightarrow> JUndefined | Some t \<Rightarrow> JString t)"

lemma js_opt_simps [simp]: "js_opt None = JUndefined" "js_opt (Some t) = JString t"
  by (simp_all add: js_opt_def)

abbreviation JInt :: "int \<Rightarrow> js_value" where
  "JInt n \<equiv> JNumber (Fin (of_int n))"

subsection \<open>String coercion (src/brain/src/shared/string-coerce.ts)\<close>

definition normalizeNullableString :: "js_value \<Rightarrow> string option" where
  "normalizeNullableString v = (case v of
     JString s \<Rightarrow> (let trimmed = js_trim s in if trimmed = [] then None else Some trimmed)
   | _ \<Rightarrow> None)"

definition normalizeOptionalString :: "js_value \<Rightarrow> string option" where
  "normalizeOptionalString v = normalizeNullableString v"

definition normalizeOptionalLowercaseString :: "js_value \<Rightarrow> string option" where
  "normalizeOptionalLowercaseString v = map_option js_lower (normalizeOptionalString v)"

definition normalizeLowercaseStringOrEmpty :: "js_value \<Rightarrow> string" where
  "normalizeLowercaseStringOrEmpty v = nullish (normalizeOptionalLowercaseString v) []"

lemma normalizeOptionalString_simps [simp]:
  "normalizeOptionalString JUndefined = None"
  "normalizeOptionalString JNull = None"
  "normalizeOptionalString (JString s) = (if js_trim s = [] then None else Some (js_trim s))"
  by (simp_all add: normalizeOptionalString_def normalizeNullableString_def Let_def)

lemma normalizeOptionalString_Some:
  "normalizeOptionalString v = Some s \<Longrightarrow> s \<noteq> [] \<and> js_trim s = s"
  by (cases v) (auto simp: normalizeOptionalString_def normalizeNullableString_def Let_def
      split: if_splits)

lemma normalizeLowercase_simps [simp]:
  "normalizeLowercaseStringOrEmpty JUndefined = []"
  "normalizeLowercaseStringOrEmpty JNull = []"
  "normalizeLowercaseStringOrEmpty (JString s) = js_lower (js_trim s)"
  by (simp_all add: normalizeLowercaseStringOrEmpty_def normalizeOptionalLowercaseString_def)

lemma normalizeOptionalLowercaseString_simps [simp]:
  "normalizeOptionalLowercaseString JUndefined = None"
  "normalizeOptionalLowercaseString (JString s) =
     (if js_trim s = [] then None else Some (js_lower (js_trim s)))"
  by (simp_all add: normalizeOptionalLowercaseString_def)

text \<open>\<open>String(entry)\<close> is the identity on strings, so an entry list of strings is normalised by
  trimming and dropping the blanks (src/brain/src/shared/string-normalization.ts).\<close>

definition normalizeStringEntries :: "string list \<Rightarrow> string list" where
  "normalizeStringEntries xs =
     filter (\<lambda>s. s \<noteq> []) (map (\<lambda>e. nullish (normalizeOptionalString (JString e)) []) xs)"

lemma normalizeStringEntries_eq:
  "normalizeStringEntries xs = filter (\<lambda>s. s \<noteq> []) (map js_trim xs)"
  by (induction xs) (auto simp: normalizeStringEntries_def)

lemma normalizeStringEntries_idem [simp]:
  "normalizeStringEntries (normalizeStringEntries xs) = normalizeStringEntries xs"
  by (induction xs) (auto simp: normalizeStringEntries_eq)

lemma normalizeStringEntries_append [simp]:
  "normalizeStringEntries (xs @ ys) = normalizeStringEntries xs @ normalizeStringEntries ys"
  by (simp add: normalizeStringEntries_eq)

lemma normalizeStringEntries_Nil [simp]: "normalizeStringEntries [] = []"
  by (simp add: normalizeStringEntries_eq)

end
