(* ===== verification/Js_Map.thy ===== *)
theory Js_Map
  imports Js_Prelude
begin

text \<open>
  \<open>Map\<close> of the JavaScript library: an association list in insertion order. \<open>set\<close> of a present
  key keeps its position and of a new key appends; \<open>delete\<close> removes the key. The keys of a map
  are distinct (\<open>jm_wf\<close>), which every operation keeps. The locale \<open>keyed_store\<close> is the
  contract the registries and caches rely on.
\<close>

type_synonym ('k, 'v) js_map = "('k \<times> 'v) list"

fun jm_get :: "('k, 'v) js_map \<Rightarrow> 'k \<Rightarrow> 'v option" where
  "jm_get [] k = None"
| "jm_get ((k', v) # m) k = (if k' = k then Some v else jm_get m k)"

fun jm_set :: "('k, 'v) js_map \<Rightarrow> 'k \<Rightarrow> 'v \<Rightarrow> ('k, 'v) js_map" where
  "jm_set [] k v = [(k, v)]"
| "jm_set ((k', v') # m) k v = (if k' = k then (k, v) # m else (k', v') # jm_set m k v)"

definition jm_delete :: "('k, 'v) js_map \<Rightarrow> 'k \<Rightarrow> ('k, 'v) js_map" where
  "jm_delete m k = filter (\<lambda>p. fst p \<noteq> k) m"

definition jm_keys :: "('k, 'v) js_map \<Rightarrow> 'k list" where
  "jm_keys m = map fst m"

definition jm_values :: "('k, 'v) js_map \<Rightarrow> 'v list" where
  "jm_values m = map snd m"

definition jm_wf :: "('k, 'v) js_map \<Rightarrow> bool" where
  "jm_wf m \<longleftrightarrow> distinct (map fst m)"

lemma jm_get_set [simp]: "jm_get (jm_set m k v) k' = (if k' = k then Some v else jm_get m k')"
  by (induction m) auto

lemma jm_get_delete [simp]: "jm_get (jm_delete m k) k' = (if k' = k then None else jm_get m k')"
  by (induction m) (auto simp: jm_delete_def)

lemma jm_get_None: "jm_get m k = None \<longleftrightarrow> k \<notin> fst ` set m"
  by (induction m k rule: jm_get.induct) auto

lemma jm_get_keys: "map fst m = map fst m' \<Longrightarrow> jm_get m k = None \<longleftrightarrow> jm_get m' k = None"
  unfolding jm_get_None by (metis list.set_map)

lemma jm_get_Some_in: "jm_get m k = Some v \<Longrightarrow> (k, v) \<in> set m"
  by (induction m) (auto split: if_splits)

lemma jm_in_get: "jm_wf m \<Longrightarrow> (k, v) \<in> set m \<longleftrightarrow> jm_get m k = Some v"
  by (induction m) (force simp: jm_wf_def)+

lemma fst_set_jm_set [simp]: "fst ` set (jm_set m k v) = insert k (fst ` set m)"
  by (induction m k v rule: jm_set.induct) (simp_all add: insert_commute)

lemma jm_wf_Nil [simp]: "jm_wf []"
  by (simp add: jm_wf_def)

lemma jm_wf_set [simp, intro]: "jm_wf m \<Longrightarrow> jm_wf (jm_set m k v)"
  unfolding jm_wf_def
proof (induction m)
  case (Cons p m)
  show ?case
  proof (cases "fst p = k")
    case True
    with Cons.prems show ?thesis by (cases p) auto
  next
    case False
    from Cons have "distinct (map fst (jm_set m k v))" by simp
    moreover from Cons.prems False have "fst p \<notin> fst ` set (jm_set m k v)" by simp
    ultimately show ?thesis using False by (cases p) auto
  qed
qed simp

lemma jm_wf_delete [simp, intro]: "jm_wf m \<Longrightarrow> jm_wf (jm_delete m k)"
  by (auto simp: jm_wf_def jm_delete_def distinct_map_filter)

lemma jm_wf_filter [simp, intro]: "jm_wf m \<Longrightarrow> jm_wf (filter P m)"
  by (auto simp: jm_wf_def distinct_map_filter)

lemma jm_get_filter:
  "jm_wf m \<Longrightarrow> jm_get (filter P m) k =
     (case jm_get m k of None \<Rightarrow> None | Some v \<Rightarrow> if P (k, v) then Some v else None)"
proof (induction m)
  case (Cons p m)
  obtain k' v' where p: "p = (k', v')" by (cases p)
  from Cons.prems p have wf: "jm_wf m" and nin: "k' \<notin> fst ` set m" by (auto simp: jm_wf_def)
  from nin have "jm_get m k' = None" by (simp add: jm_get_None)
  with Cons.IH [OF wf] p show ?case by auto
qed simp

lemma jm_get_map:
  "jm_get (map (\<lambda>(k, v). (k, f k v)) m) k = map_option (f k) (jm_get m k)"
  by (induction m) auto

lemma jm_wf_map [simp]: "jm_wf (map (\<lambda>(k, v). (k, f k v)) m) \<longleftrightarrow> jm_wf m"
proof -
  have "map fst (map (\<lambda>(k, v). (k, f k v)) m) = map fst m" by (induction m) auto
  then show ?thesis by (simp only: jm_wf_def)
qed

lemma length_jm_set:
  "length (jm_set m k v) = (if jm_get m k = None then Suc (length m) else length m)"
  by (induction m k v rule: jm_set.induct) auto

lemma length_jm_delete_le: "length (jm_delete m k) \<le> length m"
  by (simp add: jm_delete_def)

lemma jm_delete_absent: "jm_get m k = None \<Longrightarrow> jm_delete m k = m"
  by (induction m) (auto simp: jm_delete_def split: if_splits)

lemma length_jm_delete:
  "jm_wf m \<Longrightarrow> jm_get m k = Some v \<Longrightarrow> Suc (length (jm_delete m k)) = length m"
proof (induction m)
  case (Cons p m)
  obtain k' v' where p: "p = (k', v')" by (cases p)
  show ?case
  proof (cases "k' = k")
    case True
    with Cons.prems p have "jm_get m k = None" by (simp add: jm_get_None jm_wf_def)
    then have "jm_delete m k = m" by (rule jm_delete_absent)
    with True p show ?thesis by (simp add: jm_delete_def)
  next
    case False
    with Cons p show ?thesis by (simp add: jm_delete_def jm_wf_def)
  qed
qed simp

text \<open>Replacing the value of a present key changes the elements held by the values by exactly
  what the two values hold.\<close>

lemma jm_set_mset:
  assumes "jm_get m k = Some v"
  shows "mset (concat (map (\<lambda>p. f (snd p)) (jm_set m k v'))) + mset (f v)
       = mset (concat (map (\<lambda>p. f (snd p)) m)) + mset (f v')"
  using assms by (induction m) (auto split: if_splits simp: ac_simps)

lemma jm_set_mset_new:
  assumes "jm_get m k = None"
  shows "mset (concat (map (\<lambda>p. f (snd p)) (jm_set m k v')))
       = mset (concat (map (\<lambda>p. f (snd p)) m)) + mset (f v')"
  using assms by (induction m) (auto split: if_splits simp: ac_simps)

lemma jm_set_id [simp]: "jm_get m k = Some v \<Longrightarrow> jm_set m k v = m"
  by (induction m) (auto split: if_splits)

lemma jm_set_set [simp]: "jm_set (jm_set m k v) k v' = jm_set m k v'"
  by (induction m) auto

lemma jm_set_new: "jm_get m k = None \<Longrightarrow> jm_set m k v = m @ [(k, v)]"
  by (induction m k v rule: jm_set.induct) (auto split: if_splits)

subsection \<open>Sets\<close>

text \<open>\<open>Set\<close> of the JavaScript library: distinct elements in insertion order.\<close>

definition js_set_add :: "'a list \<Rightarrow> 'a \<Rightarrow> 'a list" where
  "js_set_add xs x = (if x \<in> set xs then xs else xs @ [x])"

definition js_set_delete :: "'a list \<Rightarrow> 'a \<Rightarrow> 'a list" where
  "js_set_delete xs x = filter (\<lambda>y. y \<noteq> x) xs"

lemma set_js_set_add [simp]: "set (js_set_add xs x) = insert x (set xs)"
  by (auto simp: js_set_add_def)

lemma set_js_set_delete [simp]: "set (js_set_delete xs x) = set xs - {x}"
  by (auto simp: js_set_delete_def)

lemma distinct_js_set_add [simp]: "distinct xs \<Longrightarrow> distinct (js_set_add xs x)"
  by (auto simp: js_set_add_def)

lemma distinct_js_set_delete [simp]: "distinct xs \<Longrightarrow> distinct (js_set_delete xs x)"
  by (auto simp: js_set_delete_def)

lemma length_js_set_add_fresh: "x \<notin> set xs \<Longrightarrow> length (js_set_add xs x) = Suc (length xs)"
  by (simp add: js_set_add_def)

lemma length_js_set_delete_le: "length (js_set_delete xs x) \<le> length xs"
  by (simp add: js_set_delete_def)

definition js_set_of :: "'a list \<Rightarrow> 'a list" where
  "js_set_of xs = foldl js_set_add [] xs"

lemma js_set_of_aux:
  "set (foldl js_set_add acc xs) = set acc \<union> set xs \<and> (distinct acc \<longrightarrow> distinct (foldl js_set_add acc xs))"
  by (induction xs arbitrary: acc) auto

lemma set_js_set_of [simp]: "set (js_set_of xs) = set xs"
  by (simp add: js_set_of_def js_set_of_aux)

lemma distinct_js_set_of [simp]: "distinct (js_set_of xs)"
  by (simp add: js_set_of_def js_set_of_aux)

subsection \<open>The contract of a keyed store\<close>

locale keyed_store =
  fixes get :: "'m \<Rightarrow> 'k \<Rightarrow> 'v option"
    and put :: "'m \<Rightarrow> 'k \<Rightarrow> 'v \<Rightarrow> 'm"
    and del :: "'m \<Rightarrow> 'k \<Rightarrow> 'm"
    and wf :: "'m \<Rightarrow> bool"
  assumes get_put: "get (put m k v) k' = (if k' = k then Some v else get m k')"
    and get_del: "get (del m k) k' = (if k' = k then None else get m k')"
    and wf_put: "wf m \<Longrightarrow> wf (put m k v)"
    and wf_del: "wf m \<Longrightarrow> wf (del m k)"
begin

text \<open>A property of all stored values survives a \<open>put\<close> of a good value and any \<open>del\<close>.\<close>

lemma all_values_put:
  "(\<And>k v. get m k = Some v \<Longrightarrow> P k v) \<Longrightarrow> P k0 v0 \<Longrightarrow> get (put m k0 v0) k = Some v \<Longrightarrow> P k v"
  by (simp add: get_put split: if_splits)

lemma all_values_del:
  "(\<And>k v. get m k = Some v \<Longrightarrow> P k v) \<Longrightarrow> get (del m k0) k = Some v \<Longrightarrow> P k v"
  by (simp add: get_del split: if_splits)

lemma put_frame: "k' \<noteq> k \<Longrightarrow> get (put m k v) k' = get m k'"
  by (simp add: get_put)

lemma wf_foldl_put: "wf m \<Longrightarrow> wf (foldl (\<lambda>m (k, v). put m k v) m kvs)"
  by (induction kvs arbitrary: m) (auto intro: wf_put)

end

interpretation jm: keyed_store jm_get jm_set jm_delete jm_wf
  by unfold_locales auto

end
