(* ===== verification/Machines.thy ===== *)
theory Machines
  imports Js_Map
begin

text \<open>
  Interfaces shared by the stateful components. A component is a state and a step function over
  the calls made on it; \<open>guarded_machine\<close> says that its invariant is kept by every step, so it
  holds after any sequence of calls. \<open>bounded_machine\<close> adds a size the invariant bounds.
\<close>

locale guarded_machine =
  fixes step :: "'s \<Rightarrow> 'e \<Rightarrow> 's"
    and inv :: "'s \<Rightarrow> bool"
  assumes step_inv: "inv s \<Longrightarrow> inv (step s e)"
begin

lemma run_inv: "inv s \<Longrightarrow> inv (foldl step s es)"
  by (induction es arbitrary: s) (auto intro: step_inv)

lemma run_prefix_inv: "inv s \<Longrightarrow> prefix es' es \<Longrightarrow> inv (foldl step s es')"
  by (rule run_inv)

text \<open>A relation between the states before and after that is reflexive and transitive and holds of
  every step from a good state holds of every run.\<close>

lemma run_mono:
  assumes "inv s"
    and refl: "\<And>s. R s s"
    and trans: "\<And>a b c. R a b \<Longrightarrow> R b c \<Longrightarrow> R a c"
    and step: "\<And>s e. inv s \<Longrightarrow> R s (step s e)"
  shows "R s (foldl step s es)"
  using \<open>inv s\<close>
proof (induction es arbitrary: s)
  case Nil
  show ?case by (simp add: refl)
next
  case (Cons e es)
  from Cons.prems have "R s (step s e)" by (rule step)
  moreover from Cons.prems have "R (step s e) (foldl step (step s e) es)"
    by (intro Cons.IH step_inv)
  ultimately show ?case by (simp add: trans [of s "step s e"])
qed

end

locale bounded_machine = guarded_machine step inv
  for step :: "'s \<Rightarrow> 'e \<Rightarrow> 's" and inv :: "'s \<Rightarrow> bool" +
  fixes size_of :: "'s \<Rightarrow> nat"
    and bound :: nat
  assumes inv_bound: "inv s \<Longrightarrow> size_of s \<le> bound"
begin

lemma run_bound: "inv s \<Longrightarrow> size_of (foldl step s es) \<le> bound"
  by (intro inv_bound run_inv)

end

end
