(* ===== verification/Command_Queue.thy ===== *)
theory Command_Queue
  imports Machines
begin

text \<open>
  The in-process command queue of src/brain/src/process/command-queue.ts: named lanes, each with
  a FIFO queue of entries and a bounded set of active tasks; \<open>drainLane\<close> pumps a lane,
  \<open>resetAllLanes\<close> bumps the generation of every lane so that completions of tasks started before
  the reset are ignored, and \<open>waitForActiveTasks\<close> registers a waiter on the tasks active at the
  call.

  A call of an exported function and the settling of a started task are the steps. The
  asynchronous closure that \<open>pump\<close> starts for an entry (it awaits \<open>entry.task()\<close> and then runs
  the completion code) is an \<open>in_flight\<close> record; its completion code is the step \<open>Settle\<close>. The
  promise of an enqueue is named by the number of the enqueue (\<open>qe_id\<close>); what the callers see
  (a promise settled, a task started, an \<open>onWait\<close> call, a waiter resolved) is appended to
  \<open>effects\<close>. A task is asynchronous: its body settles in a later step than the one that starts
  it. The log calls are left out.
\<close>

subsection \<open>State\<close>

record queue_entry =
  qe_id :: nat
  enqueuedAt :: int
  warnAfterMs :: int
  onWait :: bool

record lane_state =
  lane :: string
  queue :: "queue_entry list"
  activeTaskIds :: "nat list"
  maxConcurrent :: int
  draining :: bool
  generation :: nat

record task_waiter =
  waiterId :: nat
  waitTaskIds :: "nat list"

datatype queue_error = GatewayDrainingError | CommandLaneClearedError string | TaskFailed

datatype queue_effect =
    Started string nat nat
  | OnWaitCalled nat int nat
  | Resolved nat
  | Rejected nat queue_error
  | EnqueueRefused queue_error
  | WaiterResolved nat bool

record in_flight =
  if_lane :: string
  if_taskId :: nat
  if_generation :: nat
  if_entry :: nat

record queue_state =
  gatewayDraining :: bool
  lanes :: "(string, lane_state) js_map"
  activeTaskWaiters :: "task_waiter list"
  nextTaskId :: nat
  inflight :: "in_flight list"
  nextEntryId :: nat
  nextWaiterId :: nat
  effects :: "queue_effect list"

definition initial_queue_state :: queue_state where
  "initial_queue_state = \<lparr> gatewayDraining = False, lanes = [], activeTaskWaiters = [],
     nextTaskId = 1, inflight = [], nextEntryId = 0, nextWaiterId = 0, effects = [] \<rparr>"

definition emit_effect :: "queue_state \<Rightarrow> queue_effect \<Rightarrow> queue_state" where
  "emit_effect q x = q\<lparr>effects := effects q @ [x]\<rparr>"

subsection \<open>Lanes\<close>

definition CommandLane_Main :: string where
  "CommandLane_Main = ''main''"

definition normalizeLane :: "string \<Rightarrow> string" where
  "normalizeLane l = str_or (js_trim l) CommandLane_Main"

definition getLaneDepth :: "lane_state \<Rightarrow> nat" where
  "getLaneDepth st = length (queue st) + length (activeTaskIds st)"

definition new_lane :: "string \<Rightarrow> lane_state" where
  "new_lane l = \<lparr> lane = l, queue = [], activeTaskIds = [], maxConcurrent = 1, draining = False,
     generation = 0 \<rparr>"

text \<open>\<open>getLaneState\<close> returns the lane's object and registers a new one for an unknown name; since
  callers go on to mutate the object, every operation below ends with \<open>put_lane\<close>.\<close>

definition getLaneState :: "queue_state \<Rightarrow> string \<Rightarrow> lane_state" where
  "getLaneState q l = (case jm_get (lanes q) l of Some st \<Rightarrow> st | None \<Rightarrow> new_lane l)"

definition put_lane :: "queue_state \<Rightarrow> lane_state \<Rightarrow> queue_state" where
  "put_lane q st = q\<lparr>lanes := jm_set (lanes q) (lane st) st\<rparr>"

definition completeTask :: "lane_state \<Rightarrow> nat \<Rightarrow> nat \<Rightarrow> bool \<times> lane_state" where
  "completeTask st taskId taskGeneration =
     (if taskGeneration \<noteq> generation st then (False, st)
      else (True, st\<lparr>activeTaskIds := js_set_delete (activeTaskIds st) taskId\<rparr>))"

subsection \<open>Waiters\<close>

definition hasPendingActiveTasks :: "queue_state \<Rightarrow> nat list \<Rightarrow> bool" where
  "hasPendingActiveTasks q taskIds =
     list_ex (\<lambda>st. list_ex (\<lambda>taskId. taskId \<in> set taskIds) (activeTaskIds st)) (jm_values (lanes q))"

definition resolveActiveTaskWaiter :: "queue_state \<Rightarrow> task_waiter \<Rightarrow> bool \<Rightarrow> queue_state" where
  "resolveActiveTaskWaiter q w drained =
     (if w \<notin> set (activeTaskWaiters q) then q
      else emit_effect (q\<lparr>activeTaskWaiters := js_set_delete (activeTaskWaiters q) w\<rparr>)
             (WaiterResolved (waiterId w) drained))"

definition notify_one :: "queue_state \<Rightarrow> task_waiter \<Rightarrow> queue_state" where
  "notify_one q w =
     (if waitTaskIds w = [] \<or> \<not> hasPendingActiveTasks q (waitTaskIds w)
      then resolveActiveTaskWaiter q w True else q)"

definition notifyActiveTaskWaiters :: "queue_state \<Rightarrow> queue_state" where
  "notifyActiveTaskWaiters q = foldl notify_one q (activeTaskWaiters q)"

subsection \<open>Pumping a lane\<close>

text \<open>One turn of the loop of \<open>pump\<close>: shift the entry, report a long wait, take a task id, mark it
  active and start the asynchronous closure. The lane object is carried beside the state.\<close>

definition start_entry ::
    "int \<Rightarrow> queue_entry \<Rightarrow> queue_entry list \<Rightarrow> lane_state \<Rightarrow> queue_state \<Rightarrow> lane_state \<times> queue_state" where
  "start_entry now entry rest st q =
     (let waitedMs = now - enqueuedAt entry;
          q = (if warnAfterMs entry \<le> waitedMs \<and> onWait entry
               then emit_effect q (OnWaitCalled (qe_id entry) waitedMs (length rest)) else q);
          taskId = nextTaskId q;
          q = q\<lparr>nextTaskId := taskId + 1,
                inflight := inflight q @ [\<lparr> if_lane = lane st, if_taskId = taskId,
                  if_generation = generation st, if_entry = qe_id entry \<rparr>]\<rparr>
      in (st\<lparr>queue := rest, activeTaskIds := js_set_add (activeTaskIds st) taskId\<rparr>,
          emit_effect q (Started (lane st) taskId (qe_id entry))))"

function pump_loop :: "int \<Rightarrow> lane_state \<Rightarrow> queue_state \<Rightarrow> lane_state \<times> queue_state" where
  "pump_loop now st q =
     (case queue st of
        [] \<Rightarrow> (st, q)
      | entry # rest \<Rightarrow>
          if int (length (activeTaskIds st)) < maxConcurrent st
          then (case start_entry now entry rest st q of (st', q') \<Rightarrow> pump_loop now st' q')
          else (st, q))"
  by pat_completeness auto
termination
  by (relation "measure (\<lambda>(now, st, q). length (queue st))") (auto simp: start_entry_def Let_def)

declare pump_loop.simps [simp del]

definition pump :: "int \<Rightarrow> lane_state \<Rightarrow> queue_state \<Rightarrow> queue_state" where
  "pump now st q = (case pump_loop now st q of (st', q') \<Rightarrow> put_lane q' (st'\<lparr>draining := False\<rparr>))"

definition drainLane :: "int \<Rightarrow> queue_state \<Rightarrow> string \<Rightarrow> queue_state" where
  "drainLane now q l =
     (let st = getLaneState q l in
      if draining st then put_lane q st
      else pump now (st\<lparr>draining := True\<rparr>) q)"

subsection \<open>Exported operations\<close>

definition markGatewayDraining :: "queue_state \<Rightarrow> queue_state" where
  "markGatewayDraining q = q\<lparr>gatewayDraining := True\<rparr>"

definition setCommandLaneConcurrency :: "int \<Rightarrow> queue_state \<Rightarrow> string \<Rightarrow> rat \<Rightarrow> queue_state" where
  "setCommandLaneConcurrency now q l n =
     (let cleaned = normalizeLane l;
          st = getLaneState q cleaned
      in drainLane now (put_lane q (st\<lparr>maxConcurrent := max 1 \<lfloor>n\<rfloor>\<rparr>)) cleaned)"

definition enqueueCommandInLane ::
    "int \<Rightarrow> queue_state \<Rightarrow> string \<Rightarrow> int option \<Rightarrow> bool \<Rightarrow> queue_state" where
  "enqueueCommandInLane now q l warnAfter hasOnWait =
     (if gatewayDraining q then emit_effect q (EnqueueRefused GatewayDrainingError)
      else
        (let cleaned = normalizeLane l;
             entry = \<lparr> qe_id = nextEntryId q, enqueuedAt = now,
                       warnAfterMs = nullish warnAfter 2000, onWait = hasOnWait \<rparr>;
             st = getLaneState q cleaned
         in drainLane now
              (put_lane (q\<lparr>nextEntryId := nextEntryId q + 1\<rparr>) (st\<lparr>queue := queue st @ [entry]\<rparr>))
              cleaned))"

definition enqueueCommand :: "int \<Rightarrow> queue_state \<Rightarrow> int option \<Rightarrow> bool \<Rightarrow> queue_state" where
  "enqueueCommand now q warnAfter hasOnWait =
     enqueueCommandInLane now q CommandLane_Main warnAfter hasOnWait"

definition getQueueSize :: "queue_state \<Rightarrow> string \<Rightarrow> nat" where
  "getQueueSize q l =
     (case jm_get (lanes q) (normalizeLane l) of None \<Rightarrow> 0 | Some st \<Rightarrow> getLaneDepth st)"

definition getTotalQueueSize :: "queue_state \<Rightarrow> nat" where
  "getTotalQueueSize q = sum_list (map getLaneDepth (jm_values (lanes q)))"

definition getActiveTaskCount :: "queue_state \<Rightarrow> nat" where
  "getActiveTaskCount q = sum_list (map (\<lambda>s. length (activeTaskIds s)) (jm_values (lanes q)))"

definition clearCommandLane :: "queue_state \<Rightarrow> string \<Rightarrow> nat \<times> queue_state" where
  "clearCommandLane q l =
     (let cleaned = normalizeLane l in
      case jm_get (lanes q) cleaned of
        None \<Rightarrow> (0, q)
      | Some st \<Rightarrow>
          (let removed = length (queue st);
               pending = queue st;
               q' = put_lane q (st\<lparr>queue := []\<rparr>)
           in (removed,
               foldl (\<lambda>q e. emit_effect q (Rejected (qe_id e) (CommandLaneClearedError cleaned)))
                 q' pending)))"

definition resetAllLanes :: "int \<Rightarrow> queue_state \<Rightarrow> queue_state" where
  "resetAllLanes now q =
     (let reset = (\<lambda>st. st\<lparr>generation := generation st + 1, activeTaskIds := [], draining := False\<rparr>);
          lanes' = map (\<lambda>(l, st). (l, reset st)) (lanes q);
          lanesToDrain = map lane (filter (\<lambda>st. queue st \<noteq> []) (jm_values lanes'))
      in notifyActiveTaskWaiters
           (foldl (drainLane now) (q\<lparr>gatewayDraining := False, lanes := lanes'\<rparr>) lanesToDrain))"

definition waitForActiveTasks :: "queue_state \<Rightarrow> int \<Rightarrow> queue_state" where
  "waitForActiveTasks q timeoutMs =
     (let activeAtStart = js_set_of (concat (map activeTaskIds (jm_values (lanes q))));
          w = nextWaiterId q;
          q = q\<lparr>nextWaiterId := w + 1\<rparr>
      in if activeAtStart = [] then emit_effect q (WaiterResolved w True)
         else if timeoutMs \<le> 0 then emit_effect q (WaiterResolved w False)
         else notifyActiveTaskWaiters
                (q\<lparr>activeTaskWaiters :=
                     activeTaskWaiters q @ [\<lparr> waiterId = w, waitTaskIds = activeAtStart \<rparr>]\<rparr>))"

text \<open>The timer of a waiter fires.\<close>

definition waiterTimeout :: "queue_state \<Rightarrow> nat \<Rightarrow> queue_state" where
  "waiterTimeout q i =
     (case find (\<lambda>w. waiterId w = i) (activeTaskWaiters q) of
        None \<Rightarrow> q
      | Some w \<Rightarrow> resolveActiveTaskWaiter q w False)"

text \<open>The completion code of a started task, with the value (\<open>ok\<close>) or the error of the task.\<close>

definition settleTask :: "int \<Rightarrow> queue_state \<Rightarrow> nat \<Rightarrow> bool \<Rightarrow> queue_state" where
  "settleTask now q taskId ok =
     (case find (\<lambda>f. if_taskId f = taskId) (inflight q) of
        None \<Rightarrow> q
      | Some f \<Rightarrow>
          (let q = q\<lparr>inflight := filter (\<lambda>g. if_taskId g \<noteq> taskId) (inflight q)\<rparr>;
               st = getLaneState q (if_lane f);
               q = (case completeTask st taskId (if_generation f) of
                      (True, st') \<Rightarrow>
                        (let q = notifyActiveTaskWaiters (put_lane q st')
                         in pump now (getLaneState q (if_lane f)) q)
                    | (False, _) \<Rightarrow> q)
           in emit_effect q (if ok then Resolved (if_entry f) else Rejected (if_entry f) TaskFailed)))"

subsection \<open>The queue as a machine\<close>

datatype queue_event =
    EnqueueInLane string "int option" bool
  | SetConcurrency string rat
  | ClearLane string
  | ResetAll
  | MarkDraining
  | WaitForActive int
  | WaiterTimeout nat
  | Settle nat bool

fun queue_step :: "queue_state \<Rightarrow> int \<times> queue_event \<Rightarrow> queue_state" where
  "queue_step q (now, EnqueueInLane l w c) = enqueueCommandInLane now q l w c"
| "queue_step q (now, SetConcurrency l n) = setCommandLaneConcurrency now q l n"
| "queue_step q (now, ClearLane l) = snd (clearCommandLane q l)"
| "queue_step q (now, ResetAll) = resetAllLanes now q"
| "queue_step q (now, MarkDraining) = markGatewayDraining q"
| "queue_step q (now, WaitForActive t) = waitForActiveTasks q t"
| "queue_step q (now, WaiterTimeout i) = waiterTimeout q i"
| "queue_step q (now, Settle t ok) = settleTask now q t ok"

definition queue_run :: "(int \<times> queue_event) list \<Rightarrow> queue_state" where
  "queue_run es = foldl queue_step initial_queue_state es"

end
