(* ===== verification/Command_Queue_Proofs.thy ===== *)
theory Command_Queue_Proofs
  imports Command_Queue
begin

text \<open>
  Correctness of the command queue. \<open>coreM M\<close> ties the lanes to the started closures and counts
  every accepted enqueue exactly once, \<open>M\<close> being the entries whose closure is running its
  completion code (none between steps: \<open>core\<close>); \<open>quiet\<close> says that no lane is left with waiting entries
  and spare capacity; \<open>waiters_live\<close> says that a waiter is only kept while one of its tasks is
  active. One lemma per operation shows that it is kept; the machine locale lifts them to runs.
\<close>

definition queued_ids :: "queue_state \<Rightarrow> nat list" where
  "queued_ids q = concat (map (\<lambda>p. map qe_id (queue (snd p))) (lanes q))"

definition inflight_ids :: "queue_state \<Rightarrow> nat list" where
  "inflight_ids q = map if_entry (inflight q)"

fun settled_of :: "queue_effect \<Rightarrow> nat list" where
  "settled_of (Resolved i) = [i]"
| "settled_of (Rejected i e) = [i]"
| "settled_of _ = []"

definition settled_ids :: "queue_state \<Rightarrow> nat list" where
  "settled_ids q = concat (map settled_of (effects q))"

fun started_of :: "string \<Rightarrow> queue_effect \<Rightarrow> nat list" where
  "started_of l (Started l' t i) = (if l' = l then [i] else [])"
| "started_of l _ = []"

definition started_in :: "string \<Rightarrow> queue_state \<Rightarrow> nat list" where
  "started_in l q = concat (map (started_of l) (effects q))"

definition current_tasks :: "queue_state \<Rightarrow> string \<Rightarrow> nat \<Rightarrow> nat set" where
  "current_tasks q l g = {t. \<exists>f \<in> set (inflight q). if_lane f = l \<and> if_generation f = g \<and> if_taskId f = t}"

definition lane_ok :: "queue_state \<Rightarrow> string \<Rightarrow> lane_state \<Rightarrow> bool" where
  "lane_ok q l st \<longleftrightarrow> lane st = l \<and> 1 \<le> maxConcurrent st \<and> distinct (activeTaskIds st) \<and>
     set (activeTaskIds st) = current_tasks q l (generation st) \<and>
     (\<forall>f \<in> set (inflight q). if_lane f = l \<longrightarrow> if_generation f \<le> generation st) \<and>
     sorted_wrt (<) (started_in l q @ map qe_id (queue st)) \<and>
     (\<forall>i \<in> set (map qe_id (queue st)). i < nextEntryId q)"

definition coreM :: "nat multiset \<Rightarrow> queue_state \<Rightarrow> bool" where
  "coreM M q \<longleftrightarrow> jm_wf (lanes q) \<and>
     (\<forall>l st. jm_get (lanes q) l = Some st \<longrightarrow> lane_ok q l st) \<and>
     distinct (map if_taskId (inflight q)) \<and>
     (\<forall>f \<in> set (inflight q). if_taskId f < nextTaskId q \<and> jm_get (lanes q) (if_lane f) \<noteq> None) \<and>
     (\<forall>l. jm_get (lanes q) l = None \<longrightarrow> started_in l q = []) \<and>
     (\<forall>l. \<forall>i \<in> set (started_in l q). i < nextEntryId q) \<and>
     mset (queued_ids q) + mset (inflight_ids q) + mset (settled_ids q) + M = mset [0..<nextEntryId q]"

abbreviation core :: "queue_state \<Rightarrow> bool" where
  "core \<equiv> coreM {#}"

definition work_conserving :: "lane_state \<Rightarrow> bool" where
  "work_conserving st \<longleftrightarrow> queue st = [] \<or> maxConcurrent st \<le> int (length (activeTaskIds st))"

definition quiet_lane :: "lane_state \<Rightarrow> bool" where
  "quiet_lane st \<longleftrightarrow> \<not> draining st \<and> work_conserving st"

definition quiet :: "queue_state \<Rightarrow> bool" where
  "quiet q \<longleftrightarrow> (\<forall>l st. jm_get (lanes q) l = Some st \<longrightarrow> quiet_lane st)"

definition waiters_live :: "queue_state \<Rightarrow> bool" where
  "waiters_live q \<longleftrightarrow> (\<forall>w \<in> set (activeTaskWaiters q).
     waitTaskIds w \<noteq> [] \<and> hasPendingActiveTasks q (waitTaskIds w))"

definition queue_inv :: "queue_state \<Rightarrow> bool" where
  "queue_inv q \<longleftrightarrow> core q \<and> quiet q \<and> waiters_live q"

lemmas queue_defs = coreM_def lane_ok_def current_tasks_def

subsection \<open>Bookkeeping of the components\<close>

lemma effects_emit [simp]: "effects (emit_effect q x) = effects q @ [x]"
  and lanes_emit [simp]: "lanes (emit_effect q x) = lanes q"
  and inflight_emit [simp]: "inflight (emit_effect q x) = inflight q"
  and nextTaskId_emit [simp]: "nextTaskId (emit_effect q x) = nextTaskId q"
  and nextEntryId_emit [simp]: "nextEntryId (emit_effect q x) = nextEntryId q"
  and waiters_emit [simp]: "activeTaskWaiters (emit_effect q x) = activeTaskWaiters q"
  and gd_emit [simp]: "gatewayDraining (emit_effect q x) = gatewayDraining q"
  by (simp_all add: emit_effect_def)

lemma put_lane_simps [simp]:
  "lanes (put_lane q st) = jm_set (lanes q) (lane st) st"
  "effects (put_lane q st) = effects q"
  "inflight (put_lane q st) = inflight q"
  "nextTaskId (put_lane q st) = nextTaskId q"
  "nextEntryId (put_lane q st) = nextEntryId q"
  "activeTaskWaiters (put_lane q st) = activeTaskWaiters q"
  "gatewayDraining (put_lane q st) = gatewayDraining q"
  by (simp_all add: put_lane_def)

lemma put_lane_twice: "lane st' = lane st \<Longrightarrow> put_lane (put_lane q st) st' = put_lane q st'"
  by (simp add: put_lane_def)

lemma map_fst_jm_set: "map fst (jm_set m k v) = map fst (jm_set m k v')"
  by (induction m) auto

lemma jm_wf_set_any: "jm_wf (jm_set m k v) \<Longrightarrow> jm_wf (jm_set m k v')"
  using map_fst_jm_set [of m k v v'] by (simp add: jm_wf_def)

lemma started_in_simps [simp]:
  "started_in l (emit_effect q x) = started_in l q @ started_of l x"
  "started_in l (put_lane q st) = started_in l q"
  by (simp_all add: started_in_def)

lemma settled_ids_simps [simp]:
  "settled_ids (emit_effect q x) = settled_ids q @ settled_of x"
  "settled_ids (put_lane q st) = settled_ids q"
  by (simp_all add: settled_ids_def)

lemma inflight_ids_simps [simp]:
  "inflight_ids (emit_effect q x) = inflight_ids q"
  "inflight_ids (put_lane q st) = inflight_ids q"
  by (simp_all add: inflight_ids_def)

lemma queued_ids_emit [simp]: "queued_ids (emit_effect q x) = queued_ids q"
  by (simp add: queued_ids_def)

text \<open>Overwriting the object of a lane changes the waiting entries by what the two objects hold.\<close>

lemma queued_put_lane:
  assumes "lane st' = lane st"
  shows "mset (queued_ids (put_lane q st')) + mset (map qe_id (queue st))
       = mset (queued_ids (put_lane q st)) + mset (map qe_id (queue st'))"
proof -
  have "jm_get (jm_set (lanes q) (lane st) st) (lane st) = Some st" by simp
  from jm_set_mset [OF this, of "\<lambda>s. map qe_id (queue s)" st'] assms
  show ?thesis by (simp add: queued_ids_def)
qed

lemma queued_put_old:
  assumes "jm_get (lanes q) (lane st') = Some st"
  shows "mset (queued_ids (put_lane q st')) + mset (map qe_id (queue st))
       = mset (queued_ids q) + mset (map qe_id (queue st'))"
  using jm_set_mset [OF assms, of "\<lambda>s. map qe_id (queue s)" st'] by (simp add: queued_ids_def)

lemma queued_put_new:
  assumes "jm_get (lanes q) (lane st') = None"
  shows "mset (queued_ids (put_lane q st')) = mset (queued_ids q) + mset (map qe_id (queue st'))"
  using jm_set_mset_new [OF assms, of "\<lambda>s. map qe_id (queue s)" st'] by (simp add: queued_ids_def)

lemma core_lane: "coreM M q \<Longrightarrow> jm_get (lanes q) l = Some st \<Longrightarrow> lane_ok q l st"
  by (simp add: coreM_def)

lemma core_put_lane_ok: "coreM M (put_lane q st) \<Longrightarrow> lane_ok (put_lane q st) (lane st) st"
  by (rule core_lane) auto

subsection \<open>Starting an entry keeps the core invariant\<close>

text \<open>Two small facts on the parts of an update: effects that start and settle nothing, and a
  replaced lane object.\<close>

lemma core_emit:
  assumes "coreM M q" and "\<And>l. started_of l x = []" and "settled_of x = []"
  shows "coreM M (emit_effect q x)"
  using assms by (simp add: coreM_def lane_ok_def current_tasks_def)

lemma lane_ok_start:
  assumes core: "coreM M (put_lane q st)" and qu: "queue st = e # rest"
    and st': "st' = st\<lparr>queue := rest, activeTaskIds := js_set_add (activeTaskIds st) (nextTaskId q)\<rparr>"
    and q': "q' = emit_effect (q\<lparr>nextTaskId := nextTaskId q + 1, inflight := inflight q @
       [\<lparr> if_lane = lane st, if_taskId = nextTaskId q, if_generation = generation st, if_entry = qe_id e \<rparr>]\<rparr>)
       (Started (lane st) (nextTaskId q) (qe_id e))"
  shows "coreM M (put_lane q' st')"
proof -
  let ?p = "put_lane q st" and ?p' = "put_lane q' st'"
  have lanes': "lanes ?p' = jm_set (lanes q) (lane st) st'"
    and infl: "inflight ?p' = inflight q @
       [\<lparr> if_lane = lane st, if_taskId = nextTaskId q, if_generation = generation st, if_entry = qe_id e \<rparr>]"
    and start: "\<And>l. started_in l ?p' = started_in l q @ (if lane st = l then [qe_id e] else [])"
    and nxt: "nextTaskId ?p' = Suc (nextTaskId q)" "nextEntryId ?p' = nextEntryId q"
    and settled: "settled_ids ?p' = settled_ids q"
    by (auto simp: q' st' started_in_def settled_ids_def)
  have ok: "lane_ok ?p (lane st) st" using core by (rule core_put_lane_ok)
  have fresh: "\<forall>f \<in> set (inflight q). if_taskId f < nextTaskId q" using core by (simp add: coreM_def)
  have "jm_wf (jm_set (lanes q) (lane st) st)" using core by (simp add: coreM_def)
  then have wf: "jm_wf (lanes ?p')" unfolding lanes' by (rule jm_wf_set_any)
  have lanes_ok: "lane_ok ?p' l s" if "jm_get (lanes ?p') l = Some s" for l s
  proof (cases "l = lane st")
    case True
    with that [unfolded lanes'] have "s = st'" by simp
    with True ok qu fresh show ?thesis
      unfolding lane_ok_def current_tasks_def infl start nxt
      by (auto simp: st' started_in_def)
  next
    case False
    with that [unfolded lanes'] have "jm_get (lanes ?p) l = Some s" by simp
    with core have "lane_ok ?p l s" by (rule core_lane)
    with False show ?thesis
      unfolding lane_ok_def current_tasks_def infl start nxt by auto
  qed
  have mset: "mset (queued_ids ?p') + mset (inflight_ids ?p') + mset (settled_ids ?p') + M
      = mset [0..<nextEntryId q]"
  proof -
    have "mset (queued_ids (put_lane q st')) + mset (map qe_id (queue st))
        = mset (queued_ids ?p) + mset (map qe_id (queue st'))"
      by (rule queued_put_lane) (simp add: st')
    moreover have "queued_ids ?p' = queued_ids (put_lane q st')"
      by (simp add: queued_ids_def q')
    ultimately have a: "mset (queued_ids ?p) = mset (queued_ids ?p') + {#qe_id e#}"
      by (simp add: qu st')
    have b: "mset (inflight_ids ?p') = mset (inflight_ids ?p) + {#qe_id e#}"
      unfolding inflight_ids_def infl by simp
    have "mset (queued_ids ?p) + mset (inflight_ids ?p) + mset (settled_ids q) + M
        = mset [0..<nextEntryId q]"
      using core by (simp add: coreM_def)
    then show ?thesis unfolding settled a b by (simp only: ac_simps)
  qed
  have e_lt: "qe_id e < nextEntryId q" using ok qu by (simp add: lane_ok_def)
  have a: "distinct (map if_taskId (inflight ?p'))"
    unfolding infl using core fresh by (auto simp: coreM_def)
  have b: "\<forall>f \<in> set (inflight ?p'). if_taskId f < nextTaskId ?p' \<and> jm_get (lanes ?p') (if_lane f) \<noteq> None"
    unfolding infl lanes' nxt using core by (auto simp: coreM_def less_Suc_eq)
  have c: "\<forall>l. jm_get (lanes ?p') l = None \<longrightarrow> started_in l ?p' = []"
    unfolding lanes' start using core by (auto simp: coreM_def)
  have d: "\<forall>l. \<forall>i \<in> set (started_in l ?p'). i < nextEntryId ?p'"
    unfolding start nxt using core e_lt by (auto simp: coreM_def)
  show ?thesis
    unfolding coreM_def using wf lanes_ok a b c d mset nxt by simp
qed

lemma core_emit_put:
  assumes "coreM M (put_lane q st)" and "\<And>l. started_of l x = []" and "settled_of x = []"
  shows "coreM M (put_lane (emit_effect q x) st)"
proof -
  have "put_lane (emit_effect q x) st = emit_effect (put_lane q st) x"
    by (simp add: put_lane_def emit_effect_def)
  with core_emit [OF assms] show ?thesis by simp
qed

lemma core_start_entry:
  assumes "coreM M (put_lane q st)" and "queue st = e # rest"
    and "start_entry now e rest st q = (st', q')"
  shows "coreM M (put_lane q' st')"
proof -
  let ?q = "if warnAfterMs e \<le> now - enqueuedAt e \<and> onWait e
            then emit_effect q (OnWaitCalled (qe_id e) (now - enqueuedAt e) (length rest)) else q"
  have "coreM M (put_lane ?q st)" using assms(1) by (auto intro: core_emit_put)
  from lane_ok_start [OF this assms(2)] assms(3) show ?thesis
    by (auto simp: start_entry_def Let_def)
qed

lemma start_entry_lane:
  assumes "start_entry now e rest st q = (st', q')"
  shows "lane st' = lane st \<and> queue st' = rest \<and> maxConcurrent st' = maxConcurrent st \<and>
    generation st' = generation st \<and> draining st' = draining st \<and> lanes q' = lanes q \<and>
    activeTaskWaiters q' = activeTaskWaiters q \<and> nextEntryId q' = nextEntryId q \<and>
    gatewayDraining q' = gatewayDraining q \<and> set (activeTaskIds st) \<subseteq> set (activeTaskIds st') \<and>
    length (activeTaskIds st') \<le> Suc (length (activeTaskIds st)) \<and>
    set (inflight q) \<subseteq> set (inflight q')"
  using assms by (auto simp: start_entry_def Let_def js_set_add_def split: if_splits)

subsection \<open>Pumping\<close>

text \<open>The loop of \<open>pump\<close>: the core invariant is kept, and when it stops the lane has no waiting
  entry or no spare capacity. It never fills a lane beyond its limit.\<close>

lemma pump_loop_core:
  "coreM M (put_lane q st) \<Longrightarrow> pump_loop now st q = (st', q') \<Longrightarrow> coreM M (put_lane q' st')"
proof (induction now st q rule: pump_loop.induct)
  case (1 now st q)
  show ?case
  proof (cases "queue st")
    case Nil
    with 1 show ?thesis by (simp add: pump_loop.simps [of now st q])
  next
    case (Cons e rest)
    obtain st1 q1 where s: "start_entry now e rest st q = (st1, q1)" by (cases "start_entry now e rest st q")
    show ?thesis
    proof (cases "int (length (activeTaskIds st)) < maxConcurrent st")
      case True
      have "coreM M (put_lane q1 st1)" by (rule core_start_entry [OF 1(2) Cons s])
      with 1(1) [OF Cons True s [symmetric]] 1(3) Cons True s show ?thesis
        by (simp add: pump_loop.simps [of now st q])
    next
      case False
      with Cons 1 show ?thesis by (simp add: pump_loop.simps [of now st q])
    qed
  qed
qed

lemma pump_loop_frame:
  "pump_loop now st q = (st', q') \<Longrightarrow>
   lane st' = lane st \<and> maxConcurrent st' = maxConcurrent st \<and> generation st' = generation st \<and>
   lanes q' = lanes q \<and> activeTaskWaiters q' = activeTaskWaiters q \<and>
   nextEntryId q' = nextEntryId q \<and> gatewayDraining q' = gatewayDraining q \<and>
   set (activeTaskIds st) \<subseteq> set (activeTaskIds st') \<and> work_conserving st' \<and>
   int (length (activeTaskIds st')) \<le> max (int (length (activeTaskIds st))) (maxConcurrent st)"
proof (induction now st q rule: pump_loop.induct)
  case (1 now st q)
  show ?case
  proof (cases "queue st")
    case Nil
    with 1(2) show ?thesis by (auto simp: pump_loop.simps [of now st q] work_conserving_def)
  next
    case (Cons e rest)
    obtain st1 q1 where s: "start_entry now e rest st q = (st1, q1)" by (cases "start_entry now e rest st q")
    show ?thesis
    proof (cases "int (length (activeTaskIds st)) < maxConcurrent st")
      case True
      note f = start_entry_lane [OF s]
      have "pump_loop now st1 q1 = (st', q')"
        using 1(2) Cons True s by (simp add: pump_loop.simps [of now st q])
      from 1(1) [OF Cons True s [symmetric] this] f True show ?thesis by auto
    next
      case False
      with Cons 1(2) show ?thesis by (auto simp: pump_loop.simps [of now st q] work_conserving_def)
    qed
  qed
qed

text \<open>The lanes that are not pumped are as before; the pumped lane is quiet.\<close>

lemma pump_lanes:
  "\<exists>st'. lanes (pump now st q) = jm_set (lanes q) (lane st) st' \<and> lane st' = lane st \<and> quiet_lane st' \<and>
     set (activeTaskIds st) \<subseteq> set (activeTaskIds st') \<and> maxConcurrent st' = maxConcurrent st \<and>
     generation st' = generation st \<and>
     int (length (activeTaskIds st')) \<le> max (int (length (activeTaskIds st))) (maxConcurrent st)"
proof -
  obtain st' q' where p: "pump_loop now st q = (st', q')" by (cases "pump_loop now st q")
  note f = pump_loop_frame [OF p]
  have "lanes (pump now st q) = jm_set (lanes q) (lane st) (st'\<lparr>draining := False\<rparr>)"
    using p f by (simp add: pump_def)
  moreover have "quiet_lane (st'\<lparr>draining := False\<rparr>)"
    using f by (auto simp: quiet_lane_def work_conserving_def)
  ultimately show ?thesis using f by (intro exI [of _ "st'\<lparr>draining := False\<rparr>"]) simp
qed

lemma pump_other:
  "activeTaskWaiters (pump now st q) = activeTaskWaiters q \<and> nextEntryId (pump now st q) = nextEntryId q \<and>
   gatewayDraining (pump now st q) = gatewayDraining q"
  using pump_loop_frame by (auto simp: pump_def split: prod.split)

text \<open>Pending tasks stay pending when lanes only gain active tasks.\<close>

lemma hasPending_iff:
  assumes "jm_wf (lanes q)"
  shows "hasPendingActiveTasks q ts \<longleftrightarrow>
    (\<exists>l st t. jm_get (lanes q) l = Some st \<and> t \<in> set (activeTaskIds st) \<and> t \<in> set ts)"
  using assms
  by (force simp: hasPendingActiveTasks_def list_ex_iff jm_values_def jm_in_get [symmetric])

definition lanes_grow :: "queue_state \<Rightarrow> queue_state \<Rightarrow> bool" where
  "lanes_grow q q' \<longleftrightarrow> (\<forall>l st. jm_get (lanes q) l = Some st \<longrightarrow>
     (\<exists>st'. jm_get (lanes q') l = Some st' \<and> set (activeTaskIds st) \<subseteq> set (activeTaskIds st')))"

lemma waiters_live_grow:
  assumes "waiters_live q" "jm_wf (lanes q)" "jm_wf (lanes q')" "lanes_grow q q'"
    "set (activeTaskWaiters q') \<subseteq> set (activeTaskWaiters q)"
  shows "waiters_live q'"
  unfolding waiters_live_def
proof (intro ballI conjI)
  fix w assume w: "w \<in> set (activeTaskWaiters q')"
  with assms(5) have w': "w \<in> set (activeTaskWaiters q)" by blast
  with assms(1) show "waitTaskIds w \<noteq> []" by (simp add: waiters_live_def)
  from w' assms(1,2) obtain l st t where
    "jm_get (lanes q) l = Some st" "t \<in> set (activeTaskIds st)" "t \<in> set (waitTaskIds w)"
    by (auto simp: waiters_live_def hasPending_iff)
  with assms(3,4) show "hasPendingActiveTasks q' (waitTaskIds w)"
    by (fastforce simp: lanes_grow_def hasPending_iff)
qed

lemma getLaneState_cases:
  "(jm_get (lanes q) l = Some (getLaneState q l)) \<or>
   (jm_get (lanes q) l = None \<and> getLaneState q l = new_lane l)"
  by (auto simp: getLaneState_def split: option.splits)

lemma core_lane_name: "coreM M q \<Longrightarrow> lane (getLaneState q l) = l"
  using getLaneState_cases [of q l] by (auto simp: new_lane_def dest: core_lane simp: lane_ok_def)

text \<open>Replacing the object of a lane by one with the same tasks and the same waiting entries, or a
  new lane.\<close>

lemma core_put_getLane:
  assumes c: "coreM M q" and st: "st = getLaneState q l"
    and st': "lane st' = l" "queue st' = queue st" "activeTaskIds st' = activeTaskIds st"
      "generation st' = generation st" "1 \<le> maxConcurrent st'"
  shows "coreM M (put_lane q st')"
proof -
  let ?q = "put_lane q st'"
  have infl0: "if_lane f \<noteq> l" if "f \<in> set (inflight q)" "jm_get (lanes q) l = None" for f
    using c that by (auto simp: coreM_def)
  have st0: "started_in l q = []" if "jm_get (lanes q) l = None"
    using c that by (simp add: coreM_def)
  have ok: "lane_ok q l s" if "jm_get (lanes q) l = Some s" for l s
    using c that by (rule core_lane)
  have lanes_ok: "lane_ok ?q k s" if k: "jm_get (lanes ?q) k = Some s" for k s
  proof (cases "k = l")
    case True
    with k st' have s: "s = st'" by simp
    show ?thesis
    proof (cases "jm_get (lanes q) l")
      case None
      with st have "st = new_lane l" by (simp add: getLaneState_def)
      with None st' s True infl0 st0 show ?thesis
        by (auto simp: lane_ok_def current_tasks_def new_lane_def)
    next
      case (Some u)
      with st have "u = st" by (simp add: getLaneState_def)
      with Some ok [of l u] st' s True show ?thesis
        by (simp add: lane_ok_def current_tasks_def)
    qed
  next
    case False
    with k st' have "jm_get (lanes q) k = Some s" by simp
    then show ?thesis using ok [of k s] by (simp add: lane_ok_def current_tasks_def)
  qed
  have m: "mset (queued_ids ?q) = mset (queued_ids q)"
  proof (cases "jm_get (lanes q) l")
    case None
    with st have "st = new_lane l" by (simp add: getLaneState_def)
    with None st' queued_put_new [of q st'] show ?thesis by (simp add: new_lane_def)
  next
    case (Some u)
    with st have "u = st" by (simp add: getLaneState_def)
    with Some st' queued_put_old [of q st' u] show ?thesis by simp
  qed
  show ?thesis
    using c lanes_ok m unfolding coreM_def by (simp add: jm_wf_set)
qed

lemma core_draining: "coreM M (put_lane q st) \<Longrightarrow> coreM M (put_lane q (st\<lparr>draining := b\<rparr>))"
proof -
  assume c: "coreM M (put_lane q st)"
  have "1 \<le> maxConcurrent st" using core_put_lane_ok [OF c] by (simp add: lane_ok_def)
  then have "coreM M (put_lane (put_lane q st) (st\<lparr>draining := b\<rparr>))"
    by (intro core_put_getLane [OF c refl, of _ "lane st"]) (simp_all add: getLaneState_def)
  then show ?thesis by (simp add: put_lane_twice)
qed

lemma pump_core: "coreM M (put_lane q st) \<Longrightarrow> coreM M (pump now st q)"
  by (auto simp: pump_def split: prod.split intro!: core_draining dest: pump_loop_core)

subsection \<open>Draining and notifying\<close>

definition quiet_except :: "string set \<Rightarrow> queue_state \<Rightarrow> bool" where
  "quiet_except S q \<longleftrightarrow> (\<forall>l st. jm_get (lanes q) l = Some st \<longrightarrow>
     \<not> draining st \<and> (l \<notin> S \<longrightarrow> work_conserving st))"

lemma quiet_iff: "quiet q \<longleftrightarrow> quiet_except {} q"
  by (auto simp: quiet_def quiet_except_def quiet_lane_def)

lemma pump_quiet:
  assumes "quiet_except S q"
  shows "quiet_except (S - {lane st}) (pump now st q)"
proof -
  obtain st' where "lanes (pump now st q) = jm_set (lanes q) (lane st) st'" "quiet_lane st'"
    using pump_lanes [of now st q] by blast
  with assms show ?thesis by (auto simp: quiet_except_def quiet_lane_def)
qed

lemma pump_grow: "lanes_grow (put_lane q st) (pump now st q)"
proof -
  obtain st' where "lanes (pump now st q) = jm_set (lanes q) (lane st) st'"
    "set (activeTaskIds st) \<subseteq> set (activeTaskIds st')"
    using pump_lanes [of now st q] by blast
  then show ?thesis by (auto simp: lanes_grow_def)
qed

lemma coreM_wf: "coreM M q \<Longrightarrow> jm_wf (lanes q)"
  by (simp add: coreM_def)

lemma pump_waiters:
  assumes "coreM M (put_lane q st)" "waiters_live (put_lane q st)"
  shows "waiters_live (pump now st q)"
  by (rule waiters_live_grow [OF assms(2) coreM_wf [OF assms(1)] coreM_wf [OF pump_core [OF assms(1)]] pump_grow])
    (simp add: pump_other)

lemma drain_core:
  assumes c: "coreM M q" and qu: "quiet_except S q"
  shows "coreM M (drainLane now q l)" "quiet_except (S - {l}) (drainLane now q l)"
    "waiters_live q \<Longrightarrow> waiters_live (drainLane now q l)"
proof -
  let ?st = "getLaneState q l"
  let ?st' = "?st\<lparr>draining := True\<rparr>"
  have nd: "\<not> draining ?st" and mx: "1 \<le> maxConcurrent ?st"
    using getLaneState_cases [of q l] qu c
    by (auto simp: quiet_except_def new_lane_def dest: core_lane simp: lane_ok_def)
  have nm: "lane ?st = l" using c by (rule core_lane_name)
  have d: "drainLane now q l = pump now ?st' q" using nd by (simp add: drainLane_def)
  have c': "coreM M (put_lane q ?st')"
    by (rule core_put_getLane [OF c, where l = l]) (simp_all add: mx nm)
  show "coreM M (drainLane now q l)" unfolding d by (rule pump_core [OF c'])
  show "quiet_except (S - {l}) (drainLane now q l)"
    unfolding d using pump_quiet [OF qu, where st = ?st' and now = now] nm by simp
  assume w: "waiters_live q"
  have g: "lanes_grow q (put_lane q ?st')"
    using nm getLaneState_cases [of q l] by (auto simp: lanes_grow_def)
  have "waiters_live (put_lane q ?st')"
    by (rule waiters_live_grow [OF w coreM_wf [OF c] coreM_wf [OF c'] g]) simp
  with c' show "waiters_live (drainLane now q l)" unfolding d by (rule pump_waiters)
qed

lemma drain_inv:
  "core q \<Longrightarrow> quiet_except {l} q \<Longrightarrow> waiters_live q \<Longrightarrow> queue_inv (drainLane now q l)"
  using drain_core [where M = "{#}" and S = "{l}" and q = q and l = l and now = now] by (simp add: queue_inv_def quiet_iff)

lemma notify_one_simps:
  "lanes (notify_one q w) = lanes q" "set (activeTaskWaiters (notify_one q w)) \<subseteq> set (activeTaskWaiters q)"
  "coreM M q \<Longrightarrow> coreM M (notify_one q w)"
  "w \<in> set (activeTaskWaiters (notify_one q w)) \<Longrightarrow>
     waitTaskIds w \<noteq> [] \<and> hasPendingActiveTasks q (waitTaskIds w)"
  by (auto simp: notify_one_def resolveActiveTaskWaiter_def coreM_def lane_ok_def current_tasks_def
      queued_ids_def inflight_ids_def started_in_def settled_ids_def split: if_splits)

lemma hasPending_lanes: "lanes q = lanes q' \<Longrightarrow> hasPendingActiveTasks q = hasPendingActiveTasks q'"
  by (simp add: hasPendingActiveTasks_def fun_eq_iff)

lemma notify_fold:
  "lanes (foldl notify_one q ws) = lanes q \<and>
   set (activeTaskWaiters (foldl notify_one q ws)) \<subseteq> set (activeTaskWaiters q) \<and>
   (coreM M q \<longrightarrow> coreM M (foldl notify_one q ws)) \<and>
   (\<forall>w \<in> set ws \<inter> set (activeTaskWaiters (foldl notify_one q ws)).
      waitTaskIds w \<noteq> [] \<and> hasPendingActiveTasks q (waitTaskIds w))"
proof (induction ws arbitrary: q)
  case (Cons w ws)
  let ?q = "notify_one q w"
  have h: "hasPendingActiveTasks ?q = hasPendingActiveTasks q"
    by (rule hasPending_lanes) (rule notify_one_simps)
  from Cons.IH [of ?q] notify_one_simps [where q = q and w = w] show ?case
    unfolding h by auto
qed simp

lemma notify_core:
  shows "coreM M q \<Longrightarrow> coreM M (notifyActiveTaskWaiters q)"
    and lanes_notify: "lanes (notifyActiveTaskWaiters q) = lanes q"
    and notify_live: "waiters_live (notifyActiveTaskWaiters q)"
proof -
  note f = notify_fold [of q "activeTaskWaiters q", folded notifyActiveTaskWaiters_def]
  show "coreM M q \<Longrightarrow> coreM M (notifyActiveTaskWaiters q)" and
    l: "lanes (notifyActiveTaskWaiters q) = lanes q" using f by auto
  have "hasPendingActiveTasks (notifyActiveTaskWaiters q) = hasPendingActiveTasks q"
    by (rule hasPending_lanes [OF l])
  then show "waiters_live (notifyActiveTaskWaiters q)"
    unfolding waiters_live_def using f by auto
qed

subsection \<open>Every operation keeps the invariant\<close>

lemma queue_inv_init: "queue_inv initial_queue_state"
  by (simp add: queue_inv_def initial_queue_state_def coreM_def quiet_def waiters_live_def
      queued_ids_def inflight_ids_def settled_ids_def started_in_def)

lemma queue_inv_emit:
  "queue_inv q \<Longrightarrow> (\<And>l. started_of l x = []) \<Longrightarrow> settled_of x = [] \<Longrightarrow> queue_inv (emit_effect q x)"
  by (simp add: queue_inv_def core_emit quiet_def waiters_live_def hasPendingActiveTasks_def)

lemma core_enqueue:
  assumes c: "core q" and st: "st = getLaneState q l" and e: "qe_id e = nextEntryId q"
  shows "core (put_lane (q\<lparr>nextEntryId := nextEntryId q + 1\<rparr>) (st\<lparr>queue := queue st @ [e]\<rparr>))"
proof -
  let ?st = "st\<lparr>queue := queue st @ [e]\<rparr>" and ?base = "q\<lparr>nextEntryId := nextEntryId q + 1\<rparr>"
  let ?q = "put_lane ?base ?st"
  have nm: "lane st = l" using c st by (simp add: core_lane_name)
  have infl0: "if_lane f \<noteq> l" if "f \<in> set (inflight q)" "jm_get (lanes q) l = None" for f
    using c that by (auto simp: coreM_def)
  have sl: "\<forall>i \<in> set (started_in k q). i < nextEntryId q" for k using c by (simp add: coreM_def)
  have ok: "lane_ok q k s" if "jm_get (lanes q) k = Some s" for k s using c that by (rule core_lane)
  have st_in: "started_in k ?q = started_in k q" for k by (simp add: started_in_def)
  have lanes_ok: "lane_ok ?q k s" if k: "jm_get (lanes ?q) k = Some s" for k s
  proof (cases "k = l")
    case True
    have "jm_get (lanes ?q) l = Some ?st" using nm by simp
    with k True have s: "s = ?st" by simp
    show ?thesis
    proof (cases "jm_get (lanes q) l")
      case None
      with st have "st = new_lane l" by (simp add: getLaneState_def)
      moreover have "started_in l q = []" using c None by (simp add: coreM_def)
      ultimately show ?thesis unfolding s True lane_ok_def st_in
        using None infl0 e by (auto simp: current_tasks_def new_lane_def)
    next
      case (Some u)
      with st have "u = st" by (simp add: getLaneState_def)
      with Some ok [of l u] s True e sl [of l] show ?thesis
        unfolding lane_ok_def st_in
        by (auto simp: current_tasks_def sorted_wrt_append less_Suc_eq)
    qed
  next
    case False
    with k nm have "jm_get (lanes q) k = Some s" by simp
    then show ?thesis using ok [of k s] unfolding lane_ok_def st_in
      by (auto simp: current_tasks_def less_Suc_eq)
  qed
  have m: "mset (queued_ids ?q) = mset (queued_ids q) + {#nextEntryId q#}"
  proof (cases "jm_get (lanes q) l")
    case None
    with st have "queue st = []" by (simp add: getLaneState_def new_lane_def)
    moreover have "mset (queued_ids ?q) = mset (queued_ids ?base) + mset (map qe_id (queue ?st))"
      by (rule queued_put_new) (simp add: nm None)
    moreover have "queued_ids ?base = queued_ids q" by (simp add: queued_ids_def)
    ultimately show ?thesis by (simp add: e)
  next
    case (Some u)
    with st have "u = st" by (simp add: getLaneState_def)
    with Some nm e queued_put_old [of ?base ?st u] show ?thesis
      by (simp add: queued_ids_def)
  qed
  have cons: "mset (queued_ids q) + mset (inflight_ids q) + mset (settled_ids q) = mset [0..<nextEntryId q]"
    using c by (simp add: coreM_def)
  have rest: "inflight_ids ?q = inflight_ids q" "settled_ids ?q = settled_ids q"
    by (simp_all add: inflight_ids_def settled_ids_def)
  have m2: "mset (queued_ids ?q) + mset (inflight_ids ?q) + mset (settled_ids ?q) = mset [0..<Suc (nextEntryId q)]"
    unfolding m rest upt_Suc using cons by (simp add: ac_simps)
  show ?thesis
    using c lanes_ok m2 sl unfolding coreM_def st_in
    by (simp add: jm_wf_set less_SucI)
qed

lemma enqueue_inv [inv_intros]:
  assumes "queue_inv q"
  shows "queue_inv (enqueueCommandInLane now q l w cb)"
proof (cases "gatewayDraining q")
  case True
  with assms show ?thesis by (simp add: enqueueCommandInLane_def queue_inv_emit)
next
  case False
  let ?l = "normalizeLane l"
  let ?e = "\<lparr> qe_id = nextEntryId q, enqueuedAt = now, warnAfterMs = nullish w 2000, onWait = cb \<rparr>"
  let ?st = "(getLaneState q ?l)\<lparr>queue := queue (getLaneState q ?l) @ [?e]\<rparr>"
  let ?q = "put_lane (q\<lparr>nextEntryId := nextEntryId q + 1\<rparr>) ?st"
  have c: "core q" and qu: "quiet q" and w: "waiters_live q" using assms by (simp_all add: queue_inv_def)
  have nm: "lane (getLaneState q ?l) = ?l" using c by (rule core_lane_name)
  have c': "core ?q" by (rule core_enqueue [OF c refl]) simp
  have "quiet_except {?l} ?q"
    using qu nm getLaneState_cases [of q ?l]
    by (auto simp: quiet_def quiet_except_def quiet_lane_def new_lane_def)
  moreover have "waiters_live ?q"
    by (rule waiters_live_grow [OF w coreM_wf [OF c] coreM_wf [OF c']])
      (use nm getLaneState_cases [of q ?l] in \<open>auto simp: lanes_grow_def\<close>)
  ultimately have "queue_inv (drainLane now ?q ?l)" by (intro drain_inv c')
  with False show ?thesis by (simp add: enqueueCommandInLane_def Let_def)
qed

lemma concurrency_inv [inv_intros]:
  assumes "queue_inv q"
  shows "queue_inv (setCommandLaneConcurrency now q l n)"
proof -
  let ?l = "normalizeLane l"
  let ?st = "(getLaneState q ?l)\<lparr>maxConcurrent := max 1 \<lfloor>n\<rfloor>\<rparr>"
  have c: "core q" and qu: "quiet q" and w: "waiters_live q" using assms by (simp_all add: queue_inv_def)
  have nm: "lane (getLaneState q ?l) = ?l" using c by (rule core_lane_name)
  have c': "core (put_lane q ?st)" by (rule core_put_getLane [OF c, where l = ?l]) (simp_all add: nm)
  have "quiet_except {?l} (put_lane q ?st)"
    using qu nm getLaneState_cases [of q ?l]
    by (auto simp: quiet_def quiet_except_def quiet_lane_def new_lane_def)
  moreover have "waiters_live (put_lane q ?st)"
    by (rule waiters_live_grow [OF w coreM_wf [OF c] coreM_wf [OF c']])
      (use nm getLaneState_cases [of q ?l] in \<open>auto simp: lanes_grow_def\<close>)
  ultimately have "queue_inv (drainLane now (put_lane q ?st) ?l)" by (intro drain_inv c')
  then show ?thesis by (simp add: setCommandLaneConcurrency_def Let_def)
qed

text \<open>Clearing a lane settles its waiting entries with the error and starts nothing.\<close>

lemma reject_fold:
  "foldl (\<lambda>q e. emit_effect q (Rejected (qe_id e) r)) q es =
     q\<lparr>effects := effects q @ map (\<lambda>e. Rejected (qe_id e) r) es\<rparr>"
  by (induction es arbitrary: q) (simp_all add: emit_effect_def)

lemma clear_inv [inv_intros]:
  assumes "queue_inv q"
  shows "queue_inv (snd (clearCommandLane q l))"
proof (cases "jm_get (lanes q) (normalizeLane l)")
  case None
  with assms show ?thesis by (simp add: clearCommandLane_def)
next
  case (Some st)
  let ?l = "normalizeLane l"
  let ?st = "st\<lparr>queue := []\<rparr>"
  let ?eff = "map (\<lambda>e. Rejected (qe_id e) (CommandLaneClearedError ?l)) (queue st)"
  let ?q = "(put_lane q ?st)\<lparr>effects := effects q @ ?eff\<rparr>"
  have c: "core q" and qu: "quiet q" and w: "waiters_live q" using assms by (simp_all add: queue_inv_def)
  have eq: "snd (clearCommandLane q l) = ?q"
    using Some by (simp add: clearCommandLane_def reject_fold Let_def)
  have ok: "lane_ok q k s" if "jm_get (lanes q) k = Some s" for k s using c that by (rule core_lane)
  have nm: "lane st = ?l" using ok [OF Some] by (simp add: lane_ok_def)
  have none: "concat (map (\<lambda>e. started_of k (Rejected (qe_id e) x)) es) = []" for k x and es :: "queue_entry list"
    by (induction es) auto
  have st_in: "started_in k ?q = started_in k q" for k
    by (simp add: started_in_def o_def none)
  have se: "concat (map (\<lambda>e. settled_of (Rejected (qe_id e) x)) es) = map qe_id es" for x and es :: "queue_entry list"
    by (induction es) auto
  have settled: "settled_ids ?q = settled_ids q @ map qe_id (queue st)"
    by (simp add: settled_ids_def o_def se)
  have m: "mset (queued_ids ?q) + mset (map qe_id (queue st)) = mset (queued_ids q)"
    using queued_put_old [of q ?st st] Some nm by (simp add: queued_ids_def)
  have lanes_ok: "lane_ok ?q k s" if k: "jm_get (lanes ?q) k = Some s" for k s
  proof (cases "k = ?l")
    case True
    moreover have "jm_get (lanes ?q) ?l = Some ?st" using nm by simp
    ultimately have "s = ?st" using k by simp
    with True ok [OF Some] show ?thesis
      unfolding lane_ok_def st_in by (simp add: current_tasks_def sorted_wrt_append)
  next
    case False
    with k nm have "jm_get (lanes q) k = Some s" by simp
    from ok [OF this] show ?thesis unfolding lane_ok_def st_in by (simp add: current_tasks_def)
  qed
  have il: "inflight_ids ?q = inflight_ids q" by (simp add: inflight_ids_def)
  have "mset (queued_ids q) + mset (inflight_ids q) + mset (settled_ids q) = mset [0..<nextEntryId q]"
    using c by (simp add: coreM_def)
  then have m2: "mset (queued_ids ?q) + mset (inflight_ids ?q) + mset (settled_ids ?q) = mset [0..<nextEntryId ?q]"
    unfolding settled il m [symmetric] by (simp add: ac_simps)
  have c': "core ?q" using c lanes_ok m2 unfolding coreM_def st_in by (auto simp: jm_wf_set)
  moreover have "quiet ?q"
    using qu Some nm by (auto simp: quiet_def quiet_lane_def work_conserving_def)
  moreover have "waiters_live ?q"
    by (rule waiters_live_grow [OF w coreM_wf [OF c] coreM_wf [OF c']])
      (use nm Some in \<open>auto simp: lanes_grow_def\<close>)
  ultimately show ?thesis unfolding eq by (simp add: queue_inv_def)
qed

lemma mark_inv [inv_intros]: "queue_inv q \<Longrightarrow> queue_inv (markGatewayDraining q)"
  by (simp add: markGatewayDraining_def queue_inv_def coreM_def lane_ok_def current_tasks_def
      quiet_def waiters_live_def hasPendingActiveTasks_def queued_ids_def inflight_ids_def
      settled_ids_def started_in_def)

lemma drain_fold:
  "coreM M q \<Longrightarrow> quiet_except S q \<Longrightarrow>
   coreM M (foldl (drainLane now) q ls) \<and> quiet_except (S - set ls) (foldl (drainLane now) q ls)"
proof (induction ls arbitrary: q S)
  case (Cons l ls)
  have "coreM M (drainLane now q l)" "quiet_except (S - {l}) (drainLane now q l)"
    using drain_core [OF Cons.prems] by auto
  from Cons.IH [OF this] show ?case by (simp add: Diff_insert2 [of S l "set ls"])
qed simp

text \<open>Bumping the generations: no closure of the new generation exists yet, so the emptied active
  sets are right.\<close>

definition reset_lane :: "lane_state \<Rightarrow> lane_state" where
  "reset_lane st = st\<lparr>generation := generation st + 1, activeTaskIds := [], draining := False\<rparr>"

lemma core_reset:
  assumes c: "core q"
  shows "core (q\<lparr>gatewayDraining := False, lanes := map (\<lambda>(l, st). (l, reset_lane st)) (lanes q)\<rparr>)"
proof -
  let ?q = "q\<lparr>gatewayDraining := False, lanes := map (\<lambda>(l, st). (l, reset_lane st)) (lanes q)\<rparr>"
  have get: "jm_get (lanes ?q) l = map_option reset_lane (jm_get (lanes q) l)" for l
    using jm_get_map [of "\<lambda>_. reset_lane" "lanes q" l] by simp
  have lanes_ok: "lane_ok ?q l s" if "jm_get (lanes ?q) l = Some s" for l s
  proof -
    from that get obtain u where u: "jm_get (lanes q) l = Some u" "s = reset_lane u" by auto
    with c have ok: "lane_ok q l u" by (blast intro: core_lane)
    have "current_tasks ?q l (Suc (generation u)) = {}"
      using ok by (fastforce simp: lane_ok_def current_tasks_def)
    with ok u show ?thesis
      by (auto simp: lane_ok_def reset_lane_def started_in_def)
  qed
  have ids: "queued_ids ?q = queued_ids q"
  proof -
    have "map (\<lambda>p. map qe_id (queue (snd p))) (map (\<lambda>(l, st). (l, reset_lane st)) m)
        = map (\<lambda>p. map qe_id (queue (snd p))) m" for m :: "(string \<times> lane_state) list"
      by (induction m) (auto simp: reset_lane_def)
    moreover have "lanes ?q = map (\<lambda>(l, st). (l, reset_lane st)) (lanes q)" by simp
    ultimately show ?thesis by (simp only: queued_ids_def)
  qed
  have rest: "inflight_ids ?q = inflight_ids q" "settled_ids ?q = settled_ids q"
    and st: "started_in l ?q = started_in l q" for l
    by (simp_all add: inflight_ids_def settled_ids_def started_in_def)
  have wf: "jm_wf (lanes ?q)" using c by (simp add: coreM_def)
  show ?thesis
    using c lanes_ok wf get unfolding coreM_def ids rest st by auto
qed

lemma reset_inv [inv_intros]:
  assumes "queue_inv q"
  shows "queue_inv (resetAllLanes now q)"
proof -
  let ?q = "q\<lparr>gatewayDraining := False, lanes := map (\<lambda>(l, st). (l, reset_lane st)) (lanes q)\<rparr>"
  let ?ls = "map lane (filter (\<lambda>st. queue st \<noteq> []) (jm_values (lanes ?q)))"
  have c: "core q" using assms by (simp add: queue_inv_def)
  have c': "core ?q" by (rule core_reset [OF c])
  have "quiet_except (set ?ls) ?q"
    unfolding quiet_except_def
  proof (intro allI impI conjI)
    fix l st assume g: "jm_get (lanes ?q) l = Some st"
    have ok: "lane_ok ?q l st" by (rule core_lane [OF c' g])
    have "jm_get (lanes ?q) l = map_option reset_lane (jm_get (lanes q) l)"
      using jm_get_map [of "\<lambda>_. reset_lane" "lanes q" l] by simp
    with g have "map_option reset_lane (jm_get (lanes q) l) = Some st" by simp
    then obtain u where "st = reset_lane u" by auto
    then show "\<not> draining st" by (simp add: reset_lane_def)
    assume n: "l \<notin> set ?ls"
    have "st \<in> set (jm_values (lanes ?q))"
      using jm_get_Some_in [OF g] by (force simp: jm_values_def)
    with n ok show "work_conserving st" by (fastforce simp: lane_ok_def work_conserving_def)
  qed
  from drain_fold [OF c' this, of now ?ls]
  have d: "core (foldl (drainLane now) ?q ?ls)" "quiet (foldl (drainLane now) ?q ?ls)"
    by (simp_all add: quiet_iff)
  have "queue_inv (notifyActiveTaskWaiters (foldl (drainLane now) ?q ?ls))"
    using d notify_core(1) notify_live by (auto simp: queue_inv_def quiet_def lanes_notify)
  moreover have "resetAllLanes now q = notifyActiveTaskWaiters (foldl (drainLane now) ?q ?ls)"
    unfolding resetAllLanes_def Let_def reset_lane_def by simp
  ultimately show ?thesis by simp
qed

lemma notify_inv:
  "core q \<Longrightarrow> quiet q \<Longrightarrow> queue_inv (notifyActiveTaskWaiters q)"
  using notify_core(1) notify_live by (auto simp: queue_inv_def quiet_def lanes_notify)

lemma core_waiter_fields:
  "core q \<Longrightarrow> core (q\<lparr>nextWaiterId := n\<rparr>)"
  "core q \<Longrightarrow> core (q\<lparr>activeTaskWaiters := ws\<rparr>)"
  by (simp_all add: coreM_def lane_ok_def current_tasks_def queued_ids_def inflight_ids_def
      settled_ids_def started_in_def)

lemma wait_inv [inv_intros]: "queue_inv q \<Longrightarrow> queue_inv (waitForActiveTasks q t)"
proof -
  assume i: "queue_inv q"
  let ?q = "q\<lparr>nextWaiterId := nextWaiterId q + 1\<rparr>"
  from i have q: "queue_inv ?q"
    by (auto simp: queue_inv_def core_waiter_fields quiet_def waiters_live_def hasPendingActiveTasks_def)
  have "queue_inv (notifyActiveTaskWaiters (?q\<lparr>activeTaskWaiters := ws\<rparr>))" for ws
  proof (rule notify_inv)
    show "core (?q\<lparr>activeTaskWaiters := ws\<rparr>)"
      by (rule core_waiter_fields(2)) (use q in \<open>simp add: queue_inv_def\<close>)
    show "quiet (?q\<lparr>activeTaskWaiters := ws\<rparr>)" using q by (simp add: queue_inv_def quiet_def)
  qed
  with q show ?thesis by (simp add: waitForActiveTasks_def Let_def queue_inv_emit)
qed

lemma timeout_inv [inv_intros]: "queue_inv q \<Longrightarrow> queue_inv (waiterTimeout q i)"
proof -
  assume q: "queue_inv q"
  have "queue_inv (q\<lparr>activeTaskWaiters := js_set_delete (activeTaskWaiters q) w\<rparr>)" for w
    using q by (auto simp: queue_inv_def core_waiter_fields quiet_def waiters_live_def
        hasPendingActiveTasks_def)
  with q show ?thesis
    by (auto simp: waiterTimeout_def resolveActiveTaskWaiter_def queue_inv_emit split: option.splits)
qed

subsection \<open>Settling a task\<close>

lemma find_inflight:
  assumes "find (\<lambda>f. if_taskId f = t) fs = Some f"
  shows "f \<in> set fs" "if_taskId f = t"
  using assms by (auto simp: find_Some_iff)

lemma mset_drop_task:
  assumes "distinct (map if_taskId fs)" "f \<in> set fs"
  shows "mset (map if_entry (filter (\<lambda>g. if_taskId g \<noteq> if_taskId f) fs)) + {#if_entry f#}
       = mset (map if_entry fs)"
  using assms
proof (induction fs)
  case (Cons g fs)
  show ?case
  proof (cases "g = f")
    case True
    with Cons.prems have "if_taskId f \<notin> if_taskId ` set fs" by simp
    then have "\<forall>h \<in> set fs. if_taskId h \<noteq> if_taskId f" by (metis imageI)
    then have "filter (\<lambda>h. if_taskId h \<noteq> if_taskId f) fs = fs" by simp
    with True show ?thesis by simp
  next
    case False
    with Cons have "f \<in> set fs" "if_taskId g \<noteq> if_taskId f" by auto
    with Cons show ?thesis by simp
  qed
qed simp

text \<open>The closure of \<open>f\<close> leaves \<open>inflight\<close> and, if it is of the current generation, the active
  set of its lane; its entry is in the hands of the completion code.\<close>

lemma core_complete:
  assumes c: "core q" and f: "f \<in> set (inflight q)"
    and q': "q' = q\<lparr>inflight := filter (\<lambda>g. if_taskId g \<noteq> if_taskId f) (inflight q)\<rparr>"
    and st: "st = getLaneState q (if_lane f)"
    and st': "completeTask st (if_taskId f) (if_generation f) = (b, st')"
  shows "coreM {#if_entry f#} (put_lane q' st')"
proof -
  let ?l = "if_lane f" and ?p = "put_lane q' st'"
  have some: "jm_get (lanes q) ?l = Some st"
    using c f getLaneState_cases [of q ?l] st by (auto simp: coreM_def)
  have ok: "lane_ok q k s" if "jm_get (lanes q) k = Some s" for k s using c that by (rule core_lane)
  have nm: "lane st' = ?l" "queue st' = queue st" "generation st' = generation st"
      "maxConcurrent st' = maxConcurrent st"
    using ok [OF some] st' by (auto simp: completeTask_def lane_ok_def split: if_splits)
  have dist: "distinct (map if_taskId (inflight q))" using c by (simp add: coreM_def)
  have uniq: "g = f" if "g \<in> set (inflight q)" "if_taskId g = if_taskId f" for g
    using dist that f by (auto simp: distinct_map dest: inj_onD)
  have ct: "current_tasks ?p k g = current_tasks q k g - {if_taskId f}" for k g
    by (auto simp: current_tasks_def q')
  have gen_le: "if_generation f \<le> generation st" using ok [OF some] f by (auto simp: lane_ok_def)
  have st_in: "started_in k ?p = started_in k q" for k by (simp add: started_in_def q')
  have lanes_ok: "lane_ok ?p k s" if k: "jm_get (lanes ?p) k = Some s" for k s
  proof (cases "k = ?l")
    case True
    with k nm have s: "s = st'" by (simp add: q')
    have "if_taskId f \<notin> current_tasks q ?l (generation st)" if "if_generation f \<noteq> generation st"
      using that uniq by (auto simp: current_tasks_def)
    then have "distinct (activeTaskIds st') \<and>
        set (activeTaskIds st') = current_tasks q ?l (generation st) - {if_taskId f}"
      using ok [OF some] st' by (auto simp: completeTask_def lane_ok_def split: if_splits)
    with True s nm ok [OF some] show ?thesis
      unfolding lane_ok_def ct st_in by (simp add: q')
  next
    case False
    with k nm have g: "jm_get (lanes q) k = Some s" by (simp add: q')
    have "if_taskId f \<notin> current_tasks q k (generation s)"
      using False uniq by (auto simp: current_tasks_def)
    with ok [OF g] show ?thesis unfolding lane_ok_def ct st_in by (simp add: q')
  qed
  have qi: "mset (queued_ids ?p) = mset (queued_ids q)"
    using queued_put_old [of q' st' st] some nm by (simp add: q' queued_ids_def)
  have ii: "mset (inflight_ids ?p) + {#if_entry f#} = mset (inflight_ids q)"
    using mset_drop_task [OF dist f] by (simp add: inflight_ids_def q')
  have si: "settled_ids ?p = settled_ids q" by (simp add: settled_ids_def q')
  have "mset (queued_ids q) + mset (inflight_ids q) + mset (settled_ids q) = mset [0..<nextEntryId q]"
    using c by (simp add: coreM_def)
  then have m: "mset (queued_ids ?p) + mset (inflight_ids ?p) + mset (settled_ids ?p) + {#if_entry f#}
      = mset [0..<nextEntryId ?p]"
    unfolding qi si ii [symmetric] by (simp add: q' ac_simps)
  have wf: "jm_wf (lanes ?p)" using c by (simp add: coreM_def q')
  have lt: "\<forall>g \<in> set (inflight ?p). if_taskId g < nextTaskId ?p \<and> jm_get (lanes ?p) (if_lane g) \<noteq> None"
    using c by (auto simp: coreM_def q')
  have nt: "\<forall>l. jm_get (lanes ?p) l = None \<longrightarrow> started_in l ?p = []"
    unfolding st_in using c by (auto simp: coreM_def q')
  have dt: "distinct (map if_taskId (inflight ?p))"
    using dist by (simp add: q' distinct_map_filter)
  have sb: "\<forall>l. \<forall>i \<in> set (started_in l ?p). i < nextEntryId ?p"
    unfolding st_in using c by (simp add: coreM_def q')
  show ?thesis unfolding coreM_def using wf lanes_ok dt lt nt sb m by blast
qed

lemma core_settle_emit:
  "coreM {#i#} q \<Longrightarrow> settled_of x = [i] \<Longrightarrow> (\<And>l. started_of l x = []) \<Longrightarrow> core (emit_effect q x)"
  by (simp add: coreM_def lane_ok_def current_tasks_def)

text \<open>A closure of an older generation is not in the active set of its lane.\<close>

lemma stale_put_same:
  assumes "core q" "f \<in> set (inflight q)" "completeTask (getLaneState q (if_lane f)) t g = (False, st')"
  shows "jm_get (lanes q) (if_lane f) = Some st'" "lane st' = if_lane f"
  using assms getLaneState_cases [of q "if_lane f"] core_lane_name [OF assms(1), of "if_lane f"]
  by (auto simp: completeTask_def coreM_def split: if_splits)

lemma settle_inv [inv_intros]:
  assumes i: "queue_inv q"
  shows "queue_inv (settleTask now q t ok)"
proof (cases "find (\<lambda>f. if_taskId f = t) (inflight q)")
  case None
  with i show ?thesis by (simp add: settleTask_def)
next
  case (Some f)
  note f = find_inflight [OF Some]
  have c: "core q" and qu: "quiet q" and w: "waiters_live q" using i by (simp_all add: queue_inv_def)
  let ?q = "q\<lparr>inflight := filter (\<lambda>g. if_taskId g \<noteq> t) (inflight q)\<rparr>"
  let ?x = "if ok then Resolved (if_entry f) else Rejected (if_entry f) TaskFailed"
  have x: "settled_of ?x = [if_entry f]" "\<And>l. started_of l ?x = []" by auto
  obtain b st' where cp: "completeTask (getLaneState q (if_lane f)) t (if_generation f) = (b, st')"
    by (cases "completeTask (getLaneState q (if_lane f)) t (if_generation f)")
  have gl: "getLaneState ?q (if_lane f) = getLaneState q (if_lane f)" by (simp add: getLaneState_def)
  have cM: "coreM {#if_entry f#} (put_lane ?q st')"
    by (rule core_complete [OF c f(1) _ refl]) (use f cp in simp_all)
  show ?thesis
  proof (cases b)
    case False
    with cp have "completeTask (getLaneState q (if_lane f)) t (if_generation f) = (False, st')" by simp
    note s = stale_put_same [OF c f(1) this]
    have "put_lane ?q st' = ?q" using s by (simp add: put_lane_def)
    with cM have "core (emit_effect ?q ?x)" using core_settle_emit [OF _ x] by simp
    moreover have "settleTask now q t ok = emit_effect ?q ?x"
      using Some cp False by (simp add: settleTask_def Let_def gl)
    ultimately show ?thesis
      using qu w by (simp add: queue_inv_def quiet_def waiters_live_def hasPendingActiveTasks_def)
  next
    case True
    let ?n = "notifyActiveTaskWaiters (put_lane ?q st')"
    have nm: "lane st' = if_lane f" "draining st' = draining (getLaneState q (if_lane f))"
      using cp core_lane_name [OF c, of "if_lane f"] by (auto simp: completeTask_def split: if_splits)
    have g: "getLaneState ?n (if_lane f) = st'" by (simp add: getLaneState_def lanes_notify nm)
    have "put_lane ?n st' = ?n"
      by (simp add: put_lane_def lanes_notify nm)
    moreover have "coreM {#if_entry f#} ?n" by (rule notify_core(1) [OF cM])
    ultimately have cn: "coreM {#if_entry f#} (put_lane ?n st')" and wn: "waiters_live (put_lane ?n st')"
      using notify_live by simp_all
    let ?p = "pump now st' ?n"
    have cp': "coreM {#if_entry f#} ?p" by (rule pump_core [OF cn])
    have "quiet_except {if_lane f} ?n"
      using qu nm getLaneState_cases [of q "if_lane f"]
      by (auto simp: quiet_except_def quiet_def quiet_lane_def lanes_notify new_lane_def)
    from pump_quiet [OF this, where st = st' and now = now] nm have "quiet ?p" by (simp add: quiet_iff)
    moreover have "waiters_live ?p" by (rule pump_waiters [OF cn wn])
    moreover have "core (emit_effect ?p ?x)" by (rule core_settle_emit [OF cp' x])
    moreover have "settleTask now q t ok = emit_effect ?p ?x"
      using Some cp True by (simp add: settleTask_def Let_def gl g)
    ultimately show ?thesis
      by (simp add: queue_inv_def quiet_def waiters_live_def hasPendingActiveTasks_def)
  qed
qed

lemma queue_step_inv: "queue_inv q \<Longrightarrow> queue_inv (queue_step q e)"
  by (cases "(q, e)" rule: queue_step.cases) (auto intro: inv_intros)

interpretation cq: guarded_machine queue_step queue_inv
  by unfold_locales (rule queue_step_inv)

lemma queue_run_inv: "queue_inv (queue_run es)"
  unfolding queue_run_def by (rule cq.run_inv [OF queue_inv_init])

subsection \<open>How far a lane fills\<close>

text \<open>\<open>lanes_bounded q q'\<close>: no lane has lost its entry in the map, the limits are as before, and a
  lane has at most as many active tasks as before or as its limit allows.\<close>

definition active_count :: "lane_state \<Rightarrow> int" where
  "active_count st = int (length (activeTaskIds st))"

definition lanes_bounded :: "queue_state \<Rightarrow> queue_state \<Rightarrow> bool" where
  "lanes_bounded q q' \<longleftrightarrow> (\<forall>l. (jm_get (lanes q) l \<noteq> None \<longrightarrow> jm_get (lanes q') l \<noteq> None) \<and>
     maxConcurrent (getLaneState q' l) = maxConcurrent (getLaneState q l) \<and>
     active_count (getLaneState q' l) \<le> max (active_count (getLaneState q l)) (maxConcurrent (getLaneState q l)))"

lemma lanes_bounded_same: "lanes q' = lanes q \<Longrightarrow> lanes_bounded q q'"
  by (simp add: lanes_bounded_def getLaneState_def)

lemma lanes_bounded_put:
  assumes "lane st' = l" "maxConcurrent st' = maxConcurrent (getLaneState q l)"
    "active_count st' \<le> max (active_count (getLaneState q l)) (maxConcurrent (getLaneState q l))"
    "lanes q' = jm_set (lanes q) l st'"
  shows "lanes_bounded q q'"
  using assms by (auto simp: lanes_bounded_def getLaneState_def)

lemma pump_bounded:
  assumes "lane st = l" "maxConcurrent st = maxConcurrent (getLaneState q l)"
    "active_count st \<le> active_count (getLaneState q l)"
  shows "lanes_bounded q (pump now st q)"
proof -
  obtain st' where "lanes (pump now st q) = jm_set (lanes q) (lane st) st'" "lane st' = lane st"
    "maxConcurrent st' = maxConcurrent st"
    "int (length (activeTaskIds st')) \<le> max (int (length (activeTaskIds st))) (maxConcurrent st)"
    using pump_lanes [of now st q] by blast
  with assms show ?thesis by (intro lanes_bounded_put [of st' l]) (auto simp: active_count_def)
qed

lemma drain_bounded:
  assumes "lane (getLaneState q l) = l"
  shows "lanes_bounded q (drainLane now q l)"
proof (cases "draining (getLaneState q l)")
  case True
  then have "drainLane now q l = put_lane q (getLaneState q l)" by (simp add: drainLane_def Let_def)
  with assms show ?thesis by (intro lanes_bounded_put [of "getLaneState q l" l]) simp_all
next
  case False
  then have "drainLane now q l = pump now ((getLaneState q l)\<lparr>draining := True\<rparr>) q"
    by (simp add: drainLane_def Let_def)
  moreover have "lanes_bounded q (pump now ((getLaneState q l)\<lparr>draining := True\<rparr>) q)"
    using assms by (intro pump_bounded [where l = l]) (simp_all add: active_count_def)
  ultimately show ?thesis by simp
qed

text \<open>The limit of a lane is set by \<open>setCommandLaneConcurrency\<close> only.\<close>

fun limit_of :: "string \<Rightarrow> int \<times> queue_event \<Rightarrow> int" where
  "limit_of l (now, SetConcurrency l' n) = (if normalizeLane l' = l then max 1 \<lfloor>n\<rfloor> else 1)"
| "limit_of l (now, _) = 1"

definition limit_so_far :: "string \<Rightarrow> (int \<times> queue_event) list \<Rightarrow> int" where
  "limit_so_far l es = foldr max (map (limit_of l) es) 1"

lemma limit_snoc: "limit_so_far l (es @ [e]) = max (limit_so_far l es) (limit_of l e)"
proof -
  have f: "foldr max xs (max a b) = max (foldr max xs a) (b :: int)" for xs a b
    by (induction xs) (auto simp: max.assoc)
  have "1 \<le> limit_of l e" by (cases "(l, e)" rule: limit_of.cases) auto
  then have "limit_so_far l (es @ [e]) = foldr max (map (limit_of l) es) (max 1 (limit_of l e))"
    by (simp add: limit_so_far_def)
  then show ?thesis unfolding f by (simp add: limit_so_far_def)
qed

definition within_limit :: "int \<Rightarrow> lane_state \<Rightarrow> bool" where
  "within_limit m st \<longleftrightarrow> maxConcurrent st \<le> m \<and> active_count st \<le> m"

lemma within_bounded:
  "lanes_bounded q q' \<Longrightarrow> within_limit m (getLaneState q l) \<Longrightarrow> within_limit m (getLaneState q' l)"
  unfolding lanes_bounded_def within_limit_def
  by (metis max_def order_trans)

lemma within_put:
  "lane st = k \<Longrightarrow> getLaneState (put_lane q st) l = (if l = k then st else getLaneState q l)"
  by (auto simp: getLaneState_def)

lemma drain_fold_within:
  "coreM M q \<Longrightarrow> quiet_except S q \<Longrightarrow> within_limit m (getLaneState q l) \<Longrightarrow>
   within_limit m (getLaneState (foldl (drainLane now) q ls) l)"
proof (induction ls arbitrary: q S)
  case (Cons k ls)
  have "within_limit m (getLaneState (drainLane now q k) l)"
    by (rule within_bounded [OF drain_bounded Cons.prems(3)])
      (rule core_lane_name [OF Cons.prems(1)])
  from Cons.IH [OF drain_core(1) [OF Cons.prems(1,2)] drain_core(2) [OF Cons.prems(1,2)] this]
  show ?case by simp
qed simp

lemma within_initial_lane: "1 \<le> m \<Longrightarrow> within_limit m (new_lane l)"
  by (simp add: within_limit_def new_lane_def active_count_def)

lemma within_same_lanes:
  "lanes q' = lanes q \<Longrightarrow> within_limit m (getLaneState q l) \<Longrightarrow> within_limit m (getLaneState q' l)"
  by (simp add: getLaneState_def)

lemma drain_put_within:
  assumes "lane st = k" "within_limit m (getLaneState (put_lane q st) l)"
  shows "within_limit m (getLaneState (drainLane now (put_lane q st) k) l)"
  by (rule within_bounded [OF drain_bounded assms(2)]) (simp add: within_put assms(1))

lemma reset_within:
  assumes "core q" "within_limit m (getLaneState q l)" "1 \<le> m"
  shows "within_limit m (getLaneState (resetAllLanes now q) l)"
proof -
  let ?q = "q\<lparr>gatewayDraining := False, lanes := map (\<lambda>(l, st). (l, reset_lane st)) (lanes q)\<rparr>"
  let ?ls = "map lane (filter (\<lambda>st. queue st \<noteq> []) (jm_values (lanes ?q)))"
  have g: "jm_get (lanes ?q) k = map_option reset_lane (jm_get (lanes q) k)" for k
    using jm_get_map [of "\<lambda>_. reset_lane" "lanes q" k] by simp
  have nd: "quiet_except UNIV ?q"
    using g by (auto simp: quiet_except_def reset_lane_def dest: sym)
  have "within_limit m (getLaneState ?q l)"
    using g [of l] assms by (auto simp: getLaneState_def reset_lane_def within_limit_def active_count_def
        split: option.splits)
  from drain_fold_within [OF core_reset [OF assms(1)] nd this, of now ?ls]
  have "within_limit m (getLaneState (foldl (drainLane now) ?q ?ls) l)" .
  moreover have "resetAllLanes now q = notifyActiveTaskWaiters (foldl (drainLane now) ?q ?ls)"
    unfolding resetAllLanes_def Let_def reset_lane_def by simp
  ultimately show ?thesis by (simp add: within_same_lanes [OF lanes_notify])
qed

lemma settle_within:
  assumes i: "queue_inv q" and w: "within_limit m (getLaneState q l)"
  shows "within_limit m (getLaneState (settleTask now q t ok) l)"
proof (cases "find (\<lambda>f. if_taskId f = t) (inflight q)")
  case None
  with w show ?thesis by (simp add: settleTask_def)
next
  case (Some f)
  let ?q = "q\<lparr>inflight := filter (\<lambda>g. if_taskId g \<noteq> t) (inflight q)\<rparr>"
  obtain b st' where cp: "completeTask (getLaneState q (if_lane f)) t (if_generation f) = (b, st')"
    by (cases "completeTask (getLaneState q (if_lane f)) t (if_generation f)")
  have gl: "getLaneState ?q k = getLaneState q k" for k by (simp add: getLaneState_def)
  have nm: "lane (getLaneState q (if_lane f)) = if_lane f"
    using i by (auto simp: queue_inv_def intro: core_lane_name)
  show ?thesis
  proof (cases b)
    case False
    with Some cp have "lanes (settleTask now q t ok) = lanes q"
      by (simp add: settleTask_def Let_def gl)
    with w show ?thesis by (rule within_same_lanes [rotated])
  next
    case True
    let ?n = "notifyActiveTaskWaiters (put_lane ?q st')"
    have st': "lane st' = if_lane f" "maxConcurrent st' = maxConcurrent (getLaneState q (if_lane f))"
      "active_count st' \<le> active_count (getLaneState q (if_lane f))"
      using cp nm by (auto simp: completeTask_def active_count_def length_js_set_delete_le split: if_splits)
    have g: "getLaneState ?n k = (if k = if_lane f then st' else getLaneState q k)" for k
      by (auto simp: getLaneState_def lanes_notify st'(1))
    have "within_limit m (getLaneState ?n l)"
      using w st' by (auto simp: g within_limit_def)
    then have "within_limit m (getLaneState (pump now st' ?n) l)"
      by (rule within_bounded [OF pump_bounded [where l = "if_lane f"], rotated 3])
        (simp_all add: g st')
    moreover have "lanes (settleTask now q t ok) = lanes (pump now st' ?n)"
      using Some cp True g [of "if_lane f"] by (simp add: settleTask_def Let_def gl)
    ultimately show ?thesis by (simp add: within_same_lanes)
  qed
qed

lemma queue_step_within:
  assumes i: "queue_inv q" and w: "within_limit m (getLaneState q l)" and m: "1 \<le> m"
    and lim: "limit_of l e \<le> m"
  shows "within_limit m (getLaneState (queue_step q e) l)"
proof -
  have c: "core q" using i by (simp add: queue_inv_def)
  have nm: "lane (getLaneState q k) = k" for k using c by (rule core_lane_name)
  have ge: "getLaneState (q\<lparr>nextEntryId := n\<rparr>) k = getLaneState q k" for n k
    by (simp add: getLaneState_def)
  show ?thesis
  proof (cases "(q, e)" rule: queue_step.cases)
    case (1 q' now k wa cb)
    then have e: "e = (now, EnqueueInLane k wa cb)" by simp
    let ?k = "normalizeLane k"
    have "within_limit m (getLaneState (put_lane (q\<lparr>nextEntryId := nextEntryId q + 1\<rparr>)
        ((getLaneState q ?k)\<lparr>queue := x\<rparr>)) l)" for x
      using w by (auto simp: within_put nm ge within_limit_def active_count_def)
    with w show ?thesis
      by (auto simp: e enqueueCommandInLane_def Let_def nm intro!: drain_put_within
          intro: within_same_lanes [OF lanes_emit])
  next
    case (2 q' now k n)
    then have e: "e = (now, SetConcurrency k n)" by simp
    let ?k = "normalizeLane k"
    have "within_limit m (getLaneState (put_lane q ((getLaneState q ?k)\<lparr>maxConcurrent := max 1 \<lfloor>n\<rfloor>\<rparr>)) l)"
      using w lim m by (auto simp: e within_put nm within_limit_def active_count_def)
    then show ?thesis
      by (auto simp: e setCommandLaneConcurrency_def Let_def nm intro!: drain_put_within)
  next
    case (3 q' now k)
    then show ?thesis
      using w c by (auto simp: clearCommandLane_def Let_def reject_fold getLaneState_def within_limit_def
          active_count_def lane_ok_def dest: core_lane split: option.splits)
  next
    case (4 q' now)
    then show ?thesis using reset_within [OF c w m] by simp
  next
    case (5 q' now)
    then show ?thesis using w by (simp add: markGatewayDraining_def getLaneState_def)
  next
    case (6 q' now t)
    then show ?thesis using w
      by (auto simp: waitForActiveTasks_def Let_def lanes_notify getLaneState_def)
  next
    case (7 q' now i)
    then show ?thesis using w
      by (auto simp: waiterTimeout_def resolveActiveTaskWaiter_def getLaneState_def split: option.splits)
  next
    case (8 q' now t ok)
    then show ?thesis using settle_within [OF i w] by simp
  qed
qed

lemma queue_run_within: "within_limit (limit_so_far l es) (getLaneState (queue_run es) l)"
proof (induction es rule: rev_induct)
  case Nil
  show ?case
    by (simp add: queue_run_def initial_queue_state_def getLaneState_def limit_so_far_def within_initial_lane)
next
  case (snoc e es)
  have one: "1 \<le> limit_so_far l es" unfolding limit_so_far_def by (induction es) auto
  have "within_limit (limit_so_far l (es @ [e])) (getLaneState (queue_run es) l)"
    using snoc unfolding limit_snoc within_limit_def by auto
  from queue_step_within [OF queue_run_inv this] one show ?case
    by (simp add: limit_snoc queue_run_def)
qed

subsection \<open>Properties\<close>

text \<open>C3: No command is lost and no promise is settled twice: after any sequence of calls and
  completions, the accepted enqueues (numbered from 0) are exactly the entries still waiting in some
  lane, the entries whose task is running, and the entries whose promise has been settled, each in
  one of the three places and once.\<close>

theorem queue_conservation:
  "distinct (queued_ids (queue_run es) @ inflight_ids (queue_run es) @ settled_ids (queue_run es)) \<and>
   set (queued_ids (queue_run es) @ inflight_ids (queue_run es) @ settled_ids (queue_run es))
     = {0..<nextEntryId (queue_run es)}"
proof -
  let ?q = "queue_run es"
  have "mset (queued_ids ?q @ inflight_ids ?q @ settled_ids ?q) = mset [0..<nextEntryId ?q]"
    using queue_run_inv [of es] by (simp add: queue_inv_def coreM_def add.assoc)
  from mset_eq_imp_distinct_iff [OF this] mset_eq_setD [OF this] show ?thesis
    by (simp only: distinct_upt set_upt)
qed

text \<open>C12: No lane stalls: after any sequence of calls and completions, a lane is not marked
  draining, and it has no waiting entry unless it runs as many tasks as its limit allows.\<close>

theorem queue_never_stalls:
  assumes "jm_get (lanes (queue_run es)) l = Some st"
  shows "\<not> draining st \<and> (queue st = [] \<or> maxConcurrent st \<le> int (length (activeTaskIds st)))"
  using assms queue_run_inv [of es]
  by (auto simp: queue_inv_def quiet_def quiet_lane_def work_conserving_def)

definition stall_events :: "(int \<times> queue_event) list" where
  "stall_events = [(0, EnqueueInLane ''cron'' None False), (1, EnqueueInLane '' cron '' None False),
     (2, EnqueueInLane ''cron'' None False), (5, Settle 1 True)]"

theorem queue_never_stalls_witness:
  "\<exists>st. jm_get (lanes (queue_run stall_events)) ''cron'' = Some st \<and> length (queue st) = 1 \<and>
     \<not> draining st \<and> maxConcurrent st \<le> int (length (activeTaskIds st))"
proof -
  have g: "jm_get (lanes (queue_run stall_events)) ''cron'' =
     Some \<lparr> lane = ''cron'', queue = [\<lparr> qe_id = 2, enqueuedAt = 2, warnAfterMs = 2000, onWait = False \<rparr>],
       activeTaskIds = [2], maxConcurrent = 1, draining = False, generation = 0 \<rparr>"
    by code_simp
  show ?thesis using queue_never_stalls [OF g] g by simp
qed

text \<open>C29: Every lane is first in, first out: the tasks started in a lane followed by its waiting
  entries are in the order of their enqueues.\<close>

theorem queue_fifo:
  "sorted_wrt (<) (started_in l (queue_run es) @ map qe_id (queue (getLaneState (queue_run es) l)))"
proof (cases "jm_get (lanes (queue_run es)) l")
  case None
  with queue_run_inv [of es] show ?thesis
    by (simp add: queue_inv_def coreM_def getLaneState_def new_lane_def)
next
  case (Some st)
  with queue_run_inv [of es] have "lane_ok (queue_run es) l st"
    by (auto simp: queue_inv_def intro: core_lane)
  with Some show ?thesis by (simp add: getLaneState_def lane_ok_def)
qed


text \<open>C31: A completion of a task started before the last reset of its lane is ignored: it settles
  its own promise and changes no lane, so it can neither start a task nor free a slot.\<close>

theorem stale_completion_ignored:
  assumes "queue_inv q" and "f \<in> set (inflight q)"
    and "if_generation f < generation (getLaneState q (if_lane f))"
  shows "lanes (settleTask now q (if_taskId f) ok) = lanes q \<and>
    activeTaskWaiters (settleTask now q (if_taskId f) ok) = activeTaskWaiters q \<and>
    effects (settleTask now q (if_taskId f) ok) =
      effects q @ [if ok then Resolved (if_entry f) else Rejected (if_entry f) TaskFailed]"
proof -
  have "distinct (map if_taskId (inflight q))" using assms(1) by (simp add: queue_inv_def coreM_def)
  then have uniq: "g = f" if "g \<in> set (inflight q)" "if_taskId g = if_taskId f" for g
    using that assms(2) by (auto simp: distinct_map dest: inj_onD)
  obtain g where "find (\<lambda>g. if_taskId g = if_taskId f) (inflight q) = Some g"
    using assms(2) by (cases "find (\<lambda>g. if_taskId g = if_taskId f) (inflight q)") (auto simp: find_None_iff)
  with find_inflight [OF this] uniq have "find (\<lambda>g. if_taskId g = if_taskId f) (inflight q) = Some f" by blast
  with assms(3) show ?thesis
    by (auto simp: settleTask_def Let_def completeTask_def getLaneState_def)
qed

theorem stale_completion_ignored_witness:
  "\<exists>f. f \<in> set (inflight (queue_run [(0, EnqueueInLane ''a'' None False), (1, ResetAll)])) \<and>
     lanes (settleTask 2 (queue_run [(0, EnqueueInLane ''a'' None False), (1, ResetAll)]) (if_taskId f) True)
       = lanes (queue_run [(0, EnqueueInLane ''a'' None False), (1, ResetAll)])"
proof -
  let ?q = "queue_run [(0, EnqueueInLane ''a'' None False), (1, ResetAll)]"
  let ?f = "\<lparr> if_lane = ''a'', if_taskId = 1, if_generation = 0, if_entry = 0 \<rparr>"
  have "inflight ?q = [?f]" and "generation (getLaneState ?q ''a'') = 1" by code_simp+
  then have "?f \<in> set (inflight ?q)" and "if_generation ?f < generation (getLaneState ?q (if_lane ?f))"
    by simp_all
  from this(1) stale_completion_ignored [OF queue_run_inv this, where now = 2 and ok = True] show ?thesis by blast
qed

text \<open>A restart drain never hangs on finished work: a waiter of \<open>waitForActiveTasks\<close> is only kept
  while one of the tasks it waits for is still active in some lane.\<close>

theorem waiters_have_pending_tasks:
  "list_all (\<lambda>w. waitTaskIds w \<noteq> [] \<and> hasPendingActiveTasks (queue_run es) (waitTaskIds w))
     (activeTaskWaiters (queue_run es))"
  using queue_run_inv [of es] by (simp add: queue_inv_def waiters_live_def list_all_iff)

end
