(* ===== verification/Task_Types.thy ===== *)
theory Task_Types
  imports Machines
begin

text \<open>
  The data of the task subsystem: src/brain/src/tasks/task-registry.types.ts,
  src/brain/src/tasks/task-flow-registry.types.ts and utils/delivery-context.types.ts. A field
  declared with a question mark is an option; the fields of a task carry the prefix \<open>task_\<close>
  where a flow has a field of the same name.
\<close>

text \<open>A parameter of type \<open>T | null | undefined\<close>.\<close>

datatype 'a js_field = Absent | Null | Val 'a

fun field_value :: "string js_field \<Rightarrow> js_value" where
  "field_value Absent = JUndefined"
| "field_value Null = JNull"
| "field_value (Val s) = JString s"

text \<open>\<open>x ?? undefined\<close> and \<open>x != null\<close>.\<close>

fun field_opt :: "'a js_field \<Rightarrow> 'a option" where
  "field_opt Absent = None"
| "field_opt Null = None"
| "field_opt (Val x) = Some x"

definition opt_field :: "'a option \<Rightarrow> 'a js_field" where
  "opt_field x = (case x of None \<Rightarrow> Absent | Some v \<Rightarrow> Val v)"

lemma opt_field_simps [simp]: "opt_field None = Absent" "opt_field (Some v) = Val v"
  by (simp_all add: opt_field_def)

text \<open>Values that JSON represents.\<close>

datatype json_value =
    JsonNull
  | JsonBool bool
  | JsonNumber rat
  | JsonString string
  | JsonArray "json_value list"
  | JsonObject "(string \<times> json_value) list"

datatype thread_id = ThreadString string | ThreadNumber rat

record delivery_context =
  dc_channel :: "string option"
  dc_to :: "string option"
  dc_accountId :: "string option"
  dc_threadId :: "thread_id option"

datatype task_runtime = Rt_subagent | Rt_acp | Rt_cli | Rt_cron

datatype task_status =
    T_queued | T_running | T_succeeded | T_failed | T_timed_out | T_cancelled | T_lost

datatype task_delivery_status =
    D_pending | D_delivered | D_session_queued | D_failed | D_parent_missing | D_not_applicable

datatype task_notify_policy = N_done_only | N_state_changes | N_silent

datatype task_terminal_outcome = O_succeeded | O_blocked

datatype task_scope_kind = S_session | S_system

record task_record =
  taskId :: string
  runtime :: task_runtime
  taskKind :: "string option"
  sourceId :: "string option"
  requesterSessionKey :: string
  task_ownerKey :: string
  scopeKind :: task_scope_kind
  childSessionKey :: "string option"
  parentFlowId :: "string option"
  parentTaskId :: "string option"
  task_agentId :: "string option"
  runId :: "string option"
  label :: "string option"
  task :: string
  task_status :: task_status
  deliveryStatus :: task_delivery_status
  task_notifyPolicy :: task_notify_policy
  task_createdAt :: int
  startedAt :: "int option"
  task_endedAt :: "int option"
  lastEventAt :: "int option"
  cleanupAfter :: "int option"
  task_error :: "string option"
  progressSummary :: "string option"
  terminalSummary :: "string option"
  terminalOutcome :: "task_terminal_outcome option"

datatype task_flow_sync_mode = Task_mirrored | Managed

datatype task_flow_status =
    F_queued | F_running | F_waiting | F_blocked | F_succeeded | F_failed | F_cancelled | F_lost

record task_flow_record =
  flowId :: string
  syncMode :: task_flow_sync_mode
  ownerKey :: string
  requesterOrigin :: "delivery_context option"
  controllerId :: "string option"
  revision :: int
  status :: task_flow_status
  notifyPolicy :: task_notify_policy
  goal :: string
  currentStep :: "string option"
  blockedTaskId :: "string option"
  blockedSummary :: "string option"
  stateJson :: "json_value option"
  waitJson :: "json_value option"
  cancelRequestedAt :: "int option"
  createdAt :: int
  updatedAt :: int
  endedAt :: "int option"

end
