(* ===== verification/Task_Flow.thy ===== *)
theory Task_Flow
  imports Task_Types
begin

text \<open>
  The task-flow registry of src/brain/src/tasks/task-flow-registry.ts: an in-memory map of flow
  records, restored once from a store and written through to it, with optimistic concurrency on
  the \<open>revision\<close> of a record.

  The store is the \<open>TaskFlowRegistryStore\<close> of task-flow-registry.store.ts, a record of functions
  (\<open>upsertFlow\<close> and \<open>deleteFlow\<close> may be missing) over a database state \<open>'db\<close>; a store function may
  throw. An operation returns its result or the error it throws, with the registry it leaves:
  an exception does not undo the writes made before it. \<open>structuredClone\<close> is the identity on the
  immutable values of the model. The observer's events are appended to \<open>events\<close>. The time
  (\<open>Date.now()\<close>) and the generated identifier (\<open>crypto.randomUUID()\<close>) are arguments.
\<close>

subsection \<open>State\<close>

datatype flow_error = OwnerKeyRequired | ControllerIdRequired | StoreError string

type_synonym flow_map = "(string, task_flow_record) js_map"

record 'db flow_store =
  loadSnapshot :: "'db \<Rightarrow> flow_error + flow_map"
  saveSnapshot :: "'db \<Rightarrow> flow_map \<Rightarrow> flow_error + 'db"
  upsertFlow :: "('db \<Rightarrow> task_flow_record \<Rightarrow> flow_error + 'db) option"
  deleteFlow :: "('db \<Rightarrow> string \<Rightarrow> flow_error + 'db) option"

datatype flow_observer_event =
    Ev_restored "task_flow_record list"
  | Ev_upserted task_flow_record "task_flow_record option"
  | Ev_deleted string task_flow_record

record 'db flow_registry =
  flows :: flow_map
  restoreAttempted :: bool
  restoreFailure :: "flow_error option"
  db :: 'db
  events :: "flow_observer_event list"

record flow_patch =
  p_status :: "task_flow_status option"
  p_notifyPolicy :: "task_notify_policy option"
  p_goal :: "string option"
  p_currentStep :: "string js_field"
  p_blockedTaskId :: "string js_field"
  p_blockedSummary :: "string js_field"
  p_controllerId :: "string js_field"
  p_stateJson :: "json_value option"
  p_waitJson :: "json_value option"
  p_cancelRequestedAt :: "int js_field"
  p_updatedAt :: "int option"
  p_endedAt :: "int js_field"

definition empty_patch :: flow_patch where
  "empty_patch = \<lparr> p_status = None, p_notifyPolicy = None, p_goal = None, p_currentStep = Absent,
     p_blockedTaskId = Absent, p_blockedSummary = Absent, p_controllerId = Absent,
     p_stateJson = None, p_waitJson = None, p_cancelRequestedAt = Absent, p_updatedAt = None,
     p_endedAt = Absent \<rparr>"

record create_params =
  c_syncMode :: "task_flow_sync_mode option"
  c_ownerKey :: string
  c_requesterOrigin :: "delivery_context option"
  c_controllerId :: "string js_field"
  c_revision :: "int option"
  c_status :: "task_flow_status option"
  c_notifyPolicy :: "task_notify_policy option"
  c_goal :: string
  c_currentStep :: "string js_field"
  c_blockedTaskId :: "string js_field"
  c_blockedSummary :: "string js_field"
  c_stateJson :: "json_value option"
  c_waitJson :: "json_value option"
  c_cancelRequestedAt :: "int js_field"
  c_createdAt :: "int option"
  c_updatedAt :: "int option"
  c_endedAt :: "int js_field"

datatype update_result = Applied task_flow_record | NotFound | RevisionConflict task_flow_record

subsection \<open>Pure parts\<close>

definition normalizeField :: "string js_field \<Rightarrow> string option" where
  "normalizeField x = normalizeOptionalString (field_value x)"

definition assertFlowOwnerKey :: "string \<Rightarrow> flow_error + string" where
  "assertFlowOwnerKey k = (case normalizeOptionalString (JString k) of
     None \<Rightarrow> Inl OwnerKeyRequired | Some n \<Rightarrow> Inr n)"

definition assertControllerId :: "string js_field \<Rightarrow> flow_error + string" where
  "assertControllerId c = (case normalizeField c of None \<Rightarrow> Inl ControllerIdRequired | Some n \<Rightarrow> Inr n)"

definition normalizeRestoredFlowRecord :: "task_flow_record \<Rightarrow> flow_error + task_flow_record" where
  "normalizeRestoredFlowRecord r =
     (let mode = (if syncMode r = Task_mirrored then Task_mirrored else Managed);
          ctl = (if mode = Managed
                 then Some (nullish (normalizeOptionalString (js_opt (controllerId r))) ''core/legacy-restored'')
                 else None)
      in case assertFlowOwnerKey (ownerKey r) of
           Inl e \<Rightarrow> Inl e
         | Inr owner \<Rightarrow> Inr (r\<lparr>
             syncMode := mode,
             ownerKey := owner,
             controllerId := (if str_truthy ctl then ctl else controllerId r),
             currentStep := normalizeOptionalString (js_opt (currentStep r)),
             blockedTaskId := normalizeOptionalString (js_opt (blockedTaskId r)),
             blockedSummary := normalizeOptionalString (js_opt (blockedSummary r)),
             revision := max 0 (revision r)\<rparr>))"

definition ensureNotifyPolicy :: "task_notify_policy option \<Rightarrow> task_notify_policy" where
  "ensureNotifyPolicy p = nullish p N_done_only"

definition resolveFlowBlockedSummary :: "task_record \<Rightarrow> string option" where
  "resolveFlowBlockedSummary t =
     (if task_status t \<noteq> T_succeeded \<or> terminalOutcome t \<noteq> Some O_blocked then None
      else nullish_opt (normalizeOptionalString (js_opt (terminalSummary t)))
             (normalizeOptionalString (js_opt (progressSummary t))))"

definition deriveTaskFlowStatusFromTask :: "task_record \<Rightarrow> task_flow_status" where
  "deriveTaskFlowStatusFromTask t =
     (if task_status t = T_queued then F_queued
      else if task_status t = T_running then F_running
      else if task_status t = T_succeeded
        then (if terminalOutcome t = Some O_blocked then F_blocked else F_succeeded)
      else if task_status t = T_cancelled then F_cancelled
      else if task_status t = T_lost then F_lost
      else F_failed)"

definition buildFlowRecord :: "int \<Rightarrow> string \<Rightarrow> create_params \<Rightarrow> flow_error + task_flow_record" where
  "buildFlowRecord clock uuid p =
     (let now = nullish (c_createdAt p) clock;
          mode = nullish (c_syncMode p) Managed
      in case (if mode = Managed then map_sum id Some (assertControllerId (c_controllerId p)) else Inr None) of
           Inl e \<Rightarrow> Inl e
         | Inr ctl \<Rightarrow> (case assertFlowOwnerKey (c_ownerKey p) of
             Inl e \<Rightarrow> Inl e
           | Inr owner \<Rightarrow> Inr \<lparr> flowId = uuid, syncMode = mode, ownerKey = owner,
               requesterOrigin = c_requesterOrigin p,
               controllerId = (if str_truthy ctl then ctl else None),
               revision = max 0 (nullish (c_revision p) 0),
               status = nullish (c_status p) F_queued,
               notifyPolicy = ensureNotifyPolicy (c_notifyPolicy p),
               goal = c_goal p,
               currentStep = normalizeField (c_currentStep p),
               blockedTaskId = normalizeField (c_blockedTaskId p),
               blockedSummary = normalizeField (c_blockedSummary p),
               stateJson = c_stateJson p,
               waitJson = c_waitJson p,
               cancelRequestedAt = field_opt (c_cancelRequestedAt p),
               createdAt = now,
               updatedAt = nullish (c_updatedAt p) now,
               endedAt = field_opt (c_endedAt p) \<rparr>))"

definition patched :: "string js_field \<Rightarrow> string option \<Rightarrow> string option" where
  "patched x current = (if x = Absent then current else normalizeField x)"

definition patched_time :: "int js_field \<Rightarrow> int option \<Rightarrow> int option" where
  "patched_time x current = (if x = Absent then current else field_opt x)"

definition applyFlowPatch ::
    "int \<Rightarrow> task_flow_record \<Rightarrow> flow_patch \<Rightarrow> flow_error + task_flow_record" where
  "applyFlowPatch clock current patch =
     (let ctl = patched (p_controllerId patch) (controllerId current) in
      case (if syncMode current = Managed then assertControllerId (opt_field ctl) else Inr []) of
        Inl e \<Rightarrow> Inl e
      | Inr _ \<Rightarrow> Inr (current\<lparr>
          status := nullish (p_status patch) (status current),
          notifyPolicy := nullish (p_notifyPolicy patch) (notifyPolicy current),
          goal := (case p_goal patch of Some g \<Rightarrow> (if g = [] then goal current else g)
                                     | None \<Rightarrow> goal current),
          controllerId := ctl,
          currentStep := patched (p_currentStep patch) (currentStep current),
          blockedTaskId := patched (p_blockedTaskId patch) (blockedTaskId current),
          blockedSummary := patched (p_blockedSummary patch) (blockedSummary current),
          stateJson := (case p_stateJson patch of None \<Rightarrow> stateJson current | Some j \<Rightarrow> Some j),
          waitJson := (case p_waitJson patch of None \<Rightarrow> waitJson current | Some j \<Rightarrow> Some j),
          cancelRequestedAt := patched_time (p_cancelRequestedAt patch) (cancelRequestedAt current),
          revision := revision current + 1,
          updatedAt := nullish (p_updatedAt patch) clock,
          endedAt := patched_time (p_endedAt patch) (endedAt current)\<rparr>))"

subsection \<open>Restoring and persisting\<close>

definition emitFlowRegistryObserverEvent ::
    "'db flow_registry \<Rightarrow> flow_observer_event \<Rightarrow> 'db flow_registry" where
  "emitFlowRegistryObserverEvent reg e = reg\<lparr>events := events reg @ [e]\<rparr>"

fun restore_flows :: "flow_map \<Rightarrow> (string \<times> task_flow_record) list \<Rightarrow> flow_error + flow_map" where
  "restore_flows acc [] = Inr acc"
| "restore_flows acc ((k, f) # rest) =
     (case normalizeRestoredFlowRecord f of
        Inl e \<Rightarrow> Inl e
      | Inr f' \<Rightarrow> restore_flows (jm_set acc k f') rest)"

definition ensureFlowRegistryReady :: "'db flow_store \<Rightarrow> 'db flow_registry \<Rightarrow> 'db flow_registry" where
  "ensureFlowRegistryReady st reg =
     (if restoreAttempted reg then reg
      else
        (let reg = reg\<lparr>restoreAttempted := True\<rparr> in
         case loadSnapshot st (db reg) of
           Inl e \<Rightarrow> reg\<lparr>flows := [], restoreFailure := Some e\<rparr>
         | Inr restored \<Rightarrow>
             (case restore_flows [] restored of
                Inl e \<Rightarrow> reg\<lparr>flows := [], restoreFailure := Some e\<rparr>
              | Inr fl \<Rightarrow> emitFlowRegistryObserverEvent
                  (reg\<lparr>flows := fl, restoreFailure := None\<rparr>) (Ev_restored (jm_values fl)))))"

definition getTaskFlowRegistryRestoreFailure ::
    "'db flow_store \<Rightarrow> 'db flow_registry \<Rightarrow> flow_error option \<times> 'db flow_registry" where
  "getTaskFlowRegistryRestoreFailure st reg =
     (let reg = ensureFlowRegistryReady st reg in (restoreFailure reg, reg))"

definition store_result ::
    "'db flow_registry \<Rightarrow> flow_error + 'db \<Rightarrow> (flow_error + unit) \<times> 'db flow_registry" where
  "store_result reg r = (case r of Inl e \<Rightarrow> (Inl e, reg) | Inr d \<Rightarrow> (Inr (), reg\<lparr>db := d\<rparr>))"

definition persistFlowRegistry ::
    "'db flow_store \<Rightarrow> 'db flow_registry \<Rightarrow> (flow_error + unit) \<times> 'db flow_registry" where
  "persistFlowRegistry st reg =
     store_result reg (saveSnapshot st (db reg)
       (foldl (\<lambda>m f. jm_set m (flowId f) f) [] (jm_values (flows reg))))"

definition persistFlowUpsert ::
    "'db flow_store \<Rightarrow> 'db flow_registry \<Rightarrow> task_flow_record \<Rightarrow> (flow_error + unit) \<times> 'db flow_registry" where
  "persistFlowUpsert st reg flow =
     (case upsertFlow st of
        Some upsert \<Rightarrow> store_result reg (upsert (db reg) flow)
      | None \<Rightarrow> persistFlowRegistry st reg)"

definition persistFlowDelete ::
    "'db flow_store \<Rightarrow> 'db flow_registry \<Rightarrow> string \<Rightarrow> (flow_error + unit) \<times> 'db flow_registry" where
  "persistFlowDelete st reg fid =
     (case deleteFlow st of
        Some delete \<Rightarrow> store_result reg (delete (db reg) fid)
      | None \<Rightarrow> persistFlowRegistry st reg)"

definition writeFlowRecord ::
    "'db flow_store \<Rightarrow> 'db flow_registry \<Rightarrow> task_flow_record \<Rightarrow> task_flow_record option
     \<Rightarrow> (flow_error + task_flow_record) \<times> 'db flow_registry" where
  "writeFlowRecord st reg next previous =
     (let reg = reg\<lparr>flows := jm_set (flows reg) (flowId next) next\<rparr> in
      case persistFlowUpsert st reg next of
        (Inl e, reg) \<Rightarrow> (Inl e, reg)
      | (Inr _, reg) \<Rightarrow> (Inr next, emitFlowRegistryObserverEvent reg (Ev_upserted next previous)))"

subsection \<open>Creating flows\<close>

definition createFlowRecord ::
    "'db flow_store \<Rightarrow> int \<Rightarrow> string \<Rightarrow> 'db flow_registry \<Rightarrow> create_params
     \<Rightarrow> (flow_error + task_flow_record) \<times> 'db flow_registry" where
  "createFlowRecord st clock uuid reg p =
     (let reg = ensureFlowRegistryReady st reg in
      case buildFlowRecord clock uuid p of
        Inl e \<Rightarrow> (Inl e, reg)
      | Inr record \<Rightarrow> writeFlowRecord st reg record None)"

definition createManagedTaskFlow ::
    "'db flow_store \<Rightarrow> int \<Rightarrow> string \<Rightarrow> 'db flow_registry \<Rightarrow> create_params
     \<Rightarrow> (flow_error + task_flow_record) \<times> 'db flow_registry" where
  "createManagedTaskFlow st clock uuid reg p =
     (case assertControllerId (c_controllerId p) of
        Inl e \<Rightarrow> (Inl e, reg)
      | Inr ctl \<Rightarrow> createFlowRecord st clock uuid reg
          (p\<lparr>c_syncMode := Some Managed, c_controllerId := Val ctl\<rparr>))"

definition is_terminal_status :: "task_flow_status \<Rightarrow> bool" where
  "is_terminal_status s \<longleftrightarrow> s = F_succeeded \<or> s = F_blocked \<or> s = F_failed \<or> s = F_cancelled \<or> s = F_lost"

definition task_goal :: "task_record \<Rightarrow> string" where
  "task_goal t = nullish (normalizeOptionalString (js_opt (label t)))
     (str_or (js_trim (task t)) ''Background task'')"

definition createTaskFlowForTask ::
    "'db flow_store \<Rightarrow> int \<Rightarrow> string \<Rightarrow> 'db flow_registry \<Rightarrow> task_record \<Rightarrow> delivery_context option
     \<Rightarrow> (flow_error + task_flow_record) \<times> 'db flow_registry" where
  "createTaskFlowForTask st clock uuid reg t origin =
     (let terminalFlowStatus = deriveTaskFlowStatusFromTask t;
          ended = (if is_terminal_status terminalFlowStatus
                   then Some (nullish (task_endedAt t) (nullish (lastEventAt t) (task_createdAt t)))
                   else None)
      in createFlowRecord st clock uuid reg
        \<lparr> c_syncMode = Some Task_mirrored, c_ownerKey = task_ownerKey t, c_requesterOrigin = origin,
          c_controllerId = Absent, c_revision = None, c_status = Some terminalFlowStatus,
          c_notifyPolicy = Some (task_notifyPolicy t), c_goal = task_goal t,
          c_currentStep = Absent,
          c_blockedTaskId = (if terminalFlowStatus = F_blocked
                             then opt_field (normalizeOptionalString (JString (taskId t))) else Absent),
          c_blockedSummary = opt_field (resolveFlowBlockedSummary t),
          c_stateJson = None, c_waitJson = None, c_cancelRequestedAt = Absent,
          c_createdAt = Some (task_createdAt t),
          c_updatedAt = Some (nullish (lastEventAt t) (task_createdAt t)),
          c_endedAt = opt_field ended \<rparr>)"

subsection \<open>Updating flows\<close>

definition updateFlowRecordByIdUnchecked ::
    "'db flow_store \<Rightarrow> int \<Rightarrow> 'db flow_registry \<Rightarrow> string \<Rightarrow> flow_patch
     \<Rightarrow> (flow_error + task_flow_record option) \<times> 'db flow_registry" where
  "updateFlowRecordByIdUnchecked st clock reg fid patch =
     (let reg = ensureFlowRegistryReady st reg in
      case jm_get (flows reg) fid of
        None \<Rightarrow> (Inr None, reg)
      | Some current \<Rightarrow>
          (case applyFlowPatch clock current patch of
             Inl e \<Rightarrow> (Inl e, reg)
           | Inr next \<Rightarrow> apfst (map_sum id Some) (writeFlowRecord st reg next (Some current))))"

definition updateFlowRecordByIdExpectedRevision ::
    "'db flow_store \<Rightarrow> int \<Rightarrow> 'db flow_registry \<Rightarrow> string \<Rightarrow> int \<Rightarrow> flow_patch
     \<Rightarrow> (flow_error + update_result) \<times> 'db flow_registry" where
  "updateFlowRecordByIdExpectedRevision st clock reg fid expected patch =
     (let reg = ensureFlowRegistryReady st reg in
      case jm_get (flows reg) fid of
        None \<Rightarrow> (Inr NotFound, reg)
      | Some current \<Rightarrow>
          if revision current \<noteq> expected then (Inr (RevisionConflict current), reg)
          else
            (case applyFlowPatch clock current patch of
               Inl e \<Rightarrow> (Inl e, reg)
             | Inr next \<Rightarrow> apfst (map_sum id Applied) (writeFlowRecord st reg next (Some current))))"

definition setFlowWaiting ::
    "'db flow_store \<Rightarrow> int \<Rightarrow> 'db flow_registry \<Rightarrow> string \<Rightarrow> int \<Rightarrow> string js_field
     \<Rightarrow> json_value option \<Rightarrow> json_value option \<Rightarrow> string js_field \<Rightarrow> string js_field \<Rightarrow> int option
     \<Rightarrow> (flow_error + update_result) \<times> 'db flow_registry" where
  "setFlowWaiting st clock reg fid expected step sj wj blockedTask blockedSum updated =
     updateFlowRecordByIdExpectedRevision st clock reg fid expected
       (empty_patch\<lparr>
          p_status := Some (if str_truthy (normalizeField blockedTask) \<or> str_truthy (normalizeField blockedSum)
                            then F_blocked else F_waiting),
          p_currentStep := step, p_stateJson := sj, p_waitJson := wj,
          p_blockedTaskId := blockedTask, p_blockedSummary := blockedSum,
          p_endedAt := Null, p_updatedAt := updated\<rparr>)"

datatype resume_status = Resume_queued | Resume_running

fun resume_flow_status :: "resume_status option \<Rightarrow> task_flow_status" where
  "resume_flow_status (Some Resume_running) = F_running"
| "resume_flow_status (Some Resume_queued) = F_queued"
| "resume_flow_status None = F_queued"

definition resumeFlow ::
    "'db flow_store \<Rightarrow> int \<Rightarrow> 'db flow_registry \<Rightarrow> string \<Rightarrow> int \<Rightarrow> resume_status option
     \<Rightarrow> string js_field \<Rightarrow> json_value option \<Rightarrow> int option
     \<Rightarrow> (flow_error + update_result) \<times> 'db flow_registry" where
  "resumeFlow st clock reg fid expected s step sj updated =
     updateFlowRecordByIdExpectedRevision st clock reg fid expected
       (empty_patch\<lparr>
          p_status := Some (resume_flow_status s), p_currentStep := step, p_stateJson := sj,
          p_waitJson := Some JsonNull, p_blockedTaskId := Null, p_blockedSummary := Null,
          p_endedAt := Null, p_updatedAt := updated\<rparr>)"

definition finishFlow ::
    "'db flow_store \<Rightarrow> int \<Rightarrow> 'db flow_registry \<Rightarrow> string \<Rightarrow> int \<Rightarrow> string js_field
     \<Rightarrow> json_value option \<Rightarrow> int option \<Rightarrow> int option
     \<Rightarrow> (flow_error + update_result) \<times> 'db flow_registry" where
  "finishFlow st clock reg fid expected step sj updated ended =
     (let e = nullish ended (nullish updated clock) in
      updateFlowRecordByIdExpectedRevision st clock reg fid expected
        (empty_patch\<lparr>
           p_status := Some F_succeeded, p_currentStep := step, p_stateJson := sj,
           p_waitJson := Some JsonNull, p_blockedTaskId := Null, p_blockedSummary := Null,
           p_endedAt := Val e, p_updatedAt := Some (nullish updated e)\<rparr>))"

definition failFlow ::
    "'db flow_store \<Rightarrow> int \<Rightarrow> 'db flow_registry \<Rightarrow> string \<Rightarrow> int \<Rightarrow> string js_field
     \<Rightarrow> json_value option \<Rightarrow> string js_field \<Rightarrow> string js_field \<Rightarrow> int option \<Rightarrow> int option
     \<Rightarrow> (flow_error + update_result) \<times> 'db flow_registry" where
  "failFlow st clock reg fid expected step sj blockedTask blockedSum updated ended =
     (let e = nullish ended (nullish updated clock) in
      updateFlowRecordByIdExpectedRevision st clock reg fid expected
        (empty_patch\<lparr>
           p_status := Some F_failed, p_currentStep := step, p_stateJson := sj,
           p_waitJson := Some JsonNull, p_blockedTaskId := blockedTask, p_blockedSummary := blockedSum,
           p_endedAt := Val e, p_updatedAt := Some (nullish updated e)\<rparr>))"

definition requestFlowCancel ::
    "'db flow_store \<Rightarrow> int \<Rightarrow> 'db flow_registry \<Rightarrow> string \<Rightarrow> int \<Rightarrow> int option \<Rightarrow> int option
     \<Rightarrow> (flow_error + update_result) \<times> 'db flow_registry" where
  "requestFlowCancel st clock reg fid expected requestedAt updated =
     updateFlowRecordByIdExpectedRevision st clock reg fid expected
       (empty_patch\<lparr>
          p_cancelRequestedAt := Val (nullish requestedAt (nullish updated clock)),
          p_updatedAt := updated\<rparr>)"

subsection \<open>Looking flows up and deleting them\<close>

definition getTaskFlowById ::
    "'db flow_store \<Rightarrow> 'db flow_registry \<Rightarrow> string \<Rightarrow> task_flow_record option \<times> 'db flow_registry" where
  "getTaskFlowById st reg fid =
     (let reg = ensureFlowRegistryReady st reg in (jm_get (flows reg) fid, reg))"

definition syncFlowFromTask ::
    "'db flow_store \<Rightarrow> int \<Rightarrow> 'db flow_registry \<Rightarrow> task_record
     \<Rightarrow> (flow_error + task_flow_record option) \<times> 'db flow_registry" where
  "syncFlowFromTask st clock reg t =
     (let fid = map_option js_trim (parentFlowId t) in
      if \<not> str_truthy fid then (Inr None, reg)
      else
        (case getTaskFlowById st reg (the fid) of
           (None, reg) \<Rightarrow> (Inr None, reg)
         | (Some flow, reg) \<Rightarrow>
             if syncMode flow \<noteq> Task_mirrored then (Inr (Some flow), reg)
             else
               (let terminalFlowStatus = deriveTaskFlowStatusFromTask t in
                updateFlowRecordByIdUnchecked st clock reg (the fid)
                  (empty_patch\<lparr>
                     p_status := Some terminalFlowStatus,
                     p_notifyPolicy := Some (task_notifyPolicy t),
                     p_goal := Some (task_goal t),
                     p_blockedTaskId :=
                       (if terminalFlowStatus = F_blocked
                        then (if js_trim (taskId t) = [] then Null else Val (js_trim (taskId t)))
                        else Null),
                     p_blockedSummary :=
                       (if terminalFlowStatus = F_blocked
                        then (case resolveFlowBlockedSummary t of None \<Rightarrow> Null | Some s \<Rightarrow> Val s)
                        else Null),
                     p_waitJson := Some JsonNull,
                     p_updatedAt := Some (nullish (lastEventAt t) clock),
                     p_endedAt :=
                       (if is_terminal_status terminalFlowStatus
                        then Val (nullish (task_endedAt t) (nullish (lastEventAt t) clock))
                        else Null)\<rparr>))))"

definition newest_first :: "task_flow_record list \<Rightarrow> task_flow_record list" where
  "newest_first fs = sort_key (\<lambda>f. - createdAt f) fs"

definition listTaskFlowsForOwnerKey ::
    "'db flow_store \<Rightarrow> 'db flow_registry \<Rightarrow> string \<Rightarrow> task_flow_record list \<times> 'db flow_registry" where
  "listTaskFlowsForOwnerKey st reg owner =
     (let reg = ensureFlowRegistryReady st reg;
          normalizedOwnerKey = js_trim owner
      in if normalizedOwnerKey = [] then ([], reg)
         else (newest_first (filter (\<lambda>f. js_trim (ownerKey f) = normalizedOwnerKey)
                 (jm_values (flows reg))), reg))"

definition findLatestTaskFlowForOwnerKey ::
    "'db flow_store \<Rightarrow> 'db flow_registry \<Rightarrow> string \<Rightarrow> task_flow_record option \<times> 'db flow_registry" where
  "findLatestTaskFlowForOwnerKey st reg owner =
     (case listTaskFlowsForOwnerKey st reg owner of
        ([], reg) \<Rightarrow> (None, reg) | (f # _, reg) \<Rightarrow> (Some f, reg))"

definition resolveTaskFlowForLookupToken ::
    "'db flow_store \<Rightarrow> 'db flow_registry \<Rightarrow> string \<Rightarrow> task_flow_record option \<times> 'db flow_registry" where
  "resolveTaskFlowForLookupToken st reg token =
     (let lookup = js_trim token in
      if lookup = [] then (None, reg)
      else
        (case getTaskFlowById st reg lookup of
           (Some f, reg) \<Rightarrow> (Some f, reg)
         | (None, reg) \<Rightarrow> findLatestTaskFlowForOwnerKey st reg lookup))"

definition listTaskFlowRecords ::
    "'db flow_store \<Rightarrow> 'db flow_registry \<Rightarrow> task_flow_record list \<times> 'db flow_registry" where
  "listTaskFlowRecords st reg =
     (let reg = ensureFlowRegistryReady st reg in (newest_first (jm_values (flows reg)), reg))"

definition deleteTaskFlowRecordById ::
    "'db flow_store \<Rightarrow> 'db flow_registry \<Rightarrow> string \<Rightarrow> (flow_error + bool) \<times> 'db flow_registry" where
  "deleteTaskFlowRecordById st reg fid =
     (let reg = ensureFlowRegistryReady st reg in
      case jm_get (flows reg) fid of
        None \<Rightarrow> (Inr False, reg)
      | Some current \<Rightarrow>
          (case persistFlowDelete st (reg\<lparr>flows := jm_delete (flows reg) fid\<rparr>) fid of
             (Inl e, reg) \<Rightarrow> (Inl e, reg)
           | (Inr _, reg) \<Rightarrow> (Inr True, emitFlowRegistryObserverEvent reg (Ev_deleted fid current))))"

subsection \<open>The registry as a machine\<close>

datatype flow_op =
    Create string create_params
  | CreateManaged string create_params
  | CreateForTask string task_record "delivery_context option"
  | UpdateExpected string int flow_patch
  | SetWaiting string int "string js_field" "json_value option" "json_value option"
      "string js_field" "string js_field" "int option"
  | Resume string int "resume_status option" "string js_field" "json_value option" "int option"
  | Finish string int "string js_field" "json_value option" "int option" "int option"
  | Fail string int "string js_field" "json_value option" "string js_field" "string js_field"
      "int option" "int option"
  | RequestCancel string int "int option" "int option"
  | SyncFromTask task_record
  | GetById string
  | DeleteById string

fun flow_step :: "'db flow_store \<Rightarrow> 'db flow_registry \<Rightarrow> int \<times> flow_op \<Rightarrow> 'db flow_registry" where
  "flow_step st reg (now, Create u p) = snd (createFlowRecord st now u reg p)"
| "flow_step st reg (now, CreateManaged u p) = snd (createManagedTaskFlow st now u reg p)"
| "flow_step st reg (now, CreateForTask u t c) = snd (createTaskFlowForTask st now u reg t c)"
| "flow_step st reg (now, UpdateExpected i r p) = snd (updateFlowRecordByIdExpectedRevision st now reg i r p)"
| "flow_step st reg (now, SetWaiting i r a b c d e f) = snd (setFlowWaiting st now reg i r a b c d e f)"
| "flow_step st reg (now, Resume i r a b c d) = snd (resumeFlow st now reg i r a b c d)"
| "flow_step st reg (now, Finish i r a b c d) = snd (finishFlow st now reg i r a b c d)"
| "flow_step st reg (now, Fail i r a b c d e f) = snd (failFlow st now reg i r a b c d e f)"
| "flow_step st reg (now, RequestCancel i r a b) = snd (requestFlowCancel st now reg i r a b)"
| "flow_step st reg (now, SyncFromTask t) = snd (syncFlowFromTask st now reg t)"
| "flow_step st reg (now, GetById i) = snd (getTaskFlowById st reg i)"
| "flow_step st reg (now, DeleteById i) = snd (deleteTaskFlowRecordById st reg i)"

end
