(* ===== verification/Task_Flow_Sqlite.thy ===== *)
theory Task_Flow_Sqlite
  imports Task_Flow "HOL-Library.List_Lexorder" "HOL-Library.Char_ord" "HOL-Library.Product_Lexorder"
begin

text \<open>
  The SQLite store of the task-flow registry, src/brain/src/tasks/task-flow-registry.store.sqlite.ts:
  the codec between a record and a row of \<open>flow_runs\<close>, the statements, and the store built from
  them (\<open>defaultFlowRegistryStore\<close> of task-flow-registry.store.ts).

  The table is the list of its rows, with distinct \<open>flow_id\<close>s (the primary key). A JSON column
  holds either the text \<open>JSON.stringify\<close> gives for a value or a text that does not parse.
  The database can fail to open (\<open>openError\<close>), and then every operation throws; a transaction
  that was opened does not fail. File modes, pragmas and the schema migration are left out.
\<close>

datatype 'a json_text = JsonText 'a | NotJson string

definition json_text_blank :: "'a json_text \<Rightarrow> bool" where
  "json_text_blank t = (case t of JsonText _ \<Rightarrow> False | NotJson s \<Rightarrow> js_trim s = [])"

record flow_row =
  flow_id :: string
  sync_mode :: "task_flow_sync_mode option"
  shape :: "string option"
  owner_key :: string
  requester_origin_json :: "delivery_context json_text option"
  controller_id :: "string option"
  row_revision :: "int option"
  row_status :: task_flow_status
  notify_policy :: task_notify_policy
  row_goal :: string
  current_step :: "string option"
  blocked_task_id :: "string option"
  blocked_summary :: "string option"
  state_json :: "json_value json_text option"
  wait_json :: "json_value json_text option"
  cancel_requested_at :: "int option"
  created_at :: int
  updated_at :: int
  ended_at :: "int option"

record flow_db =
  flow_runs :: "flow_row list"
  openError :: "string option"

subsection \<open>The row codec\<close>

definition serializeJson :: "'a option \<Rightarrow> 'a json_text option" where
  "serializeJson v = map_option JsonText v"

definition parseJsonValue :: "'a json_text option \<Rightarrow> 'a option" where
  "parseJsonValue raw = (case raw of
     None \<Rightarrow> None
   | Some t \<Rightarrow> if json_text_blank t then None
               else (case t of JsonText v \<Rightarrow> Some v | NotJson _ \<Rightarrow> None))"

definition truthy_col :: "string option \<Rightarrow> string option" where
  "truthy_col c = (if str_truthy c then c else None)"

definition rowToSyncMode :: "flow_row \<Rightarrow> task_flow_sync_mode" where
  "rowToSyncMode row = (case sync_mode row of
     Some m \<Rightarrow> m
   | None \<Rightarrow> if shape row = Some ''single_task'' then Task_mirrored else Managed)"

definition rowToFlowRecord :: "flow_row \<Rightarrow> task_flow_record" where
  "rowToFlowRecord row = \<lparr>
     flowId = flow_id row,
     syncMode = rowToSyncMode row,
     ownerKey = owner_key row,
     requesterOrigin = parseJsonValue (requester_origin_json row),
     controllerId = truthy_col (controller_id row),
     revision = nullish (row_revision row) 0,
     status = row_status row,
     notifyPolicy = notify_policy row,
     goal = row_goal row,
     currentStep = truthy_col (current_step row),
     blockedTaskId = truthy_col (blocked_task_id row),
     blockedSummary = truthy_col (blocked_summary row),
     stateJson = parseJsonValue (state_json row),
     waitJson = parseJsonValue (wait_json row),
     cancelRequestedAt = cancel_requested_at row,
     createdAt = created_at row,
     updatedAt = updated_at row,
     endedAt = ended_at row \<rparr>"

text \<open>\<open>bindFlowRecord\<close> gives the parameters of the upsert statement, which has none for \<open>shape\<close>:
  a new row has it null.\<close>

definition bindFlowRecord :: "task_flow_record \<Rightarrow> flow_row" where
  "bindFlowRecord f = \<lparr>
     flow_id = flowId f,
     sync_mode = Some (syncMode f),
     shape = None,
     owner_key = ownerKey f,
     requester_origin_json = serializeJson (requesterOrigin f),
     controller_id = controllerId f,
     row_revision = Some (revision f),
     row_status = status f,
     notify_policy = notifyPolicy f,
     row_goal = goal f,
     current_step = currentStep f,
     blocked_task_id = blockedTaskId f,
     blocked_summary = blockedSummary f,
     state_json = serializeJson (stateJson f),
     wait_json = serializeJson (waitJson f),
     cancel_requested_at = cancelRequestedAt f,
     created_at = createdAt f,
     updated_at = updatedAt f,
     ended_at = endedAt f \<rparr>"

subsection \<open>Statements\<close>

definition selectAll :: "flow_row list \<Rightarrow> flow_row list" where
  "selectAll rows = sort_key (\<lambda>r. (created_at r, flow_id r)) rows"

text \<open>\<open>ON CONFLICT(flow_id) DO UPDATE\<close> overwrites every column but \<open>shape\<close>.\<close>

fun upsertRow :: "flow_row list \<Rightarrow> flow_row \<Rightarrow> flow_row list" where
  "upsertRow [] new = [new]"
| "upsertRow (r # rows) new =
     (if flow_id r = flow_id new then new\<lparr>shape := shape r\<rparr> # rows else r # upsertRow rows new)"

definition deleteRow :: "flow_row list \<Rightarrow> string \<Rightarrow> flow_row list" where
  "deleteRow rows fid = filter (\<lambda>r. flow_id r \<noteq> fid) rows"

subsection \<open>The store\<close>

definition withDatabase :: "flow_db \<Rightarrow> (flow_row list \<Rightarrow> 'a) \<Rightarrow> flow_error + 'a" where
  "withDatabase d f = (case openError d of Some m \<Rightarrow> Inl (StoreError m) | None \<Rightarrow> Inr (f (flow_runs d)))"

definition loadTaskFlowRegistryStateFromSqlite :: "flow_db \<Rightarrow> flow_error + flow_map" where
  "loadTaskFlowRegistryStateFromSqlite d =
     withDatabase d (\<lambda>rows. foldl (\<lambda>m r. jm_set m (flow_id r) (rowToFlowRecord r)) [] (selectAll rows))"

definition saveTaskFlowRegistryStateToSqlite :: "flow_db \<Rightarrow> flow_map \<Rightarrow> flow_error + flow_db" where
  "saveTaskFlowRegistryStateToSqlite d snapshot =
     withDatabase d (\<lambda>rows. d\<lparr>flow_runs :=
       foldl upsertRow [] (map bindFlowRecord (jm_values snapshot))\<rparr>)"

definition upsertTaskFlowRegistryRecordToSqlite :: "flow_db \<Rightarrow> task_flow_record \<Rightarrow> flow_error + flow_db" where
  "upsertTaskFlowRegistryRecordToSqlite d f =
     withDatabase d (\<lambda>rows. d\<lparr>flow_runs := upsertRow rows (bindFlowRecord f)\<rparr>)"

definition deleteTaskFlowRegistryRecordFromSqlite :: "flow_db \<Rightarrow> string \<Rightarrow> flow_error + flow_db" where
  "deleteTaskFlowRegistryRecordFromSqlite d fid =
     withDatabase d (\<lambda>rows. d\<lparr>flow_runs := deleteRow rows fid\<rparr>)"

definition defaultFlowRegistryStore :: "flow_db flow_store" where
  "defaultFlowRegistryStore = \<lparr>
     loadSnapshot = loadTaskFlowRegistryStateFromSqlite,
     saveSnapshot = saveTaskFlowRegistryStateToSqlite,
     upsertFlow = Some upsertTaskFlowRegistryRecordToSqlite,
     deleteFlow = Some deleteTaskFlowRegistryRecordFromSqlite \<rparr>"

text \<open>The registry of a process that has just started on a database.\<close>

definition fresh_registry :: "'db \<Rightarrow> 'db flow_registry" where
  "fresh_registry d = \<lparr> flows = [], restoreAttempted = False, restoreFailure = None, db = d, events = [] \<rparr>"

definition flow_run :: "flow_db \<Rightarrow> (int \<times> flow_op) list \<Rightarrow> flow_db flow_registry" where
  "flow_run d ops = foldl (flow_step defaultFlowRegistryStore) (fresh_registry d) ops"

end
