(* ===== verification/Task_Flow_Maintenance.thy ===== *)
theory Task_Flow_Maintenance
  imports Task_Flow_Sqlite
begin

text \<open>
  The clients of the task-flow registry: owner-scoped access
  (src/brain/src/tasks/task-flow-owner-access.ts), the maintenance sweep
  (task-flow-registry.maintenance.ts) and the audit (task-flow-registry.audit.ts). The tasks
  linked to a flow (\<open>listTasksForFlowId\<close> of the task registry) are the argument \<open>linked\<close>.
\<close>

subsection \<open>Owner-scoped access\<close>

definition getTaskFlowByIdForOwner ::
    "'db flow_store \<Rightarrow> 'db flow_registry \<Rightarrow> string \<Rightarrow> string \<Rightarrow> task_flow_record option \<times> 'db flow_registry" where
  "getTaskFlowByIdForOwner st reg fid caller =
     (case getTaskFlowById st reg fid of
        (None, reg) \<Rightarrow> (None, reg)
      | (Some flow, reg) \<Rightarrow>
          (if normalizeOptionalString (JString (ownerKey flow)) = normalizeOptionalString (JString caller)
           then Some flow else None, reg))"

definition listTaskFlowsForOwner ::
    "'db flow_store \<Rightarrow> 'db flow_registry \<Rightarrow> string \<Rightarrow> task_flow_record list \<times> 'db flow_registry" where
  "listTaskFlowsForOwner st reg caller = (case normalizeOptionalString (JString caller) of
     None \<Rightarrow> ([], reg) | Some k \<Rightarrow> listTaskFlowsForOwnerKey st reg k)"

definition findLatestTaskFlowForOwner ::
    "'db flow_store \<Rightarrow> 'db flow_registry \<Rightarrow> string \<Rightarrow> task_flow_record option \<times> 'db flow_registry" where
  "findLatestTaskFlowForOwner st reg caller = (case normalizeOptionalString (JString caller) of
     None \<Rightarrow> (None, reg) | Some k \<Rightarrow> findLatestTaskFlowForOwnerKey st reg k)"

definition resolveTaskFlowForLookupTokenForOwner ::
    "'db flow_store \<Rightarrow> 'db flow_registry \<Rightarrow> string \<Rightarrow> string \<Rightarrow> task_flow_record option \<times> 'db flow_registry" where
  "resolveTaskFlowForLookupTokenForOwner st reg token caller =
     (case getTaskFlowByIdForOwner st reg token caller of
        (Some flow, reg) \<Rightarrow> (Some flow, reg)
      | (None, reg) \<Rightarrow>
          (let normalizedToken = normalizeOptionalString (JString token);
               normalizedCaller = normalizeOptionalString (JString caller)
           in case normalizedToken of
                None \<Rightarrow> (None, reg)
              | Some t \<Rightarrow> if normalizedCaller \<noteq> Some t then (None, reg)
                           else findLatestTaskFlowForOwner st reg t))"

subsection \<open>Maintenance\<close>

definition TASK_FLOW_RETENTION_MS :: int where
  "TASK_FLOW_RETENTION_MS = 7 * 24 * 60 * 60000"

definition isTerminalFlow :: "task_flow_record \<Rightarrow> bool" where
  "isTerminalFlow f \<longleftrightarrow> status f = F_succeeded \<or> status f = F_failed \<or> status f = F_cancelled \<or> status f = F_lost"

definition active_task :: "task_record \<Rightarrow> bool" where
  "active_task t \<longleftrightarrow> task_status t = T_queued \<or> task_status t = T_running"

definition hasActiveLinkedTasks :: "(string \<Rightarrow> task_record list) \<Rightarrow> string \<Rightarrow> bool" where
  "hasActiveLinkedTasks linked fid = list_ex active_task (linked fid)"

definition resolveTerminalAt :: "task_flow_record \<Rightarrow> int" where
  "resolveTerminalAt f = nullish (endedAt f) (updatedAt f)"

definition shouldPruneFlow :: "(string \<Rightarrow> task_record list) \<Rightarrow> task_flow_record \<Rightarrow> int \<Rightarrow> bool" where
  "shouldPruneFlow linked f now =
     (if \<not> isTerminalFlow f then False
      else if hasActiveLinkedTasks linked (flowId f) then False
      else TASK_FLOW_RETENTION_MS \<le> now - resolveTerminalAt f)"

definition shouldFinalizeCancelledFlow :: "(string \<Rightarrow> task_record list) \<Rightarrow> task_flow_record \<Rightarrow> bool" where
  "shouldFinalizeCancelledFlow linked f =
     (if syncMode f \<noteq> Managed then False
      else if cancelRequestedAt f = None \<or> isTerminalFlow f then False
      else \<not> hasActiveLinkedTasks linked (flowId f))"

text \<open>The retry loop of \<open>finalizeCancelledFlow\<close>; the argument counts the attempts left.\<close>

fun finalize_attempts ::
    "'db flow_store \<Rightarrow> (string \<Rightarrow> task_record list) \<Rightarrow> int \<Rightarrow> int \<Rightarrow> nat \<Rightarrow> task_flow_record
     \<Rightarrow> 'db flow_registry \<Rightarrow> (flow_error + bool) \<times> 'db flow_registry" where
  "finalize_attempts st linked clock now 0 current reg = (Inr False, reg)"
| "finalize_attempts st linked clock now (Suc n) current reg =
     (let ended = max (max now (updatedAt current)) (nullish (cancelRequestedAt current) now) in
      case updateFlowRecordByIdExpectedRevision st clock reg (flowId current) (revision current)
             (empty_patch\<lparr>
                p_status := Some F_cancelled, p_blockedTaskId := Null, p_blockedSummary := Null,
                p_waitJson := Some JsonNull, p_endedAt := Val ended, p_updatedAt := Some ended\<rparr>) of
        (Inl e, reg) \<Rightarrow> (Inl e, reg)
      | (Inr (Applied f), reg) \<Rightarrow> (Inr True, reg)
      | (Inr NotFound, reg) \<Rightarrow> (Inr False, reg)
      | (Inr (RevisionConflict c), reg) \<Rightarrow>
          if \<not> shouldFinalizeCancelledFlow linked c then (Inr False, reg)
          else finalize_attempts st linked clock now n c reg)"

definition finalizeCancelledFlow ::
    "'db flow_store \<Rightarrow> (string \<Rightarrow> task_record list) \<Rightarrow> int \<Rightarrow> task_flow_record \<Rightarrow> int
     \<Rightarrow> 'db flow_registry \<Rightarrow> (flow_error + bool) \<times> 'db flow_registry" where
  "finalizeCancelledFlow st linked clock f now reg = finalize_attempts st linked clock now 2 f reg"

record maintenance_summary =
  reconciled :: nat
  pruned :: nat

definition preview_one ::
    "(string \<Rightarrow> task_record list) \<Rightarrow> int \<Rightarrow> maintenance_summary \<Rightarrow> task_flow_record \<Rightarrow> maintenance_summary" where
  "preview_one linked now s f =
     (if shouldFinalizeCancelledFlow linked f then s\<lparr>reconciled := reconciled s + 1\<rparr>
      else if shouldPruneFlow linked f now then s\<lparr>pruned := pruned s + 1\<rparr> else s)"

definition previewTaskFlowRegistryMaintenance ::
    "'db flow_store \<Rightarrow> (string \<Rightarrow> task_record list) \<Rightarrow> int \<Rightarrow> 'db flow_registry
     \<Rightarrow> maintenance_summary \<times> 'db flow_registry" where
  "previewTaskFlowRegistryMaintenance st linked now reg =
     (case listTaskFlowRecords st reg of (fs, reg) \<Rightarrow>
        (foldl (preview_one linked now) \<lparr> reconciled = 0, pruned = 0 \<rparr> fs, reg))"

text \<open>One turn of the sweep, on the summary counted so far.\<close>

definition maintain_one ::
    "'db flow_store \<Rightarrow> (string \<Rightarrow> task_record list) \<Rightarrow> int \<Rightarrow> int \<Rightarrow> maintenance_summary
     \<Rightarrow> task_flow_record \<Rightarrow> 'db flow_registry \<Rightarrow> (flow_error + maintenance_summary) \<times> 'db flow_registry" where
  "maintain_one st linked clock now s f reg =
     (case getTaskFlowById st reg (flowId f) of
        (None, reg) \<Rightarrow> (Inr s, reg)
      | (Some current, reg) \<Rightarrow>
          if shouldFinalizeCancelledFlow linked current then
            (case finalizeCancelledFlow st linked clock current now reg of
               (Inl e, reg) \<Rightarrow> (Inl e, reg)
             | (Inr ok, reg) \<Rightarrow> (Inr (if ok then s\<lparr>reconciled := reconciled s + 1\<rparr> else s), reg))
          else if shouldPruneFlow linked current now then
            (case deleteTaskFlowRecordById st reg (flowId current) of
               (Inl e, reg) \<Rightarrow> (Inl e, reg)
             | (Inr ok, reg) \<Rightarrow> (Inr (if ok then s\<lparr>pruned := pruned s + 1\<rparr> else s), reg))
          else (Inr s, reg))"

fun maintain_all ::
    "'db flow_store \<Rightarrow> (string \<Rightarrow> task_record list) \<Rightarrow> int \<Rightarrow> int \<Rightarrow> maintenance_summary
     \<Rightarrow> task_flow_record list \<Rightarrow> 'db flow_registry \<Rightarrow> (flow_error + maintenance_summary) \<times> 'db flow_registry" where
  "maintain_all st linked clock now s [] reg = (Inr s, reg)"
| "maintain_all st linked clock now s (f # fs) reg =
     (case maintain_one st linked clock now s f reg of
        (Inl e, reg) \<Rightarrow> (Inl e, reg)
      | (Inr s, reg) \<Rightarrow> maintain_all st linked clock now s fs reg)"

definition runTaskFlowRegistryMaintenance ::
    "'db flow_store \<Rightarrow> (string \<Rightarrow> task_record list) \<Rightarrow> int \<Rightarrow> int \<Rightarrow> 'db flow_registry
     \<Rightarrow> (flow_error + maintenance_summary) \<times> 'db flow_registry" where
  "runTaskFlowRegistryMaintenance st linked clock now reg =
     (case listTaskFlowRecords st reg of (fs, reg) \<Rightarrow>
        maintain_all st linked clock now \<lparr> reconciled = 0, pruned = 0 \<rparr> fs reg)"

subsection \<open>Audit\<close>

datatype audit_severity = Warn | Err

datatype audit_code =
    Restore_failed | Stale_running | Stale_waiting | Stale_blocked | Cancel_stuck
  | Missing_linked_tasks | Blocked_task_missing | Inconsistent_timestamps

record audit_finding =
  severity :: audit_severity
  code :: audit_code
  detail :: string
  ageMs :: "int option"
  flow :: "task_flow_record option"

record audit_summary =
  total :: nat
  warnings :: nat
  errors :: nat
  byCode :: "audit_code \<Rightarrow> nat"

record audit_options =
  o_staleRunningMs :: "int option"
  o_staleWaitingMs :: "int option"
  o_staleBlockedMs :: "int option"
  o_cancelStuckMs :: "int option"

fun severityRank :: "audit_severity \<Rightarrow> int" where
  "severityRank Err = 0"
| "severityRank Warn = 1"

text \<open>\<open>compareFindings\<close> orders by the key: rank, then age descending, then creation time.\<close>

definition finding_key :: "audit_finding \<Rightarrow> int \<times> int \<times> int" where
  "finding_key a = (severityRank (severity a), - nullish (ageMs a) (- 1),
     (case flow a of None \<Rightarrow> 0 | Some f \<Rightarrow> createdAt f))"

definition compareFindings :: "audit_finding \<Rightarrow> audit_finding \<Rightarrow> int" where
  "compareFindings l r =
     (let severityDiff = severityRank (severity l) - severityRank (severity r) in
      if severityDiff \<noteq> 0 then severityDiff
      else
        (let leftAge = nullish (ageMs l) (- 1); rightAge = nullish (ageMs r) (- 1) in
         if leftAge \<noteq> rightAge then rightAge - leftAge
         else (case flow l of None \<Rightarrow> 0 | Some f \<Rightarrow> createdAt f)
            - (case flow r of None \<Rightarrow> 0 | Some f \<Rightarrow> createdAt f)))"

definition hasBlockingMetadata :: "task_flow_record \<Rightarrow> bool" where
  "hasBlockingMetadata f \<longleftrightarrow> str_truthy (map_option js_trim (blockedTaskId f)) \<or>
     str_truthy (map_option js_trim (blockedSummary f)) \<or>
     (waitJson f \<noteq> None \<and> waitJson f \<noteq> Some JsonNull)"

definition timestamp_finding :: "task_flow_record \<Rightarrow> string \<Rightarrow> audit_finding" where
  "timestamp_finding f d = \<lparr> severity = Warn, code = Inconsistent_timestamps, detail = d,
     ageMs = None, flow = Some f \<rparr>"

definition findTimestampInconsistency :: "task_flow_record \<Rightarrow> audit_finding option" where
  "findTimestampInconsistency f =
     (let ended = nullish (endedAt f) 0 in
      if updatedAt f < createdAt f
        then Some (timestamp_finding f ''updatedAt is earlier than createdAt'')
      else if ended \<noteq> 0 \<and> ended < createdAt f
        then Some (timestamp_finding f ''endedAt is earlier than createdAt'')
      else if ended \<noteq> 0 \<and> ended < updatedAt f
        then Some (timestamp_finding f ''endedAt is earlier than updatedAt'')
      else None)"

definition audit_flow ::
    "(string \<Rightarrow> task_record list) \<Rightarrow> int \<Rightarrow> audit_options \<Rightarrow> task_flow_record \<Rightarrow> audit_finding list" where
  "audit_flow linked now opts f =
     (let staleRunningMs = nullish (o_staleRunningMs opts) (30 * 60000);
          staleWaitingMs = nullish (o_staleWaitingMs opts) (30 * 60000);
          staleBlockedMs = nullish (o_staleBlockedMs opts) (30 * 60000);
          cancelStuckMs = nullish (o_cancelStuckMs opts) (5 * 60000);
          age = max 0 (now - updatedAt f);
          linkedTasks = linked (flowId f);
          activeTasks = filter active_task linkedTasks
      in (if status f = F_running \<and> staleRunningMs \<le> age
          then [\<lparr> severity = Err, code = Stale_running,
                  detail = ''running TaskFlow has not advanced recently'',
                  ageMs = Some age, flow = Some f \<rparr>] else []) @
         (if status f = F_waiting \<and> staleWaitingMs \<le> age
          then [\<lparr> severity = Warn, code = Stale_waiting,
                  detail = ''waiting TaskFlow has not advanced recently'',
                  ageMs = Some age, flow = Some f \<rparr>] else []) @
         (if status f = F_blocked \<and> staleBlockedMs \<le> age
          then [\<lparr> severity = Warn, code = Stale_blocked,
                  detail = ''blocked TaskFlow has not advanced recently'',
                  ageMs = Some age, flow = Some f \<rparr>] else []) @
         (case cancelRequestedAt f of
            None \<Rightarrow> []
          | Some c \<Rightarrow>
              if \<not> isTerminalFlow f \<and> activeTasks = [] \<and> cancelStuckMs \<le> now - c
              then [\<lparr> severity = Warn, code = Cancel_stuck,
                      detail = ''cancel-requested TaskFlow has no active child tasks but is still nonterminal'',
                      ageMs = Some (max 0 (now - c)), flow = Some f \<rparr>] else []) @
         (if syncMode f = Managed \<and>
             (status f = F_running \<or> status f = F_waiting \<or> status f = F_blocked) \<and>
             (if status f = F_running then staleRunningMs
              else if status f = F_waiting then staleWaitingMs else staleBlockedMs) \<le> age \<and>
             linkedTasks = [] \<and> \<not> hasBlockingMetadata f
          then [\<lparr> severity = (if status f = F_running then Err else Warn), code = Missing_linked_tasks,
                  detail = ''managed TaskFlow has no linked tasks or wait state'',
                  ageMs = Some age, flow = Some f \<rparr>] else []) @
         (case map_option js_trim (blockedTaskId f) of
            None \<Rightarrow> []
          | Some b \<Rightarrow>
              if b \<noteq> [] \<and> \<not> list_ex (\<lambda>t. taskId t = b) linkedTasks
              then [\<lparr> severity = Warn, code = Blocked_task_missing,
                      detail = ''blocked TaskFlow points at missing task '' @ b,
                      ageMs = Some age, flow = Some f \<rparr>] else []) @
         (case findTimestampInconsistency f of None \<Rightarrow> [] | Some i \<Rightarrow> [i]))"

fun flow_error_message :: "flow_error \<Rightarrow> string" where
  "flow_error_message OwnerKeyRequired = ''Flow ownerKey is required.''"
| "flow_error_message ControllerIdRequired = ''Managed flow controllerId is required.''"
| "flow_error_message (StoreError m) = m"

definition listTaskFlowAuditFindings ::
    "'db flow_store \<Rightarrow> (string \<Rightarrow> task_record list) \<Rightarrow> int \<Rightarrow> audit_options \<Rightarrow> 'db flow_registry
     \<Rightarrow> audit_finding list \<times> 'db flow_registry" where
  "listTaskFlowAuditFindings st linked now opts reg =
     (case listTaskFlowRecords st reg of (fs, reg) \<Rightarrow>
      (case getTaskFlowRegistryRestoreFailure st reg of (failure, reg) \<Rightarrow>
       (let message = map_option flow_error_message failure;
            restore_part = (if str_truthy message
              then [\<lparr> severity = Err, code = Restore_failed,
                      detail = ''task-flow registry restore failed: '' @ the message,
                      ageMs = None, flow = None \<rparr>] else [])
        in (sort_key finding_key (restore_part @ concat (map (audit_flow linked now opts) fs)), reg))))"

definition createEmptyTaskFlowAuditSummary :: audit_summary where
  "createEmptyTaskFlowAuditSummary = \<lparr> total = 0, warnings = 0, errors = 0, byCode = (\<lambda>_. 0) \<rparr>"

definition summarize_one :: "audit_summary \<Rightarrow> audit_finding \<Rightarrow> audit_summary" where
  "summarize_one s a =
     (let s = s\<lparr>total := total s + 1, byCode := (byCode s)(code a := byCode s (code a) + 1)\<rparr> in
      if severity a = Err then s\<lparr>errors := errors s + 1\<rparr> else s\<lparr>warnings := warnings s + 1\<rparr>)"

definition summarizeTaskFlowAuditFindings :: "audit_finding list \<Rightarrow> audit_summary" where
  "summarizeTaskFlowAuditFindings fs = foldl summarize_one createEmptyTaskFlowAuditSummary fs"

end
