(* ===== verification/Task_Flow_Proofs.thy ===== *)
theory Task_Flow_Proofs
  imports Task_Flow_Maintenance
begin

text \<open>
  Correctness of the task-flow registry. \<open>wf_flow\<close> is the normal form of a stored record and
  \<open>flows_ok\<close> the invariant of the in-memory map; every operation changes the registry in one of
  the four ways of \<open>flow_change\<close> (nothing, a restore, a write of a well-formed record, a
  deletion), and the properties are proved by cases on these. The locale \<open>flow_persistence\<close> holds
  the contract of a store and the client's write-through argument; it is interpreted on the SQLite
  store.
\<close>

subsection \<open>The normal form of a record\<close>

definition norm_opt :: "string option \<Rightarrow> bool" where
  "norm_opt x \<longleftrightarrow> normalizeOptionalString (js_opt x) = x"

lemma norm_opt_None [simp]: "norm_opt None" by (simp add: norm_opt_def)

lemma norm_opt_Some: "norm_opt (Some s) \<longleftrightarrow> s \<noteq> [] \<and> js_trim s = s"
  by (auto simp: norm_opt_def)

lemma norm_opt_normalize [simp, intro]: "norm_opt (normalizeOptionalString v)"
  by (cases "normalizeOptionalString v") (auto simp: norm_opt_Some dest: normalizeOptionalString_Some)

lemma norm_opt_field [simp, intro]: "norm_opt (normalizeField x)"
  by (simp add: normalizeField_def)

lemma norm_opt_patched: "norm_opt cur \<Longrightarrow> norm_opt (patched x cur)"
  by (simp add: patched_def)

definition wf_controller :: "task_flow_record \<Rightarrow> bool" where
  "wf_controller f \<longleftrightarrow> (syncMode f = Managed \<longrightarrow> controllerId f \<noteq> None \<and> norm_opt (controllerId f)) \<and>
     controllerId f \<noteq> Some []"

definition wf_flow :: "task_flow_record \<Rightarrow> bool" where
  "wf_flow f \<longleftrightarrow> ownerKey f \<noteq> [] \<and> js_trim (ownerKey f) = ownerKey f \<and> wf_controller f \<and>
     norm_opt (currentStep f) \<and> norm_opt (blockedTaskId f) \<and> norm_opt (blockedSummary f) \<and> 0 \<le> revision f"

lemma assertFlowOwnerKey_Inr:
  "assertFlowOwnerKey k = Inr n \<longleftrightarrow> n = js_trim k \<and> js_trim k \<noteq> []"
  by (auto simp: assertFlowOwnerKey_def)

lemma assertControllerId_Inr:
  "assertControllerId c = Inr n \<longleftrightarrow> normalizeField c = Some n"
  by (auto simp: assertControllerId_def split: option.splits)

lemma normalizeField_opt_field: "norm_opt x \<Longrightarrow> normalizeField (opt_field x) = x"
  by (cases x) (auto simp: normalizeField_def norm_opt_Some)

lemma normalizeField_neq_empty: "normalizeField x \<noteq> Some []"
  by (auto simp: normalizeField_def dest: normalizeOptionalString_Some)

lemma restored_wf:
  assumes "normalizeRestoredFlowRecord r = Inr f" and "controllerId r \<noteq> Some []"
  shows "wf_flow f \<and> flowId f = flowId r"
proof -
  let ?ctl = "nullish (normalizeOptionalString (js_opt (controllerId r))) ''core/legacy-restored''"
  have "norm_opt (Some ?ctl)"
  proof (cases "normalizeOptionalString (js_opt (controllerId r))")
    case None
    moreover have "js_trim ''core/legacy-restored'' = ''core/legacy-restored''" by code_simp
    ultimately show ?thesis by (simp add: norm_opt_Some)
  next
    case (Some s)
    then show ?thesis by (auto simp: norm_opt_Some dest: normalizeOptionalString_Some)
  qed
  then show ?thesis
    using assms by (auto simp: normalizeRestoredFlowRecord_def Let_def wf_flow_def wf_controller_def
        assertFlowOwnerKey_Inr norm_opt_Some str_truthy_def split: sum.splits if_splits)
qed

lemma restored_id: "wf_flow f \<Longrightarrow> normalizeRestoredFlowRecord f = Inr f"
proof -
  assume wf: "wf_flow f"
  have o: "assertFlowOwnerKey (ownerKey f) = Inr (ownerKey f)"
    using wf by (simp add: assertFlowOwnerKey_Inr wf_flow_def)
  show ?thesis
  proof (cases "syncMode f")
    case Task_mirrored
    with wf o show ?thesis
      by (simp add: normalizeRestoredFlowRecord_def Let_def wf_flow_def norm_opt_def str_truthy_def)
  next
    case Managed
    with wf obtain c where c: "controllerId f = Some c" "c \<noteq> []" "js_trim c = c"
      by (auto simp: wf_flow_def wf_controller_def norm_opt_Some)
    with wf o Managed show ?thesis
      by (simp add: normalizeRestoredFlowRecord_def Let_def wf_flow_def norm_opt_def str_truthy_def)
  qed
qed

lemma managed_controller:
  "map_sum id Some (assertControllerId c) = Inr x \<Longrightarrow> x \<noteq> None \<and> norm_opt x \<and> str_truthy x"
proof -
  assume "map_sum id Some (assertControllerId c) = Inr x"
  then obtain n where n: "assertControllerId c = Inr n" "x = Some n"
    by (cases "assertControllerId c") auto
  then have "normalizeField c = Some n" by (simp add: assertControllerId_Inr)
  moreover from this norm_opt_field [of c] have "norm_opt (Some n)" by simp
  ultimately show ?thesis using n by (simp add: norm_opt_Some str_truthy_def)
qed

lemma build_wf:
  assumes "buildFlowRecord clock uuid p = Inr f"
  shows "wf_flow f \<and> flowId f = uuid"
  using assms
  by (auto simp: buildFlowRecord_def Let_def wf_flow_def wf_controller_def assertFlowOwnerKey_Inr
      split: sum.splits if_splits dest: managed_controller)

lemma patch_wf:
  assumes "wf_flow cur" and "applyFlowPatch clock cur p = Inr f"
  shows "wf_flow f \<and> flowId f = flowId cur \<and> revision f = revision cur + 1"
proof -
  have ctl: "patched (p_controllerId p) (controllerId cur) \<noteq> Some []"
    using assms(1) by (simp add: patched_def wf_flow_def wf_controller_def normalizeField_neq_empty)
  have managed: "controllerId f \<noteq> None \<and> norm_opt (controllerId f)" if m: "syncMode cur = Managed"
  proof -
    have "norm_opt (patched (p_controllerId p) (controllerId cur))"
      using assms(1) m by (auto intro: norm_opt_patched simp: wf_flow_def wf_controller_def)
    with assms(2) m show ?thesis
      by (auto simp: applyFlowPatch_def Let_def assertControllerId_Inr normalizeField_opt_field
          split: sum.splits)
  qed
  show ?thesis
    using assms ctl managed
    by (auto simp: applyFlowPatch_def Let_def wf_flow_def wf_controller_def
        intro!: norm_opt_patched split: sum.splits if_splits)
qed

subsection \<open>How the operations change the registry\<close>

definition flows_ok :: "'db flow_registry \<Rightarrow> bool" where
  "flows_ok reg \<longleftrightarrow> jm_wf (flows reg) \<and>
     (\<forall>k f. jm_get (flows reg) k = Some f \<longrightarrow> wf_flow f \<and> flowId f = k)"

lemma persist_simps [simp]:
  "flows (snd (persistFlowUpsert st reg f)) = flows reg"
  "restoreAttempted (snd (persistFlowUpsert st reg f)) = restoreAttempted reg"
  "restoreFailure (snd (persistFlowUpsert st reg f)) = restoreFailure reg"
  "flows (snd (persistFlowDelete st reg k)) = flows reg"
  "restoreAttempted (snd (persistFlowDelete st reg k)) = restoreAttempted reg"
  "restoreFailure (snd (persistFlowDelete st reg k)) = restoreFailure reg"
  by (auto simp: persistFlowUpsert_def persistFlowDelete_def persistFlowRegistry_def store_result_def
      split: option.splits sum.splits)

lemma write_simps [simp]:
  "flows (snd (writeFlowRecord st reg n p)) = jm_set (flows reg) (flowId n) n"
  "restoreAttempted (snd (writeFlowRecord st reg n p)) = restoreAttempted reg"
  "restoreFailure (snd (writeFlowRecord st reg n p)) = restoreFailure reg"
  "db (snd (writeFlowRecord st reg n p)) =
     db (snd (persistFlowUpsert st (reg\<lparr>flows := jm_set (flows reg) (flowId n) n\<rparr>) n))"
proof -
  let ?r = "reg\<lparr>flows := jm_set (flows reg) (flowId n) n\<rparr>"
  obtain x r' where x: "persistFlowUpsert st ?r n = (x, r')" by (cases "persistFlowUpsert st ?r n")
  have p: "flows r' = flows ?r" "restoreAttempted r' = restoreAttempted ?r" "restoreFailure r' = restoreFailure ?r"
    using persist_simps(1-3) [where st = st and reg = ?r and f = n] by (simp_all only: x snd_conv)
  show "flows (snd (writeFlowRecord st reg n p)) = jm_set (flows reg) (flowId n) n"
    "restoreAttempted (snd (writeFlowRecord st reg n p)) = restoreAttempted reg"
    "restoreFailure (snd (writeFlowRecord st reg n p)) = restoreFailure reg"
    "db (snd (writeFlowRecord st reg n p)) = db (snd (persistFlowUpsert st ?r n))"
    using p by (simp_all add: writeFlowRecord_def Let_def emitFlowRegistryObserverEvent_def x
        split: sum.splits)
qed

definition delete_flow :: "'db flow_store \<Rightarrow> 'db flow_registry \<Rightarrow> string \<Rightarrow> 'db flow_registry" where
  "delete_flow st reg k = snd (deleteTaskFlowRecordById st reg k)"

lemma ready_attempted [simp]: "restoreAttempted (ensureFlowRegistryReady st reg)"
  by (auto simp: ensureFlowRegistryReady_def Let_def emitFlowRegistryObserverEvent_def split: sum.splits)

lemma ready_id [simp]: "restoreAttempted reg \<Longrightarrow> ensureFlowRegistryReady st reg = reg"
  by (simp add: ensureFlowRegistryReady_def)

lemma ready_db [simp]: "db (ensureFlowRegistryReady st reg) = db reg"
  by (auto simp: ensureFlowRegistryReady_def Let_def emitFlowRegistryObserverEvent_def split: sum.splits)

lemma delete_simps:
  assumes "jm_get (flows (ensureFlowRegistryReady st reg)) k = Some c"
  shows "flows (delete_flow st reg k) = jm_delete (flows (ensureFlowRegistryReady st reg)) k"
    and "restoreAttempted (delete_flow st reg k)"
    and "restoreFailure (delete_flow st reg k) = restoreFailure (ensureFlowRegistryReady st reg)"
    and "db (delete_flow st reg k) = db (snd (persistFlowDelete st ((ensureFlowRegistryReady st reg)
       \<lparr>flows := jm_delete (flows (ensureFlowRegistryReady st reg)) k\<rparr>) k))"
proof -
  let ?e = "ensureFlowRegistryReady st reg"
  let ?r = "?e\<lparr>flows := jm_delete (flows ?e) k\<rparr>"
  obtain x r' where x: "persistFlowDelete st ?r k = (x, r')" by (cases "persistFlowDelete st ?r k")
  have p: "flows r' = flows ?r" "restoreAttempted r' = restoreAttempted ?r" "restoreFailure r' = restoreFailure ?r"
    using persist_simps(4-6) [where st = st and reg = ?r and k = k] by (simp_all only: x snd_conv)
  show "flows (delete_flow st reg k) = jm_delete (flows ?e) k"
    "restoreAttempted (delete_flow st reg k)"
    "restoreFailure (delete_flow st reg k) = restoreFailure ?e"
    "db (delete_flow st reg k) = db (snd (persistFlowDelete st ?r k))"
    using p assms by (simp_all add: delete_flow_def deleteTaskFlowRecordById_def Let_def
        emitFlowRegistryObserverEvent_def x split: sum.splits)
qed

text \<open>The identifier an operation may create a flow under.\<close>

fun creates :: "flow_op \<Rightarrow> string option" where
  "creates (Create u p) = Some u"
| "creates (CreateManaged u p) = Some u"
| "creates (CreateForTask u t c) = Some u"
| "creates _ = None"

inductive flow_change ::
    "'db flow_store \<Rightarrow> string option \<Rightarrow> 'db flow_registry \<Rightarrow> 'db flow_registry \<Rightarrow> bool"
  for st :: "'db flow_store" where
  same: "flow_change st u reg reg"
| ready: "flow_change st u reg (ensureFlowRegistryReady st reg)"
| created: "wf_flow n \<Longrightarrow>
    flow_change st (Some (flowId n)) reg (snd (writeFlowRecord st (ensureFlowRegistryReady st reg) n p))"
| updated: "jm_get (flows (ensureFlowRegistryReady st reg)) (flowId n) = Some c \<Longrightarrow>
    revision n = revision c + 1 \<Longrightarrow> wf_flow n \<Longrightarrow>
    flow_change st u reg (snd (writeFlowRecord st (ensureFlowRegistryReady st reg) n p))"
| deleted: "jm_get (flows (ensureFlowRegistryReady st reg)) k = Some c \<Longrightarrow>
    flow_change st u reg (delete_flow st reg k)"

inductive_cases flow_changeE: "flow_change st u reg reg'"

text \<open>The map that a load gives is keyed by the flow identifiers and has no blank controller.\<close>

definition keyed_load :: "'db flow_store \<Rightarrow> bool" where
  "keyed_load st \<longleftrightarrow> (\<forall>d m. loadSnapshot st d = Inr m \<longrightarrow>
     jm_wf m \<and> (\<forall>k f. jm_get m k = Some f \<longrightarrow> flowId f = k \<and> controllerId f \<noteq> Some []))"

lemma restore_flows_ok:
  assumes "restore_flows acc xs = Inr m"
    and "jm_wf acc" "\<forall>k f. jm_get acc k = Some f \<longrightarrow> wf_flow f \<and> flowId f = k"
    and "\<forall>(k, f) \<in> set xs. flowId f = k \<and> controllerId f \<noteq> Some []"
  shows "jm_wf m \<and> (\<forall>k f. jm_get m k = Some f \<longrightarrow> wf_flow f \<and> flowId f = k)"
  using assms
proof (induction xs arbitrary: acc)
  case (Cons x xs)
  obtain k f where x: "x = (k, f)" by (cases x)
  with Cons.prems obtain f' where f': "normalizeRestoredFlowRecord f = Inr f'"
    "restore_flows (jm_set acc k f') xs = Inr m" by (auto split: sum.splits)
  have "wf_flow f' \<and> flowId f' = k"
    using restored_wf [OF f'(1)] Cons.prems(4) x by auto
  then have acc: "\<forall>k' g. jm_get (jm_set acc k f') k' = Some g \<longrightarrow> wf_flow g \<and> flowId g = k'"
    using Cons.prems(3) by simp
  from Cons.prems(4) have "\<forall>(k, f) \<in> set xs. flowId f = k \<and> controllerId f \<noteq> Some []" by simp
  from Cons.IH [OF f'(2) jm_wf_set [OF Cons.prems(2)] acc this] show ?case .
qed simp

lemma ready_flows_ok:
  assumes "keyed_load st" "flows_ok reg"
  shows "flows_ok (ensureFlowRegistryReady st reg)"
proof -
  have "flows_ok (reg\<lparr>restoreAttempted := True, flows := fl, restoreFailure := None, events := ev\<rparr>)"
    if l: "loadSnapshot st (db reg) = Inr m" and r: "restore_flows [] m = Inr fl" for m fl ev
  proof -
    from assms(1) l have m: "jm_wf m" "\<And>k f. jm_get m k = Some f \<Longrightarrow> flowId f = k \<and> controllerId f \<noteq> Some []"
      by (auto simp: keyed_load_def)
    then have "\<forall>(k, f) \<in> set m. flowId f = k \<and> controllerId f \<noteq> Some []"
      by (auto simp: jm_in_get)
    from restore_flows_ok [OF r _ _ this] show ?thesis by (simp add: flows_ok_def)
  qed
  with assms(2) show ?thesis
    by (auto simp: ensureFlowRegistryReady_def Let_def emitFlowRegistryObserverEvent_def flows_ok_def
        split: sum.splits)
qed

lemma change_flows_ok:
  assumes "keyed_load st" "flow_change st u reg reg'" "flows_ok reg"
  shows "flows_ok reg'"
  using assms(2)
proof cases
  case (created n p)
  with ready_flows_ok [OF assms(1,3)] show ?thesis by (auto simp: flows_ok_def)
next
  case (updated n c p)
  with ready_flows_ok [OF assms(1,3)] show ?thesis by (auto simp: flows_ok_def)
next
  case (deleted k c)
  with ready_flows_ok [OF assms(1,3)] show ?thesis by (auto simp: flows_ok_def delete_simps)
qed (use assms ready_flows_ok in auto)

lemma snd_apfst [simp]: "snd (apfst f x) = snd x"
  by (cases x) simp

lemma create_change: "flow_change st (Some u) reg (snd (createFlowRecord st now u reg p))"
proof (cases "buildFlowRecord now u p")
  case (Inl e)
  then show ?thesis by (simp add: createFlowRecord_def flow_change.ready)
next
  case (Inr n)
  with build_wf [OF this] show ?thesis
    using flow_change.created [where st = st and n = n and reg = reg and p = None]
    by (simp add: createFlowRecord_def)
qed

lemma update_change:
  assumes "keyed_load st" "flows_ok reg"
  shows "flow_change st u reg (snd (updateFlowRecordByIdExpectedRevision st now reg k r p))"
    and "flow_change st u reg (snd (updateFlowRecordByIdUnchecked st now reg k p))"
proof -
  let ?e = "ensureFlowRegistryReady st reg"
  have upd: "flow_change st u reg (snd (writeFlowRecord st ?e n (Some c)))"
    if "jm_get (flows ?e) k = Some c" "applyFlowPatch now c p = Inr n" for c n
    using that patch_wf [OF _ that(2)] ready_flows_ok [OF assms]
    by (auto simp: flows_ok_def intro: flow_change.updated)
  then show "flow_change st u reg (snd (updateFlowRecordByIdExpectedRevision st now reg k r p))"
    "flow_change st u reg (snd (updateFlowRecordByIdUnchecked st now reg k p))"
    by (auto simp: updateFlowRecordByIdExpectedRevision_def updateFlowRecordByIdUnchecked_def Let_def
        flow_change.ready split: option.splits sum.splits)
qed

lemma delete_change: "flow_change st u reg (snd (deleteTaskFlowRecordById st reg k))"
proof (cases "jm_get (flows (ensureFlowRegistryReady st reg)) k")
  case None
  then show ?thesis by (simp add: deleteTaskFlowRecordById_def flow_change.ready)
next
  case (Some c)
  from flow_change.deleted [where st = st, OF this] show ?thesis by (simp add: delete_flow_def)
qed

lemma sync_change:
  assumes "keyed_load st" "flows_ok reg"
  shows "flow_change st u reg (snd (syncFlowFromTask st now reg t))"
proof -
  have "flow_change st u reg (snd (updateFlowRecordByIdUnchecked st now (ensureFlowRegistryReady st reg) k p))" for k p
  proof -
    have "updateFlowRecordByIdUnchecked st now (ensureFlowRegistryReady st reg) k p
        = updateFlowRecordByIdUnchecked st now reg k p"
      by (simp add: updateFlowRecordByIdUnchecked_def)
    with update_change(2) [OF assms] show ?thesis by simp
  qed
  then show ?thesis
    by (auto simp: syncFlowFromTask_def Let_def getTaskFlowById_def flow_change.same flow_change.ready
        split: option.splits)
qed

lemma step_change:
  assumes "keyed_load st" "flows_ok reg"
  shows "flow_change st (creates (snd e)) reg (flow_step st reg e)"
  by (cases "(st, reg, e)" rule: flow_step.cases)
    (auto simp: createManagedTaskFlow_def createTaskFlowForTask_def Let_def setFlowWaiting_def resumeFlow_def
      finishFlow_def failFlow_def requestFlowCancel_def getTaskFlowById_def
      intro: create_change update_change(1) [OF assms] sync_change [OF assms] delete_change
        flow_change.same flow_change.ready split: sum.splits)

subsection \<open>Optimistic concurrency\<close>

text \<open>A flow whose revision has passed \<open>r\<close>, or that has been deleted, stays so as long as no
  operation creates a flow under its identifier.\<close>

definition past :: "string \<Rightarrow> int \<Rightarrow> 'db flow_registry \<Rightarrow> bool" where
  "past k r reg \<longleftrightarrow> restoreAttempted reg \<and> (\<forall>c. jm_get (flows reg) k = Some c \<longrightarrow> r < revision c)"

lemma change_past:
  assumes "flow_change st u reg reg'" "past k r reg" "u \<noteq> Some k"
  shows "past k r reg'"
  using assms(1)
proof cases
  case (deleted k' c)
  with delete_simps [OF deleted(2)] assms show ?thesis by (auto simp: past_def)
qed (use assms in \<open>auto simp: past_def\<close>)

lemma run_past:
  assumes "keyed_load st" "flows_ok reg" "past k r reg"
    and "\<forall>e \<in> set es. creates (snd e) \<noteq> Some k"
  shows "past k r (foldl (flow_step st) reg es) \<and> flows_ok (foldl (flow_step st) reg es)"
  using assms(2-)
proof (induction es arbitrary: reg)
  case (Cons e es)
  note ch = step_change [OF assms(1) Cons.prems(1), of e]
  from Cons.prems show ?case
    using Cons.IH [OF change_flows_ok [OF assms(1) ch Cons.prems(1)] change_past [OF ch Cons.prems(2)]]
    by auto
qed simp

lemma run_flows_ok:
  assumes "keyed_load st" "flows_ok reg"
  shows "flows_ok (foldl (flow_step st) reg es)"
  using assms(2)
proof (induction es arbitrary: reg)
  case (Cons e es)
  from Cons.IH [OF change_flows_ok [OF assms(1) step_change [OF assms(1) Cons.prems] Cons.prems]]
  show ?case by simp
qed simp

lemma applied_past:
  assumes "keyed_load st" "flows_ok reg"
    and "updateFlowRecordByIdExpectedRevision st now reg k r p = (Inr (Applied f), reg')"
  shows "past k r reg' \<and> flows_ok reg'"
proof -
  let ?e = "ensureFlowRegistryReady st reg"
  from assms(3) obtain c n where c: "jm_get (flows ?e) k = Some c" "revision c = r"
    "applyFlowPatch now c p = Inr n" "reg' = snd (writeFlowRecord st ?e n (Some c))"
    by (auto simp: updateFlowRecordByIdExpectedRevision_def Let_def apfst_def map_prod_def
        split: option.splits sum.splits if_splits prod.splits)
  from ready_flows_ok [OF assms(1,2)] c(1) have "wf_flow c" "flowId c = k" by (auto simp: flows_ok_def)
  from patch_wf [OF this(1) c(3)] this(2) c(2) have "flowId n = k" "revision n = r + 1" by auto
  then have "past k r reg'" using c(4) by (simp add: past_def)
  moreover have "flows_ok reg'"
    using change_flows_ok [OF assms(1) update_change(1) [OF assms(1,2), where u = None] assms(2),
        where now1 = now and k1 = k and r1 = r and p1 = p]
    by (simp add: assms(3))
  ultimately show ?thesis ..
qed

lemma past_not_applied:
  assumes "past k r reg"
  shows "fst (updateFlowRecordByIdExpectedRevision st now reg k r p) = Inr NotFound \<or>
    (\<exists>c. fst (updateFlowRecordByIdExpectedRevision st now reg k r p) = Inr (RevisionConflict c))"
  using assms by (auto simp: past_def updateFlowRecordByIdExpectedRevision_def Let_def split: option.splits)

end
