(* ===== verification/Task_Flow_Persistence.thy ===== *)
theory Task_Flow_Persistence
  imports Task_Flow_Proofs
begin

text \<open>
  The contract of a task-flow store and what the registry gets from it. \<open>contents d k\<close> is the
  record that a load of the database \<open>d\<close> gives under \<open>k\<close>; \<open>up d\<close> says that the database can be
  opened. A registry that restored successfully mirrors its database (\<open>mirror\<close>), whichever of
  the optional functions the store has. The contract is discharged for the SQLite store.
\<close>

subsection \<open>The contract\<close>

definition restored_of :: "task_flow_record \<Rightarrow> task_flow_record option" where
  "restored_of f = (case normalizeRestoredFlowRecord f of Inl _ \<Rightarrow> None | Inr g \<Rightarrow> Some g)"

definition restores :: "task_flow_record option \<Rightarrow> task_flow_record option \<Rightarrow> bool" where
  "restores x y \<longleftrightarrow> (case x of None \<Rightarrow> y = None | Some f \<Rightarrow> y = restored_of f \<and> y \<noteq> None)"

lemma restores_simps [simp]:
  "restores None y \<longleftrightarrow> y = None"
  "restores (Some f) y \<longleftrightarrow> y = restored_of f \<and> restored_of f \<noteq> None"
  by (auto simp: restores_def)

lemma restores_unique: "restores x y \<Longrightarrow> restores x z \<Longrightarrow> y = z"
  by (cases x) auto

lemma restored_of_wf [simp]: "wf_flow f \<Longrightarrow> restored_of f = Some f"
  by (simp add: restored_of_def restored_id)

locale flow_persistence =
  fixes st :: "'db flow_store"
    and contents :: "'db \<Rightarrow> string \<Rightarrow> task_flow_record option"
    and up :: "'db \<Rightarrow> bool"
  assumes load: "up d \<Longrightarrow> \<exists>m. loadSnapshot st d = Inr m \<and> (\<forall>k. jm_get m k = contents d k)"
    and load_keyed: "keyed_load st"
    and upsert: "up d \<Longrightarrow> wf_flow f \<Longrightarrow> upsertFlow st = Some u \<Longrightarrow>
      \<exists>d'. u d f = Inr d' \<and> up d' \<and> contents d' = (contents d)(flowId f := Some f)"
    and delete: "up d \<Longrightarrow> deleteFlow st = Some v \<Longrightarrow>
      \<exists>d'. v d k = Inr d' \<and> up d' \<and> contents d' = (contents d)(k := None)"
    and save: "up d \<Longrightarrow> jm_wf m \<Longrightarrow> (\<And>k f. jm_get m k = Some f \<Longrightarrow> wf_flow f \<and> flowId f = k) \<Longrightarrow>
      \<exists>d'. saveSnapshot st d m = Inr d' \<and> up d' \<and> contents d' = jm_get m"
begin

text \<open>\<open>synced d m\<close>: restoring \<open>d\<close> gives the map \<open>m\<close>.\<close>

definition synced :: "'db \<Rightarrow> flow_map \<Rightarrow> bool" where
  "synced d m \<longleftrightarrow> (\<forall>k. restores (contents d k) (jm_get m k))"

definition mirror :: "'db flow_registry \<Rightarrow> bool" where
  "mirror reg \<longleftrightarrow> up (db reg) \<and>
     (restoreAttempted reg \<and> restoreFailure reg = None \<longrightarrow> synced (db reg) (flows reg))"

lemma restore_flows_get:
  "restore_flows acc xs = Inr m \<Longrightarrow> distinct (map fst xs) \<Longrightarrow>
   jm_get m k = (case jm_get xs k of None \<Rightarrow> jm_get acc k | Some f \<Rightarrow> restored_of f) \<and>
   (\<forall>f. jm_get xs k = Some f \<longrightarrow> restored_of f \<noteq> None)"
proof (induction xs arbitrary: acc)
  case (Cons x xs)
  obtain j g where x: "x = (j, g)" by (cases x)
  with Cons.prems(1) obtain g' where g': "normalizeRestoredFlowRecord g = Inr g'"
    "restore_flows (jm_set acc j g') xs = Inr m" by (auto split: sum.splits)
  from x Cons.prems(2) have d: "distinct (map fst xs)" "jm_get xs j = None" by (auto simp: jm_get_None)
  from Cons.IH [OF g'(2) d(1)] show ?case using x g'(1) d(2)
    by (cases "jm_get xs k") (auto simp: restored_of_def)
qed simp

lemma restore_synced:
  assumes "loadSnapshot st d = Inr m" "restore_flows [] m = Inr fl" "up d"
  shows "synced d fl"
proof -
  have "jm_wf m" using load_keyed assms(1) by (auto simp: keyed_load_def)
  then have dm: "distinct (map fst m)" by (simp add: jm_wf_def)
  have c: "jm_get m k = contents d k" for k using load [OF assms(3)] assms(1) by auto
  have "restores (contents d k) (jm_get fl k)" for k
    using restore_flows_get [OF assms(2) dm, of k] c [of k] by (cases "contents d k") auto
  then show ?thesis by (simp add: synced_def)
qed

lemma ready_mirror: "mirror reg \<Longrightarrow> mirror (ensureFlowRegistryReady st reg)"
  by (auto simp: ensureFlowRegistryReady_def Let_def emitFlowRegistryObserverEvent_def mirror_def
      intro: restore_synced split: sum.splits)

text \<open>A restart on a synced database gives the same flows, and does not fail.\<close>

lemma restore_flows_Inr:
  "(\<And>k f. (k, f) \<in> set xs \<Longrightarrow> restored_of f \<noteq> None) \<Longrightarrow> \<exists>m. restore_flows acc xs = Inr m"
proof (induction xs arbitrary: acc)
  case (Cons x xs)
  obtain j g where x: "x = (j, g)" by (cases x)
  with Cons.prems [of j g] obtain g' where "normalizeRestoredFlowRecord g = Inr g'"
    by (auto simp: restored_of_def split: sum.splits)
  moreover from Cons obtain m where "restore_flows (jm_set acc j g') xs = Inr m" by fastforce
  ultimately show ?case using x by simp
qed simp

lemma restart:
  assumes "up d" "synced d m"
  shows "restoreFailure (ensureFlowRegistryReady st (fresh_registry d)) = None"
    and "jm_get (flows (ensureFlowRegistryReady st (fresh_registry d))) k = jm_get m k"
proof -
  obtain s where s: "loadSnapshot st d = Inr s" "\<And>k. jm_get s k = contents d k"
    using load [OF assms(1)] by auto
  have "jm_wf s" using load_keyed s(1) by (auto simp: keyed_load_def)
  then have n: "restored_of f \<noteq> None" if "(k, f) \<in> set s" for k f
    using that assms(2) s(2) [of k] jm_in_get [of s k f] by (auto simp: synced_def dest!: spec [of _ k])
  obtain fl where fl: "restore_flows [] s = Inr fl"
    using restore_flows_Inr [of s "[]"] n by blast
  have e: "ensureFlowRegistryReady st (fresh_registry d) =
     emitFlowRegistryObserverEvent ((fresh_registry d)\<lparr>restoreAttempted := True, flows := fl,
       restoreFailure := None\<rparr>) (Ev_restored (jm_values fl))"
    using s(1) fl by (simp add: ensureFlowRegistryReady_def fresh_registry_def)
  show "restoreFailure (ensureFlowRegistryReady st (fresh_registry d)) = None"
    by (simp add: e emitFlowRegistryObserverEvent_def)
  have "synced d fl" by (rule restore_synced [OF s(1) fl assms(1)])
  with assms(2) have "jm_get fl k = jm_get m k"
    using restores_unique [of "contents d k"] by (auto simp: synced_def)
  then show "jm_get (flows (ensureFlowRegistryReady st (fresh_registry d))) k = jm_get m k"
    by (simp add: e emitFlowRegistryObserverEvent_def)
qed

subsection \<open>Writing through\<close>

lemma snapshot_of_flows:
  assumes "jm_wf m" "\<And>k f. jm_get m k = Some f \<Longrightarrow> flowId f = k"
  shows "foldl (\<lambda>m f. jm_set m (flowId f) f) [] (jm_values m) = m"
proof -
  have "foldl (\<lambda>m f. jm_set m (flowId f) f) acc (jm_values xs) = acc @ xs"
    if "distinct (map fst (acc @ xs))" "\<forall>(k, f) \<in> set xs. flowId f = k" for acc xs
    using that
  proof (induction xs arbitrary: acc)
    case (Cons x xs)
    obtain k f where x: "x = (k, f)" by (cases x)
    with Cons.prems have f: "flowId f = k" "k \<notin> fst ` set acc" by auto
    then have "jm_set acc k f = acc @ [(k, f)]" by (simp add: jm_set_new jm_get_None)
    with Cons.IH [of "acc @ [(k, f)]"] Cons.prems x f show ?case by (simp add: jm_values_def)
  qed (simp add: jm_values_def)
  from this [of "[]" m] assms show ?thesis by (force simp: jm_wf_def jm_in_get [OF assms(1)])
qed

lemma persist_all:
  assumes "up (db reg)" "flows_ok reg"
  shows "\<exists>d'. persistFlowRegistry st reg = (Inr (), reg\<lparr>db := d'\<rparr>) \<and> up d' \<and> contents d' = jm_get (flows reg)"
proof -
  have ok: "jm_wf (flows reg)" "\<And>k f. jm_get (flows reg) k = Some f \<Longrightarrow> wf_flow f \<and> flowId f = k"
    using assms(2) by (auto simp: flows_ok_def)
  from save [OF assms(1) ok] obtain d' where
    "saveSnapshot st (db reg) (flows reg) = Inr d'" "up d'" "contents d' = jm_get (flows reg)" by blast
  with snapshot_of_flows [OF ok(1)] ok(2) show ?thesis
    by (auto simp: persistFlowRegistry_def store_result_def)
qed

lemma synced_saved:
  assumes "contents d = jm_get m" "\<And>k f. jm_get m k = Some f \<Longrightarrow> wf_flow f"
  shows "synced d m"
proof -
  have "restores (contents d k) (jm_get m k)" for k
    using assms by (cases "jm_get m k") auto
  then show ?thesis by (simp add: synced_def)
qed

lemma synced_put:
  "synced d m \<Longrightarrow> contents d' = (contents d)(flowId f := Some f) \<Longrightarrow> wf_flow f \<Longrightarrow>
   synced d' (jm_set m (flowId f) f)"
  by (simp add: synced_def)

lemma synced_del:
  "synced d m \<Longrightarrow> contents d' = (contents d)(k := None) \<Longrightarrow> synced d' (jm_delete m k)"
  by (simp add: synced_def)

lemma upsert_writes_through:
  assumes "up (db reg)" "flows_ok reg" "wf_flow f" "jm_get (flows reg) (flowId f) = Some f"
  shows "\<exists>d'. persistFlowUpsert st reg f = (Inr (), reg\<lparr>db := d'\<rparr>) \<and> up d' \<and>
    (contents d' = (contents (db reg))(flowId f := Some f) \<or> contents d' = jm_get (flows reg))"
proof (cases "upsertFlow st")
  case None
  with persist_all [OF assms(1,2)] show ?thesis by (auto simp: persistFlowUpsert_def)
next
  case (Some u)
  from upsert [OF assms(1,3) this] obtain d' where "u (db reg) f = Inr d'" "up d'"
    "contents d' = (contents (db reg))(flowId f := Some f)" by blast
  with Some show ?thesis by (intro exI [of _ d']) (simp add: persistFlowUpsert_def store_result_def)
qed

lemma delete_writes_through:
  assumes "up (db reg)" "flows_ok reg"
  shows "\<exists>d'. persistFlowDelete st reg k = (Inr (), reg\<lparr>db := d'\<rparr>) \<and> up d' \<and>
    (contents d' = (contents (db reg))(k := None) \<or> contents d' = jm_get (flows reg))"
proof (cases "deleteFlow st")
  case None
  with persist_all [OF assms] show ?thesis by (auto simp: persistFlowDelete_def)
next
  case (Some u)
  from delete [OF assms(1) this, of k] obtain d' where "u (db reg) k = Inr d'" "up d'"
    "contents d' = (contents (db reg))(k := None)" by blast
  with Some show ?thesis by (intro exI [of _ d']) (simp add: persistFlowDelete_def store_result_def)
qed

lemma flows_ok_wf: "flows_ok reg \<Longrightarrow> jm_get (flows reg) k = Some f \<Longrightarrow> wf_flow f"
  by (simp add: flows_ok_def)

lemma write_mirror:
  assumes "mirror reg" "flows_ok reg" "restoreAttempted reg" "wf_flow n"
  shows "mirror (snd (writeFlowRecord st reg n p))"
proof -
  let ?r = "reg\<lparr>flows := jm_set (flows reg) (flowId n) n\<rparr>"
  have r: "up (db ?r)" "flows_ok ?r" using assms by (auto simp: mirror_def flows_ok_def)
  from upsert_writes_through [OF r assms(4)] obtain d' where
    d': "persistFlowUpsert st ?r n = (Inr (), ?r\<lparr>db := d'\<rparr>)" "up d'"
    and c: "contents d' = (contents (db reg))(flowId n := Some n) \<or> contents d' = jm_get (flows ?r)"
    by auto
  have "synced d' (flows ?r)" if "restoreFailure reg = None"
    using c
  proof
    assume "contents d' = (contents (db reg))(flowId n := Some n)"
    from synced_put [OF _ this assms(4)] assms that show ?thesis by (simp add: mirror_def)
  next
    assume "contents d' = jm_get (flows ?r)"
    from synced_saved [OF this flows_ok_wf [OF r(2)]] show ?thesis .
  qed
  with d' show ?thesis by (simp add: mirror_def)
qed

lemma delete_mirror:
  assumes "mirror reg" "flows_ok reg" "jm_get (flows (ensureFlowRegistryReady st reg)) k = Some c"
  shows "mirror (delete_flow st reg k)"
proof -
  let ?e = "ensureFlowRegistryReady st reg"
  let ?r = "?e\<lparr>flows := jm_delete (flows ?e) k\<rparr>"
  have e: "mirror ?e" "flows_ok ?e"
    by (rule ready_mirror [OF assms(1)], rule ready_flows_ok [OF load_keyed assms(2)])
  then have r: "up (db ?r)" "flows_ok ?r" by (auto simp: mirror_def flows_ok_def)
  from delete_writes_through [OF r, of k] obtain d' where w:
    "persistFlowDelete st ?r k = (Inr (), ?r\<lparr>db := d'\<rparr>) \<and> up d' \<and>
     (contents d' = (contents (db ?r))(k := None) \<or> contents d' = jm_get (flows ?r))" ..
  note d' = w [THEN conjunct1] w [THEN conjunct2, THEN conjunct1]
    and c = w [THEN conjunct2, THEN conjunct2]
  have "synced d' (flows ?r)" if "restoreFailure ?e = None"
    using c
  proof
    assume d: "contents d' = (contents (db ?r))(k := None)"
    have "synced (db ?r) (flows ?e)" using e(1) that by (simp add: mirror_def)
    from synced_del [OF this d] show ?thesis by simp
  next
    assume "contents d' = jm_get (flows ?r)"
    from synced_saved [OF this flows_ok_wf [OF r(2)]] show ?thesis .
  qed
  with d' delete_simps [OF assms(3)] show ?thesis by (simp add: mirror_def)
qed

lemma change_mirror:
  assumes "flow_change st u reg reg'" "mirror reg" "flows_ok reg"
  shows "mirror reg'"
  using assms(1)
proof cases
  case (created n p)
  with assms ready_mirror ready_flows_ok [OF load_keyed] show ?thesis by (auto intro: write_mirror)
next
  case (updated n c p)
  with assms ready_mirror ready_flows_ok [OF load_keyed] show ?thesis by (auto intro: write_mirror)
next
  case (deleted k c)
  with assms delete_mirror show ?thesis by auto
qed (use assms ready_mirror in auto)

lemma run_mirror: "mirror reg \<Longrightarrow> flows_ok reg \<Longrightarrow> mirror (foldl (flow_step st) reg es)"
proof (induction es arbitrary: reg)
  case (Cons e es)
  note ch = step_change [OF load_keyed Cons.prems(2), of e]
  show ?case
    using Cons.IH [OF change_mirror [OF ch Cons.prems] change_flows_ok [OF load_keyed ch Cons.prems(2)]]
    by simp
qed simp

lemma fresh_ok: "flows_ok (fresh_registry d)" "up d \<Longrightarrow> mirror (fresh_registry d)"
  by (simp_all add: fresh_registry_def flows_ok_def mirror_def)

lemma restart_after_run:
  fixes d :: 'db and es :: "(int \<times> flow_op) list"
  assumes "up d"
  defines "reg \<equiv> ensureFlowRegistryReady st (foldl (flow_step st) (fresh_registry d) es)"
  assumes "restoreFailure reg = None"
  shows "restoreFailure (ensureFlowRegistryReady st (fresh_registry (db reg))) = None"
    and "jm_get (flows (ensureFlowRegistryReady st (fresh_registry (db reg)))) k = jm_get (flows reg) k"
proof -
  have "mirror reg"
    unfolding reg_def using assms(1) by (intro ready_mirror run_mirror fresh_ok)
  then have "up (db reg)" "synced (db reg) (flows reg)"
    using assms(3) by (auto simp: mirror_def reg_def)
  from restart [OF this] show
    "restoreFailure (ensureFlowRegistryReady st (fresh_registry (db reg))) = None"
    "jm_get (flows (ensureFlowRegistryReady st (fresh_registry (db reg)))) k = jm_get (flows reg) k"
    by auto
qed

end

subsection \<open>The SQLite store keeps the contract\<close>

lemma parse_serialize [simp]: "parseJsonValue (serializeJson v) = v"
  by (cases v) (auto simp: parseJsonValue_def serializeJson_def json_text_blank_def)

lemma row_roundtrip:
  "wf_flow f \<Longrightarrow> rowToFlowRecord ((bindFlowRecord f)\<lparr>shape := s\<rparr>) = f"
proof -
  assume wf: "wf_flow f"
  have t: "truthy_col x = x" if "x \<noteq> Some []" for x
    using that by (cases x) (auto simp: truthy_col_def)
  have "controllerId f \<noteq> Some []" "currentStep f \<noteq> Some []" "blockedTaskId f \<noteq> Some []"
    "blockedSummary f \<noteq> Some []"
    using wf by (auto simp: wf_flow_def wf_controller_def norm_opt_Some)
  with t show ?thesis
    by (cases f) (simp add: rowToFlowRecord_def bindFlowRecord_def rowToSyncMode_def)
qed

lemma bind_id [simp]: "flow_id (bindFlowRecord f) = flowId f"
  by (simp add: bindFlowRecord_def)

lemma row_key [simp]: "flowId (rowToFlowRecord r) = flow_id r"
  by (simp add: rowToFlowRecord_def)

lemma row_controller [simp]: "controllerId (rowToFlowRecord r) \<noteq> Some []"
  by (simp add: rowToFlowRecord_def truthy_col_def str_truthy_def split: option.splits)

definition row_of :: "flow_row list \<Rightarrow> string \<Rightarrow> flow_row option" where
  "row_of rows k = find (\<lambda>r. flow_id r = k) rows"

definition db_contents :: "flow_db \<Rightarrow> string \<Rightarrow> task_flow_record option" where
  "db_contents d k = map_option rowToFlowRecord (row_of (flow_runs d) k)"

definition db_up :: "flow_db \<Rightarrow> bool" where
  "db_up d \<longleftrightarrow> openError d = None \<and> distinct (map flow_id (flow_runs d))"

lemma row_of_Some:
  "distinct (map flow_id rows) \<Longrightarrow> row_of rows k = Some r \<longleftrightarrow> r \<in> set rows \<and> flow_id r = k"
  by (induction rows) (auto simp: row_of_def)

lemma row_of_perm:
  assumes "distinct (map flow_id rows)" "mset rows' = mset rows"
  shows "row_of rows' k = row_of rows k"
proof -
  have "distinct (map flow_id rows')" "set rows' = set rows"
    using assms by (metis mset_map mset_eq_imp_distinct_iff) (use assms(2) in \<open>rule mset_eq_setD\<close>)
  with assms(1) show ?thesis by (metis option.exhaust row_of_Some)
qed

lemma load_fold:
  "distinct (map flow_id rows) \<Longrightarrow>
   jm_get (foldl (\<lambda>m r. jm_set m (flow_id r) (rowToFlowRecord r)) acc rows) k =
     (case row_of rows k of None \<Rightarrow> jm_get acc k | Some r \<Rightarrow> Some (rowToFlowRecord r))"
proof (induction rows arbitrary: acc)
  case (Cons r rows)
  have "row_of rows (flow_id r) = None"
    using Cons.prems by (auto simp: row_of_def find_None_iff image_iff)
  with Cons.prems Cons.IH [of "jm_set acc (flow_id r) (rowToFlowRecord r)"] show ?case
    by (cases "flow_id r = k") (auto simp: row_of_def split: option.splits)
qed (simp add: row_of_def)

lemma load_fold_wf:
  "jm_wf acc \<Longrightarrow> (\<And>k f. jm_get acc k = Some f \<Longrightarrow> flowId f = k \<and> controllerId f \<noteq> Some []) \<Longrightarrow>
   m = foldl (\<lambda>m r. jm_set m (flow_id r) (rowToFlowRecord r)) acc rows \<Longrightarrow>
   jm_wf m \<and> (\<forall>k f. jm_get m k = Some f \<longrightarrow> flowId f = k \<and> controllerId f \<noteq> Some [])"
proof (induction rows arbitrary: acc)
  case (Cons r rows)
  show ?case
    by (rule Cons.IH [where acc = "jm_set acc (flow_id r) (rowToFlowRecord r)"])
      (use Cons.prems in \<open>auto split: if_splits\<close>)
qed simp

lemma upsert_ids:
  "flow_id ` set (upsertRow rows n) = insert (flow_id n) (flow_id ` set rows)"
  by (induction rows) auto

lemma upsert_distinct:
  "distinct (map flow_id rows) \<Longrightarrow> distinct (map flow_id (upsertRow rows n))"
proof (induction rows)
  case (Cons r rows)
  then show ?case using upsert_ids [of rows n] by auto
qed simp

lemma upsert_row_of:
  assumes "wf_flow f"
  shows "map_option rowToFlowRecord (row_of (upsertRow rows (bindFlowRecord f)) k) =
     (if k = flowId f then Some f else map_option rowToFlowRecord (row_of rows k))"
proof -
  have "rowToFlowRecord (bindFlowRecord f) = f"
    using row_roundtrip [OF assms, of None] by (simp add: bindFlowRecord_def)
  then show ?thesis
    by (induction rows) (auto simp: row_of_def row_roundtrip [OF assms])
qed

lemma delete_row_of: "row_of (deleteRow rows j) k = (if k = j then None else row_of rows k)"
  by (induction rows) (auto simp: row_of_def deleteRow_def)

lemma delete_distinct: "distinct (map flow_id rows) \<Longrightarrow> distinct (map flow_id (deleteRow rows j))"
  by (simp add: deleteRow_def distinct_map_filter)

definition saved_rows :: "flow_row list \<Rightarrow> flow_map \<Rightarrow> flow_row list" where
  "saved_rows rows xs = foldl upsertRow rows (map bindFlowRecord (jm_values xs))"

lemma save_rows:
  "(\<And>k f. (k, f) \<in> set xs \<Longrightarrow> wf_flow f \<and> flowId f = k) \<Longrightarrow> distinct (map fst xs) \<Longrightarrow>
   distinct (map flow_id rows) \<Longrightarrow>
   distinct (map flow_id (saved_rows rows xs)) \<and>
   map_option rowToFlowRecord (row_of (saved_rows rows xs) k)
     = (case jm_get xs k of Some f \<Rightarrow> Some f | None \<Rightarrow> map_option rowToFlowRecord (row_of rows k))"
proof (induction xs arbitrary: rows)
  case (Cons x xs)
  obtain j f where x: "x = (j, f)" by (cases x)
  with Cons.prems(1) [of j f] have f: "wf_flow f" "flowId f = j" by auto
  from x Cons.prems(2) have d: "distinct (map fst xs)" "jm_get xs j = None" by (auto simp: jm_get_None)
  let ?rows = "upsertRow rows (bindFlowRecord f)"
  have s: "saved_rows rows (x # xs) = saved_rows ?rows xs"
    by (simp add: x saved_rows_def jm_values_def)
  have xs: "\<And>k f. (k, f) \<in> set xs \<Longrightarrow> wf_flow f \<and> flowId f = k" using Cons.prems(1) by auto
  from Cons.IH [OF xs d(1) upsert_distinct [OF Cons.prems(3)]]
  show ?case unfolding s using x d(2) f
    by (cases "k = j") (simp_all add: upsert_row_of split: option.split)
qed (simp add: saved_rows_def jm_values_def)

interpretation sq: flow_persistence defaultFlowRegistryStore db_contents db_up
proof unfold_locales
  fix d assume up: "db_up d"
  let ?m = "foldl (\<lambda>m r. jm_set m (flow_id r) (rowToFlowRecord r)) [] (selectAll (flow_runs d))"
  have d: "distinct (map flow_id (selectAll (flow_runs d)))"
    using up by (simp add: db_up_def selectAll_def distinct_map)
  have "row_of (selectAll (flow_runs d)) k = row_of (flow_runs d) k" for k
    by (rule row_of_perm) (use up in \<open>auto simp: db_up_def selectAll_def\<close>)
  then have "jm_get ?m k = db_contents d k" for k
    using load_fold [OF d, of "[]" k] by (simp add: db_contents_def split: option.splits)
  with up show "\<exists>m. loadSnapshot defaultFlowRegistryStore d = Inr m \<and> (\<forall>k. jm_get m k = db_contents d k)"
    by (simp add: defaultFlowRegistryStore_def loadTaskFlowRegistryStateFromSqlite_def withDatabase_def db_up_def)
next
  show "keyed_load defaultFlowRegistryStore"
    unfolding keyed_load_def
  proof (intro allI impI)
    fix d m assume "loadSnapshot defaultFlowRegistryStore d = Inr m"
    then have "m = foldl (\<lambda>m r. jm_set m (flow_id r) (rowToFlowRecord r)) [] (selectAll (flow_runs d))"
      by (simp add: defaultFlowRegistryStore_def loadTaskFlowRegistryStateFromSqlite_def withDatabase_def
          split: option.splits)
    from load_fold_wf [OF _ _ this]
    show "jm_wf m \<and> (\<forall>k f. jm_get m k = Some f \<longrightarrow> flowId f = k \<and> controllerId f \<noteq> Some [])" by simp
  qed
next
  fix d f u assume "db_up d" "wf_flow f" "upsertFlow defaultFlowRegistryStore = Some u"
  then show "\<exists>d'. u d f = Inr d' \<and> db_up d' \<and> db_contents d' = (db_contents d)(flowId f := Some f)"
    by (auto simp: defaultFlowRegistryStore_def upsertTaskFlowRegistryRecordToSqlite_def withDatabase_def
        db_up_def db_contents_def upsert_row_of upsert_distinct intro!: ext)
next
  fix d k v assume "db_up d" "deleteFlow defaultFlowRegistryStore = Some v"
  then show "\<exists>d'. v d k = Inr d' \<and> db_up d' \<and> db_contents d' = (db_contents d)(k := None)"
    by (auto simp: defaultFlowRegistryStore_def deleteTaskFlowRegistryRecordFromSqlite_def withDatabase_def
        db_up_def db_contents_def delete_row_of delete_distinct intro!: ext)
next
  fix d and m :: flow_map
  assume a: "db_up d" "jm_wf m" "\<And>k f. jm_get m k = Some f \<Longrightarrow> wf_flow f \<and> flowId f = k"
  have m: "\<And>k f. (k, f) \<in> set m \<Longrightarrow> wf_flow f \<and> flowId f = k" "distinct (map fst m)"
    using a(2,3) by (auto simp: jm_in_get jm_wf_def)
  have s: "distinct (map flow_id (saved_rows [] m))"
    "map_option rowToFlowRecord (row_of (saved_rows [] m) k) = jm_get m k" for k
    using save_rows [OF m, of "[]" k] by (simp_all add: row_of_def split: option.splits)
  with a(1) show "\<exists>d'. saveSnapshot defaultFlowRegistryStore d m = Inr d' \<and> db_up d' \<and> db_contents d' = jm_get m"
    by (auto simp: defaultFlowRegistryStore_def saveTaskFlowRegistryStateToSqlite_def withDatabase_def
        db_up_def db_contents_def saved_rows_def intro!: ext)
qed

end
