(* ===== verification/Task_Flow_Props.thy ===== *)
theory Task_Flow_Props
  imports Task_Flow_Persistence
begin

text \<open>
  The properties of the task-flow registry on the SQLite store, with the sweep of the maintenance:
  in a registry that mirrors its database no write fails, so one sweep handles each flow exactly
  once and has the effect \<open>swept\<close> on it.
\<close>

subsection \<open>The maintenance sweep\<close>

definition cancel_patch :: "task_flow_record \<Rightarrow> int \<Rightarrow> flow_patch" where
  "cancel_patch f now =
     (let ended = max (max now (updatedAt f)) (nullish (cancelRequestedAt f) now) in
      empty_patch\<lparr>
        p_status := Some F_cancelled, p_blockedTaskId := Null, p_blockedSummary := Null,
        p_waitJson := Some JsonNull, p_endedAt := Val ended, p_updatedAt := Some ended\<rparr>)"

definition swept :: "(string \<Rightarrow> task_record list) \<Rightarrow> int \<Rightarrow> int \<Rightarrow> task_flow_record \<Rightarrow> task_flow_record option" where
  "swept linked clock now f =
     (if shouldFinalizeCancelledFlow linked f
      then (case applyFlowPatch clock f (cancel_patch f now) of Inl _ \<Rightarrow> None | Inr n \<Rightarrow> Some n)
      else if shouldPruneFlow linked f now then None else Some f)"

lemma patch_managed_ok:
  assumes "wf_flow f" "p_controllerId p = Absent"
  shows "\<exists>n. applyFlowPatch clock f p = Inr n"
proof (cases "syncMode f")
  case Managed
  with assms(1) obtain c where "controllerId f = Some c" "c \<noteq> []" "js_trim c = c"
    by (auto simp: wf_flow_def wf_controller_def norm_opt_Some)
  with Managed assms(2) show ?thesis
    by (simp add: applyFlowPatch_def patched_def assertControllerId_def normalizeField_def)
qed (simp add: applyFlowPatch_def)

lemma cancelled_flow:
  assumes "applyFlowPatch clock f (cancel_patch f now) = Inr n"
  shows "isTerminalFlow n" and "\<not> shouldPruneFlow linked n now" and "flowId n = flowId f"
    and "syncMode n = syncMode f"
  using assms
  by (auto simp: applyFlowPatch_def cancel_patch_def Let_def empty_patch_def isTerminalFlow_def
      shouldPruneFlow_def resolveTerminalAt_def patched_time_def TASK_FLOW_RETENTION_MS_def
      split: sum.splits)

lemma swept_done:
  assumes "swept linked clock now f = Some n"
  shows "\<not> shouldFinalizeCancelledFlow linked n \<and> \<not> shouldPruneFlow linked n now"
proof (cases "shouldFinalizeCancelledFlow linked f")
  case True
  with assms obtain m where "applyFlowPatch clock f (cancel_patch f now) = Inr m" "m = n"
    by (auto simp: swept_def split: sum.splits)
  with cancelled_flow [of clock f now m] show ?thesis
    by (simp add: shouldFinalizeCancelledFlow_def)
next
  case False
  with assms show ?thesis by (auto simp: swept_def split: if_splits)
qed

context flow_persistence
begin

definition good :: "'db flow_registry \<Rightarrow> bool" where
  "good reg \<longleftrightarrow> flows_ok reg \<and> mirror reg \<and> restoreAttempted reg"

lemma flows_ok_cong: "flows a = flows b \<Longrightarrow> flows_ok b \<Longrightarrow> flows_ok a"
  unfolding flows_ok_def by metis

lemma good_write:
  assumes "good reg" "wf_flow n"
  shows "\<exists>reg'. writeFlowRecord st reg n p = (Inr n, reg') \<and> good reg' \<and>
    flows reg' = jm_set (flows reg) (flowId n) n"
proof -
  let ?r = "reg\<lparr>flows := jm_set (flows reg) (flowId n) n\<rparr>"
  have r: "up (db ?r)" "flows_ok ?r" using assms by (auto simp: good_def mirror_def flows_ok_def)
  have "jm_get (flows ?r) (flowId n) = Some n" by simp
  from upsert_writes_through [OF r assms(2) this] obtain d' where
    d': "persistFlowUpsert st ?r n = (Inr (), ?r\<lparr>db := d'\<rparr>)" by blast
  have s: "snd (writeFlowRecord st reg n p) =
      emitFlowRegistryObserverEvent (?r\<lparr>db := d'\<rparr>) (Ev_upserted n p)"
    by (simp add: writeFlowRecord_def d')
  have "mirror (snd (writeFlowRecord st reg n p))"
    by (rule write_mirror) (use assms in \<open>simp_all add: good_def\<close>)
  moreover have "flows_ok (snd (writeFlowRecord st reg n p))"
    by (rule flows_ok_cong [OF _ r(2)]) simp
  moreover have "restoreAttempted (snd (writeFlowRecord st reg n p))"
    using assms by (simp add: good_def)
  ultimately have "good (snd (writeFlowRecord st reg n p))" by (simp add: good_def)
  then show ?thesis by (simp add: writeFlowRecord_def d' emitFlowRegistryObserverEvent_def)
qed

lemma good_delete:
  assumes "good reg" "jm_get (flows reg) k = Some c"
  shows "\<exists>reg'. deleteTaskFlowRecordById st reg k = (Inr True, reg') \<and> good reg' \<and>
    flows reg' = jm_delete (flows reg) k"
proof -
  let ?r = "reg\<lparr>flows := jm_delete (flows reg) k\<rparr>"
  have a: "restoreAttempted reg" "flows_ok reg" "mirror reg" using assms by (auto simp: good_def)
  then have r: "up (db ?r)" "flows_ok ?r" by (auto simp: mirror_def flows_ok_def)
  from delete_writes_through [OF r, of k] obtain d' where
    d': "persistFlowDelete st ?r k = (Inr (), ?r\<lparr>db := d'\<rparr>)" by blast
  have g: "jm_get (flows (ensureFlowRegistryReady st reg)) k = Some c" using a assms(2) by simp
  have "good (delete_flow st reg k)"
    using delete_mirror [OF a(3,2) g] change_flows_ok [OF load_keyed delete_change a(2)]
      delete_simps(2) [OF g] by (simp add: good_def delete_flow_def)
  then show ?thesis using a(1) assms(2) d'
    by (simp add: deleteTaskFlowRecordById_def delete_flow_def emitFlowRegistryObserverEvent_def)
qed

lemma maintain_one_good:
  assumes "good reg" "jm_get (flows reg) (flowId f) = Some f"
  shows "\<exists>reg'. maintain_one st linked clock now s f reg = (Inr (preview_one linked now s f), reg') \<and>
    good reg' \<and> (\<forall>k. jm_get (flows reg') k =
      (if k = flowId f then swept linked clock now f else jm_get (flows reg) k))"
proof -
  have a: "restoreAttempted reg" and wf: "wf_flow f" using assms by (auto simp: good_def flows_ok_def)
  consider (fin) "shouldFinalizeCancelledFlow linked f"
    | (prune) "\<not> shouldFinalizeCancelledFlow linked f" "shouldPruneFlow linked f now"
    | (keep) "\<not> shouldFinalizeCancelledFlow linked f" "\<not> shouldPruneFlow linked f now" by blast
  then show ?thesis
  proof cases
    case fin
    have "p_controllerId (cancel_patch f now) = Absent" by (simp add: cancel_patch_def empty_patch_def Let_def)
    from patch_managed_ok [OF wf this] obtain n where n: "applyFlowPatch clock f (cancel_patch f now) = Inr n" ..
    from patch_wf [OF wf n] have w: "wf_flow n" "flowId n = flowId f" by auto
    from good_write [OF assms(1) w(1), of "Some f"] obtain reg' where
      r: "writeFlowRecord st reg n (Some f) = (Inr n, reg')" "good reg'" "flows reg' = jm_set (flows reg) (flowId n) n"
      by blast
    have "updateFlowRecordByIdExpectedRevision st clock reg (flowId f) (revision f) (cancel_patch f now)
        = (Inr (Applied n), reg')"
      using a assms(2) n r(1) by (simp add: updateFlowRecordByIdExpectedRevision_def)
    then have "finalizeCancelledFlow st linked clock f now reg = (Inr True, reg')"
      by (simp add: finalizeCancelledFlow_def numeral_2_eq_2 cancel_patch_def Let_def)
    with fin a assms(2) have "maintain_one st linked clock now s f reg = (Inr (preview_one linked now s f), reg')"
      by (simp add: maintain_one_def getTaskFlowById_def preview_one_def)
    with r fin n w show ?thesis by (simp add: swept_def)
  next
    case prune
    from good_delete [OF assms] obtain reg' where
      "deleteTaskFlowRecordById st reg (flowId f) = (Inr True, reg')" "good reg'"
      "flows reg' = jm_delete (flows reg) (flowId f)" by blast
    with prune a assms(2) show ?thesis
      by (simp add: maintain_one_def getTaskFlowById_def preview_one_def swept_def)
  next
    case keep
    with a assms show ?thesis
      by (simp add: maintain_one_def getTaskFlowById_def preview_one_def swept_def)
  qed
qed

lemma maintain_all_good:
  "good reg \<Longrightarrow> distinct (map flowId fs) \<Longrightarrow> (\<And>f. f \<in> set fs \<Longrightarrow> jm_get (flows reg) (flowId f) = Some f) \<Longrightarrow>
   \<exists>reg'. maintain_all st linked clock now s fs reg = (Inr (foldl (preview_one linked now) s fs), reg') \<and>
     good reg' \<and> (\<forall>k. jm_get (flows reg') k =
       (if k \<in> flowId ` set fs then Option.bind (jm_get (flows reg) k) (swept linked clock now)
        else jm_get (flows reg) k))"
proof (induction fs arbitrary: s reg)
  case (Cons f fs)
  have "jm_get (flows reg) (flowId f) = Some f" using Cons.prems by simp
  from maintain_one_good [OF Cons.prems(1) this] obtain r1 where
    r1: "maintain_one st linked clock now s f reg = (Inr (preview_one linked now s f), r1)" "good r1"
    and g: "jm_get (flows r1) k = (if k = flowId f then swept linked clock now f else jm_get (flows reg) k)" for k
    by blast
  have "flowId f' \<noteq> flowId f" if "f' \<in> set fs" for f'
    using that Cons.prems(2) by (auto simp: image_iff)
  then have "jm_get (flows r1) (flowId f') = Some f'" if "f' \<in> set fs" for f'
    using that Cons.prems(3) [of f'] by (simp add: g)
  from Cons.IH [OF r1(2) _ this, of "preview_one linked now s f"] Cons.prems(2) obtain r2 where
    r2: "maintain_all st linked clock now (preview_one linked now s f) fs r1
       = (Inr (foldl (preview_one linked now) (preview_one linked now s f) fs), r2)" "good r2"
    and h: "jm_get (flows r2) k = (if k \<in> flowId ` set fs then Option.bind (jm_get (flows r1) k) (swept linked clock now)
        else jm_get (flows r1) k)" for k
    by auto
  have "flowId f \<notin> flowId ` set fs" using Cons.prems(2) by auto
  then have "jm_get (flows r2) k = (if k \<in> flowId ` set (f # fs)
      then Option.bind (jm_get (flows reg) k) (swept linked clock now) else jm_get (flows reg) k)" for k
    using Cons.prems(3) [of f] by (auto simp: h g)
  with r1 r2 show ?case by auto
qed simp

lemma sweep:
  fixes d :: 'db and es :: "(int \<times> flow_op) list"
  assumes "up d"
  defines "reg \<equiv> foldl (flow_step st) (fresh_registry d) es"
  shows "\<exists>reg'. runTaskFlowRegistryMaintenance st linked clock now reg =
      (Inr (fst (previewTaskFlowRegistryMaintenance st linked now reg)), reg') \<and> flows_ok reg' \<and>
    (\<forall>k. jm_get (flows reg') k =
      Option.bind (jm_get (flows (ensureFlowRegistryReady st reg)) k) (swept linked clock now))"
proof -
  let ?e = "ensureFlowRegistryReady st reg"
  have "flows_ok reg" "mirror reg"
    unfolding reg_def using assms(1) by (auto intro: run_mirror run_flows_ok load_keyed fresh_ok)
  then have e: "good ?e" using ready_mirror ready_flows_ok load_keyed by (auto simp: good_def)
  then have ok: "jm_wf (flows ?e)" "\<And>k f. jm_get (flows ?e) k = Some f \<Longrightarrow> flowId f = k"
    by (auto simp: good_def flows_ok_def)
  let ?fs = "newest_first (jm_values (flows ?e))"
  have fst: "map flowId (jm_values (flows ?e)) = map fst (flows ?e)"
    using ok by (auto simp: jm_values_def jm_in_get)
  with ok(1) have "distinct (map flowId (jm_values (flows ?e)))" by (simp only: jm_wf_def)
  then have "distinct (map flowId ?fs)"
    by (simp add: newest_first_def distinct_map)
  moreover have "jm_get (flows ?e) (flowId f) = Some f" if "f \<in> set ?fs" for f
    using that ok by (auto simp: newest_first_def jm_values_def jm_in_get)
  ultimately obtain reg' where r: "maintain_all st linked clock now \<lparr> reconciled = 0, pruned = 0 \<rparr> ?fs ?e
      = (Inr (foldl (preview_one linked now) \<lparr> reconciled = 0, pruned = 0 \<rparr> ?fs), reg')" "good reg'"
    and g: "\<And>k. jm_get (flows reg') k = (if k \<in> flowId ` set ?fs
      then Option.bind (jm_get (flows ?e) k) (swept linked clock now) else jm_get (flows ?e) k)"
    using maintain_all_good [OF e] by blast
  have "k \<in> flowId ` set ?fs" if "jm_get (flows ?e) k = Some f" for k f
    using that ok jm_in_get [OF ok(1)] by (force simp: newest_first_def jm_values_def)
  then have "jm_get (flows reg') k = Option.bind (jm_get (flows ?e) k) (swept linked clock now)" for k
    by (cases "jm_get (flows ?e) k") (auto simp: g)
  with r show ?thesis
    by (intro exI [of _ reg']) (simp add: Let_def runTaskFlowRegistryMaintenance_def previewTaskFlowRegistryMaintenance_def
        listTaskFlowRecords_def good_def)
qed

end

subsection \<open>Properties\<close>

lemma run_ok: "flows_ok (flow_run d es)"
  unfolding flow_run_def by (intro run_flows_ok sq.load_keyed sq.fresh_ok)

text \<open>C8: No update is lost: once an update at an expected revision has been applied to a flow, a
  second update at the same revision is never applied, whatever operations run in between, as long as
  none of them creates a flow under the same identifier.\<close>

theorem flow_update_conflict:
  assumes "updateFlowRecordByIdExpectedRevision defaultFlowRegistryStore now (flow_run d ops) k r p
      = (Inr (Applied f), reg)"
    and "\<forall>e \<in> set es. creates (snd e) \<noteq> Some k"
  shows "fst (updateFlowRecordByIdExpectedRevision defaultFlowRegistryStore now'
        (foldl (flow_step defaultFlowRegistryStore) reg es) k r p') = Inr NotFound \<or>
    (\<exists>c. fst (updateFlowRecordByIdExpectedRevision defaultFlowRegistryStore now'
        (foldl (flow_step defaultFlowRegistryStore) reg es) k r p') = Inr (RevisionConflict c))"
  using applied_past [OF sq.load_keyed run_ok assms(1)] run_past [OF sq.load_keyed _ _ assms(2)]
  by (intro past_not_applied) blast

definition sample_params :: create_params where
  "sample_params = \<lparr> c_syncMode = None, c_ownerKey = '' agent:main:main '', c_requesterOrigin = None,
     c_controllerId = Val ''core/demo'', c_revision = None, c_status = None, c_notifyPolicy = None,
     c_goal = ''demo'', c_currentStep = Val ''one'', c_blockedTaskId = Absent, c_blockedSummary = Absent,
     c_stateJson = Some (JsonNumber 3), c_waitJson = None, c_cancelRequestedAt = Absent,
     c_createdAt = Some 5, c_updatedAt = None, c_endedAt = Absent \<rparr>"

definition empty_db :: flow_db where
  "empty_db = \<lparr> flow_runs = [], openError = None \<rparr>"

definition sample_ops :: "(int \<times> flow_op) list" where
  "sample_ops = [(5, CreateManaged ''f1'' sample_params)]"

theorem flow_update_conflict_witness:
  "\<exists>f. fst (updateFlowRecordByIdExpectedRevision defaultFlowRegistryStore 6 (flow_run empty_db sample_ops)
        ''f1'' 0 empty_patch) = Inr (Applied f) \<and>
     fst (updateFlowRecordByIdExpectedRevision defaultFlowRegistryStore 8
        (foldl (flow_step defaultFlowRegistryStore)
          (snd (updateFlowRecordByIdExpectedRevision defaultFlowRegistryStore 6 (flow_run empty_db sample_ops)
             ''f1'' 0 empty_patch)) [(7, RequestCancel ''f1'' 1 None None)])
        ''f1'' 0 empty_patch) \<noteq> Inr (Applied f)"
proof -
  let ?u = "updateFlowRecordByIdExpectedRevision defaultFlowRegistryStore 6 (flow_run empty_db sample_ops)
        ''f1'' 0 empty_patch"
  have "case fst ?u of Inr (Applied f) \<Rightarrow> True | _ \<Rightarrow> False" by code_simp
  then obtain f where f: "?u = (Inr (Applied f), snd ?u)"
    by (cases ?u) (auto split: sum.splits update_result.splits)
  from flow_update_conflict [OF f, where es = "[(7, RequestCancel ''f1'' 1 None None)]"
      and now' = 8 and p' = empty_patch] f show ?thesis
    by (metis creates.simps(9) empty_iff empty_set fst_conv option.distinct(1) set_ConsD snd_conv
        sum.inject(2) update_result.distinct(1,3))
qed

text \<open>Every flow kept in memory is in normal form after any sequence of operations and whatever the
  database held: it is filed under its own identifier, has a trimmed non-empty owner, a managed flow has
  a controller, its optional texts are trimmed and non-empty, and its revision is not negative.\<close>

theorem flows_well_formed:
  "list_all (\<lambda>(k, f). flowId f = k \<and> wf_flow f) (flows (flow_run d es)) \<and> distinct (jm_keys (flows (flow_run d es)))"
  using run_ok [of d es] by (auto simp: flows_ok_def list_all_iff jm_in_get jm_keys_def jm_wf_def)

text \<open>C16: A restart loses nothing: if the registry restored successfully, then after any sequence of
  operations a new process that restores from the same database succeeds and has the same flows.\<close>

theorem flows_survive_restart:
  assumes "openError d = None" and "distinct (map flow_id (flow_runs d))"
    and "restoreFailure (ensureFlowRegistryReady defaultFlowRegistryStore (flow_run d es)) = None"
  shows "restoreFailure (ensureFlowRegistryReady defaultFlowRegistryStore
       (fresh_registry (db (flow_run d es)))) = None \<and>
    jm_get (flows (ensureFlowRegistryReady defaultFlowRegistryStore (fresh_registry (db (flow_run d es))))) k
      = jm_get (flows (ensureFlowRegistryReady defaultFlowRegistryStore (flow_run d es))) k"
proof -
  have "db_up d" using assms by (simp add: db_up_def)
  from sq.restart_after_run [OF this, of es] assms(3) show ?thesis by (simp add: flow_run_def)
qed

theorem flows_survive_restart_witness:
  "map_option goal (jm_get (flows (ensureFlowRegistryReady defaultFlowRegistryStore
     (fresh_registry (db (flow_run empty_db sample_ops))))) ''f1'') = Some ''demo''"
proof -
  have "openError empty_db = None" "distinct (map flow_id (flow_runs empty_db))"
    "restoreFailure (ensureFlowRegistryReady defaultFlowRegistryStore (flow_run empty_db sample_ops)) = None"
    by code_simp+
  from flows_survive_restart [OF this, of "''f1''"]
  have e: "jm_get (flows (ensureFlowRegistryReady defaultFlowRegistryStore
     (fresh_registry (db (flow_run empty_db sample_ops))))) ''f1''
    = jm_get (flows (ensureFlowRegistryReady defaultFlowRegistryStore (flow_run empty_db sample_ops))) ''f1''" ..
  show ?thesis unfolding e by code_simp
qed

text \<open>The row codec is faithful on every flow the registry keeps: binding it to a row (whatever the
  row's \<open>shape\<close> column) and reading the row back gives the same flow.\<close>

theorem flow_row_roundtrip:
  "list_all (\<lambda>(k, f). rowToFlowRecord ((bindFlowRecord f)\<lparr>shape := s\<rparr>) = f) (flows (flow_run d es))"
  using run_ok [of d es] by (auto simp: flows_ok_def list_all_iff jm_in_get row_roundtrip)

lemma list_owner:
  "f \<in> set (fst (listTaskFlowsForOwnerKey st reg k)) \<Longrightarrow> js_trim (ownerKey f) = js_trim k"
  by (auto simp: listTaskFlowsForOwnerKey_def Let_def newest_first_def split: if_splits)

lemma latest_owner:
  "fst (findLatestTaskFlowForOwnerKey st reg k) = Some f \<Longrightarrow> js_trim (ownerKey f) = js_trim k"
  using list_owner [of f st reg k]
  by (auto simp: findLatestTaskFlowForOwnerKey_def split: prod.splits list.splits)

lemma latest_for_owner:
  "fst (findLatestTaskFlowForOwner st reg c) = Some f \<Longrightarrow> js_trim (ownerKey f) = js_trim c"
  using latest_owner [of st reg "js_trim c" f] by (auto simp: findLatestTaskFlowForOwner_def split: if_splits)

lemma by_id_for_owner:
  "fst (getTaskFlowByIdForOwner st reg k c) = Some f \<Longrightarrow> js_trim (ownerKey f) = js_trim c"
  by (auto simp: getTaskFlowByIdForOwner_def getTaskFlowById_def split: prod.splits option.splits if_splits)

lemma token_for_owner:
  "fst (resolveTaskFlowForLookupTokenForOwner st reg token c) = Some f \<Longrightarrow> js_trim (ownerKey f) = js_trim c"
proof (cases "getTaskFlowByIdForOwner st reg token c")
  case (Pair x r)
  assume a: "fst (resolveTaskFlowForLookupTokenForOwner st reg token c) = Some f"
  show ?thesis
  proof (cases x)
    case None
    with a Pair have "fst (findLatestTaskFlowForOwner st r (js_trim token)) = Some f" "js_trim c = js_trim token"
      by (auto simp: resolveTaskFlowForLookupTokenForOwner_def Let_def split: if_splits)
    with latest_for_owner [OF this(1)] show ?thesis by simp
  next
    case (Some g)
    with a Pair by_id_for_owner [of st reg token c f] show ?thesis
      by (auto simp: resolveTaskFlowForLookupTokenForOwner_def)
  qed
qed

text \<open>Owner-scoped access never shows a flow of another owner: whatever the registry, the token and
  the caller, the flow found by identifier, by token or as the latest one, and every flow listed, has
  the caller's owner key up to surrounding white space.\<close>

theorem owner_scoped_access:
  "list_all (\<lambda>f. js_trim (ownerKey f) = js_trim caller) (fst (listTaskFlowsForOwner st reg caller)) \<and>
   pred_option (\<lambda>f. js_trim (ownerKey f) = js_trim caller) (fst (getTaskFlowByIdForOwner st reg fid caller)) \<and>
   pred_option (\<lambda>f. js_trim (ownerKey f) = js_trim caller) (fst (findLatestTaskFlowForOwner st reg caller)) \<and>
   pred_option (\<lambda>f. js_trim (ownerKey f) = js_trim caller)
     (fst (resolveTaskFlowForLookupTokenForOwner st reg token caller))"
proof -
  have "js_trim (ownerKey f) = js_trim caller" if "f \<in> set (fst (listTaskFlowsForOwner st reg caller))" for f
    using that list_owner [of f st reg "js_trim caller"]
    by (auto simp: listTaskFlowsForOwner_def split: option.splits if_splits)
  then show ?thesis
    by (auto simp: list_all_iff pred_option_def
        dest: by_id_for_owner latest_for_owner token_for_owner)
qed

text \<open>One maintenance sweep reaches a fixed point: on a working database it never fails, it reports
  exactly the counts its preview promises, afterwards no flow is left to finalise or to prune, and a
  flow that needed neither is unchanged.\<close>

theorem maintenance_fixpoint:
  assumes "openError d = None" and "distinct (map flow_id (flow_runs d))"
  shows "\<exists>reg'. runTaskFlowRegistryMaintenance defaultFlowRegistryStore linked clock now (flow_run d es) =
      (Inr (fst (previewTaskFlowRegistryMaintenance defaultFlowRegistryStore linked now (flow_run d es))), reg') \<and>
    list_all (\<lambda>(k, f). \<not> shouldFinalizeCancelledFlow linked f \<and> \<not> shouldPruneFlow linked f now) (flows reg') \<and>
    list_all (\<lambda>(k, f). if shouldFinalizeCancelledFlow linked f \<or> shouldPruneFlow linked f now then True
        else jm_get (flows reg') k = Some f)
      (flows (ensureFlowRegistryReady defaultFlowRegistryStore (flow_run d es)))"
proof -
  let ?e = "ensureFlowRegistryReady defaultFlowRegistryStore (flow_run d es)"
  have e: "jm_wf (flows ?e)" using ready_flows_ok [OF sq.load_keyed run_ok] by (simp add: flows_ok_def)
  have "db_up d" using assms by (simp add: db_up_def)
  from sq.sweep [OF this, of linked clock now es] obtain reg' where
    r: "runTaskFlowRegistryMaintenance defaultFlowRegistryStore linked clock now (flow_run d es) =
      (Inr (fst (previewTaskFlowRegistryMaintenance defaultFlowRegistryStore linked now (flow_run d es))), reg')"
    and ok: "flows_ok reg'"
    and g: "\<And>k. jm_get (flows reg') k = Option.bind (jm_get (flows ?e) k) (swept linked clock now)"
    unfolding flow_run_def by blast
  have "\<not> shouldFinalizeCancelledFlow linked f \<and> \<not> shouldPruneFlow linked f now" if "(k, f) \<in> set (flows reg')" for k f
    using that ok g [of k] swept_done by (auto simp: flows_ok_def jm_in_get bind_eq_Some_conv)
  moreover have "jm_get (flows reg') k = Some f"
    if "(k, f) \<in> set (flows ?e)" "\<not> (shouldFinalizeCancelledFlow linked f \<or> shouldPruneFlow linked f now)" for k f
    using that e by (simp add: g jm_in_get swept_def)
  ultimately show ?thesis using r
    by (intro exI [of _ reg']) (auto simp: list_all_iff)
qed

definition cancel_ops :: "(int \<times> flow_op) list" where
  "cancel_ops = [(5, CreateManaged ''f1'' sample_params), (6, RequestCancel ''f1'' 0 None None)]"

theorem maintenance_fixpoint_witness:
  "fst (runTaskFlowRegistryMaintenance defaultFlowRegistryStore (\<lambda>_. []) 9 9 (flow_run empty_db cancel_ops))
     = Inr \<lparr> reconciled = 1, pruned = 0 \<rparr>"
proof -
  have "openError empty_db = None" "distinct (map flow_id (flow_runs empty_db))" by code_simp+
  from maintenance_fixpoint [OF this, of "\<lambda>_. []" 9 9 cancel_ops]
  have "fst (runTaskFlowRegistryMaintenance defaultFlowRegistryStore (\<lambda>_. []) 9 9 (flow_run empty_db cancel_ops))
     = Inr (fst (previewTaskFlowRegistryMaintenance defaultFlowRegistryStore (\<lambda>_. []) 9 (flow_run empty_db cancel_ops)))"
    by auto
  moreover have "fst (previewTaskFlowRegistryMaintenance defaultFlowRegistryStore (\<lambda>_. []) 9 (flow_run empty_db cancel_ops))
     = \<lparr> reconciled = 1, pruned = 0 \<rparr>" by code_simp
  ultimately show ?thesis by simp
qed

subsection \<open>The audit\<close>

lemma compare_key: "compareFindings a b \<le> 0 \<longleftrightarrow> finding_key a \<le> finding_key b"
  by (auto simp: compareFindings_def finding_key_def Let_def less_eq_prod_def)

lemma summarize_fold:
  "total (foldl summarize_one s fs) = total s + length fs"
  "errors (foldl summarize_one s fs) = errors s + length (filter (\<lambda>a. severity a = Err) fs)"
  "warnings (foldl summarize_one s fs) = warnings s + length (filter (\<lambda>a. severity a \<noteq> Err) fs)"
  "byCode (foldl summarize_one s fs) c = byCode s c + length (filter (\<lambda>a. code a = c) fs)"
  by (induction fs arbitrary: s) (auto simp: summarize_one_def Let_def)

text \<open>The audit lists errors before warnings and, within a severity, the longest-standing finding
  first (every finding compares at most equal to the ones after it), and its summary counts each
  finding once, by severity and by code.\<close>

theorem audit_sorted_and_counted:
  "sorted_wrt (\<lambda>a b. compareFindings a b \<le> 0) (fst (listTaskFlowAuditFindings st linked now opts reg)) \<and>
   total (summarizeTaskFlowAuditFindings fs) = length fs \<and>
   total (summarizeTaskFlowAuditFindings fs) =
     errors (summarizeTaskFlowAuditFindings fs) + warnings (summarizeTaskFlowAuditFindings fs) \<and>
   byCode (summarizeTaskFlowAuditFindings fs) c = length (filter (\<lambda>a. code a = c) fs)"
proof -
  have "sorted_wrt (\<lambda>a b. compareFindings a b \<le> 0) (sort_key finding_key xs)" for xs
    using sorted_sort_key [of finding_key xs] by (simp add: compare_key sorted_map)
  moreover have "length (filter (\<lambda>a. severity a = Err) fs) + length (filter (\<lambda>a. severity a \<noteq> Err) fs) = length fs"
    by (rule sum_length_filter_compl)
  ultimately show ?thesis
    by (simp add: listTaskFlowAuditFindings_def Let_def summarizeTaskFlowAuditFindings_def
        createEmptyTaskFlowAuditSummary_def summarize_fold split: prod.splits)
qed

end
