(* ===== verification/Js_Number.thy ===== *)
theory Js_Number
  imports Machines
begin

text \<open>
  Reading numbers from strings as JavaScript does (\<open>Number(text)\<close>), finite checks and \<open>Math.floor\<close>,
  with exact rationals in place of doubles; and the searches in strings the code makes with
  \<open>includes\<close> and with simple regular expressions.
\<close>

subsection \<open>Characters\<close>

definition is_digit :: "char \<Rightarrow> bool" where
  "is_digit c \<longleftrightarrow> (let n = (of_char c :: nat) in 48 \<le> n \<and> n \<le> 57)"

definition is_lower_alpha :: "char \<Rightarrow> bool" where
  "is_lower_alpha c \<longleftrightarrow> (let n = (of_char c :: nat) in 97 \<le> n \<and> n \<le> 122)"

definition is_upper_alpha :: "char \<Rightarrow> bool" where
  "is_upper_alpha c \<longleftrightarrow> (let n = (of_char c :: nat) in 65 \<le> n \<and> n \<le> 90)"

text \<open>The class \<open>\w\<close> of regular expressions.\<close>

definition is_word :: "char \<Rightarrow> bool" where
  "is_word c \<longleftrightarrow> is_digit c \<or> is_lower_alpha c \<or> is_upper_alpha c \<or> c = CHR ''_''"

subsection \<open>Numbers\<close>

definition digit_value :: "char \<Rightarrow> nat option" where
  "digit_value c =
     (let n = (of_char c :: nat) in
      if 48 \<le> n \<and> n \<le> 57 then Some (n - 48)
      else if 97 \<le> n \<and> n \<le> 122 then Some (n - 87)
      else if 65 \<le> n \<and> n \<le> 90 then Some (n - 55) else None)"

fun digits_in_base :: "nat \<Rightarrow> nat \<Rightarrow> string \<Rightarrow> nat option" where
  "digits_in_base b acc [] = Some acc"
| "digits_in_base b acc (c # cs) = (case digit_value c of
     None \<Rightarrow> None
   | Some d \<Rightarrow> if d < b then digits_in_base b (acc * b + d) cs else None)"

definition decimal :: "string \<Rightarrow> nat" where
  "decimal s = (case digits_in_base 10 0 s of None \<Rightarrow> 0 | Some n \<Rightarrow> n)"

definition js_exponent :: "string \<Rightarrow> rat option" where
  "js_exponent s = (case s of
     [] \<Rightarrow> Some 1
   | c # rest \<Rightarrow>
       if c \<noteq> CHR ''e'' \<and> c \<noteq> CHR ''E'' then None
       else
         (let (neg, ds) = (case rest of
                [] \<Rightarrow> (False, [])
              | d # ds \<Rightarrow> if d = CHR ''-'' then (True, ds) else if d = CHR ''+'' then (False, ds) else (False, rest))
          in if ds = [] \<or> \<not> list_all is_digit ds then None
             else if neg then Some (1 / 10 ^ decimal ds) else Some (10 ^ decimal ds)))"

text \<open>An unsigned decimal literal.\<close>

definition js_unsigned :: "string \<Rightarrow> js_number" where
  "js_unsigned s =
     (if s = ''Infinity'' then PosInf
      else
        (let ip = takeWhile is_digit s;
             r = dropWhile is_digit s;
             (fp, e) = (case r of
                [] \<Rightarrow> ([], [])
              | c # cs \<Rightarrow> if c = CHR ''.'' then (takeWhile is_digit cs, dropWhile is_digit cs) else ([], r))
         in if ip = [] \<and> fp = [] then NaN
            else
              (case js_exponent e of
                 None \<Rightarrow> NaN
               | Some m \<Rightarrow> Fin (of_nat (decimal (ip @ fp)) / 10 ^ length fp * m))))"

fun js_negate :: "js_number \<Rightarrow> js_number" where
  "js_negate NaN = NaN"
| "js_negate PosInf = NegInf"
| "js_negate NegInf = PosInf"
| "js_negate (Fin q) = Fin (- q)"

definition js_radix :: "nat \<Rightarrow> string \<Rightarrow> js_number" where
  "js_radix b ds = (if ds = [] then NaN
     else (case digits_in_base b 0 ds of None \<Rightarrow> NaN | Some n \<Rightarrow> Fin (of_nat n)))"

definition js_Number :: "string \<Rightarrow> js_number" where
  "js_Number text =
     (let s = js_trim text in
      if s = [] then Fin 0
      else if js_lower (take 2 s) = ''0x'' then js_radix 16 (drop 2 s)
      else if js_lower (take 2 s) = ''0o'' then js_radix 8 (drop 2 s)
      else if js_lower (take 2 s) = ''0b'' then js_radix 2 (drop 2 s)
      else if hd s = CHR ''-'' then js_negate (js_unsigned (tl s))
      else if hd s = CHR ''+'' then js_unsigned (tl s)
      else js_unsigned s)"

definition finite_number :: "js_number \<Rightarrow> rat option" where
  "finite_number n = (case n of Fin q \<Rightarrow> Some q | _ \<Rightarrow> None)"

lemma finite_number_simps [simp]:
  "finite_number (Fin q) = Some q" "finite_number NaN = None"
  "finite_number PosInf = None" "finite_number NegInf = None"
  by (simp_all add: finite_number_def)

subsection \<open>Searches\<close>

fun js_includes :: "string \<Rightarrow> string \<Rightarrow> bool" where
  "js_includes [] p \<longleftrightarrow> p = []"
| "js_includes (c # s) p \<longleftrightarrow> js_starts_with (c # s) p \<or> js_includes s p"

text \<open>\<open>word_match before s ps\<close>: one of the words \<open>ps\<close> occurs in \<open>s\<close> between word boundaries
  (\<open>\b...\b\<close>); \<open>before\<close> says whether the character before \<open>s\<close> is a word character.\<close>

definition word_at :: "bool \<Rightarrow> string \<Rightarrow> (string \<Rightarrow> nat option) \<Rightarrow> bool" where
  "word_at before s m = (case m s of
     None \<Rightarrow> False
   | Some n \<Rightarrow> \<not> before \<and> (case drop n s of [] \<Rightarrow> True | c # _ \<Rightarrow> \<not> is_word c))"

fun word_search :: "bool \<Rightarrow> (string \<Rightarrow> nat option) \<Rightarrow> string \<Rightarrow> bool" where
  "word_search before m [] \<longleftrightarrow> False"
| "word_search before m (c # s) \<longleftrightarrow> word_at before (c # s) m \<or> word_search (is_word c) m s"

definition literal_word :: "string \<Rightarrow> string \<Rightarrow> nat option" where
  "literal_word p s = (if js_starts_with s p then Some (length p) else None)"

lemma js_includes_iff: "js_includes s p \<longleftrightarrow> (\<exists>u v. s = u @ p @ v)"
proof (induction s)
  case (Cons c s)
  have "js_starts_with (c # s) p \<longleftrightarrow> (\<exists>v. c # s = p @ v)"
    by (metis append_eq_conv_conj append_take_drop_id js_starts_with_def)
  moreover have "(\<exists>u v. c # s = u @ p @ v) \<longleftrightarrow> (\<exists>v. c # s = p @ v) \<or> (\<exists>u v. s = u @ p @ v)"
    by (metis append_Cons append_eq_Cons_conv)
  ultimately show ?case using Cons.IH by auto
qed auto

subsection \<open>Splitting and joining\<close>

definition js_ends_with :: "string \<Rightarrow> string \<Rightarrow> bool" where
  "js_ends_with s p \<longleftrightarrow> length p \<le> length s \<and> drop (length s - length p) s = p"

text \<open>\<open>split(sep)\<close> for a separator of one character.\<close>

fun js_split :: "char \<Rightarrow> string \<Rightarrow> string list" where
  "js_split sep [] = [[]]"
| "js_split sep (c # cs) =
     (if c = sep then [] # js_split sep cs
      else (case js_split sep cs of [] \<Rightarrow> [[c]] | p # ps \<Rightarrow> (c # p) # ps))"

subsection \<open>Printing\<close>

text \<open>\<open>join(sep)\<close>.\<close>

fun js_join :: "string \<Rightarrow> string list \<Rightarrow> string" where
  "js_join sep [] = []"
| "js_join sep [x] = x"
| "js_join sep (x # y # xs) = x @ sep @ js_join sep (y # xs)"

fun nat_digits :: "nat \<Rightarrow> string" where
  "nat_digits n = (if n < 10 then [char_of (48 + n)] else nat_digits (n div 10) @ [char_of (48 + n mod 10)])"

declare nat_digits.simps [simp del]

end
