(* ===== verification/Cron_Schedule.thy ===== *)
theory Cron_Schedule
  imports Js_Number
begin

text \<open>
  Cron schedules: src/brain/src/cron/parse.ts, schedule.ts, stagger.ts and the schedule computations
  of service/jobs.ts. Times are integers (milliseconds since the epoch).

  The third-party package croner (\<open>new Cron\<close>, \<open>nextRun\<close>, \<open>previousRuns\<close>), \<open>Date.parse\<close>, the local
  time zone and the first four bytes of a SHA-256 digest are the fields of \<open>cron_env\<close>. A throwing
  call returns \<open>Inl\<close> of its message; a null or invalid date is \<open>None\<close>.
\<close>

record cron_env =
  cronConstruct :: "string \<Rightarrow> string \<Rightarrow> string option"
  cronNextRun :: "string \<times> string \<Rightarrow> int \<Rightarrow> string + int option"
  cronPreviousRun :: "string \<times> string \<Rightarrow> int \<Rightarrow> string + int option"
  localTimezone :: string
  dateParse :: "string \<Rightarrow> int option"
  sha256Head :: "string \<Rightarrow> nat"

datatype legacy_at_ms = No_atMs | AtMs_number int | AtMs_string string

datatype cron_schedule =
    At "string option" legacy_at_ms
  | Every js_value js_value
  | Cron_expr "string option" "string option" "string option" js_value

subsection \<open>Parsing absolute times\<close>

definition matches_iso_date :: "string \<Rightarrow> bool" where
  "matches_iso_date s \<longleftrightarrow> length s = 10 \<and> s ! 4 = CHR ''-'' \<and> s ! 7 = CHR ''-'' \<and>
     list_all is_digit (take 4 s @ take 2 (drop 5 s) @ drop 8 s)"

definition has_iso_zone :: "string \<Rightarrow> bool" where
  "has_iso_zone s =
     (let sign = (\<lambda>c. c = CHR ''+'' \<or> c = CHR ''-'');
          five = drop (length s - 5) s;
          six = drop (length s - 6) s
      in s \<noteq> [] \<and> (last s = CHR ''Z'' \<or> last s = CHR ''z'') \<or>
         length five = 5 \<and> sign (five ! 0) \<and> list_all is_digit (drop 1 five) \<or>
         length six = 6 \<and> sign (six ! 0) \<and> six ! 3 = CHR '':'' \<and>
           list_all is_digit (take 2 (drop 1 six) @ drop 4 six))"

definition normalizeUtcIso :: "string \<Rightarrow> string" where
  "normalizeUtcIso raw =
     (if has_iso_zone raw then raw
      else if matches_iso_date raw then raw @ ''T00:00:00Z''
      else if matches_iso_date (take 10 raw) \<and> js_starts_with (drop 10 raw) ''T'' then raw @ ''Z''
      else raw)"

definition parseAbsoluteTimeMs :: "cron_env \<Rightarrow> string \<Rightarrow> int option" where
  "parseAbsoluteTimeMs env input =
     (let raw = js_trim input in
      if raw = [] then None
      else if list_all is_digit raw \<and> 0 < decimal raw then Some (int (decimal raw))
      else dateParse env (normalizeUtcIso raw))"

subsection \<open>Next and previous run of a schedule\<close>

definition coerceFiniteScheduleNumber :: "js_value \<Rightarrow> rat option" where
  "coerceFiniteScheduleNumber v = (case v of
     JNumber n \<Rightarrow> finite_number n
   | JString s \<Rightarrow> (if js_trim s = [] then None else finite_number (js_Number (js_trim s)))
   | _ \<Rightarrow> None)"

definition resolveCronTimezone :: "cron_env \<Rightarrow> string option \<Rightarrow> string" where
  "resolveCronTimezone env tz =
     (let trimmed = nullish (normalizeOptionalString (js_opt tz)) [] in
      if trimmed \<noteq> [] then trimmed else localTimezone env)"

text \<open>A cron object is named by its expression and time zone.\<close>

definition newCron :: "cron_env \<Rightarrow> string \<Rightarrow> string \<Rightarrow> string + string \<times> string" where
  "newCron env expr tz = (case cronConstruct env expr tz of Some e \<Rightarrow> Inl e | None \<Rightarrow> Inr (expr, tz))"

definition resolveCronFromSchedule ::
    "cron_env \<Rightarrow> string option \<Rightarrow> string option \<Rightarrow> string option \<Rightarrow> string + (string \<times> string) option" where
  "resolveCronFromSchedule env expr legacy tz =
     (case (case expr of Some e \<Rightarrow> Some e | None \<Rightarrow> legacy) of
        None \<Rightarrow> Inl ''invalid cron schedule: expr is required''
      | Some src \<Rightarrow>
          (let e = js_trim src in
           if e = [] then Inr None
           else map_sum id Some (newCron env e (resolveCronTimezone env tz))))"

definition resolve_at :: "cron_env \<Rightarrow> string option \<Rightarrow> legacy_at_ms \<Rightarrow> int option" where
  "resolve_at env txt atMs =
     (let from_at = (case txt of None \<Rightarrow> None | Some s \<Rightarrow> parseAbsoluteTimeMs env s) in
      case atMs of
        AtMs_number n \<Rightarrow> if 0 < n then Some n else from_at
      | AtMs_string s \<Rightarrow> parseAbsoluteTimeMs env s
      | No_atMs \<Rightarrow> from_at)"

definition next_every :: "int \<Rightarrow> int \<Rightarrow> int \<Rightarrow> int" where
  "next_every everyMs anchor now =
     (if now < anchor then anchor
      else (let elapsed = now - anchor; steps = max 1 ((elapsed + everyMs - 1) div everyMs)
            in anchor + steps * everyMs))"

definition future :: "int \<Rightarrow> int option \<Rightarrow> int option" where
  "future now t = (case t of None \<Rightarrow> None | Some x \<Rightarrow> if now < x then Some x else None)"

definition next_cron :: "cron_env \<Rightarrow> string \<times> string \<Rightarrow> int \<Rightarrow> string + int option" where
  "next_cron env cron now =
     (case cronNextRun env cron now of
        Inl e \<Rightarrow> Inl e
      | Inr None \<Rightarrow> Inr None
      | Inr (Some nextMs) \<Rightarrow>
          if now < nextMs then Inr (Some nextMs)
          else
            (case cronNextRun env cron (now div 1000 * 1000 + 1000) of
               Inl e \<Rightarrow> Inl e
             | Inr retry \<Rightarrow>
                 (case future now retry of
                    Some r \<Rightarrow> Inr (Some r)
                  | None \<Rightarrow>
                      (case cronNextRun env cron ((now div 86400000 + 1) * 86400000) of
                         Inl e \<Rightarrow> Inl e
                       | Inr retry2 \<Rightarrow> Inr (future now retry2)))))"

definition computeNextRunAtMs :: "cron_env \<Rightarrow> cron_schedule \<Rightarrow> int \<Rightarrow> string + int option" where
  "computeNextRunAtMs env schedule now = (case schedule of
     At txt atMs \<Rightarrow> Inr (future now (resolve_at env txt atMs))
   | Every every anchor \<Rightarrow>
       (case coerceFiniteScheduleNumber every of
          None \<Rightarrow> Inr None
        | Some raw \<Rightarrow>
            (let everyMs = max 1 \<lfloor>raw\<rfloor>;
                 anchorMs = max 0 \<lfloor>nullish (coerceFiniteScheduleNumber anchor) (of_int now)\<rfloor>
             in Inr (Some (next_every everyMs anchorMs now))))
   | Cron_expr expr legacy tz stagger \<Rightarrow>
       (case resolveCronFromSchedule env expr legacy tz of
          Inl e \<Rightarrow> Inl e
        | Inr None \<Rightarrow> Inr None
        | Inr (Some cron) \<Rightarrow> next_cron env cron now))"

definition computePreviousRunAtMs :: "cron_env \<Rightarrow> cron_schedule \<Rightarrow> int \<Rightarrow> string + int option" where
  "computePreviousRunAtMs env schedule now = (case schedule of
     Cron_expr expr legacy tz stagger \<Rightarrow>
       (case resolveCronFromSchedule env expr legacy tz of
          Inl e \<Rightarrow> Inl e
        | Inr None \<Rightarrow> Inr None
        | Inr (Some cron) \<Rightarrow>
            (case cronPreviousRun env cron now of
               Inl e \<Rightarrow> Inl e
             | Inr None \<Rightarrow> Inr None
             | Inr (Some p) \<Rightarrow> Inr (if now \<le> p then None else Some p)))
   | _ \<Rightarrow> Inr None)"

subsection \<open>Stagger\<close>

definition DEFAULT_TOP_OF_HOUR_STAGGER_MS :: int where
  "DEFAULT_TOP_OF_HOUR_STAGGER_MS = 5 * 60 * 1000"

function split_ws :: "string \<Rightarrow> string list" where
  "split_ws s =
     (let t = dropWhile js_ws s in
      if t = [] then [] else takeWhile (\<lambda>c. \<not> js_ws c) t # split_ws (dropWhile (\<lambda>c. \<not> js_ws c) t))"
  by pat_completeness auto
termination
proof (relation "measure length")
  fix s t :: string assume t: "t = dropWhile js_ws s" and ne: "t \<noteq> []"
  have "length (dropWhile (\<lambda>c. \<not> js_ws c) t) < length t"
  proof -
    from ne obtain c cs where cs: "t = c # cs" by (cases t) auto
    moreover have "\<not> js_ws c" using hd_dropWhile [of js_ws s] ne cs unfolding t by (metis list.sel(1))
    ultimately show ?thesis using length_dropWhile_le [of "\<lambda>c. \<not> js_ws c" cs] by simp
  qed
  also have "length t \<le> length s" by (simp add: t length_dropWhile_le)
  finally show "(dropWhile (\<lambda>c. \<not> js_ws c) t, s) \<in> measure length" by simp
qed simp

declare split_ws.simps [simp del]

definition parseCronFields :: "string \<Rightarrow> string list" where
  "parseCronFields expr = split_ws (js_trim expr)"

definition isRecurringTopOfHourCronExpr :: "string \<Rightarrow> bool" where
  "isRecurringTopOfHourCronExpr expr = (case parseCronFields expr of
     [m, h, _, _, _] \<Rightarrow> m = ''0'' \<and> js_includes h ''*''
   | [s, m, h, _, _, _] \<Rightarrow> s = ''0'' \<and> m = ''0'' \<and> js_includes h ''*''
   | _ \<Rightarrow> False)"

definition normalizeCronStaggerMs :: "js_value \<Rightarrow> int option" where
  "normalizeCronStaggerMs raw =
     (let numeric = (case raw of
            JNumber n \<Rightarrow> n
          | JString s \<Rightarrow> if js_trim s = [] then NaN else js_Number s
          | _ \<Rightarrow> NaN)
      in map_option (\<lambda>q. max 0 \<lfloor>q\<rfloor>) (finite_number numeric))"

definition resolveDefaultCronStaggerMs :: "string \<Rightarrow> int option" where
  "resolveDefaultCronStaggerMs expr =
     (if isRecurringTopOfHourCronExpr expr then Some DEFAULT_TOP_OF_HOUR_STAGGER_MS else None)"

definition resolveCronStaggerMs :: "string option \<Rightarrow> js_value \<Rightarrow> int" where
  "resolveCronStaggerMs expr stagger = (case normalizeCronStaggerMs stagger of
     Some s \<Rightarrow> s
   | None \<Rightarrow> nullish (resolveDefaultCronStaggerMs (nullish expr [])) 0)"

definition stable_offset :: "cron_env \<Rightarrow> string \<Rightarrow> int \<Rightarrow> int" where
  "stable_offset env jobId staggerMs =
     (if staggerMs \<le> 1 then 0 else int (sha256Head env jobId) mod staggerMs)"

fun staggered_next_loop ::
    "cron_env \<Rightarrow> cron_schedule \<Rightarrow> int \<Rightarrow> int \<Rightarrow> nat \<Rightarrow> int \<Rightarrow> string + int option" where
  "staggered_next_loop env s offset now 0 cursor = Inr None"
| "staggered_next_loop env s offset now (Suc n) cursor =
     (case computeNextRunAtMs env s cursor of
        Inl e \<Rightarrow> Inl e
      | Inr None \<Rightarrow> Inr None
      | Inr (Some base) \<Rightarrow>
          if now < base + offset then Inr (Some (base + offset))
          else staggered_next_loop env s offset now n (max (cursor + 1) (base + 1000)))"

definition computeStaggeredCronNextRunAtMs ::
    "cron_env \<Rightarrow> string \<Rightarrow> cron_schedule \<Rightarrow> int \<Rightarrow> string + int option" where
  "computeStaggeredCronNextRunAtMs env jobId s now = (case s of
     Cron_expr expr legacy tz stagger \<Rightarrow>
       (let offset = stable_offset env jobId (resolveCronStaggerMs expr stagger) in
        if offset \<le> 0 then computeNextRunAtMs env s now
        else staggered_next_loop env s offset now 4 (max 0 (now - offset)))
   | _ \<Rightarrow> computeNextRunAtMs env s now)"

fun staggered_previous_loop ::
    "cron_env \<Rightarrow> cron_schedule \<Rightarrow> int \<Rightarrow> int \<Rightarrow> nat \<Rightarrow> int \<Rightarrow> string + int option" where
  "staggered_previous_loop env s offset now 0 cursor = Inr None"
| "staggered_previous_loop env s offset now (Suc n) cursor =
     (case computePreviousRunAtMs env s cursor of
        Inl e \<Rightarrow> Inl e
      | Inr None \<Rightarrow> Inr None
      | Inr (Some base) \<Rightarrow>
          if base + offset \<le> now then Inr (Some (base + offset))
          else staggered_previous_loop env s offset now n (max 0 (base - 1000)))"

definition computeStaggeredCronPreviousRunAtMs ::
    "cron_env \<Rightarrow> string \<Rightarrow> cron_schedule \<Rightarrow> int \<Rightarrow> string + int option" where
  "computeStaggeredCronPreviousRunAtMs env jobId s now = (case s of
     Cron_expr expr legacy tz stagger \<Rightarrow>
       (let offset = stable_offset env jobId (resolveCronStaggerMs expr stagger) in
        if offset \<le> 0 then computePreviousRunAtMs env s now
        else staggered_previous_loop env s offset now 4 (max 0 (now - offset)))
   | _ \<Rightarrow> Inr None)"

subsection \<open>The module-level caches\<close>

text \<open>The cache of cron objects and of stagger offsets: a full cache drops its oldest entry. The
  functions above use the values directly; a constructor that throws leaves the cache as it is after
  the eviction. The text of a stagger key, an integer, a colon and the job id, is kept as a pair.\<close>

definition CRON_EVAL_CACHE_MAX :: nat where
  "CRON_EVAL_CACHE_MAX = 512"

definition STAGGER_OFFSET_CACHE_MAX :: nat where
  "STAGGER_OFFSET_CACHE_MAX = 4096"

definition evict_oldest :: "nat \<Rightarrow> ('k, 'v) js_map \<Rightarrow> ('k, 'v) js_map" where
  "evict_oldest bound cache =
     (if bound \<le> length cache then (case cache of [] \<Rightarrow> [] | (k, v) # rest \<Rightarrow> jm_delete cache k) else cache)"

type_synonym cron_eval_cache = "(string, string \<times> string) js_map"

definition cron_key :: "string \<Rightarrow> string \<Rightarrow> string" where
  "cron_key timezone expr = timezone @ CHR 0x00 # expr"

definition resolveCachedCron ::
    "cron_env \<Rightarrow> cron_eval_cache \<Rightarrow> string \<Rightarrow> string \<Rightarrow> (string + string \<times> string) \<times> cron_eval_cache" where
  "resolveCachedCron env cache expr tz =
     (case jm_get cache (cron_key tz expr) of
        Some c \<Rightarrow> (Inr c, cache)
      | None \<Rightarrow>
          (let cache = evict_oldest CRON_EVAL_CACHE_MAX cache in
           case newCron env expr tz of
             Inl e \<Rightarrow> (Inl e, cache)
           | Inr c \<Rightarrow> (Inr c, jm_set cache (cron_key tz expr) c)))"

type_synonym stagger_cache = "(int \<times> string, int) js_map"

definition resolveStableCronOffsetMs ::
    "cron_env \<Rightarrow> stagger_cache \<Rightarrow> string \<Rightarrow> int \<Rightarrow> int \<times> stagger_cache" where
  "resolveStableCronOffsetMs env cache jobId staggerMs =
     (if staggerMs \<le> 1 then (0, cache)
      else
        (case jm_get cache (staggerMs, jobId) of
           Some offset \<Rightarrow> (offset, cache)
         | None \<Rightarrow>
             (let offset = int (sha256Head env jobId) mod staggerMs
              in (offset, jm_set (evict_oldest STAGGER_OFFSET_CACHE_MAX cache) (staggerMs, jobId) offset))))"

end
