(* ===== verification/Cron_Jobs.thy ===== *)
theory Cron_Jobs
  imports Cron_Schedule
begin

text \<open>
  Cron jobs: the record of src/brain/src/cron/types.ts and the operations of service/jobs.ts on
  one job and on the store (next run, schedule errors, tick normalisation, recomputation, next
  wake). An operation that mutates a job returns the job it leaves; the messages sent by it
  (\<open>enqueueSystemEvent\<close>, \<open>requestHeartbeatNow\<close>, ...) are a list of effects.
\<close>

subsection \<open>Data\<close>

datatype session_target = Main_session | Isolated | Current | Session string

datatype wake_mode = Next_heartbeat | Wake_now

datatype run_status = Run_ok | Run_error | Run_skipped

datatype delivery_mode = Dm_none | Dm_announce | Dm_webhook

datatype alert_mode = Am_announce | Am_webhook

datatype thread_value = Thread_text string | Thread_number rat

datatype cron_delivery_status = Delivered | Not_delivered | Unknown_delivery | Not_requested

record failure_destination =
  fd_channel :: "string option"
  fd_to :: "string option"
  fd_accountId :: "string option"
  fd_mode :: "alert_mode option"

record cron_delivery =
  d_mode :: delivery_mode
  d_channel :: "string option"
  d_to :: "string option"
  d_threadId :: "thread_value option"
  d_accountId :: "string option"
  d_bestEffort :: "bool option"
  d_failureDestination :: "failure_destination option"

record failure_alert =
  fa_after :: "js_number option"
  fa_channel :: "string option"
  fa_to :: "string option"
  fa_cooldownMs :: "js_number option"
  fa_mode :: "alert_mode option"
  fa_accountId :: "string option"

datatype failure_alert_setting = Alerts_off | Alert_config failure_alert

record agent_turn =
  at_message :: string
  at_model :: "string option"
  at_fallbacks :: "string list option"
  at_thinking :: "string option"
  at_timeoutSeconds :: "rat option"
  at_allowUnsafe :: "bool option"
  at_lightContext :: "bool option"
  at_toolsAllow :: "string list option"

datatype cron_payload = SystemEvent string | AgentTurn agent_turn

record cron_job_state =
  nextRunAtMs :: "int option"
  runningAtMs :: "int option"
  lastRunAtMs :: "int option"
  lastRunStatus :: "run_status option"
  lastStatus :: "run_status option"
  lastError :: "string option"
  lastErrorReason :: "string option"
  lastDurationMs :: "int option"
  consecutiveErrors :: "nat option"
  lastFailureAlertAtMs :: "int option"
  scheduleErrorCount :: "nat option"
  lastDeliveryStatus :: "cron_delivery_status option"
  lastDeliveryError :: "string option"
  lastDelivered :: "bool option"

record cron_job =
  jobId :: string
  agentId :: "string option"
  sessionKey :: "string option"
  jobName :: string
  description :: "string option"
  enabled :: bool
  deleteAfterRun :: "bool option"
  createdAtMs :: int
  updatedAtMs :: int
  schedule :: cron_schedule
  sessionTarget :: session_target
  wakeMode :: wake_mode
  payload :: cron_payload
  delivery :: "cron_delivery option"
  failureAlert :: "failure_alert_setting option"
  jstate :: cron_job_state

definition empty_job_state :: cron_job_state where
  "empty_job_state = \<lparr> nextRunAtMs = None, runningAtMs = None, lastRunAtMs = None,
     lastRunStatus = None, lastStatus = None, lastError = None, lastErrorReason = None,
     lastDurationMs = None, consecutiveErrors = None, lastFailureAlertAtMs = None,
     scheduleErrorCount = None, lastDeliveryStatus = None, lastDeliveryError = None,
     lastDelivered = None \<rparr>"

datatype cron_effect =
    AutoDisabledNotice string string nat string "string option" "string option"
  | AutoDisabledHeartbeat string "string option" "string option"
  | FailureAlertSent string string string "string option" "alert_mode option" "string option"
  | SystemEventQueued string "string option"
  | HeartbeatRequested string
  | JobStarted string int
  | JobFinished string run_status "int option"
  | JobRemoved string
  | JobAdded string "int option"
  | JobUpdated string "int option"
  | Persisted "cron_job list"

definition with_state :: "cron_job \<Rightarrow> (cron_job_state \<Rightarrow> cron_job_state) \<Rightarrow> cron_job" where
  "with_state job f = job\<lparr>jstate := f (jstate job)\<rparr>"

subsection \<open>Next run of a job\<close>

definition STUCK_RUN_MS :: int where
  "STUCK_RUN_MS = 2 * 60 * 60 * 1000"

definition hasScheduledNextRunAtMs :: "int option \<Rightarrow> bool" where
  "hasScheduledNextRunAtMs v = (case v of None \<Rightarrow> False | Some t \<Rightarrow> 0 < t)"

definition resolveEveryAnchorMs :: "js_value \<Rightarrow> int \<Rightarrow> int" where
  "resolveEveryAnchorMs anchor fallback = (case coerceFiniteScheduleNumber anchor of
     Some q \<Rightarrow> max 0 \<lfloor>q\<rfloor>
   | None \<Rightarrow> max 0 fallback)"

definition computeJobNextRunAtMs :: "cron_env \<Rightarrow> cron_job \<Rightarrow> int \<Rightarrow> string + int option" where
  "computeJobNextRunAtMs env job now =
     (if \<not> enabled job then Inr None
      else (case schedule job of
        Every every anchor \<Rightarrow>
          (case coerceFiniteScheduleNumber every of
             None \<Rightarrow> Inr None
           | Some raw \<Rightarrow>
               (let everyMs = max 1 \<lfloor>raw\<rfloor>;
                    fromLast = (case lastRunAtMs (jstate job) of
                      None \<Rightarrow> None
                    | Some l \<Rightarrow> if now < l + everyMs then Some (l + everyMs) else None)
                in case fromLast of
                     Some t \<Rightarrow> Inr (Some t)
                   | None \<Rightarrow>
                       computeNextRunAtMs env
                         (Every (JInt everyMs) (JInt (resolveEveryAnchorMs anchor (createdAtMs job)))) now))
      | At txt atMs \<Rightarrow>
          (let t = resolve_at env txt atMs;
               lastRun = lastRunAtMs (jstate job)
           in if lastStatus (jstate job) = Some Run_ok \<and> nullish lastRun 0 \<noteq> 0
              then Inr (case t of None \<Rightarrow> None | Some x \<Rightarrow> if the lastRun < x then Some x else None)
              else Inr t)
      | Cron_expr expr legacy tz stagger \<Rightarrow>
          (case computeStaggeredCronNextRunAtMs env (jobId job) (schedule job) now of
             Inl e \<Rightarrow> Inl e
           | Inr None \<Rightarrow>
               computeStaggeredCronNextRunAtMs env (jobId job) (schedule job) (now div 1000 * 1000 + 1000)
           | Inr (Some t) \<Rightarrow> Inr (Some t))))"

definition computeJobPreviousRunAtMs :: "cron_env \<Rightarrow> cron_job \<Rightarrow> int \<Rightarrow> string + int option" where
  "computeJobPreviousRunAtMs env job now =
     (if \<not> enabled job then Inr None
      else (case schedule job of
        Cron_expr expr legacy tz stagger \<Rightarrow>
          computeStaggeredCronPreviousRunAtMs env (jobId job) (schedule job) now
      | _ \<Rightarrow> Inr None))"

definition MAX_SCHEDULE_ERRORS :: nat where
  "MAX_SCHEDULE_ERRORS = 3"

definition recordScheduleComputeError :: "string \<Rightarrow> cron_job \<Rightarrow> cron_job \<times> cron_effect list" where
  "recordScheduleComputeError err job =
     (let errorCount = nullish (scheduleErrorCount (jstate job)) 0 + 1;
          job = with_state job (\<lambda>s. s\<lparr>scheduleErrorCount := Some errorCount, nextRunAtMs := None,
                  lastError := Some (''schedule error: '' @ err)\<rparr>)
      in if MAX_SCHEDULE_ERRORS \<le> errorCount
         then (job\<lparr>enabled := False\<rparr>,
               [AutoDisabledNotice (jobId job) (jobName job) errorCount err (agentId job) (sessionKey job),
                AutoDisabledHeartbeat (jobId job) (agentId job) (sessionKey job)])
         else (job, []))"

subsection \<open>Maintenance of the store\<close>

text \<open>The result is (changed, skip, job).\<close>

definition normalizeJobTickState :: "cron_job \<Rightarrow> int \<Rightarrow> bool \<times> bool \<times> cron_job" where
  "normalizeJobTickState job now =
     (let (c1, job) = (case schedule job of
            Every every anchor \<Rightarrow>
              (let normalized = JInt (resolveEveryAnchorMs anchor (createdAtMs job)) in
               if anchor \<noteq> normalized then (True, job\<lparr>schedule := Every every normalized\<rparr>) else (False, job))
          | _ \<Rightarrow> (False, job))
      in if \<not> enabled job
         then (c1 \<or> nextRunAtMs (jstate job) \<noteq> None \<or> runningAtMs (jstate job) \<noteq> None, True,
               with_state job (\<lambda>s. s\<lparr>nextRunAtMs := None, runningAtMs := None\<rparr>))
         else
           (let invalidNext = (\<not> hasScheduledNextRunAtMs (nextRunAtMs (jstate job)) \<and> nextRunAtMs (jstate job) \<noteq> None);
                job = (if invalidNext then with_state job (\<lambda>s. s\<lparr>nextRunAtMs := None\<rparr>) else job);
                stuck = (case runningAtMs (jstate job) of None \<Rightarrow> False | Some r \<Rightarrow> STUCK_RUN_MS < now - r);
                job = (if stuck then with_state job (\<lambda>s. s\<lparr>runningAtMs := None\<rparr>) else job)
            in (c1 \<or> invalidNext \<or> stuck, False, job)))"

type_synonym job_update = "bool \<times> cron_job \<times> cron_effect list"

definition walk_job :: "(cron_job \<Rightarrow> int \<Rightarrow> job_update) \<Rightarrow> int \<Rightarrow> cron_job \<Rightarrow> job_update" where
  "walk_job f now job = (case normalizeJobTickState job now of (changed, skip, job) \<Rightarrow>
     if skip then (changed, job, [])
     else (case f job now of (c, job, effs) \<Rightarrow> (changed \<or> c, job, effs)))"

definition walkSchedulableJobs ::
    "(cron_job \<Rightarrow> int \<Rightarrow> job_update) \<Rightarrow> int \<Rightarrow> cron_job list \<Rightarrow> bool \<times> cron_job list \<times> cron_effect list" where
  "walkSchedulableJobs f now jobs =
     (let results = map (walk_job f now) jobs
      in (list_ex fst results, map (fst \<circ> snd) results, concat (map (snd \<circ> snd) results)))"

definition recomputeJobNextRunAtMs :: "cron_env \<Rightarrow> cron_job \<Rightarrow> int \<Rightarrow> job_update" where
  "recomputeJobNextRunAtMs env job now = (case computeJobNextRunAtMs env job now of
     Inr newNext \<Rightarrow>
       (let changed = (nextRunAtMs (jstate job) \<noteq> newNext);
            hadErrors = (nullish (scheduleErrorCount (jstate job)) 0 \<noteq> 0);
            job = with_state job (\<lambda>s. s\<lparr>nextRunAtMs := newNext\<rparr>);
            job = (if hadErrors then with_state job (\<lambda>s. s\<lparr>scheduleErrorCount := None\<rparr>) else job)
        in (changed \<or> hadErrors, job, []))
   | Inl err \<Rightarrow> (case recordScheduleComputeError err job of (job, effs) \<Rightarrow> (True, job, effs)))"

definition recomputeNextRuns ::
    "cron_env \<Rightarrow> int \<Rightarrow> cron_job list \<Rightarrow> bool \<times> cron_job list \<times> cron_effect list" where
  "recomputeNextRuns env now jobs = walkSchedulableJobs (\<lambda>job now.
     (let nextRun = nextRunAtMs (jstate job) in
      if \<not> hasScheduledNextRunAtMs nextRun \<or> the nextRun \<le> now
      then recomputeJobNextRunAtMs env job now else (False, job, []))) now jobs"

definition maintenance_recompute :: "cron_env \<Rightarrow> bool \<Rightarrow> cron_job \<Rightarrow> int \<Rightarrow> job_update" where
  "maintenance_recompute env recomputeExpired job now =
     (if \<not> hasScheduledNextRunAtMs (nextRunAtMs (jstate job)) then recomputeJobNextRunAtMs env job now
      else if recomputeExpired \<and> the (nextRunAtMs (jstate job)) \<le> now \<and> runningAtMs (jstate job) = None then
        (let alreadyExecutedSlot = (case lastRunAtMs (jstate job) of
               None \<Rightarrow> False | Some l \<Rightarrow> the (nextRunAtMs (jstate job)) \<le> l)
         in if alreadyExecutedSlot then recomputeJobNextRunAtMs env job now else (False, job, []))
      else (False, job, []))"

definition recomputeNextRunsForMaintenance ::
    "cron_env \<Rightarrow> bool \<Rightarrow> int \<Rightarrow> cron_job list \<Rightarrow> bool \<times> cron_job list \<times> cron_effect list" where
  "recomputeNextRunsForMaintenance env recomputeExpired now jobs =
     walkSchedulableJobs (maintenance_recompute env recomputeExpired) now jobs"

definition nextWakeAtMs :: "cron_job list \<Rightarrow> int option" where
  "nextWakeAtMs jobs =
     (let en = filter (\<lambda>j. enabled j \<and> hasScheduledNextRunAtMs (nextRunAtMs (jstate j))) jobs in
      case en of
        [] \<Rightarrow> None
      | first # _ \<Rightarrow>
          Some (foldl (\<lambda>m j. case nextRunAtMs (jstate j) of
                  Some t \<Rightarrow> (if 0 < t then min m t else m) | None \<Rightarrow> m)
                (the (nextRunAtMs (jstate first))) en))"

definition isJobDue :: "cron_job \<Rightarrow> int \<Rightarrow> bool \<Rightarrow> bool" where
  "isJobDue job now forced =
     (if runningAtMs (jstate job) \<noteq> None then False
      else if forced then True
      else enabled job \<and> hasScheduledNextRunAtMs (nextRunAtMs (jstate job)) \<and>
        the (nextRunAtMs (jstate job)) \<le> now)"

definition resolveJobPayloadTextForMain :: "cron_job \<Rightarrow> string option" where
  "resolveJobPayloadTextForMain job = (case payload job of
     AgentTurn _ \<Rightarrow> None
   | SystemEvent txt \<Rightarrow> (let t = js_trim txt in if js_trim t = [] then None else Some t))"

end
