(* ===== verification/Cron_Timer.thy ===== *)
theory Cron_Timer
  imports Cron_Jobs
begin

text \<open>
  The cron timer: src/brain/src/cron/service/timer.ts, delivery-plan.ts (the primary plan),
  active-jobs.ts, service/timeout-policy.ts and the start of the service (\<open>start\<close> of service/ops.ts).

  A timer tick (\<open>onTimer\<close>) is split at its awaits: \<open>onTimer_begin\<close> collects and marks the due jobs
  under the lock, \<open>runDueJob_start\<close> starts one of them, and \<open>onTimer_finish\<close> applies the outcomes,
  which the environment supplies. The store file is the field \<open>disk\<close>: a forced reload reads it, a
  persist writes it, and other processes may change it between the steps. \<open>timer\<close> is the delay of
  the armed timer. The task ledger, the session reaper and the log calls are left out.
\<close>

subsection \<open>Configuration and state\<close>

datatype retry_kind = Rate_limit | Overloaded | Network | Timeout | Server_error

record cron_retry_config =
  rc_maxAttempts :: "rat option"
  rc_backoffMs :: "int list option"
  rc_retryOn :: "retry_kind list option"

record cron_alert_config =
  ac_enabled :: "bool option"
  ac_after :: "js_number option"
  ac_cooldownMs :: "js_number option"
  ac_mode :: "alert_mode option"
  ac_accountId :: "string option"

record cron_deps =
  cronEnabled :: bool
  maxConcurrentRuns :: "js_number option"
  retryConfig :: "cron_retry_config option"
  alertConfig :: "cron_alert_config option"
  hasAlertSender :: bool
  missedJobStaggerMs :: "int option"
  maxMissedJobsPerRestart :: "int option"
  failoverReason :: "string \<Rightarrow> string option"

record cron_service =
  store :: "cron_job list option"
  disk :: "cron_job list"
  timer :: "int option"
  running :: bool
  activeJobIds :: "string list"
  cron_effects :: "cron_effect list"

record run_result =
  r_status :: run_status
  r_error :: "string option"
  r_delivered :: "bool option"
  r_startedAt :: int
  r_endedAt :: int

definition MAX_TIMER_DELAY_MS :: int where "MAX_TIMER_DELAY_MS = 60000"

definition MIN_REFIRE_GAP_MS :: int where "MIN_REFIRE_GAP_MS = 2000"

definition DEFAULT_MISSED_JOB_STAGGER_MS :: int where "DEFAULT_MISSED_JOB_STAGGER_MS = 5000"

definition DEFAULT_MAX_MISSED_JOBS_PER_RESTART :: int where "DEFAULT_MAX_MISSED_JOBS_PER_RESTART = 5"

definition DEFAULT_FAILURE_ALERT_AFTER :: int where "DEFAULT_FAILURE_ALERT_AFTER = 2"

definition DEFAULT_FAILURE_ALERT_COOLDOWN_MS :: int where "DEFAULT_FAILURE_ALERT_COOLDOWN_MS = 60 * 60000"

definition effect :: "cron_service \<Rightarrow> cron_effect list \<Rightarrow> cron_service" where
  "effect s es = s\<lparr>cron_effects := cron_effects s @ es\<rparr>"

definition persist :: "cron_service \<Rightarrow> cron_service" where
  "persist s = (case store s of None \<Rightarrow> s | Some jobs \<Rightarrow> effect (s\<lparr>disk := jobs\<rparr>) [Persisted jobs])"

subsection \<open>Timeouts, concurrency and active jobs\<close>

definition DEFAULT_JOB_TIMEOUT_MS :: int where "DEFAULT_JOB_TIMEOUT_MS = 10 * 60000"

definition AGENT_TURN_SAFETY_TIMEOUT_MS :: int where "AGENT_TURN_SAFETY_TIMEOUT_MS = 60 * 60000"

definition resolveCronJobTimeoutMs :: "cron_job \<Rightarrow> int option" where
  "resolveCronJobTimeoutMs job = (case payload job of
     SystemEvent _ \<Rightarrow> Some DEFAULT_JOB_TIMEOUT_MS
   | AgentTurn a \<Rightarrow> (case at_timeoutSeconds a of
       None \<Rightarrow> Some AGENT_TURN_SAFETY_TIMEOUT_MS
     | Some q \<Rightarrow> (let ms = \<lfloor>q * 1000\<rfloor> in if ms \<le> 0 then None else Some ms)))"

definition resolveRunConcurrency :: "cron_deps \<Rightarrow> int" where
  "resolveRunConcurrency deps = (case maxConcurrentRuns deps of
     Some (Fin q) \<Rightarrow> max 1 \<lfloor>q\<rfloor> | _ \<Rightarrow> 1)"

definition markCronJobActive :: "string \<Rightarrow> cron_service \<Rightarrow> cron_service" where
  "markCronJobActive i s = (if i = [] then s else s\<lparr>activeJobIds := js_set_add (activeJobIds s) i\<rparr>)"

definition clearCronJobActive :: "string \<Rightarrow> cron_service \<Rightarrow> cron_service" where
  "clearCronJobActive i s = (if i = [] then s else s\<lparr>activeJobIds := js_set_delete (activeJobIds s) i\<rparr>)"

subsection \<open>Backoff and retries\<close>

definition DEFAULT_BACKOFF_SCHEDULE_MS :: "int list" where
  "DEFAULT_BACKOFF_SCHEDULE_MS = [30000, 60000, 5 * 60000, 15 * 60000, 60 * 60000]"

definition errorBackoffMs :: "nat \<Rightarrow> int list \<Rightarrow> int" where
  "errorBackoffMs consecutive scheduleMs =
     (let idx = min (int consecutive - 1) (int (length scheduleMs) - 1)
      in scheduleMs ! nat (max 0 idx))"

definition any_of :: "string list \<Rightarrow> string \<Rightarrow> bool" where
  "any_of ps s = list_ex (js_includes s) ps"

definition status_5xx :: "string \<Rightarrow> nat option" where
  "status_5xx s = (case s of
     a # b # c # _ \<Rightarrow> if a = CHR ''5'' \<and> is_digit b \<and> is_digit c then Some 3 else None | _ \<Rightarrow> None)"

fun transient_pattern :: "retry_kind \<Rightarrow> string \<Rightarrow> bool" where
  "transient_pattern Rate_limit e = any_of [''rate_limit'', ''rate limit'', ''too many requests'', ''429'',
     ''resource has been exhausted'', ''cloudflare'', ''tokens per day''] (js_lower e)"
| "transient_pattern Overloaded e =
     (word_search False (literal_word ''529'') e \<or>
      word_search False (literal_word ''overloaded'') (js_lower e) \<or>
      word_search False (literal_word ''overloaded_error'') (js_lower e) \<or>
      any_of [''high demand'', ''temporarily overloaded'', ''temporary overloaded'', ''capacity exceeded''] (js_lower e))"
| "transient_pattern Network e = any_of [''network'', ''econnreset'', ''econnrefused'', ''fetch failed'', ''socket''] (js_lower e)"
| "transient_pattern Timeout e = any_of [''timeout'', ''etimedout''] (js_lower e)"
| "transient_pattern Server_error e = word_search False status_5xx e"

definition isTransientCronError :: "string option \<Rightarrow> retry_kind list option \<Rightarrow> bool" where
  "isTransientCronError err retryOn = (case err of
     None \<Rightarrow> False
   | Some e \<Rightarrow>
       if e = [] then False
       else
         (let keys = (case retryOn of
                Some ks \<Rightarrow> (if ks = [] then [Rate_limit, Overloaded, Network, Timeout, Server_error] else ks)
              | None \<Rightarrow> [Rate_limit, Overloaded, Network, Timeout, Server_error])
          in list_ex (\<lambda>k. transient_pattern k e) keys))"

record resolved_retry =
  maxAttempts :: rat
  backoffMs :: "int list"
  retryOn :: "retry_kind list option"

definition non_empty :: "'a list option \<Rightarrow> 'a list option" where
  "non_empty x = (case x of Some (y # ys) \<Rightarrow> Some (y # ys) | _ \<Rightarrow> None)"

definition resolveRetryConfig :: "cron_deps \<Rightarrow> resolved_retry" where
  "resolveRetryConfig deps =
     (let retry = retryConfig deps in \<lparr>
        maxAttempts = nullish (Option.bind retry rc_maxAttempts) 3,
        backoffMs = nullish (non_empty (Option.bind retry rc_backoffMs)) (take 3 DEFAULT_BACKOFF_SCHEDULE_MS),
        retryOn = non_empty (Option.bind retry rc_retryOn) \<rparr>)"

subsection \<open>Delivery and failure alerts\<close>

definition isolated_like :: "session_target \<Rightarrow> bool" where
  "isolated_like t = (case t of Main_session \<Rightarrow> False | _ \<Rightarrow> True)"

definition is_agent_turn :: "cron_payload \<Rightarrow> bool" where
  "is_agent_turn p = (case p of AgentTurn _ \<Rightarrow> True | SystemEvent _ \<Rightarrow> False)"

definition delivery_requested :: "cron_job \<Rightarrow> bool" where
  "delivery_requested job = (case delivery job of
     Some d \<Rightarrow> d_mode d = Dm_announce
   | None \<Rightarrow> is_agent_turn (payload job) \<and> isolated_like (sessionTarget job))"

definition resolveDeliveryStatus :: "cron_job \<Rightarrow> bool option \<Rightarrow> cron_delivery_status" where
  "resolveDeliveryStatus job delivered = (case delivered of
     Some True \<Rightarrow> Delivered
   | Some False \<Rightarrow> Not_delivered
   | None \<Rightarrow> if delivery_requested job then Unknown_delivery else Not_requested)"

definition clampPositiveInt :: "js_number option \<Rightarrow> int \<Rightarrow> int" where
  "clampPositiveInt v fallback = (case v of
     Some (Fin q) \<Rightarrow> if 1 \<le> \<lfloor>q\<rfloor> then \<lfloor>q\<rfloor> else fallback | _ \<Rightarrow> fallback)"

definition clampNonNegativeInt :: "js_number option \<Rightarrow> int \<Rightarrow> int" where
  "clampNonNegativeInt v fallback = (case v of
     Some (Fin q) \<Rightarrow> if 0 \<le> \<lfloor>q\<rfloor> then \<lfloor>q\<rfloor> else fallback | _ \<Rightarrow> fallback)"

definition normalizeTo :: "string option \<Rightarrow> string option" where
  "normalizeTo v = normalizeOptionalString (js_opt v)"

definition normalizeCronMessageChannel :: "string option \<Rightarrow> string option" where
  "normalizeCronMessageChannel v = normalizeOptionalLowercaseString (js_opt v)"

record resolved_alert =
  al_after :: int
  al_cooldownMs :: int
  al_channel :: string
  al_to :: "string option"
  al_mode :: "alert_mode option"
  al_accountId :: "string option"

definition resolveFailureAlert :: "cron_deps \<Rightarrow> cron_job \<Rightarrow> resolved_alert option" where
  "resolveFailureAlert deps job =
     (let g = alertConfig deps in
      if failureAlert job = Some Alerts_off then None
      else
        (let j = (case failureAlert job of Some (Alert_config a) \<Rightarrow> Some a | _ \<Rightarrow> None) in
         if j = None \<and> Option.bind g ac_enabled \<noteq> Some True then None
         else
           (let mode = nullish_opt (Option.bind j fa_mode) (Option.bind g ac_mode);
                explicitTo = normalizeTo (Option.bind j fa_to)
            in Some \<lparr>
              al_after = clampPositiveInt (nullish_opt (Option.bind j fa_after) (Option.bind g ac_after))
                DEFAULT_FAILURE_ALERT_AFTER,
              al_cooldownMs = clampNonNegativeInt
                (nullish_opt (Option.bind j fa_cooldownMs) (Option.bind g ac_cooldownMs))
                DEFAULT_FAILURE_ALERT_COOLDOWN_MS,
              al_channel = nullish (normalizeCronMessageChannel (Option.bind j fa_channel))
                (nullish (normalizeCronMessageChannel (Option.bind (delivery job) d_channel)) ''last''),
              al_to = (if mode = Some Am_webhook then explicitTo
                       else nullish_opt explicitTo (normalizeTo (Option.bind (delivery job) d_to))),
              al_mode = mode,
              al_accountId = nullish_opt (Option.bind j fa_accountId) (Option.bind g ac_accountId) \<rparr>)))"

definition alert_text :: "cron_job \<Rightarrow> string option \<Rightarrow> nat \<Rightarrow> string" where
  "alert_text job err n =
     ''Cron job '' @ [char_of (34 :: nat)] @ str_or (jobName job) (jobId job) @ [char_of (34 :: nat)] @
     '' failed '' @ nat_digits n @ '' times'' @ [char_of (10 :: nat)] @
     ''Last error: '' @ take 200 (str_or (js_trim (nullish err [])) ''unknown error'')"

definition emitFailureAlert ::
    "cron_deps \<Rightarrow> cron_job \<Rightarrow> string option \<Rightarrow> nat \<Rightarrow> resolved_alert \<Rightarrow> cron_effect list" where
  "emitFailureAlert deps job err n a =
     (if hasAlertSender deps
      then [FailureAlertSent (jobId job) (alert_text job err n) (al_channel a) (al_to a) (al_mode a) (al_accountId a)]
      else SystemEventQueued (alert_text job err n) (agentId job) #
        (if wakeMode job = Wake_now
         then [HeartbeatRequested (''cron:'' @ jobId job @ '':failure-alert'')] else []))"

subsection \<open>Applying the result of a run\<close>

definition record_outcome :: "cron_deps \<Rightarrow> cron_job \<Rightarrow> run_result \<Rightarrow> cron_job" where
  "record_outcome deps job r =
     (let deliveryStatus = resolveDeliveryStatus job (r_delivered r) in
      (with_state job (\<lambda>s. s\<lparr>
         runningAtMs := None,
         lastRunAtMs := Some (r_startedAt r),
         lastRunStatus := Some (r_status r),
         lastStatus := Some (r_status r),
         lastDurationMs := Some (max 0 (r_endedAt r - r_startedAt r)),
         lastError := r_error r,
         lastErrorReason := (if r_status r = Run_error then Option.bind (r_error r) (failoverReason deps) else None),
         lastDelivered := r_delivered r,
         lastDeliveryStatus := Some deliveryStatus,
         lastDeliveryError := (if deliveryStatus = Not_delivered \<and> str_truthy (r_error r)
                               then r_error r else None)\<rparr>))
      \<lparr>updatedAtMs := r_endedAt r\<rparr>)"

definition record_errors :: "cron_deps \<Rightarrow> int \<Rightarrow> cron_job \<Rightarrow> run_result \<Rightarrow> cron_job \<times> cron_effect list" where
  "record_errors deps alertNow job r =
     (if r_status r \<noteq> Run_error
      then (with_state job (\<lambda>s. s\<lparr>consecutiveErrors := Some 0, lastFailureAlertAtMs := None\<rparr>), [])
      else
        (let n = nullish (consecutiveErrors (jstate job)) 0 + 1;
             job = with_state job (\<lambda>s. s\<lparr>consecutiveErrors := Some n\<rparr>)
         in case resolveFailureAlert deps job of
              None \<Rightarrow> (job, [])
            | Some a \<Rightarrow>
                if int n < al_after a \<or> Option.bind (delivery job) d_bestEffort = Some True then (job, [])
                else
                  (let inCooldown = (case lastFailureAlertAtMs (jstate job) of
                         None \<Rightarrow> False | Some l \<Rightarrow> alertNow - l < max 0 (al_cooldownMs a))
                   in if inCooldown then (job, [])
                      else (with_state job (\<lambda>s. s\<lparr>lastFailureAlertAtMs := Some alertNow\<rparr>),
                            emitFailureAlert deps job (r_error r) n a))))"

text \<open>The next run after a result, computed at its end; a failing schedule is recorded.\<close>

definition is_every :: "cron_schedule \<Rightarrow> bool" where
  "is_every s = (case s of Every _ _ \<Rightarrow> True | _ \<Rightarrow> False)"

definition is_at :: "cron_schedule \<Rightarrow> bool" where
  "is_at s = (case s of At _ _ \<Rightarrow> True | _ \<Rightarrow> False)"

definition is_cron :: "cron_schedule \<Rightarrow> bool" where
  "is_cron s = (case s of Cron_expr _ _ _ _ \<Rightarrow> True | _ \<Rightarrow> False)"

definition natural_next ::
    "cron_env \<Rightarrow> bool \<Rightarrow> int option \<Rightarrow> cron_job \<Rightarrow> int \<Rightarrow> int option \<times> cron_job \<times> cron_effect list" where
  "natural_next env preserve prevLastRun job ended =
     (case (if preserve \<and> is_every (schedule job)
            then computeJobNextRunAtMs env (with_state job (\<lambda>s. s\<lparr>lastRunAtMs := prevLastRun\<rparr>)) ended
            else computeJobNextRunAtMs env job ended) of
        Inr t \<Rightarrow> (t, job, [])
      | Inl e \<Rightarrow> (case recordScheduleComputeError e job of (job, effs) \<Rightarrow> (None, job, effs)))"

definition set_next :: "int option \<Rightarrow> cron_job \<Rightarrow> cron_job" where
  "set_next t job = with_state job (\<lambda>s. s\<lparr>nextRunAtMs := t\<rparr>)"

definition disable_job :: "cron_job \<Rightarrow> cron_job" where
  "disable_job job = set_next None (job\<lparr>enabled := False\<rparr>)"

definition reschedule_one_shot :: "cron_deps \<Rightarrow> cron_job \<Rightarrow> run_result \<Rightarrow> cron_job" where
  "reschedule_one_shot deps job r =
     (if r_status r = Run_ok \<or> r_status r = Run_skipped then disable_job job
      else
        (let retry = resolveRetryConfig deps;
             transient = isTransientCronError (r_error r) (retryOn retry);
             consecutive = nullish (consecutiveErrors (jstate job)) 0
         in if transient \<and> of_nat consecutive \<le> maxAttempts retry
            then set_next (Some (r_endedAt r + errorBackoffMs consecutive (backoffMs retry))) job
            else disable_job job))"

definition reschedule_recurring ::
    "cron_env \<Rightarrow> bool \<Rightarrow> int option \<Rightarrow> cron_job \<Rightarrow> run_result \<Rightarrow> cron_job \<times> cron_effect list" where
  "reschedule_recurring env preserve prevLastRun job r =
     (if \<not> enabled job then (set_next None job, [])
      else
        (case natural_next env preserve prevLastRun job (r_endedAt r) of (t, job', effs) \<Rightarrow>
           if r_status r = Run_error then
             (let backoffNext = r_endedAt r +
                    errorBackoffMs (nullish (consecutiveErrors (jstate job)) 1) DEFAULT_BACKOFF_SCHEDULE_MS
              in (set_next (Some (case t of None \<Rightarrow> backoffNext | Some x \<Rightarrow> max x backoffNext)) job', effs))
           else if is_cron (schedule job) then
             (let minNext = r_endedAt r + MIN_REFIRE_GAP_MS
              in (set_next (Some (case t of None \<Rightarrow> minNext | Some x \<Rightarrow> max x minNext)) job', effs))
           else (set_next t job', effs)))"

definition applyJobResult ::
    "cron_env \<Rightarrow> cron_deps \<Rightarrow> int \<Rightarrow> bool \<Rightarrow> cron_job \<Rightarrow> run_result \<Rightarrow> bool \<times> cron_job \<times> cron_effect list" where
  "applyJobResult env deps alertNow preserve job r =
     (let prevLastRun = lastRunAtMs (jstate job) in
      case record_errors deps alertNow (record_outcome deps job r) r of
        (job, effs) \<Rightarrow>
          (let shouldDelete = (is_at (schedule job) \<and> deleteAfterRun job = Some True \<and> r_status r = Run_ok) in
           if shouldDelete then (True, job, effs)
           else if is_at (schedule job) then (False, reschedule_one_shot deps job r, effs)
           else
             (case reschedule_recurring env preserve prevLastRun job r of
                (job, effs') \<Rightarrow> (False, job, effs @ effs'))))"

text \<open>The job found by its id is mutated: the first one of the list with that id.\<close>

fun replace_job :: "cron_job \<Rightarrow> cron_job list \<Rightarrow> cron_job list" where
  "replace_job job [] = []"
| "replace_job job (j # jobs) = (if jobId j = jobId job then job # jobs else j # replace_job job jobs)"

definition applyOutcomeToStoredJob ::
    "cron_env \<Rightarrow> cron_deps \<Rightarrow> int \<Rightarrow> cron_service \<Rightarrow> string \<times> run_result \<Rightarrow> cron_service" where
  "applyOutcomeToStoredJob env deps alertNow s outcome =
     (let s = clearCronJobActive (fst outcome) s; r = snd outcome in
      case store s of
        None \<Rightarrow> s
      | Some jobs \<Rightarrow>
          (case find (\<lambda>j. jobId j = fst outcome) jobs of
             None \<Rightarrow> s
           | Some job \<Rightarrow>
               (case applyJobResult env deps alertNow False job r of (shouldDelete, job', effs) \<Rightarrow>
                  (let s = effect (s\<lparr>store := Some (replace_job job' jobs)\<rparr>)
                         (effs @ [JobFinished (jobId job') (r_status r) (nextRunAtMs (jstate job'))])
                   in if shouldDelete
                      then effect (s\<lparr>store := Some (filter (\<lambda>j. jobId j \<noteq> jobId job') jobs)\<rparr>)
                             [JobRemoved (jobId job')]
                      else s))))"

subsection \<open>The timer\<close>

definition armTimer :: "cron_deps \<Rightarrow> int \<Rightarrow> cron_service \<Rightarrow> cron_service" where
  "armTimer deps now s =
     (if \<not> cronEnabled deps then s\<lparr>timer := None\<rparr>
      else
        (case nextWakeAtMs (nullish (store s) []) of
           None \<Rightarrow> s\<lparr>timer := None\<rparr>
         | Some nextAt \<Rightarrow>
             if nextAt = 0 then s\<lparr>timer := None\<rparr>
             else
               (let delay = max (nextAt - now) 0;
                    flooredDelay = (if delay = 0 then MIN_REFIRE_GAP_MS else delay)
                in s\<lparr>timer := Some (min flooredDelay MAX_TIMER_DELAY_MS)\<rparr>)))"

definition armRunningRecheckTimer :: "cron_service \<Rightarrow> cron_service" where
  "armRunningRecheckTimer s = s\<lparr>timer := Some MAX_TIMER_DELAY_MS\<rparr>"

definition isErrorBackoffPending :: "cron_job \<Rightarrow> int \<Rightarrow> bool" where
  "isErrorBackoffPending job now =
     (if is_at (schedule job) \<or> lastStatus (jstate job) \<noteq> Some Run_error then False
      else (case lastRunAtMs (jstate job) of
        None \<Rightarrow> False
      | Some l \<Rightarrow>
          now < l + errorBackoffMs (max 1 (nullish (consecutiveErrors (jstate job)) 1)) DEFAULT_BACKOFF_SCHEDULE_MS))"

definition isRunnableJob :: "cron_env \<Rightarrow> string list \<Rightarrow> bool \<Rightarrow> bool \<Rightarrow> int \<Rightarrow> cron_job \<Rightarrow> bool" where
  "isRunnableJob env skipJobIds skipAtIfAlreadyRan allowCronMissedRunByLastRun now job =
     (let next = nextRunAtMs (jstate job) in
      if \<not> enabled job then False
      else if jobId job \<in> set skipJobIds then False
      else if runningAtMs (jstate job) \<noteq> None then False
      else if skipAtIfAlreadyRan \<and> is_at (schedule job) \<and> lastStatus (jstate job) \<noteq> None then
        (case (next, lastRunAtMs (jstate job)) of
           (Some n, Some l) \<Rightarrow> (if lastStatus (jstate job) = Some Run_error \<and> l < n then n \<le> now else False)
         | _ \<Rightarrow> False)
      else if hasScheduledNextRunAtMs next \<and> the next \<le> now then True
      else if hasScheduledNextRunAtMs next \<and> now < the next \<and> isErrorBackoffPending job now then False
      else if \<not> allowCronMissedRunByLastRun \<or> \<not> is_cron (schedule job) then False
      else
        (case computeJobPreviousRunAtMs env job now of
           Inl _ \<Rightarrow> False
         | Inr None \<Rightarrow> False
         | Inr (Some p) \<Rightarrow> (case lastRunAtMs (jstate job) of None \<Rightarrow> False | Some l \<Rightarrow> l < p)))"

definition collectRunnableJobs ::
    "cron_env \<Rightarrow> string list \<Rightarrow> bool \<Rightarrow> bool \<Rightarrow> int \<Rightarrow> cron_service \<Rightarrow> cron_job list" where
  "collectRunnableJobs env skip skipAt allowMissed now s = (case store s of
     None \<Rightarrow> [] | Some jobs \<Rightarrow> filter (isRunnableJob env skip skipAt allowMissed now) jobs)"

definition mark_running :: "int \<Rightarrow> cron_job \<Rightarrow> cron_job" where
  "mark_running now job = with_state job (\<lambda>s. s\<lparr>runningAtMs := Some now, lastError := None\<rparr>)"

definition mark_due :: "int \<Rightarrow> (cron_job \<Rightarrow> bool) \<Rightarrow> cron_job list \<Rightarrow> cron_job list" where
  "mark_due now due jobs = map (\<lambda>j. if due j then mark_running now j else j) jobs"

text \<open>\<open>checkNow\<close> is the clock at the due check, \<open>now\<close> the one read for the running markers.\<close>

definition onTimer_begin :: "cron_env \<Rightarrow> int \<Rightarrow> int \<Rightarrow> cron_service \<Rightarrow> string list \<times> cron_service" where
  "onTimer_begin env checkNow now s =
     (if running s then ([], armRunningRecheckTimer s)
      else
        (let s = armRunningRecheckTimer (s\<lparr>running := True\<rparr>);
             s = s\<lparr>store := Some (disk s)\<rparr>;
             due = collectRunnableJobs env [] False False checkNow s
         in if due = [] then
              (case recomputeNextRunsForMaintenance env True checkNow (disk s) of (changed, jobs, effs) \<Rightarrow>
                 (let s = effect (s\<lparr>store := Some jobs\<rparr>) effs
                  in ([], if changed then persist s else s)))
            else (map jobId due,
                  persist (s\<lparr>store := Some (mark_due now (isRunnableJob env [] False False checkNow) (disk s))\<rparr>))))"

text \<open>Starting one of the collected jobs mutates the job object collected: the store shows it only
  when it has not been reloaded since (\<open>sameStore\<close>).\<close>

definition runDueJob_start :: "bool \<Rightarrow> int \<Rightarrow> string \<Rightarrow> cron_service \<Rightarrow> cron_service" where
  "runDueJob_start sameStore now i s =
     (let s = (if sameStore then s\<lparr>store := map_option (map (\<lambda>j. if jobId j = i
              then with_state j (\<lambda>t. t\<lparr>runningAtMs := Some now\<rparr>) else j)) (store s)\<rparr> else s)
      in effect (markCronJobActive i s) [JobStarted i now])"

definition onTimer_finish ::
    "cron_env \<Rightarrow> cron_deps \<Rightarrow> int \<Rightarrow> (string \<times> run_result) list \<Rightarrow> cron_service \<Rightarrow> cron_service" where
  "onTimer_finish env deps now outcomes s =
     (let s = (if outcomes = [] then s
               else
                 (let s = foldl (applyOutcomeToStoredJob env deps now) (s\<lparr>store := Some (disk s)\<rparr>) outcomes in
                  case recomputeNextRunsForMaintenance env False now (nullish (store s) []) of
                    (changed, jobs, effs) \<Rightarrow> persist (effect (s\<lparr>store := Some jobs\<rparr>) effs)))
      in armTimer deps now (s\<lparr>running := False\<rparr>))"

subsection \<open>Start-up\<close>

definition clear_stale_markers :: "cron_job list \<Rightarrow> cron_job list \<times> string list" where
  "clear_stale_markers jobs =
     (map (\<lambda>j. with_state j (\<lambda>s. s\<lparr>runningAtMs := None\<rparr>)) jobs,
      map jobId (filter (\<lambda>j. runningAtMs (jstate j) \<noteq> None \<and> is_at (schedule j)) jobs))"

definition ensure_loaded :: "cron_service \<Rightarrow> cron_service" where
  "ensure_loaded s = (case store s of Some _ \<Rightarrow> s | None \<Rightarrow> s\<lparr>store := Some (disk s)\<rparr>)"

text \<open>The first locked step of \<open>start\<close>: the one-shot jobs found running are not retried.\<close>

definition start_clear :: "cron_service \<Rightarrow> string list \<times> cron_service" where
  "start_clear s =
     (let s = ensure_loaded s;
          (jobs, interrupted) = clear_stale_markers (nullish (store s) []);
          cleared = list_ex (\<lambda>j. runningAtMs (jstate j) \<noteq> None) (nullish (store s) []);
          s = s\<lparr>store := Some jobs\<rparr>
      in (interrupted, if cleared then persist s else s))"

record catchup_plan =
  candidates :: "string list"
  deferredJobIds :: "string list"

text \<open>The jobs are sorted as objects, here by their positions in the store.\<close>

definition planStartupCatchup ::
    "cron_env \<Rightarrow> cron_deps \<Rightarrow> string list \<Rightarrow> int \<Rightarrow> cron_service \<Rightarrow> catchup_plan \<times> cron_service" where
  "planStartupCatchup env deps skipJobIds now s0 =
     (let maxImmediate = max 0 (nullish (maxMissedJobsPerRestart deps) DEFAULT_MAX_MISSED_JOBS_PER_RESTART);
          s = ensure_loaded s0;
          jobs = nullish (store s) [];
          missed = filter (\<lambda>i. isRunnableJob env skipJobIds True True now (jobs ! i)) [0..<length jobs]
      in if missed = [] then (\<lparr> candidates = [], deferredJobIds = [] \<rparr>, s)
         else
           (let sorted = sort_key (\<lambda>i. nullish (nextRunAtMs (jstate (jobs ! i))) 0) missed;
                startup = take (nat maxImmediate) sorted;
                deferred = drop (nat maxImmediate) sorted;
                marked = map (\<lambda>i. if i \<in> set startup then mark_running now (jobs ! i) else jobs ! i)
                  [0..<length jobs]
            in (\<lparr> candidates = map (\<lambda>i. jobId (jobs ! i)) startup,
                  deferredJobIds = map (\<lambda>i. jobId (jobs ! i)) deferred \<rparr>,
                persist (s\<lparr>store := Some marked\<rparr>))))"

fun defer_jobs :: "int \<Rightarrow> int \<Rightarrow> int \<Rightarrow> string list \<Rightarrow> cron_job list \<Rightarrow> cron_job list" where
  "defer_jobs base stagger offset [] jobs = jobs"
| "defer_jobs base stagger offset (i # ids) jobs =
     (case find (\<lambda>j. jobId j = i) jobs of
        None \<Rightarrow> defer_jobs base stagger offset ids jobs
      | Some job \<Rightarrow>
          if \<not> enabled job then defer_jobs base stagger offset ids jobs
          else defer_jobs base stagger (offset + stagger) ids
                 (replace_job (set_next (Some (base + offset)) job) jobs))"

definition applyStartupCatchupOutcomes ::
    "cron_env \<Rightarrow> cron_deps \<Rightarrow> int \<Rightarrow> catchup_plan \<Rightarrow> (string \<times> run_result) list \<Rightarrow> cron_service \<Rightarrow> cron_service" where
  "applyStartupCatchupOutcomes env deps now plan outcomes s =
     (let staggerMs = max 0 (nullish (missedJobStaggerMs deps) DEFAULT_MISSED_JOB_STAGGER_MS) in
      (let s = foldl (applyOutcomeToStoredJob env deps now) (ensure_loaded s) outcomes;
               s = s\<lparr>store := map_option (defer_jobs now staggerMs staggerMs (deferredJobIds plan)) (store s)\<rparr>
           in case recomputeNextRunsForMaintenance env False now (nullish (store s) []) of
                (changed, jobs, effs) \<Rightarrow> persist (effect (s\<lparr>store := Some jobs\<rparr>) effs)))"

text \<open>The last locked step of \<open>start\<close>. The catch-up is skipped when there is nothing to run or defer.\<close>

definition start_arm :: "cron_env \<Rightarrow> cron_deps \<Rightarrow> int \<Rightarrow> cron_service \<Rightarrow> cron_service" where
  "start_arm env deps now s =
     (let s = ensure_loaded s in
      case recomputeNextRuns env now (nullish (store s) []) of (changed, jobs, effs) \<Rightarrow>
        (let s = effect (s\<lparr>store := Some jobs\<rparr>) effs
         in armTimer deps now (if changed then persist s else s)))"

definition runMissedJobs ::
    "cron_env \<Rightarrow> cron_deps \<Rightarrow> string list \<Rightarrow> int \<Rightarrow> int \<Rightarrow> (string \<Rightarrow> run_result) \<Rightarrow> cron_service \<Rightarrow> cron_service" where
  "runMissedJobs env deps skipJobIds now done run s =
     (case planStartupCatchup env deps skipJobIds now s of (plan, s) \<Rightarrow>
        if candidates plan = [] \<and> deferredJobIds plan = [] then s
        else applyStartupCatchupOutcomes env deps done plan (map (\<lambda>i. (i, run i)) (candidates plan))
               (effect s (map (\<lambda>i. JobStarted i (r_startedAt (run i))) (candidates plan))))"

text \<open>\<open>start\<close>, with the clocks of its steps and the outcome of each run (\<open>run\<close>).\<close>

definition start ::
    "cron_env \<Rightarrow> cron_deps \<Rightarrow> int \<Rightarrow> int \<Rightarrow> int \<Rightarrow> (string \<Rightarrow> run_result) \<Rightarrow> cron_service \<Rightarrow> cron_service" where
  "start env deps planNow done armNow run s =
     (if \<not> cronEnabled deps then s
      else
        (case start_clear s of (interrupted, s) \<Rightarrow>
           start_arm env deps armNow (runMissedJobs env deps interrupted planNow done run s)))"

definition stopTimer :: "cron_service \<Rightarrow> cron_service" where
  "stopTimer s = s\<lparr>timer := None\<rparr>"

definition wake :: "bool \<Rightarrow> string \<Rightarrow> cron_service \<Rightarrow> bool \<times> cron_service" where
  "wake now txt s =
     (let t = js_trim txt in
      if t = [] then (False, s)
      else (True, effect s (SystemEventQueued t None # (if now then [HeartbeatRequested ''wake''] else []))))"

end
