(* ===== verification/Session_Key.thy ===== *)
theory Session_Key
  imports Js_Number
begin

text \<open>
  Agent ids, account ids and session keys: src/brain/src/routing/session-key.ts and account-id.ts.

  The parser of agent session keys (\<open>parseAgentSessionKey\<close> of sessions/session-key-utils.ts) is not
  part of the repository; it is an argument \<open>parse\<close> of the operations that use it. The identity
  links are a list of canonical names with their ids, in the order of the object's entries.
\<close>

subsection \<open>Ids\<close>

definition id_char :: "char \<Rightarrow> bool" where
  "id_char c \<longleftrightarrow> is_lower_alpha c \<or> is_digit c \<or> c = CHR ''_'' \<or> c = CHR ''-''"

text \<open>\<open>VALID_ID_RE\<close>: a letter or digit in either case, then at most 63 more, or underscores or dashes.\<close>

definition valid_id :: "string \<Rightarrow> bool" where
  "valid_id s = (case s of
     [] \<Rightarrow> False
   | c # cs \<Rightarrow> (is_lower_alpha c \<or> is_upper_alpha c \<or> is_digit c) \<and> length cs \<le> 63 \<and>
       list_all (\<lambda>c. id_char c \<or> is_upper_alpha c) cs)"

text \<open>\<open>replace(INVALID_CHARS_RE, "-")\<close>: every run of other characters becomes one dash.\<close>

fun collapse_invalid :: "bool \<Rightarrow> string \<Rightarrow> string" where
  "collapse_invalid inRun [] = []"
| "collapse_invalid inRun (c # cs) =
     (if id_char c then c # collapse_invalid False cs
      else if inRun then collapse_invalid True cs
      else CHR ''-'' # collapse_invalid True cs)"

definition strip_dashes :: "string \<Rightarrow> string" where
  "strip_dashes s = (let dash = (\<lambda>c. c = CHR ''-'') in rev (dropWhile dash (rev (dropWhile dash s))))"

definition id_slug :: "string \<Rightarrow> string" where
  "id_slug s = take 64 (strip_dashes (collapse_invalid False s))"

definition DEFAULT_AGENT_ID :: string where "DEFAULT_AGENT_ID = ''main''"

definition DEFAULT_MAIN_KEY :: string where "DEFAULT_MAIN_KEY = ''main''"

definition DEFAULT_ACCOUNT_ID :: string where "DEFAULT_ACCOUNT_ID = ''default''"

definition normalizeAgentId :: "string option \<Rightarrow> string" where
  "normalizeAgentId v =
     (let trimmed = js_trim (nullish v []) in
      if trimmed = [] then DEFAULT_AGENT_ID
      else
        (let normalized = normalizeLowercaseStringOrEmpty (JString trimmed) in
         if valid_id trimmed then normalized
         else str_or (id_slug normalized) DEFAULT_AGENT_ID))"

definition isValidAgentId :: "string option \<Rightarrow> bool" where
  "isValidAgentId v = (let trimmed = js_trim (nullish v []) in trimmed \<noteq> [] \<and> valid_id trimmed)"

definition sanitizeAgentId :: "string option \<Rightarrow> string" where
  "sanitizeAgentId v = normalizeAgentId v"

subsection \<open>Account ids\<close>

definition isBlockedObjectKey :: "string \<Rightarrow> bool" where
  "isBlockedObjectKey k \<longleftrightarrow> k \<in> set [''__proto__'', ''prototype'', ''constructor'']"

definition canonicalizeAccountId :: "string \<Rightarrow> string" where
  "canonicalizeAccountId v =
     (let normalized = normalizeLowercaseStringOrEmpty (JString v) in
      if valid_id v then normalized else id_slug normalized)"

definition normalizeCanonicalAccountId :: "string \<Rightarrow> string option" where
  "normalizeCanonicalAccountId v =
     (let canonical = canonicalizeAccountId v in
      if canonical = [] \<or> isBlockedObjectKey canonical then None else Some canonical)"

definition ACCOUNT_ID_CACHE_MAX :: nat where "ACCOUNT_ID_CACHE_MAX = 512"

definition setNormalizeCache :: "(string, 'v) js_map \<Rightarrow> string \<Rightarrow> 'v \<Rightarrow> (string, 'v) js_map" where
  "setNormalizeCache cache key v =
     (let cache = jm_set cache key v in
      if length cache \<le> ACCOUNT_ID_CACHE_MAX then cache
      else (case cache of [] \<Rightarrow> [] | (oldest, _) # _ \<Rightarrow> jm_delete cache oldest))"

type_synonym account_cache = "(string, string) js_map"

type_synonym optional_account_cache = "(string, string option) js_map"

definition normalizeAccountId_cached :: "account_cache \<Rightarrow> string option \<Rightarrow> string \<times> account_cache" where
  "normalizeAccountId_cached cache v =
     (let trimmed = js_trim (nullish v []) in
      if trimmed = [] then (DEFAULT_ACCOUNT_ID, cache)
      else if str_truthy (jm_get cache trimmed) then (the (jm_get cache trimmed), cache)
      else
        (let normalized = nullish (normalizeCanonicalAccountId trimmed) DEFAULT_ACCOUNT_ID
         in (normalized, setNormalizeCache cache trimmed normalized)))"

definition normalizeOptionalAccountId_cached ::
    "optional_account_cache \<Rightarrow> string option \<Rightarrow> string option \<times> optional_account_cache" where
  "normalizeOptionalAccountId_cached cache v =
     (let trimmed = js_trim (nullish v []) in
      if trimmed = [] then (None, cache)
      else (case jm_get cache trimmed of
        Some r \<Rightarrow> (r, cache)
      | None \<Rightarrow>
          (let normalized = normalizeCanonicalAccountId trimmed
           in (normalized, setNormalizeCache cache trimmed normalized))))"

text \<open>The values without the cache.\<close>

definition normalizeAccountId :: "string option \<Rightarrow> string" where
  "normalizeAccountId v =
     (let trimmed = js_trim (nullish v []) in
      if trimmed = [] then DEFAULT_ACCOUNT_ID
      else nullish (normalizeCanonicalAccountId trimmed) DEFAULT_ACCOUNT_ID)"

definition normalizeOptionalAccountId :: "string option \<Rightarrow> string option" where
  "normalizeOptionalAccountId v =
     (let trimmed = js_trim (nullish v []) in
      if trimmed = [] then None else normalizeCanonicalAccountId trimmed)"

text \<open>Account tables are looked up by the exact key first (src/brain/src/routing/account-lookup.ts).\<close>

definition resolveAccountEntry :: "(string, 'a) js_map option \<Rightarrow> string \<Rightarrow> 'a option" where
  "resolveAccountEntry accounts accountId = (case accounts of
     None \<Rightarrow> None
   | Some m \<Rightarrow>
       (case jm_get m accountId of
          Some a \<Rightarrow> Some a
        | None \<Rightarrow>
            (let normalized = normalizeLowercaseStringOrEmpty (JString accountId) in
             case find (\<lambda>k. normalizeLowercaseStringOrEmpty (JString k) = normalized) (jm_keys m) of
               None \<Rightarrow> None
             | Some k \<Rightarrow> if k = [] then None else jm_get m k)))"

definition resolveNormalizedAccountEntry ::
    "(string, 'a) js_map option \<Rightarrow> string \<Rightarrow> (string \<Rightarrow> string) \<Rightarrow> 'a option" where
  "resolveNormalizedAccountEntry accounts accountId normId = (case accounts of
     None \<Rightarrow> None
   | Some m \<Rightarrow>
       (case jm_get m accountId of
          Some a \<Rightarrow> Some a
        | None \<Rightarrow>
            (let normalized = normId accountId in
             case find (\<lambda>k. normId k = normalized) (jm_keys m) of
               None \<Rightarrow> None
             | Some k \<Rightarrow> if k = [] then None else jm_get m k)))"

subsection \<open>Session keys\<close>

datatype chat_type = Direct | Group | Channel

definition chat_type_text :: "chat_type \<Rightarrow> string" where
  "chat_type_text k = (case k of Direct \<Rightarrow> ''direct'' | Group \<Rightarrow> ''group'' | Channel \<Rightarrow> ''channel'')"

definition normalizeChatType :: "string option \<Rightarrow> chat_type option" where
  "normalizeChatType raw = (case normalizeOptionalLowercaseString (js_opt raw) of
     None \<Rightarrow> None
   | Some v \<Rightarrow>
       if v = ''direct'' \<or> v = ''dm'' then Some Direct
       else if v = ''group'' then Some Group
       else if v = ''channel'' then Some Channel else None)"

datatype dm_scope = Dm_main | Dm_per_peer | Dm_per_channel_peer | Dm_per_account_channel_peer

type_synonym identity_links = "(string \<times> string list) list"

definition normalizeToken :: "string option \<Rightarrow> string" where
  "normalizeToken v = normalizeLowercaseStringOrEmpty (js_opt v)"

definition normalizeMainKey :: "string option \<Rightarrow> string" where
  "normalizeMainKey v = str_or (normalizeLowercaseStringOrEmpty (js_opt v)) DEFAULT_MAIN_KEY"

definition buildAgentMainSessionKey :: "string \<Rightarrow> string option \<Rightarrow> string" where
  "buildAgentMainSessionKey agentId mainKey =
     ''agent:'' @ normalizeAgentId (Some agentId) @ '':'' @ normalizeMainKey mainKey"

definition link_candidates :: "string \<Rightarrow> string \<Rightarrow> string list" where
  "link_candidates channel peerId =
     (let rawCandidate = normalizeToken (Some peerId);
          ch = normalizeToken (Some channel);
          scoped = normalizeToken (Some (ch @ '':'' @ peerId))
      in (if rawCandidate = [] then [] else [rawCandidate]) @
         (if ch = [] \<or> scoped = [] then [] else [scoped]))"

fun find_link :: "string list \<Rightarrow> identity_links \<Rightarrow> string option" where
  "find_link candidates [] = None"
| "find_link candidates ((canonical, ids) # links) =
     (let canonicalName = js_trim canonical in
      if canonicalName \<noteq> [] \<and>
         list_ex (\<lambda>i. let n = normalizeToken (Some i) in n \<noteq> [] \<and> n \<in> set candidates) ids
      then Some canonicalName else find_link candidates links)"

definition resolveLinkedPeerId :: "identity_links option \<Rightarrow> string \<Rightarrow> string \<Rightarrow> string option" where
  "resolveLinkedPeerId links channel peer = (case links of
     None \<Rightarrow> None
   | Some l \<Rightarrow>
       (let peerId = js_trim peer in
        if peerId = [] then None
        else if link_candidates channel peerId = [] then None
        else find_link (link_candidates channel peerId) l))"

definition buildAgentPeerSessionKey ::
    "string \<Rightarrow> string option \<Rightarrow> string \<Rightarrow> string option \<Rightarrow> chat_type option \<Rightarrow> string option \<Rightarrow>
     identity_links option \<Rightarrow> dm_scope option \<Rightarrow> string" where
  "buildAgentPeerSessionKey agentId mainKey chan accountId kind peer links scope =
     (let peerKind = nullish kind Direct;
          agent = ''agent:'' @ normalizeAgentId (Some agentId);
          channel = str_or (normalizeLowercaseStringOrEmpty (JString chan)) ''unknown''
      in if peerKind = Direct then
           (let dmScope = nullish scope Dm_main;
                raw = js_trim (nullish peer []);
                linked = (if dmScope = Dm_main then None else resolveLinkedPeerId links chan raw);
                peerId = normalizeLowercaseStringOrEmpty (JString (if str_truthy linked then the linked else raw))
            in if dmScope = Dm_per_account_channel_peer \<and> peerId \<noteq> [] then
                 agent @ '':'' @ channel @ '':'' @ normalizeAccountId accountId @ '':direct:'' @ peerId
               else if dmScope = Dm_per_channel_peer \<and> peerId \<noteq> [] then
                 agent @ '':'' @ channel @ '':direct:'' @ peerId
               else if dmScope = Dm_per_peer \<and> peerId \<noteq> [] then agent @ '':direct:'' @ peerId
               else buildAgentMainSessionKey agentId mainKey)
         else
           agent @ '':'' @ channel @ '':'' @ chat_type_text peerKind @ '':'' @
             str_or (normalizeLowercaseStringOrEmpty (js_opt peer)) ''unknown'')"

definition buildGroupHistoryKey :: "string \<Rightarrow> string option \<Rightarrow> chat_type \<Rightarrow> string \<Rightarrow> string" where
  "buildGroupHistoryKey chan accountId kind peer =
     str_or (normalizeToken (Some chan)) ''unknown'' @ '':'' @ normalizeAccountId accountId @ '':'' @
     chat_type_text kind @ '':'' @ str_or (normalizeLowercaseStringOrEmpty (JString peer)) ''unknown''"

text \<open>The session key and the parent session key of a thread.\<close>

definition resolveThreadSessionKeys ::
    "string \<Rightarrow> string option \<Rightarrow> string option \<Rightarrow> bool option \<Rightarrow> (string \<Rightarrow> string) option \<Rightarrow>
     string \<times> string option" where
  "resolveThreadSessionKeys base thread parent useSuffix normId =
     (let threadId = js_trim (nullish thread []) in
      if threadId = [] then (base, None)
      else
        (let n = (case normId of
               Some f \<Rightarrow> f threadId | None \<Rightarrow> normalizeLowercaseStringOrEmpty (JString threadId))
         in (if nullish useSuffix True then base @ '':thread:'' @ n else base, parent)))"

subsection \<open>Parsed session keys\<close>

record parsed_key =
  pk_agentId :: string
  pk_rest :: string

type_synonym key_parser = "string option \<Rightarrow> parsed_key option"

datatype key_shape = Shape_missing | Shape_agent | Shape_legacy_or_alias | Shape_malformed_agent

definition toAgentRequestSessionKey :: "key_parser \<Rightarrow> string option \<Rightarrow> string option" where
  "toAgentRequestSessionKey parse storeKey =
     (let raw = js_trim (nullish storeKey []) in
      if raw = [] then None else Some (nullish (map_option pk_rest (parse (Some raw))) raw))"

definition toAgentStoreSessionKey ::
    "key_parser \<Rightarrow> string \<Rightarrow> string option \<Rightarrow> string option \<Rightarrow> string" where
  "toAgentStoreSessionKey parse agentId requestKey mainKey =
     (let raw = js_trim (nullish requestKey []);
          lowered = normalizeLowercaseStringOrEmpty (JString raw)
      in if raw = [] \<or> lowered = DEFAULT_MAIN_KEY then buildAgentMainSessionKey agentId mainKey
         else (case parse (Some raw) of
           Some p \<Rightarrow> ''agent:'' @ pk_agentId p @ '':'' @ pk_rest p
         | None \<Rightarrow>
             if js_starts_with lowered ''agent:'' then lowered
             else ''agent:'' @ normalizeAgentId (Some agentId) @ '':'' @ lowered))"

definition resolveAgentIdFromSessionKey :: "key_parser \<Rightarrow> string option \<Rightarrow> string" where
  "resolveAgentIdFromSessionKey parse key =
     normalizeAgentId (Some (nullish (map_option pk_agentId (parse key)) DEFAULT_AGENT_ID))"

definition classifySessionKeyShape :: "key_parser \<Rightarrow> string option \<Rightarrow> key_shape" where
  "classifySessionKeyShape parse key =
     (let raw = js_trim (nullish key []) in
      if raw = [] then Shape_missing
      else if parse (Some raw) \<noteq> None then Shape_agent
      else if js_starts_with (normalizeLowercaseStringOrEmpty (JString raw)) ''agent:''
      then Shape_malformed_agent else Shape_legacy_or_alias)"

end
