(* ===== verification/Cron_Edit.thy ===== *)
theory Cron_Edit
  imports Cron_Timer Session_Key
begin

text \<open>
  Creating and patching cron jobs: createJob, applyJobPatch, the merges and the checks of
  src/brain/src/cron/service/jobs.ts, service/normalize.ts, service/initial-delivery.ts,
  webhook-url.ts and session-target.ts.

  The code patches a job in place and throws from the middle of it, so a patch returns the job as it is
  left together with the error, if any. A field of a patch that is read with \<open>in\<close> is an option of its
  value; a value of type unknown is a \<open>js_value\<close>. A patch of the job state is the update it makes.
\<close>

datatype cron_error =
    NameRequired
  | InvalidSessionTargetId
  | MainNeedsSystemEvent
  | IsolatedNeedsAgentTurn
  | MainOnlyForDefaultAgent
  | WebhookUrlInvalid
  | ChannelDeliveryUnsupported
  | FailureDestinationUnsupported
  | FailureDestinationUrlInvalid
  | SystemEventNeedsText
  | AgentTurnNeedsMessage
  | UnknownJob string
  | ScheduleFailure string

record edit_env =
  ee_cron :: cron_env
  ee_urlProtocol :: "string \<Rightarrow> string option"
  ee_defaultAgentId :: "string option"

subsection \<open>Normalisation\<close>

definition normalizeRequiredName :: "js_value \<Rightarrow> cron_error + string" where
  "normalizeRequiredName raw = (case raw of
     JString s \<Rightarrow> (let name = js_trim s in if name = [] then Inl NameRequired else Inr name)
   | _ \<Rightarrow> Inl NameRequired)"

definition normalizeOptionalAgentId :: "js_value \<Rightarrow> string option" where
  "normalizeOptionalAgentId raw = (case normalizeOptionalString raw of
     None \<Rightarrow> None | Some trimmed \<Rightarrow> Some (normalizeAgentId (Some trimmed)))"

definition normalizePayloadToSystemText :: "cron_payload \<Rightarrow> string" where
  "normalizePayloadToSystemText p = (case p of
     SystemEvent txt \<Rightarrow> js_trim txt | AgentTurn t \<Rightarrow> js_trim (at_message t))"

definition normalizeHttpWebhookUrl :: "edit_env \<Rightarrow> string option \<Rightarrow> string option" where
  "normalizeHttpWebhookUrl env v = (case v of
     None \<Rightarrow> None
   | Some s \<Rightarrow>
       (let trimmed = js_trim s in
        if trimmed = [] then None
        else (case ee_urlProtocol env trimmed of
          None \<Rightarrow> None
        | Some p \<Rightarrow> if p = ''http:'' \<or> p = ''https:'' then Some trimmed else None)))"

text \<open>\<open>normalizeOptionalThreadValue\<close>: a finite number is truncated.\<close>

definition normalizeOptionalThreadValue :: "js_value \<Rightarrow> thread_value option" where
  "normalizeOptionalThreadValue v = (case v of
     JNumber n \<Rightarrow> (case finite_number n of
        None \<Rightarrow> None | Some q \<Rightarrow> Some (Thread_number (of_int (if 0 \<le> q then \<lfloor>q\<rfloor> else \<lceil>q\<rceil>))))
   | _ \<Rightarrow> map_option Thread_text (normalizeOptionalString v))"

definition parse_alert_mode :: "js_value \<Rightarrow> alert_mode option" where
  "parse_alert_mode v =
     (let mode = nullish (normalizeOptionalString v) [] in
      if mode = ''announce'' then Some Am_announce else if mode = ''webhook'' then Some Am_webhook else None)"

subsection \<open>Checks\<close>

definition assertSafeCronSessionTargetId :: "string \<Rightarrow> cron_error + string" where
  "assertSafeCronSessionTargetId sessionId =
     (let trimmed = js_trim sessionId in
      if trimmed = [] then Inl InvalidSessionTargetId
      else if CHR ''/'' \<in> set trimmed \<or> CHR 0x5C \<in> set trimmed \<or> CHR 0x00 \<in> set trimmed then Inl InvalidSessionTargetId
      else Inr trimmed)"

definition assertSupportedJobSpec :: "cron_job \<Rightarrow> cron_error option" where
  "assertSupportedJobSpec job =
     (case (case sessionTarget job of
              Session sid \<Rightarrow> (case assertSafeCronSessionTargetId sid of Inl e \<Rightarrow> Some e | Inr _ \<Rightarrow> None)
            | _ \<Rightarrow> None) of
        Some e \<Rightarrow> Some e
      | None \<Rightarrow>
          if sessionTarget job = Main_session \<and> is_agent_turn (payload job) then Some MainNeedsSystemEvent
          else if isolated_like (sessionTarget job) \<and> \<not> is_agent_turn (payload job) then Some IsolatedNeedsAgentTurn
          else None)"

definition assertMainSessionAgentId :: "edit_env \<Rightarrow> cron_job \<Rightarrow> cron_error option" where
  "assertMainSessionAgentId env job =
     (if sessionTarget job \<noteq> Main_session then None
      else if \<not> str_truthy (agentId job) then None
      else if normalizeAgentId (agentId job) \<noteq> normalizeAgentId (ee_defaultAgentId env)
      then Some MainOnlyForDefaultAgent else None)"

text \<open>These two checks also normalise the URL they check.\<close>

definition assertDeliverySupport :: "edit_env \<Rightarrow> cron_job \<Rightarrow> cron_job \<times> cron_error option" where
  "assertDeliverySupport env job =
     (case delivery job of
       None \<Rightarrow> (job, None)
     | Some d \<Rightarrow>
         if d_mode d = Dm_none then (job, None)
         else if d_mode d = Dm_webhook then
           (case normalizeHttpWebhookUrl env (d_to d) of
             None \<Rightarrow> (job, Some WebhookUrlInvalid)
           | Some target \<Rightarrow> (job\<lparr>delivery := Some (d\<lparr>d_to := Some target\<rparr>)\<rparr>, None))
         else if \<not> isolated_like (sessionTarget job) then (job, Some ChannelDeliveryUnsupported)
         else (job, None))"

definition delivery_is_webhook :: "cron_job \<Rightarrow> bool" where
  "delivery_is_webhook job = (case delivery job of None \<Rightarrow> False | Some d \<Rightarrow> d_mode d = Dm_webhook)"

definition failure_destination_of :: "cron_job \<Rightarrow> failure_destination option" where
  "failure_destination_of job = (case delivery job of None \<Rightarrow> None | Some d \<Rightarrow> d_failureDestination d)"

definition assertFailureDestinationSupport :: "edit_env \<Rightarrow> cron_job \<Rightarrow> cron_job \<times> cron_error option" where
  "assertFailureDestinationSupport env job =
     (case delivery job of
       None \<Rightarrow> (job, None)
     | Some d \<Rightarrow>
         (case d_failureDestination d of
           None \<Rightarrow> (job, None)
         | Some fd \<Rightarrow>
             if sessionTarget job = Main_session \<and> \<not> delivery_is_webhook job
             then (job, Some FailureDestinationUnsupported)
             else if fd_mode fd = Some Am_webhook then
               (case normalizeHttpWebhookUrl env (fd_to fd) of
                 None \<Rightarrow> (job, Some FailureDestinationUrlInvalid)
               | Some target \<Rightarrow>
                   (job\<lparr>delivery := Some (d\<lparr>d_failureDestination := Some (fd\<lparr>fd_to := Some target\<rparr>)\<rparr>)\<rparr>, None))
             else (job, None)))"

text \<open>One statement after another: the first error ends the sequence.\<close>

definition and_then ::
  "cron_job \<times> cron_error option \<Rightarrow> (cron_job \<Rightarrow> cron_job \<times> cron_error option) \<Rightarrow> cron_job \<times> cron_error option" where
  "and_then r f = (case r of (job, Some e) \<Rightarrow> (job, Some e) | (job, None) \<Rightarrow> f job)"

definition check_job :: "edit_env \<Rightarrow> cron_job \<Rightarrow> cron_job \<times> cron_error option" where
  "check_job env job =
     and_then (job, assertSupportedJobSpec job) (\<lambda>job.
     and_then (job, assertMainSessionAgentId env job) (\<lambda>job.
     and_then (assertDeliverySupport env job) (\<lambda>job.
       assertFailureDestinationSupport env job)))"

subsection \<open>Creating a job\<close>

record cron_job_create =
  cj_agentId :: js_value
  cj_sessionKey :: js_value
  cj_name :: js_value
  cj_description :: js_value
  cj_enabled :: js_value
  cj_deleteAfterRun :: js_value
  cj_schedule :: cron_schedule
  cj_sessionTarget :: session_target
  cj_wakeMode :: wake_mode
  cj_payload :: cron_payload
  cj_delivery :: "cron_delivery option"
  cj_failureAlert :: "failure_alert_setting option"
  cj_state :: cron_job_state

definition plain_delivery :: "delivery_mode \<Rightarrow> cron_delivery" where
  "plain_delivery m = \<lparr>d_mode = m, d_channel = None, d_to = None, d_threadId = None, d_accountId = None,
     d_bestEffort = None, d_failureDestination = None\<rparr>"

definition resolveInitialCronDelivery :: "cron_job_create \<Rightarrow> cron_delivery option" where
  "resolveInitialCronDelivery input =
     (if cj_delivery input \<noteq> None then cj_delivery input
      else if cj_sessionTarget input = Isolated \<and> is_agent_turn (cj_payload input) then Some (plain_delivery Dm_announce)
      else None)"

definition create_schedule :: "cron_schedule \<Rightarrow> int \<Rightarrow> cron_schedule" where
  "create_schedule sched now = (case sched of
     Every every anchor \<Rightarrow> Every every (JInt (resolveEveryAnchorMs anchor now))
   | Cron_expr expr legacy tz stagger \<Rightarrow>
       (case normalizeCronStaggerMs stagger of
         Some ms \<Rightarrow> Cron_expr expr legacy tz (JInt ms)
       | None \<Rightarrow>
           (case resolveDefaultCronStaggerMs (nullish expr []) of
             Some ms \<Rightarrow> Cron_expr expr legacy tz (JInt ms)
           | None \<Rightarrow> sched))
   | At _ _ \<Rightarrow> sched)"

definition js_bool :: "js_value \<Rightarrow> bool option" where
  "js_bool v = (case v of JBool b \<Rightarrow> Some b | _ \<Rightarrow> None)"

definition createJob :: "edit_env \<Rightarrow> int \<Rightarrow> string \<Rightarrow> cron_job_create \<Rightarrow> cron_error + cron_job" where
  "createJob env now uuid input =
     (case normalizeRequiredName (cj_name input) of
       Inl e \<Rightarrow> Inl e
     | Inr name \<Rightarrow>
         (let sched = create_schedule (cj_schedule input) now;
              job = \<lparr>jobId = uuid, agentId = normalizeOptionalAgentId (cj_agentId input),
                sessionKey = normalizeOptionalString (cj_sessionKey input), jobName = name,
                description = normalizeOptionalString (cj_description input),
                enabled = nullish (js_bool (cj_enabled input)) True,
                deleteAfterRun = (case js_bool (cj_deleteAfterRun input) of
                    Some b \<Rightarrow> Some b | None \<Rightarrow> if is_at sched then Some True else None),
                createdAtMs = now, updatedAtMs = now, schedule = sched,
                sessionTarget = cj_sessionTarget input, wakeMode = cj_wakeMode input, payload = cj_payload input,
                delivery = resolveInitialCronDelivery input, failureAlert = cj_failureAlert input,
                jstate = cj_state input\<rparr>
          in case check_job env job of
               (_, Some e) \<Rightarrow> Inl e
             | (job, None) \<Rightarrow>
                 (case computeJobNextRunAtMs (ee_cron env) job now of
                   Inl e \<Rightarrow> Inl (ScheduleFailure e)
                 | Inr next \<Rightarrow> Inr (set_next next job))))"

subsection \<open>Merging\<close>

datatype payload_kind = Kind_systemEvent | Kind_agentTurn

record payload_patch =
  pp_kind :: payload_kind
  pp_text :: "string option"
  pp_message :: "string option"
  pp_model :: "string option"
  pp_fallbacks :: "string list option"
  pp_toolsAllow :: "string list option option"
  pp_thinking :: "string option"
  pp_timeoutSeconds :: "rat option"
  pp_lightContext :: "bool option"
  pp_allowUnsafe :: "bool option"

text \<open>\<open>pp_toolsAllow\<close> is \<open>Some None\<close> for null.\<close>

definition buildPayloadFromPatch :: "payload_patch \<Rightarrow> cron_error + cron_payload" where
  "buildPayloadFromPatch p = (case pp_kind p of
     Kind_systemEvent \<Rightarrow>
       (if str_truthy (pp_text p) then Inr (SystemEvent (the (pp_text p))) else Inl SystemEventNeedsText)
   | Kind_agentTurn \<Rightarrow>
       (if \<not> str_truthy (pp_message p) then Inl AgentTurnNeedsMessage
        else Inr (AgentTurn \<lparr>at_message = the (pp_message p), at_model = pp_model p, at_fallbacks = pp_fallbacks p,
          at_thinking = pp_thinking p, at_timeoutSeconds = pp_timeoutSeconds p, at_allowUnsafe = pp_allowUnsafe p,
          at_lightContext = pp_lightContext p,
          at_toolsAllow = (case pp_toolsAllow p of Some (Some xs) \<Rightarrow> Some xs | _ \<Rightarrow> None)\<rparr>)))"

definition merge_turn :: "agent_turn \<Rightarrow> payload_patch \<Rightarrow> agent_turn" where
  "merge_turn t p = \<lparr>at_message = nullish (pp_message p) (at_message t),
     at_model = nullish_opt (pp_model p) (at_model t),
     at_fallbacks = nullish_opt (pp_fallbacks p) (at_fallbacks t),
     at_thinking = nullish_opt (pp_thinking p) (at_thinking t),
     at_timeoutSeconds = nullish_opt (pp_timeoutSeconds p) (at_timeoutSeconds t),
     at_allowUnsafe = nullish_opt (pp_allowUnsafe p) (at_allowUnsafe t),
     at_lightContext = nullish_opt (pp_lightContext p) (at_lightContext t),
     at_toolsAllow = (case pp_toolsAllow p of None \<Rightarrow> at_toolsAllow t | Some None \<Rightarrow> None | Some (Some xs) \<Rightarrow> Some xs)\<rparr>"

definition mergeCronPayload :: "cron_payload \<Rightarrow> payload_patch \<Rightarrow> cron_error + cron_payload" where
  "mergeCronPayload existing p = (case (existing, pp_kind p) of
     (SystemEvent txt, Kind_systemEvent) \<Rightarrow> Inr (SystemEvent (nullish (pp_text p) txt))
   | (AgentTurn t, Kind_agentTurn) \<Rightarrow> Inr (AgentTurn (merge_turn t p))
   | _ \<Rightarrow> buildPayloadFromPatch p)"

datatype delivery_mode_patch = Dp_mode delivery_mode | Dp_deliver

record failure_destination_patch =
  fp_channel :: "js_value option"
  fp_to :: "js_value option"
  fp_accountId :: "js_value option"
  fp_mode :: "js_value option"

datatype failure_destination_value = Fd_undefined | Fd_null | Fd_patch failure_destination_patch

record delivery_patch =
  dp_mode :: "delivery_mode_patch option"
  dp_channel :: "js_value option"
  dp_to :: "js_value option"
  dp_threadId :: "js_value option"
  dp_accountId :: "js_value option"
  dp_bestEffort :: "bool option"
  dp_failureDestination :: "failure_destination_value option"

text \<open>A field that the patch has is normalised; otherwise the old value stays.\<close>

definition patched :: "(js_value \<Rightarrow> 'a option) \<Rightarrow> js_value option \<Rightarrow> 'a option \<Rightarrow> 'a option" where
  "patched f v old = (case v of None \<Rightarrow> old | Some x \<Rightarrow> f x)"

definition no_destination :: failure_destination where
  "no_destination = \<lparr>fd_channel = None, fd_to = None, fd_accountId = None, fd_mode = None\<rparr>"

definition merge_destination ::
  "failure_destination option \<Rightarrow> failure_destination_value \<Rightarrow> failure_destination option" where
  "merge_destination existing v =
     (let base = nullish existing no_destination in
      case v of
        Fd_undefined \<Rightarrow> None
      | Fd_null \<Rightarrow> Some base
      | Fd_patch p \<Rightarrow>
          Some \<lparr>fd_channel = patched normalizeOptionalString (fp_channel p) (fd_channel base),
                fd_to = patched normalizeOptionalString (fp_to p) (fd_to base),
                fd_accountId = patched normalizeOptionalString (fp_accountId p) (fd_accountId base),
                fd_mode = patched parse_alert_mode (fp_mode p) (fd_mode base)\<rparr>)"

definition mergeCronDelivery :: "cron_delivery option \<Rightarrow> delivery_patch \<Rightarrow> cron_delivery" where
  "mergeCronDelivery existing p =
     (let base = nullish existing (plain_delivery Dm_none) in
      \<lparr>d_mode = (case dp_mode p of None \<Rightarrow> d_mode base | Some Dp_deliver \<Rightarrow> Dm_announce | Some (Dp_mode m) \<Rightarrow> m),
       d_channel = patched normalizeOptionalString (dp_channel p) (d_channel base),
       d_to = patched normalizeOptionalString (dp_to p) (d_to base),
       d_threadId = patched normalizeOptionalThreadValue (dp_threadId p) (d_threadId base),
       d_accountId = patched normalizeOptionalString (dp_accountId p) (d_accountId base),
       d_bestEffort = nullish_opt (dp_bestEffort p) (d_bestEffort base),
       d_failureDestination = (case dp_failureDestination p of
          None \<Rightarrow> d_failureDestination base | Some v \<Rightarrow> merge_destination (d_failureDestination base) v)\<rparr>)"

record alert_patch =
  al_after :: "js_value option"
  al_channel :: "js_value option"
  al_to :: "js_value option"
  al_cooldownMs :: "js_value option"
  al_mode :: "js_value option"
  al_accountId :: "js_value option"

datatype alert_patch_value = Al_false | Al_undefined | Al_patch alert_patch

definition finite_value :: "js_value \<Rightarrow> rat option" where
  "finite_value v = (case v of JNumber n \<Rightarrow> finite_number n | _ \<Rightarrow> None)"

definition alert_after :: "js_value \<Rightarrow> js_number option" where
  "alert_after v = (let q = nullish (finite_value v) 0 in if 0 < q then Some (Fin (of_int \<lfloor>q\<rfloor>)) else None)"

definition alert_cooldown :: "js_value \<Rightarrow> js_number option" where
  "alert_cooldown v = (let q = nullish (finite_value v) (- 1) in if 0 \<le> q then Some (Fin (of_int \<lfloor>q\<rfloor>)) else None)"

definition mergeCronFailureAlert ::
  "failure_alert_setting option \<Rightarrow> alert_patch_value \<Rightarrow> failure_alert_setting option" where
  "mergeCronFailureAlert existing v = (case v of
     Al_false \<Rightarrow> Some Alerts_off
   | Al_undefined \<Rightarrow> existing
   | Al_patch p \<Rightarrow>
       (let base = (case existing of Some (Alert_config c) \<Rightarrow> c
             | _ \<Rightarrow> \<lparr>fa_after = None, fa_channel = None, fa_to = None, fa_cooldownMs = None, fa_mode = None, fa_accountId = None\<rparr>)
        in Some (Alert_config
          \<lparr>fa_after = patched alert_after (al_after p) (fa_after base),
           fa_channel = patched normalizeOptionalString (al_channel p) (fa_channel base),
           fa_to = patched normalizeOptionalString (al_to p) (fa_to base),
           fa_cooldownMs = patched alert_cooldown (al_cooldownMs p) (fa_cooldownMs base),
           fa_mode = patched parse_alert_mode (al_mode p) (fa_mode base),
           fa_accountId = patched normalizeOptionalString (al_accountId p) (fa_accountId base)\<rparr>)))"

subsection \<open>Patching a job\<close>

record cron_job_patch =
  jp_name :: "js_value option"
  jp_description :: "js_value option"
  jp_enabled :: js_value
  jp_deleteAfterRun :: js_value
  jp_schedule :: "cron_schedule option"
  jp_sessionTarget :: "session_target option"
  jp_wakeMode :: "wake_mode option"
  jp_payload :: "payload_patch option"
  jp_delivery :: "delivery_patch option"
  jp_failureAlert :: "alert_patch_value option"
  jp_state :: "(cron_job_state \<Rightarrow> cron_job_state) option"
  jp_agentId :: "js_value option"
  jp_sessionKey :: "js_value option"

definition patch_schedule :: "cron_schedule \<Rightarrow> cron_schedule \<Rightarrow> cron_schedule" where
  "patch_schedule old new = (case new of
     Cron_expr expr legacy tz stagger \<Rightarrow>
       (case normalizeCronStaggerMs stagger of
         Some ms \<Rightarrow> Cron_expr expr legacy tz (JInt ms)
       | None \<Rightarrow>
           (case old of
             Cron_expr _ _ _ oldStagger \<Rightarrow> Cron_expr expr legacy tz oldStagger
           | _ \<Rightarrow>
               (case resolveDefaultCronStaggerMs (nullish expr []) of
                 Some ms \<Rightarrow> Cron_expr expr legacy tz (JInt ms)
               | None \<Rightarrow> new)))
   | _ \<Rightarrow> new)"

definition patch_name :: "cron_job_patch \<Rightarrow> cron_job \<Rightarrow> cron_job \<times> cron_error option" where
  "patch_name p job = (case jp_name p of
     None \<Rightarrow> (job, None)
   | Some v \<Rightarrow> (case normalizeRequiredName v of Inl e \<Rightarrow> (job, Some e) | Inr n \<Rightarrow> (job\<lparr>jobName := n\<rparr>, None)))"

text \<open>The statements between the name and the payload, which cannot throw.\<close>

definition patch_fields :: "cron_job_patch \<Rightarrow> cron_job \<Rightarrow> cron_job" where
  "patch_fields p job =
     (let job = (case jp_description p of None \<Rightarrow> job | Some v \<Rightarrow> job\<lparr>description := normalizeOptionalString v\<rparr>);
          job = (case js_bool (jp_enabled p) of None \<Rightarrow> job | Some b \<Rightarrow> job\<lparr>enabled := b\<rparr>);
          job = (case js_bool (jp_deleteAfterRun p) of None \<Rightarrow> job | Some b \<Rightarrow> job\<lparr>deleteAfterRun := Some b\<rparr>);
          job = (case jp_schedule p of None \<Rightarrow> job | Some s \<Rightarrow> job\<lparr>schedule := patch_schedule (schedule job) s\<rparr>);
          job = (case jp_sessionTarget p of None \<Rightarrow> job | Some t \<Rightarrow> job\<lparr>sessionTarget := t\<rparr>)
      in (case jp_wakeMode p of None \<Rightarrow> job | Some m \<Rightarrow> job\<lparr>wakeMode := m\<rparr>))"

definition patch_payload :: "cron_job_patch \<Rightarrow> cron_job \<Rightarrow> cron_job \<times> cron_error option" where
  "patch_payload p job = (case jp_payload p of
     None \<Rightarrow> (job, None)
   | Some v \<Rightarrow> (case mergeCronPayload (payload job) v of
       Inl e \<Rightarrow> (job, Some e) | Inr pl \<Rightarrow> (job\<lparr>payload := pl\<rparr>, None)))"

definition patch_delivery :: "cron_job_patch \<Rightarrow> cron_job \<Rightarrow> cron_job \<times> cron_error option" where
  "patch_delivery p job =
     (let job = (case jp_delivery p of None \<Rightarrow> job | Some d \<Rightarrow> job\<lparr>delivery := Some (mergeCronDelivery (delivery job) d)\<rparr>);
          job = (case jp_failureAlert p of None \<Rightarrow> job
                 | Some a \<Rightarrow> job\<lparr>failureAlert := mergeCronFailureAlert (failureAlert job) a\<rparr>)
      in if sessionTarget job = Main_session \<and> \<not> delivery_is_webhook job \<and> failure_destination_of job \<noteq> None
         then (job, Some FailureDestinationUnsupported)
         else if sessionTarget job = Main_session \<and> \<not> delivery_is_webhook job then (job\<lparr>delivery := None\<rparr>, None)
         else (job, None))"

definition patch_identity :: "cron_job_patch \<Rightarrow> cron_job \<Rightarrow> cron_job" where
  "patch_identity p job =
     (let job = (case jp_state p of None \<Rightarrow> job | Some f \<Rightarrow> with_state job f);
          job = (case jp_agentId p of None \<Rightarrow> job | Some v \<Rightarrow> job\<lparr>agentId := normalizeOptionalAgentId v\<rparr>)
      in (case jp_sessionKey p of None \<Rightarrow> job | Some v \<Rightarrow> job\<lparr>sessionKey := normalizeOptionalString v\<rparr>))"

definition applyJobPatch :: "edit_env \<Rightarrow> cron_job_patch \<Rightarrow> cron_job \<Rightarrow> cron_job \<times> cron_error option" where
  "applyJobPatch env p job =
     and_then (patch_name p job) (\<lambda>job.
     and_then (patch_payload p (patch_fields p job)) (\<lambda>job.
     and_then (patch_delivery p job) (\<lambda>job.
       check_job env (patch_identity p job))))"

end
