(* ===== verification/Cron_Ops.thy ===== *)
theory Cron_Ops
  imports Cron_Edit
begin

text \<open>
  The operations of the cron service: src/brain/src/cron/service/ops.ts (status, list, listPage, add,
  update, remove and the manual run). Each is one step under the store's lock; a manual run is split
  where it releases the lock: \<open>prepareManualRun\<close> reserves the run (in two locked steps),
  \<open>finishPreparedManualRun\<close> applies its outcome. An operation that throws returns the error and the
  state as it is left. The clocks, the uuid, \<open>localeCompare\<close> and the outcome of a run are arguments.
  The task ledger and the log are left out.
\<close>

subsection \<open>Reading\<close>

definition ensureLoaded_recompute :: "cron_env \<Rightarrow> int \<Rightarrow> cron_service \<Rightarrow> cron_service" where
  "ensureLoaded_recompute env now s = (case store s of
     Some _ \<Rightarrow> s
   | None \<Rightarrow> (case recomputeNextRuns env now (disk s) of (_, jobs, effs) \<Rightarrow> effect (s\<lparr>store := Some jobs\<rparr>) effs))"

definition maintain :: "cron_env \<Rightarrow> bool \<Rightarrow> int \<Rightarrow> cron_service \<Rightarrow> bool \<times> cron_service" where
  "maintain env recomputeExpired now s = (case store s of
     None \<Rightarrow> (False, s)
   | Some jobs \<Rightarrow> (case recomputeNextRunsForMaintenance env recomputeExpired now jobs of
       (changed, jobs', effs) \<Rightarrow> (changed, effect (s\<lparr>store := Some jobs'\<rparr>) effs)))"

definition ensureLoadedForRead :: "cron_env \<Rightarrow> int \<Rightarrow> cron_service \<Rightarrow> cron_service" where
  "ensureLoadedForRead env now s =
     (case maintain env False now (ensure_loaded s) of (changed, s') \<Rightarrow> if changed then persist s' else s')"

record cron_status =
  cs_enabled :: bool
  cs_jobs :: nat
  cs_nextWakeAtMs :: "int option"

definition status :: "cron_env \<Rightarrow> cron_deps \<Rightarrow> int \<Rightarrow> cron_service \<Rightarrow> cron_status \<times> cron_service" where
  "status env deps now s =
     (let s' = ensureLoadedForRead env now s; jobs = nullish (store s') [] in
      (\<lparr>cs_enabled = cronEnabled deps, cs_jobs = length jobs,
        cs_nextWakeAtMs = (if cronEnabled deps then nextWakeAtMs jobs else None)\<rparr>, s'))"

definition list_jobs :: "cron_env \<Rightarrow> bool \<Rightarrow> int \<Rightarrow> cron_service \<Rightarrow> cron_job list \<times> cron_service" where
  "list_jobs env includeDisabled now s =
     (let s' = ensureLoadedForRead env now s;
          jobs = filter (\<lambda>j. includeDisabled \<or> enabled j) (nullish (store s') [])
      in (sort_key (\<lambda>j. nullish (nextRunAtMs (jstate j)) 0) jobs, s'))"

subsection \<open>Pages\<close>

datatype enabled_filter = Filter_all | Filter_enabled | Filter_disabled
datatype jobs_sort = Sort_nextRun | Sort_updated | Sort_name

record page_options =
  po_includeDisabled :: bool
  po_limit :: "rat option"
  po_offset :: "rat option"
  po_query :: "string option"
  po_enabled :: "enabled_filter option"
  po_sortBy :: "jobs_sort option"
  po_descending :: bool

record page_result =
  pr_jobs :: "cron_job list"
  pr_total :: nat
  pr_offset :: nat
  pr_limit :: nat
  pr_hasMore :: bool
  pr_nextOffset :: "nat option"

definition resolveEnabledFilter :: "page_options \<Rightarrow> enabled_filter" where
  "resolveEnabledFilter opts =
     (case po_enabled opts of Some f \<Rightarrow> f | None \<Rightarrow> if po_includeDisabled opts then Filter_all else Filter_enabled)"

definition compare_next :: "int option \<Rightarrow> int option \<Rightarrow> int" where
  "compare_next a b = (case (a, b) of
     (Some x, Some y) \<Rightarrow> x - y | (Some _, None) \<Rightarrow> - 1 | (None, Some _) \<Rightarrow> 1 | (None, None) \<Rightarrow> 0)"

definition compare_jobs ::
  "(string \<Rightarrow> string \<Rightarrow> int) \<Rightarrow> (string \<Rightarrow> string \<Rightarrow> int) \<Rightarrow> jobs_sort \<Rightarrow> bool \<Rightarrow> cron_job \<Rightarrow> cron_job \<Rightarrow> int" where
  "compare_jobs localeCompare baseCompare sortBy descending a b =
     (let dir = (if descending then - 1 else 1);
          cmp = (case sortBy of
              Sort_name \<Rightarrow> baseCompare (jobName a) (jobName b)
            | Sort_updated \<Rightarrow> updatedAtMs a - updatedAtMs b
            | Sort_nextRun \<Rightarrow> compare_next (nextRunAtMs (jstate a)) (nextRunAtMs (jstate b)))
      in if cmp \<noteq> 0 then cmp * dir else localeCompare (jobId a) (jobId b))"

text \<open>\<open>toSorted\<close>: a stable sort by a comparator.\<close>

fun insert_by :: "('a \<Rightarrow> 'a \<Rightarrow> int) \<Rightarrow> 'a \<Rightarrow> 'a list \<Rightarrow> 'a list" where
  "insert_by cmp x [] = [x]"
| "insert_by cmp x (y # ys) = (if cmp x y \<le> 0 then x # y # ys else y # insert_by cmp x ys)"

definition to_sorted :: "('a \<Rightarrow> 'a \<Rightarrow> int) \<Rightarrow> 'a list \<Rightarrow> 'a list" where
  "to_sorted cmp xs = foldr (insert_by cmp) xs []"

definition matches_page :: "enabled_filter \<Rightarrow> string \<Rightarrow> cron_job \<Rightarrow> bool" where
  "matches_page f query job =
     (if f = Filter_enabled \<and> \<not> enabled job then False
      else if f = Filter_disabled \<and> enabled job then False
      else if query = [] then True
      else js_includes (normalizeLowercaseStringOrEmpty (JString
             (jobName job @ '' '' @ nullish (description job) [] @ '' '' @ nullish (agentId job) []))) query)"

definition listPage ::
  "cron_env \<Rightarrow> (string \<Rightarrow> string \<Rightarrow> int) \<Rightarrow> (string \<Rightarrow> string \<Rightarrow> int) \<Rightarrow> page_options \<Rightarrow> int \<Rightarrow> cron_service \<Rightarrow>
     page_result \<times> cron_service" where
  "listPage env localeCompare baseCompare opts now s =
     (let s' = ensureLoadedForRead env now s;
          query = normalizeLowercaseStringOrEmpty (js_opt (po_query opts));
          filtered = filter (matches_page (resolveEnabledFilter opts) query) (nullish (store s') []);
          sorted = to_sorted (compare_jobs localeCompare baseCompare (nullish (po_sortBy opts) Sort_nextRun)
                     (po_descending opts)) filtered;
          total = length sorted;
          offset = nat (max 0 (min (int total) \<lfloor>nullish (po_offset opts) 0\<rfloor>));
          defaultLimit = (if total = 0 then 50 else total);
          limit = nat (max 1 (min 200 \<lfloor>nullish (po_limit opts) (of_nat defaultLimit)\<rfloor>));
          jobs = take limit (drop offset sorted);
          nextOffset = offset + length jobs
      in (\<lparr>pr_jobs = jobs, pr_total = total, pr_offset = offset, pr_limit = limit, pr_hasMore = nextOffset < total,
           pr_nextOffset = (if nextOffset < total then Some nextOffset else None)\<rparr>, s'))"

subsection \<open>Adding, updating and removing\<close>

definition find_job :: "string \<Rightarrow> cron_service \<Rightarrow> cron_job option" where
  "find_job jid s = find (\<lambda>j. jobId j = jid) (nullish (store s) [])"

definition put_job :: "cron_job \<Rightarrow> cron_service \<Rightarrow> cron_service" where
  "put_job job s = s\<lparr>store := map_option (replace_job job) (store s)\<rparr>"

definition add_job ::
  "edit_env \<Rightarrow> cron_deps \<Rightarrow> int \<Rightarrow> string \<Rightarrow> cron_job_create \<Rightarrow> cron_service \<Rightarrow> (cron_error + cron_job) \<times> cron_service" where
  "add_job env deps now uuid input s =
     (let s = ensureLoaded_recompute (ee_cron env) now s in
      case createJob env now uuid input of
        Inl e \<Rightarrow> (Inl e, s)
      | Inr job \<Rightarrow>
          (case recomputeNextRuns (ee_cron env) now (nullish (store s) [] @ [job]) of
            (_, jobs, effs) \<Rightarrow>
              (let s = armTimer deps now (persist (effect (s\<lparr>store := Some jobs\<rparr>) effs));
                   added = last jobs
               in (Inr added, effect s [JobAdded (jobId added) (nextRunAtMs (jstate added))]))))"

text \<open>The anchor of a patched interval schedule.\<close>

definition ensure_anchor :: "int \<Rightarrow> cron_job_patch \<Rightarrow> cron_job \<Rightarrow> cron_job" where
  "ensure_anchor now p job = (case schedule job of
     Every every anchor \<Rightarrow>
       (case finite_value anchor of
         Some _ \<Rightarrow> job
       | None \<Rightarrow>
           (let fallback = (case jp_schedule p of Some (Every _ _) \<Rightarrow> now | _ \<Rightarrow> createdAtMs job)
            in job\<lparr>schedule := Every every (JInt (max 0 fallback))\<rparr>))
   | _ \<Rightarrow> job)"

text \<open>The next run of a patched job; an error leaves the job as it is at that point.\<close>

definition reschedule_patched ::
  "cron_env \<Rightarrow> int \<Rightarrow> cron_job_patch \<Rightarrow> cron_job \<Rightarrow> cron_job \<times> cron_error option" where
  "reschedule_patched env now p job =
     (let compute = (case computeJobNextRunAtMs env job now of
            Inl e \<Rightarrow> (job, Some (ScheduleFailure e)) | Inr next \<Rightarrow> (set_next next job, None))
      in if jp_schedule p \<noteq> None \<or> jp_enabled p \<noteq> JUndefined then
           (if enabled job then compute
            else (with_state job (\<lambda>st. st\<lparr>nextRunAtMs := None, runningAtMs := None\<rparr>), None))
         else if enabled job \<and> \<not> hasScheduledNextRunAtMs (nextRunAtMs (jstate job)) then compute
         else (job, None))"

definition patch_job :: "edit_env \<Rightarrow> int \<Rightarrow> cron_job_patch \<Rightarrow> cron_job \<Rightarrow> cron_job \<times> cron_error option" where
  "patch_job env now p job =
     and_then (applyJobPatch env p job) (\<lambda>job.
       reschedule_patched (ee_cron env) now p ((ensure_anchor now p job)\<lparr>updatedAtMs := now\<rparr>))"

definition update_job ::
  "edit_env \<Rightarrow> cron_deps \<Rightarrow> int \<Rightarrow> string \<Rightarrow> cron_job_patch \<Rightarrow> cron_service \<Rightarrow> (cron_error + cron_job) \<times> cron_service" where
  "update_job env deps now jid p s =
     (let s = ensure_loaded s in
      case find_job jid s of
        None \<Rightarrow> (Inl (UnknownJob jid), s)
      | Some job \<Rightarrow>
          (case patch_job env now p job of
            (job', Some e) \<Rightarrow> (Inl e, put_job job' s)
          | (job', None) \<Rightarrow>
              (Inr job', effect (armTimer deps now (persist (put_job job' s)))
                 [JobUpdated jid (nextRunAtMs (jstate job'))])))"

definition remove_job ::
  "cron_env \<Rightarrow> cron_deps \<Rightarrow> int \<Rightarrow> string \<Rightarrow> cron_service \<Rightarrow> bool \<times> cron_service" where
  "remove_job env deps now jid s =
     (let s = ensureLoaded_recompute env now s;
          jobs = nullish (store s) [];
          kept = filter (\<lambda>j. jobId j \<noteq> jid) jobs;
          removed = (length kept \<noteq> length jobs);
          s = armTimer deps now (persist (s\<lparr>store := Some kept\<rparr>))
      in (removed, if removed then effect s [JobRemoved jid] else s))"

subsection \<open>Manual runs\<close>

datatype skip_reason = Already_running | Not_due | Invalid_spec

datatype run_mode = Run_due | Run_force

datatype preflight = Skipped skip_reason | Runnable cron_job int

definition skipInvalidPersistedManualRun ::
  "edit_env \<Rightarrow> cron_deps \<Rightarrow> int \<Rightarrow> run_mode option \<Rightarrow> string \<Rightarrow> cron_job \<Rightarrow> cron_service \<Rightarrow> cron_service" where
  "skipInvalidPersistedManualRun env deps now mode errorText job s =
     (case applyJobResult (ee_cron env) deps now (mode = Some Run_force) job
             \<lparr>r_status = Run_skipped, r_error = Some errorText, r_delivered = None, r_startedAt = now, r_endedAt = now\<rparr> of
        (shouldDelete, job', effs) \<Rightarrow>
          (let s = effect (put_job job' s) (effs @ [JobFinished (jobId job') Run_skipped (nextRunAtMs (jstate job'))]);
               s = (if shouldDelete
                    then effect (s\<lparr>store := map_option (filter (\<lambda>j. jobId j \<noteq> jobId job')) (store s)\<rparr>) [JobRemoved (jobId job')]
                    else s)
           in armTimer deps now (persist (snd (maintain (ee_cron env) True now s)))))"

definition inspectManualRunPreflight ::
  "edit_env \<Rightarrow> cron_deps \<Rightarrow> int \<Rightarrow> string \<Rightarrow> run_mode option \<Rightarrow> string \<Rightarrow> cron_service \<Rightarrow>
     (cron_error + preflight) \<times> cron_service" where
  "inspectManualRunPreflight env deps now errorText mode jid s =
     (let s = snd (maintain (ee_cron env) False now (ensure_loaded s)) in
      case find_job jid s of
        None \<Rightarrow> (Inl (UnknownJob jid), s)
      | Some job \<Rightarrow>
          if assertSupportedJobSpec job \<noteq> None then
            (Inr (Skipped Invalid_spec), skipInvalidPersistedManualRun env deps now mode errorText job s)
          else if runningAtMs (jstate job) \<noteq> None then (Inr (Skipped Already_running), s)
          else if \<not> isJobDue job now (mode = Some Run_force) then (Inr (Skipped Not_due), s)
          else (Inr (Runnable job now), s))"

record prepared_run =
  mr_jobId :: string
  mr_startedAt :: int
  mr_executionJob :: cron_job

text \<open>The second locked step of the preparation.\<close>

definition reserve_run :: "string \<Rightarrow> int \<Rightarrow> cron_service \<Rightarrow> (cron_error + skip_reason + prepared_run) \<times> cron_service" where
  "reserve_run jid startedAt s = (case find_job jid s of
     None \<Rightarrow> (Inl (UnknownJob jid), s)
   | Some job \<Rightarrow>
       if runningAtMs (jstate job) \<noteq> None then (Inr (Inl Already_running), s)
       else
         (let job' = with_state job (\<lambda>st. st\<lparr>runningAtMs := Some startedAt, lastError := None\<rparr>);
              s = effect (persist (put_job job' s)) [JobStarted jid startedAt]
          in (Inr (Inr \<lparr>mr_jobId = jid, mr_startedAt = startedAt, mr_executionJob = job'\<rparr>), s)))"

text \<open>Between the two steps the lock is free: \<open>between\<close> is what other operations do there.\<close>

definition prepareManualRun ::
  "edit_env \<Rightarrow> cron_deps \<Rightarrow> int \<Rightarrow> string \<Rightarrow> run_mode option \<Rightarrow> string \<Rightarrow> (cron_service \<Rightarrow> cron_service) \<Rightarrow> cron_service \<Rightarrow>
     (cron_error + skip_reason + prepared_run) \<times> cron_service" where
  "prepareManualRun env deps now errorText mode jid between s =
     (case inspectManualRunPreflight env deps now errorText mode jid s of
        (Inl e, s') \<Rightarrow> (Inl e, s')
      | (Inr (Skipped reason), s') \<Rightarrow> (Inr (Inl reason), s')
      | (Inr (Runnable job startedAt), s') \<Rightarrow> reserve_run jid startedAt (between s'))"

text \<open>After the reload, the run's fields replace those of the job in the file.\<close>

definition mergeManualRunSnapshotAfterReload :: "string \<Rightarrow> cron_job option \<Rightarrow> bool \<Rightarrow> cron_service \<Rightarrow> cron_service" where
  "mergeManualRunSnapshotAfterReload jid snapshot removed s = (case store s of
     None \<Rightarrow> s
   | Some jobs \<Rightarrow>
       if removed then s\<lparr>store := Some (filter (\<lambda>j. jobId j \<noteq> jid) jobs)\<rparr>
       else
         (case snapshot of
           None \<Rightarrow> s
         | Some snap \<Rightarrow>
             (case find (\<lambda>j. jobId j = jid) jobs of
               None \<Rightarrow> s
             | Some reloaded \<Rightarrow>
                 s\<lparr>store := Some (replace_job
                   (reloaded\<lparr>enabled := enabled snap, updatedAtMs := updatedAtMs snap, jstate := jstate snap\<rparr>) jobs)\<rparr>)))"

definition finishPreparedManualRun ::
  "edit_env \<Rightarrow> cron_deps \<Rightarrow> int \<Rightarrow> run_mode option \<Rightarrow> prepared_run \<Rightarrow> run_result \<Rightarrow> cron_service \<Rightarrow> cron_service" where
  "finishPreparedManualRun env deps now mode prepared r s =
     (let s = ensure_loaded s; jid = mr_jobId prepared in
      case find_job jid s of
        None \<Rightarrow> s
      | Some job \<Rightarrow>
          (case applyJobResult (ee_cron env) deps now (mode = Some Run_force) job
                  (r\<lparr>r_startedAt := mr_startedAt prepared\<rparr>) of
             (shouldDelete, job', effs) \<Rightarrow>
               (let s = effect s (effs @ [JobFinished (jobId job') (r_status r) (nextRunAtMs (jstate job'))]
                          @ (if shouldDelete then [JobRemoved (jobId job')] else []));
                    s = s\<lparr>store := Some (disk s)\<rparr>;
                    s = mergeManualRunSnapshotAfterReload jid (if shouldDelete then None else Some job') shouldDelete s
                in armTimer deps now (persist (snd (maintain (ee_cron env) True now s))))))"

definition run_job ::
  "edit_env \<Rightarrow> cron_deps \<Rightarrow> int \<Rightarrow> int \<Rightarrow> string \<Rightarrow> run_mode option \<Rightarrow> string \<Rightarrow> (cron_service \<Rightarrow> cron_service) \<Rightarrow>
     (cron_service \<Rightarrow> cron_service) \<Rightarrow> (cron_job \<Rightarrow> run_result) \<Rightarrow> cron_service \<Rightarrow>
     (cron_error + skip_reason option) \<times> cron_service" where
  "run_job env deps now done errorText mode jid between during execute s =
     (case prepareManualRun env deps now errorText mode jid between s of
        (Inl e, s') \<Rightarrow> (Inl e, s')
      | (Inr (Inl reason), s') \<Rightarrow> (Inr (Some reason), s')
      | (Inr (Inr prepared), s') \<Rightarrow>
          (Inr None, finishPreparedManualRun env deps done mode prepared (execute (mr_executionJob prepared)) (during s')))"

definition wakeNow :: "bool \<Rightarrow> string \<Rightarrow> cron_service \<Rightarrow> bool \<times> cron_service" where
  "wakeNow now txt s = wake now txt s"

end
