(* ===== verification/Cron_Proofs.thy ===== *)
theory Cron_Proofs
  imports Cron_Timer
begin

text \<open>
  Correctness of the cron service: the schedule computations, the module-level caches (as bounded
  machines), the bookkeeping after a run, the maintenance of the store, the timer and the start-up
  catch-up.
\<close>

subsection \<open>Schedules\<close>

lemma future_Some: "future now t = Some x \<Longrightarrow> now < x"
  by (auto simp: future_def split: option.splits if_splits)

lemma next_cron_future: "next_cron env c now = Inr (Some t) \<Longrightarrow> now < t"
  by (auto simp: next_cron_def split: sum.splits option.splits if_splits dest: future_Some)

lemma ceil_div_bounds:
  fixes e x :: int
  assumes "0 < e"
  shows "x \<le> (x + e - 1) div e * e" and "(x + e - 1) div e * e < x + e"
proof -
  let ?y = "x + e - 1"
  have a: "?y = ?y div e * e + ?y mod e" by simp
  moreover have b: "0 \<le> ?y mod e" "?y mod e < e" using assms by auto
  ultimately show "x \<le> ?y div e * e" by linarith
  from a b(1) show "?y div e * e < x + e" by linarith
qed

lemma next_every_bounds:
  assumes "0 < e"
  shows "now \<le> next_every e a now" and "next_every e a now \<le> max now a + e"
    and "e dvd next_every e a now - a"
    and "next_every e a now = now \<longleftrightarrow> a < now \<and> e dvd now - a"
proof -
  let ?s = "(now - a + e - 1) div e"
  note b = ceil_div_bounds [OF assms, of "now - a"]
  show "e dvd next_every e a now - a" by (simp add: next_every_def Let_def)
  consider (before) "now < a" | (anchor) "now = a" | (after) "a < now" by linarith
  then have "now \<le> next_every e a now \<and> next_every e a now \<le> max now a + e \<and>
    (next_every e a now = now \<longleftrightarrow> a < now \<and> e dvd now - a)"
  proof cases
    case before
    then show ?thesis using assms by (simp add: next_every_def)
  next
    case anchor
    then show ?thesis using assms by (simp add: next_every_def Let_def)
  next
    case after
    have "0 < ?s * e" using b(1) after by linarith
    then have s: "1 \<le> ?s" using assms by (simp add: zero_less_mult_iff)
    then have n: "next_every e a now = a + ?s * e" using after by (simp add: next_every_def Let_def)
    have "e dvd now - a" if "a + ?s * e = now"
    proof -
      from that have "now - a = ?s * e" by linarith
      then show ?thesis by (metis dvd_triv_right)
    qed
    moreover have "a + ?s * e = now" if "e dvd now - a"
    proof -
      from that obtain k where k: "now - a = e * k" by (auto simp: dvd_def)
      have "e * k \<le> ?s * e" "?s * e < e * k + e" using b k by linarith+
      then have "e * k \<le> e * ?s" "e * ?s < e * (k + 1)" by (simp_all add: algebra_simps)
      then have "k \<le> ?s" "?s < k + 1" using assms by (simp_all only: mult_le_cancel_left_pos mult_less_cancel_left_pos)
      then have "?s = k" by linarith
      with k show ?thesis by (simp add: algebra_simps)
    qed
    ultimately have "a + ?s * e = now \<longleftrightarrow> e dvd now - a" by blast
    moreover have "now \<le> a + ?s * e" "a + ?s * e \<le> max now a + e" using b after by linarith+
    ultimately show ?thesis unfolding n using after by blast
  qed
  then show "now \<le> next_every e a now" "next_every e a now \<le> max now a + e"
    "next_every e a now = now \<longleftrightarrow> a < now \<and> e dvd now - a" by auto
qed

lemma every_step_pos: "0 < max 1 (\<lfloor>q\<rfloor> :: int)" by simp

lemma compute_next_bounds:
  assumes "computeNextRunAtMs env s now = Inr (Some t)"
  shows "if is_every s then now \<le> t else now < t"
  using assms
  by (cases s)
    (auto simp: computeNextRunAtMs_def is_every_def Let_def next_every_bounds(1) [OF every_step_pos]
      split: option.splits sum.splits dest: future_Some next_cron_future)

lemma stable_offset_bounds: "0 \<le> stable_offset env i s \<and> stable_offset env i s < max 1 s"
  by (auto simp: stable_offset_def)

lemma staggered_loop:
  "staggered_next_loop env s offset now n cursor = Inr (Some t) \<Longrightarrow>
   now < t \<and> (\<exists>c. computeNextRunAtMs env s c = Inr (Some (t - offset)))"
proof (induction n arbitrary: cursor)
  case (Suc n)
  then show ?case by (auto split: sum.splits option.splits if_splits)
qed simp

subsection \<open>Caches\<close>

lemma evict_length: "jm_wf c \<Longrightarrow> 0 < b \<Longrightarrow> length c \<le> b \<Longrightarrow> length (evict_oldest b c) < b"
  by (auto simp: evict_oldest_def jm_delete_def split: list.splits
      intro: le_less_trans [OF length_filter_le])

lemma evict_wf: "jm_wf c \<Longrightarrow> jm_wf (evict_oldest b c)"
  by (auto simp: evict_oldest_def split: list.splits)

lemma evict_get: "jm_get (evict_oldest b c) k = Some v \<Longrightarrow> jm_get c k = Some v"
  by (auto simp: evict_oldest_def split: if_splits list.splits)

text \<open>A cache of a pure function: its entries are values of the function, and its size is bounded.\<close>

definition nul_free :: "string \<Rightarrow> bool" where
  "nul_free s \<longleftrightarrow> CHR 0x00 \<notin> set s"

definition cron_cache_inv :: "cron_env \<Rightarrow> cron_eval_cache \<Rightarrow> bool" where
  "cron_cache_inv env c \<longleftrightarrow> jm_wf c \<and> length c \<le> CRON_EVAL_CACHE_MAX \<and>
     (\<forall>tz e v. nul_free tz \<longrightarrow> jm_get c (cron_key tz e) = Some v \<longrightarrow> newCron env e tz = Inr v)"

text \<open>A look-up; the time zones the code passes have no NUL character, which separates the key.\<close>

definition cron_cache_step :: "cron_env \<Rightarrow> cron_eval_cache \<Rightarrow> string \<times> string \<Rightarrow> cron_eval_cache" where
  "cron_cache_step env c q = (if nul_free (snd q) then snd (resolveCachedCron env c (fst q) (snd q)) else c)"

lemma cron_key_inject:
  assumes "nul_free tz" "nul_free tz'"
  shows "cron_key tz e = cron_key tz' e' \<longleftrightarrow> tz = tz' \<and> e = e'"
  using assms
proof (induction tz arbitrary: tz')
  case Nil then show ?case by (cases tz') (auto simp: cron_key_def nul_free_def)
next
  case (Cons c cs) then show ?case by (cases tz') (auto simp: cron_key_def nul_free_def)
qed

definition stagger_cache_inv :: "cron_env \<Rightarrow> stagger_cache \<Rightarrow> bool" where
  "stagger_cache_inv env c \<longleftrightarrow> jm_wf c \<and> length c \<le> STAGGER_OFFSET_CACHE_MAX \<and>
     (\<forall>s i v. jm_get c (s, i) = Some v \<longrightarrow> v = int (sha256Head env i) mod s)"

definition stagger_cache_step :: "cron_env \<Rightarrow> stagger_cache \<Rightarrow> string \<times> int \<Rightarrow> stagger_cache" where
  "stagger_cache_step env c q = snd (resolveStableCronOffsetMs env c (fst q) (snd q))"

lemma cache_put_length:
  assumes "jm_wf c" "length c \<le> b" "0 < b"
  shows "length (jm_set (evict_oldest b c) k v) \<le> b"
  using evict_length [OF assms(1,3,2)] by (simp add: length_jm_set)

lemma cron_cache_step_inv: "cron_cache_inv env c \<Longrightarrow> cron_cache_inv env (cron_cache_step env c q)"
  using cache_put_length [of c CRON_EVAL_CACHE_MAX] evict_length [of c CRON_EVAL_CACHE_MAX]
  by (auto simp: cron_cache_inv_def cron_cache_step_def resolveCachedCron_def Let_def CRON_EVAL_CACHE_MAX_def
      cron_key_inject
      intro: evict_wf less_imp_le dest: evict_get split: option.splits sum.splits if_splits)

lemma stagger_cache_step_inv: "stagger_cache_inv env c \<Longrightarrow> stagger_cache_inv env (stagger_cache_step env c q)"
  using cache_put_length [of c STAGGER_OFFSET_CACHE_MAX]
  by (auto simp: stagger_cache_inv_def stagger_cache_step_def resolveStableCronOffsetMs_def Let_def
      STAGGER_OFFSET_CACHE_MAX_def intro: evict_wf dest: evict_get split: option.splits if_splits)

interpretation cron_cache: bounded_machine "cron_cache_step env" "cron_cache_inv env" length CRON_EVAL_CACHE_MAX
  for env
  by unfold_locales (simp_all add: cron_cache_step_inv, simp add: cron_cache_inv_def)

interpretation stagger_cache: bounded_machine "stagger_cache_step env" "stagger_cache_inv env" length
    STAGGER_OFFSET_CACHE_MAX
  for env
  by unfold_locales (simp_all add: stagger_cache_step_inv, simp add: stagger_cache_inv_def)

lemma cron_cache_transparent:
  "cron_cache_inv env c \<Longrightarrow> nul_free tz \<Longrightarrow> fst (resolveCachedCron env c e tz) = newCron env e tz"
  by (auto simp: resolveCachedCron_def cron_cache_inv_def Let_def split: option.splits sum.splits)

lemma stagger_cache_transparent:
  "stagger_cache_inv env c \<Longrightarrow> fst (resolveStableCronOffsetMs env c i s) = stable_offset env i s"
  by (auto simp: resolveStableCronOffsetMs_def stable_offset_def stagger_cache_inv_def Let_def split: option.splits)

subsection \<open>The result of a run\<close>

lemma with_state_simps [simp]:
  "jstate (with_state job f) = f (jstate job)" "enabled (with_state job f) = enabled job"
  "schedule (with_state job f) = schedule job" "jobId (with_state job f) = jobId job"
  "deleteAfterRun (with_state job f) = deleteAfterRun job"
  "createdAtMs (with_state job f) = createdAtMs job"
  by (simp_all add: with_state_def)

lemma set_next_simps [simp]:
  "nextRunAtMs (jstate (set_next t job)) = t" "enabled (set_next t job) = enabled job"
  "runningAtMs (jstate (set_next t job)) = runningAtMs (jstate job)"
  "consecutiveErrors (jstate (set_next t job)) = consecutiveErrors (jstate job)"
  "jobId (set_next t job) = jobId job" "schedule (set_next t job) = schedule job"
  "lastRunAtMs (jstate (set_next t job)) = lastRunAtMs (jstate job)"
  by (simp_all add: set_next_def)

lemma disable_simps [simp]:
  "nextRunAtMs (jstate (disable_job job)) = None" "\<not> enabled (disable_job job)"
  "runningAtMs (jstate (disable_job job)) = runningAtMs (jstate job)" "jobId (disable_job job) = jobId job"
  "consecutiveErrors (jstate (disable_job job)) = consecutiveErrors (jstate job)"
  "lastRunAtMs (jstate (disable_job job)) = lastRunAtMs (jstate job)"
  by (simp_all add: disable_job_def)

lemma record_outcome_simps [simp]:
  "runningAtMs (jstate (record_outcome deps job r)) = None"
  "lastRunAtMs (jstate (record_outcome deps job r)) = Some (r_startedAt r)"
  "consecutiveErrors (jstate (record_outcome deps job r)) = consecutiveErrors (jstate job)"
  "enabled (record_outcome deps job r) = enabled job" "schedule (record_outcome deps job r) = schedule job"
  "deleteAfterRun (record_outcome deps job r) = deleteAfterRun job" "jobId (record_outcome deps job r) = jobId job"
  by (simp_all add: record_outcome_def Let_def with_state_def)

definition errors_after :: "cron_job \<Rightarrow> run_result \<Rightarrow> nat" where
  "errors_after job r = (if r_status r = Run_error then nullish (consecutiveErrors (jstate job)) 0 + 1 else 0)"

lemma record_errors_simps:
  assumes "record_errors deps now job r = (job', effs)"
  shows "runningAtMs (jstate job') = runningAtMs (jstate job)" "enabled job' = enabled job"
    "schedule job' = schedule job" "deleteAfterRun job' = deleteAfterRun job" "jobId job' = jobId job"
    "lastRunAtMs (jstate job') = lastRunAtMs (jstate job)"
    "consecutiveErrors (jstate job') = Some (errors_after job r)"
  using assms
  by (auto simp: record_errors_def Let_def errors_after_def split: if_splits option.splits)

lemma record_schedule_error_simps:
  assumes "recordScheduleComputeError e job = (job', effs)"
  shows "runningAtMs (jstate job') = runningAtMs (jstate job)" "schedule job' = schedule job"
    "jobId job' = jobId job" "nextRunAtMs (jstate job') = None"
    "consecutiveErrors (jstate job') = consecutiveErrors (jstate job)"
    "lastRunAtMs (jstate job') = lastRunAtMs (jstate job)"
  using assms by (auto simp: recordScheduleComputeError_def Let_def split: if_splits)

lemma natural_next_simps:
  assumes "natural_next env p l job t = (n, job', effs)"
  shows "runningAtMs (jstate job') = runningAtMs (jstate job)" "jobId job' = jobId job"
    "lastRunAtMs (jstate job') = lastRunAtMs (jstate job)"
    "consecutiveErrors (jstate job') = consecutiveErrors (jstate job)"
  using assms by (auto simp: natural_next_def split: sum.splits prod.splits dest: record_schedule_error_simps)

definition rescheduled :: "run_result \<Rightarrow> nat \<Rightarrow> cron_schedule \<Rightarrow> cron_job \<Rightarrow> bool" where
  "rescheduled r n s job' \<longleftrightarrow> (\<exists>t. nextRunAtMs (jstate job') = Some t \<and>
     r_endedAt r + (if r_status r = Run_error then errorBackoffMs n DEFAULT_BACKOFF_SCHEDULE_MS
                    else MIN_REFIRE_GAP_MS) \<le> t)"

lemma reschedule_recurring_simps:
  assumes "reschedule_recurring env p l job r = (job', effs)"
  shows "runningAtMs (jstate job') = runningAtMs (jstate job)" "jobId job' = jobId job"
    "lastRunAtMs (jstate job') = lastRunAtMs (jstate job)"
    "consecutiveErrors (jstate job') = consecutiveErrors (jstate job)"
    "enabled job \<Longrightarrow> consecutiveErrors (jstate job) = Some n \<Longrightarrow> r_status r = Run_error \<or> is_cron (schedule job) \<Longrightarrow>
     rescheduled r n (schedule job) job'"
    "\<not> enabled job \<Longrightarrow> \<not> enabled job' \<and> nextRunAtMs (jstate job') = None"
  using assms
  by (auto simp: reschedule_recurring_def rescheduled_def Let_def split: prod.splits option.splits if_splits
      dest: natural_next_simps)

lemma reschedule_one_shot_simps [simp]:
  "runningAtMs (jstate (reschedule_one_shot deps job r)) = runningAtMs (jstate job)"
  "jobId (reschedule_one_shot deps job r) = jobId job"
  "lastRunAtMs (jstate (reschedule_one_shot deps job r)) = lastRunAtMs (jstate job)"
  by (simp_all add: reschedule_one_shot_def Let_def)

lemma apply_result_common:
  assumes "applyJobResult env deps now p job r = (del, job', effs)"
  shows "runningAtMs (jstate job') = None" "jobId job' = jobId job"
    "lastRunAtMs (jstate job') = Some (r_startedAt r)"
    "del \<longleftrightarrow> is_at (schedule job) \<and> deleteAfterRun job = Some True \<and> r_status r = Run_ok"
proof -
  obtain j1 e1 where r1: "record_errors deps now (record_outcome deps job r) r = (j1, e1)"
    by (cases "record_errors deps now (record_outcome deps job r) r")
  obtain j2 e2 where r2: "reschedule_recurring env p (lastRunAtMs (jstate job)) j1 r = (j2, e2)"
    by (cases "reschedule_recurring env p (lastRunAtMs (jstate job)) j1 r")
  note s = record_errors_simps [OF r1]
  have "job' = j1 \<or> job' = reschedule_one_shot deps j1 r \<or> job' = j2"
    and d: "del \<longleftrightarrow> is_at (schedule job) \<and> deleteAfterRun job = Some True \<and> r_status r = Run_ok"
    using assms r1 r2 s(3,4) by (auto simp: applyJobResult_def Let_def split: if_splits)
  with s reschedule_recurring_simps(1-3) [OF r2]
  show "runningAtMs (jstate job') = None" "jobId job' = jobId job"
    "lastRunAtMs (jstate job') = Some (r_startedAt r)" by auto
  show "del \<longleftrightarrow> is_at (schedule job) \<and> deleteAfterRun job = Some True \<and> r_status r = Run_ok" by (rule d)
qed

lemma apply_result_recurring:
  assumes "applyJobResult env deps now p job r = (del, job', effs)" "enabled job" "\<not> is_at (schedule job)"
    "r_status r = Run_error \<or> is_cron (schedule job)"
  shows "rescheduled r (errors_after job r) (schedule job) job'"
proof -
  obtain j1 e1 where r1: "record_errors deps now (record_outcome deps job r) r = (j1, e1)"
    by (cases "record_errors deps now (record_outcome deps job r) r")
  note s = record_errors_simps [OF r1]
  have ea: "errors_after (record_outcome deps job r) r = errors_after job r" by (simp add: errors_after_def)
  obtain j2 e2 where r2: "reschedule_recurring env p (lastRunAtMs (jstate job)) j1 r = (j2, e2)"
    by (cases "reschedule_recurring env p (lastRunAtMs (jstate job)) j1 r")
  have "j2 = job'" using assms(1,3) r1 r2 s(3) by (simp add: applyJobResult_def Let_def)
  with reschedule_recurring_simps(5) [OF r2 _ s(7)] s(2,3) ea assms(2,4) show ?thesis by simp
qed

lemma apply_result_one_shot:
  assumes "applyJobResult env deps now p job r = (del, job', effs)" "is_at (schedule job)"
  shows "del \<or> (\<not> enabled job' \<and> nextRunAtMs (jstate job') = None) \<or>
    (r_status r = Run_error \<and> isTransientCronError (r_error r) (retryOn (resolveRetryConfig deps)) \<and>
     of_nat (errors_after job r) \<le> maxAttempts (resolveRetryConfig deps) \<and>
     nextRunAtMs (jstate job') =
       Some (r_endedAt r + errorBackoffMs (errors_after job r) (backoffMs (resolveRetryConfig deps))))"
proof -
  obtain j1 e1 where r1: "record_errors deps now (record_outcome deps job r) r = (j1, e1)"
    by (cases "record_errors deps now (record_outcome deps job r) r")
  note s = record_errors_simps [OF r1]
  have ea: "errors_after (record_outcome deps job r) r = errors_after job r" by (simp add: errors_after_def)
  have at: "is_at (schedule j1)" using s(3) assms(2) by simp
  show ?thesis
  proof (cases del)
    case False
    then have j: "job' = reschedule_one_shot deps j1 r"
      using assms(1) r1 at by (auto simp: applyJobResult_def Let_def split: if_splits)
    have "r_status r = Run_error" if "\<not> (r_status r = Run_ok \<or> r_status r = Run_skipped)"
      using that by (cases "r_status r") auto
    with j s(7) ea show ?thesis by (auto simp: reschedule_one_shot_def Let_def)
  qed simp
qed

end
