(* ===== verification/Cron_Props.thy ===== *)
theory Cron_Props
  imports Cron_Proofs
begin

text \<open>
  The properties of the cron service: schedules, the outcome of a run, the maintenance of the
  store, the timer, the tick and the start-up catch-up.
\<close>

subsection \<open>Maintenance of the store\<close>

definition executed_slot :: "cron_job \<Rightarrow> bool" where
  "executed_slot j = (case lastRunAtMs (jstate j) of None \<Rightarrow> False | Some l \<Rightarrow> the (nextRunAtMs (jstate j)) \<le> l)"

definition maintained :: "cron_job \<Rightarrow> cron_job \<Rightarrow> bool" where
  "maintained j j' \<longleftrightarrow> jobId j' = jobId j \<and>
     (if \<not> enabled j then \<not> enabled j' \<and> nextRunAtMs (jstate j') = None \<and> runningAtMs (jstate j') = None
      else if hasScheduledNextRunAtMs (nextRunAtMs (jstate j)) \<and> \<not> executed_slot j
      then enabled j' \<and> nextRunAtMs (jstate j') = nextRunAtMs (jstate j)
      else True)"

lemma tick_simps:
  assumes "normalizeJobTickState j now = (c, skip, j')"
  shows "jobId j' = jobId j" "enabled j' = enabled j" "skip \<longleftrightarrow> \<not> enabled j"
    "lastRunAtMs (jstate j') = lastRunAtMs (jstate j)"
    "hasScheduledNextRunAtMs (nextRunAtMs (jstate j)) \<Longrightarrow> enabled j \<Longrightarrow> nextRunAtMs (jstate j') = nextRunAtMs (jstate j)"
    "\<not> enabled j \<Longrightarrow> nextRunAtMs (jstate j') = None \<and> runningAtMs (jstate j') = None"
  using assms
  by (auto simp: normalizeJobTickState_def Let_def hasScheduledNextRunAtMs_def
      split: prod.splits cron_schedule.splits if_splits option.splits)

lemma recompute_id:
  "recomputeJobNextRunAtMs env j now = (c, j', effs) \<Longrightarrow> jobId j' = jobId j"
  by (auto simp: recomputeJobNextRunAtMs_def Let_def split: sum.splits prod.splits if_splits
      dest: record_schedule_error_simps)

lemma maintenance_maintained:
  "maintained j (fst (snd (walk_job (maintenance_recompute env e) now j)))"
proof -
  obtain c skip j1 where t: "normalizeJobTickState j now = (c, skip, j1)"
    by (cases "normalizeJobTickState j now") auto
  note s = tick_simps [OF t]
  obtain c2 j2 effs where m: "maintenance_recompute env e j1 now = (c2, j2, effs)"
    by (cases "maintenance_recompute env e j1 now") auto
  have id: "jobId j2 = jobId j1"
    using m recompute_id by (auto simp: maintenance_recompute_def Let_def split: if_splits)
  show ?thesis
  proof (cases "enabled j")
    case False
    with t s show ?thesis by (simp add: walk_job_def maintained_def)
  next
    case True
    have "j2 = j1" if "hasScheduledNextRunAtMs (nextRunAtMs (jstate j))" "\<not> executed_slot j"
    proof -
      have "nextRunAtMs (jstate j1) = nextRunAtMs (jstate j)" using s(5) that(1) True by blast
      with m that s(4) show ?thesis
        by (auto simp: maintenance_recompute_def executed_slot_def Let_def split: if_splits option.splits)
    qed
    with True t s m id show ?thesis by (auto simp: walk_job_def maintained_def)
  qed
qed

subsection \<open>The next wake-up\<close>

definition wakes :: "cron_job \<Rightarrow> bool" where
  "wakes j \<longleftrightarrow> enabled j \<and> hasScheduledNextRunAtMs (nextRunAtMs (jstate j))"

abbreviation next_of :: "cron_job \<Rightarrow> int" where
  "next_of j \<equiv> the (nextRunAtMs (jstate j))"

lemma wake_fold:
  fixes js :: "cron_job list"
  assumes "list_all wakes js"
  shows "foldl (\<lambda>m j. case nextRunAtMs (jstate j) of Some t \<Rightarrow> (if 0 < t then min m t else m) | None \<Rightarrow> m) m0 js
    = foldl min m0 (map next_of js)"
  using assms
  by (induction js arbitrary: m0) (auto simp: wakes_def hasScheduledNextRunAtMs_def split: option.splits)

lemma foldl_min:
  fixes m0 :: int
  shows "foldl min m0 xs \<in> insert m0 (set xs) \<and> (\<forall>x \<in> insert m0 (set xs). foldl min m0 xs \<le> x)"
proof (induction xs arbitrary: m0)
  case (Cons x xs)
  from Cons.IH [of "min m0 x"] show ?case by (auto simp: min_def split: if_splits)
qed simp

lemma nextWake_None: "nextWakeAtMs jobs = None \<longleftrightarrow> \<not> list_ex wakes jobs"
proof -
  let ?en = "filter (\<lambda>j. enabled j \<and> hasScheduledNextRunAtMs (nextRunAtMs (jstate j))) jobs"
  have "nextWakeAtMs jobs = None \<longleftrightarrow> ?en = []"
    unfolding nextWakeAtMs_def Let_def by (cases ?en) auto
  then show ?thesis by (auto simp: filter_empty_conv wakes_def list_ex_iff)
qed

lemma nextWake_Some:
  assumes "nextWakeAtMs jobs = Some t"
  shows "0 < t" and "\<exists>j \<in> set jobs. wakes j \<and> t = next_of j"
    and "\<And>j. j \<in> set jobs \<Longrightarrow> wakes j \<Longrightarrow> t \<le> next_of j"
proof -
  let ?en = "filter (\<lambda>j. enabled j \<and> hasScheduledNextRunAtMs (nextRunAtMs (jstate j))) jobs"
  from assms obtain j0 js where en: "?en = j0 # js" by (auto simp: nextWakeAtMs_def Let_def split: list.splits)
  have all: "list_all wakes ?en" by (auto simp: list_all_iff wakes_def)
  have t: "t = foldl min (next_of j0) (map next_of (j0 # js))"
    using assms wake_fold [OF all] by (simp add: nextWakeAtMs_def Let_def en del: foldl.simps)
  note f = foldl_min [of "next_of j0" "map next_of (j0 # js)"]
  have m: "j \<in> set (j0 # js) \<longleftrightarrow> j \<in> set jobs \<and> wakes j" for j
    unfolding en [symmetric] by (simp add: wakes_def)
  from f t have "t \<in> next_of ` set (j0 # js)" by auto
  then obtain j where "j \<in> set (j0 # js)" "t = next_of j" by blast
  with m show ex: "\<exists>j \<in> set jobs. wakes j \<and> t = next_of j" by blast
  then show "0 < t" by (auto simp: wakes_def hasScheduledNextRunAtMs_def split: option.splits)
  fix j assume "j \<in> set jobs" "wakes j"
  then have "j \<in> set (j0 # js)" using m by blast
  then have "next_of j \<in> set (map next_of (j0 # js))" unfolding set_map by (rule imageI)
  with f t show "t \<le> next_of j" by blast
qed

subsection \<open>The tick and the catch-up\<close>

lemma runnable_is_due: "isRunnableJob env [] False False now = (\<lambda>j. isJobDue j now False)"
  by (auto simp: isRunnableJob_def isJobDue_def Let_def fun_eq_iff)

lemma service_simps [simp]:
  "disk (effect s es) = disk s" "store (effect s es) = store s" "running (effect s es) = running s"
  "timer (effect s es) = timer s"
  "store (persist s) = store s" "running (persist s) = running s" "timer (persist s) = timer s"
  "disk (persist s) = nullish (store s) (disk s)"
  by (simp_all add: effect_def persist_def nullish_def split: option.split)

lemma begin_due:
  assumes "\<not> running s"
  shows "fst (onTimer_begin env check now s) = map jobId (filter (\<lambda>j. isJobDue j check False) (disk s))"
  using assms
  by (simp add: onTimer_begin_def Let_def armRunningRecheckTimer_def collectRunnableJobs_def runnable_is_due
      split: prod.split)

lemma begin_running:
  "running (snd (onTimer_begin env check now s)) \<and>
   timer (snd (onTimer_begin env check now s)) = Some MAX_TIMER_DELAY_MS"
  by (simp add: onTimer_begin_def Let_def armRunningRecheckTimer_def split: prod.split)

lemma begin_disk:
  assumes "fst (onTimer_begin env check now s) = ids" "ids \<noteq> []"
  shows "disk (snd (onTimer_begin env check now s)) = mark_due now (\<lambda>j. isJobDue j check False) (disk s)"
  using assms
  by (auto simp: onTimer_begin_def Let_def armRunningRecheckTimer_def runnable_is_due split: prod.splits if_splits)

lemma due_after_mark:
  "filter (\<lambda>j. isJobDue j check' False) (mark_due now (\<lambda>j. isJobDue j check False) jobs) =
   filter (\<lambda>j. isJobDue j check' False) (filter (\<lambda>j. \<not> isJobDue j check False) jobs)"
proof -
  have "\<not> isJobDue (mark_running now j) check' False" for j
    by (simp add: isJobDue_def mark_running_def)
  then show ?thesis by (induction jobs) (auto simp: mark_due_def)
qed

lemma map_filter_nth: "map ((!) xs) (filter (\<lambda>i. P (xs ! i)) [0..<length xs]) = filter P xs"
proof -
  have "filter P (map ((!) xs) [0..<length xs]) = map ((!) xs) (filter (P \<circ> (!) xs) [0..<length xs])"
    by (rule filter_map)
  then show ?thesis by (simp add: map_nth comp_def)
qed

lemma mset_filter_upt:
  assumes "distinct is" "set is \<subseteq> {0..<n}"
  shows "mset (filter (\<lambda>i. i \<in> set is) [0..<n]) = mset is"
  using assms by (intro set_eq_iff_mset_eq_distinct [THEN iffD1]) auto

lemma mark_running_state: "runningAtMs (jstate (mark_running t j)) = Some t"
  by (simp add: mark_running_def)

lemma runnable_not_marked: "isRunnableJob env skip a m now j \<Longrightarrow> mark_running t j \<noteq> j"
proof
  assume r: "isRunnableJob env skip a m now j" and e: "mark_running t j = j"
  from e have "runningAtMs (jstate j) = Some t" by (metis mark_running_state)
  with r show False by (simp add: isRunnableJob_def Let_def split: if_splits)
qed

lemma changed_positions:
  assumes "\<And>i. i \<in> set is \<Longrightarrow> f i \<noteq> xs ! i" "distinct is" "set is \<subseteq> {0..<length xs}"
  defines "ys \<equiv> map (\<lambda>i. if i \<in> set is then f i else xs ! i) [0..<length xs]"
  shows "mset (map (g \<circ> fst) (filter (\<lambda>(x, y). y \<noteq> x) (zip xs ys))) = mset (map (\<lambda>i. g (xs ! i)) is)"
proof -
  have "zip xs ys = map (\<lambda>i. (xs ! i, if i \<in> set is then f i else xs ! i)) [0..<length xs]"
    by (rule nth_equalityI) (simp_all add: ys_def)
  then have "map (g \<circ> fst) (filter (\<lambda>(x, y). y \<noteq> x) (zip xs ys)) =
      map (\<lambda>i. g (xs ! i)) (filter (\<lambda>i. (if i \<in> set is then f i else xs ! i) \<noteq> xs ! i) [0..<length xs])"
    by (simp add: filter_map comp_def)
  also have "filter (\<lambda>i. (if i \<in> set is then f i else xs ! i) \<noteq> xs ! i) [0..<length xs] =
      filter (\<lambda>i. i \<in> set is) [0..<length xs]"
    using assms(1) by (intro filter_cong) auto
  finally have e: "map (g \<circ> fst) (filter (\<lambda>(x, y). y \<noteq> x) (zip xs ys)) =
      map (\<lambda>i. g (xs ! i)) (filter (\<lambda>i. i \<in> set is) [0..<length xs])" .
  show ?thesis unfolding e mset_map mset_filter_upt [OF assms(2,3)] ..
qed

subsection \<open>Properties\<close>

text \<open>A computed next run is never in the past, whatever croner returns: a one-shot or cron schedule
  gives a time after \<open>now\<close>, an interval schedule a time not before \<open>now\<close>.\<close>

theorem next_run_not_past:
  "case computeNextRunAtMs env s now of
     Inl e \<Rightarrow> True
   | Inr t \<Rightarrow> pred_option (\<lambda>t. if is_every s then now \<le> t else now < t) t"
  using compute_next_bounds [of env s now] by (auto simp: pred_option_def split: sum.splits)

text \<open>An interval schedule runs on the grid of its anchor: the next run is on the grid, not before
  \<open>now\<close> and at most one interval away. It is \<open>now\<close> itself exactly when \<open>now\<close> is a grid point after the
  anchor, so recomputing at a grid point gives no progress there.\<close>

theorem every_next_on_grid:
  assumes "0 < everyMs"
  shows "everyMs dvd next_every everyMs anchor now - anchor \<and> now \<le> next_every everyMs anchor now \<and>
    next_every everyMs anchor now \<le> max now anchor + everyMs \<and>
    (next_every everyMs anchor now = now \<longleftrightarrow> anchor < now \<and> everyMs dvd now - anchor)"
  using next_every_bounds [OF assms] by blast

theorem every_next_on_grid_witness: "next_every 30000 1000 61000 = 61000"
  using every_next_on_grid [of 30000 1000 61000] by simp

text \<open>A staggered cron job runs in the future, at a time of its schedule shifted by its stable
  offset, which is less than its stagger window.\<close>

theorem staggered_run_in_window:
  assumes "computeStaggeredCronNextRunAtMs env i (Cron_expr expr legacy tz stagger) now = Inr (Some t)"
  shows "now < t \<and>
    0 \<le> stable_offset env i (resolveCronStaggerMs expr stagger) \<and>
    stable_offset env i (resolveCronStaggerMs expr stagger) < max 1 (resolveCronStaggerMs expr stagger) \<and>
    (\<exists>cursor. computeNextRunAtMs env (Cron_expr expr legacy tz stagger) cursor =
       Inr (Some (t - stable_offset env i (resolveCronStaggerMs expr stagger))))"
proof -
  let ?s = "Cron_expr expr legacy tz stagger"
  let ?o = "stable_offset env i (resolveCronStaggerMs expr stagger)"
  note o = stable_offset_bounds [of env i "resolveCronStaggerMs expr stagger"]
  show ?thesis
  proof (cases "?o \<le> 0")
    case True
    with o have z: "?o = 0" by simp
    with assms have "computeNextRunAtMs env ?s now = Inr (Some t)"
      by (simp add: computeStaggeredCronNextRunAtMs_def Let_def)
    with compute_next_bounds [OF this] z o show ?thesis by (auto simp: is_every_def)
  next
    case False
    with assms have "staggered_next_loop env ?s ?o now 4 (max 0 (now - ?o)) = Inr (Some t)"
      by (simp add: computeStaggeredCronNextRunAtMs_def Let_def)
    from staggered_loop [OF this] o show ?thesis by blast
  qed
qed

text \<open>A sample environment: croner gives the next full hour.\<close>

definition hourly_env :: cron_env where
  "hourly_env = \<lparr> cronConstruct = (\<lambda>_ _. None), cronNextRun = (\<lambda>_ t. Inr (Some ((t div 3600000 + 1) * 3600000))),
     cronPreviousRun = (\<lambda>_ t. Inr (Some (t div 3600000 * 3600000))), localTimezone = ''UTC'',
     dateParse = (\<lambda>_. None), sha256Head = (\<lambda>_. 123456) \<rparr>"

theorem staggered_run_in_window_witness:
  "3500000 < (3723456 :: int) \<and>
   (\<exists>cursor. computeNextRunAtMs hourly_env (Cron_expr (Some ''0'') None None (JInt 300000)) cursor =
      Inr (Some (3723456 - 123456)))"
proof -
  have s: "resolveCronStaggerMs (Some ''0'') (JInt 300000) = 300000"
    by (simp add: resolveCronStaggerMs_def normalizeCronStaggerMs_def)
  have o: "stable_offset hourly_env ''job'' (resolveCronStaggerMs (Some ''0'') (JInt 300000)) = 123456"
    by (simp only: s stable_offset_def) (simp add: hourly_env_def)
  have t: "js_trim ''0'' = ''0''" by code_simp
  have n: "computeNextRunAtMs hourly_env (Cron_expr (Some ''0'') None None (JInt 300000)) x =
      Inr (Some ((x div 3600000 + 1) * 3600000))" for x
  proof -
    have "x < (x div 3600000 + 1) * 3600000" by presburger
    then show ?thesis
      by (simp add: computeNextRunAtMs_def resolveCronFromSchedule_def t newCron_def next_cron_def hourly_env_def)
  qed
  have c: "computeStaggeredCronNextRunAtMs hourly_env ''job'' (Cron_expr (Some ''0'') None None (JInt 300000)) 3500000
     = Inr (Some 3723456)"
    using o n by (simp add: computeStaggeredCronNextRunAtMs_def Let_def numeral_eq_Suc)
  from staggered_run_in_window [OF c, unfolded o] show ?thesis by auto
qed

text \<open>The error backoff stays between half a minute and an hour and never shrinks with more errors.\<close>

theorem error_backoff_bounds:
  "30000 \<le> errorBackoffMs n DEFAULT_BACKOFF_SCHEDULE_MS \<and>
   errorBackoffMs n DEFAULT_BACKOFF_SCHEDULE_MS \<le> 3600000 \<and>
   errorBackoffMs n DEFAULT_BACKOFF_SCHEDULE_MS \<le> errorBackoffMs (n + k) DEFAULT_BACKOFF_SCHEDULE_MS"
proof -
  have v: "errorBackoffMs m DEFAULT_BACKOFF_SCHEDULE_MS =
      (if m \<le> 1 then 30000 else if m = 2 then 60000 else if m = 3 then 300000 else if m = 4 then 900000 else 3600000)"
    for m
  proof -
    consider "m \<le> 1" | "m = 2" | "m = 3" | "m = 4" | "5 \<le> m" by linarith
    then show ?thesis by cases (auto simp: errorBackoffMs_def DEFAULT_BACKOFF_SCHEDULE_MS_def min_def max_def)
  qed
  show ?thesis by (simp add: v)
qed

text \<open>C13: No hot loop: after any run of an enabled recurring job that failed, or of a cron job, the job
  is no longer marked running and its next run is at least the error backoff, or the minimum refire
  gap, after the end of the run, whatever the schedule computation gives and even if it throws.\<close>

theorem recurring_run_never_hot_loops:
  assumes "applyJobResult env deps now preserve job r = (del, job', effs)"
    and "enabled job" and "\<not> is_at (schedule job)" and "r_status r = Run_error \<or> is_cron (schedule job)"
  shows "\<not> del \<and> runningAtMs (jstate job') = None \<and>
    (\<exists>t. nextRunAtMs (jstate job') = Some t \<and>
       r_endedAt r + (if r_status r = Run_error
         then errorBackoffMs (errors_after job r) DEFAULT_BACKOFF_SCHEDULE_MS else MIN_REFIRE_GAP_MS) \<le> t)"
  using apply_result_common [OF assms(1)] apply_result_recurring [OF assms] assms(3)
  by (simp add: rescheduled_def)

definition no_alert_deps :: cron_deps where
  "no_alert_deps = \<lparr> cronEnabled = True, maxConcurrentRuns = None, retryConfig = None, alertConfig = None,
     hasAlertSender = False, missedJobStaggerMs = None, maxMissedJobsPerRestart = None,
     failoverReason = (\<lambda>_. None) \<rparr>"

definition sample_job :: "cron_schedule \<Rightarrow> cron_job" where
  "sample_job s = \<lparr> jobId = ''j1'', agentId = None, sessionKey = None, jobName = ''demo'', description = None,
     enabled = True, deleteAfterRun = None, createdAtMs = 0, updatedAtMs = 0, schedule = s,
     sessionTarget = Main_session, wakeMode = Wake_now, payload = SystemEvent ''hi'', delivery = None,
     failureAlert = None, jstate = empty_job_state \<rparr>"

definition failed_run :: run_result where
  "failed_run = \<lparr> r_status = Run_error, r_error = Some ''fetch failed'', r_delivered = None,
     r_startedAt = 1000, r_endedAt = 2000 \<rparr>"

theorem recurring_run_never_hot_loops_witness:
  "\<exists>t. nextRunAtMs (jstate (fst (snd (applyJobResult hourly_env no_alert_deps 2000 False
     (sample_job (Every (JInt 1000) (JInt 0))) failed_run)))) = Some t \<and> 32000 \<le> t"
proof -
  let ?j = "sample_job (Every (JInt 1000) (JInt 0))"
  obtain del j' effs where a: "applyJobResult hourly_env no_alert_deps 2000 False ?j failed_run = (del, j', effs)"
    by (cases "applyJobResult hourly_env no_alert_deps 2000 False ?j failed_run") auto
  have "enabled ?j" "\<not> is_at (schedule ?j)" "r_status failed_run = Run_error \<or> is_cron (schedule ?j)"
    "r_endedAt failed_run + (if r_status failed_run = Run_error
       then errorBackoffMs (errors_after ?j failed_run) DEFAULT_BACKOFF_SCHEDULE_MS else MIN_REFIRE_GAP_MS) = 32000"
    by code_simp+
  with recurring_run_never_hot_loops [OF a this(1,2,3)] a show ?thesis by auto
qed

text \<open>A one-shot job ends: after a run it is deleted, or disabled with no next run, or, only for a
  transient error within the allowed number of consecutive attempts, rescheduled after the configured
  backoff; in every case it is no longer marked running.\<close>

theorem one_shot_run_settles:
  assumes "applyJobResult env deps now preserve job r = (del, job', effs)" and "is_at (schedule job)"
  shows "runningAtMs (jstate job') = None \<and>
    (del \<or> (\<not> enabled job' \<and> nextRunAtMs (jstate job') = None) \<or>
     (r_status r = Run_error \<and> isTransientCronError (r_error r) (retryOn (resolveRetryConfig deps)) \<and>
      of_nat (errors_after job r) \<le> maxAttempts (resolveRetryConfig deps) \<and>
      nextRunAtMs (jstate job') =
        Some (r_endedAt r + errorBackoffMs (errors_after job r) (backoffMs (resolveRetryConfig deps)))))"
  using apply_result_one_shot [OF assms] apply_result_common(1) [OF assms(1)] by blast

theorem one_shot_run_settles_witness:
  "\<not> enabled (fst (snd (applyJobResult hourly_env no_alert_deps 2000 False
     (sample_job (At None (AtMs_number 1000))) (failed_run\<lparr>r_status := Run_ok\<rparr>))))"
proof -
  let ?j = "sample_job (At None (AtMs_number 1000))" and ?r = "failed_run\<lparr>r_status := Run_ok\<rparr>"
  obtain del j' effs where a: "applyJobResult hourly_env no_alert_deps 2000 False ?j ?r = (del, j', effs)"
    by (cases "applyJobResult hourly_env no_alert_deps 2000 False ?j ?r") auto
  have at: "is_at (schedule ?j)" by (simp add: sample_job_def is_at_def)
  have "\<not> del" using apply_result_common(4) [OF a] by (simp add: sample_job_def)
  with one_shot_run_settles [OF a at] a show ?thesis by auto
qed

text \<open>Maintenance never skips a run: whatever the flag \<open>recomputeExpired\<close>, a scheduled next run of an
  enabled job that has not been executed is kept as it is, even when it is past due, and a disabled job
  loses its next run and its running marker.\<close>

theorem maintenance_never_skips:
  "list_all2 maintained jobs (fst (snd (recomputeNextRunsForMaintenance env recomputeExpired now jobs)))"
proof -
  have "fst (snd (recomputeNextRunsForMaintenance env recomputeExpired now jobs)) =
      map (\<lambda>j. fst (snd (walk_job (maintenance_recompute env recomputeExpired) now j))) jobs"
    by (simp add: recomputeNextRunsForMaintenance_def walkSchedulableJobs_def Let_def comp_def)
  then show ?thesis by (simp add: list_all2_conv_all_nth maintenance_maintained)
qed

text \<open>The scheduler stays alive: arming the timer leaves no timer exactly when cron is disabled or no
  enabled job has a next run, and otherwise the delay is positive, at most one minute, and not later
  than any due time (but for the minimum refire gap).\<close>

theorem timer_armed_iff_work:
  "(timer (armTimer deps now s) = None \<longleftrightarrow> \<not> (cronEnabled deps \<and> list_ex wakes (nullish (store s) []))) \<and>
   pred_option (\<lambda>d. 0 < d \<and> d \<le> MAX_TIMER_DELAY_MS \<and>
     list_all (\<lambda>j. if wakes j then d \<le> max (next_of j - now) MIN_REFIRE_GAP_MS else True) (nullish (store s) []))
     (timer (armTimer deps now s))"
proof (cases "cronEnabled deps \<and> list_ex wakes (nullish (store s) [])")
  case False
  then show ?thesis using nextWake_None [of "nullish (store s) []"]
    by (auto simp: armTimer_def split: option.splits)
next
  case True
  then obtain t where t: "nextWakeAtMs (nullish (store s) []) = Some t"
    using nextWake_None [of "nullish (store s) []"] by auto
  note w = nextWake_Some [OF t]
  obtain d where d: "timer (armTimer deps now s) = Some d"
    and m: "d = min (if max (t - now) 0 = 0 then MIN_REFIRE_GAP_MS else max (t - now) 0) MAX_TIMER_DELAY_MS"
    using True t w(1) by (simp add: armTimer_def Let_def)
  have "d \<le> max (next_of j - now) MIN_REFIRE_GAP_MS" if "j \<in> set (nullish (store s) [])" "wakes j" for j
    using w(3) [OF that] unfolding m MAX_TIMER_DELAY_MS_def MIN_REFIRE_GAP_MS_def by auto
  moreover have "0 < d \<and> d \<le> MAX_TIMER_DELAY_MS"
    by (auto simp: m MAX_TIMER_DELAY_MS_def MIN_REFIRE_GAP_MS_def)
  ultimately show ?thesis using True by (simp add: d list_all_iff)
qed


text \<open>The start-up catch-up loses and repeats nothing: the missed jobs are split into those run now,
  at most the configured number, and those deferred; together they are the missed jobs, the earliest
  first; the jobs changed in the file are exactly those run now, each marked running before it runs.\<close>

theorem catchup_plan_complete:
  "case planStartupCatchup env deps skip now (s\<lparr>store := Some jobs, disk := jobs\<rparr>) of (plan, s') \<Rightarrow>
     (let missed = filter (isRunnableJob env skip True True now) jobs
      in int (length (candidates plan)) \<le> max 0 (nullish (maxMissedJobsPerRestart deps) DEFAULT_MAX_MISSED_JOBS_PER_RESTART) \<and>
         (\<exists>js. mset js = mset missed \<and> sorted (map (\<lambda>j. nullish (nextRunAtMs (jstate j)) 0) js) \<and>
           candidates plan @ deferredJobIds plan = map jobId js) \<and>
         list_all2 (\<lambda>j j'. j' = j \<or> j' = mark_running now j) jobs (disk s') \<and>
         mset (map (jobId \<circ> fst) (filter (\<lambda>(j, j'). j' \<noteq> j) (zip jobs (disk s')))) = mset (candidates plan))"
proof -
  let ?key = "\<lambda>j. nullish (nextRunAtMs (jstate j)) 0"
  let ?P = "isRunnableJob env skip True True now"
  let ?missed = "filter (\<lambda>i. ?P (jobs ! i)) [0..<length jobs]"
  let ?sorted = "sort_key (\<lambda>i. ?key (jobs ! i)) ?missed"
  let ?max = "max 0 (nullish (maxMissedJobsPerRestart deps) DEFAULT_MAX_MISSED_JOBS_PER_RESTART)"
  let ?now = "take (nat ?max) ?sorted"
  obtain plan s' where p: "planStartupCatchup env deps skip now (s\<lparr>store := Some jobs, disk := jobs\<rparr>) = (plan, s')"
    by (cases "planStartupCatchup env deps skip now (s\<lparr>store := Some jobs, disk := jobs\<rparr>)")
  have c: "candidates plan = map (\<lambda>i. jobId (jobs ! i)) ?now"
    and f: "deferredJobIds plan = map (\<lambda>i. jobId (jobs ! i)) (drop (nat ?max) ?sorted)"
    and d: "disk s' = map (\<lambda>i. if i \<in> set ?now then mark_running now (jobs ! i) else jobs ! i) [0..<length jobs]"
    using p by (auto simp: planStartupCatchup_def ensure_loaded_def Let_def map_nth split: if_splits)
  have all: "candidates plan @ deferredJobIds plan = map jobId (map ((!) jobs) ?sorted)"
    unfolding c f by (simp add: comp_def flip: map_append)
  have sub: "set ?now \<subseteq> set ?missed" using set_take_subset [of "nat ?max" ?sorted] by simp
  have "mset (map ((!) jobs) ?sorted) = mset (map ((!) jobs) ?missed)" by simp
  then have ms: "mset (map ((!) jobs) ?sorted) = mset (filter ?P jobs)" unfolding map_filter_nth .
  have so: "sorted (map ?key (map ((!) jobs) ?sorted))"
    using sorted_sort_key [of "\<lambda>i. ?key (jobs ! i)" ?missed] by (simp add: comp_def)
  have ch: "mark_running now (jobs ! i) \<noteq> jobs ! i" if "i \<in> set ?now" for i
    using sub that by (intro runnable_not_marked [of env skip True True now]) auto
  have "mset (map (jobId \<circ> fst) (filter (\<lambda>(j, j'). j' \<noteq> j) (zip jobs (disk s')))) = mset (candidates plan)"
    unfolding d c using sub by (intro changed_positions ch) auto
  moreover have "list_all2 (\<lambda>j j'. j' = j \<or> j' = mark_running now j) jobs (disk s')"
    unfolding d by (simp add: list_all2_conv_all_nth)
  moreover have "int (length (candidates plan)) \<le> ?max" unfolding c by simp
  ultimately show ?thesis unfolding p prod.case Let_def all using ms so by blast
qed

text \<open>The caches after a sequence of look-ups.\<close>

definition crons_after :: "cron_env \<Rightarrow> (string \<times> string) list \<Rightarrow> cron_eval_cache" where
  "crons_after env qs = foldl (\<lambda>c q. snd (resolveCachedCron env c (fst q) (snd q))) [] qs"

definition offsets_after :: "cron_env \<Rightarrow> (string \<times> int) list \<Rightarrow> stagger_cache" where
  "offsets_after env qs = foldl (\<lambda>c q. snd (resolveStableCronOffsetMs env c (fst q) (snd q))) [] qs"

text \<open>The module-level caches of cron objects and of stagger offsets stay within 512 and 4096 entries
  over any sequence of look-ups, and a look-up after any such sequence gives what the computation
  without a cache gives. The time zones have no NUL character: it separates them from the expression
  in the key.\<close>

theorem schedule_caches_transparent:
  assumes "list_all nul_free (tz # map snd qs)"
  shows "length (crons_after env qs) \<le> 512 \<and>
    fst (resolveCachedCron env (crons_after env qs) expr tz) = newCron env expr tz \<and>
    length (offsets_after env qs') \<le> 4096 \<and>
    fst (resolveStableCronOffsetMs env (offsets_after env qs') i ms) = stable_offset env i ms"
proof -
  have c: "cron_cache_inv env []" and t: "stagger_cache_inv env []"
    by (simp_all add: cron_cache_inv_def stagger_cache_inv_def)
  have "crons_after env qs = foldl (cron_cache_step env) [] qs"
    unfolding crons_after_def using assms(1)
    by (intro foldl_cong) (auto simp: cron_cache_step_def list_all_iff)
  moreover have "offsets_after env qs' = foldl (stagger_cache_step env) [] qs'"
    unfolding offsets_after_def by (intro foldl_cong) (simp_all add: stagger_cache_step_def)
  ultimately show ?thesis
    using cron_cache.run_inv [OF c, of qs] stagger_cache.run_inv [OF t, of qs'] assms(1)
      cron_cache.run_bound [OF c, of qs] stagger_cache.run_bound [OF t, of qs']
    by (simp add: cron_cache_transparent stagger_cache_transparent CRON_EVAL_CACHE_MAX_def STAGGER_OFFSET_CACHE_MAX_def)
qed

theorem schedule_caches_transparent_witness:
  "fst (resolveCachedCron hourly_env (crons_after hourly_env [(''x'', ''UTC''), (''y'', ''UTC'')]) ''x'' ''UTC'') =
   newCron hourly_env ''x'' ''UTC''"
proof -
  have "list_all nul_free (''UTC'' # map snd [(''x'', ''UTC''), (''y'', ''UTC'')])" by (simp add: nul_free_def)
  from schedule_caches_transparent [OF this, of hourly_env "''x''"] show ?thesis by blast
qed

end
