(* ===== verification/Cron_Ops_Props.thy ===== *)
theory Cron_Ops_Props
  imports Cron_Ops Cron_Props
begin

text \<open>
  The properties of the cron operations: what a manual run excludes, and what a rejected edit leaves.
\<close>

subsection \<open>Looking a job up\<close>

lemma find_map_id:
  assumes "\<And>j. jobId (f j) = jobId j"
  shows "find (\<lambda>j. jobId j = jid) (map f jobs) = map_option f (find (\<lambda>j. jobId j = jid) jobs)"
  using assms by (induction jobs) auto

lemma find_id: "find (\<lambda>j. jobId j = jid) jobs = Some job \<Longrightarrow> jobId job = jid \<and> job \<in> set jobs"
  by (auto simp: find_Some_iff)

lemma find_replace:
  assumes "find (\<lambda>j. jobId j = jid) jobs = Some job" "jobId job' = jid"
  shows "find (\<lambda>j. jobId j = jid) (replace_job job' jobs) = Some job'"
  using assms by (induction jobs) (auto split: if_splits)

lemma replace_ids: "map jobId (replace_job job jobs) = map jobId jobs"
  by (induction jobs) auto

lemma find_job_put:
  assumes "find_job jid s = Some job" "jobId job' = jid"
  shows "find_job jid (put_job job' s) = Some job'"
proof -
  from assms(1) obtain jobs where "store s = Some jobs" "find (\<lambda>j. jobId j = jid) jobs = Some job"
    by (cases "store s") (auto simp: find_job_def nullish_def)
  with find_replace [OF this(2) assms(2)] show ?thesis by (simp add: find_job_def put_job_def nullish_def)
qed

lemma find_job_simps [simp]:
  "find_job jid (effect s es) = find_job jid s" "find_job jid (persist s) = find_job jid s"
  by (simp_all add: find_job_def)

lemma find_job_loaded: "find_job jid s = Some job \<Longrightarrow> store s \<noteq> None"
  by (auto simp: find_job_def nullish_def split: option.splits)

subsection \<open>Maintenance of one job\<close>

abbreviation tended :: "cron_env \<Rightarrow> bool \<Rightarrow> int \<Rightarrow> cron_job \<Rightarrow> cron_job" where
  "tended env expired now job \<equiv> fst (snd (walk_job (maintenance_recompute env expired) now job))"

lemma tended_id: "jobId (tended env e now j) = jobId j"
  using maintenance_maintained [of j env e now] by (simp add: maintained_def)

lemma maintenance_jobs: "fst (snd (recomputeNextRunsForMaintenance env e now jobs)) = map (tended env e now) jobs"
  by (simp add: recomputeNextRunsForMaintenance_def walkSchedulableJobs_def Let_def comp_def)

lemma store_maintain: "store (snd (maintain env e now s)) = map_option (map (tended env e now)) (store s)"
  using maintenance_jobs [of env e now] by (auto simp: maintain_def split: option.split prod.split) (metis fst_conv snd_conv)

lemma find_job_maintain: "find_job jid (snd (maintain env e now s)) = map_option (tended env e now) (find_job jid s)"
proof (cases "store s")
  case None
  then show ?thesis by (simp add: find_job_def store_maintain nullish_def)
next
  case (Some jobs)
  then show ?thesis
    by (simp add: find_job_def store_maintain nullish_def find_map_id [of "tended env e now", OF tended_id])
qed

lemma recompute_keeps:
  "recomputeJobNextRunAtMs env j now = (c, j', effs) \<Longrightarrow>
     runningAtMs (jstate j') = runningAtMs (jstate j) \<and> sessionTarget j' = sessionTarget j \<and> payload j' = payload j"
  by (auto simp: recomputeJobNextRunAtMs_def recordScheduleComputeError_def with_state_def Let_def
      split: sum.splits if_splits)

lemma tick_keeps:
  assumes "normalizeJobTickState j now = (c, skip, j')"
  shows "sessionTarget j' = sessionTarget j" "payload j' = payload j"
    "enabled j \<Longrightarrow> runningAtMs (jstate j) = Some r \<Longrightarrow> now - r \<le> STUCK_RUN_MS \<Longrightarrow> runningAtMs (jstate j') = Some r"
  using assms
  by (auto simp: normalizeJobTickState_def with_state_def Let_def split: prod.splits cron_schedule.splits if_splits option.splits)

lemma tended_keeps:
  shows "sessionTarget (tended env e now j) = sessionTarget j" "payload (tended env e now j) = payload j"
    "enabled j \<Longrightarrow> runningAtMs (jstate j) = Some r \<Longrightarrow> now - r \<le> STUCK_RUN_MS \<Longrightarrow>
       runningAtMs (jstate (tended env e now j)) = Some r"
    "\<not> enabled j \<Longrightarrow> \<not> enabled (tended env e now j) \<and> runningAtMs (jstate (tended env e now j)) = None"
proof -
  obtain c skip j1 where t: "normalizeJobTickState j now = (c, skip, j1)" by (cases "normalizeJobTickState j now") auto
  obtain c2 j2 effs where m: "maintenance_recompute env e j1 now = (c2, j2, effs)"
    by (cases "maintenance_recompute env e j1 now") auto
  have k: "runningAtMs (jstate j2) = runningAtMs (jstate j1) \<and> sessionTarget j2 = sessionTarget j1 \<and> payload j2 = payload j1"
    using m recompute_keeps by (auto simp: maintenance_recompute_def Let_def split: if_splits)
  have w: "tended env e now j = (if skip then j1 else j2)" by (simp add: walk_job_def t m)
  note s = tick_keeps [OF t] tick_simps [OF t]
  show "sessionTarget (tended env e now j) = sessionTarget j" "payload (tended env e now j) = payload j"
    using w k s(1,2) by auto
  show "runningAtMs (jstate (tended env e now j)) = Some r"
    if "enabled j" "runningAtMs (jstate j) = Some r" "now - r \<le> STUCK_RUN_MS"
    using w k s(3) [OF that] by auto
  show "\<not> enabled (tended env e now j) \<and> runningAtMs (jstate (tended env e now j)) = None" if "\<not> enabled j"
    using maintenance_maintained [of j env e now] that by (simp add: maintained_def)
qed

lemma supported_cong:
  "sessionTarget j' = sessionTarget j \<Longrightarrow> payload j' = payload j \<Longrightarrow> assertSupportedJobSpec j' = assertSupportedJobSpec j"
  by (simp only: assertSupportedJobSpec_def)

subsection \<open>Manual runs\<close>

lemma prepared_state:
  assumes "prepareManualRun env deps now txt mode jid between s = (Inr (Inr prepared), s')"
  obtains job where "find_job jid s' = Some job" "mr_executionJob prepared = job"
    "runningAtMs (jstate job) = Some now" "mr_startedAt prepared = now" "store s' = Some (disk s')"
proof -
  obtain job s1 where i: "inspectManualRunPreflight env deps now txt mode jid s = (Inr (Runnable job now), s1)"
    and r: "reserve_run jid now (between s1) = (Inr (Inr prepared), s')"
    using assms by (auto simp: prepareManualRun_def inspectManualRunPreflight_def Let_def
        split: prod.splits sum.splits preflight.splits option.splits if_splits)
  from r obtain j where j: "find_job jid (between s1) = Some j"
    by (auto simp: reserve_run_def split: option.splits)
  let ?j = "with_state j (\<lambda>st. st\<lparr>runningAtMs := Some now, lastError := None\<rparr>)"
  have p: "prepared = \<lparr>mr_jobId = jid, mr_startedAt = now, mr_executionJob = ?j\<rparr>"
    and s': "s' = effect (persist (put_job ?j (between s1))) [JobStarted jid now]"
    using r j by (auto simp: reserve_run_def Let_def split: if_splits)
  have id: "jobId ?j = jid" using j find_id by (auto simp: find_job_def with_state_def)
  obtain jobs where "store (between s1) = Some jobs" using find_job_loaded [OF j] by auto
  then have st: "store s' = Some (disk s')" by (simp add: s' put_job_def nullish_def)
  have "find_job jid s' = Some ?j" unfolding s' using find_job_put [OF j id] by simp
  then show ?thesis by (rule that) (simp_all add: p st with_state_def)
qed

text \<open>A second attempt, on a service whose job is marked.\<close>

lemma second_refused:
  assumes "find_job jid s = Some job" "runningAtMs (jstate job) = Some r" "enabled job" "t - r \<le> STUCK_RUN_MS"
  shows "\<exists>reason. fst (prepareManualRun env deps t txt mode jid between s) = Inr (Inl reason)"
proof -
  have "ensure_loaded s = s" using find_job_loaded [OF assms(1)] by (auto simp: ensure_loaded_def)
  then have "find_job jid (snd (maintain (ee_cron env) False t (ensure_loaded s))) = Some (tended (ee_cron env) False t job)"
    using assms(1) by (simp add: find_job_maintain)
  moreover have "runningAtMs (jstate (tended (ee_cron env) False t job)) = Some r"
    using tended_keeps(3) [OF assms(3,2,4)] .
  ultimately show ?thesis by (simp add: prepareManualRun_def inspectManualRunPreflight_def Let_def)
qed

lemma second_granted:
  assumes "find_job jid s = Some job" "\<not> enabled job" "assertSupportedJobSpec job = None"
  shows "\<exists>p. fst (prepareManualRun env deps t txt (Some Run_force) jid id s) = Inr (Inr p) \<and> mr_jobId p = jid"
proof -
  let ?j = "tended (ee_cron env) False t job"
  have "ensure_loaded s = s" using find_job_loaded [OF assms(1)] by (auto simp: ensure_loaded_def)
  then have f: "find_job jid (snd (maintain (ee_cron env) False t (ensure_loaded s))) = Some ?j"
    using assms(1) by (simp add: find_job_maintain)
  have r: "runningAtMs (jstate ?j) = None" using tended_keeps(4) [OF assms(2)] by blast
  have a: "assertSupportedJobSpec ?j = None"
    using supported_cong [OF tended_keeps(1) tended_keeps(2)] assms(3) by simp
  show ?thesis
    using f r a by (simp add: prepareManualRun_def inspectManualRunPreflight_def reserve_run_def isJobDue_def Let_def)
qed


definition sample_edit_env :: edit_env where
  "sample_edit_env = \<lparr>ee_cron = hourly_env,
     ee_urlProtocol = (\<lambda>u. if take 8 u = ''https://'' then Some ''https:'' else None), ee_defaultAgentId = None\<rparr>"

definition service_of :: "cron_job list \<Rightarrow> cron_service" where
  "service_of jobs = \<lparr>store = Some jobs, disk = jobs, timer = None, running = False, activeJobIds = [], cron_effects = []\<rparr>"


end
