(* ===== verification/Cron_Edit_Props.thy ===== *)
theory Cron_Edit_Props
  imports Cron_Ops_Props
begin

text \<open>
  The properties of the edits of cron jobs: the jobs in the store have passed the checks, and what
  an edit that is rejected leaves behind.
\<close>

subsection \<open>Checked jobs\<close>

text \<open>What the checks of an edit guarantee of a job.\<close>

definition checked :: "edit_env \<Rightarrow> cron_job \<Rightarrow> bool" where
  "checked env job \<longleftrightarrow> assertSupportedJobSpec job = None \<and> assertMainSessionAgentId env job = None \<and>
     snd (assertDeliverySupport env job) = None \<and> snd (assertFailureDestinationSupport env job) = None"

definition same_core :: "cron_job \<Rightarrow> cron_job \<Rightarrow> bool" where
  "same_core j j' \<longleftrightarrow> jobId j' = jobId j \<and> sessionTarget j' = sessionTarget j \<and> payload j' = payload j \<and>
     agentId j' = agentId j"

definition same_spec :: "cron_job \<Rightarrow> cron_job \<Rightarrow> bool" where
  "same_spec j j' \<longleftrightarrow> same_core j j' \<and> delivery j' = delivery j"

lemma same_spec_refl [simp]: "same_spec j j" by (simp add: same_spec_def same_core_def)

lemma same_spec_trans: "same_spec i j \<Longrightarrow> same_spec j k \<Longrightarrow> same_spec i k"
  by (simp add: same_spec_def same_core_def)

lemma main_cong:
  "sessionTarget j' = sessionTarget j \<Longrightarrow> agentId j' = agentId j \<Longrightarrow>
     assertMainSessionAgentId env j' = assertMainSessionAgentId env j"
  by (simp only: assertMainSessionAgentId_def)

lemma checked_cong:
  assumes "same_spec j j'"
  shows "checked env j' \<longleftrightarrow> checked env j"
proof -
  have f: "delivery j' = delivery j" "sessionTarget j' = sessionTarget j" "payload j' = payload j" "agentId j' = agentId j"
    using assms by (simp_all add: same_spec_def same_core_def)
  have "snd (assertDeliverySupport env j') = snd (assertDeliverySupport env j)"
    by (simp add: assertDeliverySupport_def f split: option.split)
  moreover have "snd (assertFailureDestinationSupport env j') = snd (assertFailureDestinationSupport env j)"
  proof -
    have w: "delivery_is_webhook j' = delivery_is_webhook j" by (simp only: delivery_is_webhook_def f)
    show ?thesis
      by (cases "delivery j") (auto simp: assertFailureDestinationSupport_def f w split: option.split)
  qed
  moreover have "assertMainSessionAgentId env j' = assertMainSessionAgentId env j"
    using main_cong [OF f(2,4)] .
  ultimately show ?thesis using supported_cong [OF f(2,3)] by (simp add: checked_def)
qed

lemma url_fixed: "normalizeHttpWebhookUrl env v = Some t \<Longrightarrow> normalizeHttpWebhookUrl env (Some t) = Some t"
  by (auto simp: normalizeHttpWebhookUrl_def Let_def split: option.splits if_splits)

lemma delivery_check_simps:
  assumes "assertDeliverySupport env j = (j', e)"
  shows "same_core j j'" "e = None \<Longrightarrow> assertDeliverySupport env j' = (j', None)"
proof -
  show "same_core j j'"
    using assms by (cases "delivery j")
      (auto simp: assertDeliverySupport_def same_core_def split: option.splits if_splits)
  assume "e = None"
  show "assertDeliverySupport env j' = (j', None)"
  proof (cases "delivery j")
    case None
    with assms \<open>e = None\<close> show ?thesis by (auto simp: assertDeliverySupport_def)
  next
    case (Some d)
    show ?thesis
    proof (cases "d_mode d = Dm_webhook")
      case True
      with assms Some \<open>e = None\<close> obtain u where u: "normalizeHttpWebhookUrl env (d_to d) = Some u"
        and j': "j' = j\<lparr>delivery := Some (d\<lparr>d_to := Some u\<rparr>)\<rparr>"
        by (auto simp: assertDeliverySupport_def split: option.splits)
      show ?thesis using url_fixed [OF u] True by (simp add: assertDeliverySupport_def j')
    next
      case False
      with assms Some \<open>e = None\<close> have "j' = j" by (auto simp: assertDeliverySupport_def split: if_splits)
      with assms \<open>e = None\<close> show ?thesis by simp
    qed
  qed
qed

lemma destination_check_simps:
  assumes "assertFailureDestinationSupport env j = (j', e)"
  shows "same_core j j'" "snd (assertDeliverySupport env j') = snd (assertDeliverySupport env j)"
    "e = None \<Longrightarrow> assertFailureDestinationSupport env j' = (j', None)"
proof -
  consider (same) "j' = j"
    | (url) d fd u where "delivery j = Some d" "d_failureDestination d = Some fd" "fd_mode fd = Some Am_webhook"
        "\<not> (sessionTarget j = Main_session \<and> \<not> delivery_is_webhook j)" "normalizeHttpWebhookUrl env (fd_to fd) = Some u"
        "j' = j\<lparr>delivery := Some (d\<lparr>d_failureDestination := Some (fd\<lparr>fd_to := Some u\<rparr>)\<rparr>)\<rparr>"
  proof (cases "j' = j")
    case False
    with assms obtain d where d: "delivery j = Some d"
      by (cases "delivery j") (auto simp: assertFailureDestinationSupport_def)
    with assms False obtain fd where fd: "d_failureDestination d = Some fd"
      by (cases "d_failureDestination d") (auto simp: assertFailureDestinationSupport_def)
    let ?m = "sessionTarget j = Main_session \<and> \<not> delivery_is_webhook j"
    have m: "\<not> ?m" "fd_mode fd = Some Am_webhook"
      using assms False by (simp_all add: assertFailureDestinationSupport_def d fd split: if_splits)
    with assms False obtain u where "normalizeHttpWebhookUrl env (fd_to fd) = Some u"
      by (cases "normalizeHttpWebhookUrl env (fd_to fd)") (auto simp: assertFailureDestinationSupport_def d fd)
    with assms d fd m url show ?thesis by (simp add: assertFailureDestinationSupport_def)
  qed simp
  then have "same_core j j' \<and> snd (assertDeliverySupport env j') = snd (assertDeliverySupport env j) \<and>
      (e = None \<longrightarrow> assertFailureDestinationSupport env j' = (j', None))"
  proof cases
    case same
    with assms show ?thesis by (simp add: same_core_def)
  next
    case url
    have w: "delivery_is_webhook j' = delivery_is_webhook j" using url(1) by (simp add: delivery_is_webhook_def url(6))
    have "assertFailureDestinationSupport env j' = (j', None)"
      using url(3,4) url_fixed [OF url(5)] w by (auto simp: assertFailureDestinationSupport_def url(6))
    moreover have "snd (assertDeliverySupport env j') = snd (assertDeliverySupport env j)"
      using url(1) by (simp add: assertDeliverySupport_def url(6) split: option.split)
    ultimately show ?thesis by (simp add: same_core_def url(6))
  qed
  then show "same_core j j'" "snd (assertDeliverySupport env j') = snd (assertDeliverySupport env j)"
    "e = None \<Longrightarrow> assertFailureDestinationSupport env j' = (j', None)" by blast+
qed

lemma check_job_checked:
  assumes "check_job env j = (j', None)"
  shows "checked env j'" "same_core j j'"
proof -
  obtain j1 where a: "assertSupportedJobSpec j = None" "assertMainSessionAgentId env j = None"
    and d: "assertDeliverySupport env j = (j1, None)" and f: "assertFailureDestinationSupport env j1 = (j', None)"
    using assms by (auto simp: check_job_def and_then_def split: prod.splits option.splits)
  note s = delivery_check_simps [OF d] destination_check_simps [OF f]
  show c: "same_core j j'" using s(1,3) by (simp add: same_core_def)
  have "assertSupportedJobSpec j' = None" using a(1) c supported_cong [of j' j] by (simp add: same_core_def)
  moreover have "assertMainSessionAgentId env j' = None"
    using a(2) main_cong [of j' j env] c by (simp add: same_core_def)
  moreover have "snd (assertDeliverySupport env j') = None" using s(2,4) by simp
  moreover have "snd (assertFailureDestinationSupport env j') = None" using s(5) by simp
  ultimately show "checked env j'" by (simp add: checked_def)
qed

subsection \<open>Scheduling keeps the checked fields\<close>

lemma set_next_same: "same_spec j (set_next n j)"
  by (simp add: same_spec_def same_core_def set_next_def with_state_def)

lemma recompute_same: "recomputeJobNextRunAtMs env j now = (c, j', effs) \<Longrightarrow> same_spec j j'"
  by (auto simp: recomputeJobNextRunAtMs_def recordScheduleComputeError_def with_state_def Let_def
      same_spec_def same_core_def split: sum.splits if_splits)

lemma tick_same: "normalizeJobTickState j now = (c, skip, j') \<Longrightarrow> same_spec j j'"
  by (auto simp: normalizeJobTickState_def with_state_def Let_def same_spec_def same_core_def
      split: prod.splits cron_schedule.splits if_splits)

lemma walk_same:
  assumes "\<And>j now c j' effs. f j now = (c, j', effs) \<Longrightarrow> same_spec j j'"
  shows "same_spec j (fst (snd (walk_job f now j)))"
proof -
  obtain c skip j1 where t: "normalizeJobTickState j now = (c, skip, j1)" by (cases "normalizeJobTickState j now") auto
  obtain c2 j2 effs where m: "f j1 now = (c2, j2, effs)" by (cases "f j1 now") auto
  show ?thesis
    using same_spec_trans [OF tick_same [OF t] assms [OF m]] tick_same [OF t] by (simp add: walk_job_def t m)
qed

lemma walk_checked:
  assumes "\<And>j now c j' effs. f j now = (c, j', effs) \<Longrightarrow> same_spec j j'"
    and "walkSchedulableJobs f now jobs = (c, jobs', effs)"
  shows "list_all (checked env) jobs' \<longleftrightarrow> list_all (checked env) jobs"
proof -
  have "jobs' = map (\<lambda>j. fst (snd (walk_job f now j))) jobs"
    using assms(2) by (auto simp: walkSchedulableJobs_def Let_def comp_def)
  then show ?thesis using checked_cong [OF walk_same [OF assms(1)]] by (simp add: list_all_iff)
qed

lemma recompute_all_checked:
  "recomputeNextRuns cenv now jobs = (c, jobs', effs) \<Longrightarrow> list_all (checked env) jobs' \<longleftrightarrow> list_all (checked env) jobs"
  unfolding recomputeNextRuns_def
  by (erule walk_checked [rotated]) (auto simp: Let_def split: if_splits dest: recompute_same)

subsection \<open>The edits\<close>

abbreviation jobs_of :: "cron_service \<Rightarrow> cron_job list" where
  "jobs_of s \<equiv> nullish (store s) []"

lemma createJob_checked: "createJob env now uuid input = Inr job \<Longrightarrow> checked env job"
  by (auto simp: createJob_def Let_def split: sum.splits prod.splits option.splits
      dest!: check_job_checked(1) simp: checked_cong [OF set_next_same])

lemma patch_ids:
  "jobId (fst (patch_name p j)) = jobId j" "jobId (patch_fields p j) = jobId j"
  "jobId (fst (patch_payload p j)) = jobId j" "jobId (fst (patch_delivery p j)) = jobId j"
  "jobId (patch_identity p j) = jobId j" "jobId (ensure_anchor now p j) = jobId j"
  by (simp_all add: patch_name_def patch_fields_def patch_payload_def patch_delivery_def patch_identity_def
      ensure_anchor_def with_state_def Let_def split: option.split sum.split cron_schedule.split)

lemma check_job_id: "jobId (fst (check_job env j)) = jobId j"
proof -
  obtain j1 e1 where d: "assertDeliverySupport env j = (j1, e1)" by (cases "assertDeliverySupport env j")
  obtain j2 e2 where f: "assertFailureDestinationSupport env j1 = (j2, e2)" by (cases "assertFailureDestinationSupport env j1")
  have "jobId j1 = jobId j" "jobId j2 = jobId j"
    using delivery_check_simps(1) [OF d] destination_check_simps(1) [OF f] by (simp_all add: same_core_def)
  then show ?thesis by (simp add: check_job_def and_then_def d f split: option.split)
qed

lemma and_then_id: "jobId (fst r) = i \<Longrightarrow> (\<And>j. jobId j = i \<Longrightarrow> jobId (fst (f j)) = i) \<Longrightarrow> jobId (fst (and_then r f)) = i"
  by (auto simp: and_then_def split: prod.split option.split)

lemma patch_job_id: "jobId (fst (patch_job env now p j)) = jobId j"
proof -
  have "jobId (fst (applyJobPatch env p j)) = jobId j"
    unfolding applyJobPatch_def by (intro and_then_id) (simp_all add: patch_ids check_job_id)
  moreover have "jobId (fst (reschedule_patched cenv now p k)) = jobId k" for cenv k
    by (simp add: reschedule_patched_def set_next_def with_state_def Let_def split: sum.split)
  ultimately show ?thesis unfolding patch_job_def by (intro and_then_id) (simp_all add: patch_ids)
qed

lemma patch_job_checked:
  assumes "patch_job env now p j = (j', None)"
  shows "checked env j'" "updatedAtMs j' = now"
proof -
  obtain j1 where a: "applyJobPatch env p j = (j1, None)"
    and r: "reschedule_patched (ee_cron env) now p ((ensure_anchor now p j1)\<lparr>updatedAtMs := now\<rparr>) = (j', None)"
    using assms by (auto simp: patch_job_def and_then_def split: prod.splits option.splits)
  obtain k where "check_job env k = (j1, None)"
    using a by (auto simp: applyJobPatch_def and_then_def split: prod.splits option.splits)
  then have c: "checked env j1" by (rule check_job_checked)
  have "same_spec j1 (ensure_anchor now p j1)"
    by (simp add: ensure_anchor_def same_spec_def same_core_def Let_def split: option.split cron_schedule.split)
  then have s: "same_spec j1 ((ensure_anchor now p j1)\<lparr>updatedAtMs := now\<rparr>)" by (simp add: same_spec_def same_core_def)
  have "same_spec ((ensure_anchor now p j1)\<lparr>updatedAtMs := now\<rparr>) j' \<and> updatedAtMs j' = now"
    using r by (auto simp: reschedule_patched_def set_next_def with_state_def same_spec_def same_core_def Let_def
        split: sum.splits if_splits)
  with checked_cong [OF same_spec_trans [OF s]] c show "checked env j'" "updatedAtMs j' = now" by auto
qed

lemma service_more [simp]:
  "store (armTimer deps now s) = store s" "disk (armTimer deps now s) = disk s"
  by (simp_all add: armTimer_def Let_def split: option.split)

lemma find_job_arm [simp]: "find_job jid (armTimer deps now s) = find_job jid s"
  by (simp add: find_job_def)

lemma loaded_checked:
  assumes "list_all (checked env) (jobs_of (ensure_loaded s))"
  shows "list_all (checked env) (jobs_of (ensureLoaded_recompute cenv now s))"
  using assms recompute_all_checked
  by (auto simp: ensureLoaded_recompute_def ensure_loaded_def nullish_def split: option.splits prod.split)

lemma replace_checked: "list_all P jobs \<Longrightarrow> P job \<Longrightarrow> list_all P (replace_job job jobs)"
  by (induction jobs) auto

lemma replace_others:
  "jobId job = jid \<Longrightarrow> filter (\<lambda>j. jobId j \<noteq> jid) (replace_job job jobs) = filter (\<lambda>j. jobId j \<noteq> jid) jobs"
  by (induction jobs) auto

abbreviation others :: "string \<Rightarrow> cron_service \<Rightarrow> cron_job list" where
  "others jid s \<equiv> filter (\<lambda>j. jobId j \<noteq> jid) (jobs_of s)"

lemma jobs_of_put: "jobs_of (put_job job s) = replace_job job (jobs_of s)"
  by (simp add: put_job_def nullish_def split: option.split)

lemma add_job_result:
  assumes "add_job env deps now uuid input s = (r, s')"
    and "list_all (checked env) (jobs_of (ensure_loaded s))"
  shows "list_all (checked env) (jobs_of s') \<and>
    (case r of Inl e \<Rightarrow> s' = ensureLoaded_recompute (ee_cron env) now s | Inr job \<Rightarrow> store s' = Some (disk s'))"
proof -
  let ?s = "ensureLoaded_recompute (ee_cron env) now s"
  note l = loaded_checked [OF assms(2), of "ee_cron env" now]
  show ?thesis
  proof (cases "createJob env now uuid input")
    case (Inl e)
    then have "r = Inl e \<and> s' = ?s" using assms(1) by (simp add: add_job_def Let_def)
    with l show ?thesis by simp
  next
    case (Inr job)
    obtain c jobs effs where r: "recomputeNextRuns (ee_cron env) now (jobs_of ?s @ [job]) = (c, jobs, effs)"
      by (cases "recomputeNextRuns (ee_cron env) now (jobs_of ?s @ [job])") auto
    have "list_all (checked env) jobs"
      using recompute_all_checked [OF r] l createJob_checked [OF Inr] by simp
    with assms(1) Inr r show ?thesis by (auto simp: add_job_def Let_def nullish_def)
  qed
qed

lemma update_job_result:
  assumes "update_job env deps now jid p s = (r, s')" and "list_all (checked env) (jobs_of (ensure_loaded s))"
  shows "others jid s' = others jid (ensure_loaded s) \<and>
    (case r of
       Inl e \<Rightarrow> disk s' = disk s \<and> timer s' = timer s \<and> cron_effects s' = cron_effects s
     | Inr job \<Rightarrow> list_all (checked env) (jobs_of s') \<and> store s' = Some (disk s') \<and>
         find_job jid s' = Some job \<and> updatedAtMs job = now)"
proof -
  have l: "disk (ensure_loaded s) = disk s" "timer (ensure_loaded s) = timer s"
    "cron_effects (ensure_loaded s) = cron_effects s"
    by (simp_all add: ensure_loaded_def split: option.split)
  show ?thesis
  proof (cases "find_job jid (ensure_loaded s)")
    case None
    with assms(1) l show ?thesis by (auto simp: update_job_def)
  next
    case (Some job)
    obtain j e where p: "patch_job env now p job = (j, e)" by (cases "patch_job env now p job")
    have "jobId job = jid" using Some find_id by (auto simp: find_job_def)
    then have id: "jobId j = jid" using patch_job_id [of env now p job] p by simp
    have o: "others jid (put_job j (ensure_loaded s)) = others jid (ensure_loaded s)"
      by (simp add: jobs_of_put replace_others [OF id])
    show ?thesis
    proof (cases e)
      case (Some err)
      then have "r = Inl err \<and> s' = put_job j (ensure_loaded s)"
        using assms(1) \<open>find_job jid (ensure_loaded s) = Some job\<close> p by (simp add: update_job_def Let_def)
      with o l show ?thesis by (simp add: put_job_def)
    next
      case None
      note c = patch_job_checked [OF p [unfolded None]]
      have "list_all (checked env) (jobs_of (put_job j (ensure_loaded s)))"
        unfolding jobs_of_put using assms(2) c(1) by (rule replace_checked)
      moreover obtain jobs where "store (put_job j (ensure_loaded s)) = Some jobs"
        by (cases "store s") (auto simp: put_job_def ensure_loaded_def)
      ultimately show ?thesis
        using assms(1) Some None p o c(2) find_job_put [OF Some id]
        by (auto simp: update_job_def nullish_def)
    qed
  qed
qed

lemma remove_job_result:
  assumes "remove_job cenv deps now jid s = (removed, s')" and "list_all (checked env) (jobs_of (ensure_loaded s))"
  shows "list_all (checked env) (jobs_of s') \<and> store s' = Some (disk s') \<and> find_job jid s' = None"
proof -
  have "jobs_of s' = others jid (ensureLoaded_recompute cenv now s)" "store s' = Some (disk s')"
    using assms(1) by (auto simp: remove_job_def Let_def nullish_def)
  with loaded_checked [OF assms(2), of cenv now] show ?thesis
    by (auto simp: find_job_def list_all_iff find_None_iff nullish_def)
qed


definition empty_patch :: cron_job_patch where
  "empty_patch = \<lparr>jp_name = None, jp_description = None, jp_enabled = JUndefined, jp_deleteAfterRun = JUndefined,
     jp_schedule = None, jp_sessionTarget = None, jp_wakeMode = None, jp_payload = None, jp_delivery = None,
     jp_failureAlert = None, jp_state = None, jp_agentId = None, jp_sessionKey = None\<rparr>"

lemma sample_checked: "checked env (sample_job s)"
  by (simp add: checked_def sample_job_def assertSupportedJobSpec_def assertMainSessionAgentId_def
      assertDeliverySupport_def assertFailureDestinationSupport_def is_agent_turn_def isolated_like_def)


text \<open>A rejected patch is not undone in memory: the next edit of another job writes the half-patched job,
  here a main-session job with an agent turn, to the file.\<close>

definition turn_patch :: cron_job_patch where
  "turn_patch = empty_patch\<lparr>jp_payload := Some \<lparr>pp_kind = Kind_agentTurn, pp_text = None, pp_message = Some ''hi'',
     pp_model = None, pp_fallbacks = None, pp_toolsAllow = None, pp_thinking = None, pp_timeoutSeconds = None,
     pp_lightContext = None, pp_allowUnsafe = None\<rparr>\<rparr>"

lemma rejected_update_leaks:
  "let j = sample_job (At None (AtMs_number 1000));
       s1 = snd (update_job sample_edit_env no_alert_deps 5000 ''j1'' turn_patch (service_of [j]));
       s2 = snd (remove_job hourly_env no_alert_deps 5000 ''j9'' s1)
   in (\<exists>e. fst (update_job sample_edit_env no_alert_deps 5000 ''j1'' turn_patch (service_of [j])) = Inl e) \<and>
      list_all (checked sample_edit_env) (disk s1) \<and> \<not> list_all (checked sample_edit_env) (disk s2)"
proof -
  let ?j = "sample_job (At None (AtMs_number 1000))"
  let ?turn = "AgentTurn \<lparr>at_message = ''hi'', at_model = None, at_fallbacks = None, at_thinking = None,
     at_timeoutSeconds = None, at_allowUnsafe = None, at_lightContext = None, at_toolsAllow = None\<rparr>"
  have p: "patch_job sample_edit_env 5000 turn_patch ?j = (?j\<lparr>payload := ?turn\<rparr>, Some MainNeedsSystemEvent)"
    by (simp add: patch_job_def applyJobPatch_def and_then_def patch_name_def patch_fields_def patch_payload_def
        patch_delivery_def patch_identity_def turn_patch_def empty_patch_def js_bool_def sample_job_def
        mergeCronPayload_def buildPayloadFromPatch_def check_job_def assertSupportedJobSpec_def is_agent_turn_def
        delivery_is_webhook_def failure_destination_of_def isolated_like_def)
  have u: "update_job sample_edit_env no_alert_deps 5000 ''j1'' turn_patch (service_of [?j]) =
      (Inl MainNeedsSystemEvent, (service_of [?j])\<lparr>store := Some [?j\<lparr>payload := ?turn\<rparr>]\<rparr>)"
    using p by (simp add: update_job_def ensure_loaded_def find_job_def nullish_def service_of_def sample_job_def put_job_def Let_def)
  have "disk (snd (remove_job hourly_env no_alert_deps 5000 ''j9'' ((service_of [?j])\<lparr>store := Some [?j\<lparr>payload := ?turn\<rparr>]\<rparr>))) =
      [?j\<lparr>payload := ?turn\<rparr>]"
    by (simp add: remove_job_def ensureLoaded_recompute_def service_of_def nullish_def sample_job_def)
  moreover have "\<not> checked sample_edit_env (?j\<lparr>payload := ?turn\<rparr>)"
    by (simp add: checked_def assertSupportedJobSpec_def sample_job_def is_agent_turn_def)
  ultimately show ?thesis unfolding Let_def u by (simp add: service_of_def sample_checked)
qed

end
