(* ===== verification/Route.thy ===== *)
theory Route
  imports Session_Key "HOL-Library.Char_ord" "HOL-Library.List_Lexorder"
begin

text \<open>
  Agent routing: src/brain/src/routing/resolve-route.ts, with the default agent of
  agents/agent-scope.ts and the route bindings of config/bindings.ts.

  An inbound message is routed to an agent by the first matching binding of the most specific tier.
  The code evaluates the bindings once per configuration, indexes them per channel and account,
  caches both, and caches the resolved routes. The caches of one configuration are the record
  \<open>route_caches\<close>; a change of the configuration starts from empty caches. Ids are strings.
\<close>

subsection \<open>Configuration\<close>

record agent_entry =
  ae_id :: "string option"
  ae_default :: bool

record peer_match =
  pm_kind :: "string option"
  pm_id :: "string option"

record binding_match =
  bm_channel :: "string option"
  bm_accountId :: "string option"
  bm_peer :: "peer_match option"
  bm_guildId :: "string option"
  bm_teamId :: "string option"
  bm_roles :: "string list option"

record agent_binding =
  ab_acp :: bool
  ab_agentId :: string
  ab_match :: "binding_match option"

record route_config =
  cfg_agents :: "agent_entry list option"
  cfg_bindings :: "agent_binding list option"
  cfg_dmScope :: "dm_scope option"
  cfg_identityLinks :: "identity_links option"

type_synonym route_peer = "chat_type \<times> string"

record route_input =
  in_channel :: string
  in_accountId :: "string option"
  in_peer :: "route_peer option"
  in_parentPeer :: "route_peer option"
  in_guildId :: "string option"
  in_teamId :: "string option"
  in_memberRoleIds :: "string list option"

datatype last_route_policy = Policy_main | Policy_session

datatype matched_by =
    By_peer | By_peer_parent | By_peer_wildcard | By_guild_roles | By_guild | By_team
  | By_account | By_channel | By_default

record resolved_route =
  rr_agentId :: string
  rr_channel :: string
  rr_accountId :: string
  rr_sessionKey :: string
  rr_mainSessionKey :: string
  rr_lastRoutePolicy :: last_route_policy
  rr_matchedBy :: matched_by

definition listRouteBindings :: "route_config \<Rightarrow> agent_binding list" where
  "listRouteBindings cfg = filter (\<lambda>b. \<not> ab_acp b) (nullish (cfg_bindings cfg) [])"

definition listAgentEntries :: "route_config \<Rightarrow> agent_entry list" where
  "listAgentEntries cfg = nullish (cfg_agents cfg) []"

definition resolveDefaultAgentId :: "route_config \<Rightarrow> string" where
  "resolveDefaultAgentId cfg =
     (let agents = listAgentEntries cfg in
      if agents = [] then DEFAULT_AGENT_ID
      else
        (let chosen = map_option js_trim (ae_id (hd (filter ae_default agents @ agents)))
         in normalizeAgentId (Some (str_or (nullish chosen []) DEFAULT_AGENT_ID))))"

subsection \<open>Agents\<close>

definition add_agent :: "(string, string) js_map \<Rightarrow> agent_entry \<Rightarrow> (string, string) js_map" where
  "add_agent m agent =
     (let rawId = js_trim (nullish (ae_id agent) []) in
      if rawId = [] then m else jm_set m (normalizeAgentId (Some rawId)) (sanitizeAgentId (Some rawId)))"

definition agents_by_normalized_id :: "route_config \<Rightarrow> (string, string) js_map" where
  "agents_by_normalized_id cfg = foldl add_agent [] (listAgentEntries cfg)"

definition fallbackDefaultAgentId :: "route_config \<Rightarrow> string" where
  "fallbackDefaultAgentId cfg = sanitizeAgentId (Some (resolveDefaultAgentId cfg))"

definition pickFirstExistingAgentId :: "route_config \<Rightarrow> string \<Rightarrow> string" where
  "pickFirstExistingAgentId cfg agentId =
     (let trimmed = js_trim agentId in
      if trimmed = [] then fallbackDefaultAgentId cfg
      else
        (let lookup = agents_by_normalized_id cfg in
         if lookup = [] then sanitizeAgentId (Some trimmed)
         else if str_truthy (jm_get lookup (normalizeAgentId (Some trimmed)))
         then the (jm_get lookup (normalizeAgentId (Some trimmed)))
         else fallbackDefaultAgentId cfg))"

subsection \<open>Evaluated bindings\<close>

datatype peer_constraint =
    Peer_none | Peer_invalid | Peer_wildcard chat_type | Peer_valid chat_type string

record normalized_match =
  nm_accountPattern :: string
  nm_peer :: peer_constraint
  nm_guildId :: "string option"
  nm_teamId :: "string option"
  nm_roles :: "string list option"

text \<open>The objects are distinguished by their \<open>order\<close>.\<close>

record evaluated_binding =
  eb_agentId :: string
  eb_match :: normalized_match
  eb_order :: nat

definition normalizeId :: "string option \<Rightarrow> string" where
  "normalizeId v = js_trim (nullish v [])"

definition normalizePeerConstraint :: "peer_match option \<Rightarrow> peer_constraint" where
  "normalizePeerConstraint peer = (case peer of
     None \<Rightarrow> Peer_none
   | Some p \<Rightarrow>
       (let i = normalizeId (pm_id p) in
        case normalizeChatType (pm_kind p) of
          None \<Rightarrow> Peer_invalid
        | Some kind \<Rightarrow>
            if i = [] then Peer_invalid else if i = ''*'' then Peer_wildcard kind else Peer_valid kind i))"

definition non_blank :: "string \<Rightarrow> string option" where
  "non_blank s = (if s = [] then None else Some s)"

definition normalizeBindingMatch :: "binding_match option \<Rightarrow> normalized_match" where
  "normalizeBindingMatch m = \<lparr>
     nm_accountPattern = js_trim (nullish (Option.bind m bm_accountId) []),
     nm_peer = normalizePeerConstraint (Option.bind m bm_peer),
     nm_guildId = non_blank (normalizeId (Option.bind m bm_guildId)),
     nm_teamId = non_blank (normalizeId (Option.bind m bm_teamId)),
     nm_roles = (case Option.bind m bm_roles of Some (r # rs) \<Rightarrow> Some (r # rs) | _ \<Rightarrow> None) \<rparr>"

definition resolveAccountPatternKey :: "string \<Rightarrow> string" where
  "resolveAccountPatternKey p =
     (if js_trim p = [] then DEFAULT_ACCOUNT_ID else normalizeAccountId (Some p))"

record channel_bindings =
  cb_byAccount :: "(string, evaluated_binding list) js_map"
  cb_byAnyAccount :: "evaluated_binding list"

definition push_to :: "('k, 'v list) js_map \<Rightarrow> 'k \<Rightarrow> 'v \<Rightarrow> ('k, 'v list) js_map" where
  "push_to m k v = (case jm_get m k of Some vs \<Rightarrow> jm_set m k (vs @ [v]) | None \<Rightarrow> jm_set m k [v])"

definition add_to_bucket :: "channel_bindings \<Rightarrow> evaluated_binding \<Rightarrow> channel_bindings" where
  "add_to_bucket bucket e =
     (if nm_accountPattern (eb_match e) = ''*''
      then bucket\<lparr>cb_byAnyAccount := cb_byAnyAccount bucket @ [e]\<rparr>
      else bucket\<lparr>cb_byAccount :=
        push_to (cb_byAccount bucket) (resolveAccountPatternKey (nm_accountPattern (eb_match e))) e\<rparr>)"

fun buildEvaluatedBindingsByChannel ::
    "nat \<Rightarrow> (string, channel_bindings) js_map \<Rightarrow> agent_binding list \<Rightarrow> (string, channel_bindings) js_map" where
  "buildEvaluatedBindingsByChannel order m [] = m"
| "buildEvaluatedBindingsByChannel order m (b # bs) =
     (let channel = normalizeToken (Option.bind (ab_match b) bm_channel) in
      if channel = [] then buildEvaluatedBindingsByChannel order m bs
      else
        (let e = \<lparr> eb_agentId = ab_agentId b, eb_match = normalizeBindingMatch (ab_match b), eb_order = order \<rparr>;
             bucket = nullish (jm_get m channel) \<lparr> cb_byAccount = [], cb_byAnyAccount = [] \<rparr>
         in buildEvaluatedBindingsByChannel (order + 1) (jm_set m channel (add_to_bucket bucket e)) bs))"

fun merge_by_order :: "evaluated_binding list \<Rightarrow> evaluated_binding list \<Rightarrow> evaluated_binding list" where
  "merge_by_order [] ys = ys"
| "merge_by_order xs [] = xs"
| "merge_by_order (x # xs) (y # ys) =
     (if eb_order x \<le> eb_order y then x # merge_by_order xs (y # ys) else y # merge_by_order (x # xs) ys)"

definition mergeEvaluatedBindingsInSourceOrder ::
    "evaluated_binding list \<Rightarrow> evaluated_binding list \<Rightarrow> evaluated_binding list" where
  "mergeEvaluatedBindingsInSourceOrder accountScoped anyAccount =
     (if accountScoped = [] then anyAccount
      else if anyAccount = [] then accountScoped
      else merge_by_order accountScoped anyAccount)"

definition peerLookupKeys :: "chat_type \<Rightarrow> string \<Rightarrow> string list" where
  "peerLookupKeys kind i = (case kind of
     Group \<Rightarrow> [''group:'' @ i, ''channel:'' @ i]
   | Channel \<Rightarrow> [''channel:'' @ i, ''group:'' @ i]
   | Direct \<Rightarrow> [chat_type_text kind @ '':'' @ i])"

record bindings_index =
  ix_byPeer :: "(string, evaluated_binding list) js_map"
  ix_byPeerWildcard :: "evaluated_binding list"
  ix_byGuildWithRoles :: "(string, evaluated_binding list) js_map"
  ix_byGuild :: "(string, evaluated_binding list) js_map"
  ix_byTeam :: "(string, evaluated_binding list) js_map"
  ix_byAccount :: "evaluated_binding list"
  ix_byChannel :: "evaluated_binding list"

definition empty_index :: bindings_index where
  "empty_index = \<lparr> ix_byPeer = [], ix_byPeerWildcard = [], ix_byGuildWithRoles = [], ix_byGuild = [],
     ix_byTeam = [], ix_byAccount = [], ix_byChannel = [] \<rparr>"

definition pushToIndexMap ::
    "(string, evaluated_binding list) js_map \<Rightarrow> string option \<Rightarrow> evaluated_binding \<Rightarrow>
     (string, evaluated_binding list) js_map" where
  "pushToIndexMap m key e = (if \<not> str_truthy key then m else push_to m (the key) e)"

definition index_one :: "bindings_index \<Rightarrow> evaluated_binding \<Rightarrow> bindings_index" where
  "index_one ix e = (let m = eb_match e in
     case nm_peer m of
       Peer_valid kind i \<Rightarrow>
         ix\<lparr>ix_byPeer := foldl (\<lambda>b k. pushToIndexMap b (Some k) e) (ix_byPeer ix) (peerLookupKeys kind i)\<rparr>
     | Peer_wildcard _ \<Rightarrow> ix\<lparr>ix_byPeerWildcard := ix_byPeerWildcard ix @ [e]\<rparr>
     | _ \<Rightarrow>
         (if nm_guildId m \<noteq> None \<and> nm_roles m \<noteq> None
          then ix\<lparr>ix_byGuildWithRoles := pushToIndexMap (ix_byGuildWithRoles ix) (nm_guildId m) e\<rparr>
          else if nm_guildId m \<noteq> None
          then ix\<lparr>ix_byGuild := pushToIndexMap (ix_byGuild ix) (nm_guildId m) e\<rparr>
          else if nm_teamId m \<noteq> None
          then ix\<lparr>ix_byTeam := pushToIndexMap (ix_byTeam ix) (nm_teamId m) e\<rparr>
          else if nm_accountPattern m \<noteq> ''*''
          then ix\<lparr>ix_byAccount := ix_byAccount ix @ [e]\<rparr>
          else ix\<lparr>ix_byChannel := ix_byChannel ix @ [e]\<rparr>))"

definition buildEvaluatedBindingsIndex :: "evaluated_binding list \<Rightarrow> bindings_index" where
  "buildEvaluatedBindingsIndex bindings = foldl index_one empty_index bindings"

fun add_unseen :: "evaluated_binding list \<Rightarrow> evaluated_binding list \<Rightarrow> evaluated_binding list" where
  "add_unseen out [] = out"
| "add_unseen out (e # es) =
     (if eb_order e \<in> set (map eb_order out) then add_unseen out es else add_unseen (out @ [e]) es)"

definition collectPeerIndexedBindings :: "bindings_index \<Rightarrow> route_peer option \<Rightarrow> evaluated_binding list" where
  "collectPeerIndexedBindings ix peer = (case peer of
     None \<Rightarrow> []
   | Some (kind, i) \<Rightarrow>
       foldl (\<lambda>out key. case jm_get (ix_byPeer ix) key of None \<Rightarrow> out | Some ms \<Rightarrow> add_unseen out ms)
         [] (peerLookupKeys kind i))"

subsection \<open>Caches\<close>

record route_caches =
  rc_evaluated :: "(string, evaluated_binding list) js_map"
  rc_index :: "(string, bindings_index) js_map"
  rc_routes :: "(string, resolved_route) js_map"

definition empty_caches :: route_caches where
  "empty_caches = \<lparr> rc_evaluated = [], rc_index = [], rc_routes = [] \<rparr>"

definition MAX_EVALUATED_BINDINGS_CACHE_KEYS :: nat where
  "MAX_EVALUATED_BINDINGS_CACHE_KEYS = 2000"

definition MAX_RESOLVED_ROUTE_CACHE_KEYS :: nat where
  "MAX_RESOLVED_ROUTE_CACHE_KEYS = 4000"

definition TAB :: string where "TAB = [CHR 0x09]"

definition evaluated_bindings :: "route_config \<Rightarrow> string \<Rightarrow> string \<Rightarrow> evaluated_binding list" where
  "evaluated_bindings cfg channel accountId =
     (let channelBindings = jm_get (buildEvaluatedBindingsByChannel 0 [] (listRouteBindings cfg)) channel;
          accountScoped = nullish (Option.bind channelBindings (\<lambda>b. jm_get (cb_byAccount b) accountId)) [];
          anyAccount = nullish (map_option cb_byAnyAccount channelBindings) []
      in mergeEvaluatedBindingsInSourceOrder accountScoped anyAccount)"

definition getEvaluatedBindingsForChannelAccount ::
    "route_config \<Rightarrow> string \<Rightarrow> string \<Rightarrow> route_caches \<Rightarrow> evaluated_binding list \<times> route_caches" where
  "getEvaluatedBindingsForChannelAccount cfg channel accountId c =
     (let cacheKey = channel @ TAB @ accountId in
      case jm_get (rc_evaluated c) cacheKey of
        Some hit \<Rightarrow> (hit, c)
      | None \<Rightarrow>
          (let evaluated = evaluated_bindings cfg channel accountId;
               c = c\<lparr>rc_evaluated := jm_set (rc_evaluated c) cacheKey evaluated,
                     rc_index := jm_set (rc_index c) cacheKey (buildEvaluatedBindingsIndex evaluated)\<rparr>;
               c = (if MAX_EVALUATED_BINDINGS_CACHE_KEYS < length (rc_evaluated c)
                    then c\<lparr>rc_evaluated := [(cacheKey, evaluated)],
                           rc_index := [(cacheKey, buildEvaluatedBindingsIndex evaluated)]\<rparr> else c)
           in (evaluated, c)))"

definition getEvaluatedBindingIndexForChannelAccount ::
    "route_config \<Rightarrow> string \<Rightarrow> string \<Rightarrow> route_caches \<Rightarrow> bindings_index \<times> route_caches" where
  "getEvaluatedBindingIndexForChannelAccount cfg channel accountId c =
     (let cacheKey = channel @ TAB @ accountId;
          (bindings, c) = getEvaluatedBindingsForChannelAccount cfg channel accountId c
      in case jm_get (rc_index c) cacheKey of
           Some ix \<Rightarrow> (ix, c)
         | None \<Rightarrow>
             (let built = buildEvaluatedBindingsIndex bindings
              in (built, c\<lparr>rc_index := jm_set (rc_index c) cacheKey built\<rparr>)))"

definition formatRouteCachePeer :: "route_peer option \<Rightarrow> string" where
  "formatRouteCachePeer peer = (case peer of
     None \<Rightarrow> ''-''
   | Some (kind, i) \<Rightarrow> if i = [] then ''-'' else chat_type_text kind @ '':'' @ i)"

definition formatRoleIdsCacheKey :: "string list \<Rightarrow> string" where
  "formatRoleIdsCacheKey roles = (case roles of
     [] \<Rightarrow> ''-''
   | [r] \<Rightarrow> r
   | [a, b] \<Rightarrow> if a \<le> b then a @ '','' @ b else b @ '','' @ a
   | _ \<Rightarrow> js_join '','' (sort roles))"

definition dm_scope_text :: "dm_scope \<Rightarrow> string" where
  "dm_scope_text s = (case s of
     Dm_main \<Rightarrow> ''main'' | Dm_per_peer \<Rightarrow> ''per-peer'' | Dm_per_channel_peer \<Rightarrow> ''per-channel-peer''
   | Dm_per_account_channel_peer \<Rightarrow> ''per-account-channel-peer'')"

end
