(* ===== verification/Route_Resolve.thy ===== *)
theory Route_Resolve
  imports Route
begin

text \<open>
  The resolution of a route: the scope of a binding, the tiers and \<open>resolveAgentRoute\<close> of
  src/brain/src/routing/resolve-route.ts; and the bindings listed per channel account of bindings.ts.
  \<open>verbose\<close> is \<open>shouldLogVerbose()\<close>, which turns the route cache off.
\<close>

subsection \<open>Queries\<close>

text \<open>An input in normal form; the route depends on nothing else.\<close>

record route_query =
  q_channel :: string
  q_accountId :: string
  q_peer :: "route_peer option"
  q_parentPeer :: "route_peer option"
  q_guildId :: string
  q_teamId :: string
  q_memberRoleIds :: "string list"

definition normalize_peer :: "route_peer option \<Rightarrow> route_peer option" where
  "normalize_peer p = map_option (\<lambda>(kind, i). (kind, normalizeId (Some i))) p"

definition normalize_input :: "route_input \<Rightarrow> route_query" where
  "normalize_input i = \<lparr>
     q_channel = normalizeToken (Some (in_channel i)),
     q_accountId = normalizeAccountId (in_accountId i),
     q_peer = normalize_peer (in_peer i),
     q_parentPeer = normalize_peer (in_parentPeer i),
     q_guildId = normalizeId (in_guildId i),
     q_teamId = normalizeId (in_teamId i),
     q_memberRoleIds = nullish (in_memberRoleIds i) [] \<rparr>"

definition buildResolvedRouteCacheKey :: "route_query \<Rightarrow> dm_scope \<Rightarrow> string" where
  "buildResolvedRouteCacheKey q dmScope =
     q_channel q @ TAB @ q_accountId q @ TAB @ formatRouteCachePeer (q_peer q) @ TAB @
     formatRouteCachePeer (q_parentPeer q) @ TAB @ str_or (q_guildId q) ''-'' @ TAB @
     str_or (q_teamId q) ''-'' @ TAB @ formatRoleIdsCacheKey (q_memberRoleIds q) @ TAB @ dm_scope_text dmScope"

subsection \<open>Scopes and tiers\<close>

definition peerKindMatches :: "chat_type \<Rightarrow> chat_type \<Rightarrow> bool" where
  "peerKindMatches bindingKind scopeKind =
     (if bindingKind = scopeKind then True
      else (let both = [bindingKind, scopeKind] in Group \<in> set both \<and> Channel \<in> set both))"

definition matchesBindingScope :: "normalized_match \<Rightarrow> route_peer option \<Rightarrow> route_query \<Rightarrow> bool" where
  "matchesBindingScope m peer q =
     ((case nm_peer m of
         Peer_invalid \<Rightarrow> False
       | Peer_valid kind i \<Rightarrow> (case peer of None \<Rightarrow> False | Some (k, j) \<Rightarrow> peerKindMatches kind k \<and> j = i)
       | Peer_wildcard kind \<Rightarrow> (case peer of None \<Rightarrow> False | Some (k, j) \<Rightarrow> peerKindMatches kind k)
       | Peer_none \<Rightarrow> True) \<and>
      (case nm_guildId m of None \<Rightarrow> True | Some g \<Rightarrow> g = q_guildId q) \<and>
      (case nm_teamId m of None \<Rightarrow> True | Some t \<Rightarrow> t = q_teamId q) \<and>
      (case nm_roles m of None \<Rightarrow> True | Some rs \<Rightarrow> list_ex (\<lambda>r. r \<in> set (q_memberRoleIds q)) rs))"

record route_tier =
  t_matchedBy :: matched_by
  t_enabled :: bool
  t_scopePeer :: "route_peer option"
  t_candidates :: "evaluated_binding list"
  t_predicate :: "normalized_match \<Rightarrow> bool"

definition is_valid_peer :: "normalized_match \<Rightarrow> bool" where
  "is_valid_peer m = (case nm_peer m of Peer_valid _ _ \<Rightarrow> True | _ \<Rightarrow> False)"

definition is_wildcard_peer :: "normalized_match \<Rightarrow> bool" where
  "is_wildcard_peer m = (case nm_peer m of Peer_wildcard _ \<Rightarrow> True | _ \<Rightarrow> False)"

definition with_id :: "route_peer option \<Rightarrow> route_peer option" where
  "with_id p = (case p of Some (k, i) \<Rightarrow> if i = [] then None else Some (k, i) | None \<Rightarrow> None)"

definition lookup_in :: "string \<Rightarrow> (string, evaluated_binding list) js_map \<Rightarrow> evaluated_binding list" where
  "lookup_in key m = (if key = [] then [] else nullish (jm_get m key) [])"

definition route_tiers :: "bindings_index \<Rightarrow> route_query \<Rightarrow> route_tier list" where
  "route_tiers ix q =
     (let peer = q_peer q; parent = q_parentPeer q; guild = q_guildId q; team = q_teamId q in
      [\<lparr> t_matchedBy = By_peer, t_enabled = (peer \<noteq> None), t_scopePeer = peer,
         t_candidates = collectPeerIndexedBindings ix peer, t_predicate = is_valid_peer \<rparr>,
       \<lparr> t_matchedBy = By_peer_parent, t_enabled = (with_id parent \<noteq> None), t_scopePeer = with_id parent,
         t_candidates = collectPeerIndexedBindings ix parent, t_predicate = is_valid_peer \<rparr>,
       \<lparr> t_matchedBy = By_peer_wildcard, t_enabled = (peer \<noteq> None), t_scopePeer = peer,
         t_candidates = ix_byPeerWildcard ix, t_predicate = is_wildcard_peer \<rparr>,
       \<lparr> t_matchedBy = By_guild_roles, t_enabled = (guild \<noteq> [] \<and> q_memberRoleIds q \<noteq> []), t_scopePeer = peer,
         t_candidates = lookup_in guild (ix_byGuildWithRoles ix),
         t_predicate = (\<lambda>m. nm_guildId m \<noteq> None \<and> nm_roles m \<noteq> None) \<rparr>,
       \<lparr> t_matchedBy = By_guild, t_enabled = (guild \<noteq> []), t_scopePeer = peer,
         t_candidates = lookup_in guild (ix_byGuild ix),
         t_predicate = (\<lambda>m. nm_guildId m \<noteq> None \<and> nm_roles m = None) \<rparr>,
       \<lparr> t_matchedBy = By_team, t_enabled = (team \<noteq> []), t_scopePeer = peer,
         t_candidates = lookup_in team (ix_byTeam ix), t_predicate = (\<lambda>m. nm_teamId m \<noteq> None) \<rparr>,
       \<lparr> t_matchedBy = By_account, t_enabled = True, t_scopePeer = peer,
         t_candidates = ix_byAccount ix, t_predicate = (\<lambda>m. nm_accountPattern m \<noteq> ''*'') \<rparr>,
       \<lparr> t_matchedBy = By_channel, t_enabled = True, t_scopePeer = peer,
         t_candidates = ix_byChannel ix, t_predicate = (\<lambda>m. nm_accountPattern m = ''*'') \<rparr>])"

fun first_tier_match :: "route_query \<Rightarrow> route_tier list \<Rightarrow> (string \<times> matched_by) option" where
  "first_tier_match q [] = None"
| "first_tier_match q (t # ts) =
     (if \<not> t_enabled t then first_tier_match q ts
      else
        (case find (\<lambda>e. t_predicate t (eb_match e) \<and> matchesBindingScope (eb_match e) (t_scopePeer t) q)
                   (t_candidates t) of
           Some e \<Rightarrow> Some (eb_agentId e, t_matchedBy t)
         | None \<Rightarrow> first_tier_match q ts))"

subsection \<open>The route\<close>

definition deriveLastRoutePolicy :: "string \<Rightarrow> string \<Rightarrow> last_route_policy" where
  "deriveLastRoutePolicy sessionKey mainSessionKey =
     (if sessionKey = mainSessionKey then Policy_main else Policy_session)"

definition resolveInboundLastRouteSessionKey :: "last_route_policy \<Rightarrow> string \<Rightarrow> string \<Rightarrow> string" where
  "resolveInboundLastRouteSessionKey policy mainSessionKey sessionKey =
     (if policy = Policy_main then mainSessionKey else sessionKey)"

definition buildAgentSessionKey ::
    "string \<Rightarrow> string \<Rightarrow> string option \<Rightarrow> route_peer option \<Rightarrow> dm_scope option \<Rightarrow> identity_links option \<Rightarrow> string" where
  "buildAgentSessionKey agentId chan accountId peer dmScope links =
     (let channel = str_or (normalizeToken (Some chan)) ''unknown''
      in buildAgentPeerSessionKey agentId (Some DEFAULT_MAIN_KEY) channel accountId
           (Some (case peer of Some (k, _) \<Rightarrow> k | None \<Rightarrow> Direct))
           (map_option (\<lambda>(_, i). str_or (normalizeId (Some i)) ''unknown'') peer) links dmScope)"

definition choose_route :: "route_config \<Rightarrow> route_query \<Rightarrow> string \<Rightarrow> matched_by \<Rightarrow> resolved_route" where
  "choose_route cfg q agentId matchedBy =
     (let agent = pickFirstExistingAgentId cfg agentId;
          sessionKey = normalizeLowercaseStringOrEmpty (JString (buildAgentSessionKey agent (q_channel q)
            (Some (q_accountId q)) (q_peer q) (Some (nullish (cfg_dmScope cfg) Dm_main)) (cfg_identityLinks cfg)));
          mainSessionKey = normalizeLowercaseStringOrEmpty (JString (buildAgentMainSessionKey agent (Some DEFAULT_MAIN_KEY)))
      in \<lparr> rr_agentId = agent, rr_channel = q_channel q, rr_accountId = q_accountId q,
           rr_sessionKey = sessionKey, rr_mainSessionKey = mainSessionKey,
           rr_lastRoutePolicy = deriveLastRoutePolicy sessionKey mainSessionKey, rr_matchedBy = matchedBy \<rparr>)"

definition route_by_index :: "route_config \<Rightarrow> bindings_index \<Rightarrow> route_query \<Rightarrow> resolved_route" where
  "route_by_index cfg ix q = (case first_tier_match q (route_tiers ix q) of
     Some (agentId, matchedBy) \<Rightarrow> choose_route cfg q agentId matchedBy
   | None \<Rightarrow> choose_route cfg q (resolveDefaultAgentId cfg) By_default)"

definition store_route :: "string \<Rightarrow> resolved_route \<Rightarrow> route_caches \<Rightarrow> route_caches" where
  "store_route key r c =
     (let routes = jm_set (rc_routes c) key r
      in c\<lparr>rc_routes := if MAX_RESOLVED_ROUTE_CACHE_KEYS < length routes then [(key, r)] else routes\<rparr>)"

definition resolveAgentRoute ::
    "bool \<Rightarrow> route_config \<Rightarrow> route_input \<Rightarrow> route_caches \<Rightarrow> resolved_route \<times> route_caches" where
  "resolveAgentRoute verbose cfg input c =
     (let q = normalize_input input;
          dmScope = nullish (cfg_dmScope cfg) Dm_main;
          cached = (\<not> verbose \<and> cfg_identityLinks cfg = None);
          key = buildResolvedRouteCacheKey q dmScope
      in case (if cached then jm_get (rc_routes c) key else None) of
           Some r \<Rightarrow> (r, c)
         | None \<Rightarrow>
             (let (_, c) = getEvaluatedBindingsForChannelAccount cfg (q_channel q) (q_accountId q) c;
                  (ix, c) = getEvaluatedBindingIndexForChannelAccount cfg (q_channel q) (q_accountId q) c;
                  r = route_by_index cfg ix q
              in (r, if cached then store_route key r c else c)))"

subsection \<open>Accounts bound to agents (src/brain/src/routing/bindings.ts)\<close>

text \<open>\<open>chat\<close> is \<open>normalizeChatChannelId\<close>, whose table of channels comes from the plugin catalog, and
  \<open>collate\<close> sorts by \<open>localeCompare\<close>.\<close>

definition normalizeBindingChannelId :: "(string option \<Rightarrow> string option) \<Rightarrow> string option \<Rightarrow> string option" where
  "normalizeBindingChannelId chat raw =
     (if str_truthy (chat raw) then chat raw
      else non_blank (normalizeLowercaseStringOrEmpty (js_opt raw)))"

record bound_account =
  ba_agentId :: string
  ba_accountId :: string
  ba_channelId :: string

definition resolveNormalizedBindingMatch ::
    "(string option \<Rightarrow> string option) \<Rightarrow> agent_binding \<Rightarrow> bound_account option" where
  "resolveNormalizedBindingMatch chat b = (case ab_match b of
     None \<Rightarrow> None
   | Some m \<Rightarrow>
       (case normalizeBindingChannelId chat (bm_channel m) of
          None \<Rightarrow> None
        | Some channelId \<Rightarrow>
            (let accountId = js_trim (nullish (bm_accountId m) []) in
             if accountId = [] \<or> accountId = ''*'' then None
             else Some \<lparr> ba_agentId = normalizeAgentId (Some (ab_agentId b)),
                    ba_accountId = normalizeAccountId (Some accountId), ba_channelId = channelId \<rparr>)))"

definition listBoundAccountIds ::
    "(string option \<Rightarrow> string option) \<Rightarrow> (string list \<Rightarrow> string list) \<Rightarrow> route_config \<Rightarrow> string \<Rightarrow> string list" where
  "listBoundAccountIds chat collate cfg channelId =
     (case normalizeBindingChannelId chat (Some channelId) of
        None \<Rightarrow> []
      | Some ch \<Rightarrow> collate (foldl (\<lambda>ids b. case resolveNormalizedBindingMatch chat b of
            None \<Rightarrow> ids
          | Some r \<Rightarrow> if ba_channelId r = ch then js_set_add ids (ba_accountId r) else ids)
          [] (listRouteBindings cfg)))"

fun first_bound_account ::
    "(string option \<Rightarrow> string option) \<Rightarrow> string \<Rightarrow> string \<Rightarrow> agent_binding list \<Rightarrow> string option" where
  "first_bound_account chat ch agent [] = None"
| "first_bound_account chat ch agent (b # bs) =
     (case resolveNormalizedBindingMatch chat b of
        None \<Rightarrow> first_bound_account chat ch agent bs
      | Some r \<Rightarrow>
          if ba_channelId r \<noteq> ch \<or> ba_agentId r \<noteq> agent then first_bound_account chat ch agent bs
          else Some (ba_accountId r))"

definition resolveDefaultAgentBoundAccountId ::
    "(string option \<Rightarrow> string option) \<Rightarrow> route_config \<Rightarrow> string \<Rightarrow> string option" where
  "resolveDefaultAgentBoundAccountId chat cfg channelId =
     (case normalizeBindingChannelId chat (Some channelId) of
        None \<Rightarrow> None
      | Some ch \<Rightarrow> first_bound_account chat ch (normalizeAgentId (Some (resolveDefaultAgentId cfg)))
          (listRouteBindings cfg))"

type_synonym account_bindings = "(string, (string, string list) js_map) js_map"

definition bind_account :: "(string option \<Rightarrow> string option) \<Rightarrow> account_bindings \<Rightarrow> agent_binding \<Rightarrow> account_bindings" where
  "bind_account chat m b = (case resolveNormalizedBindingMatch chat b of
     None \<Rightarrow> m
   | Some r \<Rightarrow>
       (let byAgent = nullish (jm_get m (ba_channelId r)) [];
            l = nullish (jm_get byAgent (ba_agentId r)) [];
            l = (if ba_accountId r \<in> set l then l else l @ [ba_accountId r])
        in jm_set m (ba_channelId r) (jm_set byAgent (ba_agentId r) l)))"

definition buildChannelAccountBindings :: "(string option \<Rightarrow> string option) \<Rightarrow> route_config \<Rightarrow> account_bindings" where
  "buildChannelAccountBindings chat cfg = foldl (bind_account chat) [] (listRouteBindings cfg)"

definition resolvePreferredAccountId :: "string \<Rightarrow> string list \<Rightarrow> string" where
  "resolvePreferredAccountId defaultAccountId boundAccounts =
     (case boundAccounts of [] \<Rightarrow> defaultAccountId | a # _ \<Rightarrow> a)"

end
