(* ===== verification/Session_Key_Proofs.thy ===== *)
theory Session_Key_Proofs
  imports Session_Key
begin

text \<open>
  Agent and account ids: their character set, length and fixed points; the account caches; the
  structure of session keys.
\<close>

subsection \<open>Characters of ids\<close>

lemma upper_lower: "is_upper_alpha c \<Longrightarrow> is_lower_alpha (js_lower_char c)"
  by (auto simp: is_upper_alpha_def is_lower_alpha_def js_lower_char_def Let_def)

lemma id_char_lower: "id_char c \<Longrightarrow> js_lower_char c = c"
  by (auto simp: id_char_def is_lower_alpha_def is_digit_def js_lower_char_def Let_def)

lemma id_char_lower_valid: "id_char c \<or> is_upper_alpha c \<Longrightarrow> id_char (js_lower_char c)"
  using id_char_lower upper_lower by (metis id_char_def)

lemma id_char_facts: "id_char c \<Longrightarrow> \<not> js_ws c \<and> c \<noteq> CHR '':'' \<and> c \<noteq> CHR 0x09"
  by (auto simp: id_char_def js_ws_def is_lower_alpha_def is_digit_def Let_def)

lemma list_all_id_lower: "list_all id_char s \<Longrightarrow> js_lower s = s"
  by (induction s) (simp_all add: js_lower_Cons id_char_lower)

lemma list_all_id_trim: "list_all id_char s \<Longrightarrow> js_trim s = s"
  by (rule js_trim_no_ws) (auto simp: list_all_iff id_char_facts)

lemma valid_id_chars: "valid_id s \<Longrightarrow> list_all id_char (js_lower s) \<and> js_lower s \<noteq> [] \<and> length s \<le> 64"
proof (cases s)
  case (Cons c cs)
  assume v: "valid_id s"
  with Cons have "list_all (\<lambda>c. id_char c \<or> is_upper_alpha c) s"
    by (auto simp: valid_id_def id_char_def)
  then have "list_all id_char (js_lower s)"
    by (auto simp: js_lower_def list_all_iff id_char_lower_valid)
  with v Cons show ?thesis by (simp add: valid_id_def)
qed (simp add: valid_id_def)

lemma valid_id_lower: "valid_id s \<Longrightarrow> valid_id (js_lower s)"
proof (cases s)
  case (Cons c cs)
  assume v: "valid_id s"
  have "is_digit c \<Longrightarrow> js_lower_char c = c" by (simp add: id_char_lower id_char_def)
  moreover have "is_lower_alpha c \<Longrightarrow> js_lower_char c = c" by (simp add: id_char_lower id_char_def)
  moreover have "list_all (\<lambda>c. id_char c \<or> is_upper_alpha c) cs" using v Cons by (simp add: valid_id_def)
  then have "list_all (\<lambda>c. id_char c \<or> is_upper_alpha c) (js_lower cs)"
    by (auto simp: js_lower_def list_all_iff id_char_lower_valid)
  ultimately show ?thesis using v Cons upper_lower
    by (auto simp: valid_id_def js_lower_Cons) (simp_all add: js_lower_def)
qed (simp add: valid_id_def)

lemma valid_id_no_dash: "valid_id s \<Longrightarrow> hd s \<noteq> CHR ''-''"
  by (cases s) (auto simp: valid_id_def is_lower_alpha_def is_upper_alpha_def is_digit_def Let_def)

subsection \<open>Slugs\<close>

lemma collapse_chars: "list_all id_char (collapse_invalid r s)"
  by (induction s arbitrary: r) (simp_all add: id_char_def)

lemma collapse_id: "list_all id_char s \<Longrightarrow> collapse_invalid r s = s"
  by (induction s arbitrary: r) simp_all

lemma strip_sub: "set (strip_dashes s) \<subseteq> set s"
  by (auto simp: strip_dashes_def Let_def dest!: set_dropWhileD)

lemma strip_ends:
  assumes "strip_dashes s \<noteq> []"
  shows "hd (strip_dashes s) \<noteq> CHR ''-''" and "last (strip_dashes s) \<noteq> CHR ''-''"
proof -
  let ?d = "\<lambda>c. c = CHR ''-''"
  let ?t = "dropWhile ?d s"
  have e: "strip_dashes s = rev (dropWhile ?d (rev ?t))" by (simp add: strip_dashes_def Let_def)
  with assms have ne: "dropWhile ?d (rev ?t) \<noteq> []" by simp
  show "last (strip_dashes s) \<noteq> CHR ''-''" unfolding e using hd_dropWhile [OF ne] ne by (simp add: last_rev)
  obtain u where u: "rev ?t = u @ dropWhile ?d (rev ?t)" by (metis takeWhile_dropWhile_id)
  then have "?t = strip_dashes s @ rev u" unfolding e by (metis rev_append rev_rev_ident)
  then have "hd ?t = hd (strip_dashes s)" "?t \<noteq> []" using assms by (simp_all add: hd_append)
  then show "hd (strip_dashes s) \<noteq> CHR ''-''" using hd_dropWhile [of ?d s] by simp
qed

lemma strip_fixed: "s \<noteq> [] \<Longrightarrow> hd s \<noteq> CHR ''-'' \<Longrightarrow> last s \<noteq> CHR ''-'' \<Longrightarrow> strip_dashes s = s"
  by (simp add: strip_dashes_def Let_def dropWhile_hd_id hd_rev)

lemma slug_facts:
  "list_all id_char (id_slug s)" "length (id_slug s) \<le> 64"
  "id_slug s \<noteq> [] \<Longrightarrow> hd (id_slug s) \<noteq> CHR ''-''"
proof -
  have "list_all id_char (strip_dashes (collapse_invalid False s))"
    using strip_sub [of "collapse_invalid False s"] collapse_chars [of False s] by (auto simp: list_all_iff)
  then show "list_all id_char (id_slug s)" unfolding id_slug_def by (auto simp: list_all_iff dest: in_set_takeD)
  show "length (id_slug s) \<le> 64" by (simp add: id_slug_def)
  assume "id_slug s \<noteq> []"
  then show "hd (id_slug s) \<noteq> CHR ''-''"
    using strip_ends(1) [of "collapse_invalid False s"] by (simp add: id_slug_def hd_take take_eq_Nil)
qed

text \<open>An id made only of id characters that starts with a letter or a digit is valid.\<close>

lemma id_chars_valid:
  assumes "list_all id_char s" "s \<noteq> []" "length s \<le> 64" "hd s \<noteq> CHR ''-''" "hd s \<noteq> CHR ''_''"
  shows "valid_id s"
  using assms by (cases s) (auto simp: valid_id_def id_char_def list_all_iff)

subsection \<open>Agent ids\<close>

definition safe_id :: "string \<Rightarrow> bool" where
  "safe_id a \<longleftrightarrow> a \<noteq> [] \<and> length a \<le> 64 \<and> list_all id_char a \<and> hd a \<noteq> CHR ''-''"

lemma safe_main: "safe_id DEFAULT_AGENT_ID" "safe_id DEFAULT_ACCOUNT_ID"
  by (simp_all add: safe_id_def DEFAULT_AGENT_ID_def DEFAULT_ACCOUNT_ID_def id_char_def is_lower_alpha_def Let_def)

lemma safe_valid: "valid_id s \<Longrightarrow> safe_id (js_lower s)"
  using valid_id_chars [of s] valid_id_no_dash [OF valid_id_lower, of s] by (simp add: safe_id_def js_lower_def)

lemma safe_slug: "id_slug s \<noteq> [] \<Longrightarrow> safe_id (id_slug s)"
  using slug_facts [of s] by (simp add: safe_id_def)

lemma agent_id_safe: "safe_id (normalizeAgentId v)"
  using safe_main(1) safe_valid safe_slug
  by (auto simp: normalizeAgentId_def Let_def str_or_def)

lemma safe_id_trim [simp]: "safe_id a \<Longrightarrow> js_trim a = a"
  by (simp add: safe_id_def list_all_id_trim)

lemma safe_id_lower [simp]: "safe_id a \<Longrightarrow> js_lower a = a"
  by (simp add: safe_id_def list_all_id_lower)

lemma safe_id_no_colon: "safe_id a \<Longrightarrow> CHR '':'' \<notin> set a"
  by (auto simp: safe_id_def list_all_iff dest: id_char_facts)

lemma safe_id_no_tab: "safe_id a \<Longrightarrow> CHR 0x09 \<notin> set a"
  by (auto simp: safe_id_def list_all_iff dest: id_char_facts)

lemma agent_id_fixed:
  assumes "safe_id a" "hd a \<noteq> CHR ''_''"
  shows "normalizeAgentId (Some a) = a"
proof -
  have "valid_id a" using assms by (auto intro: id_chars_valid simp: safe_id_def)
  with assms show ?thesis by (simp add: normalizeAgentId_def Let_def safe_id_def list_all_id_trim list_all_id_lower)
qed

lemma account_id_safe: "safe_id (normalizeAccountId v)"
  using safe_main(2) safe_valid safe_slug
  by (auto simp: normalizeAccountId_def normalizeCanonicalAccountId_def canonicalizeAccountId_def Let_def
      nullish_def split: option.splits if_splits)

subsection \<open>The account caches\<close>

lemma setNormalizeCache_cases:
  "setNormalizeCache c k v = jm_set c k v \<or> (\<exists>k0. setNormalizeCache c k v = jm_delete (jm_set c k v) k0)"
  unfolding setNormalizeCache_def Let_def by (cases "jm_set c k v") auto

lemma setNormalizeCache_get:
  assumes "jm_get (setNormalizeCache c k v) k' = Some w"
  shows "(k' = k \<and> w = v) \<or> jm_get c k' = Some w"
proof -
  from setNormalizeCache_cases [of c k v] assms have "jm_get (jm_set c k v) k' = Some w"
    by (auto split: if_splits)
  then show ?thesis by (simp split: if_splits)
qed

lemma setNormalizeCache_wf: "jm_wf c \<Longrightarrow> jm_wf (setNormalizeCache c k v)"
  using setNormalizeCache_cases [of c k v] by (metis jm_wf_delete jm_wf_set)

lemma length_delete_hd: "jm_wf ((k, v) # c) \<Longrightarrow> length (jm_delete ((k, v) # c) k) = length c"
  using length_jm_delete [of "(k, v) # c" k v] by simp

lemma setNormalizeCache_bound:
  assumes "jm_wf c" "length c \<le> ACCOUNT_ID_CACHE_MAX"
  shows "length (setNormalizeCache c k v) \<le> ACCOUNT_ID_CACHE_MAX"
proof (cases "jm_set c k v")
  case (Cons p rest)
  obtain k0 v0 where p: "p = (k0, v0)" by (cases p)
  have "jm_wf (jm_set c k v)" using assms(1) by (rule jm_wf_set)
  then have "length (jm_delete (jm_set c k v) k0) = length rest"
    unfolding Cons p by (rule length_delete_hd)
  moreover have "length (jm_set c k v) \<le> Suc (length c)" by (simp add: length_jm_set)
  ultimately show ?thesis using assms(2) Cons p by (auto simp: setNormalizeCache_def Let_def)
qed (simp add: setNormalizeCache_def Let_def)

definition account_cache_inv :: "account_cache \<Rightarrow> bool" where
  "account_cache_inv c \<longleftrightarrow> jm_wf c \<and> length c \<le> ACCOUNT_ID_CACHE_MAX \<and>
     (\<forall>k v. jm_get c k = Some v \<longrightarrow> v = nullish (normalizeCanonicalAccountId k) DEFAULT_ACCOUNT_ID)"

definition account_cache_step :: "account_cache \<Rightarrow> string option \<Rightarrow> account_cache" where
  "account_cache_step c v = snd (normalizeAccountId_cached c v)"

lemma account_cache_step_inv: "account_cache_inv c \<Longrightarrow> account_cache_inv (account_cache_step c v)"
  by (auto simp: account_cache_inv_def account_cache_step_def normalizeAccountId_cached_def Let_def
      setNormalizeCache_wf setNormalizeCache_bound dest: setNormalizeCache_get)

interpretation account_cache: bounded_machine account_cache_step account_cache_inv length ACCOUNT_ID_CACHE_MAX
  by unfold_locales (simp_all add: account_cache_step_inv, simp add: account_cache_inv_def)

lemma account_cache_transparent:
  assumes "account_cache_inv c"
  shows "fst (normalizeAccountId_cached c v) = normalizeAccountId v"
proof -
  have "the (jm_get c k) = nullish (normalizeCanonicalAccountId k) DEFAULT_ACCOUNT_ID" if "str_truthy (jm_get c k)" for k
    using assms that unfolding account_cache_inv_def str_truthy_iff by auto
  then show ?thesis by (simp add: normalizeAccountId_cached_def normalizeAccountId_def Let_def)
qed

definition optional_cache_inv :: "optional_account_cache \<Rightarrow> bool" where
  "optional_cache_inv c \<longleftrightarrow> jm_wf c \<and> length c \<le> ACCOUNT_ID_CACHE_MAX \<and>
     (\<forall>k v. jm_get c k = Some v \<longrightarrow> v = normalizeCanonicalAccountId k)"

definition optional_cache_step :: "optional_account_cache \<Rightarrow> string option \<Rightarrow> optional_account_cache" where
  "optional_cache_step c v = snd (normalizeOptionalAccountId_cached c v)"

lemma optional_cache_step_inv: "optional_cache_inv c \<Longrightarrow> optional_cache_inv (optional_cache_step c v)"
  by (auto simp: optional_cache_inv_def optional_cache_step_def normalizeOptionalAccountId_cached_def Let_def
      setNormalizeCache_wf setNormalizeCache_bound dest: setNormalizeCache_get split: option.splits)

interpretation optional_cache: bounded_machine optional_cache_step optional_cache_inv length ACCOUNT_ID_CACHE_MAX
  by unfold_locales (simp_all add: optional_cache_step_inv, simp add: optional_cache_inv_def)

lemma optional_cache_transparent:
  "optional_cache_inv c \<Longrightarrow> fst (normalizeOptionalAccountId_cached c v) = normalizeOptionalAccountId v"
  by (auto simp: optional_cache_inv_def normalizeOptionalAccountId_cached_def normalizeOptionalAccountId_def
      Let_def split: option.splits)

subsection \<open>Session keys\<close>

definition agent_of_key :: "string \<Rightarrow> string" where
  "agent_of_key k = takeWhile (\<lambda>c. c \<noteq> CHR '':'') (drop 6 k)"

lemma agent_of_key_prefix:
  assumes "safe_id a"
  shows "agent_of_key (''agent:'' @ a @ '':'' @ r) = a"
proof -
  have "\<forall>c \<in> set a. c \<noteq> CHR '':''" using safe_id_no_colon [OF assms] by metis
  then show ?thesis by (simp add: agent_of_key_def takeWhile_append2)
qed

lemma main_key_agent: "agent_of_key (buildAgentMainSessionKey a mk) = normalizeAgentId (Some a)"
  unfolding buildAgentMainSessionKey_def by (rule agent_of_key_prefix [OF agent_id_safe])

lemma peer_key_form:
  "\<exists>r. buildAgentPeerSessionKey a mk ch acc k p l s = ''agent:'' @ normalizeAgentId (Some a) @ '':'' @ r"
  unfolding buildAgentPeerSessionKey_def buildAgentMainSessionKey_def Let_def
  by (simp only: if_distrib append_assoc) auto

lemma peer_key_agent: "agent_of_key (buildAgentPeerSessionKey a mk ch acc k p l s) = normalizeAgentId (Some a)"
  using peer_key_form [of a mk ch acc k p l s] agent_of_key_prefix [OF agent_id_safe] by metis

end
