(* ===== verification/Route_Proofs.thy ===== *)
theory Route_Proofs
  imports Route_Resolve Session_Key_Proofs
begin

text \<open>
  The indexed and cached routing agrees with a linear scan of the configured bindings. The scan is
  the specification: the bindings that apply to the channel and the account, in configuration
  order, searched tier by tier.
\<close>

subsection \<open>The specification\<close>

fun evaluate_all :: "nat \<Rightarrow> agent_binding list \<Rightarrow> (string \<times> evaluated_binding) list" where
  "evaluate_all order [] = []"
| "evaluate_all order (b # bs) =
     (let channel = normalizeToken (Option.bind (ab_match b) bm_channel) in
      if channel = [] then evaluate_all order bs
      else (channel, \<lparr> eb_agentId = ab_agentId b, eb_match = normalizeBindingMatch (ab_match b),
             eb_order = order \<rparr>) # evaluate_all (order + 1) bs)"

definition any_account :: "evaluated_binding \<Rightarrow> bool" where
  "any_account e \<longleftrightarrow> nm_accountPattern (eb_match e) = ''*''"

definition for_account :: "string \<Rightarrow> evaluated_binding \<Rightarrow> bool" where
  "for_account account e \<longleftrightarrow> \<not> any_account e \<and> resolveAccountPatternKey (nm_accountPattern (eb_match e)) = account"

definition on_channel :: "string \<Rightarrow> (string \<times> evaluated_binding) list \<Rightarrow> evaluated_binding list" where
  "on_channel channel es = map snd (filter (\<lambda>p. fst p = channel) es)"

definition applicable_bindings :: "route_config \<Rightarrow> string \<Rightarrow> string \<Rightarrow> evaluated_binding list" where
  "applicable_bindings cfg channel account =
     filter (\<lambda>e. any_account e \<or> for_account account e)
       (on_channel channel (evaluate_all 0 (listRouteBindings cfg)))"

datatype binding_class =
    Class_peer | Class_wildcard | Class_guild_roles | Class_guild | Class_team | Class_account | Class_channel

definition binding_class :: "normalized_match \<Rightarrow> binding_class" where
  "binding_class m = (case nm_peer m of
     Peer_valid _ _ \<Rightarrow> Class_peer
   | Peer_wildcard _ \<Rightarrow> Class_wildcard
   | _ \<Rightarrow>
       if nm_guildId m \<noteq> None \<and> nm_roles m \<noteq> None then Class_guild_roles
       else if nm_guildId m \<noteq> None then Class_guild
       else if nm_teamId m \<noteq> None then Class_team
       else if nm_accountPattern m \<noteq> ''*'' then Class_account else Class_channel)"

fun first_match ::
    "route_query \<Rightarrow> evaluated_binding list \<Rightarrow> (matched_by \<times> binding_class \<times> route_peer option) list \<Rightarrow>
     (string \<times> matched_by) option" where
  "first_match q es [] = None"
| "first_match q es ((by, cl, peer) # rest) =
     (case find (\<lambda>e. binding_class (eb_match e) = cl \<and> matchesBindingScope (eb_match e) peer q) es of
        Some e \<Rightarrow> Some (eb_agentId e, by)
      | None \<Rightarrow> first_match q es rest)"

definition tier_order :: "route_query \<Rightarrow> (matched_by \<times> binding_class \<times> route_peer option) list" where
  "tier_order q =
     [(By_peer, Class_peer, q_peer q),
      (By_peer_parent, Class_peer, with_id (q_parentPeer q)),
      (By_peer_wildcard, Class_wildcard, q_peer q),
      (By_guild_roles, Class_guild_roles, q_peer q),
      (By_guild, Class_guild, q_peer q),
      (By_team, Class_team, q_peer q),
      (By_account, Class_account, q_peer q),
      (By_channel, Class_channel, q_peer q)]"

definition spec_route :: "route_config \<Rightarrow> route_query \<Rightarrow> resolved_route" where
  "spec_route cfg q =
     (case first_match q (applicable_bindings cfg (q_channel q) (q_accountId q)) (tier_order q) of
        Some (agentId, by) \<Rightarrow> choose_route cfg q agentId by
      | None \<Rightarrow> choose_route cfg q (resolveDefaultAgentId cfg) By_default)"

subsection \<open>Buckets\<close>

definition account_bucket :: "(string, channel_bindings) js_map \<Rightarrow> string \<Rightarrow> string \<Rightarrow> evaluated_binding list" where
  "account_bucket m channel account =
     nullish (Option.bind (jm_get m channel) (\<lambda>b. jm_get (cb_byAccount b) account)) []"

definition any_bucket :: "(string, channel_bindings) js_map \<Rightarrow> string \<Rightarrow> evaluated_binding list" where
  "any_bucket m channel = nullish (map_option cb_byAnyAccount (jm_get m channel)) []"

lemma push_to_get:
  "nullish (jm_get (push_to m k v) k') [] = nullish (jm_get m k') [] @ (if k' = k then [v] else [])"
  by (auto simp: push_to_def split: option.split)

lemma bucket_add:
  "nullish (jm_get (cb_byAccount (add_to_bucket b e)) account) [] =
     nullish (jm_get (cb_byAccount b) account) [] @ (if for_account account e then [e] else [])"
  "cb_byAnyAccount (add_to_bucket b e) = cb_byAnyAccount b @ (if any_account e then [e] else [])"
  by (simp_all add: add_to_bucket_def push_to_get for_account_def any_account_def eq_commute)

lemma buckets_spec:
  "account_bucket (buildEvaluatedBindingsByChannel n0 m bs) channel account =
     account_bucket m channel account @ filter (for_account account) (on_channel channel (evaluate_all n0 bs)) \<and>
   any_bucket (buildEvaluatedBindingsByChannel n0 m bs) channel =
     any_bucket m channel @ filter any_account (on_channel channel (evaluate_all n0 bs))"
proof (induction n0 m bs rule: buildEvaluatedBindingsByChannel.induct)
  case (1 order m)
  show ?case by (simp add: on_channel_def)
next
  case (2 order m b bs)
  let ?ch = "normalizeToken (Option.bind (ab_match b) bm_channel)"
  let ?e = "\<lparr> eb_agentId = ab_agentId b, eb_match = normalizeBindingMatch (ab_match b), eb_order = order \<rparr>"
  let ?b = "nullish (jm_get m ?ch) \<lparr> cb_byAccount = [], cb_byAnyAccount = [] \<rparr>"
  show ?case
  proof (cases "?ch = []")
    case True
    with 2(1) show ?thesis by simp
  next
    case False
    let ?m = "jm_set m ?ch (add_to_bucket ?b ?e)"
    have a: "account_bucket ?m channel account =
        account_bucket m channel account @ (if channel = ?ch \<and> for_account account ?e then [?e] else [])"
      by (simp add: account_bucket_def bucket_add split: option.split)
        (auto simp: nullish_def split: option.splits)
    have n: "any_bucket ?m channel = any_bucket m channel @ (if channel = ?ch \<and> any_account ?e then [?e] else [])"
      by (simp add: any_bucket_def bucket_add split: option.split) (auto simp: nullish_def split: option.splits)
    from 2(2) [OF refl False refl refl] False show ?thesis
      by (simp add: Let_def a n) (simp add: on_channel_def)
  qed
qed

subsection \<open>Merging in source order\<close>

lemma evaluate_all_order: "p \<in> set (evaluate_all n0 bs) \<Longrightarrow> n0 \<le> eb_order (snd p)"
proof (induction n0 bs rule: evaluate_all.induct)
  case (2 order b bs)
  show ?case
  proof (cases "normalizeToken (Option.bind (ab_match b) bm_channel) = []")
    case True
    with 2 show ?thesis by simp
  next
    case False
    with 2(3) 2(2) [OF refl False] show ?thesis by (auto simp: Let_def)
  qed
qed simp

lemma evaluate_all_sorted: "sorted_wrt (<) (map (eb_order \<circ> snd) (evaluate_all n0 bs))"
proof (induction n0 bs rule: evaluate_all.induct)
  case (2 order b bs)
  show ?case
  proof (cases "normalizeToken (Option.bind (ab_match b) bm_channel) = []")
    case True
    with 2 show ?thesis by simp
  next
    case False
    have "order < eb_order (snd p)" if "p \<in> set (evaluate_all (order + 1) bs)" for p
      using evaluate_all_order [OF that] by simp
    with False 2(2) [OF refl False] show ?thesis by (simp add: Let_def)
  qed
qed simp

lemma on_channel_sorted: "sorted_wrt (<) (map eb_order (on_channel channel (evaluate_all n0 bs)))"
proof -
  have "sorted_wrt (\<lambda>p r. eb_order (snd p) < eb_order (snd r)) (filter (\<lambda>p. fst p = channel) (evaluate_all n0 bs))"
    using evaluate_all_sorted [of n0 bs] by (simp add: sorted_wrt_map sorted_wrt_filter comp_def)
  then show ?thesis by (simp add: on_channel_def sorted_wrt_map)
qed

lemma merge_Cons_left:
  "(\<And>y. y \<in> set ys \<Longrightarrow> eb_order x \<le> eb_order y) \<Longrightarrow> merge_by_order (x # xs) ys = x # merge_by_order xs ys"
  by (cases ys; cases xs) auto

lemma merge_Cons_right:
  assumes "\<And>x. x \<in> set xs \<Longrightarrow> eb_order y < eb_order x"
  shows "merge_by_order xs (y # ys) = y # merge_by_order xs ys"
proof (cases xs)
  case (Cons a l)
  with assms [of a] have "\<not> eb_order a \<le> eb_order y" by simp
  with Cons show ?thesis by simp
qed simp

lemma merge_filter:
  assumes "sorted_wrt (<) (map eb_order es)" "\<And>e. \<not> (P e \<and> Q e)"
  shows "merge_by_order (filter P es) (filter Q es) = filter (\<lambda>e. P e \<or> Q e) es"
  using assms(1)
proof (induction es)
  case (Cons e es)
  then have IH: "merge_by_order (filter P es) (filter Q es) = filter (\<lambda>e. P e \<or> Q e) es"
    and lt: "\<And>x. x \<in> set es \<Longrightarrow> eb_order e < eb_order x" by auto
  consider "P e" "\<not> Q e" | "Q e" "\<not> P e" | "\<not> P e" "\<not> Q e" using assms(2) by blast
  then show ?case
  proof cases
    case 1
    have "merge_by_order (e # filter P es) (filter Q es) = e # merge_by_order (filter P es) (filter Q es)"
      by (rule merge_Cons_left) (use lt in \<open>auto intro: less_imp_le\<close>)
    with 1 IH show ?thesis by simp
  next
    case 2
    have "merge_by_order (filter P es) (e # filter Q es) = e # merge_by_order (filter P es) (filter Q es)"
      by (rule merge_Cons_right) (use lt in auto)
    with 2 IH show ?thesis by simp
  next
    case 3
    with IH show ?thesis by simp
  qed
qed simp

lemma merge_Nil_right: "merge_by_order xs [] = xs"
  by (cases xs) simp_all

lemma evaluated_bindings_spec: "evaluated_bindings cfg channel account = applicable_bindings cfg channel account"
proof -
  let ?es = "on_channel channel (evaluate_all 0 (listRouteBindings cfg))"
  let ?m = "buildEvaluatedBindingsByChannel 0 [] (listRouteBindings cfg)"
  have b: "account_bucket ?m channel account = filter (for_account account) ?es" "any_bucket ?m channel = filter any_account ?es"
    using buckets_spec [of 0 "[]" "listRouteBindings cfg" channel account]
    by (simp_all add: account_bucket_def any_bucket_def)
  have "evaluated_bindings cfg channel account = merge_by_order (filter (for_account account) ?es) (filter any_account ?es)"
    using b unfolding evaluated_bindings_def mergeEvaluatedBindingsInSourceOrder_def account_bucket_def any_bucket_def Let_def
    by (simp add: merge_Nil_right)
  also have "\<dots> = filter (\<lambda>e. for_account account e \<or> any_account e) ?es"
    by (rule merge_filter [OF on_channel_sorted]) (simp add: for_account_def)
  finally show ?thesis unfolding applicable_bindings_def by (simp add: disj_commute)
qed

subsection \<open>The index\<close>

lemma pushToIndexMap_get:
  "g \<noteq> [] \<Longrightarrow> nullish (jm_get (pushToIndexMap m key e) g) [] =
     nullish (jm_get m g) [] @ (if key = Some g then [e] else [])"
  by (cases key) (auto simp: pushToIndexMap_def push_to_get)

definition peer_key_of :: "string \<Rightarrow> evaluated_binding \<Rightarrow> bool" where
  "peer_key_of key e = (case nm_peer (eb_match e) of
     Peer_valid k i \<Rightarrow> key \<in> set (peerLookupKeys k i) | _ \<Rightarrow> False)"

definition class_of :: "evaluated_binding \<Rightarrow> binding_class" where
  "class_of e = binding_class (eb_match e)"

lemma index_peer_one:
  assumes "key \<noteq> []"
  shows "nullish (jm_get (ix_byPeer (index_one ix e)) key) [] =
    nullish (jm_get (ix_byPeer ix) key) [] @ (if peer_key_of key e then [e] else [])"
proof (cases "nm_peer (eb_match e)")
  case (Peer_valid k i)
  then show ?thesis using assms
    by (cases k) (simp_all add: index_one_def Let_def peerLookupKeys_def pushToIndexMap_get peer_key_of_def
        eq_commute chat_type_text_def)
qed (simp_all add: index_one_def Let_def peer_key_of_def)

lemma index_lists_one:
  "ix_byPeerWildcard (index_one ix e) = ix_byPeerWildcard ix @ (if class_of e = Class_wildcard then [e] else [])"
  "ix_byAccount (index_one ix e) = ix_byAccount ix @ (if class_of e = Class_account then [e] else [])"
  "ix_byChannel (index_one ix e) = ix_byChannel ix @ (if class_of e = Class_channel then [e] else [])"
  by (cases "nm_peer (eb_match e)"; simp add: index_one_def Let_def class_of_def binding_class_def)+

lemma index_maps_one:
  assumes "g \<noteq> []"
  shows
  "nullish (jm_get (ix_byGuildWithRoles (index_one ix e)) g) [] = nullish (jm_get (ix_byGuildWithRoles ix) g) [] @
     (if class_of e = Class_guild_roles \<and> nm_guildId (eb_match e) = Some g then [e] else [])"
  "nullish (jm_get (ix_byGuild (index_one ix e)) g) [] = nullish (jm_get (ix_byGuild ix) g) [] @
     (if class_of e = Class_guild \<and> nm_guildId (eb_match e) = Some g then [e] else [])"
  "nullish (jm_get (ix_byTeam (index_one ix e)) g) [] = nullish (jm_get (ix_byTeam ix) g) [] @
     (if class_of e = Class_team \<and> nm_teamId (eb_match e) = Some g then [e] else [])"
  using assms
  by (cases "nm_peer (eb_match e)";
      simp add: index_one_def Let_def class_of_def binding_class_def pushToIndexMap_get)+

lemma fold_append:
  assumes "\<And>ix e. get (index_one ix e) = get ix @ (if P e then [e] else [])"
  shows "get (foldl index_one ix es) = get ix @ filter P es"
  by (induction es arbitrary: ix) (simp_all add: assms)

lemmas index_fold =
  fold_append [where get = ix_byPeerWildcard and P = "\<lambda>e. class_of e = Class_wildcard", OF index_lists_one(1)]
  fold_append [where get = ix_byAccount and P = "\<lambda>e. class_of e = Class_account", OF index_lists_one(2)]
  fold_append [where get = ix_byChannel and P = "\<lambda>e. class_of e = Class_channel", OF index_lists_one(3)]

lemma index_lists:
  "ix_byPeerWildcard (buildEvaluatedBindingsIndex es) = filter (\<lambda>e. class_of e = Class_wildcard) es"
  "ix_byAccount (buildEvaluatedBindingsIndex es) = filter (\<lambda>e. class_of e = Class_account) es"
  "ix_byChannel (buildEvaluatedBindingsIndex es) = filter (\<lambda>e. class_of e = Class_channel) es"
  unfolding buildEvaluatedBindingsIndex_def index_fold by (simp_all add: empty_index_def)

lemma index_peer:
  assumes "key \<noteq> []"
  shows "nullish (jm_get (ix_byPeer (buildEvaluatedBindingsIndex es)) key) [] = filter (peer_key_of key) es"
  using fold_append [where get = "\<lambda>ix. nullish (jm_get (ix_byPeer ix) key) []" and P = "peer_key_of key",
      OF index_peer_one [OF assms], of empty_index es]
  by (simp add: buildEvaluatedBindingsIndex_def empty_index_def)

lemma index_guild:
  "lookup_in g (ix_byGuildWithRoles (buildEvaluatedBindingsIndex es)) =
     (if g = [] then [] else filter (\<lambda>e. class_of e = Class_guild_roles \<and> nm_guildId (eb_match e) = Some g) es)"
  "lookup_in g (ix_byGuild (buildEvaluatedBindingsIndex es)) =
     (if g = [] then [] else filter (\<lambda>e. class_of e = Class_guild \<and> nm_guildId (eb_match e) = Some g) es)"
  "lookup_in g (ix_byTeam (buildEvaluatedBindingsIndex es)) =
     (if g = [] then [] else filter (\<lambda>e. class_of e = Class_team \<and> nm_teamId (eb_match e) = Some g) es)"
  using
    fold_append [where get = "\<lambda>ix. nullish (jm_get (ix_byGuildWithRoles ix) g) []" and
      P = "\<lambda>e. class_of e = Class_guild_roles \<and> nm_guildId (eb_match e) = Some g",
      OF index_maps_one(1), of empty_index es]
    fold_append [where get = "\<lambda>ix. nullish (jm_get (ix_byGuild ix) g) []" and
      P = "\<lambda>e. class_of e = Class_guild \<and> nm_guildId (eb_match e) = Some g",
      OF index_maps_one(2), of empty_index es]
    fold_append [where get = "\<lambda>ix. nullish (jm_get (ix_byTeam ix) g) []" and
      P = "\<lambda>e. class_of e = Class_team \<and> nm_teamId (eb_match e) = Some g",
      OF index_maps_one(3), of empty_index es]
  by (simp_all add: buildEvaluatedBindingsIndex_def empty_index_def lookup_in_def)

subsection \<open>Candidates by peer\<close>

lemma add_unseen_known: "eb_order ` set es \<subseteq> eb_order ` set out \<Longrightarrow> add_unseen out es = out"
  by (induction es arbitrary: out) auto

lemma add_unseen_fresh:
  "distinct (map eb_order (out @ es)) \<Longrightarrow> add_unseen out es = out @ es"
proof (induction es arbitrary: out)
  case (Cons e es)
  then have "eb_order e \<notin> set (map eb_order out)" by auto
  with Cons.IH [of "out @ [e]"] Cons.prems show ?case by simp
qed simp

definition peer_candidate :: "chat_type \<Rightarrow> string \<Rightarrow> evaluated_binding \<Rightarrow> bool" where
  "peer_candidate kind i e = (case nm_peer (eb_match e) of
     Peer_valid k j \<Rightarrow> peerKindMatches k kind \<and> i = j | _ \<Rightarrow> False)"

lemma peer_key_candidate:
  "key \<in> set (peerLookupKeys kind i) \<Longrightarrow> peer_key_of key = peer_candidate kind i"
proof
  fix e
  assume k: "key \<in> set (peerLookupKeys kind i)"
  show "peer_key_of key e = peer_candidate kind i e"
  proof (cases "nm_peer (eb_match e)")
    case (Peer_valid k' j)
    with k show ?thesis
      by (cases kind; cases k')
        (auto simp: peer_key_of_def peer_candidate_def peerLookupKeys_def peerKindMatches_def chat_type_text_def Let_def)
  qed (simp_all add: peer_key_of_def peer_candidate_def)
qed

lemma collect_peer:
  assumes "distinct (map eb_order es)"
  shows "collectPeerIndexedBindings (buildEvaluatedBindingsIndex es) (Some (kind, i)) = filter (peer_candidate kind i) es"
proof -
  let ?ix = "buildEvaluatedBindingsIndex es" and ?c = "filter (peer_candidate kind i) es"
  have one: "(case jm_get (ix_byPeer ?ix) key of None \<Rightarrow> out | Some ms \<Rightarrow> add_unseen out ms) = add_unseen out ?c"
    if "key \<in> set (peerLookupKeys kind i)" for key out
  proof -
    from that have "key \<noteq> []" by (cases kind) (auto simp: peerLookupKeys_def chat_type_text_def)
    from index_peer [OF this, of es] show ?thesis unfolding peer_key_candidate [OF that]
      by (cases "jm_get (ix_byPeer ?ix) key") simp_all
  qed
  have "distinct (map eb_order ?c)" using assms by (rule distinct_map_filter)
  then have f: "add_unseen [] ?c = ?c" using add_unseen_fresh [of "[]" ?c] by simp
  have k: "add_unseen ?c ?c = ?c" by (rule add_unseen_known) simp
  have "foldl (\<lambda>out key. case jm_get (ix_byPeer ?ix) key of None \<Rightarrow> out | Some ms \<Rightarrow> add_unseen out ms) []
      (peerLookupKeys kind i) = foldl (\<lambda>out key. add_unseen out ?c) [] (peerLookupKeys kind i)"
    by (rule foldl_cong) (simp_all add: one)
  also have "\<dots> = ?c" using f k by (cases kind) (simp_all add: peerLookupKeys_def)
  finally show ?thesis by (simp add: collectPeerIndexedBindings_def)
qed

subsection \<open>Tiers\<close>

lemma find_filter: "find P (filter R es) = find (\<lambda>e. R e \<and> P e) es"
  by (induction es) auto

lemma find_cong_on: "(\<And>e. e \<in> set es \<Longrightarrow> P e = Q e) \<Longrightarrow> find P es = find Q es"
  by (rule find_cong) auto

lemma find_none: "(\<And>e. e \<in> set es \<Longrightarrow> \<not> P e) \<Longrightarrow> find P es = None"
  by (auto simp: find_None_iff)

definition tier_find :: "route_query \<Rightarrow> route_tier \<Rightarrow> evaluated_binding option" where
  "tier_find q t = (if t_enabled t
     then find (\<lambda>e. t_predicate t (eb_match e) \<and> matchesBindingScope (eb_match e) (t_scopePeer t) q) (t_candidates t)
     else None)"

lemma first_tier_match_Cons:
  "first_tier_match q (t # ts) = (case tier_find q t of
     Some e \<Rightarrow> Some (eb_agentId e, t_matchedBy t) | None \<Rightarrow> first_tier_match q ts)"
  by (simp add: tier_find_def)

definition class_find ::
    "route_query \<Rightarrow> evaluated_binding list \<Rightarrow> binding_class \<Rightarrow> route_peer option \<Rightarrow> evaluated_binding option" where
  "class_find q es cl peer = find (\<lambda>e. class_of e = cl \<and> matchesBindingScope (eb_match e) peer q) es"

lemma first_match_Cons:
  "first_match q es ((by, cl, peer) # rest) = (case class_find q es cl peer of
     Some e \<Rightarrow> Some (eb_agentId e, by) | None \<Rightarrow> first_match q es rest)"
  by (simp add: class_find_def class_of_def)

lemma match_class:
  assumes "matchesBindingScope m peer q"
  shows "binding_class m = Class_peer \<longleftrightarrow> is_valid_peer m"
    and "binding_class m = Class_wildcard \<longleftrightarrow> is_wildcard_peer m"
    and "is_valid_peer m \<or> is_wildcard_peer m \<Longrightarrow> peer \<noteq> None"
  using assms
  by (cases "nm_peer m"; simp add: binding_class_def is_valid_peer_def is_wildcard_peer_def
      matchesBindingScope_def split: option.splits)+

lemma peer_find:
  assumes "distinct (map eb_order es)"
  shows "tier_find q \<lparr> t_matchedBy = by, t_enabled = (peer \<noteq> None), t_scopePeer = peer,
      t_candidates = collectPeerIndexedBindings (buildEvaluatedBindingsIndex es) peer, t_predicate = is_valid_peer \<rparr> =
    class_find q es Class_peer peer"
proof (cases peer)
  case None
  then have "class_find q es Class_peer peer = None"
    unfolding class_find_def class_of_def by (intro find_none) (auto dest: match_class)
  with None show ?thesis by (simp add: tier_find_def)
next
  case (Some p)
  obtain kind i where p: "p = (kind, i)" by (cases p)
  have eq: "(peer_candidate kind i e \<and> is_valid_peer (eb_match e) \<and> matchesBindingScope (eb_match e) peer q) =
      (class_of e = Class_peer \<and> matchesBindingScope (eb_match e) peer q)" for e
    by (cases "nm_peer (eb_match e)")
      (auto simp: Some p peer_candidate_def is_valid_peer_def class_of_def binding_class_def matchesBindingScope_def)
  then show ?thesis
    by (simp add: tier_find_def class_find_def Some p collect_peer [OF assms] find_filter)
qed

lemma parent_find:
  assumes "distinct (map eb_order es)"
  shows "tier_find q \<lparr> t_matchedBy = by, t_enabled = (with_id peer \<noteq> None), t_scopePeer = with_id peer,
      t_candidates = collectPeerIndexedBindings (buildEvaluatedBindingsIndex es) peer, t_predicate = is_valid_peer \<rparr> =
    class_find q es Class_peer (with_id peer)"
proof (cases "with_id peer = None")
  case True
  then have "class_find q es Class_peer (with_id peer) = None"
    unfolding class_find_def class_of_def by (intro find_none) (auto dest: match_class)
  with True show ?thesis by (simp add: tier_find_def)
next
  case False
  then have "with_id peer = peer" by (cases peer) (auto simp: with_id_def split: prod.splits if_splits)
  with peer_find [OF assms, of q "by" peer] show ?thesis by simp
qed

definition proper_match :: "normalized_match \<Rightarrow> bool" where
  "proper_match m \<longleftrightarrow> nm_guildId m \<noteq> Some [] \<and> nm_teamId m \<noteq> Some []"

lemma class_facts:
  "class_of e = Class_guild_roles \<Longrightarrow> nm_guildId (eb_match e) \<noteq> None \<and> nm_roles (eb_match e) \<noteq> None"
  "class_of e = Class_guild \<Longrightarrow> nm_guildId (eb_match e) \<noteq> None \<and> nm_roles (eb_match e) = None"
  "class_of e = Class_team \<Longrightarrow> nm_teamId (eb_match e) \<noteq> None"
  "class_of e = Class_account \<Longrightarrow> nm_accountPattern (eb_match e) \<noteq> ''*''"
  "class_of e = Class_channel \<Longrightarrow> nm_accountPattern (eb_match e) = ''*''"
  "class_of e = Class_wildcard \<longleftrightarrow> is_wildcard_peer (eb_match e)"
  unfolding class_of_def binding_class_def is_wildcard_peer_def
  by (cases "nm_peer (eb_match e)"; simp split: if_splits)+

lemma scope_facts:
  assumes "matchesBindingScope m peer q"
  shows "nm_guildId m \<noteq> None \<Longrightarrow> nm_guildId m = Some (q_guildId q)"
    and "nm_teamId m \<noteq> None \<Longrightarrow> nm_teamId m = Some (q_teamId q)"
    and "nm_roles m \<noteq> None \<Longrightarrow> q_memberRoleIds q \<noteq> []"
  using assms by (auto simp: matchesBindingScope_def list_ex_iff split: option.splits)

lemma tier_find_class:
  assumes "candidates = (if ok then filter (\<lambda>e. class_of e = cl \<and> R e) es else [])"
    and "\<And>e. e \<in> set es \<Longrightarrow> class_of e = cl \<Longrightarrow> matchesBindingScope (eb_match e) peer q \<Longrightarrow>
      ok \<and> en \<and> R e \<and> pred (eb_match e)"
  shows "tier_find q \<lparr> t_matchedBy = by, t_enabled = en, t_scopePeer = peer, t_candidates = candidates,
      t_predicate = pred \<rparr> = class_find q es cl peer"
proof (cases "ok \<and> en")
  case True
  have "find (\<lambda>e. (class_of e = cl \<and> R e) \<and> pred (eb_match e) \<and> matchesBindingScope (eb_match e) peer q) es =
      class_find q es cl peer"
    unfolding class_find_def by (rule find_cong_on) (use assms(2) in blast)
  with True show ?thesis by (simp add: tier_find_def assms(1) find_filter)
next
  case False
  then have "class_find q es cl peer = None" unfolding class_find_def by (intro find_none) (use assms(2) in blast)
  with False show ?thesis by (auto simp: tier_find_def assms(1))
qed

lemma tiers_spec:
  assumes d: "distinct (map eb_order es)" and p: "\<And>e. e \<in> set es \<Longrightarrow> proper_match (eb_match e)"
  shows "first_tier_match q (route_tiers (buildEvaluatedBindingsIndex es) q) = first_match q es (tier_order q)"
proof -
  let ?ix = "buildEvaluatedBindingsIndex es"
  have wild: "tier_find q \<lparr> t_matchedBy = By_peer_wildcard, t_enabled = (q_peer q \<noteq> None), t_scopePeer = q_peer q,
      t_candidates = ix_byPeerWildcard ?ix, t_predicate = is_wildcard_peer \<rparr> = class_find q es Class_wildcard (q_peer q)"
    by (rule tier_find_class [where ok = True and R = "\<lambda>_. True"])
      (auto simp: index_lists class_facts dest: match_class(3))
  have groles: "tier_find q \<lparr> t_matchedBy = By_guild_roles, t_enabled = (q_guildId q \<noteq> [] \<and> q_memberRoleIds q \<noteq> []),
      t_scopePeer = q_peer q, t_candidates = lookup_in (q_guildId q) (ix_byGuildWithRoles ?ix),
      t_predicate = (\<lambda>m. nm_guildId m \<noteq> None \<and> nm_roles m \<noteq> None) \<rparr> = class_find q es Class_guild_roles (q_peer q)"
    by (rule tier_find_class [where ok = "q_guildId q \<noteq> []" and R = "\<lambda>e. nm_guildId (eb_match e) = Some (q_guildId q)"])
      (simp add: index_guild, metis class_facts(1) p proper_match_def scope_facts(1,3))
  have guild: "tier_find q \<lparr> t_matchedBy = By_guild, t_enabled = (q_guildId q \<noteq> []),
      t_scopePeer = q_peer q, t_candidates = lookup_in (q_guildId q) (ix_byGuild ?ix),
      t_predicate = (\<lambda>m. nm_guildId m \<noteq> None \<and> nm_roles m = None) \<rparr> = class_find q es Class_guild (q_peer q)"
    by (rule tier_find_class [where ok = "q_guildId q \<noteq> []" and R = "\<lambda>e. nm_guildId (eb_match e) = Some (q_guildId q)"])
      (simp add: index_guild, metis class_facts(2) p proper_match_def scope_facts(1))
  have team: "tier_find q \<lparr> t_matchedBy = By_team, t_enabled = (q_teamId q \<noteq> []),
      t_scopePeer = q_peer q, t_candidates = lookup_in (q_teamId q) (ix_byTeam ?ix),
      t_predicate = (\<lambda>m. nm_teamId m \<noteq> None) \<rparr> = class_find q es Class_team (q_peer q)"
    by (rule tier_find_class [where ok = "q_teamId q \<noteq> []" and R = "\<lambda>e. nm_teamId (eb_match e) = Some (q_teamId q)"])
      (simp add: index_guild, metis class_facts(3) p proper_match_def scope_facts(2))
  have account: "tier_find q \<lparr> t_matchedBy = By_account, t_enabled = True, t_scopePeer = q_peer q,
      t_candidates = ix_byAccount ?ix, t_predicate = (\<lambda>m. nm_accountPattern m \<noteq> ''*'') \<rparr> =
      class_find q es Class_account (q_peer q)"
    by (rule tier_find_class [where ok = True and R = "\<lambda>_. True"]) (auto simp: index_lists dest: class_facts(4))
  have channel: "tier_find q \<lparr> t_matchedBy = By_channel, t_enabled = True, t_scopePeer = q_peer q,
      t_candidates = ix_byChannel ?ix, t_predicate = (\<lambda>m. nm_accountPattern m = ''*'') \<rparr> =
      class_find q es Class_channel (q_peer q)"
    by (rule tier_find_class [where ok = True and R = "\<lambda>_. True"]) (auto simp: index_lists dest: class_facts(5))
  show ?thesis
    unfolding route_tiers_def tier_order_def Let_def first_tier_match_Cons first_match_Cons
    by (simp only: peer_find [OF d] parent_find [OF d] wild groles guild team account channel
        route_tier.select_convs first_tier_match.simps(1) first_match.simps(1))
qed

lemma evaluate_all_proper: "p \<in> set (evaluate_all n0 bs) \<Longrightarrow> proper_match (eb_match (snd p))"
  by (induction n0 bs rule: evaluate_all.induct)
    (auto simp: Let_def proper_match_def normalizeBindingMatch_def non_blank_def split: if_splits)

lemma applicable_facts:
  "distinct (map eb_order (applicable_bindings cfg ch acc))"
  "e \<in> set (applicable_bindings cfg ch acc) \<Longrightarrow> proper_match (eb_match e)"
proof -
  have "distinct (map eb_order (on_channel ch (evaluate_all 0 (listRouteBindings cfg))))"
    using on_channel_sorted [of ch 0 "listRouteBindings cfg"] strict_sorted_iff by blast
  then show "distinct (map eb_order (applicable_bindings cfg ch acc))"
    unfolding applicable_bindings_def by (rule distinct_map_filter)
  show "e \<in> set (applicable_bindings cfg ch acc) \<Longrightarrow> proper_match (eb_match e)"
    by (auto simp: applicable_bindings_def on_channel_def dest: evaluate_all_proper)
qed

lemma route_by_index_spec:
  "route_by_index cfg (buildEvaluatedBindingsIndex (evaluated_bindings cfg (q_channel q) (q_accountId q))) q =
   spec_route cfg q"
  by (simp add: route_by_index_def spec_route_def evaluated_bindings_spec tiers_spec applicable_facts)

end
