(* ===== verification/Route_Props.thy ===== *)
theory Route_Props
  imports Route_Proofs
begin

text \<open>
  The caches of the routing and the properties of the resolved routes.
\<close>

subsection \<open>Keys of the binding caches\<close>

definition binding_key :: "string \<Rightarrow> string \<Rightarrow> string" where
  "binding_key channel account = channel @ TAB @ account"

lemma binding_key_inject:
  assumes "CHR 0x09 \<notin> set acc" "CHR 0x09 \<notin> set acc'"
  shows "binding_key ch acc = binding_key ch' acc' \<longleftrightarrow> ch = ch' \<and> acc = acc'"
proof
  assume e: "binding_key ch acc = binding_key ch' acc'"
  have t: "takeWhile (\<lambda>c. c \<noteq> CHR 0x09) (rev (binding_key c a)) = rev a" if "CHR 0x09 \<notin> set a" for c a
  proof -
    have "takeWhile (\<lambda>c. c \<noteq> CHR 0x09) (rev a @ CHR 0x09 # rev c) = rev a"
      by (subst takeWhile_append2) (use that in auto)
    then show ?thesis by (simp add: binding_key_def TAB_def)
  qed
  from t [OF assms(1), of ch] t [OF assms(2), of ch'] e have "acc = acc'" by simp
  with e show "ch = ch' \<and> acc = acc'" by (simp add: binding_key_def)
qed simp

lemma jm_set_keys: "map fst m = map fst m' \<Longrightarrow> map fst (jm_set m k v) = map fst (jm_set m' k v')"
proof (induction m arbitrary: m')
  case (Cons p m)
  then obtain p' n where "m' = p' # n" "fst p = fst p'" "map fst m = map fst n" by (cases m') auto
  with Cons.IH [of n] show ?case by (cases p; cases p') auto
qed simp

subsection \<open>The invariant of the caches\<close>

definition dm_of :: "route_config \<Rightarrow> dm_scope" where
  "dm_of cfg = nullish (cfg_dmScope cfg) Dm_main"

definition key_of :: "route_config \<Rightarrow> route_input \<Rightarrow> string" where
  "key_of cfg i = buildResolvedRouteCacheKey (normalize_input i) (dm_of cfg)"

definition bindings_ok :: "route_config \<Rightarrow> route_caches \<Rightarrow> bool" where
  "bindings_ok cfg c \<longleftrightarrow>
     map fst (rc_index c) = map fst (rc_evaluated c) \<and>
     length (rc_evaluated c) \<le> MAX_EVALUATED_BINDINGS_CACHE_KEYS \<and>
     (\<forall>ch acc es. CHR 0x09 \<notin> set acc \<longrightarrow> jm_get (rc_evaluated c) (binding_key ch acc) = Some es \<longrightarrow>
        es = evaluated_bindings cfg ch acc) \<and>
     (\<forall>ch acc ix. CHR 0x09 \<notin> set acc \<longrightarrow> jm_get (rc_index c) (binding_key ch acc) = Some ix \<longrightarrow>
        ix = buildEvaluatedBindingsIndex (evaluated_bindings cfg ch acc))"

definition routes_ok :: "route_config \<Rightarrow> route_input list \<Rightarrow> route_caches \<Rightarrow> bool" where
  "routes_ok cfg h c \<longleftrightarrow> length (rc_routes c) \<le> MAX_RESOLVED_ROUTE_CACHE_KEYS \<and>
     (\<forall>k r. jm_get (rc_routes c) k = Some r \<longrightarrow>
        (\<exists>i \<in> set h. key_of cfg i = k \<and> r = spec_route cfg (normalize_input i)))"

lemma bindings_ok_empty: "bindings_ok cfg empty_caches" "routes_ok cfg [] empty_caches"
  by (simp_all add: bindings_ok_def routes_ok_def empty_caches_def)

lemma get_bindings:
  assumes "bindings_ok cfg c" "CHR 0x09 \<notin> set acc"
    and "getEvaluatedBindingsForChannelAccount cfg ch acc c = (es, c')"
  shows "es = evaluated_bindings cfg ch acc \<and> bindings_ok cfg c' \<and> rc_routes c' = rc_routes c \<and>
    jm_get (rc_evaluated c') (binding_key ch acc) \<noteq> None"
proof (cases "jm_get (rc_evaluated c) (binding_key ch acc)")
  case (Some hit)
  with assms(3) have "es = hit \<and> c' = c"
    by (auto simp: getEvaluatedBindingsForChannelAccount_def binding_key_def)
  moreover have "hit = evaluated_bindings cfg ch acc"
    using assms(1,2) Some unfolding bindings_ok_def by blast
  ultimately show ?thesis using assms(1) Some by simp
next
  case None
  let ?k = "binding_key ch acc" and ?e = "evaluated_bindings cfg ch acc"
  let ?ix = "buildEvaluatedBindingsIndex ?e"
  have full: "length (jm_set (rc_evaluated c) ?k ?e) = Suc (length (rc_evaluated c))"
    using None by (simp add: length_jm_set)
  consider (room) "length (rc_evaluated c) < MAX_EVALUATED_BINDINGS_CACHE_KEYS"
      "c' = c\<lparr>rc_evaluated := jm_set (rc_evaluated c) ?k ?e, rc_index := jm_set (rc_index c) ?k ?ix\<rparr>"
    | (clear) "c' = c\<lparr>rc_evaluated := [(?k, ?e)], rc_index := [(?k, ?ix)]\<rparr>"
    using assms(3) None full
    by (auto simp: getEvaluatedBindingsForChannelAccount_def binding_key_def Let_def split: if_splits)
  moreover have "es = ?e"
    using assms(3) None by (auto simp: getEvaluatedBindingsForChannelAccount_def binding_key_def Let_def)
  moreover have "bindings_ok cfg (c\<lparr>rc_evaluated := jm_set (rc_evaluated c) ?k ?e, rc_index := jm_set (rc_index c) ?k ?ix\<rparr>)"
    if "length (rc_evaluated c) < MAX_EVALUATED_BINDINGS_CACHE_KEYS"
    using assms(1,2) that full unfolding bindings_ok_def
    by (auto simp: binding_key_inject intro: jm_set_keys)
  moreover have "bindings_ok cfg (c\<lparr>rc_evaluated := [(?k, ?e)], rc_index := [(?k, ?ix)]\<rparr>)"
    using assms(2) unfolding bindings_ok_def
    by (auto simp: binding_key_inject MAX_EVALUATED_BINDINGS_CACHE_KEYS_def split: if_splits)
  ultimately show ?thesis by cases (simp_all)
qed

lemma get_index:
  assumes "bindings_ok cfg c" "CHR 0x09 \<notin> set acc"
    and "getEvaluatedBindingIndexForChannelAccount cfg ch acc c = (ix, c')"
  shows "ix = buildEvaluatedBindingsIndex (evaluated_bindings cfg ch acc) \<and> bindings_ok cfg c' \<and> rc_routes c' = rc_routes c"
proof -
  obtain es c1 where g: "getEvaluatedBindingsForChannelAccount cfg ch acc c = (es, c1)"
    by (cases "getEvaluatedBindingsForChannelAccount cfg ch acc c")
  note b = get_bindings [OF assms(1,2) g]
  then have "jm_get (rc_index c1) (binding_key ch acc) \<noteq> None"
    using jm_get_keys [of "rc_index c1" "rc_evaluated c1"] by (simp add: bindings_ok_def)
  then obtain ix1 where i: "jm_get (rc_index c1) (binding_key ch acc) = Some ix1" by auto
  then have "ix = ix1 \<and> c' = c1"
    using assms(3) g by (simp add: getEvaluatedBindingIndexForChannelAccount_def binding_key_def)
  moreover have "ix1 = buildEvaluatedBindingsIndex (evaluated_bindings cfg ch acc)"
    using b i assms(2) unfolding bindings_ok_def by blast
  ultimately show ?thesis using b by simp
qed

lemma store_route_ok:
  assumes "routes_ok cfg h c" "key_of cfg i = k" "r = spec_route cfg (normalize_input i)"
  shows "routes_ok cfg (i # h) (store_route k r c)"
proof -
  have "\<exists>j \<in> set (i # h). key_of cfg j = k' \<and> r' = spec_route cfg (normalize_input j)"
    if "jm_get (rc_routes (store_route k r c)) k' = Some r'" for k' r'
  proof -
    from that have "(k' = k \<and> r' = r) \<or> jm_get (rc_routes c) k' = Some r'"
      by (auto simp: store_route_def Let_def split: if_splits)
    with assms show ?thesis unfolding routes_ok_def by (metis list.set_intros(1,2))
  qed
  moreover have "length (rc_routes (store_route k r c)) \<le> MAX_RESOLVED_ROUTE_CACHE_KEYS"
    by (simp add: store_route_def Let_def MAX_RESOLVED_ROUTE_CACHE_KEYS_def)
  ultimately show ?thesis by (simp add: routes_ok_def)
qed

lemma routes_ok_more: "routes_ok cfg h c \<Longrightarrow> routes_ok cfg (i # h) c"
  by (auto simp: routes_ok_def)

lemma account_no_tab: "CHR 0x09 \<notin> set (q_accountId (normalize_input i))"
  by (simp add: normalize_input_def safe_id_no_tab account_id_safe)

definition answered_by :: "route_config \<Rightarrow> route_input \<Rightarrow> resolved_route \<Rightarrow> route_input \<Rightarrow> bool" where
  "answered_by cfg i r j \<longleftrightarrow> key_of cfg j = key_of cfg i \<and> r = spec_route cfg (normalize_input j)"

lemma resolve_eq:
  "resolveAgentRoute v cfg i c =
     (let cached = (\<not> v \<and> cfg_identityLinks cfg = None); q = normalize_input i in
      case (if cached then jm_get (rc_routes c) (key_of cfg i) else None) of
        Some r \<Rightarrow> (r, c)
      | None \<Rightarrow>
          (let (_, c) = getEvaluatedBindingsForChannelAccount cfg (q_channel q) (q_accountId q) c;
               (ix, c) = getEvaluatedBindingIndexForChannelAccount cfg (q_channel q) (q_accountId q) c;
               r = route_by_index cfg ix q
           in (r, if cached then store_route (key_of cfg i) r c else c)))"
  unfolding resolveAgentRoute_def key_of_def dm_of_def Let_def by (rule refl)

lemma resolve_step:
  assumes "bindings_ok cfg c" "routes_ok cfg h c" "resolveAgentRoute v cfg i c = (r, c')"
  shows "bindings_ok cfg c' \<and> routes_ok cfg (i # h) c' \<and> list_ex (answered_by cfg i r) (i # h) \<and>
    (v \<or> cfg_identityLinks cfg \<noteq> None \<longrightarrow> answered_by cfg i r i)"
proof -
  let ?q = "normalize_input i"
  let ?cached = "\<not> v \<and> cfg_identityLinks cfg = None"
  show ?thesis
  proof (cases "if ?cached then jm_get (rc_routes c) (key_of cfg i) else None")
    case (Some r0)
    then have h: "?cached" "jm_get (rc_routes c) (key_of cfg i) = Some r0" by (auto split: if_splits)
    have "r = r0 \<and> c' = c" using assms(3) Some by (simp add: resolve_eq Let_def)
    moreover have "list_ex (answered_by cfg i r0) h"
      using assms(2) h(2) unfolding routes_ok_def list_ex_iff answered_by_def by blast
    ultimately show ?thesis using assms(1,2) h(1) routes_ok_more by (simp add: list_ex_iff)
  next
    case None
    obtain es c1 where b: "getEvaluatedBindingsForChannelAccount cfg (q_channel ?q) (q_accountId ?q) c = (es, c1)"
      by (cases "getEvaluatedBindingsForChannelAccount cfg (q_channel ?q) (q_accountId ?q) c")
    obtain ix c2 where x: "getEvaluatedBindingIndexForChannelAccount cfg (q_channel ?q) (q_accountId ?q) c1 = (ix, c2)"
      by (cases "getEvaluatedBindingIndexForChannelAccount cfg (q_channel ?q) (q_accountId ?q) c1")
    note b1 = get_bindings [OF assms(1) account_no_tab b]
    from b1 have ok1: "bindings_ok cfg c1" by blast
    note x1 = get_index [OF ok1 account_no_tab x]
    have r: "r = route_by_index cfg ix ?q" and c': "c' = (if ?cached then store_route (key_of cfg i) r c2 else c2)"
      using assms(3) None by (auto simp: resolve_eq Let_def b x)
    have rs: "r = spec_route cfg ?q" unfolding r using x1 by (simp add: route_by_index_spec)
    have ro: "routes_ok cfg h c2" using assms(2) b1 x1 by (simp add: routes_ok_def)
    have "routes_ok cfg (i # h) c'" unfolding c'
      using store_route_ok [OF ro refl rs] routes_ok_more [OF ro] by simp
    moreover have "bindings_ok cfg c'" unfolding c' using x1
      by (simp add: bindings_ok_def store_route_def Let_def)
    ultimately show ?thesis by (simp add: answered_by_def rs)
  qed
qed

definition routes_after :: "route_config \<Rightarrow> (bool \<times> route_input) list \<Rightarrow> route_caches" where
  "routes_after cfg calls = foldl (\<lambda>c (v, i). snd (resolveAgentRoute v cfg i c)) empty_caches calls"

lemma routes_after_ok: "bindings_ok cfg (routes_after cfg calls) \<and> routes_ok cfg (rev (map snd calls)) (routes_after cfg calls)"
proof (induction calls rule: rev_induct)
  case Nil
  show ?case by (simp add: routes_after_def bindings_ok_empty)
next
  case (snoc vi calls)
  obtain v i where vi: "vi = (v, i)" by (cases vi)
  obtain r c' where s: "resolveAgentRoute v cfg i (routes_after cfg calls) = (r, c')"
    by (cases "resolveAgentRoute v cfg i (routes_after cfg calls)")
  have "routes_after cfg (calls @ [vi]) = c'" using s by (simp add: routes_after_def vi)
  moreover from snoc have "bindings_ok cfg (routes_after cfg calls)"
    "routes_ok cfg (rev (map snd calls)) (routes_after cfg calls)" by auto
  note resolve_step [OF this s]
  ultimately show ?case by (simp add: vi)
qed

lemma resolve_is_spec:
  "\<exists>j. fst (resolveAgentRoute v cfg i (routes_after cfg calls)) = spec_route cfg (normalize_input j)"
proof -
  obtain r c' where s: "resolveAgentRoute v cfg i (routes_after cfg calls) = (r, c')"
    by (cases "resolveAgentRoute v cfg i (routes_after cfg calls)")
  from routes_after_ok have "bindings_ok cfg (routes_after cfg calls)"
    "routes_ok cfg (rev (map snd calls)) (routes_after cfg calls)" by auto
  from resolve_step [OF this s] show ?thesis by (auto simp: s answered_by_def list_ex_iff)
qed

subsection \<open>The keys of a route\<close>

lemma trim_prefix:
  assumes "p \<noteq> []" "\<not> js_ws (hd p)" "\<not> js_ws (last p)"
  shows "\<exists>r'. js_trim (p @ r) = p @ r'"
proof -
  have "js_trim_start (p @ r) = p @ r" unfolding js_trim_start_def
    by (rule dropWhile_hd_id) (use assms(1,2) in simp)
  moreover have "\<exists>r'. js_trim_end (p @ r) = p @ r'"
  proof (cases "\<forall>c \<in> set (rev r). js_ws c")
    case True
    then have "dropWhile js_ws (rev r @ rev p) = dropWhile js_ws (rev p)" by (induction r) (simp_all add: dropWhile_append)
    moreover have "dropWhile js_ws (rev p) = rev p"
      by (rule dropWhile_hd_id) (use assms(1,3) in \<open>simp add: hd_rev\<close>)
    ultimately show ?thesis by (simp add: js_trim_end_def)
  next
    case False
    then obtain c where "c \<in> set (rev r)" "\<not> js_ws c" by blast
    then have "dropWhile js_ws (rev r @ rev p) = dropWhile js_ws (rev r) @ rev p" by (rule dropWhile_append1)
    then show ?thesis by (simp add: js_trim_end_def)
  qed
  ultimately show ?thesis by (simp add: js_trim_def)
qed

lemma normalized_key_agent:
  assumes "safe_id a"
  shows "agent_of_key (js_lower (js_trim (''agent:'' @ a @ '':'' @ r))) = a"
proof -
  have "\<exists>r'. js_trim ((''agent:'' @ a @ '':'') @ r) = (''agent:'' @ a @ '':'') @ r'"
    by (rule trim_prefix) (simp_all add: js_ws_def)
  then obtain r' where "js_trim (''agent:'' @ a @ '':'' @ r) = ''agent:'' @ a @ '':'' @ r'" by auto
  moreover have "js_lower ''agent:'' = ''agent:''" "js_lower '':'' = '':''" by code_simp+
  ultimately have "js_lower (js_trim (''agent:'' @ a @ '':'' @ r)) = ''agent:'' @ a @ '':'' @ js_lower r'"
    using assms by (simp del: append_Cons add: js_lower_append)
  then show ?thesis by (simp only: agent_of_key_prefix [OF assms])
qed

lemma choose_route_keys:
  "agent_of_key (rr_sessionKey (choose_route cfg q a by)) = normalizeAgentId (Some (rr_agentId (choose_route cfg q a by)))"
  "agent_of_key (rr_mainSessionKey (choose_route cfg q a by)) = normalizeAgentId (Some (rr_agentId (choose_route cfg q a by)))"
proof -
  let ?a = "pickFirstExistingAgentId cfg a"
  obtain r where r: "buildAgentSessionKey ?a (q_channel q) (Some (q_accountId q)) (q_peer q)
      (Some (nullish (cfg_dmScope cfg) Dm_main)) (cfg_identityLinks cfg) = ''agent:'' @ normalizeAgentId (Some ?a) @ '':'' @ r"
    unfolding buildAgentSessionKey_def Let_def using peer_key_form by blast
  show "agent_of_key (rr_sessionKey (choose_route cfg q a by)) = normalizeAgentId (Some (rr_agentId (choose_route cfg q a by)))"
    by (simp only: choose_route_def Let_def r resolved_route.select_convs normalizeLowercase_simps
        normalized_key_agent [OF agent_id_safe])
  show "agent_of_key (rr_mainSessionKey (choose_route cfg q a by)) = normalizeAgentId (Some (rr_agentId (choose_route cfg q a by)))"
    by (simp only: choose_route_def Let_def buildAgentMainSessionKey_def resolved_route.select_convs
        normalizeLowercase_simps normalized_key_agent [OF agent_id_safe])
qed

lemma spec_route_chosen: "\<exists>a by. spec_route cfg q = choose_route cfg q a by"
  by (auto simp: spec_route_def split: option.split prod.split)

lemma resolve_chosen:
  "\<exists>q a by. fst (resolveAgentRoute v cfg i (routes_after cfg calls)) = choose_route cfg q a by"
  using resolve_is_spec spec_route_chosen by metis

definition agent_named :: "string \<Rightarrow> agent_entry \<Rightarrow> bool" where
  "agent_named k e \<longleftrightarrow> js_trim (nullish (ae_id e) []) \<noteq> [] \<and> normalizeAgentId (Some (js_trim (nullish (ae_id e) []))) = k"

lemma add_agent_get:
  "jm_get (add_agent m e) k = (if agent_named k e then Some k else jm_get m k)"
  by (auto simp: add_agent_def agent_named_def sanitizeAgentId_def Let_def)

lemma agents_map_get:
  "jm_get (foldl add_agent m es) k = (if list_ex (agent_named k) es then Some k else jm_get m k)"
  by (induction es arbitrary: m) (auto simp: add_agent_get)

lemma agents_map_keys:
  "jm_get (agents_by_normalized_id cfg) k = (if list_ex (agent_named k) (listAgentEntries cfg) then Some k else None)"
  by (simp add: agents_by_normalized_id_def agents_map_get)

lemma pick_configured:
  "pickFirstExistingAgentId cfg a = fallbackDefaultAgentId cfg \<or>
   jm_get (agents_by_normalized_id cfg) (pickFirstExistingAgentId cfg a) \<noteq> None \<or> agents_by_normalized_id cfg = []"
  by (auto simp: pickFirstExistingAgentId_def Let_def agents_map_keys split: if_splits)

lemma pick_safe: "safe_id (pickFirstExistingAgentId cfg a)"
proof -
  let ?k = "normalizeAgentId (Some (js_trim a))"
  have "safe_id ?k" "safe_id (fallbackDefaultAgentId cfg)"
    by (simp_all add: agent_id_safe fallbackDefaultAgentId_def sanitizeAgentId_def)
  moreover have "the (jm_get (agents_by_normalized_id cfg) ?k) = ?k"
    if "str_truthy (jm_get (agents_by_normalized_id cfg) ?k)"
    using that by (cases "list_ex (agent_named ?k) (listAgentEntries cfg)") (simp_all add: agents_map_keys)
  ultimately show ?thesis by (simp add: pickFirstExistingAgentId_def Let_def sanitizeAgentId_def)
qed

subsection \<open>Properties\<close>



text \<open>A message is only ever routed to a configured agent: if the configuration names any agent, the
  agent of a route is the default agent or the normalised id of a configured one, whatever id the
  matching binding has.\<close>

theorem routed_agent_configured:
  "(let r = fst (resolveAgentRoute verbose cfg input (routes_after cfg calls));
        ids = map (\<lambda>e. js_trim (nullish (ae_id e) [])) (listAgentEntries cfg);
        configured = map (\<lambda>i. normalizeAgentId (Some i)) (filter (\<lambda>i. i \<noteq> []) ids)
    in if configured = [] then True else rr_agentId r \<in> set (fallbackDefaultAgentId cfg # configured))"
proof -
  obtain q a "by" where c: "fst (resolveAgentRoute verbose cfg input (routes_after cfg calls)) = choose_route cfg q a by"
    using resolve_chosen by metis
  let ?conf = "map (\<lambda>i. normalizeAgentId (Some i)) (filter (\<lambda>i. i \<noteq> []) (map (\<lambda>e. js_trim (nullish (ae_id e) [])) (listAgentEntries cfg)))"
  have k: "jm_get (agents_by_normalized_id cfg) k \<noteq> None \<longleftrightarrow> k \<in> set ?conf" for k
    by (auto simp: agents_map_keys list_ex_iff agent_named_def)
  have "?conf = []" if "agents_by_normalized_id cfg = []"
    using k that by (metis jm_get.simps(1) list.set_intros(1) neq_Nil_conv)
  with pick_configured [of cfg a] k show ?thesis unfolding c Let_def choose_route_def by auto
qed

definition per_peer_config :: route_config where
  "per_peer_config = \<lparr> cfg_agents = None, cfg_bindings = None, cfg_dmScope = Some Dm_per_peer, cfg_identityLinks = None \<rparr>"

definition plain_input :: "route_peer option \<Rightarrow> route_input" where
  "plain_input p = \<lparr> in_channel = ''web'', in_accountId = None, in_peer = p, in_parentPeer = None,
     in_guildId = None, in_teamId = None, in_memberRoleIds = None \<rparr>"

text \<open>The key of the route cache is ambiguous: it does not tell a message without a peer from one whose
  peer id is blank, so with per-peer sessions the second is answered with the route of the first
  and gets its session key.\<close>

theorem route_cache_key_ambiguous:
  "rr_sessionKey (fst (resolveAgentRoute False per_peer_config (plain_input (Some (Direct, '' '')))
     (routes_after per_peer_config [(False, plain_input None)]))) = ''agent:main:main'' \<and>
   rr_sessionKey (fst (resolveAgentRoute False per_peer_config (plain_input (Some (Direct, '' ''))) empty_caches)) =
     ''agent:main:direct:unknown''"
  by code_simp

text \<open>Agent ids are safe as path and key components: not empty, at most 64 characters, only lower-case
  letters, digits, underscores and dashes, no leading dash; and normalising such an id again changes
  nothing unless it starts with an underscore.\<close>

theorem agent_id_normal_form:
  "(let a = normalizeAgentId v in
    a \<noteq> [] \<and> length a \<le> 64 \<and> list_all id_char a \<and> hd a \<noteq> CHR ''-'' \<and>
    (if hd a = CHR ''_'' then True else normalizeAgentId (Some a) = a))"
  using agent_id_safe [of v] agent_id_fixed [of "normalizeAgentId v"] by (simp add: Let_def safe_id_def)

text \<open>The caches of account ids stay within 512 entries over any sequence of look-ups and never change
  a result; account ids are safe like agent ids.\<close>

theorem account_caches_transparent:
  "(let c = foldl account_cache_step [] vs; d = foldl optional_cache_step [] vs' in
    length c \<le> 512 \<and> fst (normalizeAccountId_cached c v) = normalizeAccountId v \<and>
    length d \<le> 512 \<and> fst (normalizeOptionalAccountId_cached d v) = normalizeOptionalAccountId v \<and>
    safe_id (normalizeAccountId v))"
proof -
  have c: "account_cache_inv []" and d: "optional_cache_inv []"
    by (simp_all add: account_cache_inv_def optional_cache_inv_def)
  show ?thesis
    using account_cache.run_inv [OF c, of vs] optional_cache.run_inv [OF d, of vs']
      account_cache.run_bound [OF c, of vs] optional_cache.run_bound [OF d, of vs']
    by (simp add: Let_def account_cache_transparent optional_cache_transparent account_id_safe ACCOUNT_ID_CACHE_MAX_def)
qed

text \<open>Normalising twice differs from normalising once: the cut to 64 characters can leave a trailing
  dash, which a second pass removes from an id that starts with an underscore.\<close>

lemma agent_id_not_idempotent:
  "normalizeAgentId (Some (normalizeAgentId (Some (''_'' @ replicate 62 (CHR ''a'') @ ''-b'')))) =
     ''_'' @ replicate 62 (CHR ''a'') \<and>
   normalizeAgentId (Some (''_'' @ replicate 62 (CHR ''a'') @ ''-b'')) = ''_'' @ replicate 62 (CHR ''a'') @ ''-''"
  by code_simp

end
