(* ===== verification/Ip_Address.thy ===== *)
theory Ip_Address
  imports Js_Number "HOL-Library.Word"
begin

text \<open>
  Classification of IP addresses: src/brain/src/shared/net/ip.ts.

  The third-party package ipaddr.js is the record \<open>ipaddr_lib\<close>: validity tests, parsers, printing,
  the range name of an address, prefix matching (\<open>None\<close> when it throws) and CIDR parsing. Its
  addresses are four octets or eight hextets. The extraction of an IPv4 address embedded in an IPv6
  address works on the hextets as 16-bit words.
\<close>

unbundle bit_operations_syntax

datatype ip_address =
    Ipv4 "8 word" "8 word" "8 word" "8 word"
  | Ipv6 "16 word" "16 word" "16 word" "16 word" "16 word" "16 word" "16 word" "16 word"

record ipaddr_lib =
  v4Valid :: "string \<Rightarrow> bool"
  v4FourPart :: "string \<Rightarrow> bool"
  v4Parse :: "string \<Rightarrow> ip_address"
  v6Valid :: "string \<Rightarrow> bool"
  v6Parse :: "string \<Rightarrow> ip_address"
  anyValid :: "string \<Rightarrow> bool"
  anyParse :: "string \<Rightarrow> ip_address"
  ipText :: "ip_address \<Rightarrow> string"
  ipRange :: "ip_address \<Rightarrow> string"
  isMapped :: "ip_address \<Rightarrow> bool"
  mappedIpv4 :: "ip_address \<Rightarrow> ip_address"
  ipMatch :: "ip_address \<Rightarrow> ip_address \<Rightarrow> int \<Rightarrow> bool option"
  parseCidr :: "string \<Rightarrow> (ip_address \<times> int) option"

subsection \<open>Strings\<close>

definition hex_digit :: "nat \<Rightarrow> char" where
  "hex_digit n = (if n < 10 then char_of (48 + n) else char_of (87 + n))"

fun nat_hex :: "nat \<Rightarrow> string" where
  "nat_hex n = (if n < 16 then [hex_digit n] else nat_hex (n div 16) @ [hex_digit (n mod 16)])"

declare nat_hex.simps [simp del]

definition stripIpv6Brackets :: "string \<Rightarrow> string" where
  "stripIpv6Brackets v =
     (if js_starts_with v ''['' \<and> js_ends_with v '']'' then butlast (drop 1 v) else v)"

definition is_hex_digit :: "char \<Rightarrow> bool" where
  "is_hex_digit c \<longleftrightarrow> (case digit_value c of None \<Rightarrow> False | Some d \<Rightarrow> d < 16)"

definition isNumericIpv4LiteralPart :: "string \<Rightarrow> bool" where
  "isNumericIpv4LiteralPart v \<longleftrightarrow>
     (v \<noteq> [] \<and> list_all is_digit v) \<or>
     (js_lower (take 2 v) = ''0x'' \<and> drop 2 v \<noteq> [] \<and> list_all is_hex_digit (drop 2 v))"

subsection \<open>Parsing\<close>

definition normalizeIpParseInput :: "string option \<Rightarrow> string option" where
  "normalizeIpParseInput raw = map_option stripIpv6Brackets (normalizeOptionalString (js_opt raw))"

text \<open>An IPv6 literal that ends in a dotted IPv4 part: the text up to the last colon, the four decimal
  octets, and a zone.\<close>

definition is_zone :: "string \<Rightarrow> bool" where
  "is_zone z \<longleftrightarrow> z = [] \<or>
     (tl z \<noteq> [] \<and> list_all (\<lambda>c. is_digit c \<or> is_lower_alpha c \<or> is_upper_alpha c) (tl z))"

definition hextet_text :: "nat \<Rightarrow> nat \<Rightarrow> string" where
  "hextet_text a b = nat_hex (a * 256 + b)"

definition parseIpv6WithEmbeddedIpv4 :: "ipaddr_lib \<Rightarrow> string \<Rightarrow> ip_address option" where
  "parseIpv6WithEmbeddedIpv4 lib raw =
     (if \<not> js_includes raw '':'' \<or> \<not> js_includes raw ''.'' then None
      else
        (let rest = rev (takeWhile (\<lambda>c. c \<noteq> CHR '':'') (rev raw));
             prefix = take (length raw - length rest) raw;
             embedded = takeWhile (\<lambda>c. c \<noteq> CHR ''%'') rest;
             zone = dropWhile (\<lambda>c. c \<noteq> CHR ''%'') rest
         in if list_ex (\<lambda>c. c = char_of (10::nat) \<or> c = char_of (13::nat)) prefix then None
            else if \<not> is_zone zone \<or> \<not> v4FourPart lib embedded then None
            else (case map decimal (js_split (CHR ''.'') embedded) of
              [a, b, c, d] \<Rightarrow>
                (let normalized = prefix @ hextet_text a b @ '':'' @ hextet_text c d @ zone
                 in if v6Valid lib normalized then Some (v6Parse lib normalized) else None)
            | _ \<Rightarrow> None)))"

definition isIpv4Address :: "ip_address \<Rightarrow> bool" where
  "isIpv4Address a = (case a of Ipv4 _ _ _ _ \<Rightarrow> True | _ \<Rightarrow> False)"

definition normalizeIpv4MappedAddress :: "ipaddr_lib \<Rightarrow> ip_address \<Rightarrow> ip_address" where
  "normalizeIpv4MappedAddress lib a =
     (if isIpv4Address a then a else if \<not> isMapped lib a then a else mappedIpv4 lib a)"

definition parseCanonicalIpAddress :: "ipaddr_lib \<Rightarrow> string option \<Rightarrow> ip_address option" where
  "parseCanonicalIpAddress lib raw = (case normalizeIpParseInput raw of
     None \<Rightarrow> None
   | Some n \<Rightarrow>
       if n = [] then None
       else if v4Valid lib n then (if \<not> v4FourPart lib n then None else Some (v4Parse lib n))
       else if v6Valid lib n then Some (v6Parse lib n)
       else parseIpv6WithEmbeddedIpv4 lib n)"

definition parseLooseIpAddress :: "ipaddr_lib \<Rightarrow> string option \<Rightarrow> ip_address option" where
  "parseLooseIpAddress lib raw = (case normalizeIpParseInput raw of
     None \<Rightarrow> None
   | Some n \<Rightarrow>
       if n = [] then None
       else if anyValid lib n then Some (anyParse lib n)
       else parseIpv6WithEmbeddedIpv4 lib n)"

definition normalizeIpAddress :: "ipaddr_lib \<Rightarrow> string option \<Rightarrow> string option" where
  "normalizeIpAddress lib raw =
     map_option (\<lambda>a. normalizeLowercaseStringOrEmpty (JString (ipText lib (normalizeIpv4MappedAddress lib a))))
       (parseCanonicalIpAddress lib raw)"

definition isCanonicalDottedDecimalIPv4 :: "ipaddr_lib \<Rightarrow> string option \<Rightarrow> bool" where
  "isCanonicalDottedDecimalIPv4 lib raw = (case normalizeIpParseInput raw of
     None \<Rightarrow> False | Some n \<Rightarrow> n \<noteq> [] \<and> v4FourPart lib n)"

definition isLegacyIpv4Literal :: "ipaddr_lib \<Rightarrow> string option \<Rightarrow> bool" where
  "isLegacyIpv4Literal lib raw = (case normalizeIpParseInput raw of
     None \<Rightarrow> False
   | Some n \<Rightarrow>
       if n = [] \<or> js_includes n '':'' then False
       else if isCanonicalDottedDecimalIPv4 lib (Some n) then False
       else
         (let parts = js_split (CHR ''.'') n in
          if parts = [] \<or> 4 < length parts then False
          else if list_ex (\<lambda>p. p = []) parts then False
          else list_all isNumericIpv4LiteralPart parts))"

subsection \<open>Ranges\<close>

definition isLoopbackIpAddress :: "ipaddr_lib \<Rightarrow> string option \<Rightarrow> bool" where
  "isLoopbackIpAddress lib raw = (case parseCanonicalIpAddress lib raw of
     None \<Rightarrow> False | Some a \<Rightarrow> ipRange lib (normalizeIpv4MappedAddress lib a) = ''loopback'')"

definition BLOCKED_IPV4_SPECIAL_USE_RANGES :: "string list" where
  "BLOCKED_IPV4_SPECIAL_USE_RANGES = [''unspecified'', ''broadcast'', ''multicast'', ''linkLocal'', ''loopback'',
     ''carrierGradeNat'', ''private'', ''reserved'']"

definition PRIVATE_OR_LOOPBACK_IPV4_RANGES :: "string list" where
  "PRIVATE_OR_LOOPBACK_IPV4_RANGES = [''loopback'', ''private'', ''linkLocal'', ''carrierGradeNat'']"

definition BLOCKED_IPV6_SPECIAL_USE_RANGES :: "string list" where
  "BLOCKED_IPV6_SPECIAL_USE_RANGES = [''unspecified'', ''loopback'', ''linkLocal'', ''uniqueLocal'', ''multicast'',
     ''reserved'', ''benchmarking'', ''discard'', ''orchid2'']"

text \<open>The second test is for the site-local prefix fec0::/10.\<close>

definition isBlockedSpecialUseIpv6Address :: "ipaddr_lib \<Rightarrow> ip_address \<Rightarrow> bool" where
  "isBlockedSpecialUseIpv6Address lib a \<longleftrightarrow>
     ipRange lib a \<in> set BLOCKED_IPV6_SPECIAL_USE_RANGES \<or>
     (case a of Ipv6 p0 _ _ _ _ _ _ _ \<Rightarrow> p0 AND 0xffc0 = 0xfec0 | _ \<Rightarrow> False)"

definition isPrivateOrLoopbackIpAddress :: "ipaddr_lib \<Rightarrow> string option \<Rightarrow> bool" where
  "isPrivateOrLoopbackIpAddress lib raw = (case parseCanonicalIpAddress lib raw of
     None \<Rightarrow> False
   | Some p \<Rightarrow>
       (let a = normalizeIpv4MappedAddress lib p in
        if isIpv4Address a then ipRange lib a \<in> set PRIVATE_OR_LOOPBACK_IPV4_RANGES
        else isBlockedSpecialUseIpv6Address lib a))"

definition isRfc1918Ipv4Address :: "ipaddr_lib \<Rightarrow> string option \<Rightarrow> bool" where
  "isRfc1918Ipv4Address lib raw = (case parseCanonicalIpAddress lib raw of
     None \<Rightarrow> False | Some a \<Rightarrow> isIpv4Address a \<and> ipRange lib a = ''private'')"

definition isCarrierGradeNatIpv4Address :: "ipaddr_lib \<Rightarrow> string option \<Rightarrow> bool" where
  "isCarrierGradeNatIpv4Address lib raw = (case parseCanonicalIpAddress lib raw of
     None \<Rightarrow> False | Some a \<Rightarrow> isIpv4Address a \<and> ipRange lib a = ''carrierGradeNat'')"

definition in_benchmark_range :: "ipaddr_lib \<Rightarrow> ip_address \<Rightarrow> bool" where
  "in_benchmark_range lib a \<longleftrightarrow> ipMatch lib a (Ipv4 198 18 0 0) 15 = Some True"

definition isBlockedSpecialUseIpv4Address :: "ipaddr_lib \<Rightarrow> bool \<Rightarrow> ip_address \<Rightarrow> bool" where
  "isBlockedSpecialUseIpv4Address lib allowRfc2544BenchmarkRange a =
     (let inRange = in_benchmark_range lib a in
      if inRange \<and> allowRfc2544BenchmarkRange then False
      else ipRange lib a \<in> set BLOCKED_IPV4_SPECIAL_USE_RANGES \<or> inRange)"

subsection \<open>Embedded IPv4 addresses\<close>

definition octet_text :: "16 word \<Rightarrow> string" where
  "octet_text w = nat_digits (unat w)"

definition dotted :: "16 word \<Rightarrow> 16 word \<Rightarrow> string" where
  "dotted high low =
     octet_text (drop_bit 8 high AND 0xff) @ ''.'' @ octet_text (high AND 0xff) @ ''.'' @
     octet_text (drop_bit 8 low AND 0xff) @ ''.'' @ octet_text (low AND 0xff)"

definition decodeIpv4FromHextets :: "ipaddr_lib \<Rightarrow> 16 word \<Rightarrow> 16 word \<Rightarrow> ip_address" where
  "decodeIpv4FromHextets lib high low = v4Parse lib (dotted high low)"

text \<open>The rules of \<open>EMBEDDED_IPV4_SENTINEL_RULES\<close>, the first that matches: IPv4-compatible, NAT64
  local use, 6to4, Teredo and ISATAP.\<close>

fun embedded_hextets :: "ip_address \<Rightarrow> (16 word \<times> 16 word) option" where
  "embedded_hextets (Ipv4 _ _ _ _) = None"
| "embedded_hextets (Ipv6 p0 p1 p2 p3 p4 p5 p6 p7) =
     (if p0 = 0 \<and> p1 = 0 \<and> p2 = 0 \<and> p3 = 0 \<and> p4 = 0 \<and> p5 = 0 then Some (p6, p7)
      else if p0 = 0x64 \<and> p1 = 0xff9b \<and> p2 = 1 \<and> p3 = 0 \<and> p4 = 0 \<and> p5 = 0 then Some (p6, p7)
      else if p0 = 0x2002 then Some (p1, p2)
      else if p0 = 0x2001 \<and> p1 = 0 then Some (p6 XOR 0xffff, p7 XOR 0xffff)
      else if p4 AND 0xfcff = 0 \<and> p5 = 0x5efe then Some (p6, p7)
      else None)"

fun last_hextets :: "ip_address \<Rightarrow> 16 word \<times> 16 word" where
  "last_hextets (Ipv4 _ _ _ _) = (0, 0)"
| "last_hextets (Ipv6 _ _ _ _ _ _ p6 p7) = (p6, p7)"

definition extractEmbeddedIpv4FromIpv6 :: "ipaddr_lib \<Rightarrow> ip_address \<Rightarrow> ip_address option" where
  "extractEmbeddedIpv4FromIpv6 lib a =
     (if isMapped lib a then Some (mappedIpv4 lib a)
      else if ipRange lib a = ''rfc6145'' then Some (case last_hextets a of (h, l) \<Rightarrow> decodeIpv4FromHextets lib h l)
      else if ipRange lib a = ''rfc6052'' then Some (case last_hextets a of (h, l) \<Rightarrow> decodeIpv4FromHextets lib h l)
      else map_option (\<lambda>(h, l). decodeIpv4FromHextets lib h l) (embedded_hextets a))"

subsection \<open>CIDR\<close>

definition isIpInCidr :: "ipaddr_lib \<Rightarrow> string \<Rightarrow> string \<Rightarrow> bool" where
  "isIpInCidr lib ip cidr = (case parseCanonicalIpAddress lib (Some ip) of
     None \<Rightarrow> False
   | Some n \<Rightarrow>
       (let candidate = js_trim cidr; comparable = normalizeIpv4MappedAddress lib n in
        if candidate = [] then False
        else if \<not> js_includes candidate ''/'' then
          (case parseCanonicalIpAddress lib (Some candidate) of
             None \<Rightarrow> False
           | Some e \<Rightarrow>
               (let exact = normalizeIpv4MappedAddress lib e
                in isIpv4Address comparable = isIpv4Address exact \<and> ipText lib comparable = ipText lib exact))
        else
          (case parseCidr lib candidate of
             None \<Rightarrow> False
           | Some (base, len) \<Rightarrow>
               (let b = normalizeIpv4MappedAddress lib base in
                if isIpv4Address comparable \<noteq> isIpv4Address b then False
                else ipMatch lib comparable b len = Some True))))"

end
