(* ===== verification/Gateway_Net.thy ===== *)
theory Gateway_Net
  imports Ip_Address
begin

text \<open>
  Addresses of gateway clients: src/brain/src/gateway/net.ts and origin-check.ts.

  Which address a request comes from, behind trusted proxies or not; which hosts are local; where the
  gateway listens; which browser origins are allowed. What the code asks of its platform is the record
  \<open>gateway_lib\<close>: the address library, \<open>net.isIP\<close> (0, 4 or 6), the URL parser, the tailnet addresses,
  whether the process runs in a container, and whether a host can be bound.
\<close>

record gateway_url =
  gu_protocol :: string
  gu_hostname :: string
  gu_host :: string
  gu_origin :: string

record gateway_lib =
  gl_ip :: ipaddr_lib
  gl_isIP :: "string \<Rightarrow> nat"
  gl_url :: "string \<Rightarrow> gateway_url option"
  gl_tailnet4 :: "string option"
  gl_tailnet6 :: "string option"
  gl_container :: bool
  gl_canBind :: "string \<Rightarrow> bool"

subsection \<open>Strings\<close>

text \<open>\<open>indexOf\<close> and \<open>lastIndexOf\<close> of a character.\<close>

fun js_index_of :: "char \<Rightarrow> string \<Rightarrow> nat option" where
  "js_index_of c [] = None"
| "js_index_of c (d # s) = (if d = c then Some 0 else map_option Suc (js_index_of c s))"

definition js_last_index_of :: "char \<Rightarrow> string \<Rightarrow> nat option" where
  "js_last_index_of c s = map_option (\<lambda>i. length s - 1 - i) (js_index_of c (rev s))"

definition slice :: "nat \<Rightarrow> nat \<Rightarrow> string \<Rightarrow> string" where
  "slice from to s = drop from (take to s)"

subsection \<open>Hosts\<close>

definition normalizeHostHeader :: "string option \<Rightarrow> string" where
  "normalizeHostHeader hostHeader = normalizeLowercaseStringOrEmpty (js_opt hostHeader)"

definition resolveHostName :: "gateway_lib \<Rightarrow> string option \<Rightarrow> string" where
  "resolveHostName lib hostHeader =
     (let host = normalizeHostHeader hostHeader in
      if host = [] then []
      else (case (if js_starts_with host ''['' then js_index_of (CHR '']'') host else None) of
        Some e \<Rightarrow> slice 1 e host
      | None \<Rightarrow> if gl_isIP lib host = 6 then host
                else (case js_split (CHR '':'') host of [] \<Rightarrow> [] | name # _ \<Rightarrow> name)))"

definition isLoopbackAddress :: "gateway_lib \<Rightarrow> string option \<Rightarrow> bool" where
  "isLoopbackAddress lib ip = isLoopbackIpAddress (gl_ip lib) ip"

definition isPrivateOrLoopbackAddress :: "gateway_lib \<Rightarrow> string option \<Rightarrow> bool" where
  "isPrivateOrLoopbackAddress lib ip = isPrivateOrLoopbackIpAddress (gl_ip lib) ip"

definition normalizeIp :: "gateway_lib \<Rightarrow> string option \<Rightarrow> string option" where
  "normalizeIp lib ip = normalizeIpAddress (gl_ip lib) ip"

subsection \<open>The client address\<close>

definition stripOptionalPort :: "gateway_lib \<Rightarrow> string \<Rightarrow> string" where
  "stripOptionalPort lib ip =
     (case (if js_starts_with ip ''['' then js_index_of (CHR '']'') ip else None) of
        Some e \<Rightarrow> slice 1 e ip
      | None \<Rightarrow>
          if gl_isIP lib ip \<noteq> 0 then ip
          else (case js_last_index_of (CHR '':'') ip of
            Some lastColon \<Rightarrow>
              if js_includes ip ''.'' \<and> js_index_of (CHR '':'') ip = Some lastColon
                 \<and> gl_isIP lib (slice 0 lastColon ip) = 4
              then slice 0 lastColon ip else ip
          | None \<Rightarrow> ip))"

definition parseIpLiteral :: "gateway_lib \<Rightarrow> string option \<Rightarrow> string option" where
  "parseIpLiteral lib raw =
     (case raw of
       None \<Rightarrow> None
     | Some r \<Rightarrow>
         (let trimmed = js_trim r in
          if trimmed = [] then None
          else (case normalizeIp lib (Some (stripOptionalPort lib trimmed)) of
            None \<Rightarrow> None
          | Some n \<Rightarrow> if n = [] \<or> gl_isIP lib n = 0 then None else Some n)))"

definition parseRealIp :: "gateway_lib \<Rightarrow> string option \<Rightarrow> string option" where
  "parseRealIp lib realIp = parseIpLiteral lib realIp"

definition isTrustedProxyAddress :: "gateway_lib \<Rightarrow> string option \<Rightarrow> string list option \<Rightarrow> bool" where
  "isTrustedProxyAddress lib ip trustedProxies =
     (case (normalizeIp lib ip, trustedProxies) of
       (Some n, Some proxies) \<Rightarrow>
         if n = [] \<or> proxies = [] then False
         else list_ex (\<lambda>proxy. let candidate = js_trim proxy in
                if candidate = [] then False else isIpInCidr (gl_ip lib) n candidate) proxies
     | _ \<Rightarrow> False)"

text \<open>The entries of the header that are addresses, and the walk from the right.\<close>

definition forwarded_chain :: "gateway_lib \<Rightarrow> string option \<Rightarrow> string list" where
  "forwarded_chain lib forwardedFor =
     (case forwardedFor of
       None \<Rightarrow> []
     | Some f \<Rightarrow>
         concat (map (\<lambda>entry. case parseIpLiteral lib (Some entry) of
             None \<Rightarrow> [] | Some n \<Rightarrow> if n = [] then [] else [n]) (js_split (CHR '','') f)))"

fun first_untrusted_hop :: "gateway_lib \<Rightarrow> string list option \<Rightarrow> string list \<Rightarrow> string option" where
  "first_untrusted_hop lib trustedProxies [] = None"
| "first_untrusted_hop lib trustedProxies (hop # hops) =
     (if isLoopbackAddress lib (Some hop) then first_untrusted_hop lib trustedProxies hops
      else if \<not> isTrustedProxyAddress lib (Some hop) trustedProxies then Some hop
      else first_untrusted_hop lib trustedProxies hops)"

definition resolveForwardedClientIp ::
  "gateway_lib \<Rightarrow> string option \<Rightarrow> string list option \<Rightarrow> string option" where
  "resolveForwardedClientIp lib forwardedFor trustedProxies =
     (if trustedProxies = None \<or> trustedProxies = Some [] then None
      else (let chain = forwarded_chain lib forwardedFor in
            if length chain = 0 then None else first_untrusted_hop lib trustedProxies (rev chain)))"

record client_ip_params =
  ci_remoteAddr :: "string option"
  ci_forwardedFor :: "string option"
  ci_realIp :: "string option"
  ci_trustedProxies :: "string list option"
  ci_allowRealIpFallback :: "bool option"

definition resolveClientIp :: "gateway_lib \<Rightarrow> client_ip_params \<Rightarrow> string option" where
  "resolveClientIp lib p =
     (case normalizeIp lib (ci_remoteAddr p) of
       None \<Rightarrow> None
     | Some remote \<Rightarrow>
         if remote = [] then None
         else if \<not> isTrustedProxyAddress lib (Some remote) (ci_trustedProxies p) then Some remote
         else
           (let forwardedIp = resolveForwardedClientIp lib (ci_forwardedFor p) (ci_trustedProxies p) in
            if str_truthy forwardedIp then forwardedIp
            else if ci_allowRealIpFallback p = Some True then parseRealIp lib (ci_realIp p)
            else None))"

datatype header_value = OneValue string | ManyValues "string list"

definition headerValue :: "header_value option \<Rightarrow> string option" where
  "headerValue v =
     (case v of
       None \<Rightarrow> None
     | Some (OneValue s) \<Rightarrow> Some s
     | Some (ManyValues vs) \<Rightarrow> (case vs of [] \<Rightarrow> None | s # _ \<Rightarrow> Some s))"

record http_request =
  hr_remoteAddress :: "string option"
  hr_headers :: "string \<Rightarrow> header_value option"

definition resolveRequestClientIp ::
  "gateway_lib \<Rightarrow> http_request option \<Rightarrow> string list option \<Rightarrow> bool \<Rightarrow> string option" where
  "resolveRequestClientIp lib req trustedProxies allowRealIpFallback =
     (case req of
       None \<Rightarrow> None
     | Some r \<Rightarrow>
         resolveClientIp lib
           \<lparr>ci_remoteAddr = Some (nullish (hr_remoteAddress r) []),
            ci_forwardedFor = headerValue (hr_headers r ''x-forwarded-for''),
            ci_realIp = headerValue (hr_headers r ''x-real-ip''),
            ci_trustedProxies = trustedProxies,
            ci_allowRealIpFallback = Some allowRealIpFallback\<rparr>)"

definition isLocalGatewayAddress :: "gateway_lib \<Rightarrow> string option \<Rightarrow> bool" where
  "isLocalGatewayAddress lib ip =
     (if isLoopbackAddress lib ip then True
      else if \<not> str_truthy ip then False
      else (case normalizeIp lib ip of
        None \<Rightarrow> False
      | Some normalized \<Rightarrow>
          if normalized = [] then False
          else if str_truthy (gl_tailnet4 lib)
               \<and> normalized = normalizeLowercaseStringOrEmpty (js_opt (gl_tailnet4 lib)) then True
          else str_truthy (gl_tailnet6 lib)
               \<and> normalizeLowercaseStringOrEmpty (js_opt ip) = normalizeLowercaseStringOrEmpty (js_opt (gl_tailnet6 lib))))"

subsection \<open>Listening\<close>

datatype bind_mode = BindLoopback | BindTailnet | BindLan | BindCustom | BindAuto

definition isValidIPv4 :: "gateway_lib \<Rightarrow> string \<Rightarrow> bool" where
  "isValidIPv4 lib host = isCanonicalDottedDecimalIPv4 (gl_ip lib) (Some host)"

definition loopback_or_all :: "gateway_lib \<Rightarrow> string" where
  "loopback_or_all lib = (if gl_canBind lib ''127.0.0.1'' then ''127.0.0.1'' else ''0.0.0.0'')"

definition resolveGatewayBindHost :: "gateway_lib \<Rightarrow> bind_mode option \<Rightarrow> string option \<Rightarrow> string" where
  "resolveGatewayBindHost lib bind customHost =
     (case nullish bind BindLoopback of
       BindLoopback \<Rightarrow> loopback_or_all lib
     | BindTailnet \<Rightarrow>
         (case gl_tailnet4 lib of
           Some tailnetIP \<Rightarrow> if tailnetIP \<noteq> [] \<and> gl_canBind lib tailnetIP then tailnetIP else loopback_or_all lib
         | None \<Rightarrow> loopback_or_all lib)
     | BindLan \<Rightarrow> ''0.0.0.0''
     | BindCustom \<Rightarrow>
         (case customHost of
           None \<Rightarrow> ''0.0.0.0''
         | Some c \<Rightarrow>
             (let host = js_trim c in
              if host = [] then ''0.0.0.0''
              else if isValidIPv4 lib host \<and> gl_canBind lib host then host else ''0.0.0.0''))
     | BindAuto \<Rightarrow> if gl_container lib then ''0.0.0.0'' else loopback_or_all lib)"

definition defaultGatewayBindMode :: "gateway_lib \<Rightarrow> string option \<Rightarrow> bind_mode" where
  "defaultGatewayBindMode lib tailscaleMode =
     (if str_truthy tailscaleMode \<and> tailscaleMode \<noteq> Some ''off'' then BindLoopback
      else if gl_container lib then BindAuto else BindLoopback)"

definition resolveGatewayListenHosts :: "gateway_lib \<Rightarrow> string \<Rightarrow> string list" where
  "resolveGatewayListenHosts lib bindHost =
     (if bindHost \<noteq> ''127.0.0.1'' then [bindHost]
      else if gl_canBind lib ''::1'' then [bindHost, ''::1''] else [bindHost])"

subsection \<open>Local hosts\<close>

text \<open>\<open>replace(/\.+$/, "")\<close>.\<close>

definition strip_dots :: "string \<Rightarrow> string" where
  "strip_dots s = rev (dropWhile (\<lambda>c. c = CHR ''.'') (rev s))"

definition parseHostForAddressChecks :: "string \<Rightarrow> (bool \<times> string) option" where
  "parseHostForAddressChecks host =
     (if host = [] then None
      else
        (let normalizedHost = normalizeLowercaseStringOrEmpty (JString host);
             canonicalHost = strip_dots normalizedHost
         in if canonicalHost = ''localhost'' then Some (True, canonicalHost)
            else Some (False, stripIpv6Brackets normalizedHost)))"

definition isLoopbackHost :: "gateway_lib \<Rightarrow> string \<Rightarrow> bool" where
  "isLoopbackHost lib host =
     (case parseHostForAddressChecks host of
       None \<Rightarrow> False
     | Some (isLocalhost, unbracketedHost) \<Rightarrow>
         if isLocalhost then True else isLoopbackAddress lib (Some unbracketedHost))"

definition isLocalishHost :: "gateway_lib \<Rightarrow> string option \<Rightarrow> bool" where
  "isLocalishHost lib hostHeader =
     (let host = resolveHostName lib hostHeader in
      if host = [] then False else isLoopbackHost lib host \<or> js_ends_with host ''.ts.net'')"

definition isPrivateOrLoopbackHost :: "gateway_lib \<Rightarrow> string \<Rightarrow> bool" where
  "isPrivateOrLoopbackHost lib host =
     (case parseHostForAddressChecks host of
       None \<Rightarrow> False
     | Some (isLocalhost, unbracketedHost) \<Rightarrow>
         if isLocalhost then True
         else (case normalizeIp lib (Some unbracketedHost) of
           None \<Rightarrow> False
         | Some normalized \<Rightarrow>
             if normalized = [] \<or> \<not> isPrivateOrLoopbackAddress lib (Some normalized) then False
             else if gl_isIP lib normalized = 6 \<and> js_starts_with normalized ''ff'' then False
             else if gl_isIP lib normalized = 6 \<and> normalized = ''::'' then False
             else True))"

definition isSecureWebSocketUrl :: "gateway_lib \<Rightarrow> string \<Rightarrow> bool option \<Rightarrow> bool" where
  "isSecureWebSocketUrl lib u allowPrivateWs =
     (case gl_url lib u of
       None \<Rightarrow> False
     | Some parsed \<Rightarrow>
         (let protocol = (if gu_protocol parsed = ''https:'' then ''wss:''
                          else if gu_protocol parsed = ''http:'' then ''ws:'' else gu_protocol parsed)
          in if protocol = ''wss:'' then True
             else if protocol \<noteq> ''ws:'' then False
             else if isLoopbackHost lib (gu_hostname parsed) then True
             else if allowPrivateWs = Some True then
               (if isPrivateOrLoopbackHost lib (gu_hostname parsed) then True
                else gl_isIP lib (stripIpv6Brackets (gu_hostname parsed)) = 0)
             else False))"

subsection \<open>Browser origins\<close>

datatype origin_check = OriginOk string | OriginRejected string

text \<open>Origin, host and host name of an \<open>Origin\<close> header.\<close>

definition parseOrigin :: "gateway_lib \<Rightarrow> string option \<Rightarrow> (string \<times> string \<times> string) option" where
  "parseOrigin lib originRaw =
     (let trimmed = js_trim (nullish originRaw []) in
      if trimmed = [] \<or> trimmed = ''null'' then None
      else map_option (\<lambda>u. (normalizeLowercaseStringOrEmpty (JString (gu_origin u)),
                            normalizeLowercaseStringOrEmpty (JString (gu_host u)),
                            normalizeLowercaseStringOrEmpty (JString (gu_hostname u)))) (gl_url lib trimmed))"

record origin_params =
  og_requestHost :: "string option"
  og_origin :: "string option"
  og_allowedOrigins :: "string list option"
  og_allowHostHeaderOriginFallback :: "bool option"
  og_isLocalClient :: "bool option"

definition checkBrowserOrigin :: "gateway_lib \<Rightarrow> origin_params \<Rightarrow> origin_check" where
  "checkBrowserOrigin lib p =
     (case parseOrigin lib (og_origin p) of
       None \<Rightarrow> OriginRejected ''origin missing or invalid''
     | Some (origin, host, hostname) \<Rightarrow>
         (let allowlist = map (\<lambda>v. normalizeOptionalLowercaseString (JString v)) (nullish (og_allowedOrigins p) []);
              requestHost = normalizeHostHeader (og_requestHost p)
          in if Some ''*'' \<in> set allowlist \<or> (origin \<noteq> [] \<and> Some origin \<in> set allowlist) then OriginOk ''allowlist''
             else if og_allowHostHeaderOriginFallback p = Some True \<and> requestHost \<noteq> [] \<and> host = requestHost
               then OriginOk ''host-header-fallback''
             else if og_isLocalClient p = Some True \<and> isLoopbackHost lib hostname then OriginOk ''local-loopback''
             else OriginRejected ''origin not allowed''))"

end
