(* ===== verification/Auth_Rate_Limit.thy ===== *)
theory Auth_Rate_Limit
  imports Gateway_Net
begin

text \<open>
  Limits on gateway clients: src/brain/src/gateway/auth-rate-limit.ts (failed authentication attempts in
  a sliding window, with a lockout) and control-plane-rate-limit.ts (a budget of control-plane writes).

  A limiter is its configuration and the map of entries by scope and client address. The time is an
  argument of every operation that reads the clock. Timestamps and limits are integers.
\<close>

subsection \<open>Configuration\<close>

record rate_limit_config =
  rc_maxAttempts :: "int option"
  rc_windowMs :: "int option"
  rc_lockoutMs :: "int option"
  rc_exemptLoopback :: "bool option"

definition AUTH_RATE_LIMIT_SCOPE_DEFAULT :: string where
  "AUTH_RATE_LIMIT_SCOPE_DEFAULT = ''default''"

definition AUTH_RATE_LIMIT_SCOPE_SHARED_SECRET :: string where
  "AUTH_RATE_LIMIT_SCOPE_SHARED_SECRET = ''shared-secret''"

definition BROWSER_ORIGIN_RATE_LIMIT_KEY_PREFIX :: string where
  "BROWSER_ORIGIN_RATE_LIMIT_KEY_PREFIX = ''browser-origin:''"

definition DEFAULT_MAX_ATTEMPTS :: int where "DEFAULT_MAX_ATTEMPTS = 10"
definition DEFAULT_WINDOW_MS :: int where "DEFAULT_WINDOW_MS = 60000"
definition DEFAULT_LOCKOUT_MS :: int where "DEFAULT_LOCKOUT_MS = 300000"

record rate_limit_entry =
  re_attempts :: "int list"
  re_lockedUntil :: "int option"

record check_result =
  cr_allowed :: bool
  cr_remaining :: int
  cr_retryAfterMs :: int

record rate_limiter =
  rl_maxAttempts :: int
  rl_windowMs :: int
  rl_lockoutMs :: int
  rl_exemptLoopback :: bool
  rl_entries :: "(string, rate_limit_entry) js_map"

definition createAuthRateLimiter :: "rate_limit_config option \<Rightarrow> rate_limiter" where
  "createAuthRateLimiter config =
     (let get = (\<lambda>f. case config of None \<Rightarrow> None | Some c \<Rightarrow> f c) in
      \<lparr>rl_maxAttempts = nullish (get rc_maxAttempts) DEFAULT_MAX_ATTEMPTS,
       rl_windowMs = nullish (get rc_windowMs) DEFAULT_WINDOW_MS,
       rl_lockoutMs = nullish (get rc_lockoutMs) DEFAULT_LOCKOUT_MS,
       rl_exemptLoopback = nullish (case config of None \<Rightarrow> None | Some c \<Rightarrow> rc_exemptLoopback c) True,
       rl_entries = []\<rparr>)"

subsection \<open>Keys\<close>

definition normalizeRateLimitClientIp :: "gateway_lib \<Rightarrow> string option \<Rightarrow> string" where
  "normalizeRateLimitClientIp lib ip =
     (case (case ip of None \<Rightarrow> None | Some s \<Rightarrow>
              if js_starts_with s BROWSER_ORIGIN_RATE_LIMIT_KEY_PREFIX then Some s else None) of
        Some s \<Rightarrow> s
      | None \<Rightarrow>
          nullish (resolveClientIp lib \<lparr>ci_remoteAddr = ip, ci_forwardedFor = None, ci_realIp = None,
            ci_trustedProxies = None, ci_allowRealIpFallback = None\<rparr>) ''unknown'')"

definition normalizeScope :: "string option \<Rightarrow> string" where
  "normalizeScope scope =
     str_or (js_trim (nullish scope AUTH_RATE_LIMIT_SCOPE_DEFAULT)) AUTH_RATE_LIMIT_SCOPE_DEFAULT"

definition limit_key :: "gateway_lib \<Rightarrow> string option \<Rightarrow> string option \<Rightarrow> string" where
  "limit_key lib ip scope = normalizeScope scope @ '':'' @ normalizeRateLimitClientIp lib ip"

definition isExempt :: "gateway_lib \<Rightarrow> rate_limiter \<Rightarrow> string \<Rightarrow> bool" where
  "isExempt lib r ip \<longleftrightarrow> rl_exemptLoopback r \<and> isLoopbackAddress lib (Some ip)"

subsection \<open>Operations\<close>

text \<open>\<open>entry.lockedUntil && now < entry.lockedUntil\<close>, and the same with \<open>>=\<close>: zero is falsy.\<close>

definition locked_at :: "rate_limit_entry \<Rightarrow> int \<Rightarrow> bool" where
  "locked_at e now \<longleftrightarrow> (case re_lockedUntil e of None \<Rightarrow> False | Some t \<Rightarrow> t \<noteq> 0 \<and> now < t)"

definition lock_expired :: "rate_limit_entry \<Rightarrow> int \<Rightarrow> bool" where
  "lock_expired e now \<longleftrightarrow> (case re_lockedUntil e of None \<Rightarrow> False | Some t \<Rightarrow> t \<noteq> 0 \<and> t \<le> now)"

definition slideWindow :: "int \<Rightarrow> int \<Rightarrow> rate_limit_entry \<Rightarrow> rate_limit_entry" where
  "slideWindow windowMs now e = e\<lparr>re_attempts := filter (\<lambda>ts. now - windowMs < ts) (re_attempts e)\<rparr>"

definition check_entry :: "rate_limiter \<Rightarrow> int \<Rightarrow> rate_limit_entry \<Rightarrow> check_result \<times> rate_limit_entry" where
  "check_entry r now e =
     (if locked_at e now then
        (\<lparr>cr_allowed = False, cr_remaining = 0, cr_retryAfterMs = (case re_lockedUntil e of None \<Rightarrow> 0 | Some t \<Rightarrow> t - now)\<rparr>, e)
      else
        (let e1 = (if lock_expired e now then e\<lparr>re_lockedUntil := None, re_attempts := []\<rparr> else e);
             e2 = slideWindow (rl_windowMs r) now e1;
             remaining = max 0 (rl_maxAttempts r - int (length (re_attempts e2)))
         in (\<lparr>cr_allowed = 0 < remaining, cr_remaining = remaining, cr_retryAfterMs = 0\<rparr>, e2)))"

definition check_limit ::
  "gateway_lib \<Rightarrow> rate_limiter \<Rightarrow> string option \<Rightarrow> string option \<Rightarrow> int \<Rightarrow> check_result \<times> rate_limiter" where
  "check_limit lib r ip scope now =
     (let free = \<lparr>cr_allowed = True, cr_remaining = rl_maxAttempts r, cr_retryAfterMs = 0\<rparr> in
      if isExempt lib r (normalizeRateLimitClientIp lib ip) then (free, r)
      else (case jm_get (rl_entries r) (limit_key lib ip scope) of
        None \<Rightarrow> (free, r)
      | Some e \<Rightarrow>
          (case check_entry r now e of
            (res, e') \<Rightarrow> (res, r\<lparr>rl_entries := jm_set (rl_entries r) (limit_key lib ip scope) e'\<rparr>))))"

definition record_entry :: "rate_limiter \<Rightarrow> int \<Rightarrow> rate_limit_entry \<Rightarrow> rate_limit_entry" where
  "record_entry r now e =
     (if locked_at e now then e
      else
        (let e1 = slideWindow (rl_windowMs r) now e;
             e2 = e1\<lparr>re_attempts := re_attempts e1 @ [now]\<rparr>
         in if rl_maxAttempts r \<le> int (length (re_attempts e2))
            then e2\<lparr>re_lockedUntil := Some (now + rl_lockoutMs r)\<rparr> else e2))"

definition recordFailure ::
  "gateway_lib \<Rightarrow> rate_limiter \<Rightarrow> string option \<Rightarrow> string option \<Rightarrow> int \<Rightarrow> rate_limiter" where
  "recordFailure lib r ip scope now =
     (if isExempt lib r (normalizeRateLimitClientIp lib ip) then r
      else
        (let key = limit_key lib ip scope;
             e = nullish (jm_get (rl_entries r) key) \<lparr>re_attempts = [], re_lockedUntil = None\<rparr>
         in r\<lparr>rl_entries := jm_set (rl_entries r) key (record_entry r now e)\<rparr>))"

definition reset_limit :: "gateway_lib \<Rightarrow> rate_limiter \<Rightarrow> string option \<Rightarrow> string option \<Rightarrow> rate_limiter" where
  "reset_limit lib r ip scope = r\<lparr>rl_entries := jm_delete (rl_entries r) (limit_key lib ip scope)\<rparr>"

text \<open>The loop of \<open>prune\<close>: a locked entry is kept as it is, another one is slid and kept unless empty.\<close>

definition prune_entry :: "rate_limiter \<Rightarrow> int \<Rightarrow> string \<times> rate_limit_entry \<Rightarrow> (string \<times> rate_limit_entry) list" where
  "prune_entry r now p =
     (if locked_at (snd p) now then [p]
      else (let e = slideWindow (rl_windowMs r) now (snd p)
            in if length (re_attempts e) = 0 then [] else [(fst p, e)]))"

definition prune_limits :: "rate_limiter \<Rightarrow> int \<Rightarrow> rate_limiter" where
  "prune_limits r now = r\<lparr>rl_entries := concat (map (prune_entry r now) (rl_entries r))\<rparr>"

definition limiter_size :: "rate_limiter \<Rightarrow> nat" where
  "limiter_size r = length (rl_entries r)"

definition dispose_limiter :: "rate_limiter \<Rightarrow> rate_limiter" where
  "dispose_limiter r = r\<lparr>rl_entries := []\<rparr>"

subsection \<open>The control-plane write budget\<close>

definition CONTROL_PLANE_RATE_LIMIT_MAX_REQUESTS :: int where "CONTROL_PLANE_RATE_LIMIT_MAX_REQUESTS = 3"
definition CONTROL_PLANE_RATE_LIMIT_WINDOW_MS :: int where "CONTROL_PLANE_RATE_LIMIT_WINDOW_MS = 60000"
definition CONTROL_PLANE_BUCKET_MAX_STALE_MS :: int where "CONTROL_PLANE_BUCKET_MAX_STALE_MS = 300000"
definition CONTROL_PLANE_BUCKET_MAX_ENTRIES :: nat where "CONTROL_PLANE_BUCKET_MAX_ENTRIES = 10000"

record bucket =
  bk_count :: int
  bk_windowStartMs :: int

type_synonym buckets = "(string, bucket) js_map"

definition normalizePart :: "js_value \<Rightarrow> string \<Rightarrow> string" where
  "normalizePart v fallback =
     (case v of
        JString s \<Rightarrow> (let normalized = js_trim s in if 0 < length normalized then normalized else fallback)
      | _ \<Rightarrow> fallback)"

record gateway_client =
  gc_deviceId :: js_value
  gc_clientIp :: js_value
  gc_connId :: js_value

definition client_part :: "(gateway_client \<Rightarrow> js_value) \<Rightarrow> gateway_client option \<Rightarrow> js_value" where
  "client_part f client = (case client of None \<Rightarrow> JUndefined | Some c \<Rightarrow> f c)"

definition resolveControlPlaneRateLimitKey :: "gateway_client option \<Rightarrow> string" where
  "resolveControlPlaneRateLimitKey client =
     (let deviceId = normalizePart (client_part gc_deviceId client) ''unknown-device'';
          clientIp = normalizePart (client_part gc_clientIp client) ''unknown-ip'';
          connId = normalizePart (client_part gc_connId client) []
      in if deviceId = ''unknown-device'' \<and> clientIp = ''unknown-ip'' \<and> connId \<noteq> []
         then deviceId @ ''|'' @ clientIp @ ''|conn='' @ connId
         else deviceId @ ''|'' @ clientIp)"

record budget_result =
  br_allowed :: bool
  br_retryAfterMs :: int
  br_remaining :: int
  br_key :: string

definition open_window :: "buckets \<Rightarrow> string \<Rightarrow> int \<Rightarrow> buckets" where
  "open_window bs key nowMs =
     (let bs1 = (if jm_get bs key = None \<and> CONTROL_PLANE_BUCKET_MAX_ENTRIES \<le> length bs
                 then (case bs of [] \<Rightarrow> bs | (oldest, _) # _ \<Rightarrow> jm_delete bs oldest) else bs)
      in jm_set bs1 key \<lparr>bk_count = 1, bk_windowStartMs = nowMs\<rparr>)"

definition consumeControlPlaneWriteBudget ::
  "buckets \<Rightarrow> gateway_client option \<Rightarrow> int \<Rightarrow> budget_result \<times> buckets" where
  "consumeControlPlaneWriteBudget bs client nowMs =
     (let key = resolveControlPlaneRateLimitKey client;
          fresh = (\<lparr>br_allowed = True, br_retryAfterMs = 0,
                    br_remaining = CONTROL_PLANE_RATE_LIMIT_MAX_REQUESTS - 1, br_key = key\<rparr>,
                   open_window bs key nowMs)
      in case jm_get bs key of
           None \<Rightarrow> fresh
         | Some b \<Rightarrow>
             if CONTROL_PLANE_RATE_LIMIT_WINDOW_MS \<le> nowMs - bk_windowStartMs b then fresh
             else if CONTROL_PLANE_RATE_LIMIT_MAX_REQUESTS \<le> bk_count b then
               (\<lparr>br_allowed = False,
                 br_retryAfterMs = max 0 (bk_windowStartMs b + CONTROL_PLANE_RATE_LIMIT_WINDOW_MS - nowMs),
                 br_remaining = 0, br_key = key\<rparr>, bs)
             else
               (\<lparr>br_allowed = True, br_retryAfterMs = 0,
                 br_remaining = max 0 (CONTROL_PLANE_RATE_LIMIT_MAX_REQUESTS - (bk_count b + 1)), br_key = key\<rparr>,
                jm_set bs key (b\<lparr>bk_count := bk_count b + 1\<rparr>)))"

definition pruneStaleControlPlaneBuckets :: "buckets \<Rightarrow> int \<Rightarrow> nat \<times> buckets" where
  "pruneStaleControlPlaneBuckets bs nowMs =
     (let kept = filter (\<lambda>(k, b). \<not> CONTROL_PLANE_BUCKET_MAX_STALE_MS < nowMs - bk_windowStartMs b) bs
      in (length bs - length kept, kept))"

end
