(* ===== verification/Gateway_Auth.thy ===== *)
theory Gateway_Auth
  imports Auth_Rate_Limit
begin

text \<open>
  Authorisation of gateway connections: src/brain/src/gateway/auth.ts and security/secret-equal.ts.

  \<open>authorizeGatewayConnectCore\<close> runs every branch in the order of the code and returns the result and
  the limiter after it. The digest (SHA-256) and the Tailscale whois lookup are parameters. The limiter
  is checked at the time \<open>t_check\<close> and written at \<open>t_record\<close>, after the whois lookup if there is one;
  attempts that wait for that lookup are serialised per key by the code, so the pair is one step.
\<close>

datatype auth_mode = AuthNone | AuthToken | AuthPassword | AuthTrustedProxy

record trusted_proxy_config =
  tp_userHeader :: string
  tp_requiredHeaders :: "string list option"
  tp_allowUsers :: "string list option"

record resolved_auth =
  ra_mode :: auth_mode
  ra_token :: "string option"
  ra_password :: "string option"
  ra_allowTailscale :: bool
  ra_trustedProxy :: "trusted_proxy_config option"

text \<open>A result with \<open>ok\<close> and its method and user; or the reason, with the time to wait when the
  request was rate limited.\<close>

datatype auth_result = AuthOk string "string option" | AuthDenied string "int option"

record connect_auth =
  ca_token :: "string option"
  ca_password :: "string option"

datatype auth_surface = SurfaceHttp | SurfaceWsControlUi

record browser_origin_policy =
  bo_requestHost :: "string option"
  bo_origin :: "string option"
  bo_allowedOrigins :: "string list option"
  bo_allowHostHeaderOriginFallback :: "bool option"

record whois_identity =
  wi_login :: string
  wi_name :: "string option"

record authorize_params =
  ap_auth :: resolved_auth
  ap_connectAuth :: "connect_auth option"
  ap_req :: "http_request option"
  ap_trustedProxies :: "string list option"
  ap_authSurface :: "auth_surface option"
  ap_clientIp :: "string option"
  ap_rateLimitScope :: "string option"
  ap_allowRealIpFallback :: "bool option"
  ap_browserOriginPolicy :: "browser_origin_policy option"

record auth_env =
  ae_lib :: gateway_lib
  ae_digest :: "string \<Rightarrow> string"
  ae_whois :: "string \<Rightarrow> whois_identity option"

subsection \<open>Secrets\<close>

definition safeEqualSecret :: "auth_env \<Rightarrow> string option \<Rightarrow> string option \<Rightarrow> bool" where
  "safeEqualSecret env provided expected =
     (case (provided, expected) of (Some p, Some e) \<Rightarrow> ae_digest env p = ae_digest env e | _ \<Rightarrow> False)"

definition auth_field :: "(connect_auth \<Rightarrow> string option) \<Rightarrow> connect_auth option \<Rightarrow> string option" where
  "auth_field f ca = (case ca of None \<Rightarrow> None | Some c \<Rightarrow> f c)"

definition hasExplicitSharedSecretAuth :: "connect_auth option \<Rightarrow> bool" where
  "hasExplicitSharedSecretAuth ca \<longleftrightarrow>
     normalizeOptionalString (js_opt (auth_field ca_token ca)) \<noteq> None \<or>
     normalizeOptionalString (js_opt (auth_field ca_password ca)) \<noteq> None"

subsection \<open>Headers\<close>

text \<open>A header as a value of type unknown: a list of values is no string. And its truth value.\<close>

definition header_js :: "header_value option \<Rightarrow> js_value" where
  "header_js v = (case v of Some (OneValue s) \<Rightarrow> JString s | Some (ManyValues _) \<Rightarrow> JNull | None \<Rightarrow> JUndefined)"

definition header_truthy :: "header_value option \<Rightarrow> bool" where
  "header_truthy v = (case v of Some (OneValue s) \<Rightarrow> s \<noteq> [] | Some (ManyValues _) \<Rightarrow> True | None \<Rightarrow> False)"

definition isLocalDirectRequest :: "auth_env \<Rightarrow> http_request option \<Rightarrow> bool" where
  "isLocalDirectRequest env req =
     (case req of
       None \<Rightarrow> False
     | Some r \<Rightarrow>
         (let hasForwarded = list_ex (\<lambda>h. header_truthy (hr_headers r h))
            [''forwarded'', ''x-forwarded-for'', ''x-forwarded-proto'', ''x-real-ip'', ''x-forwarded-host'']
          in if \<not> hasForwarded then isLoopbackAddress (ae_lib env) (hr_remoteAddress r) else False))"

subsection \<open>Tailscale\<close>

definition TAILSCALE_TRUSTED_PROXIES :: "string list" where
  "TAILSCALE_TRUSTED_PROXIES = [''127.0.0.1'', ''::1'']"

definition resolveTailscaleClientIp :: "auth_env \<Rightarrow> http_request option \<Rightarrow> string option" where
  "resolveTailscaleClientIp env req =
     (case req of
       None \<Rightarrow> None
     | Some r \<Rightarrow>
         resolveClientIp (ae_lib env)
           \<lparr>ci_remoteAddr = Some (nullish (hr_remoteAddress r) []),
            ci_forwardedFor = headerValue (hr_headers r ''x-forwarded-for''), ci_realIp = None,
            ci_trustedProxies = Some TAILSCALE_TRUSTED_PROXIES, ci_allowRealIpFallback = None\<rparr>)"

record tailscale_user =
  tu_login :: string
  tu_name :: string
  tu_profilePic :: "string option"

definition getTailscaleUser :: "http_request option \<Rightarrow> tailscale_user option" where
  "getTailscaleUser req =
     (case req of
       None \<Rightarrow> None
     | Some r \<Rightarrow>
         (case normalizeOptionalString (header_js (hr_headers r ''tailscale-user-login'')) of
           None \<Rightarrow> None
         | Some login \<Rightarrow>
             Some \<lparr>tu_login = login,
               tu_name = nullish (normalizeOptionalString (header_js (hr_headers r ''tailscale-user-name''))) login,
               tu_profilePic = normalizeOptionalString (header_js (hr_headers r ''tailscale-user-profile-pic''))\<rparr>))"

definition hasTailscaleProxyHeaders :: "http_request option \<Rightarrow> bool" where
  "hasTailscaleProxyHeaders req =
     (case req of
       None \<Rightarrow> False
     | Some r \<Rightarrow> header_truthy (hr_headers r ''x-forwarded-for'') \<and> header_truthy (hr_headers r ''x-forwarded-proto'')
                 \<and> header_truthy (hr_headers r ''x-forwarded-host''))"

definition isTailscaleProxyRequest :: "auth_env \<Rightarrow> http_request option \<Rightarrow> bool" where
  "isTailscaleProxyRequest env req =
     (case req of
       None \<Rightarrow> False
     | Some r \<Rightarrow> isLoopbackAddress (ae_lib env) (hr_remoteAddress r) \<and> hasTailscaleProxyHeaders req)"

definition normalizeLogin :: "string \<Rightarrow> string" where
  "normalizeLogin login = normalizeLowercaseStringOrEmpty (JString login)"

definition resolveVerifiedTailscaleUser :: "auth_env \<Rightarrow> http_request option \<Rightarrow> string + tailscale_user" where
  "resolveVerifiedTailscaleUser env req =
     (case getTailscaleUser req of
       None \<Rightarrow> Inl ''tailscale_user_missing''
     | Some user \<Rightarrow>
         if \<not> isTailscaleProxyRequest env req then Inl ''tailscale_proxy_missing''
         else
           (case resolveTailscaleClientIp env req of
             None \<Rightarrow> Inl ''tailscale_whois_failed''
           | Some clientIp \<Rightarrow>
               if clientIp = [] then Inl ''tailscale_whois_failed''
               else
                 (case ae_whois env clientIp of
                   None \<Rightarrow> Inl ''tailscale_whois_failed''
                 | Some whois \<Rightarrow>
                     if wi_login whois = [] then Inl ''tailscale_whois_failed''
                     else if normalizeLogin (wi_login whois) \<noteq> normalizeLogin (tu_login user)
                     then Inl ''tailscale_user_mismatch''
                     else Inr \<lparr>tu_login = wi_login whois, tu_name = nullish (wi_name whois) (tu_name user),
                                tu_profilePic = tu_profilePic user\<rparr>)))"

subsection \<open>Trusted proxies\<close>

fun missing_header :: "http_request \<Rightarrow> string list \<Rightarrow> string option" where
  "missing_header r [] = None"
| "missing_header r (h # hs) =
     (case headerValue (hr_headers r (normalizeLowercaseStringOrEmpty (JString h))) of
       None \<Rightarrow> Some h
     | Some v \<Rightarrow> if v = [] \<or> js_trim v = [] then Some h else missing_header r hs)"

definition authorizeTrustedProxy ::
  "auth_env \<Rightarrow> http_request option \<Rightarrow> string list option \<Rightarrow> trusted_proxy_config \<Rightarrow> string + string" where
  "authorizeTrustedProxy env req trustedProxies cfg =
     (case req of
       None \<Rightarrow> Inl ''trusted_proxy_no_request''
     | Some r \<Rightarrow>
         if \<not> str_truthy (hr_remoteAddress r)
            \<or> \<not> isTrustedProxyAddress (ae_lib env) (hr_remoteAddress r) trustedProxies
         then Inl ''trusted_proxy_untrusted_source''
         else if isLoopbackAddress (ae_lib env) (hr_remoteAddress r) then Inl ''trusted_proxy_loopback_source''
         else
           (case missing_header r (nullish (tp_requiredHeaders cfg) []) of
             Some h \<Rightarrow> Inl (''trusted_proxy_missing_header_'' @ h)
           | None \<Rightarrow>
               (case headerValue (hr_headers r (normalizeLowercaseStringOrEmpty (JString (tp_userHeader cfg)))) of
                 None \<Rightarrow> Inl ''trusted_proxy_user_missing''
               | Some v \<Rightarrow>
                   if v = [] \<or> js_trim v = [] then Inl ''trusted_proxy_user_missing''
                   else
                     (let user = js_trim v; allowUsers = nullish (tp_allowUsers cfg) [] in
                      if 0 < length allowUsers \<and> user \<notin> set allowUsers
                      then Inl ''trusted_proxy_user_not_allowed'' else Inr user))))"

definition shouldAllowTailscaleHeaderAuth :: "auth_surface \<Rightarrow> bool" where
  "shouldAllowTailscaleHeaderAuth s \<longleftrightarrow> s = SurfaceWsControlUi"

definition authorizeTrustedProxyBrowserOrigin ::
  "auth_env \<Rightarrow> auth_surface \<Rightarrow> browser_origin_policy option \<Rightarrow> auth_result option" where
  "authorizeTrustedProxyBrowserOrigin env surface policy =
     (if surface \<noteq> SurfaceHttp then None
      else
        (case policy of
          None \<Rightarrow> None
        | Some b \<Rightarrow>
            (case bo_origin b of
              None \<Rightarrow> None
            | Some raw \<Rightarrow>
                (let origin = js_trim raw in
                 if origin = [] then None
                 else
                   (case checkBrowserOrigin (ae_lib env)
                       \<lparr>og_requestHost = bo_requestHost b, og_origin = Some origin,
                        og_allowedOrigins = bo_allowedOrigins b,
                        og_allowHostHeaderOriginFallback = bo_allowHostHeaderOriginFallback b,
                        og_isLocalClient = Some False\<rparr> of
                     OriginOk _ \<Rightarrow> None
                   | OriginRejected _ \<Rightarrow> Some (AuthDenied ''trusted_proxy_origin_not_allowed'' None))))))"

subsection \<open>Authorisation\<close>

definition limiter_reset :: "auth_env \<Rightarrow> rate_limiter option \<Rightarrow> string option \<Rightarrow> string \<Rightarrow> rate_limiter option" where
  "limiter_reset env r ip scope = map_option (\<lambda>l. reset_limit (ae_lib env) l ip (Some scope)) r"

definition limiter_failure ::
  "auth_env \<Rightarrow> rate_limiter option \<Rightarrow> string option \<Rightarrow> string \<Rightarrow> int \<Rightarrow> rate_limiter option" where
  "limiter_failure env r ip scope t = map_option (\<lambda>l. recordFailure (ae_lib env) l ip (Some scope) t) r"

definition authorizeTokenAuth ::
  "auth_env \<Rightarrow> string option \<Rightarrow> string option \<Rightarrow> rate_limiter option \<Rightarrow> string option \<Rightarrow> string \<Rightarrow> int \<Rightarrow>
     auth_result \<times> rate_limiter option" where
  "authorizeTokenAuth env authToken connectToken r ip scope t =
     (if \<not> str_truthy authToken then (AuthDenied ''token_missing_config'' None, r)
      else if \<not> str_truthy connectToken then (AuthDenied ''token_missing'' None, r)
      else if \<not> safeEqualSecret env connectToken authToken then
        (AuthDenied ''token_mismatch'' None, limiter_failure env r ip scope t)
      else (AuthOk ''token'' None, limiter_reset env r ip scope))"

definition authorizePasswordAuth ::
  "auth_env \<Rightarrow> string option \<Rightarrow> string option \<Rightarrow> rate_limiter option \<Rightarrow> string option \<Rightarrow> string \<Rightarrow> int \<Rightarrow>
     auth_result \<times> rate_limiter option" where
  "authorizePasswordAuth env authPassword password r ip scope t =
     (if \<not> str_truthy authPassword then (AuthDenied ''password_missing_config'' None, r)
      else if \<not> str_truthy password then (AuthDenied ''password_missing'' None, r)
      else if \<not> safeEqualSecret env password authPassword then
        (AuthDenied ''password_mismatch'' None, limiter_failure env r ip scope t)
      else (AuthOk ''password'' None, limiter_reset env r ip scope))"

definition auth_ip :: "auth_env \<Rightarrow> authorize_params \<Rightarrow> string option" where
  "auth_ip env p =
     nullish_opt (nullish_opt (ap_clientIp p)
       (resolveRequestClientIp (ae_lib env) (ap_req p) (ap_trustedProxies p) (ap_allowRealIpFallback p = Some True)))
       (case ap_req p of None \<Rightarrow> None | Some r \<Rightarrow> hr_remoteAddress r)"

definition auth_scope :: "authorize_params \<Rightarrow> string" where
  "auth_scope p = nullish (ap_rateLimitScope p) AUTH_RATE_LIMIT_SCOPE_SHARED_SECRET"

definition auth_surface_of :: "authorize_params \<Rightarrow> auth_surface" where
  "auth_surface_of p = nullish (ap_authSurface p) SurfaceHttp"

definition authorize_trusted_proxy :: "auth_env \<Rightarrow> authorize_params \<Rightarrow> auth_result" where
  "authorize_trusted_proxy env p =
     (case ra_trustedProxy (ap_auth p) of
       None \<Rightarrow> AuthDenied ''trusted_proxy_config_missing'' None
     | Some cfg \<Rightarrow>
         if ap_trustedProxies p = None \<or> ap_trustedProxies p = Some [] then
           AuthDenied ''trusted_proxy_no_proxies_configured'' None
         else
           (case authorizeTrustedProxy env (ap_req p) (ap_trustedProxies p) cfg of
             Inl reason \<Rightarrow> AuthDenied reason None
           | Inr user \<Rightarrow>
               (case authorizeTrustedProxyBrowserOrigin env (auth_surface_of p) (ap_browserOriginPolicy p) of
                 Some denied \<Rightarrow> denied
               | None \<Rightarrow> AuthOk ''trusted-proxy'' (Some user))))"

text \<open>The part after the rate-limit check.\<close>

definition tailscale_applies :: "auth_env \<Rightarrow> authorize_params \<Rightarrow> bool" where
  "tailscale_applies env p \<longleftrightarrow>
     shouldAllowTailscaleHeaderAuth (auth_surface_of p) \<and> ra_allowTailscale (ap_auth p) \<and>
     \<not> isLocalDirectRequest env (ap_req p) \<and> \<not> hasExplicitSharedSecretAuth (ap_connectAuth p)"

definition authorize_secret ::
  "auth_env \<Rightarrow> authorize_params \<Rightarrow> rate_limiter option \<Rightarrow> int \<Rightarrow> auth_result \<times> rate_limiter option" where
  "authorize_secret env p r t =
     (let auth = ap_auth p; ip = auth_ip env p; scope = auth_scope p in
      if ra_mode auth = AuthToken then
        authorizeTokenAuth env (ra_token auth) (auth_field ca_token (ap_connectAuth p)) r ip scope t
      else if ra_mode auth = AuthPassword then
        authorizePasswordAuth env (ra_password auth) (auth_field ca_password (ap_connectAuth p)) r ip scope t
      else (AuthDenied ''unauthorized'' None, limiter_failure env r ip scope t))"

definition authorize_checked ::
  "auth_env \<Rightarrow> authorize_params \<Rightarrow> rate_limiter option \<Rightarrow> int \<Rightarrow> auth_result \<times> rate_limiter option" where
  "authorize_checked env p r t =
     (case (if tailscale_applies env p then resolveVerifiedTailscaleUser env (ap_req p) else Inl []) of
       Inr user \<Rightarrow> (AuthOk ''tailscale'' (Some (tu_login user)), limiter_reset env r (auth_ip env p) (auth_scope p))
     | Inl _ \<Rightarrow> authorize_secret env p r t)"

definition authorizeGatewayConnectCore ::
  "auth_env \<Rightarrow> authorize_params \<Rightarrow> rate_limiter option \<Rightarrow> int \<Rightarrow> int \<Rightarrow> auth_result \<times> rate_limiter option" where
  "authorizeGatewayConnectCore env p r t_check t_record =
     (if ra_mode (ap_auth p) = AuthTrustedProxy then (authorize_trusted_proxy env p, r)
      else if ra_mode (ap_auth p) = AuthNone then (AuthOk ''none'' None, r)
      else
        (case r of
          None \<Rightarrow> authorize_checked env p None t_record
        | Some l \<Rightarrow>
            (case check_limit (ae_lib env) l (auth_ip env p) (Some (auth_scope p)) t_check of
              (res, l') \<Rightarrow>
                if \<not> cr_allowed res then (AuthDenied ''rate_limited'' (Some (cr_retryAfterMs res)), Some l')
                else authorize_checked env p (Some l') t_record)))"

text \<open>Attempts that may wait for the whois lookup go through the per-key queue.\<close>

definition serialized_attempt :: "auth_env \<Rightarrow> authorize_params \<Rightarrow> rate_limiter option \<Rightarrow> bool" where
  "serialized_attempt env p r \<longleftrightarrow>
     r \<noteq> None \<and> shouldAllowTailscaleHeaderAuth (auth_surface_of p) \<and> ra_allowTailscale (ap_auth p) \<and>
     \<not> isLocalDirectRequest env (ap_req p)"

definition authorizeHttpGatewayConnect ::
  "auth_env \<Rightarrow> authorize_params \<Rightarrow> rate_limiter option \<Rightarrow> int \<Rightarrow> int \<Rightarrow> auth_result \<times> rate_limiter option" where
  "authorizeHttpGatewayConnect env p = authorizeGatewayConnectCore env (p\<lparr>ap_authSurface := Some SurfaceHttp\<rparr>)"

definition authorizeWsControlUiGatewayConnect ::
  "auth_env \<Rightarrow> authorize_params \<Rightarrow> rate_limiter option \<Rightarrow> int \<Rightarrow> int \<Rightarrow> auth_result \<times> rate_limiter option" where
  "authorizeWsControlUiGatewayConnect env p =
     authorizeGatewayConnectCore env (p\<lparr>ap_authSurface := Some SurfaceWsControlUi\<rparr>)"

subsection \<open>Configuration errors\<close>

datatype auth_config_error =
    TokenNotConfigured
  | PasswordIsReference
  | PasswordNotConfigured
  | TrustedProxyNotConfigured
  | TrustedProxyUserHeaderEmpty
  | TrustedProxyWithToken

text \<open>\<open>raw_reference\<close>: the raw configuration has a password that is not a string.\<close>

definition assertGatewayAuthConfigured :: "resolved_auth \<Rightarrow> bool \<Rightarrow> auth_config_error + unit" where
  "assertGatewayAuthConfigured auth raw_reference =
     (if ra_mode auth = AuthToken \<and> \<not> str_truthy (ra_token auth) then
        (if ra_allowTailscale auth then Inr () else Inl TokenNotConfigured)
      else if ra_mode auth = AuthPassword \<and> \<not> str_truthy (ra_password auth) then
        (if raw_reference then Inl PasswordIsReference else Inl PasswordNotConfigured)
      else if ra_mode auth = AuthTrustedProxy then
        (case ra_trustedProxy auth of
          None \<Rightarrow> Inl TrustedProxyNotConfigured
        | Some cfg \<Rightarrow>
            if tp_userHeader cfg = [] \<or> js_trim (tp_userHeader cfg) = [] then Inl TrustedProxyUserHeaderEmpty
            else if str_truthy (ra_token auth) then Inl TrustedProxyWithToken
            else Inr ())
      else Inr ())"

end
