(* ===== verification/Auth_Limit_Proofs.thy ===== *)
theory Auth_Limit_Proofs
  imports Auth_Rate_Limit
begin

text \<open>
  The authentication limiter as a machine: attempts, probes, successes and prunes at growing times.
  The machine also records, for one key, the times of the failed attempts that the limiter let
  through since the last success; its invariant bounds how many of them any window holds.
\<close>

datatype limit_op =
    FailedAttempt "string option" "string option"
  | Probe "string option" "string option"
  | Success "string option" "string option"
  | Prune

record limit_state =
  lt_now :: int
  lt_passed :: "int list"
  lt_limiter :: rate_limiter

text \<open>A wrong secret: the check, and the failure when the check lets the attempt through.\<close>

definition failed_attempt ::
  "gateway_lib \<Rightarrow> rate_limiter \<Rightarrow> string option \<Rightarrow> string option \<Rightarrow> int \<Rightarrow> bool \<times> rate_limiter" where
  "failed_attempt lib r ip scope t =
     (case check_limit lib r ip scope t of
       (res, r') \<Rightarrow> if cr_allowed res then (True, recordFailure lib r' ip scope t) else (False, r'))"

definition counted :: "gateway_lib \<Rightarrow> rate_limiter \<Rightarrow> string \<Rightarrow> string option \<Rightarrow> string option \<Rightarrow> bool" where
  "counted lib r key ip scope \<longleftrightarrow>
     limit_key lib ip scope = key \<and> \<not> isExempt lib r (normalizeRateLimitClientIp lib ip)"

fun limit_apply :: "gateway_lib \<Rightarrow> string \<Rightarrow> limit_state \<Rightarrow> limit_op \<Rightarrow> limit_state" where
  "limit_apply lib key s (FailedAttempt ip scope) =
     (case failed_attempt lib (lt_limiter s) ip scope (lt_now s) of
       (passed, r) \<Rightarrow>
         s\<lparr>lt_limiter := r,
           lt_passed := (if passed \<and> counted lib (lt_limiter s) key ip scope
                         then lt_passed s @ [lt_now s] else lt_passed s)\<rparr>)"
| "limit_apply lib key s (Probe ip scope) =
     s\<lparr>lt_limiter := snd (check_limit lib (lt_limiter s) ip scope (lt_now s))\<rparr>"
| "limit_apply lib key s (Success ip scope) =
     s\<lparr>lt_limiter := reset_limit lib (lt_limiter s) ip scope,
       lt_passed := (if limit_key lib ip scope = key then [] else lt_passed s)\<rparr>"
| "limit_apply lib key s Prune = s\<lparr>lt_limiter := prune_limits (lt_limiter s) (lt_now s)\<rparr>"

text \<open>An operation after a delay.\<close>

definition limit_step :: "gateway_lib \<Rightarrow> string \<Rightarrow> limit_state \<Rightarrow> nat \<times> limit_op \<Rightarrow> limit_state" where
  "limit_step lib key s e = limit_apply lib key (s\<lparr>lt_now := lt_now s + int (fst e)\<rparr>) (snd e)"

definition recent :: "rate_limiter \<Rightarrow> int \<Rightarrow> int list \<Rightarrow> int list" where
  "recent r now ts = filter (\<lambda>x. now - rl_windowMs r < x) ts"

definition entry_inv :: "limit_state \<Rightarrow> rate_limit_entry option \<Rightarrow> bool" where
  "entry_inv s eo \<longleftrightarrow>
     (let r = lt_limiter s; now = lt_now s; passed = lt_passed s in
      case eo of
        None \<Rightarrow> recent r now passed = []
      | Some e \<Rightarrow>
          if locked_at e now then
            (\<exists>T. re_lockedUntil e = Some T \<and> (\<forall>x \<in> set passed. x \<le> T - rl_windowMs r))
            \<and> int (length (recent r now passed)) \<le> rl_maxAttempts r
          else if lock_expired e now then recent r now passed = []
          else recent r now passed = recent r now (re_attempts e)
               \<and> int (length (recent r now passed)) < rl_maxAttempts r)"

definition limit_inv :: "string \<Rightarrow> limit_state \<Rightarrow> bool" where
  "limit_inv key s \<longleftrightarrow>
     1 \<le> rl_maxAttempts (lt_limiter s) \<and> 0 < rl_windowMs (lt_limiter s) \<and>
     rl_windowMs (lt_limiter s) \<le> rl_lockoutMs (lt_limiter s) \<and> 0 \<le> lt_now s \<and>
     jm_wf (rl_entries (lt_limiter s)) \<and>
     (\<forall>x \<in> set (lt_passed s). x \<le> lt_now s) \<and> entry_inv s (jm_get (rl_entries (lt_limiter s)) key)"

subsection \<open>Single entries\<close>

lemma entry_inv_bound:
  "1 \<le> rl_maxAttempts (lt_limiter s) \<Longrightarrow> entry_inv s eo \<Longrightarrow>
   int (length (recent (lt_limiter s) (lt_now s) (lt_passed s))) \<le> rl_maxAttempts (lt_limiter s)"
  by (auto simp: entry_inv_def Let_def split: option.splits if_splits)

lemma recent_later: "now \<le> now' \<Longrightarrow> recent r now' ts = filter (\<lambda>x. now' - rl_windowMs r < x) (recent r now ts)"
  by (auto simp: recent_def intro!: filter_cong)

lemma recent_more [simp]: "recent (r\<lparr>rl_entries := es\<rparr>) = recent r"
  by (intro ext) (simp add: recent_def)

lemma recent_recent [simp]: "recent r now (recent r now ts) = recent r now ts"
  by (simp add: recent_def)

lemma recent_append [simp]: "recent r now (xs @ ys) = recent r now xs @ recent r now ys"
  by (simp add: recent_def)

lemma slideWindow_simps [simp]:
  "re_attempts (slideWindow (rl_windowMs r) now e) = recent r now (re_attempts e)"
  "re_lockedUntil (slideWindow w now e) = re_lockedUntil e"
  by (simp_all add: slideWindow_def recent_def)

lemma locked_slide [simp]:
  "locked_at (slideWindow w now e) t = locked_at e t" "lock_expired (slideWindow w now e) t = lock_expired e t"
  by (simp_all add: locked_at_def lock_expired_def)

text \<open>Time passes: a lock may expire, and attempts leave the window.\<close>

lemma entry_inv_later:
  assumes "entry_inv s eo" "lt_now s \<le> now'"
  shows "entry_inv (s\<lparr>lt_now := now'\<rparr>) eo"
proof (cases eo)
  case None
  with assms show ?thesis by (simp add: entry_inv_def recent_later [OF assms(2)])
next
  case (Some e)
  let ?r = "lt_limiter s" and ?p = "lt_passed s"
  note later = recent_later [OF assms(2)]
  consider (locked) "locked_at e (lt_now s)" | (expired) "\<not> locked_at e (lt_now s)" "lock_expired e (lt_now s)"
    | (free) "\<not> locked_at e (lt_now s)" "\<not> lock_expired e (lt_now s)" by blast
  then show ?thesis
  proof cases
    case locked
    with assms(1) Some obtain T where T: "re_lockedUntil e = Some T" "\<forall>x \<in> set ?p. x \<le> T - rl_windowMs ?r"
      and len: "int (length (recent ?r (lt_now s) ?p)) \<le> rl_maxAttempts ?r"
      by (auto simp: entry_inv_def Let_def)
    have "int (length (recent ?r now' ?p)) \<le> int (length (recent ?r (lt_now s) ?p))"
      by (simp add: later [of ?r ?p])
    moreover have "recent ?r now' ?p = []" if "\<not> locked_at e now'"
      using that T locked by (auto simp: recent_def locked_at_def filter_empty_conv)
    moreover have "locked_at e now' \<or> lock_expired e now'"
      using T(1) locked by (auto simp: locked_at_def lock_expired_def)
    ultimately show ?thesis using T len Some
      by (cases "locked_at e now'") (auto simp: entry_inv_def Let_def)
  next
    case expired
    then have "\<not> locked_at e now'" "lock_expired e now'"
      using assms(2) by (auto simp: locked_at_def lock_expired_def split: option.splits)
    with expired assms(1) Some show ?thesis by (simp add: entry_inv_def Let_def later [of ?r ?p])
  next
    case free
    then have "\<not> locked_at e now'" "\<not> lock_expired e now'"
      by (auto simp: locked_at_def lock_expired_def split: option.splits)
    moreover have "recent ?r (lt_now s) ?p = recent ?r (lt_now s) (re_attempts e)"
      "int (length (recent ?r (lt_now s) ?p)) < rl_maxAttempts ?r"
      using free assms(1) Some by (auto simp: entry_inv_def Let_def)
    moreover from this(1) have "recent ?r now' ?p = recent ?r now' (re_attempts e)"
      by (simp add: later [of ?r ?p] later [of ?r "re_attempts e"])
    moreover have "length (recent ?r now' ?p) \<le> length (recent ?r (lt_now s) ?p)"
      by (simp add: later [of ?r ?p])
    ultimately show ?thesis using Some by (simp add: entry_inv_def Let_def)
  qed
qed

lemma entry_inv_checked:
  assumes "entry_inv s (Some e)" "1 \<le> rl_maxAttempts (lt_limiter s)"
  shows "entry_inv s (Some (snd (check_entry (lt_limiter s) (lt_now s) e)))"
proof (cases "locked_at e (lt_now s)")
  case True
  with assms show ?thesis by (simp add: check_entry_def)
next
  case False
  show ?thesis
  proof (cases "lock_expired e (lt_now s)")
    case True
    with False assms show ?thesis
      by (simp add: check_entry_def entry_inv_def Let_def locked_at_def lock_expired_def recent_def)
  next
    case free: False
    with False assms show ?thesis by (auto simp: check_entry_def entry_inv_def Let_def)
  qed
qed

text \<open>After a check that allows the attempt, the entry has no lock and its attempts are the recent ones.\<close>

lemma allowed_entry:
  assumes "entry_inv s (Some e)" "cr_allowed (fst (check_entry (lt_limiter s) (lt_now s) e))"
  shows "\<not> locked_at (snd (check_entry (lt_limiter s) (lt_now s) e)) (lt_now s)
    \<and> \<not> lock_expired (snd (check_entry (lt_limiter s) (lt_now s) e)) (lt_now s)
    \<and> re_attempts (snd (check_entry (lt_limiter s) (lt_now s) e)) = recent (lt_limiter s) (lt_now s) (lt_passed s)
    \<and> int (length (recent (lt_limiter s) (lt_now s) (lt_passed s))) < rl_maxAttempts (lt_limiter s)"
  using assms
  by (auto simp: check_entry_def entry_inv_def Let_def locked_at_def lock_expired_def recent_def
      split: if_splits option.splits)

lemma entry_inv_recorded:
  assumes free: "\<not> locked_at e (lt_now s)" "\<not> lock_expired e (lt_now s)"
    and att: "recent (lt_limiter s) (lt_now s) (re_attempts e) = recent (lt_limiter s) (lt_now s) (lt_passed s)"
    and len: "int (length (recent (lt_limiter s) (lt_now s) (lt_passed s))) < rl_maxAttempts (lt_limiter s)"
    and cfg: "0 < rl_windowMs (lt_limiter s)" "rl_windowMs (lt_limiter s) \<le> rl_lockoutMs (lt_limiter s)" "0 \<le> lt_now s"
    and past: "\<forall>x \<in> set (lt_passed s). x \<le> lt_now s"
  shows "entry_inv (s\<lparr>lt_passed := lt_passed s @ [lt_now s]\<rparr>) (Some (record_entry (lt_limiter s) (lt_now s) e))"
proof -
  let ?r = "lt_limiter s" and ?t = "lt_now s" and ?p = "lt_passed s"
  have now: "recent ?r ?t [?t] = [?t]" using cfg by (simp add: recent_def)
  show ?thesis
  proof (cases "rl_maxAttempts ?r \<le> int (length (recent ?r ?t ?p)) + 1")
    case True
    then have "record_entry ?r ?t e =
        (slideWindow (rl_windowMs ?r) ?t e)\<lparr>re_attempts := recent ?r ?t ?p @ [?t], re_lockedUntil := Some (?t + rl_lockoutMs ?r)\<rparr>"
      using free att by (simp add: record_entry_def Let_def)
    moreover have "\<forall>x \<in> set (?p @ [?t]). x \<le> ?t + rl_lockoutMs ?r - rl_windowMs ?r"
      using past cfg by auto
    ultimately show ?thesis
      using cfg len now by (auto simp: entry_inv_def Let_def locked_at_def)
  next
    case False
    then have "record_entry ?r ?t e = (slideWindow (rl_windowMs ?r) ?t e)\<lparr>re_attempts := recent ?r ?t ?p @ [?t]\<rparr>"
      using free att by (simp add: record_entry_def Let_def)
    with False free now show ?thesis
      by (simp add: entry_inv_def Let_def locked_at_def lock_expired_def)
  qed
qed

subsection \<open>The machine\<close>

lemma entry_inv_limiter [simp]:
  "entry_inv (s\<lparr>lt_limiter := (lt_limiter s)\<lparr>rl_entries := es\<rparr>\<rparr>) eo = entry_inv s eo"
  "entry_inv (s\<lparr>lt_limiter := (lt_limiter s)\<lparr>rl_entries := es\<rparr>, lt_passed := ps\<rparr>) eo = entry_inv (s\<lparr>lt_passed := ps\<rparr>) eo"
  by (simp_all add: entry_inv_def recent_def Let_def split: option.splits)

lemma check_limit_exempt:
  "isExempt lib r (normalizeRateLimitClientIp lib ip) \<Longrightarrow> snd (check_limit lib r ip scope t) = r"
  by (simp add: check_limit_def Let_def)

lemma check_limit_entries:
  "snd (check_limit lib r ip scope t) = r\<lparr>rl_entries :=
     (if isExempt lib r (normalizeRateLimitClientIp lib ip) then rl_entries r
      else case jm_get (rl_entries r) (limit_key lib ip scope) of
        None \<Rightarrow> rl_entries r
      | Some e \<Rightarrow> jm_set (rl_entries r) (limit_key lib ip scope) (snd (check_entry r t e)))\<rparr>"
  by (auto simp: check_limit_def Let_def split: option.splits prod.splits)

lemma limit_inv_probe:
  assumes "limit_inv key s"
  shows "limit_inv key (limit_apply lib key s (Probe ip scope))"
proof -
  let ?es = "rl_entries (lt_limiter s)"
  have "entry_inv s (Some (snd (check_entry (lt_limiter s) (lt_now s) e)))" if "jm_get ?es key = Some e" for e
    using that assms by (intro entry_inv_checked) (auto simp: limit_inv_def)
  with assms show ?thesis
    by (auto simp: limit_inv_def check_limit_entries split: option.splits)
qed

lemma limit_inv_success:
  assumes "limit_inv key s"
  shows "limit_inv key (limit_apply lib key s (Success ip scope))"
proof -
  have "entry_inv (s\<lparr>lt_passed := []\<rparr>) None"
    by (simp add: entry_inv_def recent_def)
  with assms show ?thesis by (auto simp: limit_inv_def reset_limit_def)
qed

lemma prune_get:
  assumes "jm_wf es"
  shows "jm_get (concat (map (prune_entry r now) es)) k =
    (case jm_get es k of None \<Rightarrow> None | Some e \<Rightarrow>
       if locked_at e now then Some e
       else if recent r now (re_attempts e) = [] then None else Some (slideWindow (rl_windowMs r) now e))"
  using assms
proof (induction es)
  case (Cons p es)
  obtain k' e where p: "p = (k', e)" by (cases p)
  from Cons.prems p have wf: "jm_wf es" and fresh: "jm_get es k' = None"
    by (auto simp: jm_wf_def jm_get_None)
  have app: "jm_get (xs @ ys) k = (case jm_get xs k of None \<Rightarrow> jm_get ys k | Some v \<Rightarrow> Some v)" for xs ys :: "(string, rate_limit_entry) js_map"
    by (induction xs) auto
  show ?case
    using Cons.IH [OF wf] fresh p
    by (auto simp: app prune_entry_def Let_def split: option.splits)
qed simp

lemma prune_keys: "fst ` set (concat (map (prune_entry r now) es)) \<subseteq> fst ` set es"
  by (induction es) (auto simp: prune_entry_def Let_def split: if_splits)

lemma prune_wf: "jm_wf es \<Longrightarrow> jm_wf (concat (map (prune_entry r now) es))"
proof (induction es)
  case (Cons p es)
  then have "fst p \<notin> fst ` set (concat (map (prune_entry r now) es))" "jm_wf (concat (map (prune_entry r now) es))"
    using prune_keys [of r now es] by (auto simp: jm_wf_def)
  moreover have "prune_entry r now p = [] \<or> (\<exists>e. prune_entry r now p = [(fst p, e)])"
    by (cases p) (auto simp: prune_entry_def Let_def)
  moreover have "jm_wf ((k, v) # m) \<longleftrightarrow> k \<notin> fst ` set m \<and> jm_wf m" for k v and m :: "(string, rate_limit_entry) js_map"
    by (simp add: jm_wf_def)
  ultimately show ?case by (elim disjE exE) (simp_all del: set_concat)
qed simp

lemma limit_inv_prune:
  assumes "limit_inv key s"
  shows "limit_inv key (limit_apply lib key s Prune)"
proof -
  let ?r = "lt_limiter s"
  from assms have wf: "jm_wf (rl_entries ?r)" and inv: "entry_inv s (jm_get (rl_entries ?r) key)"
    by (auto simp: limit_inv_def)
  have "entry_inv s (jm_get (concat (map (prune_entry ?r (lt_now s)) (rl_entries ?r))) key)"
    using inv unfolding prune_get [OF wf]
    by (auto simp: entry_inv_def Let_def split: option.splits if_splits)
  with assms show ?thesis by (simp add: limit_inv_def prune_limits_def prune_wf)
qed

lemma recordFailure_entries:
  "\<not> isExempt lib r (normalizeRateLimitClientIp lib ip) \<Longrightarrow>
   recordFailure lib r ip scope t = r\<lparr>rl_entries := jm_set (rl_entries r) (limit_key lib ip scope)
     (record_entry r t (nullish (jm_get (rl_entries r) (limit_key lib ip scope)) \<lparr>re_attempts = [], re_lockedUntil = None\<rparr>))\<rparr>"
  by (simp add: recordFailure_def Let_def)

lemma record_entry_more [simp]: "record_entry (r\<lparr>rl_entries := es\<rparr>) = record_entry r"
  by (intro ext) (simp add: record_entry_def Let_def)

lemma isExempt_more [simp]: "isExempt lib (r\<lparr>rl_entries := es\<rparr>) = isExempt lib r"
  by (intro ext) (simp add: isExempt_def)

text \<open>What a failed attempt does to the entries: nothing for an exempt client; otherwise the check and,
  when it allows the attempt, the failure.\<close>

lemma failed_attempt_cases:
  obtains (exempt) "isExempt lib r (normalizeRateLimitClientIp lib ip)" "failed_attempt lib r ip scope t = (True, r)"
  | (absent) "\<not> isExempt lib r (normalizeRateLimitClientIp lib ip)" "jm_get (rl_entries r) (limit_key lib ip scope) = None"
      "failed_attempt lib r ip scope t = (True, r\<lparr>rl_entries := jm_set (rl_entries r) (limit_key lib ip scope)
         (record_entry r t \<lparr>re_attempts = [], re_lockedUntil = None\<rparr>)\<rparr>)"
  | (denied) e where "\<not> isExempt lib r (normalizeRateLimitClientIp lib ip)" "jm_get (rl_entries r) (limit_key lib ip scope) = Some e"
      "failed_attempt lib r ip scope t = (False, r\<lparr>rl_entries := jm_set (rl_entries r) (limit_key lib ip scope) (snd (check_entry r t e))\<rparr>)"
  | (allowed) e where "\<not> isExempt lib r (normalizeRateLimitClientIp lib ip)" "jm_get (rl_entries r) (limit_key lib ip scope) = Some e"
      "cr_allowed (fst (check_entry r t e))"
      "failed_attempt lib r ip scope t = (True, r\<lparr>rl_entries := jm_set (rl_entries r) (limit_key lib ip scope)
         (record_entry r t (snd (check_entry r t e)))\<rparr>)"
proof (cases "isExempt lib r (normalizeRateLimitClientIp lib ip)")
  case True
  then have "failed_attempt lib r ip scope t = (True, r)"
    by (simp add: failed_attempt_def check_limit_def recordFailure_def Let_def)
  with True show thesis by (rule exempt)
next
  case ne: False
  let ?k = "limit_key lib ip scope"
  show thesis
  proof (cases "jm_get (rl_entries r) ?k")
    case None
    from ne None have "failed_attempt lib r ip scope t = (True, r\<lparr>rl_entries := jm_set (rl_entries r) ?k
         (record_entry r t \<lparr>re_attempts = [], re_lockedUntil = None\<rparr>)\<rparr>)"
      by (simp add: failed_attempt_def check_limit_def recordFailure_entries Let_def)
    with ne None show thesis by (rule absent)
  next
    case (Some e)
    obtain res e' where c: "check_entry r t e = (res, e')" by (cases "check_entry r t e")
    show thesis
    proof (cases "cr_allowed res")
      case True
      with ne Some c have "failed_attempt lib r ip scope t = (True, r\<lparr>rl_entries := jm_set (rl_entries r) ?k
         (record_entry r t (snd (check_entry r t e)))\<rparr>)"
        by (simp add: failed_attempt_def check_limit_def recordFailure_entries c)
      with ne Some c True show thesis by (intro allowed [of e]) simp_all
    next
      case False
      with ne Some c have "failed_attempt lib r ip scope t =
          (False, r\<lparr>rl_entries := jm_set (rl_entries r) ?k (snd (check_entry r t e))\<rparr>)"
        by (simp add: failed_attempt_def check_limit_def Let_def)
      with ne Some show thesis by (rule denied)
    qed
  qed
qed

lemma limit_state_same [simp]: "s\<lparr>lt_limiter := l, lt_passed := lt_passed s\<rparr> = s\<lparr>lt_limiter := l\<rparr>"
  by (cases s) simp

lemma limit_inv_failed:
  assumes "limit_inv key s"
  shows "limit_inv key (limit_apply lib key s (FailedAttempt ip scope))"
proof -
  let ?r = "lt_limiter s" and ?t = "lt_now s" and ?k = "limit_key lib ip scope"
  from assms have cfg: "1 \<le> rl_maxAttempts ?r" "0 < rl_windowMs ?r" "rl_windowMs ?r \<le> rl_lockoutMs ?r" "0 \<le> ?t"
    and wf: "jm_wf (rl_entries ?r)" and past: "\<forall>x \<in> set (lt_passed s). x \<le> ?t"
    and inv: "entry_inv s (jm_get (rl_entries ?r) key)"
    by (auto simp: limit_inv_def)
  have keep: "limit_inv key (s\<lparr>lt_limiter := ?r\<lparr>rl_entries := jm_set (rl_entries ?r) ?k e\<rparr>,
      lt_passed := (if ?k = key then lt_passed s @ ts else lt_passed s)\<rparr>)"
    if "?k = key \<Longrightarrow> entry_inv (s\<lparr>lt_passed := lt_passed s @ ts\<rparr>) (Some e)" "set ts \<subseteq> {?t}" for e ts
  proof (cases "?k = key")
    case True
    with that(1) have "entry_inv (s\<lparr>lt_limiter := ?r\<lparr>rl_entries := jm_set (rl_entries ?r) ?k e\<rparr>, lt_passed := lt_passed s @ ts\<rparr>) (Some e)"
      by simp
    with True cfg wf past that(2) show ?thesis by (auto simp: limit_inv_def)
  next
    case False
    with assms show ?thesis by (auto simp: limit_inv_def)
  qed
  show ?thesis
  proof (cases rule: failed_attempt_cases [of lib ?r ip scope ?t])
    case exempt
    with assms show ?thesis by (simp add: counted_def)
  next
    case absent
    let ?e = "\<lparr>re_attempts = [], re_lockedUntil = None\<rparr>"
    have "entry_inv (s\<lparr>lt_passed := lt_passed s @ [?t]\<rparr>) (Some (record_entry ?r ?t ?e))" if "?k = key"
      using that inv absent cfg past
      by (intro entry_inv_recorded) (auto simp: entry_inv_def locked_at_def lock_expired_def recent_def)
    from keep [OF this] absent show ?thesis by (simp add: counted_def)
  next
    case (denied e)
    have "entry_inv (s\<lparr>lt_passed := lt_passed s @ []\<rparr>) (Some (snd (check_entry ?r ?t e)))" if "?k = key"
      using that inv denied cfg entry_inv_checked [of s e] by simp
    from keep [OF this] have "limit_inv key (s\<lparr>lt_limiter := ?r\<lparr>rl_entries := jm_set (rl_entries ?r) ?k (snd (check_entry ?r ?t e))\<rparr>\<rparr>)"
      unfolding append_Nil2 if_cancel limit_state_same by simp
    with denied show ?thesis by simp
  next
    case (allowed e)
    have "entry_inv (s\<lparr>lt_passed := lt_passed s @ [?t]\<rparr>) (Some (record_entry ?r ?t (snd (check_entry ?r ?t e))))"
      if "?k = key"
      using that inv allowed cfg past allowed_entry [of s e] by (intro entry_inv_recorded) auto
    from keep [OF this] allowed show ?thesis by (simp add: counted_def)
  qed
qed

lemma limit_inv_apply: "limit_inv key s \<Longrightarrow> limit_inv key (limit_apply lib key s op)"
  by (cases op) (simp_all only: limit_inv_failed limit_inv_probe limit_inv_success limit_inv_prune)

lemma limit_inv_step: "limit_inv key s \<Longrightarrow> limit_inv key (limit_step lib key s e)"
proof -
  assume inv: "limit_inv key s"
  have "limit_inv key (s\<lparr>lt_now := lt_now s + int (fst e)\<rparr>)"
    using inv entry_inv_later [of s _ "lt_now s + int (fst e)"] by (auto simp: limit_inv_def)
  then show ?thesis unfolding limit_step_def by (rule limit_inv_apply)
qed

lemma limit_inv_bound:
  "limit_inv key s \<Longrightarrow> int (length (recent (lt_limiter s) (lt_now s) (lt_passed s))) \<le> rl_maxAttempts (lt_limiter s)"
  by (rule entry_inv_bound [where eo = "jm_get (rl_entries (lt_limiter s)) key"]) (simp_all add: limit_inv_def)

interpretation auth_limit: guarded_machine "limit_step lib key" "limit_inv key" for lib key
  by unfold_locales (rule limit_inv_step)

subsection \<open>The control-plane budget\<close>

definition buckets_inv :: "buckets \<Rightarrow> bool" where
  "buckets_inv bs \<longleftrightarrow> jm_wf bs \<and> length bs \<le> CONTROL_PLANE_BUCKET_MAX_ENTRIES \<and>
     list_all (\<lambda>(k, b). 1 \<le> bk_count b \<and> bk_count b \<le> CONTROL_PLANE_RATE_LIMIT_MAX_REQUESTS) bs"

datatype budget_op = Consume "gateway_client option" int | PruneBuckets int

fun budget_step :: "buckets \<Rightarrow> budget_op \<Rightarrow> buckets" where
  "budget_step bs (Consume c t) = snd (consumeControlPlaneWriteBudget bs c t)"
| "budget_step bs (PruneBuckets t) = snd (pruneStaleControlPlaneBuckets bs t)"

lemma length_set_present: "jm_get m k \<noteq> None \<Longrightarrow> length (jm_set m k v) = length m"
  by (induction m) auto

lemma list_all_jm_set: "list_all P m \<Longrightarrow> P (k, v) \<Longrightarrow> list_all P (jm_set m k v)"
  by (induction m k v rule: jm_set.induct) auto

lemma list_all_jm_delete: "list_all P m \<Longrightarrow> list_all P (jm_delete m k)"
  by (auto simp: jm_delete_def list_all_iff)

lemma open_window_inv:
  assumes "buckets_inv bs"
  shows "buckets_inv (open_window bs key t)"
proof -
  have fresh: "1 \<le> bk_count \<lparr>bk_count = 1, bk_windowStartMs = t\<rparr> \<and>
      bk_count \<lparr>bk_count = 1, bk_windowStartMs = t\<rparr> \<le> CONTROL_PLANE_RATE_LIMIT_MAX_REQUESTS"
    by (simp add: CONTROL_PLANE_RATE_LIMIT_MAX_REQUESTS_def)
  show ?thesis
  proof (cases "jm_get bs key = None \<and> CONTROL_PLANE_BUCKET_MAX_ENTRIES \<le> length bs")
    case True
    then obtain k v rest where bs: "bs = (k, v) # rest"
      by (cases bs) (auto simp: CONTROL_PLANE_BUCKET_MAX_ENTRIES_def)
    have "length (jm_delete bs k) < length bs" using length_jm_delete [of bs k] assms bs
      by (auto simp: buckets_inv_def jm_delete_def intro: le_less_trans [OF length_filter_le])
    moreover have "jm_get (jm_delete bs k) key = None" using True by simp
    ultimately have "length (jm_set (jm_delete bs k) key \<lparr>bk_count = 1, bk_windowStartMs = t\<rparr>) \<le> CONTROL_PLANE_BUCKET_MAX_ENTRIES"
      using assms by (simp add: jm_set_new buckets_inv_def)
    with True bs assms fresh show ?thesis
      by (auto simp: buckets_inv_def open_window_def intro!: list_all_jm_set list_all_jm_delete)
  next
    case False
    then have "length (jm_set bs key \<lparr>bk_count = 1, bk_windowStartMs = t\<rparr>) \<le> CONTROL_PLANE_BUCKET_MAX_ENTRIES"
      using assms by (cases "jm_get bs key") (auto simp: buckets_inv_def jm_set_new length_set_present)
    with False assms fresh show ?thesis
      by (auto simp: buckets_inv_def open_window_def intro!: list_all_jm_set)
  qed
qed

lemma budget_step_inv: "buckets_inv bs \<Longrightarrow> buckets_inv (budget_step bs op)"
proof (cases op)
  case (Consume c t)
  assume inv: "buckets_inv bs"
  let ?k = "resolveControlPlaneRateLimitKey c"
  show ?thesis
  proof (cases "jm_get bs ?k")
    case None
    with Consume inv show ?thesis by (simp add: consumeControlPlaneWriteBudget_def Let_def open_window_inv)
  next
    case (Some b)
    then have "(?k, b) \<in> set bs" by (rule jm_get_Some_in)
    with inv have "1 \<le> bk_count b" by (auto simp: buckets_inv_def list_all_iff)
    then have "buckets_inv (jm_set bs ?k (b\<lparr>bk_count := bk_count b + 1\<rparr>))" if "bk_count b < CONTROL_PLANE_RATE_LIMIT_MAX_REQUESTS"
      using that inv Some by (auto simp: buckets_inv_def length_set_present intro!: list_all_jm_set)
    with Consume inv Some show ?thesis
      by (simp add: consumeControlPlaneWriteBudget_def Let_def open_window_inv)
  qed
next
  case (PruneBuckets t)
  assume "buckets_inv bs"
  with PruneBuckets show ?thesis
    by (auto simp: buckets_inv_def pruneStaleControlPlaneBuckets_def Let_def list_all_iff
        intro: le_trans [OF length_filter_le])
qed

interpretation budget: bounded_machine budget_step buckets_inv length CONTROL_PLANE_BUCKET_MAX_ENTRIES
  by unfold_locales (rule budget_step_inv, simp_all add: buckets_inv_def)

end
