(* ===== verification/Ssrf.thy ===== *)
theory Ssrf
  imports Ip_Address
begin

text \<open>
  The SSRF guard of outbound requests: src/brain/src/infra/net/ssrf.ts and hostname.ts.

  A host name is checked against the allowlist and the blocked names and addresses, resolved once,
  the answers are checked again, and the connection is pinned to them by a lookup function that
  answers from the checked addresses only. The DNS resolver (\<open>lookup_fn\<close>) is a parameter; it
  reads and changes a world \<open>'w\<close>, so two lookups of one name may differ. A lookup function is the
  system's or a pinned one with its round-robin index and its fallback. Dispatchers are the
  descriptions the undici constructors are called with.
\<close>

record ssrf_policy =
  allowPrivateNetwork :: "bool option"
  dangerouslyAllowPrivateNetwork :: "bool option"
  allowRfc2544BenchmarkRange :: "bool option"
  allowedHostnames :: "string list option"
  hostnameAllowlist :: "string list option"

record lookup_address =
  la_address :: string
  la_family :: int

datatype lookup_result = LookupOne lookup_address | LookupMany "lookup_address list"

datatype ssrf_error =
    InvalidHostname
  | BlockedNotInAllowlist string
  | BlockedHostOrIp
  | BlockedResolvedIp
  | UnableToResolve string
  | LookupFailed string
  | PinnedNeedsAddress string
  | OverrideMismatch string string

type_synonym 'w lookup_fn = "string \<Rightarrow> 'w \<Rightarrow> (string + lookup_result) \<times> 'w"

text \<open>An optional field of an optional policy.\<close>

definition policy_field :: "(ssrf_policy \<Rightarrow> 'a option) \<Rightarrow> ssrf_policy option \<Rightarrow> 'a option" where
  "policy_field f policy = (case policy of None \<Rightarrow> None | Some p \<Rightarrow> f p)"

subsection \<open>Host names\<close>

definition strip_final_dot :: "string \<Rightarrow> string" where
  "strip_final_dot s = (if js_ends_with s ''.'' then butlast s else s)"

definition normalizeHostname :: "string \<Rightarrow> string" where
  "normalizeHostname hostname =
     (let normalized = strip_final_dot (normalizeLowercaseStringOrEmpty (JString hostname)) in
      if js_starts_with normalized ''['' \<and> js_ends_with normalized '']'' then butlast (drop 1 normalized)
      else normalized)"

definition BLOCKED_HOSTNAMES :: "string list" where
  "BLOCKED_HOSTNAMES = [''localhost'', ''localhost.localdomain'', ''metadata.google.internal'']"

text \<open>\<open>Array.from(new Set(xs))\<close> keeps the first occurrence of each element.\<close>

definition js_unique :: "'a list \<Rightarrow> 'a list" where
  "js_unique xs = rev (remdups (rev xs))"

definition normalizeHostnameSet :: "string list option \<Rightarrow> string list" where
  "normalizeHostnameSet values =
     (case values of None \<Rightarrow> []
      | Some vs \<Rightarrow> if vs = [] then [] else js_unique (filter (\<lambda>v. v \<noteq> []) (map normalizeHostname vs)))"

definition normalizeHostnameAllowlist :: "string list option \<Rightarrow> string list" where
  "normalizeHostnameAllowlist values =
     (case values of None \<Rightarrow> []
      | Some vs \<Rightarrow>
          if vs = [] then []
          else js_unique (filter (\<lambda>v. v \<noteq> ''*'' \<and> v \<noteq> ''*.'' \<and> 0 < length v) (map normalizeHostname vs)))"

definition isPrivateNetworkAllowedByPolicy :: "ssrf_policy option \<Rightarrow> bool" where
  "isPrivateNetworkAllowedByPolicy policy \<longleftrightarrow>
     policy_field dangerouslyAllowPrivateNetwork policy = Some True \<or>
     policy_field allowPrivateNetwork policy = Some True"

definition shouldSkipPrivateNetworkChecks :: "string \<Rightarrow> ssrf_policy option \<Rightarrow> bool" where
  "shouldSkipPrivateNetworkChecks hostname policy \<longleftrightarrow>
     isPrivateNetworkAllowedByPolicy policy \<or>
     hostname \<in> set (normalizeHostnameSet (policy_field allowedHostnames policy))"

definition resolveIpv4SpecialUseBlockOptions :: "ssrf_policy option \<Rightarrow> bool" where
  "resolveIpv4SpecialUseBlockOptions policy \<longleftrightarrow>
     policy_field ssrf_policy.allowRfc2544BenchmarkRange policy = Some True"

definition isHostnameAllowedByPattern :: "string \<Rightarrow> string \<Rightarrow> bool" where
  "isHostnameAllowedByPattern hostname pattern =
     (if js_starts_with pattern ''*.'' then
        (let sfx = drop 2 pattern in
         if sfx = [] \<or> hostname = sfx then False else js_ends_with hostname (''.'' @ sfx))
      else hostname = pattern)"

definition matchesHostnameAllowlist :: "string \<Rightarrow> string list \<Rightarrow> bool" where
  "matchesHostnameAllowlist hostname allowlist =
     (if allowlist = [] then True else list_ex (isHostnameAllowedByPattern hostname) allowlist)"

subsection \<open>Addresses\<close>

definition looksLikeUnsupportedIpv4Literal :: "string \<Rightarrow> bool" where
  "looksLikeUnsupportedIpv4Literal address =
     (let parts = js_split (CHR ''.'') address in
      if parts = [] \<or> 4 < length parts then False
      else if list_ex (\<lambda>p. p = []) parts then True
      else list_all (\<lambda>p. (p \<noteq> [] \<and> list_all is_digit p) \<or> js_lower (take 2 p) = ''0x'') parts)"

definition isPrivateIpAddress :: "ipaddr_lib \<Rightarrow> ssrf_policy option \<Rightarrow> string \<Rightarrow> bool" where
  "isPrivateIpAddress lib policy address =
     (let normalized = normalizeHostname address;
          allowBenchmark = resolveIpv4SpecialUseBlockOptions policy in
      if normalized = [] then False
      else (case parseCanonicalIpAddress lib (Some normalized) of
        Some strictIp \<Rightarrow>
          if isIpv4Address strictIp then isBlockedSpecialUseIpv4Address lib allowBenchmark strictIp
          else if isBlockedSpecialUseIpv6Address lib strictIp then True
          else (case extractEmbeddedIpv4FromIpv6 lib strictIp of
            Some embedded \<Rightarrow> isBlockedSpecialUseIpv4Address lib allowBenchmark embedded
          | None \<Rightarrow> False)
      | None \<Rightarrow>
          if js_includes normalized '':'' \<and> parseLooseIpAddress lib (Some normalized) = None then True
          else if \<not> isCanonicalDottedDecimalIPv4 lib (Some normalized)
                  \<and> isLegacyIpv4Literal lib (Some normalized) then True
          else looksLikeUnsupportedIpv4Literal normalized))"

definition isBlockedHostnameNormalized :: "string \<Rightarrow> bool" where
  "isBlockedHostnameNormalized normalized =
     (if normalized \<in> set BLOCKED_HOSTNAMES then True
      else js_ends_with normalized ''.localhost'' \<or> js_ends_with normalized ''.local''
           \<or> js_ends_with normalized ''.internal'')"

definition isBlockedHostname :: "string \<Rightarrow> bool" where
  "isBlockedHostname hostname =
     (let normalized = normalizeHostname hostname in
      if normalized = [] then False else isBlockedHostnameNormalized normalized)"

definition isBlockedHostnameOrIp :: "ipaddr_lib \<Rightarrow> ssrf_policy option \<Rightarrow> string \<Rightarrow> bool" where
  "isBlockedHostnameOrIp lib policy hostname =
     (let normalized = normalizeHostname hostname in
      if normalized = [] then False
      else isBlockedHostnameNormalized normalized \<or> isPrivateIpAddress lib policy normalized)"

definition assertAllowedHostOrIpOrThrow ::
  "ipaddr_lib \<Rightarrow> ssrf_policy option \<Rightarrow> string \<Rightarrow> ssrf_error + unit" where
  "assertAllowedHostOrIpOrThrow lib policy h =
     (if isBlockedHostnameOrIp lib policy h then Inl BlockedHostOrIp else Inr ())"

fun assertAllowedResolvedAddressesOrThrow ::
  "ipaddr_lib \<Rightarrow> ssrf_policy option \<Rightarrow> lookup_address list \<Rightarrow> ssrf_error + unit" where
  "assertAllowedResolvedAddressesOrThrow lib policy [] = Inr ()"
| "assertAllowedResolvedAddressesOrThrow lib policy (e # es) =
     (if isBlockedHostnameOrIp lib policy (la_address e) then Inl BlockedResolvedIp
      else assertAllowedResolvedAddressesOrThrow lib policy es)"

fun normalizeLookupResults :: "lookup_result \<Rightarrow> lookup_address list" where
  "normalizeLookupResults (LookupMany rs) = rs"
| "normalizeLookupResults (LookupOne r) = [r]"

subsection \<open>Pinned lookups\<close>

datatype pinned_lookup =
    SystemLookup
  | PinnedLookup string "lookup_address list" nat pinned_lookup

text \<open>The \<open>options\<close> argument of a lookup: absent (or the callback itself), a family number, null, or an
  object with its \<open>family\<close>, when that is a number, and \<open>all\<close>.\<close>

datatype lookup_options = NoOptions | FamilyOption int | NullOption | ObjectOptions "int option" bool

text \<open>The callback gets one address with its family or all of them, or the call is handed to the system.\<close>

datatype lookup_answer = AnswerOne string int | AnswerAll "lookup_address list" | AskSystem string lookup_options

definition pinned_records :: "string list \<Rightarrow> lookup_address list" where
  "pinned_records addresses =
     map (\<lambda>a. \<lparr>la_address = a, la_family = (if js_includes a '':'' then 6 else 4)\<rparr>) addresses"

definition createPinnedLookup ::
  "string \<Rightarrow> string list \<Rightarrow> pinned_lookup option \<Rightarrow> ssrf_error + pinned_lookup" where
  "createPinnedLookup hostname addresses fallback =
     (if length addresses = 0 then Inl (PinnedNeedsAddress hostname)
      else Inr (PinnedLookup (normalizeHostname hostname) (pinned_records addresses) 0
                  (nullish fallback SystemLookup)))"

definition requested_family :: "lookup_options \<Rightarrow> int" where
  "requested_family options = (case options of FamilyOption n \<Rightarrow> n | ObjectOptions (Some n) _ \<Rightarrow> n | _ \<Rightarrow> 0)"

definition wants_all :: "lookup_options \<Rightarrow> bool" where
  "wants_all options = (case options of ObjectOptions _ a \<Rightarrow> a | _ \<Rightarrow> False)"

definition usable_records :: "lookup_address list \<Rightarrow> lookup_options \<Rightarrow> lookup_address list" where
  "usable_records records options =
     (let fam = requested_family options;
          candidates = (if fam = 4 \<or> fam = 6 then filter (\<lambda>r. la_family r = fam) records else records)
      in if 0 < length candidates then candidates else records)"

text \<open>A call of the lookup function with a callback.\<close>

fun lookup_call :: "pinned_lookup \<Rightarrow> string \<Rightarrow> lookup_options \<Rightarrow> lookup_answer \<times> pinned_lookup" where
  "lookup_call SystemLookup host options = (AskSystem host options, SystemLookup)"
| "lookup_call (PinnedLookup normalizedHost records index fallback) host options =
     (let normalized = normalizeHostname host in
      if normalized = [] \<or> normalized \<noteq> normalizedHost then
        (let (answer, fallback') = lookup_call fallback host options
         in (answer, PinnedLookup normalizedHost records index fallback'))
      else
        (let usable = usable_records records options in
         if wants_all options then (AnswerAll usable, PinnedLookup normalizedHost records index fallback)
         else
           (let chosen = usable ! (index mod length usable)
            in (AnswerOne (la_address chosen) (la_family chosen),
                PinnedLookup normalizedHost records (index + 1) fallback))))"

subsection \<open>Resolution\<close>

record pinned_hostname =
  pn_hostname :: string
  pn_addresses :: "string list"
  pn_lookup :: pinned_lookup

record pinned_override =
  po_hostname :: string
  po_addresses :: "string list"

text \<open>The loop of \<open>dedupeAndPreferIpv4\<close> over the seen addresses and the two result lists.\<close>

fun dedupe_loop ::
  "string set \<Rightarrow> string list \<Rightarrow> string list \<Rightarrow> lookup_address list \<Rightarrow> string list" where
  "dedupe_loop seen ipv4 otherFamilies [] = ipv4 @ otherFamilies"
| "dedupe_loop seen ipv4 otherFamilies (e # es) =
     (if la_address e \<in> seen then dedupe_loop seen ipv4 otherFamilies es
      else if la_family e = 4 then
        dedupe_loop (insert (la_address e) seen) (ipv4 @ [la_address e]) otherFamilies es
      else dedupe_loop (insert (la_address e) seen) ipv4 (otherFamilies @ [la_address e]) es)"

definition dedupeAndPreferIpv4 :: "lookup_address list \<Rightarrow> string list" where
  "dedupeAndPreferIpv4 results = dedupe_loop {} [] [] results"

text \<open>What follows the DNS answer.\<close>

definition pin_results ::
  "ipaddr_lib \<Rightarrow> ssrf_policy option \<Rightarrow> string \<Rightarrow> string \<Rightarrow> bool \<Rightarrow> lookup_address list \<Rightarrow> ssrf_error + pinned_hostname" where
  "pin_results lib policy hostname normalized skip results =
     (if length results = 0 then Inl (UnableToResolve hostname)
      else
        (case (if \<not> skip then assertAllowedResolvedAddressesOrThrow lib policy results else Inr ()) of
          Inl e \<Rightarrow> Inl e
        | Inr _ \<Rightarrow>
            (let addresses = dedupeAndPreferIpv4 results in
             if length addresses = 0 then Inl (UnableToResolve hostname)
             else (case createPinnedLookup normalized addresses None of
               Inl e \<Rightarrow> Inl e
             | Inr l \<Rightarrow> Inr \<lparr>pn_hostname = normalized, pn_addresses = addresses, pn_lookup = l\<rparr>))))"

definition resolvePinnedHostnameWithPolicy ::
  "ipaddr_lib \<Rightarrow> 'w lookup_fn \<Rightarrow> ssrf_policy option \<Rightarrow> string \<Rightarrow> 'w \<Rightarrow> (ssrf_error + pinned_hostname) \<times> 'w" where
  "resolvePinnedHostnameWithPolicy lib lookupFn policy hostname w =
     (let normalized = normalizeHostname hostname in
      if normalized = [] then (Inl InvalidHostname, w)
      else
        (let allowlist = normalizeHostnameAllowlist (policy_field hostnameAllowlist policy);
             skip = shouldSkipPrivateNetworkChecks normalized policy in
         if \<not> matchesHostnameAllowlist normalized allowlist then (Inl (BlockedNotInAllowlist hostname), w)
         else
           (case (if \<not> skip then assertAllowedHostOrIpOrThrow lib policy normalized else Inr ()) of
             Inl e \<Rightarrow> (Inl e, w)
           | Inr _ \<Rightarrow>
               (case lookupFn normalized w of
                 (Inl m, w') \<Rightarrow> (Inl (LookupFailed m), w')
               | (Inr r, w') \<Rightarrow>
                   (pin_results lib policy hostname normalized skip (normalizeLookupResults r), w')))))"

definition resolvePinnedHostname ::
  "ipaddr_lib \<Rightarrow> 'w lookup_fn \<Rightarrow> string \<Rightarrow> 'w \<Rightarrow> (ssrf_error + pinned_hostname) \<times> 'w" where
  "resolvePinnedHostname lib lookupFn hostname w = resolvePinnedHostnameWithPolicy lib lookupFn None hostname w"

definition assertPublicHostname ::
  "ipaddr_lib \<Rightarrow> 'w lookup_fn \<Rightarrow> string \<Rightarrow> 'w \<Rightarrow> (ssrf_error + unit) \<times> 'w" where
  "assertPublicHostname lib lookupFn hostname w =
     (case resolvePinnedHostname lib lookupFn hostname w of
        (Inl e, w') \<Rightarrow> (Inl e, w') | (Inr _, w') \<Rightarrow> (Inr (), w'))"

subsection \<open>Dispatchers\<close>

definition resolvePinnedDispatcherLookup ::
  "ipaddr_lib \<Rightarrow> pinned_hostname \<Rightarrow> pinned_override option \<Rightarrow> ssrf_policy option \<Rightarrow> ssrf_error + pinned_lookup" where
  "resolvePinnedDispatcherLookup lib pinned ov policy =
     (case ov of
       None \<Rightarrow> Inr (pn_lookup pinned)
     | Some r \<Rightarrow>
         (let h = normalizeHostname (po_hostname r) in
          if h = [] \<or> h \<noteq> pn_hostname pinned then Inl (OverrideMismatch (pn_hostname pinned) (po_hostname r))
          else
            (case (if \<not> shouldSkipPrivateNetworkChecks (pn_hostname pinned) policy
                   then assertAllowedResolvedAddressesOrThrow lib policy (pinned_records (po_addresses r))
                   else Inr ()) of
              Inl e \<Rightarrow> Inl e
            | Inr _ \<Rightarrow> createPinnedLookup (pn_hostname pinned) (po_addresses r) (Some (pn_lookup pinned)))))"

type_synonym connect_options = "(string, js_value) js_map"

datatype dispatcher_policy =
    PolicyDirect "connect_options option" "pinned_override option"
  | PolicyEnvProxy "connect_options option" "connect_options option" "pinned_override option"
  | PolicyExplicitProxy string "bool option" "connect_options option" "pinned_override option"

fun policy_override :: "dispatcher_policy \<Rightarrow> pinned_override option" where
  "policy_override (PolicyDirect _ h) = h"
| "policy_override (PolicyEnvProxy _ _ h) = h"
| "policy_override (PolicyExplicitProxy _ _ _ h) = h"

text \<open>The options a connection is made with, and the lookup function among them.\<close>

record connect_spec =
  cs_options :: connect_options
  cs_lookup :: "pinned_lookup option"

datatype dispatcher =
    Http1Agent "connect_spec option"
  | EnvProxyAgent "connect_spec option" "connect_options option"
  | ProxyAgent string "connect_spec option"

definition plain_connect :: "connect_options \<Rightarrow> connect_spec" where
  "plain_connect o' = \<lparr>cs_options = o', cs_lookup = None\<rparr>"

definition withPinnedLookup :: "pinned_lookup \<Rightarrow> connect_options option \<Rightarrow> connect_spec" where
  "withPinnedLookup l connect =
     \<lparr>cs_options = (case connect of None \<Rightarrow> [] | Some c \<Rightarrow> jm_delete c ''lookup''), cs_lookup = Some l\<rparr>"

definition createPinnedDispatcher ::
  "ipaddr_lib \<Rightarrow> pinned_hostname \<Rightarrow> dispatcher_policy option \<Rightarrow> ssrf_policy option \<Rightarrow> ssrf_error + dispatcher" where
  "createPinnedDispatcher lib pinned policy ssrfPolicy =
     (case resolvePinnedDispatcherLookup lib pinned (case policy of None \<Rightarrow> None | Some p \<Rightarrow> policy_override p) ssrfPolicy of
       Inl e \<Rightarrow> Inl e
     | Inr l \<Rightarrow>
         Inr (case policy of
           None \<Rightarrow> Http1Agent (Some (withPinnedLookup l None))
         | Some (PolicyDirect connect _) \<Rightarrow> Http1Agent (Some (withPinnedLookup l connect))
         | Some (PolicyEnvProxy connect proxyTls _) \<Rightarrow>
             EnvProxyAgent (Some (withPinnedLookup l connect)) proxyTls
         | Some (PolicyExplicitProxy proxyUrl _ proxyTls _) \<Rightarrow>
             ProxyAgent (js_trim proxyUrl) (Some (withPinnedLookup l proxyTls))))"

end
