(* ===== verification/Fetch_Guard.thy ===== *)
theory Fetch_Guard
  imports Ssrf "HOL-Library.Char_ord" "HOL-Library.List_Lexorder"
begin

text \<open>
  The guarded fetch: src/brain/src/infra/net/fetch-guard.ts, redirect-headers.ts and proxy-env.ts.

  The loop over redirects is \<open>fetch_loop\<close>; one pass of it is \<open>hop\<close>, whose try block is
  \<open>try_block\<close>. The URL parser, the DNS resolver, the fetch implementations and the process
  environment are the fields of \<open>fetch_env\<close>. Every pass records the requests it makes and the
  dispatchers it creates and closes as events. Header lists are those the \<open>Headers\<close> constructor
  accepts. Log and capture calls are left out; an abort shows as a rejected fetch.
\<close>

subsection \<open>Headers\<close>

type_synonym headers = "(string \<times> string) list"

definition http_ws :: "char \<Rightarrow> bool" where
  "http_ws c \<longleftrightarrow> (of_char c :: nat) \<in> set [9, 10, 13, 32]"

definition header_value :: "string \<Rightarrow> string" where
  "header_value v = rev (dropWhile http_ws (rev (dropWhile http_ws v)))"

text \<open>\<open>append\<close> of a header list: names in lower case; values of one name are joined, but those of
  \<open>set-cookie\<close> stay apart.\<close>

fun headers_append :: "headers \<Rightarrow> string \<Rightarrow> string \<Rightarrow> headers" where
  "headers_append [] name v = [(js_lower name, header_value v)]"
| "headers_append ((n, x) # hs) name v =
     (if n = js_lower name \<and> n \<noteq> ''set-cookie'' then (n, x @ '', '' @ header_value v) # hs
      else (n, x) # headers_append hs name v)"

definition new_Headers :: "headers \<Rightarrow> headers" where
  "new_Headers hs = foldl (\<lambda>acc (n, v). headers_append acc n v) [] hs"

definition headers_delete :: "headers \<Rightarrow> string \<Rightarrow> headers" where
  "headers_delete hs name = filter (\<lambda>h. fst h \<noteq> name) hs"

definition headers_entries :: "headers \<Rightarrow> headers" where
  "headers_entries hs = sort_key fst hs"

definition CROSS_ORIGIN_REDIRECT_SAFE_HEADERS :: "string list" where
  "CROSS_ORIGIN_REDIRECT_SAFE_HEADERS = [''accept'', ''accept-encoding'', ''accept-language'', ''cache-control'',
     ''content-language'', ''content-type'', ''if-match'', ''if-modified-since'', ''if-none-match'',
     ''if-unmodified-since'', ''pragma'', ''range'', ''user-agent'']"

definition retainSafeRedirectHeaders :: "headers option \<Rightarrow> headers option" where
  "retainSafeRedirectHeaders hs =
     map_option (\<lambda>h. foldl (\<lambda>safe (key, v).
         if normalizeLowercaseStringOrEmpty (JString key) \<in> set CROSS_ORIGIN_REDIRECT_SAFE_HEADERS
         then jm_set safe key v else safe) [] (headers_entries (new_Headers h))) hs"

definition BODY_HEADERS :: "string list" where
  "BODY_HEADERS = [''content-encoding'', ''content-language'', ''content-length'', ''content-location'',
     ''content-type'', ''transfer-encoding'']"

definition dropBodyHeaders :: "headers option \<Rightarrow> headers option" where
  "dropBodyHeaders hs = map_option (\<lambda>h. foldl headers_delete (new_Headers h) BODY_HEADERS) hs"

subsection \<open>Requests\<close>

record request_init =
  ri_method :: "string option"
  ri_body :: "string option"
  ri_headers :: "headers option"

definition retainSafeHeadersForCrossOriginRedirect :: "request_init option \<Rightarrow> request_init option" where
  "retainSafeHeadersForCrossOriginRedirect init =
     (case init of
       None \<Rightarrow> None
     | Some i \<Rightarrow> if ri_headers i = None then init
                 else Some (i\<lparr>ri_headers := retainSafeRedirectHeaders (ri_headers i)\<rparr>))"

text \<open>\<open>toUpperCase\<close> on ASCII letters: a method is compared with ASCII words only, and no other
  Latin-1 character has an upper case that is part of one of them.\<close>

definition ascii_upper :: "string \<Rightarrow> string" where
  "ascii_upper s = map (\<lambda>c. if is_lower_alpha c then char_of ((of_char c :: nat) - 32) else c) s"

definition current_method :: "request_init \<Rightarrow> string" where
  "current_method i = (case ri_method i of None \<Rightarrow> ''GET'' | Some m \<Rightarrow> ascii_upper m)"

definition isRedirectStatus :: "int \<Rightarrow> bool" where
  "isRedirectStatus s \<longleftrightarrow> s = 301 \<or> s = 302 \<or> s = 303 \<or> s = 307 \<or> s = 308"

definition rewriteRedirectInitForMethod :: "request_init option \<Rightarrow> int \<Rightarrow> request_init option" where
  "rewriteRedirectInitForMethod init status =
     (case init of
       None \<Rightarrow> None
     | Some i \<Rightarrow>
         (let m = current_method i;
              shouldForceGet = (if status = 303 then m \<noteq> ''GET'' \<and> m \<noteq> ''HEAD''
                                else (status = 301 \<or> status = 302) \<and> m = ''POST'')
          in if \<not> shouldForceGet then init
             else Some (i\<lparr>ri_method := Some ''GET'', ri_body := None, ri_headers := dropBodyHeaders (ri_headers i)\<rparr>)))"

definition rewriteRedirectInitForCrossOrigin :: "request_init option \<Rightarrow> bool \<Rightarrow> request_init option" where
  "rewriteRedirectInitForCrossOrigin init allowUnsafeReplay =
     (case init of
       None \<Rightarrow> None
     | Some i \<Rightarrow>
         if allowUnsafeReplay then init
         else if current_method i = ''GET'' \<or> current_method i = ''HEAD'' then init
         else Some (i\<lparr>ri_body := None, ri_headers := dropBodyHeaders (ri_headers i)\<rparr>))"

subsection \<open>Proxy environment\<close>

definition PROXY_ENV_KEYS :: "string list" where
  "PROXY_ENV_KEYS = [''HTTP_PROXY'', ''HTTPS_PROXY'', ''ALL_PROXY'', ''http_proxy'', ''https_proxy'', ''all_proxy'']"

definition hasProxyEnvConfigured :: "(string \<Rightarrow> string option) \<Rightarrow> bool" where
  "hasProxyEnvConfigured env \<longleftrightarrow>
     list_ex (\<lambda>k. case env k of None \<Rightarrow> False | Some v \<Rightarrow> 0 < length (js_trim v)) PROXY_ENV_KEYS"

text \<open>\<open>None\<close> is undefined, \<open>Some None\<close> is null.\<close>

definition normalizeProxyEnvValue :: "string option \<Rightarrow> string option option" where
  "normalizeProxyEnvValue v =
     map_option (\<lambda>s. let trimmed = js_trim s in if 0 < length trimmed then Some trimmed else None) v"

definition resolveEnvHttpProxyUrl :: "(string \<Rightarrow> string option) \<Rightarrow> bool \<Rightarrow> string option" where
  "resolveEnvHttpProxyUrl env https =
     (let lowerHttp = normalizeProxyEnvValue (env ''http_proxy'');
          lowerHttps = normalizeProxyEnvValue (env ''https_proxy'');
          http = (if lowerHttp \<noteq> None then lowerHttp else normalizeProxyEnvValue (env ''HTTP_PROXY''));
          secure = (if lowerHttps \<noteq> None then lowerHttps else normalizeProxyEnvValue (env ''HTTPS_PROXY''))
      in if https then nullish_opt (nullish secure None) (nullish http None) else nullish http None)"

definition hasEnvHttpProxyConfigured :: "(string \<Rightarrow> string option) \<Rightarrow> bool \<Rightarrow> bool" where
  "hasEnvHttpProxyConfigured env https \<longleftrightarrow> resolveEnvHttpProxyUrl env https \<noteq> None"

subsection \<open>Parameters\<close>

record url =
  u_href :: string
  u_protocol :: string
  u_hostname :: string
  u_origin :: string

record response =
  rs_status :: int
  rs_location :: "string option"

datatype transport = RuntimeFetch | DefaultFetch

record request =
  rq_transport :: transport
  rq_url :: string
  rq_init :: "request_init option"
  rq_redirect :: string
  rq_dispatcher :: "dispatcher option"

record 'w fetch_env =
  fe_lib :: ipaddr_lib
  fe_url :: "string \<Rightarrow> url option"
  fe_relative_url :: "string \<Rightarrow> url \<Rightarrow> url option"
  fe_lookup :: "'w lookup_fn"
  fe_fetch :: "request \<Rightarrow> 'w \<Rightarrow> (string + response) \<times> 'w"
  fe_env :: "string \<Rightarrow> string option"

datatype guarded_mode = STRICT | TRUSTED_ENV_PROXY

text \<open>A fetch implementation is a reference; \<open>fp_mocked\<close> says of a reference whether it is a test mock.\<close>

record fetch_params =
  fp_url :: string
  fp_fetchImpl :: "nat option"
  fp_globalFetch :: "nat option"
  fp_mocked :: "nat \<Rightarrow> bool"
  fp_init :: "request_init option"
  fp_maxRedirects :: "js_number option"
  fp_allowCrossOriginUnsafeRedirectReplay :: "bool option"
  fp_policy :: "ssrf_policy option"
  fp_dispatcherPolicy :: "dispatcher_policy option"
  fp_mode :: "guarded_mode option"
  fp_pinDns :: "bool option"
  fp_proxy :: "string option"
  fp_dangerouslyAllowEnvProxyWithoutPinnedDns :: "bool option"

datatype fetch_error =
    FetchUnavailable
  | InvalidUrl
  | ExplicitProxyNeedsHttps
  | InvalidExplicitProxyUrl
  | ExplicitProxyProtocol
  | SsrfFailure ssrf_error
  | FetchFailed string
  | MissingLocation int
  | TooManyRedirects nat
  | RedirectLoop
  | InvalidLocation

datatype fetch_event =
    Created dispatcher
  | Requested request
  | BodyCancelled
  | Closed dispatcher
  | CleanedUp

definition DEFAULT_MAX_REDIRECTS :: nat where
  "DEFAULT_MAX_REDIRECTS = 3"

definition withStrictGuardedFetchMode :: "fetch_params \<Rightarrow> fetch_params" where
  "withStrictGuardedFetchMode p = p\<lparr>fp_mode := Some STRICT\<rparr>"

definition withTrustedEnvProxyGuardedFetchMode :: "fetch_params \<Rightarrow> fetch_params" where
  "withTrustedEnvProxyGuardedFetchMode p = p\<lparr>fp_mode := Some TRUSTED_ENV_PROXY\<rparr>"

definition resolveGuardedFetchMode :: "fetch_params \<Rightarrow> guarded_mode" where
  "resolveGuardedFetchMode p =
     (case fp_mode p of
       Some m \<Rightarrow> m
     | None \<Rightarrow>
         if fp_proxy p = Some ''env'' \<and> fp_dangerouslyAllowEnvProxyWithoutPinnedDns p = Some True
         then TRUSTED_ENV_PROXY else STRICT)"

definition max_redirects :: "fetch_params \<Rightarrow> nat" where
  "max_redirects p =
     (case fp_maxRedirects p of Some (Fin q) \<Rightarrow> nat (max 0 (floor q)) | _ \<Rightarrow> DEFAULT_MAX_REDIRECTS)"

subsection \<open>Choosing the dispatcher\<close>

definition assertExplicitProxySupportsPinnedDns ::
  "url \<Rightarrow> dispatcher_policy option \<Rightarrow> bool option \<Rightarrow> fetch_error + unit" where
  "assertExplicitProxySupportsPinnedDns u dp pinDns =
     (if pinDns \<noteq> Some False
         \<and> (case dp of Some (PolicyExplicitProxy _ _ _ _) \<Rightarrow> True | _ \<Rightarrow> False)
         \<and> u_protocol u \<noteq> ''https:''
      then Inl ExplicitProxyNeedsHttps else Inr ())"

definition createPolicyDispatcherWithoutPinnedDns :: "dispatcher_policy option \<Rightarrow> dispatcher option" where
  "createPolicyDispatcherWithoutPinnedDns dp =
     (case dp of
       None \<Rightarrow> None
     | Some (PolicyDirect connect _) \<Rightarrow> Some (Http1Agent (map_option plain_connect connect))
     | Some (PolicyEnvProxy connect proxyTls _) \<Rightarrow>
         Some (EnvProxyAgent (map_option plain_connect connect) proxyTls)
     | Some (PolicyExplicitProxy proxyUrl _ proxyTls _) \<Rightarrow>
         Some (ProxyAgent (js_trim proxyUrl) (map_option plain_connect proxyTls)))"

text \<open>The policy the proxy's own host is checked with when private proxies are allowed.\<close>

definition private_proxy_policy :: "ssrf_policy option \<Rightarrow> ssrf_policy option" where
  "private_proxy_policy policy =
     Some \<lparr>allowPrivateNetwork = Some True,
           dangerouslyAllowPrivateNetwork = policy_field dangerouslyAllowPrivateNetwork policy,
           allowRfc2544BenchmarkRange = policy_field ssrf_policy.allowRfc2544BenchmarkRange policy,
           allowedHostnames = policy_field allowedHostnames policy,
           hostnameAllowlist = None\<rparr>"

definition web_protocol :: "url \<Rightarrow> bool" where
  "web_protocol u \<longleftrightarrow> u_protocol u \<in> set [''http:'', ''https:'']"

definition assertExplicitProxyAllowed ::
  "'w fetch_env \<Rightarrow> dispatcher_policy option \<Rightarrow> ssrf_policy option \<Rightarrow> 'w \<Rightarrow> (fetch_error + unit) \<times> 'w" where
  "assertExplicitProxyAllowed env dp policy w =
     (case dp of
       Some (PolicyExplicitProxy proxyUrl allowPrivateProxy _ _) \<Rightarrow>
         (case fe_url env proxyUrl of
           None \<Rightarrow> (Inl InvalidExplicitProxyUrl, w)
         | Some u \<Rightarrow>
             if \<not> web_protocol u then (Inl ExplicitProxyProtocol, w)
             else
               (case resolvePinnedHostnameWithPolicy (fe_lib env) (fe_lookup env)
                       (if allowPrivateProxy = Some True then private_proxy_policy policy else policy)
                       (u_hostname u) w of
                 (Inl e, w') \<Rightarrow> (Inl (SsrfFailure e), w')
               | (Inr _, w') \<Rightarrow> (Inr (), w')))
     | _ \<Rightarrow> (Inr (), w))"

definition trusted_proxy :: "'w fetch_env \<Rightarrow> fetch_params \<Rightarrow> bool" where
  "trusted_proxy env p \<longleftrightarrow>
     resolveGuardedFetchMode p = TRUSTED_ENV_PROXY \<and> hasProxyEnvConfigured (fe_env env)"

definition target_dispatcher ::
  "'w fetch_env \<Rightarrow> fetch_params \<Rightarrow> url \<Rightarrow> 'w \<Rightarrow> (fetch_error + dispatcher option) \<times> 'w" where
  "target_dispatcher env p u w =
     (if trusted_proxy env p then (Inr (Some (EnvProxyAgent None None)), w)
      else
        (case resolvePinnedHostnameWithPolicy (fe_lib env) (fe_lookup env) (fp_policy p) (u_hostname u) w of
          (Inl e, w') \<Rightarrow> (Inl (SsrfFailure e), w')
        | (Inr pinned, w') \<Rightarrow>
            if fp_pinDns p = Some False then
              (Inr (createPolicyDispatcherWithoutPinnedDns (fp_dispatcherPolicy p)), w')
            else
              (case createPinnedDispatcher (fe_lib env) pinned (fp_dispatcherPolicy p) (fp_policy p) of
                Inl e \<Rightarrow> (Inl (SsrfFailure e), w')
              | Inr d \<Rightarrow> (Inr (Some d), w'))))"

definition choose_dispatcher ::
  "'w fetch_env \<Rightarrow> fetch_params \<Rightarrow> url \<Rightarrow> 'w \<Rightarrow> (fetch_error + dispatcher option) \<times> 'w" where
  "choose_dispatcher env p u w =
     (case assertExplicitProxySupportsPinnedDns u (fp_dispatcherPolicy p) (fp_pinDns p) of
       Inl e \<Rightarrow> (Inl e, w)
     | Inr _ \<Rightarrow>
         (case assertExplicitProxyAllowed env (fp_dispatcherPolicy p) (fp_policy p) w of
           (Inl e, w') \<Rightarrow> (Inl e, w')
         | (Inr _, w') \<Rightarrow> target_dispatcher env p u w'))"

subsection \<open>One pass of the loop\<close>

definition isAmbientGlobalFetch :: "nat option \<Rightarrow> nat option \<Rightarrow> bool" where
  "isAmbientGlobalFetch fetchImpl globalFetch \<longleftrightarrow>
     fetchImpl \<noteq> None \<and> globalFetch \<noteq> None \<and> fetchImpl = globalFetch"

definition supports_dispatcher :: "fetch_params \<Rightarrow> nat \<Rightarrow> bool" where
  "supports_dispatcher p defaultFetch \<longleftrightarrow>
     (fp_fetchImpl p \<noteq> None \<and> \<not> isAmbientGlobalFetch (fp_fetchImpl p) (fp_globalFetch p))
     \<or> fp_mocked p defaultFetch"

text \<open>The state of the loop: the visited URLs, the current URL and request, the redirects so far.\<close>

record loop_state =
  ls_visited :: "string list"
  ls_url :: string
  ls_init :: "request_init option"
  ls_count :: nat

datatype pass_result = Threw fetch_error | Returned response | Continued loop_state

definition close_events :: "dispatcher option \<Rightarrow> fetch_event list" where
  "close_events d = (case d of None \<Rightarrow> [] | Some x \<Rightarrow> [Closed x])"

text \<open>\<open>release\<close> of the dispatcher: the released flag and the events.\<close>

definition release :: "bool \<Rightarrow> dispatcher option \<Rightarrow> bool \<times> fetch_event list" where
  "release released d = (if released then (True, []) else (True, CleanedUp # close_events d))"

text \<open>What follows the response, with the released flag and the events so far.\<close>

definition after_response ::
  "'w fetch_env \<Rightarrow> fetch_params \<Rightarrow> url \<Rightarrow> loop_state \<Rightarrow> dispatcher option \<Rightarrow> response \<Rightarrow>
     pass_result \<times> bool \<times> fetch_event list" where
  "after_response env p u s d r =
     (if isRedirectStatus (rs_status r) then
        (case rs_location r of
          None \<Rightarrow> (Threw (MissingLocation (rs_status r)), release False d)
        | Some location \<Rightarrow>
            if location = [] then (Threw (MissingLocation (rs_status r)), release False d)
            else if max_redirects p < ls_count s + 1 then
              (Threw (TooManyRedirects (max_redirects p)), release False d)
            else
              (case fe_relative_url env location u of
                None \<Rightarrow> (Threw InvalidLocation, False, [])
              | Some nextUrl \<Rightarrow>
                  if u_href nextUrl \<in> set (ls_visited s) then (Threw RedirectLoop, release False d)
                  else
                    (let init1 = rewriteRedirectInitForMethod (ls_init s) (rs_status r);
                         init2 =
                           (if u_origin nextUrl \<noteq> u_origin u then
                              retainSafeHeadersForCrossOriginRedirect
                                (rewriteRedirectInitForCrossOrigin init1
                                  (fp_allowCrossOriginUnsafeRedirectReplay p = Some True))
                            else init1)
                     in (Continued \<lparr>ls_visited = ls_visited s @ [u_href nextUrl], ls_url = u_href nextUrl,
                                    ls_init = init2, ls_count = ls_count s + 1\<rparr>,
                         False, BodyCancelled # close_events d))))
      else (Returned r, False, []))"

definition make_request ::
  "fetch_params \<Rightarrow> nat \<Rightarrow> url \<Rightarrow> loop_state \<Rightarrow> dispatcher option \<Rightarrow> request" where
  "make_request p defaultFetch u s d =
     \<lparr>rq_transport = (if d \<noteq> None \<and> \<not> supports_dispatcher p defaultFetch then RuntimeFetch else DefaultFetch),
      rq_url = u_href u, rq_init = ls_init s, rq_redirect = ''manual'', rq_dispatcher = d\<rparr>"

text \<open>The try block with the dispatcher it leaves behind, then the catch clause.\<close>

definition try_block ::
  "'w fetch_env \<Rightarrow> fetch_params \<Rightarrow> nat \<Rightarrow> url \<Rightarrow> loop_state \<Rightarrow> 'w \<Rightarrow>
     (pass_result \<times> bool \<times> fetch_event list) \<times> dispatcher option \<times> 'w" where
  "try_block env p defaultFetch u s w =
     (case choose_dispatcher env p u w of
       (Inl e, w') \<Rightarrow> ((Threw e, False, []), None, w')
     | (Inr d, w') \<Rightarrow>
         (let rq = make_request p defaultFetch u s d;
              created = (case d of None \<Rightarrow> [] | Some x \<Rightarrow> [Created x])
          in (case fe_fetch env rq w' of
               (Inl m, w'') \<Rightarrow> ((Threw (FetchFailed m), False, created @ [Requested rq]), d, w'')
             | (Inr r, w'') \<Rightarrow>
                 (case after_response env p u s d r of
                   (result, released, evs) \<Rightarrow> ((result, released, created @ Requested rq # evs), d, w'')))))"

definition hop ::
  "'w fetch_env \<Rightarrow> fetch_params \<Rightarrow> nat \<Rightarrow> loop_state \<Rightarrow> 'w \<Rightarrow>
     pass_result \<times> fetch_event list \<times> dispatcher option \<times> 'w" where
  "hop env p defaultFetch s w =
     (case fe_url env (ls_url s) of
       None \<Rightarrow> (Threw InvalidUrl, snd (release False None), None, w)
     | Some u \<Rightarrow>
         if \<not> web_protocol u then (Threw InvalidUrl, snd (release False None), None, w)
         else
           (case try_block env p defaultFetch u s w of
             ((Threw e, released, evs), d, w') \<Rightarrow> (Threw e, evs @ snd (release released d), None, w')
           | ((Returned r, _, evs), d, w') \<Rightarrow> (Returned r, evs, d, w')
           | ((Continued s', _, evs), _, w') \<Rightarrow> (Continued s', evs, None, w')))"

subsection \<open>The loop\<close>

record fetch_result =
  fr_response :: response
  fr_finalUrl :: string
  fr_dispatcher :: "dispatcher option"

lemma after_response_count:
  assumes "fst (after_response env p u s d r) = Continued s'"
  shows "ls_count s' = ls_count s + 1 \<and> ls_count s + 1 \<le> max_redirects p"
  using assms by (auto simp: after_response_def Let_def split: if_splits option.splits)

lemma try_block_count:
  assumes "fst (fst (try_block env p f u s w)) = Continued s'"
  shows "ls_count s' = ls_count s + 1 \<and> ls_count s + 1 \<le> max_redirects p"
proof -
  from assms obtain d r where "fst (after_response env p u s d r) = Continued s'"
    by (auto simp: try_block_def Let_def split: prod.splits sum.splits) (metis fst_conv)
  then show ?thesis by (rule after_response_count)
qed

lemma hop_count:
  assumes "fst (hop env p f s w) = Continued s'"
  shows "ls_count s' = ls_count s + 1 \<and> ls_count s + 1 \<le> max_redirects p"
proof -
  from assms obtain u where "fst (fst (try_block env p f u s w)) = Continued s'"
    by (auto simp: hop_def split: option.splits if_splits prod.splits pass_result.splits) (metis fst_conv)
  then show ?thesis by (rule try_block_count)
qed

function fetch_loop ::
  "'w fetch_env \<Rightarrow> fetch_params \<Rightarrow> nat \<Rightarrow> loop_state \<Rightarrow> 'w \<Rightarrow>
     (fetch_error + fetch_result) \<times> fetch_event list \<times> 'w" where
  "fetch_loop env p defaultFetch s w =
     (case hop env p defaultFetch s w of
       (Threw e, evs, _, w') \<Rightarrow> (Inl e, evs, w')
     | (Returned r, evs, d, w') \<Rightarrow>
         (Inr \<lparr>fr_response = r, fr_finalUrl = ls_url s, fr_dispatcher = d\<rparr>, evs, w')
     | (Continued s', evs, _, w') \<Rightarrow>
         (case fetch_loop env p defaultFetch s' w' of
           (result, evs', w'') \<Rightarrow> (result, evs @ evs', w'')))"
  by pat_completeness auto
termination
proof (relation "measure (\<lambda>(env, p, f, s, w). max_redirects p - ls_count s)", goal_cases)
  case 1
  show ?case by simp
next
  case (2 env p f s w x y s' y' z w1 w2)
  then have "fst (hop env p f s w) = Continued s'" by (metis fst_conv)
  from hop_count [OF this] show ?case by auto
qed

declare fetch_loop.simps [simp del]

definition fetchWithSsrFGuard ::
  "'w fetch_env \<Rightarrow> fetch_params \<Rightarrow> 'w \<Rightarrow> (fetch_error + fetch_result) \<times> fetch_event list \<times> 'w" where
  "fetchWithSsrFGuard env p w =
     (case nullish_opt (fp_fetchImpl p) (fp_globalFetch p) of
       None \<Rightarrow> (Inl FetchUnavailable, [], w)
     | Some defaultFetch \<Rightarrow>
         fetch_loop env p defaultFetch
           \<lparr>ls_visited = [fp_url p], ls_url = fp_url p, ls_init = fp_init p, ls_count = 0\<rparr> w)"

text \<open>The \<open>release\<close> function of the result, on its first call.\<close>

definition release_result :: "fetch_result \<Rightarrow> fetch_event list" where
  "release_result r = snd (release False (fr_dispatcher r))"

end
