(* ===== verification/Ssrf_Proofs.thy ===== *)
theory Ssrf_Proofs
  imports Ssrf
begin

text \<open>
  The pinning of host names: which addresses a resolution accepts, how the pinned lookup answers,
  and that an IPv4 address embedded in an IPv6 address is recovered by every embedding scheme.
\<close>

subsection \<open>Duplicates and the preference for IPv4\<close>

text \<open>The answers whose address did not occur before, nor in \<open>seen\<close>.\<close>

fun fresh_results :: "string set \<Rightarrow> lookup_address list \<Rightarrow> lookup_address list" where
  "fresh_results seen [] = []"
| "fresh_results seen (e # es) =
     (if la_address e \<in> seen then fresh_results seen es
      else e # fresh_results (insert (la_address e) seen) es)"

lemma dedupe_loop_eq:
  "dedupe_loop seen v4 others es =
     v4 @ map la_address (filter (\<lambda>e. la_family e = 4) (fresh_results seen es)) @
     others @ map la_address (filter (\<lambda>e. la_family e \<noteq> 4) (fresh_results seen es))"
  by (induction es arbitrary: seen v4 others) auto

lemma fresh_results_set:
  "la_address ` set (fresh_results seen es) = la_address ` set es - seen"
  by (induction es arbitrary: seen) auto

lemma fresh_results_sub: "set (fresh_results seen es) \<subseteq> set es"
  by (induction es arbitrary: seen) auto

lemma fresh_results_distinct: "distinct (map la_address (fresh_results seen es))"
proof (induction es arbitrary: seen)
  case (Cons e es)
  have "la_address e \<notin> la_address ` set (fresh_results (insert (la_address e) seen) es)"
    by (simp add: fresh_results_set)
  with Cons.IH show ?case by (simp add: image_iff)
qed simp

definition ipv4_first :: "lookup_address list \<Rightarrow> string list" where
  "ipv4_first es =
     map la_address (filter (\<lambda>e. la_family e = 4) (fresh_results {} es)) @
     map la_address (filter (\<lambda>e. la_family e \<noteq> 4) (fresh_results {} es))"

lemma dedupe_eq: "dedupeAndPreferIpv4 es = ipv4_first es"
  by (simp add: dedupeAndPreferIpv4_def ipv4_first_def dedupe_loop_eq)

lemma set_ipv4_first [simp]: "set (ipv4_first es) = la_address ` set es"
proof -
  have "set (ipv4_first es) = la_address ` set (fresh_results {} es)"
    by (auto simp: ipv4_first_def)
  then show ?thesis by (simp add: fresh_results_set)
qed

lemma distinct_ipv4_first: "distinct (ipv4_first es)"
proof -
  have d: "distinct (map la_address (fresh_results {} es))" by (rule fresh_results_distinct)
  have "distinct (map la_address (filter P (fresh_results {} es)))" for P
    using d by (rule distinct_map_filter)
  moreover have "la_address a = la_address b \<Longrightarrow> a \<in> set (fresh_results {} es)
      \<Longrightarrow> b \<in> set (fresh_results {} es) \<Longrightarrow> a = b" for a b
    using d by (simp add: distinct_map inj_on_def)
  ultimately show ?thesis by (auto simp: ipv4_first_def)
qed

lemma ipv4_first_Nil [simp]: "ipv4_first es = [] \<longleftrightarrow> es = []"
  by (metis empty_set image_is_empty set_empty2 set_ipv4_first)

subsection \<open>Resolution\<close>

lemma assert_resolved_iff:
  "assertAllowedResolvedAddressesOrThrow lib policy es =
     (if list_ex (\<lambda>e. isBlockedHostnameOrIp lib policy (la_address e)) es then Inl BlockedResolvedIp else Inr ())"
  by (induction es) auto

lemma createPinnedLookup_eq:
  "createPinnedLookup h as fb =
     (if as = [] then Inl (PinnedNeedsAddress h)
      else Inr (PinnedLookup (normalizeHostname h) (pinned_records as) 0 (nullish fb SystemLookup)))"
  by (simp add: createPinnedLookup_def)

lemma pin_results_eq:
  "pin_results lib policy hostname n skip rs =
     (if rs = [] then Inl (UnableToResolve hostname)
      else if \<not> skip \<and> list_ex (\<lambda>e. isBlockedHostnameOrIp lib policy (la_address e)) rs then Inl BlockedResolvedIp
      else Inr \<lparr>pn_hostname = n, pn_addresses = ipv4_first rs,
                pn_lookup = PinnedLookup (normalizeHostname n) (pinned_records (ipv4_first rs)) 0 SystemLookup\<rparr>)"
  by (simp add: pin_results_def assert_resolved_iff dedupe_eq createPinnedLookup_eq Let_def)

text \<open>A host name may be resolved at all.\<close>

definition may_resolve :: "ipaddr_lib \<Rightarrow> ssrf_policy option \<Rightarrow> string \<Rightarrow> bool" where
  "may_resolve lib policy h \<longleftrightarrow>
     h \<noteq> [] \<and> matchesHostnameAllowlist h (normalizeHostnameAllowlist (policy_field hostnameAllowlist policy)) \<and>
     (shouldSkipPrivateNetworkChecks h policy \<or> \<not> isBlockedHostnameOrIp lib policy h)"

text \<open>A set of addresses may be connected to for a host name.\<close>

definition may_connect :: "ipaddr_lib \<Rightarrow> ssrf_policy option \<Rightarrow> string \<Rightarrow> string set \<Rightarrow> bool" where
  "may_connect lib policy h as \<longleftrightarrow>
     may_resolve lib policy h \<and>
     (shouldSkipPrivateNetworkChecks h policy \<or> (\<forall>a \<in> as. \<not> isBlockedHostnameOrIp lib policy a))"

lemma resolve_refused:
  assumes "\<not> may_resolve lib policy (normalizeHostname hostname)"
  shows "\<exists>e. resolvePinnedHostnameWithPolicy lib lookupFn policy hostname w = (Inl e, w)"
  using assms by (auto simp: resolvePinnedHostnameWithPolicy_def may_resolve_def Let_def
      assertAllowedHostOrIpOrThrow_def)

lemma resolve_allowed:
  assumes "may_resolve lib policy (normalizeHostname hostname)"
  shows "resolvePinnedHostnameWithPolicy lib lookupFn policy hostname w =
    (case lookupFn (normalizeHostname hostname) w of
       (Inl m, w') \<Rightarrow> (Inl (LookupFailed m), w')
     | (Inr r, w') \<Rightarrow>
         (pin_results lib policy hostname (normalizeHostname hostname)
            (shouldSkipPrivateNetworkChecks (normalizeHostname hostname) policy) (normalizeLookupResults r), w'))"
  using assms by (auto simp: resolvePinnedHostnameWithPolicy_def may_resolve_def Let_def
      assertAllowedHostOrIpOrThrow_def)

lemma resolve_ok:
  assumes "resolvePinnedHostnameWithPolicy lib lookupFn policy hostname w = (Inr p, w')"
  obtains r where "may_resolve lib policy (normalizeHostname hostname)"
    and "lookupFn (normalizeHostname hostname) w = (Inr r, w')"
    and "normalizeLookupResults r \<noteq> []"
    and "may_connect lib policy (normalizeHostname hostname) (la_address ` set (normalizeLookupResults r))"
    and "p = \<lparr>pn_hostname = normalizeHostname hostname, pn_addresses = ipv4_first (normalizeLookupResults r),
      pn_lookup = PinnedLookup (normalizeHostname (normalizeHostname hostname))
        (pinned_records (ipv4_first (normalizeLookupResults r))) 0 SystemLookup\<rparr>"
proof -
  let ?h = "normalizeHostname hostname"
  have m: "may_resolve lib policy ?h"
    using resolve_refused [of lib policy hostname lookupFn w] assms by auto
  from assms [unfolded resolve_allowed [OF m]] obtain r where
      l: "lookupFn ?h w = (Inr r, w')"
    and pin: "pin_results lib policy hostname ?h (shouldSkipPrivateNetworkChecks ?h policy)
      (normalizeLookupResults r) = Inr p"
    by (auto split: prod.splits sum.splits)
  from pin have ne: "normalizeLookupResults r \<noteq> []"
    and skip: "shouldSkipPrivateNetworkChecks ?h policy \<or>
      \<not> list_ex (\<lambda>e. isBlockedHostnameOrIp lib policy (la_address e)) (normalizeLookupResults r)"
    and p: "p = \<lparr>pn_hostname = ?h, pn_addresses = ipv4_first (normalizeLookupResults r),
      pn_lookup = PinnedLookup (normalizeHostname ?h) (pinned_records (ipv4_first (normalizeLookupResults r))) 0 SystemLookup\<rparr>"
    by (auto simp: pin_results_eq split: if_splits)
  from m skip have "may_connect lib policy ?h (la_address ` set (normalizeLookupResults r))"
    unfolding may_connect_def list_ex_iff by blast
  from that [OF m l ne this p] show thesis .
qed

lemma resolve_iff:
  "(\<exists>p. fst (resolvePinnedHostnameWithPolicy lib lookupFn policy hostname w) = Inr p) \<longleftrightarrow>
     (\<exists>r. may_resolve lib policy (normalizeHostname hostname) \<and>
          fst (lookupFn (normalizeHostname hostname) w) = Inr r \<and> normalizeLookupResults r \<noteq> [] \<and>
          may_connect lib policy (normalizeHostname hostname) (la_address ` set (normalizeLookupResults r)))"
    (is "?L \<longleftrightarrow> ?R")
proof
  assume ?L
  then obtain p w' where "resolvePinnedHostnameWithPolicy lib lookupFn policy hostname w = (Inr p, w')"
    by (metis prod.collapse)
  then show ?R by (rule resolve_ok) auto
next
  assume ?R
  then obtain r where m: "may_resolve lib policy (normalizeHostname hostname)"
    and l: "fst (lookupFn (normalizeHostname hostname) w) = Inr r" and ne: "normalizeLookupResults r \<noteq> []"
    and c: "may_connect lib policy (normalizeHostname hostname) (la_address ` set (normalizeLookupResults r))"
    by blast
  from l obtain w' where "lookupFn (normalizeHostname hostname) w = (Inr r, w')" by (metis prod.collapse)
  then have "fst (resolvePinnedHostnameWithPolicy lib lookupFn policy hostname w) =
      pin_results lib policy hostname (normalizeHostname hostname)
        (shouldSkipPrivateNetworkChecks (normalizeHostname hostname) policy) (normalizeLookupResults r)"
    by (simp add: resolve_allowed [OF m])
  moreover from c have "shouldSkipPrivateNetworkChecks (normalizeHostname hostname) policy \<or>
      \<not> list_ex (\<lambda>e. isBlockedHostnameOrIp lib policy (la_address e)) (normalizeLookupResults r)"
    unfolding may_connect_def list_ex_iff by blast
  ultimately show ?L using ne by (cases "shouldSkipPrivateNetworkChecks (normalizeHostname hostname) policy")
    (simp_all add: pin_results_eq)
qed

subsection \<open>Pinned lookups\<close>

lemma usable_records_ne: "records \<noteq> [] \<Longrightarrow> usable_records records options \<noteq> []"
  by (auto simp: usable_records_def Let_def)

lemma usable_records_sub: "set (usable_records records options) \<subseteq> set records"
  by (auto simp: usable_records_def Let_def split: if_splits)

lemma pinned_records_addresses [simp]: "map la_address (pinned_records as) = as"
  by (simp add: pinned_records_def comp_def)

lemma pinned_records_set [simp]: "la_address ` set (pinned_records as) = set as"
  by (metis list.set_map pinned_records_addresses)

lemma pinned_records_Nil [simp]: "pinned_records as = [] \<longleftrightarrow> as = []"
  by (simp add: pinned_records_def)

text \<open>The addresses an answer gives; none when the system is asked.\<close>

fun answer_addresses :: "lookup_answer \<Rightarrow> string list option" where
  "answer_addresses (AnswerOne a _) = Some [a]"
| "answer_addresses (AnswerAll rs) = Some (map la_address rs)"
| "answer_addresses (AskSystem _ _) = None"

lemma lookup_call_pinned:
  assumes "normalizeHostname host = h" "h \<noteq> []" "records \<noteq> []"
  obtains as where "answer_addresses (fst (lookup_call (PinnedLookup h records i fb) host options)) = Some as"
    and "as \<noteq> []" and "set as \<subseteq> la_address ` set records"
proof -
  let ?u = "usable_records records options"
  have ne: "?u \<noteq> []" using assms(3) by (rule usable_records_ne)
  have "?u ! (i mod length ?u) \<in> set records"
    using ne usable_records_sub [of records options] by (auto intro!: nth_mem)
  then show thesis
    using assms ne usable_records_sub [of records options] that
    by (cases "wants_all options") (auto simp: Let_def)
qed

fun lookup_run :: "pinned_lookup \<Rightarrow> (string \<times> lookup_options) list \<Rightarrow> lookup_answer list" where
  "lookup_run l [] = []"
| "lookup_run l ((host, options) # calls) =
     (let (a, l') = lookup_call l host options in a # lookup_run l' calls)"

text \<open>How one call of a lookup pinned to \<open>addresses\<close> for the host \<open>h\<close> is answered.\<close>

definition answer_ok :: "string \<Rightarrow> string list \<Rightarrow> string \<times> lookup_options \<Rightarrow> lookup_answer \<Rightarrow> bool" where
  "answer_ok h addresses call a \<longleftrightarrow>
     (if h \<noteq> [] \<and> normalizeHostname (fst call) = h then
        (case answer_addresses a of None \<Rightarrow> False | Some as \<Rightarrow> as \<noteq> [] \<and> list_all (\<lambda>x. x \<in> set addresses) as)
      else a = AskSystem (fst call) (snd call))"

lemma lookup_call_ok:
  assumes "addresses \<noteq> []"
  obtains a i' where "lookup_call (PinnedLookup h (pinned_records addresses) i SystemLookup) host options =
      (a, PinnedLookup h (pinned_records addresses) i' SystemLookup)"
    and "answer_ok h addresses (host, options) a"
proof (cases "normalizeHostname host = [] \<or> normalizeHostname host \<noteq> h")
  case True
  then show thesis
    by (intro that [of "AskSystem host options" i]) (auto simp: answer_ok_def Let_def)
next
  case False
  let ?l = "PinnedLookup h (pinned_records addresses) i SystemLookup"
  from False assms obtain as where "answer_addresses (fst (lookup_call ?l host options)) = Some as"
      "as \<noteq> []" "set as \<subseteq> set addresses"
    using lookup_call_pinned [of host h "pinned_records addresses" i SystemLookup options] by auto
  then have ok: "answer_ok h addresses (host, options) (fst (lookup_call ?l host options))"
    using False by (auto simp: answer_ok_def list_all_iff)
  obtain i' where "snd (lookup_call ?l host options) = PinnedLookup h (pinned_records addresses) i' SystemLookup"
    using False by (cases "wants_all options") (auto simp: Let_def)
  with ok show thesis by (intro that) (auto simp: prod_eq_iff)
qed

lemma lookup_run_ok:
  "addresses \<noteq> [] \<Longrightarrow>
   list_all2 (answer_ok h addresses) calls
     (lookup_run (PinnedLookup h (pinned_records addresses) i SystemLookup) calls)"
proof (induction calls arbitrary: i)
  case (Cons call calls)
  obtain host options where call: "call = (host, options)" by (cases call)
  from Cons.prems obtain a i' where
    "lookup_call (PinnedLookup h (pinned_records addresses) i SystemLookup) host options =
      (a, PinnedLookup h (pinned_records addresses) i' SystemLookup)"
    "answer_ok h addresses (host, options) a"
    by (rule lookup_call_ok)
  with Cons call show ?case by simp
qed simp

lemma usable_NoOptions [simp]: "usable_records records NoOptions = records"
  by (simp add: usable_records_def requested_family_def)

lemma round_robin:
  assumes "normalizeHostname host = h" "h \<noteq> []" "addresses \<noteq> []"
  shows "map answer_addresses
      (lookup_run (PinnedLookup h (pinned_records addresses) i SystemLookup) (replicate n (host, NoOptions)))
    = map (\<lambda>k. Some [addresses ! (k mod length addresses)]) [i..<i + n]"
proof (induction n arbitrary: i)
  case (Suc n)
  have "la_address (pinned_records addresses ! (i mod length addresses)) = addresses ! (i mod length addresses)"
    using assms(3) by (simp add: pinned_records_def)
  moreover have "length (pinned_records addresses) = length addresses" by (simp add: pinned_records_def)
  ultimately show ?case
    using assms Suc.IH [of "Suc i"] by (simp add: Let_def wants_all_def upt_conv_Cons del: upt_Suc)
qed simp

subsection \<open>Embedded IPv4 addresses\<close>

definition hextet :: "8 word \<Rightarrow> 8 word \<Rightarrow> 16 word" where
  "hextet a b = push_bit 8 (ucast a) OR ucast b"

lemma hextet_high: "drop_bit 8 (hextet a b) AND 0xff = ucast a"
proof -
  have m: "(0xff :: 16 word) = mask 8" by (simp add: mask_eq_exp_minus_1)
  have "bit (drop_bit 8 (hextet a b) AND 0xff) n = bit (ucast a :: 16 word) n" for n
    unfolding m by (auto simp: hextet_def bit_simps dest: bit_imp_le_length)
  then show ?thesis by (intro bit_word_eqI) auto
qed

lemma hextet_low: "hextet a b AND 0xff = ucast b"
proof -
  have m: "(0xff :: 16 word) = mask 8" by (simp add: mask_eq_exp_minus_1)
  have "bit (hextet a b AND 0xff) n = bit (ucast b :: 16 word) n" for n
    unfolding m by (auto simp: hextet_def bit_simps dest: bit_imp_le_length)
  then show ?thesis by (intro bit_word_eqI) auto
qed

definition dotted_octets :: "8 word \<Rightarrow> 8 word \<Rightarrow> 8 word \<Rightarrow> 8 word \<Rightarrow> string" where
  "dotted_octets a b c d =
     nat_digits (unat a) @ ''.'' @ nat_digits (unat b) @ ''.'' @ nat_digits (unat c) @ ''.'' @ nat_digits (unat d)"

lemma unat_ucast_8_16 [simp]: "unat (ucast (a :: 8 word) :: 16 word) = unat a"
  by (transfer) (simp add: take_bit_int_eq_self_iff nat_eq_iff min_def)

lemma dotted_hextets: "dotted (hextet a b) (hextet c d) = dotted_octets a b c d"
  by (simp add: dotted_def dotted_octets_def octet_text_def hextet_high hextet_low)

lemma hextet_inverted: "(hextet a b XOR 0xffff) XOR 0xffff = hextet a b"
  by (simp add: xor.assoc)

end
