(* ===== verification/Fetch_Proofs.thy ===== *)
theory Fetch_Proofs
  imports Fetch_Guard Ssrf_Proofs
begin

text \<open>
  The guarded fetch: what one pass of the loop does (\<open>hop_shape\<close>), and by induction over the loop
  the requests of a whole fetch, their dispatchers and headers, and the release of dispatchers.
\<close>

subsection \<open>One pass\<close>

definition created_events :: "dispatcher option \<Rightarrow> fetch_event list" where
  "created_events d = (case d of None \<Rightarrow> [] | Some x \<Rightarrow> [Created x])"

lemma after_response_threw:
  "after_response env p u s d r = (Threw e, rel, ev) \<Longrightarrow>
     ev @ snd (release rel d) = CleanedUp # close_events d"
  by (auto simp: after_response_def release_def Let_def split: if_splits option.splits)

lemma after_response_returned:
  "after_response env p u s d r = (Returned r', rel, ev) \<Longrightarrow> ev = []"
  by (auto simp: after_response_def release_def Let_def split: if_splits option.splits)

text \<open>The request a redirect continues with.\<close>

definition redirect_init :: "fetch_params \<Rightarrow> request_init option \<Rightarrow> int \<Rightarrow> bool \<Rightarrow> request_init option" where
  "redirect_init p init status cross =
     (if cross then
        retainSafeHeadersForCrossOriginRedirect
          (rewriteRedirectInitForCrossOrigin (rewriteRedirectInitForMethod init status)
            (fp_allowCrossOriginUnsafeRedirectReplay p = Some True))
      else rewriteRedirectInitForMethod init status)"

lemma after_response_continued:
  assumes "after_response env p u s d r = (Continued s', rel, ev)"
  shows "ev = BodyCancelled # close_events d \<and>
    (\<exists>location n. fe_relative_url env location u = Some n \<and> ls_url s' = u_href n \<and>
       ls_init s' = redirect_init p (ls_init s) (rs_status r) (u_origin n \<noteq> u_origin u))"
  using assms
  by (auto simp: after_response_def redirect_init_def release_def Let_def split: if_splits option.splits) metis+

inductive hop_shape ::
  "'w fetch_env \<Rightarrow> fetch_params \<Rightarrow> nat \<Rightarrow> loop_state \<Rightarrow> 'w \<Rightarrow>
     pass_result \<Rightarrow> fetch_event list \<Rightarrow> dispatcher option \<Rightarrow> bool" where
  refused: "hop_shape env p f s w (Threw e) [CleanedUp] None"
| failed: "fe_url env (ls_url s) = Some u \<Longrightarrow> web_protocol u \<Longrightarrow> choose_dispatcher env p u w = (Inr d, w1) \<Longrightarrow>
    hop_shape env p f s w (Threw e)
      (created_events d @ Requested (make_request p f u s d) # CleanedUp # close_events d) None"
| answered: "fe_url env (ls_url s) = Some u \<Longrightarrow> web_protocol u \<Longrightarrow> choose_dispatcher env p u w = (Inr d, w1) \<Longrightarrow>
    hop_shape env p f s w (Returned r) (created_events d @ [Requested (make_request p f u s d)]) d"
| continued: "fe_url env (ls_url s) = Some u \<Longrightarrow> web_protocol u \<Longrightarrow> choose_dispatcher env p u w = (Inr d, w1) \<Longrightarrow>
    fe_relative_url env location u = Some n \<Longrightarrow> ls_url s' = u_href n \<Longrightarrow>
    ls_init s' = redirect_init p (ls_init s) status (u_origin n \<noteq> u_origin u) \<Longrightarrow>
    ls_count s' = ls_count s + 1 \<Longrightarrow> ls_count s + 1 \<le> max_redirects p \<Longrightarrow>
    hop_shape env p f s w (Continued s')
      (created_events d @ Requested (make_request p f u s d) # BodyCancelled # close_events d) None"

inductive_cases hop_shape_threw: "hop_shape env p f s w (Threw e) evs d"
inductive_cases hop_shape_returned: "hop_shape env p f s w (Returned r) evs d"
inductive_cases hop_shape_continued: "hop_shape env p f s w (Continued s') evs d"

lemma hop_shape_responded:
  assumes "fe_url env (ls_url s) = Some u" "web_protocol u" "choose_dispatcher env p u w = (Inr d, w1)"
    and a: "after_response env p u s d r = (res, rel, ev)"
  shows "case res of
      Threw e \<Rightarrow> hop_shape env p f s w res
        (created_events d @ Requested (make_request p f u s d) # ev @ snd (release rel d)) None
    | Returned r' \<Rightarrow> hop_shape env p f s w res (created_events d @ Requested (make_request p f u s d) # ev) d
    | Continued s' \<Rightarrow> hop_shape env p f s w res (created_events d @ Requested (make_request p f u s d) # ev) None"
proof (cases res)
  case (Threw e)
  have "ev @ snd (release rel d) = CleanedUp # close_events d"
    using a Threw by (intro after_response_threw) simp
  then show ?thesis using Threw failed [OF assms(1-3)] by simp
next
  case (Returned r')
  have "ev = []" using a Returned by (intro after_response_returned) simp
  then show ?thesis using Returned answered [OF assms(1-3)] by simp
next
  case (Continued s')
  have a': "after_response env p u s d r = (Continued s', rel, ev)" using a Continued by simp
  then have "ls_count s' = ls_count s + 1 \<and> ls_count s + 1 \<le> max_redirects p"
    by (intro after_response_count [of env p u s d r]) simp
  with after_response_continued [OF a'] show ?thesis
    using Continued by (auto intro!: continued [OF assms(1-3)])
qed

lemma hop_has_shape:
  assumes "hop env p f s w = (res, evs, d, w')"
  shows "hop_shape env p f s w res evs d"
proof (cases "\<exists>u. fe_url env (ls_url s) = Some u \<and> web_protocol u")
  case False
  with assms have "evs = [CleanedUp] \<and> d = None \<and> res = Threw InvalidUrl"
    by (auto simp: hop_def release_def close_events_def split: option.splits)
  then show ?thesis by (auto intro: refused)
next
  case True
  then obtain u where u: "fe_url env (ls_url s) = Some u" "web_protocol u" by blast
  obtain c w1 where c: "choose_dispatcher env p u w = (c, w1)" by (cases "choose_dispatcher env p u w")
  show ?thesis
  proof (cases c)
    case (Inl e)
    with assms u c have "evs = [CleanedUp] \<and> d = None \<and> res = Threw e"
      by (auto simp: hop_def try_block_def release_def close_events_def)
    then show ?thesis by (auto intro: refused)
  next
    case (Inr d0)
    with c have c': "choose_dispatcher env p u w = (Inr d0, w1)" by simp
    obtain o' w2 where f: "fe_fetch env (make_request p f u s d0) w1 = (o', w2)"
      by (cases "fe_fetch env (make_request p f u s d0) w1")
    show ?thesis
    proof (cases o')
      case (Inl m)
      with assms u c' f have "evs = created_events d0 @ Requested (make_request p f u s d0) # CleanedUp # close_events d0
          \<and> d = None \<and> res = Threw (FetchFailed m)"
        by (auto simp: hop_def try_block_def release_def created_events_def Let_def)
      with failed [OF u c'] show ?thesis by simp
    next
      case (Inr r)
      obtain res' rel ev where a: "after_response env p u s d0 r = (res', rel, ev)"
        by (cases "after_response env p u s d0 r")
      from hop_shape_responded [OF u c' a, of f] show ?thesis
        using assms u c' f Inr a
        by (cases res') (auto simp: hop_def try_block_def created_events_def Let_def)
    qed
  qed
qed

text \<open>Induction over the loop, one case for each way a pass ends.\<close>

lemma fetch_loop_induct:
  assumes "fetch_loop env p f s w = (res, evs, w')"
    and threw: "\<And>s w e ev. hop_shape env p f s w (Threw e) ev None \<Longrightarrow> P s (Inl e) ev"
    and returned: "\<And>s w r ev d. hop_shape env p f s w (Returned r) ev d \<Longrightarrow>
      P s (Inr \<lparr>fr_response = r, fr_finalUrl = ls_url s, fr_dispatcher = d\<rparr>) ev"
    and continued: "\<And>s w s' ev res evs. hop_shape env p f s w (Continued s') ev None \<Longrightarrow>
      P s' res evs \<Longrightarrow> P s res (ev @ evs)"
  shows "P s res evs"
  using assms(1)
proof (induction "max_redirects p - ls_count s" arbitrary: s w res evs w' rule: less_induct)
  case less
  obtain r ev d w1 where h: "hop env p f s w = (r, ev, d, w1)" by (cases "hop env p f s w")
  from hop_has_shape [OF h] have shape: "hop_shape env p f s w r ev d" .
  note loop = less.prems [unfolded fetch_loop.simps [of env p f s w] h]
  show ?case
  proof (cases r)
    case (Threw e)
    with shape have "d = None" by (auto elim: hop_shape_threw)
    with Threw shape loop show ?thesis by (auto intro: threw)
  next
    case (Returned r')
    with shape loop show ?thesis by (auto intro: returned)
  next
    case (Continued s')
    with shape have d: "d = None" and "ls_count s' = ls_count s + 1" "ls_count s + 1 \<le> max_redirects p"
      by (auto elim: hop_shape_continued)
    then have m: "max_redirects p - ls_count s' < max_redirects p - ls_count s" by linarith
    obtain res1 evs1 w2 where l: "fetch_loop env p f s' w1 = (res1, evs1, w2)"
      by (cases "fetch_loop env p f s' w1")
    have "P s' res1 evs1" by (rule less.hyps [OF m l])
    with Continued shape d have "P s res1 (ev @ evs1)" by (intro continued) auto
    moreover have "res = res1" "evs = ev @ evs1" using loop Continued l by auto
    ultimately show ?thesis by simp
  qed
qed

subsection \<open>Dispatchers are closed\<close>

fun created_by :: "fetch_event \<Rightarrow> dispatcher list" where
  "created_by (Created d) = [d]"
| "created_by _ = []"

fun closed_by :: "fetch_event \<Rightarrow> dispatcher list" where
  "closed_by (Closed d) = [d]"
| "closed_by _ = []"

fun request_of :: "fetch_event \<Rightarrow> request list" where
  "request_of (Requested rq) = [rq]"
| "request_of _ = []"

definition dispatchers_created :: "fetch_event list \<Rightarrow> dispatcher list" where
  "dispatchers_created evs = concat (map created_by evs)"

definition dispatchers_closed :: "fetch_event list \<Rightarrow> dispatcher list" where
  "dispatchers_closed evs = concat (map closed_by evs)"

definition requests_made :: "fetch_event list \<Rightarrow> request list" where
  "requests_made evs = concat (map request_of evs)"

named_theorems event_simps \<open>what the events of a pass amount to\<close>

lemma created_simps [event_simps]:
  "dispatchers_created [] = []"
  "dispatchers_created (e # es) = created_by e @ dispatchers_created es"
  "dispatchers_created (es @ fs) = dispatchers_created es @ dispatchers_created fs"
  "dispatchers_created (created_events d) = (case d of None \<Rightarrow> [] | Some x \<Rightarrow> [x])"
  "dispatchers_created (close_events d) = []"
  by (auto simp: dispatchers_created_def created_events_def close_events_def split: option.splits)

lemma closed_simps [event_simps]:
  "dispatchers_closed [] = []"
  "dispatchers_closed (e # es) = closed_by e @ dispatchers_closed es"
  "dispatchers_closed (es @ fs) = dispatchers_closed es @ dispatchers_closed fs"
  "dispatchers_closed (created_events d) = []"
  "dispatchers_closed (close_events d) = (case d of None \<Rightarrow> [] | Some x \<Rightarrow> [x])"
  by (auto simp: dispatchers_closed_def created_events_def close_events_def split: option.splits)

lemma requests_simps [event_simps]:
  "requests_made [] = []"
  "requests_made (e # es) = request_of e @ requests_made es"
  "requests_made (es @ fs) = requests_made es @ requests_made fs"
  "requests_made (created_events d) = []"
  "requests_made (close_events d) = []"
  by (auto simp: requests_made_def created_events_def close_events_def split: option.splits)

definition result_events :: "fetch_error + fetch_result \<Rightarrow> fetch_event list" where
  "result_events res = (case res of Inl _ \<Rightarrow> [] | Inr r \<Rightarrow> release_result r)"

lemma release_result_simps [event_simps]:
  "dispatchers_closed (release_result r) = (case fr_dispatcher r of None \<Rightarrow> [] | Some x \<Rightarrow> [x])"
  by (simp add: release_result_def release_def event_simps)

lemma fetch_loop_closed:
  assumes "fetch_loop env p f s w = (res, evs, w')"
  shows "dispatchers_created evs = dispatchers_closed (evs @ result_events res)"
  using assms
proof (rule fetch_loop_induct)
  fix s w e ev assume "hop_shape env p f s w (Threw e) ev None"
  then show "dispatchers_created ev = dispatchers_closed (ev @ result_events (Inl e))"
    by cases (auto simp: event_simps result_events_def)
next
  fix s w r ev d assume "hop_shape env p f s w (Returned r) ev d"
  then show "dispatchers_created ev =
      dispatchers_closed (ev @ result_events (Inr \<lparr>fr_response = r, fr_finalUrl = ls_url s, fr_dispatcher = d\<rparr>))"
    by cases (auto simp: event_simps result_events_def)
next
  fix s w s' ev res evs
  assume "hop_shape env p f s w (Continued s') ev None"
    and "dispatchers_created evs = dispatchers_closed (evs @ result_events res)"
  then show "dispatchers_created (ev @ evs) = dispatchers_closed ((ev @ evs) @ result_events res)"
    by cases (auto simp: event_simps split: option.splits)
qed

subsection \<open>The number of requests\<close>

lemma fetch_loop_requests:
  assumes "fetch_loop env p f s w = (res, evs, w')" "ls_count s \<le> max_redirects p"
  shows "length (requests_made evs) + ls_count s \<le> max_redirects p + 1"
  using assms(2)
proof (rule fetch_loop_induct [OF assms(1),
      where P = "\<lambda>s _ evs. ls_count s \<le> max_redirects p \<longrightarrow> length (requests_made evs) + ls_count s \<le> max_redirects p + 1",
      THEN mp, rotated 3])
  fix s w e ev assume "hop_shape env p f s w (Threw e) ev None"
  then show "ls_count s \<le> max_redirects p \<longrightarrow> length (requests_made ev) + ls_count s \<le> max_redirects p + 1"
    by cases (auto simp: event_simps)
next
  fix s w r ev d assume "hop_shape env p f s w (Returned r) ev d"
  then show "ls_count s \<le> max_redirects p \<longrightarrow> length (requests_made ev) + ls_count s \<le> max_redirects p + 1"
    by cases (auto simp: event_simps)
next
  fix s w s' ev evs assume "hop_shape env p f s w (Continued s') ev None"
    and "ls_count s' \<le> max_redirects p \<longrightarrow> length (requests_made evs) + ls_count s' \<le> max_redirects p + 1"
  then show "ls_count s \<le> max_redirects p \<longrightarrow> length (requests_made (ev @ evs)) + ls_count s \<le> max_redirects p + 1"
    by cases (auto simp: event_simps)
qed

subsection \<open>Requests are pinned\<close>

fun dispatcher_lookup :: "dispatcher \<Rightarrow> pinned_lookup option" where
  "dispatcher_lookup (Http1Agent c) = Option.bind c cs_lookup"
| "dispatcher_lookup (EnvProxyAgent c _) = Option.bind c cs_lookup"
| "dispatcher_lookup (ProxyAgent _ c) = Option.bind c cs_lookup"

definition pinned_to :: "pinned_lookup \<Rightarrow> string \<Rightarrow> string set \<Rightarrow> bool" where
  "pinned_to l h as \<longleftrightarrow>
     (\<exists>records i fb. l = PinnedLookup h records i fb \<and> records \<noteq> [] \<and> la_address ` set records \<subseteq> as)"

lemma createPinnedLookup_pinned:
  "createPinnedLookup h as fb = Inr l \<Longrightarrow> pinned_to l (normalizeHostname h) (set as)"
  by (auto simp: createPinnedLookup_eq pinned_to_def split: if_splits)

lemma createPinnedDispatcher_lookup:
  "createPinnedDispatcher lib pinned dp policy = Inr d \<Longrightarrow>
     \<exists>l. resolvePinnedDispatcherLookup lib pinned (case dp of None \<Rightarrow> None | Some x \<Rightarrow> policy_override x) policy = Inr l
         \<and> dispatcher_lookup d = Some l"
  by (auto simp: createPinnedDispatcher_def withPinnedLookup_def
      split: sum.splits option.splits dispatcher_policy.splits)

lemma pinned_dispatcher:
  assumes r: "resolvePinnedHostnameWithPolicy lib lf policy host w = (Inr pinned, w')"
    and d: "createPinnedDispatcher lib pinned dp policy = Inr d"
  shows "\<exists>as l. may_connect lib policy (normalizeHostname host) as \<and> dispatcher_lookup d = Some l
           \<and> pinned_to l (normalizeHostname (normalizeHostname host)) as"
proof -
  let ?h = "normalizeHostname host"
  from r obtain rs where mr: "may_resolve lib policy ?h" and ne: "normalizeLookupResults rs \<noteq> []"
    and mc: "may_connect lib policy ?h (la_address ` set (normalizeLookupResults rs))"
    and p: "pinned = \<lparr>pn_hostname = ?h, pn_addresses = ipv4_first (normalizeLookupResults rs),
      pn_lookup = PinnedLookup (normalizeHostname ?h)
        (pinned_records (ipv4_first (normalizeLookupResults rs))) 0 SystemLookup\<rparr>"
    by (rule resolve_ok)
  obtain l where l: "resolvePinnedDispatcherLookup lib pinned
      (case dp of None \<Rightarrow> None | Some x \<Rightarrow> policy_override x) policy = Inr l"
    and dl: "dispatcher_lookup d = Some l"
    using createPinnedDispatcher_lookup [OF d] by blast
  show ?thesis
  proof (cases "case dp of None \<Rightarrow> None | Some x \<Rightarrow> policy_override x")
    case None
    with l p have "l = PinnedLookup (normalizeHostname ?h)
        (pinned_records (ipv4_first (normalizeLookupResults rs))) 0 SystemLookup"
      by (simp add: resolvePinnedDispatcherLookup_def)
    then have "pinned_to l (normalizeHostname ?h) (la_address ` set (normalizeLookupResults rs))"
      using ne by (auto simp: pinned_to_def)
    with mc dl show ?thesis by blast
  next
    case (Some ov)
    with l p have c: "createPinnedLookup ?h (po_addresses ov) (Some (pn_lookup pinned)) = Inr l"
      and sk: "shouldSkipPrivateNetworkChecks ?h policy \<or>
        \<not> list_ex (\<lambda>e. isBlockedHostnameOrIp lib policy (la_address e)) (pinned_records (po_addresses ov))"
      by (auto simp: resolvePinnedDispatcherLookup_def assert_resolved_iff Let_def split: if_splits sum.splits)
    have "may_connect lib policy ?h (set (po_addresses ov))"
      using mr sk by (auto simp: may_connect_def list_ex_iff simp flip: pinned_records_set)
    with createPinnedLookup_pinned [OF c] dl show ?thesis by blast
  qed
qed

lemma choose_dispatcher_target:
  "choose_dispatcher env p u w = (Inr d, w') \<Longrightarrow> \<exists>w1. target_dispatcher env p u w1 = (Inr d, w')"
  by (auto simp: choose_dispatcher_def split: sum.splits prod.splits)

text \<open>What every request of a fetch that does not use a trusted proxy satisfies.\<close>

definition request_guarded :: "'w fetch_env \<Rightarrow> fetch_params \<Rightarrow> url \<Rightarrow> dispatcher option \<Rightarrow> bool" where
  "request_guarded env p u d \<longleftrightarrow>
     (let h = normalizeHostname (u_hostname u) in
      may_resolve (fe_lib env) (fp_policy p) h \<and>
      (fp_pinDns p \<noteq> Some False \<longrightarrow>
        (\<exists>as x l. may_connect (fe_lib env) (fp_policy p) h as \<and> d = Some x \<and> dispatcher_lookup x = Some l \<and>
           pinned_to l (normalizeHostname h) as)))"

lemma choose_dispatcher_guarded:
  assumes "choose_dispatcher env p u w = (Inr d, w')" "\<not> trusted_proxy env p"
  shows "request_guarded env p u d"
proof -
  obtain w1 where t: "target_dispatcher env p u w1 = (Inr d, w')"
    using choose_dispatcher_target [OF assms(1)] by blast
  with assms(2) obtain pinned w2 where
    r: "resolvePinnedHostnameWithPolicy (fe_lib env) (fe_lookup env) (fp_policy p) (u_hostname u) w1 = (Inr pinned, w2)"
    by (auto simp: target_dispatcher_def split: prod.splits sum.splits)
  have m: "may_resolve (fe_lib env) (fp_policy p) (normalizeHostname (u_hostname u))"
    using r by (rule resolve_ok)
  show ?thesis
  proof (cases "fp_pinDns p = Some False")
    case True
    with m show ?thesis by (simp add: request_guarded_def Let_def)
  next
    case False
    with t r assms(2) obtain x where d: "d = Some x"
      and c: "createPinnedDispatcher (fe_lib env) pinned (fp_dispatcherPolicy p) (fp_policy p) = Inr x"
      by (auto simp: target_dispatcher_def split: prod.splits sum.splits)
    from pinned_dispatcher [OF r c] m d show ?thesis
      by (auto simp: request_guarded_def Let_def)
  qed
qed

definition guarded_request :: "'w fetch_env \<Rightarrow> fetch_params \<Rightarrow> nat \<Rightarrow> request \<Rightarrow> bool" where
  "guarded_request env p f rq \<longleftrightarrow>
     (\<exists>x u s d. fe_url env x = Some u \<and> web_protocol u \<and> rq = make_request p f u s d \<and> request_guarded env p u d)"

lemma guarded_requestI:
  assumes "\<not> trusted_proxy env p" "fe_url env x = Some u" "web_protocol u" "choose_dispatcher env p u w = (Inr d, w1)"
  shows "guarded_request env p f (make_request p f u s d)"
  using assms choose_dispatcher_guarded [OF assms(4,1)] by (auto simp: guarded_request_def)

lemma fetch_loop_guarded:
  assumes "fetch_loop env p f s w = (res, evs, w')" "\<not> trusted_proxy env p"
  shows "list_all (guarded_request env p f) (requests_made evs)"
proof (rule fetch_loop_induct [OF assms(1)])
  fix s w e ev assume "hop_shape env p f s w (Threw e) ev None"
  then show "list_all (guarded_request env p f) (requests_made ev)"
    by cases (auto simp: event_simps intro: guarded_requestI [OF assms(2)])
next
  fix s w r ev d assume "hop_shape env p f s w (Returned r) ev d"
  then show "list_all (guarded_request env p f) (requests_made ev)"
    by cases (auto simp: event_simps intro: guarded_requestI [OF assms(2)])
next
  fix s w s' ev evs assume "hop_shape env p f s w (Continued s') ev None"
    and "list_all (guarded_request env p f) (requests_made evs)"
  then show "list_all (guarded_request env p f) (requests_made (ev @ evs))"
    by cases (auto simp: event_simps intro: guarded_requestI [OF assms(2)])
qed

subsection \<open>Headers after a cross-origin redirect\<close>

definition safe_name :: "string \<Rightarrow> bool" where
  "safe_name n \<longleftrightarrow> js_lower (js_trim n) \<in> set CROSS_ORIGIN_REDIRECT_SAFE_HEADERS"

definition all_safe :: "headers \<Rightarrow> bool" where
  "all_safe hs \<longleftrightarrow> list_all (\<lambda>h. safe_name (fst h)) hs"

definition safe_headers :: "request_init option \<Rightarrow> bool" where
  "safe_headers init \<longleftrightarrow>
     (case init of None \<Rightarrow> True | Some i \<Rightarrow> (case ri_headers i of None \<Rightarrow> True | Some hs \<Rightarrow> all_safe hs))"

lemma safe_headers_simps [simp]:
  "safe_headers None"
  "safe_headers (Some i) \<longleftrightarrow> (case ri_headers i of None \<Rightarrow> True | Some hs \<Rightarrow> all_safe hs)"
  by (simp_all add: safe_headers_def)

lemma safe_name_lower [simp]: "safe_name (js_lower n) = safe_name n"
  by (simp add: safe_name_def js_trim_lower)

lemma headers_append_safe: "all_safe hs \<Longrightarrow> safe_name n \<Longrightarrow> all_safe (headers_append hs n v)"
  by (induction hs n v rule: headers_append.induct) (auto simp: all_safe_def)

lemma foldl_append_safe:
  "all_safe acc \<Longrightarrow> all_safe hs \<Longrightarrow> all_safe (foldl (\<lambda>acc (n, v). headers_append acc n v) acc hs)"
proof (induction hs arbitrary: acc)
  case (Cons h hs)
  obtain n v where h: "h = (n, v)" by (cases h)
  from Cons.prems(2) h have n: "safe_name n" and hs: "all_safe hs" by (simp_all add: all_safe_def)
  from Cons.IH [OF headers_append_safe [OF Cons.prems(1) n] hs] h show ?case by simp
qed simp

lemma new_Headers_safe: "all_safe hs \<Longrightarrow> all_safe (new_Headers hs)"
  unfolding new_Headers_def by (rule foldl_append_safe) (simp_all add: all_safe_def)

lemma headers_delete_safe: "all_safe hs \<Longrightarrow> all_safe (foldl headers_delete hs ns)"
proof (induction ns arbitrary: hs)
  case (Cons n ns)
  have "all_safe (headers_delete hs n)" using Cons.prems by (auto simp: all_safe_def headers_delete_def list_all_iff)
  with Cons.IH show ?case by simp
qed simp

lemma dropBodyHeaders_safe:
  "(case hs of None \<Rightarrow> True | Some h \<Rightarrow> all_safe h) \<Longrightarrow> dropBodyHeaders hs = Some h' \<Longrightarrow> all_safe h'"
  by (auto simp: dropBodyHeaders_def new_Headers_safe headers_delete_safe)

lemma rewrite_method_safe: "safe_headers init \<Longrightarrow> safe_headers (rewriteRedirectInitForMethod init status)"
  by (cases init) (auto simp: rewriteRedirectInitForMethod_def Let_def dropBodyHeaders_safe split: option.splits)

lemma retain_loop_safe:
  "all_safe acc \<Longrightarrow> all_safe (foldl (\<lambda>safe (key, v).
     if normalizeLowercaseStringOrEmpty (JString key) \<in> set CROSS_ORIGIN_REDIRECT_SAFE_HEADERS
     then jm_set safe key v else safe) acc es)"
proof (induction es arbitrary: acc)
  case (Cons e es)
  have set: "all_safe acc \<Longrightarrow> safe_name k \<Longrightarrow> all_safe (jm_set acc k v)" for acc k v
    by (induction acc k v rule: jm_set.induct) (auto simp: all_safe_def)
  obtain k v where e: "e = (k, v)" by (cases e)
  show ?case
    using Cons.IH [OF Cons.prems] Cons.IH [OF set [OF Cons.prems]] e by (simp add: safe_name_def)
qed simp

lemma retain_safe: "safe_headers (retainSafeHeadersForCrossOriginRedirect init)"
proof -
  have "retainSafeRedirectHeaders hs = Some h \<Longrightarrow> all_safe h" for hs h
    using retain_loop_safe [of "[]"] by (auto simp: retainSafeRedirectHeaders_def all_safe_def)
  then show ?thesis
    by (cases init) (auto simp: retainSafeHeadersForCrossOriginRedirect_def split: option.splits)
qed

lemma redirect_init_safe: "cross \<or> safe_headers init \<Longrightarrow> safe_headers (redirect_init p init status cross)"
  by (auto simp: redirect_init_def retain_safe rewrite_method_safe)

text \<open>The body is dropped as well, unless the method has none or the caller allows it to be replayed.\<close>

definition replay_ok :: "fetch_params \<Rightarrow> request_init option \<Rightarrow> bool" where
  "replay_ok p init \<longleftrightarrow>
     fp_allowCrossOriginUnsafeRedirectReplay p = Some True \<or>
     (case init of None \<Rightarrow> True
      | Some i \<Rightarrow> ri_body i = None \<or> current_method i = ''GET'' \<or> current_method i = ''HEAD'')"

lemma redirect_init_replay:
  "cross \<or> replay_ok p init \<Longrightarrow> replay_ok p (redirect_init p init status cross)"
  by (cases init) (auto simp: redirect_init_def replay_ok_def rewriteRedirectInitForMethod_def
      rewriteRedirectInitForCrossOrigin_def retainSafeHeadersForCrossOriginRedirect_def current_method_def
      Let_def split: option.splits)

definition stripped :: "fetch_params \<Rightarrow> request_init option \<Rightarrow> bool" where
  "stripped p init \<longleftrightarrow> safe_headers init \<and> replay_ok p init"

lemma redirect_init_stripped:
  "cross \<or> stripped p init \<Longrightarrow> stripped p (redirect_init p init status cross)"
  by (auto simp: stripped_def intro: redirect_init_safe redirect_init_replay)

text \<open>The origin of a request, read off its URL, and the requests after a change of origin.\<close>

definition request_origin :: "'w fetch_env \<Rightarrow> request \<Rightarrow> string option" where
  "request_origin env rq = map_option u_origin (fe_url env (rq_url rq))"

fun cross_stripped :: "'w fetch_env \<Rightarrow> fetch_params \<Rightarrow> request list \<Rightarrow> bool" where
  "cross_stripped env p (a # b # rqs) \<longleftrightarrow>
     (request_origin env a = request_origin env b \<or> list_all (\<lambda>rq. stripped p (rq_init rq)) (b # rqs))
     \<and> cross_stripped env p (b # rqs)"
| "cross_stripped env p _ \<longleftrightarrow> True"

text \<open>The URL parser gives back the URL it printed.\<close>

definition url_parser_ok :: "'w fetch_env \<Rightarrow> bool" where
  "url_parser_ok env \<longleftrightarrow>
     (\<forall>x u. fe_url env x = Some u \<longrightarrow> fe_url env (u_href u) = Some u) \<and>
     (\<forall>x b u. fe_relative_url env x b = Some u \<longrightarrow> fe_url env (u_href u) = Some u)"

definition requests_stripped :: "'w fetch_env \<Rightarrow> fetch_params \<Rightarrow> loop_state \<Rightarrow> request list \<Rightarrow> bool" where
  "requests_stripped env p s rqs \<longleftrightarrow>
     cross_stripped env p rqs \<and>
     (rqs = [] \<or> request_origin env (hd rqs) = map_option u_origin (fe_url env (ls_url s))) \<and>
     (stripped p (ls_init s) \<longrightarrow> list_all (\<lambda>rq. stripped p (rq_init rq)) rqs)"

lemma make_request_simps [simp]:
  "rq_init (make_request p f u s d) = ls_init s"
  "rq_url (make_request p f u s d) = u_href u"
  by (simp_all add: make_request_def)

lemma requests_stripped_single:
  "url_parser_ok env \<Longrightarrow> fe_url env (ls_url s) = Some u \<Longrightarrow> requests_stripped env p s [make_request p f u s d]"
  by (auto simp: requests_stripped_def request_origin_def url_parser_ok_def)

lemma requests_stripped_step:
  assumes ok: "url_parser_ok env" and u: "fe_url env (ls_url s) = Some u"
    and n: "fe_relative_url env location u = Some n" "ls_url s' = u_href n"
    and i: "ls_init s' = redirect_init p (ls_init s) status (u_origin n \<noteq> u_origin u)"
    and rest: "requests_stripped env p s' rqs"
  shows "requests_stripped env p s (make_request p f u s d # rqs)"
proof -
  let ?a = "make_request p f u s d"
  have oa: "request_origin env ?a = Some (u_origin u)"
    using ok u by (auto simp: request_origin_def url_parser_ok_def)
  have "fe_url env (ls_url s') = Some n" using ok n by (auto simp: url_parser_ok_def)
  with rest have hd: "rqs = [] \<or> request_origin env (hd rqs) = Some (u_origin n)"
    by (auto simp: requests_stripped_def)
  have all: "list_all (\<lambda>rq. stripped p (rq_init rq)) rqs" if "u_origin n \<noteq> u_origin u \<or> stripped p (ls_init s)"
    using that rest i redirect_init_stripped by (auto simp: requests_stripped_def)
  have "cross_stripped env p (?a # rqs)"
  proof (cases rqs)
    case (Cons b bs)
    with rest have "cross_stripped env p (b # bs)" by (simp add: requests_stripped_def)
    moreover have "request_origin env ?a = request_origin env b \<or> list_all (\<lambda>rq. stripped p (rq_init rq)) (b # bs)"
      using oa hd all Cons by auto
    ultimately show ?thesis using Cons by simp
  qed simp
  with oa all u show ?thesis by (auto simp: requests_stripped_def)
qed

lemma fetch_loop_stripped:
  assumes "fetch_loop env p f s w = (res, evs, w')" and ok: "url_parser_ok env"
  shows "requests_stripped env p s (requests_made evs)"
proof (rule fetch_loop_induct [OF assms(1)])
  fix s w e ev assume "hop_shape env p f s w (Threw e) ev None"
  then show "requests_stripped env p s (requests_made ev)"
    by cases (auto simp: event_simps requests_stripped_single [OF ok] requests_stripped_def [of _ _ _ "[]"])
next
  fix s w r ev d assume "hop_shape env p f s w (Returned r) ev d"
  then show "requests_stripped env p s (requests_made ev)"
    by cases (auto simp: event_simps requests_stripped_single [OF ok])
next
  fix s w s' ev evs assume "hop_shape env p f s w (Continued s') ev None"
    and "requests_stripped env p s' (requests_made evs)"
  then show "requests_stripped env p s (requests_made (ev @ evs))"
    by cases (auto simp: event_simps intro: requests_stripped_step [OF ok])
qed

lemma cross_stripped_split:
  "cross_stripped env p (before @ a # b # rqs) \<Longrightarrow> request_origin env a \<noteq> request_origin env b \<Longrightarrow>
   list_all (\<lambda>rq. stripped p (rq_init rq)) (b # rqs)"
proof (induction before)
  case (Cons x before)
  then have "cross_stripped env p (before @ a # b # rqs)" by (cases before) auto
  with Cons show ?case by blast
qed simp

subsection \<open>The whole fetch\<close>

lemma fetch_guard_cases:
  assumes "fetchWithSsrFGuard env p w = (res, evs, w')"
  obtains "res = Inl FetchUnavailable" "evs = []"
  | f where "nullish_opt (fp_fetchImpl p) (fp_globalFetch p) = Some f"
    "fetch_loop env p f \<lparr>ls_visited = [fp_url p], ls_url = fp_url p, ls_init = fp_init p, ls_count = 0\<rparr> w = (res, evs, w')"
  using assms by (auto simp: fetchWithSsrFGuard_def split: option.splits)

end
