(* ===== verification/Net_Props.thy ===== *)
theory Net_Props
  imports Fetch_Proofs
begin

text \<open>
  Properties of the SSRF guard and of the guarded fetch. The witnesses use a small address library
  (dotted IPv4 addresses and one 6to4 address) and a fetch that is redirected once to another host.
\<close>

definition sample_v4 :: "string \<Rightarrow> bool" where
  "sample_v4 s \<longleftrightarrow> (let ps = js_split (CHR ''.'') s in
     length ps = 4 \<and> list_all (\<lambda>p. p \<noteq> [] \<and> list_all is_digit p \<and> decimal p < 256) ps)"

definition sample_v4_parse :: "string \<Rightarrow> ip_address" where
  "sample_v4_parse s = (case map decimal (js_split (CHR ''.'') s) of
     [a, b, c, d] \<Rightarrow> Ipv4 (of_nat a) (of_nat b) (of_nat c) (of_nat d) | _ \<Rightarrow> Ipv4 0 0 0 0)"

definition sample_6to4 :: string where
  "sample_6to4 = ''2002:7f00:1::''"

definition sample_lib :: ipaddr_lib where
  "sample_lib = \<lparr>
     v4Valid = sample_v4, v4FourPart = sample_v4, v4Parse = sample_v4_parse,
     v6Valid = (\<lambda>s. s = sample_6to4), v6Parse = (\<lambda>_. Ipv6 0x2002 0x7f00 1 0 0 0 0 0),
     anyValid = (\<lambda>s. sample_v4 s \<or> s = sample_6to4), anyParse = sample_v4_parse,
     ipText = (\<lambda>a. case a of Ipv4 a b c d \<Rightarrow>
         nat_digits (unat a) @ ''.'' @ nat_digits (unat b) @ ''.'' @ nat_digits (unat c) @ ''.'' @ nat_digits (unat d)
       | _ \<Rightarrow> sample_6to4),
     ipRange = (\<lambda>a. case a of Ipv4 a _ _ _ \<Rightarrow>
         if a = 127 then ''loopback'' else if a = 10 then ''private'' else ''unicast'' | _ \<Rightarrow> ''6to4''),
     isMapped = (\<lambda>_. False), mappedIpv4 = id, ipMatch = (\<lambda>_ _ _. Some False), parseCidr = (\<lambda>_. None)\<rparr>"

subsection \<open>Resolution\<close>

text \<open>A host name is resolved only when it passes the allowlist and the block list, and then
  exactly when the resolver answers with at least one address and none of them is blocked (unless the
  policy skips the address checks). A host name that does not pass is refused without any DNS lookup.
  The pinned addresses are the answers, each once, those of family IPv4 first.\<close>

theorem pinned_resolution:
  fixes lib lookupFn policy hostname w
  defines "h \<equiv> normalizeHostname hostname"
    and "out \<equiv> resolvePinnedHostnameWithPolicy lib lookupFn policy hostname w"
  shows "((\<exists>p. fst out = Inr p) \<longleftrightarrow>
       (\<exists>r. may_resolve lib policy h \<and> fst (lookupFn h w) = Inr r \<and> normalizeLookupResults r \<noteq> [] \<and>
            may_connect lib policy h (la_address ` set (normalizeLookupResults r)))) \<and>
     (if may_resolve lib policy h then snd out = snd (lookupFn h w) else snd out = w) \<and>
     (case out of
        (Inl _, _) \<Rightarrow> True
      | (Inr p, _) \<Rightarrow> pn_hostname p = h \<and> distinct (pn_addresses p) \<and>
          (\<exists>r. fst (lookupFn h w) = Inr r \<and> set (pn_addresses p) = la_address ` set (normalizeLookupResults r) \<and>
               pn_addresses p = ipv4_first (normalizeLookupResults r)))"
proof (intro conjI)
  show "(\<exists>p. fst out = Inr p) \<longleftrightarrow>
       (\<exists>r. may_resolve lib policy h \<and> fst (lookupFn h w) = Inr r \<and> normalizeLookupResults r \<noteq> [] \<and>
            may_connect lib policy h (la_address ` set (normalizeLookupResults r)))"
    unfolding out_def h_def by (rule resolve_iff)
  show "if may_resolve lib policy h then snd out = snd (lookupFn h w) else snd out = w"
    using resolve_refused [of lib policy hostname lookupFn w] resolve_allowed [of lib policy hostname lookupFn w]
    by (auto simp: out_def h_def split: prod.splits sum.splits)
  show "case out of
        (Inl _, _) \<Rightarrow> True
      | (Inr p, _) \<Rightarrow> pn_hostname p = h \<and> distinct (pn_addresses p) \<and>
          (\<exists>r. fst (lookupFn h w) = Inr r \<and> set (pn_addresses p) = la_address ` set (normalizeLookupResults r) \<and>
               pn_addresses p = ipv4_first (normalizeLookupResults r))"
  proof (cases out)
    case (Pair o' w')
    show ?thesis
    proof (cases o')
      case (Inr p)
      with Pair have "resolvePinnedHostnameWithPolicy lib lookupFn policy hostname w = (Inr p, w')"
        by (simp add: out_def)
      then show ?thesis
        by (rule resolve_ok) (auto simp: Pair Inr h_def distinct_ipv4_first)
    qed (simp add: Pair)
  qed
qed

text \<open>A lookup pinned to a list of addresses answers every call for its host, whatever options it
  is called with and whatever calls came before, with addresses of the list only, hands every other
  host to the system, and gives out the addresses in turn when no family is asked for.\<close>

theorem pinned_lookup_answers:
  assumes "createPinnedLookup hostname addresses None = Inr l" and "normalizeHostname hostname \<noteq> []"
  shows "list_all2 (answer_ok (normalizeHostname hostname) addresses) calls (lookup_run l calls) \<and>
     map answer_addresses (lookup_run l (replicate n (hostname, NoOptions)))
       = map (\<lambda>k. Some [addresses ! (k mod length addresses)]) [0..<n]"
proof -
  from assms(1) have ne: "addresses \<noteq> []"
    and l: "l = PinnedLookup (normalizeHostname hostname) (pinned_records addresses) 0 SystemLookup"
    by (auto simp: createPinnedLookup_eq split: if_splits)
  from round_robin [OF refl assms(2) ne, where i = 0 and n = n] lookup_run_ok [OF ne] l show ?thesis by simp
qed

theorem pinned_lookup_answers_witness:
  "map answer_addresses (lookup_run (PinnedLookup ''a.example'' (pinned_records [''10.0.0.1'', ''10.0.0.2'']) 0 SystemLookup)
      (replicate 3 (''A.Example'', NoOptions)))
    = map (\<lambda>k. Some [[''10.0.0.1'', ''10.0.0.2''] ! (k mod 2)]) [0..<3]"
proof -
  have n: "normalizeHostname ''A.Example'' = ''a.example''" by code_simp
  then have "createPinnedLookup ''A.Example'' [''10.0.0.1'', ''10.0.0.2''] None =
      Inr (PinnedLookup ''a.example'' (pinned_records [''10.0.0.1'', ''10.0.0.2'']) 0 SystemLookup)"
    by (simp add: createPinnedLookup_eq)
  from pinned_lookup_answers [OF this, where n = 3] n show ?thesis by (simp add: numeral_2_eq_2)
qed

text \<open>Host names are normalised once by the check and once more by the pinned lookup, and stripping a
  final dot is not idempotent: a connection to a host with two final dots is not pinned.\<close>

lemma pinned_lookup_bypassed:
  assumes "resolvePinnedHostnameWithPolicy lib lookupFn policy ''a..'' w = (Inr p, w')"
  shows "pn_hostname p = ''a.'' \<and> fst (lookup_call (pn_lookup p) ''a..'' options) = AskSystem ''a..'' options"
proof -
  have n: "normalizeHostname ''a..'' = ''a.''" "normalizeHostname ''a.'' = ''a''" by code_simp+
  from assms obtain r where "p = \<lparr>pn_hostname = normalizeHostname ''a..'',
      pn_addresses = ipv4_first (normalizeLookupResults r),
      pn_lookup = PinnedLookup (normalizeHostname (normalizeHostname ''a..''))
        (pinned_records (ipv4_first (normalizeLookupResults r))) 0 SystemLookup\<rparr>"
    by (rule resolve_ok)
  then show ?thesis by (simp add: n Let_def)
qed

subsection \<open>Embedded IPv4 addresses\<close>

datatype embedding =
    V4Compatible
  | Nat64LocalUse
  | SixToFour "16 word" "16 word" "16 word" "16 word" "16 word"
  | Teredo "16 word" "16 word" "16 word" "16 word"
  | Isatap "16 word" "16 word" "16 word" "16 word" "16 word"

fun embed_ipv4 :: "embedding \<Rightarrow> 16 word \<Rightarrow> 16 word \<Rightarrow> ip_address" where
  "embed_ipv4 V4Compatible h l = Ipv6 0 0 0 0 0 0 h l"
| "embed_ipv4 Nat64LocalUse h l = Ipv6 0x64 0xff9b 1 0 0 0 h l"
| "embed_ipv4 (SixToFour p3 p4 p5 p6 p7) h l = Ipv6 0x2002 h l p3 p4 p5 p6 p7"
| "embed_ipv4 (Teredo p2 p3 p4 p5) h l = Ipv6 0x2001 0 p2 p3 p4 p5 (h XOR 0xffff) (l XOR 0xffff)"
| "embed_ipv4 (Isatap p0 p1 p2 p3 p4) h l = Ipv6 p0 p1 p2 p3 p4 0x5efe h l"

text \<open>The prefix of an ISATAP address is neither that of 6to4 nor that of Teredo, and of its fifth
  hextet only the two flag bits may be set.\<close>

definition valid_embedding :: "embedding \<Rightarrow> bool" where
  "valid_embedding e \<longleftrightarrow>
     (case e of Isatap p0 p1 p2 p3 p4 \<Rightarrow> p4 AND 0xfcff = 0 \<and> p0 \<noteq> 0x2002 \<and> (p0 \<noteq> 0x2001 \<or> p1 \<noteq> 0) | _ \<Rightarrow> True)"

lemma embedded_hextets_embed: "valid_embedding e \<Longrightarrow> embedded_hextets (embed_ipv4 e h l) = Some (h, l)"
  by (cases e) (auto simp: valid_embedding_def xor.assoc)

lemma embed_not_ipv4: "\<not> isIpv4Address (embed_ipv4 e h l)"
  by (cases e) (simp_all add: isIpv4Address_def)

text \<open>For every embedding of an IPv4 address in an IPv6 address and every four octets, the
  classifier recovers exactly those octets: the IPv6 address is blocked when it is itself in a special
  range or when the embedded IPv4 address is blocked, and only then.\<close>

theorem embedded_ipv4_classified:
  fixes a b c d :: "8 word"
  defines "addr e \<equiv> embed_ipv4 e (hextet a b) (hextet c d)"
  assumes "valid_embedding e"
    and parse: "parseCanonicalIpAddress lib (Some (normalizeHostname s)) = Some (addr e)"
    and plain: "\<not> isMapped lib (addr e)" "ipRange lib (addr e) \<noteq> ''rfc6145''" "ipRange lib (addr e) \<noteq> ''rfc6052''"
    and dotted: "v4Parse lib (dotted_octets a b c d) = Ipv4 a b c d"
  shows "isPrivateIpAddress lib policy s \<longleftrightarrow>
     isBlockedSpecialUseIpv6Address lib (addr e) \<or>
     isBlockedSpecialUseIpv4Address lib (resolveIpv4SpecialUseBlockOptions policy) (Ipv4 a b c d)"
proof -
  have "normalizeHostname s \<noteq> []"
    using parse by (auto simp: parseCanonicalIpAddress_def normalizeIpParseInput_def)
  moreover have "extractEmbeddedIpv4FromIpv6 lib (addr e) = Some (Ipv4 a b c d)"
    using plain dotted embedded_hextets_embed [OF \<open>valid_embedding e\<close>]
    by (simp add: extractEmbeddedIpv4FromIpv6_def addr_def decodeIpv4FromHextets_def dotted_hextets)
  moreover have "\<not> isIpv4Address (addr e)" by (simp add: addr_def embed_not_ipv4)
  ultimately show ?thesis using parse by (simp add: isPrivateIpAddress_def Let_def)
qed

theorem embedded_ipv4_classified_witness: "isPrivateIpAddress sample_lib None ''2002:7f00:1::''"
proof -
  have "isPrivateIpAddress sample_lib None ''2002:7f00:1::'' \<longleftrightarrow>
     isBlockedSpecialUseIpv6Address sample_lib (embed_ipv4 (SixToFour 0 0 0 0 0) (hextet 127 0) (hextet 0 1)) \<or>
     isBlockedSpecialUseIpv4Address sample_lib (resolveIpv4SpecialUseBlockOptions None) (Ipv4 127 0 0 1)"
  proof (rule embedded_ipv4_classified)
    show "valid_embedding (SixToFour 0 0 0 0 0)" by (simp add: valid_embedding_def)
    show "parseCanonicalIpAddress sample_lib (Some (normalizeHostname ''2002:7f00:1::'')) =
        Some (embed_ipv4 (SixToFour 0 0 0 0 0) (hextet 127 0) (hextet 0 1))"
      by code_simp
  qed code_simp+
  moreover have "isBlockedSpecialUseIpv4Address sample_lib (resolveIpv4SpecialUseBlockOptions None) (Ipv4 127 0 0 1)"
    by code_simp
  ultimately show ?thesis by blast
qed

subsection \<open>The guarded fetch\<close>

definition sample_url :: "string \<Rightarrow> url option" where
  "sample_url s =
     (if s = ''https://a.example/'' then
        Some \<lparr>u_href = s, u_protocol = ''https:'', u_hostname = ''a.example'', u_origin = ''https://a.example''\<rparr>
      else if s = ''https://b.example/'' then
        Some \<lparr>u_href = s, u_protocol = ''https:'', u_hostname = ''b.example'', u_origin = ''https://b.example''\<rparr>
      else None)"

definition sample_env :: "unit fetch_env" where
  "sample_env = \<lparr>
     fe_lib = sample_lib, fe_url = sample_url, fe_relative_url = (\<lambda>s _. sample_url s),
     fe_lookup = (\<lambda>_ w. (Inr (LookupMany [\<lparr>la_address = ''8.8.8.8'', la_family = 4\<rparr>]), w)),
     fe_fetch = (\<lambda>rq w. (Inr (if rq_url rq = ''https://a.example/''
         then \<lparr>rs_status = 302, rs_location = Some ''https://b.example/''\<rparr>
         else \<lparr>rs_status = 200, rs_location = None\<rparr>), w)),
     fe_env = (\<lambda>_. None)\<rparr>"

definition sample_init :: request_init where
  "sample_init = \<lparr>ri_method = Some ''put'', ri_body = Some ''x'',
     ri_headers = Some [(''Authorization'', ''secret''), (''Accept'', ''*/*'')]\<rparr>"

definition sample_params :: fetch_params where
  "sample_params = \<lparr>fp_url = ''https://a.example/'', fp_fetchImpl = None, fp_globalFetch = Some 0,
     fp_mocked = (\<lambda>_. False), fp_init = Some sample_init, fp_maxRedirects = None,
     fp_allowCrossOriginUnsafeRedirectReplay = None, fp_policy = None, fp_dispatcherPolicy = None,
     fp_mode = None, fp_pinDns = None, fp_proxy = None, fp_dangerouslyAllowEnvProxyWithoutPinnedDns = None\<rparr>"

definition sample_dispatcher :: "string \<Rightarrow> dispatcher" where
  "sample_dispatcher h =
     Http1Agent (Some \<lparr>cs_options = [], cs_lookup = Some (PinnedLookup h (pinned_records [''8.8.8.8'']) 0 SystemLookup)\<rparr>)"

definition sample_requests :: "request list" where
  "sample_requests =
     [\<lparr>rq_transport = RuntimeFetch, rq_url = ''https://a.example/'', rq_init = Some sample_init,
       rq_redirect = ''manual'', rq_dispatcher = Some (sample_dispatcher ''a.example'')\<rparr>,
      \<lparr>rq_transport = RuntimeFetch, rq_url = ''https://b.example/'',
       rq_init = Some \<lparr>ri_method = Some ''put'', ri_body = None, ri_headers = Some [(''accept'', ''*/*'')]\<rparr>,
       rq_redirect = ''manual'', rq_dispatcher = Some (sample_dispatcher ''b.example'')\<rparr>]"

lemma sample_fetch:
  "fetchWithSsrFGuard sample_env sample_params () =
     (Inr \<lparr>fr_response = \<lparr>rs_status = 200, rs_location = None\<rparr>, fr_finalUrl = ''https://b.example/'',
           fr_dispatcher = Some (sample_dispatcher ''b.example'')\<rparr>,
      [Created (sample_dispatcher ''a.example''), Requested (sample_requests ! 0), BodyCancelled,
       Closed (sample_dispatcher ''a.example''), Created (sample_dispatcher ''b.example''),
       Requested (sample_requests ! 1)], ())"
  by code_simp





text \<open>C15: A guarded fetch ends after at most one request more than the redirect limit, and every
  dispatcher it creates is closed exactly once: by the fetch itself, or, for the one a successful
  result holds, by the first call of its release function.\<close>

theorem guarded_fetch_bounded_and_released:
  "case fetchWithSsrFGuard env p w of (res, evs, w') \<Rightarrow>
     length (requests_made evs) \<le> max_redirects p + 1 \<and>
     dispatchers_created evs = dispatchers_closed (evs @ result_events res)"
proof -
  obtain res evs w' where out: "fetchWithSsrFGuard env p w = (res, evs, w')"
    by (cases "fetchWithSsrFGuard env p w")
  from out have "length (requests_made evs) \<le> max_redirects p + 1 \<and>
     dispatchers_created evs = dispatchers_closed (evs @ result_events res)"
  proof (rule fetch_guard_cases)
    assume "res = Inl FetchUnavailable" "evs = []"
    then show ?thesis by (simp add: event_simps result_events_def)
  next
    fix f assume l:
      "fetch_loop env p f \<lparr>ls_visited = [fp_url p], ls_url = fp_url p, ls_init = fp_init p, ls_count = 0\<rparr> w
        = (res, evs, w')"
    from fetch_loop_requests [OF l] fetch_loop_closed [OF l] show ?thesis by simp
  qed
  with out show ?thesis by simp
qed

end
