(* ===== verification/Gateway_Props.thy ===== *)
theory Gateway_Props
  imports Gateway_Auth Auth_Limit_Proofs Net_Props
begin

text \<open>
  Properties of the gateway's client checks: forwarded addresses, authorisation, and the limiter.
\<close>

subsection \<open>Forwarded addresses\<close>

lemma js_split_ne [simp]: "js_split c s \<noteq> []"
  by (induction s) (auto split: list.splits)

lemma js_split_append: "js_split c (a @ c # b) = js_split c a @ js_split c b"
proof (induction a)
  case (Cons x a)
  then show ?case by (cases "js_split c a") auto
qed simp

lemma forwarded_chain_append:
  "forwarded_chain lib (Some (junk @ CHR '','' # f)) = forwarded_chain lib (Some junk) @ forwarded_chain lib (Some f)"
  using js_split_append [of "CHR '',''" junk f] by (simp add: forwarded_chain_def)

lemma first_untrusted_append:
  "first_untrusted_hop lib ps (xs @ ys) =
     (case first_untrusted_hop lib ps xs of None \<Rightarrow> first_untrusted_hop lib ps ys | Some h \<Rightarrow> Some h)"
  by (induction xs) auto

lemma first_untrusted_Some:
  "first_untrusted_hop lib ps xs = Some h \<Longrightarrow>
     h \<in> set xs \<and> \<not> isLoopbackAddress lib (Some h) \<and> \<not> isTrustedProxyAddress lib (Some h) ps"
  by (induction xs) (auto split: if_splits)

lemma forwarded_chain_ne: "h \<in> set (forwarded_chain lib f) \<Longrightarrow> h \<noteq> []"
  by (auto simp: forwarded_chain_def split: option.splits if_splits)

lemma forwarded_Some:
  assumes "resolveForwardedClientIp lib f ps = Some h"
  shows "first_untrusted_hop lib ps (rev (forwarded_chain lib f)) = Some h" "h \<noteq> []"
    "\<not> (ps = None \<or> ps = Some [])"
proof -
  from assms show first: "first_untrusted_hop lib ps (rev (forwarded_chain lib f)) = Some h"
    and "\<not> (ps = None \<or> ps = Some [])"
    by (auto simp: resolveForwardedClientIp_def Let_def split: if_splits)
  from first_untrusted_Some [OF first] show "h \<noteq> []" by (auto dest: forwarded_chain_ne)
qed

definition gateway_sample :: gateway_lib where
  "gateway_sample = \<lparr>gl_ip = sample_lib, gl_isIP = (\<lambda>s. if sample_v4 s then 4 else 0), gl_url = (\<lambda>_. None),
     gl_tailnet4 = None, gl_tailnet6 = None, gl_container = False, gl_canBind = (\<lambda>_. True)\<rparr>"

text \<open>C35: When the forwarded header names an untrusted hop, that hop is the client address of a request
  from a trusted proxy, and nothing a client can add changes it: neither further addresses in front of
  the header the proxies wrote, nor an X-Real-IP header. It is no loopback and no proxy address.\<close>

theorem forwarded_client_not_spoofable:
  assumes "resolveForwardedClientIp lib (Some f) (ci_trustedProxies p) = Some client"
    and "isTrustedProxyAddress lib (normalizeIp lib (ci_remoteAddr p)) (ci_trustedProxies p)"
    and "str_truthy (normalizeIp lib (ci_remoteAddr p))"
  shows "resolveClientIp lib (p\<lparr>ci_forwardedFor := Some f\<rparr>) = Some client \<and>
     resolveClientIp lib (p\<lparr>ci_forwardedFor := Some (spoofed @ '','' @ f), ci_realIp := realIp\<rparr>) = Some client \<and>
     \<not> isLoopbackAddress lib (Some client) \<and> \<not> isTrustedProxyAddress lib (Some client) (ci_trustedProxies p)"
proof -
  note first = forwarded_Some [OF assms(1)]
  have "resolveForwardedClientIp lib (Some (spoofed @ '','' @ f)) (ci_trustedProxies p) = Some client"
  proof -
    have "forwarded_chain lib (Some f) \<noteq> []" using first(1) by auto
    with first(1,3) show ?thesis
      by (simp add: resolveForwardedClientIp_def forwarded_chain_append first_untrusted_append)
  qed
  with assms first(2) first_untrusted_Some [OF first(1)] show ?thesis
    by (auto simp: resolveClientIp_def str_truthy_iff)
qed

theorem forwarded_client_not_spoofable_witness:
  "resolveClientIp gateway_sample \<lparr>ci_remoteAddr = Some ''10.0.0.1'', ci_forwardedFor = Some ''127.0.0.1,8.8.8.8'',
     ci_realIp = Some ''127.0.0.1'', ci_trustedProxies = Some [''10.0.0.1''], ci_allowRealIpFallback = None\<rparr>
   = Some ''8.8.8.8''"
proof -
  let ?p = "\<lparr>ci_remoteAddr = Some ''10.0.0.1'', ci_forwardedFor = None, ci_realIp = None,
    ci_trustedProxies = Some [''10.0.0.1''], ci_allowRealIpFallback = None\<rparr>"
  have "resolveForwardedClientIp gateway_sample (Some ''8.8.8.8'') (ci_trustedProxies ?p) = Some ''8.8.8.8''"
    by code_simp
  moreover have "isTrustedProxyAddress gateway_sample (normalizeIp gateway_sample (ci_remoteAddr ?p)) (ci_trustedProxies ?p)"
    by code_simp
  moreover have "str_truthy (normalizeIp gateway_sample (ci_remoteAddr ?p))" by code_simp
  ultimately show ?thesis
    using forwarded_client_not_spoofable [where lib = gateway_sample and f = "''8.8.8.8''" and p = ?p
        and client = "''8.8.8.8''" and spoofed = "''127.0.0.1''" and realIp = "Some ''127.0.0.1''"]
    by simp
qed

subsection \<open>Authorisation\<close>

definition limiter_allows :: "auth_env \<Rightarrow> authorize_params \<Rightarrow> rate_limiter option \<Rightarrow> int \<Rightarrow> bool" where
  "limiter_allows env p r t \<longleftrightarrow>
     (case r of None \<Rightarrow> True
      | Some l \<Rightarrow> cr_allowed (fst (check_limit (ae_lib env) l (auth_ip env p) (Some (auth_scope p)) t)))"

definition tailscale_verified :: "auth_env \<Rightarrow> authorize_params \<Rightarrow> string option \<Rightarrow> bool" where
  "tailscale_verified env p u \<longleftrightarrow>
     tailscale_applies env p \<and>
     (\<exists>rq user ip who. ap_req p = Some rq \<and> isLoopbackAddress (ae_lib env) (hr_remoteAddress rq) \<and>
        getTailscaleUser (Some rq) = Some user \<and> resolveTailscaleClientIp env (Some rq) = Some ip \<and>
        ae_whois env ip = Some who \<and> wi_login who \<noteq> [] \<and>
        normalizeLogin (wi_login who) = normalizeLogin (tu_login user) \<and> u = Some (wi_login who))"

definition secret_matches :: "auth_env \<Rightarrow> string option \<Rightarrow> string option \<Rightarrow> bool" where
  "secret_matches env expected provided \<longleftrightarrow>
     (\<exists>a b. expected = Some a \<and> a \<noteq> [] \<and> provided = Some b \<and> b \<noteq> [] \<and> ae_digest env b = ae_digest env a)"

definition proxy_user :: "auth_env \<Rightarrow> authorize_params \<Rightarrow> string option \<Rightarrow> bool" where
  "proxy_user env p u \<longleftrightarrow>
     (\<exists>cfg rq v. ra_trustedProxy (ap_auth p) = Some cfg \<and> ap_req p = Some rq \<and>
        isTrustedProxyAddress (ae_lib env) (hr_remoteAddress rq) (ap_trustedProxies p) \<and>
        \<not> isLoopbackAddress (ae_lib env) (hr_remoteAddress rq) \<and>
        missing_header rq (nullish (tp_requiredHeaders cfg) []) = None \<and>
        headerValue (hr_headers rq (normalizeLowercaseStringOrEmpty (JString (tp_userHeader cfg)))) = Some v \<and>
        js_trim v \<noteq> [] \<and> u = Some (js_trim v) \<and>
        (nullish (tp_allowUsers cfg) [] = [] \<or> js_trim v \<in> set (nullish (tp_allowUsers cfg) [])))"

lemma proxy_authorized:
  assumes "authorize_trusted_proxy env p = AuthOk m u"
  shows "m = ''trusted-proxy'' \<and> proxy_user env p u"
proof -
  have no_ok: "authorizeTrustedProxyBrowserOrigin env s b = Some d \<Longrightarrow> d \<noteq> AuthOk m u" for s b d
    by (auto simp: authorizeTrustedProxyBrowserOrigin_def Let_def split: if_splits option.splits origin_check.splits)
  from assms obtain cfg user where cfg: "ra_trustedProxy (ap_auth p) = Some cfg"
    and user: "authorizeTrustedProxy env (ap_req p) (ap_trustedProxies p) cfg = Inr user"
    and out: "m = ''trusted-proxy''" "u = Some user"
    by (auto simp: authorize_trusted_proxy_def dest: no_ok split: option.splits if_splits sum.splits)
  from user cfg out show ?thesis
    by (auto simp: authorizeTrustedProxy_def proxy_user_def Let_def split: option.splits if_splits)
qed

lemma tailscale_ok:
  assumes "resolveVerifiedTailscaleUser env (ap_req p) = Inr user" "tailscale_applies env p"
  shows "tailscale_verified env p (Some (tu_login user))"
  using assms
  by (auto simp: resolveVerifiedTailscaleUser_def tailscale_verified_def isTailscaleProxyRequest_def getTailscaleUser_def
      split: option.splits if_splits)

lemma safeEqual_iff:
  "str_truthy e \<Longrightarrow> str_truthy q \<Longrightarrow> safeEqualSecret env q e \<longleftrightarrow> secret_matches env e q"
  by (auto simp: safeEqualSecret_def secret_matches_def str_truthy_iff)

lemma checked_authorized:
  assumes "authorize_checked env p r t = (AuthOk m u, r')"
  shows "(m = ''tailscale'' \<and> tailscale_verified env p u) \<or>
     (m = ''token'' \<and> ra_mode (ap_auth p) = AuthToken \<and>
        secret_matches env (ra_token (ap_auth p)) (auth_field ca_token (ap_connectAuth p))) \<or>
     (m = ''password'' \<and> ra_mode (ap_auth p) = AuthPassword \<and>
        secret_matches env (ra_password (ap_auth p)) (auth_field ca_password (ap_connectAuth p)))"
  using assms
  by (auto simp: authorize_checked_def authorize_secret_def authorizeTokenAuth_def authorizePasswordAuth_def
      Let_def safeEqual_iff tailscale_ok split: sum.splits if_splits)

text \<open>C36: A connection is authorised only for a reason: in mode none; with the user header of a trusted,
  non-loopback proxy that is allowed; or, when the limiter lets the attempt through, with a secret whose
  digest is that of the configured non-empty secret, or for a Tailscale login that the whois lookup of
  the forwarded client address confirms.\<close>

theorem authorized_only_with_credentials:
  assumes "authorizeGatewayConnectCore env p r t_check t_record = (AuthOk m u, r')"
  shows "case ra_mode (ap_auth p) of
      AuthNone \<Rightarrow> m = ''none''
    | AuthTrustedProxy \<Rightarrow> m = ''trusted-proxy'' \<and> proxy_user env p u
    | AuthToken \<Rightarrow> limiter_allows env p r t_check \<and>
        (m = ''tailscale'' \<and> tailscale_verified env p u \<or>
         m = ''token'' \<and> secret_matches env (ra_token (ap_auth p)) (auth_field ca_token (ap_connectAuth p)))
    | AuthPassword \<Rightarrow> limiter_allows env p r t_check \<and>
        (m = ''tailscale'' \<and> tailscale_verified env p u \<or>
         m = ''password'' \<and> secret_matches env (ra_password (ap_auth p)) (auth_field ca_password (ap_connectAuth p)))"
proof (cases "ra_mode (ap_auth p)")
  case AuthNone
  with assms show ?thesis by (simp add: authorizeGatewayConnectCore_def)
next
  case AuthTrustedProxy
  with assms proxy_authorized [of env p m u] show ?thesis by (simp add: authorizeGatewayConnectCore_def)
next
  case AuthToken
  with assms have "limiter_allows env p r t_check \<and> (\<exists>l t r'. authorize_checked env p l t = (AuthOk m u, r'))"
    by (auto simp: authorizeGatewayConnectCore_def limiter_allows_def split: option.splits prod.splits if_splits)
  with AuthToken show ?thesis by (auto dest!: checked_authorized)
next
  case AuthPassword
  with assms have "limiter_allows env p r t_check \<and> (\<exists>l t r'. authorize_checked env p l t = (AuthOk m u, r'))"
    by (auto simp: authorizeGatewayConnectCore_def limiter_allows_def split: option.splits prod.splits if_splits)
  with AuthPassword show ?thesis by (auto dest!: checked_authorized)
qed

definition auth_sample :: auth_env where
  "auth_sample = \<lparr>ae_lib = gateway_sample, ae_digest = (\<lambda>s. s), ae_whois = (\<lambda>_. None)\<rparr>"

definition auth_request :: authorize_params where
  "auth_request = \<lparr>ap_auth = \<lparr>ra_mode = AuthToken, ra_token = Some ''secret'', ra_password = None,
       ra_allowTailscale = False, ra_trustedProxy = None\<rparr>,
     ap_connectAuth = Some \<lparr>ca_token = Some ''secret'', ca_password = None\<rparr>, ap_req = None, ap_trustedProxies = None,
     ap_authSurface = None, ap_clientIp = Some ''8.8.8.8'', ap_rateLimitScope = None, ap_allowRealIpFallback = None,
     ap_browserOriginPolicy = None\<rparr>"

theorem authorized_only_with_credentials_witness:
  "limiter_allows auth_sample auth_request (Some (createAuthRateLimiter None)) 0 \<and>
   secret_matches auth_sample (Some ''secret'') (Some ''secret'')"
proof -
  have "authorizeGatewayConnectCore auth_sample auth_request (Some (createAuthRateLimiter None)) 0 0 =
      (AuthOk ''token'' None, Some (createAuthRateLimiter None))"
    by code_simp
  from authorized_only_with_credentials [OF this] show ?thesis
    by (simp add: auth_request_def auth_field_def)
qed

subsection \<open>Rate limits\<close>

lemma limit_step_config:
  "rl_maxAttempts (lt_limiter (limit_step lib key s e)) = rl_maxAttempts (lt_limiter s) \<and>
   rl_windowMs (lt_limiter (limit_step lib key s e)) = rl_windowMs (lt_limiter s)"
  by (cases "snd e")
    (auto simp: limit_step_def failed_attempt_def check_limit_entries recordFailure_def reset_limit_def prune_limits_def
      Let_def prod_eq_iff check_limit_def split: prod.splits option.splits)

lemma limit_run_config:
  "rl_maxAttempts (lt_limiter (foldl (limit_step lib key) s es)) = rl_maxAttempts (lt_limiter s) \<and>
   rl_windowMs (lt_limiter (foldl (limit_step lib key) s es)) = rl_windowMs (lt_limiter s)"
  by (induction es arbitrary: s) (auto simp: limit_step_config)



text \<open>A failure recorded after a lock expired, without a check in between, is dropped by the next check:
  the stale lock makes the check clear the attempts. Here two failures lock the client at time 1 for a
  second; the third, at time 2001, leaves it with both attempts at time 2002.\<close>

lemma stale_lock_drops_failure:
  defines "r \<equiv> createAuthRateLimiter (Some \<lparr>rc_maxAttempts = Some 2, rc_windowMs = Some 1000,
              rc_lockoutMs = Some 1000, rc_exemptLoopback = None\<rparr>)"
  shows "cr_remaining (fst (check_entry r 2002 (record_entry r 2001 (record_entry r 1 (record_entry r 0
           \<lparr>re_attempts = [], re_lockedUntil = None\<rparr>))))) = 2"
  by (simp add: r_def createAuthRateLimiter_def check_entry_def record_entry_def slideWindow_def locked_at_def
      lock_expired_def Let_def)

end
