(* ===== verification/Pairing_Store.thy ===== *)
theory Pairing_Store
  imports Session_Key
begin

text \<open>
  The pairing store (src/brain/src/pairing/pairing-store.ts): the pending pairing requests of a channel
  and the allow-from files of its accounts, with the read cache of the latter.

  A file name maps to what the file holds; the credentials directory in front of the names is left
  out. The \<open>n\<close>-th write gives a file the time stamp and size \<open>pe_stat n\<close>. \<open>Date.parse\<close>,
  \<open>toISOString\<close>, \<open>localeCompare\<close>, the random numbers and the channel's adapter are parameters. A
  numeric id is its decimal string. Failing reads of a file that exists are not modelled, so the
  synchronous reads are the asynchronous ones.
\<close>

datatype pairing_error = InvalidPairingChannel | InvalidPairingAccount | PairingCodesExhausted

record pairing_request =
  rq_id :: string
  rq_code :: string
  rq_createdAt :: string
  rq_lastSeenAt :: string
  rq_meta :: "(string, string) js_map option"

text \<open>\<open>af_entries\<close> is \<open>None\<close> when the file is no JSON object.\<close>

record allow_file =
  af_entries :: "string list option"
  af_mtimeMs :: int
  af_size :: int

record allow_cache_entry =
  ac_exists :: bool
  ac_mtimeMs :: "int option"
  ac_size :: "int option"
  ac_entries :: "string list"

record pairing_state =
  ps_requests :: "(string, pairing_request list) js_map"
  ps_allow :: "(string, allow_file) js_map"
  ps_cache :: "(string, allow_cache_entry) js_map"
  ps_writes :: nat

record pairing_env =
  pe_dateParse :: "string \<Rightarrow> int option"
  pe_toISOString :: "int \<Rightarrow> string"
  pe_localeCompare :: "string \<Rightarrow> string \<Rightarrow> int"
  pe_adapter :: "string \<Rightarrow> (string \<Rightarrow> string) option"
  pe_stat :: "nat \<Rightarrow> int \<times> int"

definition PAIRING_CODE_LENGTH :: nat where "PAIRING_CODE_LENGTH = 8"
definition PAIRING_CODE_ALPHABET :: string where "PAIRING_CODE_ALPHABET = ''ABCDEFGHJKLMNPQRSTUVWXYZ23456789''"
definition PAIRING_PENDING_TTL_MS :: int where "PAIRING_PENDING_TTL_MS = 60 * 60 * 1000"
definition PAIRING_PENDING_MAX :: nat where "PAIRING_PENDING_MAX = 3"

subsection \<open>File names\<close>

definition unsafe_char :: "char \<Rightarrow> bool" where
  "unsafe_char c \<longleftrightarrow> c \<in> set [CHR 0x5C, CHR ''/'', CHR '':'', CHR ''*'', CHR ''?'', CHR 0x22, CHR ''<'', CHR ''>'', CHR ''|'']"

fun replace_dot_dot :: "string \<Rightarrow> string" where
  "replace_dot_dot (a # b # s) =
     (if a = CHR ''.'' \<and> b = CHR ''.'' then CHR ''_'' # replace_dot_dot s else a # replace_dot_dot (b # s))"
| "replace_dot_dot s = s"

definition safe_key :: "pairing_error \<Rightarrow> string \<Rightarrow> pairing_error + string" where
  "safe_key e key =
     (let raw = normalizeLowercaseStringOrEmpty (JString key) in
      if raw = [] then Inl e
      else (let safe = replace_dot_dot (map (\<lambda>c. if unsafe_char c then CHR ''_'' else c) raw) in
            if safe = [] \<or> safe = ''_'' then Inl e else Inr safe))"

definition safeChannelKey :: "string \<Rightarrow> pairing_error + string" where
  "safeChannelKey channel = safe_key InvalidPairingChannel channel"

definition safeAccountKey :: "string \<Rightarrow> pairing_error + string" where
  "safeAccountKey accountId = safe_key InvalidPairingAccount accountId"

definition resolvePairingPath :: "string \<Rightarrow> pairing_error + string" where
  "resolvePairingPath channel = map_sum id (\<lambda>k. k @ ''-pairing.json'') (safeChannelKey channel)"

definition resolveAllowFromPath :: "string \<Rightarrow> string option \<Rightarrow> pairing_error + string" where
  "resolveAllowFromPath channel accountId = (case safeChannelKey channel of
     Inl e \<Rightarrow> Inl e
   | Inr base \<Rightarrow>
       (case normalizeOptionalString (js_opt accountId) of
         None \<Rightarrow> Inr (base @ ''-allowFrom.json'')
       | Some acc \<Rightarrow> map_sum id (\<lambda>k. base @ ''-'' @ k @ ''-allowFrom.json'') (safeAccountKey acc)))"

subsection \<open>Requests\<close>

definition parseTimestamp :: "pairing_env \<Rightarrow> string \<Rightarrow> int option" where
  "parseTimestamp env v = (if v = [] then None else pe_dateParse env v)"

definition isExpired :: "pairing_env \<Rightarrow> pairing_request \<Rightarrow> int \<Rightarrow> bool" where
  "isExpired env entry now = (case parseTimestamp env (rq_createdAt entry) of
     None \<Rightarrow> True
   | Some createdAt \<Rightarrow> createdAt = 0 \<or> PAIRING_PENDING_TTL_MS < now - createdAt)"

definition pruneExpiredRequests :: "pairing_env \<Rightarrow> pairing_request list \<Rightarrow> int \<Rightarrow> pairing_request list \<times> bool" where
  "pruneExpiredRequests env reqs now =
     (filter (\<lambda>r. \<not> isExpired env r now) reqs, list_ex (\<lambda>r. isExpired env r now) reqs)"

definition resolveLastSeenAt :: "pairing_env \<Rightarrow> pairing_request \<Rightarrow> int" where
  "resolveLastSeenAt env entry =
     nullish (nullish_opt (parseTimestamp env (rq_lastSeenAt entry)) (parseTimestamp env (rq_createdAt entry))) 0"

definition normalizePairingAccountId :: "string option \<Rightarrow> string" where
  "normalizePairingAccountId accountId = normalizeLowercaseStringOrEmpty (js_opt accountId)"

definition meta_account :: "pairing_request \<Rightarrow> string option" where
  "meta_account entry = (case rq_meta entry of None \<Rightarrow> None | Some m \<Rightarrow> jm_get m ''accountId'')"

definition resolvePairingRequestAccountId :: "pairing_request \<Rightarrow> string" where
  "resolvePairingRequestAccountId entry = str_or (normalizePairingAccountId (meta_account entry)) DEFAULT_ACCOUNT_ID"

text \<open>The indexes of the requests by account, in the order of the accounts' first requests.\<close>

definition push_index :: "(string, nat list) js_map \<Rightarrow> nat \<times> pairing_request \<Rightarrow> (string, nat list) js_map" where
  "push_index m p = (case p of (i, entry) \<Rightarrow>
     (let acc = resolvePairingRequestAccountId entry in jm_set m acc (nullish (jm_get m acc) [] @ [i])))"

definition indexes_by_account :: "pairing_request list \<Rightarrow> (string, nat list) js_map" where
  "indexes_by_account reqs = foldl push_index [] (enumerate 0 reqs)"

definition excess_indexes :: "pairing_env \<Rightarrow> pairing_request list \<Rightarrow> nat \<Rightarrow> nat list \<Rightarrow> nat list" where
  "excess_indexes env reqs maxPending indexes =
     (if length indexes \<le> maxPending then []
      else take (length indexes - maxPending) (sort_key (\<lambda>i. resolveLastSeenAt env (reqs ! i)) indexes))"

definition pruneExcessRequestsByAccount ::
  "pairing_env \<Rightarrow> pairing_request list \<Rightarrow> nat \<Rightarrow> pairing_request list \<times> bool" where
  "pruneExcessRequestsByAccount env reqs maxPending =
     (if maxPending = 0 \<or> length reqs \<le> maxPending then (reqs, False)
      else (let dropped = concat (map (excess_indexes env reqs maxPending) (jm_values (indexes_by_account reqs))) in
            if dropped = [] then (reqs, False)
            else (map snd (filter (\<lambda>p. fst p \<notin> set dropped) (enumerate 0 reqs)), True)))"

definition requestMatchesAccountId :: "pairing_request \<Rightarrow> string \<Rightarrow> bool" where
  "requestMatchesAccountId entry acc \<longleftrightarrow> acc = [] \<or> resolvePairingRequestAccountId entry = acc"

subsection \<open>Codes\<close>

text \<open>\<open>draws i j\<close> is what \<open>crypto.randomInt\<close> gives for character \<open>j\<close> of the \<open>i\<close>-th code tried; the
  remainder keeps it in the range asked for.\<close>

type_synonym code_draws = "nat \<Rightarrow> nat \<Rightarrow> nat"

definition randomCode :: "(nat \<Rightarrow> nat) \<Rightarrow> string" where
  "randomCode idx =
     map (\<lambda>j. PAIRING_CODE_ALPHABET ! (idx j mod length PAIRING_CODE_ALPHABET)) [0..<PAIRING_CODE_LENGTH]"

definition generateUniqueCode :: "code_draws \<Rightarrow> string list \<Rightarrow> pairing_error + string" where
  "generateUniqueCode draws existing =
     (case find (\<lambda>code. code \<notin> set existing) (map (\<lambda>attempt. randomCode (draws attempt)) [0..<500]) of
       None \<Rightarrow> Inl PairingCodesExhausted | Some code \<Rightarrow> Inr code)"

fun js_find_index :: "('a \<Rightarrow> bool) \<Rightarrow> 'a list \<Rightarrow> nat option" where
  "js_find_index P [] = None"
| "js_find_index P (x # xs) = (if P x then Some 0 else map_option Suc (js_find_index P xs))"

subsection \<open>Allow-from entries\<close>

definition normalizePairingId :: "string \<Rightarrow> string" where
  "normalizePairingId v = nullish (normalizeOptionalString (JString v)) []"

definition normalizeAllowEntry :: "pairing_env \<Rightarrow> string \<Rightarrow> string \<Rightarrow> string" where
  "normalizeAllowEntry env channel entry =
     (let trimmed = js_trim entry in
      if trimmed = [] then [] else if trimmed = ''*'' then []
      else (let normalized = (case pe_adapter env channel of None \<Rightarrow> trimmed | Some f \<Rightarrow> f trimmed)
            in nullish (normalizeOptionalString (JString normalized)) []))"

fun dedupe_from :: "string list \<Rightarrow> string list \<Rightarrow> string list" where
  "dedupe_from seen [] = []"
| "dedupe_from seen (entry # entries) =
     (let normalized = nullish (normalizeOptionalString (JString entry)) [] in
      if normalized = [] \<or> normalized \<in> set seen then dedupe_from seen entries
      else normalized # dedupe_from (normalized # seen) entries)"

definition dedupePreserveOrder :: "string list \<Rightarrow> string list" where
  "dedupePreserveOrder entries = dedupe_from [] entries"

definition normalizeAllowFromList :: "pairing_env \<Rightarrow> string \<Rightarrow> string list option \<Rightarrow> string list" where
  "normalizeAllowFromList env channel allowFrom =
     dedupePreserveOrder (filter (\<lambda>s. s \<noteq> []) (map (normalizeAllowEntry env channel) (nullish allowFrom [])))"

definition normalizeAllowFromInput :: "pairing_env \<Rightarrow> string \<Rightarrow> string \<Rightarrow> string" where
  "normalizeAllowFromInput env channel entry = normalizeAllowEntry env channel (normalizePairingId entry)"

subsection \<open>Files and the read cache\<close>

definition write_allow_file :: "pairing_env \<Rightarrow> string \<Rightarrow> string list \<Rightarrow> pairing_state \<Rightarrow> pairing_state" where
  "write_allow_file env path entries s =
     s\<lparr>ps_allow := jm_set (ps_allow s) path
         \<lparr>af_entries = Some entries, af_mtimeMs = fst (pe_stat env (ps_writes s)), af_size = snd (pe_stat env (ps_writes s))\<rparr>,
       ps_writes := Suc (ps_writes s)\<rparr>"

definition ensure_allow_file :: "pairing_env \<Rightarrow> string \<Rightarrow> pairing_state \<Rightarrow> pairing_state" where
  "ensure_allow_file env path s = (case jm_get (ps_allow s) path of
     Some _ \<Rightarrow> s | None \<Rightarrow> write_allow_file env path [] s)"

definition write_requests :: "string \<Rightarrow> pairing_request list \<Rightarrow> pairing_state \<Rightarrow> pairing_state" where
  "write_requests path reqs s = s\<lparr>ps_requests := jm_set (ps_requests s) path reqs\<rparr>"

definition ensure_pairing_file :: "string \<Rightarrow> pairing_state \<Rightarrow> pairing_state" where
  "ensure_pairing_file path s = (case jm_get (ps_requests s) path of
     Some _ \<Rightarrow> s | None \<Rightarrow> write_requests path [] s)"

definition readPairingRequests :: "string \<Rightarrow> pairing_state \<Rightarrow> pairing_request list" where
  "readPairingRequests path s = nullish (jm_get (ps_requests s) path) []"

definition setAllowFromReadCache :: "string \<Rightarrow> allow_cache_entry \<Rightarrow> pairing_state \<Rightarrow> pairing_state" where
  "setAllowFromReadCache path entry s = s\<lparr>ps_cache := jm_set (ps_cache s) path entry\<rparr>"

definition resolveAllowFromReadCacheHit ::
  "string \<Rightarrow> (int \<times> int) option \<Rightarrow> pairing_state \<Rightarrow> allow_cache_entry option" where
  "resolveAllowFromReadCacheHit path stat s = (case jm_get (ps_cache s) path of
     None \<Rightarrow> None
   | Some cached \<Rightarrow>
       if ac_exists cached \<noteq> (stat \<noteq> None) then None
       else if stat = None then Some cached
       else if ac_mtimeMs cached \<noteq> map_option fst stat \<or> ac_size cached \<noteq> map_option snd stat then None
       else Some cached)"

definition resolveAllowFromReadCacheOrMissing ::
  "string \<Rightarrow> (int \<times> int) option \<Rightarrow> pairing_state \<Rightarrow> (string list \<times> bool) option \<times> pairing_state" where
  "resolveAllowFromReadCacheOrMissing path stat s = (case resolveAllowFromReadCacheHit path stat s of
     Some cached \<Rightarrow> (Some (ac_entries cached, ac_exists cached), s)
   | None \<Rightarrow>
       if stat = None then
         (Some ([], False),
          setAllowFromReadCache path \<lparr>ac_exists = False, ac_mtimeMs = None, ac_size = None, ac_entries = []\<rparr> s)
       else (None, s))"

definition readAllowFromStateForPathWithExists ::
  "pairing_env \<Rightarrow> string \<Rightarrow> string \<Rightarrow> pairing_state \<Rightarrow> (string list \<times> bool) \<times> pairing_state" where
  "readAllowFromStateForPathWithExists env channel path s =
     (let file = jm_get (ps_allow s) path; stat = map_option (\<lambda>f. (af_mtimeMs f, af_size f)) file in
      case resolveAllowFromReadCacheOrMissing path stat s of
        (Some r, s') \<Rightarrow> (r, s')
      | (None, s') \<Rightarrow>
          (case file of
            None \<Rightarrow> (([], False), s')
          | Some f \<Rightarrow>
              (let entries = normalizeAllowFromList env channel (af_entries f)
               in ((entries, True),
                   setAllowFromReadCache path \<lparr>ac_exists = True, ac_mtimeMs = Some (af_mtimeMs f),
                     ac_size = Some (af_size f), ac_entries = entries\<rparr> s'))))"

definition readAllowFromStateForPath ::
  "pairing_env \<Rightarrow> string \<Rightarrow> string \<Rightarrow> pairing_state \<Rightarrow> string list \<times> pairing_state" where
  "readAllowFromStateForPath env channel path s =
     (case readAllowFromStateForPathWithExists env channel path s of ((entries, _), s') \<Rightarrow> (entries, s'))"

definition writeAllowFromState :: "pairing_env \<Rightarrow> string \<Rightarrow> string list \<Rightarrow> pairing_state \<Rightarrow> pairing_state" where
  "writeAllowFromState env path allowFrom s =
     (let stat = pe_stat env (ps_writes s) in
      setAllowFromReadCache path
        \<lparr>ac_exists = True, ac_mtimeMs = Some (fst stat), ac_size = Some (snd stat), ac_entries = allowFrom\<rparr>
        (write_allow_file env path allowFrom s))"

definition shouldIncludeLegacyAllowFromEntries :: "string \<Rightarrow> bool" where
  "shouldIncludeLegacyAllowFromEntries acc \<longleftrightarrow> acc = [] \<or> acc = DEFAULT_ACCOUNT_ID"

definition resolveAllowFromAccountId :: "string option \<Rightarrow> string" where
  "resolveAllowFromAccountId accountId = str_or (normalizePairingAccountId accountId) DEFAULT_ACCOUNT_ID"

definition readChannelAllowFromStore ::
  "pairing_env \<Rightarrow> string \<Rightarrow> string option \<Rightarrow> pairing_state \<Rightarrow> (pairing_error + string list) \<times> pairing_state" where
  "readChannelAllowFromStore env channel accountId s =
     (let acc = resolveAllowFromAccountId accountId in
      case resolveAllowFromPath channel (Some acc) of
        Inl e \<Rightarrow> (Inl e, s)
      | Inr scopedPath \<Rightarrow>
          (case readAllowFromStateForPath env channel scopedPath s of (scoped, s1) \<Rightarrow>
            if \<not> shouldIncludeLegacyAllowFromEntries acc then (Inr scoped, s1)
            else (case resolveAllowFromPath channel None of
              Inl e \<Rightarrow> (Inl e, s1)
            | Inr legacyPath \<Rightarrow>
                (case readAllowFromStateForPath env channel legacyPath s1 of
                  (legacy, s2) \<Rightarrow> (Inr (dedupePreserveOrder (scoped @ legacy)), s2)))))"

subsection \<open>Changing the allow-from files\<close>

definition updateAllowFromStoreEntry ::
  "pairing_env \<Rightarrow> string \<Rightarrow> string \<Rightarrow> string option \<Rightarrow> (string list \<Rightarrow> string \<Rightarrow> string list option) \<Rightarrow> pairing_state \<Rightarrow>
     (pairing_error + bool \<times> string list) \<times> pairing_state" where
  "updateAllowFromStoreEntry env channel entry accountId change s = (case resolveAllowFromPath channel accountId of
     Inl e \<Rightarrow> (Inl e, s)
   | Inr path \<Rightarrow>
       (let s = ensure_allow_file env path s;
            current = normalizeAllowFromList env channel (case jm_get (ps_allow s) path of None \<Rightarrow> None | Some f \<Rightarrow> af_entries f);
            normalized = normalizeAllowFromInput env channel entry
        in if normalized = [] then (Inr (False, current), s)
           else (case change current normalized of
             None \<Rightarrow> (Inr (False, current), s)
           | Some next_entries \<Rightarrow> (Inr (True, next_entries), writeAllowFromState env path next_entries s))))"

definition add_entry :: "string list \<Rightarrow> string \<Rightarrow> string list option" where
  "add_entry current normalized = (if normalized \<in> set current then None else Some (current @ [normalized]))"

definition remove_entry :: "string list \<Rightarrow> string \<Rightarrow> string list option" where
  "remove_entry current normalized =
     (let next_entries = filter (\<lambda>entry. entry \<noteq> normalized) current in
      if length next_entries = length current then None else Some next_entries)"

definition addChannelAllowFromStoreEntry ::
  "pairing_env \<Rightarrow> string \<Rightarrow> string \<Rightarrow> string option \<Rightarrow> pairing_state \<Rightarrow>
     (pairing_error + bool \<times> string list) \<times> pairing_state" where
  "addChannelAllowFromStoreEntry env channel entry accountId s =
     updateAllowFromStoreEntry env channel entry accountId add_entry s"

definition removeChannelAllowFromStoreEntry ::
  "pairing_env \<Rightarrow> string \<Rightarrow> string \<Rightarrow> string option \<Rightarrow> pairing_state \<Rightarrow>
     (pairing_error + bool \<times> string list) \<times> pairing_state" where
  "removeChannelAllowFromStoreEntry env channel entry accountId s =
     updateAllowFromStoreEntry env channel entry accountId remove_entry s"

subsection \<open>Pairing requests\<close>

definition insert_created :: "pairing_env \<Rightarrow> pairing_request \<Rightarrow> pairing_request list \<Rightarrow> pairing_request list" where
  "insert_created env r rs =
     takeWhile (\<lambda>x. pe_localeCompare env (rq_createdAt r) (rq_createdAt x) > 0) rs @ r #
     dropWhile (\<lambda>x. pe_localeCompare env (rq_createdAt r) (rq_createdAt x) > 0) rs"

definition listChannelPairingRequests ::
  "pairing_env \<Rightarrow> int \<Rightarrow> string \<Rightarrow> string option \<Rightarrow> pairing_state \<Rightarrow> (pairing_error + pairing_request list) \<times> pairing_state"
  where
  "listChannelPairingRequests env now channel accountId s = (case resolvePairingPath channel of
     Inl e \<Rightarrow> (Inl e, s)
   | Inr path \<Rightarrow>
       (let s = ensure_pairing_file path s;
            (unexpired, expiredRemoved) = pruneExpiredRequests env (readPairingRequests path s) now;
            (pruned, cappedRemoved) = pruneExcessRequestsByAccount env unexpired PAIRING_PENDING_MAX;
            s = (if expiredRemoved \<or> cappedRemoved then write_requests path pruned s else s);
            acc = normalizePairingAccountId accountId
        in (Inr (foldr (insert_created env) (filter (\<lambda>r. requestMatchesAccountId r acc) pruned) []), s)))"

definition request_meta :: "(string \<times> string option) list option \<Rightarrow> string \<Rightarrow> (string, string) js_map" where
  "request_meta meta acc =
     jm_set (filter (\<lambda>p. snd p \<noteq> []) (map (\<lambda>(k, v). (k, nullish (normalizeOptionalString (js_opt v)) [])) (nullish meta [])))
       ''accountId'' acc"

definition existing_codes :: "pairing_request list \<Rightarrow> string list" where
  "existing_codes reqs = map (\<lambda>r. js_upper (nullish (normalizeOptionalString (JString (rq_code r))) [])) reqs"

definition refresh_request ::
  "pairing_env \<Rightarrow> int \<Rightarrow> code_draws \<Rightarrow> string \<Rightarrow> (string, string) js_map \<Rightarrow> pairing_request list \<Rightarrow> nat \<Rightarrow>
     pairing_error + (string \<times> pairing_request list)" where
  "refresh_request env now draws i meta reqs idx =
     (let existing = reqs ! idx;
          existingCode = nullish (normalizeOptionalString (JString (rq_code existing))) []
      in case (if existingCode \<noteq> [] then Inr existingCode else generateUniqueCode draws (existing_codes reqs)) of
        Inl e \<Rightarrow> Inl e
      | Inr code \<Rightarrow>
          Inr (code, fst (pruneExcessRequestsByAccount env
            (reqs[idx := \<lparr>rq_id = i, rq_code = code, rq_createdAt = rq_createdAt existing,
               rq_lastSeenAt = pe_toISOString env now, rq_meta = Some meta\<rparr>]) PAIRING_PENDING_MAX)))"

definition upsertChannelPairingRequest ::
  "pairing_env \<Rightarrow> int \<Rightarrow> code_draws \<Rightarrow> string \<Rightarrow> string \<Rightarrow> string \<Rightarrow> (string \<times> string option) list option \<Rightarrow>
     pairing_state \<Rightarrow> (pairing_error + string \<times> bool) \<times> pairing_state" where
  "upsertChannelPairingRequest env now draws channel senderId accountId meta s = (case resolvePairingPath channel of
     Inl e \<Rightarrow> (Inl e, s)
   | Inr path \<Rightarrow>
       (let s = ensure_pairing_file path s;
            i = normalizePairingId senderId;
            acc = str_or (normalizePairingAccountId (Some accountId)) DEFAULT_ACCOUNT_ID;
            newMeta = request_meta meta acc;
            (reqs, expiredRemoved) = pruneExpiredRequests env (readPairingRequests path s) now
        in case js_find_index (\<lambda>r. rq_id r = i \<and> requestMatchesAccountId r acc) reqs of
          Some idx \<Rightarrow>
            (case refresh_request env now draws i newMeta reqs idx of
              Inl e \<Rightarrow> (Inl e, s)
            | Inr (code, capped) \<Rightarrow> (Inr (code, False), write_requests path capped s))
        | None \<Rightarrow>
            (case pruneExcessRequestsByAccount env reqs PAIRING_PENDING_MAX of (capped, cappedRemoved) \<Rightarrow>
              if PAIRING_PENDING_MAX \<le> length (filter (\<lambda>r. requestMatchesAccountId r acc) capped) then
                (Inr ([], False), if expiredRemoved \<or> cappedRemoved then write_requests path capped s else s)
              else
                (case generateUniqueCode draws (existing_codes reqs) of
                  Inl e \<Rightarrow> (Inl e, s)
                | Inr code \<Rightarrow>
                    (Inr (code, True), write_requests path (capped @
                       [\<lparr>rq_id = i, rq_code = code, rq_createdAt = pe_toISOString env now,
                         rq_lastSeenAt = pe_toISOString env now, rq_meta = Some newMeta\<rparr>]) s)))))"

definition approveChannelPairingCode ::
  "pairing_env \<Rightarrow> int \<Rightarrow> string \<Rightarrow> string \<Rightarrow> string option \<Rightarrow> pairing_state \<Rightarrow>
     (pairing_error + pairing_request option) \<times> pairing_state" where
  "approveChannelPairingCode env now channel codeText accountId s =
     (let code = js_upper (nullish (normalizeNullableString (JString codeText)) []) in
      if code = [] then (Inr None, s)
      else (case resolvePairingPath channel of
        Inl e \<Rightarrow> (Inl e, s)
      | Inr path \<Rightarrow>
          (let s = ensure_pairing_file path s;
               (pruned, removed) = pruneExpiredRequests env (readPairingRequests path s) now;
               acc = normalizePairingAccountId accountId
           in case js_find_index (\<lambda>r. js_upper (rq_code r) = code \<and> requestMatchesAccountId r acc) pruned of
             None \<Rightarrow> (Inr None, if removed then write_requests path pruned s else s)
           | Some idx \<Rightarrow>
               (let entry = pruned ! idx;
                    s = write_requests path (take idx pruned @ drop (Suc idx) pruned) s;
                    target = nullish_opt (normalizeOptionalString (js_opt accountId))
                               (normalizeOptionalString (js_opt (meta_account entry)))
                in case addChannelAllowFromStoreEntry env channel (rq_id entry) target s of
                  (Inl e, s') \<Rightarrow> (Inl e, s')
                | (Inr _, s') \<Rightarrow> (Inr (Some entry), s')))))"

end
