(* ===== verification/Pairing_Proofs.thy ===== *)
theory Pairing_Proofs
  imports Pairing_Store Machines
begin

text \<open>
  Lemmas on the pairing store: the cap on the requests of an account, the codes, and what each
  operation does to the files.
\<close>

subsection \<open>Lists\<close>

abbreviation account_of :: "pairing_request \<Rightarrow> string" where
  "account_of \<equiv> resolvePairingRequestAccountId"

lemma kept_subseq: "subseq (map snd (filter P (enumerate n xs))) xs"
proof -
  have "subseq (map snd (filter P (enumerate n xs))) (map snd (enumerate n xs))" by (intro subseq_map subseq_filter_left)
  then show ?thesis by simp
qed

lemma subseq_keeps: "subseq ys xs \<Longrightarrow> set ys \<subseteq> set xs \<and> (distinct xs \<longrightarrow> distinct ys)"
  by (induction rule: list_emb.induct) auto

lemma distinct_map_subseq: "subseq ys xs \<Longrightarrow> distinct (map f xs) \<Longrightarrow> distinct (map f ys)"
  using subseq_keeps [OF subseq_map, of ys xs f] by blast

lemma find_index_Some:
  "js_find_index P xs = Some i \<Longrightarrow> i < length xs \<and> P (xs ! i) \<and> (\<forall>j < i. \<not> P (xs ! j))"
  by (induction xs arbitrary: i) (auto split: if_splits simp: less_Suc_eq_0_disj)

lemma find_index_None: "js_find_index P xs = None \<longleftrightarrow> (\<forall>x \<in> set xs. \<not> P x)"
  by (induction xs) auto

subsection \<open>The cap\<close>

definition account_indexes :: "nat \<Rightarrow> pairing_request list \<Rightarrow> string \<Rightarrow> nat list" where
  "account_indexes n reqs a = map fst (filter (\<lambda>p. account_of (snd p) = a) (enumerate n reqs))"

lemma indexes_get:
  "jm_get (foldl push_index m (enumerate n reqs)) a =
     (if account_indexes n reqs a = [] then jm_get m a else Some (nullish (jm_get m a) [] @ account_indexes n reqs a))"
  by (induction reqs arbitrary: m n) (auto simp: account_indexes_def push_index_def Let_def)

lemma indexes_wf: "jm_wf m \<Longrightarrow> jm_wf (foldl push_index m (enumerate n reqs))"
  by (induction reqs arbitrary: m n) (auto simp: push_index_def Let_def)

lemma account_indexes_distinct: "distinct (account_indexes n reqs a)"
  unfolding account_indexes_def by (intro distinct_map_filter) simp

lemma account_indexes_mem: "i \<in> set (account_indexes 0 reqs a) \<longleftrightarrow> i < length reqs \<and> account_of (reqs ! i) = a"
  by (force simp: account_indexes_def in_set_enumerate_eq image_iff)

definition dropped_indexes :: "pairing_env \<Rightarrow> pairing_request list \<Rightarrow> nat \<Rightarrow> nat list" where
  "dropped_indexes env reqs m = concat (map (excess_indexes env reqs m) (jm_values (indexes_by_account reqs)))"

lemma excess_subset: "set (excess_indexes env reqs m is) \<subseteq> set is"
  by (auto simp: excess_indexes_def dest: in_set_takeD)

lemma excess_length: "distinct is \<Longrightarrow> card (set (excess_indexes env reqs m is)) = length is - m"
  by (auto simp: excess_indexes_def distinct_card)

lemma group_indexes:
  "is \<in> set (jm_values (indexes_by_account reqs)) \<longleftrightarrow>
     (\<exists>a. is = account_indexes 0 reqs a \<and> account_indexes 0 reqs a \<noteq> [])"
proof -
  have w: "jm_wf (indexes_by_account reqs)" unfolding indexes_by_account_def by (rule indexes_wf) simp
  have "is \<in> set (jm_values (indexes_by_account reqs)) \<longleftrightarrow> (\<exists>a. jm_get (indexes_by_account reqs) a = Some is)"
    using jm_in_get [OF w] by (force simp: jm_values_def)
  also have "\<dots> \<longleftrightarrow> (\<exists>a. is = account_indexes 0 reqs a \<and> account_indexes 0 reqs a \<noteq> [])"
    using indexes_get [of "[]" 0 reqs] by (auto simp: indexes_by_account_def)
  finally show ?thesis .
qed

lemma dropped_of_account:
  assumes "i \<in> set (account_indexes 0 reqs a)"
  shows "i \<in> set (dropped_indexes env reqs m) \<longleftrightarrow> i \<in> set (excess_indexes env reqs m (account_indexes 0 reqs a))"
proof
  assume "i \<in> set (dropped_indexes env reqs m)"
  then obtain b where "i \<in> set (excess_indexes env reqs m (account_indexes 0 reqs b))"
    by (auto simp: dropped_indexes_def group_indexes)
  moreover from this have "b = a" using excess_subset assms by (fastforce simp: account_indexes_mem)
  ultimately show "i \<in> set (excess_indexes env reqs m (account_indexes 0 reqs a))" by simp
next
  assume "i \<in> set (excess_indexes env reqs m (account_indexes 0 reqs a))"
  moreover have "account_indexes 0 reqs a \<in> set (jm_values (indexes_by_account reqs))"
    using assms unfolding group_indexes by auto
  ultimately show "i \<in> set (dropped_indexes env reqs m)" unfolding dropped_indexes_def by auto
qed

abbreviation pending_of :: "string \<Rightarrow> pairing_request list \<Rightarrow> nat" where
  "pending_of a reqs \<equiv> length (filter (\<lambda>r. account_of r = a) reqs)"

lemma pending_indexes: "pending_of a reqs = length (account_indexes 0 reqs a)"
proof -
  have "filter (\<lambda>r. account_of r = a) reqs = map snd (filter (\<lambda>p. account_of (snd p) = a) (enumerate 0 reqs))"
    using filter_map [of "\<lambda>r. account_of r = a" snd "enumerate 0 reqs"] by (simp add: comp_def)
  then show ?thesis by (simp add: account_indexes_def)
qed

lemma kept_of_account:
  "pending_of a (map snd (filter (\<lambda>p. fst p \<notin> set (dropped_indexes env reqs m)) (enumerate 0 reqs))) =
     min m (length (account_indexes 0 reqs a))"
proof -
  let ?D = "set (dropped_indexes env reqs m)" and ?is = "account_indexes 0 reqs a"
  let ?E = "set (excess_indexes env reqs m ?is)"
  have "pending_of a (map snd (filter (\<lambda>p. fst p \<notin> ?D) (enumerate 0 reqs))) =
      length (filter (\<lambda>p. fst p \<notin> ?D) (filter (\<lambda>p. account_of (snd p) = a) (enumerate 0 reqs)))"
    by (simp add: filter_map comp_def conj_commute)
  also have "\<dots> = length (filter (\<lambda>i. i \<notin> ?D) ?is)" by (simp add: account_indexes_def filter_map comp_def)
  also have "\<dots> = length (filter (\<lambda>i. i \<notin> ?E) ?is)"
    using dropped_of_account [of _ reqs a env m] by (intro arg_cong [of _ _ length] filter_cong) auto
  also have "\<dots> = card (set ?is - ?E)"
  proof -
    have "distinct (filter (\<lambda>i. i \<notin> ?E) ?is)" using account_indexes_distinct by simp
    from distinct_card [OF this] show ?thesis by (simp add: set_diff_eq)
  qed
  also have "\<dots> = length ?is - (length ?is - m)"
    using excess_subset [of env reqs m ?is] excess_length [OF account_indexes_distinct] distinct_card [OF account_indexes_distinct]
    by (simp add: card_Diff_subset)
  finally show ?thesis by simp
qed

lemma prune_excess:
  assumes "pruneExcessRequestsByAccount env reqs m = (kept, removed)" "0 < m"
  shows "subseq kept reqs" "pending_of a kept = min m (pending_of a reqs)" "\<not> removed \<Longrightarrow> kept = reqs"
proof -
  have some: "pending_of a reqs \<le> length reqs" by (rule length_filter_le)
  consider (few) "length reqs \<le> m" "kept = reqs"
    | (none) "dropped_indexes env reqs m = []" "kept = reqs"
    | (many) "kept = map snd (filter (\<lambda>p. fst p \<notin> set (dropped_indexes env reqs m)) (enumerate 0 reqs))" "removed"
    using assms unfolding pruneExcessRequestsByAccount_def dropped_indexes_def [symmetric] Let_def
    by (auto split: if_splits)
  note cases = this
  show "subseq kept reqs" using cases by cases (auto intro: kept_subseq)
  show "\<not> removed \<Longrightarrow> kept = reqs" using cases by cases auto
  show "pending_of a kept = min m (pending_of a reqs)"
    using cases
  proof cases
    case few
    have "pending_of a reqs \<le> m" using some few(1) by linarith
    with few show ?thesis by (simp add: min_absorb2)
  next
    case none
    then have "map snd (filter (\<lambda>p. fst p \<notin> set (dropped_indexes env reqs m)) (enumerate 0 reqs)) = reqs" by simp
    with kept_of_account [of a env reqs m] none show ?thesis by (simp add: pending_indexes)
  next
    case many
    with kept_of_account [of a env reqs m] show ?thesis by (simp add: pending_indexes)
  qed
qed

subsection \<open>Codes\<close>

lemma alphabet_char:
  assumes "c \<in> set PAIRING_CODE_ALPHABET"
  shows "js_upper_char c = [c]" "\<not> js_ws c"
proof -
  have "list_all (\<lambda>c. js_upper_char c = [c] \<and> \<not> js_ws c) PAIRING_CODE_ALPHABET" by code_simp
  with assms show "js_upper_char c = [c]" "\<not> js_ws c" by (auto simp: list_all_iff)
qed

lemma random_code:
  "set (randomCode f) \<subseteq> set PAIRING_CODE_ALPHABET" "length (randomCode f) = PAIRING_CODE_LENGTH"
proof -
  have "0 < length PAIRING_CODE_ALPHABET" by (simp add: PAIRING_CODE_ALPHABET_def)
  then show "set (randomCode f) \<subseteq> set PAIRING_CODE_ALPHABET" by (auto simp: randomCode_def)
  show "length (randomCode f) = PAIRING_CODE_LENGTH" by (simp add: randomCode_def)
qed

lemma js_upper_alphabet: "set s \<subseteq> set PAIRING_CODE_ALPHABET \<Longrightarrow> js_upper s = s"
  by (induction s) (simp_all add: js_upper_def alphabet_char)

lemma unique_code:
  assumes "generateUniqueCode draws existing = Inr code"
  shows "code \<notin> set existing" "js_upper code = code" "js_trim code = code" "code \<noteq> []"
proof -
  from assms obtain f where f: "code = randomCode f" and "code \<notin> set existing"
    by (auto simp: generateUniqueCode_def find_Some_iff split: option.splits)
  then show "code \<notin> set existing" by simp
  note r = random_code [of f, folded f]
  show "js_upper code = code" using r(1) by (rule js_upper_alphabet)
  show "js_trim code = code" using r(1) alphabet_char(2) by (intro js_trim_no_ws) blast
  show "code \<noteq> []" using r(2) by (auto simp: PAIRING_CODE_LENGTH_def)
qed

subsection \<open>The pending requests of a channel\<close>

definition clean_code :: "pairing_request \<Rightarrow> bool" where
  "clean_code r \<longleftrightarrow> rq_code r \<noteq> [] \<and> js_trim (rq_code r) = rq_code r"

definition pending_ok :: "pairing_request list \<Rightarrow> bool" where
  "pending_ok reqs \<longleftrightarrow> list_all clean_code reqs \<and> distinct (map (js_upper \<circ> rq_code) reqs) \<and>
     distinct (map (\<lambda>r. (rq_id r, account_of r)) reqs) \<and>
     list_all (\<lambda>r. pending_of (account_of r) reqs \<le> PAIRING_PENDING_MAX) reqs"

lemma pending_bound:
  "list_all (\<lambda>r. pending_of (account_of r) reqs \<le> m) reqs \<longleftrightarrow> (\<forall>a. pending_of a reqs \<le> m)"
proof
  assume l: "list_all (\<lambda>r. pending_of (account_of r) reqs \<le> m) reqs"
  show "\<forall>a. pending_of a reqs \<le> m"
  proof
    fix a
    show "pending_of a reqs \<le> m"
    proof (cases "filter (\<lambda>r. account_of r = a) reqs")
      case (Cons r rs)
      then have "r \<in> set reqs \<and> account_of r = a" by (metis (mono_tags) list.set_intros(1) mem_Collect_eq set_filter)
      with l show ?thesis by (auto simp: list_all_iff)
    qed simp
  qed
qed (simp add: list_all_iff)

lemma pending_ok_iff:
  "pending_ok reqs \<longleftrightarrow> (\<forall>r \<in> set reqs. clean_code r) \<and> distinct (map (js_upper \<circ> rq_code) reqs) \<and>
     distinct (map (\<lambda>r. (rq_id r, account_of r)) reqs) \<and> (\<forall>a. pending_of a reqs \<le> PAIRING_PENDING_MAX)"
  unfolding pending_ok_def pending_bound list_all_iff ..

lemma pending_ok_Nil [simp]: "pending_ok []" by (simp add: pending_ok_def)

lemma pending_ok_subseq:
  assumes "subseq ys xs" "pending_ok xs"
  shows "pending_ok ys"
proof -
  have "pending_of a ys \<le> pending_of a xs" for a
    using list_emb_length [OF subseq_filter [OF assms(1)]] .
  then have "\<forall>a. pending_of a ys \<le> PAIRING_PENDING_MAX"
    using assms(2) order_trans unfolding pending_ok_iff by blast
  moreover have "\<forall>r \<in> set ys. clean_code r"
    using assms(2) subseq_keeps [OF assms(1)] unfolding pending_ok_iff by blast
  ultimately show ?thesis
    using assms(2) distinct_map_subseq [OF assms(1), of "js_upper \<circ> rq_code"]
      distinct_map_subseq [OF assms(1), of "\<lambda>r. (rq_id r, account_of r)"]
    by (simp add: pending_ok_iff)
qed

lemma existing_codes_clean:
  "list_all clean_code reqs \<Longrightarrow> existing_codes reqs = map (js_upper \<circ> rq_code) reqs"
  by (induction reqs) (auto simp: existing_codes_def clean_code_def)

lemma expired_subseq: "pruneExpiredRequests env reqs now = (kept, removed) \<Longrightarrow> subseq kept reqs"
  by (auto simp: pruneExpiredRequests_def)

lemma account_normal:
  assumes "a = str_or (normalizePairingAccountId v) DEFAULT_ACCOUNT_ID"
  shows "a \<noteq> []" "str_or (normalizePairingAccountId (Some a)) DEFAULT_ACCOUNT_ID = a"
proof -
  show "a \<noteq> []" by (simp add: assms DEFAULT_ACCOUNT_ID_def)
  have "normalizePairingAccountId (Some a) = a"
  proof (cases "normalizePairingAccountId v = []")
    case True
    then show ?thesis by (simp add: assms str_or_def normalizePairingAccountId_def DEFAULT_ACCOUNT_ID_def) code_simp
  next
    case False
    then show ?thesis
      by (cases v) (auto simp: assms str_or_def normalizePairingAccountId_def js_trim_lower)
  qed
  with \<open>a \<noteq> []\<close> show "str_or (normalizePairingAccountId (Some a)) DEFAULT_ACCOUNT_ID = a" by (simp add: str_or_def)
qed

lemma request_meta_account:
  assumes "a = str_or (normalizePairingAccountId v) DEFAULT_ACCOUNT_ID" "rq_meta r = Some (request_meta meta a)"
  shows "account_of r = a"
  using account_normal [OF assms(1)] assms(2)
  by (simp add: resolvePairingRequestAccountId_def meta_account_def request_meta_def)

lemma map_update_same: "i < length xs \<Longrightarrow> f y = f (xs ! i) \<Longrightarrow> map f (xs[i := y]) = map f xs"
  by (simp add: map_update list_update_same_conv)

lemma filter_update_same:
  assumes "i < length xs" "f y = f (xs ! i)"
  shows "length (filter (\<lambda>x. f x = a) (xs[i := y])) = length (filter (\<lambda>x. f x = a) xs)"
proof -
  have "length (filter (\<lambda>x. f x = a) zs) = length (filter (\<lambda>x. x = a) (map f zs))" for zs
    by (simp add: filter_map comp_def)
  with map_update_same [of i xs f y] assms show ?thesis by metis
qed

subsection \<open>What the operations do to the files\<close>

lemma requests_after [simp]:
  "readPairingRequests path' (write_requests path reqs s) = (if path' = path then reqs else readPairingRequests path' s)"
  "readPairingRequests path' (ensure_pairing_file path s) = readPairingRequests path' s"
  "ps_allow (write_requests path reqs s) = ps_allow s" "ps_allow (ensure_pairing_file path s) = ps_allow s"
  "ps_cache (write_requests path reqs s) = ps_cache s" "ps_cache (ensure_pairing_file path s) = ps_cache s"
  by (auto simp: readPairingRequests_def write_requests_def ensure_pairing_file_def split: option.split)

lemma requests_allow [simp]:
  "readPairingRequests path' (write_allow_file env path es s) = readPairingRequests path' s"
  "readPairingRequests path' (ensure_allow_file env path s) = readPairingRequests path' s"
  "readPairingRequests path' (writeAllowFromState env path es s) = readPairingRequests path' s"
  "readPairingRequests path' (setAllowFromReadCache path c s) = readPairingRequests path' s"
  by (auto simp: readPairingRequests_def write_allow_file_def ensure_allow_file_def writeAllowFromState_def
      setAllowFromReadCache_def Let_def split: option.split)

lemma update_entry_requests:
  "updateAllowFromStoreEntry env channel entry acc f s = (r, s') \<Longrightarrow> readPairingRequests path s' = readPairingRequests path s"
  by (auto simp: updateAllowFromStoreEntry_def Let_def split: sum.splits option.splits if_splits)

text \<open>A fresh request.\<close>

lemma pending_ok_append:
  assumes "pending_ok reqs" "\<forall>x \<in> set reqs. \<not> (rq_id x = rq_id r \<and> account_of x = account_of r)"
    "pending_of (account_of r) reqs < PAIRING_PENDING_MAX" "clean_code r" "js_upper (rq_code r) \<notin> set (existing_codes reqs)"
  shows "pending_ok (reqs @ [r])"
proof -
  have b: "\<forall>a. pending_of a (reqs @ [r]) \<le> PAIRING_PENDING_MAX"
    using assms(1,3) by (auto simp: pending_ok_iff)
  have "existing_codes reqs = map (js_upper \<circ> rq_code) reqs"
    using assms(1) by (intro existing_codes_clean) (simp add: pending_ok_def)
  then have "distinct (map (js_upper \<circ> rq_code) (reqs @ [r]))"
    using assms(1,5) by (auto simp: pending_ok_iff)
  moreover have "distinct (map (\<lambda>r. (rq_id r, account_of r)) (reqs @ [r]))"
    using assms(1,2) by (auto simp: pending_ok_iff)
  ultimately show ?thesis using assms(1,4) b by (auto simp: pending_ok_iff)
qed

text \<open>A refreshed request keeps its id, account and code.\<close>

lemma pending_ok_update:
  assumes "pending_ok reqs" "i < length reqs" "rq_id r = rq_id (reqs ! i)" "account_of r = account_of (reqs ! i)"
    "rq_code r = rq_code (reqs ! i)"
  shows "pending_ok (reqs[i := r])"
proof -
  have "map (js_upper \<circ> rq_code) (reqs[i := r]) = map (js_upper \<circ> rq_code) reqs"
    "map (\<lambda>r. (rq_id r, account_of r)) (reqs[i := r]) = map (\<lambda>r. (rq_id r, account_of r)) reqs"
    using assms by (simp_all add: map_update_same)
  moreover have "\<forall>x \<in> set (reqs[i := r]). clean_code x"
  proof
    fix x assume "x \<in> set (reqs[i := r])"
    then have "x = r \<or> x \<in> set reqs" using set_update_subset_insert [of reqs i r] by blast
    moreover have "clean_code (reqs ! i)" using assms(1) nth_mem [OF assms(2)] by (auto simp: pending_ok_iff)
    ultimately show "clean_code x" using assms(1,5) by (auto simp: pending_ok_iff clean_code_def)
  qed
  moreover have "pending_of a (reqs[i := r]) = pending_of a reqs" for a
    using filter_update_same [of i reqs account_of r a] assms by simp
  ultimately show ?thesis using assms(1) by (simp add: pending_ok_iff)
qed

lemma prune_noop:
  assumes "\<forall>a. pending_of a xs \<le> m"
  shows "pruneExcessRequestsByAccount env xs m = (xs, False)"
proof -
  have "excess_indexes env xs m is = []" if "is \<in> set (jm_values (indexes_by_account xs))" for "is"
    using that assms by (auto simp: group_indexes excess_indexes_def simp flip: pending_indexes)
  then have "concat (map (excess_indexes env xs m) (jm_values (indexes_by_account xs))) = []" by simp
  then show ?thesis unfolding pruneExcessRequestsByAccount_def by simp
qed

lemma matches_account: "a \<noteq> [] \<Longrightarrow> requestMatchesAccountId r a \<longleftrightarrow> account_of r = a"
  by (simp add: requestMatchesAccountId_def)

lemma upsert_cases:
  assumes u: "upsertChannelPairingRequest env now draws channel sender acc meta s = (r, s')"
    and p: "resolvePairingPath channel = Inr path" and ok: "pending_ok (readPairingRequests path s)"
  defines "a \<equiv> str_or (normalizePairingAccountId (Some acc)) DEFAULT_ACCOUNT_ID"
    and "reqs \<equiv> fst (pruneExpiredRequests env (readPairingRequests path s) now)"
    and "s0 \<equiv> ensure_pairing_file path s"
  obtains
    (refresh) i q where "r = Inr (rq_code q, False)" "i < length reqs" "s' = write_requests path (reqs[i := q]) s0"
      "rq_id q = normalizePairingId sender" "account_of q = a" "rq_id (reqs ! i) = rq_id q"
      "account_of (reqs ! i) = a" "rq_code q = rq_code (reqs ! i)" "rq_createdAt q = rq_createdAt (reqs ! i)"
  | (full) "r = Inr ([], False)" "pending_of a reqs = PAIRING_PENDING_MAX" "s' = s0 \<or> s' = write_requests path reqs s0"
  | (exhausted) "r = Inl PairingCodesExhausted" "s' = s0"
  | (fresh) q where "r = Inr (rq_code q, True)" "s' = write_requests path (reqs @ [q]) s0"
      "pending_of a reqs < PAIRING_PENDING_MAX" "\<forall>x \<in> set reqs. \<not> (rq_id x = rq_id q \<and> account_of x = a)"
      "rq_id q = normalizePairingId sender" "account_of q = a" "meta_account q = Some a" "clean_code q"
      "js_upper (rq_code q) \<notin> set (existing_codes reqs)" "rq_createdAt q = pe_toISOString env now"
proof -
  define meta' where "meta' = request_meta meta a"
  note an = account_normal [OF a_def [THEN meta_eq_to_obj_eq]]
  obtain removed where e: "pruneExpiredRequests env (readPairingRequests path s) now = (reqs, removed)"
    unfolding reqs_def by (cases "pruneExpiredRequests env (readPairingRequests path s) now") simp
  have okr: "pending_ok reqs" using pending_ok_subseq [OF expired_subseq [OF e] ok] .
  have noop: "pruneExcessRequestsByAccount env xs PAIRING_PENDING_MAX = (xs, False)" if "pending_ok xs" for xs
    using that by (intro prune_noop) (simp add: pending_ok_iff)
  show ?thesis
  proof (cases "js_find_index (\<lambda>r. rq_id r = normalizePairingId sender \<and> requestMatchesAccountId r a) reqs")
    case (Some i)
    note f = find_index_Some [OF Some]
    let ?q = "\<lparr>rq_id = normalizePairingId sender, rq_code = rq_code (reqs ! i), rq_createdAt = rq_createdAt (reqs ! i),
        rq_lastSeenAt = pe_toISOString env now, rq_meta = Some meta'\<rparr>"
    have acc: "account_of (reqs ! i) = a" "rq_id (reqs ! i) = normalizePairingId sender"
      using f an(1) by (auto simp: matches_account)
    have aq: "account_of ?q = a"
      by (rule request_meta_account [OF a_def [THEN meta_eq_to_obj_eq]]) (simp add: meta'_def)
    have "clean_code (reqs ! i)" using okr f by (auto simp: pending_ok_iff)
    then have c: "nullish (normalizeOptionalString (JString (rq_code (reqs ! i)))) [] = rq_code (reqs ! i)" "rq_code (reqs ! i) \<noteq> []"
      by (auto simp: clean_code_def)
    have "pending_ok (reqs[i := ?q])" using okr f acc aq by (intro pending_ok_update) auto
    from noop [OF this] have "refresh_request env now draws (normalizePairingId sender) meta' reqs i =
        Inr (rq_code (reqs ! i), reqs[i := ?q])"
      using c by (simp add: refresh_request_def Let_def)
    then have "r = Inr (rq_code ?q, False) \<and> s' = write_requests path (reqs[i := ?q]) s0"
      using u p e Some by (simp add: upsertChannelPairingRequest_def Let_def s0_def meta'_def a_def)
    with f acc aq show ?thesis by (intro refresh [of ?q i]) auto
  next
    case None
    note n = None
    then have none: "\<forall>x \<in> set reqs. \<not> (rq_id x = normalizePairingId sender \<and> account_of x = a)"
      using an(1) by (auto simp: find_index_None matches_account)
    have cnt: "length (filter (\<lambda>r. requestMatchesAccountId r a) reqs) = pending_of a reqs"
      using an(1) by (simp add: matches_account)
    show ?thesis
    proof (cases "PAIRING_PENDING_MAX \<le> pending_of a reqs")
      case True
      moreover have "pending_of a reqs \<le> PAIRING_PENDING_MAX" using okr by (simp add: pending_ok_iff)
      moreover have "r = Inr ([], False) \<and> (s' = s0 \<or> s' = write_requests path reqs s0)"
        using u p e n noop [OF okr] True cnt
        by (auto simp: upsertChannelPairingRequest_def Let_def s0_def a_def split: if_splits)
      ultimately show ?thesis by (intro full) auto
    next
      case False
      show ?thesis
      proof (cases "generateUniqueCode draws (existing_codes reqs)")
        case (Inl err)
        then have "err = PairingCodesExhausted" by (auto simp: generateUniqueCode_def split: option.splits)
        then have "r = Inl PairingCodesExhausted \<and> s' = s0"
          using u p e n noop [OF okr] False cnt Inl
          by (simp add: upsertChannelPairingRequest_def Let_def s0_def a_def)
        then show ?thesis by (intro exhausted) auto
      next
        case (Inr code)
        note c = unique_code [OF Inr]
        let ?q = "\<lparr>rq_id = normalizePairingId sender, rq_code = code, rq_createdAt = pe_toISOString env now,
          rq_lastSeenAt = pe_toISOString env now, rq_meta = Some meta'\<rparr>"
        have aq: "account_of ?q = a"
          by (rule request_meta_account [OF a_def [THEN meta_eq_to_obj_eq]]) (simp add: meta'_def)
        have "r = Inr (rq_code ?q, True) \<and> s' = write_requests path (reqs @ [?q]) s0"
          using u p e n noop [OF okr] False cnt Inr
          by (simp add: upsertChannelPairingRequest_def Let_def s0_def a_def meta'_def)
        moreover have "meta_account ?q = Some a" by (simp add: meta_account_def meta'_def request_meta_def)
        ultimately show ?thesis using False none aq c by (intro fresh [of ?q]) (auto simp: clean_code_def)
      qed
    qed
  qed
qed

lemma upsert_ok:
  assumes "upsertChannelPairingRequest env now draws channel sender acc meta s = (r, s')"
    and "resolvePairingPath channel = Inr path" and "pending_ok (readPairingRequests path s)"
  shows "pending_ok (readPairingRequests path s')"
proof -
  define reqs where "reqs = fst (pruneExpiredRequests env (readPairingRequests path s) now)"
  have "subseq reqs (readPairingRequests path s)" by (simp add: reqs_def pruneExpiredRequests_def)
  then have ok: "pending_ok reqs" using assms(3) by (rule pending_ok_subseq)
  from assms show ?thesis
  proof (cases rule: upsert_cases)
    case (refresh i q)
    with ok show ?thesis unfolding reqs_def by (simp add: pending_ok_update)
  next
    case (fresh q)
    with ok show ?thesis unfolding reqs_def by (auto intro!: pending_ok_append)
  qed (use ok assms(3) in \<open>auto simp: reqs_def\<close>)
qed

lemma list_ok:
  assumes "listChannelPairingRequests env now channel acc s = (r, s')"
    and "resolvePairingPath channel = Inr path" and "pending_ok (readPairingRequests path s)"
  shows "pending_ok (readPairingRequests path s')"
proof -
  obtain reqs rm where e: "pruneExpiredRequests env (readPairingRequests path s) now = (reqs, rm)"
    by (cases "pruneExpiredRequests env (readPairingRequests path s) now")
  obtain kept rm' where c: "pruneExcessRequestsByAccount env reqs PAIRING_PENDING_MAX = (kept, rm')"
    by (cases "pruneExcessRequestsByAccount env reqs PAIRING_PENDING_MAX")
  have "pending_ok reqs" by (rule pending_ok_subseq [OF expired_subseq [OF e] assms(3)])
  then have "pending_ok kept"
    by (rule pending_ok_subseq [rotated]) (rule prune_excess(1) [OF c], simp add: PAIRING_PENDING_MAX_def)
  with assms e c show ?thesis by (auto simp: listChannelPairingRequests_def Let_def split: if_splits)
qed

lemma approve_cases:
  assumes "approveChannelPairingCode env now channel codeText accountId s = (r, s')"
    and "resolvePairingPath channel = Inr path"
  defines "reqs \<equiv> fst (pruneExpiredRequests env (readPairingRequests path s) now)"
    and "code \<equiv> js_upper (nullish (normalizeNullableString (JString codeText)) [])"
    and "s0 \<equiv> ensure_pairing_file path s"
  obtains
    (blank) "r = Inr None" "s' = s" "code = []"
  | (unknown) "r = Inr None" "s' = s0 \<or> s' = write_requests path reqs s0"
      "\<forall>x \<in> set reqs. \<not> (js_upper (rq_code x) = code \<and> requestMatchesAccountId x (normalizePairingAccountId accountId))"
  | (found) i x where "i < length reqs" "js_upper (rq_code (reqs ! i)) = code"
      "requestMatchesAccountId (reqs ! i) (normalizePairingAccountId accountId)"
      "addChannelAllowFromStoreEntry env channel (rq_id (reqs ! i))
         (nullish_opt (normalizeOptionalString (js_opt accountId)) (normalizeOptionalString (js_opt (meta_account (reqs ! i)))))
         (write_requests path (take i reqs @ drop (Suc i) reqs) s0) = (x, s')"
      "r = (case x of Inl e \<Rightarrow> Inl e | Inr _ \<Rightarrow> Inr (Some (reqs ! i)))"
proof (cases "code = []")
  case True
  with assms(1) show ?thesis by (intro blank) (auto simp: approveChannelPairingCode_def code_def Let_def)
next
  case False
  obtain rm where e: "pruneExpiredRequests env (readPairingRequests path s) now = (reqs, rm)"
    unfolding reqs_def by (cases "pruneExpiredRequests env (readPairingRequests path s) now") simp
  let ?P = "\<lambda>x. js_upper (rq_code x) = code \<and> requestMatchesAccountId x (normalizePairingAccountId accountId)"
  note d = approveChannelPairingCode_def Let_def
  show ?thesis
  proof (cases "js_find_index ?P reqs")
    case None
    then have "r = Inr None \<and> (s' = s0 \<or> s' = write_requests path reqs s0)"
      using assms(1,2) e False by (auto simp: d s0_def code_def split: if_splits)
    then show ?thesis using None by (intro unknown) (auto simp: find_index_None)
  next
    case (Some i)
    note f = find_index_Some [OF Some]
    obtain x s'' where a: "addChannelAllowFromStoreEntry env channel (rq_id (reqs ! i))
         (nullish_opt (normalizeOptionalString (js_opt accountId)) (normalizeOptionalString (js_opt (meta_account (reqs ! i)))))
         (write_requests path (take i reqs @ drop (Suc i) reqs) s0) = (x, s'')" by fastforce
    have "r = (case x of Inl e \<Rightarrow> Inl e | Inr _ \<Rightarrow> Inr (Some (reqs ! i))) \<and> s' = s''"
      using assms(1,2) e False Some a by (auto simp: d s0_def code_def split: sum.splits)
    with f a show ?thesis by (intro found [of i x]) auto
  qed
qed

lemma subseq_drop_one: "subseq (take i xs @ drop (Suc i) xs) xs"
proof (induction xs arbitrary: i)
  case (Cons x xs)
  then show ?case by (cases i) auto
qed simp

lemma approve_ok:
  assumes "approveChannelPairingCode env now channel codeText accountId s = (r, s')"
    and "resolvePairingPath channel = Inr path" and "pending_ok (readPairingRequests path s)"
  shows "pending_ok (readPairingRequests path s')"
proof -
  define reqs where "reqs = fst (pruneExpiredRequests env (readPairingRequests path s) now)"
  have "subseq reqs (readPairingRequests path s)" by (simp add: reqs_def pruneExpiredRequests_def)
  then have ok: "pending_ok reqs" using assms(3) by (rule pending_ok_subseq)
  from assms(1,2) show ?thesis
  proof (cases rule: approve_cases)
    case (found i x)
    then have "readPairingRequests path s' = take i reqs @ drop (Suc i) reqs"
      unfolding reqs_def addChannelAllowFromStoreEntry_def by (auto dest!: update_entry_requests [where path = path])
    with pending_ok_subseq [OF subseq_drop_one ok] show ?thesis by simp
  qed (use ok assms(3) in \<open>auto simp: reqs_def\<close>)
qed

text \<open>Other channels' files.\<close>

lemma other_requests:
  "upsertChannelPairingRequest env now draws channel sender acc meta s = (r1, s1) \<Longrightarrow>
     resolvePairingPath channel \<noteq> Inr path \<Longrightarrow> readPairingRequests path s1 = readPairingRequests path s"
  "listChannelPairingRequests env now channel acc' s = (r2, s2) \<Longrightarrow>
     resolvePairingPath channel \<noteq> Inr path \<Longrightarrow> readPairingRequests path s2 = readPairingRequests path s"
  "approveChannelPairingCode env now channel codeText acc' s = (r3, s3) \<Longrightarrow>
     resolvePairingPath channel \<noteq> Inr path \<Longrightarrow> readPairingRequests path s3 = readPairingRequests path s"
  subgoal
    by (auto simp: upsertChannelPairingRequest_def Let_def split: sum.splits prod.splits option.splits if_splits)
  subgoal
    by (auto simp: listChannelPairingRequests_def Let_def split: sum.splits prod.splits if_splits)
  subgoal
    by (auto simp: approveChannelPairingCode_def addChannelAllowFromStoreEntry_def Let_def
        split: sum.splits prod.splits option.splits if_splits dest!: update_entry_requests [where path = path])
  done

subsection \<open>Allow-from files\<close>

definition raw_entries :: "string \<Rightarrow> pairing_state \<Rightarrow> string list option" where
  "raw_entries path s = (case jm_get (ps_allow s) path of None \<Rightarrow> None | Some f \<Rightarrow> af_entries f)"

lemma raw_simps [simp]:
  "raw_entries path (write_requests p reqs s) = raw_entries path s"
  "raw_entries path (ensure_pairing_file p s) = raw_entries path s"
  by (simp_all add: raw_entries_def)

lemma raw_ensure: "nullish (raw_entries path (ensure_allow_file env p s)) [] = nullish (raw_entries path s) []"
  by (auto simp: raw_entries_def ensure_allow_file_def write_allow_file_def split: option.split)

lemma raw_write:
  "raw_entries path (writeAllowFromState env p es s) = (if path = p then Some es else raw_entries path s)"
  by (simp add: raw_entries_def writeAllowFromState_def setAllowFromReadCache_def write_allow_file_def Let_def)

lemma normalize_list_nullish: "normalizeAllowFromList env channel xs = normalizeAllowFromList env channel (Some (nullish xs []))"
  by (simp add: normalizeAllowFromList_def)

lemma add_entry_result:
  assumes "addChannelAllowFromStoreEntry env channel entry acc s = (x, s')" and "resolveAllowFromPath channel acc = Inr path"
  defines "n \<equiv> normalizeAllowFromInput env channel entry"
    and "current \<equiv> normalizeAllowFromList env channel (raw_entries path s)"
  shows "nullish (raw_entries path s') [] =
      (if n = [] \<or> n \<in> set current then nullish (raw_entries path s) [] else current @ [n])"
    and "\<And>p. p \<noteq> path \<Longrightarrow> nullish (raw_entries p s') [] = nullish (raw_entries p s) []"
    and "\<exists>v. x = Inr v"
    and "n \<noteq> [] \<Longrightarrow> n \<notin> set current \<Longrightarrow> s' = writeAllowFromState env path (current @ [n]) (ensure_allow_file env path s)"
    and "n \<in> set current \<Longrightarrow> s' = ensure_allow_file env path s"
proof -
  let ?s = "ensure_allow_file env path s"
  have c: "normalizeAllowFromList env channel (case jm_get (ps_allow ?s) path of None \<Rightarrow> None | Some f \<Rightarrow> af_entries f) = current"
    unfolding current_def raw_entries_def [symmetric] using raw_ensure [of path env path s] normalize_list_nullish by metis
  consider (blank) "n = []" "s' = ?s" | (old) "n \<in> set current" "s' = ?s"
    | (added) "n \<noteq> []" "n \<notin> set current" "s' = writeAllowFromState env path (current @ [n]) ?s"
    using assms(1,2) c
    by (cases "n = []"; cases "n \<in> set current")
      (auto simp: addChannelAllowFromStoreEntry_def updateAllowFromStoreEntry_def add_entry_def Let_def n_def)
  note cases = this
  show "nullish (raw_entries path s') [] =
      (if n = [] \<or> n \<in> set current then nullish (raw_entries path s) [] else current @ [n])"
    using cases by cases (simp_all add: raw_ensure raw_write)
  show "\<And>p. p \<noteq> path \<Longrightarrow> nullish (raw_entries p s') [] = nullish (raw_entries p s) []"
    using cases by cases (simp_all add: raw_ensure raw_write)
  show "n \<noteq> [] \<Longrightarrow> n \<notin> set current \<Longrightarrow> s' = writeAllowFromState env path (current @ [n]) ?s"
    using cases by cases auto
  have "[] \<notin> set (dedupe_from seen xs)" for seen xs
    by (induction xs arbitrary: seen) (auto simp: Let_def)
  then have "[] \<notin> set current" by (simp add: current_def normalizeAllowFromList_def dedupePreserveOrder_def)
  then show "n \<in> set current \<Longrightarrow> s' = ?s" using cases by cases auto
  show "\<exists>v. x = Inr v"
    using assms(1,2) by (auto simp: addChannelAllowFromStoreEntry_def updateAllowFromStoreEntry_def Let_def split: if_splits option.splits)
qed

end
