(* ===== verification/Dm_Access.thy ===== *)
theory Dm_Access
  imports Pairing_Store
begin

text \<open>
  Who may talk to the agent: the merged allow lists (src/brain/src/channels/allow-from.ts), group access
  (plugin-sdk/group-access.ts, config/runtime-group-policy.ts), the gate of control commands
  (channels/command-gating.ts) and the decision for direct and group messages
  (security/dm-policy-shared.ts). \<open>isSenderAllowed\<close> is the channel's, an argument as in the code; the
  entries of the lists are strings.
\<close>

subsection \<open>Allow lists\<close>

definition mergeDmAllowFromSources :: "string list option \<Rightarrow> string list option \<Rightarrow> string option \<Rightarrow> string list" where
  "mergeDmAllowFromSources allowFrom storeAllowFrom dmPolicy =
     (let storeEntries = (if dmPolicy = Some ''allowlist'' then [] else nullish storeAllowFrom [])
      in normalizeStringEntries (nullish allowFrom [] @ storeEntries))"

definition resolveGroupAllowFromSources ::
  "string list option \<Rightarrow> string list option \<Rightarrow> bool option \<Rightarrow> string list" where
  "resolveGroupAllowFromSources allowFrom groupAllowFrom fallbackToAllowFrom =
     normalizeStringEntries
       (if nullish groupAllowFrom [] \<noteq> [] then the groupAllowFrom
        else if fallbackToAllowFrom = Some False then [] else nullish allowFrom [])"

record sender_allow =
  sa_entries :: "string list"
  sa_hasWildcard :: bool
  sa_hasEntries :: bool

definition isSenderIdAllowed :: "sender_allow \<Rightarrow> string option \<Rightarrow> bool \<Rightarrow> bool" where
  "isSenderIdAllowed allow senderId allowWhenEmpty =
     (if \<not> sa_hasEntries allow then allowWhenEmpty
      else if sa_hasWildcard allow then True
      else if \<not> str_truthy senderId then False
      else the senderId \<in> set (sa_entries allow))"

subsection \<open>Group access\<close>

datatype group_policy = Group_open | Group_disabled | Group_allowlist

datatype matched_reason = Matched_allowed | Matched_disabled | Missing_match_input | Empty_allowlist | Not_allowlisted

definition evaluateMatchedGroupAccessForPolicy ::
  "group_policy \<Rightarrow> bool \<Rightarrow> bool \<Rightarrow> bool \<Rightarrow> bool \<Rightarrow> bool \<times> matched_reason" where
  "evaluateMatchedGroupAccessForPolicy groupPolicy allowlistConfigured allowlistMatched requireMatchInput hasMatchInput =
     (if groupPolicy = Group_disabled then (False, Matched_disabled)
      else if groupPolicy = Group_allowlist \<and> requireMatchInput \<and> \<not> hasMatchInput then (False, Missing_match_input)
      else if groupPolicy = Group_allowlist \<and> \<not> allowlistConfigured then (False, Empty_allowlist)
      else if groupPolicy = Group_allowlist \<and> \<not> allowlistMatched then (False, Not_allowlisted)
      else (True, Matched_allowed))"

definition resolveSenderScopedGroupPolicy :: "group_policy \<Rightarrow> string list \<Rightarrow> group_policy" where
  "resolveSenderScopedGroupPolicy groupPolicy groupAllowFrom =
     (if groupPolicy = Group_disabled then Group_disabled
      else if groupAllowFrom \<noteq> [] then Group_allowlist else Group_open)"

datatype route_reason = Route_allowed | Route_policy_disabled | Route_empty_allowlist | Route_not_allowlisted | Route_disabled

definition evaluateGroupRouteAccessForPolicy ::
  "group_policy \<Rightarrow> bool \<Rightarrow> bool \<Rightarrow> bool option \<Rightarrow> bool \<times> route_reason" where
  "evaluateGroupRouteAccessForPolicy groupPolicy routeAllowlistConfigured routeMatched routeEnabled =
     (if groupPolicy = Group_disabled then (False, Route_policy_disabled)
      else if routeMatched \<and> routeEnabled = Some False then (False, Route_disabled)
      else if groupPolicy = Group_allowlist \<and> \<not> routeAllowlistConfigured then (False, Route_empty_allowlist)
      else if groupPolicy = Group_allowlist \<and> \<not> routeMatched then (False, Route_not_allowlisted)
      else (True, Route_allowed))"

datatype sender_reason = Sender_allowed | Sender_disabled | Sender_empty_allowlist | Sender_not_allowlisted

definition evaluateSenderGroupAccessForPolicy ::
  "group_policy \<Rightarrow> string list \<Rightarrow> string \<Rightarrow> (string \<Rightarrow> string list \<Rightarrow> bool) \<Rightarrow> bool \<times> sender_reason" where
  "evaluateSenderGroupAccessForPolicy groupPolicy groupAllowFrom senderId isSenderAllowed =
     (if groupPolicy = Group_disabled then (False, Sender_disabled)
      else if groupPolicy = Group_allowlist \<and> groupAllowFrom = [] then (False, Sender_empty_allowlist)
      else if groupPolicy = Group_allowlist \<and> \<not> isSenderAllowed senderId groupAllowFrom then (False, Sender_not_allowlisted)
      else (True, Sender_allowed))"

text \<open>The runtime policy of a provider: the policy and whether the fallback for a missing provider applied.\<close>

definition resolveRuntimeGroupPolicy ::
  "bool \<Rightarrow> group_policy option \<Rightarrow> group_policy option \<Rightarrow> group_policy option \<Rightarrow> group_policy option \<Rightarrow> group_policy \<times> bool"
  where
  "resolveRuntimeGroupPolicy present configured default_policy configuredFallback missingFallback =
     (if present then nullish configured (nullish default_policy (nullish configuredFallback Group_open))
      else nullish configured (nullish missingFallback Group_allowlist),
      \<not> present \<and> configured = None)"

definition resolveOpenProviderRuntimeGroupPolicy ::
  "bool \<Rightarrow> group_policy option \<Rightarrow> group_policy option \<Rightarrow> group_policy \<times> bool" where
  "resolveOpenProviderRuntimeGroupPolicy present configured default_policy =
     resolveRuntimeGroupPolicy present configured default_policy (Some Group_open) (Some Group_allowlist)"

definition resolveAllowlistProviderRuntimeGroupPolicy ::
  "bool \<Rightarrow> group_policy option \<Rightarrow> group_policy option \<Rightarrow> group_policy \<times> bool" where
  "resolveAllowlistProviderRuntimeGroupPolicy present configured default_policy =
     resolveRuntimeGroupPolicy present configured default_policy (Some Group_allowlist) (Some Group_allowlist)"

definition evaluateSenderGroupAccess ::
  "bool \<Rightarrow> group_policy option \<Rightarrow> group_policy option \<Rightarrow> string list \<Rightarrow> string \<Rightarrow> (string \<Rightarrow> string list \<Rightarrow> bool) \<Rightarrow>
     (bool \<times> sender_reason) \<times> group_policy \<times> bool" where
  "evaluateSenderGroupAccess present configured default_policy groupAllowFrom senderId isSenderAllowed =
     (let policy = resolveOpenProviderRuntimeGroupPolicy present configured default_policy
      in (evaluateSenderGroupAccessForPolicy (fst policy) groupAllowFrom senderId isSenderAllowed, policy))"

subsection \<open>Control commands\<close>

datatype gating_mode = Gate_allow | Gate_deny | Gate_configured

record command_authorizer =
  au_configured :: bool
  au_allowed :: bool

definition resolveCommandAuthorizedFromAuthorizers ::
  "bool \<Rightarrow> command_authorizer list \<Rightarrow> gating_mode option \<Rightarrow> bool" where
  "resolveCommandAuthorizedFromAuthorizers useAccessGroups authorizers modeWhenAccessGroupsOff =
     (let anyAuthorized = list_ex (\<lambda>a. au_configured a \<and> au_allowed a) authorizers in
      if useAccessGroups then anyAuthorized
      else (case nullish modeWhenAccessGroupsOff Gate_allow of
        Gate_allow \<Rightarrow> True
      | Gate_deny \<Rightarrow> False
      | Gate_configured \<Rightarrow> if \<not> list_ex au_configured authorizers then True else anyAuthorized))"

definition resolveControlCommandGate ::
  "bool \<Rightarrow> command_authorizer list \<Rightarrow> bool \<Rightarrow> bool \<Rightarrow> gating_mode option \<Rightarrow> bool \<times> bool" where
  "resolveControlCommandGate useAccessGroups authorizers allowTextCommands hasControlCommand mode =
     (let authorized = resolveCommandAuthorizedFromAuthorizers useAccessGroups authorizers mode
      in (authorized, allowTextCommands \<and> hasControlCommand \<and> \<not> authorized))"

subsection \<open>The decision\<close>

definition resolveEffectiveAllowFromLists ::
  "string list option \<Rightarrow> string list option \<Rightarrow> string list option \<Rightarrow> string option \<Rightarrow> bool option \<Rightarrow>
     string list \<times> string list" where
  "resolveEffectiveAllowFromLists allowFrom groupAllowFrom storeAllowFrom dmPolicy fallback =
     (normalizeStringEntries (mergeDmAllowFromSources allowFrom storeAllowFrom dmPolicy),
      normalizeStringEntries (resolveGroupAllowFromSources allowFrom groupAllowFrom fallback))"

datatype access_decision = Access_allow | Access_block | Access_pairing

datatype access_reason =
    Group_policy_allowed | Group_policy_disabled | Group_policy_empty_allowlist | Group_policy_not_allowlisted
  | Dm_policy_open | Dm_policy_disabled | Dm_policy_allowlisted | Dm_policy_pairing_required | Dm_policy_not_allowlisted

definition parse_group_policy :: "string option \<Rightarrow> group_policy" where
  "parse_group_policy p =
     (if p = Some ''open'' then Group_open else if p = Some ''disabled'' then Group_disabled else Group_allowlist)"

definition resolveDmGroupAccessDecision ::
  "bool \<Rightarrow> string option \<Rightarrow> string option \<Rightarrow> string list \<Rightarrow> string list \<Rightarrow> (string list \<Rightarrow> bool) \<Rightarrow>
     access_decision \<times> access_reason" where
  "resolveDmGroupAccessDecision isGroup dmPolicyOpt groupPolicyOpt effectiveAllowFrom effectiveGroupAllowFrom isSenderAllowed =
     (let dmPolicy = nullish dmPolicyOpt ''pairing'';
          groupPolicy = parse_group_policy groupPolicyOpt;
          allowFrom = normalizeStringEntries effectiveAllowFrom;
          groupAllowFrom = normalizeStringEntries effectiveGroupAllowFrom
      in if isGroup then
           (case evaluateMatchedGroupAccessForPolicy groupPolicy (groupAllowFrom \<noteq> []) (isSenderAllowed groupAllowFrom) False False of
             (False, Matched_disabled) \<Rightarrow> (Access_block, Group_policy_disabled)
           | (False, Empty_allowlist) \<Rightarrow> (Access_block, Group_policy_empty_allowlist)
           | (False, Not_allowlisted) \<Rightarrow> (Access_block, Group_policy_not_allowlisted)
           | _ \<Rightarrow> (Access_allow, Group_policy_allowed))
         else if dmPolicy = ''disabled'' then (Access_block, Dm_policy_disabled)
         else if dmPolicy = ''open'' then (Access_allow, Dm_policy_open)
         else if isSenderAllowed allowFrom then (Access_allow, Dm_policy_allowlisted)
         else if dmPolicy = ''pairing'' then (Access_pairing, Dm_policy_pairing_required)
         else (Access_block, Dm_policy_not_allowlisted))"

record access_input =
  ai_isGroup :: bool
  ai_dmPolicy :: "string option"
  ai_groupPolicy :: "string option"
  ai_allowFrom :: "string list option"
  ai_groupAllowFrom :: "string list option"
  ai_storeAllowFrom :: "string list option"
  ai_fallback :: "bool option"
  ai_isSenderAllowed :: "string list \<Rightarrow> bool"

record access_result =
  ar_decision :: access_decision
  ar_reason :: access_reason
  ar_allowFrom :: "string list"
  ar_groupAllowFrom :: "string list"

definition resolveDmGroupAccessWithLists :: "access_input \<Rightarrow> access_result" where
  "resolveDmGroupAccessWithLists p =
     (case resolveEffectiveAllowFromLists (ai_allowFrom p) (ai_groupAllowFrom p) (ai_storeAllowFrom p)
             (ai_dmPolicy p) (ai_fallback p) of
        (allowFrom, groupAllowFrom) \<Rightarrow>
          (case resolveDmGroupAccessDecision (ai_isGroup p) (ai_dmPolicy p) (ai_groupPolicy p) allowFrom groupAllowFrom
                  (ai_isSenderAllowed p) of
             (decision, reason) \<Rightarrow>
               \<lparr>ar_decision = decision, ar_reason = reason, ar_allowFrom = allowFrom, ar_groupAllowFrom = groupAllowFrom\<rparr>))"

record command_input =
  ci_useAccessGroups :: bool
  ci_allowTextCommands :: bool
  ci_hasControlCommand :: bool

text \<open>The result is (access, commandAuthorized, shouldBlockControlCommand).\<close>

definition resolveDmGroupAccessWithCommandGate ::
  "access_input \<Rightarrow> command_input option \<Rightarrow> access_result \<times> bool \<times> bool" where
  "resolveDmGroupAccessWithCommandGate p command =
     (let access = resolveDmGroupAccessWithLists p;
          configured = normalizeStringEntries (nullish (ai_allowFrom p) []);
          configuredGroup = normalizeStringEntries (resolveGroupAllowFromSources (Some configured)
            (Some (normalizeStringEntries (nullish (ai_groupAllowFrom p) []))) (ai_fallback p));
          commandDm = (if ai_isGroup p then configured else ar_allowFrom access);
          commandGroup = (if ai_isGroup p then configuredGroup else ar_groupAllowFrom access);
          gate = (case command of
            None \<Rightarrow> (False, False)
          | Some c \<Rightarrow> resolveControlCommandGate (ci_useAccessGroups c)
              [\<lparr>au_configured = commandDm \<noteq> [], au_allowed = ai_isSenderAllowed p commandDm\<rparr>,
               \<lparr>au_configured = commandGroup \<noteq> [], au_allowed = ai_isSenderAllowed p commandGroup\<rparr>]
              (ci_allowTextCommands c) (ci_hasControlCommand c) None)
      in (access, fst gate, ai_isGroup p \<and> snd gate))"

subsection \<open>Reading the store for a policy\<close>

text \<open>\<open>readStore\<close> is the store's reader; \<open>None\<close> stands for a rejected promise.\<close>

definition readStoreAllowFromForDmPolicy ::
  "string list option \<Rightarrow> string option \<Rightarrow> bool option \<Rightarrow> string list" where
  "readStoreAllowFromForDmPolicy readStore dmPolicy shouldRead =
     (if shouldRead = Some False \<or> dmPolicy = Some ''allowlist'' then [] else nullish readStore [])"

definition resolvePinnedMainDmOwnerFromAllowlist ::
  "string option \<Rightarrow> string list option \<Rightarrow> (string \<Rightarrow> string option) \<Rightarrow> string option" where
  "resolvePinnedMainDmOwnerFromAllowlist dmScope allowFrom normalizeEntry =
     (if nullish dmScope ''main'' \<noteq> ''main'' then None
      else (let raw = nullish allowFrom [] in
        if list_ex (\<lambda>e. js_trim e = ''*'') raw then None
        else (case js_set_of (map the (filter str_truthy (map normalizeEntry raw))) of
          [owner] \<Rightarrow> Some owner
        | _ \<Rightarrow> None)))"

record dm_allow_state =
  da_configAllowFrom :: "string list"
  da_hasWildcard :: bool
  da_allowCount :: nat
  da_isMultiUserDm :: bool

definition resolveDmAllowState ::
  "string list option \<Rightarrow> (string \<Rightarrow> string) option \<Rightarrow> string list option \<Rightarrow> dm_allow_state" where
  "resolveDmAllowState allowFrom normalizeEntryOpt readStore =
     (let configAllowFrom = normalizeStringEntries (nullish allowFrom []);
          hasWildcard = (''*'' \<in> set configAllowFrom);
          storeAllowFrom = readStoreAllowFromForDmPolicy readStore None None;
          normalizeEntry = nullish normalizeEntryOpt id;
          clean = (\<lambda>entries. filter (\<lambda>e. e \<noteq> []) (map (\<lambda>e. js_trim (normalizeEntry e)) entries));
          allowCount = length (js_set_of (clean (filter (\<lambda>e. e \<noteq> ''*'') configAllowFrom) @ clean storeAllowFrom))
      in \<lparr>da_configAllowFrom = configAllowFrom, da_hasWildcard = hasWildcard, da_allowCount = allowCount,
          da_isMultiUserDm = (hasWildcard \<or> 1 < allowCount)\<rparr>)"

end
