(* ===== verification/Pairing_Props.thy ===== *)
theory Pairing_Props
  imports Pairing_Proofs Dm_Access
begin

text \<open>
  The properties of pairing and of the access decision: the pending requests, what an approval grants,
  and who may talk to the agent.
\<close>

subsection \<open>Pending requests\<close>

datatype pairing_call =
    Upsert int code_draws string string string "(string \<times> string option) list option"
  | List_requests int string "string option"
  | Approve int string string "string option"
  | Add_entry string string "string option"
  | Remove_entry string string "string option"

definition pairing_step :: "pairing_env \<Rightarrow> pairing_state \<Rightarrow> pairing_call \<Rightarrow> pairing_state" where
  "pairing_step env s call = (case call of
     Upsert now draws channel sender acc meta \<Rightarrow> snd (upsertChannelPairingRequest env now draws channel sender acc meta s)
   | List_requests now channel acc \<Rightarrow> snd (listChannelPairingRequests env now channel acc s)
   | Approve now channel code acc \<Rightarrow> snd (approveChannelPairingCode env now channel code acc s)
   | Add_entry channel entry acc \<Rightarrow> snd (addChannelAllowFromStoreEntry env channel entry acc s)
   | Remove_entry channel entry acc \<Rightarrow> snd (removeChannelAllowFromStoreEntry env channel entry acc s))"

definition empty_pairing :: pairing_state where
  "empty_pairing = \<lparr>ps_requests = [], ps_allow = [], ps_cache = [], ps_writes = 0\<rparr>"

lemma step_ok:
  assumes "pending_ok (readPairingRequests path s)"
  shows "pending_ok (readPairingRequests path (pairing_step env s call))"
proof (cases call)
  case (Upsert now draws channel sender acc meta)
  obtain r s' where u: "upsertChannelPairingRequest env now draws channel sender acc meta s = (r, s')" by fastforce
  show ?thesis
    using upsert_ok [OF u _ assms] other_requests(1) [OF u] assms
    by (cases "resolvePairingPath channel = Inr path") (simp_all add: Upsert pairing_step_def u)
next
  case (List_requests now channel acc)
  obtain r s' where u: "listChannelPairingRequests env now channel acc s = (r, s')" by fastforce
  show ?thesis
    using list_ok [OF u _ assms] other_requests(2) [OF u] assms
    by (cases "resolvePairingPath channel = Inr path") (simp_all add: List_requests pairing_step_def u)
next
  case (Approve now channel code acc)
  obtain r s' where u: "approveChannelPairingCode env now channel code acc s = (r, s')" by fastforce
  show ?thesis
    using approve_ok [OF u _ assms] other_requests(3) [OF u] assms
    by (cases "resolvePairingPath channel = Inr path") (simp_all add: Approve pairing_step_def u)
next
  case (Add_entry channel entry acc)
  obtain r s' where u: "updateAllowFromStoreEntry env channel entry acc add_entry s = (r, s')" by fastforce
  show ?thesis
    using update_entry_requests [OF u] assms by (simp add: Add_entry pairing_step_def addChannelAllowFromStoreEntry_def u)
next
  case (Remove_entry channel entry acc)
  obtain r s' where u: "updateAllowFromStoreEntry env channel entry acc remove_entry s = (r, s')" by fastforce
  show ?thesis
    using update_entry_requests [OF u] assms by (simp add: Remove_entry pairing_step_def removeChannelAllowFromStoreEntry_def u)
qed

interpretation pairing: guarded_machine "pairing_step env" "\<lambda>s. pending_ok (readPairingRequests path s)"
  for env path
  by unfold_locales (rule step_ok)

text \<open>C11: After any sequence of calls on an empty store, each channel's file holds at most three pending
  requests for an account, one for a sender of an account, and no two of its codes agree, whatever the
  case of their letters.\<close>

theorem pending_requests_ok:
  "pending_ok (readPairingRequests path (foldl (pairing_step env) empty_pairing calls))"
  by (rule pairing.run_inv) (simp add: readPairingRequests_def empty_pairing_def)

subsection \<open>Samples\<close>

text \<open>A time is written in unary.\<close>

definition sample_pairing_env :: pairing_env where
  "sample_pairing_env = \<lparr>pe_dateParse = (\<lambda>s. Some (int (length s))), pe_toISOString = (\<lambda>n. replicate (nat n) CHR ''0''),
     pe_localeCompare = (\<lambda>a b. int (length a) - int (length b)), pe_adapter = (\<lambda>_. None),
     pe_stat = (\<lambda>n. (int n, 0))\<rparr>"

definition sample_request :: pairing_request where
  "sample_request = \<lparr>rq_id = ''42'', rq_code = ''AB23'', rq_createdAt = ''00000'', rq_lastSeenAt = ''00000'',
     rq_meta = Some [(''accountId'', ''work'')]\<rparr>"

definition sample_pairing :: pairing_state where
  "sample_pairing = empty_pairing\<lparr>ps_requests := [(''telegram-pairing.json'', [sample_request])]\<rparr>"

lemma telegram_path: "resolvePairingPath ''telegram'' = Inr ''telegram-pairing.json''"
  by code_simp

lemma sample_pending: "pending_ok (readPairingRequests ''telegram-pairing.json'' sample_pairing)"
  by code_simp

subsection \<open>Approval\<close>

lemma drop_one_others:
  assumes "distinct (map f xs)" "i < length xs" "x \<in> set (take i xs @ drop (Suc i) xs)"
  shows "f x \<noteq> f (xs ! i)"
proof -
  have "xs = take i xs @ xs ! i # drop (Suc i) xs" using assms(2) by (rule id_take_nth_drop)
  then have "distinct (map f (take i xs @ xs ! i # drop (Suc i) xs))" using assms(1) by simp
  then have "f (xs ! i) \<notin> f ` set (take i xs @ drop (Suc i) xs)" by auto
  with assms(3) show ?thesis by (metis imageI)
qed

text \<open>C7: An approval grants access to the sender who asked for it and to nobody else: the code is that of
  an unexpired request of the channel, made for the given account if one is given; one allow-from
  file, that of the approval, gains the requester's normalised id, no other file changes, and the code
  is spent. A code that matches no such request changes no allow-from file.\<close>

theorem approval_grants_requester:
  assumes "approveChannelPairingCode env now channel codeText acc s = (Inr result, s')"
    and "resolvePairingPath channel = Inr path" and "pending_ok (readPairingRequests path s)"
  shows "case result of
     None \<Rightarrow> ps_allow s' = ps_allow s
   | Some entry \<Rightarrow>
       entry \<in> set (readPairingRequests path s) \<and> \<not> isExpired env entry now \<and>
       js_upper (rq_code entry) = js_upper (js_trim codeText) \<and>
       requestMatchesAccountId entry (normalizePairingAccountId acc) \<and>
       (\<exists>target. resolveAllowFromPath channel (nullish_opt (normalizeOptionalString (js_opt acc))
             (normalizeOptionalString (js_opt (meta_account entry)))) = Inr target \<and>
          (let n = normalizeAllowFromInput env channel (rq_id entry);
               current = normalizeAllowFromList env channel (raw_entries target s)
           in nullish (raw_entries target s') [] =
                (if n = [] \<or> n \<in> set current then nullish (raw_entries target s) [] else current @ [n])) \<and>
          (\<forall>p. p = target \<or> nullish (raw_entries p s') [] = nullish (raw_entries p s) [])) \<and>
       fst (approveChannelPairingCode env' now' channel codeText acc' s') = Inr None"
proof -
  define reqs where "reqs = fst (pruneExpiredRequests env (readPairingRequests path s) now)"
  have sub: "subseq reqs (readPairingRequests path s)" by (simp add: reqs_def pruneExpiredRequests_def)
  then have ok: "pending_ok reqs" using assms(3) by (rule pending_ok_subseq)
  from assms(1,2) show ?thesis
  proof (cases rule: approve_cases)
    case (found i x)
    let ?e = "reqs ! i"
    let ?acc = "nullish_opt (normalizeOptionalString (js_opt acc)) (normalizeOptionalString (js_opt (meta_account ?e)))"
    note f = found [folded reqs_def]
    from f(5) have res: "result = Some ?e" by (auto split: sum.splits)
    then obtain v where x: "x = Inr v" using f(5) by (auto split: sum.splits)
    then obtain target where t: "resolveAllowFromPath channel ?acc = Inr target"
      using f(4) by (auto simp: addChannelAllowFromStoreEntry_def updateAllowFromStoreEntry_def split: sum.splits)
    note a = add_entry_result [OF f(4) t]
    have code: "js_upper (nullish (normalizeNullableString (JString codeText)) []) = js_upper (js_trim codeText)"
      by (simp add: normalizeNullableString_def Let_def)
    have e: "?e \<in> set reqs" using f(1) by simp
    then have m: "?e \<in> set (readPairingRequests path s)" "\<not> isExpired env ?e now"
      by (simp_all add: reqs_def pruneExpiredRequests_def)
    have left: "readPairingRequests path s' = take i reqs @ drop (Suc i) reqs"
      using f(4) unfolding addChannelAllowFromStoreEntry_def by (auto dest!: update_entry_requests [where path = path])
    have "\<forall>y \<in> set (readPairingRequests path s'). js_upper (rq_code y) \<noteq> js_upper (rq_code ?e)"
      unfolding left using drop_one_others [of "js_upper \<circ> rq_code" reqs i] ok f(1) by (auto simp: pending_ok_iff)
    then have "fst (approveChannelPairingCode env' now' channel codeText acc' s') = Inr None"
    proof -
      assume spent: "\<forall>y \<in> set (readPairingRequests path s'). js_upper (rq_code y) \<noteq> js_upper (rq_code ?e)"
      obtain r2 s2 where ap: "approveChannelPairingCode env' now' channel codeText acc' s' = (r2, s2)" by fastforce
      from ap assms(2) show ?thesis
      proof (cases rule: approve_cases)
        case (found j y)
        then have "fst (pruneExpiredRequests env' (readPairingRequests path s') now') ! j \<in> set (readPairingRequests path s')"
          using nth_mem [OF found(1)] by (simp add: pruneExpiredRequests_def)
        with spent found(2) f(2) show ?thesis by auto
      qed (simp_all add: ap)
    qed
    with res m f(2,3) t a(1,2) code show ?thesis by (auto simp: Let_def)
  qed (auto)
qed

theorem approval_grants_requester_witness:
  "fst (approveChannelPairingCode sample_pairing_env 10 ''telegram'' ''AB23'' None
     (snd (approveChannelPairingCode sample_pairing_env 9 ''telegram'' ''AB23'' None sample_pairing))) = Inr None"
proof -
  have f: "fst (approveChannelPairingCode sample_pairing_env 9 ''telegram'' ''AB23'' None sample_pairing) =
      Inr (Some sample_request)" by code_simp
  obtain s' where s': "approveChannelPairingCode sample_pairing_env 9 ''telegram'' ''AB23'' None sample_pairing =
      (Inr (Some sample_request), s')" using f by (metis prod.collapse)
  from approval_grants_requester [OF s' telegram_path sample_pending, where now' = 10 and env' = sample_pairing_env and acc' = None]
  show ?thesis by (simp add: s')
qed

text \<open>An account name that is no file name: the request is spent although the approval fails.\<close>

lemma failed_approval_spends_request:
  "let s = empty_pairing\<lparr>ps_requests := [(''telegram-pairing.json'', [sample_request\<lparr>rq_meta := Some [(''accountId'', ''/'')]\<rparr>])]\<rparr>;
       r = approveChannelPairingCode sample_pairing_env 9 ''telegram'' ''AB23'' None s
   in fst r = Inl InvalidPairingAccount \<and> readPairingRequests ''telegram-pairing.json'' (snd r) = []"
  by code_simp

text \<open>The wild card is dropped before the channel's adapter strips a prefix, so an entry with a prefix
  puts the wild card into the store and, through the cache, into the lists that are read.\<close>

definition prefix_env :: pairing_env where
  "prefix_env = sample_pairing_env\<lparr>pe_adapter := (\<lambda>_. Some (\<lambda>s. if take 9 s = ''telegram:'' then drop 9 s else s))\<rparr>"

lemma wildcard_through_prefix:
  "let s = snd (addChannelAllowFromStoreEntry prefix_env ''telegram'' ''telegram:*'' None empty_pairing)
   in fst (readChannelAllowFromStore prefix_env ''telegram'' None s) = Inr [''*''] \<and>
      fst (readChannelAllowFromStore prefix_env ''telegram'' None (s\<lparr>ps_cache := []\<rparr>)) = Inr []"
  by code_simp

text \<open>Different pairs of a channel and an account can name the same file.\<close>

lemma allow_paths_collide:
  "resolveAllowFromPath ''qa'' (Some ''channel-work'') = resolveAllowFromPath ''qa-channel'' (Some ''work'')"
  by code_simp

subsection \<open>From a request to access\<close>

text \<open>The cached entries of a file, if they are those of its present version, hold what the file holds.\<close>

definition cache_fresh :: "pairing_env \<Rightarrow> string \<Rightarrow> string \<Rightarrow> pairing_state \<Rightarrow> bool" where
  "cache_fresh env channel path s = (case (jm_get (ps_cache s) path, jm_get (ps_allow s) path) of
     (Some c, Some f) \<Rightarrow>
       if ac_exists c \<and> ac_mtimeMs c = Some (af_mtimeMs f) \<and> ac_size c = Some (af_size f)
       then set (normalizeAllowFromList env channel (af_entries f)) \<subseteq> set (ac_entries c) else True
   | _ \<Rightarrow> True)"

lemma read_fresh:
  assumes "cache_fresh env channel path s" "jm_get (ps_allow s) path = Some f"
  shows "set (normalizeAllowFromList env channel (af_entries f)) \<subseteq> set (fst (readAllowFromStateForPath env channel path s))"
  using assms
  by (auto simp: readAllowFromStateForPath_def readAllowFromStateForPathWithExists_def cache_fresh_def Let_def
      resolveAllowFromReadCacheOrMissing_def resolveAllowFromReadCacheHit_def split: option.splits if_splits prod.splits)

lemma read_written:
  "fst (readAllowFromStateForPath env channel path (writeAllowFromState env path es s)) = es"
  by (simp add: readAllowFromStateForPath_def readAllowFromStateForPathWithExists_def writeAllowFromState_def
      setAllowFromReadCache_def write_allow_file_def resolveAllowFromReadCacheOrMissing_def
      resolveAllowFromReadCacheHit_def Let_def)

lemma dedupe_keeps: "x \<in> set xs \<Longrightarrow> js_trim x = x \<Longrightarrow> x \<noteq> [] \<Longrightarrow> x \<in> set seen \<or> x \<in> set (dedupe_from seen xs)"
proof (induction xs arbitrary: seen)
  case (Cons y ys)
  show ?case
  proof (cases "y = x")
    case True
    with Cons.prems show ?thesis by (auto simp: Let_def)
  next
    case False
    with Cons.prems have "x \<in> set ys" by simp
    from Cons.IH [OF this Cons.prems(2,3), of seen] Cons.IH [OF this Cons.prems(2,3), of "js_trim y # seen"] Cons.prems
    show ?thesis by (auto simp: Let_def)
  qed
qed simp

lemma normal_entry: "normalizeAllowEntry env channel e = n \<Longrightarrow> n \<noteq> [] \<Longrightarrow> js_trim n = n"
  by (auto simp: normalizeAllowEntry_def Let_def split: if_splits option.splits)

lemma read_after_add:
  assumes "addChannelAllowFromStoreEntry env channel entry acc s = (x, s')" "resolveAllowFromPath channel acc = Inr path"
    and "normalizeAllowFromInput env channel entry \<noteq> []" "cache_fresh env channel path s"
  shows "normalizeAllowFromInput env channel entry \<in> set (fst (readAllowFromStateForPath env channel path s'))"
proof -
  let ?n = "normalizeAllowFromInput env channel entry"
  let ?current = "normalizeAllowFromList env channel (raw_entries path s)"
  note a = add_entry_result [OF assms(1,2)]
  show ?thesis
  proof (cases "?n \<in> set ?current")
    case True
    then obtain f where f: "jm_get (ps_allow s) path = Some f"
      by (cases "jm_get (ps_allow s) path") (auto simp: raw_entries_def normalizeAllowFromList_def dedupePreserveOrder_def)
    then have "s' = s" using a(5) [OF True] by (simp add: ensure_allow_file_def)
    with read_fresh [OF assms(4) f] True f show ?thesis by (auto simp: raw_entries_def)
  next
    case False
    then show ?thesis using a(4) [OF assms(3)] by (simp add: read_written)
  qed
qed

lemma account_path:
  assumes "js_trim acc \<noteq> []"
  shows "resolveAllowFromPath channel (Some (str_or (normalizePairingAccountId (Some acc)) DEFAULT_ACCOUNT_ID)) =
    resolveAllowFromPath channel (Some acc)"
  using assms
  by (auto simp: resolveAllowFromPath_def normalizePairingAccountId_def str_or_def safeAccountKey_def safe_key_def Let_def
      js_trim_lower split: sum.split)

text \<open>C2: Pairing works: a new request gives a code with which the owner's approval, before the request
  expires, finds that very request; afterwards the allow list read for the account holds the sender's
  normalised id, and a direct message of the sender under the pairing policy is let in.\<close>

theorem pairing_grants_access:
  assumes "upsertChannelPairingRequest env now draws channel sender acc meta s = (Inr (code, True), s1)"
    and "resolvePairingPath channel = Inr path" and "pending_ok (readPairingRequests path s)"
    and "pe_dateParse env (pe_toISOString env now) = Some now" and "pe_toISOString env now \<noteq> []" and "now \<noteq> 0"
    and "now' - now \<le> PAIRING_PENDING_TTL_MS"
    and "js_trim acc \<noteq> []" and "resolveAllowFromPath channel (Some acc) = Inr target"
    and "normalizeAllowFromInput env channel (normalizePairingId sender) \<noteq> []" and "cache_fresh env channel target s"
  shows "\<exists>entry s2 store. approveChannelPairingCode env now' channel code None s1 = (Inr (Some entry), s2) \<and>
    rq_id entry = normalizePairingId sender \<and>
    fst (readChannelAllowFromStore env channel (Some acc) s2) = Inr store \<and>
    normalizeAllowFromInput env channel (normalizePairingId sender) \<in> set store \<and>
    ar_decision (resolveDmGroupAccessWithLists
      \<lparr>ai_isGroup = False, ai_dmPolicy = Some ''pairing'', ai_groupPolicy = gp, ai_allowFrom = allowFrom,
       ai_groupAllowFrom = gallow, ai_storeAllowFrom = Some store, ai_fallback = fb,
       ai_isSenderAllowed = (\<lambda>l. normalizeAllowFromInput env channel (normalizePairingId sender) \<in> set l)\<rparr>) = Access_allow"
proof -
  define a where "a = str_or (normalizePairingAccountId (Some acc)) DEFAULT_ACCOUNT_ID"
  define n where "n = normalizeAllowFromInput env channel (normalizePairingId sender)"
  obtain q where q: "rq_code q = code" "readPairingRequests path s1 =
      fst (pruneExpiredRequests env (readPairingRequests path s) now) @ [q]" "rq_id q = normalizePairingId sender"
    "meta_account q = Some a" "clean_code q" "rq_createdAt q = pe_toISOString env now"
    and al: "ps_allow s1 = ps_allow s" "ps_cache s1 = ps_cache s"
    using assms(1,2,3) unfolding a_def by (cases rule: upsert_cases) (auto simp: clean_code_def pending_ok_iff)
  have ok1: "pending_ok (readPairingRequests path s1)" using upsert_ok [OF assms(1,2,3)] .
  define reqs where "reqs = fst (pruneExpiredRequests env (readPairingRequests path s1) now')"
  have okr: "pending_ok reqs"
    by (rule pending_ok_subseq [OF _ ok1]) (simp add: reqs_def pruneExpiredRequests_def)
  have "\<not> isExpired env q now'" using assms(4-7) by (simp add: isExpired_def parseTimestamp_def q)
  then have qin: "q \<in> set reqs" by (simp add: reqs_def pruneExpiredRequests_def q)
  have code: "js_trim code = code" "code \<noteq> []" using q(1,5) by (auto simp: clean_code_def)
  have a: "a = js_lower (js_trim acc)" "js_trim a = a" "a \<noteq> []"
    using assms(8) by (auto simp: a_def normalizePairingAccountId_def str_or_def js_trim_lower)
  have path: "resolveAllowFromPath channel (Some a) = Inr target"
    unfolding a_def account_path [OF assms(8)] by (rule assms(9))
  obtain r s2 where ap: "approveChannelPairingCode env now' channel code None s1 = (r, s2)" by fastforce
  from ap assms(2) show ?thesis
  proof (cases rule: approve_cases)
    case (found i x)
    note f = found [folded reqs_def]
    have "(js_upper \<circ> rq_code) (reqs ! i) = (js_upper \<circ> rq_code) q"
      using f(2) code q(1) by (simp add: normalizeNullableString_def Let_def)
    moreover have "inj_on (js_upper \<circ> rq_code) (set reqs)" using okr by (simp add: pending_ok_iff distinct_map)
    ultimately have e: "reqs ! i = q" using f(1) qin by (metis inj_onD nth_mem)
    let ?s = "write_requests path (take i reqs @ drop (Suc i) reqs) (ensure_pairing_file path s1)"
    have add: "addChannelAllowFromStoreEntry env channel (normalizePairingId sender) (Some a) ?s = (x, s2)"
      using f(4) a by (simp add: e q)
    have "cache_fresh env channel target ?s" using assms(11) by (simp add: cache_fresh_def al)
    from read_after_add [OF add path assms(10) this]
    have n: "n \<in> set (fst (readAllowFromStateForPath env channel target s2))" by (simp add: n_def)
    have tn: "js_trim n = n" "n \<noteq> []"
      using assms(10) normal_entry [of env channel "normalizePairingId (normalizePairingId sender)" n]
      by (auto simp: n_def normalizeAllowFromInput_def)
    obtain store where st: "fst (readChannelAllowFromStore env channel (Some acc) s2) = Inr store" and ns: "n \<in> set store"
    proof -
      have "resolveAllowFromAccountId (Some acc) = a" by (simp add: resolveAllowFromAccountId_def a_def)
      moreover obtain legacy where l: "resolveAllowFromPath channel None = Inr legacy"
        using path by (auto simp: resolveAllowFromPath_def split: sum.splits)
      moreover obtain scoped sa where sc: "readAllowFromStateForPath env channel target s2 = (scoped, sa)" by fastforce
      moreover obtain old sb where "readAllowFromStateForPath env channel legacy sa = (old, sb)" by fastforce
      ultimately have "fst (readChannelAllowFromStore env channel (Some acc) s2) =
          Inr (if shouldIncludeLegacyAllowFromEntries a then dedupePreserveOrder (scoped @ old) else scoped)"
        using path by (simp add: readChannelAllowFromStore_def)
      moreover have "n \<in> set scoped" using n sc by simp
      moreover from this have "n \<in> set (dedupePreserveOrder (scoped @ old))"
        using dedupe_keeps [OF _ tn, of "scoped @ old" "[]"] by (simp add: dedupePreserveOrder_def)
      ultimately show ?thesis by (cases "shouldIncludeLegacyAllowFromEntries a") (auto intro: that)
    qed
    have "r = Inr (Some q)" using f(5) add_entry_result(3) [OF add path] e by auto
    moreover have "n \<in> set (normalizeStringEntries (nullish allowFrom [] @ store))"
      using ns tn by (force simp: normalizeStringEntries_eq)
    ultimately show ?thesis
      using ap st ns q(3)
      by (auto simp: n_def resolveDmGroupAccessWithLists_def resolveEffectiveAllowFromLists_def mergeDmAllowFromSources_def
          resolveDmGroupAccessDecision_def Let_def)
  next
    case unknown
    with qin code q(1) show ?thesis
      by (auto simp: reqs_def normalizeNullableString_def requestMatchesAccountId_def normalizePairingAccountId_def Let_def)
  next
    case blank
    with code have "js_upper code = []" by (simp add: normalizeNullableString_def Let_def)
    with code(2) show ?thesis by (cases code) (auto simp: js_upper_def js_upper_char_def Let_def split: if_splits)
  qed
qed

theorem pairing_grants_access_witness:
  "\<exists>entry s2 store. approveChannelPairingCode sample_pairing_env 9 ''telegram'' ''AAAAAAAA'' None
       (snd (upsertChannelPairingRequest sample_pairing_env 5 (\<lambda>i j. i) ''telegram'' ''42'' ''work'' None empty_pairing)) =
       (Inr (Some entry), s2) \<and>
     fst (readChannelAllowFromStore sample_pairing_env ''telegram'' (Some ''work'') s2) = Inr store \<and> ''42'' \<in> set store"
proof -
  have f: "fst (upsertChannelPairingRequest sample_pairing_env 5 (\<lambda>i j. i) ''telegram'' ''42'' ''work'' None empty_pairing) =
      Inr (''AAAAAAAA'', True)" by code_simp
  obtain s1 where u: "upsertChannelPairingRequest sample_pairing_env 5 (\<lambda>i j. i) ''telegram'' ''42'' ''work'' None empty_pairing =
      (Inr (''AAAAAAAA'', True), s1)" using f by (metis prod.collapse)
  have ok: "pending_ok (readPairingRequests ''telegram-pairing.json'' empty_pairing)" by code_simp
  have t: "pe_dateParse sample_pairing_env (pe_toISOString sample_pairing_env 5) = Some 5"
    "pe_toISOString sample_pairing_env 5 \<noteq> []" "(5 :: int) \<noteq> 0" "9 - 5 \<le> PAIRING_PENDING_TTL_MS"
    by (simp_all add: sample_pairing_env_def PAIRING_PENDING_TTL_MS_def)
  have n: "normalizeAllowFromInput sample_pairing_env ''telegram'' (normalizePairingId ''42'') = ''42''" by code_simp
  have p1: "js_trim ''work'' \<noteq> []" by code_simp
  have p2: "resolveAllowFromPath ''telegram'' (Some ''work'') = Inr ''telegram-work-allowFrom.json''" by code_simp
  have p3: "normalizeAllowFromInput sample_pairing_env ''telegram'' (normalizePairingId ''42'') \<noteq> []"
    unfolding n by simp
  have p4: "cache_fresh sample_pairing_env ''telegram'' ''telegram-work-allowFrom.json'' empty_pairing"
    by (simp add: cache_fresh_def empty_pairing_def)
  from pairing_grants_access [OF u telegram_path ok t p1 p2 p3 p4, where gp = None and allowFrom = None and gallow = None and fb = None]
  show ?thesis unfolding n u snd_conv by blast
qed

subsection \<open>The decision\<close>

lemma sources_normal [simp]:
  "normalizeStringEntries (resolveGroupAllowFromSources a g f) = resolveGroupAllowFromSources a g f"
  "normalizeStringEntries (mergeDmAllowFromSources a st dm) = mergeDmAllowFromSources a st dm"
  by (simp_all add: resolveGroupAllowFromSources_def mergeDmAllowFromSources_def Let_def del: normalizeStringEntries_append)

text \<open>C27: Who is let in: a group message is judged by the group policy and the group list alone and a
  direct message by its policy and the direct list; the pairing store counts for direct messages only
  and not at all under the allow-list policy, also for the right to give control commands; nobody is
  offered pairing but under the pairing policy.\<close>

theorem dm_access_decision:
  "ar_decision (resolveDmGroupAccessWithLists p) =
     (let allowed = ai_isSenderAllowed p;
          groupList = normalizeStringEntries (if nullish (ai_groupAllowFrom p) [] \<noteq> [] then nullish (ai_groupAllowFrom p) []
                        else if ai_fallback p = Some False then [] else nullish (ai_allowFrom p) []);
          dmList = normalizeStringEntries (nullish (ai_allowFrom p) [] @
                     (if ai_dmPolicy p = Some ''allowlist'' then [] else nullish (ai_storeAllowFrom p) []))
      in if ai_isGroup p then
           (case parse_group_policy (ai_groupPolicy p) of
             Group_open \<Rightarrow> Access_allow
           | Group_disabled \<Rightarrow> Access_block
           | Group_allowlist \<Rightarrow> if groupList \<noteq> [] \<and> allowed groupList then Access_allow else Access_block)
         else if ai_dmPolicy p = Some ''disabled'' then Access_block
         else if ai_dmPolicy p = Some ''open'' \<or> allowed dmList then Access_allow
         else if ai_dmPolicy p = None \<or> ai_dmPolicy p = Some ''pairing'' then Access_pairing
         else Access_block) \<and>
   (if ai_isGroup p \<or> ai_dmPolicy p = Some ''allowlist''
    then ar_decision (resolveDmGroupAccessWithLists (p\<lparr>ai_storeAllowFrom := store\<rparr>)) =
           ar_decision (resolveDmGroupAccessWithLists p) \<and>
         snd (resolveDmGroupAccessWithCommandGate (p\<lparr>ai_storeAllowFrom := store\<rparr>) command) =
           snd (resolveDmGroupAccessWithCommandGate p command)
    else True)"
proof -
  let ?g = "resolveGroupAllowFromSources (ai_allowFrom p) (ai_groupAllowFrom p) (ai_fallback p)"
    and ?d = "mergeDmAllowFromSources (ai_allowFrom p) (ai_storeAllowFrom p) (ai_dmPolicy p)"
  have s: "the (ai_groupAllowFrom p) = nullish (ai_groupAllowFrom p) []" if "nullish (ai_groupAllowFrom p) [] \<noteq> []"
    using that by (cases "ai_groupAllowFrom p") simp_all
  have "ar_decision (resolveDmGroupAccessWithLists p) =
      (if ai_isGroup p then
         (case parse_group_policy (ai_groupPolicy p) of
           Group_open \<Rightarrow> Access_allow | Group_disabled \<Rightarrow> Access_block
         | Group_allowlist \<Rightarrow> if ?g \<noteq> [] \<and> ai_isSenderAllowed p ?g then Access_allow else Access_block)
       else if ai_dmPolicy p = Some ''disabled'' then Access_block
       else if ai_dmPolicy p = Some ''open'' \<or> ai_isSenderAllowed p ?d then Access_allow
       else if ai_dmPolicy p = None \<or> ai_dmPolicy p = Some ''pairing'' then Access_pairing
       else Access_block)"
    by (cases "parse_group_policy (ai_groupPolicy p)"; cases "ai_dmPolicy p")
      (auto simp: resolveDmGroupAccessWithLists_def resolveEffectiveAllowFromLists_def resolveDmGroupAccessDecision_def
        evaluateMatchedGroupAccessForPolicy_def Let_def split: if_splits)
  moreover have "?g = normalizeStringEntries (if nullish (ai_groupAllowFrom p) [] \<noteq> [] then nullish (ai_groupAllowFrom p) []
      else if ai_fallback p = Some False then [] else nullish (ai_allowFrom p) [])"
    using s by (simp add: resolveGroupAllowFromSources_def)
  moreover have "?d = normalizeStringEntries (nullish (ai_allowFrom p) [] @
      (if ai_dmPolicy p = Some ''allowlist'' then [] else nullish (ai_storeAllowFrom p) []))"
    by (simp add: mergeDmAllowFromSources_def Let_def)
  moreover have "if ai_isGroup p \<or> ai_dmPolicy p = Some ''allowlist''
    then ar_decision (resolveDmGroupAccessWithLists (p\<lparr>ai_storeAllowFrom := store\<rparr>)) =
           ar_decision (resolveDmGroupAccessWithLists p) \<and>
         snd (resolveDmGroupAccessWithCommandGate (p\<lparr>ai_storeAllowFrom := store\<rparr>) command) =
           snd (resolveDmGroupAccessWithCommandGate p command)
    else True"
    by (auto simp: resolveDmGroupAccessWithLists_def resolveEffectiveAllowFromLists_def mergeDmAllowFromSources_def
        resolveDmGroupAccessDecision_def resolveDmGroupAccessWithCommandGate_def Let_def split: prod.split option.split)
  ultimately show ?thesis unfolding Let_def by presburger
qed

end
