(* ===== verification/Js_Regex.thy ===== *)
theory Js_Regex
  imports Js_Number
begin

text \<open>
  Regular expressions of JavaScript as lists of successes: a matcher gives what is left of the input
  after each way to match, in the order in which the backtracking engine tries them. The first
  success that lets the rest of the expression match is the one the engine takes.
\<close>

type_synonym matcher = "string \<Rightarrow> string list"

definition rx_char :: "(char \<Rightarrow> bool) \<Rightarrow> matcher" where
  "rx_char P s = (case s of [] \<Rightarrow> [] | c # s' \<Rightarrow> if P c then [s'] else [])"

definition rx_seq :: "matcher \<Rightarrow> matcher \<Rightarrow> matcher" where
  "rx_seq a b s = concat (map b (a s))"

definition rx_alt :: "matcher \<Rightarrow> matcher \<Rightarrow> matcher" where
  "rx_alt a b s = a s @ b s"

definition rx_opt :: "matcher \<Rightarrow> matcher" where
  "rx_opt a s = a s @ [s]"

function rx_star :: "matcher \<Rightarrow> matcher" where
  "rx_star a s = concat (map (\<lambda>r. if length r < length s then rx_star a r else []) (a s)) @ [s]"
  by pat_completeness auto
termination by (relation "measure (\<lambda>(a, s). length s)") auto

declare rx_star.simps [simp del]

definition rx_plus :: "matcher \<Rightarrow> matcher" where
  "rx_plus a = rx_seq a (rx_star a)"

definition rx_not :: "matcher \<Rightarrow> matcher" where
  "rx_not a s = (if a s = [] then [s] else [])"

definition rx_end :: matcher where
  "rx_end s = (if s = [] then [s] else [])"

text \<open>The end of a word after a word character.\<close>

definition rx_word_end :: matcher where
  "rx_word_end s = (case s of [] \<Rightarrow> [s] | c # _ \<Rightarrow> if is_word c then [] else [s])"

fun rx_lit :: "string \<Rightarrow> matcher" where
  "rx_lit [] s = [s]"
| "rx_lit (c # cs) s = (case s of [] \<Rightarrow> [] | d # s' \<Rightarrow> if d = c then rx_lit cs s' else [])"

text \<open>A literal under the flag \<open>i\<close>; the letters of the literal are small.\<close>

fun rx_lit_i :: "string \<Rightarrow> matcher" where
  "rx_lit_i [] s = [s]"
| "rx_lit_i (c # cs) s = (case s of [] \<Rightarrow> [] | d # s' \<Rightarrow> if js_lower_char d = c then rx_lit_i cs s' else [])"

fun rx_seqs :: "matcher list \<Rightarrow> matcher" where
  "rx_seqs [] s = [s]"
| "rx_seqs (a # as) s = concat (map (rx_seqs as) (a s))"

fun rx_alts :: "matcher list \<Rightarrow> matcher" where
  "rx_alts [] s = []"
| "rx_alts (a # as) s = a s @ rx_alts as s"

text \<open>\<open>test\<close> with an expression anchored at the start, and with one that is not.\<close>

definition rx_test :: "matcher \<Rightarrow> string \<Rightarrow> bool" where
  "rx_test a s \<longleftrightarrow> a s \<noteq> []"

fun rx_search :: "matcher \<Rightarrow> string \<Rightarrow> bool" where
  "rx_search a [] \<longleftrightarrow> a [] \<noteq> []"
| "rx_search a (c # s) \<longleftrightarrow> a (c # s) \<noteq> [] \<or> rx_search a s"

text \<open>A success leaves a suffix of the input.\<close>

definition rx_ok :: "matcher \<Rightarrow> bool" where
  "rx_ok a \<longleftrightarrow> (\<forall>s. \<forall>r \<in> set (a s). Sublist.suffix r s)"

lemma rx_star_char: "P c \<Longrightarrow> rx_star (rx_char P) (c # s) = rx_star (rx_char P) s @ [c # s]"
  by (subst rx_star.simps) (simp add: rx_char_def)

lemma rx_star_stop: "s = [] \<or> \<not> P (hd s) \<Longrightarrow> rx_star (rx_char P) s = [s]"
  by (subst rx_star.simps) (auto simp: rx_char_def split: list.splits)

text \<open>The first success of a greedy run of characters takes them all.\<close>

lemma hd_rx_star_char: "hd (rx_star (rx_char P) s) = dropWhile P s \<and> rx_star (rx_char P) s \<noteq> []"
proof (induction s)
  case Nil
  show ?case by (simp add: rx_star_stop)
next
  case (Cons c s)
  then show ?case by (cases "P c") (simp_all add: rx_star_char rx_star_stop)
qed

end
