(* ===== verification/Shell_Lexer.thy ===== *)
theory Shell_Lexer
  imports Js_Regex
begin

text \<open>
  Reading and writing command lines: src/brain/src/utils/shell-argv.ts and the lexers of
  infra/exec-approvals-analysis.ts.

  A loop over the characters of the source is a function of what is left to read. Its first argument
  is the state of the quotes: \<open>escaped\<close>, \<open>inSingle\<close> and \<open>inDouble\<close> of the source are never true
  together. Where the source looks one character back, that character is passed on.
\<close>

datatype lex_mode = Plain | Escaped | InSingle | InDouble

definition SQ :: char where "SQ = CHR 0x27"
definition DQ :: char where "DQ = CHR 0x22"
definition BSLASH :: char where "BSLASH = CHR 0x5C"
definition LF :: char where "LF = CHR 0x0A"
definition CR :: char where "CR = CHR 0x0D"
definition TAB :: char where "TAB = CHR 0x09"

definition is_newline :: "char \<Rightarrow> bool" where
  "is_newline c \<longleftrightarrow> c = LF \<or> c = CR"

lemmas char_defs = SQ_def DQ_def BSLASH_def LF_def CR_def TAB_def

subsection \<open>Splitting a segment into words\<close>

definition word_escape :: "char \<Rightarrow> bool" where
  "word_escape c \<longleftrightarrow> c \<in> set [BSLASH, DQ, CHR ''$'', CHR ''`'', LF, CR]"

definition push_token :: "string \<Rightarrow> string list \<Rightarrow> string list" where
  "push_token buf tokens = (if buf = [] then tokens else tokens @ [buf])"

fun shell_args :: "lex_mode \<Rightarrow> string \<Rightarrow> string list \<Rightarrow> string \<Rightarrow> string list option" where
  "shell_args m buf tokens [] = (if m = Plain then Some (push_token buf tokens) else None)"
| "shell_args Escaped buf tokens (c # s) = shell_args Plain (buf @ [c]) tokens s"
| "shell_args InSingle buf tokens (c # s) =
     (if c = SQ then shell_args Plain buf tokens s else shell_args InSingle (buf @ [c]) tokens s)"
| "shell_args InDouble buf tokens (c # s) =
     (if c = BSLASH \<and> (case s of [] \<Rightarrow> False | d # _ \<Rightarrow> word_escape d)
      then (case s of [] \<Rightarrow> None | d # s' \<Rightarrow> shell_args InDouble (buf @ [d]) tokens s')
      else if c = DQ then shell_args Plain buf tokens s
      else shell_args InDouble (buf @ [c]) tokens s)"
| "shell_args Plain buf tokens (c # s) =
     (if c = BSLASH then shell_args Escaped buf tokens s
      else if c = SQ then shell_args InSingle buf tokens s
      else if c = DQ then shell_args InDouble buf tokens s
      else if c = CHR ''#'' \<and> buf = [] then Some tokens
      else if js_ws c then shell_args Plain [] (push_token buf tokens) s
      else shell_args Plain (buf @ [c]) tokens s)"

definition splitShellArgs :: "string \<Rightarrow> string list option" where
  "splitShellArgs raw = shell_args Plain [] [] raw"

subsection \<open>Splitting a pipeline into segments\<close>

text \<open>The reasons the source gives, one constructor each; a character that is not supported is kept.\<close>

datatype shell_reason =
    UnsupportedToken string
  | HeredocSubstitution
  | UnterminatedHeredoc
  | UnterminatedQuote
  | EmptyCommand
  | EmptyPipelineSegment
  | UnparsedSegment
  | UnsupportedWindowsToken string
  | UnparsedWindowsCommand
  | EmptyArgv
  | SegmentMismatch
  | UnavailablePlan
  | UnsafeWindowsToken string

record heredoc_spec =
  hd_delimiter :: string
  hd_stripTabs :: bool
  hd_quoted :: bool

definition double_quote_escape :: "char \<Rightarrow> bool" where
  "double_quote_escape c \<longleftrightarrow> c \<in> set [BSLASH, DQ, CHR ''$'', CHR ''`'']"

definition disallowed_pipeline_token :: "char \<Rightarrow> bool" where
  "disallowed_pipeline_token c \<longleftrightarrow> c \<in> set [CHR ''>'', CHR ''<'', CHR ''`'', LF, CR, CHR ''('', CHR '')'']"

definition isShellCommentStart :: "char option \<Rightarrow> char \<Rightarrow> bool" where
  "isShellCommentStart prev c \<longleftrightarrow> c = CHR ''#'' \<and> (case prev of None \<Rightarrow> True | Some p \<Rightarrow> js_ws p)"

text \<open>A delimiter after its opening quote: the delimiter, what was read and what is left.\<close>

fun quoted_delimiter :: "char \<Rightarrow> string \<Rightarrow> string \<Rightarrow> string \<Rightarrow> (string \<times> string \<times> string) option" where
  "quoted_delimiter q delim seen [] = None"
| "quoted_delimiter q delim seen (c # s) =
     (if is_newline c then None
      else if q = DQ \<and> c = BSLASH \<and> s \<noteq> []
        then (case s of [] \<Rightarrow> None | d # s' \<Rightarrow> quoted_delimiter q (delim @ [d]) (seen @ [c, d]) s')
      else if c = q then Some (delim, seen @ [c], s)
      else quoted_delimiter q (delim @ [c]) (seen @ [c]) s)"

definition delimiter_end :: "char \<Rightarrow> bool" where
  "delimiter_end c \<longleftrightarrow> js_ws c \<or> c \<in> set [CHR ''|'', CHR ''&'', CHR '';'', CHR ''<'', CHR ''>'']"

definition parseHeredocDelimiter :: "string \<Rightarrow> (string \<times> bool \<times> string \<times> string) option" where
  "parseHeredocDelimiter source =
     (let blanks = takeWhile (\<lambda>c. c = CHR '' '' \<or> c = TAB) source;
          rest = dropWhile (\<lambda>c. c = CHR '' '' \<or> c = TAB) source
      in case rest of
        [] \<Rightarrow> None
      | c # s \<Rightarrow>
          (if c = SQ \<or> c = DQ then
             (case quoted_delimiter c [] [c] s of
               None \<Rightarrow> None
             | Some (delim, seen, left) \<Rightarrow> Some (delim, True, blanks @ seen, left))
           else
             (let delim = takeWhile (\<lambda>c. \<not> delimiter_end c) rest
              in if delim = [] then None
                 else Some (delim, False, blanks @ delim, dropWhile (\<lambda>c. \<not> delimiter_end c) rest))))"

text \<open>\<open>line\<close> in reverse up to a position decides whether the character there is escaped.\<close>

definition isEscapedInHeredocLine :: "string \<Rightarrow> bool" where
  "isEscapedInHeredocLine before_rev \<longleftrightarrow> odd (length (takeWhile (\<lambda>c. c = BSLASH) before_rev))"

fun heredoc_expansion :: "string \<Rightarrow> string \<Rightarrow> bool" where
  "heredoc_expansion before_rev [] \<longleftrightarrow> False"
| "heredoc_expansion before_rev (c # s) \<longleftrightarrow>
     \<not> isEscapedInHeredocLine before_rev \<and>
       (c = CHR ''`'' \<or> c = CHR ''$'' \<and> (case s of [] \<Rightarrow> False | d # _ \<Rightarrow> d = CHR ''('' \<or> d = CHR ''{'')) \<or>
     heredoc_expansion (c # before_rev) s"

definition hasUnquotedHeredocExpansionToken :: "string \<Rightarrow> bool" where
  "hasUnquotedHeredocExpansionToken line = heredoc_expansion [] line"

definition heredoc_line :: "heredoc_spec \<Rightarrow> string \<Rightarrow> string" where
  "heredoc_line h line = (if hd_stripTabs h then dropWhile (\<lambda>c. c = TAB) line else line)"

text \<open>The variables of the loop; \<open>pl_body\<close> is \<open>heredocLine\<close> while \<open>inHeredocBody\<close> holds.\<close>

record pipe_state =
  pl_segments :: "string list"
  pl_buf :: string
  pl_empty :: bool
  pl_pending :: "heredoc_spec list"
  pl_body :: "string option"

definition pl_add :: "string \<Rightarrow> pipe_state \<Rightarrow> pipe_state" where
  "pl_add cs st = st\<lparr>pl_buf := pl_buf st @ cs, pl_empty := False\<rparr>"

definition pl_push :: "pipe_state \<Rightarrow> pipe_state" where
  "pl_push st = st\<lparr>pl_segments := (if js_trim (pl_buf st) = [] then pl_segments st else pl_segments st @ [js_trim (pl_buf st)]),
     pl_buf := []\<rparr>"

text \<open>The end of a line of a heredoc.\<close>

definition heredoc_newline :: "pipe_state \<Rightarrow> string \<Rightarrow> shell_reason + pipe_state" where
  "heredoc_newline st line = (case pl_pending st of
     [] \<Rightarrow> Inr (st\<lparr>pl_body := None\<rparr>)
   | h # hs \<Rightarrow>
       (if heredoc_line h line = hd_delimiter h
        then Inr (st\<lparr>pl_pending := hs, pl_body := (if hs = [] then None else Some [])\<rparr>)
        else if \<not> hd_quoted h \<and> hasUnquotedHeredocExpansionToken line then Inl HeredocSubstitution
        else Inr (st\<lparr>pl_body := Some []\<rparr>)))"

definition drop_lf :: "char \<Rightarrow> string \<Rightarrow> char \<times> string" where
  "drop_lf c s = (case s of d # s' \<Rightarrow> if c = CR \<and> d = LF then (d, s') else (c, s) | [] \<Rightarrow> (c, s))"

text \<open>\<open><<\<close> has been read: the heredoc it opens, if a delimiter follows, and what is left.\<close>

definition open_heredoc :: "pipe_state \<Rightarrow> string \<Rightarrow> pipe_state \<times> string \<times> string" where
  "open_heredoc st s =
     (let dash = (case s of c # _ \<Rightarrow> c = CHR ''-'' | [] \<Rightarrow> False);
          st = pl_add (if dash then ''<<-'' else ''<<'') st
      in case parseHeredocDelimiter (if dash then tl s else s) of
        None \<Rightarrow> (st, ''<'', s)
      | Some (delim, quoted, seen, left) \<Rightarrow>
          (st\<lparr>pl_pending := pl_pending st @ [\<lparr>hd_delimiter = delim, hd_stripTabs = dash, hd_quoted = quoted\<rparr>],
              pl_buf := pl_buf st @ seen\<rparr>, seen, left))"

lemma length_quoted_delimiter: "quoted_delimiter q d seen s = Some (d', seen', left) \<Longrightarrow> length left \<le> length s"
  by (induction q d seen s rule: quoted_delimiter.induct) (auto split: if_splits list.splits)

lemma length_parseHeredocDelimiter: "parseHeredocDelimiter s = Some (d, q, seen, left) \<Longrightarrow> length left \<le> length s"
proof -
  let ?rest = "dropWhile (\<lambda>c. c = CHR '' '' \<or> c = TAB) s"
  assume "parseHeredocDelimiter s = Some (d, q, seen, left)"
  then have "length left \<le> length ?rest"
    by (cases ?rest) (auto simp: parseHeredocDelimiter_def Let_def dest!: length_quoted_delimiter
        intro!: le_SucI length_dropWhile_le split: if_splits option.splits)
  then show ?thesis using length_dropWhile_le le_trans by blast
qed

lemma length_open_heredoc: "(st', seen, left) = open_heredoc st s \<Longrightarrow> length left \<le> length s"
  by (auto simp: open_heredoc_def Let_def dest!: length_parseHeredocDelimiter split: option.splits if_splits list.splits)

lemma length_drop_lf: "(p, s') = drop_lf c s \<Longrightarrow> length s' \<le> length s"
  by (auto simp: drop_lf_def split: list.splits if_splits)

text \<open>The loop ends at the end of the command or at a comment.\<close>

function pipe_loop :: "lex_mode \<Rightarrow> char option \<Rightarrow> pipe_state \<Rightarrow> string \<Rightarrow> shell_reason + lex_mode \<times> pipe_state" where
  "pipe_loop m prev st [] = Inr (m, st)"
| "pipe_loop m prev st (c # s) =
     (case pl_body st of
       Some line \<Rightarrow>
         (if is_newline c then
            (case heredoc_newline st line of
              Inl e \<Rightarrow> Inl e
            | Inr st' \<Rightarrow> (case drop_lf c s of (p, s') \<Rightarrow> pipe_loop m (Some p) st' s'))
          else pipe_loop m (Some c) (st\<lparr>pl_body := Some (line @ [c])\<rparr>) s)
     | None \<Rightarrow>
         (case m of
           Escaped \<Rightarrow> pipe_loop Plain (Some c) (pl_add [c] st) s
         | InSingle \<Rightarrow> pipe_loop (if c = SQ then Plain else InSingle) (Some c) (pl_add [c] st) s
         | InDouble \<Rightarrow>
             (if c = BSLASH \<and> (case s of [] \<Rightarrow> False | d # _ \<Rightarrow> is_newline d) then Inl (UnsupportedToken ''newline'')
              else if c = BSLASH \<and> (case s of [] \<Rightarrow> False | d # _ \<Rightarrow> double_quote_escape d)
                then pipe_loop InDouble (Some (hd s)) (pl_add [c, hd s] st) (tl s)
              else if c = CHR ''$'' \<and> (case s of [] \<Rightarrow> False | d # _ \<Rightarrow> d = CHR ''('') then Inl (UnsupportedToken ''$()'')
              else if c = CHR ''`'' then Inl (UnsupportedToken ''`'')
              else if is_newline c then Inl (UnsupportedToken ''newline'')
              else pipe_loop (if c = DQ then Plain else InDouble) (Some c) (pl_add [c] st) s)
         | Plain \<Rightarrow>
             (if c = BSLASH then pipe_loop Escaped (Some c) (pl_add [c] st) s
              else if c = SQ then pipe_loop InSingle (Some c) (pl_add [c] st) s
              else if c = DQ then pipe_loop InDouble (Some c) (pl_add [c] st) s
              else if isShellCommentStart prev c then Inr (m, st)
              else if is_newline c \<and> pl_pending st \<noteq> []
                then (case drop_lf c s of (p, s') \<Rightarrow> pipe_loop Plain (Some p) (st\<lparr>pl_body := Some []\<rparr>) s')
              else if c = CHR ''|'' \<and> (case s of [] \<Rightarrow> False | d # _ \<Rightarrow> d = CHR ''|'') then Inl (UnsupportedToken ''||'')
              else if c = CHR ''|'' \<and> (case s of [] \<Rightarrow> False | d # _ \<Rightarrow> d = CHR ''&'') then Inl (UnsupportedToken ''|&'')
              else if c = CHR ''|'' then pipe_loop Plain (Some c) (pl_push (st\<lparr>pl_empty := True\<rparr>)) s
              else if c = CHR ''&'' \<or> c = CHR '';'' then Inl (UnsupportedToken [c])
              else if c = CHR ''<'' \<and> (case s of [] \<Rightarrow> False | d # _ \<Rightarrow> d = CHR ''<'')
                then (case open_heredoc st (tl s) of (st', seen, left) \<Rightarrow> pipe_loop Plain (Some (last seen)) st' left)
              else if disallowed_pipeline_token c then Inl (UnsupportedToken [c])
              else if c = CHR ''$'' \<and> (case s of [] \<Rightarrow> False | d # _ \<Rightarrow> d = CHR ''('') then Inl (UnsupportedToken ''$()'')
              else pipe_loop Plain (Some c) (pl_add [c] st) s)))"
  by pat_completeness auto

termination
  by (relation "measure (\<lambda>(m, prev, st, s). length s)")
    (auto simp: le_imp_less_Suc dest!: length_open_heredoc length_drop_lf)

text \<open>After the loop: a last line that ends the heredoc needs no newline.\<close>

definition close_heredoc :: "pipe_state \<Rightarrow> pipe_state" where
  "close_heredoc st = (case (pl_body st, pl_pending st) of
     (Some line, h # hs) \<Rightarrow>
       (if heredoc_line h line = hd_delimiter h
        then st\<lparr>pl_pending := hs, pl_body := (if hs = [] then None else Some line)\<rparr> else st)
   | _ \<Rightarrow> st)"

definition pipe_finish :: "lex_mode \<Rightarrow> pipe_state \<Rightarrow> shell_reason + string list" where
  "pipe_finish m st =
     (let st = close_heredoc st
      in if pl_pending st \<noteq> [] \<or> pl_body st \<noteq> None then Inl UnterminatedHeredoc
         else if m \<noteq> Plain then Inl UnterminatedQuote
         else (let st = pl_push st
               in if pl_segments st = [] then Inl EmptyCommand
                  else if pl_empty st then Inl EmptyPipelineSegment
                  else Inr (pl_segments st)))"

definition pipe_start :: pipe_state where
  "pipe_start = \<lparr>pl_segments = [], pl_buf = [], pl_empty = False, pl_pending = [], pl_body = None\<rparr>"

definition splitShellPipeline :: "string \<Rightarrow> shell_reason + string list" where
  "splitShellPipeline command = (case pipe_loop Plain None pipe_start command of
     Inl e \<Rightarrow> Inl e
   | Inr (m, st) \<Rightarrow> pipe_finish m st)"

subsection \<open>Splitting a chain of commands\<close>

datatype chain_op = OpAnd | OpOr | OpSeq

type_synonym chain_part = "string \<times> chain_op option"

text \<open>The variables of the loop: the parts, the buffer, \<open>foundChain\<close> and \<open>invalidChain\<close>.\<close>

record chain_state =
  ch_parts :: "chain_part list"
  ch_buf :: string
  ch_found :: bool
  ch_invalid :: bool

definition ch_add :: "string \<Rightarrow> chain_state \<Rightarrow> chain_state" where
  "ch_add cs st = st\<lparr>ch_buf := ch_buf st @ cs\<rparr>"

definition ch_push :: "chain_op \<Rightarrow> chain_state \<Rightarrow> chain_state" where
  "ch_push op st =
     (let part = js_trim (ch_buf st)
      in if part = [] then st\<lparr>ch_buf := [], ch_found := True, ch_invalid := True\<rparr>
         else st\<lparr>ch_parts := ch_parts st @ [(part, Some op)], ch_buf := [], ch_found := True\<rparr>)"

text \<open>The loop ends at the end of the command, at a comment or at a line continuation in double quotes.\<close>

fun chain_loop :: "lex_mode \<Rightarrow> char option \<Rightarrow> chain_state \<Rightarrow> string \<Rightarrow> chain_state" where
  "chain_loop m prev st [] = st"
| "chain_loop Escaped prev st (c # s) = chain_loop Plain (Some c) (ch_add [c] st) s"
| "chain_loop InSingle prev st (c # s) = chain_loop (if c = SQ then Plain else InSingle) (Some c) (ch_add [c] st) s"
| "chain_loop InDouble prev st (c # s) =
     (if c = BSLASH \<and> (case s of [] \<Rightarrow> False | d # _ \<Rightarrow> is_newline d) then st\<lparr>ch_invalid := True\<rparr>
      else if c = BSLASH \<and> (case s of [] \<Rightarrow> False | d # _ \<Rightarrow> double_quote_escape d)
        then chain_loop InDouble (Some (hd s)) (ch_add [c, hd s] st) (tl s)
      else chain_loop (if c = DQ then Plain else InDouble) (Some c) (ch_add [c] st) s)"
| "chain_loop Plain prev st (c # s) =
     (if c = BSLASH then chain_loop Escaped (Some c) (ch_add [c] st) s
      else if c = SQ then chain_loop InSingle (Some c) (ch_add [c] st) s
      else if c = DQ then chain_loop InDouble (Some c) (ch_add [c] st) s
      else if isShellCommentStart prev c then st
      else if c = CHR ''&'' \<and> (case s of [] \<Rightarrow> False | d # _ \<Rightarrow> d = CHR ''&'')
        then chain_loop Plain (Some (hd s)) (ch_push OpAnd st) (tl s)
      else if c = CHR ''|'' \<and> (case s of [] \<Rightarrow> False | d # _ \<Rightarrow> d = CHR ''|'')
        then chain_loop Plain (Some (hd s)) (ch_push OpOr st) (tl s)
      else if c = CHR '';'' then chain_loop Plain (Some c) (ch_push OpSeq st) s
      else chain_loop Plain (Some c) (ch_add [c] st) s)"

definition chain_start :: chain_state where
  "chain_start = \<lparr>ch_parts = [], ch_buf = [], ch_found = False, ch_invalid = False\<rparr>"

definition chain_finish :: "chain_state \<Rightarrow> chain_part list option" where
  "chain_finish st =
     (if \<not> ch_found st \<or> js_trim (ch_buf st) = [] \<or> ch_invalid st then None
      else Some (ch_parts st @ [(js_trim (ch_buf st), None)]))"

definition splitCommandChainWithOperators :: "string \<Rightarrow> chain_part list option" where
  "splitCommandChainWithOperators command = chain_finish (chain_loop Plain None chain_start command)"

definition splitCommandChain :: "string \<Rightarrow> string list option" where
  "splitCommandChain command = map_option (map fst) (splitCommandChainWithOperators command)"

subsection \<open>Windows command lines\<close>

definition windows_unsupported :: "char \<Rightarrow> bool" where
  "windows_unsupported c \<longleftrightarrow>
     c \<in> set [CHR ''&'', CHR ''|'', CHR ''<'', CHR ''>'', CHR ''^'', CHR ''('', CHR '')'', CHR ''%'', CHR ''!'', CHR ''`'', LF, CR]"

definition windows_always_unsafe :: "char \<Rightarrow> bool" where
  "windows_always_unsafe c \<longleftrightarrow> c \<in> set [LF, CR, CHR ''%'', CHR ''`'']"

text \<open>The characters after which \<open>$\<close> is expanded: \<open>[A-Za-z_{(?$]\<close>.\<close>

definition dollar_expands :: "char \<Rightarrow> bool" where
  "dollar_expands c \<longleftrightarrow> is_lower_alpha c \<or> is_upper_alpha c \<or> c \<in> set [CHR ''_'', CHR ''{'', CHR ''('', CHR ''?'', CHR ''$'']"

fun windows_unsupported_loop :: "bool \<Rightarrow> string \<Rightarrow> string option" where
  "windows_unsupported_loop inDouble [] = None"
| "windows_unsupported_loop inDouble (c # s) =
     (if c = DQ then windows_unsupported_loop (\<not> inDouble) s
      else if c = CHR ''$'' then
        (if (case s of [] \<Rightarrow> False | d # _ \<Rightarrow> dollar_expands d) then Some ''$'' else windows_unsupported_loop inDouble s)
      else if windows_unsupported c \<and> \<not> (inDouble \<and> \<not> windows_always_unsafe c) then
        (if is_newline c then Some ''newline'' else Some [c])
      else windows_unsupported_loop inDouble s)"

definition findWindowsUnsupportedToken :: "string \<Rightarrow> string option" where
  "findWindowsUnsupportedToken command = windows_unsupported_loop False command"

definition push_quoted :: "string \<Rightarrow> bool \<Rightarrow> string list \<Rightarrow> string list" where
  "push_quoted buf wasQuoted tokens = (if buf \<noteq> [] \<or> wasQuoted then tokens @ [buf] else tokens)"

text \<open>The first argument is never \<open>Escaped\<close>.\<close>

fun windows_args :: "lex_mode \<Rightarrow> string \<Rightarrow> bool \<Rightarrow> string list \<Rightarrow> string \<Rightarrow> string list option" where
  "windows_args m buf wasQuoted tokens [] =
     (if m = InDouble \<or> m = InSingle then None
      else (let tokens = push_quoted buf wasQuoted tokens in if tokens = [] then None else Some tokens))"
| "windows_args m buf wasQuoted tokens (c # s) =
     (if c = DQ \<and> m \<noteq> InSingle then
        (if m = InDouble then windows_args Plain buf wasQuoted tokens s else windows_args InDouble buf True tokens s)
      else if c = SQ \<and> m \<noteq> InDouble then
        (if m = InSingle then
           (case s of
             d # s' \<Rightarrow> if d = SQ then windows_args InSingle (buf @ [SQ]) wasQuoted tokens s' else windows_args Plain buf wasQuoted tokens s
           | [] \<Rightarrow> windows_args Plain buf wasQuoted tokens s)
         else windows_args InSingle buf True tokens s)
      else if m \<noteq> InDouble \<and> m \<noteq> InSingle \<and> js_ws c then windows_args m [] False (push_quoted buf wasQuoted tokens) s
      else windows_args m (buf @ [c]) wasQuoted tokens s)"

definition tokenizeWindowsSegment :: "string \<Rightarrow> string list option" where
  "tokenizeWindowsSegment segment = windows_args Plain [] False [] segment"

text \<open>The expressions of \<open>stripWindowsShellWrapperOnce\<close>, under the flags \<open>i\<close> and \<open>s\<close>.\<close>

definition ws_plus :: matcher where
  "ws_plus = rx_plus (rx_char js_ws)"

definition ps_quoted :: "char \<Rightarrow> matcher" where
  "ps_quoted q = rx_seqs [rx_char (\<lambda>c. c = q), rx_star (rx_char (\<lambda>c. c \<noteq> q)),
     rx_star (rx_seqs [rx_lit [q, q], rx_star (rx_char (\<lambda>c. c \<noteq> q))]), rx_char (\<lambda>c. c = q)]"

definition ps_flag :: matcher where
  "ps_flag = rx_seqs [rx_char (\<lambda>c. c = CHR ''-''),
     rx_not (rx_alts [rx_seqs [rx_lit_i ''c'', rx_opt (rx_lit_i ''ommand''), rx_word_end],
                      rx_seqs [rx_lit_i ''-command'', rx_word_end]]),
     rx_plus (rx_char is_word),
     rx_opt (rx_seqs [ws_plus, rx_not (rx_char (\<lambda>c. c = CHR ''-'')),
       rx_alts [ps_quoted DQ, ps_quoted SQ, rx_plus (rx_char (\<lambda>c. \<not> js_ws c))]]),
     ws_plus]"

definition ps_invocation :: matcher where
  "ps_invocation = rx_seqs [rx_alts [rx_lit_i ''powershell'', rx_lit_i ''pwsh''], rx_opt (rx_lit_i ''.exe''), ws_plus,
     rx_star ps_flag, rx_alts [rx_lit_i ''-command'', rx_lit_i ''-c'', rx_lit_i ''--command''], ws_plus]"

definition quoted_payload :: "char \<Rightarrow> string \<Rightarrow> bool" where
  "quoted_payload q r \<longleftrightarrow> 3 \<le> length r \<and> hd r = q \<and> last r = q"

fun undouble :: "char \<Rightarrow> string \<Rightarrow> string" where
  "undouble q (a # b # s) = (if a = q \<and> b = q then q # undouble q s else a # undouble q (b # s))"
| "undouble q s = s"

definition stripWindowsShellWrapperOnce :: "string \<Rightarrow> string" where
  "stripWindowsShellWrapperOnce command =
     (case List.find (\<lambda>r. r \<noteq> []) (rx_seqs [rx_char (\<lambda>c. c = CHR ''&''), ws_plus] command) of
        Some r \<Rightarrow> r
      | None \<Rightarrow>
     (case List.find (quoted_payload DQ) (ps_invocation command) of
        Some r \<Rightarrow> undouble DQ (butlast (tl r))
      | None \<Rightarrow>
     (case List.find (quoted_payload SQ) (ps_invocation command) of
        Some r \<Rightarrow> undouble SQ (butlast (tl r))
      | None \<Rightarrow>
     (case List.find (\<lambda>r. r \<noteq> []) (ps_invocation command) of
        Some r \<Rightarrow> r
      | None \<Rightarrow> command))))"

fun strip_wrappers :: "nat \<Rightarrow> string \<Rightarrow> string" where
  "strip_wrappers 0 result = result"
| "strip_wrappers (Suc n) result =
     (let stripped = stripWindowsShellWrapperOnce (js_trim result)
      in if stripped = result then result else strip_wrappers n stripped)"

definition stripWindowsShellWrapper :: "string \<Rightarrow> string" where
  "stripWindowsShellWrapper command = strip_wrappers 5 command"

subsection \<open>Writing words\<close>

definition shellEscapeSingleArg :: "string \<Rightarrow> string" where
  "shellEscapeSingleArg v =
     [SQ] @ concat (map (\<lambda>c. if c = SQ then [SQ, DQ, SQ, DQ, SQ] else [c]) v) @ [SQ]"

fun windows_unsafe_meta :: "string \<Rightarrow> bool" where
  "windows_unsafe_meta [] \<longleftrightarrow> False"
| "windows_unsafe_meta (c # s) \<longleftrightarrow>
     c = CHR ''%'' \<or> c = CHR ''`'' \<or> c = CHR ''$'' \<and> (case s of [] \<Rightarrow> False | d # _ \<Rightarrow> dollar_expands d) \<or>
     windows_unsafe_meta s"

definition windows_plain_char :: "char \<Rightarrow> bool" where
  "windows_plain_char c \<longleftrightarrow> is_digit c \<or> is_lower_alpha c \<or> is_upper_alpha c \<or>
     c \<in> set [CHR ''_'', CHR ''.'', CHR ''/'', CHR '':'', CHR ''~'', BSLASH, CHR ''='', CHR ''-'']"

definition windowsEscapeArg :: "string \<Rightarrow> string option" where
  "windowsEscapeArg v =
     (if v = [] then Some [DQ, DQ]
      else if windows_unsafe_meta v then None
      else if list_all windows_plain_char v then Some v
      else Some ([DQ] @ concat (map (\<lambda>c. if c = DQ then [DQ, DQ] else [c]) v) @ [DQ]))"

fun renderWindowsQuotedArgv :: "string list \<Rightarrow> shell_reason + string list" where
  "renderWindowsQuotedArgv [] = Inr []"
| "renderWindowsQuotedArgv (t # ts) = (case windowsEscapeArg t of
     None \<Rightarrow> Inl (UnsafeWindowsToken t)
   | Some e \<Rightarrow> map_sum id ((#) e) (renderWindowsQuotedArgv ts))"

definition isWindowsPlatform :: "string option \<Rightarrow> bool" where
  "isWindowsPlatform platform \<longleftrightarrow> js_starts_with (normalizeLowercaseStringOrEmpty (js_opt platform)) ''win''"

text \<open>The rendering of an argument vector for a platform.\<close>

definition quoted_argv :: "string list \<Rightarrow> string option \<Rightarrow> shell_reason + string" where
  "quoted_argv argv platform =
     (if isWindowsPlatform platform then map_sum id (js_join '' '') (renderWindowsQuotedArgv argv)
      else Inr (js_join '' '' (map shellEscapeSingleArg argv)))"

text \<open>The loops are unfolded where a proof asks for it.\<close>

declare shell_args.simps [simp del] pipe_loop.simps [simp del] chain_loop.simps [simp del] windows_args.simps [simp del]

end
