(* ===== verification/Exec_Env.thy ===== *)
theory Exec_Env
  imports Js_Map Shell_Lexer
begin

text \<open>
  What the execution policy asks of the host: the runtime's \<open>path\<close>, \<open>fs\<close>, \<open>os\<close> and \<open>crypto\<close> modules
  are the fields of \<open>exec_env\<close>; on them, the home directory (src/brain/src/infra/home-dir.ts), the search
  for an executable (infra/executable-path.ts) and the names of executables (infra/exec-wrapper-tokens.ts).

  \<open>xe_resolve base p\<close> is \<open>path.resolve(base, p)\<close>, and \<open>path.resolve(p)\<close> is that at the working directory.
  \<open>xe_regex p\<close> is the test of \<open>new RegExp(p)\<close>, absent when the constructor throws.
\<close>

type_synonym process_env = "(string, string) js_map"

record exec_env =
  xe_platform :: string
  xe_processEnv :: process_env
  xe_homedir :: "string option"
  xe_cwd :: string
  xe_posixBasename :: "string \<Rightarrow> string"
  xe_win32Basename :: "string \<Rightarrow> string"
  xe_isAbsolute :: "string \<Rightarrow> bool"
  xe_resolve :: "string \<Rightarrow> string \<Rightarrow> string"
  xe_join :: "string \<Rightarrow> string \<Rightarrow> string"
  xe_dirname :: "string \<Rightarrow> string"
  xe_extname :: "string \<Rightarrow> string"
  xe_delimiter :: char
  xe_isFile :: "string \<Rightarrow> bool"
  xe_canExecute :: "string \<Rightarrow> bool"
  xe_realpath :: "string \<Rightarrow> string option"
  xe_regex :: "string \<Rightarrow> (string \<Rightarrow> bool) option"
  xe_sha256 :: "string \<Rightarrow> string"

definition on_win32 :: "exec_env \<Rightarrow> bool" where
  "on_win32 env \<longleftrightarrow> xe_platform env = ''win32''"

definition path_basename :: "exec_env \<Rightarrow> string \<Rightarrow> string" where
  "path_basename env p = (if on_win32 env then xe_win32Basename env p else xe_posixBasename env p)"

definition path_resolve :: "exec_env \<Rightarrow> string \<Rightarrow> string" where
  "path_resolve env p = xe_resolve env (xe_cwd env) p"

definition has_separator :: "string \<Rightarrow> bool" where
  "has_separator p \<longleftrightarrow> CHR ''/'' \<in> set p \<or> BSLASH \<in> set p"

definition backslashes_to_slashes :: "string \<Rightarrow> string" where
  "backslashes_to_slashes = map (\<lambda>c. if c = BSLASH then CHR ''/'' else c)"

definition slashes_to_backslashes :: "string \<Rightarrow> string" where
  "slashes_to_backslashes = map (\<lambda>c. if c = CHR ''/'' then BSLASH else c)"

subsection \<open>The home directory\<close>

definition normalize_home :: "string option \<Rightarrow> string option" where
  "normalize_home v = (case normalizeOptionalString (js_opt v) of
     None \<Rightarrow> None
   | Some t \<Rightarrow> if t = ''undefined'' \<or> t = ''null'' then None else Some t)"

definition resolveRawOsHomeDir :: "exec_env \<Rightarrow> process_env \<Rightarrow> string option" where
  "resolveRawOsHomeDir env penv =
     nullish_opt (normalize_home (jm_get penv ''HOME''))
       (nullish_opt (normalize_home (jm_get penv ''USERPROFILE'')) (normalize_home (xe_homedir env)))"

text \<open>The replacement text of \<open>String.replace\<close> for a match at the start: \<open>$$\<close>, \<open>$&\<close>, the text before and
  the text after the match.\<close>

fun js_replacement :: "string \<Rightarrow> string \<Rightarrow> string \<Rightarrow> string" where
  "js_replacement matched after (a # b # s) =
     (if a = CHR ''$'' \<and> b = CHR ''$'' then CHR ''$'' # js_replacement matched after s
      else if a = CHR ''$'' \<and> b = CHR ''&'' then matched @ js_replacement matched after s
      else if a = CHR ''$'' \<and> b = CHR ''`'' then js_replacement matched after s
      else if a = CHR ''$'' \<and> b = SQ then after @ js_replacement matched after s
      else a # js_replacement matched after (b # s))"
| "js_replacement matched after s = s"

definition replace_tilde :: "string \<Rightarrow> string \<Rightarrow> string" where
  "replace_tilde input home = (case input of
     c # s \<Rightarrow> if c = CHR ''~'' \<and> (s = [] \<or> hd s = CHR ''/'' \<or> hd s = BSLASH) then js_replacement ''~'' s home @ s else input
   | [] \<Rightarrow> input)"

definition resolveRawHomeDir :: "exec_env \<Rightarrow> process_env \<Rightarrow> string option" where
  "resolveRawHomeDir env penv = (case normalize_home (jm_get penv ''OPENCLAW_HOME'') of
     None \<Rightarrow> resolveRawOsHomeDir env penv
   | Some explicitHome \<Rightarrow>
       (if explicitHome = ''~'' \<or> js_starts_with explicitHome ''~/'' \<or> js_starts_with explicitHome [CHR ''~'', BSLASH]
        then map_option (replace_tilde explicitHome) (resolveRawOsHomeDir env penv)
        else Some explicitHome))"

definition resolveEffectiveHomeDir :: "exec_env \<Rightarrow> process_env \<Rightarrow> string option" where
  "resolveEffectiveHomeDir env penv = map_option (path_resolve env) (resolveRawHomeDir env penv)"

definition expandHomePrefix :: "exec_env \<Rightarrow> process_env option \<Rightarrow> string \<Rightarrow> string" where
  "expandHomePrefix env penv input =
     (if \<not> js_starts_with input ''~'' then input
      else (case resolveEffectiveHomeDir env (nullish penv (xe_processEnv env)) of
        None \<Rightarrow> input
      | Some home \<Rightarrow> if home = [] then input else replace_tilde input home))"

subsection \<open>Searching for an executable\<close>

definition isDriveLessWindowsRootedPath :: "exec_env \<Rightarrow> string \<Rightarrow> bool" where
  "isDriveLessWindowsRootedPath env v \<longleftrightarrow> on_win32 env \<and>
     (case v of a # b # _ \<Rightarrow> a = CHR '':'' \<and> (b = BSLASH \<or> b = CHR ''/'') | _ \<Rightarrow> False)"

definition cwd_base :: "exec_env \<Rightarrow> string option \<Rightarrow> string" where
  "cwd_base env cwd = str_or (js_trim (nullish cwd [])) (xe_cwd env)"

definition resolveExecutablePathCandidate ::
  "exec_env \<Rightarrow> string \<Rightarrow> string option \<Rightarrow> process_env option \<Rightarrow> bool \<Rightarrow> string option" where
  "resolveExecutablePathCandidate env rawExecutable cwd penv requirePathSeparator =
     (let expanded = expandHomePrefix env penv rawExecutable
      in if isDriveLessWindowsRootedPath env expanded then None
         else if requirePathSeparator \<and> \<not> has_separator expanded then None
         else if \<not> has_separator expanded then Some expanded
         else if xe_isAbsolute env expanded then Some expanded
         else Some (xe_resolve env (cwd_base env cwd) expanded))"

definition env_lookup :: "process_env option \<Rightarrow> string \<Rightarrow> string option" where
  "env_lookup penv k = (case penv of None \<Rightarrow> None | Some e \<Rightarrow> jm_get e k)"

definition path_ext_text :: "exec_env \<Rightarrow> process_env option \<Rightarrow> string" where
  "path_ext_text env penv =
     nullish (nullish_opt (env_lookup penv ''PATHEXT'')
       (nullish_opt (env_lookup penv ''Pathext'')
         (nullish_opt (jm_get (xe_processEnv env) ''PATHEXT'') (jm_get (xe_processEnv env) ''Pathext''))))
     ''.EXE;.CMD;.BAT;.COM''"

definition resolveWindowsExecutableExtensions :: "exec_env \<Rightarrow> string \<Rightarrow> process_env option \<Rightarrow> string list" where
  "resolveWindowsExecutableExtensions env executable penv =
     (if \<not> on_win32 env then [[]]
      else if xe_extname env executable \<noteq> [] then [[]]
      else [] # map (\<lambda>e. normalizeLowercaseStringOrEmpty (JString e)) (js_split CHR '';'' (path_ext_text env penv)))"

definition resolveWindowsExecutableExtSet :: "exec_env \<Rightarrow> process_env option \<Rightarrow> string list" where
  "resolveWindowsExecutableExtSet env penv =
     filter (\<lambda>e. e \<noteq> []) (map (\<lambda>e. normalizeLowercaseStringOrEmpty (JString e)) (js_split CHR '';'' (path_ext_text env penv)))"

definition isExecutableFile :: "exec_env \<Rightarrow> string \<Rightarrow> bool" where
  "isExecutableFile env p \<longleftrightarrow> xe_isFile env p \<and>
     (if on_win32 env then
        (let ext = normalizeLowercaseStringOrEmpty (JString (xe_extname env p))
         in ext = [] \<or> ext \<in> set (resolveWindowsExecutableExtSet env None))
      else xe_canExecute env p)"

definition resolveExecutableFromPathEnv :: "exec_env \<Rightarrow> string \<Rightarrow> string \<Rightarrow> process_env option \<Rightarrow> string option" where
  "resolveExecutableFromPathEnv env executable pathEnv penv =
     (let entries = filter (\<lambda>e. e \<noteq> []) (js_split (xe_delimiter env) pathEnv);
          extensions = resolveWindowsExecutableExtensions env executable penv
      in List.find (isExecutableFile env)
           (concat (map (\<lambda>entry. map (\<lambda>ext. xe_join env entry (executable @ ext)) extensions) entries)))"

definition resolveExecutablePath :: "exec_env \<Rightarrow> string \<Rightarrow> string option \<Rightarrow> process_env option \<Rightarrow> string option" where
  "resolveExecutablePath env rawExecutable cwd penv =
     (case resolveExecutablePathCandidate env rawExecutable cwd penv False of
        None \<Rightarrow> None
      | Some candidate \<Rightarrow>
          (if candidate = [] then None
           else if has_separator candidate then (if isExecutableFile env candidate then Some candidate else None)
           else
             (let envPath = nullish (nullish_opt (env_lookup penv ''PATH'') (nullish_opt (env_lookup penv ''Path'')
                    (nullish_opt (jm_get (xe_processEnv env) ''PATH'') (jm_get (xe_processEnv env) ''Path'')))) []
              in resolveExecutableFromPathEnv env candidate envPath penv)))"

subsection \<open>Names of executables\<close>

definition stripWindowsExecutableSuffix :: "string \<Rightarrow> string" where
  "stripWindowsExecutableSuffix v =
     (let n = length v - 4 in
      if 4 \<le> length v \<and> drop n v \<in> set [''.exe'', ''.cmd'', ''.bat'', ''.com''] then take n v else v)"

definition basenameLower :: "exec_env \<Rightarrow> string \<Rightarrow> string" where
  "basenameLower env token =
     (let win = xe_win32Basename env token; posix = xe_posixBasename env token
      in normalizeLowercaseStringOrEmpty (JString (if length win < length posix then win else posix)))"

definition normalizeExecutableToken :: "exec_env \<Rightarrow> string \<Rightarrow> string" where
  "normalizeExecutableToken env token = stripWindowsExecutableSuffix (basenameLower env token)"

end
