(* ===== verification/Exec_Wrappers.thy ===== *)
theory Exec_Wrappers
  imports Exec_Env
begin

text \<open>
  Commands that run other commands: the dispatch wrappers (src/brain/src/infra/
  dispatch-wrapper-resolution.ts), the shells with an inline command (infra/shell-inline-command.ts,
  infra/shell-wrapper-resolution.ts) and the plan that says which command is to be trusted
  (infra/exec-wrapper-trust-plan.ts).

  The optional parameter \<open>platform\<close> is that of the process at every call of the source.
\<close>

subsection \<open>Scanning the options of a wrapper\<close>

datatype scan_directive = ScanContinue | ScanConsumeNext | ScanStop | ScanInvalid

text \<open>The callback \<open>onToken\<close> may keep a state of its own. The result is the index of the command and
  whether an option still expects its value; \<open>None\<close> is an option the wrapper does not know.\<close>

fun scan_tokens ::
  "string list \<Rightarrow> ('s \<Rightarrow> string \<Rightarrow> string \<Rightarrow> 's \<times> scan_directive) \<Rightarrow> 's \<Rightarrow> bool \<Rightarrow> nat \<Rightarrow> string list \<Rightarrow> (nat \<times> bool) option"
  where
  "scan_tokens seps onToken st expects idx [] = Some (idx, expects)"
| "scan_tokens seps onToken st expects idx (t # ts) =
     (let token = js_trim t
      in if token = [] then scan_tokens seps onToken st expects (Suc idx) ts
         else if expects then scan_tokens seps onToken st False (Suc idx) ts
         else if token \<in> set seps then Some (Suc idx, False)
         else (case onToken st token (js_lower token) of
             (st', ScanStop) \<Rightarrow> Some (idx, False)
           | (st', ScanInvalid) \<Rightarrow> None
           | (st', ScanConsumeNext) \<Rightarrow> scan_tokens seps onToken st' True (Suc idx) ts
           | (st', ScanContinue) \<Rightarrow> scan_tokens seps onToken st' False (Suc idx) ts))"

definition scanWrapperInvocation ::
  "string list \<Rightarrow> ('s \<Rightarrow> string \<Rightarrow> string \<Rightarrow> 's \<times> scan_directive) \<Rightarrow> 's \<Rightarrow> (nat \<Rightarrow> string list \<Rightarrow> nat option) \<Rightarrow>
     string list \<Rightarrow> string list option" where
  "scanWrapperInvocation seps onToken st adjust argv =
     (case scan_tokens seps onToken st False 1 (drop 1 argv) of
        None \<Rightarrow> None
      | Some (idx, expects) \<Rightarrow>
          (if expects then None
           else (case adjust idx argv of
             None \<Rightarrow> None
           | Some commandIndex \<Rightarrow> if length argv \<le> commandIndex then None else Some (drop commandIndex argv))))"

definition same_index :: "nat \<Rightarrow> string list \<Rightarrow> nat option" where
  "same_index idx argv = Some idx"

definition stateless :: "(string \<Rightarrow> string \<Rightarrow> scan_directive) \<Rightarrow> unit \<Rightarrow> string \<Rightarrow> string \<Rightarrow> unit \<times> scan_directive" where
  "stateless f st token lower = ((), f token lower)"

definition option_like :: "string \<Rightarrow> bool" where
  "option_like token \<longleftrightarrow> js_starts_with token ''-'' \<and> token \<noteq> ''-''"

text \<open>\<open>token.split("=", 2)[0]\<close>.\<close>

definition flag_of :: "string \<Rightarrow> string" where
  "flag_of token = takeWhile (\<lambda>c. c \<noteq> CHR ''='') token"

definition has_eq :: "string \<Rightarrow> bool" where
  "has_eq token \<longleftrightarrow> CHR ''='' \<in> set token"

definition unwrapDashOptionInvocation ::
  "(string \<Rightarrow> string \<Rightarrow> scan_directive) \<Rightarrow> (nat \<Rightarrow> string list \<Rightarrow> nat option) \<Rightarrow> string list \<Rightarrow> string list option" where
  "unwrapDashOptionInvocation onFlag adjust argv =
     scanWrapperInvocation [''--'']
       (stateless (\<lambda>token lower. if \<not> option_like token then ScanStop else onFlag (flag_of lower) lower)) () adjust argv"

subsection \<open>The wrappers\<close>

definition ENV_OPTIONS_WITH_VALUE :: "string list" where
  "ENV_OPTIONS_WITH_VALUE = [''-u'', ''--unset'', ''-c'', ''--chdir'', ''-s'', ''--split-string'', ''--default-signal'',
     ''--ignore-signal'', ''--block-signal'']"

definition ENV_INLINE_VALUE_PREFIXES :: "string list" where
  "ENV_INLINE_VALUE_PREFIXES = [''-u'', ''-c'', ''-s'', ''--unset='', ''--chdir='', ''--split-string='', ''--default-signal='',
     ''--ignore-signal='', ''--block-signal='']"

definition ENV_FLAG_OPTIONS :: "string list" where
  "ENV_FLAG_OPTIONS = [''-i'', ''--ignore-environment'', ''-0'', ''--null'']"

definition isEnvAssignment :: "string \<Rightarrow> bool" where
  "isEnvAssignment token \<longleftrightarrow> (case token of
     [] \<Rightarrow> False
   | c # s \<Rightarrow> (is_lower_alpha c \<or> is_upper_alpha c \<or> c = CHR ''_'') \<and>
       (case dropWhile is_word s of [] \<Rightarrow> False | d # _ \<Rightarrow> d = CHR ''=''))"

definition hasEnvInlineValuePrefix :: "string \<Rightarrow> bool" where
  "hasEnvInlineValuePrefix lower \<longleftrightarrow> list_ex (js_starts_with lower) ENV_INLINE_VALUE_PREFIXES"

definition unwrapEnvInvocation :: "string list \<Rightarrow> string list option" where
  "unwrapEnvInvocation argv = scanWrapperInvocation [''--'', ''-'']
     (stateless (\<lambda>token lower.
        if isEnvAssignment token then ScanContinue
        else if \<not> option_like token then ScanStop
        else if flag_of lower \<in> set ENV_FLAG_OPTIONS then ScanContinue
        else if flag_of lower \<in> set ENV_OPTIONS_WITH_VALUE then (if has_eq lower then ScanContinue else ScanConsumeNext)
        else if hasEnvInlineValuePrefix lower then ScanContinue
        else ScanInvalid)) () same_index argv"

fun env_modifiers :: "bool \<Rightarrow> string list \<Rightarrow> bool" where
  "env_modifiers expects [] \<longleftrightarrow> False"
| "env_modifiers expects (t # ts) \<longleftrightarrow>
     (let token = js_trim t; lower = js_lower token
      in if token = [] then env_modifiers expects ts
         else if expects then True
         else if token = ''--'' \<or> token = ''-'' then False
         else if isEnvAssignment token then True
         else if \<not> option_like token then False
         else if flag_of lower \<in> set ENV_FLAG_OPTIONS then True
         else if flag_of lower \<in> set ENV_OPTIONS_WITH_VALUE then (if has_eq lower then True else env_modifiers True ts)
         else True)"

definition envInvocationUsesModifiers :: "string list \<Rightarrow> bool" where
  "envInvocationUsesModifiers argv \<longleftrightarrow> env_modifiers False (drop 1 argv)"

definition value_option :: "string \<Rightarrow> scan_directive" where
  "value_option lower = (if has_eq lower then ScanContinue else ScanConsumeNext)"

definition unwrapNiceInvocation :: "string list \<Rightarrow> string list option" where
  "unwrapNiceInvocation = unwrapDashOptionInvocation (\<lambda>flag lower.
     if tl lower \<noteq> [] \<and> list_all is_digit (tl lower) then ScanContinue
     else if flag \<in> set [''-n'', ''--adjustment'', ''--priority''] then
       (if has_eq lower \<or> lower \<noteq> flag then ScanContinue else ScanConsumeNext)
     else if js_starts_with lower ''-n'' \<and> 2 < length lower then ScanContinue
     else ScanInvalid) same_index"

definition unwrapCaffeinateInvocation :: "string list \<Rightarrow> string list option" where
  "unwrapCaffeinateInvocation = unwrapDashOptionInvocation (\<lambda>flag lower.
     if flag \<in> set [''-d'', ''-i'', ''-m'', ''-s'', ''-u''] then ScanContinue
     else if flag \<in> set [''-t'', ''-w''] then (if lower \<noteq> flag \<or> has_eq lower then ScanContinue else ScanConsumeNext)
     else ScanInvalid) same_index"

definition unwrapNohupInvocation :: "string list \<Rightarrow> string list option" where
  "unwrapNohupInvocation argv = scanWrapperInvocation [''--'']
     (stateless (\<lambda>token lower.
        if \<not> option_like token then ScanStop
        else if lower = ''--help'' \<or> lower = ''--version'' then ScanContinue else ScanInvalid)) () same_index argv"

definition unwrapSandboxExecInvocation :: "string list \<Rightarrow> string list option" where
  "unwrapSandboxExecInvocation = unwrapDashOptionInvocation (\<lambda>flag lower.
     if flag \<in> set [''-f'', ''-p'', ''-d''] then (if lower \<noteq> flag \<or> has_eq lower then ScanContinue else ScanConsumeNext)
     else ScanInvalid) same_index"

definition unwrapStdbufInvocation :: "string list \<Rightarrow> string list option" where
  "unwrapStdbufInvocation = unwrapDashOptionInvocation (\<lambda>flag lower.
     if flag \<notin> set [''-i'', ''--input'', ''-o'', ''--output'', ''-e'', ''--error''] then ScanInvalid else value_option lower)
     same_index"

definition TIME_FLAG_OPTIONS :: "string list" where
  "TIME_FLAG_OPTIONS = [''-a'', ''--append'', ''-h'', ''--help'', ''-l'', ''-p'', ''-q'', ''--quiet'', ''-v'', ''--verbose'',
     ''-V'', ''--version'']"

definition unwrapTimeInvocation :: "string list \<Rightarrow> string list option" where
  "unwrapTimeInvocation = unwrapDashOptionInvocation (\<lambda>flag lower.
     if flag \<in> set TIME_FLAG_OPTIONS then ScanContinue
     else if flag \<in> set [''-f'', ''--format'', ''-o'', ''--output''] then value_option lower
     else ScanInvalid) same_index"

definition supportsScriptPositionalCommand :: "exec_env \<Rightarrow> bool" where
  "supportsScriptPositionalCommand env \<longleftrightarrow> xe_platform env = ''darwin'' \<or> xe_platform env = ''freebsd''"

text \<open>The command after the transcript: the second word that is not blank.\<close>

fun second_word :: "bool \<Rightarrow> nat \<Rightarrow> string list \<Rightarrow> nat option" where
  "second_word saw idx [] = None"
| "second_word saw idx (t # ts) =
     (if js_trim t = [] then second_word saw (Suc idx) ts
      else if \<not> saw then second_word True (Suc idx) ts
      else Some idx)"

definition unwrapScriptInvocation :: "exec_env \<Rightarrow> string list \<Rightarrow> string list option" where
  "unwrapScriptInvocation env argv =
     (if \<not> supportsScriptPositionalCommand env then None
      else scanWrapperInvocation [''--'']
        (stateless (\<lambda>token lower.
           if \<not> option_like lower then ScanStop
           else if flag_of token \<in> set [''-F'', ''-t''] then value_option token
           else if flag_of token \<in> set [''-a'', ''-d'', ''-k'', ''-p'', ''-q'', ''-r''] then ScanContinue
           else ScanInvalid)) () (\<lambda>idx argv. second_word False idx (drop idx argv)) argv)"

definition unwrapTimeoutInvocation :: "string list \<Rightarrow> string list option" where
  "unwrapTimeoutInvocation = unwrapDashOptionInvocation (\<lambda>flag lower.
     if flag \<in> set [''--foreground'', ''--preserve-status'', ''-v'', ''--verbose''] then ScanContinue
     else if flag \<in> set [''-k'', ''--kill-after'', ''-s'', ''--signal''] then value_option lower
     else ScanInvalid)
     (\<lambda>idx argv. if Suc idx < length argv then Some (Suc idx) else None)"

definition isKnownArchSelectorToken :: "string \<Rightarrow> bool" where
  "isKnownArchSelectorToken token \<longleftrightarrow> token \<in> set [''-arm64'', ''-arm64e'', ''-i386'', ''-x86_64'', ''-x86_64h'']"

definition isArchSelectorToken :: "string \<Rightarrow> bool" where
  "isArchSelectorToken token \<longleftrightarrow> js_starts_with token ''-'' \<and> tl token \<noteq> [] \<and> list_all is_word (tl token)"

text \<open>The state of the callback is \<open>expectsArchName\<close>.\<close>

definition arch_token :: "bool \<Rightarrow> string \<Rightarrow> string \<Rightarrow> bool \<times> scan_directive" where
  "arch_token expectsArchName token lower =
     (if expectsArchName then (False, if isKnownArchSelectorToken (CHR ''-'' # lower) then ScanContinue else ScanInvalid)
      else if \<not> option_like token then (False, ScanStop)
      else if lower = ''-32'' \<or> lower = ''-64'' then (False, ScanContinue)
      else if lower = ''-arch'' then (True, ScanContinue)
      else if lower \<in> set [''-c'', ''-d'', ''-e'', ''-h''] then (False, ScanInvalid)
      else (False, if isArchSelectorToken token \<and> isKnownArchSelectorToken lower then ScanContinue else ScanInvalid))"

definition unwrapArchInvocation :: "string list \<Rightarrow> string list option" where
  "unwrapArchInvocation argv = scanWrapperInvocation [] arch_token False same_index argv"

definition XCRUN_FLAG_OPTIONS :: "string list" where
  "XCRUN_FLAG_OPTIONS = [''-k'', ''--kill-cache'', ''-l'', ''--log'', ''-n'', ''--no-cache'', ''-r'', ''--run'', ''-v'', ''--verbose'']"

definition unwrapXcrunInvocation :: "string list \<Rightarrow> string list option" where
  "unwrapXcrunInvocation argv = scanWrapperInvocation []
     (stateless (\<lambda>token lower.
        if \<not> option_like token then ScanStop
        else if lower \<in> set XCRUN_FLAG_OPTIONS then ScanContinue else ScanInvalid)) () same_index argv"

definition on_darwin :: "exec_env \<Rightarrow> bool" where
  "on_darwin env \<longleftrightarrow> xe_platform env = ''darwin''"

record dispatch_spec =
  ds_unwrap :: "(string list \<Rightarrow> string list option) option"
  ds_transparent :: "string list \<Rightarrow> bool"

definition transparent_spec :: "(string list \<Rightarrow> string list option) \<Rightarrow> dispatch_spec" where
  "transparent_spec f = \<lparr>ds_unwrap = Some f, ds_transparent = (\<lambda>_. True)\<rparr>"

definition opaque_spec :: dispatch_spec where
  "opaque_spec = \<lparr>ds_unwrap = None, ds_transparent = (\<lambda>_. False)\<rparr>"

definition DISPATCH_WRAPPER_SPECS :: "exec_env \<Rightarrow> (string, dispatch_spec) js_map" where
  "DISPATCH_WRAPPER_SPECS env =
     [(''arch'', \<lparr>ds_unwrap = Some (\<lambda>argv. if on_darwin env then unwrapArchInvocation argv else None),
                 ds_transparent = (\<lambda>_. on_darwin env)\<rparr>),
      (''caffeinate'', transparent_spec unwrapCaffeinateInvocation),
      (''chrt'', opaque_spec),
      (''doas'', opaque_spec),
      (''env'', \<lparr>ds_unwrap = Some unwrapEnvInvocation, ds_transparent = (\<lambda>argv. \<not> envInvocationUsesModifiers argv)\<rparr>),
      (''ionice'', opaque_spec),
      (''nice'', transparent_spec unwrapNiceInvocation),
      (''nohup'', transparent_spec unwrapNohupInvocation),
      (''sandbox-exec'', transparent_spec unwrapSandboxExecInvocation),
      (''script'', transparent_spec (unwrapScriptInvocation env)),
      (''setsid'', opaque_spec),
      (''stdbuf'', transparent_spec unwrapStdbufInvocation),
      (''sudo'', opaque_spec),
      (''taskset'', opaque_spec),
      (''time'', transparent_spec unwrapTimeInvocation),
      (''timeout'', transparent_spec unwrapTimeoutInvocation),
      (''xcrun'', \<lparr>ds_unwrap = Some (\<lambda>argv. if on_darwin env then unwrapXcrunInvocation argv else None),
                  ds_transparent = (\<lambda>_. on_darwin env)\<rparr>)]"

datatype unwrap_result = NotWrapper | BlockedWrapper string | Unwrapped string "string list"

definition isDispatchWrapperExecutable :: "exec_env \<Rightarrow> string \<Rightarrow> bool" where
  "isDispatchWrapperExecutable env token \<longleftrightarrow> jm_get (DISPATCH_WRAPPER_SPECS env) (normalizeExecutableToken env token) \<noteq> None"

definition token0 :: "string list \<Rightarrow> string" where
  "token0 argv = (case argv of [] \<Rightarrow> [] | t # _ \<Rightarrow> js_trim t)"

definition unwrapKnownDispatchWrapperInvocation :: "exec_env \<Rightarrow> string list \<Rightarrow> unwrap_result" where
  "unwrapKnownDispatchWrapperInvocation env argv =
     (if token0 argv = [] then NotWrapper
      else (let wrapper = normalizeExecutableToken env (token0 argv)
        in case jm_get (DISPATCH_WRAPPER_SPECS env) wrapper of
             None \<Rightarrow> NotWrapper
           | Some spec \<Rightarrow> (case ds_unwrap spec of
               None \<Rightarrow> BlockedWrapper wrapper
             | Some unwrap \<Rightarrow> (case unwrap argv of None \<Rightarrow> BlockedWrapper wrapper | Some unwrapped \<Rightarrow> Unwrapped wrapper unwrapped))))"

definition isSemanticDispatchWrapperUsage :: "exec_env \<Rightarrow> string \<Rightarrow> string list \<Rightarrow> bool" where
  "isSemanticDispatchWrapperUsage env wrapper argv \<longleftrightarrow> (case jm_get (DISPATCH_WRAPPER_SPECS env) wrapper of
     None \<Rightarrow> True
   | Some spec \<Rightarrow> ds_unwrap spec = None \<or> \<not> ds_transparent spec argv)"

definition hasDispatchEnvManipulation :: "exec_env \<Rightarrow> string list \<Rightarrow> bool" where
  "hasDispatchEnvManipulation env argv \<longleftrightarrow> (case unwrapKnownDispatchWrapperInvocation env argv of
     Unwrapped wrapper _ \<Rightarrow> wrapper = ''env'' \<and> envInvocationUsesModifiers argv
   | _ \<Rightarrow> False)"

definition MAX_DISPATCH_WRAPPER_DEPTH :: nat where
  "MAX_DISPATCH_WRAPPER_DEPTH = 4"

record dispatch_plan =
  dp_argv :: "string list"
  dp_wrappers :: "string list"
  dp_blocked :: "string option"

definition blocked_overflow :: "unwrap_result \<Rightarrow> string option" where
  "blocked_overflow r = (case r of NotWrapper \<Rightarrow> None | BlockedWrapper w \<Rightarrow> Some w | Unwrapped w _ \<Rightarrow> Some w)"

text \<open>The plan; \<open>dp_blocked\<close> is \<open>blockedWrapper\<close> when \<open>policyBlocked\<close> holds. The first argument counts
  the rounds that are left.\<close>

definition finish_dispatch :: "exec_env \<Rightarrow> nat \<Rightarrow> string list \<Rightarrow> string list \<Rightarrow> dispatch_plan" where
  "finish_dispatch env maxDepth current wrappers =
     \<lparr>dp_argv = current, dp_wrappers = wrappers,
      dp_blocked = (if maxDepth \<le> length wrappers then blocked_overflow (unwrapKnownDispatchWrapperInvocation env current)
                    else None)\<rparr>"

fun dispatch_loop :: "exec_env \<Rightarrow> nat \<Rightarrow> nat \<Rightarrow> string list \<Rightarrow> string list \<Rightarrow> dispatch_plan" where
  "dispatch_loop env 0 maxDepth current wrappers = finish_dispatch env maxDepth current wrappers"
| "dispatch_loop env (Suc n) maxDepth current wrappers =
     (case unwrapKnownDispatchWrapperInvocation env current of
        BlockedWrapper w \<Rightarrow> \<lparr>dp_argv = current, dp_wrappers = wrappers, dp_blocked = Some w\<rparr>
      | NotWrapper \<Rightarrow> finish_dispatch env maxDepth current wrappers
      | Unwrapped w argv \<Rightarrow>
          (if argv = [] then finish_dispatch env maxDepth current wrappers
           else if isSemanticDispatchWrapperUsage env w current
             then \<lparr>dp_argv = current, dp_wrappers = wrappers @ [w], dp_blocked = Some w\<rparr>
           else dispatch_loop env n maxDepth argv (wrappers @ [w])))"

definition resolveDispatchWrapperTrustPlan :: "exec_env \<Rightarrow> nat \<Rightarrow> string list \<Rightarrow> dispatch_plan" where
  "resolveDispatchWrapperTrustPlan env maxDepth argv = dispatch_loop env maxDepth maxDepth argv []"

definition unwrapDispatchWrappersForResolution :: "exec_env \<Rightarrow> string list \<Rightarrow> string list" where
  "unwrapDispatchWrappersForResolution env argv = dp_argv (resolveDispatchWrapperTrustPlan env MAX_DISPATCH_WRAPPER_DEPTH argv)"

subsection \<open>Inline commands\<close>

definition POSIX_INLINE_COMMAND_FLAGS :: "string list" where
  "POSIX_INLINE_COMMAND_FLAGS = [''-lc'', ''-c'', ''--command'']"

definition POWERSHELL_INLINE_COMMAND_FLAGS :: "string list" where
  "POWERSHELL_INLINE_COMMAND_FLAGS =
     [''-c'', ''-command'', ''--command'', ''-f'', ''-file'', ''-encodedcommand'', ''-enc'', ''-e'']"

text \<open>The expression \<open>/^-[^-]*x[^-]*$/i\<close> for a letter \<open>x\<close>.\<close>

definition cluster_with :: "char \<Rightarrow> string \<Rightarrow> bool" where
  "cluster_with x token \<longleftrightarrow> js_starts_with token ''-'' \<and> CHR ''-'' \<notin> set (tl token) \<and> x \<in> set (js_lower (tl token))"

record inline_match =
  im_command :: "string option"
  im_valueTokenIndex :: "nat option"

definition blank_to_none :: "string \<Rightarrow> string option" where
  "blank_to_none s = (if js_trim s = [] then None else Some (js_trim s))"

definition next_token_match :: "nat \<Rightarrow> string list \<Rightarrow> inline_match" where
  "next_token_match i ts = (case ts of
     [] \<Rightarrow> \<lparr>im_command = None, im_valueTokenIndex = None\<rparr>
   | t # _ \<Rightarrow> \<lparr>im_command = blank_to_none t, im_valueTokenIndex = Some (Suc i)\<rparr>)"

fun inline_match_from :: "string list \<Rightarrow> bool \<Rightarrow> nat \<Rightarrow> string list \<Rightarrow> inline_match" where
  "inline_match_from flags allowCombinedC i [] = \<lparr>im_command = None, im_valueTokenIndex = None\<rparr>"
| "inline_match_from flags allowCombinedC i (t # ts) =
     (let token = js_trim t; lower = js_lower token
      in if token = [] then inline_match_from flags allowCombinedC (Suc i) ts
         else if lower = ''--'' then \<lparr>im_command = None, im_valueTokenIndex = None\<rparr>
         else if lower \<in> set flags then next_token_match i ts
         else if allowCombinedC \<and> cluster_with CHR ''c'' token then
           (let rest = js_trim (drop (Suc (length (takeWhile (\<lambda>c. c \<noteq> CHR ''c'') lower))) token)
            in if rest \<noteq> [] then \<lparr>im_command = Some rest, im_valueTokenIndex = Some i\<rparr> else next_token_match i ts)
         else inline_match_from flags allowCombinedC (Suc i) ts)"

definition resolveInlineCommandMatch :: "string list \<Rightarrow> string list \<Rightarrow> bool \<Rightarrow> inline_match" where
  "resolveInlineCommandMatch argv flags allowCombinedC = inline_match_from flags allowCombinedC 1 (drop 1 argv)"

subsection \<open>Shells\<close>

definition POSIX_SHELL_WRAPPER_NAMES :: "string list" where
  "POSIX_SHELL_WRAPPER_NAMES = [''ash'', ''bash'', ''dash'', ''fish'', ''ksh'', ''sh'', ''zsh'']"

definition POWERSHELL_WRAPPER_NAMES :: "string list" where
  "POWERSHELL_WRAPPER_NAMES = [''powershell'', ''pwsh'']"

datatype shell_wrapper_kind = PosixShell | CmdShell | PowerShell

definition findShellWrapperSpec :: "string \<Rightarrow> shell_wrapper_kind option" where
  "findShellWrapperSpec base =
     (if base \<in> set POSIX_SHELL_WRAPPER_NAMES then Some PosixShell
      else if base = ''cmd'' then Some CmdShell
      else if base \<in> set POWERSHELL_WRAPPER_NAMES then Some PowerShell
      else None)"

definition isShellWrapperExecutable :: "exec_env \<Rightarrow> string \<Rightarrow> bool" where
  "isShellWrapperExecutable env token \<longleftrightarrow> findShellWrapperSpec (normalizeExecutableToken env token) \<noteq> None"

definition unwrapKnownShellMultiplexerInvocation :: "exec_env \<Rightarrow> string list \<Rightarrow> unwrap_result" where
  "unwrapKnownShellMultiplexerInvocation env argv =
     (if token0 argv = [] then NotWrapper
      else (let wrapper = normalizeExecutableToken env (token0 argv)
        in if wrapper \<notin> set [''busybox'', ''toybox''] then NotWrapper
           else (let rest = (if token0 (drop 1 argv) = ''--'' then drop 2 argv else drop 1 argv)
             in if token0 rest = [] \<or> \<not> isShellWrapperExecutable env (token0 rest) then BlockedWrapper wrapper
                else Unwrapped wrapper rest)))"

definition extractCmdInlineCommand :: "string list \<Rightarrow> string option" where
  "extractCmdInlineCommand argv =
     (case dropWhile (\<lambda>item. js_lower (js_trim item) \<notin> set [''/c'', ''/k'']) argv of
        [] \<Rightarrow> None
      | _ # tail \<Rightarrow> if tail = [] then None else blank_to_none (js_join '' '' tail))"

definition extractShellWrapperPayload :: "string list \<Rightarrow> shell_wrapper_kind \<Rightarrow> string option" where
  "extractShellWrapperPayload argv kind = (case kind of
     PosixShell \<Rightarrow> im_command (resolveInlineCommandMatch argv POSIX_INLINE_COMMAND_FLAGS True)
   | CmdShell \<Rightarrow> extractCmdInlineCommand argv
   | PowerShell \<Rightarrow> im_command (resolveInlineCommandMatch argv POWERSHELL_INLINE_COMMAND_FLAGS False))"

text \<open>The first argument is the number of unwrappings that are left: the source goes on while
  \<open>depth \<le> MAX_DISPATCH_WRAPPER_DEPTH\<close>.\<close>

fun shell_wrapper_spec :: "exec_env \<Rightarrow> nat \<Rightarrow> string list \<Rightarrow> (string list \<times> shell_wrapper_kind \<times> string) option" where
  "shell_wrapper_spec env 0 argv = None"
| "shell_wrapper_spec env (Suc n) argv =
     (if token0 argv = [] then None
      else (case unwrapKnownDispatchWrapperInvocation env argv of
        BlockedWrapper _ \<Rightarrow> None
      | Unwrapped _ argv' \<Rightarrow> shell_wrapper_spec env n argv'
      | NotWrapper \<Rightarrow>
          (case unwrapKnownShellMultiplexerInvocation env argv of
             BlockedWrapper _ \<Rightarrow> None
           | Unwrapped _ argv' \<Rightarrow> shell_wrapper_spec env n argv'
           | NotWrapper \<Rightarrow>
               (case findShellWrapperSpec (normalizeExecutableToken env (token0 argv)) of
                  None \<Rightarrow> None
                | Some kind \<Rightarrow> map_option (\<lambda>payload. (argv, kind, payload)) (extractShellWrapperPayload argv kind)))))"

definition resolveShellWrapperSpecAndArgv :: "exec_env \<Rightarrow> string list \<Rightarrow> (string list \<times> shell_wrapper_kind \<times> string) option" where
  "resolveShellWrapperSpecAndArgv env argv = shell_wrapper_spec env (Suc MAX_DISPATCH_WRAPPER_DEPTH) argv"

fun env_manipulation :: "exec_env \<Rightarrow> nat \<Rightarrow> bool \<Rightarrow> string list \<Rightarrow> bool" where
  "env_manipulation env 0 seen argv \<longleftrightarrow> False"
| "env_manipulation env (Suc n) seen argv \<longleftrightarrow>
     (if token0 argv = [] then False
      else (case unwrapKnownDispatchWrapperInvocation env argv of
        BlockedWrapper _ \<Rightarrow> False
      | Unwrapped _ argv' \<Rightarrow> env_manipulation env n (seen \<or> hasDispatchEnvManipulation env argv) argv'
      | NotWrapper \<Rightarrow>
          (case unwrapKnownShellMultiplexerInvocation env argv of
             BlockedWrapper _ \<Rightarrow> False
           | Unwrapped _ argv' \<Rightarrow> env_manipulation env n seen argv'
           | NotWrapper \<Rightarrow>
               (case findShellWrapperSpec (normalizeExecutableToken env (token0 argv)) of
                  None \<Rightarrow> False
                | Some kind \<Rightarrow> extractShellWrapperPayload argv kind \<noteq> None \<and> seen))))"

definition hasEnvManipulationBeforeShellWrapper :: "exec_env \<Rightarrow> string list \<Rightarrow> bool" where
  "hasEnvManipulationBeforeShellWrapper env argv \<longleftrightarrow> env_manipulation env (Suc MAX_DISPATCH_WRAPPER_DEPTH) False argv"

definition resolveShellWrapperTransportArgv :: "exec_env \<Rightarrow> string list \<Rightarrow> string list option" where
  "resolveShellWrapperTransportArgv env argv = map_option fst (resolveShellWrapperSpecAndArgv env argv)"

definition extractShellWrapperInlineCommand :: "exec_env \<Rightarrow> string list \<Rightarrow> string option" where
  "extractShellWrapperInlineCommand env argv = map_option (\<lambda>(_, _, payload). payload) (resolveShellWrapperSpecAndArgv env argv)"

text \<open>\<open>extractShellWrapperCommand\<close>: whether there is a wrapper, and its command.\<close>

definition extractShellWrapperCommand :: "exec_env \<Rightarrow> string list \<Rightarrow> string option \<Rightarrow> bool \<times> string option" where
  "extractShellWrapperCommand env argv rawCommand = (case resolveShellWrapperSpecAndArgv env argv of
     None \<Rightarrow> (False, None)
   | Some (_, _, payload) \<Rightarrow> (True, Some (nullish (normalizeOptionalString (js_opt rawCommand)) payload)))"

subsection \<open>The command to be trusted\<close>

record trust_plan =
  tp_argv :: "string list"
  tp_policyArgv :: "string list"
  tp_wrapperChain :: "string list"
  tp_blockedWrapper :: "string option"
  tp_shellWrapperExecutable :: bool
  tp_shellInlineCommand :: "string option"

definition blockedExecWrapperTrustPlan :: "string list \<Rightarrow> string list \<Rightarrow> string list \<Rightarrow> string \<Rightarrow> trust_plan" where
  "blockedExecWrapperTrustPlan argv policyArgv wrapperChain w =
     \<lparr>tp_argv = argv, tp_policyArgv = policyArgv, tp_wrapperChain = wrapperChain, tp_blockedWrapper = Some w,
      tp_shellWrapperExecutable = False, tp_shellInlineCommand = None\<rparr>"

definition finalizeExecWrapperTrustPlan :: "exec_env \<Rightarrow> string list \<Rightarrow> string list \<Rightarrow> string list \<Rightarrow> trust_plan" where
  "finalizeExecWrapperTrustPlan env argv policyArgv wrapperChain =
     (let shell = token0 argv \<noteq> [] \<and> isShellWrapperExecutable env (token0 argv)
      in \<lparr>tp_argv = argv, tp_policyArgv = policyArgv, tp_wrapperChain = wrapperChain, tp_blockedWrapper = None,
          tp_shellWrapperExecutable = shell,
          tp_shellInlineCommand = (if shell then extractShellWrapperInlineCommand env argv else None)\<rparr>)"

text \<open>After the loop: a wrapper that is still in front is one too many.\<close>

definition finish_trust :: "exec_env \<Rightarrow> nat \<Rightarrow> string list \<Rightarrow> string list \<Rightarrow> string list \<Rightarrow> trust_plan" where
  "finish_trust env maxDepth current policyArgv chain =
     (if maxDepth \<le> length chain then
        (case blocked_overflow (unwrapKnownDispatchWrapperInvocation env current) of
           Some w \<Rightarrow> blockedExecWrapperTrustPlan current policyArgv chain w
         | None \<Rightarrow>
             (case blocked_overflow (unwrapKnownShellMultiplexerInvocation env current) of
                Some w \<Rightarrow> blockedExecWrapperTrustPlan current policyArgv chain w
              | None \<Rightarrow> finalizeExecWrapperTrustPlan env current policyArgv chain))
      else finalizeExecWrapperTrustPlan env current policyArgv chain)"

fun trust_loop :: "exec_env \<Rightarrow> nat \<Rightarrow> nat \<Rightarrow> string list \<Rightarrow> string list \<Rightarrow> bool \<Rightarrow> string list \<Rightarrow> trust_plan" where
  "trust_loop env 0 maxDepth current policyArgv sawMultiplexer chain = finish_trust env maxDepth current policyArgv chain"
| "trust_loop env (Suc n) maxDepth current policyArgv sawMultiplexer chain =
     (let plan = resolveDispatchWrapperTrustPlan env (maxDepth - length chain) current
      in case dp_blocked plan of
           Some w \<Rightarrow> blockedExecWrapperTrustPlan (dp_argv plan) (dp_argv plan) chain w
         | None \<Rightarrow>
             (if dp_wrappers plan \<noteq> [] then
                (let chain' = chain @ dp_wrappers plan;
                     policy' = (if sawMultiplexer then policyArgv else dp_argv plan)
                 in if maxDepth \<le> length chain' then finish_trust env maxDepth (dp_argv plan) policy' chain'
                    else trust_loop env n maxDepth (dp_argv plan) policy' sawMultiplexer chain')
              else (case unwrapKnownShellMultiplexerInvocation env current of
                  BlockedWrapper w \<Rightarrow> blockedExecWrapperTrustPlan current policyArgv chain w
                | NotWrapper \<Rightarrow> finish_trust env maxDepth current policyArgv chain
                | Unwrapped w argv \<Rightarrow>
                    (let chain' = chain @ [w];
                         policy' = (if sawMultiplexer then policyArgv else current)
                     in if maxDepth \<le> length chain' then finish_trust env maxDepth argv policy' chain'
                        else trust_loop env n maxDepth argv policy' True chain'))))"

definition resolveExecWrapperTrustPlan :: "exec_env \<Rightarrow> string list \<Rightarrow> trust_plan" where
  "resolveExecWrapperTrustPlan env argv =
     trust_loop env MAX_DISPATCH_WRAPPER_DEPTH MAX_DISPATCH_WRAPPER_DEPTH argv argv False []"

end
