(* ===== verification/Exec_Resolution.thy ===== *)
theory Exec_Resolution
  imports Exec_Wrappers
begin

text \<open>
  From a command to the executable it names and to the entry of the allowlist that covers it:
  src/brain/src/infra/exec-command-resolution.ts and infra/exec-allowlist-pattern.ts.

  The cache of compiled patterns is left out: it is keyed by what is compiled. A match under the flag
  \<open>i\<close> is one of small letters, as both sides have been put into small letters.
\<close>

subsection \<open>Patterns\<close>

datatype glob_token = GlobAny | GlobName | GlobOne | GlobChar char

fun glob_tokens :: "string \<Rightarrow> glob_token list" where
  "glob_tokens [] = []"
| "glob_tokens (c # s) =
     (if c = CHR ''*'' then
        (case s of d # s' \<Rightarrow> if d = CHR ''*'' then GlobAny # glob_tokens s' else GlobName # glob_tokens s
         | [] \<Rightarrow> [GlobName])
      else if c = CHR ''?'' then GlobOne # glob_tokens s
      else GlobChar c # glob_tokens s)"

definition glob_any :: "char \<Rightarrow> bool" where
  "glob_any c \<longleftrightarrow> \<not> is_newline c"

definition glob_name :: "char \<Rightarrow> bool" where
  "glob_name c \<longleftrightarrow> c \<noteq> CHR ''/''"

function glob_match :: "glob_token list \<Rightarrow> string \<Rightarrow> bool" where
  "glob_match [] s \<longleftrightarrow> s = []"
| "glob_match (GlobChar d # g) s \<longleftrightarrow> (case s of [] \<Rightarrow> False | c # s' \<Rightarrow> c = d \<and> glob_match g s')"
| "glob_match (GlobOne # g) s \<longleftrightarrow> (case s of [] \<Rightarrow> False | c # s' \<Rightarrow> glob_name c \<and> glob_match g s')"
| "glob_match (GlobName # g) s \<longleftrightarrow>
     glob_match g s \<or> (case s of [] \<Rightarrow> False | c # s' \<Rightarrow> glob_name c \<and> glob_match (GlobName # g) s')"
| "glob_match (GlobAny # g) s \<longleftrightarrow>
     glob_match g s \<or> (case s of [] \<Rightarrow> False | c # s' \<Rightarrow> glob_any c \<and> glob_match (GlobAny # g) s')"
  by pat_completeness auto
termination by (relation "measure (\<lambda>(g, s). length g + length s)") auto

declare glob_match.simps [simp del]

lemma glob_match_simps [simp]:
  "glob_match [] s \<longleftrightarrow> s = []"
  "glob_match (GlobChar d # g) [] \<longleftrightarrow> False"
  "glob_match (GlobChar d # g) (c # s) \<longleftrightarrow> c = d \<and> glob_match g s"
  "glob_match (GlobOne # g) [] \<longleftrightarrow> False"
  "glob_match (GlobOne # g) (c # s) \<longleftrightarrow> glob_name c \<and> glob_match g s"
  "glob_match (GlobName # g) [] \<longleftrightarrow> glob_match g []"
  "glob_match (GlobName # g) (c # s) \<longleftrightarrow> glob_match g (c # s) \<or> glob_name c \<and> glob_match (GlobName # g) s"
  "glob_match (GlobAny # g) [] \<longleftrightarrow> glob_match g []"
  "glob_match (GlobAny # g) (c # s) \<longleftrightarrow> glob_match g (c # s) \<or> glob_any c \<and> glob_match (GlobAny # g) s"
  by (subst glob_match.simps, simp)+

fun double_backslashes_to_slash :: "string \<Rightarrow> string" where
  "double_backslashes_to_slash (a # b # s) =
     (if a = BSLASH \<and> b = BSLASH then CHR ''/'' # double_backslashes_to_slash s
      else a # double_backslashes_to_slash (b # s))"
| "double_backslashes_to_slash s = s"

definition strip_device_prefix :: "string \<Rightarrow> string" where
  "strip_device_prefix v =
     (if v \<noteq> [] \<and> take 2 v = [BSLASH, BSLASH] \<and> 4 \<le> length v \<and> v ! 2 \<in> set [CHR ''?'', CHR ''.''] \<and> v ! 3 = BSLASH
      then drop 4 v else v)"

definition normalizeMatchTarget :: "exec_env \<Rightarrow> string \<Rightarrow> string" where
  "normalizeMatchTarget env v =
     (if on_win32 env then normalizeLowercaseStringOrEmpty (JString (backslashes_to_slashes (strip_device_prefix v)))
      else double_backslashes_to_slash v)"

definition matchesExecAllowlistPattern :: "exec_env \<Rightarrow> string \<Rightarrow> string \<Rightarrow> bool" where
  "matchesExecAllowlistPattern env pattern target =
     (let trimmed = js_trim pattern
      in if trimmed = [] then False
         else (let expanded = expandHomePrefix env None trimmed;
                   real = on_win32 env \<and> CHR ''*'' \<notin> set expanded \<and> CHR ''?'' \<notin> set expanded;
                   p = (if real then nullish (xe_realpath env expanded) expanded else expanded);
                   t = (if real then nullish (xe_realpath env target) target else target)
               in glob_match (glob_tokens (normalizeMatchTarget env p)) (normalizeMatchTarget env t)))"

subsection \<open>Resolving the executable\<close>

record exec_resolution =
  er_rawExecutable :: string
  er_resolvedPath :: "string option"
  er_resolvedRealPath :: "string option"
  er_executableName :: string

record command_resolution =
  cr_execution :: exec_resolution
  cr_policy :: exec_resolution
  cr_effectiveArgv :: "string list"
  cr_wrapperChain :: "string list"
  cr_policyBlocked :: bool
  cr_blockedWrapper :: "string option"

definition parseFirstToken :: "string \<Rightarrow> string option" where
  "parseFirstToken command = (case js_trim command of
     [] \<Rightarrow> None
   | c # s \<Rightarrow>
       (if c = DQ \<or> c = SQ then
          (let inner = takeWhile (\<lambda>d. d \<noteq> c) s
           in Some (if inner \<noteq> [] \<and> length inner < length s then inner else s))
        else Some (takeWhile (\<lambda>d. \<not> js_ws d) (c # s))))"

definition buildExecutableResolution :: "exec_env \<Rightarrow> string \<Rightarrow> string option \<Rightarrow> process_env option \<Rightarrow> exec_resolution" where
  "buildExecutableResolution env rawExecutable cwd penv =
     (let resolvedPath = resolveExecutablePath env rawExecutable cwd penv
      in \<lparr>er_rawExecutable = rawExecutable, er_resolvedPath = resolvedPath,
          er_resolvedRealPath = (case resolvedPath of None \<Rightarrow> None | Some p \<Rightarrow> if p = [] then None else xe_realpath env p),
          er_executableName = (case resolvedPath of
             None \<Rightarrow> rawExecutable | Some p \<Rightarrow> if p = [] then rawExecutable else path_basename env p)\<rparr>)"

definition resolveCommandResolution :: "exec_env \<Rightarrow> string \<Rightarrow> string option \<Rightarrow> process_env option \<Rightarrow> command_resolution option" where
  "resolveCommandResolution env command cwd penv = (case parseFirstToken command of
     None \<Rightarrow> None
   | Some raw \<Rightarrow>
       (if raw = [] then None
        else (let r = buildExecutableResolution env raw cwd penv
              in Some \<lparr>cr_execution = r, cr_policy = r, cr_effectiveArgv = [raw], cr_wrapperChain = [],
                   cr_policyBlocked = False, cr_blockedWrapper = None\<rparr>)))"

definition resolveCommandResolutionFromArgv ::
  "exec_env \<Rightarrow> string list \<Rightarrow> string option \<Rightarrow> process_env option \<Rightarrow> command_resolution option" where
  "resolveCommandResolutionFromArgv env argv cwd penv =
     (let plan = resolveExecWrapperTrustPlan env argv;
          raw = token0 (tp_argv plan);
          policyRaw = token0 (tp_policyArgv plan)
      in if raw = [] then None
         else (let execution = buildExecutableResolution env raw cwd penv
               in Some \<lparr>cr_execution = execution,
                    cr_policy = (if policyRaw = [] then execution else buildExecutableResolution env policyRaw cwd penv),
                    cr_effectiveArgv = tp_argv plan, cr_wrapperChain = tp_wrapperChain plan,
                    cr_policyBlocked = (tp_blockedWrapper plan \<noteq> None), cr_blockedWrapper = tp_blockedWrapper plan\<rparr>))"

definition resolveExecutableCandidatePathFromResolution ::
  "exec_env \<Rightarrow> exec_resolution option \<Rightarrow> string option \<Rightarrow> string option" where
  "resolveExecutableCandidatePathFromResolution env resolution cwd = (case resolution of
     None \<Rightarrow> None
   | Some r \<Rightarrow>
       (if str_truthy (er_resolvedPath r) then er_resolvedPath r
        else if js_trim (er_rawExecutable r) = [] then None
        else resolveExecutablePathCandidate env (js_trim (er_rawExecutable r)) cwd None True))"

definition resolveExecutionTargetResolution :: "command_resolution option \<Rightarrow> exec_resolution option" where
  "resolveExecutionTargetResolution r = map_option cr_execution r"

definition resolvePolicyTargetResolution :: "command_resolution option \<Rightarrow> exec_resolution option" where
  "resolvePolicyTargetResolution r = map_option cr_policy r"

definition resolveExecutionTargetCandidatePath :: "exec_env \<Rightarrow> command_resolution option \<Rightarrow> string option \<Rightarrow> string option" where
  "resolveExecutionTargetCandidatePath env r cwd =
     resolveExecutableCandidatePathFromResolution env (resolveExecutionTargetResolution r) cwd"

definition resolvePolicyTargetCandidatePath :: "exec_env \<Rightarrow> command_resolution option \<Rightarrow> string option \<Rightarrow> string option" where
  "resolvePolicyTargetCandidatePath env r cwd =
     resolveExecutableCandidatePathFromResolution env (resolvePolicyTargetResolution r) cwd"

subsection \<open>Matching the allowlist\<close>

text \<open>\<open>ae_allowAlways\<close> says that \<open>source\<close> is \<open>allow-always\<close>, its only value.\<close>

record allow_entry =
  ae_id :: "string option"
  ae_pattern :: string
  ae_allowAlways :: bool
  ae_commandText :: "string option"
  ae_argPattern :: "string option"
  ae_lastUsedAt :: "int option"
  ae_lastUsedCommand :: "string option"
  ae_lastResolvedPath :: "string option"

definition trailing_redirection :: matcher where
  "trailing_redirection = rx_seqs [rx_plus (rx_char js_ws),
     rx_char (\<lambda>c. c = CHR ''1'' \<or> c = CHR ''2''),
     rx_alts [rx_seqs [rx_lit ''>&'', rx_char (\<lambda>c. c = CHR ''1'' \<or> c = CHR ''2'')], rx_lit ''>/dev/null''],
     rx_star (rx_char js_ws), rx_end]"

fun cut_redirection :: "string \<Rightarrow> string" where
  "cut_redirection [] = []"
| "cut_redirection (c # s) = (if rx_test trailing_redirection (c # s) then [] else c # cut_redirection s)"

lemma length_cut_redirection: "length (cut_redirection s) \<le> length s" "cut_redirection s \<noteq> s \<Longrightarrow> length (cut_redirection s) < length s"
  by (induction s) (auto split: if_splits)

function stripTrailingRedirections :: "string \<Rightarrow> string" where
  "stripTrailingRedirections v = (if cut_redirection v = v then v else stripTrailingRedirections (cut_redirection v))"
  by pat_completeness auto
termination by (relation "measure length") (auto simp: length_cut_redirection)

declare stripTrailingRedirections.simps [simp del]

definition NUL :: char where "NUL = CHR 0x00"

definition effective_platform_win :: "exec_env \<Rightarrow> string option \<Rightarrow> bool" where
  "effective_platform_win env platform \<longleftrightarrow>
     js_starts_with (normalizeLowercaseStringOrEmpty (JString (nullish platform (xe_platform env)))) ''win''"

definition matchArgPattern :: "exec_env \<Rightarrow> string \<Rightarrow> string list \<Rightarrow> string option \<Rightarrow> bool" where
  "matchArgPattern env argPattern argv platform =
     (let nul = NUL \<in> set argPattern;
          args = drop 1 argv;
          argsString = (if nul then (if args = [] then [NUL, NUL] else js_join [NUL] args @ [NUL]) else js_join '' '' args)
      in case xe_regex env argPattern of
           None \<Rightarrow> False
         | Some test \<Rightarrow>
             test argsString \<or>
             (effective_platform_win env platform \<and> slashes_to_backslashes argsString \<noteq> argsString \<and>
                test (slashes_to_backslashes argsString)) \<or>
             (\<not> nul \<and> stripTrailingRedirections argsString \<noteq> argsString \<and> test (stripTrailingRedirections argsString)))"

definition has_path :: "string \<Rightarrow> bool" where
  "has_path pattern \<longleftrightarrow> has_separator pattern \<or> CHR ''~'' \<in> set pattern"

definition entry_covers :: "exec_env \<Rightarrow> string \<Rightarrow> allow_entry \<Rightarrow> bool" where
  "entry_covers env resolvedPath e \<longleftrightarrow> js_trim (ae_pattern e) \<noteq> [] \<and> has_path (js_trim (ae_pattern e)) \<and>
     matchesExecAllowlistPattern env (js_trim (ae_pattern e)) resolvedPath"

definition has_arg_pattern :: "allow_entry \<Rightarrow> bool" where
  "has_arg_pattern e \<longleftrightarrow> str_truthy (ae_argPattern e)"

text \<open>The loop over the entries, with \<open>pathOnlyMatch\<close>.\<close>

fun match_entries ::
  "exec_env \<Rightarrow> string \<Rightarrow> bool \<Rightarrow> string list option \<Rightarrow> string option \<Rightarrow> allow_entry option \<Rightarrow> allow_entry list \<Rightarrow> allow_entry option"
  where
  "match_entries env path useArg argv platform pathOnly [] = pathOnly"
| "match_entries env path useArg argv platform pathOnly (e # es) =
     (if \<not> entry_covers env path e then match_entries env path useArg argv platform pathOnly es
      else if \<not> useArg then Some e
      else if \<not> has_arg_pattern e then match_entries env path useArg argv platform (nullish_opt pathOnly (Some e)) es
      else if (case argv of None \<Rightarrow> False | Some a \<Rightarrow> matchArgPattern env (the (ae_argPattern e)) a platform) then Some e
      else match_entries env path useArg argv platform pathOnly es)"

definition bare_wildcard :: "allow_entry \<Rightarrow> bool" where
  "bare_wildcard e \<longleftrightarrow> js_trim (ae_pattern e) = ''*'' \<and> \<not> has_arg_pattern e"

definition matchAllowlist ::
  "exec_env \<Rightarrow> allow_entry list \<Rightarrow> exec_resolution option \<Rightarrow> string list option \<Rightarrow> string option \<Rightarrow> allow_entry option" where
  "matchAllowlist env entries resolution argv platform =
     (if entries = [] then None
      else (case resolution of
        None \<Rightarrow> None
      | Some r \<Rightarrow>
          (case List.find bare_wildcard entries of
             Some e \<Rightarrow> Some e
           | None \<Rightarrow>
               (if \<not> str_truthy (er_resolvedPath r) then None
                else match_entries env (the (er_resolvedPath r)) (effective_platform_win env platform) argv platform None entries))))"

subsection \<open>Reading an argument\<close>

datatype argv_token =
    TokenEmpty
  | TokenTerminator
  | TokenStdin
  | TokenPositional string
  | TokenLong string "string option"
  | TokenCluster string

text \<open>The flags of a cluster are \<open>-c\<close> for its characters \<open>c\<close>.\<close>

definition parseExecArgvToken :: "string \<Rightarrow> argv_token" where
  "parseExecArgvToken raw =
     (if raw = [] then TokenEmpty
      else if raw = ''--'' then TokenTerminator
      else if raw = ''-'' then TokenStdin
      else if \<not> js_starts_with raw ''-'' then TokenPositional raw
      else if js_starts_with raw ''--'' then
        (let flag = takeWhile (\<lambda>c. c \<noteq> CHR ''='') raw
         in if length flag < length raw then TokenLong flag (Some (drop (Suc (length flag)) raw)) else TokenLong raw None)
      else TokenCluster (tl raw))"

end
