(* ===== verification/Exec_Analysis.thy ===== *)
theory Exec_Analysis
  imports Exec_Resolution
begin

text \<open>
  The analysis of a command line and the command line that is run instead of it: the rest of
  src/brain/src/infra/exec-approvals-analysis.ts.
\<close>

record exec_segment =
  sg_raw :: string
  sg_argv :: "string list"
  sg_resolution :: "command_resolution option"

text \<open>A successful analysis; one that fails is its reason.\<close>

record exec_analysis =
  an_segments :: "exec_segment list"
  an_chains :: "exec_segment list list option"

definition make_segment :: "exec_env \<Rightarrow> string option \<Rightarrow> process_env option \<Rightarrow> string \<Rightarrow> string list \<Rightarrow> exec_segment" where
  "make_segment env cwd penv raw argv =
     \<lparr>sg_raw = raw, sg_argv = argv, sg_resolution = resolveCommandResolutionFromArgv env argv cwd penv\<rparr>"

subsection \<open>Analysis\<close>

definition analyzeWindowsShellCommand ::
  "exec_env \<Rightarrow> string \<Rightarrow> string option \<Rightarrow> process_env option \<Rightarrow> shell_reason + exec_analysis" where
  "analyzeWindowsShellCommand env command cwd penv =
     (let effective = stripWindowsShellWrapper (js_trim command)
      in case findWindowsUnsupportedToken effective of
           Some t \<Rightarrow> Inl (UnsupportedWindowsToken t)
         | None \<Rightarrow>
             (case tokenizeWindowsSegment effective of
                None \<Rightarrow> Inl UnparsedWindowsCommand
              | Some argv \<Rightarrow>
                  (if argv = [] then Inl UnparsedWindowsCommand
                   else Inr \<lparr>an_segments = [make_segment env cwd penv command argv], an_chains = None\<rparr>)))"

fun parseSegmentsFromParts :: "exec_env \<Rightarrow> string option \<Rightarrow> process_env option \<Rightarrow> string list \<Rightarrow> exec_segment list option" where
  "parseSegmentsFromParts env cwd penv [] = Some []"
| "parseSegmentsFromParts env cwd penv (raw # parts) = (case splitShellArgs raw of
     None \<Rightarrow> None
   | Some argv \<Rightarrow>
       (if argv = [] then None
        else map_option ((#) (make_segment env cwd penv raw argv)) (parseSegmentsFromParts env cwd penv parts)))"

definition analyze_pipeline ::
  "exec_env \<Rightarrow> string option \<Rightarrow> process_env option \<Rightarrow> string \<Rightarrow> shell_reason + exec_segment list" where
  "analyze_pipeline env cwd penv command = (case splitShellPipeline command of
     Inl e \<Rightarrow> Inl e
   | Inr parts \<Rightarrow> (case parseSegmentsFromParts env cwd penv parts of None \<Rightarrow> Inl UnparsedSegment | Some segments \<Rightarrow> Inr segments))"

fun analyze_parts ::
  "exec_env \<Rightarrow> string option \<Rightarrow> process_env option \<Rightarrow> string list \<Rightarrow> shell_reason + exec_segment list list" where
  "analyze_parts env cwd penv [] = Inr []"
| "analyze_parts env cwd penv (p # ps) = (case analyze_pipeline env cwd penv p of
     Inl e \<Rightarrow> Inl e
   | Inr segments \<Rightarrow> map_sum id ((#) segments) (analyze_parts env cwd penv ps))"

definition analyzeShellCommand ::
  "exec_env \<Rightarrow> string \<Rightarrow> string option \<Rightarrow> process_env option \<Rightarrow> string option \<Rightarrow> shell_reason + exec_analysis" where
  "analyzeShellCommand env command cwd penv platform =
     (if isWindowsPlatform platform then analyzeWindowsShellCommand env command cwd penv
      else (case splitCommandChain command of
        Some parts \<Rightarrow>
          map_sum id (\<lambda>chains. \<lparr>an_segments = concat chains, an_chains = Some chains\<rparr>) (analyze_parts env cwd penv parts)
      | None \<Rightarrow>
          map_sum id (\<lambda>segments. \<lparr>an_segments = segments, an_chains = None\<rparr>) (analyze_pipeline env cwd penv command)))"

definition analyzeArgvCommand ::
  "exec_env \<Rightarrow> string list \<Rightarrow> string option \<Rightarrow> process_env option \<Rightarrow> shell_reason + exec_analysis" where
  "analyzeArgvCommand env argv cwd penv =
     (let argv = filter (\<lambda>t. js_trim t \<noteq> []) argv
      in if argv = [] then Inl EmptyArgv
         else Inr \<lparr>an_segments = [make_segment env cwd penv (js_join '' '' argv) argv], an_chains = None\<rparr>)"

subsection \<open>The plan of a segment\<close>

definition effective_argv :: "exec_segment \<Rightarrow> string list" where
  "effective_argv segment = (case sg_resolution segment of
     None \<Rightarrow> sg_argv segment
   | Some r \<Rightarrow> if cr_effectiveArgv r = [] then sg_argv segment else cr_effectiveArgv r)"

definition resolved_executable :: "exec_segment \<Rightarrow> string" where
  "resolved_executable segment = (case sg_resolution segment of
     None \<Rightarrow> []
   | Some r \<Rightarrow> nullish (nullish_opt (map_option js_trim (er_resolvedRealPath (cr_execution r)))
                 (map_option js_trim (er_resolvedPath (cr_execution r)))) [])"

definition resolvePlannedSegmentArgv :: "exec_segment \<Rightarrow> string list option" where
  "resolvePlannedSegmentArgv segment =
     (if (case sg_resolution segment of None \<Rightarrow> False | Some r \<Rightarrow> cr_policyBlocked r) then None
      else (case effective_argv segment of
        [] \<Rightarrow> None
      | a # as \<Rightarrow> Some ((if resolved_executable segment = [] then a else resolved_executable segment) # as)))"

subsection \<open>Rebuilding the command\<close>

text \<open>\<open>render raw i\<close> renders the \<open>i\<close>-th segment. The segments of one pipeline, with the count.\<close>

fun render_segments :: "(string \<Rightarrow> nat \<Rightarrow> shell_reason + string) \<Rightarrow> nat \<Rightarrow> string list \<Rightarrow> shell_reason + string list" where
  "render_segments render i [] = Inr []"
| "render_segments render i (raw # raws) = (case render raw i of
     Inl e \<Rightarrow> Inl e
   | Inr r \<Rightarrow> map_sum id ((#) r) (render_segments render (Suc i) raws))"

definition op_text :: "chain_op \<Rightarrow> string" where
  "op_text op = (case op of OpAnd \<Rightarrow> ''&&'' | OpOr \<Rightarrow> ''||'' | OpSeq \<Rightarrow> '';'')"

fun rebuild_parts ::
  "(string \<Rightarrow> nat \<Rightarrow> shell_reason + string) \<Rightarrow> nat \<Rightarrow> string \<Rightarrow> chain_part list \<Rightarrow> shell_reason + string \<times> nat" where
  "rebuild_parts render i out [] = Inr (out, i)"
| "rebuild_parts render i out ((part, op) # parts) = (case splitShellPipeline part of
     Inl e \<Rightarrow> Inl e
   | Inr raws \<Rightarrow>
       (case render_segments render i raws of
          Inl e \<Rightarrow> Inl e
        | Inr rendered \<Rightarrow>
            rebuild_parts render (i + length raws)
              (out @ js_join '' | '' rendered @ (case op of None \<Rightarrow> [] | Some op \<Rightarrow> '' '' @ op_text op @ '' '')) parts))"

definition rebuildWindowsShellCommandFromSource ::
  "string \<Rightarrow> (string \<Rightarrow> nat \<Rightarrow> shell_reason + string) \<Rightarrow> shell_reason + string \<times> nat" where
  "rebuildWindowsShellCommandFromSource command render =
     (let source = stripWindowsShellWrapper (js_trim command)
      in if source = [] then Inl EmptyCommand
         else (case findWindowsUnsupportedToken source of
           Some t \<Rightarrow> Inl (UnsupportedWindowsToken t)
         | None \<Rightarrow> map_sum id (\<lambda>r. (''& '' @ r, 1)) (render source 0)))"

definition rebuildShellCommandFromSource ::
  "string \<Rightarrow> string option \<Rightarrow> (string \<Rightarrow> nat \<Rightarrow> shell_reason + string) \<Rightarrow> shell_reason + string \<times> nat" where
  "rebuildShellCommandFromSource command platform render =
     (if isWindowsPlatform platform then rebuildWindowsShellCommandFromSource command render
      else (let source = js_trim command
        in if source = [] then Inl EmptyCommand
           else rebuild_parts render 0 [] (nullish (splitCommandChainWithOperators source) [(source, None)])))"

definition finalizeRebuiltShellCommand :: "shell_reason + string \<times> nat \<Rightarrow> nat option \<Rightarrow> shell_reason + string" where
  "finalizeRebuiltShellCommand rebuilt expected = (case rebuilt of
     Inl e \<Rightarrow> Inl e
   | Inr (command, segmentCount) \<Rightarrow>
       (case expected of
          Some n \<Rightarrow> if segmentCount \<noteq> n then Inl SegmentMismatch else Inr command
        | None \<Rightarrow> Inr command))"

definition buildSafeShellCommand :: "string \<Rightarrow> string option \<Rightarrow> shell_reason + string" where
  "buildSafeShellCommand command platform =
     finalizeRebuiltShellCommand
       (rebuildShellCommandFromSource command platform (\<lambda>raw _.
          (let argv = nullish (if isWindowsPlatform platform then tokenizeWindowsSegment raw else splitShellArgs raw) []
           in if argv = [] then Inl UnparsedSegment else quoted_argv argv platform))) None"

text \<open>\<open>renderQuotedArgv\<close>: an empty rendering is falsy.\<close>

definition renderQuotedArgv :: "string list \<Rightarrow> string option \<Rightarrow> string option" where
  "renderQuotedArgv argv platform = (case quoted_argv argv platform of
     Inl _ \<Rightarrow> None
   | Inr text \<Rightarrow> if text = [] then None else Some text)"

datatype satisfied_by = ByAllowlist | BySafeBins | BySkills | BySkillPrelude

definition render_safe_bin ::
  "exec_segment list \<Rightarrow> satisfied_by option list \<Rightarrow> string option \<Rightarrow> string \<Rightarrow> nat \<Rightarrow> shell_reason + string" where
  "render_safe_bin segments satisfiedBy platform raw i =
     (if length segments \<le> i then Inl SegmentMismatch
      else if satisfiedBy ! i \<noteq> Some BySafeBins then Inr (js_trim raw)
      else (case resolvePlannedSegmentArgv (segments ! i) of
        None \<Rightarrow> Inl UnavailablePlan
      | Some argv \<Rightarrow> (case renderQuotedArgv argv platform of None \<Rightarrow> Inl UnavailablePlan | Some text \<Rightarrow> Inr text)))"

definition buildSafeBinsShellCommand ::
  "string \<Rightarrow> exec_segment list \<Rightarrow> satisfied_by option list \<Rightarrow> string option \<Rightarrow> shell_reason + string" where
  "buildSafeBinsShellCommand command segments satisfiedBy platform =
     (if length segments \<noteq> length satisfiedBy then Inl SegmentMismatch
      else finalizeRebuiltShellCommand
        (rebuildShellCommandFromSource command platform (render_safe_bin segments satisfiedBy platform))
        (Some (length segments)))"

definition render_enforced :: "exec_segment list \<Rightarrow> string option \<Rightarrow> string \<Rightarrow> nat \<Rightarrow> shell_reason + string" where
  "render_enforced segments platform raw i =
     (if length segments \<le> i then Inl SegmentMismatch
      else (case resolvePlannedSegmentArgv (segments ! i) of
        None \<Rightarrow> Inl UnavailablePlan
      | Some argv \<Rightarrow> (case renderQuotedArgv argv platform of
          None \<Rightarrow> Inl (UnsafeWindowsToken [])
        | Some text \<Rightarrow> Inr text)))"

definition buildEnforcedShellCommand :: "string \<Rightarrow> exec_segment list \<Rightarrow> string option \<Rightarrow> shell_reason + string" where
  "buildEnforcedShellCommand command segments platform =
     finalizeRebuiltShellCommand (rebuildShellCommandFromSource command platform (render_enforced segments platform))
       (Some (length segments))"

end
