(* ===== verification/Exec_Safe_Bins.thy ===== *)
theory Exec_Safe_Bins
  imports Exec_Analysis
begin

text \<open>
  Safe bins: programs that may run without an entry in the allowlist as long as their arguments only
  let them filter their input. src/brain/src/infra/exec-safe-bin-policy-profiles.ts,
  exec-safe-bin-policy-validator.ts, exec-safe-bin-semantics.ts, exec-safe-bin-trust.ts,
  exec-safe-bin-runtime-policy.ts and \<open>isSafeBinUsage\<close> of exec-approvals-allowlist.ts.

  A set of flags is a list; the source sorts the flags of a configured profile, which no result
  depends on. The cache of the trusted directories, keyed by what they are computed from, and the
  warnings are left out.
\<close>

subsection \<open>Profiles\<close>

record safe_bin_fixture =
  fx_minPositional :: "nat option"
  fx_maxPositional :: "nat option"
  fx_allowedValueFlags :: "string list"
  fx_deniedFlags :: "string list"

record safe_bin_profile =
  sb_minPositional :: "nat option"
  sb_maxPositional :: "nat option"
  sb_allowedValueFlags :: "string list"
  sb_deniedFlags :: "string list"
  sb_knownLongFlags :: "string list"
  sb_longFlagPrefixMap :: "(string, string option) js_map"

definition DEFAULT_SAFE_BINS :: "string list" where
  "DEFAULT_SAFE_BINS = [''cut'', ''uniq'', ''head'', ''tail'', ''tr'', ''wc'']"

definition collectKnownLongFlags :: "string list \<Rightarrow> string list \<Rightarrow> string list" where
  "collectKnownLongFlags allowed denied = js_set_of (filter (\<lambda>f. js_starts_with f ''--'') (allowed @ denied))"

text \<open>\<open>None\<close> in the map is an ambiguous prefix.\<close>

definition add_prefix :: "string \<Rightarrow> (string, string option) js_map \<Rightarrow> string \<Rightarrow> (string, string option) js_map" where
  "add_prefix flag m pre = (case jm_get m pre of
     None \<Rightarrow> jm_set m pre (Some flag)
   | Some existing \<Rightarrow> if existing \<noteq> Some flag then jm_set m pre None else m)"

definition add_flag :: "(string, string option) js_map \<Rightarrow> string \<Rightarrow> (string, string option) js_map" where
  "add_flag m flag =
     (if \<not> js_starts_with flag ''--'' \<or> length flag \<le> 2 then m
      else foldl (add_prefix flag) m (map (\<lambda>n. take n flag) [3..<Suc (length flag)]))"

definition buildLongFlagPrefixMap :: "string list \<Rightarrow> (string, string option) js_map" where
  "buildLongFlagPrefixMap flags = foldl add_flag [] flags"

definition compileSafeBinProfile :: "safe_bin_fixture \<Rightarrow> safe_bin_profile" where
  "compileSafeBinProfile fx =
     (let known = collectKnownLongFlags (fx_allowedValueFlags fx) (fx_deniedFlags fx)
      in \<lparr>sb_minPositional = fx_minPositional fx, sb_maxPositional = fx_maxPositional fx,
          sb_allowedValueFlags = fx_allowedValueFlags fx, sb_deniedFlags = fx_deniedFlags fx,
          sb_knownLongFlags = known, sb_longFlagPrefixMap = buildLongFlagPrefixMap known\<rparr>)"

type_synonym safe_bin_profiles = "(string, safe_bin_profile) js_map"

definition compileSafeBinProfiles :: "(string, safe_bin_fixture) js_map \<Rightarrow> safe_bin_profiles" where
  "compileSafeBinProfiles fixtures = map (map_prod id compileSafeBinProfile) fixtures"

definition fixture :: "nat option \<Rightarrow> nat option \<Rightarrow> string list \<Rightarrow> string list \<Rightarrow> safe_bin_fixture" where
  "fixture minPos maxPos allowed denied =
     \<lparr>fx_minPositional = minPos, fx_maxPositional = maxPos, fx_allowedValueFlags = allowed, fx_deniedFlags = denied\<rparr>"

definition SAFE_BIN_PROFILE_FIXTURES :: "(string, safe_bin_fixture) js_map" where
  "SAFE_BIN_PROFILE_FIXTURES =
     [(''jq'', fixture None (Some 1) [''--arg'', ''--argjson'', ''--argstr'']
        [''--argfile'', ''--rawfile'', ''--slurpfile'', ''--from-file'', ''--library-path'', ''-L'', ''-f'']),
      (''grep'', fixture None (Some 0)
        [''--regexp'', ''--max-count'', ''--after-context'', ''--before-context'', ''--context'', ''--devices'',
         ''--binary-files'', ''--exclude'', ''--include'', ''--label'', ''-e'', ''-m'', ''-A'', ''-B'', ''-C'', ''-D'']
        [''--file'', ''--exclude-from'', ''--dereference-recursive'', ''--directories'', ''--recursive'', ''-f'', ''-d'',
         ''-r'', ''-R'']),
      (''cut'', fixture None (Some 0)
        [''--bytes'', ''--characters'', ''--fields'', ''--delimiter'', ''--output-delimiter'', ''-b'', ''-c'', ''-f'', ''-d''] []),
      (''sort'', fixture None (Some 0)
        [''--key'', ''--field-separator'', ''--buffer-size'', ''--parallel'', ''--batch-size'', ''-k'', ''-t'', ''-S'']
        [''--compress-program'', ''--files0-from'', ''--output'', ''--random-source'', ''--temporary-directory'', ''-T'', ''-o'']),
      (''uniq'', fixture None (Some 0)
        [''--skip-fields'', ''--skip-chars'', ''--check-chars'', ''--group'', ''-f'', ''-s'', ''-w''] []),
      (''head'', fixture None (Some 0) [''--lines'', ''--bytes'', ''-n'', ''-c''] []),
      (''tail'', fixture None (Some 0)
        [''--lines'', ''--bytes'', ''--sleep-interval'', ''--max-unchanged-stats'', ''--pid'', ''-n'', ''-c''] []),
      (''tr'', fixture (Some 1) (Some 2) [] []),
      (''wc'', fixture None (Some 0) [] [''--files0-from''])]"

definition SAFE_BIN_PROFILES :: safe_bin_profiles where
  "SAFE_BIN_PROFILES = compileSafeBinProfiles SAFE_BIN_PROFILE_FIXTURES"

text \<open>Profiles of the configuration.\<close>

record config_fixture =
  cx_minPositional :: "js_number option"
  cx_maxPositional :: "js_number option"
  cx_allowedValueFlags :: "string list option"
  cx_deniedFlags :: "string list option"

definition normalizeFixtureLimit :: "js_number option \<Rightarrow> nat option" where
  "normalizeFixtureLimit raw = (case raw of
     Some (Fin r) \<Rightarrow> (let t = (if 0 \<le> r then \<lfloor>r\<rfloor> else \<lceil>r\<rceil>) in if 0 \<le> t then Some (nat t) else None)
   | _ \<Rightarrow> None)"

definition normalizeFixtureFlags :: "string list option \<Rightarrow> string list" where
  "normalizeFixtureFlags flags = js_set_of (filter (\<lambda>f. f \<noteq> []) (map js_trim (nullish flags [])))"

definition normalizeSafeBinProfileFixture :: "config_fixture \<Rightarrow> safe_bin_fixture" where
  "normalizeSafeBinProfileFixture cx =
     (let minPos = normalizeFixtureLimit (cx_minPositional cx);
          maxRaw = normalizeFixtureLimit (cx_maxPositional cx);
          maxPos = (case (minPos, maxRaw) of (Some a, Some b) \<Rightarrow> Some (if b < a then a else b) | _ \<Rightarrow> maxRaw)
      in fixture minPos maxPos (normalizeFixtureFlags (cx_allowedValueFlags cx)) (normalizeFixtureFlags (cx_deniedFlags cx)))"

definition normalizeSafeBinProfileFixtures :: "(string, config_fixture) js_map option \<Rightarrow> (string, safe_bin_fixture) js_map" where
  "normalizeSafeBinProfileFixtures fixtures =
     foldl (\<lambda>m (rawName, cx).
        (let name = normalizeLowercaseStringOrEmpty (JString rawName)
         in if name = [] then m else jm_set m name (normalizeSafeBinProfileFixture cx))) [] (nullish fixtures [])"

definition merge_maps :: "(string, 'v) js_map \<Rightarrow> (string, 'v) js_map \<Rightarrow> (string, 'v) js_map" where
  "merge_maps a b = foldl (\<lambda>m (k, v). jm_set m k v) a b"

text \<open>\<open>resolveSafeBinProfiles\<close> on normalised fixtures.\<close>

definition resolveSafeBinProfiles :: "(string, safe_bin_fixture) js_map \<Rightarrow> safe_bin_profiles" where
  "resolveSafeBinProfiles fixtures =
     (if fixtures = [] then SAFE_BIN_PROFILES else merge_maps SAFE_BIN_PROFILES (compileSafeBinProfiles fixtures))"

subsection \<open>Semantics\<close>

definition dot_suffixes :: "string list" where
  "dot_suffixes = [''.exe'', ''.cmd'', ''.bat'', ''.com'']"

definition normalizeSafeBinName :: "string \<Rightarrow> string" where
  "normalizeSafeBinName raw =
     (let trimmed = normalizeLowercaseStringOrEmpty (JString raw);
          tail = last (js_split CHR ''/'' (backslashes_to_slashes trimmed));
          n = length tail - 4
      in if trimmed = [] then [] else if 4 \<le> length tail \<and> drop n tail \<in> set dot_suffixes then take n tail else tail)"

datatype semantic_rule = JqRule | DenyRule

definition getSafeBinSemanticRule :: "string \<Rightarrow> semantic_rule option" where
  "getSafeBinSemanticRule binName =
     (let n = normalizeSafeBinName binName
      in if n = ''jq'' then Some JqRule
         else if n \<in> set [''awk'', ''gawk'', ''mawk'', ''nawk'', ''sed'', ''gsed''] then Some DenyRule
         else None)"

text \<open>\<open>prev\<close> is the character in front of the text.\<close>

definition jq_boundary :: "char option \<Rightarrow> bool" where
  "jq_boundary prev \<longleftrightarrow> (case prev of None \<Rightarrow> True | Some c \<Rightarrow> c \<noteq> CHR ''.'' \<and> c \<noteq> CHR ''$'' \<and> \<not> is_word c)"

fun jq_env_filter :: "char option \<Rightarrow> string \<Rightarrow> bool" where
  "jq_env_filter prev [] \<longleftrightarrow> False"
| "jq_env_filter prev (c # s) \<longleftrightarrow>
     jq_boundary prev \<and> rx_test (rx_seqs [rx_lit ''env'', rx_word_end]) (c # s) \<or> jq_env_filter (Some c) s"

definition jq_env_variable :: "string \<Rightarrow> bool" where
  "jq_env_variable token \<longleftrightarrow> rx_search (rx_seqs [rx_lit ''$ENV'', rx_word_end]) token"

definition validateSafeBinSemantics :: "string \<Rightarrow> string list \<Rightarrow> bool" where
  "validateSafeBinSemantics binName positional = (case getSafeBinSemanticRule binName of
     None \<Rightarrow> True
   | Some DenyRule \<Rightarrow> False
   | Some JqRule \<Rightarrow> \<not> list_ex (\<lambda>t. jq_env_filter None t \<or> jq_env_variable t) positional)"

subsection \<open>Validation of the arguments\<close>

definition isPathLikeToken :: "string \<Rightarrow> bool" where
  "isPathLikeToken v \<longleftrightarrow>
     (let t = js_trim v
      in t \<noteq> [] \<and> t \<noteq> ''-'' \<and>
         (js_starts_with t ''./'' \<or> js_starts_with t ''../'' \<or> js_starts_with t ''~'' \<or> js_starts_with t ''/'' \<or>
          (case t of a # b # c # _ \<Rightarrow> (is_lower_alpha a \<or> is_upper_alpha a) \<and> b = CHR '':'' \<and> (c = BSLASH \<or> c = CHR ''/'')
           | _ \<Rightarrow> False)))"

definition hasGlobToken :: "string \<Rightarrow> bool" where
  "hasGlobToken v \<longleftrightarrow> list_ex (\<lambda>c. c \<in> set [CHR ''*'', CHR ''?'', CHR ''['', CHR '']'']) v"

definition isSafeLiteralToken :: "string \<Rightarrow> bool" where
  "isSafeLiteralToken v \<longleftrightarrow> v = [] \<or> v = ''-'' \<or> \<not> hasGlobToken v \<and> \<not> isPathLikeToken v"

definition isInvalidValueToken :: "string list \<Rightarrow> bool" where
  "isInvalidValueToken rest \<longleftrightarrow> (case rest of [] \<Rightarrow> True | v # _ \<Rightarrow> v = [] \<or> \<not> isSafeLiteralToken v)"

definition resolveCanonicalLongFlag :: "safe_bin_profile \<Rightarrow> string \<Rightarrow> string option" where
  "resolveCanonicalLongFlag profile flag =
     (if \<not> js_starts_with flag ''--'' \<or> length flag \<le> 2 then None
      else if flag \<in> set (sb_knownLongFlags profile) then Some flag
      else (case jm_get (sb_longFlagPrefixMap profile) flag of None \<Rightarrow> None | Some f \<Rightarrow> f))"

text \<open>The arguments after the option and its value, unless the option is refused.\<close>

definition consumeLongOptionToken ::
  "safe_bin_profile \<Rightarrow> string \<Rightarrow> string option \<Rightarrow> string list \<Rightarrow> string list option" where
  "consumeLongOptionToken profile flag inlineValue rest =
     (case resolveCanonicalLongFlag profile flag of
        None \<Rightarrow> None
      | Some canonical \<Rightarrow>
          (if canonical \<in> set (sb_deniedFlags profile) then None
           else (let expectsValue = canonical \<in> set (sb_allowedValueFlags profile)
             in case inlineValue of
                  Some v \<Rightarrow> if expectsValue \<and> isSafeLiteralToken v then Some rest else None
                | None \<Rightarrow>
                    (if \<not> expectsValue then Some rest
                     else if isInvalidValueToken rest then None else Some (tl rest)))))"

fun consumeShortOptionClusterToken :: "safe_bin_profile \<Rightarrow> string \<Rightarrow> string list \<Rightarrow> string list option" where
  "consumeShortOptionClusterToken profile [] rest = None"
| "consumeShortOptionClusterToken profile (c # cluster) rest =
     (if [CHR ''-'', c] \<in> set (sb_deniedFlags profile) then None
      else if [CHR ''-'', c] \<notin> set (sb_allowedValueFlags profile) then consumeShortOptionClusterToken profile cluster rest
      else if cluster \<noteq> [] then (if isSafeLiteralToken cluster then Some rest else None)
      else if isInvalidValueToken rest then None else Some (tl rest))"

fun collect_rest :: "string list \<Rightarrow> string list \<Rightarrow> string list option" where
  "collect_rest positional [] = Some positional"
| "collect_rest positional (t # ts) =
     (if t = [] \<or> t = ''-'' then collect_rest positional ts
      else if isSafeLiteralToken t then collect_rest (positional @ [t]) ts else None)"

lemma length_short: "consumeShortOptionClusterToken profile cluster rest = Some rest' \<Longrightarrow> length rest' \<le> length rest"
  by (induction profile cluster rest rule: consumeShortOptionClusterToken.induct) (auto split: if_splits)

lemma length_long: "consumeLongOptionToken profile flag v rest = Some rest' \<Longrightarrow> length rest' \<le> length rest"
  by (auto simp: consumeLongOptionToken_def Let_def split: option.splits if_splits)

function collect_positional :: "safe_bin_profile \<Rightarrow> string list \<Rightarrow> string list \<Rightarrow> string list option" where
  "collect_positional profile positional [] = Some positional"
| "collect_positional profile positional (t # ts) = (case parseExecArgvToken t of
     TokenEmpty \<Rightarrow> collect_positional profile positional ts
   | TokenStdin \<Rightarrow> collect_positional profile positional ts
   | TokenTerminator \<Rightarrow> collect_rest positional ts
   | TokenPositional raw \<Rightarrow> (if isSafeLiteralToken raw then collect_positional profile (positional @ [raw]) ts else None)
   | TokenLong flag v \<Rightarrow>
       (case consumeLongOptionToken profile flag v ts of None \<Rightarrow> None | Some rest \<Rightarrow> collect_positional profile positional rest)
   | TokenCluster cluster \<Rightarrow>
       (case consumeShortOptionClusterToken profile cluster ts of
          None \<Rightarrow> None | Some rest \<Rightarrow> collect_positional profile positional rest))"
  by pat_completeness auto
termination
  by (relation "measure (\<lambda>(profile, positional, ts). length ts)")
    (auto simp: le_imp_less_Suc dest: length_short length_long)

definition collectPositionalTokens :: "string list \<Rightarrow> safe_bin_profile \<Rightarrow> string list option" where
  "collectPositionalTokens args profile = collect_positional profile [] args"

definition validatePositionalCount :: "string list \<Rightarrow> safe_bin_profile \<Rightarrow> bool" where
  "validatePositionalCount positional profile \<longleftrightarrow> nullish (sb_minPositional profile) 0 \<le> length positional \<and>
     (case sb_maxPositional profile of None \<Rightarrow> True | Some n \<Rightarrow> length positional \<le> n)"

definition validateSafeBinArgv :: "string list \<Rightarrow> safe_bin_profile \<Rightarrow> string \<Rightarrow> bool" where
  "validateSafeBinArgv args profile binName \<longleftrightarrow> (case collectPositionalTokens args profile of
     None \<Rightarrow> False
   | Some positional \<Rightarrow> validatePositionalCount positional profile \<and> validateSafeBinSemantics binName positional)"

subsection \<open>Trusted directories\<close>

definition normalizeTrustedSafeBinDirs :: "string list option \<Rightarrow> string list" where
  "normalizeTrustedSafeBinDirs entries = js_set_of (filter (\<lambda>e. e \<noteq> []) (map js_trim (nullish entries [])))"

definition getTrustedSafeBinDirs :: "exec_env \<Rightarrow> string list \<Rightarrow> string list" where
  "getTrustedSafeBinDirs env extraDirs =
     js_set_of (map (path_resolve env) (normalizeTrustedSafeBinDirs (Some [''/bin'', ''/usr/bin'']) @
       normalizeTrustedSafeBinDirs (Some extraDirs)))"

definition isTrustedSafeBinPath :: "exec_env \<Rightarrow> string \<Rightarrow> string list option \<Rightarrow> bool" where
  "isTrustedSafeBinPath env resolvedPath trustedDirs \<longleftrightarrow>
     xe_dirname env (path_resolve env resolvedPath) \<in> set (nullish trustedDirs (getTrustedSafeBinDirs env []))"

subsection \<open>Use\<close>

definition normalizeSafeBins :: "string list option \<Rightarrow> string list" where
  "normalizeSafeBins entries =
     js_set_of (filter (\<lambda>e. e \<noteq> []) (map (\<lambda>e. normalizeLowercaseStringOrEmpty (JString e)) (nullish entries [])))"

text \<open>\<open>None\<close> is \<open>undefined\<close>; \<open>null\<close> is the empty list.\<close>

definition resolveSafeBins :: "string list option \<Rightarrow> string list" where
  "resolveSafeBins entries = normalizeSafeBins (Some (nullish entries DEFAULT_SAFE_BINS))"

definition isSafeBinUsage ::
  "exec_env \<Rightarrow> string list \<Rightarrow> exec_resolution option \<Rightarrow> string list \<Rightarrow> string option \<Rightarrow> string list option \<Rightarrow>
     safe_bin_profiles option \<Rightarrow> bool" where
  "isSafeBinUsage env argv resolution safeBins platform trustedDirs profiles \<longleftrightarrow>
     \<not> isWindowsPlatform (nullish_opt platform (Some (xe_platform env))) \<and> safeBins \<noteq> [] \<and>
     (case resolution of
        None \<Rightarrow> False
      | Some r \<Rightarrow>
          (let execName = normalizeLowercaseStringOrEmpty (JString (er_executableName r))
           in execName \<noteq> [] \<and> execName \<in> set safeBins \<and> str_truthy (er_resolvedPath r) \<and>
              isTrustedSafeBinPath env (the (er_resolvedPath r)) trustedDirs \<and>
              (case jm_get (nullish profiles SAFE_BIN_PROFILES) execName of
                 None \<Rightarrow> False
               | Some profile \<Rightarrow> validateSafeBinArgv (drop 1 argv) profile execName)))"

record safe_bin_scope =
  sc_safeBins :: "string list option"
  sc_safeBinProfiles :: "(string, config_fixture) js_map option"
  sc_safeBinTrustedDirs :: "string list option"

definition resolveMergedSafeBinProfileFixtures ::
  "safe_bin_scope option \<Rightarrow> safe_bin_scope option \<Rightarrow> (string, safe_bin_fixture) js_map" where
  "resolveMergedSafeBinProfileFixtures global local_scope =
     (let fixtures = (\<lambda>scope. normalizeSafeBinProfileFixtures (case scope of None \<Rightarrow> None | Some s \<Rightarrow> sc_safeBinProfiles s))
      in merge_maps (fixtures global) (fixtures local_scope))"

text \<open>The safe bins, their profiles and the trusted directories.\<close>

definition resolveExecSafeBinRuntimePolicy ::
  "exec_env \<Rightarrow> safe_bin_scope option \<Rightarrow> safe_bin_scope option \<Rightarrow> string list \<times> safe_bin_profiles \<times> string list" where
  "resolveExecSafeBinRuntimePolicy env global local_scope =
     (let field = (\<lambda>f scope. case scope of None \<Rightarrow> None | Some s \<Rightarrow> f s)
      in (resolveSafeBins (nullish_opt (field sc_safeBins local_scope) (field sc_safeBins global)),
          resolveSafeBinProfiles (resolveMergedSafeBinProfileFixtures global local_scope),
          getTrustedSafeBinDirs env (normalizeTrustedSafeBinDirs (field sc_safeBinTrustedDirs global) @
            normalizeTrustedSafeBinDirs (field sc_safeBinTrustedDirs local_scope))))"

end
