(* ===== verification/Exec_Inline_Eval.thy ===== *)
theory Exec_Inline_Eval
  imports Exec_Resolution
begin

text \<open>
  Interpreters that are given their program on the command line: src/brain/src/infra/exec-inline-eval.ts.
  A missing set or list of a specification is the empty one.
\<close>

record inline_eval_hit =
  ih_executable :: string
  ih_normalizedExecutable :: string
  ih_flag :: string
  ih_argv :: "string list"

text \<open>The label and the prefix of a flag.\<close>

type_synonym prefix_flag = "string \<times> string"

record interpreter_flag_spec =
  if_names :: "string list"
  if_exactFlags :: "string list"
  if_rawExactFlags :: "prefix_flag list"
  if_rawPrefixFlags :: "prefix_flag list"
  if_prefixFlags :: "prefix_flag list"
  if_scanPastDoubleDash :: bool

definition exact_spec :: "string list \<Rightarrow> string list \<Rightarrow> interpreter_flag_spec" where
  "exact_spec names flags = \<lparr>if_names = names, if_exactFlags = flags, if_rawExactFlags = [], if_rawPrefixFlags = [],
     if_prefixFlags = [], if_scanPastDoubleDash = False\<rparr>"

definition AWK_NAMES :: "string list" where
  "AWK_NAMES = [''awk'', ''gawk'', ''mawk'', ''nawk'']"

definition FLAG_INTERPRETER_INLINE_EVAL_SPECS :: "interpreter_flag_spec list" where
  "FLAG_INTERPRETER_INLINE_EVAL_SPECS =
     [exact_spec [''python'', ''python2'', ''python3'', ''pypy'', ''pypy3''] [''-c''],
      exact_spec [''node'', ''nodejs'', ''bun'', ''deno''] [''-e'', ''--eval'', ''-p'', ''--print''],
      (exact_spec AWK_NAMES [''-e'', ''--source''])\<lparr>if_prefixFlags := [(''--source'', ''--source='')]\<rparr>,
      exact_spec [''ruby''] [''-e''],
      exact_spec [''perl''] [''-e'', ''-E''],
      exact_spec [''php''] [''-r''],
      exact_spec [''lua''] [''-e''],
      exact_spec [''osascript''] [''-e''],
      (exact_spec [''find''] [''-exec'', ''-execdir'', ''-ok'', ''-okdir''])\<lparr>if_scanPastDoubleDash := True\<rparr>,
      (exact_spec [''make'', ''gmake''] [''-f'', ''--file'', ''--makefile'', ''--eval''])\<lparr>
        if_rawExactFlags := [(''-E'', ''-E'')], if_rawPrefixFlags := [(''-E'', ''-E'')],
        if_prefixFlags := [(''-f'', ''-f''), (''--file'', ''--file=''), (''--makefile'', ''--makefile=''),
          (''--eval'', ''--eval='')]\<rparr>,
      (exact_spec [''sed'', ''gsed''] [])\<lparr>if_rawExactFlags := [(''-e'', ''-e'')], if_rawPrefixFlags := [(''-e'', ''-e'')]\<rparr>]"

record positional_interpreter_spec =
  pi_names :: "string list"
  pi_fileFlags :: "string list"
  pi_fileFlagPrefixes :: "string list"
  pi_exactValueFlags :: "string list"
  pi_exactOptionalValueFlags :: "string list"
  pi_prefixValueFlags :: "string list"
  pi_flag :: string

definition POSITIONAL_INTERPRETER_INLINE_EVAL_SPECS :: "positional_interpreter_spec list" where
  "POSITIONAL_INTERPRETER_INLINE_EVAL_SPECS =
     [\<lparr>pi_names = AWK_NAMES, pi_fileFlags = [''-f'', ''--file''], pi_fileFlagPrefixes = [''-f'', ''--file=''],
       pi_exactValueFlags = [''-f'', ''--file'', ''-F'', ''--field-separator'', ''-v'', ''--assign'', ''-i'', ''--include'',
         ''-l'', ''--load'', ''-W''],
       pi_exactOptionalValueFlags = [],
       pi_prefixValueFlags = [''-F'', ''--field-separator='', ''-v'', ''--assign='', ''--include='', ''--load=''],
       pi_flag = ''<program>''\<rparr>,
      \<lparr>pi_names = [''xargs''], pi_fileFlags = [], pi_fileFlagPrefixes = [],
       pi_exactValueFlags = [''-a'', ''--arg-file'', ''-d'', ''--delimiter'', ''-E'', ''-I'', ''-L'', ''--max-lines'', ''-n'',
         ''--max-args'', ''-P'', ''--max-procs'', ''-s'', ''--max-chars''],
       pi_exactOptionalValueFlags = [''--eof'', ''--replace''],
       pi_prefixValueFlags = [''-a'', ''--arg-file='', ''-d'', ''--delimiter='', ''-E'', ''--eof='', ''-I'', ''--replace='', ''-i'',
         ''-L'', ''--max-lines='', ''-l'', ''-n'', ''--max-args='', ''-P'', ''--max-procs='', ''-s'', ''--max-chars=''],
       pi_flag = ''<command>''\<rparr>,
      \<lparr>pi_names = [''sed'', ''gsed''], pi_fileFlags = [''-f'', ''--file''], pi_fileFlagPrefixes = [''-f'', ''--file=''],
       pi_exactValueFlags = [''-f'', ''--file'', ''-l'', ''--line-length''],
       pi_exactOptionalValueFlags = [''-i'', ''--in-place''],
       pi_prefixValueFlags = [''-f'', ''--file='', ''--in-place='', ''--line-length=''],
       pi_flag = ''<program>''\<rparr>]"

definition INTERPRETER_ALLOWLIST_NAMES :: "string list" where
  "INTERPRETER_ALLOWLIST_NAMES =
     concat (map if_names FLAG_INTERPRETER_INLINE_EVAL_SPECS) @ concat (map pi_names POSITIONAL_INTERPRETER_INLINE_EVAL_SPECS)"

definition findInterpreterSpec :: "exec_env \<Rightarrow> string \<Rightarrow> interpreter_flag_spec option" where
  "findInterpreterSpec env executable =
     List.find (\<lambda>spec. normalizeExecutableToken env executable \<in> set (if_names spec)) FLAG_INTERPRETER_INLINE_EVAL_SPECS"

definition findPositionalInterpreterSpec :: "exec_env \<Rightarrow> string \<Rightarrow> positional_interpreter_spec option" where
  "findPositionalInterpreterSpec env executable =
     List.find (\<lambda>spec. normalizeExecutableToken env executable \<in> set (pi_names spec)) POSITIONAL_INTERPRETER_INLINE_EVAL_SPECS"

definition createInlineEvalHit :: "exec_env \<Rightarrow> string \<Rightarrow> string list \<Rightarrow> string \<Rightarrow> inline_eval_hit" where
  "createInlineEvalHit env executable argv flag =
     \<lparr>ih_executable = executable, ih_normalizedExecutable = normalizeExecutableToken env executable,
      ih_flag = flag, ih_argv = argv\<rparr>"

definition longer_than :: "string \<Rightarrow> string \<Rightarrow> bool" where
  "longer_than token pre \<longleftrightarrow> js_starts_with token pre \<and> length pre < length token"

text \<open>The flag that carries a program.\<close>

definition inline_flag :: "interpreter_flag_spec \<Rightarrow> string \<Rightarrow> string option" where
  "inline_flag spec token =
     (case jm_get (if_rawExactFlags spec) token of
        Some flag \<Rightarrow> Some flag
      | None \<Rightarrow>
          (case List.find (\<lambda>(label, pre). longer_than token pre) (if_rawPrefixFlags spec) of
             Some (label, _) \<Rightarrow> Some label
           | None \<Rightarrow>
               (let lower = normalizeLowercaseStringOrEmpty (JString token)
                in if lower \<in> set (if_exactFlags spec) then Some lower
                   else map_option fst (List.find (\<lambda>(label, pre). longer_than lower pre) (if_prefixFlags spec)))))"

fun scan_inline_flags :: "interpreter_flag_spec \<Rightarrow> string list \<Rightarrow> string option" where
  "scan_inline_flags spec [] = None"
| "scan_inline_flags spec (t # ts) =
     (let token = js_trim t
      in if token = [] then scan_inline_flags spec ts
         else if token = ''--'' then (if if_scanPastDoubleDash spec then scan_inline_flags spec ts else None)
         else (case inline_flag spec token of Some flag \<Rightarrow> Some flag | None \<Rightarrow> scan_inline_flags spec ts))"

text \<open>Whether a program or command stands among the arguments; the first argument says that the next
  one is the value of an option.\<close>

fun scan_positional :: "bool \<Rightarrow> positional_interpreter_spec \<Rightarrow> string list \<Rightarrow> bool" where
  "scan_positional skip spec [] \<longleftrightarrow> False"
| "scan_positional skip spec (t # ts) \<longleftrightarrow>
     (let token = js_trim t
      in if skip then scan_positional False spec ts
         else if token = [] then scan_positional False spec ts
         else if token = ''--'' then (case ts of [] \<Rightarrow> False | t' # _ \<Rightarrow> js_trim t' \<noteq> [])
         else if token \<in> set (pi_fileFlags spec) then False
         else if list_ex (longer_than token) (pi_fileFlagPrefixes spec) then False
         else if token \<in> set (pi_exactValueFlags spec) then scan_positional True spec ts
         else if token \<in> set (pi_exactOptionalValueFlags spec) then scan_positional False spec ts
         else if list_ex (longer_than token) (pi_prefixValueFlags spec) then scan_positional False spec ts
         else if js_starts_with token ''-'' then scan_positional False spec ts
         else True)"

definition detectInterpreterInlineEvalArgv :: "exec_env \<Rightarrow> string list \<Rightarrow> inline_eval_hit option" where
  "detectInterpreterInlineEvalArgv env argv =
     (let executable = token0 argv; hit = createInlineEvalHit env executable argv; args = drop 1 argv
      in if executable = [] then None
         else (case (case findInterpreterSpec env executable of None \<Rightarrow> None | Some spec \<Rightarrow> scan_inline_flags spec args) of
             Some flag \<Rightarrow> Some (hit flag)
           | None \<Rightarrow>
               (case findPositionalInterpreterSpec env executable of
                  None \<Rightarrow> None
                | Some spec \<Rightarrow> if scan_positional False spec args then Some (hit (pi_flag spec)) else None)))"

definition describeInterpreterInlineEval :: "inline_eval_hit \<Rightarrow> string" where
  "describeInterpreterInlineEval hit =
     (if ih_flag hit = ''<command>'' then ih_normalizedExecutable hit @ '' inline command''
      else if ih_flag hit = ''<program>'' then ih_normalizedExecutable hit @ '' inline program''
      else ih_normalizedExecutable hit @ '' '' @ ih_flag hit)"

definition wildcard_char :: "char \<Rightarrow> bool" where
  "wildcard_char c \<longleftrightarrow> c \<in> set [CHR ''*'', CHR ''?'', CHR ''['', CHR '']'', CHR ''{'', CHR ''}'', CHR ''('', CHR '')'']"

definition isInterpreterLikeAllowlistPattern :: "exec_env \<Rightarrow> string option \<Rightarrow> bool" where
  "isInterpreterLikeAllowlistPattern env pattern \<longleftrightarrow>
     (let trimmed = normalizeLowercaseStringOrEmpty (js_opt pattern);
          base = last (js_split CHR ''/'' (backslashes_to_slashes trimmed));
          withoutExe = (if js_ends_with base ''.exe'' then take (length base - 4) base else base)
      in trimmed \<noteq> [] \<and>
         (normalizeExecutableToken env trimmed \<in> set INTERPRETER_ALLOWLIST_NAMES \<or>
          filter (\<lambda>c. \<not> wildcard_char c) withoutExe \<in> set INTERPRETER_ALLOWLIST_NAMES))"

end
