(* ===== verification/Exec_Allowlist.thy ===== *)
theory Exec_Allowlist
  imports Exec_Safe_Bins Exec_Inline_Eval
begin

text \<open>
  Whether a command is covered: the evaluation of an analysed command against the allowlist, the safe
  bins and the skills, and the patterns that an \<open>allow-always\<close> decision adds.
  src/brain/src/infra/exec-approvals-allowlist.ts, except \<open>isSafeBinUsage\<close> (theory Exec_Safe_Bins).
\<close>

record skill_bin =
  sk_name :: string
  sk_resolvedPath :: string

record allow_ctx =
  cx_allowlist :: "allow_entry list"
  cx_safeBins :: "string list"
  cx_profiles :: "safe_bin_profiles option"
  cx_cwd :: "string option"
  cx_env :: "process_env option"
  cx_platform :: "string option"
  cx_trustedDirs :: "string list option"
  cx_skillBins :: "skill_bin list"
  cx_autoAllowSkills :: bool

fun hasShellLineContinuation :: "string \<Rightarrow> bool" where
  "hasShellLineContinuation (a # b # s) \<longleftrightarrow> a = BSLASH \<and> is_newline b \<or> hasShellLineContinuation (b # s)"
| "hasShellLineContinuation s \<longleftrightarrow> False"

subsection \<open>Skills\<close>

definition normalizeSkillBinName :: "string \<Rightarrow> string option" where
  "normalizeSkillBinName v = normalizeOptionalLowercaseString (JString v)"

definition normalizeSkillBinResolvedPath :: "exec_env \<Rightarrow> string \<Rightarrow> string option" where
  "normalizeSkillBinResolvedPath env v = (case normalizeOptionalString (JString v) of
     None \<Rightarrow> None
   | Some trimmed \<Rightarrow>
       Some (if on_win32 env then normalizeLowercaseStringOrEmpty (JString (backslashes_to_slashes (path_resolve env trimmed)))
             else path_resolve env trimmed))"

definition add_skill_trust ::
  "exec_env \<Rightarrow> (string, string list) js_map \<Rightarrow> skill_bin \<Rightarrow> (string, string list) js_map" where
  "add_skill_trust env trust entry =
     (case (normalizeSkillBinName (sk_name entry), normalizeSkillBinResolvedPath env (sk_resolvedPath entry)) of
        (Some name, Some p) \<Rightarrow> if p = [] then trust else jm_set trust name (js_set_add (nullish (jm_get trust name) []) p)
      | _ \<Rightarrow> trust)"

definition buildSkillBinTrustIndex :: "exec_env \<Rightarrow> skill_bin list \<Rightarrow> (string, string list) js_map" where
  "buildSkillBinTrustIndex env entries = foldl (add_skill_trust env) [] entries"

definition isSkillAutoAllowedSegment :: "exec_env \<Rightarrow> exec_segment \<Rightarrow> bool \<Rightarrow> (string, string list) js_map \<Rightarrow> bool" where
  "isSkillAutoAllowedSegment env segment allowSkills trust \<longleftrightarrow> allowSkills \<and>
     (case resolveExecutionTargetResolution (sg_resolution segment) of
        None \<Rightarrow> False
      | Some e \<Rightarrow>
          (let raw = js_trim (er_rawExecutable e)
           in str_truthy (er_resolvedPath e) \<and> raw \<noteq> [] \<and> \<not> has_separator raw \<and>
              (case (normalizeSkillBinName (er_executableName e), normalizeSkillBinResolvedPath env (the (er_resolvedPath e))) of
                 (Some name, Some p) \<Rightarrow> p \<noteq> [] \<and> p \<in> set (nullish (jm_get trust name) [])
               | _ \<Rightarrow> False)))"

definition resolveSkillPreludePath :: "exec_env \<Rightarrow> string \<Rightarrow> string option \<Rightarrow> string" where
  "resolveSkillPreludePath env rawPath cwd =
     (let expanded = (if js_starts_with rawPath ''~'' then expandHomePrefix env None rawPath else rawPath)
      in if xe_isAbsolute env expanded then path_resolve env expanded
         else xe_resolve env (cwd_base env cwd) expanded)"

text \<open>The parts of a path, last first, without the last one; the number is how many follow.\<close>

fun skills_part :: "nat \<Rightarrow> string list \<Rightarrow> bool" where
  "skills_part n [] \<longleftrightarrow> False"
| "skills_part n (p # ps) \<longleftrightarrow> p = ''skills'' \<and> (n = 1 \<or> n = 2) \<or> skills_part (Suc n) ps"

definition path_parts :: "string \<Rightarrow> string list" where
  "path_parts p = filter (\<lambda>s. s \<noteq> []) (js_split CHR ''/'' p)"

definition isSkillMarkdownPreludePath :: "string \<Rightarrow> bool" where
  "isSkillMarkdownPreludePath filePath \<longleftrightarrow>
     (let lower = normalizeLowercaseStringOrEmpty (JString (backslashes_to_slashes filePath)); parts = path_parts lower
      in js_ends_with lower ''/skill.md'' \<and> 2 \<le> length parts \<and> skills_part 1 (tl (rev parts)))"

text \<open>As before, with the part that follows.\<close>

fun skill_id_part :: "nat \<Rightarrow> string \<Rightarrow> string list \<Rightarrow> string option" where
  "skill_id_part n follows [] = None"
| "skill_id_part n follows (p # ps) =
     (if p = ''skills'' \<and> n = 2 then (if js_trim follows = [] then None else Some (js_trim follows))
      else skill_id_part (Suc n) p ps)"

definition resolveSkillMarkdownPreludeId :: "string \<Rightarrow> string option" where
  "resolveSkillMarkdownPreludeId filePath =
     (let lower = normalizeLowercaseStringOrEmpty (JString (backslashes_to_slashes filePath)); parts = path_parts lower
      in if js_ends_with lower ''/skill.md'' \<and> 3 \<le> length parts
         then skill_id_part 1 (last parts) (tl (rev parts)) else None)"

definition execution_name :: "exec_segment \<Rightarrow> string option" where
  "execution_name segment = map_option er_executableName (resolveExecutionTargetResolution (sg_resolution segment))"

definition second_token :: "exec_segment \<Rightarrow> string" where
  "second_token segment = token0 (drop 1 (sg_argv segment))"

definition isSkillPreludeReadSegment :: "exec_env \<Rightarrow> exec_segment \<Rightarrow> string option \<Rightarrow> bool" where
  "isSkillPreludeReadSegment env segment cwd \<longleftrightarrow>
     normalizeLowercaseStringOrEmpty (js_opt (execution_name segment)) = ''cat'' \<and>
     length (sg_argv segment) = 2 \<and> second_token segment \<noteq> [] \<and>
     isSkillMarkdownPreludePath (resolveSkillPreludePath env (second_token segment) cwd)"

definition prelude_marker :: "string \<Rightarrow> string" where
  "prelude_marker br = br @ ''---CMD---'' @ br"

definition isSkillPreludeMarkerSegment :: "exec_segment \<Rightarrow> bool" where
  "isSkillPreludeMarkerSegment segment \<longleftrightarrow>
     normalizeLowercaseStringOrEmpty (js_opt (execution_name segment)) = ''printf'' \<and>
     length (sg_argv segment) = 2 \<and>
     (sg_argv segment ! 1 = prelude_marker [BSLASH, CHR ''n''] \<or> sg_argv segment ! 1 = prelude_marker [LF])"

definition isSkillPreludeSegment :: "exec_env \<Rightarrow> exec_segment \<Rightarrow> string option \<Rightarrow> bool" where
  "isSkillPreludeSegment env segment cwd \<longleftrightarrow>
     isSkillPreludeReadSegment env segment cwd \<or> isSkillPreludeMarkerSegment segment"

definition isSkillPreludeOnlyEvaluation :: "exec_env \<Rightarrow> exec_segment list \<Rightarrow> string option \<Rightarrow> bool" where
  "isSkillPreludeOnlyEvaluation env segments cwd \<longleftrightarrow>
     segments \<noteq> [] \<and> list_all (\<lambda>s. isSkillPreludeSegment env s cwd) segments"

definition prelude_id :: "exec_env \<Rightarrow> string option \<Rightarrow> exec_segment \<Rightarrow> string option" where
  "prelude_id env cwd segment =
     (if isSkillPreludeReadSegment env segment cwd
      then resolveSkillMarkdownPreludeId (resolveSkillPreludePath env (second_token segment) cwd) else None)"

definition resolveSkillPreludeIds :: "exec_env \<Rightarrow> exec_segment list \<Rightarrow> string option \<Rightarrow> string list" where
  "resolveSkillPreludeIds env segments cwd = js_set_of (List.map_filter (prelude_id env cwd) segments)"

definition argv0 :: "exec_segment \<Rightarrow> string" where
  "argv0 segment = (case sg_argv segment of [] \<Rightarrow> [] | t # _ \<Rightarrow> t)"

definition resolveAllowlistedSkillWrapperId :: "exec_env \<Rightarrow> exec_segment \<Rightarrow> string option" where
  "resolveAllowlistedSkillWrapperId env segment =
     (let name = normalizeExecutableToken env (nullish (execution_name segment) (argv0 segment));
          skillId = js_trim (take (length name - length ''-wrapper'') name)
      in if \<not> js_ends_with name ''-wrapper'' \<or> skillId = [] then None else Some skillId)"

subsection \<open>Shell scripts\<close>

definition hasSegmentExecutableMatch :: "exec_segment \<Rightarrow> (string \<Rightarrow> bool) \<Rightarrow> bool" where
  "hasSegmentExecutableMatch segment P \<longleftrightarrow>
     (let candidates = (case resolveExecutionTargetResolution (sg_resolution segment) of
            None \<Rightarrow> [] | Some e \<Rightarrow> [er_executableName e, er_rawExecutable e]) @ take 1 (sg_argv segment)
      in list_ex (\<lambda>c. js_trim c \<noteq> [] \<and> P (js_trim c)) candidates)"

definition isShellWrapperSegment :: "exec_env \<Rightarrow> exec_segment \<Rightarrow> bool" where
  "isShellWrapperSegment env segment \<longleftrightarrow> hasSegmentExecutableMatch segment (isShellWrapperExecutable env)"

definition SHELL_WRAPPER_OPTIONS_WITH_VALUE :: "string list" where
  "SHELL_WRAPPER_OPTIONS_WITH_VALUE = [''-c'', ''--command'', ''-o'', ''-O'', ''+O'']"

definition SHELL_WRAPPER_DISQUALIFYING_SCRIPT_OPTIONS :: "string list" where
  "SHELL_WRAPPER_DISQUALIFYING_SCRIPT_OPTIONS = [''--rcfile'', ''--init-file'', ''--startup-file'']"

definition hasDisqualifyingShellWrapperScriptOption :: "string \<Rightarrow> bool" where
  "hasDisqualifyingShellWrapperScriptOption token \<longleftrightarrow>
     list_ex (\<lambda>p. token = p \<or> js_starts_with token (p @ ''='')) SHELL_WRAPPER_DISQUALIFYING_SCRIPT_OPTIONS"

definition powershell_value_option :: "string \<Rightarrow> bool" where
  "powershell_value_option token \<longleftrightarrow> js_lower token \<in> set
     [''-executionpolicy'', ''-ep'', ''-windowstyle'', ''-w'', ''-workingdirectory'', ''-wd'', ''-inputformat'',
      ''-outputformat'', ''-settingsfile'', ''-configurationfile'', ''-version'', ''-v'', ''-psconsolefile'', ''-pscf'',
      ''-encodedcommand'', ''-en'', ''-enc'', ''-encodedarguments'', ''-ea'']"

definition POWERSHELL_WRAPPERS :: "string list" where
  "POWERSHELL_WRAPPERS = [''powershell'', ''powershell.exe'', ''pwsh'', ''pwsh.exe'']"

text \<open>The words from the script on; the first argument is what \<open>idx += 2\<close> skips.\<close>

fun script_words :: "bool \<Rightarrow> bool \<Rightarrow> string list \<Rightarrow> string list option" where
  "script_words skip isPowerShell [] = Some []"
| "script_words skip isPowerShell (t # ts) =
     (let token = js_trim t
      in if skip then script_words False isPowerShell ts
         else if token = [] then script_words False isPowerShell ts
         else if token = ''--'' then Some ts
         else if token = ''-c'' \<or> token = ''--command'' then None
         else if \<not> isPowerShell \<and> cluster_with CHR ''c'' token then None
         else if token = ''-s'' \<or> \<not> isPowerShell \<and> cluster_with CHR ''s'' token then None
         else if hasDisqualifyingShellWrapperScriptOption token then None
         else if token \<in> set SHELL_WRAPPER_OPTIONS_WITH_VALUE then script_words True isPowerShell ts
         else if isPowerShell \<and> powershell_value_option token then script_words True isPowerShell ts
         else if js_starts_with token ''-'' \<or> js_starts_with token ''+'' then script_words False isPowerShell ts
         else Some (t # ts))"

definition resolveShellWrapperScriptCandidatePath :: "exec_env \<Rightarrow> exec_segment \<Rightarrow> string option \<Rightarrow> string option" where
  "resolveShellWrapperScriptCandidatePath env segment cwd =
     (if \<not> isShellWrapperSegment env segment \<or> length (sg_argv segment) < 2 then None
      else (case script_words False (normalizeExecutableToken env (argv0 segment) \<in> set POWERSHELL_WRAPPERS)
               (drop 1 (sg_argv segment)) of
        None \<Rightarrow> None
      | Some ts \<Rightarrow>
          (let script = token0 ts
           in if script = [] then None
              else if xe_isAbsolute env script then Some script
              else (let expanded = (if js_starts_with script ''~'' then expandHomePrefix env None script else script);
                        base = (case cwd of Some d \<Rightarrow> if js_trim d = [] then xe_cwd env else d | None \<Rightarrow> xe_cwd env)
                in Some (xe_resolve env base expanded)))))"

text \<open>The arguments after the script: after the word that resolves to it, else after a word of its name.\<close>

definition after_script :: "exec_env \<Rightarrow> string \<Rightarrow> string list \<Rightarrow> string option \<Rightarrow> string list" where
  "after_script env script argv cwd =
     (let base_name = (\<lambda>p. normalizeLowercaseStringOrEmpty (JString (path_basename env p)));
          resolve_arg = (\<lambda>a. if xe_isAbsolute env a then a else xe_resolve env (cwd_base env cwd) a)
      in case dropWhile (\<lambda>a. resolve_arg a \<noteq> script) argv of
           _ # args \<Rightarrow> args
         | [] \<Rightarrow> drop 1 (dropWhile (\<lambda>a. base_name a \<noteq> base_name script) argv))"

definition resolveShellWrapperScriptArgv :: "exec_env \<Rightarrow> string \<Rightarrow> string list \<Rightarrow> string option \<Rightarrow> string list" where
  "resolveShellWrapperScriptArgv env script effectiveArgv cwd = script # after_script env script effectiveArgv cwd"

definition blank_run :: matcher where
  "blank_run = rx_plus (rx_char (\<lambda>c. js_ws c \<and> \<not> is_newline c))"

definition maybe_quoted :: "matcher \<Rightarrow> matcher" where
  "maybe_quoted a = rx_alts [a, rx_seqs [rx_char (\<lambda>c. c = DQ), a, rx_char (\<lambda>c. c = DQ)]]"

definition positional_zero :: matcher where
  "positional_zero = maybe_quoted (rx_seqs [rx_lit ''$'', rx_alts [rx_lit ''0'', rx_lit ''{0}'']])"

definition positional_name :: "char \<Rightarrow> bool" where
  "positional_name c \<longleftrightarrow> c = CHR ''@'' \<or> c = CHR ''*'' \<or> is_digit c \<and> c \<noteq> CHR ''0''"

definition positional_arg :: matcher where
  "positional_arg = maybe_quoted (rx_seqs [rx_lit ''$'', rx_alts [rx_char positional_name,
     rx_seqs [rx_lit ''{'', rx_char positional_name, rx_lit ''}'']]])"

definition isDirectShellPositionalCarrierInvocation :: "string \<Rightarrow> bool" where
  "isDirectShellPositionalCarrierInvocation command \<longleftrightarrow> js_trim command \<noteq> [] \<and>
     rx_test (rx_seqs [rx_opt (rx_seqs [rx_lit ''exec'', blank_run, rx_opt (rx_seqs [rx_lit ''--'', blank_run])]),
       positional_zero, rx_star (rx_seqs [blank_run, positional_arg]), rx_end]) (js_trim command)"

definition resolveShellWrapperPositionalArgvCandidatePath ::
  "exec_env \<Rightarrow> exec_segment \<Rightarrow> string option \<Rightarrow> process_env option \<Rightarrow> string option" where
  "resolveShellWrapperPositionalArgvCandidatePath env segment cwd penv =
     (let argv = sg_argv segment;
          m = resolveInlineCommandMatch argv POSIX_INLINE_COMMAND_FLAGS True
      in if \<not> isShellWrapperSegment env segment \<or> length argv < 4 \<or>
            normalizeExecutableToken env (argv0 segment) \<notin> set POSIX_SHELL_WRAPPER_NAMES
         then None
         else (case (im_valueTokenIndex m, im_command m) of
           (Some i, Some command) \<Rightarrow>
             (if \<not> isDirectShellPositionalCarrierInvocation command then None
              else (case List.find (\<lambda>t. t \<noteq> []) (map js_trim (drop (Suc i) argv)) of
                None \<Rightarrow> None
              | Some carried \<Rightarrow>
                  (let name = normalizeExecutableToken env carried
                   in if isDispatchWrapperExecutable env name \<or> isShellWrapperExecutable env name then None
                      else resolveExecutionTargetCandidatePath env
                             (resolveCommandResolutionFromArgv env [carried] cwd penv) cwd)))
         | _ \<Rightarrow> None))"

subsection \<open>A segment\<close>

definition script_resolution :: "exec_env \<Rightarrow> string \<Rightarrow> exec_resolution" where
  "script_resolution env p = \<lparr>er_rawExecutable = p, er_resolvedPath = Some p, er_resolvedRealPath = None,
     er_executableName = path_basename env p\<rparr>"

text \<open>The effective arguments, the inline command and the entry that matches.\<close>

definition resolveSegmentAllowlistMatch ::
  "exec_env \<Rightarrow> allow_ctx \<Rightarrow> exec_segment \<Rightarrow> string list \<times> string option \<times> allow_entry option" where
  "resolveSegmentAllowlistMatch env cx segment =
     (let effectiveArgv = effective_argv segment;
          seg = segment\<lparr>sg_argv := effectiveArgv\<rparr>;
          target = resolvePolicyTargetResolution (sg_resolution segment);
          candidatePath = resolvePolicyTargetCandidatePath env (sg_resolution segment) (cx_cwd cx);
          candidate = (if str_truthy candidatePath then map_option (er_resolvedPath_update (\<lambda>_. candidatePath)) target else target);
          inlineCommand = extractShellWrapperInlineCommand env effectiveArgv;
          carrier = (case inlineCommand of None \<Rightarrow> False | Some c \<Rightarrow> isDirectShellPositionalCarrierInvocation c);
          executableMatch = (if carrier then None
            else matchAllowlist env (cx_allowlist cx) candidate (Some effectiveArgv) (cx_platform cx));
          carried = resolveShellWrapperPositionalArgvCandidatePath env seg (cx_cwd cx) (cx_env cx);
          carriedMatch = (if str_truthy carried
            then matchAllowlist env (cx_allowlist cx) (Some (script_resolution env (the carried))) None (cx_platform cx) else None);
          script = (if inlineCommand = None then resolveShellWrapperScriptCandidatePath env seg (cx_cwd cx) else None);
          scriptMatch = (if str_truthy script
            then matchAllowlist env (cx_allowlist cx) (Some (script_resolution env (the script)))
                   (Some (resolveShellWrapperScriptArgv env (the script) effectiveArgv (cx_cwd cx))) (cx_platform cx) else None)
      in (effectiveArgv, inlineCommand, nullish_opt executableMatch (nullish_opt carriedMatch scriptMatch)))"

definition resolveSegmentSatisfaction ::
  "exec_env \<Rightarrow> allow_ctx \<Rightarrow> allow_entry option \<Rightarrow> exec_segment \<Rightarrow> string list \<Rightarrow> bool \<Rightarrow> (string, string list) js_map
     \<Rightarrow> satisfied_by option" where
  "resolveSegmentSatisfaction env cx m segment effectiveArgv allowSkills trust =
     (if m \<noteq> None then Some ByAllowlist
      else if isSafeBinUsage env effectiveArgv (resolveExecutionTargetResolution (sg_resolution segment)) (cx_safeBins cx)
                (cx_platform cx) (cx_trustedDirs cx) (cx_profiles cx) then Some BySafeBins
      else if isSkillAutoAllowedSegment env segment allowSkills trust then Some BySkills
      else None)"

subsection \<open>The segments of a command\<close>

text \<open>\<open>sv_entries\<close> and \<open>sv_satisfiedBy\<close> are \<open>segmentAllowlistEntries\<close> and \<open>segmentSatisfiedBy\<close>.\<close>

record segments_evaluation =
  sv_satisfied :: bool
  sv_matches :: "allow_entry list"
  sv_entries :: "allow_entry option list"
  sv_satisfiedBy :: "satisfied_by option list"

text \<open>One segment; \<open>inline\<close> evaluates the parts of a chain inside a shell.\<close>

definition evaluate_segment ::
  "exec_env \<Rightarrow> allow_ctx \<Rightarrow> (string list \<Rightarrow> allow_entry list option) \<Rightarrow> exec_segment \<Rightarrow> segments_evaluation" where
  "evaluate_segment env cx inline segment =
     (if (case sg_resolution segment of None \<Rightarrow> False | Some r \<Rightarrow> cr_policyBlocked r)
      then \<lparr>sv_satisfied = False, sv_matches = [], sv_entries = [None], sv_satisfiedBy = [None]\<rparr>
      else (let trust = buildSkillBinTrustIndex env (cx_skillBins cx);
                allowSkills = (cx_autoAllowSkills cx \<and> trust \<noteq> []);
                (effectiveArgv, inlineCommand, m) = resolveSegmentAllowlistMatch env cx segment;
                by_what = resolveSegmentSatisfaction env cx m segment effectiveArgv allowSkills trust;
                fallback = (if by_what \<noteq> None \<or> \<not> str_truthy inlineCommand then None
                  else (case splitCommandChain (the inlineCommand) of
                    None \<Rightarrow> None
                  | Some parts \<Rightarrow> if length parts \<le> 1 then None else inline parts))
            in case fallback of
                 Some ms \<Rightarrow> \<lparr>sv_satisfied = True, sv_matches = (case m of None \<Rightarrow> [] | Some e \<Rightarrow> [e]) @ ms,
                   sv_entries = [m], sv_satisfiedBy = [Some ByAllowlist]\<rparr>
               | None \<Rightarrow> \<lparr>sv_satisfied = (by_what \<noteq> None), sv_matches = (case m of None \<Rightarrow> [] | Some e \<Rightarrow> [e]),
                   sv_entries = [m], sv_satisfiedBy = [by_what]\<rparr>))"

text \<open>\<open>segments.every\<close> stops at the first segment that is not satisfied.\<close>

fun every_segment :: "(exec_segment \<Rightarrow> segments_evaluation) \<Rightarrow> exec_segment list \<Rightarrow> segments_evaluation" where
  "every_segment ev [] = \<lparr>sv_satisfied = True, sv_matches = [], sv_entries = [], sv_satisfiedBy = []\<rparr>"
| "every_segment ev (s # ss) =
     (let r = ev s; rest = every_segment ev ss
      in if \<not> sv_satisfied r then r
         else \<lparr>sv_satisfied = sv_satisfied rest, sv_matches = sv_matches r @ sv_matches rest,
               sv_entries = sv_entries r @ sv_entries rest, sv_satisfiedBy = sv_satisfiedBy r @ sv_satisfiedBy rest\<rparr>)"

text \<open>The loop of \<open>evaluateShellWrapperInlineChain\<close>.\<close>

fun every_part ::
  "exec_env \<Rightarrow> allow_ctx \<Rightarrow> (exec_segment list \<Rightarrow> segments_evaluation) \<Rightarrow> string list \<Rightarrow> allow_entry list option" where
  "every_part env cx ev [] = Some []"
| "every_part env cx ev (p # ps) = (case analyzeShellCommand env p (cx_cwd cx) (cx_env cx) (cx_platform cx) of
     Inl _ \<Rightarrow> None
   | Inr analysis \<Rightarrow>
       (let r = ev (an_segments analysis)
        in if \<not> sv_satisfied r then None else map_option ((@) (sv_matches r)) (every_part env cx ev ps)))"

definition MAX_SHELL_WRAPPER_INLINE_EVAL_DEPTH :: nat where
  "MAX_SHELL_WRAPPER_INLINE_EVAL_DEPTH = 3"

text \<open>The first argument is the number of nested chains that may still be opened:
  \<open>MAX_SHELL_WRAPPER_INLINE_EVAL_DEPTH - 1 - inlineDepth\<close>.\<close>

fun segments_at :: "exec_env \<Rightarrow> allow_ctx \<Rightarrow> nat \<Rightarrow> exec_segment list \<Rightarrow> segments_evaluation" where
  "segments_at env cx 0 segments = every_segment (evaluate_segment env cx (\<lambda>_. None)) segments"
| "segments_at env cx (Suc n) segments =
     every_segment (evaluate_segment env cx
       (\<lambda>parts. if isWindowsPlatform (cx_platform cx) then None else every_part env cx (segments_at env cx n) parts)) segments"

definition evaluateSegments :: "exec_env \<Rightarrow> allow_ctx \<Rightarrow> exec_segment list \<Rightarrow> segments_evaluation" where
  "evaluateSegments env cx segments = segments_at env cx (MAX_SHELL_WRAPPER_INLINE_EVAL_DEPTH - 1) segments"

subsection \<open>An analysed command\<close>

fun every_group :: "(exec_segment list \<Rightarrow> segments_evaluation) \<Rightarrow> exec_segment list list \<Rightarrow> segments_evaluation option" where
  "every_group ev [] = Some \<lparr>sv_satisfied = True, sv_matches = [], sv_entries = [], sv_satisfiedBy = []\<rparr>"
| "every_group ev (g # gs) =
     (let r = ev g
      in if \<not> sv_satisfied r then None
         else map_option (\<lambda>rest. \<lparr>sv_satisfied = True, sv_matches = sv_matches r @ sv_matches rest,
           sv_entries = sv_entries r @ sv_entries rest, sv_satisfiedBy = sv_satisfiedBy r @ sv_satisfiedBy rest\<rparr>)
           (every_group ev gs))"

definition unsatisfied :: segments_evaluation where
  "unsatisfied = \<lparr>sv_satisfied = False, sv_matches = [], sv_entries = [], sv_satisfiedBy = []\<rparr>"

definition evaluateExecAllowlist :: "exec_env \<Rightarrow> allow_ctx \<Rightarrow> shell_reason + exec_analysis \<Rightarrow> segments_evaluation" where
  "evaluateExecAllowlist env cx analysis = (case analysis of
     Inl _ \<Rightarrow> unsatisfied
   | Inr a \<Rightarrow>
       (if an_segments a = [] then unsatisfied
        else (case an_chains a of
          Some groups \<Rightarrow> nullish (every_group (evaluateSegments env cx) groups) unsatisfied
        | None \<Rightarrow> evaluateSegments env cx (an_segments a))))"

text \<open>\<open>None\<close> is a command that could not be analysed.\<close>

record shell_allowlist_analysis =
  sa_evaluation :: segments_evaluation
  sa_segments :: "exec_segment list"

definition trusted_execution_id :: "exec_env \<Rightarrow> exec_segment \<Rightarrow> satisfied_by option \<Rightarrow> string option" where
  "trusted_execution_id env segment satisfiedBy = (case satisfiedBy of
     Some BySkills \<Rightarrow>
       (let e = resolveExecutionTargetResolution (sg_resolution segment);
            name = normalizeExecutableToken env (case e of Some r \<Rightarrow> er_executableName r | None \<Rightarrow> argv0 segment)
        in if name = [] then None else Some name)
   | Some ByAllowlist \<Rightarrow> resolveAllowlistedSkillWrapperId env segment
   | _ \<Rightarrow> None)"

definition resolveTrustedSkillExecutionIds :: "exec_env \<Rightarrow> exec_analysis \<Rightarrow> segments_evaluation \<Rightarrow> string list" where
  "resolveTrustedSkillExecutionIds env analysis evaluation =
     (if \<not> sv_satisfied evaluation then []
      else js_set_of (List.map_filter (\<lambda>(s, b). trusted_execution_id env s b)
             (zip (an_segments analysis) (sv_satisfiedBy evaluation))))"

type_synonym chain_evaluation = "exec_analysis \<times> segments_evaluation \<times> chain_op option"

text \<open>The loop from the last part to the first: which parts are display preludes of a skill that runs
  later. The second argument is \<open>reachableSkillIds\<close>; the parts and the result are in reverse order.\<close>

fun prelude_parts :: "exec_env \<Rightarrow> allow_ctx \<Rightarrow> string list \<Rightarrow> chain_evaluation list \<Rightarrow> bool list" where
  "prelude_parts env cx reachable [] = []"
| "prelude_parts env cx reachable ((analysis, evaluation, opToNext) # parts) =
     (let trusted = resolveTrustedSkillExecutionIds env analysis evaluation;
          isPreludeOnly = (\<not> sv_satisfied evaluation \<and> isSkillPreludeOnlyEvaluation env (an_segments analysis) (cx_cwd cx));
          ids = (if isPreludeOnly then resolveSkillPreludeIds env (an_segments analysis) (cx_cwd cx) else []);
          reaches = (opToNext = Some OpAnd \<and> (if ids = [] then reachable \<noteq> [] else list_ex (\<lambda>i. i \<in> set reachable) ids))
      in if trusted \<noteq> [] then False # prelude_parts env cx (foldl js_set_add reachable trusted) parts
         else if isPreludeOnly \<and> reaches then True # prelude_parts env cx reachable parts
         else False # prelude_parts env cx [] parts)"

fun evaluate_chain_parts ::
  "exec_env \<Rightarrow> allow_ctx \<Rightarrow> chain_part list \<Rightarrow> chain_evaluation list option" where
  "evaluate_chain_parts env cx [] = Some []"
| "evaluate_chain_parts env cx ((part, op) # parts) =
     (case analyzeShellCommand env part (cx_cwd cx) (cx_env cx) (cx_platform cx) of
        Inl _ \<Rightarrow> None
      | Inr a \<Rightarrow> map_option ((#) (a, evaluateExecAllowlist env cx (Inr a), op)) (evaluate_chain_parts env cx parts))"

text \<open>The last loop stops at the first part that is neither satisfied nor a prelude.\<close>

fun collect_parts :: "shell_allowlist_analysis \<Rightarrow> (chain_evaluation \<times> bool) list \<Rightarrow> shell_allowlist_analysis" where
  "collect_parts out [] = out"
| "collect_parts out (((analysis, evaluation, opToNext), prelude) # parts) =
     (let segs = an_segments analysis;
          out' = \<lparr>sa_evaluation =
              \<lparr>sv_satisfied = (sv_satisfied evaluation \<or> prelude),
               sv_matches = sv_matches (sa_evaluation out) @ sv_matches evaluation,
               sv_entries = sv_entries (sa_evaluation out) @ (if prelude then map (\<lambda>_. None) segs else sv_entries evaluation),
               sv_satisfiedBy = sv_satisfiedBy (sa_evaluation out) @
                 (if prelude then map (\<lambda>_. Some BySkillPrelude) segs else sv_satisfiedBy evaluation)\<rparr>,
            sa_segments = sa_segments out @ segs\<rparr>
      in if \<not> sv_satisfied evaluation \<and> \<not> prelude then out' else collect_parts out' parts)"

definition no_parts :: shell_allowlist_analysis where
  "no_parts = \<lparr>sa_evaluation = unsatisfied\<lparr>sv_satisfied := True\<rparr>, sa_segments = []\<rparr>"

definition evaluateShellAllowlist :: "exec_env \<Rightarrow> allow_ctx \<Rightarrow> string \<Rightarrow> shell_allowlist_analysis option" where
  "evaluateShellAllowlist env cx command =
     (if hasShellLineContinuation command then None
      else (case (if isWindowsPlatform (cx_platform cx) then None else splitCommandChainWithOperators command) of
        None \<Rightarrow>
          (case analyzeShellCommand env command (cx_cwd cx) (cx_env cx) (cx_platform cx) of
             Inl _ \<Rightarrow> None
           | Inr a \<Rightarrow> Some \<lparr>sa_evaluation = evaluateExecAllowlist env cx (Inr a), sa_segments = an_segments a\<rparr>)
      | Some parts \<Rightarrow>
          map_option (\<lambda>evals. collect_parts no_parts (zip evals (rev (prelude_parts env cx [] (rev evals)))))
            (evaluate_chain_parts env cx parts)))"

subsection \<open>The patterns of an \<open>allow-always\<close> decision\<close>

text \<open>The pattern and the pattern of the arguments.\<close>

type_synonym always_pattern = "string \<times> string option"

definition regex_special :: "char \<Rightarrow> bool" where
  "regex_special c \<longleftrightarrow> c \<in> set [CHR ''.'', CHR ''*'', CHR ''+'', CHR ''?'', CHR ''^'', CHR ''$'', CHR ''{'', CHR ''}'',
     CHR ''('', CHR '')'', CHR ''|'', CHR ''['', CHR '']'', BSLASH]"

definition escapeRegExpLiteral :: "string \<Rightarrow> string" where
  "escapeRegExpLiteral input = concat (map (\<lambda>c. if regex_special c then [BSLASH, c] else [c]) input)"

definition on_windows :: "exec_env \<Rightarrow> string option \<Rightarrow> bool" where
  "on_windows env platform \<longleftrightarrow> isWindowsPlatform (nullish_opt platform (Some (xe_platform env)))"

definition no_args_pattern :: string where
  "no_args_pattern = [CHR ''^'', NUL, NUL, CHR ''$'']"

definition buildScriptArgPatternFromArgv ::
  "exec_env \<Rightarrow> string list \<Rightarrow> string \<Rightarrow> string option \<Rightarrow> string option \<Rightarrow> string option" where
  "buildScriptArgPatternFromArgv env argv scriptPath cwd platform =
     (if \<not> on_windows env platform then None
      else (let args = map slashes_to_backslashes (after_script env scriptPath argv cwd)
            in if args = [] then Some no_args_pattern
               else Some (''^'' @ js_join [NUL] (map escapeRegExpLiteral args) @ [NUL, CHR ''$''])))"

definition buildArgPatternFromArgv :: "exec_env \<Rightarrow> string list \<Rightarrow> string option \<Rightarrow> string option" where
  "buildArgPatternFromArgv env argv platform =
     (if \<not> on_windows env platform then None
      else (let args = map slashes_to_backslashes (drop 1 argv)
            in if args = [] then Some no_args_pattern
               else Some (''^'' @ escapeRegExpLiteral (js_join [NUL] args) @ [NUL, CHR ''$''])))"

definition addAllowAlwaysPattern :: "always_pattern list \<Rightarrow> always_pattern \<Rightarrow> always_pattern list" where
  "addAllowAlwaysPattern out p = (if p \<in> set out then out else out @ [p])"

definition has_lower_token :: "string list \<Rightarrow> string list \<Rightarrow> bool" where
  "has_lower_token flags argv \<longleftrightarrow> list_ex (\<lambda>t. normalizeLowercaseStringOrEmpty (JString t) \<in> set flags) argv"

record always_ctx =
  ay_cwd :: "string option"
  ay_env :: "process_env option"
  ay_platform :: "string option"
  ay_strictInlineEval :: bool

text \<open>The segment that the trust plan leaves.\<close>

definition planned_segment :: "exec_env \<Rightarrow> always_ctx \<Rightarrow> exec_segment \<Rightarrow> trust_plan \<Rightarrow> exec_segment" where
  "planned_segment env ay segment plan =
     (if tp_argv plan = sg_argv segment then segment
      else make_segment env (ay_cwd ay) (ay_env ay) (js_join '' '' (tp_argv plan)) (tp_argv plan))"

definition segment_inline_command :: "exec_env \<Rightarrow> trust_plan \<Rightarrow> exec_segment \<Rightarrow> string option" where
  "segment_inline_command env plan segment =
     (if normalizeExecutableToken env (argv0 segment) \<in> set POWERSHELL_WRAPPERS \<and>
         has_lower_token [''-file'', ''-f''] (sg_argv segment) \<and>
         \<not> has_lower_token [''-command'', ''-c'', ''--command''] (sg_argv segment)
      then None
      else nullish_opt (tp_shellInlineCommand plan) (extractShellWrapperInlineCommand env (sg_argv segment)))"

text \<open>The first argument is \<open>3 - depth\<close>.\<close>

fun collectAllowAlwaysPatterns ::
  "exec_env \<Rightarrow> always_ctx \<Rightarrow> nat \<Rightarrow> always_pattern list \<Rightarrow> exec_segment \<Rightarrow> always_pattern list" where
  "collectAllowAlwaysPatterns env ay 0 out segment0 = out"
| "collectAllowAlwaysPatterns env ay (Suc n) out segment0 =
     (let plan = resolveExecWrapperTrustPlan env (sg_argv segment0);
          segment = planned_segment env ay segment0 plan;
          candidatePath = resolveExecutionTargetCandidatePath env (sg_resolution segment) (ay_cwd ay);
          effectiveArgv = (case sg_resolution segment of None \<Rightarrow> sg_argv segment | Some r \<Rightarrow> cr_effectiveArgv r);
          carried = resolveShellWrapperPositionalArgvCandidatePath env segment (ay_cwd ay) (ay_env ay);
          inlineCommand = segment_inline_command env plan segment;
          script = resolveShellWrapperScriptCandidatePath env segment (ay_cwd ay)
      in if tp_blockedWrapper plan \<noteq> None then out
         else if \<not> str_truthy candidatePath then out
         else if isInterpreterLikeAllowlistPattern env candidatePath \<and>
                 (\<not> ay_strictInlineEval ay \<or> detectInterpreterInlineEvalArgv env effectiveArgv \<noteq> None) then out
         else if \<not> tp_shellWrapperExecutable plan then
           addAllowAlwaysPattern out (the candidatePath, buildArgPatternFromArgv env (sg_argv segment) (ay_platform ay))
         else if str_truthy carried then addAllowAlwaysPattern out (the carried, None)
         else if \<not> str_truthy inlineCommand then
           (if str_truthy script
            then addAllowAlwaysPattern out
                   (the script, buildScriptArgPatternFromArgv env (sg_argv segment0) (the script) (ay_cwd ay) (ay_platform ay))
            else out)
         else (case analyzeShellCommand env (the inlineCommand) (ay_cwd ay) (ay_env ay) (ay_platform ay) of
           Inl _ \<Rightarrow> out
         | Inr nested \<Rightarrow> foldl (collectAllowAlwaysPatterns env ay n) out (an_segments nested)))"

definition resolveAllowAlwaysPatternEntries :: "exec_env \<Rightarrow> always_ctx \<Rightarrow> exec_segment list \<Rightarrow> always_pattern list" where
  "resolveAllowAlwaysPatternEntries env ay segments = foldl (collectAllowAlwaysPatterns env ay 3) [] segments"

definition resolveAllowAlwaysPatterns :: "exec_env \<Rightarrow> always_ctx \<Rightarrow> exec_segment list \<Rightarrow> string list" where
  "resolveAllowAlwaysPatterns env ay segments = map fst (resolveAllowAlwaysPatternEntries env ay segments)"

end
