(* ===== verification/Exec_Approvals.thy ===== *)
theory Exec_Approvals
  imports Exec_Allowlist Session_Key
begin

text \<open>
  The file of approvals and what it says of an agent: src/brain/src/infra/exec-approvals.ts.

  The file is the parsed JSON value; its fields are what any JSON may hold where the source checks
  them. The checks of the directory and of symbolic links, the socket request and the printing of the
  file are left out. \<open>crypto.randomUUID\<close> gives the values of a sequence \<open>uuid\<close>, counted by a number that
  is passed on; \<open>sha256\<close> is that of \<open>exec_env\<close>.
\<close>

datatype exec_security = SecDeny | SecAllowlist | SecFull
datatype exec_ask = AskOff | AskOnMiss | AskAlways
datatype exec_host = HostSandbox | HostGateway | HostNode
datatype exec_target = TargetAuto | TargetHost exec_host

definition security_of :: "string \<Rightarrow> exec_security option" where
  "security_of s = (if s = ''deny'' then Some SecDeny else if s = ''allowlist'' then Some SecAllowlist
     else if s = ''full'' then Some SecFull else None)"

definition ask_of :: "string \<Rightarrow> exec_ask option" where
  "ask_of s = (if s = ''off'' then Some AskOff else if s = ''on-miss'' then Some AskOnMiss
     else if s = ''always'' then Some AskAlways else None)"

definition security_text :: "exec_security \<Rightarrow> string" where
  "security_text x = (case x of SecDeny \<Rightarrow> ''deny'' | SecAllowlist \<Rightarrow> ''allowlist'' | SecFull \<Rightarrow> ''full'')"

definition ask_text :: "exec_ask \<Rightarrow> string" where
  "ask_text x = (case x of AskOff \<Rightarrow> ''off'' | AskOnMiss \<Rightarrow> ''on-miss'' | AskAlways \<Rightarrow> ''always'')"

definition normalizeExecHost :: "string option \<Rightarrow> exec_host option" where
  "normalizeExecHost v = (case normalizeOptionalLowercaseString (js_opt v) of
     None \<Rightarrow> None
   | Some s \<Rightarrow> (if s = ''sandbox'' then Some HostSandbox else if s = ''gateway'' then Some HostGateway
        else if s = ''node'' then Some HostNode else None))"

definition normalizeExecTarget :: "string option \<Rightarrow> exec_target option" where
  "normalizeExecTarget v =
     (if normalizeOptionalLowercaseString (js_opt v) = Some ''auto'' then Some TargetAuto
      else map_option TargetHost (normalizeExecHost (normalizeOptionalLowercaseString (js_opt v))))"

definition normalizeExecSecurity :: "string option \<Rightarrow> exec_security option" where
  "normalizeExecSecurity v = Option.bind (normalizeOptionalLowercaseString (js_opt v)) security_of"

definition normalizeExecAsk :: "string option \<Rightarrow> exec_ask option" where
  "normalizeExecAsk v = Option.bind (normalizeOptionalLowercaseString (js_opt v)) ask_of"

subsection \<open>The file\<close>

text \<open>An item of an allowlist: a text of an old file, an entry, or a value of another kind that the source
  drops. An entry whose pattern is not a text is of the last kind.\<close>

datatype allow_item = ItemText string | ItemEntry allow_entry | ItemOther

text \<open>The policy of the defaults and of an agent. \<open>ag_allowlist\<close> is absent where the source has no array.\<close>

record exec_policy =
  po_security :: js_value
  po_ask :: js_value
  po_askFallback :: js_value
  po_autoAllowSkills :: "bool option"

record exec_agent = exec_policy +
  ag_allowlist :: "allow_item list option"

record approvals_file =
  af_socketPath :: "string option"
  af_socketToken :: "string option"
  af_defaults :: exec_policy
  af_agents :: "(string, exec_agent) js_map"

definition no_policy :: exec_policy where
  "no_policy = \<lparr>po_security = JUndefined, po_ask = JUndefined, po_askFallback = JUndefined, po_autoAllowSkills = None\<rparr>"

definition no_agent :: exec_agent where
  "no_agent = \<lparr>po_security = JUndefined, po_ask = JUndefined, po_askFallback = JUndefined, po_autoAllowSkills = None,
     ag_allowlist = None\<rparr>"

definition empty_file :: approvals_file where
  "empty_file = \<lparr>af_socketPath = None, af_socketToken = None, af_defaults = no_policy, af_agents = []\<rparr>"

definition nullish_value :: "js_value \<Rightarrow> bool" where
  "nullish_value v \<longleftrightarrow> v = JUndefined \<or> v = JNull"

definition value_or :: "js_value \<Rightarrow> js_value \<Rightarrow> js_value" where
  "value_or a b = (if nullish_value a then b else a)"

definition normalizeAllowlistPattern :: "string option \<Rightarrow> string option" where
  "normalizeAllowlistPattern v = (case normalizeOptionalString (js_opt v) of
     None \<Rightarrow> None | Some t \<Rightarrow> Some (normalizeLowercaseStringOrEmpty (JString t)))"

text \<open>The key of \<open>pushEntry\<close>; an item without a pattern has none.\<close>

definition legacy_key :: "allow_item \<Rightarrow> string option" where
  "legacy_key item = (case item of
     ItemEntry e \<Rightarrow> map_option (\<lambda>k. k @ [NUL] @ js_trim (nullish (ae_argPattern e) [])) (normalizeAllowlistPattern (Some (ae_pattern e)))
   | _ \<Rightarrow> None)"

fun push_entries :: "string list \<Rightarrow> allow_item list \<Rightarrow> allow_item list" where
  "push_entries seen [] = []"
| "push_entries seen (item # items) = (case legacy_key item of
     None \<Rightarrow> push_entries seen items
   | Some key \<Rightarrow> if key \<in> set seen then push_entries seen items else item # push_entries (key # seen) items)"

definition mergeLegacyAgent :: "exec_agent \<Rightarrow> exec_agent \<Rightarrow> exec_agent" where
  "mergeLegacyAgent current legacy =
     (let allowlist = push_entries [] (nullish (ag_allowlist current) [] @ nullish (ag_allowlist legacy) [])
      in \<lparr>po_security = value_or (po_security current) (po_security legacy),
          po_ask = value_or (po_ask current) (po_ask legacy),
          po_askFallback = value_or (po_askFallback current) (po_askFallback legacy),
          po_autoAllowSkills = nullish_opt (po_autoAllowSkills current) (po_autoAllowSkills legacy),
          ag_allowlist = (if allowlist = [] then None else Some allowlist)\<rparr>)"

definition entry_of_text :: "string \<Rightarrow> allow_entry" where
  "entry_of_text t = \<lparr>ae_id = None, ae_pattern = t, ae_allowAlways = False, ae_commandText = None, ae_argPattern = None,
     ae_lastUsedAt = None, ae_lastUsedCommand = None, ae_lastResolvedPath = None\<rparr>"

definition coerce_item :: "allow_item \<Rightarrow> allow_entry option" where
  "coerce_item item = (case item of
     ItemText t \<Rightarrow> if js_trim t = [] then None else Some (entry_of_text (js_trim t))
   | ItemEntry e \<Rightarrow> if js_trim (ae_pattern e) = [] then None else Some e
   | ItemOther \<Rightarrow> None)"

definition coerceAllowlistEntries :: "allow_item list option \<Rightarrow> allow_entry list option" where
  "coerceAllowlistEntries allowlist = (case allowlist of
     None \<Rightarrow> None
   | Some items \<Rightarrow>
       (let result = List.map_filter coerce_item items
        in if items = [] then Some [] else if result = [] then None else Some result))"

fun ensure_ids :: "(nat \<Rightarrow> string) \<Rightarrow> nat \<Rightarrow> allow_entry list \<Rightarrow> allow_entry list \<times> nat" where
  "ensure_ids uuid n [] = ([], n)"
| "ensure_ids uuid n (e # es) =
     (if str_truthy (ae_id e) then (case ensure_ids uuid n es of (r, n') \<Rightarrow> (e # r, n'))
      else (case ensure_ids uuid (Suc n) es of (r, n') \<Rightarrow> (e\<lparr>ae_id := Some (uuid n)\<rparr> # r, n')))"

definition ensureAllowlistIds :: "(nat \<Rightarrow> string) \<Rightarrow> nat \<Rightarrow> allow_entry list option \<Rightarrow> allow_entry list option \<times> nat" where
  "ensureAllowlistIds uuid n allowlist = (case allowlist of
     None \<Rightarrow> (None, n) | Some es \<Rightarrow> (case ensure_ids uuid n es of (r, n') \<Rightarrow> (Some r, n')))"

definition stripAllowlistCommandText :: "allow_entry list option \<Rightarrow> allow_entry list option" where
  "stripAllowlistCommandText = map_option (map (ae_commandText_update (\<lambda>_. None)))"

definition sanitize_value :: "(string \<Rightarrow> 'a option) \<Rightarrow> js_value \<Rightarrow> js_value" where
  "sanitize_value known v = (case v of
     JString s \<Rightarrow> if known (js_trim s) = None then JUndefined else JString (js_trim s)
   | _ \<Rightarrow> JUndefined)"

definition sanitizeExecApprovalPolicy :: "('a) exec_policy_scheme \<Rightarrow> ('a) exec_policy_scheme" where
  "sanitizeExecApprovalPolicy p = p\<lparr>po_security := sanitize_value security_of (po_security p),
     po_ask := sanitize_value ask_of (po_ask p), po_askFallback := sanitize_value security_of (po_askFallback p)\<rparr>"

definition normalize_agent :: "(nat \<Rightarrow> string) \<Rightarrow> nat \<Rightarrow> exec_agent \<Rightarrow> exec_agent \<times> nat" where
  "normalize_agent uuid n agent =
     (case ensureAllowlistIds uuid n (coerceAllowlistEntries (ag_allowlist agent)) of
        (withIds, n') \<Rightarrow>
          ((sanitizeExecApprovalPolicy agent)\<lparr>ag_allowlist := map_option (map ItemEntry) (stripAllowlistCommandText withIds)\<rparr>, n'))"

fun normalize_agents :: "(nat \<Rightarrow> string) \<Rightarrow> nat \<Rightarrow> (string, exec_agent) js_map \<Rightarrow> (string, exec_agent) js_map \<times> nat" where
  "normalize_agents uuid n [] = ([], n)"
| "normalize_agents uuid n ((k, a) # as) =
     (case normalize_agent uuid n a of
        (a', n') \<Rightarrow> (case normalize_agents uuid n' as of (r, n'') \<Rightarrow> ((k, a') # r, n'')))"

definition migrate_default :: "(string, exec_agent) js_map \<Rightarrow> (string, exec_agent) js_map" where
  "migrate_default agents = (case jm_get agents ''default'' of
     None \<Rightarrow> agents
   | Some legacy \<Rightarrow>
       jm_delete (jm_set agents DEFAULT_AGENT_ID
         (case jm_get agents DEFAULT_AGENT_ID of None \<Rightarrow> legacy | Some main \<Rightarrow> mergeLegacyAgent main legacy)) ''default'')"

definition trim_to_none :: "string option \<Rightarrow> string option" where
  "trim_to_none v = (case v of None \<Rightarrow> None | Some s \<Rightarrow> if js_trim s = [] then None else Some (js_trim s))"

definition normalizeExecApprovals :: "(nat \<Rightarrow> string) \<Rightarrow> nat \<Rightarrow> approvals_file \<Rightarrow> approvals_file \<times> nat" where
  "normalizeExecApprovals uuid n file =
     (case normalize_agents uuid n (migrate_default (af_agents file)) of
        (agents, n') \<Rightarrow>
          (\<lparr>af_socketPath = trim_to_none (af_socketPath file), af_socketToken = trim_to_none (af_socketToken file),
            af_defaults = sanitizeExecApprovalPolicy (af_defaults file), af_agents = agents\<rparr>, n'))"

definition mergeExecApprovalsSocketDefaults :: "string \<Rightarrow> approvals_file \<Rightarrow> approvals_file option \<Rightarrow> approvals_file" where
  "mergeExecApprovalsSocketDefaults defaultPath normalized current =
     (let cur = (\<lambda>f. case current of None \<Rightarrow> None | Some c \<Rightarrow> map_option js_trim (f c))
      in normalized\<lparr>
          af_socketPath := Some (nullish (nullish_opt (map_option js_trim (af_socketPath normalized)) (cur af_socketPath)) defaultPath),
          af_socketToken := Some (nullish (nullish_opt (map_option js_trim (af_socketToken normalized)) (cur af_socketToken)) [])\<rparr>)"

text \<open>What is on the disk: nothing, something that is not JSON or cannot be read, or a value with its
  version.\<close>

datatype approvals_disk = NoFile | BadFile | VersionedFile int approvals_file

definition loadExecApprovals :: "(nat \<Rightarrow> string) \<Rightarrow> nat \<Rightarrow> approvals_disk \<Rightarrow> approvals_file \<times> nat" where
  "loadExecApprovals uuid n disk = normalizeExecApprovals uuid n (case disk of
     VersionedFile v file \<Rightarrow> if v = 1 then file else empty_file
   | _ \<Rightarrow> empty_file)"

text \<open>The file that is saved and returned; \<open>token\<close> is what \<open>generateToken\<close> gives.\<close>

definition ensureExecApprovals ::
  "exec_env \<Rightarrow> (nat \<Rightarrow> string) \<Rightarrow> string \<Rightarrow> nat \<Rightarrow> approvals_disk \<Rightarrow> approvals_file \<times> nat" where
  "ensureExecApprovals env uuid token n disk =
     (case loadExecApprovals uuid n disk of
        (loaded, n') \<Rightarrow>
          (case normalizeExecApprovals uuid n' loaded of
             (file, n'') \<Rightarrow>
               (file\<lparr>af_socketPath := Some (str_or (js_trim (nullish (af_socketPath file) []))
                        (expandHomePrefix env None ''~/.openclaw/exec-approvals.sock'')),
                     af_socketToken := Some (str_or (js_trim (nullish (af_socketToken file) [])) token)\<rparr>, n'')))"

subsection \<open>The policy of an agent\<close>

definition isExecSecurity :: "js_value \<Rightarrow> exec_security option" where
  "isExecSecurity v = (case v of JString s \<Rightarrow> security_of s | _ \<Rightarrow> None)"

definition isExecAsk :: "js_value \<Rightarrow> exec_ask option" where
  "isExecAsk v = (case v of JString s \<Rightarrow> ask_of s | _ \<Rightarrow> None)"

text \<open>A field of the defaults: its value and where it comes from.\<close>

definition resolve_default_field :: "string \<Rightarrow> 'a option \<Rightarrow> 'a \<Rightarrow> 'a \<times> string option" where
  "resolve_default_field field v fallback = (case v of
     Some x \<Rightarrow> (x, Some (''defaults.'' @ field)) | None \<Rightarrow> (fallback, None))"

text \<open>A field of an agent: \<open>raw\<close> and \<open>rawWildcard\<close> are as the file has them, \<open>agent\<close> and \<open>wildcard\<close> as
  they are normalised.\<close>

definition resolve_agent_field ::
  "string \<Rightarrow> string \<Rightarrow> js_value \<Rightarrow> 'a option \<Rightarrow> js_value \<Rightarrow> 'a option \<Rightarrow> 'a \<times> string option \<Rightarrow> 'a \<times> string option" where
  "resolve_agent_field field agentKey raw agent rawWildcard wildcard fallback =
     (if \<not> nullish_value raw then
        (case agent of Some x \<Rightarrow> (x, Some (''agents.'' @ agentKey @ ''.'' @ field)) | None \<Rightarrow> fallback)
      else if \<not> nullish_value rawWildcard then
        (case wildcard of Some x \<Rightarrow> (x, Some (''agents.*.'' @ field)) | None \<Rightarrow> fallback)
      else fallback)"

record resolved_policy =
  rp_security :: exec_security
  rp_ask :: exec_ask
  rp_askFallback :: exec_security
  rp_autoAllowSkills :: bool

record resolved_approvals =
  ra_defaults :: resolved_policy
  ra_agent :: resolved_policy
  ra_sources :: "string option \<times> string option \<times> string option"
  ra_allowlist :: "allow_entry list"
  ra_file :: approvals_file

record default_overrides =
  do_security :: "exec_security option"
  do_ask :: "exec_ask option"
  do_askFallback :: "exec_security option"
  do_autoAllowSkills :: "bool option"

definition items_entries :: "allow_item list option \<Rightarrow> allow_entry list" where
  "items_entries items = List.map_filter (\<lambda>i. case i of ItemEntry e \<Rightarrow> Some e | _ \<Rightarrow> None) (nullish items [])"

definition agent_of :: "approvals_file \<Rightarrow> string \<Rightarrow> exec_agent" where
  "agent_of file k = nullish (jm_get (af_agents file) k) no_agent"

definition resolveExecApprovalsFromFile ::
  "(nat \<Rightarrow> string) \<Rightarrow> nat \<Rightarrow> approvals_file \<Rightarrow> string option \<Rightarrow> default_overrides \<Rightarrow> resolved_approvals" where
  "resolveExecApprovalsFromFile uuid n rawFile agentId overrides =
     (let file = fst (normalizeExecApprovals uuid n rawFile);
          defaults = af_defaults file;
          agentKey = nullish agentId DEFAULT_AGENT_ID;
          agent = agent_of file agentKey; wildcard = agent_of file ''*'';
          rawAgent = agent_of rawFile agentKey; rawWildcard = agent_of rawFile ''*'';
          baseSecurity = nullish (isExecSecurity (po_security defaults)) (nullish (do_security overrides) SecFull);
          baseAsk = nullish (isExecAsk (po_ask defaults)) (nullish (do_ask overrides) AskOff);
          baseAskFallback = nullish (isExecSecurity (po_askFallback defaults)) (nullish (do_askFallback overrides) SecFull);
          baseSkills = nullish (po_autoAllowSkills defaults) (nullish (do_autoAllowSkills overrides) False);
          (security, securitySource) = resolve_agent_field ''security'' agentKey
            (po_security rawAgent) (isExecSecurity (po_security agent))
            (po_security rawWildcard) (isExecSecurity (po_security wildcard))
            (resolve_default_field ''security'' (isExecSecurity (po_security defaults)) baseSecurity);
          (ask, askSource) = resolve_agent_field ''ask'' agentKey
            (po_ask rawAgent) (isExecAsk (po_ask agent)) (po_ask rawWildcard) (isExecAsk (po_ask wildcard))
            (resolve_default_field ''ask'' (isExecAsk (po_ask defaults)) baseAsk);
          (askFallback, fallbackSource) = resolve_agent_field ''askFallback'' agentKey
            (po_askFallback rawAgent) (isExecSecurity (po_askFallback agent))
            (po_askFallback rawWildcard) (isExecSecurity (po_askFallback wildcard))
            (resolve_default_field ''askFallback'' (isExecSecurity (po_askFallback defaults)) baseAskFallback)
      in \<lparr>ra_defaults = \<lparr>rp_security = baseSecurity, rp_ask = baseAsk, rp_askFallback = baseAskFallback,
            rp_autoAllowSkills = baseSkills\<rparr>,
          ra_agent = \<lparr>rp_security = security, rp_ask = ask, rp_askFallback = askFallback,
            rp_autoAllowSkills = nullish (nullish_opt (po_autoAllowSkills agent) (po_autoAllowSkills wildcard)) baseSkills\<rparr>,
          ra_sources = (securitySource, askSource, fallbackSource),
          ra_allowlist = items_entries (ag_allowlist wildcard) @ items_entries (ag_allowlist agent),
          ra_file = file\<rparr>)"

definition resolveExecApprovals ::
  "exec_env \<Rightarrow> (nat \<Rightarrow> string) \<Rightarrow> string \<Rightarrow> nat \<Rightarrow> approvals_disk \<Rightarrow> string option \<Rightarrow> default_overrides
     \<Rightarrow> resolved_approvals \<times> approvals_disk" where
  "resolveExecApprovals env uuid token n disk agentId overrides =
     (case ensureExecApprovals env uuid token n disk of
        (file, n') \<Rightarrow> (resolveExecApprovalsFromFile uuid n' file agentId overrides, VersionedFile 1 file))"

subsection \<open>Decisions\<close>

definition requiresExecApproval :: "exec_ask \<Rightarrow> exec_security \<Rightarrow> bool \<Rightarrow> bool \<Rightarrow> bool \<Rightarrow> bool" where
  "requiresExecApproval ask security analysisOk allowlistSatisfied durable \<longleftrightarrow>
     (if ask = AskAlways then True
      else if durable then False
      else ask = AskOnMiss \<and> security = SecAllowlist \<and> (\<not> analysisOk \<or> \<not> allowlistSatisfied))"

definition buildDurableCommandApprovalPattern :: "exec_env \<Rightarrow> string \<Rightarrow> string" where
  "buildDurableCommandApprovalPattern env commandText = ''=command:'' @ take 16 (xe_sha256 env commandText)"

definition hasExactCommandDurableExecApproval :: "exec_env \<Rightarrow> allow_entry list \<Rightarrow> string option \<Rightarrow> bool" where
  "hasExactCommandDurableExecApproval env allowlist commandText \<longleftrightarrow>
     (let normalized = js_trim (nullish commandText [])
      in normalized \<noteq> [] \<and>
         list_ex (\<lambda>e. ae_allowAlways e \<and>
           (ae_pattern e = buildDurableCommandApprovalPattern env normalized \<or>
            (case ae_commandText e of None \<Rightarrow> False | Some t \<Rightarrow> js_trim t = normalized))) allowlist)"

definition hasSegmentDurableExecApproval :: "bool \<Rightarrow> allow_entry option list \<Rightarrow> bool" where
  "hasSegmentDurableExecApproval analysisOk entries \<longleftrightarrow> analysisOk \<and> entries \<noteq> [] \<and>
     list_all (\<lambda>e. case e of None \<Rightarrow> False | Some x \<Rightarrow> ae_allowAlways x) entries"

definition hasDurableExecApproval ::
  "exec_env \<Rightarrow> bool \<Rightarrow> allow_entry option list \<Rightarrow> allow_entry list \<Rightarrow> string option \<Rightarrow> bool" where
  "hasDurableExecApproval env analysisOk entries allowlist commandText \<longleftrightarrow>
     hasExactCommandDurableExecApproval env allowlist commandText \<or> hasSegmentDurableExecApproval analysisOk entries"

definition security_rank :: "exec_security \<Rightarrow> nat" where
  "security_rank x = (case x of SecDeny \<Rightarrow> 0 | SecAllowlist \<Rightarrow> 1 | SecFull \<Rightarrow> 2)"

definition ask_rank :: "exec_ask \<Rightarrow> nat" where
  "ask_rank x = (case x of AskOff \<Rightarrow> 0 | AskOnMiss \<Rightarrow> 1 | AskAlways \<Rightarrow> 2)"

definition minSecurity :: "exec_security \<Rightarrow> exec_security \<Rightarrow> exec_security" where
  "minSecurity a b = (if security_rank a \<le> security_rank b then a else b)"

definition maxAsk :: "exec_ask \<Rightarrow> exec_ask \<Rightarrow> exec_ask" where
  "maxAsk a b = (if ask_rank b \<le> ask_rank a then a else b)"

datatype exec_decision = AllowOnce | AllowAlways | Deny

definition decision_of :: "string \<Rightarrow> exec_decision option" where
  "decision_of s = (if s = ''allow-once'' then Some AllowOnce else if s = ''allow-always'' then Some AllowAlways
     else if s = ''deny'' then Some Deny else None)"

definition resolveExecApprovalAllowedDecisions :: "string option \<Rightarrow> exec_decision list" where
  "resolveExecApprovalAllowedDecisions ask =
     (if normalizeExecAsk ask = Some AskAlways then [AllowOnce, Deny] else [AllowOnce, AllowAlways, Deny])"

definition resolveExecApprovalRequestAllowedDecisions :: "string option \<Rightarrow> string list option \<Rightarrow> exec_decision list" where
  "resolveExecApprovalRequestAllowedDecisions ask allowed =
     (let explicit = List.map_filter decision_of (nullish allowed [])
      in if explicit \<noteq> [] then explicit else resolveExecApprovalAllowedDecisions ask)"

definition isExecApprovalDecisionAllowed :: "exec_decision \<Rightarrow> string option \<Rightarrow> bool" where
  "isExecApprovalDecisionAllowed decision ask \<longleftrightarrow> decision \<in> set (resolveExecApprovalAllowedDecisions ask)"

subsection \<open>Updates of the file\<close>

text \<open>Each update gives the file that it has changed in memory and saved; \<open>None\<close> is an early return. Where
  several follow one another, a flag says whether the file has been saved.\<close>

type_synonym saved_file = "approvals_file \<times> bool"

definition save_step :: "approvals_file option \<Rightarrow> saved_file \<Rightarrow> saved_file" where
  "save_step r st = (case r of None \<Rightarrow> st | Some file \<Rightarrow> (file, True))"

definition same_entry :: "allow_entry \<Rightarrow> string \<Rightarrow> string option \<Rightarrow> bool" where
  "same_entry e pattern argPattern \<longleftrightarrow> ae_pattern e = pattern \<and> ae_argPattern e = argPattern"

definition set_allowlist :: "approvals_file \<Rightarrow> string \<Rightarrow> allow_item list \<Rightarrow> approvals_file" where
  "set_allowlist file target items =
     file\<lparr>af_agents := jm_set (af_agents file) target ((agent_of file target)\<lparr>ag_allowlist := Some items\<rparr>)\<rparr>"

text \<open>The new ids of \<open>item.id ?? crypto.randomUUID()\<close>, in the order of the list.\<close>

fun use_items ::
  "(nat \<Rightarrow> string) \<Rightarrow> int \<Rightarrow> string \<Rightarrow> string option \<Rightarrow> allow_entry \<Rightarrow> nat \<Rightarrow> allow_item list \<Rightarrow> allow_item list \<times> nat" where
  "use_items uuid now command path entry n [] = ([], n)"
| "use_items uuid now command path entry n (item # items) =
     (case item of
        ItemEntry e \<Rightarrow>
          (if same_entry e (ae_pattern entry) (ae_argPattern entry) then
             (let (i, n') = (case ae_id e of Some i \<Rightarrow> (i, n) | None \<Rightarrow> (uuid n, Suc n));
                  (r, n'') = use_items uuid now command path entry n' items
              in (ItemEntry (e\<lparr>ae_id := Some i, ae_lastUsedAt := Some now, ae_lastUsedCommand := Some command,
                    ae_lastResolvedPath := path\<rparr>) # r, n''))
           else (case use_items uuid now command path entry n items of (r, n') \<Rightarrow> (item # r, n')))
      | _ \<Rightarrow> (case use_items uuid now command path entry n items of (r, n') \<Rightarrow> (item # r, n')))"

definition recordAllowlistUse ::
  "(nat \<Rightarrow> string) \<Rightarrow> int \<Rightarrow> approvals_file \<Rightarrow> string option \<Rightarrow> allow_entry \<Rightarrow> string \<Rightarrow> string option \<Rightarrow> nat
     \<Rightarrow> approvals_file \<times> nat" where
  "recordAllowlistUse uuid now file agentId entry command path n =
     (let target = nullish agentId DEFAULT_AGENT_ID;
          (items, n') = use_items uuid now command path entry n (nullish (ag_allowlist (agent_of file target)) [])
      in (set_allowlist file target items, n'))"

definition buildAllowlistEntryMatchKey :: "allow_entry \<Rightarrow> string" where
  "buildAllowlistEntryMatchKey e = ae_pattern e @ [NUL] @ js_trim (nullish (ae_argPattern e) [])"

fun record_matches ::
  "(nat \<Rightarrow> string) \<Rightarrow> int \<Rightarrow> string option \<Rightarrow> string \<Rightarrow> string option \<Rightarrow> string list \<Rightarrow> allow_entry list
     \<Rightarrow> saved_file \<times> nat \<Rightarrow> saved_file \<times> nat" where
  "record_matches uuid now agentId command path seen [] st = st"
| "record_matches uuid now agentId command path seen (m # ms) st =
     (let key = buildAllowlistEntryMatchKey m
      in if ae_pattern m = [] \<or> key \<in> set seen then record_matches uuid now agentId command path seen ms st
         else (case recordAllowlistUse uuid now (fst (fst st)) agentId m command path (snd st) of
           (file, n') \<Rightarrow> record_matches uuid now agentId command path (key # seen) ms ((file, True), n')))"

definition recordAllowlistMatchesUse ::
  "(nat \<Rightarrow> string) \<Rightarrow> int \<Rightarrow> saved_file \<Rightarrow> string option \<Rightarrow> allow_entry list \<Rightarrow> string \<Rightarrow> string option \<Rightarrow> nat \<Rightarrow> saved_file" where
  "recordAllowlistMatchesUse uuid now st agentId matches command path n =
     fst (record_matches uuid now agentId command path [] matches (st, n))"

text \<open>\<open>source\<close> is whether the source \<open>allow-always\<close> is given.\<close>

definition addAllowlistEntry ::
  "(nat \<Rightarrow> string) \<Rightarrow> int \<Rightarrow> approvals_file \<Rightarrow> string option \<Rightarrow> string \<Rightarrow> string option \<Rightarrow> bool \<Rightarrow> nat \<Rightarrow> approvals_file option" where
  "addAllowlistEntry uuid now file agentId pattern argPattern source n =
     (let target = nullish agentId DEFAULT_AGENT_ID;
          items = nullish (ag_allowlist (agent_of file target)) [];
          trimmed = js_trim pattern;
          arg = normalizeOptionalString (js_opt argPattern);
          found = List.find (\<lambda>i. case i of ItemEntry e \<Rightarrow> same_entry e trimmed arg | _ \<Rightarrow> False) items
      in if trimmed = [] then None
         else (case found of
             None \<Rightarrow> Some (set_allowlist file target (items @ [ItemEntry (entry_of_text trimmed\<lparr>ae_id := Some (uuid n),
               ae_argPattern := arg, ae_allowAlways := source, ae_lastUsedAt := Some now\<rparr>)]))
           | Some (ItemEntry f) \<Rightarrow>
               (if \<not> source \<or> ae_allowAlways f then None
                else Some (set_allowlist file target (map (\<lambda>i. case i of
                    ItemEntry e \<Rightarrow> if ae_pattern e = trimmed
                      then ItemEntry (e\<lparr>ae_argPattern := arg, ae_allowAlways := source \<or> ae_allowAlways e, ae_lastUsedAt := Some now\<rparr>)
                      else i
                  | _ \<Rightarrow> i) items)))
           | Some _ \<Rightarrow> None))"

definition addDurableCommandApproval ::
  "exec_env \<Rightarrow> (nat \<Rightarrow> string) \<Rightarrow> int \<Rightarrow> approvals_file \<Rightarrow> string option \<Rightarrow> string \<Rightarrow> nat \<Rightarrow> approvals_file option" where
  "addDurableCommandApproval env uuid now file agentId commandText n =
     (if js_trim commandText = [] then None
      else addAllowlistEntry uuid now file agentId (buildDurableCommandApprovalPattern env (js_trim commandText)) None True n)"

text \<open>The patterns of a segment are added in turn. Each takes at most one id.\<close>

fun persist_patterns ::
  "(nat \<Rightarrow> string) \<Rightarrow> int \<Rightarrow> string option \<Rightarrow> nat \<Rightarrow> always_pattern list \<Rightarrow> saved_file \<Rightarrow> saved_file" where
  "persist_patterns uuid now agentId n [] st = st"
| "persist_patterns uuid now agentId n ((pattern, arg) # ps) st =
     persist_patterns uuid now agentId (Suc n) ps
       (if pattern = [] then st else save_step (addAllowlistEntry uuid now (fst st) agentId pattern arg True n) st)"

definition persistAllowAlwaysPatterns ::
  "exec_env \<Rightarrow> (nat \<Rightarrow> string) \<Rightarrow> int \<Rightarrow> always_ctx \<Rightarrow> saved_file \<Rightarrow> string option \<Rightarrow> exec_segment list \<Rightarrow> nat
     \<Rightarrow> always_pattern list \<times> saved_file" where
  "persistAllowAlwaysPatterns env uuid now ay st agentId segments n =
     (let patterns = resolveAllowAlwaysPatternEntries env ay segments
      in (patterns, persist_patterns uuid now agentId n patterns st))"

end
