(* ===== verification/Exec_Approvals_Proofs.thy ===== *)
theory Exec_Approvals_Proofs
  imports Exec_Approvals
begin

text \<open>
  The file of approvals: normalising is idempotent, the policy of an agent follows an order of precedence,
  and an update changes the entries it names.
\<close>

subsection \<open>Normal form\<close>

definition normal_entry :: "allow_entry \<Rightarrow> bool" where
  "normal_entry e \<longleftrightarrow> js_trim (ae_pattern e) \<noteq> [] \<and> str_truthy (ae_id e) \<and> ae_commandText e = None"

definition normal_value :: "(string \<Rightarrow> 'a option) \<Rightarrow> js_value \<Rightarrow> bool" where
  "normal_value known v \<longleftrightarrow> v = JUndefined \<or> (\<exists>s. v = JString s \<and> js_trim s = s \<and> known s \<noteq> None)"

definition normal_policy :: "('a) exec_policy_scheme \<Rightarrow> bool" where
  "normal_policy p \<longleftrightarrow> normal_value security_of (po_security p) \<and> normal_value ask_of (po_ask p) \<and>
     normal_value security_of (po_askFallback p)"

definition normal_agent :: "exec_agent \<Rightarrow> bool" where
  "normal_agent a \<longleftrightarrow> normal_policy a \<and>
     (case ag_allowlist a of None \<Rightarrow> True | Some items \<Rightarrow> \<exists>es. items = map ItemEntry es \<and> (\<forall>e \<in> set es. normal_entry e))"

definition normal_file :: "approvals_file \<Rightarrow> bool" where
  "normal_file f \<longleftrightarrow> (\<forall>s. af_socketPath f = Some s \<longrightarrow> s \<noteq> [] \<and> js_trim s = s) \<and>
     (\<forall>s. af_socketToken f = Some s \<longrightarrow> s \<noteq> [] \<and> js_trim s = s) \<and> normal_policy (af_defaults f) \<and>
     jm_get (af_agents f) ''default'' = None \<and> (\<forall>(k, a) \<in> set (af_agents f). normal_agent a)"

lemma sanitize_normal: "normal_value known (sanitize_value known v)"
  by (cases v) (auto simp: normal_value_def sanitize_value_def)

lemma sanitize_fixed: "normal_value known v \<Longrightarrow> sanitize_value known v = v"
  by (auto simp: normal_value_def sanitize_value_def)

lemma sanitize_policy_normal: "normal_policy (sanitizeExecApprovalPolicy p)"
  by (simp add: normal_policy_def sanitizeExecApprovalPolicy_def sanitize_normal)

lemma sanitize_policy_fixed: "normal_policy p \<Longrightarrow> sanitizeExecApprovalPolicy p = p"
  by (simp add: normal_policy_def sanitizeExecApprovalPolicy_def sanitize_fixed)

lemma trim_to_none_normal: "trim_to_none v = Some s \<Longrightarrow> s \<noteq> [] \<and> js_trim s = s"
  by (auto simp: trim_to_none_def split: option.splits if_splits)

lemma trim_to_none_fixed: "(\<And>s. v = Some s \<Longrightarrow> s \<noteq> [] \<and> js_trim s = s) \<Longrightarrow> trim_to_none v = v"
  by (cases v) (auto simp: trim_to_none_def)

lemma ensure_ids_normal:
  "\<forall>i. uuid i \<noteq> [] \<Longrightarrow> ensure_ids uuid n es = (r, n') \<Longrightarrow> (\<forall>e \<in> set r. str_truthy (ae_id e)) \<and> map ae_pattern r = map ae_pattern es"
proof (induction es arbitrary: n r)
  case (Cons e es)
  obtain r1 m1 where 1: "ensure_ids uuid n es = (r1, m1)" by (metis surj_pair)
  obtain r2 m2 where 2: "ensure_ids uuid (Suc n) es = (r2, m2)" by (metis surj_pair)
  from Cons.prems Cons.IH show ?case by (auto simp: 1 2 str_truthy_def split: if_splits) (metis 1 2)+
qed simp

lemma ensure_ids_fixed: "\<forall>e \<in> set es. str_truthy (ae_id e) \<Longrightarrow> ensure_ids uuid n es = (es, n)"
  by (induction es) auto

lemma coerce_patterns: "coerce_item i = Some e \<Longrightarrow> js_trim (ae_pattern e) \<noteq> []"
  by (cases i) (auto simp: coerce_item_def entry_of_text_def split: if_splits)

lemma normalize_agent_normal:
  assumes "\<forall>i. uuid i \<noteq> []" and "normalize_agent uuid n a = (a', n')"
  shows "normal_agent a'"
proof -
  obtain ids m where ids: "ensureAllowlistIds uuid n (coerceAllowlistEntries (ag_allowlist a)) = (ids, m)" by (metis surj_pair)
  with assms(2) have a': "a' = (sanitizeExecApprovalPolicy a)\<lparr>ag_allowlist := map_option (map ItemEntry) (stripAllowlistCommandText ids)\<rparr>"
    by (simp add: normalize_agent_def)
  have "normal_policy a'" using sanitize_policy_normal [of a] by (simp add: a' normal_policy_def)
  moreover have "\<forall>e \<in> set es. normal_entry (ae_commandText_update (\<lambda>_. None) e)" if "ids = Some es" for es
  proof -
    from that ids obtain cs where cs: "coerceAllowlistEntries (ag_allowlist a) = Some cs" "ensure_ids uuid n cs = (es, m)"
      by (auto simp: ensureAllowlistIds_def split: option.splits prod.splits)
    have "\<forall>c \<in> set cs. js_trim (ae_pattern c) \<noteq> []"
      using cs(1) coerce_patterns by (auto simp: coerceAllowlistEntries_def Let_def map_filter_def split: option.splits if_splits)
    moreover note ensure_ids_normal [OF assms(1) cs(2)]
    ultimately show ?thesis
      by (auto simp: normal_entry_def) (metis (no_types, lifting) image_eqI image_iff list.set_map)
  qed
  ultimately show ?thesis by (cases ids) (auto simp: normal_agent_def a' stripAllowlistCommandText_def intro!: exI [of _ "map _ _"])
qed

lemma normalize_agent_fixed:
  assumes "normal_agent a"
  shows "normalize_agent uuid n a = (a, n)"
proof (cases "ag_allowlist a")
  case None
  with assms show ?thesis
    by (simp add: normalize_agent_def coerceAllowlistEntries_def ensureAllowlistIds_def stripAllowlistCommandText_def
        normal_agent_def sanitize_policy_fixed)
next
  case (Some items)
  with assms obtain es where es: "items = map ItemEntry es" "\<forall>e \<in> set es. normal_entry e" by (auto simp: normal_agent_def)
  have "List.map_filter coerce_item (map ItemEntry es) = es"
    using es(2) by (induction es) (auto simp: coerce_item_def normal_entry_def)
  moreover have "map (ae_commandText_update (\<lambda>_. None)) es = es"
    using es(2) by (induction es) (auto simp: normal_entry_def)
  moreover have "ensure_ids uuid n es = (es, n)" using es(2) by (intro ensure_ids_fixed) (auto simp: normal_entry_def)
  ultimately show ?thesis using assms Some es(1)
    by (simp add: normalize_agent_def coerceAllowlistEntries_def ensureAllowlistIds_def stripAllowlistCommandText_def
        normal_agent_def sanitize_policy_fixed)
qed

lemma normalize_agents_normal:
  "\<forall>i. uuid i \<noteq> [] \<Longrightarrow> normalize_agents uuid n as = (r, n') \<Longrightarrow>
     (\<forall>(k, a) \<in> set r. normal_agent a) \<and> map fst r = map fst as"
proof (induction as arbitrary: n r n')
  case (Cons p as)
  obtain k a where p: "p = (k, a)" by (metis surj_pair)
  obtain a' m where a': "normalize_agent uuid n a = (a', m)" by (metis surj_pair)
  obtain r' m' where r': "normalize_agents uuid m as = (r', m')" by (metis surj_pair)
  from Cons.IH [OF Cons.prems(1) r'] normalize_agent_normal [OF Cons.prems(1) a'] Cons.prems(2) show ?case
    by (auto simp: p a' r')
qed simp

lemma normalize_agents_fixed: "\<forall>(k, a) \<in> set as. normal_agent a \<Longrightarrow> normalize_agents uuid n as = (as, n)"
  by (induction as) (auto simp: normalize_agent_fixed)

lemma migrate_no_default: "jm_get (migrate_default agents) ''default'' = None"
  by (simp add: migrate_default_def split: option.splits)

theorem normalize_normal:
  assumes "\<forall>i. uuid i \<noteq> []" and "normalizeExecApprovals uuid n file = (f, n')"
  shows "normal_file f"
proof -
  obtain as m where as: "normalize_agents uuid n (migrate_default (af_agents file)) = (as, m)" by (metis surj_pair)
  note normal = normalize_agents_normal [OF assms(1) as]
  have "jm_get as ''default'' = None" using normal migrate_no_default [of "af_agents file"] jm_get_keys [of as "migrate_default (af_agents file)" "''default''"] by simp
  moreover have "f = \<lparr>af_socketPath = trim_to_none (af_socketPath file), af_socketToken = trim_to_none (af_socketToken file),
      af_defaults = sanitizeExecApprovalPolicy (af_defaults file), af_agents = as\<rparr>"
    using assms(2) by (simp add: normalizeExecApprovals_def as)
  ultimately show ?thesis
    using normal trim_to_none_normal by (simp add: normal_file_def sanitize_policy_normal)
qed

theorem normalize_fixed: "normal_file f \<Longrightarrow> normalizeExecApprovals uuid n f = (f, n)"
  by (simp add: normalizeExecApprovals_def normal_file_def migrate_default_def normalize_agents_fixed sanitize_policy_fixed
      trim_to_none_fixed)

subsection \<open>Precedence\<close>

text \<open>The agent's own value, that of the wildcard, the default of the file, that of the caller.\<close>

definition first_of :: "'a option list \<Rightarrow> 'a \<Rightarrow> 'a" where
  "first_of vs d = foldr nullish vs d"

lemma first_of_simps [simp]: "first_of [] d = d" "first_of (v # vs) d = nullish v (first_of vs d)"
  by (simp_all add: first_of_def)

lemma normal_security: "normal_value security_of v \<Longrightarrow> isExecSecurity v = None \<longleftrightarrow> nullish_value v"
  by (auto simp: normal_value_def isExecSecurity_def nullish_value_def)

lemma normal_ask: "normal_value ask_of v \<Longrightarrow> isExecAsk v = None \<longleftrightarrow> nullish_value v"
  by (auto simp: normal_value_def isExecAsk_def nullish_value_def)

lemma agent_field_first:
  assumes "a = None \<longleftrightarrow> nullish_value raw" and "w = None \<longleftrightarrow> nullish_value rawWildcard"
  shows "fst (resolve_agent_field field key raw a rawWildcard w (resolve_default_field field dflt (nullish dflt base))) =
    first_of [a, w, dflt] base"
  using assms by (auto simp: resolve_agent_field_def resolve_default_field_def nullish_def split: option.splits)

lemma nullish_nullish: "nullish a (nullish a b) = nullish a b"
  by (cases a) (simp_all add: nullish_def)

definition policies_normal :: "approvals_file \<Rightarrow> bool" where
  "policies_normal f \<longleftrightarrow> normal_policy (af_defaults f) \<and> jm_get (af_agents f) ''default'' = None \<and>
     (\<forall>(k, a) \<in> set (af_agents f). normal_agent a)"

lemma normalize_policies_fixed:
  "policies_normal f \<Longrightarrow> af_defaults (fst (normalizeExecApprovals uuid n f)) = af_defaults f \<and>
     af_agents (fst (normalizeExecApprovals uuid n f)) = af_agents f"
  by (simp add: policies_normal_def normalizeExecApprovals_def migrate_default_def normalize_agents_fixed sanitize_policy_fixed)

lemma agent_of_normal: "policies_normal f \<Longrightarrow> normal_agent (agent_of f k)"
  by (cases "jm_get (af_agents f) k")
    (auto simp: policies_normal_def agent_of_def nullish_def no_agent_def normal_agent_def normal_policy_def normal_value_def
      dest!: jm_get_Some_in)

lemma agent_of_cong: "af_agents f = af_agents g \<Longrightarrow> agent_of f k = agent_of g k"
  by (simp add: agent_of_def)

lemma resolved_precedence:
  assumes "policies_normal f" and "key = nullish agentId DEFAULT_AGENT_ID"
    and "ra = resolveExecApprovalsFromFile uuid n f agentId overrides"
  shows "rp_security (ra_agent ra) = first_of [isExecSecurity (po_security (agent_of f key)),
      isExecSecurity (po_security (agent_of f ''*'')), isExecSecurity (po_security (af_defaults f)), do_security overrides] SecFull"
    and "rp_ask (ra_agent ra) = first_of [isExecAsk (po_ask (agent_of f key)), isExecAsk (po_ask (agent_of f ''*'')),
      isExecAsk (po_ask (af_defaults f)), do_ask overrides] AskOff"
    and "rp_askFallback (ra_agent ra) = first_of [isExecSecurity (po_askFallback (agent_of f key)),
      isExecSecurity (po_askFallback (agent_of f ''*'')), isExecSecurity (po_askFallback (af_defaults f)), do_askFallback overrides] SecFull"
    and "ra_allowlist ra = items_entries (ag_allowlist (agent_of f ''*'')) @ items_entries (ag_allowlist (agent_of f key))"
proof -
  let ?f = "fst (normalizeExecApprovals uuid n f)"
  have f: "af_defaults ?f = af_defaults f" "agent_of ?f k = agent_of f k" for k
    using normalize_policies_fixed [OF assms(1)] agent_of_cong by blast+
  have "normal_agent (agent_of f k)" for k using agent_of_normal [OF assms(1)] .
  then have field: "isExecSecurity (po_security (agent_of f k)) = None \<longleftrightarrow> nullish_value (po_security (agent_of f k))"
      "isExecAsk (po_ask (agent_of f k)) = None \<longleftrightarrow> nullish_value (po_ask (agent_of f k))"
      "isExecSecurity (po_askFallback (agent_of f k)) = None \<longleftrightarrow> nullish_value (po_askFallback (agent_of f k))" for k
    by (simp_all add: normal_agent_def normal_policy_def normal_security normal_ask)
  note first = agent_field_first [OF field(1) [of key] field(1) [of "''*''"]] agent_field_first [OF field(2) [of key] field(2) [of "''*''"]]
    agent_field_first [OF field(3) [of key] field(3) [of "''*''"]]
  note defs = assms(3) resolveExecApprovalsFromFile_def Let_def f assms(2) [symmetric] case_prod_unfold
  show "rp_security (ra_agent ra) = first_of [isExecSecurity (po_security (agent_of f key)),
      isExecSecurity (po_security (agent_of f ''*'')), isExecSecurity (po_security (af_defaults f)), do_security overrides] SecFull"
    by (simp add: defs first)
  show "rp_ask (ra_agent ra) = first_of [isExecAsk (po_ask (agent_of f key)), isExecAsk (po_ask (agent_of f ''*'')),
      isExecAsk (po_ask (af_defaults f)), do_ask overrides] AskOff"
    by (simp add: defs first)
  show "rp_askFallback (ra_agent ra) = first_of [isExecSecurity (po_askFallback (agent_of f key)),
      isExecSecurity (po_askFallback (agent_of f ''*'')), isExecSecurity (po_askFallback (af_defaults f)), do_askFallback overrides] SecFull"
    by (simp add: defs first)
  show "ra_allowlist ra = items_entries (ag_allowlist (agent_of f ''*'')) @ items_entries (ag_allowlist (agent_of f key))"
    by (simp add: defs)
qed

lemma load_normal:
  assumes "\<forall>i. uuid i \<noteq> []"
  shows "normal_file (fst (loadExecApprovals uuid n disk))"
  unfolding loadExecApprovals_def by (rule normalize_normal [OF assms]) (rule surjective_pairing)

lemma ensure_policies:
  assumes "\<forall>i. uuid i \<noteq> []" and "ensureExecApprovals env uuid token n disk = (f, n')"
  shows "policies_normal f" and "af_agents f = af_agents (fst (loadExecApprovals uuid n disk))"
    and "af_defaults f = af_defaults (fst (loadExecApprovals uuid n disk))"
proof -
  obtain loaded m where loaded: "loadExecApprovals uuid n disk = (loaded, m)" by (metis surj_pair)
  with load_normal [OF assms(1), of n disk] have normal: "normal_file loaded" by simp
  then have "af_agents f = af_agents loaded" and "af_defaults f = af_defaults loaded"
    using assms(2) by (auto simp: ensureExecApprovals_def loaded normalize_fixed)
  with normal loaded show "policies_normal f" and "af_agents f = af_agents (fst (loadExecApprovals uuid n disk))"
    and "af_defaults f = af_defaults (fst (loadExecApprovals uuid n disk))"
    by (simp_all add: policies_normal_def normal_file_def)
qed

end
