(* ===== verification/Exec_Resolution_Proofs.thy ===== *)
theory Exec_Resolution_Proofs
  imports Exec_Safe_Bins
begin

text \<open>
  Patterns and safe bins: a pattern covers its own text, one without \<open>**\<close> stays in its directory, and a
  safe bin only sees arguments that name no file.
\<close>

subsection \<open>Patterns\<close>

lemma glob_skip: "glob_match g s \<Longrightarrow> glob_match (GlobAny # g) s" "glob_match g s \<Longrightarrow> glob_match (GlobName # g) s"
  by (cases s; simp)+

text \<open>The cases of \<open>glob_tokens\<close>: two stars, a star, a question mark, another character.\<close>

lemma glob_tokens_cases [case_names Nil Two Star One Char]:
  assumes "P []" and "\<And>s. P s \<Longrightarrow> P (CHR ''*'' # CHR ''*'' # s)"
    and "\<And>s. P s \<Longrightarrow> (s = [] \<or> hd s \<noteq> CHR ''*'') \<Longrightarrow> P (CHR ''*'' # s)"
    and "\<And>s. P s \<Longrightarrow> P (CHR ''?'' # s)"
    and "\<And>c s. P s \<Longrightarrow> c \<noteq> CHR ''*'' \<Longrightarrow> c \<noteq> CHR ''?'' \<Longrightarrow> P (c # s)"
  shows "P s"
proof (induction s rule: length_induct)
  case (1 s)
  show ?case
  proof (cases s)
    case Nil
    with assms(1) show ?thesis by simp
  next
    case (Cons c t)
    with 1 have t: "P t" by simp
    show ?thesis
    proof (cases "c = CHR ''*'' \<and> t \<noteq> [] \<and> hd t = CHR ''*''")
      case True
      then obtain u where "t = CHR ''*'' # u" by (cases t) auto
      with 1 Cons True assms(2) show ?thesis by simp
    next
      case False
      with t Cons assms(3-5) show ?thesis by (cases "c = CHR ''*''"; cases "c = CHR ''?''") auto
    qed
  qed
qed

lemma glob_tokens_eqs [simp]:
  "glob_tokens (CHR ''*'' # CHR ''*'' # s) = GlobAny # glob_tokens s"
  "s = [] \<or> hd s \<noteq> CHR ''*'' \<Longrightarrow> glob_tokens (CHR ''*'' # s) = GlobName # glob_tokens s"
  "glob_tokens (CHR ''?'' # s) = GlobOne # glob_tokens s"
  "c \<noteq> CHR ''*'' \<Longrightarrow> c \<noteq> CHR ''?'' \<Longrightarrow> glob_tokens (c # s) = GlobChar c # glob_tokens s"
  by (auto split: list.splits)

declare glob_tokens.simps(2) [simp del]

lemma glob_self: "glob_match (glob_tokens s) s"
  by (induction s rule: glob_tokens_cases)
    (simp_all add: glob_skip glob_name_def glob_any_def is_newline_def char_defs)

definition slashes :: "string \<Rightarrow> nat" where
  "slashes s = length (filter (\<lambda>c. c = CHR ''/'') s)"

lemma slashes_simps [simp]: "slashes [] = 0" "slashes (c # s) = (if c = CHR ''/'' then Suc (slashes s) else slashes s)"
  by (simp_all add: slashes_def)

definition token_slashes :: "glob_token list \<Rightarrow> nat" where
  "token_slashes g = length (filter (\<lambda>t. t = GlobChar (CHR ''/'')) g)"

lemma glob_slashes: "GlobAny \<notin> set g \<Longrightarrow> glob_match g s \<Longrightarrow> slashes s = token_slashes g"
proof (induction g s rule: glob_match.induct)
  case (2 d g s)
  then show ?case by (cases s) (auto simp: token_slashes_def)
next
  case (3 g s)
  then show ?case by (cases s) (auto simp: token_slashes_def glob_name_def)
next
  case (4 g s)
  then show ?case by (cases s) (auto simp: token_slashes_def glob_name_def)
qed (auto simp: token_slashes_def)

lemma token_slashes_text: "token_slashes (glob_tokens p) = slashes p"
  by (induction p rule: glob_tokens_cases) (simp_all add: token_slashes_def)

text \<open>Does the text contain \<open>**\<close>?\<close>

fun double_star :: "string \<Rightarrow> bool" where
  "double_star (a # b # s) \<longleftrightarrow> a = CHR ''*'' \<and> b = CHR ''*'' \<or> double_star (b # s)"
| "double_star s \<longleftrightarrow> False"

lemma double_star_Cons: "double_star s \<Longrightarrow> double_star (c # s)"
  by (cases s) auto

lemma double_star_tokens: "\<not> double_star p \<Longrightarrow> GlobAny \<notin> set (glob_tokens p)"
  by (induction p rule: glob_tokens_cases) (auto dest: double_star_Cons)

lemma posix_pattern_self:
  assumes "\<not> on_win32 env" and "js_trim p = p" and "p \<noteq> []" and "hd p \<noteq> CHR ''~''"
  shows "matchesExecAllowlistPattern env p p"
proof -
  have "expandHomePrefix env None p = p"
    using assms(3,4) by (cases p) (auto simp: expandHomePrefix_def js_starts_with_def)
  with assms show ?thesis by (simp add: matchesExecAllowlistPattern_def Let_def glob_self normalizeMatchTarget_def)
qed

lemma match_entries_found:
  "e \<in> set entries \<Longrightarrow> entry_covers env path e \<Longrightarrow> match_entries env path False argv platform pathOnly entries \<noteq> None"
  by (induction entries) auto

subsection \<open>Arguments of a safe bin\<close>

lemma invalid_value: "\<not> isInvalidValueToken rest \<Longrightarrow> \<exists>v rest'. rest = v # rest' \<and> isSafeLiteralToken v"
  by (cases rest) (auto simp: isInvalidValueToken_def)

text \<open>An option takes nothing, or a word that names no file.\<close>

lemma long_takes:
  "consumeLongOptionToken profile flag v rest = Some rest' \<Longrightarrow>
     rest' = rest \<or> (\<exists>x. rest = x # rest' \<and> isSafeLiteralToken x)"
  by (auto simp: consumeLongOptionToken_def Let_def split: option.splits if_splits dest!: invalid_value)

lemma short_takes:
  "consumeShortOptionClusterToken profile cluster rest = Some rest' \<Longrightarrow>
     rest' = rest \<or> (\<exists>x. rest = x # rest' \<and> isSafeLiteralToken x)"
  by (induction profile cluster rest rule: consumeShortOptionClusterToken.induct)
    (auto split: if_splits dest!: invalid_value)

definition option_or_literal :: "string \<Rightarrow> bool" where
  "option_or_literal t \<longleftrightarrow> js_starts_with t ''-'' \<or> isSafeLiteralToken t"

lemma collect_rest_literals:
  "collect_rest positional ts = Some ps \<Longrightarrow> \<forall>t \<in> set ts. isSafeLiteralToken t"
  by (induction positional ts rule: collect_rest.induct) (auto simp: isSafeLiteralToken_def split: if_splits)

lemma token_dash: "parseExecArgvToken t = TokenLong f v \<or> parseExecArgvToken t = TokenCluster c \<or> parseExecArgvToken t = TokenTerminator
    \<or> parseExecArgvToken t = TokenStdin \<Longrightarrow> js_starts_with t ''-''"
  by (auto simp: parseExecArgvToken_def Let_def js_starts_with_def split: if_splits)

lemma token_positional: "parseExecArgvToken t = TokenPositional r \<Longrightarrow> r = t" "parseExecArgvToken t = TokenEmpty \<Longrightarrow> t = []"
  by (auto simp: parseExecArgvToken_def Let_def split: if_splits)

lemma collect_positional_literals:
  "collect_positional profile positional ts = Some ps \<Longrightarrow> \<forall>t \<in> set ts. option_or_literal t"
proof (induction profile positional ts rule: collect_positional.induct)
  case (2 profile positional t ts)
  show ?case
  proof (cases "parseExecArgvToken t")
    case TokenEmpty
    with 2 show ?thesis by (auto simp: option_or_literal_def isSafeLiteralToken_def dest: token_positional)
  next
    case TokenTerminator
    with 2 show ?thesis using token_dash collect_rest_literals by (auto simp: option_or_literal_def)
  next
    case TokenStdin
    with 2 show ?thesis using token_dash by (auto simp: option_or_literal_def)
  next
    case (TokenPositional r)
    with 2 show ?thesis using token_positional(1) [OF TokenPositional] by (auto simp: option_or_literal_def split: if_splits)
  next
    case (TokenLong f v)
    with 2(6) obtain rest where rest: "consumeLongOptionToken profile f v ts = Some rest" "collect_positional profile positional rest = Some ps"
      by (auto split: option.splits)
    then have "\<forall>t \<in> set rest. option_or_literal t" using 2 TokenLong by blast
    with long_takes [OF rest(1)] TokenLong token_dash show ?thesis by (auto simp: option_or_literal_def)
  next
    case (TokenCluster c)
    with 2(6) obtain rest where rest: "consumeShortOptionClusterToken profile c ts = Some rest" "collect_positional profile positional rest = Some ps"
      by (auto split: option.splits)
    then have "\<forall>t \<in> set rest. option_or_literal t" using 2 TokenCluster by blast
    with short_takes [OF rest(1)] TokenCluster token_dash show ?thesis by (auto simp: option_or_literal_def)
  qed
qed simp

lemma safe_bin_usage:
  assumes "isSafeBinUsage env argv (Some r) safeBins platform trustedDirs profiles"
  obtains path where "er_resolvedPath r = Some path" and "isTrustedSafeBinPath env path trustedDirs"
    and "normalizeLowercaseStringOrEmpty (JString (er_executableName r)) \<in> set safeBins"
    and "\<forall>t \<in> set (drop 1 argv). option_or_literal t"
proof -
  let ?name = "normalizeLowercaseStringOrEmpty (JString (er_executableName r))"
  from assms obtain profile where profile: "validateSafeBinArgv (drop 1 argv) profile ?name"
    by (auto simp: isSafeBinUsage_def Let_def split: option.splits)
  then obtain ps where "collect_positional profile [] (drop 1 argv) = Some ps"
    by (auto simp: validateSafeBinArgv_def collectPositionalTokens_def split: option.splits)
  with assms that collect_positional_literals show thesis
    by (cases "er_resolvedPath r") (auto simp: isSafeBinUsage_def str_truthy_def Let_def split: option.splits)
qed

end
