(* ===== verification/Exec_Gateway.thy ===== *)
theory Exec_Gateway
  imports Exec_Approvals
begin

text \<open>
  The gateway's decision on a command: the shared part of src/brain/src/agents/
  bash-tools.exec-host-shared.ts and \<open>processGatewayAllowlist\<close> of agents/bash-tools.exec-host-gateway.ts.

  An approval is asked for and answered later. The first part of the handler gives a step: the command
  is denied, it runs, or it waits; the second part takes the decision, which is \<open>None\<close> when nobody
  decided in time. The texts of the warnings, the registration of the request, the process and the
  follow-up messages are left out. The platform is that of the process.
\<close>

subsection \<open>Shared by the hosts\<close>

record base_decision =
  bd_approvedByAsk :: bool
  bd_deniedReason :: "string option"
  bd_timedOut :: bool

definition base :: "bool \<Rightarrow> string option \<Rightarrow> bool \<Rightarrow> base_decision" where
  "base approved reason timedOut = \<lparr>bd_approvedByAsk = approved, bd_deniedReason = reason, bd_timedOut = timedOut\<rparr>"

definition resolveBaseExecApprovalDecision :: "string option \<Rightarrow> exec_security \<Rightarrow> base_decision" where
  "resolveBaseExecApprovalDecision decision askFallback =
     (if decision = Some ''deny'' then base False (Some ''user-denied'') False
      else if \<not> str_truthy decision then
        (case askFallback of
           SecFull \<Rightarrow> base True None True
         | SecDeny \<Rightarrow> base False (Some ''approval-timeout'') True
         | SecAllowlist \<Rightarrow> base False None True)
      else base False None False)"

record host_context =
  hc_approvals :: resolved_approvals
  hc_security :: exec_security
  hc_ask :: exec_ask
  hc_askFallback :: exec_security

text \<open>The policy of the caller and of the host, from the approvals; \<open>None\<close> is the error \<open>security=deny\<close>.\<close>

definition host_overrides :: "exec_security \<Rightarrow> exec_ask \<Rightarrow> default_overrides" where
  "host_overrides security ask =
     \<lparr>do_security = Some security, do_ask = Some ask, do_askFallback = None, do_autoAllowSkills = None\<rparr>"

definition resolveExecHostApprovalContext :: "resolved_approvals \<Rightarrow> exec_security \<Rightarrow> exec_ask \<Rightarrow> host_context option" where
  "resolveExecHostApprovalContext approvals security ask =
     (let hostSecurity = minSecurity security (rp_security (ra_agent approvals));
          hostAsk = maxAsk ask (rp_ask (ra_agent approvals));
          askFallback = minSecurity hostSecurity (rp_askFallback (ra_agent approvals))
      in if hostSecurity = SecDeny then None
         else Some \<lparr>hc_approvals = approvals, hc_security = hostSecurity, hc_ask = hostAsk, hc_askFallback = askFallback\<rparr>)"

text \<open>Whether the command is approved, and the reason if it is denied.\<close>

definition enforceStrictInlineEvalApprovalBoundary :: "bool \<Rightarrow> bool \<times> string option \<Rightarrow> bool \<Rightarrow> bool \<times> string option" where
  "enforceStrictInlineEvalApprovalBoundary timedOut verdict requiresInlineEval =
     (if \<not> timedOut \<or> \<not> requiresInlineEval \<or> \<not> fst verdict then verdict
      else (False, Some (nullish (snd verdict) ''approval-timeout'')))"

definition isHeadlessExecTrigger :: "string option \<Rightarrow> bool" where
  "isHeadlessExecTrigger trigger \<longleftrightarrow> trigger = Some ''cron''"

text \<open>The decision of the registration: absent (\<open>undefined\<close>), nobody can decide (\<open>null\<close>), or made.\<close>

datatype pre_decision = Undecided | NoRoute | Decided string

definition shouldResolveExecApprovalUnavailableInline :: "string option \<Rightarrow> pre_decision \<Rightarrow> bool" where
  "shouldResolveExecApprovalUnavailableInline trigger pre \<longleftrightarrow> isHeadlessExecTrigger trigger \<and> pre = NoRoute"

subsection \<open>The gateway\<close>

record gateway_params =
  gp_command :: string
  gp_workdir :: string
  gp_env :: process_env
  gp_safeBins :: "string list"
  gp_profiles :: safe_bin_profiles
  gp_trustedDirs :: "string list option"
  gp_strictInlineEval :: bool
  gp_trigger :: "string option"
  gp_agentId :: "string option"

definition hasGatewayAllowlistMiss :: "exec_security \<Rightarrow> bool \<Rightarrow> bool \<Rightarrow> bool \<Rightarrow> bool" where
  "hasGatewayAllowlistMiss hostSecurity analysisOk satisfied durable \<longleftrightarrow>
     hostSecurity = SecAllowlist \<and> (\<not> analysisOk \<or> \<not> satisfied) \<and> \<not> durable"

definition gateway_ctx :: "exec_env \<Rightarrow> gateway_params \<Rightarrow> resolved_approvals \<Rightarrow> allow_ctx" where
  "gateway_ctx env gp approvals =
     \<lparr>cx_allowlist = ra_allowlist approvals, cx_safeBins = gp_safeBins gp, cx_profiles = Some (gp_profiles gp),
      cx_cwd = Some (gp_workdir gp), cx_env = Some (gp_env gp), cx_platform = Some (xe_platform env),
      cx_trustedDirs = gp_trustedDirs gp, cx_skillBins = [], cx_autoAllowSkills = False\<rparr>"

text \<open>What the handler has found out before it asks.\<close>

record gateway_evaluation =
  ge_analysisOk :: bool
  ge_satisfied :: bool
  ge_durable :: bool
  ge_inlineHit :: "inline_eval_hit option"
  ge_matches :: "allow_entry list"
  ge_segments :: "exec_segment list"
  ge_enforced :: "string option"
  ge_planUnavailable :: bool

definition inline_eval_of :: "exec_env \<Rightarrow> bool \<Rightarrow> exec_segment list \<Rightarrow> inline_eval_hit option" where
  "inline_eval_of env strict segments =
     (if strict then Option.bind (List.find (\<lambda>h. h \<noteq> None) (map (\<lambda>s. detectInterpreterInlineEvalArgv env
        (case sg_resolution s of None \<Rightarrow> sg_argv s | Some r \<Rightarrow> cr_effectiveArgv r)) segments)) id
      else None)"

definition evaluate_gateway :: "exec_env \<Rightarrow> gateway_params \<Rightarrow> host_context \<Rightarrow> gateway_evaluation" where
  "evaluate_gateway env gp hc =
     (let result = evaluateShellAllowlist env (gateway_ctx env gp (hc_approvals hc)) (gp_command gp);
          analysisOk = (result \<noteq> None);
          ev = (case result of None \<Rightarrow> unsatisfied | Some r \<Rightarrow> sa_evaluation r);
          segments = (case result of None \<Rightarrow> [] | Some r \<Rightarrow> sa_segments r);
          satisfied = (hc_security hc = SecAllowlist \<and> analysisOk \<and> sv_satisfied ev);
          enforced = (if hc_security hc = SecAllowlist \<and> analysisOk \<and> satisfied
            then Some (buildEnforcedShellCommand (gp_command gp) segments (Some (xe_platform env))) else None);
          command = (case enforced of Some (Inr c) \<Rightarrow> if c = [] then None else Some c | _ \<Rightarrow> None)
      in \<lparr>ge_analysisOk = analysisOk, ge_satisfied = satisfied,
          ge_durable = hasDurableExecApproval env analysisOk (sv_entries ev) (ra_allowlist (hc_approvals hc)) (Some (gp_command gp)),
          ge_inlineHit = inline_eval_of env (gp_strictInlineEval gp) segments,
          ge_matches = sv_matches ev, ge_segments = segments, ge_enforced = command,
          ge_planUnavailable = (enforced \<noteq> None \<and> command = None)\<rparr>)"

definition has_heredoc_segment :: "exec_segment list \<Rightarrow> bool" where
  "has_heredoc_segment segments \<longleftrightarrow> list_ex (\<lambda>s. list_ex (\<lambda>t. js_starts_with t ''<<'') (sg_argv s)) segments"

definition requires_heredoc_approval :: "host_context \<Rightarrow> gateway_evaluation \<Rightarrow> bool" where
  "requires_heredoc_approval hc ge \<longleftrightarrow>
     hc_security hc = SecAllowlist \<and> ge_analysisOk ge \<and> ge_satisfied ge \<and> has_heredoc_segment (ge_segments ge)"

definition requires_plan_approval :: "host_context \<Rightarrow> gateway_evaluation \<Rightarrow> bool" where
  "requires_plan_approval hc ge \<longleftrightarrow>
     hc_security hc = SecAllowlist \<and> ge_analysisOk ge \<and> ge_satisfied ge \<and> ge_enforced ge = None \<and> ge_planUnavailable ge"

definition gateway_requires_ask :: "host_context \<Rightarrow> gateway_evaluation \<Rightarrow> bool" where
  "gateway_requires_ask hc ge \<longleftrightarrow>
     requiresExecApproval (hc_ask hc) (hc_security hc) (ge_analysisOk ge) (ge_satisfied ge) (ge_durable ge) \<or>
     requires_plan_approval hc ge \<or> requires_heredoc_approval hc ge \<or> ge_inlineHit ge \<noteq> None"

text \<open>A run with the command that replaces the one asked for.\<close>

datatype gateway_outcome = GatewayDenied string | GatewayRun "string option"

text \<open>The second part: the decision has been made or has timed out. The last argument counts ids.\<close>

definition record_use ::
  "exec_env \<Rightarrow> (nat \<Rightarrow> string) \<Rightarrow> int \<Rightarrow> gateway_params \<Rightarrow> gateway_evaluation \<Rightarrow> nat \<Rightarrow> saved_file \<Rightarrow> saved_file" where
  "record_use env uuid now gp ge n st =
     recordAllowlistMatchesUse uuid now st (gp_agentId gp) (ge_matches ge) (gp_command gp)
       (resolvePolicyTargetCandidatePath env (case ge_segments ge of [] \<Rightarrow> None | s # _ \<Rightarrow> sg_resolution s)
         (Some (gp_workdir gp))) n"

definition persist_decision ::
  "exec_env \<Rightarrow> (nat \<Rightarrow> string) \<Rightarrow> int \<Rightarrow> gateway_params \<Rightarrow> gateway_evaluation \<Rightarrow> nat \<Rightarrow> saved_file \<Rightarrow> saved_file" where
  "persist_decision env uuid now gp ge n st =
     (case persistAllowAlwaysPatterns env uuid now
        \<lparr>ay_cwd = Some (gp_workdir gp), ay_env = Some (gp_env gp), ay_platform = Some (xe_platform env),
         ay_strictInlineEval = gp_strictInlineEval gp\<rparr> st (gp_agentId gp) (ge_segments ge) n of
        (patterns, st') \<Rightarrow>
          (if patterns = [] then save_step (addDurableCommandApproval env uuid now (fst st') (gp_agentId gp) (gp_command gp) n) st'
           else st'))"

text \<open>What the decision comes to before the file is touched: approved or not, and the reason of a denial.\<close>

definition gateway_verdict :: "host_context \<Rightarrow> gateway_evaluation \<Rightarrow> string option \<Rightarrow> bool \<times> string option" where
  "gateway_verdict hc ge decision =
     (let bd = resolveBaseExecApprovalDecision decision (hc_askFallback hc);
          verdict =
            (if bd_timedOut bd \<and> hc_askFallback hc = SecAllowlist then
               (if \<not> ge_analysisOk ge \<or> \<not> ge_satisfied ge then (bd_approvedByAsk bd, Some ''approval-timeout (allowlist-miss)'')
                else (True, bd_deniedReason bd))
             else if decision = Some ''allow-once'' \<or> decision = Some ''allow-always'' then (True, bd_deniedReason bd)
             else (bd_approvedByAsk bd, bd_deniedReason bd));
          (approved, reason) = enforceStrictInlineEvalApprovalBoundary (bd_timedOut bd) verdict (ge_inlineHit ge \<noteq> None)
      in (approved,
          if \<not> approved \<and> hasGatewayAllowlistMiss (hc_security hc) (ge_analysisOk ge) (ge_satisfied ge) (ge_durable ge)
          then Some (nullish reason ''allowlist-miss'') else reason))"

definition gateway_decided ::
  "exec_env \<Rightarrow> (nat \<Rightarrow> string) \<Rightarrow> int \<Rightarrow> gateway_params \<Rightarrow> host_context \<Rightarrow> gateway_evaluation \<Rightarrow> nat \<Rightarrow> string option
     \<Rightarrow> gateway_outcome \<times> saved_file" where
  "gateway_decided env uuid now gp hc ge n decision =
     (let st0 = (ra_file (hc_approvals hc), False);
          timedOut = bd_timedOut (resolveBaseExecApprovalDecision decision (hc_askFallback hc));
          st1 = (if \<not> timedOut \<and> decision = Some ''allow-always'' \<and> ge_inlineHit ge = None
            then persist_decision env uuid now gp ge n st0 else st0)
      in case snd (gateway_verdict hc ge decision) of
           Some reason \<Rightarrow> (GatewayDenied reason, st1)
         | None \<Rightarrow> (GatewayRun (ge_enforced ge), record_use env uuid now gp ge (n + Suc (length (ge_segments ge))) st1))"

text \<open>The first part: denied, run at once or wait for a decision. A request that nobody can decide is
  resolved at once when there is nobody to wait for.\<close>

datatype gateway_step = GatewayThrow | GatewayNow "string option" | GatewayWait

definition gateway_inline :: "host_context \<Rightarrow> gateway_evaluation \<Rightarrow> bool" where
  "gateway_inline hc ge \<longleftrightarrow>
     (let bd = resolveBaseExecApprovalDecision None (hc_askFallback hc);
          (approved, reason) = enforceStrictInlineEvalApprovalBoundary (bd_timedOut bd)
            (bd_approvedByAsk bd, bd_deniedReason bd) (ge_inlineHit ge \<noteq> None)
      in \<not> str_truthy reason \<and> approved)"

definition processGatewayAllowlist ::
  "exec_env \<Rightarrow> (nat \<Rightarrow> string) \<Rightarrow> int \<Rightarrow> gateway_params \<Rightarrow> host_context \<Rightarrow> nat \<Rightarrow> pre_decision \<Rightarrow> gateway_step \<times> saved_file" where
  "processGatewayAllowlist env uuid now gp hc n pre =
     (let ge = evaluate_gateway env gp hc;
          st0 = (ra_file (hc_approvals hc), False)
      in if gateway_requires_ask hc ge then
           (if shouldResolveExecApprovalUnavailableInline (gp_trigger gp) pre then
              (if gateway_inline hc ge then (GatewayNow (ge_enforced ge), record_use env uuid now gp ge n st0)
               else (GatewayThrow, st0))
            else (GatewayWait, st0))
         else if hasGatewayAllowlistMiss (hc_security hc) (ge_analysisOk ge) (ge_satisfied ge) (ge_durable ge)
           then (GatewayThrow, st0)
         else (GatewayNow (ge_enforced ge), record_use env uuid now gp ge n st0))"

end
