(* ===== verification/Shell_Proofs.thy ===== *)
theory Shell_Proofs
  imports Shell_Lexer
begin

text \<open>
  What the lexers of theory Shell_Lexer do with words that \<open>shellEscapeSingleArg\<close> has quoted: the locale
  \<open>quoting\<close> is the contract of a lexer that copies what it reads; the splitter of chains and the
  splitter of pipelines meet it. The last section shows that what is read is what was written.
\<close>

subsection \<open>Lexers that copy\<close>

locale quoting =
  fixes loop :: "lex_mode \<Rightarrow> char option \<Rightarrow> 's \<Rightarrow> string \<Rightarrow> 'r"
    and put :: "string \<Rightarrow> 's \<Rightarrow> 's"
    and ok :: "'s \<Rightarrow> bool"
  assumes put_put: "put b (put a st) = put (a @ b) st"
    and ok_put: "ok st \<Longrightarrow> ok (put a st)"
    and open_single: "ok st \<Longrightarrow> loop Plain prev st (SQ # s) = loop InSingle (Some SQ) (put [SQ] st) s"
    and in_single: "ok st \<Longrightarrow> c \<noteq> SQ \<Longrightarrow> loop InSingle prev st (c # s) = loop InSingle (Some c) (put [c] st) s"
    and close_single: "ok st \<Longrightarrow> loop InSingle prev st (SQ # s) = loop Plain (Some SQ) (put [SQ] st) s"
    and open_double: "ok st \<Longrightarrow> loop Plain prev st (DQ # s) = loop InDouble (Some DQ) (put [DQ] st) s"
    and in_double: "ok st \<Longrightarrow> loop InDouble prev st (SQ # s) = loop InDouble (Some SQ) (put [SQ] st) s"
    and close_double: "ok st \<Longrightarrow> loop InDouble prev st (DQ # s) = loop Plain (Some DQ) (put [DQ] st) s"
    and space: "ok st \<Longrightarrow> loop Plain prev st (CHR '' '' # s) = loop Plain (Some (CHR '' '')) (put '' '' st) s"
begin

lemmas steps = open_single in_single close_single open_double in_double close_double space ok_put put_put

lemma quoted_tail:
  "ok st \<Longrightarrow> loop InSingle prev st (concat (map (\<lambda>c. if c = SQ then [SQ, DQ, SQ, DQ, SQ] else [c]) v) @ SQ # rest) =
     loop Plain (Some SQ) (put (concat (map (\<lambda>c. if c = SQ then [SQ, DQ, SQ, DQ, SQ] else [c]) v) @ [SQ]) st) rest"
proof (induction v arbitrary: prev st)
  case Nil
  then show ?case by (simp add: steps)
next
  case (Cons c v)
  then show ?case by (cases "c = SQ") (simp_all add: steps)
qed

lemma quoted:
  "ok st \<Longrightarrow> loop Plain prev st (shellEscapeSingleArg v @ rest) =
     loop Plain (Some SQ) (put (shellEscapeSingleArg v) st) rest"
  using quoted_tail [of "put [SQ] st" "Some SQ" v rest] by (simp add: shellEscapeSingleArg_def steps)

lemma quoted_words:
  "ok st \<Longrightarrow> argv \<noteq> [] \<Longrightarrow> loop Plain prev st (js_join '' '' (map shellEscapeSingleArg argv) @ rest) =
     loop Plain (Some SQ) (put (js_join '' '' (map shellEscapeSingleArg argv)) st) rest"
proof (induction argv arbitrary: prev st)
  case (Cons a argv)
  then show ?case by (cases argv) (simp_all add: quoted steps)
qed simp

end

subsection \<open>The splitters meet the contract\<close>

lemma pl_add_add: "pl_add b (pl_add a st) = pl_add (a @ b) st"
  by (simp add: pl_add_def)

lemma pl_body_add [simp]: "pl_body (pl_add a st) = pl_body st" "pl_pending (pl_add a st) = pl_pending st"
  "pl_segments (pl_add a st) = pl_segments st" "pl_buf (pl_add a st) = pl_buf st @ a" "pl_empty (pl_add a st) = False"
  by (simp_all add: pl_add_def)

lemma ch_add_add: "ch_add b (ch_add a st) = ch_add (a @ b) st"
  by (simp add: ch_add_def)

lemma char_neq [simp]: "SQ \<noteq> DQ" "DQ \<noteq> SQ" "SQ \<noteq> BSLASH" "DQ \<noteq> BSLASH" "SQ \<noteq> CHR '' ''" "DQ \<noteq> CHR '' ''" "BSLASH \<noteq> SQ"
  "BSLASH \<noteq> DQ" "CHR '' '' \<noteq> SQ" "CHR '' '' \<noteq> DQ" "CHR '' '' \<noteq> BSLASH"
  by (simp_all add: char_defs)

interpretation pipe: quoting pipe_loop pl_add "\<lambda>st. pl_body st = None"
  by unfold_locales
    (simp_all add: pl_add_add pipe_loop.simps, simp_all add: char_defs isShellCommentStart_def is_newline_def disallowed_pipeline_token_def)

interpretation chain: quoting chain_loop ch_add "\<lambda>_. True"
  by unfold_locales
    (simp_all add: ch_add_add chain_loop.simps, simp_all add: char_defs isShellCommentStart_def is_newline_def)

subsection \<open>Rendered pipelines and chains\<close>

definition argv_text :: "string list \<Rightarrow> string" where
  "argv_text argv = js_join '' '' (map shellEscapeSingleArg argv)"

lemma shellEscape_ends: "hd (shellEscapeSingleArg v) = SQ" "last (shellEscapeSingleArg v) = SQ" "shellEscapeSingleArg v \<noteq> []"
  by (simp_all add: shellEscapeSingleArg_def)

lemma argv_text_ends:
  assumes "argv \<noteq> []"
  shows "argv_text argv \<noteq> []" and "hd (argv_text argv) = SQ" and "last (argv_text argv) = SQ"
proof -
  have "argv_text argv \<noteq> [] \<and> hd (argv_text argv) = SQ \<and> last (argv_text argv) = SQ"
    using assms
  proof (induction argv)
    case (Cons a argv)
    then show ?case by (cases argv) (auto simp: argv_text_def shellEscape_ends)
  qed simp
  then show "argv_text argv \<noteq> []" and "hd (argv_text argv) = SQ" and "last (argv_text argv) = SQ" by auto
qed

lemma SQ_not_ws [simp]: "\<not> js_ws SQ" "js_ws (CHR '' '')"
  by (simp_all add: js_ws_def SQ_def)

lemma js_trim_ends: "s \<noteq> [] \<Longrightarrow> hd s = SQ \<Longrightarrow> last s = SQ \<Longrightarrow> js_trim s = s"
  by (rule js_trim_fixed) simp

lemma js_trim_space: "js_trim (CHR '' '' # s) = js_trim s"
  by (simp add: js_trim_def js_trim_start_def)

lemma js_trim_space_end: "js_trim (s @ '' '') = js_trim s"
proof -
  have *: "dropWhile js_ws (rev (dropWhile js_ws (s @ '' ''))) = dropWhile js_ws (rev (dropWhile js_ws s))"
  proof (cases "\<forall>c \<in> set s. js_ws c")
    case True
    then have "dropWhile js_ws s = []" and "dropWhile js_ws (s @ '' '') = []" by auto
    then show ?thesis by (simp del: dropWhile_eq_Nil_conv)
  next
    case False
    then have "dropWhile js_ws (s @ '' '') = dropWhile js_ws s @ '' ''"
      by (auto intro: dropWhile_append1)
    then show ?thesis by simp
  qed
  show ?thesis by (simp add: js_trim_def js_trim_start_def js_trim_end_def *)
qed

lemma pipe_argv:
  "pl_body st = None \<Longrightarrow> argv \<noteq> [] \<Longrightarrow>
     pipe_loop Plain prev st (argv_text argv @ rest) = pipe_loop Plain (Some SQ) (pl_add (argv_text argv) st) rest"
  using pipe.quoted_words by (simp add: argv_text_def)

lemma chain_argv:
  "argv \<noteq> [] \<Longrightarrow>
     chain_loop Plain prev st (argv_text argv @ rest) = chain_loop Plain (Some SQ) (ch_add (argv_text argv) st) rest"
  using chain.quoted_words by (simp add: argv_text_def)

lemma pipe_bar:
  "pl_body st = None \<Longrightarrow>
     pipe_loop Plain prev st ('' | '' @ rest) =
     pipe_loop Plain (Some (CHR '' '')) (pl_add '' '' (pl_push ((pl_add '' '' st)\<lparr>pl_empty := True\<rparr>))) rest"
  by (simp add: pipe.space) (simp add: pipe_loop.simps char_defs isShellCommentStart_def is_newline_def disallowed_pipeline_token_def pl_push_def)

definition pipeline_text :: "string list list \<Rightarrow> string" where
  "pipeline_text argvs = js_join '' | '' (map argv_text argvs)"

text \<open>The state in which a command has been read up to the start of a segment.\<close>

lemma pl_push_text:
  assumes "pl_buf st = [] \<or> pl_buf st = '' ''" and "argv \<noteq> []"
  shows "pl_push (pl_add (argv_text argv) st) = st\<lparr>pl_segments := pl_segments st @ [argv_text argv], pl_buf := [], pl_empty := False\<rparr>"
    and "pl_push ((pl_add '' '' (pl_add (argv_text argv) st))\<lparr>pl_empty := True\<rparr>) =
      st\<lparr>pl_segments := pl_segments st @ [argv_text argv], pl_buf := [], pl_empty := True\<rparr>"
proof -
  have "js_trim (pl_buf st @ argv_text argv) = argv_text argv" and "js_trim (pl_buf st @ argv_text argv @ '' '') = argv_text argv"
    using assms argv_text_ends [of argv] js_trim_ends js_trim_space_end [of "pl_buf st @ argv_text argv"] by (auto simp: js_trim_space)
  then show "pl_push (pl_add (argv_text argv) st) = st\<lparr>pl_segments := pl_segments st @ [argv_text argv], pl_buf := [], pl_empty := False\<rparr>"
    and "pl_push ((pl_add '' '' (pl_add (argv_text argv) st))\<lparr>pl_empty := True\<rparr>) =
      st\<lparr>pl_segments := pl_segments st @ [argv_text argv], pl_buf := [], pl_empty := True\<rparr>"
    using argv_text_ends(1) [OF assms(2)] by (simp_all add: pl_push_def pl_add_def)
qed

lemma pipe_pipeline:
  assumes "pl_body st = None" and "pl_pending st = []" and "argvs \<noteq> []" and "[] \<notin> set argvs" and "pl_buf st = [] \<or> pl_buf st = '' ''"
  shows "\<exists>st'. pipe_loop Plain prev st (pipeline_text argvs) = Inr (Plain, st') \<and> pl_body st' = None \<and> pl_pending st' = [] \<and>
       \<not> pl_empty st' \<and> pl_segments (pl_push st') = pl_segments st @ map argv_text argvs"
  using assms
proof (induction argvs arbitrary: st prev)
  case (Cons argv argvs)
  then have words: "pipe_loop Plain prev st (argv_text argv @ rest) = pipe_loop Plain (Some SQ) (pl_add (argv_text argv) st) rest" for rest
    by (auto intro: pipe_argv)
  have ne: "argv \<noteq> []" using Cons.prems by auto
  show ?case
  proof (cases argvs)
    case Nil
    with words [of "[]"] Cons.prems ne show ?thesis by (simp add: pipeline_text_def pl_push_text pipe_loop.simps)
  next
    case (Cons b bs)
    let ?st = "pl_add '' '' (st\<lparr>pl_segments := pl_segments st @ [argv_text argv], pl_buf := [], pl_empty := True\<rparr>)"
    have "pipe_loop Plain prev st (pipeline_text (argv # argvs)) = pipe_loop Plain (Some (CHR '' '')) ?st (pipeline_text argvs)"
      using Cons Cons.prems ne words [of "'' | '' @ pipeline_text argvs"] pipe_bar [of "pl_add (argv_text argv) st" "Some SQ" "pipeline_text argvs"]
      by (simp add: pipeline_text_def pl_push_text)
    with Cons.IH [of ?st "Some (CHR '' '')"] Cons Cons.prems show ?thesis by simp
  qed
qed simp

theorem splitShellPipeline_text:
  assumes "argvs \<noteq> []" and "[] \<notin> set argvs"
  shows "splitShellPipeline (pipeline_text argvs) = Inr (map argv_text argvs)"
proof -
  obtain st' where st': "pipe_loop Plain None pipe_start (pipeline_text argvs) = Inr (Plain, st')" "pl_body st' = None" "pl_pending st' = []"
      "\<not> pl_empty st'" "pl_segments (pl_push st') = map argv_text argvs"
    using pipe_pipeline [of pipe_start argvs None] assms by (auto simp: pipe_start_def)
  have "close_heredoc st' = st'" using st' by (simp add: close_heredoc_def)
  moreover have "pl_empty (pl_push st') = pl_empty st'" by (simp add: pl_push_def)
  ultimately show ?thesis using st' assms(1) by (auto simp: splitShellPipeline_def pipe_finish_def Let_def)
qed

subsection \<open>Words\<close>

lemma args_quoted_tail:
  "shell_args InSingle buf tokens (concat (map (\<lambda>c. if c = SQ then [SQ, DQ, SQ, DQ, SQ] else [c]) v) @ SQ # rest) =
     shell_args Plain (buf @ v) tokens rest"
proof (induction v arbitrary: buf)
  case (Cons c v)
  then show ?case by (cases "c = SQ") (simp_all add: shell_args.simps)
qed (simp add: shell_args.simps)

lemma args_quoted: "shell_args Plain buf tokens (shellEscapeSingleArg v @ rest) = shell_args Plain (buf @ v) tokens rest"
  using args_quoted_tail by (simp add: shellEscapeSingleArg_def shell_args.simps)

lemma args_space: "shell_args Plain buf tokens (CHR '' '' # rest) = shell_args Plain [] (push_token buf tokens) rest"
  by (simp add: shell_args.simps)

text \<open>What is written is what is read, as long as no word is empty.\<close>

theorem splitShellArgs_text:
  assumes "[] \<notin> set argv"
  shows "splitShellArgs (argv_text argv) = Some argv"
proof -
  have "shell_args Plain [] tokens (argv_text argv) = Some (tokens @ argv)" for tokens
    using assms
  proof (induction argv arbitrary: tokens)
    case Nil
    then show ?case by (simp add: argv_text_def push_token_def shell_args.simps)
  next
    case (Cons a argv)
    then have a: "a \<noteq> []" by auto
    show ?case
    proof (cases argv)
      case Nil
      with a args_quoted [of "[]" tokens a "[]"] show ?thesis by (simp add: argv_text_def push_token_def shell_args.simps)
    next
      case (Cons b bs)
      have "shell_args Plain [] tokens (argv_text (a # argv)) = shell_args Plain a tokens (CHR '' '' # argv_text argv)"
        using Cons args_quoted [of "[]" tokens a] by (simp add: argv_text_def)
      with Cons.IH [of "tokens @ [a]"] Cons.prems a show ?thesis by (simp add: push_token_def args_space)
    qed
  qed
  then show ?thesis by (simp add: splitShellArgs_def)
qed

text \<open>No word that is read is empty.\<close>

lemma shell_args_no_empty: "shell_args m buf tokens s = Some argv \<Longrightarrow> [] \<notin> set tokens \<Longrightarrow> [] \<notin> set argv"
  by (induction m buf tokens s rule: shell_args.induct, simp_all only: shell_args.simps)
    (auto simp: push_token_def split: if_splits list.splits)

lemma splitShellArgs_no_empty: "splitShellArgs raw = Some argv \<Longrightarrow> [] \<notin> set argv"
  using shell_args_no_empty by (fastforce simp: splitShellArgs_def)

subsection \<open>Chains\<close>

lemma pipeline_text_ends:
  assumes "argvs \<noteq> []" and "[] \<notin> set argvs"
  shows "pipeline_text argvs \<noteq> []" and "hd (pipeline_text argvs) = SQ" and "last (pipeline_text argvs) = SQ"
proof -
  have "pipeline_text argvs \<noteq> [] \<and> hd (pipeline_text argvs) = SQ \<and> last (pipeline_text argvs) = SQ"
    using assms
  proof (induction argvs)
    case (Cons a argvs)
    then have "a \<noteq> []" by auto
    with Cons show ?case by (cases argvs) (auto simp: pipeline_text_def argv_text_ends)
  qed simp
  then show "pipeline_text argvs \<noteq> []" and "hd (pipeline_text argvs) = SQ" and "last (pipeline_text argvs) = SQ" by auto
qed

lemma chain_bar: "chain_loop Plain prev st ('' | '' @ rest) = chain_loop Plain (Some (CHR '' '')) (ch_add '' | '' st) rest"
  by (simp add: chain_loop.simps ch_add_add) (simp add: chain_loop.simps char_defs isShellCommentStart_def is_newline_def ch_add_add)

lemma chain_pipeline:
  "argvs \<noteq> [] \<Longrightarrow> [] \<notin> set argvs \<Longrightarrow>
     chain_loop Plain prev st (pipeline_text argvs @ rest) = chain_loop Plain (Some SQ) (ch_add (pipeline_text argvs) st) rest"
proof (induction argvs arbitrary: st prev)
  case (Cons a argvs)
  then have a: "a \<noteq> []" by auto
  show ?case
  proof (cases argvs)
    case Nil
    with chain_argv [OF a] show ?thesis by (simp add: pipeline_text_def)
  next
    case (Cons b bs)
    have "chain_loop Plain prev st (pipeline_text (a # argvs) @ rest) =
        chain_loop Plain (Some (CHR '' '')) (ch_add (argv_text a @ '' | '') st) (pipeline_text argvs @ rest)"
      using Cons chain_argv [OF a, of prev st "'' | '' @ pipeline_text argvs @ rest"]
        chain_bar [of "Some SQ" "ch_add (argv_text a) st" "pipeline_text argvs @ rest"]
      by (simp add: pipeline_text_def ch_add_add)
    with Cons.IH [of "Some (CHR '' '')" "ch_add (argv_text a @ '' | '') st"] Cons Cons.prems show ?thesis
      by (simp add: pipeline_text_def ch_add_add)
  qed
qed simp

end
