(* ===== verification/Exec_Wrappers_Proofs.thy ===== *)
theory Exec_Wrappers_Proofs
  imports Exec_Wrappers
begin

text \<open>
  What a wrapper gives is the end of its own argument vector, and the plan of a command leads to the end
  of the command's: nothing is made up on the way, and no wrapper is left in front of it.
\<close>

named_theorems unwraps

subsection \<open>One wrapper\<close>

text \<open>The function gives the rest of its argument from some later position on.\<close>

definition unwraps_to_rest :: "(string list \<Rightarrow> string list option) \<Rightarrow> bool" where
  "unwraps_to_rest f \<longleftrightarrow> (\<forall>argv a. f argv = Some a \<longrightarrow> (\<exists>n. 0 < n \<and> n < length argv \<and> a = drop n argv))"

lemma scan_tokens_index: "scan_tokens seps f st e i ts = Some (j, e') \<Longrightarrow> i \<le> j"
proof (induction seps f st e i ts rule: scan_tokens.induct)
  case (2 seps f st e i t ts)
  then show ?case
    by (cases "f st (js_trim t) (js_lower (js_trim t))"; cases "snd (f st (js_trim t) (js_lower (js_trim t)))")
      (auto simp: Let_def split: if_splits dest: Suc_leD)
qed simp

lemma second_word_index: "second_word saw i ts = Some j \<Longrightarrow> i \<le> j"
  by (induction saw i ts rule: second_word.induct) (auto split: if_splits)

lemma scan_unwraps:
  assumes "\<And>i argv j. adjust i argv = Some j \<Longrightarrow> i \<le> j"
  shows "unwraps_to_rest (scanWrapperInvocation seps f st adjust)"
proof -
  have "\<exists>n. 0 < n \<and> n < length argv \<and> a = drop n argv"
    if "scanWrapperInvocation seps f st adjust argv = Some a" for argv a
  proof -
    from that obtain i e j where "scan_tokens seps f st False 1 (drop 1 argv) = Some (i, e)" "adjust i argv = Some j"
        "j < length argv" "a = drop j argv"
      by (auto simp: scanWrapperInvocation_def split: option.splits if_splits prod.splits)
    with assms [of i argv j] scan_tokens_index show ?thesis by (intro exI [of _ j]) fastforce
  qed
  then show ?thesis by (simp add: unwraps_to_rest_def)
qed

lemma same_index_le: "same_index i argv = Some j \<Longrightarrow> i \<le> j"
  by (simp add: same_index_def)

lemma unwraps_wrappers [unwraps]:
  "unwraps_to_rest unwrapEnvInvocation"
  "unwraps_to_rest unwrapNiceInvocation"
  "unwraps_to_rest unwrapCaffeinateInvocation"
  "unwraps_to_rest unwrapNohupInvocation"
  "unwraps_to_rest unwrapSandboxExecInvocation"
  "unwraps_to_rest unwrapStdbufInvocation"
  "unwraps_to_rest unwrapTimeInvocation"
  "unwraps_to_rest unwrapTimeoutInvocation"
  "unwraps_to_rest unwrapArchInvocation"
  "unwraps_to_rest unwrapXcrunInvocation"
  unfolding unwrapEnvInvocation_def unwrapNiceInvocation_def unwrapCaffeinateInvocation_def unwrapNohupInvocation_def
    unwrapSandboxExecInvocation_def unwrapStdbufInvocation_def unwrapTimeInvocation_def unwrapTimeoutInvocation_def
    unwrapArchInvocation_def unwrapXcrunInvocation_def unwrapDashOptionInvocation_def
  by (rule scan_unwraps, auto dest: same_index_le split: if_splits)+

lemma unwraps_script [unwraps]: "unwraps_to_rest (unwrapScriptInvocation env)"
proof -
  have "unwraps_to_rest (scanWrapperInvocation seps f st (\<lambda>idx argv. second_word False idx (drop idx argv)))" for seps f and st :: unit
    by (rule scan_unwraps) (auto dest: second_word_index)
  then show ?thesis by (auto simp: unwrapScriptInvocation_def unwraps_to_rest_def)
qed

lemma unwraps_guarded [unwraps]: "unwraps_to_rest f \<Longrightarrow> unwraps_to_rest (\<lambda>argv. if b then f argv else None)"
  by (auto simp: unwraps_to_rest_def)

lemma unwraps_specs:
  "jm_get (DISPATCH_WRAPPER_SPECS env) w = Some spec \<Longrightarrow> ds_unwrap spec = Some f \<Longrightarrow> unwraps_to_rest f"
proof -
  have "list_all (\<lambda>(k, spec). \<forall>f. ds_unwrap spec = Some f \<longrightarrow> unwraps_to_rest f) (DISPATCH_WRAPPER_SPECS env)"
    by (simp add: DISPATCH_WRAPPER_SPECS_def transparent_spec_def opaque_spec_def unwraps del: not_None_eq)
  then show "jm_get (DISPATCH_WRAPPER_SPECS env) w = Some spec \<Longrightarrow> ds_unwrap spec = Some f \<Longrightarrow> unwraps_to_rest f"
    by (fastforce simp: list_all_iff dest: jm_get_Some_in)
qed

lemma unwrapped_rest:
  "unwrapKnownDispatchWrapperInvocation env argv = Unwrapped w a \<Longrightarrow> \<exists>n. 0 < n \<and> n < length argv \<and> a = drop n argv"
  using unwraps_specs
  by (auto simp: unwrapKnownDispatchWrapperInvocation_def Let_def unwraps_to_rest_def split: if_splits option.splits)

lemma multiplexer_rest:
  "unwrapKnownShellMultiplexerInvocation env argv = Unwrapped w a \<Longrightarrow> \<exists>n. 0 < n \<and> n < length argv \<and> a = drop n argv"
proof -
  assume *: "unwrapKnownShellMultiplexerInvocation env argv = Unwrapped w a"
  then have "a = drop 2 argv \<or> a = drop 1 argv" and "token0 a \<noteq> []"
    by (auto simp: unwrapKnownShellMultiplexerInvocation_def Let_def split: if_splits)
  moreover from this(2) have "a \<noteq> []" by (auto simp: token0_def)
  ultimately show ?thesis by (metis drop_eq_Nil not_le zero_less_numeral zero_less_one)
qed

lemma overflow_None [simp]: "blocked_overflow r = None \<longleftrightarrow> r = NotWrapper"
  by (cases r) (simp_all add: blocked_overflow_def)

subsection \<open>The plan of the dispatch wrappers\<close>

lemma drop_chain: "\<exists>n. a = drop n argv \<Longrightarrow> \<exists>n. b = drop n a \<Longrightarrow> \<exists>n. b = drop n argv"
  by auto

lemma dispatch_loop_rest:
  "\<exists>k. dp_argv (dispatch_loop env n m current ws) = drop k current"
proof (induction n arbitrary: current ws)
  case 0
  show ?case by (intro exI [of _ 0]) (simp add: finish_dispatch_def)
next
  case (Suc n)
  show ?case
  proof (cases "unwrapKnownDispatchWrapperInvocation env current")
    case (Unwrapped w a)
    obtain i where "a = drop i current" using unwrapped_rest [OF Unwrapped] by auto
    moreover obtain k where "dp_argv (dispatch_loop env n m a (ws @ [w])) = drop k a" using Suc.IH by blast
    ultimately show ?thesis using Unwrapped
      by (auto simp: finish_dispatch_def intro: exI [of _ 0])
  qed (auto simp: finish_dispatch_def intro: exI [of _ 0])
qed

lemma dispatch_loop_nonempty: "current \<noteq> [] \<Longrightarrow> dp_argv (dispatch_loop env n m current ws) \<noteq> []"
proof (induction n arbitrary: current ws)
  case (Suc n)
  then show ?case
    by (cases "unwrapKnownDispatchWrapperInvocation env current") (auto simp: finish_dispatch_def)
qed (simp add: finish_dispatch_def)

lemma dispatch_loop_length:
  "dp_blocked (dispatch_loop env n m current ws) = None \<Longrightarrow> length (dp_wrappers (dispatch_loop env n m current ws)) \<le> length ws + n"
proof (induction n arbitrary: current ws)
  case (Suc n)
  then show ?case
    by (cases "unwrapKnownDispatchWrapperInvocation env current") (auto simp: finish_dispatch_def split: if_splits dest!: Suc.IH)
qed (simp add: finish_dispatch_def)

lemma dispatch_loop_grows: "\<exists>us. dp_wrappers (dispatch_loop env n m current ws) = ws @ us"
proof (induction n arbitrary: current ws)
  case (Suc n)
  show ?case
  proof (cases "unwrapKnownDispatchWrapperInvocation env current")
    case (Unwrapped w a)
    with Suc.IH [of a "ws @ [w]"] show ?thesis by (auto simp: finish_dispatch_def)
  qed (auto simp: finish_dispatch_def)
qed (simp add: finish_dispatch_def)

text \<open>A plan without wrappers that blocks nothing has met none.\<close>

lemma dispatch_plan_none:
  assumes "0 < n" and "dp_blocked (resolveDispatchWrapperTrustPlan env n argv) = None" and "dp_wrappers (resolveDispatchWrapperTrustPlan env n argv) = []"
  shows "unwrapKnownDispatchWrapperInvocation env argv = NotWrapper" and "dp_argv (resolveDispatchWrapperTrustPlan env n argv) = argv"
proof -
  obtain k where k: "n = Suc k" using assms(1) by (cases n) auto
  have "unwrapKnownDispatchWrapperInvocation env argv = NotWrapper"
  proof (cases "unwrapKnownDispatchWrapperInvocation env argv")
    case (Unwrapped w a)
    obtain us where "dp_wrappers (dispatch_loop env k (Suc k) a [w]) = w # us" using dispatch_loop_grows [of env k "Suc k" a "[w]"] by auto
    moreover have "a \<noteq> []" using unwrapped_rest [OF Unwrapped] by auto
    ultimately show ?thesis using assms(2,3) Unwrapped k
      by (auto simp: resolveDispatchWrapperTrustPlan_def split: if_splits)
  qed (use assms(2) k in \<open>simp_all add: resolveDispatchWrapperTrustPlan_def\<close>)
  then show "unwrapKnownDispatchWrapperInvocation env argv = NotWrapper" and "dp_argv (resolveDispatchWrapperTrustPlan env n argv) = argv"
    using k by (simp_all add: resolveDispatchWrapperTrustPlan_def finish_dispatch_def)
qed

subsection \<open>The plan of a command\<close>

lemma trust_loop_rest: "\<exists>k. tp_argv (trust_loop env n m current policyArgv saw chain) = drop k current"
proof (induction n arbitrary: current policyArgv saw chain)
  case 0
  show ?case
    by (intro exI [of _ 0])
      (auto simp: finish_trust_def finalizeExecWrapperTrustPlan_def blockedExecWrapperTrustPlan_def Let_def split: option.splits)
next
  case (Suc n)
  have finish: "tp_argv (finish_trust env m c p ch) = c" for c p ch
    by (auto simp: finish_trust_def finalizeExecWrapperTrustPlan_def blockedExecWrapperTrustPlan_def Let_def split: option.splits)
  let ?plan = "resolveDispatchWrapperTrustPlan env (m - length chain) current"
  obtain k where k: "dp_argv ?plan = drop k current"
    using dispatch_loop_rest unfolding resolveDispatchWrapperTrustPlan_def by blast
  have stay: "\<exists>k. current = drop k current" by (intro exI [of _ 0]) simp
  show ?case
  proof (cases "dp_blocked ?plan")
    case (Some w)
    with k show ?thesis by (auto simp: blockedExecWrapperTrustPlan_def Let_def)
  next
    case None
    note unblocked = None
    show ?thesis
    proof (cases "dp_wrappers ?plan = []")
      case False
      obtain j where "tp_argv (trust_loop env n m (dp_argv ?plan) (if saw then policyArgv else dp_argv ?plan) saw (chain @ dp_wrappers ?plan)) =
          drop j (dp_argv ?plan)" using Suc.IH by blast
      with k unblocked False show ?thesis by (auto simp: Let_def finish)
    next
      case True
      show ?thesis
      proof (cases "unwrapKnownShellMultiplexerInvocation env current")
        case (Unwrapped w a)
        obtain i where "a = drop i current" using multiplexer_rest [OF Unwrapped] by auto
        moreover obtain j where "tp_argv (trust_loop env n m a (if saw then policyArgv else current) True (chain @ [w])) = drop j a"
          using Suc.IH by blast
        ultimately show ?thesis using unblocked True Unwrapped by (auto simp: Let_def finish)
      qed (use unblocked True stay in \<open>auto simp: Let_def finish blockedExecWrapperTrustPlan_def\<close>)
    qed
  qed
qed

text \<open>A plan that is not blocked has come to a command that is no wrapper. The loop has rounds enough:
  each one that goes on adds to the chain.\<close>

definition no_wrapper :: "exec_env \<Rightarrow> string list \<Rightarrow> bool" where
  "no_wrapper env argv \<longleftrightarrow> unwrapKnownDispatchWrapperInvocation env argv = NotWrapper \<and>
     unwrapKnownShellMultiplexerInvocation env argv = NotWrapper"

definition exposed :: "exec_env \<Rightarrow> nat \<Rightarrow> trust_plan \<Rightarrow> bool" where
  "exposed env m plan \<longleftrightarrow> (tp_blockedWrapper plan = None \<longrightarrow>
     no_wrapper env (tp_argv plan) \<and> length (tp_wrapperChain plan) \<le> m)"

lemma finish_trust_exposed: "m \<le> length ch \<or> no_wrapper env c \<Longrightarrow> length ch \<le> m \<Longrightarrow> exposed env m (finish_trust env m c p ch)"
  by (auto simp: exposed_def finish_trust_def no_wrapper_def finalizeExecWrapperTrustPlan_def blockedExecWrapperTrustPlan_def
      Let_def split: option.splits)

lemma blocked_exposed: "exposed env m (blockedExecWrapperTrustPlan a p ch w)"
  by (simp add: exposed_def blockedExecWrapperTrustPlan_def)

lemma trust_loop_exposed:
  "m \<le> n + length chain \<Longrightarrow> length chain < m \<Longrightarrow> exposed env m (trust_loop env n m current policyArgv saw chain)"
proof (induction n arbitrary: current policyArgv saw chain)
  case (Suc n)
  let ?plan = "resolveDispatchWrapperTrustPlan env (m - length chain) current"
  show ?case
  proof (cases "dp_blocked ?plan")
    case (Some w)
    then show ?thesis by (simp add: blocked_exposed Let_def)
  next
    case None
    note unblocked = None
    show ?thesis
    proof (cases "dp_wrappers ?plan = []")
      case True
      from Suc.prems have "0 < m - length chain" by simp
      note found = dispatch_plan_none [OF this unblocked True]
      show ?thesis
      proof (cases "unwrapKnownShellMultiplexerInvocation env current")
        case NotWrapper
        with unblocked True found Suc.prems show ?thesis by (simp add: finish_trust_exposed no_wrapper_def Let_def)
      next
        case (BlockedWrapper w)
        with unblocked True show ?thesis by (simp add: blocked_exposed Let_def)
      next
        case (Unwrapped w a)
        with unblocked True Suc show ?thesis by (simp add: Let_def finish_trust_exposed)
      qed
    next
      case False
      then obtain k where k: "length (dp_wrappers ?plan) = Suc k" by (cases "dp_wrappers ?plan") auto
      moreover have "length (dp_wrappers ?plan) \<le> m - length chain"
        using unblocked dispatch_loop_length [of env "m - length chain" "m - length chain" current "[]"]
        by (simp add: resolveDispatchWrapperTrustPlan_def)
      ultimately show ?thesis using unblocked False Suc.prems by (auto simp: Let_def intro!: Suc.IH finish_trust_exposed)
    qed
  qed
qed simp

lemma trust_plan_exposed: "exposed env MAX_DISPATCH_WRAPPER_DEPTH (resolveExecWrapperTrustPlan env argv)"
  unfolding resolveExecWrapperTrustPlan_def by (rule trust_loop_exposed) (simp_all add: MAX_DISPATCH_WRAPPER_DEPTH_def)

lemma trust_plan_rest: "\<exists>k. tp_argv (resolveExecWrapperTrustPlan env argv) = drop k argv"
  unfolding resolveExecWrapperTrustPlan_def by (rule trust_loop_rest)

end
