(* ===== verification/Exec_Analysis_Proofs.thy ===== *)
theory Exec_Analysis_Proofs
  imports Exec_Analysis Shell_Proofs Exec_Wrappers_Proofs
begin

text \<open>
  The command that is run instead of the one asked for: analysing it again gives the planned commands,
  in order, and nothing else.
\<close>

subsection \<open>Chains that have been written\<close>

definition op_suffix :: "chain_op option \<Rightarrow> string" where
  "op_suffix op = (case op of None \<Rightarrow> [] | Some op \<Rightarrow> '' '' @ op_text op @ '' '')"

fun chain_text :: "(string list list \<times> chain_op option) list \<Rightarrow> string" where
  "chain_text [] = []"
| "chain_text ((argvs, op) # ps) = pipeline_text argvs @ op_suffix op @ chain_text ps"

definition written :: "string list list \<Rightarrow> bool" where
  "written argvs \<longleftrightarrow> argvs \<noteq> [] \<and> (\<forall>argv \<in> set argvs. argv \<noteq> [] \<and> [] \<notin> set argv)"

lemma writtenD: "written argvs \<Longrightarrow> argvs \<noteq> []" "written argvs \<Longrightarrow> [] \<notin> set argvs"
  by (auto simp: written_def)

lemma chain_op_step:
  "chain_loop Plain prev st (op_suffix (Some op) @ rest) =
     chain_loop Plain (Some (CHR '' '')) (ch_add '' '' (ch_push op (ch_add '' '' st))) rest"
proof -
  have "chain_loop Plain prev st (op_suffix (Some op) @ rest) = chain_loop Plain (Some (CHR '' '')) (ch_add '' '' st) (op_text op @ '' '' @ rest)"
    by (simp add: op_suffix_def chain.space)
  also have "\<dots> = chain_loop Plain (Some (case op of OpAnd \<Rightarrow> CHR ''&'' | OpOr \<Rightarrow> CHR ''|'' | OpSeq \<Rightarrow> CHR '';''))
      (ch_push op (ch_add '' '' st)) ('' '' @ rest)"
    by (cases op) (simp_all add: op_text_def chain_loop.simps char_defs isShellCommentStart_def)
  also have "\<dots> = chain_loop Plain (Some (CHR '' '')) (ch_add '' '' (ch_push op (ch_add '' '' st))) rest"
    by (simp add: chain.space)
  finally show ?thesis .
qed

lemma trim_pipeline:
  assumes "written argvs" and "buf = [] \<or> buf = '' ''"
  shows "js_trim (buf @ pipeline_text argvs) = pipeline_text argvs" and "js_trim (buf @ pipeline_text argvs @ '' '') = pipeline_text argvs"
  using assms pipeline_text_ends [OF writtenD, of argvs] js_trim_ends js_trim_space_end [of "buf @ pipeline_text argvs"]
  by (auto simp: js_trim_space)

lemma ch_push_pipeline:
  "written argvs \<Longrightarrow> ch_buf st = [] \<or> ch_buf st = '' '' \<Longrightarrow>
     ch_push op (ch_add '' '' (ch_add (pipeline_text argvs) st)) =
       st\<lparr>ch_parts := ch_parts st @ [(pipeline_text argvs, Some op)], ch_buf := [], ch_found := True\<rparr>"
  using trim_pipeline [of argvs "ch_buf st"] pipeline_text_ends(1) [OF writtenD, of argvs]
  by (simp add: ch_push_def ch_add_def)

text \<open>All parts but the last have an operator.\<close>

fun chained :: "(string list list \<times> chain_op option) list \<Rightarrow> bool" where
  "chained [] \<longleftrightarrow> False"
| "chained [(argvs, op)] \<longleftrightarrow> op = None \<and> written argvs"
| "chained ((argvs, op) # p # ps) \<longleftrightarrow> op \<noteq> None \<and> written argvs \<and> chained (p # ps)"

lemma chain_loop_text:
  assumes "chained ps" and "ch_buf st = [] \<or> ch_buf st = '' ''"
  shows "\<exists>st'. chain_loop Plain prev st (chain_text ps) = st' \<and> ch_invalid st' = ch_invalid st \<and>
    ch_found st' = (ch_found st \<or> 1 < length ps) \<and> js_trim (ch_buf st') \<noteq> [] \<and>
    ch_parts st' @ [(js_trim (ch_buf st'), None)] = ch_parts st @ map (\<lambda>(argvs, op). (pipeline_text argvs, op)) ps"
  using assms
proof (induction ps arbitrary: st prev rule: chained.induct)
  case (2 argvs op)
  then have "written argvs" by simp
  with chain_pipeline [OF writtenD, of argvs prev st "[]"] 2 trim_pipeline [of argvs "ch_buf st"] pipeline_text_ends(1) [OF writtenD, of argvs]
  show ?case by (simp add: op_suffix_def chain_loop.simps ch_add_def)
next
  case (3 argvs op p ps)
  then obtain op' where op: "op = Some op'" and argvs: "written argvs" and rest: "chained (p # ps)" by auto
  let ?st = "ch_add '' '' (st\<lparr>ch_parts := ch_parts st @ [(pipeline_text argvs, Some op')], ch_buf := [], ch_found := True\<rparr>)"
  have "chain_loop Plain prev st (chain_text ((argvs, op) # p # ps)) = chain_loop Plain (Some (CHR '' '')) ?st (chain_text (p # ps))"
    using chain_pipeline [OF writtenD, OF argvs argvs, of prev st "op_suffix (Some op') @ chain_text (p # ps)"]
      chain_op_step [of "Some SQ" "ch_add (pipeline_text argvs) st" op' "chain_text (p # ps)"] ch_push_pipeline [OF argvs 3(3)]
    by (simp add: op)
  with "3.IH" [OF rest, of ?st "Some (CHR '' '')"] show ?case by (simp add: op ch_add_def)
qed simp

lemma splitCommandChain_text:
  assumes "chained ps"
  shows "splitCommandChainWithOperators (chain_text ps) =
    (if length ps = 1 then None else Some (map (\<lambda>(argvs, op). (pipeline_text argvs, op)) ps))"
proof -
  have "1 \<le> length ps" using assms by (cases ps) auto
  with chain_loop_text [OF assms, of chain_start None] show ?thesis
    by (auto simp: splitCommandChainWithOperators_def chain_finish_def chain_start_def)
qed

subsection \<open>Segments\<close>

text \<open>What the analysis gives for a segment on a POSIX platform.\<close>

definition analysed :: "exec_env \<Rightarrow> string option \<Rightarrow> process_env option \<Rightarrow> exec_segment \<Rightarrow> bool" where
  "analysed env cwd penv s \<longleftrightarrow> sg_argv s \<noteq> [] \<and> [] \<notin> set (sg_argv s) \<and>
     sg_resolution s = resolveCommandResolutionFromArgv env (sg_argv s) cwd penv"

lemma parse_analysed: "parseSegmentsFromParts env cwd penv parts = Some segments \<Longrightarrow> s \<in> set segments \<Longrightarrow> analysed env cwd penv s"
proof (induction parts arbitrary: segments)
  case (Cons raw parts)
  then obtain argv rest where *: "splitShellArgs raw = Some argv" "argv \<noteq> []" "parseSegmentsFromParts env cwd penv parts = Some rest"
      "segments = make_segment env cwd penv raw argv # rest"
    by (auto split: option.splits if_splits)
  have "analysed env cwd penv (make_segment env cwd penv raw argv)"
    using * splitShellArgs_no_empty by (simp add: analysed_def make_segment_def)
  with * Cons show ?case by auto
qed simp

lemma pipeline_analysed: "analyze_pipeline env cwd penv command = Inr segments \<Longrightarrow> s \<in> set segments \<Longrightarrow> analysed env cwd penv s"
  by (auto simp: analyze_pipeline_def dest: parse_analysed split: sum.splits option.splits)

lemma parts_analysed:
  "analyze_parts env cwd penv parts = Inr groups \<Longrightarrow> s \<in> set (concat groups) \<Longrightarrow> analysed env cwd penv s"
proof (induction parts arbitrary: groups)
  case (Cons p parts)
  then obtain g gs where "analyze_pipeline env cwd penv p = Inr g" "analyze_parts env cwd penv parts = Inr gs" "groups = g # gs"
    by (cases "analyze_parts env cwd penv parts") (auto split: sum.splits)
  with Cons show ?case by (auto dest: pipeline_analysed)
qed simp

lemma shell_analysed:
  assumes "analyzeShellCommand env command cwd penv platform = Inr a" and "\<not> isWindowsPlatform platform" and "s \<in> set (an_segments a)"
  shows "analysed env cwd penv s"
proof (cases "splitCommandChain command")
  case None
  with assms show ?thesis
    by (cases "analyze_pipeline env cwd penv command") (auto simp: analyzeShellCommand_def dest: pipeline_analysed)
next
  case (Some parts)
  with assms show ?thesis
    by (cases "analyze_parts env cwd penv parts") (auto simp: analyzeShellCommand_def dest: parts_analysed)
qed

lemma effective_argv_rest:
  assumes "analysed env cwd penv s"
  shows "\<exists>k. effective_argv s = drop k (sg_argv s)"
proof (cases "sg_resolution s")
  case None
  then show ?thesis by (intro exI [of _ 0]) (simp add: effective_argv_def)
next
  case (Some r)
  with assms have "cr_effectiveArgv r = tp_argv (resolveExecWrapperTrustPlan env (sg_argv s))"
    by (auto simp: analysed_def resolveCommandResolutionFromArgv_def Let_def split: if_splits)
  with trust_plan_rest [of env "sg_argv s"] obtain k where "cr_effectiveArgv r = drop k (sg_argv s)" by auto
  with Some show ?thesis by (auto simp: effective_argv_def intro: exI [of _ 0])
qed

lemma planned_written:
  assumes "analysed env cwd penv s" and "resolvePlannedSegmentArgv s = Some argv"
  shows "argv \<noteq> []" and "[] \<notin> set argv"
proof -
  obtain k where k: "effective_argv s = drop k (sg_argv s)" using effective_argv_rest [OF assms(1)] by auto
  then have "set (effective_argv s) \<subseteq> set (sg_argv s)" by (simp add: set_drop_subset)
  then have "[] \<notin> set (effective_argv s)" using assms(1) by (auto simp: analysed_def)
  then show "argv \<noteq> []" and "[] \<notin> set argv"
    using assms(2) by (cases "effective_argv s"; auto simp: resolvePlannedSegmentArgv_def split: if_splits)+
qed

subsection \<open>Rebuilding\<close>

lemma quoted_posix: "\<not> isWindowsPlatform platform \<Longrightarrow> quoted_argv argv platform = Inr (argv_text argv)"
  by (simp add: quoted_argv_def argv_text_def)

lemma render_enforced_text:
  assumes "\<not> isWindowsPlatform platform" and "\<forall>s \<in> set segments. analysed env cwd penv s"
    and "render_enforced segments platform raw i = Inr r"
  shows "i < length segments" and "\<exists>argv. resolvePlannedSegmentArgv (segments ! i) = Some argv \<and> argv \<noteq> [] \<and> [] \<notin> set argv \<and> r = argv_text argv"
proof -
  from assms(3) show i: "i < length segments" by (auto simp: render_enforced_def split: if_splits)
  from i assms(2) have "analysed env cwd penv (segments ! i)" by simp
  with i assms(1,3) planned_written show "\<exists>argv. resolvePlannedSegmentArgv (segments ! i) = Some argv \<and> argv \<noteq> [] \<and> [] \<notin> set argv \<and> r = argv_text argv"
    by (fastforce simp: render_enforced_def renderQuotedArgv_def quoted_posix split: if_splits option.splits)
qed

lemma render_segments_text:
  assumes "\<not> isWindowsPlatform platform" and "\<forall>s \<in> set segments. analysed env cwd penv s"
  shows "render_segments (render_enforced segments platform) i raws = Inr rs \<Longrightarrow>
    \<exists>argvs. rs = map argv_text argvs \<and> (\<forall>argv \<in> set argvs. argv \<noteq> [] \<and> [] \<notin> set argv) \<and> length argvs = length raws \<and>
      map Some argvs = map resolvePlannedSegmentArgv (take (length raws) (drop i segments))"
proof (induction raws arbitrary: i rs)
  case (Cons raw raws)
  then obtain r rs' where r: "render_enforced segments platform raw i = Inr r"
      and rs': "render_segments (render_enforced segments platform) (Suc i) raws = Inr rs'" "rs = r # rs'"
    by (cases "render_segments (render_enforced segments platform) (Suc i) raws") (auto split: sum.splits)
  obtain argv where argv: "resolvePlannedSegmentArgv (segments ! i) = Some argv" "argv \<noteq> []" "[] \<notin> set argv" "r = argv_text argv"
    using render_enforced_text(2) [OF assms r] by auto
  obtain argvs where argvs: "rs' = map argv_text argvs" "\<forall>argv \<in> set argvs. argv \<noteq> [] \<and> [] \<notin> set argv" "length argvs = length raws"
      "map Some argvs = map resolvePlannedSegmentArgv (take (length raws) (drop (Suc i) segments))"
    using Cons.IH [OF rs'(1)] by auto
  have "drop i segments = segments ! i # drop (Suc i) segments"
    using render_enforced_text(1) [OF assms r] by (simp add: Cons_nth_drop_Suc)
  with argv argvs rs'(2) show ?case by (intro exI [of _ "argv # argvs"]) simp
qed simp

lemma pipeline_parts_nonempty: "splitShellPipeline command = Inr raws \<Longrightarrow> raws \<noteq> []"
  by (auto simp: splitShellPipeline_def pipe_finish_def Let_def split: sum.splits prod.splits if_splits)

lemma render_pipeline_text:
  assumes "\<not> isWindowsPlatform platform" and "\<forall>s \<in> set segments. analysed env cwd penv s"
    and "splitShellPipeline part = Inr raws" and "render_segments (render_enforced segments platform) i raws = Inr rs"
  obtains argvs where "rs = map argv_text argvs" and "written argvs" and "length argvs = length raws"
    and "map Some argvs = map resolvePlannedSegmentArgv (take (length raws) (drop i segments))"
proof -
  from render_segments_text [OF assms(1,2,4)] obtain argvs where argvs: "rs = map argv_text argvs"
      "\<forall>argv \<in> set argvs. argv \<noteq> [] \<and> [] \<notin> set argv" "length argvs = length raws"
      "map Some argvs = map resolvePlannedSegmentArgv (take (length raws) (drop i segments))" by auto
  moreover from pipeline_parts_nonempty [OF assms(3)] argvs(3) have "argvs \<noteq> []" by auto
  ultimately show thesis using that by (simp add: written_def)
qed

text \<open>The parts of a command that the splitter has found.\<close>

fun split_parts :: "chain_part list \<Rightarrow> bool" where
  "split_parts [] \<longleftrightarrow> False"
| "split_parts [(part, op)] \<longleftrightarrow> op = None"
| "split_parts ((part, op) # p # ps) \<longleftrightarrow> op \<noteq> None \<and> split_parts (p # ps)"

lemma rebuild_parts_text:
  assumes "\<not> isWindowsPlatform platform" and "\<forall>s \<in> set segments. analysed env cwd penv s"
  shows "split_parts parts \<Longrightarrow> rebuild_parts (render_enforced segments platform) i out parts = Inr (r, j) \<Longrightarrow>
    \<exists>ps. chained ps \<and> r = out @ chain_text ps \<and> i + length (concat (map fst ps)) = j \<and>
      map Some (concat (map fst ps)) = map resolvePlannedSegmentArgv (take (length (concat (map fst ps))) (drop i segments))"
proof (induction parts arbitrary: i out rule: split_parts.induct)
  case (2 part op)
  then obtain raws rs where raws: "splitShellPipeline part = Inr raws" "render_segments (render_enforced segments platform) i raws = Inr rs"
      "r = out @ js_join '' | '' rs" "j = i + length raws" "op = None"
    by (auto split: sum.splits)
  obtain argvs where "rs = map argv_text argvs" "written argvs" "length argvs = length raws"
      "map Some argvs = map resolvePlannedSegmentArgv (take (length raws) (drop i segments))"
    using render_pipeline_text [OF assms raws(1,2)] .
  with raws show ?case by (intro exI [of _ "[(argvs, None)]"]) (simp add: pipeline_text_def op_suffix_def)
next
  case (3 part op p ps)
  then obtain op' raws rs where raws: "op = Some op'" "splitShellPipeline part = Inr raws"
      "render_segments (render_enforced segments platform) i raws = Inr rs"
      "rebuild_parts (render_enforced segments platform) (i + length raws) (out @ js_join '' | '' rs @ op_suffix (Some op')) (p # ps) = Inr (r, j)"
    by (auto simp: op_suffix_def simp del: rebuild_parts.simps(2)) (auto split: sum.splits)
  obtain argvs where argvs: "rs = map argv_text argvs" "written argvs" "length argvs = length raws"
      "map Some argvs = map resolvePlannedSegmentArgv (take (length raws) (drop i segments))"
    using render_pipeline_text [OF assms raws(2,3)] .
  from "3.IH" [OF _ raws(4)] 3(2) obtain qs where qs: "chained qs" "r = out @ js_join '' | '' rs @ op_suffix (Some op') @ chain_text qs"
      "i + length raws + length (concat (map fst qs)) = j"
      "map Some (concat (map fst qs)) = map resolvePlannedSegmentArgv (take (length (concat (map fst qs))) (drop (i + length raws) segments))"
    by auto
  obtain q qs' where "qs = q # qs'" using qs(1) by (cases qs) auto
  with argvs qs raws(1) have "chained ((argvs, op) # qs)" by simp
  moreover have "r = out @ chain_text ((argvs, op) # qs)" using qs(2) argvs(1) raws(1) by (simp add: pipeline_text_def)
  moreover have "map Some (concat (map fst ((argvs, op) # qs))) =
      map resolvePlannedSegmentArgv (take (length (concat (map fst ((argvs, op) # qs)))) (drop i segments))"
    using argvs(3,4) qs(4) by (simp add: take_add add.commute)
  ultimately show ?case using qs(3) argvs(3) by (intro exI [of _ "(argvs, op) # qs"]) simp
qed simp

definition ops_known :: "chain_state \<Rightarrow> bool" where
  "ops_known st \<longleftrightarrow> (\<forall>p \<in> set (ch_parts st). snd p \<noteq> None)"

lemma ops_known_simps [simp]: "ops_known (ch_add a st) = ops_known st" "ops_known (st\<lparr>ch_invalid := b\<rparr>) = ops_known st"
  "ops_known st \<Longrightarrow> ops_known (ch_push op st)"
  by (simp_all add: ops_known_def ch_add_def ch_push_def Let_def)

lemma chain_loop_ops: "ops_known st \<Longrightarrow> ops_known (chain_loop m prev st s)"
  by (induction m prev st s rule: chain_loop.induct) (simp_all add: chain_loop.simps)

lemma split_parts_last: "\<forall>p \<in> set xs. snd p \<noteq> None \<Longrightarrow> split_parts (xs @ [(part, None)])"
proof (induction xs)
  case (Cons x xs)
  then show ?case by (cases x; cases xs) auto
qed simp

lemma splitCommandChain_parts: "splitCommandChainWithOperators command = Some parts \<Longrightarrow> split_parts parts"
  using chain_loop_ops [of chain_start Plain None command] split_parts_last
  by (auto simp: splitCommandChainWithOperators_def chain_finish_def chain_start_def ops_known_def split: if_splits)

subsection \<open>The command that is run\<close>

lemma parse_text:
  "\<forall>argv \<in> set argvs. argv \<noteq> [] \<and> [] \<notin> set argv \<Longrightarrow>
     parseSegmentsFromParts env cwd penv (map argv_text argvs) = Some (map (\<lambda>argv. make_segment env cwd penv (argv_text argv) argv) argvs)"
  by (induction argvs) (simp_all add: splitShellArgs_text)

lemma analyze_pipeline_text:
  "written argvs \<Longrightarrow> analyze_pipeline env cwd penv (pipeline_text argvs) =
     Inr (map (\<lambda>argv. make_segment env cwd penv (argv_text argv) argv) argvs)"
  using writtenD splitShellPipeline_text parse_text by (auto simp: analyze_pipeline_def written_def)

lemma analyze_parts_text:
  "\<forall>argvs \<in> set ps. written argvs \<Longrightarrow> analyze_parts env cwd penv (map pipeline_text ps) =
     Inr (map (map (\<lambda>argv. make_segment env cwd penv (argv_text argv) argv)) ps)"
  by (induction ps) (simp_all add: analyze_pipeline_text)

lemma chained_written: "chained ps \<Longrightarrow> argvs \<in> set (map fst ps) \<Longrightarrow> written argvs"
  by (induction ps rule: chained.induct) auto

lemma analyzeShellCommand_text:
  assumes "chained ps" and "\<not> isWindowsPlatform platform"
  shows "\<exists>a. analyzeShellCommand env (chain_text ps) cwd penv platform = Inr a \<and> map sg_argv (an_segments a) = concat (map fst ps)"
proof (cases "length ps = 1")
  case True
  then obtain argvs where ps: "ps = [(argvs, None)]" using assms(1) by (cases ps) auto
  with assms splitCommandChain_text [OF assms(1)] show ?thesis
    by (simp add: analyzeShellCommand_def splitCommandChain_def analyze_pipeline_text op_suffix_def comp_def make_segment_def)
next
  case False
  then have "splitCommandChain (chain_text ps) = Some (map pipeline_text (map fst ps))"
    using splitCommandChain_text [OF assms(1)] by (simp add: splitCommandChain_def comp_def case_prod_unfold)
  with analyze_parts_text [of "map fst ps"] chained_written [OF assms(1)] assms(2) show ?thesis
    by (simp add: analyzeShellCommand_def comp_def make_segment_def map_concat)
qed

theorem enforced_command_analysed:
  assumes "\<not> isWindowsPlatform platform" and "\<forall>s \<in> set segments. analysed env cwd penv s"
    and "buildEnforcedShellCommand command segments platform = Inr r"
  shows "\<exists>a. analyzeShellCommand env' r cwd' penv' platform = Inr a \<and>
    map Some (map sg_argv (an_segments a)) = map resolvePlannedSegmentArgv segments"
proof -
  let ?parts = "nullish (splitCommandChainWithOperators (js_trim command)) [(js_trim command, None)]"
  from assms(1,3) have "rebuild_parts (render_enforced segments platform) 0 [] ?parts = Inr (r, length segments)"
    by (auto simp: buildEnforcedShellCommand_def finalizeRebuiltShellCommand_def rebuildShellCommandFromSource_def Let_def
        split: sum.splits prod.splits if_splits)
  moreover have "split_parts ?parts"
    using splitCommandChain_parts by (auto simp: nullish_def split: option.splits)
  ultimately obtain ps where "chained ps" "r = chain_text ps" "length (concat (map fst ps)) = length segments"
      "map Some (concat (map fst ps)) = map resolvePlannedSegmentArgv (take (length (concat (map fst ps))) segments)"
    using rebuild_parts_text [OF assms(1,2), of ?parts 0 "[]" r "length segments"] by auto
  with analyzeShellCommand_text [OF _ assms(1)] show ?thesis by fastforce
qed

end
