(* ===== verification/Exec_Allowlist_Proofs.thy ===== *)
theory Exec_Allowlist_Proofs
  imports Exec_Gateway Exec_Analysis_Proofs
begin

text \<open>
  The evaluation of a command against the allowlist refines a specification: an inductive predicate
  says which segments are allowed, without the order of evaluation, the early returns and the lists that
  are passed along.
\<close>

subsection \<open>The entry that matches\<close>

lemma match_entries_covers:
  "match_entries env path useArg argv platform pathOnly entries = Some e \<Longrightarrow>
     pathOnly = Some e \<or> e \<in> set entries \<and> entry_covers env path e \<and>
       (useArg \<longrightarrow> has_arg_pattern e \<longrightarrow> (\<exists>a. argv = Some a \<and> matchArgPattern env (the (ae_argPattern e)) a platform))"
proof (induction entries arbitrary: pathOnly)
  case (Cons x entries)
  show ?case
  proof (cases "entry_covers env path x")
    case True
    with Cons show ?thesis
      by (cases pathOnly) (auto simp: nullish_opt_def split: if_splits option.splits)
  qed (use Cons in auto)
qed simp

text \<open>An entry of the list covers the path of the executable; on Windows the pattern of its arguments
  fits as well. The pattern \<open>*\<close> covers everything.\<close>

definition entry_fits ::
  "exec_env \<Rightarrow> allow_entry list \<Rightarrow> exec_resolution \<Rightarrow> string list option \<Rightarrow> string option \<Rightarrow> allow_entry \<Rightarrow> bool" where
  "entry_fits env entries r argv platform e \<longleftrightarrow> e \<in> set entries \<and>
     (bare_wildcard e \<or>
      (\<exists>path. er_resolvedPath r = Some path \<and> path \<noteq> [] \<and> entry_covers env path e \<and>
        (effective_platform_win env platform \<longrightarrow> has_arg_pattern e \<longrightarrow>
          (\<exists>a. argv = Some a \<and> matchArgPattern env (the (ae_argPattern e)) a platform))))"

lemma find_SomeD: "List.find P xs = Some x \<Longrightarrow> P x \<and> x \<in> set xs"
  by (induction xs) (auto split: if_splits)

lemma matchAllowlist_fits:
  assumes "matchAllowlist env entries resolution argv platform = Some e"
  shows "\<exists>r. resolution = Some r \<and> entry_fits env entries r argv platform e"
proof -
  from assms obtain r where r: "resolution = Some r" by (auto simp: matchAllowlist_def split: if_splits option.splits)
  show ?thesis
  proof (cases "List.find bare_wildcard entries")
    case (Some x)
    with assms r find_SomeD [OF Some] show ?thesis by (auto simp: matchAllowlist_def entry_fits_def split: if_splits)
  next
    case None
    with assms r have "str_truthy (er_resolvedPath r)"
        and "match_entries env (the (er_resolvedPath r)) (effective_platform_win env platform) argv platform None entries = Some e"
      by (auto simp: matchAllowlist_def split: if_splits)
    with match_entries_covers [OF this(2)] r show ?thesis
      by (cases "er_resolvedPath r") (auto simp: entry_fits_def str_truthy_def)
  qed
qed

subsection \<open>The specification\<close>

definition wrapper_blocked :: "exec_segment \<Rightarrow> bool" where
  "wrapper_blocked s \<longleftrightarrow> (case sg_resolution s of None \<Rightarrow> False | Some r \<Rightarrow> cr_policyBlocked r)"

definition skill_trust :: "exec_env \<Rightarrow> allow_ctx \<Rightarrow> (string, string list) js_map" where
  "skill_trust env cx = buildSkillBinTrustIndex env (cx_skillBins cx)"

definition satisfied_directly :: "exec_env \<Rightarrow> allow_ctx \<Rightarrow> exec_segment \<Rightarrow> satisfied_by option" where
  "satisfied_directly env cx s = (case resolveSegmentAllowlistMatch env cx s of
     (argv, inline, m) \<Rightarrow> resolveSegmentSatisfaction env cx m s argv
        (cx_autoAllowSkills cx \<and> skill_trust env cx \<noteq> []) (skill_trust env cx))"

definition inline_command :: "exec_env \<Rightarrow> exec_segment \<Rightarrow> string option" where
  "inline_command env s = extractShellWrapperInlineCommand env (effective_argv s)"

text \<open>A segment is allowed as it is, or as a shell that runs a chain of allowed commands; the number
  bounds how deep such shells are nested.\<close>

inductive allowed :: "exec_env \<Rightarrow> allow_ctx \<Rightarrow> nat \<Rightarrow> exec_segment \<Rightarrow> bool" for env cx where
  directly: "\<not> wrapper_blocked s \<Longrightarrow> satisfied_directly env cx s \<noteq> None \<Longrightarrow> allowed env cx n s"
| by_chain: "\<not> wrapper_blocked s \<Longrightarrow> inline_command env s = Some c \<Longrightarrow> c \<noteq> [] \<Longrightarrow> splitCommandChain c = Some parts \<Longrightarrow>
     1 < length parts \<Longrightarrow> \<not> isWindowsPlatform (cx_platform cx) \<Longrightarrow>
     (\<And>p. p \<in> set parts \<Longrightarrow> \<exists>a. analyzeShellCommand env p (cx_cwd cx) (cx_env cx) (cx_platform cx) = Inr a \<and>
        (\<forall>s' \<in> set (an_segments a). allowed env cx n s')) \<Longrightarrow>
     allowed env cx (Suc n) s"

inductive_simps allowed_iff: "allowed env cx n s"

lemma inline_of_match: "resolveSegmentAllowlistMatch env cx s = (argv, inline, m) \<Longrightarrow> inline = inline_command env s \<and> argv = effective_argv s"
  by (auto simp: resolveSegmentAllowlistMatch_def Let_def inline_command_def)

subsection \<open>The evaluation meets it\<close>

lemma every_segment_iff: "sv_satisfied (every_segment ev ss) \<longleftrightarrow> (\<forall>s \<in> set ss. sv_satisfied (ev s))"
  by (induction ss) (auto simp: Let_def)

lemma every_part_iff:
  "every_part env cx ev parts \<noteq> None \<longleftrightarrow>
     (\<forall>p \<in> set parts. \<exists>a. analyzeShellCommand env p (cx_cwd cx) (cx_env cx) (cx_platform cx) = Inr a \<and> sv_satisfied (ev (an_segments a)))"
  by (induction parts) (auto simp: Let_def split: sum.splits)

lemma evaluate_segment_iff:
  "sv_satisfied (evaluate_segment env cx inline s) \<longleftrightarrow> \<not> wrapper_blocked s \<and>
     (satisfied_directly env cx s \<noteq> None \<or>
      (\<exists>c parts. inline_command env s = Some c \<and> c \<noteq> [] \<and> splitCommandChain c = Some parts \<and> 1 < length parts \<and> inline parts \<noteq> None))"
proof -
  obtain argv c m where r: "resolveSegmentAllowlistMatch env cx s = (argv, c, m)" using prod_cases3 by blast
  have c: "c = inline_command env s" using inline_of_match [OF r] by simp
  show ?thesis
    unfolding evaluate_segment_def wrapper_blocked_def satisfied_directly_def skill_trust_def r
    by (auto simp: Let_def c str_truthy_def not_le split: option.splits if_splits)
qed

theorem segments_at_iff: "sv_satisfied (segments_at env cx n ss) \<longleftrightarrow> (\<forall>s \<in> set ss. allowed env cx n s)"
proof (induction n arbitrary: ss)
  case 0
  show ?case by (auto simp: every_segment_iff evaluate_segment_iff allowed_iff [of env cx 0])
next
  case (Suc n)
  have parts: "(\<exists>y. every_part env cx (segments_at env cx n) parts = Some y) \<longleftrightarrow>
      (\<forall>p. p \<in> set parts \<longrightarrow> (\<exists>a. analyzeShellCommand env p (cx_cwd cx) (cx_env cx) (cx_platform cx) = Inr a \<and>
        (\<forall>s'. s' \<in> set (an_segments a) \<longrightarrow> allowed env cx n s')))" for parts
    using every_part_iff [of env cx "segments_at env cx n" parts] by (simp add: Suc.IH Ball_def)
  have "sv_satisfied (evaluate_segment env cx
      (\<lambda>parts. if isWindowsPlatform (cx_platform cx) then None else every_part env cx (segments_at env cx n) parts) s) \<longleftrightarrow>
      allowed env cx (Suc n) s" for s
    unfolding evaluate_segment_iff allowed_iff [of env cx "Suc n"]
    by (cases "isWindowsPlatform (cx_platform cx)") (simp_all add: parts Ball_def, blast)
  then show ?case by (simp add: every_segment_iff)
qed

corollary evaluateSegments_iff: "sv_satisfied (evaluateSegments env cx ss) \<longleftrightarrow> (\<forall>s \<in> set ss. allowed env cx 2 s)"
  by (simp add: evaluateSegments_def segments_at_iff MAX_SHELL_WRAPPER_INLINE_EVAL_DEPTH_def)

subsection \<open>A command\<close>

lemma every_group_satisfied: "every_group ev gs = Some r \<Longrightarrow> sv_satisfied r \<and> (\<forall>g \<in> set gs. sv_satisfied (ev g))"
  by (induction gs arbitrary: r) (auto simp: Let_def split: if_splits)

text \<open>The groups of an analysis are its segments.\<close>

definition grouped :: "exec_analysis \<Rightarrow> bool" where
  "grouped a \<longleftrightarrow> (\<forall>gs. an_chains a = Some gs \<longrightarrow> an_segments a = concat gs)"

lemma analyzeShell_grouped: "analyzeShellCommand env command cwd penv platform = Inr a \<Longrightarrow> grouped a"
proof -
  assume *: "analyzeShellCommand env command cwd penv platform = Inr a"
  show ?thesis
  proof (cases "isWindowsPlatform platform")
    case True
    with * show ?thesis
      by (auto simp: analyzeShellCommand_def analyzeWindowsShellCommand_def grouped_def Let_def split: option.splits if_splits)
  next
    case False
    show ?thesis
    proof (cases "splitCommandChain command")
      case None
      with * False show ?thesis
        by (cases "analyze_pipeline env cwd penv command") (auto simp: analyzeShellCommand_def grouped_def)
    next
      case (Some parts)
      with * False show ?thesis
        by (cases "analyze_parts env cwd penv parts") (auto simp: analyzeShellCommand_def grouped_def)
    qed
  qed
qed

lemma evaluateExecAllowlist_allowed:
  assumes "grouped a" and "sv_satisfied (evaluateExecAllowlist env cx (Inr a))"
  shows "an_segments a \<noteq> [] \<and> (\<forall>s \<in> set (an_segments a). allowed env cx 2 s)"
proof (cases "an_chains a")
  case None
  with assms(2) show ?thesis by (simp add: evaluateExecAllowlist_def unsatisfied_def evaluateSegments_iff split: if_splits)
next
  case (Some gs)
  with assms(1) have segs: "an_segments a = concat gs" by (simp add: grouped_def)
  from assms(2) Some obtain r where "every_group (evaluateSegments env cx) gs = Some r" "an_segments a \<noteq> []"
    by (cases "every_group (evaluateSegments env cx) gs")
      (auto simp: evaluateExecAllowlist_def unsatisfied_def nullish_def split: if_splits)
  with every_group_satisfied [OF this(1)] show ?thesis by (auto simp: segs evaluateSegments_iff)
qed

lemma length_prelude_parts [simp]: "length (prelude_parts env cx reachable parts) = length parts"
  by (induction env cx reachable parts rule: prelude_parts.induct) (auto simp: Let_def)

text \<open>What is passed over as a prelude only prints the description of a skill.\<close>

lemma prelude_parts_only:
  "((a, e, op), True) \<in> set (zip parts (prelude_parts env cx reachable parts)) \<Longrightarrow>
     isSkillPreludeOnlyEvaluation env (an_segments a) (cx_cwd cx)"
proof (induction env cx reachable parts rule: prelude_parts.induct)
  case (2 env cx reachable analysis evaluation opToNext parts)
  then show ?case by (auto simp: Let_def split: if_splits)
qed simp

lemma collect_parts_satisfied:
  "sv_satisfied (sa_evaluation (collect_parts out parts)) \<Longrightarrow> sv_satisfied (sa_evaluation out) \<Longrightarrow>
     sa_segments (collect_parts out parts) = sa_segments out @ concat (map (\<lambda>((a, e, op), b). an_segments a) parts) \<and>
     (\<forall>((a, e, op), b) \<in> set parts. sv_satisfied e \<or> b)"
  by (induction out parts rule: collect_parts.induct) (auto simp: Let_def split: if_splits)

lemma collect_parts_segments:
  "set (sa_segments (collect_parts out parts)) \<subseteq> set (sa_segments out) \<union> (\<Union>p \<in> set parts. set (an_segments (fst (fst p))))"
proof (induction parts arbitrary: out)
  case (Cons p parts)
  obtain a e op b where p: "p = ((a, e, op), b)" by (metis prod.exhaust)
  define out' where "out' = \<lparr>sa_evaluation =
      \<lparr>sv_satisfied = (sv_satisfied e \<or> b), sv_matches = sv_matches (sa_evaluation out) @ sv_matches e,
       sv_entries = sv_entries (sa_evaluation out) @ (if b then map (\<lambda>_. None) (an_segments a) else sv_entries e),
       sv_satisfiedBy = sv_satisfiedBy (sa_evaluation out) @
         (if b then map (\<lambda>_. Some BySkillPrelude) (an_segments a) else sv_satisfiedBy e)\<rparr>,
     sa_segments = sa_segments out @ an_segments a\<rparr>"
  then have "collect_parts out (p # parts) = (if \<not> sv_satisfied e \<and> \<not> b then out' else collect_parts out' parts)"
      and "set (sa_segments out') = set (sa_segments out) \<union> set (an_segments a)"
    by (simp_all add: p Let_def)
  with Cons.IH [of out'] show ?case by (auto simp: p split: if_splits)
qed simp

lemma evaluate_chain_parts_in:
  "evaluate_chain_parts env cx parts = Some evals \<Longrightarrow> (a, e, op) \<in> set evals \<Longrightarrow>
     e = evaluateExecAllowlist env cx (Inr a) \<and>
     (\<exists>part. analyzeShellCommand env part (cx_cwd cx) (cx_env cx) (cx_platform cx) = Inr a)"
  by (induction parts arbitrary: evals) (fastforce split: sum.splits)+

text \<open>The segments of a command that is evaluated come from the analysis.\<close>

lemma evaluateShell_analysed:
  assumes "evaluateShellAllowlist env cx command = Some r" and "\<not> isWindowsPlatform (cx_platform cx)" and "s \<in> set (sa_segments r)"
  shows "analysed env (cx_cwd cx) (cx_env cx) s"
proof (cases "splitCommandChainWithOperators command")
  case None
  with assms show ?thesis
    by (auto simp: evaluateShellAllowlist_def dest: shell_analysed split: if_splits sum.splits)
next
  case (Some parts)
  with assms obtain evals where evals: "evaluate_chain_parts env cx parts = Some evals"
      "r = collect_parts no_parts (zip evals (rev (prelude_parts env cx [] (rev evals))))"
    by (auto simp: evaluateShellAllowlist_def split: if_splits)
  from assms(3) evals(2) obtain a e op where "(a, e, op) \<in> set evals" "s \<in> set (an_segments a)"
    using collect_parts_segments [of no_parts] by (fastforce simp: no_parts_def dest: set_zip_leftD)
  with evaluate_chain_parts_in [OF evals(1)] assms(2) show ?thesis by (blast dest: shell_analysed)
qed

theorem evaluateShell_allowed:
  assumes "evaluateShellAllowlist env cx command = Some r" and "sv_satisfied (sa_evaluation r)" and "s \<in> set (sa_segments r)"
  shows "allowed env cx 2 s \<or> isSkillPreludeSegment env s (cx_cwd cx)"
proof (cases "if isWindowsPlatform (cx_platform cx) then None else splitCommandChainWithOperators command")
  case None
  with assms(1) obtain a where "analyzeShellCommand env command (cx_cwd cx) (cx_env cx) (cx_platform cx) = Inr a"
      "r = \<lparr>sa_evaluation = evaluateExecAllowlist env cx (Inr a), sa_segments = an_segments a\<rparr>"
    by (auto simp: evaluateShellAllowlist_def split: if_splits sum.splits)
  with assms evaluateExecAllowlist_allowed analyzeShell_grouped show ?thesis by fastforce
next
  case (Some parts)
  let ?zip = "\<lambda>evals. zip evals (rev (prelude_parts env cx [] (rev evals)))"
  from Some assms(1) obtain evals where evals: "evaluate_chain_parts env cx parts = Some evals" and r: "r = collect_parts no_parts (?zip evals)"
    by (auto simp: evaluateShellAllowlist_def split: if_splits)
  have "rev (?zip evals) = zip (rev evals) (prelude_parts env cx [] (rev evals))"
    by (metis length_prelude_parts length_rev rev_rev_ident zip_rev)
  then have prelude: "isSkillPreludeOnlyEvaluation env (an_segments a) (cx_cwd cx)" if "((a, e, op), True) \<in> set (?zip evals)" for a e op
    using that prelude_parts_only [of a e op "rev evals" env cx "[]"] by (metis set_rev)
  from assms(2) r collect_parts_satisfied [of no_parts "?zip evals"]
  have segs: "sa_segments r = concat (map (\<lambda>((a, e, op), b). an_segments a) (?zip evals))"
    and all: "\<forall>((a, e, op), b) \<in> set (?zip evals). sv_satisfied e \<or> b"
    by (auto simp: no_parts_def)
  from assms(3) segs obtain a e op b where part: "((a, e, op), b) \<in> set (?zip evals)" "s \<in> set (an_segments a)" by auto
  then have "(a, e, op) \<in> set evals" by (auto dest: set_zip_leftD)
  with evaluate_chain_parts_in [OF evals] have e: "e = evaluateExecAllowlist env cx (Inr a)" and "grouped a"
    using analyzeShell_grouped by blast+
  show ?thesis
  proof (cases "sv_satisfied e")
    case True
    with e \<open>grouped a\<close> part(2) evaluateExecAllowlist_allowed show ?thesis by blast
  next
    case False
    with all part(1) have b by auto
    with part prelude show ?thesis by (auto simp: isSkillPreludeOnlyEvaluation_def list_all_iff)
  qed
qed

end
