(* ===== verification/Exec_Node.thy ===== *)
theory Exec_Node
  imports Exec_Gateway
begin

text \<open>
  The node host's decision on a command: src/brain/src/infra/system-run-command.ts,
  node-host/exec-policy.ts, node-host/invoke-system-run-allowlist.ts and, of node-host/invoke-system-run.ts,
  the policy phase and the part of the execution phase that chooses what runs and updates the approvals.

  Left out: the parts of the request that only go through (ids, events, timeouts), the binding of an
  approved directory and script to what is on the disk, and the companion application of macOS. The
  policy phase of the model ends where the paths are hardened; the plan that follows in the source does
  not depend on that.
\<close>

subsection \<open>The command of a request\<close>

definition quote_arg :: "string \<Rightarrow> string" where
  "quote_arg a =
     (if a = [] then [DQ, DQ]
      else if \<not> list_ex (\<lambda>c. js_ws c \<or> c = DQ) a then a
      else [DQ] @ concat (map (\<lambda>c. if c = DQ then [BSLASH, DQ] else [c]) a) @ [DQ])"

definition formatExecCommand :: "string list \<Rightarrow> string" where
  "formatExecCommand argv = js_join '' '' (map quote_arg argv)"

definition extractShellCommandFromArgv :: "exec_env \<Rightarrow> string list \<Rightarrow> string option" where
  "extractShellCommandFromArgv env argv = snd (extractShellWrapperCommand env argv None)"

definition unwrapShellWrapperArgv :: "exec_env \<Rightarrow> string list \<Rightarrow> string list" where
  "unwrapShellWrapperArgv env argv =
     (let dispatch = unwrapDispatchWrappersForResolution env argv
      in case unwrapKnownShellMultiplexerInvocation env dispatch of Unwrapped _ a \<Rightarrow> a | _ \<Rightarrow> dispatch)"

definition hasTrailingPositionalArgvAfterInlineCommand :: "exec_env \<Rightarrow> string list \<Rightarrow> bool" where
  "hasTrailingPositionalArgvAfterInlineCommand env argv \<longleftrightarrow>
     (let w = unwrapShellWrapperArgv env argv;
          wrapper = normalizeExecutableToken env (token0 w);
          powershell = (wrapper \<in> set POWERSHELL_WRAPPER_NAMES);
          i = im_valueTokenIndex (if powershell then resolveInlineCommandMatch w POWERSHELL_INLINE_COMMAND_FLAGS False
                else resolveInlineCommandMatch w POSIX_INLINE_COMMAND_FLAGS True)
      in token0 w \<noteq> [] \<and> (powershell \<or> wrapper \<in> set POSIX_SHELL_WRAPPER_NAMES) \<and>
         (case i of None \<Rightarrow> False | Some k \<Rightarrow> list_ex (\<lambda>t. js_trim t \<noteq> []) (drop (Suc k) w)))"

record command_display =
  cd_shellPayload :: "string option"
  cd_commandText :: string
  cd_previewText :: "string option"

definition buildSystemRunCommandDisplay :: "exec_env \<Rightarrow> string list \<Rightarrow> command_display" where
  "buildSystemRunCommandDisplay env argv =
     (case extractShellWrapperCommand env argv None of
        (isWrapper, payload) \<Rightarrow>
          \<lparr>cd_shellPayload = payload, cd_commandText = formatExecCommand argv,
           cd_previewText =
             (if (isWrapper \<and> hasEnvManipulationBeforeShellWrapper env argv) \<or> hasTrailingPositionalArgvAfterInlineCommand env argv
              then None else map_option js_trim payload)\<rparr>)"

definition normalizeRawCommandText :: "js_value \<Rightarrow> string option" where
  "normalizeRawCommandText raw = normalizeOptionalString raw"

datatype command_error = RawCommandMismatch | MissingCommand

definition validateSystemRunCommandConsistency ::
  "exec_env \<Rightarrow> string list \<Rightarrow> string option \<Rightarrow> bool \<Rightarrow> command_error + command_display" where
  "validateSystemRunCommandConsistency env argv rawCommand allowLegacy =
     (let display = buildSystemRunCommandDisplay env argv
      in case normalizeRawCommandText (js_opt rawCommand) of
           None \<Rightarrow> Inr display
         | Some raw \<Rightarrow>
             (if raw \<noteq> cd_commandText display \<and> \<not> (allowLegacy \<and> cd_previewText display = Some raw)
              then Inl RawCommandMismatch else Inr display))"

text \<open>\<open>command\<close> is the array of the request, empty when it is not one.\<close>

definition resolveSystemRunCommandWithMode ::
  "exec_env \<Rightarrow> string list \<Rightarrow> js_value \<Rightarrow> bool \<Rightarrow> command_error + string list \<times> command_display" where
  "resolveSystemRunCommandWithMode env command rawCommand allowLegacy =
     (let raw = normalizeRawCommandText rawCommand
      in if command = [] then
           (if raw \<noteq> None then Inl MissingCommand
            else Inr ([], \<lparr>cd_shellPayload = None, cd_commandText = [], cd_previewText = None\<rparr>))
         else map_sum id (\<lambda>d. (command, d)) (validateSystemRunCommandConsistency env command raw allowLegacy))"

definition resolveSystemRunCommand :: "exec_env \<Rightarrow> string list \<Rightarrow> js_value \<Rightarrow> command_error + string list \<times> command_display" where
  "resolveSystemRunCommand env command rawCommand = resolveSystemRunCommandWithMode env command rawCommand False"

definition resolveSystemRunCommandRequest ::
  "exec_env \<Rightarrow> string list \<Rightarrow> js_value \<Rightarrow> command_error + string list \<times> command_display" where
  "resolveSystemRunCommandRequest env command rawCommand = resolveSystemRunCommandWithMode env command rawCommand True"

subsection \<open>The policy\<close>

definition resolveExecApprovalDecision :: "js_value \<Rightarrow> exec_decision option" where
  "resolveExecApprovalDecision v =
     (if v = JString ''allow-once'' then Some AllowOnce
      else if v = JString ''allow-always'' then Some AllowAlways else None)"

datatype run_denial = SecurityDeny | ApprovalRequired | AllowlistMiss | ExecutionPlanMiss

text \<open>\<open>shellWrapperBlocked\<close> and \<open>windowsShellWrapperBlocked\<close> are the same value.\<close>

record run_policy =
  rn_denied :: "run_denial option"
  rn_analysisOk :: bool
  rn_satisfied :: bool
  rn_wrapperBlocked :: bool
  rn_requiresAsk :: bool
  rn_decision :: "exec_decision option"
  rn_approvedByAsk :: bool

record policy_input =
  pn_security :: exec_security
  pn_ask :: exec_ask
  pn_analysisOk :: bool
  pn_satisfied :: bool
  pn_durable :: bool
  pn_decision :: "exec_decision option"
  pn_approved :: bool
  pn_isWindows :: bool
  pn_cmdInvocation :: bool
  pn_shellWrapper :: bool

definition evaluateSystemRunPolicy :: "policy_input \<Rightarrow> run_policy" where
  "evaluateSystemRunPolicy pn =
     (let blocked = (pn_security pn = SecAllowlist \<and> pn_shellWrapper pn \<and> pn_isWindows pn \<and> pn_cmdInvocation pn);
          analysisOk = (if blocked then False else pn_analysisOk pn);
          satisfied = (if blocked then False else pn_satisfied pn);
          approvedByAsk = (pn_decision pn \<noteq> None \<or> pn_approved pn);
          result = (\<lambda>denied requiresAsk. \<lparr>rn_denied = denied, rn_analysisOk = analysisOk, rn_satisfied = satisfied,
            rn_wrapperBlocked = blocked, rn_requiresAsk = requiresAsk, rn_decision = pn_decision pn,
            rn_approvedByAsk = approvedByAsk\<rparr>)
      in if pn_security pn = SecDeny then result (Some SecurityDeny) False
         else (let requiresAsk = requiresExecApproval (pn_ask pn) (pn_security pn) analysisOk satisfied (pn_durable pn)
           in if requiresAsk \<and> \<not> approvedByAsk then result (Some ApprovalRequired) requiresAsk
              else if pn_security pn = SecAllowlist \<and> (\<not> analysisOk \<or> \<not> satisfied) \<and> \<not> approvedByAsk then
                (if pn_durable pn then result None requiresAsk else result (Some AllowlistMiss) requiresAsk)
              else result None requiresAsk))"

subsection \<open>The allowlist\<close>

record run_allowlist =
  rl_analysisOk :: bool
  rl_matches :: "allow_entry list"
  rl_satisfied :: bool
  rl_segments :: "exec_segment list"
  rl_entries :: "allow_entry option list"

text \<open>The context has the platform of the process; without a shell command the source passes neither
  the platform nor the environment on.\<close>

definition evaluateSystemRunAllowlist ::
  "exec_env \<Rightarrow> allow_ctx \<Rightarrow> exec_security \<Rightarrow> string option \<Rightarrow> string list \<Rightarrow> run_allowlist" where
  "evaluateSystemRunAllowlist env cx security shellCommand argv =
     (if str_truthy shellCommand then
        (case evaluateShellAllowlist env (cx\<lparr>cx_platform := Some (xe_platform env)\<rparr>) (the shellCommand) of
           None \<Rightarrow> \<lparr>rl_analysisOk = False, rl_matches = [], rl_satisfied = False, rl_segments = [], rl_entries = []\<rparr>
         | Some r \<Rightarrow> \<lparr>rl_analysisOk = True, rl_matches = sv_matches (sa_evaluation r),
             rl_satisfied = (security = SecAllowlist \<and> sv_satisfied (sa_evaluation r)),
             rl_segments = sa_segments r, rl_entries = sv_entries (sa_evaluation r)\<rparr>)
      else
        (let analysis = analyzeArgvCommand env argv (cx_cwd cx) (cx_env cx);
             ev = evaluateExecAllowlist env (cx\<lparr>cx_platform := None, cx_env := None\<rparr>) analysis
         in \<lparr>rl_analysisOk = (case analysis of Inl _ \<Rightarrow> False | Inr _ \<Rightarrow> True), rl_matches = sv_matches ev,
             rl_satisfied = (security = SecAllowlist \<and> (case analysis of Inl _ \<Rightarrow> False | Inr _ \<Rightarrow> True) \<and> sv_satisfied ev),
             rl_segments = (case analysis of Inl _ \<Rightarrow> [] | Inr a \<Rightarrow> an_segments a), rl_entries = sv_entries ev\<rparr>))"

text \<open>\<open>None\<close> is \<open>undefined\<close>, no plan; \<open>Some None\<close> is \<open>null\<close>, a plan that does not exist.\<close>

definition resolvePlannedAllowlistArgv ::
  "exec_security \<Rightarrow> string option \<Rightarrow> run_policy \<Rightarrow> exec_segment list \<Rightarrow> string list option option" where
  "resolvePlannedAllowlistArgv security shellCommand policy segments =
     (if security \<noteq> SecAllowlist \<or> rn_approvedByAsk policy \<or> str_truthy shellCommand \<or> \<not> rn_analysisOk policy \<or>
         \<not> rn_satisfied policy \<or> length segments \<noteq> 1 then None
      else Some (case resolvePlannedSegmentArgv (hd segments) of
        None \<Rightarrow> None | Some argv \<Rightarrow> if argv = [] then None else Some argv))"

definition resolveSystemRunExecArgv ::
  "exec_env \<Rightarrow> string list option \<Rightarrow> string list \<Rightarrow> exec_security \<Rightarrow> run_policy \<Rightarrow> string option \<Rightarrow> exec_segment list \<Rightarrow> string list"
  where
  "resolveSystemRunExecArgv env planned argv security policy shellCommand segments =
     (if security = SecAllowlist \<and> on_win32 env \<and> \<not> rn_approvedByAsk policy \<and> str_truthy shellCommand \<and>
         rn_analysisOk policy \<and> rn_satisfied policy \<and> length segments = 1 \<and> sg_argv (hd segments) \<noteq> []
      then sg_argv (hd segments) else nullish planned argv)"

subsection \<open>The policy phase\<close>

definition resolveExecSecurity :: "string option \<Rightarrow> exec_security" where
  "resolveExecSecurity v = nullish (Option.bind v security_of) SecAllowlist"

definition resolveExecAsk :: "string option \<Rightarrow> exec_ask" where
  "resolveExecAsk v = nullish (Option.bind v ask_of) AskOnMiss"

definition isCmdExeInvocation :: "exec_env \<Rightarrow> string list \<Rightarrow> bool" where
  "isCmdExeInvocation env argv \<longleftrightarrow> token0 argv \<noteq> [] \<and>
     normalizeLowercaseStringOrEmpty (JString (xe_win32Basename env (token0 argv))) \<in> {''cmd.exe'', ''cmd''}"

record run_request =
  rq_argv :: "string list"
  rq_shellPayload :: "string option"
  rq_commandText :: string
  rq_agentId :: "string option"
  rq_decision :: "exec_decision option"
  rq_approved :: bool
  rq_env :: "process_env option"
  rq_cwd :: "string option"

text \<open>The configuration of the tool, and the skills that \<open>skillBins.current\<close> gives.\<close>

record node_config =
  nc_safeBins :: "string list"
  nc_profiles :: safe_bin_profiles
  nc_trustedDirs :: "string list"
  nc_strictInlineEval :: bool
  nc_skillBins :: "skill_bin list"

record run_phase =
  ph_policy :: run_policy
  ph_inlineHit :: "inline_eval_hit option"
  ph_matches :: "allow_entry list"
  ph_segments :: "exec_segment list"
  ph_planned :: "string list option"

definition node_ctx :: "exec_env \<Rightarrow> node_config \<Rightarrow> resolved_approvals \<Rightarrow> run_request \<Rightarrow> allow_ctx" where
  "node_ctx env nc approvals rq =
     (let autoAllowSkills = rp_autoAllowSkills (ra_agent approvals)
      in \<lparr>cx_allowlist = ra_allowlist approvals, cx_safeBins = nc_safeBins nc, cx_profiles = Some (nc_profiles nc),
          cx_cwd = rq_cwd rq, cx_env = rq_env rq, cx_platform = Some (xe_platform env),
          cx_trustedDirs = Some (nc_trustedDirs nc),
          cx_skillBins = (if autoAllowSkills then nc_skillBins nc else []), cx_autoAllowSkills = autoAllowSkills\<rparr>)"

definition node_policy_input ::
  "exec_env \<Rightarrow> node_config \<Rightarrow> resolved_approvals \<Rightarrow> run_request \<Rightarrow> run_allowlist \<Rightarrow> policy_input" where
  "node_policy_input env nc approvals rq rl =
     \<lparr>pn_security = rp_security (ra_agent approvals), pn_ask = rp_ask (ra_agent approvals),
      pn_analysisOk = rl_analysisOk rl, pn_satisfied = rl_satisfied rl,
      pn_durable =
        (hasDurableExecApproval env (rl_analysisOk rl) (rl_entries rl) (ra_allowlist approvals) (Some (rq_commandText rq)) \<or>
         inline_eval_of env (nc_strictInlineEval nc) (rl_segments rl) \<noteq> None \<and>
         list_ex (\<lambda>e. case e of None \<Rightarrow> False | Some x \<Rightarrow> ae_allowAlways x) (rl_entries rl)),
      pn_decision = rq_decision rq, pn_approved = rq_approved rq, pn_isWindows = on_win32 env,
      pn_cmdInvocation = isCmdExeInvocation env (nullish (resolveShellWrapperTransportArgv env (rq_argv rq)) (rq_argv rq)),
      pn_shellWrapper = (rq_shellPayload rq \<noteq> None)\<rparr>"

definition evaluateSystemRunPolicyPhase ::
  "exec_env \<Rightarrow> node_config \<Rightarrow> resolved_approvals \<Rightarrow> run_request \<Rightarrow> run_denial + run_phase" where
  "evaluateSystemRunPolicyPhase env nc approvals rq =
     (let security = rp_security (ra_agent approvals);
          rl = evaluateSystemRunAllowlist env (node_ctx env nc approvals rq) security (rq_shellPayload rq) (rq_argv rq);
          hit = inline_eval_of env (nc_strictInlineEval nc) (rl_segments rl);
          durable = hasDurableExecApproval env (rl_analysisOk rl) (rl_entries rl) (ra_allowlist approvals)
            (Some (rq_commandText rq));
          policy = evaluateSystemRunPolicy (node_policy_input env nc approvals rq rl)
      in if hit \<noteq> None \<and> \<not> rn_approvedByAsk policy \<and> rn_denied policy \<noteq> Some SecurityDeny then Inl ApprovalRequired
         else (case rn_denied policy of
           Some d \<Rightarrow> Inl d
         | None \<Rightarrow>
             (if rn_wrapperBlocked policy \<and> \<not> rn_approvedByAsk policy \<and> \<not> durable then Inl ApprovalRequired
              else (case resolvePlannedAllowlistArgv security (rq_shellPayload rq) policy (rl_segments rl) of
                Some None \<Rightarrow> Inl ExecutionPlanMiss
              | Some (Some argv) \<Rightarrow> Inr \<lparr>ph_policy = policy, ph_inlineHit = hit, ph_matches = rl_matches rl,
                  ph_segments = rl_segments rl, ph_planned = Some argv\<rparr>
              | None \<Rightarrow> Inr \<lparr>ph_policy = policy, ph_inlineHit = hit, ph_matches = rl_matches rl,
                  ph_segments = rl_segments rl, ph_planned = None\<rparr>))))"

subsection \<open>The execution phase\<close>

definition node_persist ::
  "exec_env \<Rightarrow> (nat \<Rightarrow> string) \<Rightarrow> int \<Rightarrow> node_config \<Rightarrow> run_request \<Rightarrow> run_phase \<Rightarrow> nat \<Rightarrow> saved_file \<Rightarrow> saved_file" where
  "node_persist env uuid now nc rq ph n st =
     (if rn_decision (ph_policy ph) = Some AllowAlways \<and> ph_inlineHit ph = None then
        (case (if rn_analysisOk (ph_policy ph) then persistAllowAlwaysPatterns env uuid now
             \<lparr>ay_cwd = rq_cwd rq, ay_env = rq_env rq, ay_platform = Some (xe_platform env),
              ay_strictInlineEval = nc_strictInlineEval nc\<rparr> st (rq_agentId rq) (ph_segments ph) n
           else ([], st)) of
           (patterns, st') \<Rightarrow>
             (if patterns = [] then save_step (addDurableCommandApproval env uuid now (fst st') (rq_agentId rq) (rq_commandText rq) n) st'
              else st'))
      else st)"

definition executeSystemRunPhase ::
  "exec_env \<Rightarrow> (nat \<Rightarrow> string) \<Rightarrow> int \<Rightarrow> node_config \<Rightarrow> resolved_approvals \<Rightarrow> run_request \<Rightarrow> run_phase \<Rightarrow> nat
     \<Rightarrow> string list \<times> saved_file" where
  "executeSystemRunPhase env uuid now nc approvals rq ph n =
     (let st1 = node_persist env uuid now nc rq ph n (ra_file approvals, False);
          st2 = recordAllowlistMatchesUse uuid now st1 (rq_agentId rq) (ph_matches ph) (rq_commandText rq)
            (resolvePolicyTargetCandidatePath env (case ph_segments ph of [] \<Rightarrow> None | s # _ \<Rightarrow> sg_resolution s) (rq_cwd rq))
            (n + Suc (length (ph_segments ph)))
      in (resolveSystemRunExecArgv env (ph_planned ph) (rq_argv rq) (rp_security (ra_agent approvals)) (ph_policy ph)
            (rq_shellPayload rq) (ph_segments ph), st2))"

definition buildNodeShellCommand :: "string \<Rightarrow> string option \<Rightarrow> string list" where
  "buildNodeShellCommand command platform =
     (if isWindowsPlatform platform then [''cmd.exe'', ''/d'', ''/s'', ''/c'', command] else [''/bin/sh'', ''-lc'', command])"

end
