(* ===== verification/Exec_Gateway_Proofs.thy ===== *)
theory Exec_Gateway_Proofs
  imports Exec_Allowlist_Proofs Exec_Node
begin

text \<open>
  The decisions of the hosts: levels of security, what the gateway runs, what the node runs.
\<close>

subsection \<open>Levels\<close>

instantiation exec_security :: linorder
begin

definition less_eq_exec_security :: "exec_security \<Rightarrow> exec_security \<Rightarrow> bool" where
  "a \<le> b \<longleftrightarrow> security_rank a \<le> security_rank b"

definition less_exec_security :: "exec_security \<Rightarrow> exec_security \<Rightarrow> bool" where
  "a < b \<longleftrightarrow> security_rank a < security_rank b"

instance
  by standard (auto simp: less_eq_exec_security_def less_exec_security_def security_rank_def split: exec_security.splits)

end

instantiation exec_ask :: linorder
begin

definition less_eq_exec_ask :: "exec_ask \<Rightarrow> exec_ask \<Rightarrow> bool" where
  "a \<le> b \<longleftrightarrow> ask_rank a \<le> ask_rank b"

definition less_exec_ask :: "exec_ask \<Rightarrow> exec_ask \<Rightarrow> bool" where
  "a < b \<longleftrightarrow> ask_rank a < ask_rank b"

instance
  by standard (auto simp: less_eq_exec_ask_def less_exec_ask_def ask_rank_def split: exec_ask.splits)

end

lemma minSecurity_min: "minSecurity a b = min a b"
  by (simp add: minSecurity_def min_def less_eq_exec_security_def)

lemma maxAsk_max: "maxAsk a b = max a b"
proof -
  have "ask_rank a = ask_rank b \<Longrightarrow> a = b" by (simp add: ask_rank_def split: exec_ask.splits)
  then show ?thesis by (auto simp: maxAsk_def max_def less_eq_exec_ask_def)
qed

lemma security_order: "SecDeny \<le> s" "s \<le> SecFull" "s \<le> SecDeny \<longleftrightarrow> s = SecDeny" "SecFull \<le> s \<longleftrightarrow> s = SecFull"
  by (cases s; simp add: less_eq_exec_security_def security_rank_def)+

lemma ask_order: "AskOff \<le> a" "a \<le> AskAlways" "AskAlways \<le> a \<longleftrightarrow> a = AskAlways"
  by (cases a; simp add: less_eq_exec_ask_def ask_rank_def)+

text \<open>A context that \<open>resolveExecHostApprovalContext\<close> has made.\<close>

definition host_context_ok :: "host_context \<Rightarrow> bool" where
  "host_context_ok hc \<longleftrightarrow> hc_security hc \<noteq> SecDeny \<and> hc_askFallback hc \<le> hc_security hc"

lemma host_contextD:
  assumes "resolveExecHostApprovalContext approvals security ask = Some hc"
  shows "hc_approvals hc = approvals" and "hc_security hc = min security (rp_security (ra_agent approvals))"
    and "hc_ask hc = max ask (rp_ask (ra_agent approvals))"
    and "hc_askFallback hc = min (hc_security hc) (rp_askFallback (ra_agent approvals))" and "hc_security hc \<noteq> SecDeny"
proof -
  have "hc = \<lparr>hc_approvals = approvals, hc_security = minSecurity security (rp_security (ra_agent approvals)),
      hc_ask = maxAsk ask (rp_ask (ra_agent approvals)),
      hc_askFallback = minSecurity (minSecurity security (rp_security (ra_agent approvals))) (rp_askFallback (ra_agent approvals))\<rparr>"
    and "minSecurity security (rp_security (ra_agent approvals)) \<noteq> SecDeny"
    using assms by (simp_all add: resolveExecHostApprovalContext_def Let_def split: if_splits)
  then show "hc_approvals hc = approvals" and "hc_security hc = min security (rp_security (ra_agent approvals))"
    and "hc_ask hc = max ask (rp_ask (ra_agent approvals))"
    and "hc_askFallback hc = min (hc_security hc) (rp_askFallback (ra_agent approvals))" and "hc_security hc \<noteq> SecDeny"
    by (simp_all add: minSecurity_min maxAsk_max)
qed

lemma host_context_made: "resolveExecHostApprovalContext approvals security ask = Some hc \<Longrightarrow> host_context_ok hc"
  unfolding host_context_ok_def by (metis host_contextD(4,5) min.cobounded1)

subsection \<open>The gateway\<close>

lemma allowlist_fallback: "host_context_ok hc \<Longrightarrow> hc_security hc = SecAllowlist \<Longrightarrow> hc_askFallback hc \<noteq> SecFull"
  by (auto simp: host_context_ok_def less_eq_exec_security_def security_rank_def)

lemma gateway_not_inline:
  "host_context_ok hc \<Longrightarrow> hc_security hc = SecAllowlist \<Longrightarrow> \<not> gateway_inline hc ge"
  using allowlist_fallback [of hc]
  by (cases "hc_askFallback hc")
    (auto simp: gateway_inline_def resolveBaseExecApprovalDecision_def base_def enforceStrictInlineEvalApprovalBoundary_def
      str_truthy_def Let_def)

lemma gateway_now:
  assumes "processGatewayAllowlist env uuid now gp hc n pre = (GatewayNow c, st)" and "host_context_ok hc" and "hc_security hc = SecAllowlist"
  shows "\<not> gateway_requires_ask hc (evaluate_gateway env gp hc)"
    and "ge_durable (evaluate_gateway env gp hc) \<or> ge_satisfied (evaluate_gateway env gp hc)"
    and "c = ge_enforced (evaluate_gateway env gp hc)"
proof -
  let ?ge = "evaluate_gateway env gp hc"
  from assms(1) gateway_not_inline [OF assms(2,3)] show ask: "\<not> gateway_requires_ask hc ?ge"
    by (simp add: processGatewayAllowlist_def Let_def split: if_splits)
  with assms(1,3) show "ge_durable ?ge \<or> ge_satisfied ?ge" and "c = ge_enforced ?ge"
    by (simp_all add: processGatewayAllowlist_def hasGatewayAllowlistMiss_def Let_def split: if_splits) blast
qed

lemma evaluate_gateway_satisfied:
  assumes "ge_satisfied (evaluate_gateway env gp hc)"
  obtains r where "evaluateShellAllowlist env (gateway_ctx env gp (hc_approvals hc)) (gp_command gp) = Some r"
    and "sv_satisfied (sa_evaluation r)" and "hc_security hc = SecAllowlist" and "ge_segments (evaluate_gateway env gp hc) = sa_segments r"
    and "ge_enforced (evaluate_gateway env gp hc) = Some c \<longrightarrow>
      buildEnforcedShellCommand (gp_command gp) (sa_segments r) (Some (xe_platform env)) = Inr c"
proof -
  let ?result = "evaluateShellAllowlist env (gateway_ctx env gp (hc_approvals hc)) (gp_command gp)"
  from assms obtain r where r: "?result = Some r" and sat: "hc_security hc = SecAllowlist" "sv_satisfied (sa_evaluation r)"
    by (cases ?result) (simp_all add: evaluate_gateway_def Let_def)
  then have "ge_segments (evaluate_gateway env gp hc) = sa_segments r"
    by (simp add: evaluate_gateway_def Let_def)
  moreover have "ge_enforced (evaluate_gateway env gp hc) =
      (case buildEnforcedShellCommand (gp_command gp) (sa_segments r) (Some (xe_platform env)) of Inl _ \<Rightarrow> None | Inr c \<Rightarrow> if c = [] then None else Some c)"
    using r sat by (simp add: evaluate_gateway_def Let_def)
  ultimately show thesis using that [OF r sat(2,1)] by (simp split: sum.splits if_splits)
qed

lemma satisfied_enforced:
  assumes "ge_satisfied (evaluate_gateway env gp hc)" and "\<not> gateway_requires_ask hc (evaluate_gateway env gp hc)"
  shows "ge_enforced (evaluate_gateway env gp hc) \<noteq> None"
proof -
  have "ge_analysisOk (evaluate_gateway env gp hc)" and "hc_security hc = SecAllowlist"
    using assms(1) by (simp_all add: evaluate_gateway_def Let_def)
  moreover have "ge_planUnavailable (evaluate_gateway env gp hc)" if "ge_enforced (evaluate_gateway env gp hc) = None"
    using assms(1) that by (simp add: evaluate_gateway_def Let_def)
  ultimately show ?thesis using assms by (auto simp: gateway_requires_ask_def requires_plan_approval_def)
qed

text \<open>The command that runs at once: its analysis is the planned commands of allowed segments.\<close>

definition runs_planned :: "exec_env \<Rightarrow> allow_ctx \<Rightarrow> exec_segment list \<Rightarrow> string \<Rightarrow> bool" where
  "runs_planned env cx segments command \<longleftrightarrow>
     (\<forall>s \<in> set segments. allowed env cx 2 s \<or> isSkillPreludeSegment env s (cx_cwd cx)) \<and>
     (\<exists>a. analyzeShellCommand env command (cx_cwd cx) (cx_env cx) (cx_platform cx) = Inr a \<and>
        map Some (map sg_argv (an_segments a)) = map resolvePlannedSegmentArgv segments)"

lemma gateway_now_planned:
  assumes "processGatewayAllowlist env uuid now gp hc n pre = (GatewayNow c, st)" and "host_context_ok hc" and "hc_security hc = SecAllowlist"
    and "\<not> isWindowsPlatform (Some (xe_platform env))" and "\<not> ge_durable (evaluate_gateway env gp hc)"
  shows "\<exists>command. c = Some command \<and>
    runs_planned env (gateway_ctx env gp (hc_approvals hc)) (ge_segments (evaluate_gateway env gp hc)) command"
proof -
  let ?ge = "evaluate_gateway env gp hc" and ?cx = "gateway_ctx env gp (hc_approvals hc)"
  have platform: "cx_platform ?cx = Some (xe_platform env)" by (simp add: gateway_ctx_def)
  from gateway_now [OF assms(1-3)] assms(5) have now: "\<not> gateway_requires_ask hc ?ge" "ge_satisfied ?ge" "c = ge_enforced ?ge" by auto
  from satisfied_enforced [OF now(2,1)] obtain command where command: "ge_enforced ?ge = Some command" by auto
  obtain r where r: "evaluateShellAllowlist env ?cx (gp_command gp) = Some r" "sv_satisfied (sa_evaluation r)" "ge_segments ?ge = sa_segments r"
      "buildEnforcedShellCommand (gp_command gp) (sa_segments r) (Some (xe_platform env)) = Inr command"
    using evaluate_gateway_satisfied [OF now(2), of command] command by metis
  have "\<forall>s \<in> set (sa_segments r). analysed env (cx_cwd ?cx) (cx_env ?cx) s"
    using evaluateShell_analysed [OF r(1)] assms(4) platform by auto
  from enforced_command_analysed [OF assms(4) this r(4)] evaluateShell_allowed [OF r(1,2)] command now(3) r(3)
  show ?thesis by (simp add: runs_planned_def platform)
qed

text \<open>After a decision: a run has been approved, or nothing was missing.\<close>

lemma verdict_run:
  assumes "snd (gateway_verdict hc ge decision) = None" and "host_context_ok hc" and "hc_security hc = SecAllowlist"
  shows "decision = Some ''allow-once'' \<or> decision = Some ''allow-always'' \<or> ge_satisfied ge \<or> ge_durable ge"
  using assms allowlist_fallback [OF assms(2,3)]
  by (cases "hc_askFallback hc")
    (auto simp: gateway_verdict_def resolveBaseExecApprovalDecision_def base_def enforceStrictInlineEvalApprovalBoundary_def
      hasGatewayAllowlistMiss_def Let_def split: if_splits prod.splits)

end
