(* ===== verification/Exec_Node_Proofs.thy ===== *)
theory Exec_Node_Proofs
  imports Exec_Gateway_Proofs
begin

text \<open>The decisions of the node host.\<close>

subsection \<open>The policy\<close>

definition run_allowed :: "policy_input \<Rightarrow> bool" where
  "run_allowed pn \<longleftrightarrow> rn_denied (evaluateSystemRunPolicy pn) = None"

definition cmd_blocked :: "policy_input \<Rightarrow> bool" where
  "cmd_blocked pn \<longleftrightarrow> pn_security pn = SecAllowlist \<and> pn_shellWrapper pn \<and> pn_isWindows pn \<and> pn_cmdInvocation pn"

definition listed :: "policy_input \<Rightarrow> bool" where
  "listed pn \<longleftrightarrow> pn_analysisOk pn \<and> pn_satisfied pn \<and> \<not> cmd_blocked pn"

definition asked :: "policy_input \<Rightarrow> bool" where
  "asked pn \<longleftrightarrow> pn_decision pn \<noteq> None \<or> pn_approved pn"

text \<open>Somebody has approved the command, or nobody has to: then the security is full, or the command is
  on the list or approved for good.\<close>

lemma run_allowed_closed:
  "run_allowed pn \<longleftrightarrow> pn_security pn \<noteq> SecDeny \<and>
     (asked pn \<or> pn_ask pn \<noteq> AskAlways \<and> (pn_security pn = SecFull \<or> listed pn \<or> pn_durable pn))"
  by (cases "pn_security pn"; cases "pn_ask pn")
    (auto simp: run_allowed_def evaluateSystemRunPolicy_def cmd_blocked_def listed_def asked_def requiresExecApproval_def Let_def)

definition policy_le :: "policy_input \<Rightarrow> policy_input \<Rightarrow> bool" where
  "policy_le a b \<longleftrightarrow> pn_security a \<le> pn_security b \<and> pn_ask b \<le> pn_ask a \<and> (pn_analysisOk a \<longrightarrow> pn_analysisOk b) \<and>
     (pn_satisfied a \<longrightarrow> pn_satisfied b) \<and> (pn_durable a \<longrightarrow> pn_durable b) \<and> (asked a \<longrightarrow> asked b) \<and>
     pn_isWindows b = pn_isWindows a \<and> pn_cmdInvocation b = pn_cmdInvocation a \<and> pn_shellWrapper b = pn_shellWrapper a"

lemma run_allowed_mono: "policy_le a b \<Longrightarrow> run_allowed a \<Longrightarrow> run_allowed b"
  unfolding run_allowed_closed policy_le_def
  by (cases "pn_security a"; cases "pn_security b"; cases "pn_ask a"; cases "pn_ask b")
    (simp_all add: less_eq_exec_security_def security_rank_def less_eq_exec_ask_def ask_rank_def listed_def cmd_blocked_def, blast+)

subsection \<open>A command without a shell\<close>

lemma analyzeArgv_single:
  "analyzeArgvCommand env argv cwd penv = Inr a \<Longrightarrow>
     \<exists>s. an_segments a = [s] \<and> an_chains a = None \<and> sg_argv s = filter (\<lambda>t. js_trim t \<noteq> []) argv"
  by (auto simp: analyzeArgvCommand_def make_segment_def Let_def split: if_splits)

definition argv_ctx :: "exec_env \<Rightarrow> node_config \<Rightarrow> resolved_approvals \<Rightarrow> run_request \<Rightarrow> allow_ctx" where
  "argv_ctx env nc approvals rq = (node_ctx env nc approvals rq)\<lparr>cx_platform := None, cx_env := None\<rparr>"

lemma argv_allowlist:
  assumes "\<not> str_truthy shellCommand"
    and "rl_satisfied (evaluateSystemRunAllowlist env cx security shellCommand argv)"
  shows "\<exists>s. rl_segments (evaluateSystemRunAllowlist env cx security shellCommand argv) = [s] \<and>
    allowed env (cx\<lparr>cx_platform := None, cx_env := None\<rparr>) 2 s \<and> sg_argv s = filter (\<lambda>t. js_trim t \<noteq> []) argv"
proof -
  from assms obtain a where a: "analyzeArgvCommand env argv (cx_cwd cx) (cx_env cx) = Inr a"
      "sv_satisfied (evaluateExecAllowlist env (cx\<lparr>cx_platform := None, cx_env := None\<rparr>) (Inr a))"
    by (cases "analyzeArgvCommand env argv (cx_cwd cx) (cx_env cx)") (auto simp: evaluateSystemRunAllowlist_def Let_def)
  obtain s where s: "an_segments a = [s]" "an_chains a = None" "sg_argv s = filter (\<lambda>t. js_trim t \<noteq> []) argv"
    using analyzeArgv_single [OF a(1)] by auto
  then have "grouped a" by (simp add: grouped_def)
  with evaluateExecAllowlist_allowed [OF _ a(2)] s a(1) assms(1) show ?thesis by (simp add: evaluateSystemRunAllowlist_def Let_def)
qed

text \<open>A phase that goes on without an approval has found the command on the list, or approved for good.\<close>

lemma policy_phase_listed:
  assumes "evaluateSystemRunPolicyPhase env nc approvals rq = Inr ph"
    and "rp_security (ra_agent approvals) = SecAllowlist" and "rq_decision rq = None" and "\<not> rq_approved rq"
    and "rl = evaluateSystemRunAllowlist env (node_ctx env nc approvals rq) SecAllowlist (rq_shellPayload rq) (rq_argv rq)"
    and "\<not> pn_durable (node_policy_input env nc approvals rq rl)"
  shows "rl_satisfied rl \<and> ph_segments ph = rl_segments rl \<and>
    ph_policy ph = evaluateSystemRunPolicy (node_policy_input env nc approvals rq rl) \<and>
    (case resolvePlannedAllowlistArgv SecAllowlist (rq_shellPayload rq) (ph_policy ph) (rl_segments rl) of
       None \<Rightarrow> ph_planned ph = None | Some None \<Rightarrow> False | Some (Some argv) \<Rightarrow> ph_planned ph = Some argv)"
proof -
  let ?pn = "node_policy_input env nc approvals rq rl"
  have pn: "pn_security ?pn = SecAllowlist" "pn_satisfied ?pn = rl_satisfied rl" "pn_analysisOk ?pn = rl_analysisOk rl" "\<not> asked ?pn"
    using assms(2-4) by (simp_all add: node_policy_input_def asked_def)
  from assms(1,2,5) have denied: "rn_denied (evaluateSystemRunPolicy ?pn) = None"
    by (auto simp: evaluateSystemRunPolicyPhase_def Let_def split: if_splits option.splits)
  then have "rl_satisfied rl" using run_allowed_closed [of ?pn] pn assms(6) by (simp add: run_allowed_def listed_def)
  moreover have "ph_segments ph = rl_segments rl \<and> ph_policy ph = evaluateSystemRunPolicy ?pn \<and>
    (case resolvePlannedAllowlistArgv SecAllowlist (rq_shellPayload rq) (ph_policy ph) (rl_segments rl) of
       None \<Rightarrow> ph_planned ph = None | Some None \<Rightarrow> False | Some (Some argv) \<Rightarrow> ph_planned ph = Some argv)"
    using assms(1,2,5) by (auto simp: evaluateSystemRunPolicyPhase_def Let_def split: if_splits option.splits)
  ultimately show ?thesis by blast
qed

text \<open>Then what runs is the plan of the only segment.\<close>

lemma node_runs_plan:
  assumes "evaluateSystemRunPolicyPhase env nc approvals rq = Inr ph"
    and "rp_security (ra_agent approvals) = SecAllowlist" and "rq_decision rq = None" and "\<not> rq_approved rq"
    and "\<not> str_truthy (rq_shellPayload rq)"
    and "rl = evaluateSystemRunAllowlist env (node_ctx env nc approvals rq) SecAllowlist (rq_shellPayload rq) (rq_argv rq)"
    and "\<not> pn_durable (node_policy_input env nc approvals rq rl)"
  shows "\<exists>s argv. ph_segments ph = [s] \<and> allowed env (argv_ctx env nc approvals rq) 2 s \<and>
    resolvePlannedSegmentArgv s = Some argv \<and> fst (executeSystemRunPhase env uuid now nc approvals rq ph n) = argv"
proof -
  note listed = policy_phase_listed [OF assms(1-4,6,7)]
  from listed argv_allowlist [OF assms(5), of env "node_ctx env nc approvals rq" SecAllowlist "rq_argv rq"] assms(6) obtain s where
    s: "ph_segments ph = [s]" "rl_segments rl = [s]" "allowed env (argv_ctx env nc approvals rq) 2 s"
    by (auto simp: argv_ctx_def)
  let ?pn = "node_policy_input env nc approvals rq rl"
  have policy: "ph_policy ph = evaluateSystemRunPolicy ?pn" using listed by simp
  have flags: "\<not> rn_approvedByAsk (ph_policy ph)"
    using assms(2-4) by (simp add: policy evaluateSystemRunPolicy_def node_policy_input_def Let_def)
  have "run_allowed ?pn"
    using assms(1,2,6) by (auto simp: run_allowed_def evaluateSystemRunPolicyPhase_def Let_def split: if_splits option.splits)
  moreover have "pn_security ?pn = SecAllowlist" and "\<not> asked ?pn" using assms(2-4) by (simp_all add: node_policy_input_def asked_def)
  ultimately have "listed ?pn" using assms(7) by (simp add: run_allowed_closed)
  then have ok: "rn_analysisOk (ph_policy ph)" "rn_satisfied (ph_policy ph)"
    by (auto simp: policy evaluateSystemRunPolicy_def listed_def cmd_blocked_def Let_def)
  have "resolvePlannedAllowlistArgv SecAllowlist (rq_shellPayload rq) (ph_policy ph) (rl_segments rl) =
      Some (case resolvePlannedSegmentArgv s of None \<Rightarrow> None | Some argv \<Rightarrow> if argv = [] then None else Some argv)"
    using flags ok assms(5) s(2) by (simp add: resolvePlannedAllowlistArgv_def)
  with listed obtain argv where argv: "resolvePlannedSegmentArgv s = Some argv" "ph_planned ph = Some argv"
    by (auto split: option.splits if_splits)
  then have "fst (executeSystemRunPhase env uuid now nc approvals rq ph n) = argv"
    using assms(5) by (simp add: executeSystemRunPhase_def resolveSystemRunExecArgv_def Let_def)
  with s argv show ?thesis by blast
qed

end
