(* ===== verification/Exec_Remember_Proofs.thy ===== *)
theory Exec_Remember_Proofs
  imports Exec_Approvals_Proofs Exec_Resolution_Proofs Exec_Node_Proofs
begin

text \<open>
  Decisions for good: an entry that is added is there, and the command that it was added for is allowed
  the next time.
\<close>

subsection \<open>One entry\<close>

definition allow_items :: "approvals_file \<Rightarrow> string \<Rightarrow> allow_item list" where
  "allow_items file target = nullish (ag_allowlist (agent_of file target)) []"

definition always_listed :: "approvals_file \<Rightarrow> string \<Rightarrow> string \<Rightarrow> string option \<Rightarrow> bool" where
  "always_listed file target p arg \<longleftrightarrow> (\<exists>e. ItemEntry e \<in> set (allow_items file target) \<and> ae_pattern e = p \<and>
     ae_argPattern e = arg \<and> ae_allowAlways e)"

lemma agent_of_set: "agent_of (set_allowlist file target items) k =
    (if k = target then (agent_of file target)\<lparr>ag_allowlist := Some items\<rparr> else agent_of file k)"
  by (simp add: agent_of_def set_allowlist_def nullish_def)

lemma allow_items_set [simp]: "allow_items (set_allowlist file target items) target = items"
  by (simp add: allow_items_def agent_of_set nullish_def)

lemma find_NoneD: "List.find P xs = None \<Longrightarrow> x \<in> set xs \<Longrightarrow> \<not> P x"
  by (induction xs) (auto split: if_splits)

lemma add_saved:
  assumes "addAllowlistEntry uuid now file agentId p arg True n = Some file'" and "target = nullish agentId DEFAULT_AGENT_ID"
  shows "always_listed file' target (js_trim p) (normalizeOptionalString (js_opt arg))"
    and "\<exists>items. file' = set_allowlist file target items"
    and "q \<noteq> js_trim p \<Longrightarrow> always_listed file target q a \<Longrightarrow> always_listed file' target q a"
proof -
  let ?arg = "normalizeOptionalString (js_opt arg)" and ?items = "allow_items file target"
  let ?is = "\<lambda>i. case i of ItemEntry e \<Rightarrow> same_entry e (js_trim p) ?arg | _ \<Rightarrow> False"
  let ?change = "\<lambda>i. case i of ItemEntry e \<Rightarrow> if ae_pattern e = js_trim p
      then ItemEntry (e\<lparr>ae_argPattern := ?arg, ae_allowAlways := True, ae_lastUsedAt := Some now\<rparr>) else i | _ \<Rightarrow> i"
  let ?new = "ItemEntry (entry_of_text (js_trim p)\<lparr>ae_id := Some (uuid n), ae_argPattern := ?arg, ae_allowAlways := True,
      ae_lastUsedAt := Some now\<rparr>)"
  have cases: "List.find ?is ?items = None \<and> file' = set_allowlist file target (?items @ [?new]) \<or>
      (\<exists>f. List.find ?is ?items = Some (ItemEntry f) \<and> file' = set_allowlist file target (map ?change ?items))"
    using assms by (auto simp: addAllowlistEntry_def allow_items_def Let_def cong: allow_item.case_cong if_cong
        split: if_splits option.splits allow_item.splits)
  show "\<exists>items. file' = set_allowlist file target items" using cases by blast
  show "always_listed file' target (js_trim p) ?arg"
    using cases
  proof (elim disjE exE conjE)
    assume file': "file' = set_allowlist file target (?items @ [?new])"
    let ?e = "entry_of_text (js_trim p)\<lparr>ae_id := Some (uuid n), ae_argPattern := ?arg, ae_allowAlways := True, ae_lastUsedAt := Some now\<rparr>"
    have "ItemEntry ?e \<in> set (allow_items file' target)" unfolding file' allow_items_set by simp
    then show ?thesis unfolding always_listed_def by (intro exI [of _ ?e]) (simp add: entry_of_text_def)
  next
    fix f
    assume found: "List.find ?is ?items = Some (ItemEntry f)" and file': "file' = set_allowlist file target (map ?change ?items)"
    let ?f = "f\<lparr>ae_argPattern := ?arg, ae_allowAlways := True, ae_lastUsedAt := Some now\<rparr>"
    have f: "same_entry f (js_trim p) ?arg" "ItemEntry f \<in> set ?items" using find_SomeD [OF found] by simp_all
    have p: "ae_pattern f = js_trim p" using f(1) by (simp add: same_entry_def)
    have "?change (ItemEntry f) \<in> ?change ` set ?items" using f(2) by (rule imageI)
    moreover have "?change (ItemEntry f) = ItemEntry ?f" using p by simp
    ultimately have "ItemEntry ?f \<in> set (map ?change ?items)" by (metis list.set_map)
    then have "ItemEntry ?f \<in> set (allow_items file' target)" unfolding file' allow_items_set .
    then show ?thesis unfolding always_listed_def using p by (intro exI [of _ ?f]) simp
  qed
  assume q: "q \<noteq> js_trim p" and "always_listed file target q a"
  then obtain e where e: "ItemEntry e \<in> set ?items" "ae_pattern e = q" "ae_argPattern e = a" "ae_allowAlways e"
    by (auto simp: always_listed_def)
  from cases show "always_listed file' target q a"
  proof (elim disjE exE conjE)
    assume file': "file' = set_allowlist file target (?items @ [?new])"
    have "ItemEntry e \<in> set (allow_items file' target)" unfolding file' allow_items_set using e(1) by simp
    with e(2-) show ?thesis unfolding always_listed_def by blast
  next
    fix f
    assume file': "file' = set_allowlist file target (map ?change ?items)"
    have "?change (ItemEntry e) = ItemEntry e" using e(2) q by simp
    moreover have "?change (ItemEntry e) \<in> ?change ` set ?items" using e(1) by (rule imageI)
    ultimately have "ItemEntry e \<in> set (map ?change ?items)" by (simp only: list.set_map)
    then have "ItemEntry e \<in> set (allow_items file' target)" unfolding file' allow_items_set .
    with e(2-) show ?thesis unfolding always_listed_def by blast
  qed
qed

lemma add_unsaved:
  assumes "addAllowlistEntry uuid now file agentId p arg True n = None" and "js_trim p \<noteq> []"
  shows "always_listed file (nullish agentId DEFAULT_AGENT_ID) (js_trim p) (normalizeOptionalString (js_opt arg))"
proof -
  let ?items = "allow_items file (nullish agentId DEFAULT_AGENT_ID)"
  let ?is = "\<lambda>i. case i of ItemEntry e \<Rightarrow> same_entry e (js_trim p) (normalizeOptionalString (js_opt arg)) | _ \<Rightarrow> False"
  obtain i where i: "List.find ?is ?items = Some i" "i \<in> set ?items" "?is i"
    using assms find_SomeD by (fastforce simp: addAllowlistEntry_def allow_items_def Let_def split: option.splits)
  then obtain f where "i = ItemEntry f" "same_entry f (js_trim p) (normalizeOptionalString (js_opt arg))" by (cases i) auto
  moreover from this i(1) assms have "ae_allowAlways f"
    by (auto simp: addAllowlistEntry_def allow_items_def Let_def split: if_splits)
  ultimately show ?thesis using i(2) by (auto simp: always_listed_def same_entry_def)
qed

text \<open>Whether or not the file was saved, the entry is in it, and entries of other patterns stay.\<close>

lemma add_listed:
  assumes "js_trim p \<noteq> []" and "target = nullish agentId DEFAULT_AGENT_ID"
  shows "always_listed (fst (save_step (addAllowlistEntry uuid now (fst st) agentId p arg True n) st)) target (js_trim p)
    (normalizeOptionalString (js_opt arg))"
    and "q \<noteq> js_trim p \<Longrightarrow> always_listed (fst st) target q a \<Longrightarrow>
      always_listed (fst (save_step (addAllowlistEntry uuid now (fst st) agentId p arg True n) st)) target q a"
  using assms add_saved add_unsaved by (auto simp: save_step_def split: option.splits)

subsection \<open>The patterns of a command\<close>

lemma persist_keeps:
  "target = nullish agentId DEFAULT_AGENT_ID \<Longrightarrow> q \<notin> js_trim ` fst ` set ps \<Longrightarrow> always_listed (fst st) target q a \<Longrightarrow>
     always_listed (fst (persist_patterns uuid now agentId n ps st)) target q a"
proof (induction ps arbitrary: n st)
  case (Cons x ps)
  obtain p b where x: "x = (p, b)" by (metis surj_pair)
  have "always_listed (fst (if p = [] then st else save_step (addAllowlistEntry uuid now (fst st) agentId p b True n) st)) target q a"
  proof (cases "js_trim p = []")
    case True
    then have "addAllowlistEntry uuid now (fst st) agentId p b True n = None" by (simp add: addAllowlistEntry_def Let_def)
    with Cons.prems show ?thesis by (simp add: save_step_def)
  next
    case False
    with Cons.prems x add_listed(2) [OF False Cons.prems(1), of q st a uuid now b n] show ?thesis by auto
  qed
  with Cons x show ?case by simp
qed simp

lemma persist_listed:
  assumes "target = nullish agentId DEFAULT_AGENT_ID" and "distinct (map (js_trim \<circ> fst) ps)" and "(p, arg) \<in> set ps" and "js_trim p \<noteq> []"
  shows "always_listed (fst (persist_patterns uuid now agentId n ps st)) target (js_trim p) (normalizeOptionalString (js_opt arg))"
  using assms
proof (induction ps arbitrary: n st)
  case (Cons x ps)
  show ?case
  proof (cases "x = (p, arg)")
    case True
    with Cons.prems have "p \<noteq> []" and "js_trim p \<notin> js_trim ` fst ` set ps" by (auto simp: image_comp)
    with True persist_keeps [OF Cons.prems(1) this(2) add_listed(1) [OF Cons.prems(4,1)]] show ?thesis by simp
  next
    case False
    obtain a b where x: "x = (a, b)" by (metis surj_pair)
    from Cons.IH [OF Cons.prems(1) _ _ Cons.prems(4)] Cons.prems False
    have "always_listed (fst (persist_patterns uuid now agentId m ps st')) target (js_trim p) (normalizeOptionalString (js_opt arg))"
      for m st' by simp
    then show ?thesis by (simp add: x)
  qed
qed simp

subsection \<open>A plain command\<close>

text \<open>A command without a wrapper, a shell or an interpreter, found at a path.\<close>

definition plain_command :: "exec_env \<Rightarrow> string \<Rightarrow> exec_segment \<Rightarrow> bool" where
  "plain_command env p s \<longleftrightarrow>
     (let plan = resolveExecWrapperTrustPlan env (sg_argv s)
      in tp_argv plan = sg_argv s \<and> tp_blockedWrapper plan = None \<and> \<not> tp_shellWrapperExecutable plan) \<and>
     (\<exists>r. sg_resolution s = Some r \<and> \<not> cr_policyBlocked r \<and> cr_policy r = cr_execution r \<and>
        er_resolvedPath (cr_execution r) = Some p) \<and>
     js_trim p = p \<and> p \<noteq> [] \<and> hd p \<noteq> CHR ''~'' \<and> has_path p \<and> \<not> isInterpreterLikeAllowlistPattern env (Some p) \<and>
     inline_command env s = None"

lemma plain_path:
  "plain_command env p s \<Longrightarrow> plain_command env q s \<Longrightarrow> q = p"
  "plain_command env p s \<Longrightarrow> js_trim p = p"
  "plain_command env p s \<Longrightarrow> p \<noteq> []"
  unfolding plain_command_def by auto

lemma plain_candidates:
  assumes "plain_command env p s"
  shows "resolveExecutionTargetCandidatePath env (sg_resolution s) cwd = Some p"
    and "resolvePolicyTargetCandidatePath env (sg_resolution s) cwd = Some p"
  using assms
  by (auto simp: plain_command_def resolveExecutionTargetCandidatePath_def resolvePolicyTargetCandidatePath_def
      resolveExecutionTargetResolution_def resolvePolicyTargetResolution_def resolveExecutableCandidatePathFromResolution_def
      str_truthy_def)

lemma plain_collected:
  assumes "plain_command env p s" and "\<not> on_windows env (ay_platform ay)"
  shows "collectAllowAlwaysPatterns env ay (Suc n) out s = addAllowAlwaysPattern out (p, None)"
proof -
  let ?plan = "resolveExecWrapperTrustPlan env (sg_argv s)"
  have "tp_blockedWrapper ?plan = None" "\<not> tp_shellWrapperExecutable ?plan" "planned_segment env ay s ?plan = s"
    "p \<noteq> []" "\<not> isInterpreterLikeAllowlistPattern env (Some p)"
    using assms(1) by (simp_all add: plain_command_def planned_segment_def Let_def)
  with assms(2) show ?thesis
    by (simp add: Let_def plain_candidates [OF assms(1)] str_truthy_def buildArgPatternFromArgv_def)
qed

lemma plain_patterns:
  assumes "\<forall>s \<in> set ss. \<exists>p. plain_command env p s" and "\<not> on_windows env (ay_platform ay)"
  defines "ps \<equiv> resolveAllowAlwaysPatternEntries env ay ss"
  shows "distinct ps" and "\<forall>x \<in> set ps. snd x = None \<and> js_trim (fst x) = fst x"
    and "s \<in> set ss \<Longrightarrow> plain_command env p s \<Longrightarrow> (p, None) \<in> set ps"
proof -
  have collected: "s \<in> set ss \<Longrightarrow> plain_command env p s \<Longrightarrow>
      collectAllowAlwaysPatterns env ay 3 out s = addAllowAlwaysPattern out (p, None)" for s p out
    using plain_collected [OF _ assms(2), of p s 2 out] by (simp add: numeral_3_eq_3 numeral_2_eq_2)
  have fold: "set ts \<subseteq> set ss \<Longrightarrow> distinct out \<Longrightarrow> \<forall>x \<in> set out. snd x = None \<and> js_trim (fst x) = fst x \<Longrightarrow>
      distinct (foldl (collectAllowAlwaysPatterns env ay 3) out ts) \<and>
      (\<forall>x \<in> set (foldl (collectAllowAlwaysPatterns env ay 3) out ts). snd x = None \<and> js_trim (fst x) = fst x) \<and>
      set out \<subseteq> set (foldl (collectAllowAlwaysPatterns env ay 3) out ts) \<and>
      (\<forall>s p. s \<in> set ts \<longrightarrow> plain_command env p s \<longrightarrow> (p, None) \<in> set (foldl (collectAllowAlwaysPatterns env ay 3) out ts))" for ts out
  proof (induction ts arbitrary: out)
    case (Cons t ts)
    obtain p where p: "plain_command env p t" using assms(1) Cons.prems(1) by (meson list.set_intros(1) subsetD)
    have same: "plain_command env q t \<Longrightarrow> q = p" for q using plain_path(1) p by blast
    have trim: "js_trim p = p" using plain_path(2) p .
    let ?out = "addAllowAlwaysPattern out (p, None)"
    have step: "collectAllowAlwaysPatterns env ay 3 out t = ?out" using collected [OF _ p] Cons.prems(1) by simp
    have out: "distinct ?out" "\<forall>x \<in> set ?out. snd x = None \<and> js_trim (fst x) = fst x" "set out \<subseteq> set ?out" "(p, None) \<in> set ?out"
      using Cons.prems(2,3) trim by (simp_all add: addAllowAlwaysPattern_def) blast+
    have "set ts \<subseteq> set ss" using Cons.prems(1) by simp
    note IH = Cons.IH [OF this out(1,2)]
    with out(3,4) same show ?case by (simp only: foldl.simps step list.set insert_iff) blast
  qed simp
  from fold [of ss "[]"] show "distinct ps" and "\<forall>x \<in> set ps. snd x = None \<and> js_trim (fst x) = fst x"
    and "s \<in> set ss \<Longrightarrow> plain_command env p s \<Longrightarrow> (p, None) \<in> set ps"
    by (simp_all add: ps_def resolveAllowAlwaysPatternEntries_def)
qed

text \<open>An entry with the path of the command is enough.\<close>

lemma plain_allowed:
  assumes "plain_command env p s" and "e \<in> set (cx_allowlist cx)" and "ae_pattern e = p"
    and "\<not> on_win32 env" and "\<not> effective_platform_win env (cx_platform cx)"
  shows "allowed env cx n s"
proof -
  obtain r where r: "sg_resolution s = Some r" "\<not> cr_policyBlocked r" "cr_policy r = cr_execution r"
      "er_resolvedPath (cr_execution r) = Some p" and p: "js_trim p = p" "p \<noteq> []" "hd p \<noteq> CHR ''~''" "has_path p"
      and inline: "inline_command env s = None"
    using assms(1) by (auto simp: plain_command_def)
  have "entry_covers env p e" using assms(3,4) p posix_pattern_self by (simp add: entry_covers_def)
  then have found: "match_entries env p False argv platform None (cx_allowlist cx) \<noteq> None" for argv platform
    using match_entries_found [OF assms(2)] by blast
  have "matchAllowlist env (cx_allowlist cx) (Some (er_resolvedPath_update (\<lambda>_. Some p) (cr_execution r))) argv (cx_platform cx) \<noteq> None" for argv
    using found assms(2,5) p(2) by (auto simp: matchAllowlist_def str_truthy_def split: option.splits)
  then obtain y where "matchAllowlist env (cx_allowlist cx) (Some (er_resolvedPath_update (\<lambda>_. Some p) (cr_execution r)))
      (Some (effective_argv s)) (cx_platform cx) = Some y" by blast
  moreover have "resolvePolicyTargetCandidatePath env (Some r) (cx_cwd cx) = Some p"
    using plain_candidates(2) [OF assms(1)] r(1) by simp
  ultimately have "snd (snd (resolveSegmentAllowlistMatch env cx s)) = Some y"
    using r(1,3) p(2) inline
    by (simp add: resolveSegmentAllowlistMatch_def inline_command_def str_truthy_def nullish_opt_def
        resolvePolicyTargetResolution_def Let_def)
  then have "satisfied_directly env cx s \<noteq> None"
    by (auto simp: satisfied_directly_def resolveSegmentSatisfaction_def split: prod.splits)
  moreover have "\<not> wrapper_blocked s" using r by (simp add: wrapper_blocked_def)
  ultimately show ?thesis by (rule directly [rotated])
qed

lemma listed_entry:
  "always_listed file target p arg \<Longrightarrow>
     \<exists>e \<in> set (items_entries (ag_allowlist (agent_of file target))). ae_pattern e = p \<and> ae_argPattern e = arg \<and> ae_allowAlways e"
proof -
  assume "always_listed file target p arg"
  then obtain e where e: "ItemEntry e \<in> set (allow_items file target)" "ae_pattern e = p" "ae_argPattern e = arg" "ae_allowAlways e"
    by (auto simp: always_listed_def)
  then have "e \<in> set (items_entries (ag_allowlist (agent_of file target)))"
    by (induction "allow_items file target" rule: list.induct)
      (auto simp: items_entries_def allow_items_def map_filter_def intro!: image_eqI [of _ _ "ItemEntry e"])
  with e show ?thesis by blast
qed

theorem remembered:
  assumes "\<forall>s \<in> set ss. \<exists>p. plain_command env p s" and "\<not> on_windows env (ay_platform ay)" and "\<not> on_win32 env"
    and "persistAllowAlwaysPatterns env uuid now ay st agentId ss n = (ps, st')"
    and "set (items_entries (ag_allowlist (agent_of (fst st') (nullish agentId DEFAULT_AGENT_ID)))) \<subseteq> set (cx_allowlist cx)"
    and "\<not> effective_platform_win env (cx_platform cx)" and "s \<in> set ss"
  shows "allowed env cx m s"
proof -
  let ?target = "nullish agentId DEFAULT_AGENT_ID"
  from assms(1,7) obtain p where p: "plain_command env p s" by blast
  from assms(4) have ps: "ps = resolveAllowAlwaysPatternEntries env ay ss" "st' = persist_patterns uuid now agentId n ps st"
    by (auto simp: persistAllowAlwaysPatterns_def Let_def)
  note patterns = plain_patterns [OF assms(1,2), folded ps(1)]
  have "inj_on (js_trim \<circ> fst) (set ps)" using patterns(2) by (auto simp: inj_on_def prod_eq_iff)
  with patterns(1) have "distinct (map (js_trim \<circ> fst) ps)" by (simp add: distinct_map)
  moreover note plain_path(2,3) [OF p]
  ultimately have "always_listed (fst st') ?target p (normalizeOptionalString (js_opt None))"
    using persist_listed [OF refl _ patterns(3) [OF assms(7) p]] ps(2) by simp
  with listed_entry assms(5) obtain e where "e \<in> set (cx_allowlist cx)" "ae_pattern e = p" by blast
  with plain_allowed [OF p _ _ assms(3,6)] show ?thesis by blast
qed

end
