(* ===== verification/Exec_Samples.thy ===== *)
theory Exec_Samples
  imports Exec_Remember_Proofs
begin

text \<open>
  A POSIX machine with a few programs, and requests on it: the inputs that show that the hypotheses of the
  properties of the execution approvals can hold.
\<close>

definition last_part :: "char list \<Rightarrow> string \<Rightarrow> string" where
  "last_part seps p = rev (takeWhile (\<lambda>c. c \<notin> set seps) (rev p))"

definition posix_env :: exec_env where
  "posix_env = \<lparr>xe_platform = ''linux'', xe_processEnv = [(''PATH'', ''/bin'')], xe_homedir = Some ''/root'', xe_cwd = ''/w'',
     xe_posixBasename = last_part ''/'', xe_win32Basename = last_part [CHR ''/'', BSLASH],
     xe_isAbsolute = (\<lambda>p. js_starts_with p ''/''),
     xe_resolve = (\<lambda>base p. if js_starts_with p ''/'' then p else base @ ''/'' @ p),
     xe_join = (\<lambda>d p. d @ ''/'' @ p), xe_dirname = (\<lambda>p. rev (drop 1 (dropWhile (\<lambda>c. c \<noteq> CHR ''/'') (rev p)))), xe_extname = (\<lambda>p. []), xe_delimiter = CHR '':'',
     xe_isFile = (\<lambda>p. p \<in> set [''/bin/rg'', ''/bin/head'', ''/bin/sh'', ''/bin/nice'', ''/bin/rm'']),
     xe_canExecute = (\<lambda>p. True), xe_realpath = Some, xe_regex = (\<lambda>p. None), xe_sha256 = (\<lambda>s. s)\<rparr>"

definition rg_entry :: allow_entry where
  "rg_entry = \<lparr>ae_id = Some ''1'', ae_pattern = ''/bin/rg'', ae_allowAlways = False, ae_commandText = None,
     ae_argPattern = None, ae_lastUsedAt = None, ae_lastUsedCommand = None, ae_lastResolvedPath = None\<rparr>"

definition sample_cx :: allow_ctx where
  "sample_cx = \<lparr>cx_allowlist = [rg_entry], cx_safeBins = [], cx_profiles = None, cx_cwd = None, cx_env = None,
     cx_platform = Some ''linux'', cx_trustedDirs = None, cx_skillBins = [], cx_autoAllowSkills = False\<rparr>"

definition main_agent :: exec_agent where
  "main_agent = \<lparr>po_security = JString ''allowlist'', po_ask = JString ''on-miss'', po_askFallback = JUndefined,
     po_autoAllowSkills = None, ag_allowlist = Some [ItemEntry rg_entry]\<rparr>"

definition sample_file :: approvals_file where
  "sample_file = \<lparr>af_socketPath = None, af_socketToken = None, af_defaults = no_policy, af_agents = [(''main'', main_agent)]\<rparr>"

definition sample_uuid :: "nat \<Rightarrow> string" where
  "sample_uuid n = ''id'' @ replicate n (CHR ''i'')"

definition no_overrides :: default_overrides where
  "no_overrides = \<lparr>do_security = None, do_ask = None, do_askFallback = None, do_autoAllowSkills = None\<rparr>"

definition sample_approvals :: resolved_approvals where
  "sample_approvals = resolveExecApprovalsFromFile sample_uuid 0 sample_file None no_overrides"

definition sample_hc :: host_context where
  "sample_hc = \<lparr>hc_approvals = sample_approvals, hc_security = SecAllowlist, hc_ask = AskOnMiss, hc_askFallback = SecAllowlist\<rparr>"

definition sample_gp :: "string \<Rightarrow> gateway_params" where
  "sample_gp command = \<lparr>gp_command = command, gp_workdir = ''/w'', gp_env = [(''PATH'', ''/bin'')], gp_safeBins = [], gp_profiles = [],
     gp_trustedDirs = None, gp_strictInlineEval = False, gp_trigger = None, gp_agentId = None\<rparr>"

definition sample_nc :: node_config where
  "sample_nc = \<lparr>nc_safeBins = [], nc_profiles = [], nc_trustedDirs = [], nc_strictInlineEval = False, nc_skillBins = []\<rparr>"

definition sample_rq :: "string list \<Rightarrow> run_request" where
  "sample_rq argv = \<lparr>rq_argv = argv, rq_shellPayload = None, rq_commandText = ''rg a'', rq_agentId = None, rq_decision = None,
     rq_approved = False, rq_env = None, rq_cwd = None\<rparr>"

end
