(* ===== verification/Exec_Props.thy ===== *)
theory Exec_Props
  imports Exec_Samples
begin

text \<open>The properties of the execution approvals.\<close>

subsection \<open>What runs\<close>




text \<open>The context in which the gateway decides is the stricter of the caller's policy and of the host's: the
  lower security, the more frequent asking, and a fallback no broader than either; there is none if
  anybody denies.\<close>

theorem host_context_stricter:
  "case resolveExecHostApprovalContext approvals security ask of
     None \<Rightarrow> security = SecDeny \<or> rp_security (ra_agent approvals) = SecDeny
   | Some hc \<Rightarrow> hc_security hc = min security (rp_security (ra_agent approvals)) \<and> hc_security hc \<noteq> SecDeny \<and>
       hc_ask hc = max ask (rp_ask (ra_agent approvals)) \<and>
       hc_askFallback hc = min (hc_security hc) (rp_askFallback (ra_agent approvals))"
proof (cases "resolveExecHostApprovalContext approvals security ask")
  case None
  then have "min security (rp_security (ra_agent approvals)) = SecDeny"
    by (simp add: resolveExecHostApprovalContext_def minSecurity_min Let_def split: if_splits)
  with None show ?thesis by (simp add: min_def split: if_splits)
next
  case (Some hc)
  with host_contextD [OF Some] show ?thesis by simp
qed

text \<open>Whether the node host runs a command, in closed form: never under deny; else if somebody approved it,
  or if nobody has to be asked always and the security is full, the command is on the list (and not hidden
  behind cmd.exe) or approved for good. More security, less asking and more approvals never turn a run
  into a refusal.\<close>

theorem node_policy_decision:
  "(rn_denied (evaluateSystemRunPolicy pn) = None \<longleftrightarrow> pn_security pn \<noteq> SecDeny \<and>
      (pn_decision pn \<noteq> None \<or> pn_approved pn \<or>
       pn_ask pn \<noteq> AskAlways \<and> (pn_security pn = SecFull \<or> pn_durable pn \<or>
         pn_analysisOk pn \<and> pn_satisfied pn \<and>
         \<not> (pn_security pn = SecAllowlist \<and> pn_shellWrapper pn \<and> pn_isWindows pn \<and> pn_cmdInvocation pn)))) \<and>
   (policy_le pn qn \<longrightarrow> rn_denied (evaluateSystemRunPolicy pn) = None \<longrightarrow> rn_denied (evaluateSystemRunPolicy qn) = None)"
  using run_allowed_closed [of pn] run_allowed_mono [of pn qn]
  by (auto simp: run_allowed_def asked_def listed_def cmd_blocked_def)

definition sample_pn :: "exec_security \<Rightarrow> policy_input" where
  "sample_pn security = \<lparr>pn_security = security, pn_ask = AskOnMiss, pn_analysisOk = True, pn_satisfied = True, pn_durable = False,
     pn_decision = None, pn_approved = False, pn_isWindows = False, pn_cmdInvocation = False, pn_shellWrapper = False\<rparr>"

theorem node_policy_decision_witness:
  "rn_denied (evaluateSystemRunPolicy (sample_pn SecFull)) = None"
proof -
  have "policy_le (sample_pn SecAllowlist) (sample_pn SecFull)"
    by (simp add: policy_le_def sample_pn_def asked_def less_eq_exec_security_def security_rank_def less_eq_exec_ask_def)
  moreover have "rn_denied (evaluateSystemRunPolicy (sample_pn SecAllowlist)) = None" by code_simp
  ultimately show ?thesis using node_policy_decision [of "sample_pn SecAllowlist" "sample_pn SecFull"] by blast
qed



subsection \<open>Reading a command\<close>

text \<open>C5: The evaluation of the segments of a command against the allowlist, with its early returns and collected
  matches, is exactly the specification: all segments are allowed, directly or as a shell whose chain is
  allowed, at most two shells deep.\<close>

theorem allowlist_evaluation_is_allowed:
  "sv_satisfied (evaluateSegments env cx segments) \<longleftrightarrow> (\<forall>s \<in> set segments. allowed env cx 2 s)"
  by (rule evaluateSegments_iff)

theorem allowlist_evaluation_is_allowed_witness:
  "list_all (allowed posix_env sample_cx 2)
     (case analyzeShellCommand posix_env ''rg a'' None None (Some ''linux'') of Inr a \<Rightarrow> an_segments a)"
proof -
  have "sv_satisfied (evaluateSegments posix_env sample_cx
      (case analyzeShellCommand posix_env ''rg a'' None None (Some ''linux'') of Inr a \<Rightarrow> an_segments a))" by code_simp
  then show ?thesis using allowlist_evaluation_is_allowed by (simp only: list_all_iff)
qed

text \<open>C6: No argument can break out of its quotes: a chain of pipelines of non-empty arguments, each in single
  quotes, is analysed on a POSIX platform to exactly those arguments, whatever characters they contain.\<close>

theorem quoted_arguments_roundtrip:
  assumes "chained ps" and "\<not> isWindowsPlatform platform"
  shows "\<exists>a. analyzeShellCommand env (chain_text ps) cwd penv platform = Inr a \<and>
    map sg_argv (an_segments a) = concat (map fst ps)"
  by (rule analyzeShellCommand_text [OF assms])

definition nasty_chain :: "(string list list \<times> chain_op option) list" where
  "nasty_chain = [([[''rg'', ''; rm''], [[SQ, CHR ''|''], ''$(ls)'']], Some OpAnd), ([[''head'', ''# &'']], None)]"

theorem quoted_arguments_roundtrip_witness:
  "\<exists>a. analyzeShellCommand posix_env (chain_text nasty_chain) None None (Some ''linux'') = Inr a \<and>
     map sg_argv (an_segments a) = [[''rg'', ''; rm''], [[SQ, CHR ''|''], ''$(ls)''], [''head'', ''# &'']]"
proof -
  have "chained nasty_chain" "\<not> isWindowsPlatform (Some ''linux'')" by code_simp+
  from quoted_arguments_roundtrip [OF this, of posix_env None None] show ?thesis by (simp add: nasty_chain_def)
qed

text \<open>Looking through wrappers (env, nice, busybox and others) never invents arguments: what is judged is the
  end of the given argument vector. It stops at the command itself: unless the plan is blocked, no known
  wrapper is left in front, and at most four were looked through.\<close>

theorem trust_plan_exposes_command:
  "(\<exists>k. tp_argv (resolveExecWrapperTrustPlan env argv) = drop k argv) \<and>
   (tp_blockedWrapper (resolveExecWrapperTrustPlan env argv) \<noteq> None \<or>
    unwrapKnownDispatchWrapperInvocation env (tp_argv (resolveExecWrapperTrustPlan env argv)) = NotWrapper \<and>
    unwrapKnownShellMultiplexerInvocation env (tp_argv (resolveExecWrapperTrustPlan env argv)) = NotWrapper \<and>
    length (tp_wrapperChain (resolveExecWrapperTrustPlan env argv)) \<le> MAX_DISPATCH_WRAPPER_DEPTH)"
  using trust_plan_rest [of env argv] trust_plan_exposed [of env argv] by (auto simp: exposed_def no_wrapper_def)

theorem trust_plan_exposes_command_witness:
  "tp_argv (resolveExecWrapperTrustPlan posix_env [''nice'', ''-n'', ''5'', ''rg'', ''a'']) = [''rg'', ''a''] \<and>
   unwrapKnownDispatchWrapperInvocation posix_env [''rg'', ''a''] = NotWrapper \<and>
   unwrapKnownShellMultiplexerInvocation posix_env [''rg'', ''a''] = NotWrapper"
proof -
  have plan: "tp_argv (resolveExecWrapperTrustPlan posix_env [''nice'', ''-n'', ''5'', ''rg'', ''a'']) = [''rg'', ''a'']" by code_simp
  have "tp_blockedWrapper (resolveExecWrapperTrustPlan posix_env [''nice'', ''-n'', ''5'', ''rg'', ''a'']) = None" by code_simp
  with trust_plan_exposes_command [of posix_env "[''nice'', ''-n'', ''5'', ''rg'', ''a'']"] show ?thesis unfolding plan by (simp only: simp_thms)
qed


definition head_resolution :: exec_resolution where
  "head_resolution = \<lparr>er_rawExecutable = ''head'', er_resolvedPath = Some ''/bin/head'', er_resolvedRealPath = None,
     er_executableName = ''head''\<rparr>"

definition head_profile :: safe_bin_profile where
  "head_profile = \<lparr>sb_minPositional = None, sb_maxPositional = Some 0, sb_allowedValueFlags = [''-n''], sb_deniedFlags = [],
     sb_knownLongFlags = [], sb_longFlagPrefixMap = []\<rparr>"


text \<open>A pattern covers the path that it is, and one without two stars in a row never reaches into another
  directory level: what it matches has as many slashes as the pattern.\<close>

theorem patterns_stay_at_their_level:
  "glob_match (glob_tokens p) p \<and>
   (\<not> double_star p \<longrightarrow> glob_match (glob_tokens p) s \<longrightarrow>
    length (filter (\<lambda>c. c = CHR ''/'') s) = length (filter (\<lambda>c. c = CHR ''/'') p))"
proof -
  have "double_star p \<or> \<not> glob_match (glob_tokens p) s \<or>
      length (filter (\<lambda>c. c = CHR ''/'') s) = length (filter (\<lambda>c. c = CHR ''/'') p)"
    using glob_slashes [OF double_star_tokens] by (auto simp: token_slashes_text slashes_def)
  with glob_self show ?thesis by blast
qed

theorem patterns_stay_at_their_level_witness:
  "glob_match (glob_tokens ''/opt/*/r?'') ''/opt/bin/rg'' \<and> glob_match (glob_tokens ''/opt/*/r?'') ''/opt/*/r?'' \<and>
   length (filter (\<lambda>c. c = CHR ''/'') ''/opt/bin/rg'') = length (filter (\<lambda>c. c = CHR ''/'') ''/opt/*/r?'')"
proof -
  have "\<not> double_star ''/opt/*/r?''" "glob_match (glob_tokens ''/opt/*/r?'') ''/opt/bin/rg''" by code_simp+
  then show ?thesis using patterns_stay_at_their_level [of "''/opt/*/r?''" "''/opt/bin/rg''"] by blast
qed

subsection \<open>The file of approvals\<close>

text \<open>C28: Normalising the file puts it into normal form (trimmed known policy values, entries with an id and a
  pattern, the legacy agent moved), and normalising it again changes nothing.\<close>

theorem approvals_normal_form:
  assumes "\<forall>i. uuid i \<noteq> []" and "normalizeExecApprovals uuid n file = (f, n')"
  shows "normal_file f \<and> normalizeExecApprovals uuid' m f = (f, m)"
  using normalize_normal [OF assms] normalize_fixed by blast

theorem approvals_normal_form_witness:
  "normal_file (fst (normalizeExecApprovals sample_uuid 0 sample_file))"
  using approvals_normal_form [of sample_uuid 0 sample_file "fst (normalizeExecApprovals sample_uuid 0 sample_file)"]
  by (metis sample_uuid_def append_is_Nil_conv list.distinct(1) prod.collapse)

text \<open>The policy of an agent, after the file has been loaded and saved: each field is that of the agent, else of
  the wild card, else of the defaults, else of the caller; the allowlist is that of the wild card and then
  that of the agent.\<close>

theorem policy_precedence:
  fixes agentId :: "string option" and m :: nat and overrides :: default_overrides
  assumes "\<forall>i. uuid i \<noteq> []" and "ensureExecApprovals env uuid token n disk = (f, n')"
  defines "loaded \<equiv> fst (loadExecApprovals uuid n disk)" and "key \<equiv> nullish agentId DEFAULT_AGENT_ID"
    and "ra \<equiv> resolveExecApprovalsFromFile uuid m f agentId overrides"
  shows "rp_security (ra_agent ra) = first_of [isExecSecurity (po_security (agent_of loaded key)),
      isExecSecurity (po_security (agent_of loaded ''*'')), isExecSecurity (po_security (af_defaults loaded)),
      do_security overrides] SecFull \<and>
    rp_ask (ra_agent ra) = first_of [isExecAsk (po_ask (agent_of loaded key)), isExecAsk (po_ask (agent_of loaded ''*'')),
      isExecAsk (po_ask (af_defaults loaded)), do_ask overrides] AskOff \<and>
    rp_askFallback (ra_agent ra) = first_of [isExecSecurity (po_askFallback (agent_of loaded key)),
      isExecSecurity (po_askFallback (agent_of loaded ''*'')), isExecSecurity (po_askFallback (af_defaults loaded)),
      do_askFallback overrides] SecFull \<and>
    ra_allowlist ra = items_entries (ag_allowlist (agent_of loaded ''*'')) @ items_entries (ag_allowlist (agent_of loaded key))"
proof -
  note policies = ensure_policies [OF assms(1,2), folded loaded_def]
  have agents: "agent_of f k = agent_of loaded k" for k using policies(2) by (rule agent_of_cong)
  from resolved_precedence [OF policies(1) key_def [THEN meta_eq_to_obj_eq] ra_def [THEN meta_eq_to_obj_eq]]
  show ?thesis by (simp only: agents policies(3))
qed

theorem policy_precedence_witness:
  "rp_security (ra_agent (resolveExecApprovalsFromFile sample_uuid 0
     (fst (ensureExecApprovals posix_env sample_uuid ''t'' 0 (VersionedFile 1 sample_file))) None no_overrides)) = SecAllowlist"
proof -
  obtain f m where f: "ensureExecApprovals posix_env sample_uuid ''t'' 0 (VersionedFile 1 sample_file) = (f, m)" by (metis surj_pair)
  have uuid: "\<forall>i. sample_uuid i \<noteq> []" by (simp add: sample_uuid_def)
  have "first_of [isExecSecurity (po_security (agent_of (fst (loadExecApprovals sample_uuid 0 (VersionedFile 1 sample_file)))
      (nullish None DEFAULT_AGENT_ID))),
      isExecSecurity (po_security (agent_of (fst (loadExecApprovals sample_uuid 0 (VersionedFile 1 sample_file))) ''*'')),
      isExecSecurity (po_security (af_defaults (fst (loadExecApprovals sample_uuid 0 (VersionedFile 1 sample_file))))),
      do_security no_overrides] SecFull = SecAllowlist" by code_simp
  with policy_precedence [OF uuid f, where agentId = None and m = 0 and overrides = no_overrides] f show ?thesis by simp
qed


definition head_segment :: exec_segment where
  "head_segment = make_segment posix_env None None ''head a'' [''head'', ''a'']"

definition sample_ay :: always_ctx where
  "sample_ay = \<lparr>ay_cwd = None, ay_env = None, ay_platform = Some ''linux'', ay_strictInlineEval = False\<rparr>"

definition remembered_file :: approvals_file where
  "remembered_file = fst (snd (persistAllowAlwaysPatterns posix_env sample_uuid 5 sample_ay (sample_file, False) None [head_segment] 0))"

lemma head_plain: "plain_command posix_env ''/bin/head'' head_segment"
proof -
  obtain r where r: "sg_resolution head_segment = Some r" "\<not> cr_policyBlocked r \<and> cr_policy r = cr_execution r \<and>
      er_resolvedPath (cr_execution r) = Some ''/bin/head''"
  proof (cases "sg_resolution head_segment")
    case None
    have "sg_resolution head_segment \<noteq> None" by code_simp
    with None show ?thesis by simp
  next
    case (Some r)
    have "case sg_resolution head_segment of None \<Rightarrow> False | Some r \<Rightarrow> \<not> cr_policyBlocked r \<and> cr_policy r = cr_execution r \<and>
        er_resolvedPath (cr_execution r) = Some ''/bin/head''" by code_simp
    with Some that show ?thesis by simp
  qed
  have "let plan = resolveExecWrapperTrustPlan posix_env (sg_argv head_segment)
      in tp_argv plan = sg_argv head_segment \<and> tp_blockedWrapper plan = None \<and> \<not> tp_shellWrapperExecutable plan" by code_simp
  moreover have "js_trim ''/bin/head'' = ''/bin/head'' \<and> has_path ''/bin/head'' \<and>
      \<not> isInterpreterLikeAllowlistPattern posix_env (Some ''/bin/head'') \<and> inline_command posix_env head_segment = None" by code_simp
  ultimately show ?thesis using r by (simp add: plain_command_def)
qed


end
