(* ===== verification/Exec_Findings.thy ===== *)
theory Exec_Findings
  imports Exec_Samples
begin

text \<open>What the execution approvals let through or lose on particular inputs.\<close>

subsection \<open>A comment hides the lines that follow\<close>

text \<open>Both splitters stop at a comment, so what follows the line of the comment is not analysed. The node host
  runs a shell command as it is given, with the hidden line.\<close>

definition hidden_line :: string where
  "hidden_line = ''rg a # x'' @ [LF] @ ''rm b''"

definition hidden_rq :: run_request where
  "hidden_rq = (sample_rq [''/bin/sh'', ''-c'', hidden_line])\<lparr>rq_shellPayload := Some hidden_line\<rparr>"

lemma comment_hides_line:
  "case evaluateShellAllowlist posix_env sample_cx hidden_line of
     None \<Rightarrow> False | Some r \<Rightarrow> sv_satisfied (sa_evaluation r) \<and> map sg_argv (sa_segments r) = [[''rg'', ''a'']]"
  by code_simp

lemma node_runs_hidden_line:
  "rp_security (ra_agent sample_approvals) = SecAllowlist \<and> rq_decision hidden_rq = None \<and> \<not> rq_approved hidden_rq \<and>
   (case evaluateSystemRunPolicyPhase posix_env sample_nc sample_approvals hidden_rq of
      Inl _ \<Rightarrow> False
    | Inr ph \<Rightarrow> fst (executeSystemRunPhase posix_env sample_uuid 5 sample_nc sample_approvals hidden_rq ph 0) =
        [''/bin/sh'', ''-c'', hidden_line])"
  by code_simp

subsection \<open>Inline programs behind combined flags\<close>

lemma combined_flag_not_inline:
  "detectInterpreterInlineEvalArgv posix_env [''perl'', ''-e'', ''x''] \<noteq> None \<and>
   detectInterpreterInlineEvalArgv posix_env [''perl'', ''-ne'', ''x''] = None"
  by code_simp

text \<open>The arguments of a script are taken for an inline command.\<close>

lemma script_arguments_as_inline:
  "im_command (resolveInlineCommandMatch [''sh'', ''evil.sh'', ''-c'', ''ls''] [''-c''] True) = Some ''ls''"
  by code_simp

subsection \<open>The file of approvals\<close>

definition pattern_entry :: "string \<Rightarrow> string option \<Rightarrow> allow_entry" where
  "pattern_entry entryId argPattern = rg_entry\<lparr>ae_id := Some entryId, ae_argPattern := argPattern\<rparr>"

definition two_entries :: approvals_file where
  "two_entries = sample_file\<lparr>af_agents := [(''main'', main_agent\<lparr>ag_allowlist :=
     Some [ItemEntry (pattern_entry ''1'' None), ItemEntry (pattern_entry ''2'' (Some ''^x$''))]\<rparr>)]\<rparr>"

text \<open>An entry without arguments is narrowed when another entry of the same pattern is marked.\<close>

lemma entry_of_same_pattern_overwritten:
  "case addAllowlistEntry sample_uuid 5 two_entries None ''/bin/rg'' (Some ''^x$'') True 0 of
     None \<Rightarrow> False
   | Some f \<Rightarrow> map (\<lambda>e. (ae_id e, ae_argPattern e)) (items_entries (ag_allowlist (agent_of f ''main''))) =
       [(Some ''1'', Some ''^x$''), (Some ''2'', Some ''^x$'')]"
  by code_simp

text \<open>A file that cannot be read gives full security without asking.\<close>

lemma unreadable_file_allows:
  "let ra = resolveExecApprovalsFromFile sample_uuid 0 (fst (loadExecApprovals sample_uuid 0 BadFile)) None no_overrides
   in rp_security (ra_agent ra) = SecFull \<and> rp_ask (ra_agent ra) = AskOff"
  by code_simp

text \<open>The policy of the caller counts only where the file says nothing.\<close>

lemma file_before_caller:
  "rp_security (ra_agent (resolveExecApprovalsFromFile sample_uuid 0
     (sample_file\<lparr>af_defaults := no_policy\<lparr>po_security := JString ''full''\<rparr>, af_agents := []\<rparr>) None
     (no_overrides\<lparr>do_security := Some SecDeny\<rparr>))) = SecFull"
  by code_simp

subsection \<open>Time-outs\<close>

text \<open>A command with a here-document needs an explicit approval, but it runs when nobody answers.\<close>

lemma heredoc_runs_after_timeout:
  assumes "requires_heredoc_approval hc ge" and "hc_askFallback hc = SecAllowlist" and "ge_inlineHit ge = None"
  shows "gateway_requires_ask hc ge" and "fst (gateway_decided env uuid now gp hc ge n None) = GatewayRun (ge_enforced ge)"
  using assms by (auto simp: requires_heredoc_approval_def gateway_requires_ask_def gateway_decided_def gateway_verdict_def
      resolveBaseExecApprovalDecision_def base_def enforceStrictInlineEvalApprovalBoundary_def str_truthy_def Let_def)

end
