(* ===== verification/Bridge.thy ===== *)
theory Bridge
  imports Task_Types Js_Number
begin

text \<open>
  The client of the engine: src/brain/src/deepclaw-bridge/index.ts.

  The sockets of the package ws are the environment: a socket is its URL, its ready state, the promise
  of the \<open>connect\<close> that made it and the promises whose \<open>once('message')\<close> handlers are registered
  on it, in order. What happens on a socket (\<open>open\<close>, \<open>error\<close>, \<open>message\<close>, \<open>close\<close>) and the firing of a
  timer are events; an event that the package does not emit in the state of its socket changes nothing.
  Promises are numbered by the calls; \<open>br_settled\<close> holds what became of each. A message is given by
  what \<open>JSON.parse\<close> makes of it, and is absent when that throws. Log calls are left out.
\<close>

subsection \<open>Requests and results\<close>

datatype bridge_request =
    BashCommand string "string option"
  | ReadFile string
  | WriteFile string string
  | EditFile string string string
  | GrepSearch string string bool
  | GlobSearch string string
  | GitContext string

definition typed :: "string \<Rightarrow> (string \<times> json_value) list \<Rightarrow> json_value" where
  "typed t fs = JsonObject [(''type'', JsonString t), (''data'', JsonObject fs)]"

text \<open>The value of a request; \<open>JSON.stringify\<close> leaves out a field that is undefined.\<close>

fun request_json :: "bridge_request \<Rightarrow> json_value" where
  "request_json (BashCommand command cwd) = typed ''BashCommand''
     ((''command'', JsonString command) # (case cwd of None \<Rightarrow> [] | Some d \<Rightarrow> [(''cwd'', JsonString d)]))"
| "request_json (ReadFile path) = typed ''ReadFile'' [(''path'', JsonString path)]"
| "request_json (WriteFile path content) = typed ''WriteFile'' [(''path'', JsonString path), (''content'', JsonString content)]"
| "request_json (EditFile path old new) = typed ''EditFile''
     [(''path'', JsonString path), (''old_string'', JsonString old), (''new_string'', JsonString new)]"
| "request_json (GrepSearch pattern path cs) = typed ''GrepSearch''
     [(''pattern'', JsonString pattern), (''path'', JsonString path), (''case_sensitive'', JsonBool cs)]"
| "request_json (GlobSearch pattern path) = typed ''GlobSearch'' [(''pattern'', JsonString pattern), (''path'', JsonString path)]"
| "request_json (GitContext path) = typed ''GitContext'' [(''path'', JsonString path)]"

datatype bridge_error = NotConnected | BadUrl | ConnectionError string | NotJson | UnexpectedType "json_value option" | JsTypeError

text \<open>Reading a field of a value that came from JSON; \<open>None\<close> is undefined.\<close>

fun json_member :: "json_value option \<Rightarrow> string \<Rightarrow> bridge_error + json_value option" where
  "json_member None k = Inl JsTypeError"
| "json_member (Some JsonNull) k = Inl JsTypeError"
| "json_member (Some (JsonObject fs)) k = Inr (map_of fs k)"
| "json_member (Some _) k = Inr None"

definition bind_sum :: "'e + 'a \<Rightarrow> ('a \<Rightarrow> 'e + 'b) \<Rightarrow> 'e + 'b" where
  "bind_sum x f = (case x of Inl e \<Rightarrow> Inl e | Inr a \<Rightarrow> f a)"

lemma bind_sum_simps [simp]: "bind_sum (Inl e) f = Inl e" "bind_sum (Inr a) f = f a"
  by (simp_all add: bind_sum_def)

definition expect_type ::
  "string \<Rightarrow> json_value \<Rightarrow> (json_value option \<Rightarrow> bridge_error + json_value option) \<Rightarrow> bridge_error + json_value option" where
  "expect_type t response result =
     bind_sum (json_member (Some response) ''type'') (\<lambda>ty.
       if ty = Some (JsonString t) then result (Some response) else Inl (UnexpectedType ty))"

definition data_of :: "json_value option \<Rightarrow> bridge_error + json_value option" where
  "data_of response = json_member response ''data''"

definition data_field :: "string \<Rightarrow> json_value option \<Rightarrow> bridge_error + json_value option" where
  "data_field k response = bind_sum (data_of response) (\<lambda>d. json_member d k)"

text \<open>What a method of the client returns for the response that its request got.\<close>

fun method_result :: "bridge_request \<Rightarrow> json_value \<Rightarrow> bridge_error + json_value option" where
  "method_result (BashCommand _ _) response = expect_type ''BashResult'' response data_of"
| "method_result (ReadFile _) response = expect_type ''FileContent'' response (data_field ''content'')"
| "method_result (WriteFile _ _) response = expect_type ''WriteSuccess'' response (\<lambda>_. Inr None)"
| "method_result (EditFile _ _ _) response = expect_type ''EditSuccess'' response (\<lambda>_. Inr None)"
| "method_result (GrepSearch _ _ _) response = expect_type ''GrepResults'' response (data_field ''matches'')"
| "method_result (GlobSearch _ _) response = expect_type ''GlobResults'' response (data_field ''files'')"
| "method_result (GitContext _) response = expect_type ''GitContext'' response data_of"

subsection \<open>The client\<close>

datatype ready_state = CONNECTING | OPEN | CLOSING | CLOSED

record socket =
  so_url :: string
  so_state :: ready_state
  so_connect :: nat
  so_waiters :: "nat list"

text \<open>A promise is settled with nothing (\<open>connect\<close>), a response or an error.\<close>

datatype settlement = Connected | Response json_value | Rejected bridge_error

record bridge =
  br_host :: string
  br_port :: nat
  br_ws :: "nat option"
  br_reconnectAttempts :: nat
  br_sockets :: "socket list"
  br_timers :: "int list"
  br_calls :: nat
  br_sent :: "(nat \<times> json_value) list"
  br_settled :: "(nat, settlement) js_map"

definition maxReconnectAttempts :: nat where
  "maxReconnectAttempts = 5"

definition reconnectDelay :: int where
  "reconnectDelay = 1000"

text \<open>The defaults replace an absent or falsy value.\<close>

definition new_bridge :: "string option \<Rightarrow> nat option \<Rightarrow> bridge" where
  "new_bridge host port = \<lparr>br_host = str_or (nullish host []) ''127.0.0.1'', br_port = (if port = None \<or> port = Some 0 then 9000 else the port),
     br_ws = None, br_reconnectAttempts = 0, br_sockets = [], br_timers = [], br_calls = 0, br_sent = [], br_settled = []\<rparr>"

text \<open>A promise is settled once.\<close>

definition settle :: "nat \<Rightarrow> settlement \<Rightarrow> bridge \<Rightarrow> bridge" where
  "settle p s st = (if jm_get (br_settled st) p = None then st\<lparr>br_settled := br_settled st @ [(p, s)]\<rparr> else st)"

definition bridge_url :: "bridge \<Rightarrow> string" where
  "bridge_url st = ''ws://'' @ br_host st @ '':'' @ nat_digits (br_port st)"

definition connect :: "(string \<Rightarrow> bool) \<Rightarrow> bridge \<Rightarrow> bridge" where
  "connect valid_url st =
     (let p = br_calls st; st1 = st\<lparr>br_calls := Suc p\<rparr>
      in if valid_url (bridge_url st)
         then st1\<lparr>br_ws := Some (length (br_sockets st)), br_sockets := br_sockets st @
           [\<lparr>so_url = bridge_url st, so_state = CONNECTING, so_connect = p, so_waiters = []\<rparr>]\<rparr>
         else settle p (Rejected BadUrl) st1)"

definition attemptReconnect :: "bridge \<Rightarrow> bridge" where
  "attemptReconnect st =
     (if br_reconnectAttempts st \<ge> maxReconnectAttempts then st
      else (let n = Suc (br_reconnectAttempts st)
        in st\<lparr>br_reconnectAttempts := n, br_timers := br_timers st @ [reconnectDelay * 2 ^ (n - 1)]\<rparr>))"

definition set_state :: "nat \<Rightarrow> ready_state \<Rightarrow> bridge \<Rightarrow> bridge" where
  "set_state i s st = st\<lparr>br_sockets := (br_sockets st)[i := (br_sockets st ! i)\<lparr>so_state := s\<rparr>]\<rparr>"

definition set_waiters :: "nat \<Rightarrow> nat list \<Rightarrow> bridge \<Rightarrow> bridge" where
  "set_waiters i ps st = st\<lparr>br_sockets := (br_sockets st)[i := (br_sockets st ! i)\<lparr>so_waiters := ps\<rparr>]\<rparr>"

definition ready :: "bridge \<Rightarrow> nat \<Rightarrow> ready_state option" where
  "ready st i = (if i < length (br_sockets st) then Some (so_state (br_sockets st ! i)) else None)"

definition sendRequest :: "bridge_request \<Rightarrow> bridge \<Rightarrow> bridge" where
  "sendRequest request st =
     (let p = br_calls st; st1 = st\<lparr>br_calls := Suc p\<rparr>
      in case br_ws st of
           None \<Rightarrow> settle p (Rejected NotConnected) st1
         | Some i \<Rightarrow>
             (if ready st i \<noteq> Some OPEN then settle p (Rejected NotConnected) st1
              else set_waiters i (so_waiters (br_sockets st ! i) @ [p]) (st1\<lparr>br_sent := br_sent st @ [(i, request_json request)]\<rparr>)))"

definition disconnect :: "bridge \<Rightarrow> bridge" where
  "disconnect st =
     (case br_ws st of
        None \<Rightarrow> st
      | Some i \<Rightarrow> (if ready st i \<in> {Some CONNECTING, Some OPEN} then set_state i CLOSING st else st)\<lparr>br_ws := None\<rparr>)"

subsection \<open>Handlers\<close>

definition on_open :: "nat \<Rightarrow> bridge \<Rightarrow> bridge" where
  "on_open i st = settle (so_connect (br_sockets st ! i)) Connected ((set_state i OPEN st)\<lparr>br_reconnectAttempts := 0\<rparr>)"

definition on_error :: "nat \<Rightarrow> string \<Rightarrow> bridge \<Rightarrow> bridge" where
  "on_error i e st = settle (so_connect (br_sockets st ! i)) (Rejected (ConnectionError e)) st"

definition on_close :: "nat \<Rightarrow> bridge \<Rightarrow> bridge" where
  "on_close i st = attemptReconnect (set_state i CLOSED st)"

definition oneTimeHandler :: "json_value option \<Rightarrow> nat \<Rightarrow> bridge \<Rightarrow> bridge" where
  "oneTimeHandler message p st = settle p (case message of None \<Rightarrow> Rejected NotJson | Some r \<Rightarrow> Response r) st"

text \<open>An event calls all the handlers that are registered; those registered with \<open>once\<close> are removed.\<close>

definition on_message :: "nat \<Rightarrow> json_value option \<Rightarrow> bridge \<Rightarrow> bridge" where
  "on_message i message st = fold (oneTimeHandler message) (so_waiters (br_sockets st ! i)) (set_waiters i [] st)"

datatype bridge_event =
    Connect | Send bridge_request | Disconnect
  | SocketOpen nat | SocketError nat string | SocketMessage nat "json_value option" | SocketClose nat
  | TimerFires nat

definition drop_at :: "nat \<Rightarrow> 'a list \<Rightarrow> 'a list" where
  "drop_at k xs = take k xs @ drop (Suc k) xs"

fun bridge_step :: "(string \<Rightarrow> bool) \<Rightarrow> bridge \<Rightarrow> bridge_event \<Rightarrow> bridge" where
  "bridge_step valid st Connect = connect valid st"
| "bridge_step valid st (Send r) = sendRequest r st"
| "bridge_step valid st Disconnect = disconnect st"
| "bridge_step valid st (SocketOpen i) = (if ready st i = Some CONNECTING then on_open i st else st)"
| "bridge_step valid st (SocketError i e) = (if ready st i \<in> {None, Some CLOSED} then st else on_error i e st)"
| "bridge_step valid st (SocketMessage i m) = (if ready st i \<in> {Some OPEN, Some CLOSING} then on_message i m st else st)"
| "bridge_step valid st (SocketClose i) = (if ready st i \<in> {None, Some CLOSED} then st else on_close i st)"
| "bridge_step valid st (TimerFires k) =
     (if k < length (br_timers st) then connect valid (st\<lparr>br_timers := drop_at k (br_timers st)\<rparr>) else st)"

definition bridge_run :: "(string \<Rightarrow> bool) \<Rightarrow> bridge \<Rightarrow> bridge_event list \<Rightarrow> bridge" where
  "bridge_run valid = foldl (bridge_step valid)"

text \<open>What the caller of a method sees: nothing yet, or its result.\<close>

definition method_outcome :: "bridge_request \<Rightarrow> settlement \<Rightarrow> bridge_error + json_value option" where
  "method_outcome r s = (case s of Response v \<Rightarrow> method_result r v | Rejected e \<Rightarrow> Inl e | Connected \<Rightarrow> Inr None)"

end
