(* ===== verification/Bridge_Props.thy ===== *)
theory Bridge_Props
  imports Bridge
begin

text \<open>
  The client of the engine: every call is accounted for, the attempts to reconnect are bounded, and
  which response a request gets.
\<close>

subsection \<open>Operations as changes of the settlements and of the sockets\<close>

lemma settle_frame [simp]:
  "br_sockets (settle p s st) = br_sockets st" "br_calls (settle p s st) = br_calls st" "br_ws (settle p s st) = br_ws st"
  "br_timers (settle p s st) = br_timers st" "br_reconnectAttempts (settle p s st) = br_reconnectAttempts st"
  "br_sent (settle p s st) = br_sent st"
  by (simp_all add: settle_def)

lemma jm_get_snoc: "jm_get (m @ [(p, s)]) q = (case jm_get m q of None \<Rightarrow> if p = q then Some s else None | Some v \<Rightarrow> Some v)"
  by (induction m) auto

lemma settle_get [simp]:
  "jm_get (br_settled (settle p s st)) q =
     (if q = p \<and> jm_get (br_settled st) p = None then Some s else jm_get (br_settled st) q)"
  by (auto simp: settle_def jm_get_snoc split: option.splits)

lemma fold_handlers_frame [simp]:
  "br_sockets (fold (oneTimeHandler m) ps st) = br_sockets st" "br_calls (fold (oneTimeHandler m) ps st) = br_calls st"
  "br_ws (fold (oneTimeHandler m) ps st) = br_ws st" "br_timers (fold (oneTimeHandler m) ps st) = br_timers st"
  "br_reconnectAttempts (fold (oneTimeHandler m) ps st) = br_reconnectAttempts st"
  by (induction ps arbitrary: st) (simp_all add: oneTimeHandler_def)

definition answer_of :: "json_value option \<Rightarrow> settlement" where
  "answer_of m = (case m of None \<Rightarrow> Rejected NotJson | Some r \<Rightarrow> Response r)"

lemma fold_handlers_get [simp]:
  "jm_get (br_settled (fold (oneTimeHandler m) ps st)) q =
     (if q \<in> set ps \<and> jm_get (br_settled st) q = None then Some (answer_of m) else jm_get (br_settled st) q)"
  by (induction ps arbitrary: st) (auto simp: oneTimeHandler_def answer_of_def split: option.splits)

subsection \<open>Every call is accounted for\<close>

text \<open>The promises that a socket can still settle: its \<open>connect\<close> and the requests that wait on it.\<close>

definition waiting :: "bridge \<Rightarrow> nat list" where
  "waiting st = concat (map so_waiters (br_sockets st))"

definition connecting :: "bridge \<Rightarrow> nat list" where
  "connecting st = map so_connect (br_sockets st)"

definition settled :: "bridge \<Rightarrow> nat \<Rightarrow> bool" where
  "settled st p \<longleftrightarrow> jm_get (br_settled st) p \<noteq> None"

definition accounted :: "nat \<Rightarrow> nat list \<Rightarrow> nat list \<Rightarrow> nat set \<Rightarrow> bool" where
  "accounted n ws cs ss \<longleftrightarrow> distinct (ws @ cs) \<and> {..<n} = set ws \<union> set cs \<union> ss \<and> set ws \<inter> ss = {}"

lemma accounted_new:
  assumes "accounted n ws cs ss"
  shows "n \<notin> set ws" "n \<notin> set cs" "n \<notin> ss"
  using assms unfolding accounted_def by (metis UnCI lessThan_iff less_irrefl)+

lemma accounted_wait: "accounted n (xs @ ws @ ys) cs ss \<Longrightarrow> accounted (Suc n) (xs @ (ws @ [n]) @ ys) cs ss"
  using accounted_new [of n "xs @ ws @ ys" cs ss] by (auto simp: accounted_def lessThan_Suc)

lemma accounted_connect: "accounted n ws cs ss \<Longrightarrow> accounted (Suc n) ws (cs @ [n]) ss"
  using accounted_new [of n ws cs ss] by (auto simp: accounted_def lessThan_Suc)

lemma accounted_settle_new: "accounted n ws cs ss \<Longrightarrow> accounted (Suc n) ws cs (insert n ss)"
  using accounted_new [of n ws cs ss] by (auto simp: accounted_def lessThan_Suc)

lemma accounted_settle: "accounted n ws cs ss \<Longrightarrow> p \<in> set cs \<Longrightarrow> accounted n ws cs (insert p ss)"
  by (auto simp: accounted_def)

lemma accounted_answer: "accounted n (xs @ ws @ ys) cs ss \<Longrightarrow> accounted n (xs @ ys) cs (set ws \<union> ss)"
  by (auto simp: accounted_def)

definition bridge_ok :: "bridge \<Rightarrow> bool" where
  "bridge_ok st \<longleftrightarrow> accounted (br_calls st) (waiting st) (connecting st) (Collect (settled st)) \<and>
     (\<forall>i. br_ws st = Some i \<longrightarrow> i < length (br_sockets st)) \<and>
     br_reconnectAttempts st \<le> maxReconnectAttempts"

lemma settled_settle [simp]: "settled (settle p s st) q \<longleftrightarrow> q = p \<or> settled st q"
  by (auto simp: settled_def)

lemma settled_handlers [simp]:
  "settled (fold (oneTimeHandler m) ps st) q \<longleftrightarrow> q \<in> set ps \<or> settled st q"
  by (auto simp: settled_def)

lemma Collect_settled_handlers [simp]:
  "Collect (settled (fold (oneTimeHandler m) ps st)) = set ps \<union> Collect (settled st)"
  by auto

lemma Collect_settled_settle [simp]: "Collect (settled (settle p s st)) = insert p (Collect (settled st))"
  by auto

lemma waiting_connecting_frame [simp]:
  "waiting (settle p s st) = waiting st" "connecting (settle p s st) = connecting st"
  by (simp_all add: waiting_def connecting_def)

lemma set_state_frame [simp]:
  "waiting (set_state i s st) = waiting st" "connecting (set_state i s st) = connecting st"
  "settled (set_state i s st) = settled st" "br_calls (set_state i s st) = br_calls st" "br_ws (set_state i s st) = br_ws st"
  "br_timers (set_state i s st) = br_timers st" "br_reconnectAttempts (set_state i s st) = br_reconnectAttempts st"
  "length (br_sockets (set_state i s st)) = length (br_sockets st)"
proof -
  have upd: "map f (xs[i := x]) = map f xs" if "f x = f (xs ! i)" for f :: "socket \<Rightarrow> 'b" and xs x
    using that by (cases "i < length xs") (simp_all add: map_update list_update_same_conv list_update_beyond)
  show "waiting (set_state i s st) = waiting st" "connecting (set_state i s st) = connecting st"
    by (simp_all add: waiting_def connecting_def set_state_def upd)
qed (simp_all add: set_state_def settled_def fun_eq_iff)

lemma set_waiters_frame [simp]:
  "connecting (set_waiters i ps st) = connecting st"
  "settled (set_waiters i ps st) = settled st" "br_calls (set_waiters i ps st) = br_calls st" "br_ws (set_waiters i ps st) = br_ws st"
  "br_timers (set_waiters i ps st) = br_timers st" "br_reconnectAttempts (set_waiters i ps st) = br_reconnectAttempts st"
  "length (br_sockets (set_waiters i ps st)) = length (br_sockets st)"
  "br_settled (set_waiters i ps st) = br_settled st"
proof -
  show "connecting (set_waiters i ps st) = connecting st"
    by (cases "i < length (br_sockets st)") (simp_all add: connecting_def set_waiters_def map_update list_update_same_conv list_update_beyond)
qed (simp_all add: set_waiters_def settled_def fun_eq_iff)

text \<open>The waiting promises around those of one socket.\<close>

lemma waiting_split:
  assumes "i < length (br_sockets st)"
  obtains xs ys where "waiting st = xs @ so_waiters (br_sockets st ! i) @ ys"
    and "\<And>ps st'. br_sockets st' = br_sockets st \<Longrightarrow> waiting (set_waiters i ps st') = xs @ ps @ ys"
proof
  show "waiting st = concat (map so_waiters (take i (br_sockets st))) @ so_waiters (br_sockets st ! i) @
      concat (map so_waiters (drop (Suc i) (br_sockets st)))"
    using id_take_nth_drop [OF assms] unfolding waiting_def by (metis concat.simps(2) concat_append list.simps(9) map_append)
  show "waiting (set_waiters i ps st') = concat (map so_waiters (take i (br_sockets st))) @ ps @
      concat (map so_waiters (drop (Suc i) (br_sockets st)))" if "br_sockets st' = br_sockets st" for ps st'
    using assms that by (simp add: waiting_def set_waiters_def upd_conv_take_nth_drop)
qed

lemma ready_range: "ready st i = Some s \<Longrightarrow> i < length (br_sockets st)"
  by (simp add: ready_def split: if_splits)

lemma waiting_ws [simp]: "waiting (st\<lparr>br_ws := w\<rparr>) = waiting st" "waiting (st\<lparr>br_timers := t\<rparr>) = waiting st"
    "waiting (st\<lparr>br_calls := n\<rparr>) = waiting st" "waiting (st\<lparr>br_reconnectAttempts := k\<rparr>) = waiting st"
    "waiting (st\<lparr>br_sent := l\<rparr>) = waiting st"
  by (simp_all add: waiting_def)

lemma connecting_ws [simp]: "connecting (st\<lparr>br_ws := w\<rparr>) = connecting st" "connecting (st\<lparr>br_timers := t\<rparr>) = connecting st"
    "connecting (st\<lparr>br_calls := n\<rparr>) = connecting st" "connecting (st\<lparr>br_reconnectAttempts := k\<rparr>) = connecting st"
    "connecting (st\<lparr>br_sent := l\<rparr>) = connecting st"
  by (simp_all add: connecting_def)

lemma settled_ws [simp]: "settled (st\<lparr>br_ws := w\<rparr>) = settled st" "settled (st\<lparr>br_timers := t\<rparr>) = settled st"
    "settled (st\<lparr>br_calls := n\<rparr>) = settled st" "settled (st\<lparr>br_reconnectAttempts := k\<rparr>) = settled st"
    "settled (st\<lparr>br_sent := l\<rparr>) = settled st" "settled (st\<lparr>br_sockets := ss\<rparr>) = settled st"
  by (simp_all add: settled_def fun_eq_iff)

lemma bridge_ok_reject:
  "bridge_ok st \<Longrightarrow> bridge_ok (settle (br_calls st) s (st\<lparr>br_calls := Suc (br_calls st)\<rparr>))"
  by (simp add: bridge_ok_def accounted_settle_new)

lemma bridge_ok_connect [inv_intros]:
  assumes "bridge_ok st"
  shows "bridge_ok (connect valid st)"
proof (cases "valid (bridge_url st)")
  case True
  then have "waiting (connect valid st) = waiting st" "connecting (connect valid st) = connecting st @ [br_calls st]"
      "settled (connect valid st) = settled st" "br_calls (connect valid st) = Suc (br_calls st)"
      "br_ws (connect valid st) = Some (length (br_sockets st))" "length (br_sockets (connect valid st)) = Suc (length (br_sockets st))"
      "br_reconnectAttempts (connect valid st) = br_reconnectAttempts st"
    by (simp_all add: connect_def waiting_def connecting_def Let_def settled_def fun_eq_iff)
  with assms show ?thesis by (simp add: bridge_ok_def accounted_connect)
next
  case False
  then show ?thesis using bridge_ok_reject [OF assms] by (simp add: connect_def Let_def)
qed

lemma bridge_ok_send [inv_intros]:
  assumes "bridge_ok st"
  shows "bridge_ok (sendRequest r st)"
proof (cases "\<exists>i. br_ws st = Some i \<and> ready st i = Some OPEN")
  case True
  then obtain i where i: "br_ws st = Some i" "ready st i = Some OPEN" by blast
  obtain xs ys where split: "waiting st = xs @ so_waiters (br_sockets st ! i) @ ys"
      "\<And>ps st'. br_sockets st' = br_sockets st \<Longrightarrow> waiting (set_waiters i ps st') = xs @ ps @ ys"
    using waiting_split [OF ready_range [OF i(2)]] by blast
  have "waiting (sendRequest r st) = xs @ (so_waiters (br_sockets st ! i) @ [br_calls st]) @ ys"
    using i by (simp add: sendRequest_def Let_def split(2))
  moreover have "connecting (sendRequest r st) = connecting st" "settled (sendRequest r st) = settled st"
      "br_calls (sendRequest r st) = Suc (br_calls st)" "br_ws (sendRequest r st) = br_ws st"
      "length (br_sockets (sendRequest r st)) = length (br_sockets st)"
      "br_reconnectAttempts (sendRequest r st) = br_reconnectAttempts st"
    using i by (simp_all add: sendRequest_def Let_def)
  moreover have "accounted (Suc (br_calls st)) (xs @ (so_waiters (br_sockets st ! i) @ [br_calls st]) @ ys) (connecting st) (Collect (settled st))"
    using assms accounted_wait unfolding bridge_ok_def split(1) by blast
  ultimately show ?thesis using assms by (simp add: bridge_ok_def)
next
  case False
  then have "sendRequest r st = settle (br_calls st) (Rejected NotConnected) (st\<lparr>br_calls := Suc (br_calls st)\<rparr>)"
    by (auto simp: sendRequest_def Let_def split: option.splits)
  then show ?thesis using bridge_ok_reject [OF assms] by simp
qed

lemma bridge_ok_message [inv_intros]:
  assumes "bridge_ok st" and "i < length (br_sockets st)"
  shows "bridge_ok (on_message i m st)"
proof -
  obtain xs ys where split: "waiting st = xs @ so_waiters (br_sockets st ! i) @ ys"
      "\<And>ps st'. br_sockets st' = br_sockets st \<Longrightarrow> waiting (set_waiters i ps st') = xs @ ps @ ys"
    using waiting_split [OF assms(2)] by blast
  have w: "waiting (fold (oneTimeHandler m) ps st') = waiting st'" "connecting (fold (oneTimeHandler m) ps st') = connecting st'" for ps st'
    by (simp_all add: waiting_def connecting_def)
  have "waiting (on_message i m st) = xs @ ys" by (simp add: on_message_def w split(2) [where ps = "[]" and st' = st])
  moreover have "accounted (br_calls st) (xs @ ys) (connecting st) (set (so_waiters (br_sockets st ! i)) \<union> Collect (settled st))"
    using assms accounted_answer unfolding bridge_ok_def split(1) by blast
  ultimately show ?thesis using assms by (simp add: bridge_ok_def on_message_def w Collect_disj_eq)
qed

lemma bridge_ok_settle_connect:
  "bridge_ok st \<Longrightarrow> i < length (br_sockets st) \<Longrightarrow> bridge_ok (settle (so_connect (br_sockets st ! i)) s st)"
  by (simp add: bridge_ok_def accounted_settle connecting_def)

lemma bridge_ok_state: "bridge_ok st \<Longrightarrow> bridge_ok (set_state i s st)"
  by (simp add: bridge_ok_def)

lemma so_connect_state [simp]: "so_connect (br_sockets (set_state i s st) ! j) = so_connect (br_sockets st ! j)"
  by (cases "j = i"; cases "i < length (br_sockets st)") (simp_all add: set_state_def list_update_beyond)

lemma bridge_ok_attempts: "bridge_ok st \<Longrightarrow> bridge_ok (attemptReconnect st)"
  by (auto simp: bridge_ok_def attemptReconnect_def Let_def)

lemma bridge_ok_open [inv_intros]: "bridge_ok st \<Longrightarrow> i < length (br_sockets st) \<Longrightarrow> bridge_ok (on_open i st)"
  using bridge_ok_settle_connect [of "(set_state i OPEN st)\<lparr>br_reconnectAttempts := 0\<rparr>" i Connected]
  by (simp add: on_open_def bridge_ok_def)

lemma bridge_ok_disconnect [inv_intros]:
  assumes "bridge_ok st"
  shows "bridge_ok (disconnect st)"
proof -
  have "bridge_ok (st'\<lparr>br_ws := None\<rparr>)" if "bridge_ok st'" for st' using that by (simp add: bridge_ok_def)
  then show ?thesis using assms bridge_ok_state [OF assms] by (auto simp: disconnect_def split: option.splits)
qed

lemma bridge_ok_timer [inv_intros]: "bridge_ok st \<Longrightarrow> bridge_ok (st\<lparr>br_timers := ts\<rparr>)"
  by (simp add: bridge_ok_def)

lemma ready_cases: "ready st i \<notin> {None, Some CLOSED} \<Longrightarrow> i < length (br_sockets st)"
  by (simp add: ready_def split: if_splits)

lemma bridge_ok_step: "bridge_ok st \<Longrightarrow> bridge_ok (bridge_step valid st e)"
  by (cases e) (auto simp: on_error_def on_close_def dest: ready_range ready_cases
      intro: inv_intros bridge_ok_attempts bridge_ok_state bridge_ok_settle_connect split del: if_split split: if_split)

interpretation bridge_machine: guarded_machine "bridge_step valid" bridge_ok
  by unfold_locales (rule bridge_ok_step)

lemma bridge_ok_new: "bridge_ok (new_bridge host port)"
  by (simp add: bridge_ok_def accounted_def new_bridge_def waiting_def connecting_def settled_def)

subsection \<open>A conversation\<close>

definition talking :: "bridge \<Rightarrow> nat \<Rightarrow> bool" where
  "talking st i \<longleftrightarrow> bridge_ok st \<and> br_ws st = Some i \<and> ready st i = Some OPEN"

lemma ready_set_waiters [simp]: "ready (set_waiters i ps st) j = ready st j"
  by (cases "j = i") (auto simp: ready_def set_waiters_def nth_list_update)

lemma waiters_set_waiters [simp]: "i < length (br_sockets st) \<Longrightarrow> so_waiters (br_sockets (set_waiters i ps st) ! i) = ps"
  by (simp add: set_waiters_def)

lemma ready_record [simp]: "ready (st\<lparr>br_calls := n\<rparr>) i = ready st i" "ready (st\<lparr>br_sent := l\<rparr>) i = ready st i"
  by (simp_all add: ready_def)

lemma send_talking:
  assumes "talking st i"
  shows "talking (sendRequest r st) i" and "br_calls (sendRequest r st) = Suc (br_calls st)"
    and "so_waiters (br_sockets (sendRequest r st) ! i) = so_waiters (br_sockets st ! i) @ [br_calls st]"
    and "br_settled (sendRequest r st) = br_settled st"
proof -
  have ok: "bridge_ok (sendRequest r st)" using assms by (intro bridge_ok_send) (simp add: talking_def)
  have "i < length (br_sockets st)" using assms by (simp add: talking_def ready_range)
  with assms ok show "talking (sendRequest r st) i" "br_calls (sendRequest r st) = Suc (br_calls st)"
      "so_waiters (br_sockets (sendRequest r st) ! i) = so_waiters (br_sockets st ! i) @ [br_calls st]"
      "br_settled (sendRequest r st) = br_settled st"
    by (simp_all add: talking_def sendRequest_def Let_def)
qed

lemma bridge_run_simps [simp]:
  "bridge_run valid st [] = st" "bridge_run valid st (e # es) = bridge_run valid (bridge_step valid st e) es"
  "bridge_run valid st (es @ es') = bridge_run valid (bridge_run valid st es) es'"
  by (simp_all add: bridge_run_def)

lemma sends_talking:
  fixes valid :: "string \<Rightarrow> bool" and rs :: "bridge_request list"
  assumes "talking st i"
  defines "st' \<equiv> bridge_run valid st (map Send rs)"
  shows "talking st' i \<and> br_calls st' = br_calls st + length rs \<and> br_settled st' = br_settled st \<and>
    so_waiters (br_sockets st' ! i) = so_waiters (br_sockets st ! i) @ [br_calls st..<br_calls st + length rs]"
  using assms(1) unfolding st'_def
proof (induction rs arbitrary: st)
  case Nil
  then show ?case by simp
next
  case (Cons r rs)
  note sent = send_talking [OF Cons.prems, of r]
  show ?case using Cons.IH [OF sent(1)] sent by (simp add: upt_conv_Cons del: upt_Suc)
qed

lemma message_talking:
  assumes "talking st i"
  shows "talking (on_message i m st) i" and "br_calls (on_message i m st) = br_calls st"
    and "so_waiters (br_sockets (on_message i m st) ! i) = []"
    and "jm_get (br_settled (on_message i m st)) q =
      (if q \<in> set (so_waiters (br_sockets st ! i)) then Some (answer_of m) else jm_get (br_settled st) q)"
proof -
  have i: "i < length (br_sockets st)" using assms by (simp add: talking_def ready_range)
  then have w: "set (so_waiters (br_sockets st ! i)) \<subseteq> set (waiting st)" by (auto simp: waiting_def intro: bexI [OF _ nth_mem [OF i]])
  have unsettled: "jm_get (br_settled st) q = None" if "q \<in> set (so_waiters (br_sockets st ! i))"
    using that w assms by (auto simp: talking_def bridge_ok_def accounted_def settled_def)
  have "bridge_ok (on_message i m st)" using assms i by (intro bridge_ok_message) (simp_all add: talking_def)
  moreover have "ready (on_message i m st) i = ready st i"
    using ready_set_waiters [of i "[]" st i] by (auto simp: on_message_def ready_def split: if_splits)
  ultimately show "talking (on_message i m st) i" using assms by (simp add: talking_def on_message_def)
  show "br_calls (on_message i m st) = br_calls st" "so_waiters (br_sockets (on_message i m st) ! i) = []"
    using i by (simp_all add: on_message_def)
  show "jm_get (br_settled (on_message i m st)) q =
      (if q \<in> set (so_waiters (br_sockets st ! i)) then Some (answer_of m) else jm_get (br_settled st) q)"
    using unsettled by (auto simp: on_message_def)
qed

text \<open>A batch of requests, sent before the next message comes.\<close>

abbreviation batch :: "nat \<Rightarrow> bridge_request list \<times> json_value option \<Rightarrow> bridge_event list" where
  "batch i b \<equiv> map Send (fst b) @ [SocketMessage i (snd b)]"

lemma batch_answers:
  fixes valid :: "string \<Rightarrow> bool" and b :: "bridge_request list \<times> json_value option"
  assumes "talking st i" and "so_waiters (br_sockets st ! i) = []"
  defines "st' \<equiv> bridge_run valid st (batch i b)"
  shows "talking st' i \<and> so_waiters (br_sockets st' ! i) = [] \<and> br_calls st' = br_calls st + length (fst b) \<and>
    (\<forall>q. jm_get (br_settled st') q = (if q \<in> {br_calls st..<br_calls st + length (fst b)} then Some (answer_of (snd b))
       else jm_get (br_settled st) q))"
proof -
  define st1 where "st1 = bridge_run valid st (map Send (fst b))"
  note sent = sends_talking [OF assms(1), of valid "fst b", folded st1_def]
  then have "ready st1 i = Some OPEN" by (simp add: talking_def)
  then have "st' = on_message i (snd b) st1" by (simp add: st'_def st1_def)
  with sent message_talking [of st1 i "snd b"] assms(2) show ?thesis by simp
qed

lemma batches_answers:
  assumes "talking st i" and "so_waiters (br_sockets st ! i) = []"
  shows "map (\<lambda>k. jm_get (br_settled (bridge_run valid st (concat (map (batch i) bs)))) (br_calls st + k))
      [0..<length (concat (map fst bs))] = concat (map (\<lambda>(rs, m). replicate (length rs) (Some (answer_of m))) bs) \<and>
    (\<forall>q < br_calls st. jm_get (br_settled (bridge_run valid st (concat (map (batch i) bs)))) q = jm_get (br_settled st) q)"
  using assms
proof (induction bs arbitrary: st)
  case Nil
  then show ?case by simp
next
  case (Cons b bs)
  define st' where "st' = bridge_run valid st (batch i b)"
  note now = batch_answers [OF Cons.prems, of valid b, folded st'_def]
  let ?fin = "bridge_run valid st' (concat (map (batch i) bs))"
  have run: "bridge_run valid st (concat (map (batch i) (b # bs))) = ?fin" by (simp add: st'_def)
  have later: "map (\<lambda>k. jm_get (br_settled ?fin) (br_calls st' + k)) [0..<length (concat (map fst bs))] =
      concat (map (\<lambda>(rs, m). replicate (length rs) (Some (answer_of m))) bs)"
    and kept: "\<forall>q < br_calls st'. jm_get (br_settled ?fin) q = jm_get (br_settled st') q"
    using Cons.IH [of st'] now by blast+
  have first: "map (\<lambda>k. jm_get (br_settled ?fin) (br_calls st + k)) [0..<length (fst b)] =
      replicate (length (fst b)) (Some (answer_of (snd b)))"
  proof -
    have "jm_get (br_settled ?fin) (br_calls st + k) = Some (answer_of (snd b))" if "k < length (fst b)" for k
    proof -
      have "jm_get (br_settled ?fin) (br_calls st + k) = jm_get (br_settled st') (br_calls st + k)"
        using kept now that by simp
      also have "\<dots> = Some (answer_of (snd b))" using now that by simp
      finally show ?thesis .
    qed
    then have "map (\<lambda>k. jm_get (br_settled ?fin) (br_calls st + k)) [0..<length (fst b)] =
        map (\<lambda>_. Some (answer_of (snd b))) [0..<length (fst b)]" by (intro map_cong) auto
    then show ?thesis by (simp add: map_replicate_const)
  qed
  have shift: "map (\<lambda>k. jm_get (br_settled ?fin) (br_calls st + k)) [length (fst b)..<length (fst b) + n] =
      map (\<lambda>k. jm_get (br_settled ?fin) (br_calls st' + k)) [0..<n]" for n
    by (rule nth_equalityI) (simp_all add: now add.assoc)
  have "map (\<lambda>k. jm_get (br_settled ?fin) (br_calls st + k)) [0..<length (fst b) + length (concat (map fst bs))] =
      replicate (length (fst b)) (Some (answer_of (snd b))) @ concat (map (\<lambda>(rs, m). replicate (length rs) (Some (answer_of m))) bs)"
    unfolding first [symmetric] later [symmetric] shift [symmetric] by (simp only: upt_add_eq_append [OF le0] map_append)
  moreover have "\<forall>q < br_calls st. jm_get (br_settled ?fin) q = jm_get (br_settled st) q" using now kept by simp
  ultimately show ?case unfolding run by (simp add: case_prod_unfold)
qed

subsection \<open>Reconnecting\<close>

text \<open>What can still make a socket without a call of \<open>connect\<close> or an opened connection.\<close>

definition budget :: "bridge \<Rightarrow> nat" where
  "budget st = length (br_sockets st) + length (br_timers st) + (maxReconnectAttempts - br_reconnectAttempts st)"

definition delays_ok :: "bridge \<Rightarrow> bool" where
  "delays_ok st \<longleftrightarrow> set (br_timers st) \<subseteq> {1000, 2000, 4000, 8000, 16000}"

lemma connect_counts:
  "br_timers (connect valid st) = br_timers st" "br_reconnectAttempts (connect valid st) = br_reconnectAttempts st"
  "length (br_sockets (connect valid st)) \<le> Suc (length (br_sockets st))"
  by (simp_all add: connect_def Let_def)

lemma drop_at_length: "k < length xs \<Longrightarrow> Suc (length (drop_at k xs)) = length xs"
  by (simp add: drop_at_def)

lemma drop_at_subset: "set (drop_at k xs) \<subseteq> set xs"
  by (auto simp: drop_at_def dest: in_set_takeD in_set_dropD)

lemma send_counts:
  "br_timers (sendRequest r st) = br_timers st" "br_reconnectAttempts (sendRequest r st) = br_reconnectAttempts st"
  "length (br_sockets (sendRequest r st)) = length (br_sockets st)"
  by (simp_all add: sendRequest_def Let_def split: option.splits)

lemma disconnect_counts:
  "br_timers (disconnect st) = br_timers st" "br_reconnectAttempts (disconnect st) = br_reconnectAttempts st"
  "length (br_sockets (disconnect st)) = length (br_sockets st)"
  by (simp_all add: disconnect_def split: option.splits)

lemma message_counts:
  "br_timers (on_message i m st) = br_timers st" "br_reconnectAttempts (on_message i m st) = br_reconnectAttempts st"
  "length (br_sockets (on_message i m st)) = length (br_sockets st)"
  by (simp_all add: on_message_def)

lemma close_budget: "budget (on_close i st) = budget st"
  by (cases "br_reconnectAttempts st < maxReconnectAttempts") (auto simp: on_close_def attemptReconnect_def budget_def Let_def)

lemma budget_frames:
  "budget (sendRequest r st) = budget st" "budget (disconnect st) = budget st" "budget (on_message i m st) = budget st"
  "budget (settle p s st) = budget st"
  by (simp_all add: budget_def send_counts disconnect_counts message_counts)

lemma close_delays:
  assumes "delays_ok st"
  shows "delays_ok (on_close i st)"
proof -
  have "reconnectDelay * 2 ^ n \<in> {1000, 2000, 4000, 8000, 16000}" if "n < maxReconnectAttempts" for n
  proof -
    have "n \<in> {0, 1, 2, 3, 4}" using that by (auto simp: maxReconnectAttempts_def)
    then show ?thesis by (auto simp: reconnectDelay_def)
  qed
  then show ?thesis using assms by (simp add: delays_ok_def on_close_def attemptReconnect_def Let_def)
qed

lemma step_budget:
  assumes "\<forall>i. e \<noteq> SocketOpen i"
  shows "budget (bridge_step valid st e) \<le> budget st + (if e = Connect then 1 else 0)"
proof (cases e)
  case (TimerFires k)
  then show ?thesis
    using connect_counts [of valid "st\<lparr>br_timers := drop_at k (br_timers st)\<rparr>"] drop_at_length [of k "br_timers st"]
    by (auto simp: budget_def)
next
  case Connect
  then show ?thesis using connect_counts [of valid st] by (simp add: budget_def)
qed (use assms in \<open>auto simp: close_budget budget_frames on_error_def\<close>)

lemma delays_frame: "br_timers st' = br_timers st \<Longrightarrow> delays_ok st \<Longrightarrow> delays_ok st'"
  by (simp add: delays_ok_def)

lemma step_delays: "delays_ok st \<Longrightarrow> delays_ok (bridge_step valid st e)"
proof (cases e)
  case (TimerFires k)
  assume "delays_ok st"
  then show ?thesis using TimerFires drop_at_subset [of k "br_timers st"] by (auto simp: delays_ok_def connect_counts)
qed (auto simp: on_error_def on_open_def close_delays elim: delays_frame [rotated]
    intro!: connect_counts send_counts disconnect_counts message_counts)

lemma run_budget:
  assumes "\<forall>i. SocketOpen i \<notin> set es"
  shows "budget (bridge_run valid st es) \<le> budget st + length (filter (\<lambda>e. e = Connect) es)"
  using assms
proof (induction es arbitrary: st)
  case Nil
  then show ?case by simp
next
  case (Cons e es)
  have "budget (bridge_run valid (bridge_step valid st e) es) \<le>
      budget (bridge_step valid st e) + length (filter (\<lambda>e. e = Connect) es)"
    using Cons by (intro Cons.IH) auto
  moreover have "budget (bridge_step valid st e) \<le> budget st + (if e = Connect then 1 else 0)"
    using Cons.prems by (intro step_budget) auto
  ultimately show ?case by (cases "e = Connect") simp_all
qed

lemma run_delays: "delays_ok st \<Longrightarrow> delays_ok (bridge_run valid st es)"
  by (induction es arbitrary: st) (simp_all add: step_delays)

subsection \<open>A socket that has closed\<close>

definition lost :: "bridge \<Rightarrow> nat \<Rightarrow> nat \<Rightarrow> bool" where
  "lost st i p \<longleftrightarrow> ready st i = Some CLOSED \<and> p \<in> set (so_waiters (br_sockets st ! i))"

lemma lost_other_socket:
  assumes "lost st i p" and "j \<noteq> i"
  shows "lost (st\<lparr>br_sockets := (br_sockets st)[j := s]\<rparr>) i p"
  using assms by (simp add: lost_def ready_def split: if_splits)

lemma lost_frame: "br_sockets st' = br_sockets st \<Longrightarrow> lost st i p \<Longrightarrow> lost st' i p"
  by (simp add: lost_def ready_def split: if_splits)

lemma lost_ws [simp]: "lost (st\<lparr>br_ws := w\<rparr>) i p \<longleftrightarrow> lost st i p"
  by (simp add: lost_def ready_def)

lemma lost_connect:
  assumes "lost st i p"
  shows "lost (connect valid st) i p"
  using assms by (cases "valid (bridge_url st)") (auto simp: lost_def ready_def connect_def Let_def nth_append split: if_splits)

lemma lost_state: "lost st i p \<Longrightarrow> j \<noteq> i \<Longrightarrow> lost (set_state j s st) i p"
  unfolding set_state_def by (rule lost_other_socket)

lemma lost_waiters: "lost st i p \<Longrightarrow> j \<noteq> i \<Longrightarrow> lost (set_waiters j ps st) i p"
  unfolding set_waiters_def by (rule lost_other_socket)

lemma lost_state_of: "lost st i p \<Longrightarrow> ready st i = Some CLOSED"
  by (simp add: lost_def)

lemma lost_send:
  assumes "lost st i p"
  shows "lost (sendRequest r st) i p"
proof (cases "\<exists>j. br_ws st = Some j \<and> ready st j = Some OPEN")
  case True
  then obtain j where j: "br_ws st = Some j" "ready st j = Some OPEN" by blast
  then have "j \<noteq> i" using lost_state_of [OF assms] by auto
  moreover have "lost (st\<lparr>br_calls := n, br_sent := l\<rparr>) i p" for n l using assms by (rule lost_frame [rotated]) simp
  ultimately show ?thesis using j lost_waiters by (simp add: sendRequest_def Let_def)
next
  case False
  then have "br_sockets (sendRequest r st) = br_sockets st" by (auto simp: sendRequest_def Let_def split: option.splits)
  then show ?thesis using assms by (rule lost_frame)
qed

lemma lost_step:
  assumes "lost st i p"
  shows "lost (bridge_step valid st e) i p"
proof (cases e)
  case Disconnect
  have "lost (set_state j CLOSING st) i p" if "ready st j \<in> {Some CONNECTING, Some OPEN}" for j
    using that lost_state_of [OF assms] by (intro lost_state [OF assms]) auto
  then show ?thesis using Disconnect assms
    by (auto simp: disconnect_def split: option.splits intro: lost_frame [rotated])
next
  case (SocketOpen j)
  then have "lost (set_state j OPEN st) i p" if "ready st j = Some CONNECTING"
    using that lost_state_of [OF assms] by (intro lost_state [OF assms]) auto
  then show ?thesis using SocketOpen assms by (auto simp: on_open_def intro: lost_frame [rotated])
next
  case (SocketMessage j m)
  have "lost (set_waiters j [] st) i p" if "ready st j \<in> {Some OPEN, Some CLOSING}"
    using that lost_state_of [OF assms] by (intro lost_waiters [OF assms]) auto
  then show ?thesis using SocketMessage assms by (auto simp: on_message_def intro: lost_frame [rotated])
next
  case (SocketClose j)
  have "lost (set_state j CLOSED st) i p" if "ready st j \<notin> {None, Some CLOSED}"
    using that lost_state_of [OF assms] by (intro lost_state [OF assms]) auto
  moreover have "br_sockets (attemptReconnect st') = br_sockets st'" for st' by (simp add: attemptReconnect_def Let_def)
  ultimately show ?thesis using SocketClose assms by (auto simp: on_close_def intro: lost_frame [rotated])
next
  case (TimerFires k)
  have "lost (st\<lparr>br_timers := drop_at k (br_timers st)\<rparr>) i p" using assms by (rule lost_frame [rotated]) simp
  then show ?thesis using TimerFires assms lost_connect by simp
qed (use assms in \<open>auto simp: on_error_def lost_connect lost_send intro: lost_frame [rotated]\<close>)

lemma lost_run: "lost st i p \<Longrightarrow> lost (bridge_run valid st es) i p"
  by (induction es arbitrary: st) (simp_all add: lost_step)

lemma bridge_run_ok: "bridge_ok st \<Longrightarrow> bridge_ok (bridge_run valid st es)"
  unfolding bridge_run_def by (rule bridge_machine.run_inv)

lemma lost_unsettled:
  assumes "bridge_ok st" and "lost st i p"
  shows "\<not> settled st p"
proof -
  have i: "i < length (br_sockets st)" using assms(2) by (simp add: lost_def ready_range)
  with assms(2) have "p \<in> set (waiting st)" by (auto simp: waiting_def lost_def intro: bexI [OF _ nth_mem [OF i]])
  with assms(1) show ?thesis by (auto simp: bridge_ok_def accounted_def)
qed

subsection \<open>Properties\<close>

text \<open>C40: Whatever is called and whatever happens on the sockets, every call of the client is accounted for:
  it has been settled, or its request waits on exactly one socket, or a socket stands for its connection;
  no request that waits has been answered.\<close>

theorem bridge_calls_accounted:
  "let st = bridge_run valid (new_bridge host port) es
   in distinct (waiting st) \<and> distinct (connecting st) \<and>
      (\<forall>p. p < br_calls st \<longleftrightarrow> p \<in> set (waiting st) \<or> p \<in> set (connecting st) \<or> settled st p) \<and>
      \<not> (\<exists>p. p \<in> set (waiting st) \<and> (p \<in> set (connecting st) \<or> settled st p))"
proof -
  define st where "st = bridge_run valid (new_bridge host port) es"
  have "accounted (br_calls st) (waiting st) (connecting st) (Collect (settled st))"
    using bridge_run_ok [OF bridge_ok_new] by (simp add: st_def bridge_ok_def)
  then have parts: "distinct (waiting st @ connecting st)"
      "{..<br_calls st} = set (waiting st) \<union> set (connecting st) \<union> Collect (settled st)"
      "set (waiting st) \<inter> Collect (settled st) = {}"
    by (simp_all add: accounted_def)
  have "p < br_calls st \<longleftrightarrow> p \<in> set (waiting st) \<or> p \<in> set (connecting st) \<or> settled st p" for p
    using parts(2) by blast
  with parts(1,3) show ?thesis unfolding Let_def st_def [symmetric] by auto
qed

text \<open>After the last opened connection the client gives up: from any state it reaches, as long as no socket
  opens, the sockets it makes are those of \<open>connect\<close>, of the timers that run and of at most five more
  attempts; each timer runs for one, two, four, eight or sixteen seconds.\<close>

theorem bridge_reconnects_bounded:
  fixes host :: "string option" and port :: "nat option" and es0 :: "bridge_event list" and valid :: "string \<Rightarrow> bool"
  assumes "\<forall>i. SocketOpen i \<notin> set es"
  defines "st \<equiv> bridge_run valid (new_bridge host port) es0"
  shows "length (br_sockets (bridge_run valid st es)) + length (br_timers (bridge_run valid st es)) \<le>
      length (br_sockets st) + length (br_timers st) + (5 - br_reconnectAttempts st) + length (filter (\<lambda>e. e = Connect) es) \<and>
    set (br_timers (bridge_run valid st es)) \<subseteq> {1000, 2000, 4000, 8000, 16000}"
proof
  show "length (br_sockets (bridge_run valid st es)) + length (br_timers (bridge_run valid st es)) \<le>
      length (br_sockets st) + length (br_timers st) + (5 - br_reconnectAttempts st) + length (filter (\<lambda>e. e = Connect) es)"
    using run_budget [OF assms(1), of valid st] by (simp add: budget_def maxReconnectAttempts_def)
  have "delays_ok (new_bridge host port)" by (simp add: delays_ok_def new_bridge_def)
  then show "set (br_timers (bridge_run valid st es)) \<subseteq> {1000, 2000, 4000, 8000, 16000}"
    using run_delays by (simp add: st_def delays_ok_def [symmetric])
qed

theorem bridge_reconnects_bounded_witness:
  "length (br_sockets (bridge_run (\<lambda>_. True) (bridge_run (\<lambda>_. True) (new_bridge None (Some 7)) [Connect, SocketOpen 0])
     [SocketClose 0, TimerFires 0, SocketError 1 ''x'', SocketClose 1, TimerFires 0])) \<le> 6"
proof -
  let ?es = "[SocketClose 0, TimerFires 0, SocketError 1 ''x'', SocketClose 1, TimerFires 0]"
  define st where "st = bridge_run (\<lambda>_. True) (new_bridge None (Some 7)) [Connect, SocketOpen 0]"
  have "\<forall>i. SocketOpen i \<notin> set ?es" by simp
  from bridge_reconnects_bounded [OF this, of "\<lambda>_. True" None "Some 7" "[Connect, SocketOpen 0]", folded st_def]
  have "length (br_sockets (bridge_run (\<lambda>_. True) st ?es)) \<le>
      length (br_sockets st) + length (br_timers st) + (5 - br_reconnectAttempts st) + length (filter (\<lambda>e. e = Connect) ?es)"
    by linarith
  moreover have "length (br_sockets st) = 1 \<and> length (br_timers st) = 0 \<and> br_reconnectAttempts st = 0" unfolding st_def by code_simp
  moreover have "length (filter (\<lambda>e. e = Connect) ?es) = 0" by simp
  ultimately show ?thesis unfolding st_def [symmetric] by linarith
qed

text \<open>C23: On an open connection with no request in flight, requests sent in batches, each followed by one message,
  are answered by that message: all the requests of a batch get it. So calls made one after the other
  get their own responses, and calls in flight together all get the first one.\<close>

theorem bridge_answers:
  assumes "br_ws st = Some i" and "ready st i = Some OPEN" and "so_waiters (br_sockets st ! i) = []"
    and "st = bridge_run valid (new_bridge host port) es0"
  shows "map (\<lambda>k. jm_get (br_settled (bridge_run valid st (concat (map (batch i) batches)))) (br_calls st + k))
      [0..<length (concat (map fst batches))] = concat (map (\<lambda>(rs, m). replicate (length rs) (Some (answer_of m))) batches)"
proof -
  have "bridge_ok st" unfolding assms(4) by (rule bridge_run_ok [OF bridge_ok_new])
  then have "talking st i" using assms(1,2) by (simp add: talking_def)
  from batches_answers [OF this assms(3)] show ?thesis by blast
qed

definition file_answer :: "string \<Rightarrow> json_value" where
  "file_answer text = typed ''FileContent'' [(''content'', JsonString text)]"

text \<open>Two files are read together, and both calls return the content of the first.\<close>

theorem bridge_answers_witness:
  "let st = bridge_run (\<lambda>_. True) (new_bridge None (Some 7))
      [Connect, SocketOpen 0, Send (ReadFile ''a''), Send (ReadFile ''b''), SocketMessage 0 (Some (file_answer ''A'')), SocketMessage 0 (Some (file_answer ''B''))]
   in map (jm_get (br_settled st)) [1, 2] = [Some (Response (file_answer ''A'')), Some (Response (file_answer ''A''))] \<and>
      method_result (ReadFile ''b'') (file_answer ''A'') = Inr (Some (JsonString ''A''))"
proof -
  let ?st = "bridge_run (\<lambda>_. True) (new_bridge None (Some 7)) [Connect, SocketOpen 0]"
  have "br_ws ?st = Some 0" "ready ?st 0 = Some OPEN" "so_waiters (br_sockets ?st ! 0) = []" "br_calls ?st = 1" by code_simp+
  from bridge_answers [OF this(1-3) refl, of "[([ReadFile ''a'', ReadFile ''b''], Some (file_answer ''A'')), ([], Some (file_answer ''B''))]"] this(4)
  have "map (jm_get (br_settled (bridge_run (\<lambda>_. True) ?st [Send (ReadFile ''a''), Send (ReadFile ''b''),
      SocketMessage 0 (Some (file_answer ''A'')), SocketMessage 0 (Some (file_answer ''B''))]))) [1, 2] =
      [Some (Response (file_answer ''A'')), Some (Response (file_answer ''A''))]"
    by (simp add: answer_of_def upt_rec numeral_2_eq_2)
  moreover have "method_result (ReadFile ''b'') (file_answer ''A'') = Inr (Some (JsonString ''A''))" by code_simp
  ultimately show ?thesis by simp
qed

subsection \<open>What the client does not do\<close>

text \<open>A request in flight when its connection closes is never settled, whatever happens then.\<close>

lemma requests_lost_on_close:
  assumes "st = bridge_run valid (new_bridge host port) es0" and "ready st i = Some CLOSED"
    and "p \<in> set (so_waiters (br_sockets st ! i))"
  shows "\<not> settled (bridge_run valid st es) p"
  using lost_unsettled [OF _ lost_run] bridge_run_ok bridge_run_ok [OF bridge_ok_new] assms by (metis lost_def)

text \<open>A client that was disconnected connects again when the socket has closed.\<close>

lemma reconnects_after_disconnect:
  "br_ws (bridge_run (\<lambda>_. True) (new_bridge None (Some 7)) [Connect, SocketOpen 0, Disconnect, SocketClose 0, TimerFires 0]) = Some 1"
  by code_simp

end
