(* ===== verification/Host_Env.thy ===== *)
theory Host_Env
  imports Js_Map Js_Number
begin

text \<open>
  The environment of the commands that run on a host: src/brain/src/infra/host-env-security.ts, with its
  policy (host-env-security-policy.js and .json), openclaw-exec-env.ts and the checks of
  agents/bash-tools.exec-runtime.ts.

  An object is the list of its entries in the order of \<open>Object.entries\<close>; assigning the key
  \<open>__proto__\<close> of a plain object does nothing. A value is absent if it is not a string. The sets of a policy
  are lists, as only their elements count; \<open>collate\<close> sorts by \<open>localeCompare\<close>.
\<close>

subsection \<open>The policy\<close>

definition blocked_everywhere :: "string list" where
  "blocked_everywhere = [''NODE_OPTIONS'', ''NODE_PATH'', ''PYTHONHOME'', ''PYTHONPATH'', ''PERL5LIB'', ''PERL5OPT'', ''RUBYLIB'',
     ''RUBYOPT'', ''BASH_ENV'', ''ENV'', ''BROWSER'', ''GIT_EDITOR'', ''GIT_EXTERNAL_DIFF'', ''GIT_DIR'',
     ''GIT_WORK_TREE'', ''GIT_COMMON_DIR'', ''GIT_EXEC_PATH'', ''GIT_INDEX_FILE'', ''GIT_OBJECT_DIRECTORY'',
     ''GIT_ALTERNATE_OBJECT_DIRECTORIES'', ''GIT_NAMESPACE'', ''GIT_SEQUENCE_EDITOR'', ''GIT_TEMPLATE_DIR'',
     ''GIT_SSL_NO_VERIFY'', ''GIT_SSL_CAINFO'', ''GIT_SSL_CAPATH'', ''CC'', ''CXX'', ''CARGO_BUILD_RUSTC'',
     ''CARGO_BUILD_RUSTC_WRAPPER'', ''RUSTC_WRAPPER'', ''CMAKE_C_COMPILER'', ''CMAKE_CXX_COMPILER'', ''SHELL'',
     ''SHELLOPTS'', ''PS4'', ''GCONV_PATH'', ''IFS'', ''SSLKEYLOGFILE'', ''JAVA_OPTS'', ''JAVA_TOOL_OPTIONS'',
     ''_JAVA_OPTIONS'', ''JDK_JAVA_OPTIONS'', ''PYTHONBREAKPOINT'', ''DOTNET_STARTUP_HOOKS'',
     ''DOTNET_ADDITIONAL_DEPS'', ''GLIBC_TUNABLES'', ''MAVEN_OPTS'', ''MAKEFLAGS'', ''MFLAGS'', ''SBT_OPTS'',
     ''GRADLE_OPTS'', ''ANT_OPTS'', ''HGRCPATH'', ''EXINIT'', ''VIMINIT'', ''MYVIMRC'', ''GVIMINIT'',
     ''LUA_INIT'', ''LUA_INIT_5_1'', ''LUA_INIT_5_2'', ''LUA_INIT_5_3'', ''LUA_INIT_5_4'', ''EMACSLOADPATH'',
     ''RUBYSHELL'', ''GIT_HOOK_PATH'', ''SVN_EDITOR'', ''SVN_SSH'', ''BZR_EDITOR'', ''BZR_SSH'',
     ''BZR_PLUGIN_PATH'', ''SUDO_ASKPASS'', ''JULIA_EDITOR'', ''CONFIG_SITE'', ''CONFIG_SHELL'',
     ''CMAKE_TOOLCHAIN_FILE'', ''CATALINA_OPTS'', ''CORECLR_PROFILER'', ''HELM_PLUGINS'',
     ''PACKER_PLUGIN_PATH'', ''VAGRANT_VAGRANTFILE'', ''ERL_AFLAGS'', ''ERL_FLAGS'', ''ERL_ZFLAGS'',
     ''ELIXIR_ERL_OPTIONS'', ''R_ENVIRON'', ''R_PROFILE'', ''R_ENVIRON_USER'', ''R_PROFILE_USER'',
     ''HOSTALIASES'']"

definition blocked_override_only :: "string list" where
  "blocked_override_only = [''HOME'', ''GRADLE_USER_HOME'', ''ZDOTDIR'', ''GIT_DIR'', ''GIT_WORK_TREE'', ''GIT_COMMON_DIR'',
     ''GIT_INDEX_FILE'', ''GIT_OBJECT_DIRECTORY'', ''GIT_ALTERNATE_OBJECT_DIRECTORIES'', ''GIT_NAMESPACE'',
     ''GIT_SSH_COMMAND'', ''GIT_SSH'', ''GIT_PROXY_COMMAND'', ''GIT_ASKPASS'', ''GIT_SSL_NO_VERIFY'',
     ''GIT_SSL_CAINFO'', ''GIT_SSL_CAPATH'', ''SSH_ASKPASS'', ''LESSOPEN'', ''LESSCLOSE'', ''PAGER'',
     ''MANPAGER'', ''GIT_PAGER'', ''EDITOR'', ''VISUAL'', ''FCEDIT'', ''SUDO_EDITOR'', ''PROMPT_COMMAND'',
     ''HISTFILE'', ''PERL5DB'', ''PERL5DBCMD'', ''OPENSSL_CONF'', ''OPENSSL_ENGINES'', ''PYTHONSTARTUP'',
     ''WGETRC'', ''CURL_HOME'', ''CLASSPATH'', ''CFLAGS'', ''CGO_CFLAGS'', ''CGO_LDFLAGS'', ''GOFLAGS'',
     ''MAKEFLAGS'', ''MFLAGS'', ''CORECLR_PROFILER_PATH'', ''PHPRC'', ''PHP_INI_SCAN_DIR'', ''DENO_DIR'',
     ''BUN_CONFIG_REGISTRY'', ''YARN_RC_FILENAME'', ''HTTP_PROXY'', ''HTTPS_PROXY'', ''ALL_PROXY'',
     ''NO_PROXY'', ''NODE_TLS_REJECT_UNAUTHORIZED'', ''NODE_EXTRA_CA_CERTS'', ''SSL_CERT_FILE'',
     ''SSL_CERT_DIR'', ''REQUESTS_CA_BUNDLE'', ''CURL_CA_BUNDLE'', ''DOCKER_HOST'', ''DOCKER_TLS_VERIFY'',
     ''DOCKER_CERT_PATH'', ''PIP_INDEX_URL'', ''PIP_PYPI_URL'', ''PIP_EXTRA_INDEX_URL'', ''PIP_CONFIG_FILE'',
     ''PIP_FIND_LINKS'', ''PIP_TRUSTED_HOST'', ''UV_INDEX'', ''UV_INDEX_URL'', ''UV_PYTHON'',
     ''UV_EXTRA_INDEX_URL'', ''UV_DEFAULT_INDEX'', ''DOCKER_CONTEXT'', ''LIBRARY_PATH'', ''LDFLAGS'',
     ''CPATH'', ''C_INCLUDE_PATH'', ''CPLUS_INCLUDE_PATH'', ''OBJC_INCLUDE_PATH'', ''GOPROXY'',
     ''GONOSUMCHECK'', ''GONOSUMDB'', ''GONOPROXY'', ''GOPRIVATE'', ''GOENV'', ''GOPATH'', ''HGRCPATH'',
     ''PYTHONUSERBASE'', ''RUSTC_WRAPPER'', ''RUSTFLAGS'', ''CARGO_HOME'', ''VIRTUAL_ENV'', ''LUA_PATH'',
     ''LUA_CPATH'', ''GEM_HOME'', ''GEM_PATH'', ''BUNDLE_GEMFILE'', ''COMPOSER_HOME'',
     ''CARGO_BUILD_RUSTC_WRAPPER'', ''XDG_CONFIG_HOME'', ''XDG_CONFIG_DIRS'', ''AWS_CONFIG_FILE'',
     ''KUBECONFIG'', ''GOOGLE_APPLICATION_CREDENTIALS'', ''AWS_SHARED_CREDENTIALS_FILE'',
     ''AWS_WEB_IDENTITY_TOKEN_FILE'', ''AZURE_AUTH_LOCATION'', ''HELM_HOME'', ''ANSIBLE_CONFIG'',
     ''ANSIBLE_LIBRARY'', ''ANSIBLE_CALLBACK_PLUGINS'', ''ANSIBLE_COLLECTIONS_PATH'',
     ''ANSIBLE_CONNECTION_PLUGINS'', ''ANSIBLE_FILTER_PLUGINS'', ''ANSIBLE_INVENTORY_PLUGINS'',
     ''ANSIBLE_LOOKUP_PLUGINS'', ''ANSIBLE_MODULE_UTILS'', ''ANSIBLE_REMOTE_TEMP'', ''ANSIBLE_ROLES_PATH'',
     ''ANSIBLE_STRATEGY_PLUGINS'', ''R_LIBS_USER'', ''TF_CLI_CONFIG_FILE'', ''TF_PLUGIN_CACHE_DIR'',
     ''AMQP_URL'', ''AWS_ACCESS_KEY_ID'', ''AWS_CONTAINER_CREDENTIALS_FULL_URI'',
     ''AWS_CONTAINER_CREDENTIALS_RELATIVE_URI'', ''AWS_SECRET_ACCESS_KEY'', ''AWS_SECURITY_TOKEN'',
     ''AWS_SESSION_TOKEN'', ''AZURE_CLIENT_ID'', ''AZURE_CLIENT_SECRET'', ''DATABASE_URL'', ''GH_TOKEN'',
     ''GITHUB_TOKEN'', ''GITLAB_TOKEN'', ''MONGODB_URI'', ''NODE_AUTH_TOKEN'', ''NPM_TOKEN'', ''REDIS_URL'',
     ''SSH_AUTH_SOCK'']"

definition allowed_inherited :: "string list" where
  "allowed_inherited = [''ALL_PROXY'', ''AWS_CONFIG_FILE'', ''AWS_SHARED_CREDENTIALS_FILE'', ''AWS_WEB_IDENTITY_TOKEN_FILE'',
     ''AZURE_AUTH_LOCATION'', ''CURL_CA_BUNDLE'', ''DOCKER_CERT_PATH'', ''DOCKER_CONTEXT'', ''DOCKER_HOST'',
     ''DOCKER_TLS_VERIFY'', ''GIT_PAGER'', ''GOOGLE_APPLICATION_CREDENTIALS'', ''GRADLE_USER_HOME'',
     ''HISTFILE'', ''HOME'', ''HTTPS_PROXY'', ''HTTP_PROXY'', ''KUBECONFIG'', ''MANPAGER'',
     ''NODE_EXTRA_CA_CERTS'', ''NODE_TLS_REJECT_UNAUTHORIZED'', ''NO_PROXY'', ''PAGER'',
     ''REQUESTS_CA_BUNDLE'', ''SSH_AUTH_SOCK'', ''SSL_CERT_DIR'', ''SSL_CERT_FILE'', ''ZDOTDIR'']"

definition blocked_override_prefixes :: "string list" where
  "blocked_override_prefixes = [''GIT_CONFIG_'', ''NPM_CONFIG_'', ''CARGO_REGISTRIES_'', ''TF_VAR_'']"

definition blocked_prefixes :: "string list" where
  "blocked_prefixes = [''DYLD_'', ''LD_'', ''BASH_FUNC_'']"

record raw_policy =
  rp_everywhere :: "string list"
  rp_overrideOnly :: "string list"
  rp_allowedInherited :: "string list"
  rp_inheritedPrefixes :: "string list option"
  rp_prefixes :: "string list"
  rp_overridePrefixes :: "string list"

definition HOST_ENV_SECURITY_POLICY_JSON :: raw_policy where
  "HOST_ENV_SECURITY_POLICY_JSON = \<lparr>rp_everywhere = blocked_everywhere, rp_overrideOnly = blocked_override_only,
     rp_allowedInherited = allowed_inherited, rp_inheritedPrefixes = None, rp_prefixes = blocked_prefixes,
     rp_overridePrefixes = blocked_override_prefixes\<rparr>"

record env_policy =
  ep_inheritedKeys :: "string list"
  ep_inheritedPrefixes :: "string list"
  ep_keys :: "string list"
  ep_overrideKeys :: "string list"
  ep_prefixes :: "string list"
  ep_overridePrefixes :: "string list"

definition unique_upper :: "string list \<Rightarrow> string list" where
  "unique_upper xs = remdups (map js_upper xs)"

definition loadHostEnvSecurityPolicy :: "raw_policy \<Rightarrow> env_policy" where
  "loadHostEnvSecurityPolicy raw =
     (let allowed = map js_upper (rp_allowedInherited raw)
      in \<lparr>ep_inheritedKeys = unique_upper (rp_everywhere raw @ filter (\<lambda>k. js_upper k \<notin> set allowed) (rp_overrideOnly raw)),
          ep_inheritedPrefixes = unique_upper (nullish (rp_inheritedPrefixes raw) (rp_prefixes raw)),
          ep_keys = unique_upper (rp_everywhere raw), ep_overrideKeys = unique_upper (rp_overrideOnly raw),
          ep_prefixes = unique_upper (rp_prefixes raw), ep_overridePrefixes = unique_upper (rp_overridePrefixes raw)\<rparr>)"

definition HOST_ENV_SECURITY_POLICY :: env_policy where
  "HOST_ENV_SECURITY_POLICY = loadHostEnvSecurityPolicy HOST_ENV_SECURITY_POLICY_JSON"

definition SHELL_WRAPPER_KEYS :: "string list" where
  "SHELL_WRAPPER_KEYS = [''TERM'', ''LANG'', ''LC_ALL'', ''LC_CTYPE'', ''LC_MESSAGES'', ''COLORTERM'', ''NO_COLOR'', ''FORCE_COLOR'']"

subsection \<open>Names of variables\<close>

definition env_name_start :: "char \<Rightarrow> bool" where
  "env_name_start c \<longleftrightarrow> is_upper_alpha c \<or> is_lower_alpha c \<or> c = CHR ''_''"

definition portable_key :: "string \<Rightarrow> bool" where
  "portable_key s \<longleftrightarrow> s \<noteq> [] \<and> env_name_start (hd s) \<and> list_all (\<lambda>c. env_name_start c \<or> is_digit c) s"

definition windows_compat_key :: "string \<Rightarrow> bool" where
  "windows_compat_key s \<longleftrightarrow> s \<noteq> [] \<and> env_name_start (hd s) \<and>
     list_all (\<lambda>c. env_name_start c \<or> is_digit c \<or> c = CHR ''('' \<or> c = CHR '')'') s"

definition normalizeEnvVarKey :: "bool \<Rightarrow> string \<Rightarrow> string option" where
  "normalizeEnvVarKey portable rawKey =
     (let key = js_trim rawKey
      in if key = [] then None else if portable \<and> \<not> portable_key key then None else Some key)"

definition normalizeHostOverrideEnvVarKey :: "string \<Rightarrow> string option" where
  "normalizeHostOverrideEnvVarKey rawKey =
     (case normalizeEnvVarKey False rawKey of
        None \<Rightarrow> None
      | Some key \<Rightarrow> if portable_key key \<or> windows_compat_key key then Some key else None)"

definition name_listed :: "string list \<Rightarrow> string list \<Rightarrow> string \<Rightarrow> bool" where
  "name_listed keys starts rawKey \<longleftrightarrow>
     (case normalizeEnvVarKey False rawKey of
        None \<Rightarrow> False
      | Some key \<Rightarrow> js_upper key \<in> set keys \<or> list_ex (js_starts_with (js_upper key)) starts)"

definition isDangerousHostEnvVarName :: "env_policy \<Rightarrow> string \<Rightarrow> bool" where
  "isDangerousHostEnvVarName ep rawKey = name_listed (ep_keys ep) (ep_prefixes ep) rawKey"

definition isDangerousHostInheritedEnvVarName :: "env_policy \<Rightarrow> string \<Rightarrow> bool" where
  "isDangerousHostInheritedEnvVarName ep rawKey = name_listed (ep_inheritedKeys ep) (ep_inheritedPrefixes ep) rawKey"

definition isDangerousHostEnvOverrideVarName :: "env_policy \<Rightarrow> string \<Rightarrow> bool" where
  "isDangerousHostEnvOverrideVarName ep rawKey = name_listed (ep_overrideKeys ep) (ep_overridePrefixes ep) rawKey"

subsection \<open>Sanitizing\<close>

type_synonym env_entries = "(string \<times> string option) list"
type_synonym env_object = "(string, string) js_map"

definition obj_assign :: "env_object \<Rightarrow> string \<Rightarrow> string \<Rightarrow> env_object" where
  "obj_assign m k v = (if k = ''__proto__'' then m else jm_set m k v)"

definition listNormalizedEnvEntries :: "bool \<Rightarrow> env_entries \<Rightarrow> (string \<times> string) list" where
  "listNormalizedEnvEntries portable source =
     concat (map (\<lambda>(rawKey, value). case value of
         None \<Rightarrow> []
       | Some v \<Rightarrow> (case normalizeEnvVarKey portable rawKey of None \<Rightarrow> [] | Some key \<Rightarrow> [(key, v)])) source)"

definition assign_entries :: "env_object \<Rightarrow> (string \<times> string) list \<Rightarrow> env_object" where
  "assign_entries m es = foldl (\<lambda>m (k, v). obj_assign m k v) m es"

record override_result =
  or_accepted :: "env_object"
  or_blocked :: "string list"
  or_invalid :: "string list"

definition blocked_override :: "env_policy \<Rightarrow> bool \<Rightarrow> string \<Rightarrow> bool" where
  "blocked_override ep blockPath upper \<longleftrightarrow>
     blockPath \<and> upper = ''PATH'' \<or> isDangerousHostEnvVarName ep upper \<or> isDangerousHostEnvOverrideVarName ep upper"

definition override_step :: "env_policy \<Rightarrow> bool \<Rightarrow> override_result \<Rightarrow> string \<times> string option \<Rightarrow> override_result" where
  "override_step ep blockPath r e =
     (case e of (rawKey, value) \<Rightarrow>
        (case value of
           None \<Rightarrow> r
         | Some v \<Rightarrow>
             (case normalizeHostOverrideEnvVarKey rawKey of
                None \<Rightarrow> r\<lparr>or_invalid := or_invalid r @ [str_or (js_trim rawKey) rawKey]\<rparr>
              | Some normalized \<Rightarrow>
                  (if blocked_override ep blockPath (js_upper normalized)
                   then r\<lparr>or_blocked := or_blocked r @ [js_upper normalized]\<rparr>
                   else r\<lparr>or_accepted := obj_assign (or_accepted r) normalized v\<rparr>))))"

definition sortUnique :: "(string list \<Rightarrow> string list) \<Rightarrow> string list \<Rightarrow> string list" where
  "sortUnique collate xs = collate (remdups xs)"

definition sanitizeHostEnvOverridesWithDiagnostics ::
  "(string list \<Rightarrow> string list) \<Rightarrow> env_policy \<Rightarrow> bool \<Rightarrow> env_entries option \<Rightarrow> env_object option \<times> string list \<times> string list" where
  "sanitizeHostEnvOverridesWithDiagnostics collate ep blockPath overrides =
     (case overrides of
        None \<Rightarrow> (None, [], [])
      | Some es \<Rightarrow>
          (let r = foldl (override_step ep blockPath) \<lparr>or_accepted = [], or_blocked = [], or_invalid = []\<rparr> es
           in (Some (or_accepted r), sortUnique collate (or_blocked r), sortUnique collate (or_invalid r))))"

definition markOpenClawExecEnv :: "env_object \<Rightarrow> env_object" where
  "markOpenClawExecEnv env = jm_set env ''OPENCLAW_CLI'' ''1''"

definition sanitizeHostExecEnvWithDiagnostics ::
  "(string list \<Rightarrow> string list) \<Rightarrow> env_policy \<Rightarrow> env_entries \<Rightarrow> env_entries option \<Rightarrow> bool \<Rightarrow> env_object \<times> string list \<times> string list" where
  "sanitizeHostExecEnvWithDiagnostics collate ep baseEnv overrides blockPath =
     (let merged = assign_entries []
            (filter (\<lambda>(key, _). \<not> isDangerousHostInheritedEnvVarName ep key) (listNormalizedEnvEntries False baseEnv));
          (accepted, blocked, invalid) = sanitizeHostEnvOverridesWithDiagnostics collate ep blockPath overrides
      in (markOpenClawExecEnv (case accepted of None \<Rightarrow> merged | Some es \<Rightarrow> assign_entries merged es), blocked, invalid))"

definition inspectHostExecEnvOverrides ::
  "(string list \<Rightarrow> string list) \<Rightarrow> env_policy \<Rightarrow> bool \<Rightarrow> env_entries option \<Rightarrow> string list \<times> string list" where
  "inspectHostExecEnvOverrides collate ep blockPath overrides =
     snd (sanitizeHostEnvOverridesWithDiagnostics collate ep blockPath overrides)"

definition sanitizeHostExecEnv ::
  "(string list \<Rightarrow> string list) \<Rightarrow> env_policy \<Rightarrow> env_entries \<Rightarrow> env_entries option \<Rightarrow> bool \<Rightarrow> env_object" where
  "sanitizeHostExecEnv collate ep baseEnv overrides blockPath =
     fst (sanitizeHostExecEnvWithDiagnostics collate ep baseEnv overrides blockPath)"

text \<open>Without a shell wrapper the overrides pass as they are.\<close>

definition sanitizeSystemRunEnvOverrides :: "env_entries option \<Rightarrow> bool \<Rightarrow> env_entries option" where
  "sanitizeSystemRunEnvOverrides overrides shellWrapper =
     (case overrides of
        None \<Rightarrow> None
      | Some es \<Rightarrow>
          (if \<not> shellWrapper then Some es
           else (let filtered = assign_entries []
                   (filter (\<lambda>(key, _). js_upper key \<in> set SHELL_WRAPPER_KEYS) (listNormalizedEnvEntries True es))
             in if filtered = [] then None else Some (map (\<lambda>(k, v). (k, Some v)) filtered))))"

subsection \<open>The checks of the exec tool\<close>

definition sanitizeHostBaseEnv :: "env_policy \<Rightarrow> env_object \<Rightarrow> env_object" where
  "sanitizeHostBaseEnv ep env =
     assign_entries [] (filter (\<lambda>(key, _). js_upper key = ''PATH'' \<or> \<not> isDangerousHostInheritedEnvVarName ep (js_upper key)) env)"

datatype env_violation = ForbiddenVariable string | ForbiddenPath

fun validateHostEnv :: "env_policy \<Rightarrow> env_object \<Rightarrow> env_violation option" where
  "validateHostEnv ep [] = None"
| "validateHostEnv ep ((key, _) # env) =
     (if isDangerousHostInheritedEnvVarName ep (js_upper key) then Some (ForbiddenVariable key)
      else if js_upper key = ''PATH'' then Some ForbiddenPath
      else validateHostEnv ep env)"

end
