(* ===== verification/Host_Env_Props.thy ===== *)
theory Host_Env_Props
  imports Host_Env
begin

text \<open>
  What the environment of a command on the host can hold: no variable that the policy forbids to inherit,
  and no protected variable with another value than the one of the host.
\<close>

lemma obj_assign_get: "jm_get (obj_assign m k v) q = (if q = k \<and> k \<noteq> ''__proto__'' then Some v else jm_get m q)"
  by (auto simp: obj_assign_def)

lemma assign_entries_Cons: "assign_entries m ((k, v) # es) = assign_entries (obj_assign m k v) es"
  by (simp add: assign_entries_def)

lemma assign_entries_keys: "jm_get (assign_entries m es) q \<noteq> None \<Longrightarrow> q \<in> fst ` set es \<or> jm_get m q \<noteq> None"
proof (induction es arbitrary: m)
  case Nil
  then show ?case by (simp add: assign_entries_def)
next
  case (Cons e es)
  obtain k v where e: "e = (k, v)" by fastforce
  from Cons.prems have "q \<in> fst ` set es \<or> jm_get (obj_assign m k v) q \<noteq> None"
    unfolding e assign_entries_Cons by (rule Cons.IH)
  then show ?case by (auto simp: e obj_assign_get split: if_splits)
qed

lemma assign_entries_other: "q \<notin> fst ` set es \<Longrightarrow> jm_get (assign_entries m es) q = jm_get m q"
proof (induction es arbitrary: m)
  case Nil
  then show ?case by (simp add: assign_entries_def)
next
  case (Cons e es)
  obtain k v where e: "e = (k, v)" by fastforce
  show ?case using Cons by (simp add: e assign_entries_Cons obj_assign_get)
qed

lemma obj_assign_keys: "fst ` set (obj_assign m k v) \<subseteq> insert k (fst ` set m)"
  by (auto simp: obj_assign_def simp flip: image_insert simp del: image_insert)

lemma obj_assign_key: "(q, w) \<in> set (obj_assign m k v) \<Longrightarrow> q = k \<or> q \<in> fst ` set m"
  using obj_assign_keys [of m k v] by force

text \<open>A name that may be overridden: its characters are those of a name, and it is not blocked.\<close>

definition free_name :: "env_policy \<Rightarrow> bool \<Rightarrow> string \<Rightarrow> bool" where
  "free_name ep blockPath k \<longleftrightarrow> windows_compat_key k \<and> \<not> blocked_override ep blockPath (js_upper k)"

lemma portable_windows: "portable_key k \<Longrightarrow> windows_compat_key k"
  by (auto simp: portable_key_def windows_compat_key_def list_all_iff)

lemma override_name: "normalizeHostOverrideEnvVarKey raw = Some k \<Longrightarrow> windows_compat_key k"
  by (auto simp: normalizeHostOverrideEnvVarKey_def portable_windows split: option.splits if_splits)

lemma override_step_free:
  assumes "\<forall>k \<in> fst ` set (or_accepted r). free_name ep b k"
  shows "\<forall>k \<in> fst ` set (or_accepted (override_step ep b r e)). free_name ep b k"
proof -
  have "fst ` set (or_accepted (override_step ep b r e)) \<subseteq> fst ` set (or_accepted r) \<union> {k. free_name ep b k}"
    unfolding override_step_def by (auto simp: free_name_def split: prod.splits option.splits if_splits dest!: obj_assign_key dest: override_name intro: rev_image_eqI)
  with assms show ?thesis by blast
qed

lemma overrides_free:
  "\<forall>k \<in> fst ` set (or_accepted r). free_name ep b k \<Longrightarrow>
   \<forall>k \<in> fst ` set (or_accepted (foldl (override_step ep b) r es)). free_name ep b k"
proof (induction es arbitrary: r)
  case Nil
  then show ?case by simp
next
  case (Cons e es)
  show ?case using Cons.IH [OF override_step_free [OF Cons.prems]] by simp
qed

lemma accepted_free:
  assumes "fst (sanitizeHostEnvOverridesWithDiagnostics collate ep b ovs) = Some es"
  shows "\<forall>k \<in> fst ` set es. free_name ep b k"
  using assms overrides_free [of "\<lparr>or_accepted = [], or_blocked = [], or_invalid = []\<rparr>" ep b]
  by (auto simp: sanitizeHostEnvOverridesWithDiagnostics_def Let_def split: option.splits)

subsection \<open>The environment\<close>

definition inherited :: "env_policy \<Rightarrow> env_entries \<Rightarrow> env_object" where
  "inherited ep base = assign_entries []
     (filter (\<lambda>(key, _). \<not> isDangerousHostInheritedEnvVarName ep key) (listNormalizedEnvEntries False base))"

lemma inherited_safe: "jm_get (inherited ep base) k \<noteq> None \<Longrightarrow> \<not> isDangerousHostInheritedEnvVarName ep k"
  unfolding inherited_def by (drule assign_entries_keys) auto

lemma sanitized_get:
  "jm_get (sanitizeHostExecEnv collate ep base ovs b) k =
     (if k = ''OPENCLAW_CLI'' then Some ''1''
      else jm_get (case fst (sanitizeHostEnvOverridesWithDiagnostics collate ep b ovs) of
          None \<Rightarrow> inherited ep base | Some es \<Rightarrow> assign_entries (inherited ep base) es) k)"
  by (simp add: sanitizeHostExecEnv_def sanitizeHostExecEnvWithDiagnostics_def markOpenClawExecEnv_def inherited_def
      Let_def case_prod_unfold split: option.splits)

lemma name_char_upper:
  assumes "env_name_start c \<or> is_digit c \<or> c = CHR ''('' \<or> c = CHR '')''"
  shows "\<exists>d. js_upper_char c = [d] \<and> js_upper_char d = [d] \<and> \<not> js_ws d \<and> \<not> js_ws c"
proof -
  define n where "n = (of_char c :: nat)"
  have c: "c = char_of n" by (simp add: n_def)
  have chars: "of_char (CHR ''('') = (40 :: nat)" "of_char (CHR '')'') = (41 :: nat)" "of_char (CHR ''_'') = (95 :: nat)" by simp_all
  have range: "n \<in> {65..90} \<union> {97..122} \<union> {48..57} \<union> {40, 41, 95}"
    using assms chars by (auto simp: env_name_start_def is_upper_alpha_def is_lower_alpha_def is_digit_def n_def Let_def)
  have "n < 256" using range by auto
  then have n: "of_char (char_of n :: char) = n" by simp
  show ?thesis
  proof (cases "97 \<le> n \<and> n \<le> 122")
    case True
    then have up: "js_upper_char c = [char_of (n - 32)]" by (simp add: js_upper_char_def Let_def n_def)
    have m: "of_char (char_of (n - 32) :: char) = n - 32" proof -
      have "n - 32 < 256" using True by linarith
      then show ?thesis by simp
    qed
    have "js_upper_char (char_of (n - 32)) = [char_of (n - 32)]" unfolding js_upper_char_def Let_def m using True by auto
    moreover have "\<not> js_ws (char_of (n - 32))" "\<not> js_ws c" using True by (auto simp: js_ws_def m c n)
    ultimately show ?thesis using up by blast
  next
    case False
    then have "n \<noteq> 223" "\<not> (97 \<le> n \<and> n \<le> 122 \<or> 224 \<le> n \<and> n \<le> 254 \<and> n \<noteq> 247)" using range by auto
    then have "js_upper_char c = [c]" unfolding js_upper_char_def Let_def n_def [symmetric] by auto
    moreover have "\<not> js_ws c" using range by (auto simp: js_ws_def c n)
    ultimately show ?thesis by blast
  qed
qed

lemma js_trim_id: "list_all (\<lambda>c. \<not> js_ws c) s \<Longrightarrow> js_trim s = s"
proof -
  assume s: "list_all (\<lambda>c. \<not> js_ws c) s"
  have drop: "dropWhile js_ws t = t" if "list_all (\<lambda>c. \<not> js_ws c) t" for t using that by (cases t) auto
  show ?thesis using s drop [OF s] drop [of "rev s"] by (simp add: js_trim_def js_trim_start_def js_trim_end_def list_all_rev)
qed

lemma upper_name:
  assumes "windows_compat_key k"
  shows "js_trim k = k" "js_trim (js_upper k) = js_upper k" "js_upper (js_upper k) = js_upper k" "js_upper k \<noteq> []" "k \<noteq> []"
proof -
  have all: "list_all (\<lambda>c. \<exists>d. js_upper_char c = [d] \<and> js_upper_char d = [d] \<and> \<not> js_ws d \<and> \<not> js_ws c) k"
    using assms name_char_upper by (auto simp: windows_compat_key_def list_all_iff)
  then show "js_upper (js_upper k) = js_upper k" by (induction k) (auto simp: js_upper_def)
  from all have "list_all (\<lambda>c. \<not> js_ws c) (js_upper k)" by (induction k) (auto simp: js_upper_def)
  then show "js_trim (js_upper k) = js_upper k" by (rule js_trim_id)
  show "js_trim k = k" using all by (intro js_trim_id) (auto simp: list_all_iff)
  show k: "k \<noteq> []" using assms by (simp add: windows_compat_key_def)
  with all show "js_upper k \<noteq> []" by (cases k) (auto simp: js_upper_def)
qed

text \<open>What the policy forbids to inherit it also forbids to override.\<close>

lemma free_not_inherited:
  assumes "free_name (loadHostEnvSecurityPolicy raw) b k" and "rp_inheritedPrefixes raw = None"
  shows "\<not> isDangerousHostInheritedEnvVarName (loadHostEnvSecurityPolicy raw) k"
proof -
  note up = upper_name [of k]
  have k: "windows_compat_key k" and free: "\<not> blocked_override (loadHostEnvSecurityPolicy raw) b (js_upper k)"
    using assms(1) by (simp_all add: free_name_def)
  have "js_upper k \<notin> js_upper ` set (rp_everywhere raw)" "js_upper k \<notin> js_upper ` set (rp_overrideOnly raw)"
      "\<not> list_ex (js_starts_with (js_upper k)) (unique_upper (rp_prefixes raw))"
    using free up [OF k] by (auto simp: blocked_override_def isDangerousHostEnvVarName_def isDangerousHostEnvOverrideVarName_def
        name_listed_def normalizeEnvVarKey_def loadHostEnvSecurityPolicy_def unique_upper_def Let_def)
  then show ?thesis using up [OF k] assms(2)
    by (auto simp: isDangerousHostInheritedEnvVarName_def name_listed_def normalizeEnvVarKey_def loadHostEnvSecurityPolicy_def
        unique_upper_def Let_def)
qed

text \<open>C24: The environment of a command on the host holds no variable that the policy forbids to inherit (except
  the mark of the program itself), whatever overrides are given; and an override never changes PATH or
  a variable that the policy protects: such a variable has the value it has without overrides.\<close>

theorem sanitized_environment_safe:
  fixes raw :: raw_policy and collate :: "string list \<Rightarrow> string list" and base :: env_entries and ovs :: "env_entries option"
  assumes "rp_inheritedPrefixes raw = None"
  defines "ep \<equiv> loadHostEnvSecurityPolicy raw"
  defines "env \<equiv> sanitizeHostExecEnv collate ep base ovs True"
  shows "(jm_get env k \<noteq> None \<and> k \<noteq> ''OPENCLAW_CLI'' \<longrightarrow> \<not> isDangerousHostInheritedEnvVarName ep k) \<and>
    (js_upper k = ''PATH'' \<or> isDangerousHostEnvVarName ep (js_upper k) \<or> isDangerousHostEnvOverrideVarName ep (js_upper k) \<longrightarrow>
       jm_get env k = jm_get (sanitizeHostExecEnv collate ep base None True) k)"
proof -
  let ?accepted = "fst (sanitizeHostEnvOverridesWithDiagnostics collate ep True ovs)"
  have none: "fst (sanitizeHostEnvOverridesWithDiagnostics collate ep True None) = None"
    by (simp add: sanitizeHostEnvOverridesWithDiagnostics_def)
  show ?thesis
  proof (cases ?accepted)
    case None
    then show ?thesis using inherited_safe [of ep base k] by (auto simp: env_def sanitized_get none)
  next
    case (Some es)
    note free = accepted_free [OF Some]
    have "\<not> isDangerousHostInheritedEnvVarName ep k" if "jm_get env k \<noteq> None" "k \<noteq> ''OPENCLAW_CLI''"
    proof -
      have "jm_get (assign_entries (inherited ep base) es) k \<noteq> None" using that by (simp add: env_def sanitized_get Some)
      then consider "k \<in> fst ` set es" | "jm_get (inherited ep base) k \<noteq> None" using assign_entries_keys by blast
      then show ?thesis
        using free free_not_inherited [OF _ assms(1)] inherited_safe unfolding ep_def by cases blast+
    qed
    moreover have "jm_get env k = jm_get (sanitizeHostExecEnv collate ep base None True) k"
      if "js_upper k = ''PATH'' \<or> isDangerousHostEnvVarName ep (js_upper k) \<or> isDangerousHostEnvOverrideVarName ep (js_upper k)"
    proof -
      have "k \<notin> fst ` set es" using that free by (auto simp: free_name_def blocked_override_def)
      then show ?thesis by (simp add: env_def sanitized_get Some none assign_entries_other)
    qed
    ultimately show ?thesis by blast
  qed
qed

definition sample_policy :: raw_policy where
  "sample_policy = \<lparr>rp_everywhere = [''BASH_ENV''], rp_overrideOnly = [''HOME''], rp_allowedInherited = [''HOME''],
     rp_inheritedPrefixes = None, rp_prefixes = [''LD_''], rp_overridePrefixes = []\<rparr>"

definition sample_base :: env_entries where
  "sample_base = [(''PATH'', Some ''/bin''), (''LD_PRELOAD'', Some ''x.so''), (''HOME'', Some ''/root'')]"

definition sample_overrides :: env_entries where
  "sample_overrides = [('' path '', Some ''/tmp''), (''LANG'', Some ''C''), (''HOME'', Some ''/tmp''), (''Bash_Env'', Some ''rc'')]"

lemma host_policy_inherits: "rp_inheritedPrefixes HOST_ENV_SECURITY_POLICY_JSON = None"
  by (simp add: HOST_ENV_SECURITY_POLICY_JSON_def)

theorem sanitized_environment_safe_witness:
  "let env = sanitizeHostExecEnv id (loadHostEnvSecurityPolicy sample_policy) sample_base (Some sample_overrides) True
   in map (jm_get env) [''PATH'', ''HOME'', ''LANG'', ''path'', ''Bash_Env'', ''LD_PRELOAD''] =
     [Some ''/bin'', Some ''/root'', Some ''C'', None, None, None]"
proof -
  define env where "env = sanitizeHostExecEnv id (loadHostEnvSecurityPolicy sample_policy) sample_base (Some sample_overrides) True"
  have raw: "rp_inheritedPrefixes sample_policy = None" by code_simp
  note safe = sanitized_environment_safe [OF raw, of id sample_base "Some sample_overrides",
      folded env_def]
  have "js_upper ''PATH'' = ''PATH''" "isDangerousHostEnvOverrideVarName (loadHostEnvSecurityPolicy sample_policy) (js_upper ''HOME'')" by code_simp+
  then have "jm_get env ''PATH'' = jm_get (sanitizeHostExecEnv id (loadHostEnvSecurityPolicy sample_policy) sample_base None True) ''PATH''"
      "jm_get env ''HOME'' = jm_get (sanitizeHostExecEnv id (loadHostEnvSecurityPolicy sample_policy) sample_base None True) ''HOME''"
    using safe by blast+
  moreover have "jm_get (sanitizeHostExecEnv id (loadHostEnvSecurityPolicy sample_policy) sample_base None True) ''PATH'' = Some ''/bin'' \<and>
      jm_get (sanitizeHostExecEnv id (loadHostEnvSecurityPolicy sample_policy) sample_base None True) ''HOME'' = Some ''/root''" by code_simp
  moreover have "map (jm_get env) [''LANG'', ''path'', ''Bash_Env'', ''LD_PRELOAD''] = [Some ''C'', None, None, None]"
    unfolding env_def by code_simp
  ultimately show ?thesis unfolding env_def [symmetric] by simp
qed

end
