(* ===== verification/Approval_Manager.thy ===== *)
theory Approval_Manager
  imports Exec_Approvals
begin

text \<open>
  The pending approvals of the gateway: src/brain/src/gateway/exec-approval-manager.ts and, of
  gateway/server-methods/approval-shared.ts, the search for a pending approval and its resolution.

  Promises are numbered by the registrations; \<open>mg_settled\<close> holds what became of each (\<open>None\<close> of an option is
  \<open>null\<close>). The timers of the entries are the list \<open>mg_timers\<close>, and the firing of one is an operation;
  \<open>clearTimeout\<close> removes one. An entry is the object of a registration, so that two entries are the same if
  their promises are. The clock is an argument. Responses, broadcasts and follow-ups are left out.
\<close>

definition RESOLVED_ENTRY_GRACE_MS :: int where
  "RESOLVED_ENTRY_GRACE_MS = 15000"

text \<open>\<open>ar_resolvedBy\<close> is absent, null (\<open>Some None\<close>) or a name.\<close>

record 'p approval_record =
  ar_id :: string
  ar_request :: 'p
  ar_createdAtMs :: int
  ar_expiresAtMs :: int
  ar_connId :: "string option"
  ar_deviceId :: "string option"
  ar_clientId :: "string option"
  ar_resolvedAtMs :: "int option"
  ar_decision :: "exec_decision option"
  ar_resolvedBy :: "string option option"

record 'p pending_entry =
  pd_record :: "'p approval_record"
  pd_promise :: nat

text \<open>A timer: the expiry of an entry, by its id, or the removal of a resolved one.\<close>

datatype approval_timer = ExpiryTimer string nat int | RemovalTimer string nat int

record 'p approval_manager =
  mg_pending :: "(string, 'p pending_entry) js_map"
  mg_promises :: nat
  mg_settled :: "(nat, exec_decision option) js_map"
  mg_timers :: "approval_timer list"

definition new_manager :: "'p approval_manager" where
  "new_manager = \<lparr>mg_pending = [], mg_promises = 0, mg_settled = [], mg_timers = []\<rparr>"

definition create_approval :: "string \<Rightarrow> int \<Rightarrow> 'p \<Rightarrow> int \<Rightarrow> string option \<Rightarrow> 'p approval_record" where
  "create_approval uuid now request timeoutMs givenId =
     \<lparr>ar_id = (if str_truthy givenId \<and> js_trim (the givenId) \<noteq> [] then js_trim (the givenId) else uuid),
      ar_request = request, ar_createdAtMs = now, ar_expiresAtMs = now + timeoutMs,
      ar_connId = None, ar_deviceId = None, ar_clientId = None, ar_resolvedAtMs = None, ar_decision = None, ar_resolvedBy = None\<rparr>"

text \<open>The promise of the registration, or the error that the id is already resolved.\<close>

definition register_approval :: "'p approval_record \<Rightarrow> int \<Rightarrow> 'p approval_manager \<Rightarrow> nat option \<times> 'p approval_manager" where
  "register_approval r timeoutMs mg =
     (case jm_get (mg_pending mg) (ar_id r) of
        Some e \<Rightarrow> ((if ar_resolvedAtMs (pd_record e) = None then Some (pd_promise e) else None), mg)
      | None \<Rightarrow>
          (let p = mg_promises mg
           in (Some p, mg\<lparr>mg_pending := jm_set (mg_pending mg) (ar_id r) \<lparr>pd_record = r, pd_promise = p\<rparr>,
                mg_promises := Suc p, mg_timers := mg_timers mg @ [ExpiryTimer (ar_id r) p timeoutMs]\<rparr>)))"

definition settle_promise :: "nat \<Rightarrow> exec_decision option \<Rightarrow> 'p approval_manager \<Rightarrow> 'p approval_manager" where
  "settle_promise p d mg = (if jm_get (mg_settled mg) p = None then mg\<lparr>mg_settled := mg_settled mg @ [(p, d)]\<rparr> else mg)"

fun expiry_of :: "nat \<Rightarrow> approval_timer \<Rightarrow> bool" where
  "expiry_of p (ExpiryTimer _ q _) \<longleftrightarrow> q = p"
| "expiry_of p (RemovalTimer _ _ _) \<longleftrightarrow> False"

text \<open>What \<open>resolve\<close> and \<open>expire\<close> have in common: a decision, or none when it expires.\<close>

definition finish_approval ::
  "int \<Rightarrow> string \<Rightarrow> exec_decision option \<Rightarrow> string option \<Rightarrow> 'p approval_manager \<Rightarrow> bool \<times> 'p approval_manager" where
  "finish_approval now i d by mg =
     (case jm_get (mg_pending mg) i of
        None \<Rightarrow> (False, mg)
      | Some e \<Rightarrow>
          (if ar_resolvedAtMs (pd_record e) \<noteq> None then (False, mg)
           else (True, settle_promise (pd_promise e) d
             (mg\<lparr>mg_pending := jm_set (mg_pending mg) i
                  (e\<lparr>pd_record := (pd_record e)\<lparr>ar_resolvedAtMs := Some now, ar_decision := d, ar_resolvedBy := Some by\<rparr>\<rparr>),
                mg_timers := filter (\<lambda>t. \<not> expiry_of (pd_promise e) t) (mg_timers mg) @
                  [RemovalTimer i (pd_promise e) RESOLVED_ENTRY_GRACE_MS]\<rparr>))))"

definition resolve_approval :: "int \<Rightarrow> string \<Rightarrow> exec_decision \<Rightarrow> string option \<Rightarrow> 'p approval_manager \<Rightarrow> bool \<times> 'p approval_manager" where
  "resolve_approval now i d by mg = finish_approval now i (Some d) by mg"

definition expire_approval :: "int \<Rightarrow> string \<Rightarrow> string option \<Rightarrow> 'p approval_manager \<Rightarrow> bool \<times> 'p approval_manager" where
  "expire_approval now i by mg = finish_approval now i None by mg"

text \<open>The callbacks of the timers; the timer has gone when its callback runs.\<close>

definition fire_timer :: "int \<Rightarrow> nat \<Rightarrow> 'p approval_manager \<Rightarrow> 'p approval_manager" where
  "fire_timer now k mg =
     (if k < length (mg_timers mg) then
        (let mg1 = mg\<lparr>mg_timers := take k (mg_timers mg) @ drop (Suc k) (mg_timers mg)\<rparr>
         in case mg_timers mg ! k of
              ExpiryTimer i _ _ \<Rightarrow> snd (expire_approval now i None mg1)
            | RemovalTimer i p _ \<Rightarrow>
                (if map_option pd_promise (jm_get (mg_pending mg) i) = Some p
                 then mg1\<lparr>mg_pending := jm_delete (mg_pending mg) i\<rparr> else mg1))
      else mg)"

definition getSnapshot :: "'p approval_manager \<Rightarrow> string \<Rightarrow> 'p approval_record option" where
  "getSnapshot mg i = map_option pd_record (jm_get (mg_pending mg) i)"

definition listPendingRecords :: "'p approval_manager \<Rightarrow> 'p approval_record list" where
  "listPendingRecords mg = filter (\<lambda>r. ar_resolvedAtMs r = None) (map pd_record (jm_values (mg_pending mg)))"

definition consumeAllowOnce :: "string \<Rightarrow> 'p approval_manager \<Rightarrow> bool \<times> 'p approval_manager" where
  "consumeAllowOnce i mg =
     (case jm_get (mg_pending mg) i of
        None \<Rightarrow> (False, mg)
      | Some e \<Rightarrow>
          (if ar_decision (pd_record e) \<noteq> Some AllowOnce then (False, mg)
           else (True, mg\<lparr>mg_pending := jm_set (mg_pending mg) i (e\<lparr>pd_record := (pd_record e)\<lparr>ar_decision := None\<rparr>\<rparr>)\<rparr>)))"

definition awaitDecision :: "'p approval_manager \<Rightarrow> string \<Rightarrow> nat option" where
  "awaitDecision mg i = map_option pd_promise (jm_get (mg_pending mg) i)"

datatype id_lookup = ExactId string | PrefixId string | AmbiguousId "string list" | NoId

definition lookupPendingId :: "'p approval_manager \<Rightarrow> string \<Rightarrow> id_lookup" where
  "lookupPendingId mg input =
     (let normalized = js_trim input
      in if normalized = [] then NoId
         else (case jm_get (mg_pending mg) normalized of
             Some e \<Rightarrow> if ar_resolvedAtMs (pd_record e) = None then ExactId normalized else NoId
           | None \<Rightarrow>
               (let lowerPrefix = normalizeLowercaseStringOrEmpty (JString normalized);
                    matches = map fst (filter (\<lambda>(i, e). ar_resolvedAtMs (pd_record e) = None \<and>
                      js_starts_with (normalizeLowercaseStringOrEmpty (JString i)) lowerPrefix) (mg_pending mg))
                in case matches of [] \<Rightarrow> NoId | [i] \<Rightarrow> PrefixId i | _ \<Rightarrow> AmbiguousId matches)))"

subsection \<open>Resolving by a client\<close>

datatype lookup_error = MissingApproval | AmbiguousApproval

definition resolvePendingApprovalRecord ::
  "'p approval_manager \<Rightarrow> string \<Rightarrow> bool \<Rightarrow> lookup_error + string \<times> 'p approval_record" where
  "resolvePendingApprovalRecord mg inputId exposeAmbiguous =
     (case lookupPendingId mg inputId of
        NoId \<Rightarrow> Inl MissingApproval
      | AmbiguousId _ \<Rightarrow> Inl (if exposeAmbiguous then AmbiguousApproval else MissingApproval)
      | ExactId i \<Rightarrow> (case getSnapshot mg i of
            None \<Rightarrow> Inl MissingApproval
          | Some r \<Rightarrow> if ar_resolvedAtMs r \<noteq> None then Inl MissingApproval else Inr (i, r))
      | PrefixId i \<Rightarrow> (case getSnapshot mg i of
            None \<Rightarrow> Inl MissingApproval
          | Some r \<Rightarrow> if ar_resolvedAtMs r \<noteq> None then Inl MissingApproval else Inr (i, r)))"

datatype resolve_error = LookupFailed lookup_error | DecisionUnavailable

text \<open>\<open>allowed\<close> are the decisions that the request allows; the name of the client is its display name, else
  its id, else null.\<close>

definition handleApprovalResolve ::
  "int \<Rightarrow> string \<Rightarrow> exec_decision \<Rightarrow> bool \<Rightarrow> ('p \<Rightarrow> exec_decision list) \<Rightarrow> string option \<Rightarrow> string option
     \<Rightarrow> 'p approval_manager \<Rightarrow> resolve_error option \<times> 'p approval_manager" where
  "handleApprovalResolve now inputId d exposeAmbiguous allowed displayName clientId mg =
     (case resolvePendingApprovalRecord mg inputId exposeAmbiguous of
        Inl e \<Rightarrow> (Some (LookupFailed e), mg)
      | Inr (i, r) \<Rightarrow>
          (if d \<notin> set (allowed (ar_request r)) then (Some DecisionUnavailable, mg)
           else (case resolve_approval now i d (nullish_opt displayName clientId) mg of
               (True, mg') \<Rightarrow> (None, mg')
             | (False, mg') \<Rightarrow> (Some (LookupFailed MissingApproval), mg'))))"

end
