(* ===== verification/Node_Approval.thy ===== *)
theory Node_Approval
  imports Approval_Manager Exec_Node Host_Env Task_Types
begin

text \<open>
  Approvals of commands on a node: what a request for one records
  (src/brain/src/gateway/server-methods/exec-approval.ts, up to the registration; infra/system-run-approval-context.ts
  and system-run-approval-binding.ts), and what the gateway forwards to the node for a call that says it
  is approved (gateway/node-invoke-system-run-approval.ts, its match and error files, node-invoke-sanitize.ts).

  Values of type unknown are JSON values, absent if undefined. \<open>String(v)\<close> of a value that is no string, the
  stable sort of entries by \<open>localeCompare\<close> of their keys, and the SHA-256 digest of the JSON text of entries are
  the fields of \<open>node_env\<close>. The texts that are shown, and fields that only go through, are left out.
\<close>

record node_env =
  ne_text :: "json_value \<Rightarrow> string"
  ne_sort :: "(string \<times> string) list \<Rightarrow> (string \<times> string) list"
  ne_envHash :: "(string \<times> string) list \<Rightarrow> string"

subsection \<open>Values of type unknown\<close>

text \<open>What \<open>typeof\<close> tells of a value; an object counts as null, as only strings are looked for.\<close>

fun json_js :: "json_value option \<Rightarrow> js_value" where
  "json_js None = JUndefined"
| "json_js (Some (JsonString s)) = JString s"
| "json_js (Some (JsonNumber r)) = JNumber (Fin r)"
| "json_js (Some (JsonBool b)) = JBool b"
| "json_js (Some _) = JNull"

definition normalizeNonEmptyString :: "json_value option \<Rightarrow> string option" where
  "normalizeNonEmptyString v = normalizeOptionalString (json_js v)"

fun js_string_of :: "node_env \<Rightarrow> json_value \<Rightarrow> string" where
  "js_string_of ne (JsonString s) = s"
| "js_string_of ne v = ne_text ne v"

fun normalizeStringArray :: "node_env \<Rightarrow> json_value option \<Rightarrow> string list" where
  "normalizeStringArray ne (Some (JsonArray vs)) = map (js_string_of ne) vs"
| "normalizeStringArray ne _ = []"

definition opt_json :: "string option \<Rightarrow> json_value" where
  "opt_json s = (case s of None \<Rightarrow> JsonNull | Some t \<Rightarrow> JsonString t)"

subsection \<open>Plans and bindings (infra/system-run-approval-binding.ts)\<close>

record file_operand =
  fo_argvIndex :: nat
  fo_path :: string
  fo_sha256 :: string

record run_plan =
  rl_argv :: "string list"
  rl_cwd :: "string option"
  rl_commandText :: string
  rl_commandPreview :: "string option"
  rl_agentId :: "string option"
  rl_sessionKey :: "string option"
  rl_operand :: "file_operand option"

text \<open>\<open>None\<close> is null: there is an operand, but it is malformed.\<close>

definition normalizeSystemRunApprovalFileOperand :: "json_value option \<Rightarrow> file_operand option option" where
  "normalizeSystemRunApprovalFileOperand v =
     (case v of
        None \<Rightarrow> Some None
      | Some (JsonObject fs) \<Rightarrow>
          (case (map_of fs ''argvIndex'', normalizeNonEmptyString (map_of fs ''path''), normalizeNonEmptyString (map_of fs ''sha256'')) of
             (Some (JsonNumber r), Some p, Some h) \<Rightarrow>
               (if of_int \<lfloor>r\<rfloor> = r \<and> r \<ge> 0
                then Some (Some \<lparr>fo_argvIndex = nat \<lfloor>r\<rfloor>, fo_path = p, fo_sha256 = h\<rparr>) else None)
           | _ \<Rightarrow> None)
      | Some _ \<Rightarrow> None)"

fun normalizeSystemRunApprovalPlan :: "node_env \<Rightarrow> json_value option \<Rightarrow> run_plan option" where
  "normalizeSystemRunApprovalPlan ne (Some (JsonObject fs)) =
     (let argv = normalizeStringArray ne (map_of fs ''argv'');
          operand = normalizeSystemRunApprovalFileOperand (map_of fs ''mutableFileOperand'');
          commandText = nullish_opt (normalizeNonEmptyString (map_of fs ''commandText'')) (normalizeNonEmptyString (map_of fs ''rawCommand''))
      in case (operand, commandText) of
           (Some op, Some text) \<Rightarrow>
             (if argv = [] then None
              else Some \<lparr>rl_argv = argv, rl_cwd = normalizeNonEmptyString (map_of fs ''cwd''), rl_commandText = text,
                rl_commandPreview = normalizeNonEmptyString (map_of fs ''commandPreview''),
                rl_agentId = normalizeNonEmptyString (map_of fs ''agentId''),
                rl_sessionKey = normalizeNonEmptyString (map_of fs ''sessionKey''), rl_operand = op\<rparr>)
         | _ \<Rightarrow> None)"
| "normalizeSystemRunApprovalPlan ne _ = None"

text \<open>A stored plan as the value that it is.\<close>

definition operand_json :: "file_operand \<Rightarrow> json_value" where
  "operand_json fo = JsonObject [(''argvIndex'', JsonNumber (of_nat (fo_argvIndex fo))), (''path'', JsonString (fo_path fo)),
     (''sha256'', JsonString (fo_sha256 fo))]"

definition plan_json :: "run_plan \<Rightarrow> json_value" where
  "plan_json p = JsonObject ([(''argv'', JsonArray (map JsonString (rl_argv p))), (''cwd'', opt_json (rl_cwd p)),
     (''commandText'', JsonString (rl_commandText p)), (''commandPreview'', opt_json (rl_commandPreview p)),
     (''agentId'', opt_json (rl_agentId p)), (''sessionKey'', opt_json (rl_sessionKey p))] @
     (case rl_operand p of None \<Rightarrow> [] | Some fo \<Rightarrow> [(''mutableFileOperand'', operand_json fo)]))"

definition normalizeSystemRunEnvEntries :: "node_env \<Rightarrow> json_value option \<Rightarrow> (string \<times> string) list" where
  "normalizeSystemRunEnvEntries ne v =
     (case v of
        Some (JsonObject fs) \<Rightarrow> ne_sort ne (List.map_filter (\<lambda>(k, w). case w of
            JsonString s \<Rightarrow> map_option (\<lambda>key. (key, s)) (normalizeHostOverrideEnvVarKey k)
          | _ \<Rightarrow> None) fs)
      | _ \<Rightarrow> ne_sort ne [])"

definition hashSystemRunEnvEntries :: "node_env \<Rightarrow> (string \<times> string) list \<Rightarrow> string option" where
  "hashSystemRunEnvEntries ne entries = (if entries = [] then None else Some (ne_envHash ne entries))"

definition buildSystemRunApprovalEnvBinding :: "node_env \<Rightarrow> json_value option \<Rightarrow> string option \<times> string list" where
  "buildSystemRunApprovalEnvBinding ne v =
     (let entries = normalizeSystemRunEnvEntries ne v in (hashSystemRunEnvEntries ne entries, map fst entries))"

record run_binding =
  rb_argv :: "string list"
  rb_cwd :: "string option"
  rb_agentId :: "string option"
  rb_sessionKey :: "string option"
  rb_envHash :: "string option"

text \<open>The arguments are strings or null at every call.\<close>

definition trimmed :: "string option \<Rightarrow> string option" where
  "trimmed s = normalizeOptionalString (js_opt s)"

definition buildSystemRunApprovalBinding ::
  "node_env \<Rightarrow> string list \<Rightarrow> string option \<Rightarrow> string option \<Rightarrow> string option \<Rightarrow> json_value option \<Rightarrow> run_binding \<times> string list" where
  "buildSystemRunApprovalBinding ne argv cwd agentId sessionKey env =
     (let (envHash, envKeys) = buildSystemRunApprovalEnvBinding ne env
      in (\<lparr>rb_argv = argv, rb_cwd = trimmed cwd, rb_agentId = trimmed agentId, rb_sessionKey = trimmed sessionKey,
           rb_envHash = envHash\<rparr>, envKeys))"

datatype binding_mismatch = RequestMismatch | EnvBindingMissing | EnvMismatch

definition matchSystemRunApprovalEnvHash :: "string option \<Rightarrow> string option \<Rightarrow> string list \<Rightarrow> binding_mismatch option" where
  "matchSystemRunApprovalEnvHash expected actual envKeys =
     (if \<not> str_truthy expected \<and> \<not> str_truthy actual \<and> envKeys \<noteq> [] then Some EnvBindingMissing
      else if \<not> str_truthy expected \<and> \<not> str_truthy actual then None
      else if \<not> str_truthy expected then Some EnvBindingMissing
      else if expected \<noteq> actual then Some EnvMismatch else None)"

definition argvMatches :: "string list \<Rightarrow> string list \<Rightarrow> bool" where
  "argvMatches expected actual \<longleftrightarrow> expected \<noteq> [] \<and> length expected = length actual \<and>
     list_all (\<lambda>(a, b). a = b) (zip expected actual)"

definition matchSystemRunApprovalBinding :: "run_binding \<Rightarrow> run_binding \<Rightarrow> string list \<Rightarrow> binding_mismatch option" where
  "matchSystemRunApprovalBinding expected actual envKeys =
     (if \<not> argvMatches (rb_argv expected) (rb_argv actual) then Some RequestMismatch
      else if rb_cwd expected \<noteq> rb_cwd actual then Some RequestMismatch
      else if rb_agentId expected \<noteq> rb_agentId actual then Some RequestMismatch
      else if rb_sessionKey expected \<noteq> rb_sessionKey actual then Some RequestMismatch
      else matchSystemRunApprovalEnvHash (rb_envHash expected) (rb_envHash actual) envKeys)"

subsection \<open>Requesting an approval\<close>

record exec_request =
  xr_plan :: "run_plan option"
  xr_binding :: "run_binding option"
  xr_commandArgv :: "string list option"
  xr_envKeys :: "string list option"
  xr_cwd :: "string option"
  xr_nodeId :: "string option"
  xr_host :: "string option"
  xr_ask :: "string option"
  xr_allowedDecisions :: "exec_decision list"
  xr_agentId :: "string option"
  xr_sessionKey :: "string option"

record request_context =
  qc_plan :: "run_plan option"
  qc_commandArgv :: "string list option"
  qc_commandText :: string
  qc_cwd :: "string option"
  qc_agentId :: "string option"
  qc_sessionKey :: "string option"

record request_params =
  qp_id :: "string option"
  qp_command :: string
  qp_commandArgv :: "string list option"
  qp_env :: "json_value option"
  qp_cwd :: "string option"
  qp_plan :: "json_value option"
  qp_nodeId :: "string option"
  qp_host :: "string option"
  qp_ask :: "string option"
  qp_agentId :: "string option"
  qp_sessionKey :: "string option"
  qp_timeoutMs :: "int option"

definition normalizeCommandPreview :: "string option \<Rightarrow> string \<Rightarrow> string option" where
  "normalizeCommandPreview v authoritative =
     (case trimmed v of None \<Rightarrow> None | Some preview \<Rightarrow> if preview = authoritative then None else Some preview)"

definition resolveSystemRunApprovalRequestContext :: "node_env \<Rightarrow> string \<Rightarrow> request_params \<Rightarrow> request_context" where
  "resolveSystemRunApprovalRequestContext ne host qp =
     (let normalized = (if nullish (trimmed (Some host)) [] = ''node'' then normalizeSystemRunApprovalPlan ne (qp_plan qp) else None);
          fallbackArgv = nullish (qp_commandArgv qp) [];
          text = (case normalized of
              None \<Rightarrow> qp_command qp
            | Some p \<Rightarrow> str_or (rl_commandText p) (formatExecCommand (rl_argv p)));
          plan = map_option (\<lambda>p. p\<lparr>rl_commandPreview :=
            normalizeCommandPreview (nullish_opt (rl_commandPreview p) (Some (qp_command qp))) text\<rparr>) normalized
      in \<lparr>qc_plan = plan,
          qc_commandArgv = (case plan of Some p \<Rightarrow> Some (rl_argv p) | None \<Rightarrow> if fallbackArgv \<noteq> [] then Some fallbackArgv else None),
          qc_commandText = text,
          qc_cwd = nullish_opt (Option.bind plan rl_cwd) (trimmed (qp_cwd qp)),
          qc_agentId = nullish_opt (Option.bind plan rl_agentId) (trimmed (qp_agentId qp)),
          qc_sessionKey = nullish_opt (Option.bind plan rl_sessionKey) (trimmed (qp_sessionKey qp))\<rparr>)"

datatype request_error = NodeIdRequired | PlanRequired | CommandRequired | ReservedId | ArgvRequired | AlreadyPending | RegistrationFailed

definition exec_approval_request ::
  "node_env \<Rightarrow> (string \<Rightarrow> bool) \<Rightarrow> request_params \<Rightarrow> request_error + exec_request" where
  "exec_approval_request ne pendingId qp =
     (let explicitId = trimmed (qp_id qp);
          host = nullish (trimmed (qp_host qp)) []; nodeId = nullish (trimmed (qp_nodeId qp)) [];
          qc = resolveSystemRunApprovalRequestContext ne host qp;
          node = (host = ''node'')
      in if node \<and> nodeId = [] then Inl NodeIdRequired
         else if node \<and> qc_plan qc = None then Inl PlanRequired
         else if qc_commandText qc = [] then Inl CommandRequired
         else if (case explicitId of None \<Rightarrow> False | Some i \<Rightarrow> js_starts_with i ''plugin:'') then Inl ReservedId
         else if node \<and> nullish (qc_commandArgv qc) [] = [] then Inl ArgvRequired
         else if (case explicitId of None \<Rightarrow> False | Some i \<Rightarrow> i \<noteq> [] \<and> pendingId i) then Inl AlreadyPending
         else (let envKeys = snd (buildSystemRunApprovalEnvBinding ne (qp_env qp))
           in Inr \<lparr>xr_plan = qc_plan qc,
                xr_binding = (if node then Some (fst (buildSystemRunApprovalBinding ne (nullish (qc_commandArgv qc) []) (qc_cwd qc)
                  (qc_agentId qc) (qc_sessionKey qc) (qp_env qp))) else None),
                xr_commandArgv = (if node then None else qc_commandArgv qc),
                xr_envKeys = (if envKeys \<noteq> [] then Some envKeys else None),
                xr_cwd = qc_cwd qc, xr_nodeId = (if node then Some nodeId else None),
                xr_host = (if host = [] then None else Some host), xr_ask = qp_ask qp,
                xr_allowedDecisions = resolveExecApprovalAllowedDecisions (qp_ask qp),
                xr_agentId = qc_agentId qc, xr_sessionKey = qc_sessionKey qc\<rparr>))"

text \<open>A connected client.\<close>

record approval_client =
  cl_connId :: "string option"
  cl_deviceId :: "string option"
  cl_clientId :: "string option"
  cl_scopes :: "json_value option"

definition DEFAULT_EXEC_APPROVAL_TIMEOUT_MS :: int where
  "DEFAULT_EXEC_APPROVAL_TIMEOUT_MS = 1800000"

text \<open>The handler up to the registration: the id and the promise of the approval.\<close>

definition request_approval ::
  "node_env \<Rightarrow> string \<Rightarrow> int \<Rightarrow> approval_client option \<Rightarrow> request_params \<Rightarrow> exec_request approval_manager
     \<Rightarrow> (request_error + string \<times> nat) \<times> exec_request approval_manager" where
  "request_approval ne uuid now client qp mg =
     (case exec_approval_request ne (\<lambda>i. getSnapshot mg i \<noteq> None) qp of
        Inl e \<Rightarrow> (Inl e, mg)
      | Inr payload \<Rightarrow>
          (let timeoutMs = nullish (qp_timeoutMs qp) DEFAULT_EXEC_APPROVAL_TIMEOUT_MS;
               r = (create_approval uuid now payload timeoutMs (trimmed (qp_id qp)))\<lparr>ar_connId := Option.bind client cl_connId,
                 ar_deviceId := Option.bind client cl_deviceId, ar_clientId := Option.bind client cl_clientId\<rparr>
           in case register_approval r timeoutMs mg of
                (None, mg') \<Rightarrow> (Inl RegistrationFailed, mg')
              | (Some p, mg') \<Rightarrow> (Inr (ar_id r, p), mg')))"

text \<open>Nobody who could decide has heard of the request: it expires at once
  (\<open>handlePendingApprovalRequest\<close>); the response is what the promise gives else.\<close>

definition expire_undelivered :: "int \<Rightarrow> bool \<Rightarrow> bool \<Rightarrow> bool \<Rightarrow> string \<Rightarrow> 'p approval_manager \<Rightarrow> bool \<times> 'p approval_manager" where
  "expire_undelivered now hasApprovalClients hasTurnSourceRoute delivered i mg =
     (if \<not> hasApprovalClients \<and> \<not> hasTurnSourceRoute \<and> \<not> delivered
      then (True, snd (expire_approval now i (Some ''no-approval-route'') mg)) else (False, mg))"

datatype wait_error = IdRequired | ApprovalGone

text \<open>The promise that is waited for, with the times of the response.\<close>

definition handleApprovalWaitDecision ::
  "'p approval_manager \<Rightarrow> js_value \<Rightarrow> wait_error + string \<times> nat \<times> int option \<times> int option" where
  "handleApprovalWaitDecision mg inputId =
     (let i = nullish (normalizeOptionalString inputId) []
      in if i = [] then Inl IdRequired
         else (case awaitDecision mg i of
             None \<Rightarrow> Inl ApprovalGone
           | Some p \<Rightarrow> Inr (i, p, map_option ar_createdAtMs (getSnapshot mg i), map_option ar_expiresAtMs (getSnapshot mg i))))"

definition decision_text :: "exec_decision \<Rightarrow> string" where
  "decision_text d = (case d of AllowOnce \<Rightarrow> ''allow-once'' | AllowAlways \<Rightarrow> ''allow-always'' | Deny \<Rightarrow> ''deny'')"

definition request_decisions :: "exec_request \<Rightarrow> exec_decision list" where
  "request_decisions r = resolveExecApprovalRequestAllowedDecisions (xr_ask r) (Some (map decision_text (xr_allowedDecisions r)))"

datatype decide_error = InvalidDecision | ResolveFailed resolve_error

definition exec_approval_resolve ::
  "int \<Rightarrow> string \<Rightarrow> string \<Rightarrow> string option \<Rightarrow> string option \<Rightarrow> exec_request approval_manager
     \<Rightarrow> decide_error option \<times> exec_request approval_manager" where
  "exec_approval_resolve now inputId decision displayName clientId mg =
     (case decision_of decision of
        None \<Rightarrow> (Some InvalidDecision, mg)
      | Some d \<Rightarrow> map_prod (map_option ResolveFailed) id
          (handleApprovalResolve now inputId d True request_decisions displayName clientId mg))"

text \<open>What a node says of a command that it has prepared: its plan, also in the form of old nodes.\<close>

definition parsePreparedSystemRunPayload :: "node_env \<Rightarrow> json_value option \<Rightarrow> run_plan option" where
  "parsePreparedSystemRunPayload ne payload =
     (case payload of
        Some (JsonObject raw) \<Rightarrow>
          (case normalizeSystemRunApprovalPlan ne (map_of raw ''plan'') of
             Some plan \<Rightarrow> Some plan
           | None \<Rightarrow>
               (case map_of raw ''plan'' of
                  Some (JsonObject legacy) \<Rightarrow>
                    (let argv = normalizeStringArray ne (map_of legacy ''argv'')
                     in case nullish_opt (normalizeNonEmptyString (map_of legacy ''rawCommand''))
                          (nullish_opt (normalizeNonEmptyString (map_of raw ''commandText'')) (normalizeNonEmptyString (map_of raw ''cmdText''))) of
                          None \<Rightarrow> None
                        | Some commandText \<Rightarrow>
                            (if argv = [] then None
                             else Some \<lparr>rl_argv = argv, rl_cwd = normalizeNonEmptyString (map_of legacy ''cwd''), rl_commandText = commandText,
                               rl_commandPreview = normalizeNonEmptyString (map_of legacy ''commandPreview''),
                               rl_agentId = normalizeNonEmptyString (map_of legacy ''agentId''),
                               rl_sessionKey = normalizeNonEmptyString (map_of legacy ''sessionKey''), rl_operand = None\<rparr>))
                | _ \<Rightarrow> None))
      | _ \<Rightarrow> None)"

subsection \<open>Forwarding a call (gateway/node-invoke-system-run-approval.ts)\<close>

definition normalizeApprovalDecision :: "json_value option \<Rightarrow> exec_decision option" where
  "normalizeApprovalDecision v =
     (let s = normalizeNonEmptyString v
      in if s = Some ''allow-once'' then Some AllowOnce else if s = Some ''allow-always'' then Some AllowAlways else None)"

definition clientHasApprovals :: "approval_client option \<Rightarrow> bool" where
  "clientHasApprovals client \<longleftrightarrow>
     (case Option.bind client cl_scopes of
        Some (JsonArray xs) \<Rightarrow> JsonString ''operator.admin'' \<in> set xs \<or> JsonString ''operator.approvals'' \<in> set xs
      | _ \<Rightarrow> False)"

type_synonym json_fields = "(string, json_value) js_map"

definition forwarded_keys :: "string list" where
  "forwarded_keys = [''command'', ''rawCommand'', ''systemRunPlan'', ''cwd'', ''env'', ''timeoutMs'', ''needsScreenRecording'',
     ''agentId'', ''sessionKey'', ''runId'', ''suppressNotifyOnExit'']"

definition pickSystemRunParams :: "(string \<times> json_value) list \<Rightarrow> json_fields" where
  "pickSystemRunParams raw = List.map_filter (\<lambda>k. map_option (Pair k) (map_of raw k)) forwarded_keys"

record runtime_context =
  tc_plan :: "run_plan option"
  tc_argv :: "string list"
  tc_cwd :: "string option"
  tc_agentId :: "string option"
  tc_sessionKey :: "string option"
  tc_commandText :: string

text \<open>The array of the command, as strings.\<close>

definition resolve_request ::
  "exec_env \<Rightarrow> node_env \<Rightarrow> (string \<times> json_value) list \<Rightarrow> command_error + string list \<times> command_display" where
  "resolve_request env ne p =
     resolveSystemRunCommandRequest env (normalizeStringArray ne (map_of p ''command'')) (json_js (map_of p ''rawCommand''))"

definition resolveSystemRunApprovalRuntimeContext ::
  "exec_env \<Rightarrow> node_env \<Rightarrow> run_plan option \<Rightarrow> (string \<times> json_value) list \<Rightarrow> command_error + runtime_context" where
  "resolveSystemRunApprovalRuntimeContext env ne plan p =
     (case normalizeSystemRunApprovalPlan ne (Some (case plan of None \<Rightarrow> JsonNull | Some q \<Rightarrow> plan_json q)) of
        Some q \<Rightarrow> Inr \<lparr>tc_plan = Some q, tc_argv = rl_argv q, tc_cwd = rl_cwd q, tc_agentId = rl_agentId q,
          tc_sessionKey = rl_sessionKey q, tc_commandText = rl_commandText q\<rparr>
      | None \<Rightarrow> map_sum id (\<lambda>(argv, display). \<lparr>tc_plan = None, tc_argv = argv, tc_cwd = normalizeNonEmptyString (map_of p ''cwd''),
          tc_agentId = normalizeNonEmptyString (map_of p ''agentId''), tc_sessionKey = normalizeNonEmptyString (map_of p ''sessionKey''),
          tc_commandText = cd_commandText display\<rparr>) (resolve_request env ne p))"

definition evaluateSystemRunApprovalMatch ::
  "node_env \<Rightarrow> runtime_context \<Rightarrow> exec_request \<Rightarrow> json_value option \<Rightarrow> binding_mismatch option" where
  "evaluateSystemRunApprovalMatch ne tc request env =
     (let (actual, envKeys) = buildSystemRunApprovalBinding ne (tc_argv tc) (tc_cwd tc) (tc_agentId tc) (tc_sessionKey tc) env
      in if xr_host request \<noteq> Some ''node'' then Some RequestMismatch
         else (case xr_binding request of
             None \<Rightarrow> Some RequestMismatch
           | Some expected \<Rightarrow> matchSystemRunApprovalBinding expected actual envKeys))"

datatype forward_error =
    CommandRejected command_error | MissingRunId | ApprovalsUnavailable | UnknownApprovalId | ApprovalExpired
  | MissingNodeId | NodeBindingMissing | NodeMismatch | DeviceMismatch | ClientMismatch
  | BindingRejected binding_mismatch | ApprovalNotGiven

definition set_or_delete :: "string \<Rightarrow> string option \<Rightarrow> json_fields \<Rightarrow> json_fields" where
  "set_or_delete k v fs = (if str_truthy v then jm_set fs k (JsonString (the v)) else jm_delete fs k)"

definition apply_plan :: "runtime_context \<Rightarrow> json_fields \<Rightarrow> json_fields" where
  "apply_plan tc fs =
     (case tc_plan tc of
        None \<Rightarrow> fs
      | Some q \<Rightarrow>
          set_or_delete ''sessionKey'' (tc_sessionKey tc) (set_or_delete ''agentId'' (tc_agentId tc) (set_or_delete ''cwd'' (tc_cwd tc)
            (set_or_delete ''rawCommand'' (Some (tc_commandText tc))
              (jm_set (jm_set fs ''command'' (JsonArray (map JsonString (rl_argv q)))) ''systemRunPlan'' (plan_json q))))))"

definition with_decision :: "exec_decision \<Rightarrow> json_fields \<Rightarrow> json_fields" where
  "with_decision d fs = jm_set (jm_set fs ''approved'' (JsonBool True)) ''approvalDecision''
     (JsonString (if d = AllowAlways then ''allow-always'' else ''allow-once''))"

definition bound_elsewhere :: "'p approval_record \<Rightarrow> approval_client option \<Rightarrow> forward_error option" where
  "bound_elsewhere r client =
     (if str_truthy (ar_deviceId r) then
        (if ar_deviceId r \<noteq> Option.bind client cl_deviceId then Some DeviceMismatch else None)
      else if str_truthy (ar_connId r) \<and> ar_connId r \<noteq> Option.bind client cl_connId then Some ClientMismatch else None)"

text \<open>The record says that the request has timed out.\<close>

definition approval_timed_out :: "'p approval_record \<Rightarrow> bool" where
  "approval_timed_out r \<longleftrightarrow> ar_resolvedAtMs r \<noteq> None \<and> ar_decision r = None \<and> ar_resolvedBy r = Some None"

text \<open>The decision of the record, once the call has matched it.\<close>

definition forward_decided ::
  "string \<Rightarrow> bool \<Rightarrow> exec_decision option \<Rightarrow> approval_client option \<Rightarrow> 'p approval_record \<Rightarrow> json_fields \<Rightarrow> 'p approval_manager
     \<Rightarrow> (forward_error + json_fields) \<times> 'p approval_manager" where
  "forward_decided run approved requested client r fs mg =
     (if ar_decision r = Some AllowOnce then
        (case consumeAllowOnce run mg of
           (True, mg') \<Rightarrow> (Inr (with_decision AllowOnce fs), mg')
         | (False, mg') \<Rightarrow> (Inl ApprovalNotGiven, mg'))
      else if ar_decision r = Some AllowAlways then (Inr (with_decision AllowAlways fs), mg)
      else if approval_timed_out r \<and> approved \<and> requested = Some AllowOnce \<and> clientHasApprovals client
        then (Inr (with_decision AllowOnce fs), mg)
      else (Inl ApprovalNotGiven, mg))"

definition sanitizeSystemRunParamsForForwarding ::
  "exec_env \<Rightarrow> node_env \<Rightarrow> int \<Rightarrow> string option \<Rightarrow> (string \<times> json_value) list \<Rightarrow> approval_client option
     \<Rightarrow> exec_request approval_manager \<Rightarrow> (forward_error + json_fields) \<times> exec_request approval_manager" where
  "sanitizeSystemRunParamsForForwarding env ne now nodeId p client mg =
     (let approved = (map_of p ''approved'' = Some (JsonBool True));
          requested = normalizeApprovalDecision (map_of p ''approvalDecision'');
          fs = pickSystemRunParams p
      in if \<not> approved \<and> requested = None then
           (case resolve_request env ne p of Inl e \<Rightarrow> (Inl (CommandRejected e), mg) | Inr _ \<Rightarrow> (Inr fs, mg))
         else (case normalizeNonEmptyString (map_of p ''runId'') of
             None \<Rightarrow> (Inl MissingRunId, mg)
           | Some run \<Rightarrow>
               (case getSnapshot mg run of
                  None \<Rightarrow> (Inl UnknownApprovalId, mg)
                | Some r \<Rightarrow>
                    (if now > ar_expiresAtMs r then (Inl ApprovalExpired, mg)
                     else (case (trimmed nodeId, trimmed (xr_nodeId (ar_request r))) of
                         (None, _) \<Rightarrow> (Inl MissingNodeId, mg)
                       | (Some _, None) \<Rightarrow> (Inl NodeBindingMissing, mg)
                       | (Some target, Some node) \<Rightarrow>
                           (if node \<noteq> target then (Inl NodeMismatch, mg)
                            else (case bound_elsewhere r client of
                                Some e \<Rightarrow> (Inl e, mg)
                              | None \<Rightarrow>
                                  (case resolveSystemRunApprovalRuntimeContext env ne (xr_plan (ar_request r)) p of
                                     Inl e \<Rightarrow> (Inl (CommandRejected e), mg)
                                   | Inr tc \<Rightarrow>
                                       (case evaluateSystemRunApprovalMatch ne tc (ar_request r) (map_of p ''env'') of
                                          Some e \<Rightarrow> (Inl (BindingRejected e), mg)
                                        | None \<Rightarrow> forward_decided run approved requested client r (apply_plan tc fs) mg)))))))))"

text \<open>Other commands pass as they are; so do parameters that are no object.\<close>

definition sanitizeNodeInvokeParamsForForwarding ::
  "exec_env \<Rightarrow> node_env \<Rightarrow> int \<Rightarrow> string \<Rightarrow> string \<Rightarrow> json_value option \<Rightarrow> approval_client option
     \<Rightarrow> exec_request approval_manager option \<Rightarrow> (forward_error + json_value option) \<times> exec_request approval_manager option" where
  "sanitizeNodeInvokeParamsForForwarding env ne now nodeId command rawParams client manager =
     (case rawParams of
        Some (JsonObject p) \<Rightarrow>
          (if command \<noteq> ''system.run'' then (Inr rawParams, manager)
           else (case manager of
               Some mg \<Rightarrow> map_prod (map_sum id (Some \<circ> JsonObject)) Some
                 (sanitizeSystemRunParamsForForwarding env ne now (Some nodeId) p client mg)
             | None \<Rightarrow>
                 (if map_of p ''approved'' \<noteq> Some (JsonBool True) \<and> normalizeApprovalDecision (map_of p ''approvalDecision'') = None
                  then (map_sum id (Some \<circ> JsonObject) (fst (sanitizeSystemRunParamsForForwarding env ne now (Some nodeId) p client new_manager)), None)
                  else (Inl (if normalizeNonEmptyString (map_of p ''runId'') = None then MissingRunId else ApprovalsUnavailable), None))))
      | _ \<Rightarrow> (Inr rawParams, manager))"

end
