(* ===== verification/Approval_Proofs.thy ===== *)
theory Approval_Proofs
  imports Approval_Manager Machines
begin

text \<open>
  The manager of approvals as a machine: every registration is settled or still has its expiry timer, and
  nothing is kept once the timers have run; a decision that was used up stays so.
\<close>

subsection \<open>The machine\<close>

text \<open>A registration: uuid, time, request, time-out, given id, connection, device and client.\<close>

datatype 'p approval_event =
    Register string int 'p int "string option" "string option" "string option" "string option"
  | Resolve int string exec_decision "string option"
  | Expire int string "string option"
  | Fire int nat
  | Consume string

fun approval_step :: "'p approval_manager \<Rightarrow> 'p approval_event \<Rightarrow> 'p approval_manager" where
  "approval_step mg (Register uuid now request timeoutMs givenId conn dev cl) =
     snd (register_approval ((create_approval uuid now request timeoutMs givenId)
       \<lparr>ar_connId := conn, ar_deviceId := dev, ar_clientId := cl\<rparr>) timeoutMs mg)"
| "approval_step mg (Resolve now i d by) = snd (resolve_approval now i d by mg)"
| "approval_step mg (Expire now i by) = snd (expire_approval now i by mg)"
| "approval_step mg (Fire now k) = fire_timer now k mg"
| "approval_step mg (Consume i) = snd (consumeAllowOnce i mg)"

definition approval_run :: "'p approval_manager \<Rightarrow> 'p approval_event list \<Rightarrow> 'p approval_manager" where
  "approval_run = foldl approval_step"

abbreviation entry_at :: "'p approval_manager \<Rightarrow> string \<Rightarrow> 'p pending_entry option" where
  "entry_at mg i \<equiv> jm_get (mg_pending mg) i"

definition open_entry :: "'p pending_entry \<Rightarrow> bool" where
  "open_entry e \<longleftrightarrow> ar_resolvedAtMs (pd_record e) = None"

definition promise_settled :: "'p approval_manager \<Rightarrow> nat \<Rightarrow> bool" where
  "promise_settled mg p \<longleftrightarrow> jm_get (mg_settled mg) p \<noteq> None"

definition has_expiry :: "'p approval_manager \<Rightarrow> string \<Rightarrow> nat \<Rightarrow> bool" where
  "has_expiry mg i p \<longleftrightarrow> (\<exists>t. ExpiryTimer i p t \<in> set (mg_timers mg))"

definition has_removal :: "'p approval_manager \<Rightarrow> string \<Rightarrow> nat \<Rightarrow> bool" where
  "has_removal mg i p \<longleftrightarrow> (\<exists>t. RemovalTimer i p t \<in> set (mg_timers mg))"

text \<open>An entry has its timer, and its promise is settled exactly if it is resolved; the promise of every
  registration is settled or that of an open entry; a timer of expiry belongs to an open entry.\<close>

definition approvals_ok :: "'p approval_manager \<Rightarrow> bool" where
  "approvals_ok mg \<longleftrightarrow> jm_wf (mg_pending mg) \<and>
     (\<forall>i e. entry_at mg i = Some e \<longrightarrow>
        pd_promise e < mg_promises mg \<and> (promise_settled mg (pd_promise e) \<longleftrightarrow> \<not> open_entry e) \<and>
        (open_entry e \<longrightarrow> has_expiry mg i (pd_promise e) \<and> ar_decision (pd_record e) = None) \<and>
        (\<not> open_entry e \<longrightarrow> has_removal mg i (pd_promise e) \<and> ar_resolvedBy (pd_record e) \<noteq> None)) \<and>
     (\<forall>p < mg_promises mg. promise_settled mg p \<or> (\<exists>i e. entry_at mg i = Some e \<and> pd_promise e = p \<and> open_entry e)) \<and>
     (\<forall>i p. has_expiry mg i p \<longrightarrow> (\<exists>e. entry_at mg i = Some e \<and> pd_promise e = p \<and> open_entry e)) \<and>
     (\<forall>i p. has_removal mg i p \<longrightarrow> promise_settled mg p) \<and>
     (\<forall>p. promise_settled mg p \<longrightarrow> p < mg_promises mg) \<and>
     (\<forall>i j e f. entry_at mg i = Some e \<longrightarrow> entry_at mg j = Some f \<longrightarrow> pd_promise e = pd_promise f \<longrightarrow> i = j)"

lemma approvals_okD:
  assumes "approvals_ok mg"
  shows "jm_wf (mg_pending mg)"
    and "entry_at mg i = Some e \<Longrightarrow> pd_promise e < mg_promises mg"
    and "entry_at mg i = Some e \<Longrightarrow> promise_settled mg (pd_promise e) \<longleftrightarrow> \<not> open_entry e"
    and "entry_at mg i = Some e \<Longrightarrow> open_entry e \<Longrightarrow> has_expiry mg i (pd_promise e) \<and> ar_decision (pd_record e) = None"
    and "entry_at mg i = Some e \<Longrightarrow> \<not> open_entry e \<Longrightarrow> has_removal mg i (pd_promise e) \<and> ar_resolvedBy (pd_record e) \<noteq> None"
    and "p < mg_promises mg \<Longrightarrow> promise_settled mg p \<or> (\<exists>i e. entry_at mg i = Some e \<and> pd_promise e = p \<and> open_entry e)"
    and "has_expiry mg i p \<Longrightarrow> \<exists>e. entry_at mg i = Some e \<and> pd_promise e = p \<and> open_entry e"
    and "has_removal mg i p \<Longrightarrow> promise_settled mg p"
    and "promise_settled mg p \<Longrightarrow> p < mg_promises mg"
    and "entry_at mg i = Some e \<Longrightarrow> entry_at mg j = Some f \<Longrightarrow> pd_promise e = pd_promise f \<Longrightarrow> i = j"
  using assms unfolding approvals_ok_def by (blast, metis, metis, metis, metis, metis, metis, metis, metis, metis)

lemma approvals_okI:
  assumes "jm_wf (mg_pending mg)"
    and "\<And>i e. entry_at mg i = Some e \<Longrightarrow> pd_promise e < mg_promises mg"
    and "\<And>i e. entry_at mg i = Some e \<Longrightarrow> promise_settled mg (pd_promise e) \<longleftrightarrow> \<not> open_entry e"
    and "\<And>i e. entry_at mg i = Some e \<Longrightarrow> open_entry e \<Longrightarrow> has_expiry mg i (pd_promise e) \<and> ar_decision (pd_record e) = None"
    and "\<And>i e. entry_at mg i = Some e \<Longrightarrow> \<not> open_entry e \<Longrightarrow> has_removal mg i (pd_promise e) \<and> ar_resolvedBy (pd_record e) \<noteq> None"
    and "\<And>p. p < mg_promises mg \<Longrightarrow> promise_settled mg p \<or> (\<exists>i e. entry_at mg i = Some e \<and> pd_promise e = p \<and> open_entry e)"
    and "\<And>i p. has_expiry mg i p \<Longrightarrow> \<exists>e. entry_at mg i = Some e \<and> pd_promise e = p \<and> open_entry e"
    and "\<And>i p. has_removal mg i p \<Longrightarrow> promise_settled mg p"
    and "\<And>p. promise_settled mg p \<Longrightarrow> p < mg_promises mg"
    and "\<And>i j e f. entry_at mg i = Some e \<Longrightarrow> entry_at mg j = Some f \<Longrightarrow> pd_promise e = pd_promise f \<Longrightarrow> i = j"
  shows "approvals_ok mg"
  unfolding approvals_ok_def by (intro conjI allI impI) (rule assms(1) | blast dest: assms(2-))+

subsection \<open>The operations\<close>

lemma jm_get_snoc_iff: "jm_get (m @ [(p, d)]) q \<noteq> None \<longleftrightarrow> jm_get m q \<noteq> None \<or> q = p"
  by (induction m) (auto split: if_splits)

lemma approvals_ok_new: "approvals_ok new_manager"
  by (simp add: approvals_ok_def new_manager_def promise_settled_def has_expiry_def has_removal_def)

lemma approvals_ok_register:
  assumes "approvals_ok mg" and "ar_resolvedAtMs r = None" and "ar_decision r = None"
  shows "approvals_ok (snd (register_approval r t mg))"
proof (cases "entry_at mg (ar_id r)")
  case (Some e)
  then show ?thesis using assms(1) by (simp add: register_approval_def)
next
  case None
  note ok = approvals_okD [OF assms(1)]
  let ?p = "mg_promises mg"
  define mg' where "mg' = snd (register_approval r t mg)"
  have timers: "has_expiry mg' i p \<longleftrightarrow> i = ar_id r \<and> p = ?p \<or> has_expiry mg i p" "has_removal mg' i p \<longleftrightarrow> has_removal mg i p" for i p
    using None by (auto simp: mg'_def register_approval_def has_expiry_def has_removal_def Let_def)
  have get: "entry_at mg' i = (if i = ar_id r then Some \<lparr>pd_record = r, pd_promise = ?p\<rparr> else entry_at mg i)" for i
    using None by (simp add: mg'_def register_approval_def Let_def)
  have rest: "promise_settled mg' p \<longleftrightarrow> promise_settled mg p" "mg_promises mg' = Suc ?p" "jm_wf (mg_pending mg')" for p
    using None ok(1) by (simp_all add: mg'_def register_approval_def promise_settled_def Let_def)
  have new: "open_entry \<lparr>pd_record = r, pd_promise = ?p\<rparr>" "\<not> promise_settled mg ?p"
    using assms(2) ok(9) [of ?p] by (auto simp: open_entry_def)
  have "approvals_ok mg'"
  proof (rule approvals_okI)
    show "jm_wf (mg_pending mg')" by (rule rest(3))
    show "pd_promise e < mg_promises mg'" if "entry_at mg' i = Some e" for i e
      using that ok(2) [of i e] by (auto simp: get rest split: if_splits)
    show "promise_settled mg' (pd_promise e) \<longleftrightarrow> \<not> open_entry e" if "entry_at mg' i = Some e" for i e
      using that ok(3) [of i e] new by (auto simp: get rest split: if_splits)
    show "has_expiry mg' i (pd_promise e) \<and> ar_decision (pd_record e) = None" if "entry_at mg' i = Some e" "open_entry e" for i e
      using that ok(4) [of i e] assms(3) by (auto simp: get timers split: if_splits)
    show "has_removal mg' i (pd_promise e) \<and> ar_resolvedBy (pd_record e) \<noteq> None" if "entry_at mg' i = Some e" "\<not> open_entry e" for i e
      using that ok(5) [of i e] new by (auto simp: get timers split: if_splits)
    show "promise_settled mg' p \<or> (\<exists>i e. entry_at mg' i = Some e \<and> pd_promise e = p \<and> open_entry e)" if "p < mg_promises mg'" for p
    proof (cases "p = ?p")
      case True
      then show ?thesis using new(1) get [of "ar_id r"] by (metis pending_entry.select_convs(2))
    next
      case False
      with that have "p < ?p" by (simp add: rest)
      with ok(6) [of p] show ?thesis using None by (metis get option.distinct(1) rest(1))
    qed
    show "\<exists>e. entry_at mg' i = Some e \<and> pd_promise e = p \<and> open_entry e" if "has_expiry mg' i p" for i p
      using that ok(7) [of i p] None new(1) by (auto simp: get timers)
    show "promise_settled mg' p" if "has_removal mg' i p" for i p using that ok(8) by (simp add: timers rest)
    show "p < mg_promises mg'" if "promise_settled mg' p" for p using that ok(9) [of p] by (simp add: rest)
    show "i = j" if "entry_at mg' i = Some e" "entry_at mg' j = Some f" "pd_promise e = pd_promise f" for i j e f
      using that ok(10) [of i e j f] ok(2) [of i e] ok(2) [of j f] by (auto simp: get split: if_splits)
  qed
  then show ?thesis by (simp add: mg'_def)
qed

lemma approvals_ok_finish:
  assumes "approvals_ok mg"
  shows "approvals_ok (snd (finish_approval now i d by mg))"
proof (cases "\<exists>e. entry_at mg i = Some e \<and> open_entry e")
  case False
  then show ?thesis using assms by (auto simp: finish_approval_def open_entry_def split: option.splits)
next
  case True
  then obtain e where e: "entry_at mg i = Some e" "open_entry e" by blast
  note ok = approvals_okD [OF assms]
  let ?p = "pd_promise e"
  define e' where "e' = e\<lparr>pd_record := (pd_record e)\<lparr>ar_resolvedAtMs := Some now, ar_decision := d, ar_resolvedBy := Some by\<rparr>\<rparr>"
  define mg' where "mg' = snd (finish_approval now i d by mg)"
  have e': "pd_promise e' = ?p" "\<not> open_entry e'" "ar_resolvedBy (pd_record e') \<noteq> None" by (simp_all add: e'_def open_entry_def)
  have unsettled: "jm_get (mg_settled mg) ?p = None" using ok(3) [OF e(1)] e(2) by (simp add: promise_settled_def)
  have mg': "mg' = settle_promise ?p d (mg\<lparr>mg_pending := jm_set (mg_pending mg) i e',
      mg_timers := filter (\<lambda>t. \<not> expiry_of ?p t) (mg_timers mg) @ [RemovalTimer i ?p RESOLVED_ENTRY_GRACE_MS]\<rparr>)"
    using e by (simp add: mg'_def finish_approval_def e'_def open_entry_def)
  have get: "entry_at mg' j = (if j = i then Some e' else entry_at mg j)" for j
    by (simp add: mg' settle_promise_def)
  have settled: "promise_settled mg' p \<longleftrightarrow> p = ?p \<or> promise_settled mg p" for p
    using unsettled unfolding promise_settled_def by (auto simp: mg' settle_promise_def jm_get_snoc_iff simp del: not_None_eq)
  have timers: "has_expiry mg' j p \<longleftrightarrow> has_expiry mg j p \<and> p \<noteq> ?p" "has_removal mg' j p \<longleftrightarrow> j = i \<and> p = ?p \<or> has_removal mg j p" for j p
    by (auto simp: mg' settle_promise_def has_expiry_def has_removal_def)
  have rest: "mg_promises mg' = mg_promises mg" "jm_wf (mg_pending mg')" using ok(1) by (simp_all add: mg' settle_promise_def)
  have "approvals_ok mg'"
  proof (rule approvals_okI)
    show "jm_wf (mg_pending mg')" by (rule rest(2))
    show "pd_promise f < mg_promises mg'" if "entry_at mg' j = Some f" for j f
      using that ok(2) [of j f] ok(2) [OF e(1)] e' by (auto simp: get rest split: if_splits)
    show "promise_settled mg' (pd_promise f) \<longleftrightarrow> \<not> open_entry f" if "entry_at mg' j = Some f" for j f
      using that ok(3) [of j f] e' ok(10) [OF e(1), of j f] by (auto simp: get settled split: if_splits)
    show "has_expiry mg' j (pd_promise f) \<and> ar_decision (pd_record f) = None" if "entry_at mg' j = Some f" "open_entry f" for j f
      using that ok(4) [of j f] e' ok(10) [OF e(1), of j f] by (auto simp: get timers split: if_splits)
    show "has_removal mg' j (pd_promise f) \<and> ar_resolvedBy (pd_record f) \<noteq> None" if "entry_at mg' j = Some f" "\<not> open_entry f" for j f
      using that ok(5) [of j f] e' by (auto simp: get timers split: if_splits)
    show "promise_settled mg' p \<or> (\<exists>j f. entry_at mg' j = Some f \<and> pd_promise f = p \<and> open_entry f)" if "p < mg_promises mg'" for p
    proof (cases "p = ?p \<or> promise_settled mg p")
      case True
      then show ?thesis by (simp add: settled)
    next
      case False
      moreover have "p < mg_promises mg" using that rest by simp
      ultimately obtain j f where f: "entry_at mg j = Some f" "pd_promise f = p" "open_entry f" using ok(6) [of p] by blast
      with e False have "j \<noteq> i" by auto
      with f show ?thesis using get [of j] by auto
    qed
    show "\<exists>f. entry_at mg' j = Some f \<and> pd_promise f = p \<and> open_entry f" if "has_expiry mg' j p" for j p
      using that ok(7) [of j p] e by (auto simp: get timers)
    show "promise_settled mg' p" if "has_removal mg' j p" for j p using that ok(8) [of j p] by (auto simp: timers settled)
    show "p < mg_promises mg'" if "promise_settled mg' p" for p using that ok(9) [of p] ok(2) [OF e(1)] by (auto simp: settled rest)
    show "j = k" if "entry_at mg' j = Some f" "entry_at mg' k = Some g" "pd_promise f = pd_promise g" for j k f g
      using that ok(10) [of j f k g] ok(10) [OF e(1), of j f] ok(10) [OF e(1), of k g] e' by (auto simp: get split: if_splits)
  qed
  then show ?thesis by (simp add: mg'_def)
qed

lemma approvals_ok_consume:
  assumes "approvals_ok mg"
  shows "approvals_ok (snd (consumeAllowOnce i mg))"
proof (cases "\<exists>e. entry_at mg i = Some e \<and> ar_decision (pd_record e) = Some AllowOnce")
  case False
  then show ?thesis using assms by (auto simp: consumeAllowOnce_def split: option.splits)
next
  case True
  then obtain e where e: "entry_at mg i = Some e" "ar_decision (pd_record e) = Some AllowOnce" by blast
  note ok = approvals_okD [OF assms]
  define e' where "e' = e\<lparr>pd_record := (pd_record e)\<lparr>ar_decision := None\<rparr>\<rparr>"
  define mg' where "mg' = snd (consumeAllowOnce i mg)"
  have e': "pd_promise e' = pd_promise e" "open_entry e' = open_entry e" by (simp_all add: e'_def open_entry_def)
  have "\<not> open_entry e" using ok(4) [OF e(1)] e(2) by auto
  have get: "entry_at mg' j = (if j = i then Some e' else entry_at mg j)" for j
    using e by (simp add: mg'_def consumeAllowOnce_def e'_def)
  have rest: "promise_settled mg' = promise_settled mg" "has_expiry mg' = has_expiry mg" "has_removal mg' = has_removal mg"
      "mg_promises mg' = mg_promises mg" "jm_wf (mg_pending mg')"
    using e ok(1) by (simp_all add: mg'_def consumeAllowOnce_def promise_settled_def has_expiry_def has_removal_def fun_eq_iff)
  have old: "\<exists>f. entry_at mg j = Some f \<and> pd_promise f = pd_promise g \<and> open_entry f = open_entry g \<and>
      (ar_decision (pd_record g) = ar_decision (pd_record f) \<or> ar_decision (pd_record g) = None) \<and>
      ar_resolvedBy (pd_record g) = ar_resolvedBy (pd_record f)"
    if "entry_at mg' j = Some g" for j g
    using that e e' by (auto simp: get e'_def split: if_splits)
  have "approvals_ok mg'"
  proof (rule approvals_okI)
    show "jm_wf (mg_pending mg')" by (rule rest(5))
    show "pd_promise f < mg_promises mg'" if "entry_at mg' j = Some f" for j f using old [OF that] ok(2) rest by metis
    show "promise_settled mg' (pd_promise f) \<longleftrightarrow> \<not> open_entry f" if "entry_at mg' j = Some f" for j f
      using old [OF that] ok(3) rest by metis
    show "has_expiry mg' j (pd_promise f) \<and> ar_decision (pd_record f) = None" if "entry_at mg' j = Some f" "open_entry f" for j f
      using old [OF that(1)] that(2) ok(4) rest by metis
    show "has_removal mg' j (pd_promise f) \<and> ar_resolvedBy (pd_record f) \<noteq> None" if "entry_at mg' j = Some f" "\<not> open_entry f" for j f
      using old [OF that(1)] that(2) ok(5) rest by metis
    show "promise_settled mg' p \<or> (\<exists>j f. entry_at mg' j = Some f \<and> pd_promise f = p \<and> open_entry f)" if "p < mg_promises mg'" for p
    proof (cases "promise_settled mg p")
      case True
      then show ?thesis by (simp add: rest)
    next
      case False
      moreover have "p < mg_promises mg" using that rest by simp
      ultimately obtain j f where f: "entry_at mg j = Some f" "pd_promise f = p" "open_entry f" using ok(6) [of p] by blast
      with e \<open>\<not> open_entry e\<close> have "j \<noteq> i" by auto
      with f show ?thesis using get [of j] by auto
    qed
    show "\<exists>f. entry_at mg' j = Some f \<and> pd_promise f = p \<and> open_entry f" if "has_expiry mg' j p" for j p
      using that ok(7) [of j p] e e' by (auto simp: get rest)
    show "promise_settled mg' p" if "has_removal mg' j p" for j p using that ok(8) [of j p] by (simp add: rest)
    show "p < mg_promises mg'" if "promise_settled mg' p" for p using that ok(9) [of p] by (simp add: rest)
    show "j = k" if "entry_at mg' j = Some f" "entry_at mg' k = Some g" "pd_promise f = pd_promise g" for j k f g
      using old [OF that(1)] old [OF that(2)] that(3) ok(10) by metis
  qed
  then show ?thesis by (simp add: mg'_def)
qed

lemma approvals_ok_fire:
  assumes "approvals_ok mg"
  shows "approvals_ok (fire_timer now k mg)"
proof (cases "k < length (mg_timers mg)")
  case False
  then show ?thesis using assms by (simp add: fire_timer_def)
next
  case k: True
  note ok = approvals_okD [OF assms]
  define mg1 where "mg1 = mg\<lparr>mg_timers := take k (mg_timers mg) @ drop (Suc k) (mg_timers mg)\<rparr>"
  have others: "x \<in> set (mg_timers mg1) \<longleftrightarrow> x \<in> set (mg_timers mg)" if "x \<noteq> mg_timers mg ! k" for x
  proof -
    have "set (mg_timers mg) = set (take k (mg_timers mg) @ mg_timers mg ! k # drop (Suc k) (mg_timers mg))"
      using id_take_nth_drop [OF k] by (rule arg_cong)
    also have "\<dots> = insert (mg_timers mg ! k) (set (mg_timers mg1))" by (auto simp: mg1_def)
    finally have "set (mg_timers mg) = insert (mg_timers mg ! k) (set (mg_timers mg1))" .
    with that show ?thesis by simp
  qed
  show ?thesis
  proof (cases "mg_timers mg ! k")
    case (ExpiryTimer i p t)
    obtain e where e: "entry_at mg i = Some e" "pd_promise e = p" "open_entry e"
      using ok(7) [of i p] ExpiryTimer k nth_mem [OF k] by (auto simp: has_expiry_def)
    text \<open>The entry is resolved at once, so what it looks like without its timer does not matter.\<close>
    have "fire_timer now k mg = snd (finish_approval now i None None mg1)"
      using k ExpiryTimer by (simp add: fire_timer_def mg1_def expire_approval_def)
    also have "\<dots> = snd (finish_approval now i None None mg)"
    proof -
      have "filter (\<lambda>t. \<not> expiry_of p t) (mg_timers mg1) = filter (\<lambda>t. \<not> expiry_of p t) (mg_timers mg)"
        using id_take_nth_drop [OF k] ExpiryTimer unfolding mg1_def
        by (metis approval_manager.select_convs(4) approval_manager.update_convs(4) expiry_of.simps(1) filter.simps(2) filter_append
            approval_manager.surjective)
      then show ?thesis using e by (simp add: finish_approval_def mg1_def settle_promise_def open_entry_def)
    qed
    finally show ?thesis using approvals_ok_finish [OF assms] by simp
  next
    case (RemovalTimer i p t)
    define gone where "gone \<longleftrightarrow> map_option pd_promise (entry_at mg i) = Some p"
    define mg' where "mg' = fire_timer now k mg"
    have mg': "mg' = (if gone then mg1\<lparr>mg_pending := jm_delete (mg_pending mg) i\<rparr> else mg1)"
      using k RemovalTimer by (auto simp: mg'_def fire_timer_def mg1_def gone_def Let_def)
    have get: "entry_at mg' j = (if gone \<and> j = i then None else entry_at mg j)" for j by (simp add: mg' mg1_def)
    have expiry: "has_expiry mg' j q \<longleftrightarrow> has_expiry mg j q" for j q
      using others RemovalTimer by (auto simp: has_expiry_def mg')
    have removal: "has_removal mg' j q \<Longrightarrow> has_removal mg j q" for j q
      using id_take_nth_drop [OF k] by (auto simp: has_removal_def mg' mg1_def dest: in_set_takeD in_set_dropD split: if_splits)
    have removal': "has_removal mg j q \<Longrightarrow> (j, q) \<noteq> (i, p) \<Longrightarrow> has_removal mg' j q" for j q
      using others RemovalTimer by (auto simp: has_removal_def mg')
    have settled: "promise_settled mg' = promise_settled mg" by (simp add: mg' mg1_def promise_settled_def fun_eq_iff)
    have rest: "mg_promises mg' = mg_promises mg" "jm_wf (mg_pending mg')" using ok(1) by (simp_all add: mg' mg1_def)
    have p: "promise_settled mg p" using ok(8) [of i p] RemovalTimer nth_mem [OF k] by (auto simp: has_removal_def)
    have "approvals_ok mg'"
    proof (rule approvals_okI)
      show "jm_wf (mg_pending mg')" by (rule rest(2))
      show "pd_promise f < mg_promises mg'" if "entry_at mg' j = Some f" for j f
        using that ok(2) [of j f] by (auto simp: get rest split: if_splits)
      show "promise_settled mg' (pd_promise f) \<longleftrightarrow> \<not> open_entry f" if "entry_at mg' j = Some f" for j f
        using that ok(3) [of j f] by (auto simp: get settled split: if_splits)
      show "has_expiry mg' j (pd_promise f) \<and> ar_decision (pd_record f) = None" if "entry_at mg' j = Some f" "open_entry f" for j f
        using that ok(4) [of j f] by (auto simp: get expiry split: if_splits)
      show "has_removal mg' j (pd_promise f) \<and> ar_resolvedBy (pd_record f) \<noteq> None" if "entry_at mg' j = Some f" "\<not> open_entry f" for j f
        using that ok(5) [of j f] by (auto simp: get gone_def intro!: removal' split: if_splits)
      show "promise_settled mg' q \<or> (\<exists>j f. entry_at mg' j = Some f \<and> pd_promise f = q \<and> open_entry f)" if "q < mg_promises mg'" for q
      proof (cases "promise_settled mg q")
        case True
        then show ?thesis by (simp add: settled)
      next
        case False
        moreover have "q < mg_promises mg" using that rest by simp
        ultimately obtain j f where f: "entry_at mg j = Some f" "pd_promise f = q" "open_entry f" using ok(6) [of q] by blast
        with p False have "\<not> (gone \<and> j = i)" by (auto simp: gone_def)
        with f show ?thesis using get [of j] by auto
      qed
      show "\<exists>f. entry_at mg' j = Some f \<and> pd_promise f = q \<and> open_entry f" if "has_expiry mg' j q" for j q
        using that ok(7) [of j q] ok(3) p by (auto simp: get expiry gone_def)
      show "promise_settled mg' q" if "has_removal mg' j q" for j q using ok(8) [OF removal [OF that]] by (simp add: settled)
      show "q < mg_promises mg'" if "promise_settled mg' q" for q using that ok(9) [of q] by (simp add: settled rest)
      show "j = l" if "entry_at mg' j = Some f" "entry_at mg' l = Some g" "pd_promise f = pd_promise g" for j l f g
        using that ok(10) [of j f l g] by (auto simp: get split: if_splits)
    qed
    then show ?thesis by (simp add: mg'_def)
  qed
qed

lemma approvals_ok_step: "approvals_ok mg \<Longrightarrow> approvals_ok (approval_step mg e)"
  by (cases e) (simp_all add: approvals_ok_register approvals_ok_finish approvals_ok_fire approvals_ok_consume
      create_approval_def resolve_approval_def expire_approval_def)

interpretation approval_machine: guarded_machine approval_step approvals_ok
  by unfold_locales (rule approvals_ok_step)

lemma approvals_ok_run: "approvals_ok mg \<Longrightarrow> approvals_ok (approval_run mg es)"
  unfolding approval_run_def by (rule approval_machine.run_inv)

subsection \<open>A decision that was used\<close>

text \<open>The promise \<open>p\<close> has been resolved by \<open>by\<close>, and no decision is left in its entry, if there is one.\<close>

definition spent :: "'p approval_manager \<Rightarrow> nat \<Rightarrow> string option \<Rightarrow> bool" where
  "spent mg p by \<longleftrightarrow> p < mg_promises mg \<and> (\<forall>i e. entry_at mg i = Some e \<longrightarrow> pd_promise e = p \<longrightarrow>
     \<not> open_entry e \<and> ar_decision (pd_record e) = None \<and> ar_resolvedBy (pd_record e) = Some by)"

lemma spentD: "spent mg p by \<Longrightarrow> entry_at mg i = Some e \<Longrightarrow> pd_promise e = p \<Longrightarrow>
    \<not> open_entry e \<and> ar_decision (pd_record e) = None \<and> ar_resolvedBy (pd_record e) = Some by"
  by (simp add: spent_def)

lemma finish_entry:
  assumes "entry_at (snd (finish_approval now i d b mg)) j = Some f"
  shows "entry_at mg j = Some f \<or> (j = i \<and> (\<exists>e. entry_at mg i = Some e \<and> open_entry e \<and> pd_promise f = pd_promise e))"
  using assms by (auto simp: finish_approval_def settle_promise_def open_entry_def split: option.splits if_splits)

lemma finish_promises: "mg_promises (snd (finish_approval now i d b mg)) = mg_promises mg"
  by (simp add: finish_approval_def settle_promise_def split: option.splits)

lemma spent_finish:
  assumes "spent mg p by"
  shows "spent (snd (finish_approval now i d b mg)) p by"
proof -
  have "\<not> open_entry f \<and> ar_decision (pd_record f) = None \<and> ar_resolvedBy (pd_record f) = Some by"
    if "entry_at (snd (finish_approval now i d b mg)) j = Some f" "pd_promise f = p" for j f
    using finish_entry [OF that(1)] that(2) spentD [OF assms] by metis
  then show ?thesis using assms by (simp add: spent_def finish_promises)
qed

lemma spent_step:
  assumes "spent mg p by"
  shows "spent (approval_step mg ev) p by"
proof -
  show ?thesis
  proof (cases ev)
    case (Register uuid now request t givenId conn dev cl)
    then show ?thesis using assms by (auto simp: spent_def register_approval_def Let_def split: option.splits if_splits)
  next
    case (Fire now k)
    have timers: "spent (mg\<lparr>mg_timers := ts\<rparr>) p by" for ts using assms by (simp add: spent_def)
    have delete: "spent (mg\<lparr>mg_timers := ts, mg_pending := jm_delete (mg_pending mg) i\<rparr>) p by" for ts i
      using assms by (simp add: spent_def)
    show ?thesis using Fire assms timers delete spent_finish [OF timers]
      by (auto simp: fire_timer_def expire_approval_def Let_def split: approval_timer.splits)
  next
    case (Consume i)
    then show ?thesis using assms by (auto simp: spent_def consumeAllowOnce_def open_entry_def split: option.splits if_splits)
  qed (use spent_finish assms in \<open>simp_all add: resolve_approval_def expire_approval_def\<close>)
qed

lemma spent_run: "spent mg p by \<Longrightarrow> spent (approval_run mg es) p by"
  unfolding approval_run_def by (induction es arbitrary: mg) (simp_all add: spent_step)

lemma consume_spends:
  assumes "approvals_ok mg" and "entry_at mg i = Some e" and "ar_decision (pd_record e) = Some AllowOnce"
    and "ar_resolvedBy (pd_record e) = Some by"
  shows "spent (snd (consumeAllowOnce i mg)) (pd_promise e) by"
proof -
  note ok = approvals_okD [OF assms(1)]
  define e' where "e' = e\<lparr>pd_record := (pd_record e)\<lparr>ar_decision := None\<rparr>\<rparr>"
  define mg' where "mg' = snd (consumeAllowOnce i mg)"
  have "\<not> open_entry e" using ok(4) [OF assms(2)] assms(3) by auto
  then have e': "\<not> open_entry e'" "ar_decision (pd_record e') = None" "ar_resolvedBy (pd_record e') = Some by"
    using assms(4) by (simp_all add: e'_def open_entry_def)
  have get: "entry_at mg' j = (if j = i then Some e' else entry_at mg j)" for j
    using assms(2,3) by (simp add: mg'_def consumeAllowOnce_def e'_def)
  have "mg_promises mg' = mg_promises mg" using assms(2,3) by (simp add: mg'_def consumeAllowOnce_def)
  moreover have "f = e'" if "entry_at mg' j = Some f" "pd_promise f = pd_promise e" for j f
    using that ok(10) [OF assms(2), of j f] by (auto simp: get split: if_splits)
  ultimately show ?thesis using e' ok(2) [OF assms(2)] unfolding mg'_def [symmetric] spent_def by metis
qed

subsection \<open>All requests come to an end\<close>

text \<open>An expiry is worth two callbacks: its own and the removal that it arms.\<close>

fun timer_weight :: "approval_timer \<Rightarrow> nat" where
  "timer_weight (ExpiryTimer _ _ _) = 2"
| "timer_weight (RemovalTimer _ _ _) = 1"

definition callbacks_due :: "'p approval_manager \<Rightarrow> nat" where
  "callbacks_due mg = sum_list (map timer_weight (mg_timers mg))"

lemma weight_filter: "sum_list (map timer_weight (filter P ts)) \<le> sum_list (map timer_weight ts)"
  by (induction ts) auto

lemma callbacks_due_bound: "callbacks_due mg \<le> 2 * length (mg_timers mg)"
proof -
  have "sum_list (map timer_weight ts) \<le> 2 * length ts" for ts
  proof (induction ts)
    case (Cons t ts)
    then show ?case by (cases t) simp_all
  qed simp
  then show ?thesis by (simp add: callbacks_due_def)
qed

lemma callbacks_due_fire: "approvals_ok mg \<Longrightarrow> callbacks_due (fire_timer now 0 mg) \<le> callbacks_due mg - 1"
proof (cases "mg_timers mg")
  case (Cons t ts)
  assume ok: "approvals_ok mg"
  show ?thesis
  proof (cases t)
    case (ExpiryTimer i p w)
    then have "has_expiry mg i p" using Cons by (auto simp: has_expiry_def)
    then obtain e where "entry_at mg i = Some e" "pd_promise e = p" "open_entry e" using approvals_okD(7) [OF ok] by blast
    with Cons ExpiryTimer show ?thesis using weight_filter [of "\<lambda>t. \<not> expiry_of p t" ts]
      by (simp add: fire_timer_def expire_approval_def finish_approval_def settle_promise_def open_entry_def callbacks_due_def)
  qed (use Cons in \<open>simp add: fire_timer_def callbacks_due_def Let_def\<close>)
qed (simp add: fire_timer_def callbacks_due_def)

lemma fire_promises: "mg_promises (fire_timer now k mg) = mg_promises mg"
  by (simp add: fire_timer_def expire_approval_def finish_promises Let_def split: approval_timer.splits)

lemma fires_end:
  assumes "approvals_ok mg" and "callbacks_due mg \<le> n"
  shows "mg_timers (approval_run mg (replicate n (Fire now 0))) = [] \<and>
    mg_promises (approval_run mg (replicate n (Fire now 0))) = mg_promises mg"
  using assms
proof (induction n arbitrary: mg)
  case 0
  have "timer_weight t > 0" for t by (cases t) simp_all
  with 0 have "mg_timers mg = []" by (cases "mg_timers mg") (auto simp: callbacks_due_def dest: gr_implies_not0)
  then show ?case by (simp add: approval_run_def)
next
  case (Suc n)
  have "callbacks_due (fire_timer now 0 mg) \<le> n" using callbacks_due_fire [OF Suc.prems(1), of now] Suc.prems(2) by simp
  with Suc.IH [OF approvals_ok_fire [OF Suc.prems(1), of now 0]] show ?case by (simp add: approval_run_def fire_promises)
qed

lemma jm_get_all_None: "(\<And>k. jm_get m k = None) \<Longrightarrow> m = []"
proof (cases m)
  case (Cons x m')
  assume none: "\<And>k. jm_get m k = None"
  with Cons show ?thesis using none [of "fst x"] by (cases x) simp
qed

text \<open>C20: No request waits for ever: whatever the manager has been through, once its timers have run (an expiry
  arms one more, so that twice as many callbacks are enough), the promise of every registration is
  settled, and nothing is kept: no entry, no timer.\<close>

theorem approvals_settle:
  assumes "mg = approval_run new_manager es" and "mg' = approval_run mg (replicate (2 * length (mg_timers mg)) (Fire now 0))"
  shows "mg_timers mg' = [] \<and> mg_pending mg' = [] \<and> mg_promises mg' = mg_promises mg \<and>
    (\<forall>p < mg_promises mg. promise_settled mg' p)"
proof -
  have ok: "approvals_ok mg" "approvals_ok mg'" unfolding assms by (intro approvals_ok_run approvals_ok_new)+
  have timers: "mg_timers mg' = []" "mg_promises mg' = mg_promises mg"
    using fires_end [OF ok(1) callbacks_due_bound, of now] unfolding assms(2) by blast+
  then have none: "\<not> has_expiry mg' i p" "\<not> has_removal mg' i p" for i p by (simp_all add: has_expiry_def has_removal_def)
  have gone: "entry_at mg' i = None" for i
    using approvals_okD(4,5) [OF ok(2), of i] none by (cases "entry_at mg' i") blast+
  then have "mg_pending mg' = []" using jm_get_all_None by blast
  moreover have "promise_settled mg' p" if "p < mg_promises mg" for p
    using approvals_okD(6) [OF ok(2), of p] that gone timers(2) by auto
  ultimately show ?thesis using timers by blast
qed

theorem approvals_settle_witness:
  "mg_settled (approval_run (approval_run new_manager [Register ''u'' 0 () 1000 (Some ''a'') None None None, Register ''v'' 1 () 1000 None None None None,
     Resolve 5 ''a'' AllowOnce None]) (replicate 4 (Fire 9 0))) = [(0, Some AllowOnce), (1, None)] \<and>
   mg_pending (approval_run (approval_run new_manager [Register ''u'' 0 () 1000 (Some ''a'') None None None, Register ''v'' 1 () 1000 None None None None,
     Resolve 5 ''a'' AllowOnce None]) (replicate 4 (Fire 9 0))) = []"
  (is "mg_settled (approval_run ?mg _) = _ \<and> _")
proof
  have "length (mg_timers ?mg) = 2" by code_simp
  then have n: "2 * length (mg_timers ?mg) = 4" by simp
  have "mg_pending (approval_run ?mg (replicate (2 * length (mg_timers ?mg)) (Fire 9 0))) = []"
    using approvals_settle [OF refl refl] by blast
  then show "mg_pending (approval_run ?mg (replicate 4 (Fire 9 0))) = []" unfolding n .
  show "mg_settled (approval_run ?mg (replicate 4 (Fire 9 0))) = [(0, Some AllowOnce), (1, None)]" by code_simp
qed

end
