(* ===== verification/Node_Approval_Props.thy ===== *)
theory Node_Approval_Props
  imports Node_Approval Approval_Proofs Exec_Samples
begin

text \<open>
  The properties of approvals: what a call that is forwarded as approved has been approved for, that an
  approval for one run is used once, and that an approved request can be run.
\<close>

subsection \<open>Fields\<close>

lemma map_filter_get:
  "jm_get (List.map_filter (\<lambda>k. map_option (Pair k) (f k)) ks) q = (if q \<in> set ks then f q else None)"
  by (induction ks) (auto simp: map_filter_simps split: option.splits)

lemma pick_get: "jm_get (pickSystemRunParams p) k = (if k \<in> set forwarded_keys then map_of p k else None)"
  unfolding pickSystemRunParams_def by (rule map_filter_get)

lemma trimmed_idem [simp]: "trimmed (trimmed s) = trimmed s" "trimmed (normalizeNonEmptyString v) = normalizeNonEmptyString v"
proof -
  have "normalizeOptionalString (js_opt (normalizeOptionalString v)) = normalizeOptionalString v" for v
    by (cases v) (simp_all add: normalizeOptionalString_def normalizeNullableString_def Let_def)
  then show "trimmed (trimmed s) = trimmed s" "trimmed (normalizeNonEmptyString v) = normalizeNonEmptyString v"
    by (simp_all add: trimmed_def normalizeNonEmptyString_def)
qed

lemma normalize_string [simp]: "normalizeNonEmptyString (Some (JsonString s)) = trimmed (Some s)"
  by (simp add: normalizeNonEmptyString_def trimmed_def)

lemma normalize_absent [simp]: "normalizeNonEmptyString None = None" "normalizeNonEmptyString (Some JsonNull) = None"
  by (simp_all add: normalizeNonEmptyString_def normalizeOptionalString_def normalizeNullableString_def)

lemma trimmed_none [simp]: "trimmed None = None" "trimmed (Some []) = None"
  by (simp_all add: trimmed_def normalizeOptionalString_def normalizeNullableString_def)

lemma set_or_delete_get: "normalizeNonEmptyString (jm_get (set_or_delete k v fs) k') =
    (if k' = k then trimmed v else normalizeNonEmptyString (jm_get fs k'))"
  by (cases v) (auto simp: set_or_delete_def str_truthy_def)

lemma set_or_delete_other: "k' \<noteq> k \<Longrightarrow> jm_get (set_or_delete k v fs) k' = jm_get fs k'"
  by (simp add: set_or_delete_def)

subsection \<open>What a binding covers\<close>

text \<open>The forwarded fields are those of the binding: the same arguments, directory, agent and session, and an
  environment with the same digest, if it has any variable that can be overridden.\<close>

definition covers :: "node_env \<Rightarrow> run_binding \<Rightarrow> json_fields \<Rightarrow> bool" where
  "covers ne b fs \<longleftrightarrow> rb_argv b \<noteq> [] \<and> normalizeStringArray ne (jm_get fs ''command'') = rb_argv b \<and>
     normalizeNonEmptyString (jm_get fs ''cwd'') = rb_cwd b \<and> normalizeNonEmptyString (jm_get fs ''agentId'') = rb_agentId b \<and>
     normalizeNonEmptyString (jm_get fs ''sessionKey'') = rb_sessionKey b \<and>
     (snd (buildSystemRunApprovalEnvBinding ne (jm_get fs ''env'')) = [] \<or>
      fst (buildSystemRunApprovalEnvBinding ne (jm_get fs ''env'')) = rb_envHash b)"

lemma argvMatches_iff: "argvMatches a b \<longleftrightarrow> a \<noteq> [] \<and> a = b"
proof -
  have "length a = length b \<Longrightarrow> list_all (\<lambda>(x, y). x = y) (zip a b) \<longleftrightarrow> a = b"
    by (induction a b rule: list_induct2) auto
  then show ?thesis by (auto simp: argvMatches_def)
qed

lemma envHash_match: "matchSystemRunApprovalEnvHash h h' ks = None \<Longrightarrow> ks = [] \<or> h' = h"
  by (auto simp: matchSystemRunApprovalEnvHash_def split: if_splits)

lemma binding_matches:
  assumes "matchSystemRunApprovalBinding b b' ks = None"
  shows "rb_argv b \<noteq> []" "rb_argv b = rb_argv b'" "rb_cwd b = rb_cwd b'" "rb_agentId b = rb_agentId b'" "rb_sessionKey b = rb_sessionKey b'"
    "ks = [] \<or> rb_envHash b' = rb_envHash b"
  using assms envHash_match [of "rb_envHash b" "rb_envHash b'" ks]
  by (simp_all add: matchSystemRunApprovalBinding_def argvMatches_iff split: if_splits)

lemma binding_match:
  assumes "evaluateSystemRunApprovalMatch ne tc request env = None"
  obtains b where "xr_host request = Some ''node''" "xr_binding request = Some b" "rb_argv b \<noteq> []" "rb_argv b = tc_argv tc"
    "rb_cwd b = trimmed (tc_cwd tc)" "rb_agentId b = trimmed (tc_agentId tc)" "rb_sessionKey b = trimmed (tc_sessionKey tc)"
    "snd (buildSystemRunApprovalEnvBinding ne env) = [] \<or> fst (buildSystemRunApprovalEnvBinding ne env) = rb_envHash b"
proof -
  note call = assms [unfolded evaluateSystemRunApprovalMatch_def buildSystemRunApprovalBinding_def case_prod_unfold Let_def fst_conv snd_conv]
  have host: "(xr_host request \<noteq> Some ''node'') = False" using call by (cases "xr_host request = Some ''node''") simp_all
  note call = call [unfolded host if_False]
  obtain b where b: "xr_binding request = Some b" using call by (cases "xr_binding request") simp_all
  note call = call [unfolded b option.case]
  from binding_matches [OF call] host b show ?thesis by (intro that) simp_all
qed

lemma with_mode_argv: "resolveSystemRunCommandWithMode env c raw legacy = Inr (argv, d) \<Longrightarrow> argv = c"
  by (cases "validateSystemRunCommandConsistency env c (normalizeRawCommandText raw) legacy")
    (auto simp: resolveSystemRunCommandWithMode_def Let_def split: if_splits)

lemma resolve_request_argv: "resolve_request env ne p = Inr (argv, d) \<Longrightarrow> argv = normalizeStringArray ne (map_of p ''command'')"
  unfolding resolve_request_def resolveSystemRunCommandRequest_def by (rule with_mode_argv)

lemma runtime_context:
  assumes "resolveSystemRunApprovalRuntimeContext env ne plan p = Inr tc"
  shows "(\<exists>q. tc_plan tc = Some q \<and> tc_argv tc = rl_argv q) \<or>
    tc_plan tc = None \<and> tc_argv tc = normalizeStringArray ne (map_of p ''command'') \<and> tc_cwd tc = normalizeNonEmptyString (map_of p ''cwd'') \<and>
      tc_agentId tc = normalizeNonEmptyString (map_of p ''agentId'') \<and> tc_sessionKey tc = normalizeNonEmptyString (map_of p ''sessionKey'')"
proof (cases "normalizeSystemRunApprovalPlan ne (Some (case plan of None \<Rightarrow> JsonNull | Some q \<Rightarrow> plan_json q))")
  case (Some q)
  with assms show ?thesis unfolding resolveSystemRunApprovalRuntimeContext_def by force
next
  case None
  note call = assms [unfolded resolveSystemRunApprovalRuntimeContext_def None option.case]
  show ?thesis
  proof (cases "resolve_request env ne p")
    case (Inl e)
    with call show ?thesis by simp
  next
    case (Inr w)
    then obtain argv d where w: "resolve_request env ne p = Inr (argv, d)" by (cases w) simp
    from call [unfolded w] resolve_request_argv [OF w] show ?thesis by force
  qed
qed

lemma strings_array [simp]: "map (js_string_of ne \<circ> JsonString) xs = xs"
  by (simp add: map_idI)

lemma apply_plan_get:
  assumes "resolveSystemRunApprovalRuntimeContext env ne plan p = Inr tc"
  defines "fs \<equiv> apply_plan tc (pickSystemRunParams p)"
  shows "normalizeStringArray ne (jm_get fs ''command'') = tc_argv tc"
    and "normalizeNonEmptyString (jm_get fs ''cwd'') = trimmed (tc_cwd tc)"
    and "normalizeNonEmptyString (jm_get fs ''agentId'') = trimmed (tc_agentId tc)"
    and "normalizeNonEmptyString (jm_get fs ''sessionKey'') = trimmed (tc_sessionKey tc)"
    and "jm_get fs ''env'' = map_of p ''env''"
    and "jm_get fs ''approved'' = None"
proof -
  have "normalizeStringArray ne (jm_get fs ''command'') = tc_argv tc \<and>
    normalizeNonEmptyString (jm_get fs ''cwd'') = trimmed (tc_cwd tc) \<and>
    normalizeNonEmptyString (jm_get fs ''agentId'') = trimmed (tc_agentId tc) \<and>
    normalizeNonEmptyString (jm_get fs ''sessionKey'') = trimmed (tc_sessionKey tc) \<and>
    jm_get fs ''env'' = map_of p ''env'' \<and> jm_get fs ''approved'' = None"
    using runtime_context [OF assms(1)]
  proof (elim disjE exE conjE)
    fix q
    assume "tc_plan tc = Some q" "tc_argv tc = rl_argv q"
    then show ?thesis
      by (simp add: fs_def apply_plan_def set_or_delete_get set_or_delete_other pick_get forwarded_keys_def)
  next
    assume "tc_plan tc = None" "tc_argv tc = normalizeStringArray ne (map_of p ''command'')" "tc_cwd tc = normalizeNonEmptyString (map_of p ''cwd'')"
      "tc_agentId tc = normalizeNonEmptyString (map_of p ''agentId'')" "tc_sessionKey tc = normalizeNonEmptyString (map_of p ''sessionKey'')"
    then show ?thesis by (simp add: fs_def apply_plan_def pick_get forwarded_keys_def)
  qed
  then show "normalizeStringArray ne (jm_get fs ''command'') = tc_argv tc"
    "normalizeNonEmptyString (jm_get fs ''cwd'') = trimmed (tc_cwd tc)"
    "normalizeNonEmptyString (jm_get fs ''agentId'') = trimmed (tc_agentId tc)"
    "normalizeNonEmptyString (jm_get fs ''sessionKey'') = trimmed (tc_sessionKey tc)"
    "jm_get fs ''env'' = map_of p ''env''" "jm_get fs ''approved'' = None"
    by simp_all
qed

lemma with_decision_get:
  "k \<noteq> ''approved'' \<Longrightarrow> k \<noteq> ''approvalDecision'' \<Longrightarrow> jm_get (with_decision d fs) k = jm_get fs k"
  by (simp add: with_decision_def)

lemma covers_with_decision: "covers ne b (with_decision d fs) \<longleftrightarrow> covers ne b fs"
  by (simp add: covers_def with_decision_get)

lemma covers_match:
  assumes "resolveSystemRunApprovalRuntimeContext env ne plan p = Inr tc"
    and "evaluateSystemRunApprovalMatch ne tc request (map_of p ''env'') = None"
  shows "xr_host request = Some ''node'' \<and> (\<exists>b. xr_binding request = Some b \<and> covers ne b (apply_plan tc (pickSystemRunParams p)))"
proof -
  from binding_match [OF assms(2)] obtain b where b: "xr_host request = Some ''node''" "xr_binding request = Some b" "rb_argv b \<noteq> []" "rb_argv b = tc_argv tc"
    "rb_cwd b = trimmed (tc_cwd tc)" "rb_agentId b = trimmed (tc_agentId tc)" "rb_sessionKey b = trimmed (tc_sessionKey tc)"
    "snd (buildSystemRunApprovalEnvBinding ne (map_of p ''env'')) = [] \<or> fst (buildSystemRunApprovalEnvBinding ne (map_of p ''env'')) = rb_envHash b"
    by blast
  with apply_plan_get [OF assms(1)] show ?thesis unfolding covers_def by metis
qed

subsection \<open>What is forwarded as approved\<close>

lemma forwarded_cases:
  assumes "sanitizeSystemRunParamsForForwarding env ne now nodeId p client mg = (Inr fs, mg')" and "jm_get fs ''approved'' \<noteq> None"
  obtains i r node tc where "normalizeNonEmptyString (map_of p ''runId'') = Some i" "getSnapshot mg i = Some r"
    "now \<le> ar_expiresAtMs r" "trimmed nodeId = Some node" "trimmed (xr_nodeId (ar_request r)) = Some node" "bound_elsewhere r client = None"
    "resolveSystemRunApprovalRuntimeContext env ne (xr_plan (ar_request r)) p = Inr tc"
    "evaluateSystemRunApprovalMatch ne tc (ar_request r) (map_of p ''env'') = None"
    "forward_decided i (map_of p ''approved'' = Some (JsonBool True)) (normalizeApprovalDecision (map_of p ''approvalDecision'')) client r
       (apply_plan tc (pickSystemRunParams p)) mg = (Inr fs, mg')"
proof -
  let ?approved = "map_of p ''approved'' = Some (JsonBool True)"
  let ?requested = "normalizeApprovalDecision (map_of p ''approvalDecision'')"
  have "jm_get (pickSystemRunParams p) ''approved'' = None" by (simp add: pick_get forwarded_keys_def)
  with assms(2) have fs: "fs \<noteq> pickSystemRunParams p" by auto
  note call = assms(1) [unfolded sanitizeSystemRunParamsForForwarding_def Let_def]
  have override: "(\<not> ?approved \<and> ?requested = None) = False"
  proof (rule ccontr)
    assume "(\<not> ?approved \<and> ?requested = None) \<noteq> False"
    then have "(\<not> ?approved \<and> ?requested = None) = True" by simp
    with call fs show False by (simp only: if_True) (simp split: sum.splits)
  qed
  note call = call [unfolded override if_False]
  obtain i where i: "normalizeNonEmptyString (map_of p ''runId'') = Some i" using call by (auto split: option.splits)
  note call = call [unfolded i option.case]
  obtain r where r: "getSnapshot mg i = Some r" using call by (cases "getSnapshot mg i") simp_all
  note call = call [unfolded r option.case]
  have time: "(now > ar_expiresAtMs r) = False" using call by (cases "now > ar_expiresAtMs r") simp_all
  note call = call [unfolded time if_False]
  obtain node target where node: "trimmed nodeId = Some target" "trimmed (xr_nodeId (ar_request r)) = Some node"
    using call by (cases "trimmed nodeId"; cases "trimmed (xr_nodeId (ar_request r))") simp_all
  note call = call [unfolded node prod.case option.case]
  have same: "(node \<noteq> target) = False" using call by (cases "node = target") simp_all
  note call = call [unfolded same if_False]
  have bound: "bound_elsewhere r client = None" using call by (cases "bound_elsewhere r client") simp_all
  note call = call [unfolded bound option.case]
  obtain tc where tc: "resolveSystemRunApprovalRuntimeContext env ne (xr_plan (ar_request r)) p = Inr tc"
    using call by (cases "resolveSystemRunApprovalRuntimeContext env ne (xr_plan (ar_request r)) p") simp_all
  note call = call [unfolded tc sum.case]
  have matches: "evaluateSystemRunApprovalMatch ne tc (ar_request r) (map_of p ''env'') = None"
    using call by (cases "evaluateSystemRunApprovalMatch ne tc (ar_request r) (map_of p ''env'')") simp_all
  note call = call [unfolded matches option.case]
  show ?thesis
  proof (rule that [OF i r _ node(1) _ bound tc matches call])
    show "now \<le> ar_expiresAtMs r" using time by simp
    show "trimmed (xr_nodeId (ar_request r)) = Some target" using node(2) same by simp
  qed
qed

lemma decided_cases:
  assumes "forward_decided i approved requested client r fs0 mg = (Inr fs, mg')"
  shows "\<exists>d. fs = with_decision d fs0 \<and>
    (ar_decision r = Some AllowOnce \<and> d = AllowOnce \<and> consumeAllowOnce i mg = (True, mg') \<or>
     ar_decision r = Some AllowAlways \<and> d = AllowAlways \<and> mg' = mg \<or>
     approval_timed_out r \<and> approved \<and> requested = Some AllowOnce \<and> clientHasApprovals client \<and> d = AllowOnce \<and> mg' = mg)"
  using assms by (auto simp: forward_decided_def split: if_splits prod.splits bool.splits)

lemma consumed_snapshot:
  assumes "consumeAllowOnce i mg = (True, mg')"
  shows "map_option ar_decision (getSnapshot mg' i) = Some None"
  using assms by (auto simp: consumeAllowOnce_def getSnapshot_def split: option.splits if_splits)


subsection \<open>One run\<close>

text \<open>C18: An approval for one run is used once: after a call was forwarded under it, and whatever happens to the
  manager then, no call by the same approval is forwarded as approved; except that an approval which was given by
  a client without a name looks like one that has timed out, and a client that may decide on approvals gets through.\<close>

theorem allow_once_used_once:
  assumes "mg = approval_run new_manager es"
    and "sanitizeSystemRunParamsForForwarding env ne now nodeId p client mg = (Inr fs, mg1)" and "jm_get fs ''approved'' \<noteq> None"
    and "normalizeNonEmptyString (map_of p ''runId'') = Some i" and "entry_at mg i = Some e" and "ar_decision (pd_record e) = Some AllowOnce"
    and "mg2 = approval_run mg1 es2" and "map_option pd_promise (entry_at mg2 i) = Some (pd_promise e)"
    and "normalizeNonEmptyString (map_of p2 ''runId'') = Some i"
    and "sanitizeSystemRunParamsForForwarding env ne now2 nodeId2 p2 client2 mg2 = (Inr fs2, mg3)"
  shows "jm_get fs2 ''approved'' = None \<or> ar_resolvedBy (pd_record e) = Some None \<and> clientHasApprovals client2"
proof (rule ccontr)
  assume no: "\<not> (jm_get fs2 ''approved'' = None \<or> ar_resolvedBy (pd_record e) = Some None \<and> clientHasApprovals client2)"
  have ok: "approvals_ok mg" using approvals_ok_run [OF approvals_ok_new] assms(1) by simp
  have snap: "getSnapshot mg i = Some (pd_record e)" using assms(5) by (simp add: getSnapshot_def)
  from forwarded_cases [OF assms(2,3)] assms(4) snap obtain tc where
    "forward_decided i (map_of p ''approved'' = Some (JsonBool True)) (normalizeApprovalDecision (map_of p ''approvalDecision'')) client (pd_record e)
       (apply_plan tc (pickSystemRunParams p)) mg = (Inr fs, mg1)" by (metis option.inject)
  from decided_cases [OF this] have used: "consumeAllowOnce i mg = (True, mg1)"
    using assms(6) by (auto simp: approval_timed_out_def)
  have open1: "\<not> open_entry e" using approvals_okD(4) [OF ok assms(5)] assms(6) by auto
  show False
  proof (cases "ar_resolvedBy (pd_record e)")
    case None
    with approvals_okD(5) [OF ok assms(5) open1] show ?thesis by simp
  next
    case (Some who)
    have "spent mg1 (pd_promise e) who" using consume_spends [OF ok assms(5,6) Some] used by simp
    then have spent: "spent mg2 (pd_promise e) who" unfolding assms(7) by (rule spent_run)
    obtain e2 where e2: "entry_at mg2 i = Some e2" "pd_promise e2 = pd_promise e" using assms(8) by auto
    note s = spentD [OF spent e2]
    have "jm_get fs2 ''approved'' \<noteq> None" using no by simp
    have snap2: "getSnapshot mg2 i = Some (pd_record e2)" using e2(1) by (simp add: getSnapshot_def)
    from forwarded_cases [OF assms(10) \<open>jm_get fs2 ''approved'' \<noteq> None\<close>] assms(9) snap2 obtain tc2 where
      "forward_decided i (map_of p2 ''approved'' = Some (JsonBool True)) (normalizeApprovalDecision (map_of p2 ''approvalDecision'')) client2 (pd_record e2)
         (apply_plan tc2 (pickSystemRunParams p2)) mg2 = (Inr fs2, mg3)" by (metis option.inject)
    from decided_cases [OF this] s have "approval_timed_out (pd_record e2) \<and> clientHasApprovals client2"
      by (metis option.distinct(1))
    then have "who = None \<and> clientHasApprovals client2" using s by (simp add: approval_timed_out_def)
    with no Some show ?thesis by simp
  qed
qed

subsection \<open>Plans\<close>

text \<open>What every plan that went through the normalization looks like.\<close>

definition canonical_plan :: "run_plan \<Rightarrow> bool" where
  "canonical_plan q \<longleftrightarrow> rl_argv q \<noteq> [] \<and> trimmed (Some (rl_commandText q)) = Some (rl_commandText q) \<and>
     list_all (\<lambda>s. trimmed s = s) [rl_cwd q, rl_commandPreview q, rl_agentId q, rl_sessionKey q] \<and>
     (case rl_operand q of None \<Rightarrow> True
      | Some fo \<Rightarrow> list_all (\<lambda>s. trimmed (Some s) = Some s) [fo_path fo, fo_sha256 fo])"

lemma normalize_opt_json [simp]: "normalizeNonEmptyString (Some (opt_json s)) = trimmed s"
  by (cases s) (simp_all add: opt_json_def)

lemma normalized_trimmed: "normalizeNonEmptyString v = Some s \<Longrightarrow> trimmed (Some s) = Some s"
  using trimmed_idem(2) [of v] by simp

lemma operand_trimmed:
  assumes "normalizeSystemRunApprovalFileOperand v = Some (Some fo)"
  shows "trimmed (Some (fo_path fo)) = Some (fo_path fo)" "trimmed (Some (fo_sha256 fo)) = Some (fo_sha256 fo)"
  using assms by (auto simp: normalizeSystemRunApprovalFileOperand_def normalized_trimmed
      split: option.splits json_value.splits if_splits)

lemma operand_roundtrip:
  assumes "trimmed (Some (fo_path fo)) = Some (fo_path fo)" "trimmed (Some (fo_sha256 fo)) = Some (fo_sha256 fo)"
  shows "normalizeSystemRunApprovalFileOperand (Some (operand_json fo)) = Some (Some fo)"
  using assms by (simp add: normalizeSystemRunApprovalFileOperand_def operand_json_def)

lemma normalized_canonical:
  assumes "normalizeSystemRunApprovalPlan ne v = Some q"
  shows "canonical_plan q"
proof -
  obtain fs where fs: "v = Some (JsonObject fs)"
    using assms by (elim normalizeSystemRunApprovalPlan.elims) simp_all
  let ?argv = "normalizeStringArray ne (map_of fs ''argv'')"
  let ?text = "nullish_opt (normalizeNonEmptyString (map_of fs ''commandText'')) (normalizeNonEmptyString (map_of fs ''rawCommand''))"
  note call = assms [unfolded fs normalizeSystemRunApprovalPlan.simps Let_def]
  obtain op where op: "normalizeSystemRunApprovalFileOperand (map_of fs ''mutableFileOperand'') = Some op"
    using call by (cases "normalizeSystemRunApprovalFileOperand (map_of fs ''mutableFileOperand'')") simp_all
  note call = call [unfolded op]
  obtain tx where tx: "?text = Some tx" using call by (cases ?text) simp_all
  note call = call [unfolded tx prod.case option.case]
  have argv: "(?argv = []) = False" using call by (cases "?argv = []") simp_all
  note call = call [unfolded argv if_False option.inject]
  have "trimmed (Some tx) = Some tx" using tx by (auto simp: nullish_opt_def normalized_trimmed split: option.splits)
  moreover have "case op of None \<Rightarrow> True | Some fo \<Rightarrow> list_all (\<lambda>s. trimmed (Some s) = Some s) [fo_path fo, fo_sha256 fo]"
    using op by (auto simp: operand_trimmed split: option.splits)
  ultimately show ?thesis using argv unfolding call [symmetric] by (simp add: canonical_plan_def)
qed

text \<open>A stored plan comes back as it is.\<close>

lemma plan_roundtrip:
  assumes "canonical_plan q"
  shows "normalizeSystemRunApprovalPlan ne (Some (plan_json q)) = Some q"
proof -
  have op: "normalizeSystemRunApprovalFileOperand (map_option operand_json (rl_operand q)) = Some (rl_operand q)"
    using assms by (cases "rl_operand q")
      (simp_all add: canonical_plan_def operand_roundtrip, simp add: normalizeSystemRunApprovalFileOperand_def)
  have "plan_json q = JsonObject fs \<Longrightarrow> map_of fs ''mutableFileOperand'' = map_option operand_json (rl_operand q)" for fs
    by (auto simp: plan_json_def split: option.splits)
  then show ?thesis using assms op
    by (simp add: plan_json_def canonical_plan_def nullish_opt_def)
qed

subsection \<open>Decisions\<close>

lemma decision_of_text [simp]: "decision_of (decision_text d) = Some d"
  by (cases d) (simp_all add: decision_text_def decision_of_def)

lemma request_decisions_kept: "xr_allowedDecisions r \<noteq> [] \<Longrightarrow> request_decisions r = xr_allowedDecisions r"
proof -
  have "List.map_filter decision_of (map decision_text ds) = ds" for ds by (induction ds) (simp_all add: map_filter_simps)
  then show "xr_allowedDecisions r \<noteq> [] \<Longrightarrow> request_decisions r = xr_allowedDecisions r"
    by (simp add: request_decisions_def resolveExecApprovalRequestAllowedDecisions_def Let_def)
qed

text \<open>A decision is one that its request allows, and it goes to one open request.\<close>

lemma decision_allowed:
  assumes "exec_approval_resolve now inputId s name cl mg = (None, mg')"
  obtains d i r where "decision_of s = Some d" "getSnapshot mg i = Some r" "ar_resolvedAtMs r = None" "d \<in> set (request_decisions (ar_request r))"
    "resolve_approval now i d (nullish_opt name cl) mg = (True, mg')"
proof -
  obtain d where d: "decision_of s = Some d" using assms by (cases "decision_of s") (simp_all add: exec_approval_resolve_def)
  from assms d have handled: "handleApprovalResolve now inputId d True request_decisions name cl mg = (None, mg')"
    by (cases "handleApprovalResolve now inputId d True request_decisions name cl mg") (simp add: exec_approval_resolve_def)
  obtain i r where found: "resolvePendingApprovalRecord mg inputId True = Inr (i, r)"
    using handled by (cases "resolvePendingApprovalRecord mg inputId True") (auto simp: handleApprovalResolve_def)
  have "d \<in> set (request_decisions (ar_request r)) \<and> resolve_approval now i d (nullish_opt name cl) mg = (True, mg')"
    using handled found by (simp add: handleApprovalResolve_def split: if_splits prod.splits bool.splits)
  moreover have "getSnapshot mg i = Some r \<and> ar_resolvedAtMs r = None"
    using found by (auto simp: resolvePendingApprovalRecord_def split: id_lookup.splits option.splits if_splits)
  ultimately show ?thesis using d that by blast
qed

text \<open>A request that asks every time is never allowed for good.\<close>

lemma always_asked:
  assumes "exec_approval_request ne pending qp = Inr payload" and "normalizeExecAsk (qp_ask qp) = Some AskAlways"
  shows "AllowAlways \<notin> set (request_decisions payload)"
proof -
  have "xr_allowedDecisions payload = resolveExecApprovalAllowedDecisions (qp_ask qp)"
    using assms(1) unfolding exec_approval_request_def Let_def by (simp only: split: if_splits) auto
  then have "xr_allowedDecisions payload = [AllowOnce, Deny]" using assms(2) by (simp add: resolveExecApprovalAllowedDecisions_def)
  then show ?thesis by (simp add: request_decisions_kept)
qed

text \<open>What a node has prepared is a plan like any other.\<close>

lemma prepared_canonical:
  assumes "parsePreparedSystemRunPayload ne v = Some q"
  shows "canonical_plan q"
proof -
  obtain raw where raw: "v = Some (JsonObject raw)"
    using assms by (auto simp: parsePreparedSystemRunPayload_def split: option.splits json_value.splits)
  note call = assms [unfolded parsePreparedSystemRunPayload_def raw option.case json_value.case]
  show ?thesis
  proof (cases "normalizeSystemRunApprovalPlan ne (map_of raw ''plan'')")
    case (Some plan)
    with call normalized_canonical show ?thesis by simp
  next
    case None
    note call = call [unfolded None option.case]
    obtain legacy where legacy: "map_of raw ''plan'' = Some (JsonObject legacy)"
      using call by (cases "map_of raw ''plan''") (auto split: json_value.splits)
    let ?argv = "normalizeStringArray ne (map_of legacy ''argv'')"
    let ?text = "nullish_opt (normalizeNonEmptyString (map_of legacy ''rawCommand''))
      (nullish_opt (normalizeNonEmptyString (map_of raw ''commandText'')) (normalizeNonEmptyString (map_of raw ''cmdText'')))"
    note call = call [unfolded legacy option.case json_value.case Let_def]
    obtain tx where tx: "?text = Some tx" using call by (cases ?text) simp_all
    note call = call [unfolded tx option.case]
    have argv: "(?argv = []) = False" using call by (cases "?argv = []") simp_all
    note call = call [unfolded argv if_False option.inject]
    have "trimmed (Some tx) = Some tx" using tx by (auto simp: nullish_opt_def normalized_trimmed split: option.splits)
    then show ?thesis using argv unfolding call [symmetric] by (simp add: canonical_plan_def)
  qed
qed

subsection \<open>A request and its call\<close>

lemma env_hash_same:
  assumes "\<And>es. ne_envHash ne es \<noteq> []"
  shows "matchSystemRunApprovalEnvHash (fst (buildSystemRunApprovalEnvBinding ne v)) (fst (buildSystemRunApprovalEnvBinding ne v))
    (snd (buildSystemRunApprovalEnvBinding ne v)) = None"
  using assms by (simp add: matchSystemRunApprovalEnvHash_def buildSystemRunApprovalEnvBinding_def hashSystemRunEnvEntries_def
      str_truthy_def Let_def)

lemma trimmed_or_empty: "nullish (trimmed (Some (nullish (trimmed s) []))) [] = nullish (trimmed s) []"
  using trimmed_idem(1) [of s] by (cases "trimmed s") simp_all

lemma context_plan:
  assumes "qc_plan (resolveSystemRunApprovalRequestContext ne host qp) = Some q"
  shows "nullish (trimmed (Some host)) [] = ''node''" "canonical_plan q"
    "qc_commandArgv (resolveSystemRunApprovalRequestContext ne host qp) = Some (rl_argv q)"
proof -
  have preview: "trimmed (normalizeCommandPreview v t) = normalizeCommandPreview v t" for v t
    using trimmed_idem(1) [of v] by (cases "trimmed v") (simp_all add: normalizeCommandPreview_def)
  note plan = assms [unfolded resolveSystemRunApprovalRequestContext_def Let_def request_context.simps]
  show node: "nullish (trimmed (Some host)) [] = ''node''"
    using plan by (cases "nullish (trimmed (Some host)) [] = ''node''") simp_all
  note plan = plan [unfolded node eqTrueI [OF refl] if_True]
  obtain q0 where q0: "normalizeSystemRunApprovalPlan ne (qp_plan qp) = Some q0"
    using plan by (cases "normalizeSystemRunApprovalPlan ne (qp_plan qp)") simp_all
  note plan = plan [unfolded q0 option.case option.map option.inject]
  show "canonical_plan q" unfolding plan [symmetric]
    using normalized_canonical [OF q0] preview by (simp add: canonical_plan_def)
  show "qc_commandArgv (resolveSystemRunApprovalRequestContext ne host qp) = Some (rl_argv q)"
    unfolding plan [symmetric] by (simp add: resolveSystemRunApprovalRequestContext_def node q0 Let_def)
qed

text \<open>What is recorded for a request to run a plan on a node.\<close>

lemma request_payload:
  assumes "exec_approval_request ne pending qp = Inr payload" and "xr_plan payload = Some q"
  shows "canonical_plan q" "xr_host payload = Some ''node''" "trimmed (xr_nodeId payload) = trimmed (qp_nodeId qp)" "trimmed (qp_nodeId qp) \<noteq> None"
    "xr_binding payload = Some (fst (buildSystemRunApprovalBinding ne (rl_argv q) (xr_cwd payload) (xr_agentId payload)
      (xr_sessionKey payload) (qp_env qp)))"
proof -
  define host where "host = nullish (trimmed (qp_host qp)) []"
  define nodeId where "nodeId = nullish (trimmed (qp_nodeId qp)) []"
  define qc where "qc = resolveSystemRunApprovalRequestContext ne host qp"
  note call = assms(1) [unfolded exec_approval_request_def Let_def, folded host_def nodeId_def, folded qc_def]
  have fields: "xr_plan payload = qc_plan qc \<and> xr_cwd payload = qc_cwd qc \<and> xr_agentId payload = qc_agentId qc \<and>
      xr_sessionKey payload = qc_sessionKey qc \<and> xr_host payload = (if host = [] then None else Some host) \<and>
      xr_nodeId payload = (if host = ''node'' then Some nodeId else None) \<and>
      xr_binding payload = (if host = ''node'' then Some (fst (buildSystemRunApprovalBinding ne (nullish (qc_commandArgv qc) []) (qc_cwd qc)
        (qc_agentId qc) (qc_sessionKey qc) (qp_env qp))) else None) \<and> (host = ''node'' \<longrightarrow> nodeId \<noteq> [])"
    using call by (simp only: split: if_splits) auto
  then have plan: "qc_plan qc = Some q" using assms(2) by simp
  note plan = context_plan [OF plan [unfolded qc_def], folded qc_def]
  have node: "host = ''node''" using plan(1) trimmed_or_empty [of "qp_host qp"] unfolding host_def by metis
  show "canonical_plan q" by (rule plan(2))
  show "xr_host payload = Some ''node''" using fields node by simp
  have id: "trimmed (qp_nodeId qp) = Some nodeId" using fields node unfolding nodeId_def by (cases "trimmed (qp_nodeId qp)") simp_all
  then show "trimmed (qp_nodeId qp) \<noteq> None" by simp
  show "trimmed (xr_nodeId payload) = trimmed (qp_nodeId qp)" using fields node id trimmed_idem(1) [of "qp_nodeId qp"] by simp
  show "xr_binding payload = Some (fst (buildSystemRunApprovalBinding ne (rl_argv q) (xr_cwd payload) (xr_agentId payload)
      (xr_sessionKey payload) (qp_env qp)))"
    using fields node plan(3) by simp
qed

lemma payload_matches:
  assumes "xr_host payload = Some ''node''" and "rl_argv q \<noteq> []" and "\<And>es. ne_envHash ne es \<noteq> []"
    and "xr_binding payload = Some (fst (buildSystemRunApprovalBinding ne (rl_argv q) (rl_cwd q) (rl_agentId q) (rl_sessionKey q) env))"
    and "tc_argv tc = rl_argv q" "tc_cwd tc = rl_cwd q" "tc_agentId tc = rl_agentId q" "tc_sessionKey tc = rl_sessionKey q"
  shows "evaluateSystemRunApprovalMatch ne tc payload env = None"
  using assms(1,2,4-) env_hash_same [OF assms(3), of env]
  by (simp add: evaluateSystemRunApprovalMatch_def buildSystemRunApprovalBinding_def matchSystemRunApprovalBinding_def argvMatches_iff
      case_prod_unfold Let_def)

lemma same_client:
  assumes "ar_connId r = Option.bind client cl_connId" "ar_deviceId r = Option.bind client cl_deviceId"
  shows "bound_elsewhere r client = None"
  using assms by (simp add: bound_elsewhere_def)

lemma registered_entry:
  assumes "request_approval ne uuid now client qp mg = (Inr (i, p), mg1)" and "getSnapshot mg i = None"
  obtains payload where "exec_approval_request ne (\<lambda>i. getSnapshot mg i \<noteq> None) qp = Inr payload"
    and "getSnapshot mg1 i = Some ((create_approval uuid now payload (nullish (qp_timeoutMs qp) DEFAULT_EXEC_APPROVAL_TIMEOUT_MS)
      (trimmed (qp_id qp)))\<lparr>ar_connId := Option.bind client cl_connId, ar_deviceId := Option.bind client cl_deviceId,
        ar_clientId := Option.bind client cl_clientId\<rparr>)"
proof -
  note call = assms(1) [unfolded request_approval_def]
  obtain payload where payload: "exec_approval_request ne (\<lambda>i. getSnapshot mg i \<noteq> None) qp = Inr payload"
    using call by (cases "exec_approval_request ne (\<lambda>i. getSnapshot mg i \<noteq> None) qp") simp_all
  note call = call [unfolded payload sum.case Let_def]
  from assms(2) have "jm_get (mg_pending mg) i = None" by (simp add: getSnapshot_def)
  with call show ?thesis
    by (intro that [OF payload]) (auto simp: register_approval_def getSnapshot_def Let_def split: option.splits if_splits)
qed

lemma resolved_entry:
  assumes "resolve_approval t i d by mg = (True, mg')" and "getSnapshot mg i = Some r"
  obtains r' where "getSnapshot mg' i = Some r'" "ar_request r' = ar_request r" "ar_decision r' = Some d"
    "ar_expiresAtMs r' = ar_expiresAtMs r" "ar_connId r' = ar_connId r" "ar_deviceId r' = ar_deviceId r"
proof -
  obtain e where e: "entry_at mg i = Some e" "pd_record e = r" using assms(2) by (auto simp: getSnapshot_def)
  with assms(1) have "getSnapshot mg' i = Some (r\<lparr>ar_resolvedAtMs := Some t, ar_decision := Some d, ar_resolvedBy := Some by\<rparr>)"
    by (auto simp: resolve_approval_def finish_approval_def settle_promise_def getSnapshot_def split: if_splits)
  then show ?thesis by (rule that) simp_all
qed

lemma decided_forwarded:
  assumes "getSnapshot mg i = Some r" and "ar_decision r = Some d" and "d \<in> {AllowOnce, AllowAlways}"
  obtains mg' where "forward_decided i approved requested client r fs mg = (Inr (with_decision d fs), mg')"
  using assms by (auto simp: forward_decided_def consumeAllowOnce_def getSnapshot_def)

subsection \<open>An approved request\<close>

text \<open>A request for \<open>rg x\<close> on the node n1, the client that makes it, and its call.\<close>

definition plain_node :: node_env where
  "plain_node = \<lparr>ne_text = (\<lambda>v. []), ne_sort = id, ne_envHash = (\<lambda>es. CHR ''#'' # concat (map fst es))\<rparr>"

definition rg_request :: request_params where
  "rg_request = \<lparr>qp_id = Some ''a1'', qp_command = ''rg x'', qp_commandArgv = None,
     qp_env = Some (JsonObject [(''FOO'', JsonString ''1'')]), qp_cwd = None,
     qp_plan = Some (JsonObject [(''argv'', JsonArray [JsonString ''rg'', JsonString ''x'']), (''commandText'', JsonString ''rg x'')]),
     qp_nodeId = Some ''n1'', qp_host = Some ''node'', qp_ask = None, qp_agentId = None, qp_sessionKey = None, qp_timeoutMs = Some 1000\<rparr>"

definition rg_payload :: exec_request where
  "rg_payload = projr (exec_approval_request plain_node (\<lambda>i. False) rg_request)"

definition rg_client :: approval_client where
  "rg_client = \<lparr>cl_connId = Some ''c'', cl_deviceId = Some ''d'', cl_clientId = None, cl_scopes = None\<rparr>"

definition rg_call :: "bool \<Rightarrow> (string \<times> json_value) list" where
  "rg_call approved = (''command'', JsonArray [JsonString ''rg'', JsonString ''x'']) # (''runId'', JsonString ''a1'') #
     (''env'', JsonObject [(''FOO'', JsonString ''1'')]) # (if approved then [(''approved'', JsonBool True)] else [])"

definition rg_events :: "exec_request approval_event list" where
  "rg_events = [Register ''u'' 0 rg_payload 1000 (Some ''a1'') (Some ''c'') (Some ''d'') None, Resolve 5 ''a1'' AllowOnce (Some ''op'')]"

definition rg_forward :: "bool \<Rightarrow> exec_request approval_manager \<Rightarrow> (forward_error + json_fields) \<times> exec_request approval_manager" where
  "rg_forward approved mg = sanitizeSystemRunParamsForForwarding posix_env plain_node 10 (Some ''n1'') (rg_call approved) (Some rg_client) mg"

definition rg_fields :: json_fields where
  "rg_fields = projr (fst (rg_forward True (approval_run new_manager rg_events)))"

definition rg_used :: "exec_request approval_manager" where
  "rg_used = snd (rg_forward True (approval_run new_manager rg_events))"

lemma rg_forwarded: "sanitizeSystemRunParamsForForwarding posix_env plain_node 10 (Some ''n1'') (rg_call True) (Some rg_client)
    (approval_run new_manager rg_events) = (Inr rg_fields, rg_used)" "jm_get rg_fields ''approved'' \<noteq> None"
proof -
  have "isl (fst (rg_forward True (approval_run new_manager rg_events))) = False" by code_simp
  then show "sanitizeSystemRunParamsForForwarding posix_env plain_node 10 (Some ''n1'') (rg_call True) (Some rg_client)
      (approval_run new_manager rg_events) = (Inr rg_fields, rg_used)"
    unfolding rg_fields_def rg_used_def rg_forward_def by (simp add: prod_eq_iff sum.collapse(2))
  show "jm_get rg_fields ''approved'' \<noteq> None" by code_simp
qed


theorem allow_once_used_once_witness:
  "jm_get (projr (fst (rg_forward False rg_used))) ''approved'' = None"
proof -
  let ?mg = "approval_run new_manager rg_events"
  have call: "sanitizeSystemRunParamsForForwarding posix_env plain_node 10 (Some ''n1'') (rg_call False) (Some rg_client) rg_used = (Inr (projr (fst (rg_forward False rg_used))), snd (rg_forward False rg_used))"
  proof -
    have "isl (fst (rg_forward False rg_used)) = False" by code_simp
    then show ?thesis unfolding rg_forward_def by (simp add: prod_eq_iff sum.collapse(2))
  qed
  have entry: "entry_at ?mg ''a1'' = Some (the (entry_at ?mg ''a1''))" by code_simp
  have decision: "ar_decision (pd_record (the (entry_at ?mg ''a1''))) = Some AllowOnce"
    and same: "map_option pd_promise (entry_at rg_used ''a1'') = Some (pd_promise (the (entry_at ?mg ''a1'')))" by code_simp+
  have later: "rg_used = approval_run rg_used []" by (simp add: approval_run_def)
  have run: "normalizeNonEmptyString (map_of (rg_call b) ''runId'') = Some ''a1''" for b by (cases b) code_simp+
  have "jm_get (projr (fst (rg_forward False rg_used))) ''approved'' = None \<or>
    ar_resolvedBy (pd_record (the (entry_at ?mg ''a1''))) = Some None \<and> clientHasApprovals (Some rg_client)"
    by (rule allow_once_used_once [OF refl rg_forwarded run entry decision later same run call])
  moreover have "clientHasApprovals (Some rg_client) = False" by code_simp
  ultimately show ?thesis by simp
qed

text \<open>C19: What is requested and approved can be run: a request for a plan on a node, resolved by allow-once or
  allow-always, lets the call of the same client by its id through until the approval expires: with the arguments
  and the plan of the request, marked as approved; the environment has to be that of the request, and the request must
  not add a directory, agent or session to a plan that has none.\<close>

theorem approved_request_forwarded:
  assumes "request_approval ne uuid now client qp mg = (Inr (i, p), mg1)" and "getSnapshot mg i = None"
    and "map_option (xr_plan \<circ> ar_request) (getSnapshot mg1 i) = Some (Some q)"
    and "map_option (\<lambda>r. (xr_cwd (ar_request r), xr_agentId (ar_request r), xr_sessionKey (ar_request r))) (getSnapshot mg1 i) =
      Some (rl_cwd q, rl_agentId q, rl_sessionKey q)"
    and "resolve_approval t i d by mg1 = (True, mg2)" and "d \<in> {AllowOnce, AllowAlways}"
    and "normalizeNonEmptyString (map_of c ''runId'') = Some i" and "map_of c ''approved'' = Some (JsonBool True)"
    and "map_of c ''env'' = qp_env qp" and "trimmed nodeId = trimmed (qp_nodeId qp)"
    and "now2 \<le> now + nullish (qp_timeoutMs qp) DEFAULT_EXEC_APPROVAL_TIMEOUT_MS" and "\<And>es. ne_envHash ne es \<noteq> []"
  shows "\<exists>fs mg3. sanitizeSystemRunParamsForForwarding env ne now2 nodeId c client mg2 = (Inr fs, mg3) \<and>
    jm_get fs ''approved'' = Some (JsonBool True) \<and> normalizeStringArray ne (jm_get fs ''command'') = rl_argv q \<and>
    jm_get fs ''systemRunPlan'' = Some (plan_json q)"
proof -
  obtain payload where payload: "exec_approval_request ne (\<lambda>i. getSnapshot mg i \<noteq> None) qp = Inr payload"
    and entry: "getSnapshot mg1 i = Some ((create_approval uuid now payload (nullish (qp_timeoutMs qp) DEFAULT_EXEC_APPROVAL_TIMEOUT_MS)
      (trimmed (qp_id qp)))\<lparr>ar_connId := Option.bind client cl_connId, ar_deviceId := Option.bind client cl_deviceId,
        ar_clientId := Option.bind client cl_clientId\<rparr>)"
    using registered_entry [OF assms(1,2)] .
  have plan: "xr_plan payload = Some q" and same: "xr_cwd payload = rl_cwd q" "xr_agentId payload = rl_agentId q" "xr_sessionKey payload = rl_sessionKey q"
    using assms(3,4) entry by (simp_all add: create_approval_def)
  note pl = request_payload [OF payload plan, unfolded same]
  have argv: "rl_argv q \<noteq> []" using pl(1) by (simp add: canonical_plan_def)
  obtain r where r: "getSnapshot mg2 i = Some r" "ar_request r = payload" "ar_decision r = Some d"
    "ar_expiresAtMs r = now + nullish (qp_timeoutMs qp) DEFAULT_EXEC_APPROVAL_TIMEOUT_MS"
    "ar_connId r = Option.bind client cl_connId" "ar_deviceId r = Option.bind client cl_deviceId"
    by (rule resolved_entry [OF assms(5) entry], rule that) (simp_all add: create_approval_def)
  define tc where "tc = \<lparr>tc_plan = Some q, tc_argv = rl_argv q, tc_cwd = rl_cwd q, tc_agentId = rl_agentId q,
     tc_sessionKey = rl_sessionKey q, tc_commandText = rl_commandText q\<rparr>"
  have tc: "resolveSystemRunApprovalRuntimeContext env ne (xr_plan (ar_request r)) c = Inr tc"
    unfolding resolveSystemRunApprovalRuntimeContext_def r(2) plan option.case plan_roundtrip [OF pl(1)] tc_def ..
  have matches: "evaluateSystemRunApprovalMatch ne tc (ar_request r) (map_of c ''env'') = None"
    unfolding r(2) assms(9) by (rule payload_matches [OF pl(2) argv assms(12) pl(5)]) (simp_all add: tc_def)
  obtain node where node: "trimmed nodeId = Some node" "trimmed (xr_nodeId (ar_request r)) = Some node"
    using pl(3,4) assms(10) r(2) by auto
  have call: "sanitizeSystemRunParamsForForwarding env ne now2 nodeId c client mg2 =
      forward_decided i True (normalizeApprovalDecision (map_of c ''approvalDecision'')) client r (apply_plan tc (pickSystemRunParams c)) mg2"
    using assms(7,8,11) r(1,4) node same_client [OF r(5,6)] tc matches
    by (simp add: sanitizeSystemRunParamsForForwarding_def)
  obtain mg3 where "forward_decided i True (normalizeApprovalDecision (map_of c ''approvalDecision'')) client r (apply_plan tc (pickSystemRunParams c)) mg2 =
      (Inr (with_decision d (apply_plan tc (pickSystemRunParams c))), mg3)"
    using decided_forwarded [OF r(1,3) assms(6)] .
  moreover have "normalizeStringArray ne (jm_get (apply_plan tc (pickSystemRunParams c)) ''command'') = rl_argv q"
    using apply_plan_get(1) [OF tc] by (simp add: tc_def)
  moreover have "jm_get (apply_plan tc (pickSystemRunParams c)) ''systemRunPlan'' = Some (plan_json q)"
    by (simp add: apply_plan_def tc_def set_or_delete_other)
  ultimately show ?thesis unfolding call by (simp add: with_decision_def)
qed

definition rg_registered :: "exec_request approval_manager" where
  "rg_registered = snd (request_approval plain_node ''u'' 0 (Some rg_client) rg_request new_manager)"

definition rg_resolved :: "exec_request approval_manager" where
  "rg_resolved = snd (resolve_approval 5 ''a1'' AllowOnce (Some ''op'') rg_registered)"

theorem approved_request_forwarded_witness:
  "\<exists>fs mg. rg_forward True rg_resolved = (Inr fs, mg) \<and> normalizeStringArray plain_node (jm_get fs ''command'') = [''rg'', ''x'']"
proof -
  have "fst (request_approval plain_node ''u'' 0 (Some rg_client) rg_request new_manager) = Inr (''a1'', 0)" by code_simp
  then have request: "request_approval plain_node ''u'' 0 (Some rg_client) rg_request new_manager = (Inr (''a1'', 0), rg_registered)"
    by (simp add: prod_eq_iff rg_registered_def)
  have "fst (resolve_approval 5 ''a1'' AllowOnce (Some ''op'') rg_registered) = True" by code_simp
  then have resolved: "resolve_approval 5 ''a1'' AllowOnce (Some ''op'') rg_registered = (True, rg_resolved)"
    by (simp add: prod_eq_iff rg_resolved_def)
  define q where "q = the (xr_plan rg_payload)"
  have fresh: "getSnapshot new_manager ''a1'' = (None :: exec_request approval_record option)" by (simp add: getSnapshot_def new_manager_def)
  have plan: "map_option (xr_plan \<circ> ar_request) (getSnapshot rg_registered ''a1'') = Some (Some q)"
    "map_option (\<lambda>r. (xr_cwd (ar_request r), xr_agentId (ar_request r), xr_sessionKey (ar_request r))) (getSnapshot rg_registered ''a1'') =
       Some (rl_cwd q, rl_agentId q, rl_sessionKey q)" unfolding q_def by code_simp+
  have call: "normalizeNonEmptyString (map_of (rg_call True) ''runId'') = Some ''a1''" "map_of (rg_call True) ''approved'' = Some (JsonBool True)"
    "map_of (rg_call True) ''env'' = qp_env rg_request" "trimmed (Some ''n1'') = trimmed (qp_nodeId rg_request)"
    "10 \<le> 0 + nullish (qp_timeoutMs rg_request) DEFAULT_EXEC_APPROVAL_TIMEOUT_MS" by code_simp+
  have "ne_envHash plain_node es \<noteq> []" for es by (simp add: plain_node_def)
  from approved_request_forwarded [OF request fresh plan resolved _ call this, of posix_env]
  have "\<exists>fs mg. rg_forward True rg_resolved = (Inr fs, mg) \<and> normalizeStringArray plain_node (jm_get fs ''command'') = rl_argv q"
    unfolding rg_forward_def by auto
  moreover have "rl_argv q = [''rg'', ''x'']" unfolding q_def by code_simp
  ultimately show ?thesis by simp
qed

end
