(* ===== verification/Run_Plan.thy ===== *)
theory Run_Plan
  imports Node_Approval Exec_Wrappers_Proofs
begin

text \<open>
  Plans of commands on a node (src/brain/src/node-host/invoke-system-run-plan.ts, infra/file-identity.ts): the script
  that an approval binds, the directory and the executable that it pins, and their check before the run.

  What the disk holds at a moment is a \<open>disk\<close>; a function of the source reads one disk, so what changes while it runs
  is not seen. \<open>None\<close> of a field is an exception of \<open>fs\<close>. An exception that a function does not catch, reading the
  script for its digest, is the error \<open>OperandUnreadable\<close>, which goes through all callers. The loops over
  arguments run over the rest of the list with the index of its first token.
\<close>

record file_stat =
  st_isFile :: bool
  st_isDirectory :: bool
  st_isSymbolicLink :: bool
  st_dev :: int
  st_ino :: int

record disk =
  dk_lstat :: "string \<Rightarrow> file_stat option"
  dk_stat :: "string \<Rightarrow> file_stat option"
  dk_realpath :: "string \<Rightarrow> string option"
  dk_writable :: "string \<Rightarrow> bool"
  dk_canExecute :: "string \<Rightarrow> bool"
  dk_read :: "string \<Rightarrow> string option"

definition is_file_at :: "disk \<Rightarrow> string \<Rightarrow> bool" where
  "is_file_at dk p \<longleftrightarrow> (case dk_stat dk p of None \<Rightarrow> False | Some s \<Rightarrow> st_isFile s)"

text \<open>The machine with what is on the disk.\<close>

definition on_disk :: "exec_env \<Rightarrow> disk \<Rightarrow> exec_env" where
  "on_disk env dk = env\<lparr>xe_isFile := is_file_at dk, xe_canExecute := dk_canExecute dk, xe_realpath := dk_realpath dk\<rparr>"

subsection \<open>Tokens\<close>

definition arg_token :: "string list \<Rightarrow> nat \<Rightarrow> string" where
  "arg_token argv i = (if i < length argv then js_trim (argv ! i) else [])"

definition head_token :: "string list \<Rightarrow> string" where
  "head_token ts = (case ts of [] \<Rightarrow> [] | t # _ \<Rightarrow> js_trim t)"

definition normalizeOptionFlag :: "string \<Rightarrow> string" where
  "normalizeOptionFlag token = normalizeLowercaseStringOrEmpty (JString (flag_of token))"

text \<open>The rest after an option that takes a value.\<close>

definition after_value :: "string \<Rightarrow> string list \<Rightarrow> string list" where
  "after_value token ts = (if has_eq token then ts else drop 1 ts)"

lemma length_after_value: "length (after_value token ts) \<le> length ts"
  by (simp add: after_value_def)

definition GENERIC_MUTABLE_SCRIPT_RUNNERS :: "string list" where
  "GENERIC_MUTABLE_SCRIPT_RUNNERS = [''esno'', ''jiti'', ''ts-node'', ''ts-node-esm'', ''tsx'', ''vite-node'']"

definition BUN_SUBCOMMANDS :: "string list" where
  "BUN_SUBCOMMANDS = [''add'', ''audit'', ''completions'', ''create'', ''exec'', ''help'', ''init'', ''install'', ''link'', ''outdated'',
     ''patch'', ''pm'', ''publish'', ''remove'', ''repl'', ''run'', ''test'', ''unlink'', ''update'', ''upgrade'', ''x'']"

definition BUN_OPTIONS_WITH_VALUE :: "string list" where
  "BUN_OPTIONS_WITH_VALUE = [''--backend'', ''--bunfig'', ''--conditions'', ''--config'', ''--console-depth'', ''--cwd'', ''--define'',
     ''--elide-lines'', ''--env-file'', ''--extension-order'', ''--filter'', ''--hot'', ''--inspect'', ''--inspect-brk'',
     ''--inspect-wait'', ''--install'', ''--jsx-factory'', ''--jsx-fragment'', ''--jsx-import-source'', ''--loader'', ''--origin'',
     ''--port'', ''--preload'', ''--smol'', ''--tsconfig-override'', ''-c'', ''-e'', ''-p'', ''-r'']"

definition DENO_RUN_OPTIONS_WITH_VALUE :: "string list" where
  "DENO_RUN_OPTIONS_WITH_VALUE = [''--cached-only'', ''--cert'', ''--config'', ''--env-file'', ''--ext'', ''--harmony-import-attributes'',
     ''--import-map'', ''--inspect'', ''--inspect-brk'', ''--inspect-wait'', ''--location'', ''--log-level'', ''--lock'',
     ''--node-modules-dir'', ''--no-check'', ''--preload'', ''--reload'', ''--seed'', ''--strace-ops'', ''--unstable-bare-node-builtins'',
     ''--v8-flags'', ''--watch'', ''--watch-exclude'', ''-L'']"

definition NODE_OPTIONS_WITH_FILE_VALUE :: "string list" where
  "NODE_OPTIONS_WITH_FILE_VALUE = [''-r'', ''--experimental-loader'', ''--import'', ''--loader'', ''--require'']"

definition POSIX_SHELL_OPTIONS_WITH_VALUE :: "string list" where
  "POSIX_SHELL_OPTIONS_WITH_VALUE = [''--init-file'', ''--rcfile'', ''--startup-script'', ''-o'']"

definition NPM_EXEC_OPTIONS_WITH_VALUE :: "string list" where
  "NPM_EXEC_OPTIONS_WITH_VALUE = [''--cache'', ''--package'', ''--prefix'', ''--script-shell'', ''--userconfig'', ''--workspace'', ''-p'', ''-w'']"

definition NPM_EXEC_FLAG_OPTIONS :: "string list" where
  "NPM_EXEC_FLAG_OPTIONS = [''--no'', ''--quiet'', ''--ws'', ''--workspaces'', ''--yes'', ''-q'', ''-y'']"

definition PNPM_OPTIONS_WITH_VALUE :: "string list" where
  "PNPM_OPTIONS_WITH_VALUE = [''--config'', ''--dir'', ''--filter'', ''--reporter'', ''--stream'', ''--test-pattern'',
     ''--workspace-concurrency'', ''-C'']"

definition PNPM_FLAG_OPTIONS :: "string list" where
  "PNPM_FLAG_OPTIONS = [''--aggregate-output'', ''--color'', ''--parallel'', ''--recursive'', ''--silent'', ''--workspace-root'',
     ''-r'', ''-s'', ''-w'']"

definition PNPM_DLX_OPTIONS_WITH_VALUE :: "string list" where
  "PNPM_DLX_OPTIONS_WITH_VALUE = [''--allow-build'', ''--package'', ''-p'']"

definition pnpm_value_option :: "string \<Rightarrow> bool" where
  "pnpm_value_option token \<longleftrightarrow> normalizeOptionFlag token \<in> set (PNPM_OPTIONS_WITH_VALUE @ PNPM_DLX_OPTIONS_WITH_VALUE)"

definition pnpm_flag_option :: "string \<Rightarrow> bool" where
  "pnpm_flag_option token \<longleftrightarrow> normalizeOptionFlag token \<in> set PNPM_FLAG_OPTIONS"

subsection \<open>Package managers\<close>

function unwrapPnpmDlxInvocation :: "string list \<Rightarrow> string list option" where
  "unwrapPnpmDlxInvocation [] = None"
| "unwrapPnpmDlxInvocation (t # ts) =
     (let token = js_trim t
      in if token = [] then unwrapPnpmDlxInvocation ts
         else if token = ''--'' then (if ts = [] then None else Some ts)
         else if \<not> js_starts_with token ''-'' then Some (t # ts)
         else if normalizeOptionFlag token \<in> set [''-c'', ''--shell-mode''] then None
         else if pnpm_value_option token then unwrapPnpmDlxInvocation (after_value token ts)
         else if pnpm_flag_option token then unwrapPnpmDlxInvocation ts
         else None)"
  by pat_completeness auto
termination by (relation "measure length") (auto simp: less_Suc_eq_le length_after_value)

text \<open>A leading \<open>--\<close> of the rest.\<close>

definition drop_dashes :: "string list \<Rightarrow> string list" where
  "drop_dashes ts = (case ts of [] \<Rightarrow> [] | t # rest \<Rightarrow> if t = ''--'' then rest else ts)"

definition nonempty :: "'a list \<Rightarrow> 'a list option" where
  "nonempty ts = (if ts = [] then None else Some ts)"

text \<open>The loops from the second argument on.\<close>

function pnpm_exec :: "string list \<Rightarrow> string list option" where
  "pnpm_exec [] = None"
| "pnpm_exec (t # ts) =
     (let token = js_trim t
      in if token = [] \<or> token = ''--'' then pnpm_exec ts
         else if \<not> js_starts_with token ''-'' then
           (if token = ''exec'' then nonempty (drop_dashes ts)
            else if token = ''dlx'' then unwrapPnpmDlxInvocation ts
            else if token = ''node'' then Some (''node'' # drop_dashes ts)
            else None)
         else if pnpm_value_option token then pnpm_exec (after_value token ts)
         else if pnpm_flag_option token then pnpm_exec ts
         else None)"
  by pat_completeness auto
termination by (relation "measure length") (auto simp: less_Suc_eq_le length_after_value)

definition unwrapPnpmExecInvocation :: "string list \<Rightarrow> string list option" where
  "unwrapPnpmExecInvocation argv = pnpm_exec (drop 1 argv)"

function direct_exec :: "string list \<Rightarrow> string list option" where
  "direct_exec [] = None"
| "direct_exec (t # ts) =
     (let token = js_trim t
      in if token = [] then direct_exec ts
         else if \<not> js_starts_with token ''-'' then Some (t # ts)
         else if normalizeOptionFlag token \<in> set [''-c'', ''--call''] then None
         else if normalizeOptionFlag token \<in> set NPM_EXEC_OPTIONS_WITH_VALUE then direct_exec (after_value token ts)
         else if normalizeOptionFlag token \<in> set NPM_EXEC_FLAG_OPTIONS then direct_exec ts
         else None)"
  by pat_completeness auto
termination by (relation "measure length") (auto simp: less_Suc_eq_le length_after_value)

definition unwrapDirectPackageExecInvocation :: "string list \<Rightarrow> string list option" where
  "unwrapDirectPackageExecInvocation argv = direct_exec (drop 1 argv)"

text \<open>What comes after \<open>exec\<close>.\<close>

function npm_tail :: "string list \<Rightarrow> string list option" where
  "npm_tail [] = None"
| "npm_tail (t # ts) =
     (let token = js_trim t
      in if token = [] then npm_tail ts
         else if \<not> js_starts_with token ''-'' then (if token = ''exec'' then Some ts else None)
         else if token \<in> set [''-C'', ''--prefix'', ''--userconfig''] \<and> \<not> has_eq token then npm_tail (drop 1 ts)
         else npm_tail ts)"
  by pat_completeness auto
termination by (relation "measure length") auto

definition unwrapNpmExecInvocation :: "string list \<Rightarrow> string list option" where
  "unwrapNpmExecInvocation argv =
     (case npm_tail (drop 1 argv) of
        None \<Rightarrow> None
      | Some [] \<Rightarrow> None
      | Some (t # rest) \<Rightarrow> if t = ''--'' then nonempty rest else unwrapDirectPackageExecInvocation (''npx'' # t # rest))"

definition normalizePackageManagerExecToken :: "exec_env \<Rightarrow> string \<Rightarrow> string" where
  "normalizePackageManagerExecToken env token =
     (let normalized = normalizeExecutableToken env token
      in if js_ends_with (js_lower normalized) ''.cjs'' \<or> js_ends_with (js_lower normalized) ''.mjs'' then take (length normalized - 4) normalized
         else if js_ends_with (js_lower normalized) ''.js'' then take (length normalized - 3) normalized
         else normalized)"

definition first_arg :: "string list \<Rightarrow> string" where
  "first_arg argv = (case argv of [] \<Rightarrow> [] | t # _ \<Rightarrow> t)"

definition unwrapKnownPackageManagerExecInvocation :: "exec_env \<Rightarrow> string list \<Rightarrow> string list option" where
  "unwrapKnownPackageManagerExecInvocation env argv =
     (let executable = normalizePackageManagerExecToken env (first_arg argv)
      in if executable = ''npm'' then unwrapNpmExecInvocation argv
         else if executable = ''npx'' \<or> executable = ''bunx'' then unwrapDirectPackageExecInvocation argv
         else if executable = ''pnpm'' then unwrapPnpmExecInvocation argv
         else None)"

text \<open>Each wrapper that is taken off leaves a shorter command.\<close>

lemma dlx_shorter: "unwrapPnpmDlxInvocation ts = Some a \<Longrightarrow> length a \<le> length ts"
  by (induction ts rule: unwrapPnpmDlxInvocation.induct)
    (auto simp: Let_def split: if_splits dest: order_trans [OF _ length_after_value] intro: le_SucI)

lemma drop_dashes_shorter: "length (drop_dashes ts) \<le> length ts"
  by (simp add: drop_dashes_def split: list.split)

lemma pnpm_shorter: "pnpm_exec ts = Some a \<Longrightarrow> length a \<le> length ts"
  by (induction ts rule: pnpm_exec.induct)
    (auto simp: Let_def nonempty_def drop_dashes_shorter le_SucI split: if_splits
      dest: order_trans [OF _ length_after_value] dlx_shorter intro: le_SucI order_trans [OF drop_dashes_shorter])

lemma direct_shorter: "direct_exec ts = Some a \<Longrightarrow> length a \<le> length ts"
  by (induction ts rule: direct_exec.induct)
    (auto simp: Let_def split: if_splits dest: order_trans [OF _ length_after_value] intro: le_SucI)

lemma npm_shorter: "npm_tail ts = Some a \<Longrightarrow> length a < length ts"
  by (induction ts rule: npm_tail.induct) (auto simp: Let_def split: if_splits)

lemma direct_unwrap_shorter: "unwrapDirectPackageExecInvocation argv = Some a \<Longrightarrow> length a \<le> length argv - 1"
  by (auto simp: unwrapDirectPackageExecInvocation_def dest!: direct_shorter)

lemma npm_unwrap_shorter: "unwrapNpmExecInvocation argv = Some a \<Longrightarrow> length a \<le> length argv - 1"
  by (auto simp: unwrapNpmExecInvocation_def nonempty_def split: option.splits list.splits if_splits
      dest!: npm_shorter direct_unwrap_shorter)

lemma pnpm_unwrap_shorter: "unwrapPnpmExecInvocation argv = Some a \<Longrightarrow> length a \<le> length argv - 1"
  by (auto simp: unwrapPnpmExecInvocation_def dest!: pnpm_shorter)

lemma package_shorter:
  assumes "unwrapKnownPackageManagerExecInvocation env argv = Some a"
  shows "length a < length argv"
proof -
  have "argv \<noteq> []"
    using assms by (auto simp: unwrapKnownPackageManagerExecInvocation_def unwrapNpmExecInvocation_def unwrapDirectPackageExecInvocation_def
        unwrapPnpmExecInvocation_def Let_def split: if_splits)
  moreover have "length a \<le> length argv - 1"
    using assms by (auto simp: unwrapKnownPackageManagerExecInvocation_def Let_def split: if_splits
        dest!: npm_unwrap_shorter direct_unwrap_shorter pnpm_unwrap_shorter)
  ultimately show ?thesis by (cases argv) simp_all
qed

function unwrap_operand_argv :: "exec_env \<Rightarrow> string list \<Rightarrow> nat \<Rightarrow> string list \<times> nat" where
  "unwrap_operand_argv env current baseIndex =
     (case unwrapKnownDispatchWrapperInvocation env current of
        Unwrapped _ a \<Rightarrow> unwrap_operand_argv env a (baseIndex + (length current - length a))
      | _ \<Rightarrow>
          (case unwrapKnownShellMultiplexerInvocation env current of
             Unwrapped _ a \<Rightarrow> unwrap_operand_argv env a (baseIndex + (length current - length a))
           | _ \<Rightarrow>
               (case unwrapKnownPackageManagerExecInvocation env current of
                  Some a \<Rightarrow> unwrap_operand_argv env a (baseIndex + (length current - length a))
                | None \<Rightarrow> (current, baseIndex))))"
  by pat_completeness auto
termination
  by (relation "measure (\<lambda>(env, current, b). length current)")
    (auto dest: unwrapped_rest multiplexer_rest package_shorter)

declare unwrap_operand_argv.simps [simp del]

definition unwrapArgvForMutableOperand :: "exec_env \<Rightarrow> string list \<Rightarrow> string list \<times> nat" where
  "unwrapArgvForMutableOperand env argv = unwrap_operand_argv env argv 0"

subsection \<open>The script operand\<close>

definition looksLikePathToken :: "exec_env \<Rightarrow> string \<Rightarrow> bool" where
  "looksLikePathToken env token \<longleftrightarrow>
     js_starts_with token ''.'' \<or> js_starts_with token ''/'' \<or> js_starts_with token [BSLASH] \<or> has_separator token \<or>
     xe_extname env token \<noteq> []"

definition operand_path :: "exec_env \<Rightarrow> string option \<Rightarrow> string \<Rightarrow> string" where
  "operand_path env cwd operand = xe_resolve env (nullish cwd (xe_cwd env)) operand"

definition resolvesToExistingFileSync :: "exec_env \<Rightarrow> disk \<Rightarrow> string option \<Rightarrow> string \<Rightarrow> bool" where
  "resolvesToExistingFileSync env dk cwd rawOperand \<longleftrightarrow> rawOperand \<noteq> [] \<and> is_file_at dk (operand_path env cwd rawOperand)"

function shell_operand :: "bool \<Rightarrow> nat \<Rightarrow> string list \<Rightarrow> nat option" where
  "shell_operand afterDashes i [] = None"
| "shell_operand afterDashes i (t # ts) =
     (let token = js_trim t
      in if token = [] then shell_operand afterDashes (Suc i) ts
         else if token = ''-'' then None
         else if \<not> afterDashes \<and> token = ''--'' then shell_operand True (Suc i) ts
         else if \<not> afterDashes \<and> token = ''-s'' then None
         else if \<not> afterDashes \<and> js_starts_with token ''-'' then
           (if normalizeOptionFlag token \<in> set POSIX_SHELL_OPTIONS_WITH_VALUE \<and> \<not> has_eq token
            then shell_operand afterDashes (Suc (Suc i)) (drop 1 ts) else shell_operand afterDashes (Suc i) ts)
         else Some i)"
  by pat_completeness auto
termination by (relation "measure (\<lambda>(a, i, ts). length ts)") auto

definition resolvePosixShellScriptOperandIndex :: "string list \<Rightarrow> nat option" where
  "resolvePosixShellScriptOperandIndex argv =
     (if im_valueTokenIndex (resolveInlineCommandMatch argv POSIX_INLINE_COMMAND_FLAGS True) \<noteq> None then None
      else shell_operand False 1 (drop 1 argv))"

text \<open>The first token that is no option, if it passes the test.\<close>

function option_filtered :: "(string \<Rightarrow> bool) \<Rightarrow> string list \<Rightarrow> bool \<Rightarrow> nat \<Rightarrow> string list \<Rightarrow> nat option" where
  "option_filtered P optionsWithValue afterDashes i [] = None"
| "option_filtered P optionsWithValue afterDashes i (t # ts) =
     (let token = js_trim t
      in if token = [] then option_filtered P optionsWithValue afterDashes (Suc i) ts
         else if afterDashes then (if P token then Some i else None)
         else if token = ''--'' then option_filtered P optionsWithValue True (Suc i) ts
         else if token = ''-'' then None
         else if js_starts_with token ''-'' then
           (if \<not> has_eq token \<and> token \<in> set optionsWithValue
            then option_filtered P optionsWithValue afterDashes (Suc (Suc i)) (drop 1 ts)
            else option_filtered P optionsWithValue afterDashes (Suc i) ts)
         else if P token then Some i else None)"
  by pat_completeness auto
termination by (relation "measure (\<lambda>(P, v, a, i, ts). length ts)") auto

definition resolveOptionFilteredFileOperandIndex ::
  "exec_env \<Rightarrow> disk \<Rightarrow> string option \<Rightarrow> string list \<Rightarrow> nat \<Rightarrow> string list \<Rightarrow> nat option" where
  "resolveOptionFilteredFileOperandIndex env dk cwd argv startIndex optionsWithValue =
     option_filtered (resolvesToExistingFileSync env dk cwd) optionsWithValue False startIndex (drop startIndex argv)"

definition resolveOptionFilteredPositionalIndex :: "string list \<Rightarrow> nat \<Rightarrow> string list \<Rightarrow> nat option" where
  "resolveOptionFilteredPositionalIndex argv startIndex optionsWithValue =
     option_filtered (\<lambda>token. True) optionsWithValue False startIndex (drop startIndex argv)"

text \<open>The second part of \<open>token.split("=", 2)\<close>; no part is the empty text here, as both are not truthy.\<close>

definition inline_value :: "string \<Rightarrow> string" where
  "inline_value token = (case js_split CHR ''='' token of _ # v # _ \<Rightarrow> v | _ \<Rightarrow> [])"

text \<open>The hits so far; whether an option names a file.\<close>

fun collect_operands :: "(string \<Rightarrow> bool) \<Rightarrow> string list \<Rightarrow> bool \<Rightarrow> nat list \<Rightarrow> nat \<Rightarrow> string list \<Rightarrow> nat list \<times> bool" where
  "collect_operands ex optionsWithFileValue afterDashes hits i [] = (hits, False)"
| "collect_operands ex optionsWithFileValue afterDashes hits i (t # ts) =
     (let token = js_trim t;
          skip = (\<lambda>hits. collect_operands ex optionsWithFileValue afterDashes hits (Suc i) ts)
      in if token = [] then skip hits
         else if afterDashes then skip (if ex token then hits @ [i] else hits)
         else if token = ''--'' then collect_operands ex optionsWithFileValue True hits (Suc i) ts
         else if token = ''-'' then ([], False)
         else if js_starts_with token ''-'' then
           (if normalizeOptionFlag token \<in> set optionsWithFileValue then
              (if inline_value token \<noteq> [] \<and> ex (inline_value token) then (hits @ [i], True)
               else if inline_value token = [] \<and> head_token ts \<noteq> [] \<and> ex (head_token ts) then (hits @ [Suc i], True)
               else skip hits)
            else skip hits)
         else skip (if ex token then hits @ [i] else hits))"

definition resolveGenericInterpreterScriptOperandIndex ::
  "exec_env \<Rightarrow> disk \<Rightarrow> string option \<Rightarrow> string list \<Rightarrow> string list \<Rightarrow> nat option" where
  "resolveGenericInterpreterScriptOperandIndex env dk cwd argv optionsWithFileValue =
     (case collect_operands (resolvesToExistingFileSync env dk cwd) optionsWithFileValue False [] 1 (drop 1 argv) of
        ([i], False) \<Rightarrow> Some i
      | _ \<Rightarrow> None)"

definition resolveBunScriptOperandIndex :: "exec_env \<Rightarrow> disk \<Rightarrow> string option \<Rightarrow> string list \<Rightarrow> nat option" where
  "resolveBunScriptOperandIndex env dk cwd argv =
     (case resolveOptionFilteredPositionalIndex argv 1 BUN_OPTIONS_WITH_VALUE of
        None \<Rightarrow> None
      | Some directIndex \<Rightarrow>
          (let directToken = arg_token argv directIndex
           in if directToken = ''run'' then resolveOptionFilteredFileOperandIndex env dk cwd argv (Suc directIndex) BUN_OPTIONS_WITH_VALUE
              else if directToken \<in> set BUN_SUBCOMMANDS then None
              else if \<not> looksLikePathToken env directToken then None
              else Some directIndex))"

definition resolveDenoRunScriptOperandIndex :: "exec_env \<Rightarrow> disk \<Rightarrow> string option \<Rightarrow> string list \<Rightarrow> nat option" where
  "resolveDenoRunScriptOperandIndex env dk cwd argv =
     (if arg_token argv 1 \<noteq> ''run'' then None
      else resolveOptionFilteredFileOperandIndex env dk cwd argv 2 DENO_RUN_OPTIONS_WITH_VALUE)"

fun unsafe_flag :: "(string \<Rightarrow> bool) \<Rightarrow> bool \<Rightarrow> string list \<Rightarrow> bool" where
  "unsafe_flag P afterDashes [] \<longleftrightarrow> False"
| "unsafe_flag P afterDashes (t # ts) \<longleftrightarrow>
     (let token = js_trim t
      in if token = [] then unsafe_flag P afterDashes ts
         else if afterDashes then False
         else if token = ''--'' then unsafe_flag P True ts
         else if P token then True
         else unsafe_flag P afterDashes ts)"

definition hasRubyUnsafeApprovalFlag :: "string list \<Rightarrow> bool" where
  "hasRubyUnsafeApprovalFlag argv \<longleftrightarrow>
     unsafe_flag (\<lambda>token. js_starts_with token ''-I'' \<or> js_starts_with token ''-r'' \<or>
       normalizeLowercaseStringOrEmpty (JString token) \<in> set [''-I'', ''-r'', ''--require'']) False (drop 1 argv)"

definition hasPerlUnsafeApprovalFlag :: "string list \<Rightarrow> bool" where
  "hasPerlUnsafeApprovalFlag argv \<longleftrightarrow>
     unsafe_flag (\<lambda>token. js_starts_with token ''-I'' \<or> js_starts_with token ''-M'' \<or> js_starts_with token ''-m'') False (drop 1 argv)"

text \<open>A name followed by a version: digits, with dots between.\<close>

definition version_parts :: "string \<Rightarrow> string \<Rightarrow> string list option" where
  "version_parts name s =
     (let parts = js_split CHR ''.'' (drop (length name) s)
      in if js_starts_with s name \<and> list_all (\<lambda>p. p \<noteq> [] \<and> list_all is_digit p) parts then Some parts else None)"

text \<open>\<open>MUTABLE_ARGV1_INTERPRETER_PATTERNS\<close>.\<close>

definition argv1_interpreter :: "string \<Rightarrow> bool" where
  "argv1_interpreter executable \<longleftrightarrow>
     executable \<in> set [''node'', ''nodejs'', ''perl'', ''php'', ''python'', ''ruby''] \<or> version_parts ''python'' executable \<noteq> None"

definition INTERPRETER_LIKE_SAFE_BINS :: "string list" where
  "INTERPRETER_LIKE_SAFE_BINS = [''ash'', ''awk'', ''bash'', ''busybox'', ''bun'', ''cmd'', ''cmd.exe'', ''cscript'', ''dash'', ''deno'', ''fish'',
     ''gawk'', ''gsed'', ''ksh'', ''lua'', ''mawk'', ''nawk'', ''node'', ''nodejs'', ''perl'', ''php'', ''powershell'', ''powershell.exe'',
     ''pypy'', ''pwsh'', ''pwsh.exe'', ''python'', ''python2'', ''python3'', ''ruby'', ''sed'', ''sh'', ''toybox'', ''wscript'', ''zsh'']"

definition isInterpreterLikeSafeBin :: "string \<Rightarrow> bool" where
  "isInterpreterLikeSafeBin raw \<longleftrightarrow>
     (let normalized = normalizeSafeBinName raw
      in normalized \<noteq> [] \<and>
         (normalized \<in> set INTERPRETER_LIKE_SAFE_BINS \<or>
          list_ex (\<lambda>name. case version_parts name normalized of None \<Rightarrow> False | Some parts \<Rightarrow> length parts \<le> 2)
            [''python'', ''ruby'', ''perl'', ''php'', ''node'']))"

definition isMutableScriptRunner :: "string \<Rightarrow> bool" where
  "isMutableScriptRunner executable \<longleftrightarrow> executable \<in> set GENERIC_MUTABLE_SCRIPT_RUNNERS \<or> isInterpreterLikeSafeBin executable"

text \<open>The part of \<open>resolveMutableFileOperandIndex\<close> after the wrappers: the index in the inner command.\<close>

definition inner_operand_index :: "exec_env \<Rightarrow> disk \<Rightarrow> string option \<Rightarrow> string list \<Rightarrow> nat option" where
  "inner_operand_index env dk cwd argv =
     (let executable = normalizeExecutableToken env (first_arg argv);
          operand = arg_token argv 1;
          bun = (if executable = ''bun'' then resolveBunScriptOperandIndex env dk cwd argv else None);
          deno = (if executable = ''deno'' then resolveDenoRunScriptOperandIndex env dk cwd argv else None)
      in if executable = [] then None
         else if executable \<in> set POSIX_SHELL_WRAPPER_NAMES then resolvePosixShellScriptOperandIndex argv
         else if argv1_interpreter executable \<and> operand \<noteq> [] \<and> operand \<noteq> ''-'' \<and> \<not> js_starts_with operand ''-'' then Some 1
         else if bun \<noteq> None then bun
         else if deno \<noteq> None then deno
         else if executable = ''ruby'' \<and> hasRubyUnsafeApprovalFlag argv then None
         else if executable = ''perl'' \<and> hasPerlUnsafeApprovalFlag argv then None
         else if \<not> isMutableScriptRunner executable then None
         else resolveGenericInterpreterScriptOperandIndex env dk cwd argv
           (if executable = ''node'' \<or> executable = ''nodejs'' then NODE_OPTIONS_WITH_FILE_VALUE else []))"

definition resolveMutableFileOperandIndex :: "exec_env \<Rightarrow> disk \<Rightarrow> string option \<Rightarrow> string list \<Rightarrow> nat option" where
  "resolveMutableFileOperandIndex env dk cwd argv =
     (case unwrapArgvForMutableOperand env argv of
        (inner, baseIndex) \<Rightarrow> map_option (\<lambda>i. baseIndex + i) (inner_operand_index env dk cwd inner))"

subsection \<open>Binding the script\<close>

datatype plan_denial =
    CommandInvalid command_error | EmptyCommand
  | InterpreterUnbound | OperandUnstable | OperandMissing | OperandNotFile | OperandUnreadable
  | CwdMissing | CwdNotDirectory | CwdSymlinkComponent | CwdSymlink | CwdIdentity | CwdDrift
  | ExecutableUnstable | ScriptUnbound | ScriptDrift

definition hashFileContentsSync :: "exec_env \<Rightarrow> disk \<Rightarrow> string \<Rightarrow> string option" where
  "hashFileContentsSync env dk filePath = map_option (xe_sha256 env) (dk_read dk filePath)"

definition snapshot_at :: "exec_env \<Rightarrow> disk \<Rightarrow> string option \<Rightarrow> string list \<Rightarrow> nat \<Rightarrow> plan_denial + file_operand option" where
  "snapshot_at env dk cwd argv argvIndex =
     (let rawOperand = arg_token argv argvIndex
      in if rawOperand = [] then Inl OperandUnstable
         else (case dk_realpath dk (operand_path env cwd rawOperand) of
             None \<Rightarrow> Inl OperandMissing
           | Some realPath \<Rightarrow>
               (case dk_stat dk realPath of
                  None \<Rightarrow> Inl OperandMissing
                | Some st \<Rightarrow>
                    (if \<not> st_isFile st then Inl OperandNotFile
                     else (case hashFileContentsSync env dk realPath of
                         None \<Rightarrow> Inl OperandUnreadable
                       | Some h \<Rightarrow> Inr (Some \<lparr>fo_argvIndex = argvIndex, fo_path = realPath, fo_sha256 = h\<rparr>))))))"

text \<open>\<open>pnpm dlx\<close>: it cannot be looked through, it is not that, or the command that it runs.\<close>

datatype dlx_binding = DlxClosed | NoDlx | DlxCommand "string list"

function pnpmDlxTail :: "string list \<Rightarrow> dlx_binding" where
  "pnpmDlxTail [] = DlxClosed"
| "pnpmDlxTail (t # ts) =
     (let token = js_trim t
      in if token = [] then pnpmDlxTail ts
         else if token = ''--'' then DlxCommand ts
         else if \<not> js_starts_with token ''-'' then DlxCommand (t # ts)
         else if normalizeOptionFlag token \<in> set [''-c'', ''--shell-mode''] then NoDlx
         else if pnpm_value_option token then pnpmDlxTail (after_value token ts)
         else if pnpm_flag_option token then pnpmDlxTail ts
         else DlxClosed)"
  by pat_completeness auto
termination by (relation "measure length") (auto simp: less_Suc_eq_le length_after_value)

function pnpm_dlx :: "string list \<Rightarrow> dlx_binding" where
  "pnpm_dlx [] = NoDlx"
| "pnpm_dlx (t # ts) =
     (let token = js_trim t
      in if token = [] \<or> token = ''--'' then pnpm_dlx ts
         else if \<not> js_starts_with token ''-'' then (if token = ''dlx'' then pnpmDlxTail ts else NoDlx)
         else if pnpm_value_option token then pnpm_dlx (after_value token ts)
         else if pnpm_flag_option token then pnpm_dlx ts
         else DlxClosed)"
  by pat_completeness auto
termination by (relation "measure length") (auto simp: less_Suc_eq_le length_after_value)

definition pnpmDlxInvocation :: "exec_env \<Rightarrow> string list \<Rightarrow> dlx_binding" where
  "pnpmDlxInvocation env argv =
     (if normalizePackageManagerExecToken env (first_arg argv) \<noteq> ''pnpm'' then NoDlx else pnpm_dlx (drop 1 argv))"

lemma dlx_tail_shorter: "pnpmDlxTail ts = DlxCommand a \<Longrightarrow> length a \<le> length ts"
  by (induction ts rule: pnpmDlxTail.induct)
    (auto simp: Let_def split: if_splits dest: order_trans [OF _ length_after_value] intro: le_SucI)

lemma dlx_command_shorter: "pnpm_dlx ts = DlxCommand a \<Longrightarrow> length a \<le> length ts"
  by (induction ts rule: pnpm_dlx.induct)
    (auto simp: Let_def split: if_splits dest: order_trans [OF _ length_after_value] dlx_tail_shorter intro: le_SucI)

lemma dlx_invocation_shorter: "pnpmDlxInvocation env argv = DlxCommand a \<Longrightarrow> length a < length argv"
  by (cases argv) (auto simp: pnpmDlxInvocation_def less_Suc_eq_le dest: dlx_command_shorter split: if_splits)

definition interpreter_like :: "exec_env \<Rightarrow> string list \<Rightarrow> bool" where
  "interpreter_like env argv \<longleftrightarrow>
     (let executable = normalizeExecutableToken env (first_arg (fst (unwrapArgvForMutableOperand env argv)))
      in executable \<noteq> [] \<and> executable \<notin> set POSIX_SHELL_WRAPPER_NAMES \<and> isMutableScriptRunner executable)"

text \<open>A snapshot as the nested calls see it: whether there is one, unless reading the script throws.\<close>

definition nested_snapshot :: "bool \<Rightarrow> plan_denial + file_operand option \<Rightarrow> plan_denial + bool" where
  "nested_snapshot onError r =
     (case r of Inl OperandUnreadable \<Rightarrow> Inl OperandUnreadable | Inl _ \<Rightarrow> Inr onError | Inr s \<Rightarrow> Inr (s \<noteq> None))"

definition deny_unbound :: "plan_denial + bool \<Rightarrow> plan_denial + file_operand option" where
  "deny_unbound required =
     (case required of Inl e \<Rightarrow> Inl e | Inr True \<Rightarrow> Inl InterpreterUnbound | Inr False \<Rightarrow> Inr None)"

text \<open>The snapshot without a shell command.\<close>

function argv_snapshot :: "exec_env \<Rightarrow> disk \<Rightarrow> string option \<Rightarrow> string list \<Rightarrow> plan_denial + file_operand option" where
  "argv_snapshot env dk cwd argv =
     (case resolveMutableFileOperandIndex env dk cwd argv of
        Some i \<Rightarrow> snapshot_at env dk cwd argv i
      | None \<Rightarrow>
          deny_unbound
            (case pnpmDlxInvocation env argv of
               DlxClosed \<Rightarrow> Inr True
             | NoDlx \<Rightarrow> Inr (interpreter_like env argv)
             | DlxCommand tail \<Rightarrow>
                 (case nested_snapshot False (argv_snapshot env dk cwd tail) of
                    Inl e \<Rightarrow> Inl e
                  | Inr True \<Rightarrow> Inr True
                  | Inr False \<Rightarrow> Inr (interpreter_like env argv))))"
  by pat_completeness auto
termination
  by (relation "measure (\<lambda>(env, dk, cwd, argv). length argv)") (auto dest: dlx_invocation_shorter)

declare argv_snapshot.simps [simp del]

definition shellPayloadNeedsStableBinding :: "exec_env \<Rightarrow> disk \<Rightarrow> string option \<Rightarrow> string \<Rightarrow> plan_denial + bool" where
  "shellPayloadNeedsStableBinding env dk cwd shellCommand =
     (case splitShellArgs shellCommand of
        None \<Rightarrow> Inr False
      | Some argv \<Rightarrow>
          (if argv = [] then Inr False
           else (case nested_snapshot True (argv_snapshot env dk cwd argv) of
               Inr False \<Rightarrow> Inr (resolvesToExistingFileSync env dk cwd (arg_token argv 0))
             | r \<Rightarrow> r)))"

definition resolveMutableFileOperandSnapshotSync ::
  "exec_env \<Rightarrow> disk \<Rightarrow> string option \<Rightarrow> string list \<Rightarrow> string option \<Rightarrow> plan_denial + file_operand option" where
  "resolveMutableFileOperandSnapshotSync env dk cwd argv shellCommand =
     (case shellCommand of
        None \<Rightarrow> argv_snapshot env dk cwd argv
      | Some payload \<Rightarrow>
          (case resolveMutableFileOperandIndex env dk cwd argv of
             Some i \<Rightarrow> snapshot_at env dk cwd argv i
           | None \<Rightarrow> deny_unbound (shellPayloadNeedsStableBinding env dk cwd payload)))"

definition revalidateApprovedMutableFileOperand :: "exec_env \<Rightarrow> disk \<Rightarrow> string option \<Rightarrow> string list \<Rightarrow> file_operand \<Rightarrow> bool" where
  "revalidateApprovedMutableFileOperand env dk cwd argv snapshot \<longleftrightarrow>
     (let operand = arg_token argv (fo_argvIndex snapshot)
      in operand \<noteq> [] \<and> dk_realpath dk (operand_path env cwd operand) = Some (fo_path snapshot) \<and>
         hashFileContentsSync env dk (fo_path snapshot) = Some (fo_sha256 snapshot))"

subsection \<open>The directory\<close>

text \<open>The loop ends when \<open>path.dirname\<close> gives its argument; a parent is shorter, so that the length is enough fuel.\<close>

fun path_components :: "exec_env \<Rightarrow> nat \<Rightarrow> string \<Rightarrow> string list \<Rightarrow> string list" where
  "path_components env 0 cursor parts = cursor # parts"
| "path_components env (Suc n) cursor parts =
     (if xe_dirname env cursor = cursor then cursor # parts
      else path_components env n (xe_dirname env cursor) (cursor # parts))"

definition pathComponentsFromRootSync :: "exec_env \<Rightarrow> string \<Rightarrow> string list" where
  "pathComponentsFromRootSync env targetPath =
     (let absolute = path_resolve env targetPath in path_components env (length absolute) absolute [])"

definition mutable_component :: "exec_env \<Rightarrow> disk \<Rightarrow> string \<Rightarrow> bool" where
  "mutable_component env dk c \<longleftrightarrow>
     (case dk_lstat dk c of None \<Rightarrow> True | Some s \<Rightarrow> st_isSymbolicLink s \<and> dk_writable dk (xe_dirname env c))"

definition hasMutableSymlinkPathComponentSync :: "exec_env \<Rightarrow> disk \<Rightarrow> string \<Rightarrow> bool" where
  "hasMutableSymlinkPathComponentSync env dk targetPath =
     list_ex (mutable_component env dk) (pathComponentsFromRootSync env targetPath)"

definition sameFileIdentity :: "exec_env \<Rightarrow> file_stat \<Rightarrow> file_stat \<Rightarrow> bool" where
  "sameFileIdentity env left right \<longleftrightarrow>
     st_ino left = st_ino right \<and> (st_dev left = st_dev right \<or> on_win32 env \<and> (st_dev left = 0 \<or> st_dev right = 0))"

record cwd_snapshot =
  cs_cwd :: string
  cs_stat :: file_stat

definition resolveCanonicalApprovalCwdSync :: "exec_env \<Rightarrow> disk \<Rightarrow> string \<Rightarrow> plan_denial + cwd_snapshot" where
  "resolveCanonicalApprovalCwdSync env dk cwd =
     (let requestedCwd = path_resolve env cwd
      in case (dk_lstat dk requestedCwd, dk_stat dk requestedCwd, dk_realpath dk requestedCwd) of
           (Some cwdLstat, Some cwdStat, Some cwdReal) \<Rightarrow>
             (case dk_stat dk cwdReal of
                None \<Rightarrow> Inl CwdMissing
              | Some cwdRealStat \<Rightarrow>
                  (if \<not> st_isDirectory cwdStat then Inl CwdNotDirectory
                   else if hasMutableSymlinkPathComponentSync env dk requestedCwd then Inl CwdSymlinkComponent
                   else if st_isSymbolicLink cwdLstat then Inl CwdSymlink
                   else if \<not> sameFileIdentity env cwdStat cwdLstat \<or> \<not> sameFileIdentity env cwdStat cwdRealStat \<or>
                       \<not> sameFileIdentity env cwdLstat cwdRealStat then Inl CwdIdentity
                   else Inr \<lparr>cs_cwd = cwdReal, cs_stat = cwdStat\<rparr>))
         | _ \<Rightarrow> Inl CwdMissing)"

definition revalidateApprovedCwdSnapshot :: "exec_env \<Rightarrow> disk \<Rightarrow> cwd_snapshot \<Rightarrow> bool" where
  "revalidateApprovedCwdSnapshot env dk snapshot \<longleftrightarrow>
     (case resolveCanonicalApprovalCwdSync env dk (cs_cwd snapshot) of
        Inl _ \<Rightarrow> False
      | Inr current \<Rightarrow> sameFileIdentity env (cs_stat snapshot) (cs_stat current))"

subsection \<open>Pinning the executable\<close>

record hardened_paths =
  hd_argv :: "string list"
  hd_argvChanged :: bool
  hd_cwd :: "string option"
  hd_snapshot :: "cwd_snapshot option"

definition shouldPinExecutableForApproval :: "string option \<Rightarrow> string list option \<Rightarrow> bool" where
  "shouldPinExecutableForApproval shellCommand wrapperChain \<longleftrightarrow> shellCommand = None \<and> nullish wrapperChain [] = []"

text \<open>The executable, once the directory is known.\<close>

definition pin_executable ::
  "exec_env \<Rightarrow> disk \<Rightarrow> string list \<Rightarrow> string option \<Rightarrow> string option \<Rightarrow> cwd_snapshot option \<Rightarrow> plan_denial + hardened_paths" where
  "pin_executable env dk argv shellCommand hardenedCwd snapshot =
     (let same = \<lparr>hd_argv = argv, hd_argvChanged = False, hd_cwd = hardenedCwd, hd_snapshot = snapshot\<rparr>;
          resolution = resolveCommandResolutionFromArgv (on_disk env dk) argv hardenedCwd None;
          pinned = Option.bind resolution (\<lambda>r. nullish_opt (er_resolvedRealPath (cr_execution r)) (er_resolvedPath (cr_execution r)))
      in if argv = [] then Inr same
         else if \<not> shouldPinExecutableForApproval shellCommand (map_option cr_wrapperChain resolution) then Inr same
         else if \<not> str_truthy pinned then Inl ExecutableUnstable
         else if the pinned = hd argv then Inr same
         else Inr (same\<lparr>hd_argv := the pinned # tl argv, hd_argvChanged := True\<rparr>))"

definition hardenApprovedExecutionPaths ::
  "exec_env \<Rightarrow> disk \<Rightarrow> bool \<Rightarrow> string list \<Rightarrow> string option \<Rightarrow> string option \<Rightarrow> plan_denial + hardened_paths" where
  "hardenApprovedExecutionPaths env dk approvedByAsk argv shellCommand cwd =
     (if \<not> approvedByAsk then Inr \<lparr>hd_argv = argv, hd_argvChanged = False, hd_cwd = cwd, hd_snapshot = None\<rparr>
      else if \<not> str_truthy cwd then pin_executable env dk argv shellCommand cwd None
      else (case resolveCanonicalApprovalCwdSync env dk (the cwd) of
          Inl e \<Rightarrow> Inl e
        | Inr c \<Rightarrow> pin_executable env dk argv shellCommand (Some (cs_cwd c)) (Some c)))"

definition buildSystemRunApprovalPlan ::
  "exec_env \<Rightarrow> disk \<Rightarrow> string list \<Rightarrow> js_value \<Rightarrow> js_value \<Rightarrow> js_value \<Rightarrow> js_value \<Rightarrow> plan_denial + run_plan" where
  "buildSystemRunApprovalPlan env dk command rawCommand cwd agentId sessionKey =
     (case resolveSystemRunCommandRequest env command rawCommand of
        Inl e \<Rightarrow> Inl (CommandInvalid e)
      | Inr (argv, display) \<Rightarrow>
          (if argv = [] then Inl EmptyCommand
           else (case hardenApprovedExecutionPaths env dk True argv (cd_shellPayload display) (normalizeNullableString cwd) of
               Inl e \<Rightarrow> Inl e
             | Inr h \<Rightarrow>
                 (let commandText = formatExecCommand (hd_argv h);
                      preview = (case cd_previewText display of None \<Rightarrow> [] | Some p \<Rightarrow> js_trim p)
                  in case resolveMutableFileOperandSnapshotSync env dk (hd_cwd h) (hd_argv h) (cd_shellPayload display) of
                       Inl e \<Rightarrow> Inl e
                     | Inr operand \<Rightarrow>
                         Inr \<lparr>rl_argv = hd_argv h, rl_cwd = hd_cwd h, rl_commandText = commandText,
                           rl_commandPreview = (if preview \<noteq> [] \<and> preview \<noteq> commandText then Some preview else None),
                           rl_agentId = normalizeNullableString agentId, rl_sessionKey = normalizeNullableString sessionKey,
                           rl_operand = operand\<rparr>))))"

end
