(* ===== verification/Node_Run.thy ===== *)
theory Node_Run
  imports Run_Plan
begin

text \<open>
  A call of \<open>system.run\<close> on the node host, from its parameters to the command that runs
  (src/brain/src/node-host/invoke-system-run.ts): parsing, the policy of \<open>Exec_Node\<close>, the approved paths, and the checks
  right before the run. The policy sees one disk and the checks another. The environment of the process is that
  of \<open>exec_env\<close>, the policy for its variables an argument. The companion application and the permission to record the screen are left out.
\<close>

subsection \<open>Parsing\<close>

definition env_param :: "json_value option \<Rightarrow> env_entries option" where
  "env_param v =
     (case v of
        Some (JsonObject fs) \<Rightarrow> Some (map (\<lambda>(k, w). (k, case w of JsonString s \<Rightarrow> Some s | _ \<Rightarrow> None)) fs)
      | _ \<Rightarrow> None)"

definition sanitizeEnv :: "exec_env \<Rightarrow> env_policy \<Rightarrow> (string list \<Rightarrow> string list) \<Rightarrow> env_entries option \<Rightarrow> process_env" where
  "sanitizeEnv env ep collate overrides =
     sanitizeHostExecEnv collate ep (map (\<lambda>(k, v). (k, Some v)) (xe_processEnv env)) overrides True"

datatype parse_error = ParseCommand command_error | ParseEmpty | PlanInvalid | EnvRejected

definition parseSystemRunPhase ::
  "exec_env \<Rightarrow> node_env \<Rightarrow> env_policy \<Rightarrow> (string list \<Rightarrow> string list) \<Rightarrow> (string \<times> json_value) list \<Rightarrow> parse_error + run_request \<times> run_plan option" where
  "parseSystemRunPhase env ne ep collate p =
     (case resolve_request env ne p of
        Inl e \<Rightarrow> Inl (ParseCommand e)
      | Inr (argv, display) \<Rightarrow>
          (let plan = normalizeSystemRunApprovalPlan ne (map_of p ''systemRunPlan'');
               overrides = env_param (map_of p ''env'');
               (blocked, invalid) = inspectHostExecEnvOverrides collate ep True overrides
           in if argv = [] then Inl ParseEmpty
              else if map_of p ''systemRunPlan'' \<noteq> None \<and> plan = None then Inl PlanInvalid
              else if blocked \<noteq> [] \<or> invalid \<noteq> [] then Inl EnvRejected
              else Inr (\<lparr>rq_argv = argv, rq_shellPayload = cd_shellPayload display, rq_commandText = cd_commandText display,
                rq_agentId = normalizeNonEmptyString (map_of p ''agentId''),
                rq_decision = resolveExecApprovalDecision (json_js (map_of p ''approvalDecision'')),
                rq_approved = (map_of p ''approved'' = Some (JsonBool True)),
                rq_env = Some (sanitizeEnv env ep collate (sanitizeSystemRunEnvOverrides overrides (cd_shellPayload display \<noteq> None))),
                rq_cwd = normalizeNonEmptyString (map_of p ''cwd'')\<rparr>, plan)))"

subsection \<open>The approved paths and the checks\<close>

definition approved_paths :: "exec_env \<Rightarrow> disk \<Rightarrow> run_policy \<Rightarrow> run_request \<Rightarrow> plan_denial + hardened_paths" where
  "approved_paths env dk policy rq =
     (case hardenApprovedExecutionPaths env dk (rn_approvedByAsk policy) (rq_argv rq) (rq_shellPayload rq) (rq_cwd rq) of
        Inl e \<Rightarrow> Inl e
      | Inr h \<Rightarrow> if rn_approvedByAsk policy \<and> str_truthy (hd_cwd h) \<and> hd_snapshot h = None then Inl CwdDrift else Inr h)"

definition check_execution :: "exec_env \<Rightarrow> disk \<Rightarrow> hardened_paths \<Rightarrow> run_plan option \<Rightarrow> string option \<Rightarrow> plan_denial option" where
  "check_execution env dk h plan shellPayload =
     (if (case hd_snapshot h of None \<Rightarrow> False | Some c \<Rightarrow> \<not> revalidateApprovedCwdSnapshot env dk c) then Some CwdDrift
      else (case plan of
          None \<Rightarrow> None
        | Some q \<Rightarrow>
            (case resolveMutableFileOperandSnapshotSync env dk (hd_cwd h) (hd_argv h) shellPayload of
               Inl e \<Rightarrow> Some e
             | Inr expected \<Rightarrow>
                 (case rl_operand q of
                    None \<Rightarrow> if expected \<noteq> None then Some ScriptUnbound else None
                  | Some fo \<Rightarrow>
                      if \<not> revalidateApprovedMutableFileOperand env dk (hd_cwd h) (hd_argv h) fo then Some ScriptDrift else None))))"

datatype node_denial = ParseFailed parse_error | PolicyDenied run_denial | RunDenied plan_denial

record node_command =
  nd_argv :: "string list"
  nd_cwd :: "string option"
  nd_env :: "process_env option"

text \<open>\<open>approvals\<close> is \<open>resolveExecApprovals\<close>, by the agent; the command that runs, and the approvals file.\<close>

definition handleSystemRunInvoke ::
  "exec_env \<Rightarrow> node_env \<Rightarrow> env_policy \<Rightarrow> (string list \<Rightarrow> string list) \<Rightarrow> disk \<Rightarrow> disk \<Rightarrow> (nat \<Rightarrow> string) \<Rightarrow> int \<Rightarrow> node_config
     \<Rightarrow> (string option \<Rightarrow> resolved_approvals) \<Rightarrow> (string \<times> json_value) list \<Rightarrow> nat \<Rightarrow> node_denial + node_command \<times> saved_file" where
  "handleSystemRunInvoke env ne ep collate dk0 dk1 uuid now nc approvals p n =
     (case parseSystemRunPhase env ne ep collate p of
        Inl e \<Rightarrow> Inl (ParseFailed e)
      | Inr (rq, plan) \<Rightarrow>
          (let ra = approvals (rq_agentId rq)
           in case evaluateSystemRunPolicyPhase (on_disk env dk0) nc ra rq of
                Inl e \<Rightarrow> Inl (PolicyDenied e)
              | Inr ph \<Rightarrow>
                  (case approved_paths env dk0 (ph_policy ph) rq of
                     Inl e \<Rightarrow> Inl (RunDenied e)
                   | Inr h \<Rightarrow>
                       (case check_execution env dk1 h plan (rq_shellPayload rq) of
                          Some e \<Rightarrow> Inl (RunDenied e)
                        | None \<Rightarrow>
                            (case executeSystemRunPhase (on_disk env dk1) uuid now nc ra (rq\<lparr>rq_argv := hd_argv h, rq_cwd := hd_cwd h\<rparr>) ph n of
                               (argv, st) \<Rightarrow> Inr (\<lparr>nd_argv = argv, nd_cwd = hd_cwd h, nd_env = rq_env rq\<rparr>, st))))))"

end
