(* ===== verification/Run_Plan_Props.thy ===== *)
theory Run_Plan_Props
  imports Node_Run Node_Approval_Props Host_Env_Props "HOL-Library.Sublist"
begin

text \<open>
  The properties of plans: which argument is bound as the script, that an interpreter never runs unbound under a
  plan, what pinning changes, and that the script that runs is the one that was approved.
\<close>

subsection \<open>Looking through wrappers\<close>

text \<open>What is left of the arguments are the last ones; \<open>pnpm node\<close> gives a first one of its own.\<close>

definition unwraps_tail :: "string list \<Rightarrow> string list \<Rightarrow> bool" where
  "unwraps_tail cur a \<longleftrightarrow> length a < length cur \<and> suffix (tl a) (tl cur)"

lemma suffix_tl: "suffix (tl xs) xs"
  by (cases xs) (simp_all add: suffix_ConsI)

lemma suffix_tl_mono: "suffix xs ys \<Longrightarrow> suffix (tl xs) ys"
  using suffix_tl by (rule suffix_order.trans)

lemma suffix_drop_dashes: "suffix (drop_dashes ts) ts"
  by (simp add: drop_dashes_def suffix_ConsI split: list.split)

lemma suffix_after_value: "suffix (after_value token ts) ts"
  by (simp add: after_value_def suffix_drop)

lemma dlx_suffix: "unwrapPnpmDlxInvocation ts = Some a \<Longrightarrow> suffix a ts"
  by (induction ts rule: unwrapPnpmDlxInvocation.induct)
    (auto simp: Let_def suffix_ConsI split: if_splits intro: suffix_ConsI suffix_order.trans [OF _ suffix_after_value])

lemma pnpm_suffix: "pnpm_exec ts = Some a \<Longrightarrow> suffix (tl a) ts"
  by (induction ts rule: pnpm_exec.induct)
    (auto simp: Let_def nonempty_def split: if_splits
      intro: suffix_ConsI suffix_ConsI [OF suffix_drop_dashes] suffix_tl_mono [OF suffix_drop_dashes] suffix_tl_mono [OF dlx_suffix] suffix_drop_dashes
        suffix_order.trans [OF _ suffix_after_value])

lemma direct_suffix: "direct_exec ts = Some a \<Longrightarrow> suffix a ts"
  by (induction ts rule: direct_exec.induct)
    (auto simp: Let_def split: if_splits intro: suffix_ConsI suffix_order.trans [OF _ suffix_after_value])

lemma npm_suffix: "npm_tail ts = Some a \<Longrightarrow> suffix a ts"
  by (induction ts rule: npm_tail.induct)
    (auto simp: Let_def split: if_splits intro: suffix_ConsI suffix_order.trans [OF _ suffix_drop])

lemma direct_unwrap_suffix: "unwrapDirectPackageExecInvocation argv = Some a \<Longrightarrow> suffix a (tl argv)"
  by (simp add: unwrapDirectPackageExecInvocation_def drop_Suc direct_suffix)

lemma npm_unwrap_suffix:
  assumes "unwrapNpmExecInvocation argv = Some a"
  shows "suffix a (tl argv)"
proof -
  obtain t rest where rest: "npm_tail (tl argv) = Some (t # rest)"
    and a: "(if t = ''--'' then nonempty rest else unwrapDirectPackageExecInvocation (''npx'' # t # rest)) = Some a"
    using assms by (auto simp: unwrapNpmExecInvocation_def drop_Suc split: option.splits list.splits)
  have "suffix a (t # rest)"
    using a direct_unwrap_suffix [of "''npx'' # t # rest" a] by (auto simp: nonempty_def suffix_ConsI split: if_splits)
  with npm_suffix [OF rest] show ?thesis by (blast intro: suffix_order.trans)
qed

lemma package_tail: "unwrapKnownPackageManagerExecInvocation env argv = Some a \<Longrightarrow> unwraps_tail argv a"
proof -
  assume a: "unwrapKnownPackageManagerExecInvocation env argv = Some a"
  have "suffix (tl a) (tl argv)"
    using a by (auto simp: unwrapKnownPackageManagerExecInvocation_def unwrapPnpmExecInvocation_def drop_Suc Let_def
        split: if_splits dest: npm_unwrap_suffix direct_unwrap_suffix pnpm_suffix intro: suffix_tl_mono)
  with package_shorter [OF a] show ?thesis by (simp add: unwraps_tail_def)
qed

lemma rest_tail: "\<exists>n. 0 < n \<and> n < length argv \<and> a = drop n argv \<Longrightarrow> unwraps_tail argv a"
  by (auto simp: unwraps_tail_def tl_drop suffix_drop)

lemma unwrap_tail:
  "unwrap_operand_argv env cur b = (inner, b') \<Longrightarrow> suffix (tl inner) (tl cur) \<and> b' + length inner = b + length cur"
proof (induction env cur b rule: unwrap_operand_argv.induct)
  case (1 env cur b)
  have step: "suffix (tl inner) (tl cur) \<and> b' + length inner = b + length cur"
    if "unwraps_tail cur a" "suffix (tl inner) (tl a) \<and> b' + length inner = b + (length cur - length a) + length a" for a
    using that by (auto simp: unwraps_tail_def intro: suffix_order.trans)
  show ?case
  proof (cases "\<exists>w a. unwrapKnownDispatchWrapperInvocation env cur = Unwrapped w a")
    case True
    then obtain w a where a: "unwrapKnownDispatchWrapperInvocation env cur = Unwrapped w a" by blast
    show ?thesis using step [OF rest_tail [OF unwrapped_rest [OF a]]] "1.IH" "1.prems" a
      by (auto simp: unwrap_operand_argv.simps [of env cur])
  next
    case no_dispatch: False
    show ?thesis
    proof (cases "\<exists>w a. unwrapKnownShellMultiplexerInvocation env cur = Unwrapped w a")
      case True
      then obtain w a where a: "unwrapKnownShellMultiplexerInvocation env cur = Unwrapped w a" by blast
      show ?thesis using step [OF rest_tail [OF multiplexer_rest [OF a]]] "1.IH" "1.prems" a no_dispatch
        by (cases "unwrapKnownDispatchWrapperInvocation env cur") (auto simp: unwrap_operand_argv.simps [of env cur])
    next
      case no_mux: False
      show ?thesis
      proof (cases "unwrapKnownPackageManagerExecInvocation env cur")
        case None
        then show ?thesis using "1.prems" no_dispatch no_mux
          by (cases "unwrapKnownDispatchWrapperInvocation env cur"; cases "unwrapKnownShellMultiplexerInvocation env cur")
            (auto simp: unwrap_operand_argv.simps [of env cur])
      next
        case (Some a)
        show ?thesis using step [OF package_tail [OF Some]] "1.IH" "1.prems" Some no_dispatch no_mux
          by (cases "unwrapKnownDispatchWrapperInvocation env cur"; cases "unwrapKnownShellMultiplexerInvocation env cur")
            (auto simp: unwrap_operand_argv.simps [of env cur])
      qed
    qed
  qed
qed

text \<open>The index of an argument of the inner command, after the first, in the whole command.\<close>

lemma inner_token:
  assumes "unwrapArgvForMutableOperand env argv = (inner, b)" and "0 < i" and "arg_token inner i \<noteq> []"
  shows "arg_token argv (b + i) = arg_token inner i" "b + i < length argv"
proof -
  have t: "suffix (tl inner) (tl argv)" "b + length inner = length argv"
    using unwrap_tail [of env argv 0] assms(1) by (simp_all add: unwrapArgvForMutableOperand_def)
  have i: "i < length inner" using assms(3) by (simp add: arg_token_def split: if_splits)
  obtain zs where zs: "tl argv = zs @ tl inner" using t(1) by (auto simp: suffix_def)
  have len: "length zs = b" using arg_cong [OF zs, of length] t(2) i by simp
  show less: "b + i < length argv" using i t(2) by simp
  have "argv ! (b + i) = tl argv ! (b + (i - 1))" using less assms(2) by (simp add: nth_tl)
  also have "\<dots> = tl inner ! (i - 1)" by (simp add: zs len [symmetric] nth_append)
  also have "\<dots> = inner ! i" using i assms(2) by (simp add: nth_tl)
  finally show "arg_token argv (b + i) = arg_token inner i" using less i by (simp add: arg_token_def)
qed

subsection \<open>The index of the script\<close>

text \<open>The index \<open>k\<close> is that of a token of \<open>ts\<close>, which begins at \<open>i\<close>.\<close>

definition token_at :: "nat \<Rightarrow> string list \<Rightarrow> nat \<Rightarrow> bool" where
  "token_at i ts k \<longleftrightarrow> (\<exists>j < length ts. k = i + j \<and> js_trim (ts ! j) \<noteq> [])"

lemma token_at_Nil [simp]: "\<not> token_at i [] k"
  by (simp add: token_at_def)

lemma token_at_Cons: "token_at i (t # ts) k \<longleftrightarrow> (k = i \<and> js_trim t \<noteq> []) \<or> token_at (Suc i) ts k"
proof -
  have "(\<exists>j < Suc (length ts). k = i + j \<and> js_trim ((t # ts) ! j) \<noteq> []) \<longleftrightarrow>
    k = i \<and> js_trim t \<noteq> [] \<or> (\<exists>j < length ts. k = Suc i + j \<and> js_trim (ts ! j) \<noteq> [])"
    by (auto simp: Ex_less_Suc2)
  then show ?thesis by (simp add: token_at_def)
qed

lemma token_at_skip: "token_at (Suc i) (drop 1 ts) k \<Longrightarrow> token_at i ts k"
  by (cases ts) (simp_all add: token_at_Cons)

lemma token_at_argv: "token_at n (drop n argv) k \<Longrightarrow> n \<le> k \<and> arg_token argv k \<noteq> []"
  by (auto simp: token_at_def arg_token_def)

lemma shell_token: "shell_operand a i ts = Some k \<Longrightarrow> token_at i ts k"
  by (induction a i ts rule: shell_operand.induct)
    (auto simp: Let_def token_at_Cons split: if_splits intro: token_at_skip)

lemma filtered_token: "option_filtered P opts a i ts = Some k \<Longrightarrow> token_at i ts k"
  by (induction P opts a i ts rule: option_filtered.induct)
    (auto simp: Let_def token_at_Cons split: if_splits intro: token_at_skip)

lemma collected_token:
  "collect_operands ex opts a hits i ts = (hits', False) \<Longrightarrow> k \<in> set hits' \<Longrightarrow> k \<in> set hits \<or> token_at i ts k"
proof (induction ts arbitrary: a hits i)
  case (Cons t ts)
  from Cons.prems Cons.IH [of a hits "Suc i"] Cons.IH [of a "hits @ [i]" "Suc i"] Cons.IH [of True hits "Suc i"]
  show ?case by (auto simp: Let_def token_at_Cons split: if_splits)
qed simp

lemma generic_token: "resolveGenericInterpreterScriptOperandIndex env dk cwd argv opts = Some k \<Longrightarrow> 0 < k \<and> arg_token argv k \<noteq> []"
  using collected_token [of "resolvesToExistingFileSync env dk cwd" opts False "[]" 1 "drop 1 argv" "[k]" k] token_at_argv [of 1 argv k]
  by (auto simp: resolveGenericInterpreterScriptOperandIndex_def split: prod.splits list.splits bool.splits)

lemma bun_token: "resolveBunScriptOperandIndex env dk cwd argv = Some k \<Longrightarrow> 0 < k \<and> arg_token argv k \<noteq> []"
proof -
  assume bun: "resolveBunScriptOperandIndex env dk cwd argv = Some k"
  then obtain d where d: "resolveOptionFilteredPositionalIndex argv 1 BUN_OPTIONS_WITH_VALUE = Some d"
    by (auto simp: resolveBunScriptOperandIndex_def split: option.splits)
  have direct: "0 < d \<and> arg_token argv d \<noteq> []"
    using token_at_argv [OF filtered_token [OF d [unfolded resolveOptionFilteredPositionalIndex_def]]] by simp
  have "k = d \<or> resolveOptionFilteredFileOperandIndex env dk cwd argv (Suc d) BUN_OPTIONS_WITH_VALUE = Some k"
    using bun d by (auto simp: resolveBunScriptOperandIndex_def Let_def split: if_splits)
  then show ?thesis
  proof
    assume "resolveOptionFilteredFileOperandIndex env dk cwd argv (Suc d) BUN_OPTIONS_WITH_VALUE = Some k"
    from token_at_argv [OF filtered_token [OF this [unfolded resolveOptionFilteredFileOperandIndex_def]]] show ?thesis by simp
  qed (use direct in simp)
qed

lemma deno_token: "resolveDenoRunScriptOperandIndex env dk cwd argv = Some k \<Longrightarrow> 0 < k \<and> arg_token argv k \<noteq> []"
  using token_at_argv [of 2 argv k]
  by (auto simp: resolveDenoRunScriptOperandIndex_def resolveOptionFilteredFileOperandIndex_def split: if_splits dest: filtered_token)

lemma posix_token: "resolvePosixShellScriptOperandIndex argv = Some k \<Longrightarrow> 0 < k \<and> arg_token argv k \<noteq> []"
  using token_at_argv [of 1 argv k]
  by (auto simp: resolvePosixShellScriptOperandIndex_def split: if_splits dest: shell_token)

lemma operand_choice:
  "(if none then None else if shell then a else if c \<and> operand \<noteq> [] \<and> d \<and> e then Some 1 else if bun \<noteq> None then bun
    else if deno \<noteq> None then deno else if r then None else if p then None else if m then None else g) = Some k \<Longrightarrow>
   a = Some k \<or> k = (1 :: nat) \<and> operand \<noteq> [] \<or> bun = Some k \<or> deno = Some k \<or> g = Some k"
  by (auto split: if_splits)

lemma if_some: "(if c then x else None) = Some k \<Longrightarrow> x = Some k"
  by (simp split: if_splits)

lemma inner_index_token:
  assumes "inner_operand_index env dk cwd argv = Some k"
  shows "0 < k \<and> arg_token argv k \<noteq> []"
  using operand_choice [OF assms [unfolded inner_operand_index_def Let_def]]
proof (elim disjE)
  assume "k = 1 \<and> arg_token argv 1 \<noteq> []"
  then show ?thesis by simp
qed (auto dest!: if_some posix_token bun_token deno_token generic_token)

text \<open>C22: The argument that is bound as the script is an argument of the command, not the first and not empty, and it is the very
  argument that the program behind the wrappers and package managers gets; so the denial for an empty script
  operand never happens.\<close>

theorem script_index_sound:
  assumes "resolveMutableFileOperandIndex env dk cwd argv = Some k"
  shows "\<exists>inner b i. unwrapArgvForMutableOperand env argv = (inner, b) \<and> inner_operand_index env dk cwd inner = Some i \<and> k = b + i \<and>
    0 < i \<and> k < length argv \<and> arg_token argv k = arg_token inner i \<and> arg_token argv k \<noteq> []"
proof -
  obtain inner b where u: "unwrapArgvForMutableOperand env argv = (inner, b)" by fastforce
  with assms obtain i where i: "inner_operand_index env dk cwd inner = Some i" "k = b + i"
    by (auto simp: resolveMutableFileOperandIndex_def)
  note t = inner_index_token [OF i(1)]
  with inner_token [OF u, of i] u i show ?thesis by auto
qed

subsection \<open>Binding\<close>

lemma snapshot_at_some:
  assumes "snapshot_at env dk cwd argv i = Inr s"
  obtains fo where "s = Some fo" "fo_argvIndex fo = i" "arg_token argv i \<noteq> []"
    "dk_realpath dk (operand_path env cwd (arg_token argv i)) = Some (fo_path fo)" "hashFileContentsSync env dk (fo_path fo) = Some (fo_sha256 fo)"
proof -
  have "\<exists>fo. s = Some fo \<and> fo_argvIndex fo = i \<and> arg_token argv i \<noteq> [] \<and>
    dk_realpath dk (operand_path env cwd (arg_token argv i)) = Some (fo_path fo) \<and> hashFileContentsSync env dk (fo_path fo) = Some (fo_sha256 fo)"
    using assms by (auto simp: snapshot_at_def Let_def split: if_splits option.splits)
  with that show ?thesis by blast
qed

lemma deny_unbound_iff [simp]: "deny_unbound r = Inr s \<longleftrightarrow> r = Inr False \<and> s = None"
  by (auto simp: deny_unbound_def split: sum.splits bool.splits)

lemma argv_snapshot_none:
  assumes "argv_snapshot env dk cwd argv = Inr None"
  shows "resolveMutableFileOperandIndex env dk cwd argv = None \<and> \<not> interpreter_like env argv"
  using assms
  by (auto simp: argv_snapshot.simps [of env dk cwd argv] split: option.splits dlx_binding.splits sum.splits bool.splits
      elim: snapshot_at_some)

lemma argv_snapshot_some:
  assumes "argv_snapshot env dk cwd argv = Inr (Some fo)"
  shows "snapshot_at env dk cwd argv (fo_argvIndex fo) = Inr (Some fo)"
  using assms by (auto simp: argv_snapshot.simps [of env dk cwd argv] split: option.splits elim: snapshot_at_some)

lemma snapshot_none:
  assumes "resolveMutableFileOperandSnapshotSync env dk cwd argv shell = Inr None"
  shows "resolveMutableFileOperandIndex env dk cwd argv = None \<and> (shell = None \<longrightarrow> \<not> interpreter_like env argv)"
  using assms argv_snapshot_none [of env dk cwd argv]
  by (auto simp: resolveMutableFileOperandSnapshotSync_def split: option.splits elim: snapshot_at_some)

lemma snapshot_some:
  assumes "resolveMutableFileOperandSnapshotSync env dk cwd argv shell = Inr (Some fo)"
  shows "snapshot_at env dk cwd argv (fo_argvIndex fo) = Inr (Some fo)"
  using assms argv_snapshot_some [of env dk cwd argv fo]
  by (auto simp: resolveMutableFileOperandSnapshotSync_def split: option.splits elim: snapshot_at_some)

lemma built_operand:
  assumes "buildSystemRunApprovalPlan env dk command raw cwd agentId sessionKey = Inr q" and "rl_operand q = Some fo"
  shows "dk_realpath dk (operand_path env (rl_cwd q) (arg_token (rl_argv q) (fo_argvIndex fo))) = Some (fo_path fo) \<and>
    hashFileContentsSync env dk (fo_path fo) = Some (fo_sha256 fo)"
proof -
  note call = assms(1) [unfolded buildSystemRunApprovalPlan_def Let_def]
  obtain argv d where cmd: "resolveSystemRunCommandRequest env command raw = Inr (argv, d)"
    using call by (cases "resolveSystemRunCommandRequest env command raw") auto
  have argv: "(argv = []) = False" using call cmd by (cases "argv = []") simp_all
  note call = call [unfolded cmd sum.case prod.case argv if_False]
  obtain h where h: "hardenApprovedExecutionPaths env dk True argv (cd_shellPayload d) (normalizeNullableString cwd) = Inr h"
    using call by (cases "hardenApprovedExecutionPaths env dk True argv (cd_shellPayload d) (normalizeNullableString cwd)") simp_all
  note call = call [unfolded h sum.case]
  obtain operand where operand: "resolveMutableFileOperandSnapshotSync env dk (hd_cwd h) (hd_argv h) (cd_shellPayload d) = Inr operand"
    using call by (cases "resolveMutableFileOperandSnapshotSync env dk (hd_cwd h) (hd_argv h) (cd_shellPayload d)") simp_all
  note call = call [unfolded operand sum.case sum.inject]
  have "resolveMutableFileOperandSnapshotSync env dk (hd_cwd h) (hd_argv h) (cd_shellPayload d) = Inr (Some fo)"
    "rl_argv q = hd_argv h" "rl_cwd q = hd_cwd h"
    using assms(2) operand unfolding call [symmetric] by simp_all
  with snapshot_at_some [OF snapshot_some] show ?thesis by (metis option.inject)
qed

subsection \<open>Pinning\<close>

text \<open>Pinning changes the first argument at most, and only of a command without a shell or a wrapper: to the real path of
  what it resolves to.\<close>

lemma pinned_command:
  assumes "pin_executable env dk argv shell cwd c = Inr h"
  shows "hd_cwd h = cwd \<and> hd_snapshot h = c \<and> tl (hd_argv h) = tl argv \<and>
    (hd_argv h = argv \<or> shell = None \<and> (\<exists>r. resolveCommandResolutionFromArgv (on_disk env dk) argv cwd None = Some r \<and>
       cr_wrapperChain r = [] \<and>
       nullish_opt (er_resolvedRealPath (cr_execution r)) (er_resolvedPath (cr_execution r)) = Some (hd (hd_argv h))))"
proof (cases "resolveCommandResolutionFromArgv (on_disk env dk) argv cwd None")
  case None
  with assms show ?thesis
    by (auto simp: pin_executable_def shouldPinExecutableForApproval_def Let_def split: if_splits)
next
  case (Some r)
  with assms show ?thesis
    by (cases "nullish_opt (er_resolvedRealPath (cr_execution r)) (er_resolvedPath (cr_execution r))")
      (auto simp: pin_executable_def shouldPinExecutableForApproval_def Let_def split: if_splits)
qed

lemma hardened:
  assumes "hardenApprovedExecutionPaths env dk True argv shell cwd = Inr h"
  shows "tl (hd_argv h) = tl argv"
    and "str_truthy cwd \<Longrightarrow> \<exists>c. resolveCanonicalApprovalCwdSync env dk (the cwd) = Inr c \<and> hd_cwd h = Some (cs_cwd c) \<and> hd_snapshot h = Some c"
    and "\<not> str_truthy cwd \<Longrightarrow> hd_cwd h = cwd"
  using assms pinned_command [of env dk argv shell _ _ h]
  by (auto simp: hardenApprovedExecutionPaths_def split: if_splits sum.splits)

subsection \<open>What runs\<close>

lemma policy_approved:
  assumes "evaluateSystemRunPolicyPhase env nc approvals rq = Inr ph" and "rq_approved rq"
  shows "rn_approvedByAsk (ph_policy ph)" "ph_planned ph = None"
proof -
  have ask: "rn_approvedByAsk (evaluateSystemRunPolicy pn)" if "pn_approved pn" for pn
    using that by (simp add: evaluateSystemRunPolicy_def Let_def)
  have plan: "resolvePlannedAllowlistArgv security shell policy segments = None" if "rn_approvedByAsk policy" for security shell policy segments
    using that by (simp add: resolvePlannedAllowlistArgv_def)
  have input: "pn_approved (node_policy_input env nc approvals rq rl)" for rl using assms(2) by (simp add: node_policy_input_def)
  show "rn_approvedByAsk (ph_policy ph)" "ph_planned ph = None"
    using assms(1) ask [OF input] plan [OF ask [OF input]]
    by (auto simp: evaluateSystemRunPolicyPhase_def Let_def split: if_splits option.splits)
qed

lemma approved_argv: "rn_approvedByAsk policy \<Longrightarrow> resolveSystemRunExecArgv env None argv security policy shell segments = argv"
  by (simp add: resolveSystemRunExecArgv_def)

lemma check_passed:
  assumes "check_execution env dk h (Some q) shell = None"
  shows "hd_snapshot h = Some c \<Longrightarrow> revalidateApprovedCwdSnapshot env dk c"
    and "rl_operand q = Some fo \<Longrightarrow> revalidateApprovedMutableFileOperand env dk (hd_cwd h) (hd_argv h) fo"
    and "rl_operand q = None \<Longrightarrow> resolveMutableFileOperandSnapshotSync env dk (hd_cwd h) (hd_argv h) shell = Inr None"
  using assms by (auto simp: check_execution_def split: if_splits option.splits sum.splits)

text \<open>A call that was approved, in its parts.\<close>

lemma approved_run:
  assumes "handleSystemRunInvoke env ne ep collate dk0 dk1 uuid now nc approvals p n = Inr (cmd, st)"
    and "map_of p ''approved'' = Some (JsonBool True)"
  obtains rq plan h where "parseSystemRunPhase env ne ep collate p = Inr (rq, plan)"
    "hardenApprovedExecutionPaths env dk0 True (rq_argv rq) (rq_shellPayload rq) (rq_cwd rq) = Inr h"
    "check_execution env dk1 h plan (rq_shellPayload rq) = None" "nd_argv cmd = hd_argv h" "nd_cwd cmd = hd_cwd h"
proof -
  note call = assms(1) [unfolded handleSystemRunInvoke_def Let_def]
  obtain rq plan where parsed: "parseSystemRunPhase env ne ep collate p = Inr (rq, plan)"
    using call by (cases "parseSystemRunPhase env ne ep collate p") auto
  note call = call [unfolded parsed sum.case prod.case]
  have approved: "rq_approved rq" using parsed assms(2)
    by (auto simp: parseSystemRunPhase_def Let_def case_prod_unfold split: sum.splits if_splits)
  let ?ra = "approvals (rq_agentId rq)"
  obtain ph where ph: "evaluateSystemRunPolicyPhase (on_disk env dk0) nc ?ra rq = Inr ph"
    using call by (cases "evaluateSystemRunPolicyPhase (on_disk env dk0) nc ?ra rq") simp_all
  note call = call [unfolded ph sum.case]
  note policy = policy_approved [OF ph approved]
  obtain h where h: "approved_paths env dk0 (ph_policy ph) rq = Inr h"
    using call by (cases "approved_paths env dk0 (ph_policy ph) rq") simp_all
  note call = call [unfolded h sum.case]
  have check: "check_execution env dk1 h plan (rq_shellPayload rq) = None"
    using call by (cases "check_execution env dk1 h plan (rq_shellPayload rq)") simp_all
  note call = call [unfolded check option.case]
  have "hardenApprovedExecutionPaths env dk0 True (rq_argv rq) (rq_shellPayload rq) (rq_cwd rq) = Inr h"
    using h policy(1) by (auto simp: approved_paths_def split: sum.splits if_splits)
  moreover have "nd_argv cmd = hd_argv h" "nd_cwd cmd = hd_cwd h"
    using call approved_argv [OF policy(1)] policy(2) by (auto simp: executeSystemRunPhase_def Let_def split: prod.splits)
  ultimately show ?thesis using that [OF parsed _ check] by blast
qed


subsection \<open>A sample\<close>

text \<open>A disk with a shell, a program and a script in the working directory.\<close>

definition plain_file :: "int \<Rightarrow> file_stat" where
  "plain_file i = \<lparr>st_isFile = True, st_isDirectory = False, st_isSymbolicLink = False, st_dev = 1, st_ino = i\<rparr>"

definition sample_disk :: "string \<Rightarrow> disk" where
  "sample_disk script = \<lparr>dk_lstat = (\<lambda>p. None),
     dk_stat = (\<lambda>p. if p \<in> set [''/bin/sh'', ''/w/./a.sh''] then Some (plain_file 1) else None),
     dk_realpath = Some, dk_writable = (\<lambda>p. False), dk_canExecute = (\<lambda>p. True),
     dk_read = (\<lambda>p. if p = ''/w/./a.sh'' then Some script else None)\<rparr>"

definition script_plan :: "run_plan" where
  "script_plan = \<lparr>rl_argv = [''/bin/sh'', ''./a.sh''], rl_cwd = None, rl_commandText = ''/bin/sh ./a.sh'', rl_commandPreview = None,
     rl_agentId = None, rl_sessionKey = None, rl_operand = Some \<lparr>fo_argvIndex = 1, fo_path = ''/w/./a.sh'', fo_sha256 = ''ls''\<rparr>\<rparr>"

definition script_call :: "(string \<times> json_value) list" where
  "script_call = [(''command'', JsonArray (map JsonString (rl_argv script_plan))), (''systemRunPlan'', plan_json script_plan),
     (''approved'', JsonBool True), (''approvalDecision'', JsonString ''allow-once'')]"

definition run_script :: "disk \<Rightarrow> node_denial + node_command \<times> saved_file" where
  "run_script dk = handleSystemRunInvoke posix_env plain_node (loadHostEnvSecurityPolicy sample_policy) id (sample_disk ''ls'') dk sample_uuid 0 sample_nc
     (\<lambda>agent. sample_approvals) script_call 0"


lemma changed_script_stopped: "run_script (sample_disk ''rm'') = Inl (RunDenied ScriptDrift)"
  by code_simp

theorem script_index_sound_witness:
  "arg_token [''env'', ''sh'', ''./a.sh''] 2 = arg_token [''sh'', ''./a.sh''] 1"
proof -
  have index: "resolveMutableFileOperandIndex posix_env (sample_disk ''ls'') None [''env'', ''sh'', ''./a.sh''] = Some 2" by code_simp
  have inner: "unwrapArgvForMutableOperand posix_env [''env'', ''sh'', ''./a.sh''] = ([''sh'', ''./a.sh''], 1)" by code_simp
  from script_index_sound [OF index] inner show ?thesis by auto
qed

subsection \<open>What is not bound\<close>

text \<open>A module that is preloaded by a name without its extension is not seen: the plan binds the main script only.\<close>

lemma preload_unbound:
  "map_sum id (map_option fo_argvIndex) (argv_snapshot posix_env (sample_disk ''ls'') None [''node'', ''-r'', ''./x'', ''./a.sh'']) = Inr (Some 3)"
  by code_simp

text \<open>A package script is not denied, though the documentation says so.\<close>

lemma package_script_unbound: "argv_snapshot posix_env (sample_disk ''ls'') None [''npm'', ''run'', ''build''] = Inr None"
  by code_simp

text \<open>Of a shell command only the first command is looked at.\<close>

lemma chained_script_unbound:
  "map_sum id rl_operand (buildSystemRunApprovalPlan posix_env (sample_disk ''ls'') [''sh'', ''-c'', ''true; sh ./a.sh''] JUndefined JUndefined JUndefined JUndefined) =
     Inr None"
  "buildSystemRunApprovalPlan posix_env (sample_disk ''ls'') [''sh'', ''-c'', ''sh ./a.sh''] JUndefined JUndefined JUndefined JUndefined = Inl InterpreterUnbound"
  by code_simp+

text \<open>Flags are put into small letters before they are compared, so \<open>-C\<close> of pnpm is an unknown flag.\<close>

lemma pnpm_directory_denied:
  "argv_snapshot posix_env (sample_disk ''ls'') None [''pnpm'', ''-C'', ''d'', ''exec'', ''sh'', ''./a.sh''] = Inl InterpreterUnbound"
  "map_sum id (map_option fo_argvIndex) (argv_snapshot posix_env (sample_disk ''ls'') None [''pnpm'', ''--dir'', ''d'', ''exec'', ''sh'', ''./a.sh'']) =
     Inr (Some 5)"
  by code_simp+

text \<open>Where a program is a link to a program that goes by its name, pinning changes what runs.\<close>

lemma pinned_to_multicall:
  "map_sum id hd_argv (hardenApprovedExecutionPaths posix_env
     ((sample_disk ''ls'')\<lparr>dk_realpath := (\<lambda>p. Some (if p = ''/bin/sh'' then ''/bin/busybox'' else p))\<rparr>) True [''sh'', ''./a.sh''] None None) =
   Inr [''/bin/busybox'', ''./a.sh'']"
  by code_simp

end
