(* ===== verification/Spec2Isabelle.thy ===== *)
theory Spec2Isabelle
  imports Command_Queue_Proofs Task_Flow_Props Cron_Edit_Props Route_Props Gateway_Props Pairing_Props Exec_Props Exec_Findings Bridge_Props Host_Env_Props Node_Approval_Props Run_Plan_Props
begin

text \<open>
  A model of the core logic of DeepClaw's agent framework (the TypeScript program under src/brain/src) with
  the theorems that make it correct.

  \<^bold>\<open>The program.\<close> A gateway receives messages from chat channels, routes each to an agent, and lets the
  agent use tools on the gateway's host or on a connected node. Who may talk to an agent is decided by pairing
  and access lists; which agent and which session get a message by routing; when work runs by the command
  queue, the cron service and the task flows; what may be fetched by the SSRF guard and the guarded fetch; who
  may connect to the gateway by its authorisation, its limits and its address checks; and what commands may
  run by the execution approvals. The engine, a Rust program, is reached through a bridge. The parts
  are modelled in this order of dependence; each is a group of theories, with the definitions in one or more
  theories and the lemmas in theories ending in \<open>_Proofs\<close> or \<open>_Props\<close>. Paths below are relative to
  src/brain/src.

  \<^bold>\<open>Foundations.\<close> \<open>Js_Prelude\<close> (strings, values of unknown type, the coercions of shared/string-coerce.ts),
  \<open>Js_Number\<close> (numbers in strings), \<open>Js_Map\<close> (\<open>Map\<close> and \<open>Set\<close>, the locale \<open>keyed_store\<close>), \<open>Js_Regex\<close>
  (regular expressions as lists of successes) and \<open>Machines\<close> (the locales \<open>guarded_machine\<close> and
  \<open>bounded_machine\<close>: an invariant that every step keeps holds after any run; they are interpreted on the
  queue, the caches, the limiters, the pairing store and the bridge). A string is a list of Latin-1 characters,
  an integer of the source that is a time or a counter is an \<open>int\<close>, \<open>undefined\<close> is \<open>None\<close>, an exception is a
  value of an error type together with the state that it leaves. An \<open>await\<close> is a point where a step ends.

  \<^bold>\<open>Command queue.\<close> \<open>Command_Queue\<close> is process/command-queue.ts: lanes, \<open>pump\<close>, \<open>drainLane\<close>,
  \<open>enqueueCommandInLane\<close>, \<open>resetAllLanes\<close>, \<open>waitForActiveTasks\<close>; the completion of a task is a step.
  \<open>Command_Queue_Proofs\<close>: every accepted entry is waiting, running or settled exactly once, in FIFO order,
  within the limit of the lane; no lane stalls; completions from before a reset change nothing.

  \<^bold>\<open>Task flows.\<close> \<open>Task_Types\<close>, \<open>Task_Flow\<close> (tasks/task-flow-registry.ts), \<open>Task_Flow_Sqlite\<close> (its store),
  \<open>Task_Flow_Maintenance\<close> (owner access, sweep, audit). \<open>Task_Flow_Persistence\<close> states the contract of a
  store as the locale \<open>flow_persistence\<close> and interprets it on the SQLite store. \<open>Task_Flow_Proofs\<close> and
  \<open>Task_Flow_Props\<close>: normal form of records, optimistic concurrency, a restart gives back what was
  registered, the fixed point of the sweep.

  \<^bold>\<open>Cron.\<close> \<open>Cron_Schedule\<close> (cron/parse.ts, schedule.ts, stagger.ts), \<open>Cron_Jobs\<close> (service/jobs.ts),
  \<open>Cron_Timer\<close> (service/timer.ts), \<open>Cron_Edit\<close> (creating and patching jobs), \<open>Cron_Ops\<close> (service/ops.ts).
  A tick is split into its beginning, the starts of the jobs and its end. \<open>Cron_Proofs\<close>, \<open>Cron_Props\<close>,
  \<open>Cron_Edit_Props\<close>, \<open>Cron_Ops_Props\<close>: a recurring run is never rescheduled into the past or without its
  backoff, a job runs once per tick, the timer is armed exactly when there is work, edits leave checked jobs,
  a manual run excludes the timer. The loop that looks for a staggered run has the bound of the source (four
  attempts) as its fuel.

  \<^bold>\<open>Routing.\<close> \<open>Session_Key\<close> (routing/session-key.ts, account-id.ts), \<open>Route\<close> and \<open>Route_Resolve\<close>
  (routing/resolve-route.ts, bindings.ts). \<open>Route_Proofs\<close> shows that the indexed, cached lookup is the first
  match of a linear scan of the bindings, tier by tier; \<open>Session_Key_Proofs\<close> and \<open>Route_Props\<close> the ids and keys.

  \<^bold>\<open>Network.\<close> \<open>Ip_Address\<close>, \<open>Ssrf\<close>, \<open>Fetch_Guard\<close> (shared/net/ip.ts, infra/net): addresses are 16-bit
  words; a resolver is a function on a world, so two lookups may differ. \<open>Ssrf_Proofs\<close>, \<open>Fetch_Proofs\<close>,
  \<open>Net_Props\<close>: a request goes only to addresses that were checked, headers are stripped across origins, the
  loop over redirects ends (the measure is the number of redirects left) and releases its dispatchers.

  \<^bold>\<open>Gateway clients.\<close> \<open>Gateway_Net\<close> (gateway/net.ts, origin-check.ts), \<open>Gateway_Auth\<close> (auth.ts),
  \<open>Auth_Rate_Limit\<close> (auth-rate-limit.ts, control-plane-rate-limit.ts). \<open>Auth_Limit_Proofs\<close> and
  \<open>Gateway_Props\<close>: a forwarded address cannot be made up, authorisation needs a credential, failed attempts
  in any window are bounded.

  \<^bold>\<open>Pairing and access.\<close> \<open>Pairing_Store\<close> (pairing/pairing-store.ts) and \<open>Dm_Access\<close>
  (security/dm-policy-shared.ts and the group policies). \<open>Pairing_Proofs\<close> and \<open>Pairing_Props\<close>: the pending
  requests of an account stay few and distinct, an approval lets in its requester and nobody else, and the
  access decision in closed form.

  \<^bold>\<open>Execution approvals.\<close> From the text of a command to the decision, in the order of the code:
  \<open>Shell_Lexer\<close> (utils/shell-argv.ts and the lexers of infra/exec-approvals-analysis.ts), \<open>Exec_Env\<close> (home
  directory, search on PATH; what is asked of path, fs, os and process is the record \<open>exec_env\<close>),
  \<open>Exec_Wrappers\<close> (dispatch wrappers, shells, trust plan; at most four wrappers),
  \<open>Exec_Resolution\<close> (executables, patterns), \<open>Exec_Analysis\<close> (segments and the rebuilt command),
  \<open>Exec_Safe_Bins\<close>, \<open>Exec_Inline_Eval\<close>, \<open>Exec_Allowlist\<close> (evaluation; shells are looked into at most three
  deep, as in the source, which is the fuel of \<open>segments_at\<close> and of the collection of patterns),
  \<open>Exec_Approvals\<close> (the file), \<open>Exec_Gateway\<close> and \<open>Exec_Node\<close> (the decisions of the two hosts, split
  where an approval is awaited). \<open>Shell_Proofs\<close> states what a lexer does with quoted words as the locale \<open>quoting\<close>,
  interpreted on both splitters. \<open>Exec_Wrappers_Proofs\<close>, \<open>Exec_Resolution_Proofs\<close>, \<open>Exec_Analysis_Proofs\<close>,
  \<open>Exec_Allowlist_Proofs\<close> (the inductive specification \<open>allowed\<close>), \<open>Exec_Approvals_Proofs\<close>,
  \<open>Exec_Gateway_Proofs\<close>, \<open>Exec_Node_Proofs\<close> and \<open>Exec_Remember_Proofs\<close> carry the properties of \<open>Exec_Props\<close>: what
  runs without asking is the rebuilt plan of allowed segments, no argument breaks out of its quotes, looking
  through wrappers invents nothing, safe bins see no files, the file has a normal form and an order of
  precedence, and a decision for good is remembered. \<open>Exec_Samples\<close> is a small machine for the witnesses,
  \<open>Exec_Findings\<close> what the approvals let through or lose on particular inputs. \<open>Host_Env\<close> is the
  environment of a command (infra/host-env-security.ts and its policy); \<open>Host_Env_Props\<close> shows that overrides
  change no protected variable. \<open>Approval_Manager\<close> (gateway/exec-approval-manager.ts) and \<open>Node_Approval\<close>
  (infra/system-run-approval-binding.ts and -context.ts, gateway/node-invoke-system-run-approval.ts and the handlers of
  gateway/server-methods/exec-approval.ts) are the approvals that people give: \<open>Approval_Proofs\<close> runs the
  manager as a machine with its timers (every request is settled, nothing is kept), \<open>Node_Approval_Props\<close>
  shows that a node is told of an approval only for what was approved, an approval for one run is used once,
  and what was requested and approved can be run. \<open>Run_Plan\<close> (node-host/invoke-system-run-plan.ts and
  infra/file-identity.ts) binds the script, the directory and the executable of an approval to what is on a
  \<open>disk\<close>; the components of a path are found with its length as fuel, as a parent is shorter than its child.
  \<open>Node_Run\<close> (node-host/invoke-system-run.ts) is a whole call on the node, from its parameters to what runs, with
  one disk at the decision and one at the run. \<open>Run_Plan_Props\<close>: the bound argument is the one that the
  program behind the wrappers gets, the script that runs is the one that was approved, and which files a plan
  does not bind.

  \<^bold>\<open>Engine bridge.\<close> \<open>Bridge\<close> is deepclaw-bridge/index.ts: sockets, promises and timers as a machine.
  \<open>Bridge_Props\<close>: every call is accounted for, attempts to reconnect are bounded, and which response a
  request gets.

  \<^bold>\<open>Parameters.\<close> Code that is not in the repository is an argument: the package croner, ipaddr.js, undici and
  ws, the DNS resolver, the URL parser, \<open>Date.parse\<close>, the local time zone, \<open>localeCompare\<close>, SHA-256, random
  numbers and uuids, the regular expressions of argument patterns, the file system, the process and the parser
  of session keys (sessions/session-key-utils.ts is missing from the repository). The witnesses of the properties
  with hypotheses instantiate them with concrete functions.

  \<^bold>\<open>Not modelled.\<close> Log calls, the texts of messages to people and the task ledger; reading the configuration
  (\<open>resolveGatewayAuth\<close> and the loaders); file modes, locks, temporary files and symbolic links around the
  stores; the schema migration of old databases; the socket to the companion application, the delivery
  of approval requests; processes themselves. Whole parts are left out because they are input and output around third-party
  packages: the agent runtime (agents/pi-embedded-runner), the gateway's HTTP and WebSocket server, the plugin
  loader, channel adapters and extensions, user interfaces, the dashboard (src/dashboard), the native
  applications; generated schemas are data; the crates of the Rust engine are not in the repository.
\<close>

end
